(* ===== verification/Prelude.thy ===== *)
theory Prelude
  imports Main
begin

text \<open>
  The vocabulary the components share: results of operations that may raise, SQL tables as
  lists of rows (insertion order is rowid order), and the transaction wrapper of
  \<^verbatim>\<open>with self._connect() as connection\<close>, which commits when the block returns and rolls
  back when it raises.
\<close>

section \<open>Collections of facts\<close>

named_theorems store_defs \<open>definitions of the store operations\<close>
named_theorems frame_simps \<open>components of the store an operation leaves alone\<close>

section \<open>Errors and results\<close>

text \<open>
  One constructor per exception class the modelled code raises. The message is kept where the
  code gives one; messages assembled from several values are assembled the same way.
\<close>

datatype py_error =
    KeyError string
  | ValueError string
  | TypeError string
  | AttributeError string
  | RuntimeError string
  | OSError string
  | StaleLeaseError string
  | RunVersionConflict string
  | ActiveSessionRunsError "string list"
  | IntegrityError string
  | CodingAgentACPInputError string
  | CodingAgentACPProtocolError string

fun error_class :: "py_error \<Rightarrow> string" where
  "error_class (KeyError _) = ''KeyError''"
| "error_class (ValueError _) = ''ValueError''"
| "error_class (TypeError _) = ''TypeError''"
| "error_class (AttributeError _) = ''AttributeError''"
| "error_class (RuntimeError _) = ''RuntimeError''"
| "error_class (OSError _) = ''OSError''"
| "error_class (StaleLeaseError _) = ''StaleLeaseError''"
| "error_class (RunVersionConflict _) = ''RunVersionConflict''"
| "error_class (ActiveSessionRunsError _) = ''ActiveSessionRunsError''"
| "error_class (IntegrityError _) = ''IntegrityError''"
| "error_class (CodingAgentACPInputError _) = ''CodingAgentACPInputError''"
| "error_class (CodingAgentACPProtocolError _) = ''CodingAgentACPProtocolError''"

fun error_message :: "py_error \<Rightarrow> string" where
  "error_message (KeyError m) = m"
| "error_message (ValueError m) = m"
| "error_message (TypeError m) = m"
| "error_message (AttributeError m) = m"
| "error_message (RuntimeError m) = m"
| "error_message (OSError m) = m"
| "error_message (StaleLeaseError m) = m"
| "error_message (RunVersionConflict m) = m"
| "error_message (ActiveSessionRunsError _) = ''Session has active durable Runs''"
| "error_message (IntegrityError m) = m"
| "error_message (CodingAgentACPInputError m) = m"
| "error_message (CodingAgentACPProtocolError m) = m"

type_synonym 'a result = "py_error + 'a"

text \<open>
  A transaction body maps a state to an error or to a new state and a value; \<open>transact\<close>
  runs it the way the connection's context manager does.
\<close>

type_synonym ('s, 'a) tx = "'s \<Rightarrow> py_error + 's \<times> 'a"

definition transact :: "('s, 'a) tx \<Rightarrow> 's \<Rightarrow> 's \<times> 'a result" where
  "transact f s = (case f s of Inl e \<Rightarrow> (s, Inl e) | Inr (s', a) \<Rightarrow> (s', Inr a))"

lemma transact_error [simp]: "snd (transact f s) = Inl e \<Longrightarrow> fst (transact f s) = s"
  by (auto simp: transact_def split: sum.splits prod.splits)

lemma transact_Inr: "f s = Inr (s', a) \<Longrightarrow> transact f s = (s', Inr a)"
  by (simp add: transact_def)

lemma transact_Inl: "f s = Inl e \<Longrightarrow> transact f s = (s, Inl e)"
  by (simp add: transact_def)

lemma transact_fst_cases:
  assumes "P s" and "\<And>s' a. f s = Inr (s', a) \<Longrightarrow> P s'"
  shows "P (fst (transact f s))"
  using assms by (auto simp: transact_def split: sum.splits prod.splits)

lemma map_sum_Inr: "map_sum f g r = Inr y \<longleftrightarrow> (\<exists>x. r = Inr x \<and> y = g x)"
  by (cases r) auto

lemma map_sum_Inl: "map_sum f g r = Inl y \<longleftrightarrow> (\<exists>x. r = Inl x \<and> y = f x)"
  by (cases r) auto

lemma pred_option_code [code]: "pred_option P None = True" "pred_option P (Some x) = P x"
  by simp_all

section \<open>Tables\<close>

definition lookup_by :: "('a \<Rightarrow> 'k) \<Rightarrow> 'k \<Rightarrow> 'a list \<Rightarrow> 'a option" where
  "lookup_by key k xs = List.find (\<lambda>x. key x = k) xs"

definition update_where :: "('a \<Rightarrow> bool) \<Rightarrow> ('a \<Rightarrow> 'a) \<Rightarrow> 'a list \<Rightarrow> 'a list" where
  "update_where P f xs = map (\<lambda>x. if P x then f x else x) xs"

lemma lookup_by_Nil [simp]: "lookup_by key k [] = None"
  by (simp add: lookup_by_def)

lemma lookup_by_Cons [simp]:
  "lookup_by key k (x # xs) = (if key x = k then Some x else lookup_by key k xs)"
  by (simp add: lookup_by_def)

lemma lookup_by_SomeD: "lookup_by key k xs = Some x \<Longrightarrow> x \<in> set xs \<and> key x = k"
  by (induction xs) (auto split: if_splits)

lemma lookup_by_None_iff: "lookup_by key k xs = None \<longleftrightarrow> k \<notin> key ` set xs"
  by (induction xs) auto

lemma lookup_by_distinct:
  "distinct (map key xs) \<Longrightarrow> x \<in> set xs \<Longrightarrow> lookup_by key (key x) xs = Some x"
  by (induction xs) (auto simp: rev_image_eqI)

lemma lookup_by_append:
  "lookup_by key k (xs @ ys) =
     (case lookup_by key k xs of Some x \<Rightarrow> Some x | None \<Rightarrow> lookup_by key k ys)"
  by (induction xs) auto

lemma update_where_Nil [simp]: "update_where P f [] = []"
  by (simp add: update_where_def)

lemma update_where_Cons [simp]:
  "update_where P f (x # xs) = (if P x then f x else x) # update_where P f xs"
  by (simp add: update_where_def)

lemma length_update_where [simp]: "length (update_where P f xs) = length xs"
  by (simp add: update_where_def)

lemma in_set_update_where:
  "y \<in> set (update_where P f xs) \<longleftrightarrow> (\<exists>x \<in> set xs. y = (if P x then f x else x))"
  by (auto simp: update_where_def)

lemma map_update_where:
  "(\<And>x. P x \<Longrightarrow> g (f x) = g x) \<Longrightarrow> map g (update_where P f xs) = map g xs"
  by (induction xs) auto

lemma lookup_by_update_where:
  assumes "\<And>x. P x \<Longrightarrow> key (f x) = key x"
  shows "lookup_by key k (update_where P f xs) =
           map_option (\<lambda>x. if P x then f x else x) (lookup_by key k xs)"
  using assms by (induction xs) auto

lemma update_where_id: "(\<And>x. x \<in> set xs \<Longrightarrow> P x \<Longrightarrow> f x = x) \<Longrightarrow> update_where P f xs = xs"
  by (induction xs) auto

lemma filter_length_mono:
  "(\<And>x. x \<in> set xs \<Longrightarrow> P x \<Longrightarrow> Q x) \<Longrightarrow> length (filter P xs) \<le> length (filter Q xs)"
  by (induction xs) auto

section \<open>ORDER BY\<close>

text \<open>Sorting by a strict order given as a test, stable on rows it does not separate.\<close>

fun insort_rel :: "('a \<Rightarrow> 'a \<Rightarrow> bool) \<Rightarrow> 'a \<Rightarrow> 'a list \<Rightarrow> 'a list" where
  "insort_rel lt r [] = [r]"
| "insort_rel lt r (x # xs) = (if lt x r then x # insort_rel lt r xs else r # x # xs)"

fun order_by :: "('a \<Rightarrow> 'a \<Rightarrow> bool) \<Rightarrow> 'a list \<Rightarrow> 'a list" where
  "order_by lt [] = []"
| "order_by lt (r # rs) = insort_rel lt r (order_by lt rs)"

lemma set_insort_rel [simp]: "set (insort_rel lt r xs) = insert r (set xs)"
  by (induction xs) auto

lemma set_order_by [simp]: "set (order_by lt xs) = set xs"
  by (induction xs) auto

lemma length_insort_rel [simp]: "length (insort_rel lt r xs) = Suc (length xs)"
  by (induction xs) auto

lemma length_order_by [simp]: "length (order_by lt xs) = length xs"
  by (induction xs) auto

lemma sorted_insort_rel:
  assumes asym: "\<And>x y. lt x y \<Longrightarrow> \<not> lt y x"
    and ntrans: "\<And>x y z. \<not> lt x y \<Longrightarrow> \<not> lt y z \<Longrightarrow> \<not> lt x z"
  shows "sorted_wrt (\<lambda>x y. \<not> lt y x) xs \<Longrightarrow> sorted_wrt (\<lambda>x y. \<not> lt y x) (insort_rel lt r xs)"
proof (induction xs)
  case (Cons x xs)
  show ?case
  proof (cases "lt x r")
    case True
    with Cons asym[OF True] show ?thesis by simp
  next
    case False
    have "\<not> lt y r" if "y \<in> set xs" for y
      using Cons.prems that False ntrans[of y x r] by simp
    with Cons.prems False show ?thesis by simp
  qed
qed simp

lemma sorted_order_by:
  assumes "\<And>x y. lt x y \<Longrightarrow> \<not> lt y x" "\<And>x y z. \<not> lt x y \<Longrightarrow> \<not> lt y z \<Longrightarrow> \<not> lt x z"
  shows "sorted_wrt (\<lambda>x y. \<not> lt y x) (order_by lt xs)"
  by (induction xs) (auto intro: sorted_insort_rel[OF assms])

section \<open>Refinement\<close>

text \<open>
  Functional refinement: an implementation whose every step gives the answer of a specification step on the
  abstract state gives, over any history, the answers of the specification.
\<close>

fun run_all :: "('i \<Rightarrow> 's \<Rightarrow> 's \<times> 'o) \<Rightarrow> 'i list \<Rightarrow> 's \<Rightarrow> 's \<times> 'o list" where
  "run_all step [] s = (s, [])"
| "run_all step (i # is) s =
     (case step i s of (s', a) \<Rightarrow> (case run_all step is s' of (s'', as) \<Rightarrow> (s'', a # as)))"

locale refinement =
  fixes good :: "'w \<Rightarrow> bool" and view :: "'w \<Rightarrow> 'a"
    and impl :: "'i \<Rightarrow> 'w \<Rightarrow> 'w \<times> 'o" and model :: "'i \<Rightarrow> 'a \<Rightarrow> 'a \<times> 'o" and valid :: "'i \<Rightarrow> bool"
  assumes step: "good w \<Longrightarrow> valid i \<Longrightarrow> impl i w = (w', a) \<Longrightarrow> good w' \<and> model i (view w) = (view w', a)"
begin

lemma history:
  "good w \<Longrightarrow> list_all valid is \<Longrightarrow> run_all impl is w = (w', as) \<Longrightarrow> good w' \<and> run_all model is (view w) = (view w', as)"
proof (induction "is" arbitrary: w w' as)
  case (Cons i "is")
  obtain w1 a where 1: "impl i w = (w1, a)" by (cases "impl i w")
  obtain w2 bs where 2: "run_all impl is w1 = (w2, bs)" by (cases "run_all impl is w1")
  have s: "good w1" "model i (view w) = (view w1, a)" using step[OF _ _ 1] Cons.prems by simp_all
  show ?case using Cons.IH[OF s(1) _ 2] Cons.prems 1 2 s(2) by auto
qed simp

end

end
