(* ===== verification/Json_Value.thy ===== *)
theory Json_Value
  imports Prelude Complex_Main "HOL-Library.AList"
begin

text \<open>
  JSON values as the code holds them after \<^verbatim>\<open>json.loads\<close>, with the Python operations the
  run service applies to them: truth value, equality, dictionary access and update, and
  \<^verbatim>\<open>str\<close>. A dictionary is an association list in insertion order, as in Python. Strings
  are UTF-8 byte sequences, so a length is a byte count. Finite floats are exact rationals:
  the rounding of float arithmetic is not modelled.
\<close>

section \<open>Values\<close>

type_synonym pyfloat = rat

datatype json =
    JNull
  | JBool bool
  | JInt int
  | JFloat pyfloat
  | JStr string
  | JArr "json list"
  | JObj "(string \<times> json) list"

text \<open>
  The text of a JSON column: \<open>Some v\<close> is text that \<^verbatim>\<open>json.loads\<close> reads as \<open>v\<close>, \<open>None\<close> is
  text on which it raises \<^verbatim>\<open>JSONDecodeError\<close>. A column that may be NULL is an option of it.
\<close>

type_synonym jtext = "json option"

definition loads :: "jtext option \<Rightarrow> json option" where
  "loads c = (case c of None \<Rightarrow> None | Some t \<Rightarrow> t)"

lemma loads_simps [simp]: "loads None = None" "loads (Some t) = t"
  by (simp_all add: loads_def)

section \<open>Types and truth\<close>

fun is_dict :: "json \<Rightarrow> bool" where
  "is_dict (JObj _) = True"
| "is_dict _ = False"

fun is_str :: "json \<Rightarrow> bool" where
  "is_str (JStr _) = True"
| "is_str _ = False"

fun truthy :: "json \<Rightarrow> bool" where
  "truthy JNull = False"
| "truthy (JBool b) = b"
| "truthy (JInt n) = (n \<noteq> 0)"
| "truthy (JFloat x) = (x \<noteq> 0)"
| "truthy (JStr s) = (s \<noteq> [])"
| "truthy (JArr xs) = (xs \<noteq> [])"
| "truthy (JObj kvs) = (kvs \<noteq> [])"

definition truthy_opt :: "json option \<Rightarrow> bool" where
  "truthy_opt v = (case v of None \<Rightarrow> False | Some x \<Rightarrow> truthy x)"

lemma truthy_opt_simps [simp]: "truthy_opt None = False" "truthy_opt (Some x) = truthy x"
  by (simp_all add: truthy_opt_def)

section \<open>Dictionaries\<close>

text \<open>
  \<open>dget d k\<close> is \<^verbatim>\<open>d.get(k)\<close> on a dictionary and \<open>None\<close> on anything else; where the code
  tests \<^verbatim>\<open>isinstance(d, dict)\<close> first, the model does too. \<open>dset\<close> keeps the position of an
  existing key and appends a new one; \<open>dpop\<close> removes a key.
\<close>

fun dget :: "json \<Rightarrow> string \<Rightarrow> json option" where
  "dget (JObj kvs) k = map_of kvs k"
| "dget _ k = None"

fun dset :: "string \<Rightarrow> json \<Rightarrow> json \<Rightarrow> json" where
  "dset k v (JObj kvs) = JObj (AList.update k v kvs)"
| "dset k v j = j"

fun dpop :: "string \<Rightarrow> json \<Rightarrow> json" where
  "dpop k (JObj kvs) = JObj (AList.delete k kvs)"
| "dpop k j = j"

text \<open>\<^verbatim>\<open>d.get(k) if isinstance(d.get(k), dict) else {}\<close>, as the event code reads nested records.\<close>

definition subdict :: "json \<Rightarrow> string \<Rightarrow> json" where
  "subdict j k = (case dget j k of Some (JObj kvs) \<Rightarrow> JObj kvs | _ \<Rightarrow> JObj [])"

lemma dget_dset: "is_dict j \<Longrightarrow> dget (dset k v j) k' = (if k' = k then Some v else dget j k')"
  by (cases j) (simp_all add: update_conv')

lemma dget_dpop: "dget (dpop k j) k' = (if k' = k then None else dget j k')"
  by (cases j) (simp_all add: delete_conv')

lemma is_dict_dset [simp]: "is_dict (dset k v j) = is_dict j"
  by (cases j) simp_all

lemma is_dict_dpop [simp]: "is_dict (dpop k j) = is_dict j"
  by (cases j) simp_all

lemma dget_Some_dict: "dget j k = Some v \<Longrightarrow> is_dict j"
  by (cases j) simp_all

lemma is_dict_subdict [simp]: "is_dict (subdict j k)"
  by (auto simp: subdict_def split: option.splits json.splits)

section \<open>Equality\<close>

text \<open>
  Python's \<^verbatim>\<open>==\<close> on JSON values: numbers and booleans compare by value, lists element by
  element, dictionaries by key whatever the order.
\<close>

fun num_of :: "json \<Rightarrow> pyfloat option" where
  "num_of (JBool b) = Some (if b then 1 else 0)"
| "num_of (JInt n) = Some (of_int n)"
| "num_of (JFloat x) = Some x"
| "num_of _ = None"

fun py_eq :: "json \<Rightarrow> json \<Rightarrow> bool"
  and py_eq_list :: "json list \<Rightarrow> json list \<Rightarrow> bool"
  and py_eq_items :: "(string \<times> json) list \<Rightarrow> (string \<times> json) list \<Rightarrow> bool"
where
  "py_eq (JStr s) b = (b = JStr s)"
| "py_eq JNull b = (b = JNull)"
| "py_eq (JArr xs) b = (case b of JArr ys \<Rightarrow> py_eq_list xs ys | _ \<Rightarrow> False)"
| "py_eq (JObj m) b =
     (case b of JObj n \<Rightarrow> length m = length n \<and> py_eq_items m n | _ \<Rightarrow> False)"
| "py_eq (JBool x) b = (num_of (JBool x) = num_of b)"
| "py_eq (JInt x) b = (num_of (JInt x) = num_of b)"
| "py_eq (JFloat x) b = (num_of (JFloat x) = num_of b)"
| "py_eq_list [] ys = (ys = [])"
| "py_eq_list (x # xs) ys = (case ys of [] \<Rightarrow> False | y # ys' \<Rightarrow> py_eq x y \<and> py_eq_list xs ys')"
| "py_eq_items [] n = True"
| "py_eq_items (kv # m) n =
     ((case map_of n (fst kv) of None \<Rightarrow> False | Some w \<Rightarrow> py_eq (snd kv) w) \<and> py_eq_items m n)"

text \<open>Dictionaries hold a key once; \<open>wf_json\<close> says so at every level.\<close>

fun wf_json :: "json \<Rightarrow> bool" where
  "wf_json (JArr xs) = list_all wf_json xs"
| "wf_json (JObj kvs) = (distinct (map fst kvs) \<and> list_all (\<lambda>kv. wf_json (snd kv)) kvs)"
| "wf_json _ = True"

lemma py_eq_list_refl: "(\<And>x. x \<in> set xs \<Longrightarrow> py_eq x x) \<Longrightarrow> py_eq_list xs xs"
  by (induction xs) auto

lemma py_eq_items_refl:
  "(\<And>kv. kv \<in> set m \<Longrightarrow> map_of n (fst kv) = Some (snd kv) \<and> py_eq (snd kv) (snd kv)) \<Longrightarrow>
   py_eq_items m n"
  by (induction m) auto

lemma py_eq_refl: "wf_json a \<Longrightarrow> py_eq a a"
proof (induction a)
  case (JArr xs)
  then show ?case by (auto simp: list_all_iff intro: py_eq_list_refl)
next
  case (JObj kvs)
  have "py_eq_items kvs kvs"
  proof (rule py_eq_items_refl)
    fix kv assume kv: "kv \<in> set kvs"
    with JObj show "map_of kvs (fst kv) = Some (snd kv) \<and> py_eq (snd kv) (snd kv)"
      by (cases kv) (auto simp: list_all_iff)
  qed
  then show ?case by simp
qed simp_all

section \<open>Text\<close>

text \<open>
  \<^verbatim>\<open>str\<close> and \<^verbatim>\<open>repr\<close>. Every string the code builds this way comes from strings, integers,
  booleans and \<^verbatim>\<open>None\<close>; the decimal rendering of a float is not modelled and stands as the
  quotient of its numerator and denominator.
\<close>

fun nat_str :: "nat \<Rightarrow> string" where
  "nat_str n = (if n < 10 then [char_of (48 + n)] else nat_str (n div 10) @ [char_of (48 + n mod 10)])"

declare nat_str.simps [simp del]

definition int_str :: "int \<Rightarrow> string" where
  "int_str n = (if n < 0 then ''-'' @ nat_str (nat (- n)) else nat_str (nat n))"

definition repr_char :: "char \<Rightarrow> char \<Rightarrow> string" where
  "repr_char q c =
     (if c = q then [CHR 0x5C, q]
      else if c = CHR 0x5C then [CHR 0x5C, CHR 0x5C]
      else if c = CHR 0x0A then [CHR 0x5C, CHR ''n'']
      else if c = CHR 0x0D then [CHR 0x5C, CHR ''r'']
      else if c = CHR 0x09 then [CHR 0x5C, CHR ''t'']
      else [c])"

definition repr_str :: "string \<Rightarrow> string" where
  "repr_str s =
     (let q = (if CHR 0x27 \<in> set s \<and> CHR 0x22 \<notin> set s then CHR 0x22 else CHR 0x27)
      in [q] @ concat (map (repr_char q) s) @ [q])"

fun py_repr :: "json \<Rightarrow> string"
  and py_repr_list :: "json list \<Rightarrow> string"
  and py_repr_items :: "(string \<times> json) list \<Rightarrow> string"
where
  "py_repr JNull = ''None''"
| "py_repr (JBool b) = (if b then ''True'' else ''False'')"
| "py_repr (JInt n) = int_str n"
| "py_repr (JFloat x) = (case quotient_of x of (p, q) \<Rightarrow> int_str p @ ''/'' @ int_str q)"
| "py_repr (JStr s) = repr_str s"
| "py_repr (JArr xs) = ''['' @ py_repr_list xs @ '']''"
| "py_repr (JObj kvs) = ''{'' @ py_repr_items kvs @ ''}''"
| "py_repr_list [] = []"
| "py_repr_list (x # xs) = py_repr x @ (if xs = [] then [] else '', '' @ py_repr_list xs)"
| "py_repr_items [] = []"
| "py_repr_items (kv # kvs) =
     repr_str (fst kv) @ '': '' @ py_repr (snd kv) @ (if kvs = [] then [] else '', '' @ py_repr_items kvs)"

fun py_str :: "json \<Rightarrow> string" where
  "py_str (JStr s) = s"
| "py_str j = py_repr j"

text \<open>\<^verbatim>\<open>str(x or "")\<close>.\<close>

definition str_or_empty :: "json option \<Rightarrow> string" where
  "str_or_empty v = (case v of None \<Rightarrow> [] | Some x \<Rightarrow> if truthy x then py_str x else [])"

lemma str_or_empty_JStr [simp]: "str_or_empty (Some (JStr s)) = s"
  by (simp add: str_or_empty_def)

lemma str_or_empty_None [simp]: "str_or_empty None = []"
  by (simp add: str_or_empty_def)

text \<open>
  The optional values of the rows, as the JSON the code writes for them.
\<close>

definition json_of_str :: "string option \<Rightarrow> json" where
  "json_of_str v = (case v of None \<Rightarrow> JNull | Some s \<Rightarrow> JStr s)"

definition json_or_null :: "json option \<Rightarrow> json" where
  "json_or_null v = (case v of None \<Rightarrow> JNull | Some x \<Rightarrow> x)"

section \<open>ASCII case and affixes\<close>

definition lower_char :: "char \<Rightarrow> char" where
  "lower_char c =
     (let n = (of_char c :: nat) in if 65 \<le> n \<and> n \<le> 90 then char_of (n + 32) else c)"

definition lower :: "string \<Rightarrow> string" where
  "lower s = map lower_char s"

definition ends_with :: "string \<Rightarrow> string \<Rightarrow> bool" where
  "ends_with s suf = (length suf \<le> length s \<and> drop (length s - length suf) s = suf)"

definition starts_with :: "string \<Rightarrow> string \<Rightarrow> bool" where
  "starts_with s pre = (take (length pre) s = pre)"

lemma starts_with_append [simp]: "starts_with (p @ s) p"
  by (simp add: starts_with_def)

lemma ends_with_append [simp]: "ends_with (s @ p) p"
  by (simp add: ends_with_def)

end
