(* ===== verification/Py_Text.thy ===== *)
theory Py_Text
  imports Json_Value
begin

text \<open>
  String operations of the Python standard library the components use: splitting at a
  separator, the identifier patterns the code compiles as regular expressions, whitespace
  normalisation, POSIX paths, the decoding of bytes as UTF-8, and canonical JSON text.
\<close>

section \<open>Splitting\<close>

text \<open>
  What reading a file as text does to the ends of lines: a carriage return, with the line feed after it if there is one,
  becomes a line feed. Writing leaves the text as it is.
\<close>

fun universal_newlines :: "string \<Rightarrow> string" where
  "universal_newlines [] = []"
| "universal_newlines [c] = [if c = CHR 0x0D then CHR 0x0A else c]"
| "universal_newlines (c # d # s) =
     (if c \<noteq> CHR 0x0D then c # universal_newlines (d # s)
      else if d = CHR 0x0A then CHR 0x0A # universal_newlines s
      else CHR 0x0A # universal_newlines (d # s))"

lemma universal_newlines_no_cr: "CHR 0x0D \<notin> set (universal_newlines s)"
  by (induction s rule: universal_newlines.induct) auto

lemma universal_newlines_id: "CHR 0x0D \<notin> set s \<Longrightarrow> universal_newlines s = s"
  by (induction s rule: universal_newlines.induct) auto

text \<open>\<^verbatim>\<open>s.split(c)\<close> for a one-character separator.\<close>

fun split_on :: "char \<Rightarrow> string \<Rightarrow> string list" where
  "split_on c [] = [[]]"
| "split_on c (x # xs) =
     (if x = c then [] # split_on c xs
      else (case split_on c xs of [] \<Rightarrow> [[x]] | p # ps \<Rightarrow> (x # p) # ps))"

fun join_with :: "string \<Rightarrow> string list \<Rightarrow> string" where
  "join_with sep [] = []"
| "join_with sep (p # ps) = (if ps = [] then p else p @ sep @ join_with sep ps)"

lemma split_on_ne [simp]: "split_on c s \<noteq> []"
  by (induction s) (auto split: list.splits)

lemma join_split_on: "join_with [c] (split_on c s) = s"
proof (induction s)
  case (Cons x xs)
  obtain p ps where sp: "split_on c xs = p # ps"
    by (cases "split_on c xs") auto
  with Cons show ?case by (cases ps) auto
qed simp

lemma split_on_no_sep: "c \<notin> set s \<Longrightarrow> split_on c s = [s]"
  by (induction s) auto

lemma split_on_append: "c \<notin> set p \<Longrightarrow> split_on c (p @ c # s) = p # split_on c s"
  by (induction p) auto

lemma split_on_parts: "p \<in> set (split_on c s) \<Longrightarrow> c \<notin> set p"
proof (induction s arbitrary: p)
  case (Cons x xs)
  obtain q qs where sp: "split_on c xs = q # qs"
    by (cases "split_on c xs") auto
  from Cons sp show ?case by (auto split: if_splits)
qed simp

section \<open>Character classes and patterns\<close>

definition char_between :: "nat \<Rightarrow> nat \<Rightarrow> char \<Rightarrow> bool" where
  "char_between a b c = (let n = (of_char c :: nat) in a \<le> n \<and> n \<le> b)"

definition is_digit :: "char \<Rightarrow> bool" where
  "is_digit c = char_between 48 57 c"

definition is_lower_alnum :: "char \<Rightarrow> bool" where
  "is_lower_alnum c = (char_between 97 122 c \<or> is_digit c)"

definition is_hex :: "char \<Rightarrow> bool" where
  "is_hex c = (is_digit c \<or> char_between 97 102 c)"

text \<open>\<^verbatim>\<open>[a-z0-9]+(?:-[a-z0-9]+)*\<close>: every piece between dashes is a non-empty run of the class.\<close>

definition kebab_case :: "string \<Rightarrow> bool" where
  "kebab_case s = list_all (\<lambda>p. p \<noteq> [] \<and> list_all is_lower_alnum p) (split_on (CHR ''-'') s)"

section \<open>Whitespace\<close>

definition is_space :: "char \<Rightarrow> bool" where
  "is_space c = (let n = (of_char c :: nat) in n = 32 \<or> (9 \<le> n \<and> n \<le> 13) \<or> (28 \<le> n \<and> n \<le> 31))"

text \<open>\<^verbatim>\<open>s.split()\<close>: maximal runs of characters that are not whitespace.\<close>

fun split_ws :: "string \<Rightarrow> string \<Rightarrow> string list" where
  "split_ws acc [] = (if acc = [] then [] else [rev acc])"
| "split_ws acc (c # cs) =
     (if is_space c then (if acc = [] then split_ws [] cs else rev acc # split_ws [] cs)
      else split_ws (c # acc) cs)"

definition words :: "string \<Rightarrow> string list" where
  "words s = split_ws [] s"

definition strip :: "string \<Rightarrow> string" where
  "strip s = rev (dropWhile is_space (rev (dropWhile is_space s)))"

text \<open>\<^verbatim>\<open>" ".join(s.strip().split())\<close>, the normalisation of free text from a user.\<close>

definition normalize_ws :: "string \<Rightarrow> string" where
  "normalize_ws s = join_with '' '' (words s)"

lemma split_ws_nonempty: "p \<in> set (split_ws acc s) \<Longrightarrow> p \<noteq> []"
proof (induction s arbitrary: acc)
  case (Cons c cs)
  then show ?case by (cases "is_space c"; cases "acc = []") auto
qed (simp split: if_splits)

text \<open>
  \<^verbatim>\<open>s[:n]\<close> on UTF-8 bytes: Python counts code points, and a byte \<^verbatim>\<open>10xxxxxx\<close> continues the
  code point before it.
\<close>

definition is_continuation :: "char \<Rightarrow> bool" where
  "is_continuation c = (let n = (of_char c :: nat) in 128 \<le> n \<and> n < 192)"

fun take_points :: "nat \<Rightarrow> string \<Rightarrow> string" where
  "take_points n [] = []"
| "take_points n (c # cs) =
     (if is_continuation c then c # take_points n cs
      else (case n of 0 \<Rightarrow> [] | Suc m \<Rightarrow> c # take_points m cs))"

definition point_length :: "string \<Rightarrow> nat" where
  "point_length s = length (filter (\<lambda>c. \<not> is_continuation c) s)"

lemma take_points_bound: "point_length (take_points n s) \<le> n"
  by (induction n s rule: take_points.induct) (auto simp: point_length_def split: nat.splits)

lemma take_points_id: "point_length s \<le> n \<Longrightarrow> take_points n s = s"
  by (induction n s rule: take_points.induct)
    (auto simp: point_length_def split: nat.splits if_splits)

section \<open>Order\<close>

text \<open>Texts compare character by character.\<close>

fun str_less :: "string \<Rightarrow> string \<Rightarrow> bool" where
  "str_less _ [] = False"
| "str_less [] (_ # _) = True"
| "str_less (x # xs) (y # ys) =
     ((of_char x :: nat) < of_char y \<or> x = y \<and> str_less xs ys)"

lemma of_char_eq: "(of_char x :: nat) = of_char y \<longleftrightarrow> x = y"
  by simp

lemma str_less_irrefl [simp]: "\<not> str_less a a"
  by (induction a) auto

lemma str_less_total: "a \<noteq> b \<Longrightarrow> str_less a b \<or> str_less b a"
proof (induction a b rule: str_less.induct)
  case (3 x xs y ys)
  then show ?case using of_char_eq[of x y] by (auto simp: neq_iff)
qed (auto simp: neq_Nil_conv)

lemma str_less_trans: "str_less a b \<Longrightarrow> str_less b c \<Longrightarrow> str_less a c"
proof (induction a b arbitrary: c rule: str_less.induct)
  case (3 x xs y ys)
  then show ?case by (cases c) auto
qed (auto elim: str_less.elims)

section \<open>Paths\<close>

text \<open>
  \<^verbatim>\<open>Path(s)\<close> of an absolute, normalised path is its text; the empty path is \<^verbatim>\<open>Path(".")\<close>.
  \<open>path_parent\<close> and \<open>path_name\<close> split at the last slash.
\<close>

definition mk_path :: "string \<Rightarrow> string" where
  "mk_path s = (if s = [] then ''.'' else s)"

definition path_name :: "string \<Rightarrow> string" where
  "path_name p = last (split_on (CHR ''/'') p)"

definition path_parent :: "string \<Rightarrow> string" where
  "path_parent p =
     (case butlast (split_on (CHR ''/'') p) of [] \<Rightarrow> ''.''
      | [[]] \<Rightarrow> ''/'' | ps \<Rightarrow> join_with ''/'' ps)"

definition path_join :: "string \<Rightarrow> string \<Rightarrow> string" where
  "path_join a b = a @ ''/'' @ b"

section \<open>Canonical text\<close>

text \<open>
  Canonical text: \<^verbatim>\<open>json.dumps(v, sort_keys=True)\<close> gives two values the same text when they are equal up to the order of
  keys, so the value with its keys sorted stands for the text. And what the code asks of bytes: whether they decode as
  UTF-8, and their lines.
\<close>

section \<open>Sorted keys\<close>

definition key_before :: "string \<times> json \<Rightarrow> string \<times> json \<Rightarrow> bool" where
  "key_before a b \<longleftrightarrow> str_less (fst a) (fst b)"

fun sort_keys :: "json \<Rightarrow> json" where
  "sort_keys (JArr xs) = JArr (map sort_keys xs)"
| "sort_keys (JObj kvs) = JObj (order_by key_before (map (\<lambda>kv. (fst kv, sort_keys (snd kv))) kvs))"
| "sort_keys v = v"

section \<open>UTF-8\<close>

definition byte_in :: "nat \<Rightarrow> nat \<Rightarrow> char \<Rightarrow> bool" where
  "byte_in a b c = char_between a b c"

fun valid_utf8 :: "string \<Rightarrow> bool" where
  "valid_utf8 [] = True"
| "valid_utf8 (c # cs) =
     (if byte_in 0 127 c then valid_utf8 cs
      else case cs of
        [] \<Rightarrow> False
      | d # ds \<Rightarrow>
          if byte_in 194 223 c then byte_in 128 191 d \<and> valid_utf8 ds
          else (case ds of
              [] \<Rightarrow> False
            | e # es \<Rightarrow>
                if byte_in 224 239 c
                then (if byte_in 224 224 c then byte_in 160 191 d else if byte_in 237 237 c then byte_in 128 159 d else byte_in 128 191 d) \<and>
                  byte_in 128 191 e \<and> valid_utf8 es
                else (case es of
                    [] \<Rightarrow> False
                  | f # fs \<Rightarrow>
                      byte_in 240 244 c \<and>
                      (if byte_in 240 240 c then byte_in 144 191 d else if byte_in 244 244 c then byte_in 128 143 d else byte_in 128 191 d) \<and>
                      byte_in 128 191 e \<and> byte_in 128 191 f \<and> valid_utf8 fs)))"

section \<open>Lines\<close>

definition single_break :: "char \<Rightarrow> bool" where
  "single_break c \<longleftrightarrow> byte_in 10 13 c \<or> byte_in 28 30 c"

text \<open>
  \<^verbatim>\<open>text.splitlines(keepends=True)\<close>: a line ends at a carriage return with or without a line feed, at another control
  character of the list, and at U+0085, U+2028 and U+2029, whose bytes come in twos and threes.
\<close>

definition next_line :: "char \<Rightarrow> char \<Rightarrow> bool" where
  "next_line c d \<longleftrightarrow> c = CHR 0xC2 \<and> d = CHR 0x85 \<or> c = CHR 0x0D \<and> d = CHR 0x0A"

definition line_separator :: "char \<Rightarrow> char \<Rightarrow> char \<Rightarrow> bool" where
  "line_separator c d e \<longleftrightarrow> c = CHR 0xE2 \<and> d = CHR 0x80 \<and> byte_in 168 169 e"

text \<open>The length of the end of a line at the head of a text, or none.\<close>

fun break_length :: "string \<Rightarrow> nat" where
  "break_length (c # d # e # s) = (if next_line c d then 2 else if line_separator c d e then 3 else if single_break c then 1 else 0)"
| "break_length [c, d] = (if next_line c d then 2 else if single_break c then 1 else 0)"
| "break_length [c] = (if single_break c then 1 else 0)"
| "break_length [] = 0"

fun split_lines :: "nat \<Rightarrow> string \<Rightarrow> string \<Rightarrow> string list" where
  "split_lines n acc [] = (if acc = [] then [] else [rev acc])"
| "split_lines (Suc n) acc (c # cs) = (if n = 0 then rev (c # acc) # split_lines 0 [] cs else split_lines n (c # acc) cs)"
| "split_lines 0 acc (c # cs) =
     (case break_length (c # cs) of
        0 \<Rightarrow> split_lines 0 (c # acc) cs
      | Suc 0 \<Rightarrow> rev (c # acc) # split_lines 0 [] cs
      | Suc (Suc n) \<Rightarrow> split_lines (Suc n) (c # acc) cs)"

definition lines_of :: "string \<Rightarrow> string list" where
  "lines_of s = split_lines 0 [] s"

lemma concat_split_lines: "concat (split_lines n acc s) = rev acc @ s"
  by (induction n acc s rule: split_lines.induct) (auto split: nat.splits)

text \<open>Lines with their ends make up the text.\<close>

lemma concat_lines_of: "concat (lines_of s) = s"
  by (simp add: lines_of_def concat_split_lines)

end
