(* ===== verification/Run_Model.thy ===== *)
theory Run_Model
  imports Py_Text
begin

text \<open>
  The data of the run service (\<^verbatim>\<open>backend/run_service.py\<close>, lines 29 to 200): statuses and the
  transition table, the budget and the reducer checkpoint with their JSON form, the outcomes
  of a reducer step, and the rows of the SQLite tables of \<^verbatim>\<open>runs.db\<close>.
\<close>

section \<open>Statuses\<close>

datatype run_status =
    S_queued | S_running | S_waiting_user | S_cancel_requested | S_needs_attention
  | S_succeeded | S_failed | S_cancelled

fun status_str :: "run_status \<Rightarrow> string" where
  "status_str S_queued = ''queued''"
| "status_str S_running = ''running''"
| "status_str S_waiting_user = ''waiting_user''"
| "status_str S_cancel_requested = ''cancel_requested''"
| "status_str S_needs_attention = ''needs_attention''"
| "status_str S_succeeded = ''succeeded''"
| "status_str S_failed = ''failed''"
| "status_str S_cancelled = ''cancelled''"

definition ACTIVE_STATUSES :: "run_status list" where
  "ACTIVE_STATUSES = [S_queued, S_running, S_waiting_user, S_cancel_requested, S_needs_attention]"

definition TERMINAL_STATUSES :: "run_status list" where
  "TERMINAL_STATUSES = [S_succeeded, S_failed, S_cancelled]"

definition terminal :: "run_status \<Rightarrow> bool" where
  "terminal st = (st \<in> set TERMINAL_STATUSES)"

definition active :: "run_status \<Rightarrow> bool" where
  "active st = (st \<in> set ACTIVE_STATUSES)"

lemma terminal_simps [simp]:
  "\<not> terminal S_queued" "\<not> terminal S_running" "\<not> terminal S_waiting_user"
  "\<not> terminal S_cancel_requested" "\<not> terminal S_needs_attention"
  "terminal S_succeeded" "terminal S_failed" "terminal S_cancelled"
  by (simp_all add: terminal_def TERMINAL_STATUSES_def)

lemma terminal_iff: "terminal st \<longleftrightarrow> st = S_succeeded \<or> st = S_failed \<or> st = S_cancelled"
  by (cases st) simp_all

lemma active_simps [simp]:
  "active S_queued" "active S_running" "active S_waiting_user"
  "active S_cancel_requested" "active S_needs_attention"
  "\<not> active S_succeeded" "\<not> active S_failed" "\<not> active S_cancelled"
  by (simp_all add: active_def ACTIVE_STATUSES_def)

lemma active_iff_not_terminal: "active st \<longleftrightarrow> \<not> terminal st"
  by (cases st) simp_all

fun TRANSITIONS :: "run_status \<Rightarrow> run_status list" where
  "TRANSITIONS S_queued = [S_running, S_failed, S_cancelled, S_needs_attention]"
| "TRANSITIONS S_running =
     [S_waiting_user, S_cancel_requested, S_succeeded, S_failed, S_cancelled, S_needs_attention]"
| "TRANSITIONS S_waiting_user = [S_queued, S_running, S_cancelled, S_failed, S_needs_attention]"
| "TRANSITIONS S_cancel_requested = [S_cancelled, S_failed, S_needs_attention]"
| "TRANSITIONS S_needs_attention = [S_failed]"
| "TRANSITIONS S_succeeded = []"
| "TRANSITIONS S_failed = []"
| "TRANSITIONS S_cancelled = []"

definition CURRENT_AGENT_WORKFLOW_VERSION :: int where
  "CURRENT_AGENT_WORKFLOW_VERSION = 2"

section \<open>Budget\<close>

type_synonym dict = "(string \<times> json) list"

record run_budget =
  bg_max_model_turns :: "int option"
  bg_model_turn_limit_explicit :: bool
  bg_max_wall_seconds :: pyfloat
  bg_max_tokens :: "int option"
  bg_max_cost_usd :: "pyfloat option"
  bg_model_turns :: int
  bg_tokens_used :: int
  bg_cost_usd :: pyfloat

text \<open>The defaults of the fields; \<^verbatim>\<open>RunBudget()\<close> has no explicit turn limit.\<close>

definition default_budget :: run_budget where
  "default_budget = \<lparr>bg_max_model_turns = Some 8, bg_model_turn_limit_explicit = False,
     bg_max_wall_seconds = 600, bg_max_tokens = Some 64000, bg_max_cost_usd = Some 5,
     bg_model_turns = 0, bg_tokens_used = 0, bg_cost_usd = 0\<rparr>"

text \<open>The field constraints (\<^verbatim>\<open>ge\<close>, \<^verbatim>\<open>gt\<close>) of the class.\<close>

definition budget_ok :: "run_budget \<Rightarrow> bool" where
  "budget_ok b \<longleftrightarrow>
     (case bg_max_model_turns b of None \<Rightarrow> True | Some n \<Rightarrow> 1 \<le> n) \<and>
     0 < bg_max_wall_seconds b \<and>
     (case bg_max_tokens b of None \<Rightarrow> True | Some n \<Rightarrow> 1 \<le> n) \<and>
     (case bg_max_cost_usd b of None \<Rightarrow> True | Some x \<Rightarrow> 0 \<le> x) \<and>
     0 \<le> bg_model_turns b \<and> 0 \<le> bg_tokens_used b \<and> 0 \<le> bg_cost_usd b"

definition release_default_model_turn_limit :: "run_budget \<Rightarrow> run_budget" where
  "release_default_model_turn_limit b =
     (if bg_model_turn_limit_explicit b then b else b\<lparr>bg_max_model_turns := None\<rparr>)"

definition opt_json :: "('a \<Rightarrow> json) \<Rightarrow> 'a option \<Rightarrow> json" where
  "opt_json f v = (case v of None \<Rightarrow> JNull | Some x \<Rightarrow> f x)"

definition dump_budget :: "run_budget \<Rightarrow> json" where
  "dump_budget b = JObj
     [(''max_model_turns'', opt_json JInt (bg_max_model_turns b)),
      (''model_turn_limit_explicit'', JBool (bg_model_turn_limit_explicit b)),
      (''max_wall_seconds'', JFloat (bg_max_wall_seconds b)),
      (''max_tokens'', opt_json JInt (bg_max_tokens b)),
      (''max_cost_usd'', opt_json JFloat (bg_max_cost_usd b)),
      (''model_turns'', JInt (bg_model_turns b)),
      (''tokens_used'', JInt (bg_tokens_used b)),
      (''cost_usd'', JFloat (bg_cost_usd b))]"

section \<open>Reading a record from JSON\<close>

text \<open>
  The validation of the two models (\<^verbatim>\<open>extra="forbid"\<close>, field types, defaults, bounds). A value
  whose JSON type is not the field's type is refused; the conversions that Pydantic's lax mode
  adds (numeric strings, booleans for numbers) are not modelled. \<open>rd_field\<close> reads a field with
  a default; \<open>rd_opt\<close> also takes null.
\<close>

definition rd_field :: "dict \<Rightarrow> string \<Rightarrow> 'a \<Rightarrow> (json \<Rightarrow> 'a option) \<Rightarrow> 'a option" where
  "rd_field d k dflt rd = (case map_of d k of None \<Rightarrow> Some dflt | Some v \<Rightarrow> rd v)"

definition rd_opt :: "(json \<Rightarrow> 'a option) \<Rightarrow> json \<Rightarrow> 'a option option" where
  "rd_opt rd v = (case v of JNull \<Rightarrow> Some None | _ \<Rightarrow> map_option Some (rd v))"

fun rd_int :: "json \<Rightarrow> int option" where
  "rd_int (JInt n) = Some n" | "rd_int _ = None"

fun rd_bool :: "json \<Rightarrow> bool option" where
  "rd_bool (JBool b) = Some b" | "rd_bool _ = None"

fun rd_float :: "json \<Rightarrow> pyfloat option" where
  "rd_float (JFloat x) = Some x" | "rd_float (JInt n) = Some (of_int n)" | "rd_float _ = None"

fun rd_str :: "json \<Rightarrow> string option" where
  "rd_str (JStr s) = Some s" | "rd_str _ = None"

fun rd_dict :: "json \<Rightarrow> dict option" where
  "rd_dict (JObj d) = Some d" | "rd_dict _ = None"

fun rd_list :: "json \<Rightarrow> json list option" where
  "rd_list (JArr xs) = Some xs" | "rd_list _ = None"

definition budget_keys :: "string list" where
  "budget_keys = [''max_model_turns'', ''model_turn_limit_explicit'', ''max_wall_seconds'',
     ''max_tokens'', ''max_cost_usd'', ''model_turns'', ''tokens_used'', ''cost_usd'']"

text \<open>\<^verbatim>\<open>RunBudget.model_validate\<close> with its before-validator \<^verbatim>\<open>_record_explicit_turn_limit\<close>.\<close>

definition record_explicit_turn_limit :: "dict \<Rightarrow> dict" where
  "record_explicit_turn_limit d =
     (if map_of d ''model_turn_limit_explicit'' = None
      then d @ [(''model_turn_limit_explicit'', JBool (map_of d ''max_model_turns'' \<noteq> None))]
      else d)"

definition validate_budget :: "json \<Rightarrow> run_budget option" where
  "validate_budget j = (case j of JObj d0 \<Rightarrow>
     (let d = record_explicit_turn_limit d0 in
      if \<not> list_all (\<lambda>kv. fst kv \<in> set budget_keys) d then None
      else case rd_field d ''max_model_turns'' (Some 8) (rd_opt rd_int) of None \<Rightarrow> None | Some mt \<Rightarrow>
      (case rd_field d ''model_turn_limit_explicit'' False rd_bool of None \<Rightarrow> None | Some ex \<Rightarrow>
      (case rd_field d ''max_wall_seconds'' 600 rd_float of None \<Rightarrow> None | Some ws \<Rightarrow>
      (case rd_field d ''max_tokens'' (Some 64000) (rd_opt rd_int) of None \<Rightarrow> None | Some tk \<Rightarrow>
      (case rd_field d ''max_cost_usd'' (Some 5) (rd_opt rd_float) of None \<Rightarrow> None | Some mc \<Rightarrow>
      (case rd_field d ''model_turns'' 0 rd_int of None \<Rightarrow> None | Some n \<Rightarrow>
      (case rd_field d ''tokens_used'' 0 rd_int of None \<Rightarrow> None | Some u \<Rightarrow>
      (case rd_field d ''cost_usd'' 0 rd_float of None \<Rightarrow> None | Some c \<Rightarrow>
        (let b = \<lparr>bg_max_model_turns = mt, bg_model_turn_limit_explicit = ex,
                  bg_max_wall_seconds = ws, bg_max_tokens = tk, bg_max_cost_usd = mc,
                  bg_model_turns = n, bg_tokens_used = u, bg_cost_usd = c\<rparr>
         in if budget_ok b then Some b else None)))))))))
   | _ \<Rightarrow> None)"

lemma rd_opt_dump [simp]:
  "rd_opt rd_int (opt_json JInt x) = Some x"
  "rd_opt rd_float (opt_json JFloat y) = Some y"
  "rd_opt rd_str (opt_json JStr z) = Some z"
  "rd_opt rd_dict (opt_json JObj w) = Some w"
  by (auto simp: rd_opt_def opt_json_def split: option.splits)

lemma validate_dump_budget: "budget_ok b \<Longrightarrow> validate_budget (dump_budget b) = Some b"
  by (cases b) (simp add: validate_budget_def dump_budget_def record_explicit_turn_limit_def
      rd_field_def budget_keys_def Let_def)

section \<open>The reducer checkpoint\<close>

record agent_state =
  st_workflow_type :: string
  st_workflow_version :: int
  st_session_id :: "string option"
  st_phase :: string
  st_attempt :: int
  st_intent :: "dict option"
  st_model_snapshot :: dict
  st_budget :: run_budget
  st_artifact_refs :: "json list"
  st_data :: dict
  st_pending_interaction_id :: "string option"
  st_context_summary_ref :: "string option"
  st_last_error :: "dict option"

definition default_state :: agent_state where
  "default_state = \<lparr>st_workflow_type = ''converse'', st_workflow_version = 1,
     st_session_id = None, st_phase = ''route'', st_attempt = 1, st_intent = None,
     st_model_snapshot = [], st_budget = default_budget, st_artifact_refs = [], st_data = [],
     st_pending_interaction_id = None, st_context_summary_ref = None, st_last_error = None\<rparr>"

text \<open>\<^verbatim>\<open>state.model_dump(mode="json")\<close>: the fields in declaration order.\<close>

definition dump_state :: "agent_state \<Rightarrow> json" where
  "dump_state s = JObj
     [(''workflow_type'', JStr (st_workflow_type s)),
      (''workflow_version'', JInt (st_workflow_version s)),
      (''session_id'', opt_json JStr (st_session_id s)),
      (''phase'', JStr (st_phase s)),
      (''attempt'', JInt (st_attempt s)),
      (''intent'', opt_json JObj (st_intent s)),
      (''model_snapshot'', JObj (st_model_snapshot s)),
      (''budget'', dump_budget (st_budget s)),
      (''artifact_refs'', JArr (st_artifact_refs s)),
      (''data'', JObj (st_data s)),
      (''pending_interaction_id'', opt_json JStr (st_pending_interaction_id s)),
      (''context_summary_ref'', opt_json JStr (st_context_summary_ref s)),
      (''last_error'', opt_json JObj (st_last_error s))]"

text \<open>
  \<^verbatim>\<open>_migrate_legacy_turn_limit\<close>: a stored budget without the marker is explicit when its
  original limit (the retained retry window's, else the stored one) is not the historic 8.
\<close>

definition migrate_legacy_turn_limit :: "dict \<Rightarrow> dict" where
  "migrate_legacy_turn_limit v =
     (case map_of v ''budget'' of
        Some (JObj budget) \<Rightarrow>
          if map_of budget ''model_turn_limit_explicit'' \<noteq> None then v
          else
            (let window = (case map_of v ''data'' of
                     Some (JObj data) \<Rightarrow> map_of data ''retry_budget_window'' | _ \<Rightarrow> None);
                 original_limit = (case window of
                     Some (JObj w) \<Rightarrow> (case map_of w ''model_turns'' of Some x \<Rightarrow> x | None \<Rightarrow> JNull)
                   | _ \<Rightarrow> JNull);
                 source_limit = (if original_limit \<noteq> JNull then original_limit
                   else case map_of budget ''max_model_turns'' of Some x \<Rightarrow> x | None \<Rightarrow> JInt 8);
                 explicit = (source_limit \<noteq> JNull \<and> \<not> py_eq source_limit (JInt 8))
             in AList.update ''budget''
                  (JObj (budget @ [(''model_turn_limit_explicit'', JBool explicit)])) v)
      | _ \<Rightarrow> v)"

definition state_keys :: "string list" where
  "state_keys = [''workflow_type'', ''workflow_version'', ''session_id'', ''phase'', ''attempt'',
     ''intent'', ''model_snapshot'', ''budget'', ''artifact_refs'', ''data'',
     ''pending_interaction_id'', ''context_summary_ref'', ''last_error'']"

text \<open>An entry of \<^verbatim>\<open>artifact_refs\<close> is a dictionary or a string.\<close>

fun artifact_ref_ok :: "json \<Rightarrow> bool" where
  "artifact_ref_ok (JObj _) = True" | "artifact_ref_ok (JStr _) = True" | "artifact_ref_ok _ = False"

definition state_ok :: "agent_state \<Rightarrow> bool" where
  "state_ok s \<longleftrightarrow> 1 \<le> st_workflow_version s \<and> 1 \<le> st_attempt s \<and> budget_ok (st_budget s) \<and>
     list_all artifact_ref_ok (st_artifact_refs s)"

definition validate_state :: "json \<Rightarrow> agent_state option" where
  "validate_state j = (case j of JObj d0 \<Rightarrow>
     (let d = migrate_legacy_turn_limit d0 in
      if \<not> list_all (\<lambda>kv. fst kv \<in> set state_keys) d then None
      else case rd_field d ''workflow_type'' ''converse'' rd_str of None \<Rightarrow> None | Some wt \<Rightarrow>
      (case rd_field d ''workflow_version'' 1 rd_int of None \<Rightarrow> None | Some wv \<Rightarrow>
      (case rd_field d ''session_id'' None (rd_opt rd_str) of None \<Rightarrow> None | Some sid \<Rightarrow>
      (case rd_field d ''phase'' ''route'' rd_str of None \<Rightarrow> None | Some ph \<Rightarrow>
      (case rd_field d ''attempt'' 1 rd_int of None \<Rightarrow> None | Some att \<Rightarrow>
      (case rd_field d ''intent'' None (rd_opt rd_dict) of None \<Rightarrow> None | Some it \<Rightarrow>
      (case rd_field d ''model_snapshot'' [] rd_dict of None \<Rightarrow> None | Some ms \<Rightarrow>
      (case rd_field d ''budget'' default_budget validate_budget of None \<Rightarrow> None | Some bg \<Rightarrow>
      (case rd_field d ''artifact_refs'' [] rd_list of None \<Rightarrow> None | Some ar \<Rightarrow>
      (case rd_field d ''data'' [] rd_dict of None \<Rightarrow> None | Some dt \<Rightarrow>
      (case rd_field d ''pending_interaction_id'' None (rd_opt rd_str) of None \<Rightarrow> None | Some pnd \<Rightarrow>
      (case rd_field d ''context_summary_ref'' None (rd_opt rd_str) of None \<Rightarrow> None | Some cs \<Rightarrow>
      (case rd_field d ''last_error'' None (rd_opt rd_dict) of None \<Rightarrow> None | Some le \<Rightarrow>
        (let s = \<lparr>st_workflow_type = wt, st_workflow_version = wv, st_session_id = sid,
                  st_phase = ph, st_attempt = att, st_intent = it, st_model_snapshot = ms,
                  st_budget = bg, st_artifact_refs = ar, st_data = dt,
                  st_pending_interaction_id = pnd, st_context_summary_ref = cs,
                  st_last_error = le\<rparr>
         in if state_ok s then Some s else None))))))))))))))
   | _ \<Rightarrow> None)"

text \<open>A dump carries the turn-limit marker, so the migration leaves it alone.\<close>

lemma migrate_dump:
  "map_of v ''budget'' = Some (dump_budget b) \<Longrightarrow> migrate_legacy_turn_limit v = v"
  by (simp add: migrate_legacy_turn_limit_def dump_budget_def)

lemma validate_dump_state: "state_ok s \<Longrightarrow> validate_state (dump_state s) = Some s"
  by (cases s) (simp add: validate_state_def dump_state_def Let_def migrate_dump rd_field_def
      state_keys_def validate_dump_budget state_ok_def)

text \<open>\<^verbatim>\<open>apply_development_budget_policy\<close>.\<close>

definition apply_development_budget_policy :: "agent_state \<Rightarrow> agent_state" where
  "apply_development_budget_policy s =
     (if st_phase s = ''route'' then s
      else
        (let current = (case map_of (st_data s) ''current_intent'' of
               Some v \<Rightarrow> if truthy v then v else opt_json JObj (st_intent s)
             | None \<Rightarrow> opt_json JObj (st_intent s));
             kind = (case current of
               JObj d \<Rightarrow> (case map_of d ''kind'' of Some k \<Rightarrow> k | None \<Rightarrow> JNull)
             | _ \<Rightarrow> JStr (st_workflow_type s))
         in if kind \<in> {JStr ''widget_create'', JStr ''widget_modify''}
            then s\<lparr>st_budget := release_default_model_turn_limit (st_budget s)\<rparr> else s))"

section \<open>Outcomes of a reducer step\<close>

datatype effect_state = E_none | E_committed | E_unknown

fun effect_str :: "effect_state \<Rightarrow> string" where
  "effect_str E_none = ''none''"
| "effect_str E_committed = ''committed''"
| "effect_str E_unknown = ''unknown''"

record pending_event =
  pe_type :: string
  pe_payload :: json
  pe_project_to_chat :: bool

text \<open>The fields every outcome has, and one constructor per subclass of \<^verbatim>\<open>StepOutcome\<close>.\<close>

record outcome_base =
  oc_summary :: string
  oc_output :: json
  oc_events :: "pending_event list"

datatype step_outcome =
    Continue outcome_base "string option"
  | Wait outcome_base string "string option" "string option" json
  | Succeeded outcome_base json "json list"
  | Failed outcome_base string string bool effect_state
  | Cancelled outcome_base effect_state

fun base_of :: "step_outcome \<Rightarrow> outcome_base" where
  "base_of (Continue b _) = b"
| "base_of (Wait b _ _ _ _) = b"
| "base_of (Succeeded b _ _) = b"
| "base_of (Failed b _ _ _ _) = b"
| "base_of (Cancelled b _) = b"

fun is_Cancelled :: "step_outcome \<Rightarrow> bool" where
  "is_Cancelled (Cancelled _ _) = True" | "is_Cancelled _ = False"

definition outcome_head :: "string \<Rightarrow> outcome_base \<Rightarrow> dict" where
  "outcome_head kind b =
     [(''kind'', JStr kind), (''summary'', JStr (oc_summary b)), (''output'', oc_output b)]"

text \<open>\<^verbatim>\<open>outcome.model_dump(mode="json")\<close> after \<^verbatim>\<open>pop("events")\<close>.\<close>

fun dump_outcome :: "step_outcome \<Rightarrow> json" where
  "dump_outcome (Continue b nxt) =
     JObj (outcome_head ''continue'' b @ [(''next_phase'', json_of_str nxt)])"
| "dump_outcome (Wait b iid ty pr pl) =
     JObj (outcome_head ''wait'' b @
       [(''interaction_id'', JStr iid), (''interaction_type'', json_of_str ty),
        (''interaction_prompt'', json_of_str pr), (''interaction_payload'', pl)])"
| "dump_outcome (Succeeded b res arts) =
     JObj (outcome_head ''succeeded'' b @ [(''result'', res), (''artifacts'', JArr arts)])"
| "dump_outcome (Failed b code msg retry eff) =
     JObj (outcome_head ''failed'' b @
       [(''error_code'', JStr code), (''message'', JStr msg), (''retryable'', JBool retry),
        (''effect_state'', JStr (effect_str eff))])"
| "dump_outcome (Cancelled b eff) =
     JObj (outcome_head ''cancelled'' b @ [(''effect_state'', JStr (effect_str eff))])"

end
