(* ===== verification/Event_Sanitizer.thy ===== *)
theory Event_Sanitizer
  imports Py_Text
begin

text \<open>
  \<^verbatim>\<open>_sanitize_event_value\<close> of \<^verbatim>\<open>backend/run_service.py\<close>: before a payload reaches the event
  table, secret-bearing fields are redacted, and long strings, large collections and deep
  nesting are cut. The second component of the result is the \<^verbatim>\<open>redacted\<close> flag of the event.
\<close>

section \<open>The function\<close>

definition EVENT_MAX_STRING_BYTES :: nat where
  "EVENT_MAX_STRING_BYTES = 64 * 1024"

definition EVENT_MAX_COLLECTION_ITEMS :: nat where
  "EVENT_MAX_COLLECTION_ITEMS = 256"

definition EVENT_SENSITIVE_KEYS :: "string list" where
  "EVENT_SENSITIVE_KEYS = [''api_key'', ''authorization'', ''cookie'', ''credential'',
     ''credentials'', ''password'', ''refresh_token'', ''secret'', ''token'']"

definition normalized_key :: "string option \<Rightarrow> string" where
  "normalized_key key =
     (case key of None \<Rightarrow> []
      | Some k \<Rightarrow> map (\<lambda>c. if c = CHR ''-'' then CHR ''_'' else c) (lower k))"

definition sensitive_key :: "string option \<Rightarrow> bool" where
  "sensitive_key key =
     (let k = normalized_key key
      in k \<in> set EVENT_SENSITIVE_KEYS \<or> ends_with k ''_password'' \<or> ends_with k ''_secret''
         \<or> ends_with k ''_token'')"

text \<open>
  \<^verbatim>\<open>encoded[:limit].decode("utf-8", errors="ignore")\<close>: a cut through a code point drops the
  incomplete sequence at the end.
\<close>

definition lead_length :: "char \<Rightarrow> nat" where
  "lead_length c =
     (let n = (of_char c :: nat)
      in if n < 128 then 1 else if n < 224 then 2 else if n < 240 then 3 else 4)"

definition trim_utf8 :: "string \<Rightarrow> string" where
  "trim_utf8 s =
     (let conts = takeWhile is_continuation (rev s); rest = dropWhile is_continuation (rev s)
      in case rest of [] \<Rightarrow> []
         | c # cs \<Rightarrow> if lead_length c \<le> 1 + length conts then s else rev cs)"

definition truncation_suffix :: "nat \<Rightarrow> string" where
  "truncation_suffix n = CHR 0x0A # ''...[TRUNCATED: original_bytes='' @ nat_str n @ '']''"

definition sanitize_string :: "string \<Rightarrow> string \<times> bool" where
  "sanitize_string s =
     (if length s \<le> EVENT_MAX_STRING_BYTES then (s, False)
      else let suffix = truncation_suffix (length s);
               limit = EVENT_MAX_STRING_BYTES - length suffix
           in (trim_utf8 (take limit s) @ suffix, True))"

text \<open>
  The loops over the first 256 items carry the number of items still admitted.
\<close>

fun sanitize_value :: "string option \<Rightarrow> nat \<Rightarrow> json \<Rightarrow> json \<times> bool"
  and sanitize_items :: "nat \<Rightarrow> nat \<Rightarrow> (string \<times> json) list \<Rightarrow> (string \<times> json) list \<times> bool"
  and sanitize_list :: "nat \<Rightarrow> nat \<Rightarrow> json list \<Rightarrow> json list \<times> bool"
where
  "sanitize_value key depth v =
     (if sensitive_key key then (JStr ''[REDACTED]'', True)
      else if 12 \<le> depth then (JStr ''[TRUNCATED: maximum event depth]'', True)
      else case v of
        JObj items \<Rightarrow>
          (let over = EVENT_MAX_COLLECTION_ITEMS < length items;
               r = sanitize_items EVENT_MAX_COLLECTION_ITEMS depth items
           in (JObj (if over
                 then AList.update ''_truncated_items''
                        (JInt (int (length items - EVENT_MAX_COLLECTION_ITEMS))) (fst r)
                 else fst r), over \<or> snd r))
      | JArr items \<Rightarrow>
          (let over = EVENT_MAX_COLLECTION_ITEMS < length items;
               r = sanitize_list EVENT_MAX_COLLECTION_ITEMS depth items
           in (JArr (if over
                 then fst r @ [JObj [(''_truncated_items'',
                        JInt (int (length items - EVENT_MAX_COLLECTION_ITEMS)))]]
                 else fst r), over \<or> snd r))
      | JStr s \<Rightarrow> (case sanitize_string s of (s', ch) \<Rightarrow> (JStr s', ch))
      | _ \<Rightarrow> (v, False))"
| "sanitize_items n depth [] = ([], False)"
| "sanitize_items n depth (kv # items) =
     (case n of 0 \<Rightarrow> ([], False)
      | Suc m \<Rightarrow>
          (let a = sanitize_value (Some (fst kv)) (Suc depth) (snd kv);
               r = sanitize_items m depth items
           in ((fst kv, fst a) # fst r, snd a \<or> snd r)))"
| "sanitize_list n depth [] = ([], False)"
| "sanitize_list n depth (x # items) =
     (case n of 0 \<Rightarrow> ([], False)
      | Suc m \<Rightarrow>
          (let a = sanitize_value None (Suc depth) x; r = sanitize_list m depth items
           in (fst a # fst r, snd a \<or> snd r)))"

declare sanitize_value.simps [simp del]

definition sanitize_event_value :: "json \<Rightarrow> json \<times> bool" where
  "sanitize_event_value v = sanitize_value None 0 v"

section \<open>The flag\<close>

text \<open>An unset flag means that nothing was changed.\<close>

lemma sanitize_unflagged:
  "\<not> snd (sanitize_value key d v) \<Longrightarrow> fst (sanitize_value key d v) = v"
  "\<not> snd (sanitize_items n d kvs) \<Longrightarrow> fst (sanitize_items n d kvs) = take n kvs"
  "\<not> snd (sanitize_list n d xs) \<Longrightarrow> fst (sanitize_list n d xs) = take n xs"
proof (induction key d v and n d kvs and n d xs
    rule: sanitize_value_sanitize_items_sanitize_list.induct)
  case (1 key depth v)
  then show ?case
    by (cases v)
      (auto simp: sanitize_value.simps[of key depth] sanitize_string_def Let_def
        split: if_splits prod.splits)
next
  case (3 n depth kv items)
  then show ?case by (cases n) (auto simp: Let_def)
next
  case (5 n depth x items)
  then show ?case by (cases n) (auto simp: Let_def)
qed simp_all

section \<open>Redaction\<close>

text \<open>
  A value is redacted when, at every level, an entry under a sensitive key holds the marker.
\<close>

fun redacted_json :: "json \<Rightarrow> bool" where
  "redacted_json (JArr xs) = list_all redacted_json xs"
| "redacted_json (JObj kvs) =
     list_all (\<lambda>kv. (sensitive_key (Some (fst kv)) \<longrightarrow> snd kv = JStr ''[REDACTED]'')
                    \<and> redacted_json (snd kv)) kvs"
| "redacted_json _ = True"

lemma truncated_items_key_plain: "\<not> sensitive_key (Some ''_truncated_items'')"
  by code_simp

lemma list_all_update:
  "list_all P kvs \<Longrightarrow> P (k, v) \<Longrightarrow> list_all P (AList.update k v kvs)"
  by (induction kvs) auto

lemma sanitize_redacts:
  "redacted_json (fst (sanitize_value key d v)) \<and>
     (sensitive_key key \<longrightarrow> fst (sanitize_value key d v) = JStr ''[REDACTED]'')"
  "list_all (\<lambda>kv. (sensitive_key (Some (fst kv)) \<longrightarrow> snd kv = JStr ''[REDACTED]'')
                    \<and> redacted_json (snd kv)) (fst (sanitize_items n d kvs))"
  "list_all redacted_json (fst (sanitize_list n d xs))"
proof (induction key d v and n d kvs and n d xs
    rule: sanitize_value_sanitize_items_sanitize_list.induct)
  case (1 key depth v)
  then show ?case
    by (cases v)
      (auto simp: sanitize_value.simps[of key depth] Let_def truncated_items_key_plain
        intro!: list_all_update split: prod.splits)
next
  case (3 n depth kv items)
  then show ?case by (cases n) (auto simp: Let_def)
next
  case (5 n depth x items)
  then show ?case by (cases n) (auto simp: Let_def)
qed simp_all

section \<open>Bounds\<close>

text \<open>A decimal numeral of a number below \<open>10 ^ k\<close> has at most \<open>k\<close> digits.\<close>

lemma nat_str_length: "0 < k \<Longrightarrow> n < 10 ^ k \<Longrightarrow> length (nat_str n) \<le> k"
proof (induction n arbitrary: k rule: nat_str.induct)
  case (1 n)
  show ?case
  proof (cases "n < 10")
    case True
    with "1.prems" show ?thesis by (simp add: nat_str.simps[of n])
  next
    case False
    obtain j where k: "k = Suc j" using "1.prems" by (cases k) auto
    have j: "0 < j" using "1.prems" False k by (cases j) auto
    have "n div 10 < 10 ^ j" using "1.prems" k by (simp add: less_mult_imp_div_less)
    with "1.IH" False j have "length (nat_str (n div 10)) \<le> j" by simp
    with False k show ?thesis by (simp add: nat_str.simps[of n])
  qed
qed

text \<open>The nesting depth that is left, and the size of every string and collection.\<close>

fun bounded_json :: "nat \<Rightarrow> json \<Rightarrow> bool" where
  "bounded_json d (JStr s) = (length s \<le> EVENT_MAX_STRING_BYTES)"
| "bounded_json d (JArr xs) =
     (case d of 0 \<Rightarrow> False
      | Suc e \<Rightarrow> length xs \<le> Suc EVENT_MAX_COLLECTION_ITEMS \<and> list_all (bounded_json e) xs)"
| "bounded_json d (JObj kvs) =
     (case d of 0 \<Rightarrow> False
      | Suc e \<Rightarrow> length kvs \<le> Suc EVENT_MAX_COLLECTION_ITEMS \<and>
                list_all (\<lambda>kv. bounded_json e (snd kv)) kvs)"
| "bounded_json d _ = True"

lemma length_trim_utf8: "length (trim_utf8 s) \<le> length s"
proof -
  have "length (dropWhile is_continuation (rev s)) \<le> length s"
    using length_dropWhile_le[of is_continuation "rev s"] by simp
  then show ?thesis by (auto simp: trim_utf8_def Let_def split: list.splits)
qed

lemma length_alist_update: "length (AList.update k v kvs) \<le> Suc (length kvs)"
  by (induction kvs) auto

text \<open>
  Strings short enough that their length has at most 1000 digits: every string that fits in
  memory. Without it the truncation notice, which names the length, could itself be long.
\<close>

definition digit_limit :: nat where
  "digit_limit = 1000"

fun addressable :: "json \<Rightarrow> bool" where
  "addressable (JStr s) = (length s < 10 ^ digit_limit)"
| "addressable (JArr xs) = list_all addressable xs"
| "addressable (JObj kvs) = list_all (\<lambda>kv. addressable (snd kv)) kvs"
| "addressable _ = True"

lemma sanitize_string_bound:
  assumes "length s < 10 ^ digit_limit"
  shows "length (fst (sanitize_string s)) \<le> EVENT_MAX_STRING_BYTES"
proof -
  let ?lim = "EVENT_MAX_STRING_BYTES - length (truncation_suffix (length s))"
  have "length (nat_str (length s)) \<le> digit_limit"
    by (rule nat_str_length[OF _ assms]) (simp add: digit_limit_def)
  then have suf: "length (truncation_suffix (length s)) \<le> EVENT_MAX_STRING_BYTES"
    by (simp add: truncation_suffix_def EVENT_MAX_STRING_BYTES_def digit_limit_def)
  have "length (trim_utf8 (take ?lim s)) \<le> ?lim"
    using length_trim_utf8[of "take ?lim s"] by simp
  with suf show ?thesis by (auto simp: sanitize_string_def Let_def)
qed

lemma length_sanitize_items: "length (fst (sanitize_items n d kvs)) \<le> n"
  by (induction kvs arbitrary: n) (auto simp: Let_def split: nat.splits)

lemma length_sanitize_list: "length (fst (sanitize_list n d xs)) \<le> n"
  by (induction xs arbitrary: n) (auto simp: Let_def split: nat.splits)

lemma bounded_marker:
  "bounded_json d (JStr ''[REDACTED]'')" "bounded_json d (JStr ''[TRUNCATED: maximum event depth]'')"
  by (simp_all add: EVENT_MAX_STRING_BYTES_def)

text \<open>Assembling a collection from its sanitised items, with the notice of a cut.\<close>

lemma bounded_obj:
  assumes "list_all (\<lambda>kv. bounded_json e (snd kv)) r" "length r \<le> EVENT_MAX_COLLECTION_ITEMS"
  shows "bounded_json (Suc e) (JObj (if over then AList.update ''_truncated_items'' (JInt k) r else r))"
  using assms length_alist_update[of "''_truncated_items''" "JInt k" r]
  by (auto intro!: list_all_update)

lemma bounded_arr:
  assumes "list_all (bounded_json (Suc e)) r" "length r \<le> EVENT_MAX_COLLECTION_ITEMS"
  shows "bounded_json (Suc (Suc e))
           (JArr (if over then r @ [JObj [(''_truncated_items'', JInt k)]] else r))"
  using assms by (simp add: EVENT_MAX_COLLECTION_ITEMS_def)

lemma sanitize_bounded:
  "addressable v \<Longrightarrow> bounded_json (13 - d) (fst (sanitize_value key d v))"
  "list_all (\<lambda>kv. addressable (snd kv)) kvs \<Longrightarrow>
     list_all (\<lambda>kv. bounded_json (12 - d) (snd kv)) (fst (sanitize_items n d kvs))"
  "list_all addressable xs \<Longrightarrow>
     list_all (bounded_json (12 - d)) (fst (sanitize_list n d xs))"
proof (induction key d v and n d kvs and n d xs
    rule: sanitize_value_sanitize_items_sanitize_list.induct)
  case (1 key depth v)
  show ?case
  proof (cases "sensitive_key key \<or> 12 \<le> depth")
    case True
    then show ?thesis
      by (auto simp: sanitize_value.simps[of key depth] EVENT_MAX_STRING_BYTES_def)
  next
    case False
    define e where "e = 11 - depth"
    with False have e: "13 - depth = Suc (Suc e)" "12 - depth = Suc e" by auto
    show ?thesis
    proof (cases v)
      case (JStr s)
      with 1 False sanitize_string_bound[of s] show ?thesis
        by (auto simp: sanitize_value.simps[of key depth] split: prod.splits)
    next
      case (JArr xs)
      with 1 False e bounded_arr[of e "fst (sanitize_list EVENT_MAX_COLLECTION_ITEMS depth xs)"]
      show ?thesis
        by (simp add: sanitize_value.simps[of key depth] length_sanitize_list Let_def
            del: bounded_json.simps)
    next
      case (JObj kvs)
      with 1 False e bounded_obj[of "Suc e" "fst (sanitize_items EVENT_MAX_COLLECTION_ITEMS depth kvs)"]
      show ?thesis
        by (simp add: sanitize_value.simps[of key depth] length_sanitize_items Let_def
            del: bounded_json.simps)
    qed (use False in \<open>simp_all add: sanitize_value.simps[of key depth]\<close>)
  qed
next
  case (3 n depth kv items)
  then show ?case by (cases n) (auto simp: Let_def)
next
  case (5 n depth x items)
  then show ?case by (cases n) (auto simp: Let_def)
qed simp_all

end
