(* ===== verification/Run_Store.thy ===== *)
theory Run_Store
  imports Run_Model Event_Sanitizer
begin

text \<open>
  The tables of \<^verbatim>\<open>workspace/.ambient/runs.db\<close> (\<^verbatim>\<open>RunStore._initialize\<close>), one record per row and
  one list per table in rowid order, with the file system the staging handles point into.
  A timestamp is a number of microseconds: the code compares ISO 8601 texts of one fixed zone,
  whose text order is the time order. \<^verbatim>\<open>_now()\<close> reads \<open>db_clock\<close>; a transaction is an instant,
  and time passes between transactions. The identity \<^verbatim>\<open>uuid4()\<close> gives an event is the number of
  identities drawn so far.
\<close>

section \<open>Rows\<close>

type_synonym time = nat

definition seconds :: "nat \<Rightarrow> time" where
  "seconds n = n * 1000000"

record run_row =
  r_id :: string
  r_owner_id :: string
  r_action_id :: string
  r_action_title :: string
  r_source_type :: string
  r_source_id :: "string option"
  r_adapter_type :: string
  r_runtime_id :: string
  r_tool_name :: "string option"
  r_input :: json
  r_status :: run_status
  r_progress :: pyfloat
  r_summary :: string
  r_result :: "json option"
  r_error :: "json option"
  r_checkpoint :: "jtext option"
  r_artifacts :: json
  r_state :: "jtext option"
  r_workflow_type :: string
  r_workflow_version :: int
  r_recovery :: string
  r_parent_run_id :: "string option"
  r_retry_of :: "string option"
  r_idempotency_key :: "string option"
  r_correlation :: "json option"
  r_attempt :: int
  r_version :: int
  r_created_at :: time
  r_updated_at :: time
  r_started_at :: "time option"
  r_finished_at :: "time option"
  r_lease_owner :: "string option"
  r_lease_expires_at :: "time option"
  r_lease_epoch :: int

text \<open>
  Columns of an event that the code fills with whatever a checkpoint or payload holds are
  JSON values, with null for SQL NULL.
\<close>

record event_row =
  e_sequence :: nat
  e_event_id :: nat
  e_schema_version :: int
  e_stream_epoch :: string
  e_run_id :: string
  e_session_id :: json
  e_step_id :: json
  e_attempt :: json
  e_trace_id :: json
  e_duration_ms :: json
  e_model_usage :: json
  e_redacted :: bool
  e_type :: string
  e_payload :: json
  e_created_at :: time

datatype inter_status = I_pending | I_resolved | I_cancelled

record interaction_row =
  i_id :: string
  i_run_id :: string
  i_type :: string
  i_prompt :: string
  i_payload :: json
  i_status :: inter_status
  i_response :: "json option"
  i_created_at :: time
  i_resolved_at :: "time option"
  i_run_version :: "int option"

datatype grant_status = G_pending | G_applied

record outbox_row =
  g_interaction_id :: string
  g_run_id :: string
  g_permission_type :: string
  g_value :: json
  g_status :: grant_status
  g_attempts :: nat
  g_next_attempt_at :: "time option"
  g_created_at :: time
  g_completed_at :: "time option"

datatype step_status = T_running | T_succeeded | T_failed | T_cancelled | T_interrupted

record step_row =
  s_row_id :: nat
  s_run_id :: string
  s_step_key :: string
  s_status :: step_status
  s_attempt :: int
  s_output :: "json option"
  s_started_at :: "time option"
  s_finished_at :: "time option"

section \<open>The file system of staged Apps\<close>

text \<open>
  What the code asks of the file system: which directories exist, where links point, the
  promotion marker of a live App, the digest of its \<^verbatim>\<open>controller.js\<close>, the error its verifier (an
  external process) reports if it reports one, and directories that cannot be removed.
\<close>

record file_system =
  fs_dirs :: "string list"
  fs_links :: "(string \<times> string) list"
  fs_markers :: "(string \<times> jtext) list"
  fs_hashes :: "(string \<times> string) list"
  fs_verdicts :: "(string \<times> py_error) list"
  fs_stuck :: "string list"

section \<open>The store\<close>

record store =
  db_runs :: "run_row list"
  db_events :: "event_row list"
  db_stream_epoch :: "string option"
  db_interactions :: "interaction_row list"
  db_outbox :: "outbox_row list"
  db_steps :: "step_row list"
  db_last_event :: nat
  db_last_step :: nat
  db_uuids :: nat
  db_clock :: time
  db_workspace :: string
  db_fs :: file_system

definition find_run :: "store \<Rightarrow> string \<Rightarrow> run_row option" where
  "find_run s rid = lookup_by r_id rid (db_runs s)"

definition find_interaction :: "store \<Rightarrow> string \<Rightarrow> interaction_row option" where
  "find_interaction s iid = lookup_by i_id iid (db_interactions s)"

text \<open>\<^verbatim>\<open>UPDATE runs SET ... WHERE id=?\<close>.\<close>

definition upd_run :: "string \<Rightarrow> (run_row \<Rightarrow> run_row) \<Rightarrow> store \<Rightarrow> store" where
  "upd_run rid f s = s\<lparr>db_runs := update_where (\<lambda>r. r_id r = rid) f (db_runs s)\<rparr>"

definition upd_interactions ::
  "(interaction_row \<Rightarrow> bool) \<Rightarrow> (interaction_row \<Rightarrow> interaction_row) \<Rightarrow> store \<Rightarrow> store" where
  "upd_interactions P f s = s\<lparr>db_interactions := update_where P f (db_interactions s)\<rparr>"

definition upd_steps :: "(step_row \<Rightarrow> bool) \<Rightarrow> (step_row \<Rightarrow> step_row) \<Rightarrow> store \<Rightarrow> store" where
  "upd_steps P f s = s\<lparr>db_steps := update_where P f (db_steps s)\<rparr>"

definition upd_outbox :: "(outbox_row \<Rightarrow> bool) \<Rightarrow> (outbox_row \<Rightarrow> outbox_row) \<Rightarrow> store \<Rightarrow> store" where
  "upd_outbox P f s = s\<lparr>db_outbox := update_where P f (db_outbox s)\<rparr>"

text \<open>
  \<^verbatim>\<open>UPDATE run_interactions SET status='cancelled', resolved_at=? WHERE run_id=? AND
  status='pending'\<close>, and the update of the running steps of a run, both of which many
  operations issue.
\<close>

definition cancel_pending :: "string \<Rightarrow> store \<Rightarrow> store" where
  "cancel_pending rid s =
     upd_interactions (\<lambda>i. i_run_id i = rid \<and> i_status i = I_pending)
       (\<lambda>i. i\<lparr>i_status := I_cancelled, i_resolved_at := Some (db_clock s)\<rparr>) s"

definition close_running_steps :: "string \<Rightarrow> step_status \<Rightarrow> store \<Rightarrow> store" where
  "close_running_steps rid st s =
     upd_steps (\<lambda>t. s_run_id t = rid \<and> s_status t = T_running)
       (\<lambda>t. t\<lparr>s_status := st, s_finished_at := Some (db_clock s)\<rparr>) s"

definition has_running_step :: "store \<Rightarrow> string \<Rightarrow> bool" where
  "has_running_step s rid = list_ex (\<lambda>t. s_run_id t = rid \<and> s_status t = T_running) (db_steps s)"

definition pending_of :: "store \<Rightarrow> string \<Rightarrow> interaction_row list" where
  "pending_of s rid = filter (\<lambda>i. i_run_id i = rid \<and> i_status i = I_pending) (db_interactions s)"

section \<open>Appending an event\<close>

text \<open>The checkpoint of a row as \<^verbatim>\<open>_append_event\<close> reads it: a dictionary, else the empty one.\<close>

definition state_dict :: "run_row \<Rightarrow> json" where
  "state_dict r = (case loads (r_state r) of Some (JObj d) \<Rightarrow> JObj d | _ \<Rightarrow> JObj [])"

text \<open>\<^verbatim>\<open>int(x or 0)\<close> and \<^verbatim>\<open>float(x or 0.0)\<close> of a stored counter.\<close>

definition as_int :: "json option \<Rightarrow> int" where
  "as_int v = (case Option.bind v num_of of None \<Rightarrow> 0
     | Some x \<Rightarrow> if x < 0 then - \<lfloor>- x\<rfloor> else \<lfloor>x\<rfloor>)"

definition as_float :: "json option \<Rightarrow> pyfloat" where
  "as_float v = (case Option.bind v num_of of None \<Rightarrow> 0 | Some x \<Rightarrow> x)"

definition event_session :: "run_row option \<Rightarrow> json" where
  "event_session r =
     (case r of None \<Rightarrow> JNull
      | Some row \<Rightarrow>
          (case dget (state_dict row) ''session_id'' of
             Some v \<Rightarrow> if truthy v then v
               else if r_source_type row = ''chat'' then json_of_str (r_source_id row) else JNull
           | None \<Rightarrow> if r_source_type row = ''chat'' then json_of_str (r_source_id row) else JNull))"

definition event_step :: "json \<Rightarrow> string option \<Rightarrow> json \<Rightarrow> json" where
  "event_step state override payload =
     (case override of
        Some (c # cs) \<Rightarrow> JStr (c # cs)
      | _ \<Rightarrow> (case dget payload ''step_id'' of Some v \<Rightarrow> v
             | None \<Rightarrow> (case dget payload ''step_key'' of Some v \<Rightarrow> v
                | None \<Rightarrow> json_or_null (dget state ''phase''))))"

definition event_attempt :: "json \<Rightarrow> int option \<Rightarrow> json \<Rightarrow> json" where
  "event_attempt state override payload =
     (if override \<noteq> None \<and> override \<noteq> Some 0 then JInt (the override)
      else (case dget payload ''attempt'' of Some v \<Rightarrow> v
            | None \<Rightarrow> json_or_null (dget state ''attempt'')))"

definition event_trace :: "json \<Rightarrow> string option \<Rightarrow> string \<Rightarrow> json" where
  "event_trace state override rid =
     (case override of
        Some (c # cs) \<Rightarrow> JStr (c # cs)
      | _ \<Rightarrow> (case dget (subdict state ''data'') ''trace_id'' of
               Some v \<Rightarrow> if truthy v then v else JStr rid
             | None \<Rightarrow> JStr rid))"

definition event_duration :: "json \<Rightarrow> json" where
  "event_duration payload =
     (case dget payload ''duration_ms'' of
        Some (JInt n) \<Rightarrow> JInt n | Some (JFloat x) \<Rightarrow> JFloat x | _ \<Rightarrow> JNull)"

text \<open>
  The counters of a checkpoint come from its validated budget and are numbers; for one that is not, where the code
  raises in \<^verbatim>\<open>int()\<close> or \<^verbatim>\<open>float()\<close>, the model counts nothing.
\<close>

definition event_usage :: "json \<Rightarrow> json \<Rightarrow> json" where
  "event_usage state payload =
     (case dget payload ''model_usage'' of
        Some (JObj d) \<Rightarrow> JObj d
      | _ \<Rightarrow>
          (let budget = subdict state ''budget''
           in if truthy budget
              then JObj [(''model_turns'', JInt (as_int (dget budget ''model_turns''))),
                         (''tokens'', JInt (as_int (dget budget ''tokens_used''))),
                         (''cost_usd'', JFloat (as_float (dget budget ''cost_usd'')))]
              else JNull))"

text \<open>
  \<^verbatim>\<open>RunStore._append_event\<close>: the row is written into the transaction of the caller and the
  sequence number is the next value of the AUTOINCREMENT counter.
\<close>

definition append_event_with ::
  "string option \<Rightarrow> int option \<Rightarrow> string option \<Rightarrow> string \<Rightarrow> string \<Rightarrow> json \<Rightarrow> store \<Rightarrow> store" where
  "append_event_with step_ov att_ov trace_ov rid ty payload s =
     (let run = find_run s rid;
          state = (case run of None \<Rightarrow> JObj [] | Some r \<Rightarrow> state_dict r);
          clean = sanitize_event_value payload;
          row = \<lparr>e_sequence = Suc (db_last_event s), e_event_id = db_uuids s,
            e_schema_version = 1,
            e_stream_epoch = (case db_stream_epoch s of None \<Rightarrow> ''legacy'' | Some ep \<Rightarrow> ep),
            e_run_id = rid, e_session_id = event_session run,
            e_step_id = event_step state step_ov payload,
            e_attempt = event_attempt state att_ov payload,
            e_trace_id = event_trace state trace_ov rid,
            e_duration_ms = event_duration payload,
            e_model_usage = event_usage state payload,
            e_redacted = snd clean, e_type = ty, e_payload = fst clean,
            e_created_at = db_clock s\<rparr>
      in s\<lparr>db_events := db_events s @ [row], db_last_event := Suc (db_last_event s),
           db_uuids := Suc (db_uuids s)\<rparr>)"

abbreviation add_event :: "string \<Rightarrow> string \<Rightarrow> json \<Rightarrow> store \<Rightarrow> store" where
  "add_event \<equiv> append_event_with None None None"

section \<open>What each primitive leaves alone\<close>

lemma upd_run_frame [simp, frame_simps]:
  "db_events (upd_run rid f s) = db_events s"
  "db_interactions (upd_run rid f s) = db_interactions s"
  "db_outbox (upd_run rid f s) = db_outbox s" "db_steps (upd_run rid f s) = db_steps s"
  "db_last_event (upd_run rid f s) = db_last_event s"
  "db_last_step (upd_run rid f s) = db_last_step s" "db_clock (upd_run rid f s) = db_clock s"
  "db_uuids (upd_run rid f s) = db_uuids s" "db_fs (upd_run rid f s) = db_fs s"
  "db_stream_epoch (upd_run rid f s) = db_stream_epoch s"
  "db_workspace (upd_run rid f s) = db_workspace s"
  by (simp_all add: upd_run_def)

lemma upd_interactions_frame [simp, frame_simps]:
  "db_runs (upd_interactions P g s) = db_runs s" "db_events (upd_interactions P g s) = db_events s"
  "db_outbox (upd_interactions P g s) = db_outbox s" "db_steps (upd_interactions P g s) = db_steps s"
  "db_last_event (upd_interactions P g s) = db_last_event s"
  "db_last_step (upd_interactions P g s) = db_last_step s"
  "db_clock (upd_interactions P g s) = db_clock s" "db_uuids (upd_interactions P g s) = db_uuids s"
  "db_fs (upd_interactions P g s) = db_fs s"
  "db_stream_epoch (upd_interactions P g s) = db_stream_epoch s"
  "db_workspace (upd_interactions P g s) = db_workspace s"
  by (simp_all add: upd_interactions_def)

lemma upd_steps_frame [simp, frame_simps]:
  "db_runs (upd_steps Q h s) = db_runs s" "db_events (upd_steps Q h s) = db_events s"
  "db_outbox (upd_steps Q h s) = db_outbox s" "db_interactions (upd_steps Q h s) = db_interactions s"
  "db_last_event (upd_steps Q h s) = db_last_event s"
  "db_last_step (upd_steps Q h s) = db_last_step s"
  "db_clock (upd_steps Q h s) = db_clock s" "db_uuids (upd_steps Q h s) = db_uuids s"
  "db_fs (upd_steps Q h s) = db_fs s" "db_stream_epoch (upd_steps Q h s) = db_stream_epoch s"
  "db_workspace (upd_steps Q h s) = db_workspace s"
  by (simp_all add: upd_steps_def)

lemma upd_outbox_frame [simp, frame_simps]:
  "db_runs (upd_outbox R k s) = db_runs s" "db_events (upd_outbox R k s) = db_events s"
  "db_steps (upd_outbox R k s) = db_steps s" "db_interactions (upd_outbox R k s) = db_interactions s"
  "db_last_event (upd_outbox R k s) = db_last_event s"
  "db_last_step (upd_outbox R k s) = db_last_step s"
  "db_clock (upd_outbox R k s) = db_clock s" "db_uuids (upd_outbox R k s) = db_uuids s"
  "db_fs (upd_outbox R k s) = db_fs s" "db_stream_epoch (upd_outbox R k s) = db_stream_epoch s"
  "db_workspace (upd_outbox R k s) = db_workspace s"
  by (simp_all add: upd_outbox_def)

lemma append_event_frame [simp, frame_simps]:
  "db_runs (append_event_with a b c rid ty p s) = db_runs s"
  "db_interactions (append_event_with a b c rid ty p s) = db_interactions s"
  "db_outbox (append_event_with a b c rid ty p s) = db_outbox s"
  "db_steps (append_event_with a b c rid ty p s) = db_steps s"
  "db_last_step (append_event_with a b c rid ty p s) = db_last_step s"
  "db_clock (append_event_with a b c rid ty p s) = db_clock s"
  "db_fs (append_event_with a b c rid ty p s) = db_fs s"
  "db_stream_epoch (append_event_with a b c rid ty p s) = db_stream_epoch s"
  "db_workspace (append_event_with a b c rid ty p s) = db_workspace s"
  "db_last_event (append_event_with a b c rid ty p s) = Suc (db_last_event s)"
  by (simp_all add: append_event_with_def Let_def)

lemma cancel_pending_frame [simp, frame_simps]:
  "db_runs (cancel_pending rid s) = db_runs s" "db_events (cancel_pending rid s) = db_events s"
  "db_outbox (cancel_pending rid s) = db_outbox s" "db_steps (cancel_pending rid s) = db_steps s"
  "db_last_event (cancel_pending rid s) = db_last_event s"
  "db_last_step (cancel_pending rid s) = db_last_step s"
  "db_clock (cancel_pending rid s) = db_clock s" "db_uuids (cancel_pending rid s) = db_uuids s"
  "db_fs (cancel_pending rid s) = db_fs s"
  "db_stream_epoch (cancel_pending rid s) = db_stream_epoch s"
  "db_workspace (cancel_pending rid s) = db_workspace s"
  by (simp_all add: cancel_pending_def)

lemma close_running_steps_frame [simp, frame_simps]:
  "db_runs (close_running_steps rid st s) = db_runs s"
  "db_events (close_running_steps rid st s) = db_events s"
  "db_outbox (close_running_steps rid st s) = db_outbox s"
  "db_interactions (close_running_steps rid st s) = db_interactions s"
  "db_last_event (close_running_steps rid st s) = db_last_event s"
  "db_last_step (close_running_steps rid st s) = db_last_step s"
  "db_clock (close_running_steps rid st s) = db_clock s"
  "db_uuids (close_running_steps rid st s) = db_uuids s"
  "db_fs (close_running_steps rid st s) = db_fs s"
  "db_stream_epoch (close_running_steps rid st s) = db_stream_epoch s"
  "db_workspace (close_running_steps rid st s) = db_workspace s"
  by (simp_all add: close_running_steps_def)

lemma find_run_upd_run:
  assumes "\<And>r. r_id (f r) = r_id r"
  shows "find_run (upd_run rid f s) rid' =
    (if rid' = rid then map_option f (find_run s rid') else find_run s rid')"
proof (cases "find_run s rid'")
  case None
  with assms show ?thesis
    by (auto simp: find_run_def upd_run_def lookup_by_update_where)
next
  case (Some r)
  then have "r_id r = rid'" by (auto simp: find_run_def dest: lookup_by_SomeD)
  with assms Some show ?thesis
    by (auto simp: find_run_def upd_run_def lookup_by_update_where)
qed

lemma find_run_frame [simp]:
  "find_run (upd_interactions P g s) x = find_run s x"
  "find_run (upd_steps Q h s) x = find_run s x"
  "find_run (upd_outbox R k s) x = find_run s x"
  "find_run (append_event_with a b c rid ty p s) x = find_run s x"
  "find_run (cancel_pending rid s) x = find_run s x"
  "find_run (close_running_steps rid st s) x = find_run s x"
  by (simp_all add: find_run_def)

lemma find_run_id: "find_run s rid = Some r \<Longrightarrow> r_id r = rid"
  by (auto simp: find_run_def dest: lookup_by_SomeD)

lemma find_run_in: "find_run s rid = Some r \<Longrightarrow> r \<in> set (db_runs s)"
  by (auto simp: find_run_def dest: lookup_by_SomeD)

end
