(* ===== verification/Run_Staging.thy ===== *)
theory Run_Staging
  imports Run_Store
begin

text \<open>
  The staged App of a Widget run: the handle kept in the checkpoint under \<^verbatim>\<open>data.staged_app\<close>, the
  tombstone \<^verbatim>\<open>data.staged_app_cleanup_pending\<close> that replaces it before a deletion
  (\<^verbatim>\<open>backend/run_service.py\<close>, lines 285 to 395), and the constrained deletion and promotion
  check of \<^verbatim>\<open>backend/coding_agent_acp.py\<close>.
\<close>

section \<open>Queries to the file system\<close>

definition fs_is_link :: "file_system \<Rightarrow> string \<Rightarrow> bool" where
  "fs_is_link fs p = (map_of (fs_links fs) p \<noteq> None)"

definition fs_resolve :: "file_system \<Rightarrow> string \<Rightarrow> string" where
  "fs_resolve fs p = (case map_of (fs_links fs) p of None \<Rightarrow> p | Some t \<Rightarrow> t)"

definition fs_is_dir :: "file_system \<Rightarrow> string \<Rightarrow> bool" where
  "fs_is_dir fs p = (p = ''.'' \<or> fs_resolve fs p \<in> set (fs_dirs fs))"

text \<open>\<^verbatim>\<open>p.exists() or p.is_symlink()\<close>.\<close>

definition fs_present :: "file_system \<Rightarrow> string \<Rightarrow> bool" where
  "fs_present fs p = (fs_is_dir fs p \<or> fs_is_link fs p)"

definition fs_rmtree :: "file_system \<Rightarrow> string \<Rightarrow> file_system result" where
  "fs_rmtree fs p =
     (if p \<in> set (fs_stuck fs) then Inl (OSError ''directory cannot be removed'')
      else Inr (fs\<lparr>fs_dirs := filter (\<lambda>d. d \<noteq> p \<and> \<not> starts_with d (p @ ''/'')) (fs_dirs fs)\<rparr>))"

section \<open>Handles\<close>

record staged_result =
  sr_output :: string
  sr_app_id :: string
  sr_staging_dir :: string
  sr_live_dir :: string

definition staged_of :: "json \<Rightarrow> staged_result" where
  "staged_of staged = \<lparr>sr_output = str_or_empty (dget staged ''output''),
     sr_app_id = str_or_empty (dget staged ''app_id''),
     sr_staging_dir = mk_path (str_or_empty (dget staged ''staging_dir'')),
     sr_live_dir = mk_path (str_or_empty (dget staged ''live_dir''))\<rparr>"

definition WINDOWS_RESERVED_NAMES :: "string list" where
  "WINDOWS_RESERVED_NAMES = [''aux'', ''clock$'', ''com1'', ''com2'', ''com3'', ''com4'', ''com5'',
     ''com6'', ''com7'', ''com8'', ''com9'', ''con'', ''lpt1'', ''lpt2'', ''lpt3'', ''lpt4'',
     ''lpt5'', ''lpt6'', ''lpt7'', ''lpt8'', ''lpt9'', ''nul'', ''prn'']"

definition validate_app_id :: "string \<Rightarrow> string result" where
  "validate_app_id app_id =
     (if 64 < length app_id \<or> \<not> kebab_case app_id
      then Inl (ValueError ''id must be a lowercase kebab-case identifier of at most 64 characters'')
      else if lower app_id \<in> set WINDOWS_RESERVED_NAMES
      then Inl (ValueError ''id is reserved by the filesystem'')
      else Inr app_id)"

definition staging_name_ok :: "string \<Rightarrow> string \<Rightarrow> bool" where
  "staging_name_ok app_id name =
     (let pre = ''.'' @ app_id @ ''.staging-''
      in starts_with name pre \<and> length name = length pre + 32
         \<and> list_all is_hex (drop (length pre) name))"

definition validated_staging_handle ::
  "file_system \<Rightarrow> staged_result \<Rightarrow> bool \<Rightarrow> (string \<times> string) result" where
  "validated_staging_handle fs res require_exists =
     (case validate_app_id (sr_app_id res) of
        Inl e \<Rightarrow> Inl (CodingAgentACPInputError (''invalid staged app_id: '' @ error_message e))
      | Inr _ \<Rightarrow>
          (let parent = path_parent (sr_live_dir res)
           in if \<not> fs_is_dir fs parent
              then Inl (CodingAgentACPInputError ''Invalid Apps directory'')
              else
                let apps_root = fs_resolve fs parent;
                    expected_live = path_join apps_root (sr_app_id res);
                    staging = sr_staging_dir res
                in if fs_resolve fs (sr_live_dir res) \<noteq> expected_live
                   then Inl (CodingAgentACPInputError ''Staged live path does not match its App ID'')
                   else if fs_resolve fs (path_parent staging) \<noteq> apps_root
                        \<or> \<not> staging_name_ok (sr_app_id res) (path_name staging)
                   then Inl (CodingAgentACPInputError
                     ''Staging path is not a recognized direct child of the Apps directory'')
                   else if fs_is_link fs staging
                   then Inl (CodingAgentACPInputError
                     ''Staging path must not be a symbolic link or junction'')
                   else if require_exists \<and> \<not> fs_is_dir fs staging
                   then Inl (CodingAgentACPInputError ''Staging directory no longer exists'')
                   else if fs_is_link fs expected_live
                   then Inl (CodingAgentACPInputError
                     ''Live App path must not be a symbolic link or junction'')
                   else Inr (expected_live, staging)))"

definition discard_coding_agent_staging :: "file_system \<Rightarrow> staged_result \<Rightarrow> file_system result" where
  "discard_coding_agent_staging fs res =
     (case validated_staging_handle fs res False of
        Inl e \<Rightarrow> Inl e
      | Inr (_, staging) \<Rightarrow> if fs_is_dir fs staging then fs_rmtree fs staging else Inr fs)"

text \<open>
  \<^verbatim>\<open>validate_coding_agent_promotion\<close>: whether the live App carries the durable marker of this run.
\<close>

definition validate_coding_agent_promotion ::
  "file_system \<Rightarrow> staged_result \<Rightarrow> string \<Rightarrow> string option result" where
  "validate_coding_agent_promotion fs res run_id =
     (case validated_staging_handle fs res False of
        Inl e \<Rightarrow> Inl e
      | Inr (live, staging) \<Rightarrow>
          if fs_is_dir fs staging \<or> \<not> fs_is_dir fs live \<or> fs_is_link fs live then Inr None
          else (case map_of (fs_markers fs) live of
              None \<Rightarrow> Inr None
            | Some None \<Rightarrow>
                Inl (CodingAgentACPProtocolError ''Published App has an invalid promotion marker'')
            | Some (Some payload) \<Rightarrow>
                if \<not> is_dict payload then Inl (AttributeError ''get'')
                else if dget payload ''run_id'' \<noteq> Some (JStr run_id) then Inr None
                else (case map_of (fs_verdicts fs) live of
                    Some e \<Rightarrow> Inl e
                  | None \<Rightarrow>
                      if dget payload ''artifact_hash'' \<noteq> map_option JStr (map_of (fs_hashes fs) live)
                      then Inl (CodingAgentACPProtocolError
                        ''Published App does not match its promotion marker'')
                      else Inr (Some (path_join live ''controller.js'')))))"

section \<open>Handles inside a checkpoint\<close>

text \<open>
  The three functions below mutate \<^verbatim>\<open>state["data"]\<close>; the model returns the new state. A state
  whose \<^verbatim>\<open>data\<close> is not a dictionary, or which has no handle, is left alone.
\<close>

definition with_data :: "(json \<Rightarrow> json) \<Rightarrow> json \<Rightarrow> json" where
  "with_data f state = (case dget state ''data'' of
     Some data \<Rightarrow> dset ''data'' (f data) state | None \<Rightarrow> state)"

definition discard_staged_app_from_state ::
  "file_system \<Rightarrow> json \<Rightarrow> (file_system \<times> json \<times> string option) result" where
  "discard_staged_app_from_state fs state =
     (case dget state ''data'' of
        Some (JObj d) \<Rightarrow>
          if \<not> truthy_opt (map_of d ''staged_app'') then Inr (fs, state, None)
          else (case map_of d ''staged_app'' of
              Some (JObj h) \<Rightarrow>
                if truthy_opt (map_of h ''legacy_promoted'')
                then Inl (ValueError ''legacy-promoted App cannot be discarded as staging'')
                else
                  let res = staged_of (JObj h);
                      done = (if fs_present fs (sr_staging_dir res)
                        then discard_coding_agent_staging fs res else Inr fs)
                  in (case done of
                        Inl e \<Rightarrow> Inl e
                      | Inr fs' \<Rightarrow>
                          if fs_present fs' (sr_staging_dir res)
                          then Inl (OSError ''staged App still exists after discard'')
                          else Inr (fs', with_data (dpop ''staged_app'') state, Some (sr_app_id res)))
            | _ \<Rightarrow> Inl (ValueError ''staged_app checkpoint must be an object''))
      | _ \<Rightarrow> Inr (fs, state, None))"

definition queue_staged_app_cleanup :: "json \<Rightarrow> (json \<times> string option) result" where
  "queue_staged_app_cleanup state =
     (case dget state ''data'' of
        Some (JObj d) \<Rightarrow>
          if \<not> truthy_opt (map_of d ''staged_app'') then Inr (state, None)
          else (case map_of d ''staged_app'' of
              Some (JObj h) \<Rightarrow>
                if truthy_opt (map_of h ''legacy_promoted'')
                then Inl (ValueError ''legacy-promoted App cannot be discarded as staging'')
                else Inr (with_data (\<lambda>dt. dset ''staged_app_cleanup_pending'' (JObj h)
                            (dpop ''staged_app'' dt)) state,
                          Some (str_or_empty (map_of h ''app_id'')))
            | _ \<Rightarrow> Inl (ValueError ''staged_app checkpoint must be an object''))
      | _ \<Rightarrow> Inr (state, None))"

definition discard_pending_staged_app ::
  "file_system \<Rightarrow> json \<Rightarrow> (file_system \<times> json \<times> string option) result" where
  "discard_pending_staged_app fs state =
     (case dget state ''data'' of
        Some (JObj d) \<Rightarrow>
          if \<not> truthy_opt (map_of d ''staged_app_cleanup_pending'') then Inr (fs, state, None)
          else
            let pending = json_or_null (map_of d ''staged_app_cleanup_pending'');
                temporary = JObj [(''data'', JObj [(''staged_app'', pending)])]
            in (case discard_staged_app_from_state fs temporary of
                  Inl e \<Rightarrow> Inl e
                | Inr (fs', _, app_id) \<Rightarrow>
                    Inr (fs', with_data (dpop ''staged_app_cleanup_pending'') state, app_id))
      | _ \<Rightarrow> Inr (fs, state, None))"

definition queue_staged_app_cleanup_in_checkpoint :: "jtext option \<Rightarrow> jtext option result" where
  "queue_staged_app_cleanup_in_checkpoint raw =
     (case loads raw of
        Some (JObj d) \<Rightarrow>
          (case map_of d ''state'' of
             Some (JObj st) \<Rightarrow>
               (case queue_staged_app_cleanup (JObj st) of
                  Inl e \<Rightarrow> Inl e
                | Inr (st', _) \<Rightarrow> Inr (Some (Some (dset ''state'' st' (JObj d)))))
           | _ \<Rightarrow> Inr (Some (Some (JObj d))))
      | _ \<Rightarrow> Inr raw)"

definition clear_staged_app_cleanup_from_checkpoint :: "jtext option \<Rightarrow> jtext option" where
  "clear_staged_app_cleanup_from_checkpoint raw =
     (case loads raw of
        Some (JObj d) \<Rightarrow>
          (case map_of d ''state'' of
             Some (JObj st) \<Rightarrow>
               (case map_of st ''data'' of
                  Some (JObj _) \<Rightarrow>
                    Some (Some (dset ''state''
                      (with_data (\<lambda>dt. dpop ''staged_app_cleanup_pending'' (dpop ''staged_app'' dt))
                        (JObj st)) (JObj d)))
                | _ \<Rightarrow> Some (Some (JObj d)))
           | _ \<Rightarrow> Some (Some (JObj d)))
      | _ \<Rightarrow> raw)"

definition state_has_unresolved_effect :: "json \<Rightarrow> bool" where
  "state_has_unresolved_effect data =
     (truthy_opt (dget data ''effect_state_unreadable'')
      \<or> truthy_opt (dget data ''non_compensable_effect'')
      \<or> truthy_opt (dget data ''effects_committed'')
      \<or> truthy_opt (dget data ''effect_in_flight'')
      \<or> truthy_opt (dget data ''graph_compensations''))"

section \<open>Deletion is constrained\<close>

text \<open>Removing a tree keeps every directory outside it.\<close>

lemma fs_rmtree_dirs:
  "fs_rmtree fs p = Inr fs' \<Longrightarrow>
     fs_dirs fs' = filter (\<lambda>d. d \<noteq> p \<and> \<not> starts_with d (p @ ''/'')) (fs_dirs fs) \<and>
     fs_links fs' = fs_links fs \<and> fs_markers fs' = fs_markers fs \<and> fs_hashes fs' = fs_hashes fs \<and>
     fs_verdicts fs' = fs_verdicts fs \<and> fs_stuck fs' = fs_stuck fs"
  by (auto simp: fs_rmtree_def split: if_splits)

lemma validated_handle_facts:
  assumes "validated_staging_handle fs res b = Inr (live, staging)"
  shows "staging = sr_staging_dir res" "staging_name_ok (sr_app_id res) (path_name staging)"
    "\<not> fs_is_link fs staging" "\<not> fs_is_link fs live"
    "live = path_join (fs_resolve fs (path_parent (sr_live_dir res))) (sr_app_id res)"
    "fs_resolve fs (path_parent staging) = fs_resolve fs (path_parent (sr_live_dir res))"
    "validate_app_id (sr_app_id res) = Inr (sr_app_id res)"
  using assms
  by (auto simp: validated_staging_handle_def validate_app_id_def Let_def
      split: sum.splits if_splits)

lemma discard_staging_frame:
  assumes "discard_coding_agent_staging fs res = Inr fs'" and "d \<in> set (fs_dirs fs)"
    and "d \<noteq> sr_staging_dir res" "\<not> starts_with d (sr_staging_dir res @ ''/'')"
  shows "d \<in> set (fs_dirs fs')"
  using assms validated_handle_facts(1)
  by (fastforce simp: discard_coding_agent_staging_def dest: fs_rmtree_dirs
      split: sum.splits if_splits)

text \<open>After a discard that succeeds, nothing is left at the path of the handle.\<close>

lemma discard_pending_absent:
  assumes "discard_pending_staged_app fs state = Inr (fs', state', Some app)"
    and "dget state ''data'' = Some (JObj d)"
    and "map_of d ''staged_app_cleanup_pending'' = Some (JObj h)"
  shows "\<not> fs_present fs' (sr_staging_dir (staged_of (JObj h)))"
  using assms
  by (auto simp: discard_pending_staged_app_def discard_staged_app_from_state_def Let_def
      json_or_null_def split: sum.splits if_splits prod.splits)

end
