(* ===== verification/Run_Lifecycle.thy ===== *)
theory Run_Lifecycle
  imports Run_Staging
begin

text \<open>
  Creating, reading and changing a run: \<^verbatim>\<open>create_run\<close>, \<^verbatim>\<open>get_run\<close>, \<^verbatim>\<open>list_runs\<close>,
  \<^verbatim>\<open>retained_staging_paths\<close>, \<^verbatim>\<open>append_event\<close>, \<^verbatim>\<open>transition\<close>, \<^verbatim>\<open>update_progress\<close> and the queries of
  \<^verbatim>\<open>RunStore\<close>. An operation that writes is a transaction body (\<open>..._tx\<close>) wrapped by \<open>transact\<close>.
\<close>

section \<open>Reading\<close>

record run_view =
  v_run :: run_row
  v_interactions :: "interaction_row list"
  v_steps :: "step_row list"

definition get_run :: "store \<Rightarrow> string \<Rightarrow> run_view option" where
  "get_run s rid =
     map_option (\<lambda>r. \<lparr>v_run = r,
         v_interactions = sort_key i_created_at (filter (\<lambda>i. i_run_id i = rid) (db_interactions s)),
         v_steps = sort_key s_row_id (filter (\<lambda>t. s_run_id t = rid) (db_steps s))\<rparr>)
       (find_run s rid)"

definition run_events :: "store \<Rightarrow> string \<Rightarrow> event_row list" where
  "run_events s rid = sort_key e_sequence (filter (\<lambda>e. e_run_id e = rid) (db_events s))"

text \<open>The optional filters of \<^verbatim>\<open>list_runs\<close>; an empty filter does not filter.\<close>

record run_filter =
  rf_status :: "string option"
  rf_owner_id :: "string option"
  rf_source_type :: "string option"
  rf_source_id :: "string option"

definition set_filter :: "string option \<Rightarrow> bool" where
  "set_filter f = (f \<noteq> None \<and> f \<noteq> Some [])"

definition status_items :: "string \<Rightarrow> string list" where
  "status_items st = filter (\<lambda>x. x \<noteq> []) (map strip (split_on (CHR '','') st))"

definition matches_filter :: "run_filter \<Rightarrow> run_row \<Rightarrow> bool" where
  "matches_filter f r \<longleftrightarrow>
     (set_filter (rf_status f) \<longrightarrow> status_str (r_status r) \<in> set (status_items (the (rf_status f)))) \<and>
     (set_filter (rf_owner_id f) \<longrightarrow> r_owner_id r = the (rf_owner_id f)) \<and>
     (set_filter (rf_source_type f) \<longrightarrow> r_source_type r = the (rf_source_type f)) \<and>
     (set_filter (rf_source_id f) \<longrightarrow> r_source_id r = rf_source_id f)"

text \<open>
  \<^verbatim>\<open>ORDER BY created_at DESC LIMIT max(1, min(limit, 500)) OFFSET max(0, offset)\<close>.
\<close>

definition list_runs :: "store \<Rightarrow> run_filter \<Rightarrow> int \<Rightarrow> int \<Rightarrow> run_row list" where
  "list_runs s f limit offset =
     take (nat (max 1 (min limit 500)))
       (drop (nat (max 0 offset))
         (sort_key (\<lambda>r. - int (r_created_at r)) (filter (matches_filter f) (db_runs s))))"

text \<open>\<^verbatim>\<open>retained_staging_paths\<close>: the staging directories the orphan reaper must keep.\<close>

definition handle_paths :: "json \<Rightarrow> string list" where
  "handle_paths state =
     (case dget state ''data'' of
        Some (JObj d) \<Rightarrow>
          concat (map (\<lambda>k. case map_of d k of
                Some (JObj h) \<Rightarrow>
                  (case map_of h ''staging_dir'' of Some (JStr (c # cs)) \<Rightarrow> [c # cs] | _ \<Rightarrow> [])
              | _ \<Rightarrow> [])
            [''staged_app'', ''staged_app_cleanup_pending''])
      | _ \<Rightarrow> [])"

definition retained_row :: "int \<Rightarrow> run_row \<Rightarrow> bool" where
  "retained_row cutoff r \<longleftrightarrow> r_state r \<noteq> None \<and>
     (r_status r \<in> set ACTIVE_STATUSES \<or>
      r_status r = S_failed \<and>
        cutoff \<le> int (case r_finished_at r of Some t \<Rightarrow> t | None \<Rightarrow> r_updated_at r))"

definition retained_staging_paths :: "store \<Rightarrow> int \<Rightarrow> string list result" where
  "retained_staging_paths s failed_retention_microseconds =
     (if failed_retention_microseconds < 0
      then Inl (ValueError ''failed staging retention must be non-negative'')
      else Inr (concat (map (\<lambda>r. case loads (r_state r) of Some st \<Rightarrow> handle_paths st | None \<Rightarrow> [])
             (filter (retained_row (int (db_clock s) - failed_retention_microseconds)) (db_runs s)))))"

definition events_after :: "store \<Rightarrow> nat \<Rightarrow> nat \<Rightarrow> event_row list" where
  "events_after s sequence limit =
     take limit (sort_key e_sequence (filter (\<lambda>e. sequence < e_sequence e) (db_events s)))"

definition stream_info :: "store \<Rightarrow> string \<times> nat" where
  "stream_info s =
     ((case db_stream_epoch s of None \<Rightarrow> ''legacy'' | Some ep \<Rightarrow> ep),
      fold max (map e_sequence (db_events s)) 0)"

definition has_active_runtime :: "store \<Rightarrow> string \<Rightarrow> bool" where
  "has_active_runtime s runtime =
     list_ex (\<lambda>r. r_runtime_id r = runtime \<and>
         r_status r \<in> {S_queued, S_running, S_waiting_user, S_cancel_requested}) (db_runs s)"

definition has_active_owner :: "store \<Rightarrow> string \<Rightarrow> bool" where
  "has_active_owner s owner =
     list_ex (\<lambda>r. r_owner_id r = owner \<and>
         r_status r \<in> {S_queued, S_running, S_waiting_user, S_cancel_requested}) (db_runs s)"

section \<open>Creating a run\<close>

record run_request =
  rq_owner_id :: string
  rq_action_id :: string
  rq_action_title :: string
  rq_source_type :: string
  rq_source_id :: "string option"
  rq_adapter_type :: string
  rq_runtime_id :: string
  rq_input :: json
  rq_tool_name :: "string option"
  rq_recovery :: string
  rq_parent_run_id :: "string option"
  rq_retry_of :: "string option"
  rq_idempotency_key :: "string option"
  rq_correlation :: "json option"
  rq_attempt :: int
  rq_status :: run_status
  rq_state :: "agent_state option"
  rq_workflow_type :: "string option"
  rq_workflow_version :: "int option"

definition find_idempotent :: "store \<Rightarrow> run_request \<Rightarrow> run_row option" where
  "find_idempotent s q =
     List.find (\<lambda>r. r_owner_id r = rq_owner_id q \<and> r_action_id r = rq_action_id q
                  \<and> r_idempotency_key r = rq_idempotency_key q) (db_runs s)"

definition opt_py_eq :: "json option \<Rightarrow> json option \<Rightarrow> bool" where
  "opt_py_eq a b = (case (a, b) of (None, None) \<Rightarrow> True | (Some x, Some y) \<Rightarrow> py_eq x y | _ \<Rightarrow> False)"

text \<open>The stored run answers the request only for the same input and correlation.\<close>

definition reuse_existing :: "run_request \<Rightarrow> run_row \<Rightarrow> string result" where
  "reuse_existing q r =
     (if \<not> py_eq (r_input r) (rq_input q) \<or> \<not> opt_py_eq (r_correlation r) (rq_correlation q)
      then Inl (ValueError ''run idempotency key was reused with different input or correlation'')
      else Inr (r_id r))"

definition resolved_workflow_type :: "run_request \<Rightarrow> string" where
  "resolved_workflow_type q =
     (case rq_workflow_type q of Some (c # cs) \<Rightarrow> c # cs
      | _ \<Rightarrow> (case rq_state q of Some st \<Rightarrow> st_workflow_type st | None \<Rightarrow> ''legacy''))"

definition resolved_workflow_version :: "run_request \<Rightarrow> int" where
  "resolved_workflow_version q =
     (if rq_workflow_version q \<noteq> None \<and> rq_workflow_version q \<noteq> Some 0 then the (rq_workflow_version q)
      else (case rq_state q of Some st \<Rightarrow> st_workflow_version st | None \<Rightarrow> 1))"

definition new_run :: "time \<Rightarrow> string \<Rightarrow> run_request \<Rightarrow> run_row" where
  "new_run now rid q = \<lparr>r_id = rid, r_owner_id = rq_owner_id q, r_action_id = rq_action_id q,
     r_action_title = rq_action_title q, r_source_type = rq_source_type q,
     r_source_id = rq_source_id q, r_adapter_type = rq_adapter_type q,
     r_runtime_id = rq_runtime_id q, r_tool_name = rq_tool_name q, r_input = rq_input q,
     r_status = rq_status q, r_progress = 0, r_summary = [], r_result = None, r_error = None,
     r_checkpoint = None, r_artifacts = JArr [],
     r_state = map_option (\<lambda>st. Some (dump_state st)) (rq_state q),
     r_workflow_type = resolved_workflow_type q, r_workflow_version = resolved_workflow_version q,
     r_recovery = rq_recovery q, r_parent_run_id = rq_parent_run_id q, r_retry_of = rq_retry_of q,
     r_idempotency_key = rq_idempotency_key q, r_correlation = rq_correlation q,
     r_attempt = rq_attempt q, r_version = 1, r_created_at = now, r_updated_at = now,
     r_started_at = (if rq_status q = S_running then Some now else None), r_finished_at = None,
     r_lease_owner = None, r_lease_expires_at = None, r_lease_epoch = 0\<rparr>"

text \<open>
  The constraints of the table: the primary key, the partial unique index on the idempotency
  key, and the two foreign keys.
\<close>

definition foreign_ok :: "store \<Rightarrow> string \<Rightarrow> string option \<Rightarrow> bool" where
  "foreign_ok s rid v = (case v of None \<Rightarrow> True | Some p \<Rightarrow> p = rid \<or> find_run s p \<noteq> None)"

definition run_insert_ok :: "store \<Rightarrow> string \<Rightarrow> run_request \<Rightarrow> bool" where
  "run_insert_ok s rid q \<longleftrightarrow> find_run s rid = None \<and>
     (rq_idempotency_key q \<noteq> None \<longrightarrow> find_idempotent s q = None) \<and>
     foreign_ok s rid (rq_parent_run_id q) \<and> foreign_ok s rid (rq_retry_of q)"

definition created_payload :: "run_request \<Rightarrow> json" where
  "created_payload q = JObj
     ([(''status'', JStr (status_str (rq_status q))),
       (''workflow_type'', JStr (resolved_workflow_type q))] @
      (case rq_correlation q of None \<Rightarrow> [] | Some c \<Rightarrow> [(''correlation'', c)]))"

definition insert_run :: "string \<Rightarrow> run_request \<Rightarrow> store \<Rightarrow> store" where
  "insert_run rid q s =
     add_event rid ''run_created'' (created_payload q)
       (s\<lparr>db_runs := db_runs s @ [new_run (db_clock s) rid q]\<rparr>)"

text \<open>\<^verbatim>\<open>create_run\<close> with \<open>rid\<close> for the fresh \<^verbatim>\<open>uuid4()\<close>; the value is the id of the run.\<close>

definition create_run_tx :: "string \<Rightarrow> run_request \<Rightarrow> (store, string) tx" where
  "create_run_tx rid q s =
     (if (case rq_correlation q of None \<Rightarrow> False | Some c \<Rightarrow> \<not> is_dict c)
      then Inl (ValueError ''run correlation must be a JSON object'')
      else
        let keyed = (rq_idempotency_key q \<noteq> None \<and> rq_idempotency_key q \<noteq> Some []);
            existing = (if keyed then find_idempotent s q else None)
        in (case existing of
              Some r \<Rightarrow> map_sum id (Pair s) (reuse_existing q r)
            | None \<Rightarrow>
                if (case (rq_state q, rq_workflow_type q) of
                      (Some st, Some wt) \<Rightarrow> st_workflow_type st \<noteq> wt | _ \<Rightarrow> False)
                then Inl (ValueError ''workflow_type must match state.workflow_type'')
                else if (case (rq_state q, rq_workflow_version q) of
                      (Some st, Some wv) \<Rightarrow> st_workflow_version st \<noteq> wv | _ \<Rightarrow> False)
                then Inl (ValueError ''workflow_version must match state.workflow_version'')
                else if run_insert_ok s rid q then Inr (insert_run rid q s, rid)
                else Inl (IntegrityError ''runs'')))"

definition create_run :: "string \<Rightarrow> run_request \<Rightarrow> store \<Rightarrow> store \<times> string result" where
  "create_run rid q s = transact (create_run_tx rid q) s"

section \<open>Fenced event and progress writes\<close>

definition run_or_key_error :: "store \<Rightarrow> string \<Rightarrow> run_row result" where
  "run_or_key_error s rid = (case find_run s rid of None \<Rightarrow> Inl (KeyError rid) | Some r \<Rightarrow> Inr r)"

lemma find_run_key: "run_or_key_error s rid = Inr r \<longleftrightarrow> find_run s rid = Some r"
  by (auto simp: run_or_key_error_def split: option.splits)

definition stale_active :: "string \<Rightarrow> py_error" where
  "stale_active rid = StaleLeaseError (''worker no longer owns active run '' @ rid)"

definition lease_matches :: "run_row \<Rightarrow> string \<Rightarrow> int \<Rightarrow> bool" where
  "lease_matches r owner epoch \<longleftrightarrow> r_lease_owner r = Some owner \<and> r_lease_epoch r = epoch"

text \<open>
  The optional fence is the pair of the expected lease owner and epoch. Without a run the
  unfenced insert fails on the foreign key of the event.
\<close>

definition append_event_tx ::
  "string \<Rightarrow> string \<Rightarrow> json \<Rightarrow> (string \<times> int) option \<Rightarrow> (store, nat) tx" where
  "append_event_tx rid ty payload fence s =
     (case fence of
        None \<Rightarrow> if find_run s rid = None then Inl (IntegrityError ''run_events'')
          else (let s' = add_event rid ty payload s in Inr (s', db_last_event s'))
      | Some (owner, epoch) \<Rightarrow>
          (case run_or_key_error s rid of
             Inl e \<Rightarrow> Inl e
           | Inr r \<Rightarrow>
               if r_status r \<notin> {S_running, S_cancel_requested} \<or> \<not> lease_matches r owner epoch
               then Inl (stale_active rid)
               else (let s' = add_event rid ty payload s in Inr (s', db_last_event s'))))"

definition append_event ::
  "string \<Rightarrow> string \<Rightarrow> json \<Rightarrow> (string \<times> int) option \<Rightarrow> store \<Rightarrow> store \<times> nat result" where
  "append_event rid ty payload fence = transact (append_event_tx rid ty payload fence)"

definition clamp01 :: "pyfloat \<Rightarrow> pyfloat" where
  "clamp01 p = max 0 (min 1 p)"

definition apply_progress :: "string \<Rightarrow> pyfloat \<Rightarrow> string \<Rightarrow> store \<Rightarrow> store" where
  "apply_progress rid p summary s =
     add_event rid ''progress'' (JObj [(''progress'', JFloat p), (''summary'', JStr summary)])
       (upd_run rid (\<lambda>r. r\<lparr>r_progress := p, r_summary := summary, r_updated_at := db_clock s\<rparr>) s)"

definition update_progress_tx ::
  "string \<Rightarrow> pyfloat \<Rightarrow> string \<Rightarrow> (string \<times> int) option \<Rightarrow> (store, unit) tx" where
  "update_progress_tx rid progress summary fence s =
     (case fence of
        None \<Rightarrow> if find_run s rid = None then Inl (IntegrityError ''run_events'')
          else Inr (apply_progress rid (clamp01 progress) summary s, ())
      | Some (owner, epoch) \<Rightarrow>
          (case run_or_key_error s rid of
             Inl e \<Rightarrow> Inl e
           | Inr r \<Rightarrow>
               if r_status r \<noteq> S_running \<or> \<not> lease_matches r owner epoch
               then Inl (stale_active rid)
               else Inr (apply_progress rid (clamp01 progress) summary s, ())))"

definition update_progress ::
  "string \<Rightarrow> pyfloat \<Rightarrow> string \<Rightarrow> (string \<times> int) option \<Rightarrow> store \<Rightarrow> store \<times> unit result" where
  "update_progress rid progress summary fence = transact (update_progress_tx rid progress summary fence)"

section \<open>Explicit transitions\<close>

text \<open>The columns \<^verbatim>\<open>**updates\<close> can set beside the status.\<close>

datatype col_update =
    U_summary string
  | U_progress pyfloat
  | U_result "json option"
  | U_error "json option"
  | U_checkpoint "json option"
  | U_artifacts json
  | U_state "json option"

fun apply_update :: "col_update \<Rightarrow> run_row \<Rightarrow> run_row" where
  "apply_update (U_summary x) r = r\<lparr>r_summary := x\<rparr>"
| "apply_update (U_progress x) r = r\<lparr>r_progress := x\<rparr>"
| "apply_update (U_result x) r = r\<lparr>r_result := x\<rparr>"
| "apply_update (U_error x) r = r\<lparr>r_error := x\<rparr>"
| "apply_update (U_checkpoint x) r = r\<lparr>r_checkpoint := map_option Some x\<rparr>"
| "apply_update (U_artifacts x) r = r\<lparr>r_artifacts := x\<rparr>"
| "apply_update (U_state x) r = r\<lparr>r_state := map_option Some x\<rparr>"

fun update_item :: "col_update \<Rightarrow> string \<times> json" where
  "update_item (U_summary x) = (''summary'', JStr x)"
| "update_item (U_progress x) = (''progress'', JFloat x)"
| "update_item (U_result x) = (''result'', json_or_null x)"
| "update_item (U_error x) = (''error'', json_or_null x)"
| "update_item (U_checkpoint x) = (''checkpoint'', json_or_null x)"
| "update_item (U_artifacts x) = (''artifacts'', x)"
| "update_item (U_state x) = (''state'', json_or_null x)"

definition releases_lease :: "run_status \<Rightarrow> run_row \<Rightarrow> bool" where
  "releases_lease st r \<longleftrightarrow> terminal st \<or> st = S_queued \<or> st = S_needs_attention \<or>
     (st = S_waiting_user \<and> r_adapter_type r \<noteq> ''internal'')"

definition transition_row :: "time \<Rightarrow> run_status \<Rightarrow> col_update list \<Rightarrow> run_row \<Rightarrow> run_row" where
  "transition_row now st ups r0 =
     (let r = fold apply_update ups (r0\<lparr>r_status := st, r_updated_at := now\<rparr>);
          r = r\<lparr>r_version := r_version r0 + 1\<rparr>;
          r = (if st = S_running \<and> r_started_at r0 = None then r\<lparr>r_started_at := Some now\<rparr> else r);
          r = (if releases_lease st r0 then r\<lparr>r_lease_owner := None, r_lease_expires_at := None\<rparr> else r);
          r = (if terminal st then r\<lparr>r_finished_at := Some now\<rparr> else r)
      in if st = S_succeeded \<and> \<not> list_ex (\<lambda>u. case u of U_progress _ \<Rightarrow> True | _ \<Rightarrow> False) ups
         then r\<lparr>r_progress := 1\<rparr> else r)"

definition apply_transition :: "string \<Rightarrow> run_status \<Rightarrow> col_update list \<Rightarrow> run_row \<Rightarrow> store \<Rightarrow> store" where
  "apply_transition rid st ups row s =
     (let now = db_clock s;
          s1 = upd_run rid (transition_row now st ups) s;
          s2 = (if st = S_waiting_user then
                  let s' = upd_interactions (\<lambda>i. i_run_id i = rid \<and> i_status i = I_pending)
                        (\<lambda>i. i\<lparr>i_run_version := Some (r_version row + 1)\<rparr>) s1
                  in if r_adapter_type row \<noteq> ''internal''
                     then close_running_steps rid T_interrupted s' else s'
                else if terminal st then cancel_pending rid s1 else s1)
      in add_event rid ''status_changed''
           (JObj ([(''from'', JStr (status_str (r_status row))), (''to'', JStr (status_str st))]
                  @ map update_item ups)) s2)"

definition transition_tx ::
  "string \<Rightarrow> run_status \<Rightarrow> (string \<times> int) option \<Rightarrow> int option \<Rightarrow> col_update list \<Rightarrow> (store, unit) tx" where
  "transition_tx rid st fence expected_version ups s =
     (case run_or_key_error s rid of
        Inl e \<Rightarrow> Inl e
      | Inr row \<Rightarrow>
          if expected_version \<noteq> None \<and> expected_version \<noteq> Some (r_version row)
          then Inl (RunVersionConflict (''run '' @ rid @ '' version changed: expected ''
                 @ int_str (the expected_version) @ '', found '' @ int_str (r_version row)))
          else if (case fence of None \<Rightarrow> False | Some (owner, epoch) \<Rightarrow> \<not> lease_matches row owner epoch)
          then Inl (StaleLeaseError (''worker no longer owns run '' @ rid))
          else if st \<noteq> r_status row \<and> st \<notin> set (TRANSITIONS (r_status row))
          then Inl (ValueError (''invalid run transition: '' @ status_str (r_status row)
                 @ '' -> '' @ status_str st))
          else Inr (apply_transition rid st ups row s, ()))"

definition transition ::
  "string \<Rightarrow> run_status \<Rightarrow> (string \<times> int) option \<Rightarrow> int option \<Rightarrow> col_update list \<Rightarrow> store \<Rightarrow>
   store \<times> unit result" where
  "transition rid st fence expected_version ups = transact (transition_tx rid st fence expected_version ups)"

section \<open>Event retention\<close>

text \<open>
  \<^verbatim>\<open>cleanup_events(days)\<close>; the default of 30 days comes from the environment variable and is the
  caller's argument here.
\<close>

definition cleanup_events_tx :: "int \<Rightarrow> (store, nat) tx" where
  "cleanup_events_tx days s =
     (let cutoff = int (db_clock s) - max 1 days * 24 * 60 * 60 * 1000000;
          old = (\<lambda>e. int (e_created_at e) < cutoff \<and>
             list_ex (\<lambda>r. r_id r = e_run_id e \<and> terminal (r_status r)) (db_runs s))
      in Inr (s\<lparr>db_events := filter (\<lambda>e. \<not> old e) (db_events s)\<rparr>, length (filter old (db_events s))))"

definition cleanup_events :: "int \<Rightarrow> store \<Rightarrow> store \<times> nat result" where
  "cleanup_events days = transact (cleanup_events_tx days)"

end
