(* ===== verification/Run_Scheduling.thy ===== *)
theory Run_Scheduling
  imports Run_Lifecycle
begin

text \<open>
  Claiming work: the session lane, the concurrency limits, the lease with its epoch, and the
  heartbeat (\<^verbatim>\<open>_session_id\<close>, \<^verbatim>\<open>_session_lane_available\<close>, \<^verbatim>\<open>claim_next\<close>, \<^verbatim>\<open>claim_specific\<close> and
  \<^verbatim>\<open>heartbeat\<close> of \<^verbatim>\<open>RunStore\<close>).
\<close>

section \<open>Session lanes\<close>

definition chat_source :: "run_row \<Rightarrow> string option" where
  "chat_source r =
     (if r_source_type r = ''chat'' \<and> r_source_id r \<noteq> Some [] then r_source_id r else None)"

definition session_id :: "run_row \<Rightarrow> string option" where
  "session_id r =
     (case loads (r_state r) of
        Some (JObj d) \<Rightarrow>
          (case map_of d ''session_id'' of Some (JStr (c # cs)) \<Rightarrow> Some (c # cs) | _ \<Rightarrow> chat_source r)
      | _ \<Rightarrow> chat_source r)"

text \<open>The order \<^verbatim>\<open>(created_at, id)\<close>.\<close>

definition before :: "run_row \<Rightarrow> run_row \<Rightarrow> bool" where
  "before a b \<longleftrightarrow> r_created_at a < r_created_at b \<or>
     r_created_at a = r_created_at b \<and> str_less (r_id a) (r_id b)"

definition holds_lane :: "run_status \<Rightarrow> bool" where
  "holds_lane st = (st \<in> {S_running, S_waiting_user, S_cancel_requested, S_needs_attention})"

definition blocks_lane :: "run_row \<Rightarrow> run_row \<Rightarrow> bool" where
  "blocks_lane candidate other \<longleftrightarrow>
     r_id other \<noteq> r_id candidate \<and> session_id other = session_id candidate \<and>
     (holds_lane (r_status other) \<or> r_status other = S_queued \<and> before other candidate)"

definition session_lane_available :: "run_row \<Rightarrow> run_row list \<Rightarrow> bool" where
  "session_lane_available candidate active_rows \<longleftrightarrow>
     session_id candidate = None \<or> \<not> list_ex (blocks_lane candidate) active_rows"

definition active_rows :: "store \<Rightarrow> run_row list" where
  "active_rows s = filter (\<lambda>r. active (r_status r)) (db_runs s)"

section \<open>Limits\<close>

definition occupies :: "run_row \<Rightarrow> bool" where
  "occupies r = (r_status r \<in> {S_running, S_cancel_requested})"

definition running_count :: "store \<Rightarrow> nat" where
  "running_count s = length (filter occupies (db_runs s))"

definition owner_count :: "store \<Rightarrow> string \<Rightarrow> nat" where
  "owner_count s owner = length (filter (\<lambda>r. r_owner_id r = owner \<and> occupies r) (db_runs s))"

section \<open>Claiming\<close>

definition grant_pending :: "store \<Rightarrow> string \<Rightarrow> bool" where
  "grant_pending s rid = list_ex (\<lambda>g. g_run_id g = rid \<and> g_status g = G_pending) (db_outbox s)"

definition claim_candidates :: "store \<Rightarrow> run_row list" where
  "claim_candidates s =
     take 100 (order_by before (filter (\<lambda>r. r_status r = S_queued \<and> r_adapter_type r \<noteq> ''internal''
                                   \<and> \<not> grant_pending s (r_id r)) (db_runs s)))"

definition claim_row :: "string \<Rightarrow> time \<Rightarrow> time \<Rightarrow> run_row \<Rightarrow> run_row" where
  "claim_row worker now expires r =
     r\<lparr>r_status := S_running,
       r_started_at := (case r_started_at r of None \<Rightarrow> Some now | Some t \<Rightarrow> Some t),
       r_updated_at := now, r_lease_owner := Some worker, r_lease_expires_at := Some expires,
       r_lease_epoch := r_lease_epoch r + 1, r_version := r_version r + 1\<rparr>"

definition apply_claim :: "string \<Rightarrow> nat \<Rightarrow> run_row \<Rightarrow> store \<Rightarrow> store" where
  "apply_claim worker lease_seconds row s =
     (let now = db_clock s; claimed = claim_row worker now (now + seconds lease_seconds) row
      in add_event (r_id row) ''status_changed''
           (JObj [(''from'', JStr ''queued''), (''to'', JStr ''running''),
                  (''lease_epoch'', JInt (r_lease_epoch claimed)),
                  (''version'', JInt (r_version claimed))])
           (upd_run (r_id row)
              (\<lambda>r. if r_status r = S_queued
                   then claim_row worker now (now + seconds lease_seconds) r else r) s))"

definition claim_choice :: "store \<Rightarrow> nat \<Rightarrow> string list \<Rightarrow> run_row option" where
  "claim_choice s owner_limit excluded =
     List.find (\<lambda>r. r_id r \<notin> set excluded \<and> owner_count s (r_owner_id r) < owner_limit
                  \<and> session_lane_available r (active_rows s)) (claim_candidates s)"

text \<open>\<^verbatim>\<open>claim_next\<close> returns the claimed run, or nothing; it never raises.\<close>

definition claim_next_tx ::
  "string \<Rightarrow> nat \<Rightarrow> nat \<Rightarrow> nat \<Rightarrow> string list \<Rightarrow> (store, string option) tx" where
  "claim_next_tx worker global_limit owner_limit lease_seconds excluded s =
     (if global_limit \<le> running_count s then Inr (s, None)
      else (case claim_choice s owner_limit excluded of
              None \<Rightarrow> Inr (s, None)
            | Some row \<Rightarrow> Inr (apply_claim worker lease_seconds row s, Some (r_id row))))"

definition claim_next ::
  "string \<Rightarrow> nat \<Rightarrow> nat \<Rightarrow> nat \<Rightarrow> string list \<Rightarrow> store \<Rightarrow> store \<times> string option result" where
  "claim_next worker global_limit owner_limit lease_seconds excluded =
     transact (claim_next_tx worker global_limit owner_limit lease_seconds excluded)"

definition claim_specific_tx ::
  "string \<Rightarrow> string \<Rightarrow> nat \<Rightarrow> nat \<Rightarrow> nat \<Rightarrow> (store, string option) tx" where
  "claim_specific_tx rid worker global_limit owner_limit lease_seconds s =
     (case find_run s rid of
        None \<Rightarrow> Inr (s, None)
      | Some row \<Rightarrow>
          if r_status row \<noteq> S_queued then Inr (s, None)
          else if \<not> session_lane_available row (active_rows s) then Inr (s, None)
          else if global_limit \<le> running_count s \<or> owner_limit \<le> owner_count s (r_owner_id row)
          then Inr (s, None)
          else Inr (apply_claim worker lease_seconds row s, Some rid))"

definition claim_specific ::
  "string \<Rightarrow> string \<Rightarrow> nat \<Rightarrow> nat \<Rightarrow> nat \<Rightarrow> store \<Rightarrow> store \<times> string option result" where
  "claim_specific rid worker global_limit owner_limit lease_seconds =
     transact (claim_specific_tx rid worker global_limit owner_limit lease_seconds)"

section \<open>Heartbeat\<close>

text \<open>\<open>None\<close> renews every lease of the worker, a set of run ids only those.\<close>

definition heartbeat_tx :: "string \<Rightarrow> nat \<Rightarrow> string list option \<Rightarrow> (store, unit) tx" where
  "heartbeat_tx worker lease_seconds run_ids s =
     Inr (s\<lparr>db_runs := update_where
              (\<lambda>r. r_lease_owner r = Some worker \<and> occupies r \<and>
                   (case run_ids of None \<Rightarrow> True | Some ids \<Rightarrow> r_id r \<in> set ids))
              (\<lambda>r. r\<lparr>r_lease_expires_at := Some (db_clock s + seconds lease_seconds)\<rparr>) (db_runs s)\<rparr>, ())"

definition heartbeat :: "string \<Rightarrow> nat \<Rightarrow> string list option \<Rightarrow> store \<Rightarrow> store \<times> unit result" where
  "heartbeat worker lease_seconds run_ids = transact (heartbeat_tx worker lease_seconds run_ids)"

section \<open>Facts about the choice\<close>

lemma claim_candidatesD:
  assumes "r \<in> set (claim_candidates s)"
  shows "r \<in> set (db_runs s)" "r_status r = S_queued" "r_adapter_type r \<noteq> ''internal''"
    "\<not> grant_pending s (r_id r)"
  using assms by (auto simp: claim_candidates_def dest: in_set_takeD)

lemma find_SomeD: "List.find P xs = Some x \<Longrightarrow> x \<in> set xs \<and> P x"
  by (induction xs) (auto split: if_splits)

lemma claim_choiceD:
  assumes "claim_choice s owner_limit excluded = Some r"
  shows "r \<in> set (claim_candidates s)" "r_id r \<notin> set excluded"
    "owner_count s (r_owner_id r) < owner_limit" "session_lane_available r (active_rows s)"
  using assms by (auto simp: claim_choice_def dest: find_SomeD)

text \<open>The order is a strict linear order on runs with distinct ids.\<close>

lemma before_irrefl [simp]: "\<not> before r r"
  by (simp add: before_def)

lemma before_total: "r_id a \<noteq> r_id b \<Longrightarrow> before a b \<or> before b a"
  by (auto simp: before_def dest: str_less_total)

lemma before_trans: "before a b \<Longrightarrow> before b c \<Longrightarrow> before a c"
  by (auto simp: before_def dest: str_less_trans)

end
