(* ===== verification/Run_Steps.thy ===== *)
theory Run_Steps
  imports Run_Scheduling
begin

text \<open>
  Step attempts and their commit: \<^verbatim>\<open>begin_step_attempt\<close>, \<^verbatim>\<open>begin_step\<close>, \<^verbatim>\<open>finish_step\<close> and
  \<^verbatim>\<open>commit_step\<close> of \<^verbatim>\<open>RunStore\<close>. The commit stores the attempt, the checkpoint, the status of the
  run, the interaction it waits for and the events in one transaction, fenced by the lease.
\<close>

section \<open>Attempts\<close>

definition step_rows :: "store \<Rightarrow> string \<Rightarrow> string \<Rightarrow> step_row list" where
  "step_rows s rid key = filter (\<lambda>t. s_run_id t = rid \<and> s_step_key t = key) (db_steps s)"

text \<open>\<^verbatim>\<open>ORDER BY attempt DESC LIMIT 1\<close>.\<close>

definition last_attempt :: "store \<Rightarrow> string \<Rightarrow> string \<Rightarrow> int option" where
  "last_attempt s rid key =
     (case map s_attempt (step_rows s rid key) of [] \<Rightarrow> None | a # as \<Rightarrow> Some (fold max as a))"

definition next_attempt :: "store \<Rightarrow> string \<Rightarrow> string \<Rightarrow> int" where
  "next_attempt s rid key = (case last_attempt s rid key of None \<Rightarrow> 1 | Some a \<Rightarrow> a + 1)"

definition new_step :: "store \<Rightarrow> string \<Rightarrow> string \<Rightarrow> int \<Rightarrow> step_row" where
  "new_step s rid key att = \<lparr>s_row_id = Suc (db_last_step s), s_run_id = rid, s_step_key = key,
     s_status = T_running, s_attempt = att, s_output = None,
     s_started_at = Some (db_clock s), s_finished_at = None\<rparr>"

definition stale_owner :: "string \<Rightarrow> py_error" where
  "stale_owner rid = StaleLeaseError (''worker no longer owns run '' @ rid)"

definition fence_broken :: "run_row \<Rightarrow> (string \<times> int) option \<Rightarrow> bool" where
  "fence_broken r fence =
     (case fence of None \<Rightarrow> False
      | Some (owner, epoch) \<Rightarrow> \<not> lease_matches r owner epoch \<or> r_status r \<noteq> S_running)"

definition begin_step_attempt_tx :: "string \<Rightarrow> string \<Rightarrow> (string \<times> int) option \<Rightarrow> (store, int) tx" where
  "begin_step_attempt_tx rid key fence s =
     (case run_or_key_error s rid of
        Inl e \<Rightarrow> Inl e
      | Inr r \<Rightarrow>
          if fence_broken r fence then Inl (stale_owner rid)
          else let att = next_attempt s rid key in
            Inr (add_event rid ''step_started''
                   (JObj [(''step_key'', JStr key), (''attempt'', JInt att),
                          (''lease_epoch'', JInt (r_lease_epoch r))])
                   (s\<lparr>db_steps := db_steps s @ [new_step s rid key att],
                      db_last_step := Suc (db_last_step s)\<rparr>), att))"

definition begin_step_attempt ::
  "string \<Rightarrow> string \<Rightarrow> (string \<times> int) option \<Rightarrow> store \<Rightarrow> store \<times> int result" where
  "begin_step_attempt rid key fence = transact (begin_step_attempt_tx rid key fence)"

definition begin_step :: "string \<Rightarrow> string \<Rightarrow> (string \<times> int) option \<Rightarrow> store \<Rightarrow> store \<times> bool result" where
  "begin_step rid key fence s =
     (case begin_step_attempt rid key fence s of (s', r) \<Rightarrow> (s', map_sum id (\<lambda>_. True) r))"

definition resolve_attempt :: "store \<Rightarrow> string \<Rightarrow> string \<Rightarrow> int option \<Rightarrow> int result" where
  "resolve_attempt s rid key attempt =
     (case attempt of
        Some a \<Rightarrow> Inr a
      | None \<Rightarrow> (case last_attempt s rid key of
                   None \<Rightarrow> Inl (ValueError (''step has not started: '' @ key))
                 | Some a \<Rightarrow> Inr a))"

definition finish_step_tx ::
  "string \<Rightarrow> string \<Rightarrow> json \<Rightarrow> step_status \<Rightarrow> int option \<Rightarrow> (string \<times> int) option \<Rightarrow> (store, unit) tx" where
  "finish_step_tx rid key output status attempt fence s =
     (case run_or_key_error s rid of
        Inl e \<Rightarrow> Inl e
      | Inr r \<Rightarrow>
          if r_adapter_type r = ''internal_agent'' \<and> fence = None
          then Inl (StaleLeaseError ''durable agent steps require a fenced commit'')
          else if fence_broken r fence then Inl (stale_owner rid)
          else (case resolve_attempt s rid key attempt of
              Inl e \<Rightarrow> Inl e
            | Inr att \<Rightarrow>
                let s1 = upd_steps (\<lambda>t. s_run_id t = rid \<and> s_step_key t = key \<and> s_attempt t = att)
                      (\<lambda>t. t\<lparr>s_status := status,
                            s_output := (if output = JNull then None else Some output),
                            s_finished_at := Some (db_clock s)\<rparr>) s
                in Inr (if status = T_succeeded
                        then upd_run rid (\<lambda>r. r\<lparr>r_checkpoint := Some (Some (JObj
                                 [(''last_step'', JStr key), (''attempt'', JInt att), (''output'', output)])),
                               r_updated_at := db_clock s\<rparr>) s1
                        else s1, ())))"

definition finish_step ::
  "string \<Rightarrow> string \<Rightarrow> json \<Rightarrow> step_status \<Rightarrow> int option \<Rightarrow> (string \<times> int) option \<Rightarrow> store \<Rightarrow>
   store \<times> unit result" where
  "finish_step rid key output status attempt fence =
     transact (finish_step_tx rid key output status attempt fence)"

section \<open>The commit of a reducer step\<close>

text \<open>Where the outcome takes the run, and what it leaves in the checkpoint.\<close>

fun outcome_target :: "step_outcome \<Rightarrow> run_status" where
  "outcome_target (Continue _ _) = S_queued"
| "outcome_target (Wait _ _ _ _ _) = S_waiting_user"
| "outcome_target (Succeeded _ _ _) = S_succeeded"
| "outcome_target (Failed _ _ _ retryable eff) =
     (if eff = E_unknown then S_needs_attention else if retryable then S_queued else S_failed)"
| "outcome_target (Cancelled _ eff) = (if eff = E_unknown then S_needs_attention else S_cancelled)"

definition failure_record :: "string \<Rightarrow> string \<Rightarrow> bool \<Rightarrow> effect_state \<Rightarrow> dict" where
  "failure_record code msg retryable eff =
     [(''code'', JStr code), (''message'', JStr msg), (''retryable'', JBool retryable),
      (''effect_state'', JStr (effect_str eff))]"

fun outcome_state :: "step_outcome \<Rightarrow> agent_state \<Rightarrow> agent_state" where
  "outcome_state (Continue _ nxt) st =
     (case nxt of Some (c # cs) \<Rightarrow> st\<lparr>st_phase := c # cs\<rparr> | _ \<Rightarrow> st)"
| "outcome_state (Wait _ iid _ _ _) st = st\<lparr>st_pending_interaction_id := Some iid\<rparr>"
| "outcome_state (Succeeded _ _ _) st =
     st\<lparr>st_pending_interaction_id := None, st_phase := ''done''\<rparr>"
| "outcome_state (Failed _ code msg retryable eff) st =
     st\<lparr>st_last_error := Some (failure_record code msg retryable eff)\<rparr>"
| "outcome_state (Cancelled _ _) st = st"

fun outcome_step_status :: "step_outcome \<Rightarrow> step_status" where
  "outcome_step_status (Failed _ _ _ _ _) = T_failed"
| "outcome_step_status (Cancelled _ _) = T_cancelled"
| "outcome_step_status _ = T_succeeded"

definition nonempty :: "string option \<Rightarrow> bool" where
  "nonempty v = (v \<noteq> None \<and> v \<noteq> Some [])"

definition new_interaction ::
  "time \<Rightarrow> string \<Rightarrow> string \<Rightarrow> string \<Rightarrow> string \<Rightarrow> json \<Rightarrow> int \<Rightarrow> interaction_row" where
  "new_interaction now iid rid ty prompt payload ver = \<lparr>i_id = iid, i_run_id = rid, i_type = ty,
     i_prompt = prompt, i_payload = payload, i_status = I_pending, i_response = None,
     i_created_at = now, i_resolved_at = None, i_run_version = Some ver\<rparr>"

definition interaction_requested :: "string \<Rightarrow> json \<Rightarrow> json" where
  "interaction_requested iid ty = JObj [(''interaction_id'', JStr iid), (''type'', ty)]"

text \<open>
  The interaction of a \<^verbatim>\<open>Wait\<close>: created when it does not exist, else it must be a pending one of
  this run.
\<close>

fun ensure_wait_interaction ::
  "string \<Rightarrow> string \<Rightarrow> int \<Rightarrow> int \<Rightarrow> step_outcome \<Rightarrow> store \<Rightarrow> store result" where
  "ensure_wait_interaction rid key att ver (Wait b iid ty prompt payload) s =
     (case find_interaction s iid of
        None \<Rightarrow>
          if \<not> nonempty ty \<or> \<not> nonempty prompt
          then Inl (ValueError ''wait outcome must include a durable interaction definition'')
          else Inr (append_event_with (Some key) (Some att) None rid ''interaction_requested''
                 (interaction_requested iid (json_of_str ty))
                 (s\<lparr>db_interactions := db_interactions s @
                      [new_interaction (db_clock s) iid rid (the ty) (the prompt) payload ver]\<rparr>))
      | Some i \<Rightarrow>
          if i_run_id i \<noteq> rid \<or> i_status i \<noteq> I_pending
          then Inl (ValueError ''wait outcome requires a pending interaction for this run'')
          else Inr s)"
| "ensure_wait_interaction rid key att ver _ s = Inr s"

definition find_step :: "store \<Rightarrow> string \<Rightarrow> string \<Rightarrow> int \<Rightarrow> step_row option" where
  "find_step s rid key att = List.find (\<lambda>t. s_attempt t = att) (step_rows s rid key)"

definition step_duration :: "time \<Rightarrow> step_row \<Rightarrow> json" where
  "step_duration now t =
     (case s_started_at t of None \<Rightarrow> JNull
      | Some t0 \<Rightarrow> JFloat (max 0 (of_int (int now - int t0) / 1000)))"

text \<open>The columns every outcome writes, then those of the particular outcome.\<close>

definition checkpoint_of :: "string \<Rightarrow> int \<Rightarrow> agent_state \<Rightarrow> step_outcome \<Rightarrow> json" where
  "checkpoint_of key att st oc =
     JObj [(''last_step'', JStr key), (''attempt'', JInt att), (''state'', dump_state st),
           (''outcome'', dump_outcome oc)]"

definition commit_row ::
  "time \<Rightarrow> string \<Rightarrow> int \<Rightarrow> agent_state \<Rightarrow> step_outcome \<Rightarrow> int \<Rightarrow> run_row \<Rightarrow> run_row" where
  "commit_row now key att st oc ver r0 =
     (let target = outcome_target oc;
          r = r0\<lparr>r_status := target, r_state := Some (Some (dump_state st)),
                 r_workflow_type := st_workflow_type st,
                 r_workflow_version := st_workflow_version st,
                 r_checkpoint := Some (Some (checkpoint_of key att st oc)),
                 r_summary := oc_summary (base_of oc), r_updated_at := now,
                 r_lease_owner := None, r_lease_expires_at := None, r_version := ver\<rparr>
      in case oc of
           Succeeded _ res arts \<Rightarrow>
             r\<lparr>r_result := Some res, r_artifacts := JArr arts, r_progress := 1,
               r_finished_at := Some now\<rparr>
         | Failed _ _ _ _ _ \<Rightarrow>
             (let r' = r\<lparr>r_error := Some (opt_json JObj (st_last_error st))\<rparr>
              in if target = S_failed then r'\<lparr>r_finished_at := Some now\<rparr> else r')
         | Cancelled _ _ \<Rightarrow> if target = S_cancelled then r\<lparr>r_finished_at := Some now\<rparr> else r
         | _ \<Rightarrow> r)"

definition commit_interactions :: "string \<Rightarrow> step_outcome \<Rightarrow> int \<Rightarrow> store \<Rightarrow> store" where
  "commit_interactions rid oc ver s =
     (let target = outcome_target oc
      in if target = S_waiting_user
         then (case oc of
                 Wait _ iid _ _ _ \<Rightarrow>
                   upd_interactions (\<lambda>i. i_id i = iid) (\<lambda>i. i\<lparr>i_run_version := Some ver\<rparr>) s
               | _ \<Rightarrow> s)
         else if terminal target \<or> target = S_needs_attention then cancel_pending rid s
         else s)"

definition commit_trace :: "string \<Rightarrow> agent_state \<Rightarrow> string" where
  "commit_trace rid st =
     (case map_of (st_data st) ''trace_id'' of
        Some v \<Rightarrow> if truthy v then py_str v else rid | None \<Rightarrow> rid)"

definition append_pending_events ::
  "string \<Rightarrow> string \<Rightarrow> int \<Rightarrow> agent_state \<Rightarrow> pending_event list \<Rightarrow> store \<Rightarrow> store" where
  "append_pending_events rid key att st evs s =
     fold (\<lambda>ev. append_event_with (Some key) (Some att) (Some (commit_trace rid st)) rid
                 (pe_type ev) (pe_payload ev)) evs s"

definition step_committed_payload ::
  "string \<Rightarrow> int \<Rightarrow> int \<Rightarrow> int \<Rightarrow> json \<Rightarrow> agent_state \<Rightarrow> step_outcome \<Rightarrow> json" where
  "step_committed_payload key att epoch ver dur st oc = JObj
     [(''step_key'', JStr key), (''attempt'', JInt att), (''lease_epoch'', JInt epoch),
      (''run_version'', JInt ver), (''duration_ms'', dur),
      (''model_usage'', JObj [(''model_turns'', JInt (bg_model_turns (st_budget st))),
                             (''tokens'', JInt (bg_tokens_used (st_budget st))),
                             (''cost_usd'', JFloat (bg_cost_usd (st_budget st)))]),
      (''workflow_type'', JStr (st_workflow_type st)),
      (''repair_count'', (case map_of (st_data st) ''repair_count'' of Some v \<Rightarrow> v | None \<Rightarrow> JInt 0)),
      (''artifact_count'', JInt (int (length (st_artifact_refs st)))),
      (''outcome'', dump_outcome oc)]"

text \<open>The guard: the lease, the status (a cancellation may be acknowledged), the attempt.\<close>

definition commit_guard ::
  "store \<Rightarrow> run_row \<Rightarrow> string \<Rightarrow> int \<Rightarrow> string \<Rightarrow> int \<Rightarrow> step_outcome \<Rightarrow> step_row result" where
  "commit_guard s r key att owner epoch oc =
     (if \<not> lease_matches r owner epoch \<or>
         (r_status r \<noteq> S_running \<and> \<not> (r_status r = S_cancel_requested \<and> is_Cancelled oc))
      then Inl (stale_active (r_id r))
      else (case find_step s (r_id r) key att of
              None \<Rightarrow> Inl (StaleLeaseError (''step attempt is no longer active: '' @ key @ ''#'' @ int_str att))
            | Some t \<Rightarrow>
                if s_status t \<noteq> T_running
                then Inl (StaleLeaseError (''step attempt is no longer active: '' @ key @ ''#'' @ int_str att))
                else Inr t))"

definition apply_commit ::
  "string \<Rightarrow> string \<Rightarrow> int \<Rightarrow> int \<Rightarrow> agent_state \<Rightarrow> step_outcome \<Rightarrow> run_row \<Rightarrow> step_row \<Rightarrow> store \<Rightarrow> store" where
  "apply_commit rid key att epoch st oc r t s =
     (let now = db_clock s; ver = r_version r + 1;
          s1 = upd_steps (\<lambda>x. s_run_id x = rid \<and> s_step_key x = key \<and> s_attempt x = att
                            \<and> s_status x = T_running)
                 (\<lambda>x. x\<lparr>s_status := outcome_step_status oc, s_output := Some (dump_outcome oc),
                       s_finished_at := Some now\<rparr>) s;
          s2 = upd_run rid (commit_row now key att st oc ver) s1;
          s3 = commit_interactions rid oc ver s2;
          s4 = append_pending_events rid key att st (oc_events (base_of oc)) s3;
          s5 = add_event rid ''step_committed''
                 (step_committed_payload key att epoch ver (step_duration now t) st oc) s4
      in add_event rid ''status_changed''
           (JObj [(''from'', JStr (status_str (r_status r))),
                  (''to'', JStr (status_str (outcome_target oc))), (''version'', JInt ver)]) s5)"

definition commit_step_tx ::
  "string \<Rightarrow> string \<Rightarrow> int \<Rightarrow> string \<Rightarrow> int \<Rightarrow> agent_state \<Rightarrow> step_outcome \<Rightarrow> (store, unit) tx" where
  "commit_step_tx rid key att owner epoch st0 oc s =
     (case run_or_key_error s rid of
        Inl e \<Rightarrow> Inl e
      | Inr r \<Rightarrow>
          (case commit_guard s r key att owner epoch oc of
             Inl e \<Rightarrow> Inl e
           | Inr t \<Rightarrow>
               (case ensure_wait_interaction rid key att (r_version r + 1) oc s of
                  Inl e \<Rightarrow> Inl e
                | Inr s0 \<Rightarrow> Inr (apply_commit rid key att epoch (outcome_state oc st0) oc r t s0, ()))))"

definition commit_step ::
  "string \<Rightarrow> string \<Rightarrow> int \<Rightarrow> string \<Rightarrow> int \<Rightarrow> agent_state \<Rightarrow> step_outcome \<Rightarrow> store \<Rightarrow> store \<times> unit result" where
  "commit_step rid key att owner epoch st oc = transact (commit_step_tx rid key att owner epoch st oc)"

section \<open>Facts about attempts\<close>

lemma fold_max_ge: "x \<in> set (a # as) \<Longrightarrow> x \<le> fold max as (a::int)"
  using Max.set_eq_fold[of a as] Max_ge[of "set (a # as)" x] by simp

lemma next_attempt_fresh:
  assumes "t \<in> set (step_rows s rid key)"
  shows "s_attempt t < next_attempt s rid key"
proof -
  obtain a as where as: "map s_attempt (step_rows s rid key) = a # as"
    using assms by (cases "map s_attempt (step_rows s rid key)") auto
  have "s_attempt t \<in> set (map s_attempt (step_rows s rid key))"
    using assms by simp
  then have "s_attempt t \<le> fold max as a" unfolding as by (rule fold_max_ge)
  with as show ?thesis by (simp add: next_attempt_def last_attempt_def)
qed

lemma commit_guardD:
  "commit_guard s r key att owner epoch oc = Inr t \<Longrightarrow>
     lease_matches r owner epoch \<and>
     (r_status r = S_running \<or> r_status r = S_cancel_requested \<and> is_Cancelled oc) \<and>
     find_step s (r_id r) key att = Some t \<and> s_status t = T_running"
  by (auto simp: commit_guard_def split: if_splits option.splits)

end
