(* ===== verification/Run_Interactions.thy ===== *)
theory Run_Interactions
  imports Run_Steps
begin

text \<open>
  Questions to the user and their answers: \<^verbatim>\<open>create_interaction\<close>, \<^verbatim>\<open>wait_for_interaction\<close>,
  \<^verbatim>\<open>resolve_interaction\<close>, and the outbox of permission grants an approval records
  (\<^verbatim>\<open>pending_permission_grants\<close>, \<^verbatim>\<open>complete_permission_grant\<close>, \<^verbatim>\<open>defer_permission_grant\<close>).
\<close>

section \<open>Asking\<close>

definition insert_interaction :: "interaction_row \<Rightarrow> store \<Rightarrow> store" where
  "insert_interaction i s = s\<lparr>db_interactions := db_interactions s @ [i]\<rparr>"

definition create_interaction_tx ::
  "string \<Rightarrow> string \<Rightarrow> string \<Rightarrow> json \<Rightarrow> string \<Rightarrow> (store, interaction_row option) tx" where
  "create_interaction_tx rid ty prompt payload iid s =
     (case find_interaction s iid of
        Some i \<Rightarrow> Inr (s, Some i)
      | None \<Rightarrow>
          (case run_or_key_error s rid of
             Inl e \<Rightarrow> Inl e
           | Inr r \<Rightarrow>
               if terminal (r_status r) \<or> r_status r = S_needs_attention
               then Inl (ValueError ''cannot create an interaction for an inactive run'')
               else let s' = add_event rid ''interaction_requested'' (interaction_requested iid (JStr ty))
                          (insert_interaction (new_interaction (db_clock s) iid rid ty prompt payload
                             (r_version r)) s)
                    in Inr (s', find_interaction s' iid)))"

definition create_interaction ::
  "string \<Rightarrow> string \<Rightarrow> string \<Rightarrow> json \<Rightarrow> string \<Rightarrow> store \<Rightarrow> store \<times> interaction_row option result" where
  "create_interaction rid ty prompt payload iid = transact (create_interaction_tx rid ty prompt payload iid)"

definition apply_wait ::
  "string \<Rightarrow> string \<Rightarrow> string \<Rightarrow> json \<Rightarrow> string \<Rightarrow> string \<Rightarrow> string option \<Rightarrow> int \<Rightarrow> store \<Rightarrow> store" where
  "apply_wait rid ty prompt payload iid summary event_type ver s =
     (let now = db_clock s;
          s1 = insert_interaction (new_interaction now iid rid ty prompt payload ver) s;
          s2 = upd_run rid (\<lambda>r. r\<lparr>r_status := S_waiting_user, r_summary := summary, r_updated_at := now,
                 r_version := ver, r_lease_owner := None, r_lease_expires_at := None\<rparr>) s1;
          s3 = add_event rid ''interaction_requested'' (interaction_requested iid (JStr ty)) s2;
          s4 = (case event_type of Some (c # cs) \<Rightarrow> add_event rid (c # cs) payload s3 | _ \<Rightarrow> s3)
      in add_event rid ''status_changed''
           (JObj [(''from'', JStr ''running''), (''to'', JStr ''waiting_user''), (''version'', JInt ver)]) s4)"

definition wait_for_interaction_tx ::
  "string \<Rightarrow> string \<Rightarrow> string \<Rightarrow> json \<Rightarrow> string \<Rightarrow> string \<Rightarrow> int \<Rightarrow> string \<Rightarrow> string option \<Rightarrow> (store, unit) tx" where
  "wait_for_interaction_tx rid ty prompt payload iid owner epoch summary event_type s =
     (case run_or_key_error s rid of
        Inl e \<Rightarrow> Inl e
      | Inr r \<Rightarrow>
          if r_status r \<noteq> S_running \<or> \<not> lease_matches r owner epoch then Inl (stale_active rid)
          else if find_interaction s iid \<noteq> None
          then Inl (ValueError ''interaction ID is already in use'')
          else Inr (apply_wait rid ty prompt payload iid summary event_type (r_version r + 1) s, ()))"

definition wait_for_interaction ::
  "string \<Rightarrow> string \<Rightarrow> string \<Rightarrow> json \<Rightarrow> string \<Rightarrow> string \<Rightarrow> int \<Rightarrow> string \<Rightarrow> string option \<Rightarrow> store \<Rightarrow>
   store \<times> unit result" where
  "wait_for_interaction rid ty prompt payload iid owner epoch summary event_type =
     transact (wait_for_interaction_tx rid ty prompt payload iid owner epoch summary event_type)"

section \<open>Answering\<close>

text \<open>Approval is the JSON literal \<^verbatim>\<open>true\<close>, bare or under \<^verbatim>\<open>approved\<close>; nothing else counts.\<close>

definition approved :: "json \<Rightarrow> bool" where
  "approved response =
     (if is_dict response then dget response ''approved'' = Some (JBool True)
      else response = JBool True)"

definition permission_type_of :: "interaction_row \<Rightarrow> json option result" where
  "permission_type_of i =
     (if i_type i \<noteq> ''permission'' then Inr None
      else if \<not> is_dict (i_payload i) then Inl (AttributeError ''get'')
      else Inr (dget (i_payload i) ''permission_type''))"

definition GRANT_TYPES :: "string list" where
  "GRANT_TYPES = [''mcp_spawn'', ''agent_connect'']"

definition grant_type :: "json option \<Rightarrow> string option" where
  "grant_type v = (case v of Some (JStr t) \<Rightarrow> if t \<in> set GRANT_TYPES then Some t else None | _ \<Rightarrow> None)"

text \<open>The value of a permission question: \<^verbatim>\<open>payload.get("value") or {}\<close>.\<close>

definition asked_value :: "interaction_row \<Rightarrow> json" where
  "asked_value i = (case dget (i_payload i) ''value'' of Some v \<Rightarrow> if truthy v then v else JObj [] | None \<Rightarrow> JObj [])"

definition new_grant :: "time \<Rightarrow> interaction_row \<Rightarrow> string \<Rightarrow> outbox_row" where
  "new_grant now i ty = \<lparr>g_interaction_id = i_id i, g_run_id = i_run_id i, g_permission_type = ty,
     g_value = asked_value i,
     g_status = G_pending, g_attempts = 0, g_next_attempt_at = None, g_created_at = now,
     g_completed_at = None\<rparr>"

definition resolve_row :: "time \<Rightarrow> run_status \<Rightarrow> string \<Rightarrow> json option \<Rightarrow> run_row \<Rightarrow> run_row" where
  "resolve_row now target summary error r0 =
     (let r = r0\<lparr>r_status := target, r_summary := summary, r_updated_at := now,
                 r_version := r_version r0 + 1\<rparr>;
          r = (if target \<noteq> S_running then r\<lparr>r_lease_owner := None, r_lease_expires_at := None\<rparr> else r);
          r = (if terminal target then r\<lparr>r_finished_at := Some now\<rparr> else r)
      in (if error \<noteq> None then r\<lparr>r_error := error\<rparr> else r))"

text \<open>
  The writes of a valid resolution: the grant, the answer, the closure of the sibling
  questions, the run and the two events.
\<close>

definition apply_resolution ::
  "interaction_row \<Rightarrow> json \<Rightarrow> run_status \<Rightarrow> string option \<Rightarrow> string \<Rightarrow> json option \<Rightarrow> run_row \<Rightarrow> store \<Rightarrow> store" where
  "apply_resolution i response target grant summary error r s =
     (let now = db_clock s; rid = i_run_id i; ver = r_version r + 1;
          s1 = (case grant of None \<Rightarrow> s
                | Some ty \<Rightarrow> s\<lparr>db_outbox := db_outbox s @ [new_grant now i ty]\<rparr>);
          s2 = upd_interactions (\<lambda>x. i_id x = i_id i)
                 (\<lambda>x. x\<lparr>i_status := I_resolved, i_response := Some response, i_resolved_at := Some now\<rparr>) s1;
          s3 = upd_interactions (\<lambda>x. i_run_id x = rid \<and> i_id x \<noteq> i_id i \<and> i_status x = I_pending)
                 (\<lambda>x. x\<lparr>i_status := I_cancelled, i_resolved_at := Some now\<rparr>) s2;
          s4 = upd_run rid (resolve_row now target
                 (if grant \<noteq> None then ''Applying permission'' else summary) error) s3;
          s5 = add_event rid ''interaction_resolved''
                 (JObj [(''interaction_id'', JStr (i_id i)), (''run_version'', JInt ver),
                        (''status'', JStr (status_str target))]) s4
      in add_event rid ''status_changed''
           (JObj [(''from'', JStr (status_str (r_status r))), (''to'', JStr (status_str target)),
                  (''version'', JInt ver)]) s5)"

definition resolution_target :: "run_row \<Rightarrow> run_status option \<Rightarrow> run_status" where
  "resolution_target r target =
     (case target of Some t \<Rightarrow> t
      | None \<Rightarrow> if r_adapter_type r = ''internal'' then S_running else S_queued)"

definition resolve_interaction_tx ::
  "string \<Rightarrow> json \<Rightarrow> int option \<Rightarrow> run_status option \<Rightarrow> string \<Rightarrow> json option \<Rightarrow> (store, unit) tx" where
  "resolve_interaction_tx iid response expected_run_version target_status summary error s =
     (case find_interaction s iid of
        None \<Rightarrow> Inl (KeyError iid)
      | Some i \<Rightarrow>
          if i_status i \<noteq> I_pending then Inl (ValueError ''interaction is already resolved'')
          else (case run_or_key_error s (i_run_id i) of
              Inl e \<Rightarrow> Inl e
            | Inr r \<Rightarrow>
                if r_status r \<noteq> S_waiting_user
                then Inl (ValueError (''run is no longer waiting for interaction: ''
                       @ status_str (r_status r)))
                else
                  let expected = (if expected_run_version \<noteq> None then expected_run_version
                                  else i_run_version i);
                      target = resolution_target r target_status
                  in if expected \<noteq> None \<and> expected \<noteq> Some (r_version r)
                     then Inl (RunVersionConflict (''run '' @ r_id r @ '' version changed: expected ''
                            @ int_str (the expected) @ '', found '' @ int_str (r_version r)))
                     else if target \<notin> set (TRANSITIONS S_waiting_user)
                     then Inl (ValueError (''invalid interaction target status: '' @ status_str target))
                     else (case permission_type_of i of
                         Inl e \<Rightarrow> Inl e
                       | Inr pt \<Rightarrow>
                           let grant = (if approved response then grant_type pt else None)
                           in if grant \<noteq> None \<and> target \<noteq> S_queued
                              then Inl (ValueError ''permission grants must resume through the durable queue'')
                              else if grant \<noteq> None \<and> lookup_by g_interaction_id iid (db_outbox s) \<noteq> None
                              then Inl (IntegrityError ''permission_grant_outbox'')
                              else Inr (apply_resolution i response target grant summary error r s, ()))))"

definition resolve_interaction ::
  "string \<Rightarrow> json \<Rightarrow> int option \<Rightarrow> run_status option \<Rightarrow> string \<Rightarrow> json option \<Rightarrow> store \<Rightarrow>
   store \<times> unit result" where
  "resolve_interaction iid response expected_run_version target_status summary error =
     transact (resolve_interaction_tx iid response expected_run_version target_status summary error)"

section \<open>The outbox of permission grants\<close>

definition grant_before :: "outbox_row \<Rightarrow> outbox_row \<Rightarrow> bool" where
  "grant_before a b \<longleftrightarrow> g_created_at a < g_created_at b \<or>
     g_created_at a = g_created_at b \<and> str_less (g_interaction_id a) (g_interaction_id b)"

definition pending_permission_grants :: "store \<Rightarrow> bool \<Rightarrow> outbox_row list" where
  "pending_permission_grants s due_only =
     order_by grant_before (filter (\<lambda>g. g_status g = G_pending \<and>
        (\<not> due_only \<or> (case g_next_attempt_at g of None \<Rightarrow> True | Some t \<Rightarrow> t \<le> db_clock s)))
       (db_outbox s))"

definition find_pending_grant :: "store \<Rightarrow> string \<Rightarrow> outbox_row option" where
  "find_pending_grant s iid =
     List.find (\<lambda>g. g_interaction_id g = iid \<and> g_status g = G_pending) (db_outbox s)"

definition complete_permission_grant_tx :: "string \<Rightarrow> (store, unit) tx" where
  "complete_permission_grant_tx iid s =
     (case find_pending_grant s iid of
        None \<Rightarrow> Inr (s, ())
      | Some g \<Rightarrow>
          Inr (upd_run (g_run_id g)
                 (\<lambda>r. if r_status r = S_queued
                      then r\<lparr>r_summary := ''Permission granted'', r_error := None,
                             r_updated_at := db_clock s\<rparr> else r)
                 (upd_outbox (\<lambda>x. g_interaction_id x = iid)
                    (\<lambda>x. x\<lparr>g_status := G_applied, g_completed_at := Some (db_clock s)\<rparr>) s), ()))"

definition complete_permission_grant :: "string \<Rightarrow> store \<Rightarrow> store \<times> unit result" where
  "complete_permission_grant iid = transact (complete_permission_grant_tx iid)"

definition grant_retry_error :: json where
  "grant_retry_error = JObj [(''code'', JStr ''permission_grant_pending''),
     (''message'', JStr ''Permission could not be saved; retrying'')]"

definition defer_permission_grant_tx :: "string \<Rightarrow> (store, unit) tx" where
  "defer_permission_grant_tx iid s =
     (let s1 = upd_outbox (\<lambda>x. g_interaction_id x = iid \<and> g_status x = G_pending)
            (\<lambda>x. x\<lparr>g_attempts := Suc (g_attempts x),
                   g_next_attempt_at := Some (db_clock s + seconds 5)\<rparr>) s
      in Inr (case find_pending_grant s1 iid of
                None \<Rightarrow> s1
              | Some g \<Rightarrow> upd_run (g_run_id g)
                  (\<lambda>r. if r_status r = S_queued
                       then r\<lparr>r_summary := ''Permission grant pending; retrying'',
                              r_error := Some grant_retry_error, r_updated_at := db_clock s\<rparr> else r) s1,
              ()))"

definition defer_permission_grant :: "string \<Rightarrow> store \<Rightarrow> store \<times> unit result" where
  "defer_permission_grant iid = transact (defer_permission_grant_tx iid)"

lemma insert_interaction_frame [simp, frame_simps]:
  "db_runs (insert_interaction i s) = db_runs s" "db_events (insert_interaction i s) = db_events s"
  "db_outbox (insert_interaction i s) = db_outbox s" "db_steps (insert_interaction i s) = db_steps s"
  "db_last_event (insert_interaction i s) = db_last_event s"
  "db_last_step (insert_interaction i s) = db_last_step s"
  "db_clock (insert_interaction i s) = db_clock s" "db_uuids (insert_interaction i s) = db_uuids s"
  "db_fs (insert_interaction i s) = db_fs s"
  "db_stream_epoch (insert_interaction i s) = db_stream_epoch s"
  "db_workspace (insert_interaction i s) = db_workspace s"
  by (simp_all add: insert_interaction_def)

lemma resolve_txD:
  assumes "resolve_interaction_tx iid response expected target_status summary err s = Inr (s', a)"
  obtains i r target grant where "find_interaction s iid = Some i" "i_status i = I_pending"
    "find_run s (i_run_id i) = Some r" "r_status r = S_waiting_user"
    "target = resolution_target r target_status" "target \<in> set (TRANSITIONS S_waiting_user)"
    "grant = None \<or> approved response \<and> target = S_queued \<and>
       lookup_by g_interaction_id iid (db_outbox s) = None \<and>
       (\<exists>pt. permission_type_of i = Inr pt \<and> grant_type pt = grant)"
    "s' = apply_resolution i response target grant summary err r s"
proof -
  obtain i r pt where *: "find_interaction s iid = Some i" "i_status i = I_pending"
    "find_run s (i_run_id i) = Some r" "r_status r = S_waiting_user"
    "resolution_target r target_status \<in> set (TRANSITIONS S_waiting_user)"
    "permission_type_of i = Inr pt"
    "\<not> ((if approved response then grant_type pt else None) \<noteq> None \<and>
        resolution_target r target_status \<noteq> S_queued)"
    "\<not> ((if approved response then grant_type pt else None) \<noteq> None \<and>
        lookup_by g_interaction_id iid (db_outbox s) \<noteq> None)"
    "s' = apply_resolution i response (resolution_target r target_status)
       (if approved response then grant_type pt else None) summary err r s"
    using assms
    unfolding resolve_interaction_tx_def Let_def find_run_key[symmetric]
    by (cases "find_interaction s iid"; simp split: sum.splits if_split_asm) 
  show thesis
    by (rule that[OF *(1-4) refl *(5) _ *(9)]) (use *(6,7,8) in auto)
qed

lemma ensure_wait_cases:
  assumes "ensure_wait_interaction rid key att ver oc s = Inr s'"
  obtains (other) "s' = s" "\<And>b iid ty pr pl. oc \<noteq> Wait b iid ty pr pl"
  | (pending) b iid ty pr pl i where "oc = Wait b iid ty pr pl" "s' = s"
      "find_interaction s iid = Some i" "i_run_id i = rid" "i_status i = I_pending"
  | (new) b iid ty pr pl where "oc = Wait b iid ty pr pl" "nonempty ty" "nonempty pr"
      "find_interaction s iid = None"
      "s' = append_event_with (Some key) (Some att) None rid ''interaction_requested''
         (interaction_requested iid (json_of_str ty))
         (insert_interaction (new_interaction (db_clock s) iid rid (the ty) (the pr) pl ver) s)"
proof (cases oc)
  case (Wait b iid ty pr pl)
  show thesis
  proof (cases "find_interaction s iid")
    case None
    with assms Wait show thesis
      by (intro new[OF Wait _ _ None]) (auto simp: insert_interaction_def split: if_splits)
  next
    case (Some i)
    with assms Wait show thesis
      by (intro pending[OF Wait _ Some]) (auto split: if_splits)
  qed
qed (use assms other in auto)

end
