(* ===== verification/Run_Recovery.thy ===== *)
theory Run_Recovery
  imports Run_Interactions
begin

text \<open>
  Cancellation, recovery and reconciliation: \<^verbatim>\<open>finalize_cancel_requested\<close>, \<^verbatim>\<open>recover_orphaned\<close>,
  \<^verbatim>\<open>release_worker\<close>, \<^verbatim>\<open>recover_pending_staging_cleanup\<close>, \<^verbatim>\<open>request_cancel\<close> and
  \<^verbatim>\<open>reconcile_effect\<close> of \<^verbatim>\<open>RunStore\<close>. An operation that spans several transactions is the
  composition of their effects, so a write committed before an error stays.
\<close>

section \<open>Finishing a cancellation\<close>

text \<open>
  A cancellation nobody acknowledged is safe only when no step was active.
\<close>

definition cancel_target :: "store \<Rightarrow> string \<Rightarrow> run_status" where
  "cancel_target s rid = (if has_running_step s rid then S_needs_attention else S_cancelled)"

definition apply_finalize :: "string \<Rightarrow> store \<Rightarrow> store" where
  "apply_finalize rid s =
     (let now = db_clock s; target = cancel_target s rid; unsure = (target = S_needs_attention);
          s1 = upd_run rid (\<lambda>r. r\<lparr>r_status := target,
                 r_summary := (if unsure then ''Cancellation outcome requires review'' else ''Cancelled''),
                 r_updated_at := now, r_finished_at := (if unsure then None else Some now),
                 r_lease_owner := None, r_lease_expires_at := None, r_version := r_version r + 1\<rparr>) s;
          s2 = close_running_steps rid (if unsure then T_interrupted else T_cancelled) s1;
          s3 = cancel_pending rid s2
      in add_event rid ''cancellation_completed''
           (JObj [(''status'', JStr (status_str target)),
                  (''effect_state'', JStr (if unsure then ''unknown'' else ''none''))]) s3)"

definition finalize_cancel_requested_tx :: "string \<Rightarrow> string \<Rightarrow> (store, unit) tx" where
  "finalize_cancel_requested_tx rid worker s =
     (case run_or_key_error s rid of
        Inl e \<Rightarrow> Inl e
      | Inr r \<Rightarrow>
          if r_status r \<noteq> S_cancel_requested \<or> r_lease_owner r \<noteq> Some worker then Inr (s, ())
          else Inr (apply_finalize rid s, ()))"

definition finalize_cancel_requested :: "string \<Rightarrow> string \<Rightarrow> store \<Rightarrow> store \<times> unit result" where
  "finalize_cancel_requested rid worker = transact (finalize_cancel_requested_tx rid worker)"

section \<open>Orphans and shutdown\<close>

definition recovery_target :: "store \<Rightarrow> run_row \<Rightarrow> run_status" where
  "recovery_target s r =
     (if r_status r = S_cancel_requested then cancel_target s (r_id r)
      else if r_recovery r = ''restart_safe'' then S_queued else S_needs_attention)"

definition recover_row :: "string \<Rightarrow> run_row \<Rightarrow> store \<Rightarrow> store" where
  "recover_row event_type row s =
     (let now = db_clock s; rid = r_id row; target = recovery_target s row;
          s1 = upd_run rid (\<lambda>r. r\<lparr>r_status := target, r_lease_owner := None,
                 r_lease_expires_at := None, r_updated_at := now,
                 r_finished_at := (case r_finished_at r of Some t \<Rightarrow> Some t
                    | None \<Rightarrow> if target = S_cancelled then Some now else None),
                 r_version := r_version r + 1\<rparr>) s;
          s2 = close_running_steps rid T_interrupted s1;
          s3 = (if target \<in> {S_cancelled, S_needs_attention} then cancel_pending rid s2 else s2)
      in add_event rid event_type (JObj [(''status'', JStr (status_str target))]) s3)"

definition orphaned :: "store \<Rightarrow> run_row \<Rightarrow> bool" where
  "orphaned s r \<longleftrightarrow> occupies r \<and>
     (r_lease_owner r = None \<or>
      (case r_lease_expires_at r of None \<Rightarrow> True | Some t \<Rightarrow> t < db_clock s))"

definition recover_orphans_tx :: "(store, nat) tx" where
  "recover_orphans_tx s =
     (let rows = filter (orphaned s) (db_runs s)
      in Inr (fold (recover_row ''recovered'') rows s, length rows))"

definition release_worker_tx :: "string \<Rightarrow> (store, nat) tx" where
  "release_worker_tx worker s =
     (let rows = filter (\<lambda>r. r_lease_owner r = Some worker \<and> occupies r) (db_runs s)
      in Inr (fold (recover_row ''lease_released'') rows s, length rows))"

definition release_worker :: "string \<Rightarrow> store \<Rightarrow> store \<times> nat result" where
  "release_worker worker = transact (release_worker_tx worker)"

section \<open>The cleanup of staged artifacts\<close>

definition cleanup_error :: "py_error \<Rightarrow> json" where
  "cleanup_error e = JObj [(''code'', JStr ''staged_artifact_cleanup_failed''),
     (''message'', JStr (error_message e)), (''effect_state'', JStr ''unknown'')]"

text \<open>The tombstone a checkpoint carries, if it is readable and an object.\<close>

definition tombstone :: "json option \<Rightarrow> json option" where
  "tombstone st =
     (case st of
        Some (JObj d) \<Rightarrow>
          (case map_of d ''data'' of
             Some (JObj dt) \<Rightarrow>
               (case map_of dt ''staged_app_cleanup_pending'' of Some (JObj h) \<Rightarrow> Some (JObj h) | _ \<Rightarrow> None)
           | _ \<Rightarrow> None)
      | _ \<Rightarrow> None)"

definition cleanup_selected :: "string option \<Rightarrow> run_row \<Rightarrow> bool" where
  "cleanup_selected rid r \<longleftrightarrow>
     r_status r \<in> {S_cancel_requested, S_needs_attention, S_cancelled} \<and> r_state r \<noteq> None \<and>
     (case rid of None \<Rightarrow> True | Some i \<Rightarrow> r_id r = i)"

definition cleanup_failed_tx :: "string \<Rightarrow> json \<Rightarrow> py_error \<Rightarrow> store \<Rightarrow> store" where
  "cleanup_failed_tx rid pending e s =
     (case find_run s rid of
        None \<Rightarrow> s
      | Some cur \<Rightarrow>
          if tombstone (loads (r_state cur)) \<noteq> Some pending then s
          else if r_status cur = S_needs_attention \<and> opt_py_eq (r_error cur) (Some (cleanup_error e)) then s
          else
            let now = db_clock s; ver = r_version cur + 1;
                st' = dset ''last_error'' (cleanup_error e) (json_or_null (loads (r_state cur)));
                s1 = upd_run rid (\<lambda>r. r\<lparr>r_status := S_needs_attention,
                       r_summary := ''Cancellation requires staged artifact cleanup'',
                       r_error := Some (cleanup_error e), r_state := Some (Some st'),
                       r_updated_at := now, r_finished_at := None, r_lease_owner := None,
                       r_lease_expires_at := None, r_version := ver\<rparr>) s;
                s2 = add_event rid ''staged_artifact_cleanup_failed''
                       (JObj [(''error'', JStr (error_class e)), (''reason'', JStr ''run_cancelled'')]) s1
            in if r_status cur \<noteq> S_needs_attention
               then add_event rid ''status_changed''
                      (JObj [(''from'', JStr (status_str (r_status cur))), (''to'', JStr ''needs_attention''),
                             (''effect_state'', JStr ''unknown''), (''version'', JInt ver)]) s2
               else s2)"

definition cleanup_done_tx :: "string \<Rightarrow> json \<Rightarrow> string option \<Rightarrow> store \<Rightarrow> store \<times> bool" where
  "cleanup_done_tx rid pending app_id s =
     (case find_run s rid of
        None \<Rightarrow> (s, False)
      | Some cur \<Rightarrow>
          if tombstone (loads (r_state cur)) \<noteq> Some pending then (s, False)
          else
            let now = db_clock s; ver = r_version cur + 1;
                st' = with_data (dpop ''staged_app_cleanup_pending'') (json_or_null (loads (r_state cur)));
                unresolved = state_has_unresolved_effect (json_or_null (dget st' ''data''));
                target = (if unresolved then S_needs_attention else S_cancelled);
                s1 = upd_run rid (\<lambda>r. r\<lparr>r_status := target,
                       r_summary := (if unresolved then ''Cancellation requires effect reconciliation''
                                     else ''Cancelled''),
                       r_error := (if unresolved then r_error cur else None),
                       r_state := Some (Some st'),
                       r_checkpoint := clear_staged_app_cleanup_from_checkpoint (r_checkpoint cur),
                       r_updated_at := now, r_finished_at := (if unresolved then None else Some now),
                       r_lease_owner := None, r_lease_expires_at := None, r_version := ver\<rparr>) s;
                s2 = close_running_steps rid T_cancelled (cancel_pending rid s1);
                s3 = add_event rid ''staged_artifact_discarded''
                       (JObj [(''app_id'', json_of_str app_id), (''reason'', JStr ''run_cancelled'')]) s2
            in (if r_status cur \<noteq> target
                then add_event rid ''status_changed''
                       (JObj [(''from'', JStr (status_str (r_status cur))),
                              (''to'', JStr (status_str target)),
                              (''effect_state'', JStr (if unresolved then ''unknown'' else ''none'')),
                              (''version'', JInt ver)]) s3
                else s3, True))"

text \<open>One row of the selection: the deletion happens outside the transactions.\<close>

definition cleanup_row :: "run_row \<Rightarrow> store \<times> nat \<Rightarrow> store \<times> nat" where
  "cleanup_row row sn =
     (case sn of (s, n) \<Rightarrow>
        (case tombstone (loads (r_state row)) of
           None \<Rightarrow> (s, n)
         | Some pending \<Rightarrow>
             (case discard_pending_staged_app (db_fs s) (json_or_null (loads (r_state row))) of
                Inl e \<Rightarrow> (cleanup_failed_tx (r_id row) pending e s, n)
              | Inr (fs', _, app_id) \<Rightarrow>
                  (case cleanup_done_tx (r_id row) pending app_id (s\<lparr>db_fs := fs'\<rparr>) of
                     (s', finished) \<Rightarrow> (s', if finished then Suc n else n)))))"

definition recover_pending_staging_cleanup :: "string option \<Rightarrow> store \<Rightarrow> store \<times> nat" where
  "recover_pending_staging_cleanup rid s =
     fold cleanup_row (filter (cleanup_selected rid) (db_runs s)) (s, 0)"

definition recover_orphaned :: "store \<Rightarrow> store \<times> nat result" where
  "recover_orphaned s = transact recover_orphans_tx (fst (recover_pending_staging_cleanup None s))"

section \<open>The cancel command\<close>

text \<open>What the command learns from the checkpoint before it decides.\<close>

record cancel_plan =
  cp_state :: "json option"
  cp_data :: json
  cp_app_id :: "string option"
  cp_promoted :: bool
  cp_error :: "string option"

definition read_cancel_state :: "run_row \<Rightarrow> json option \<times> json" where
  "read_cancel_state r =
     (case r_state r of
        None \<Rightarrow> (None, JObj [])
      | Some (Some (JObj d)) \<Rightarrow>
          (Some (JObj d), (case map_of d ''data'' of Some (JObj dt) \<Rightarrow> JObj dt | _ \<Rightarrow> JObj []))
      | Some _ \<Rightarrow> (None, JObj [(''effect_state_unreadable'', JBool True)]))"

definition mark_promoted :: "json \<Rightarrow> json" where
  "mark_promoted dt = dset ''non_compensable_effect'' (JBool True)
     (dset ''effects_committed'' (JBool True) dt)"

definition plan_staged_cancel :: "file_system \<Rightarrow> string \<Rightarrow> json \<Rightarrow> json \<Rightarrow> cancel_plan" where
  "plan_staged_cancel fs rid state data =
     (let failed = (\<lambda>e. \<lparr>cp_state = Some state, cp_data = data, cp_app_id = None,
            cp_promoted = False, cp_error = Some (error_class e)\<rparr>)
      in case dget data ''staged_app'' of
           Some (JObj h) \<Rightarrow>
             (case validate_coding_agent_promotion fs (staged_of (JObj h)) rid of
                Inl e \<Rightarrow> failed e
              | Inr (Some _) \<Rightarrow>
                  \<lparr>cp_state = Some (with_data mark_promoted state), cp_data = mark_promoted data,
                   cp_app_id = None, cp_promoted = True, cp_error = None\<rparr>
              | Inr None \<Rightarrow>
                  (case queue_staged_app_cleanup state of
                     Inl e \<Rightarrow> failed e
                   | Inr (state', app) \<Rightarrow>
                       \<lparr>cp_state = Some state', cp_data = json_or_null (dget state' ''data''),
                        cp_app_id = app, cp_promoted = False, cp_error = None\<rparr>))
         | _ \<Rightarrow> failed (ValueError ''staged_app checkpoint must be an object''))"

definition plan_cancel :: "file_system \<Rightarrow> run_row \<Rightarrow> cancel_plan" where
  "plan_cancel fs r =
     (case read_cancel_state r of (raw, data) \<Rightarrow>
        (case raw of
           Some state \<Rightarrow>
             if r_status r \<in> {S_queued, S_waiting_user} \<and> truthy_opt (dget data ''staged_app'')
             then plan_staged_cancel fs (r_id r) state data
             else \<lparr>cp_state = raw, cp_data = data, cp_app_id = None, cp_promoted = False, cp_error = None\<rparr>
         | None \<Rightarrow> \<lparr>cp_state = raw, cp_data = data, cp_app_id = None, cp_promoted = False, cp_error = None\<rparr>))"

definition cp_queued :: "cancel_plan \<Rightarrow> bool" where
  "cp_queued p = (cp_app_id p \<noteq> None)"

definition request_target :: "run_row \<Rightarrow> cancel_plan \<Rightarrow> run_status" where
  "request_target r p =
     (if r_status r = S_running then S_cancel_requested
      else if state_has_unresolved_effect (cp_data p) \<or> cp_error p \<noteq> None then S_needs_attention
      else if cp_queued p then S_cancel_requested else S_cancelled)"

definition attention_error :: "cancel_plan \<Rightarrow> json" where
  "attention_error p = JObj
     [(''code'', JStr (if cp_promoted p then ''cancel_after_artifact_promotion''
                     else if cp_error p \<noteq> None then ''staged_artifact_cleanup_failed''
                     else ''cancellation_effect_unknown'')),
      (''message'', JStr (if cp_promoted p then ''The App was already promoted before cancellation''
                     else if cp_error p \<noteq> None then ''Staged artifact cleanup could not be confirmed''
                     else ''Cancellation requires effect reconciliation'')),
      (''effect_state'', JStr (if cp_promoted p then ''committed'' else ''unknown''))]"

definition cancel_summary :: "run_status \<Rightarrow> cancel_plan \<Rightarrow> string" where
  "cancel_summary target p =
     (if target = S_cancel_requested \<and> \<not> cp_queued p then ''Cancellation requested''
      else if cp_queued p then ''Cancelling staged artifact''
      else if cp_error p \<noteq> None then ''Cancellation requires staged artifact cleanup''
      else if target = S_needs_attention then ''Cancellation requires effect reconciliation''
      else ''Cancelled'')"

definition cancel_row ::
  "time \<Rightarrow> run_status \<Rightarrow> cancel_plan \<Rightarrow> jtext option \<Rightarrow> run_row \<Rightarrow> run_row" where
  "cancel_row now target p checkpoint r0 =
     (let attention = (target = S_needs_attention);
          r = r0\<lparr>r_status := target, r_summary := cancel_summary target p, r_updated_at := now,
                 r_version := r_version r0 + 1\<rparr>;
          st = (if attention then map_option (dset ''last_error'' (attention_error p)) (cp_state p)
                else cp_state p);
          r = (if (cp_queued p \<or> cp_promoted p \<or> attention) \<and> cp_state p \<noteq> None
               then r\<lparr>r_state := map_option Some st, r_checkpoint := checkpoint\<rparr> else r);
          r = (if attention then r\<lparr>r_error := Some (attention_error p)\<rparr> else r)
      in if target = S_cancelled
         then r\<lparr>r_finished_at := Some now, r_lease_owner := None, r_lease_expires_at := None\<rparr> else r)"

definition cancel_checkpoint :: "run_row \<Rightarrow> cancel_plan \<Rightarrow> jtext option result" where
  "cancel_checkpoint r p =
     (if cp_queued p \<and> r_checkpoint r \<noteq> None
      then queue_staged_app_cleanup_in_checkpoint (r_checkpoint r) else Inr (r_checkpoint r))"

definition apply_cancel ::
  "run_row \<Rightarrow> cancel_plan \<Rightarrow> jtext option \<Rightarrow> store \<Rightarrow> store" where
  "apply_cancel r p checkpoint s =
     (let now = db_clock s; rid = r_id r; target = request_target r p;
          s1 = upd_run rid (cancel_row now target p checkpoint) s;
          closed = length (pending_of s1 rid);
          s2 = cancel_pending rid s1;
          s3 = (if target = S_cancelled then close_running_steps rid T_cancelled s2 else s2);
          s4 = (if cp_queued p
                then add_event rid ''staged_artifact_cleanup_requested''
                       (JObj [(''app_id'', json_of_str (cp_app_id p)), (''reason'', JStr ''run_cancelled'')]) s3
                else (case cp_error p of
                        Some cls \<Rightarrow> add_event rid ''staged_artifact_cleanup_failed''
                          (JObj [(''error'', JStr cls), (''reason'', JStr ''run_cancelled'')]) s3
                      | None \<Rightarrow> s3))
      in add_event rid ''status_changed''
           (JObj [(''from'', JStr (status_str (r_status r))), (''to'', JStr (status_str target)),
                  (''closed_interactions'', JInt (int closed)),
                  (''effect_state'', JStr (if target = S_needs_attention then ''unknown'' else ''none'')),
                  (''version'', JInt (r_version r + 1))]) s4)"

text \<open>The value of the body says whether a tombstone was queued.\<close>

definition request_cancel_tx :: "string \<Rightarrow> (store, bool) tx" where
  "request_cancel_tx rid s =
     (case run_or_key_error s rid of
        Inl e \<Rightarrow> Inl e
      | Inr r \<Rightarrow>
          if terminal (r_status r) then Inr (s, False)
          else if r_status r = S_needs_attention
          then Inl (ValueError ''needs-attention runs require explicit effect reconciliation; they cannot be marked cancelled'')
          else if r_status r = S_cancel_requested then Inr (s, False)
          else
            let p = plan_cancel (db_fs s) r
            in (case cancel_checkpoint r p of
                  Inl e \<Rightarrow> Inl e
                | Inr checkpoint \<Rightarrow> Inr (apply_cancel r p checkpoint s, cp_queued p)))"

definition request_cancel :: "string \<Rightarrow> store \<Rightarrow> store \<times> run_view option result" where
  "request_cancel rid s =
     (case transact (request_cancel_tx rid) (fst (recover_pending_staging_cleanup (Some rid) s)) of
        (s1, Inl e) \<Rightarrow> (s1, Inl e)
      | (s1, Inr queued) \<Rightarrow>
          (let s2 = (if queued then fst (recover_pending_staging_cleanup (Some rid) s1) else s1)
           in (s2, Inr (get_run s2 rid))))"

section \<open>Reconciling an unknown effect\<close>

datatype resolution = Confirmed_not_committed | Compensated | Confirmed_committed

fun resolution_str :: "resolution \<Rightarrow> string" where
  "resolution_str Confirmed_not_committed = ''confirmed_not_committed''"
| "resolution_str Compensated = ''compensated''"
| "resolution_str Confirmed_committed = ''confirmed_committed''"

definition cleanup_blocked :: "run_row \<Rightarrow> bool" where
  "cleanup_blocked r =
     (case loads (r_state r) of
        Some (JObj d) \<Rightarrow>
          (case map_of d ''data'' of
             Some (JObj dt) \<Rightarrow>
               truthy_opt (map_of dt ''staged_app_cleanup_pending'') \<or>
               (truthy_opt (map_of dt ''staged_app'') \<and>
                (case r_error r of None \<Rightarrow> False
                 | Some e \<Rightarrow> dget e ''code'' = Some (JStr ''staged_artifact_cleanup_failed'')))
           | _ \<Rightarrow> False)
      | _ \<Rightarrow> False)"

definition reconciled_effect :: "resolution \<Rightarrow> string" where
  "reconciled_effect res = (if res = Confirmed_committed then ''committed'' else ''none'')"

definition reconcile_error :: "resolution \<Rightarrow> string option \<Rightarrow> json" where
  "reconcile_error res note = JObj
     [(''code'', JStr ''effect_reconciled''),
      (''message'', JStr (case note of Some (c # cs) \<Rightarrow> c # cs
         | _ \<Rightarrow> map (\<lambda>c. if c = CHR ''_'' then CHR '' '' else c) (resolution_str res))),
      (''effect_state'', JStr (reconciled_effect res)),
      (''reconciliation'', JStr (resolution_str res))]"

definition reconcile_data :: "resolution \<Rightarrow> json \<Rightarrow> json" where
  "reconcile_data res dt =
     (let d1 = dpop ''effect_in_flight'' dt
      in if res = Confirmed_committed then d1
         else dset ''graph_compensations'' (JArr [])
                (dset ''non_compensable_effect'' (JBool False)
                  (dset ''effects_committed'' (JBool False) d1)))"

definition reconcile_state :: "resolution \<Rightarrow> string option \<Rightarrow> jtext option \<Rightarrow> jtext option" where
  "reconcile_state res note raw =
     (case loads raw of
        Some (JObj d) \<Rightarrow>
          (let st = dset ''last_error'' (reconcile_error res note) (JObj d)
           in Some (Some (case dget st ''data'' of
                Some (JObj dt) \<Rightarrow> dset ''data'' (reconcile_data res (JObj dt)) st | _ \<Rightarrow> st)))
      | _ \<Rightarrow> raw)"

definition reconcile_effect_tx :: "string \<Rightarrow> resolution \<Rightarrow> string option \<Rightarrow> (store, unit) tx" where
  "reconcile_effect_tx rid res note s =
     (case run_or_key_error s rid of
        Inl e \<Rightarrow> Inl e
      | Inr r \<Rightarrow>
          if r_status r \<noteq> S_needs_attention
          then Inl (ValueError ''only needs-attention runs can be reconciled'')
          else if cleanup_blocked r
          then Inl (ValueError ''staged artifact cleanup must complete before effect reconciliation'')
          else
            let now = db_clock s; ver = r_version r + 1;
                s1 = upd_run rid (\<lambda>x. x\<lparr>r_status := S_failed,
                       r_summary := ''Effect reconciliation completed'',
                       r_error := Some (reconcile_error res note),
                       r_state := reconcile_state res note (r_state r),
                       r_updated_at := now, r_finished_at := Some now, r_lease_owner := None,
                       r_lease_expires_at := None, r_version := ver\<rparr>) s;
                s2 = add_event rid ''effect_reconciled''
                       (JObj [(''resolution'', JStr (resolution_str res)),
                              (''effect_state'', JStr (reconciled_effect res)), (''version'', JInt ver)]) s1
            in Inr (add_event rid ''status_changed''
                      (JObj [(''from'', JStr ''needs_attention''), (''to'', JStr ''failed''),
                             (''version'', JInt ver)]) s2, ()))"

definition reconcile_effect ::
  "string \<Rightarrow> resolution \<Rightarrow> string option \<Rightarrow> store \<Rightarrow> store \<times> unit result" where
  "reconcile_effect rid res note = transact (reconcile_effect_tx rid res note)"

end
