(* ===== verification/Run_Purge.thy ===== *)
theory Run_Purge
  imports Run_Recovery
begin

text \<open>
  Deleting a session: the closure of its runs under child and retry links and their removal
  with all dependent rows (\<^verbatim>\<open>_session_run_rows\<close>, \<^verbatim>\<open>session_runs_for_purge\<close>, \<^verbatim>\<open>purge_session\<close>).
\<close>

section \<open>The closure\<close>

definition session_seed :: "string \<Rightarrow> run_row \<Rightarrow> bool" where
  "session_seed sid r \<longleftrightarrow> r_source_id r = Some sid \<and>
     (r_source_type r = ''chat'' \<or> r_adapter_type r = ''internal_agent'')"

definition links_into :: "string list \<Rightarrow> run_row \<Rightarrow> bool" where
  "links_into acc r \<longleftrightarrow>
     (\<exists>p \<in> set acc. r_parent_run_id r = Some p \<or> r_retry_of r = Some p)"

lemma links_into_code [code]:
  "links_into acc r = list_ex (\<lambda>p. r_parent_run_id r = Some p \<or> r_retry_of r = Some p) acc"
  by (auto simp: links_into_def list_ex_iff)

text \<open>One round of the recursive common table expression: the rows it adds.\<close>

definition closure_frontier :: "run_row list \<Rightarrow> string list \<Rightarrow> run_row list" where
  "closure_frontier rows acc = filter (\<lambda>r. r_id r \<notin> set acc \<and> links_into acc r) rows"

function close_links :: "run_row list \<Rightarrow> string list \<Rightarrow> string list" where
  "close_links rows acc =
     (if closure_frontier rows acc = [] then acc
      else close_links rows (acc @ map r_id (closure_frontier rows acc)))"
  by pat_completeness auto

lemma frontier_shrinks:
  assumes "closure_frontier rows acc \<noteq> []"
  shows "length (filter (\<lambda>r. r_id r \<notin> set (acc @ map r_id (closure_frontier rows acc))) rows)
       < length (filter (\<lambda>r. r_id r \<notin> set acc) rows)"
proof -
  obtain r where r: "r \<in> set (closure_frontier rows acc)"
    using assms by (cases "closure_frontier rows acc") auto
  let ?A = "filter (\<lambda>r. r_id r \<notin> set acc) rows"
  have "filter (\<lambda>r. r_id r \<notin> set (acc @ map r_id (closure_frontier rows acc))) rows =
        filter (\<lambda>x. r_id x \<notin> r_id ` set (closure_frontier rows acc)) ?A"
    by (simp add: conj_commute)
  moreover have "r \<in> set ?A" using r by (auto simp: closure_frontier_def)
  moreover have "\<not> r_id r \<notin> r_id ` set (closure_frontier rows acc)" using r by simp
  ultimately show ?thesis
    using length_filter_less[of r ?A "\<lambda>x. r_id x \<notin> r_id ` set (closure_frontier rows acc)"]
    by simp
qed

termination close_links
  by (relation "measure (\<lambda>(rows, acc). length (filter (\<lambda>r. r_id r \<notin> set acc) rows))")
    (use frontier_shrinks in auto)

declare close_links.simps [simp del]

definition session_run_ids :: "store \<Rightarrow> string \<Rightarrow> string list" where
  "session_run_ids s sid =
     close_links (db_runs s) (map r_id (filter (session_seed sid) (db_runs s)))"

definition session_run_rows :: "store \<Rightarrow> string \<Rightarrow> run_row list" where
  "session_run_rows s sid = filter (\<lambda>r. r_id r \<in> set (session_run_ids s sid)) (db_runs s)"

section \<open>Operations\<close>

definition active_ids :: "run_row list \<Rightarrow> string list" where
  "active_ids rows = order_by str_less (map r_id (filter (\<lambda>r. active (r_status r)) rows))"

definition session_runs_for_purge :: "store \<Rightarrow> string \<Rightarrow> string list result" where
  "session_runs_for_purge s sid =
     (let rows = session_run_rows s sid
      in if active_ids rows \<noteq> [] then Inl (ActiveSessionRunsError (active_ids rows))
         else Inr (map r_id rows))"

text \<open>
  \<^verbatim>\<open>DELETE FROM runs WHERE id IN ...\<close> with its cascades; a remaining run that refers to a deleted
  one would violate a foreign key.
\<close>

definition dangling :: "string list \<Rightarrow> run_row \<Rightarrow> bool" where
  "dangling ids r \<longleftrightarrow> r_id r \<notin> set ids \<and> links_into ids r"

definition delete_runs :: "string list \<Rightarrow> store \<Rightarrow> store" where
  "delete_runs ids s = s\<lparr>
     db_runs := filter (\<lambda>r. r_id r \<notin> set ids) (db_runs s),
     db_events := filter (\<lambda>e. e_run_id e \<notin> set ids) (db_events s),
     db_interactions := filter (\<lambda>i. i_run_id i \<notin> set ids) (db_interactions s),
     db_outbox := filter (\<lambda>g. g_run_id g \<notin> set ids \<and>
        \<not> list_ex (\<lambda>i. i_id i = g_interaction_id g \<and> i_run_id i \<in> set ids) (db_interactions s)) (db_outbox s),
     db_steps := filter (\<lambda>t. s_run_id t \<notin> set ids) (db_steps s)\<rparr>"

definition purge_session_tx :: "string \<Rightarrow> (store, string list) tx" where
  "purge_session_tx sid s =
     (let rows = session_run_rows s sid; ids = session_run_ids s sid
      in if active_ids rows \<noteq> [] then Inl (ActiveSessionRunsError (active_ids rows))
         else if list_ex (dangling ids) (db_runs s) then Inl (IntegrityError ''runs'')
         else Inr (delete_runs ids s, map r_id rows))"

definition purge_session :: "string \<Rightarrow> store \<Rightarrow> store \<times> string list result" where
  "purge_session sid = transact (purge_session_tx sid)"

section \<open>The closure is closed, and the least one\<close>

lemma close_links_increasing: "set acc \<subseteq> set (close_links rows acc)"
proof (induction rows acc rule: close_links.induct)
  case (1 rows acc)
  then show ?case by (auto simp: close_links.simps[of rows acc])
qed

lemma close_links_closed:
  "r \<in> set rows \<Longrightarrow> links_into (close_links rows acc) r \<Longrightarrow> r_id r \<in> set (close_links rows acc)"
proof (induction rows acc rule: close_links.induct)
  case (1 rows acc)
  show ?case
  proof (cases "closure_frontier rows acc = []")
    case True
    then show ?thesis
      using "1.prems" by (auto simp: close_links.simps[of rows acc] closure_frontier_def filter_empty_conv)
  next
    case False
    then show ?thesis
      using "1.IH" "1.prems" by (simp add: close_links.simps[of rows acc])
  qed
qed

text \<open>
  Membership as the rule of the recursive query: the seeds, and every run linked to a member.
\<close>

inductive in_session :: "store \<Rightarrow> string \<Rightarrow> string \<Rightarrow> bool" for s sid where
  seed: "r \<in> set (db_runs s) \<Longrightarrow> session_seed sid r \<Longrightarrow> in_session s sid (r_id r)"
| link: "in_session s sid p \<Longrightarrow> r \<in> set (db_runs s) \<Longrightarrow>
     r_parent_run_id r = Some p \<or> r_retry_of r = Some p \<Longrightarrow> in_session s sid (r_id r)"

lemma close_links_sound:
  "(\<And>i. i \<in> set acc \<Longrightarrow> in_session s sid i) \<Longrightarrow> i \<in> set (close_links (db_runs s) acc) \<Longrightarrow>
   in_session s sid i"
proof (induction "db_runs s" acc rule: close_links.induct)
  case (1 acc)
  show ?case
  proof (cases "closure_frontier (db_runs s) acc = []")
    case True
    then show ?thesis using "1.prems" by (simp add: close_links.simps[of "db_runs s" acc])
  next
    case False
    have "in_session s sid j" if "j \<in> set (acc @ map r_id (closure_frontier (db_runs s) acc))" for j
      using that "1.prems"(1) by (auto simp: closure_frontier_def links_into_def intro: in_session.link)
    then show ?thesis
      using "1.hyps"[OF False] "1.prems"(2) False by (simp add: close_links.simps[of "db_runs s" acc])
  qed
qed

lemma session_run_ids_iff: "i \<in> set (session_run_ids s sid) \<longleftrightarrow> in_session s sid i"
proof
  assume "i \<in> set (session_run_ids s sid)"
  then show "in_session s sid i"
    unfolding session_run_ids_def
    by (rule close_links_sound[rotated]) (auto intro: in_session.seed)
next
  let ?seed = "map r_id (filter (session_seed sid) (db_runs s))"
  assume "in_session s sid i"
  then show "i \<in> set (session_run_ids s sid)"
  proof induction
    case (seed r)
    then have "r_id r \<in> set ?seed" by simp
    then show ?case
      unfolding session_run_ids_def using close_links_increasing by blast
  next
    case (link p r)
    then have "links_into (close_links (db_runs s) ?seed) r"
      by (auto simp: links_into_def session_run_ids_def)
    with link show ?case
      unfolding session_run_ids_def by (intro close_links_closed)
  qed
qed

text \<open>Hence the delete never leaves a reference to a deleted run.\<close>

lemma session_never_dangles: "\<not> list_ex (dangling (session_run_ids s sid)) (db_runs s)"
  unfolding list_ex_iff dangling_def session_run_ids_def
  using close_links_closed by blast

lemma active_ids_Nil: "active_ids rows = [] \<longleftrightarrow> list_all (\<lambda>r. terminal (r_status r)) rows"
proof -
  have "active_ids rows = [] \<longleftrightarrow> set (active_ids rows) = {}" by simp
  also have "\<dots> \<longleftrightarrow> list_all (\<lambda>r. terminal (r_status r)) rows"
    by (auto simp: active_ids_def active_iff_not_terminal list_all_iff simp del: set_empty set_empty2)
  finally show ?thesis .
qed

end
