(* ===== verification/Run_Migration.thy ===== *)
theory Run_Migration
  imports Run_Purge
begin

text \<open>
  Opening the store: the audit of version 1 runs in \<^verbatim>\<open>RunStore._initialize\<close> and the recovery
  \<^verbatim>\<open>RunStore.__init__\<close> starts with. Table creation and the column migrations are schema text and
  are not modelled: the rows of this model have all columns.
\<close>

definition legacy_active :: "run_row \<Rightarrow> bool" where
  "legacy_active r \<longleftrightarrow> r_adapter_type r \<in> {''internal'', ''internal_agent''} \<and>
     r_workflow_version r = 1 \<and>
     r_status r \<in> {S_queued, S_running, S_waiting_user, S_cancel_requested}"

text \<open>The values carried over from the legacy checkpoint, else from the input.\<close>

definition replay_item :: "json \<Rightarrow> json \<Rightarrow> string \<Rightarrow> dict" where
  "replay_item legacy_data legacy_input k =
     (case dget legacy_data k of Some v \<Rightarrow> [(k, v)]
      | None \<Rightarrow> (case dget legacy_input k of Some v \<Rightarrow> [(k, v)] | None \<Rightarrow> []))"

definition replay_data :: "string \<Rightarrow> json \<Rightarrow> json \<Rightarrow> dict" where
  "replay_data workspace legacy_state legacy_input =
     (let ld = subdict legacy_state ''data''
      in [(''workspace_dir'', JStr workspace)] @ replay_item ld legacy_input ''user_message_id''
         @ replay_item ld legacy_input ''language'')"

definition replayable_input :: "json \<Rightarrow> bool" where
  "replayable_input j =
     (case dget j ''content'' of Some (JStr c) \<Rightarrow> strip c \<noteq> [] | _ \<Rightarrow> False)"

text \<open>A never-started chat command is replayed from the route phase; nothing else is.\<close>

definition replay_state :: "string \<Rightarrow> run_row \<Rightarrow> agent_state option" where
  "replay_state workspace r =
     (if r_status r = S_queued \<and> r_runtime_id r = ''internal:agent'' \<and> r_action_id r = ''chat''
         \<and> r_source_type r = ''chat'' \<and> nonempty (r_source_id r)
      then
        (case (case r_state r of None \<Rightarrow> Some (JObj []) | Some t \<Rightarrow> t) of
           Some (JObj d) \<Rightarrow>
             if replayable_input (r_input r)
             then Some (default_state\<lparr>
                 st_workflow_type := ''agent_chat'',
                 st_workflow_version := CURRENT_AGENT_WORKFLOW_VERSION,
                 st_session_id := r_source_id r, st_phase := ''route'',
                 st_model_snapshot := (case map_of d ''model_snapshot'' of Some (JObj m) \<Rightarrow> m | _ \<Rightarrow> []),
                 st_data := replay_data workspace (JObj d) (r_input r),
                 st_context_summary_ref :=
                   (case map_of d ''context_summary_ref'' of Some (JStr x) \<Rightarrow> Some x | _ \<Rightarrow> None)\<rparr>)
             else None
         | _ \<Rightarrow> None)
      else None)"

definition upgrade_run :: "run_row \<Rightarrow> agent_state \<Rightarrow> store \<Rightarrow> store" where
  "upgrade_run r st s =
     add_event (r_id r) ''migration_replayable_upgraded''
       (JObj [(''from_workflow_version'', JInt 1),
              (''to_workflow_version'', JInt CURRENT_AGENT_WORKFLOW_VERSION),
              (''phase'', JStr ''route'')])
       (upd_run (r_id r) (\<lambda>x. x\<lparr>r_adapter_type := ''internal_agent'', r_recovery := ''restart_safe'',
            r_state := Some (Some (dump_state st)), r_workflow_type := ''agent_chat'',
            r_workflow_version := CURRENT_AGENT_WORKFLOW_VERSION,
            r_summary := ''Migrated queued chat command to durable workflow'',
            r_lease_owner := None, r_lease_expires_at := None, r_updated_at := db_clock s,
            r_version := r_version x + 1\<rparr>) s)"

definition park_run :: "run_row \<Rightarrow> store \<Rightarrow> store" where
  "park_run r s =
     add_event (r_id r) ''migration_attention_required''
       (JObj [(''from'', JStr (status_str (r_status r))), (''to'', JStr ''needs_attention''),
              (''workflow_version'', JInt 1), (''reason'', JStr ''legacy_state_not_replayable'')])
       (upd_run (r_id r) (\<lambda>x. x\<lparr>r_status := S_needs_attention,
            r_summary := ''Legacy in-memory run cannot be resumed after upgrade'',
            r_updated_at := db_clock s, r_lease_owner := None, r_lease_expires_at := None,
            r_version := r_version x + 1\<rparr>) s)"

definition migrate_row :: "run_row \<Rightarrow> store \<Rightarrow> store" where
  "migrate_row r s =
     (case replay_state (db_workspace s) r of Some st \<Rightarrow> upgrade_run r st s | None \<Rightarrow> park_run r s)"

definition migrate_legacy :: "store \<Rightarrow> store" where
  "migrate_legacy s = fold migrate_row (filter legacy_active (db_runs s)) s"

text \<open>\<open>epoch\<close> is the \<^verbatim>\<open>uuid4()\<close> that names a new event stream.\<close>

definition open_store :: "string \<Rightarrow> store \<Rightarrow> store" where
  "open_store epoch s =
     fst (recover_pending_staging_cleanup None
       (migrate_legacy (s\<lparr>db_stream_epoch :=
          (case db_stream_epoch s of None \<Rightarrow> Some epoch | Some e \<Rightarrow> Some e)\<rparr>)))"

end
