(* ===== verification/Run_Evolution.thy ===== *)
theory Run_Evolution
  imports Run_Migration
begin

text \<open>
  How single runs evolve under the operations of the store. \<open>quiet\<close> is the abstract state machine
  of a run: what an operation may do to its status, version, lease, epoch and completion time.
  The locale \<open>run_evolution\<close> is the interface between that machine and the store: a preorder on
  rows that every step of the machine respects. Its lemmas lift the preorder to stores, through
  transactions and loops, so that an operation is checked by looking at its row update only; the
  extension \<open>claim_evolution\<close> adds the two operations that hand out leases.
\<close>

section \<open>The state machine of a run\<close>

record lifecycle =
  lc_status :: run_status
  lc_version :: int
  lc_owner :: "string option"
  lc_epoch :: int
  lc_done :: bool
  lc_internal :: bool

definition lifecycle_of :: "run_row \<Rightarrow> lifecycle" where
  "lifecycle_of r = \<lparr>lc_status = r_status r, lc_version = r_version r, lc_owner = r_lease_owner r,
     lc_epoch = r_lease_epoch r, lc_done = (r_finished_at r \<noteq> None),
     lc_internal = (r_adapter_type r = ''internal'')\<rparr>"

text \<open>
  The steps that hand out no lease. With \<open>strict\<close> a queued run starts by a claim only; the
  unconditional \<^verbatim>\<open>transition\<close> of the code can also start it and is the rule \<open>start\<close>.
\<close>

inductive quiet :: "bool \<Rightarrow> lifecycle \<Rightarrow> lifecycle \<Rightarrow> bool" for strict where
  edit: "quiet strict c c"
| touch: "quiet strict c (c\<lparr>lc_version := lc_version c + 1\<rparr>)"
| drop: "(j \<Longrightarrow> lc_internal c) \<Longrightarrow>
    quiet strict c (c\<lparr>lc_version := lc_version c + 1, lc_owner := None, lc_internal := j\<rparr>)"
| park: "lc_status c \<notin> {S_succeeded, S_failed} \<Longrightarrow> (d \<Longrightarrow> lc_done c \<and> lc_status c \<noteq> S_cancelled) \<Longrightarrow>
    quiet strict c (c\<lparr>lc_status := S_needs_attention, lc_version := lc_version c + 1,
      lc_owner := None, lc_done := d\<rparr>)"
| requeue: "lc_status c \<in> {S_running, S_waiting_user} \<Longrightarrow>
    quiet strict c (c\<lparr>lc_status := S_queued, lc_version := lc_version c + 1, lc_owner := None\<rparr>)"
| ask: "lc_status c = S_running \<Longrightarrow> w = None \<or> lc_internal c \<and> w = lc_owner c \<Longrightarrow>
    quiet strict c (c\<lparr>lc_status := S_waiting_user, lc_version := lc_version c + 1, lc_owner := w\<rparr>)"
| resume: "lc_status c = S_waiting_user \<Longrightarrow>
    quiet strict c (c\<lparr>lc_status := S_running, lc_version := lc_version c + 1\<rparr>)"
| ask_cancel: "lc_status c \<in> {S_queued, S_running, S_waiting_user} \<Longrightarrow>
    quiet strict c (c\<lparr>lc_status := S_cancel_requested, lc_version := lc_version c + 1\<rparr>)"
| stall: "lc_status c \<in> {S_queued, S_waiting_user} \<Longrightarrow>
    quiet strict c (c\<lparr>lc_status := S_needs_attention, lc_version := lc_version c + 1\<rparr>)"
| finish: "terminal st \<Longrightarrow> (lc_status c \<in> {S_succeeded, S_failed} \<Longrightarrow> st = lc_status c) \<Longrightarrow>
    quiet strict c (c\<lparr>lc_status := st, lc_version := lc_version c + 1, lc_owner := None, lc_done := True\<rparr>)"
| start: "\<not> strict \<Longrightarrow> lc_status c = S_queued \<Longrightarrow>
    quiet strict c (c\<lparr>lc_status := S_running, lc_version := lc_version c + 1\<rparr>)"

inductive_cases quietE: "quiet strict c c'"

text \<open>The columns no operation rewrites.\<close>

definition same_provenance :: "run_row \<Rightarrow> run_row \<Rightarrow> bool" where
  "same_provenance r r' \<longleftrightarrow> r_id r' = r_id r \<and> r_owner_id r' = r_owner_id r \<and>
     r_action_id r' = r_action_id r \<and> r_source_type r' = r_source_type r \<and>
     r_source_id r' = r_source_id r \<and> r_runtime_id r' = r_runtime_id r \<and>
     r_input r' = r_input r \<and> r_parent_run_id r' = r_parent_run_id r \<and>
     r_retry_of r' = r_retry_of r \<and> r_idempotency_key r' = r_idempotency_key r \<and>
     r_correlation r' = r_correlation r \<and> r_attempt r' = r_attempt r \<and>
     r_created_at r' = r_created_at r"

text \<open>
  With \<open>strict\<close> a run keeps its session, except that a queued run may be moved to another one
  (the migration does).
\<close>

definition quiet_row :: "bool \<Rightarrow> run_row \<Rightarrow> run_row \<Rightarrow> bool" where
  "quiet_row strict r r' \<longleftrightarrow> same_provenance r r' \<and>
     (strict \<and> r_status r' \<noteq> S_queued \<longrightarrow> session_id r' = session_id r) \<and>
     quiet strict (lifecycle_of r) (lifecycle_of r')"

lemma quiet_rowI:
  assumes "same_provenance r r'"
    and "strict \<Longrightarrow> r_status r' \<noteq> S_queued \<Longrightarrow> session_id r' = session_id r"
    and "quiet strict (lifecycle_of r) c" "lifecycle_of r' = c"
  shows "quiet_row strict r r'"
  using assms by (simp add: quiet_row_def)

lemma session_id_cong:
  "r_state r' = r_state r \<Longrightarrow> r_source_type r' = r_source_type r \<Longrightarrow> r_source_id r' = r_source_id r \<Longrightarrow>
   session_id r' = session_id r"
proof -
  assume *: "r_state r' = r_state r" "r_source_type r' = r_source_type r"
    "r_source_id r' = r_source_id r"
  then have "chat_source r' = chat_source r" by (simp add: chat_source_def)
  with * show ?thesis by (simp only: session_id_def)
qed

section \<open>The interface\<close>

locale run_evolution =
  fixes rel :: "run_row \<Rightarrow> run_row \<Rightarrow> bool" and strict :: bool
  assumes rel_refl: "rel r r"
    and rel_trans: "rel a b \<Longrightarrow> rel b c \<Longrightarrow> rel a c"
    and rel_quiet: "quiet_row strict r r' \<Longrightarrow> rel r r'"
begin

definition evolves :: "store \<Rightarrow> store \<Rightarrow> bool" where
  "evolves s s' \<longleftrightarrow>
     (\<forall>rid r. find_run s rid = Some r \<longrightarrow> (\<exists>r'. find_run s' rid = Some r' \<and> rel r r')) \<and>
     (\<forall>rid r'. find_run s rid = None \<longrightarrow> find_run s' rid = Some r' \<longrightarrow>
        (\<exists>now q. (strict \<longrightarrow> rq_status q = S_queued) \<and> rel (new_run now rid q) r'))"

lemma evolvesI:
  assumes "\<And>rid r. find_run s rid = Some r \<Longrightarrow> \<exists>r'. find_run s' rid = Some r' \<and> rel r r'"
    and "\<And>rid. find_run s rid = None \<Longrightarrow> find_run s' rid = None"
  shows "evolves s s'"
  using assms by (simp add: evolves_def)

lemma evolvesD:
  "evolves s s' \<Longrightarrow> find_run s rid = Some r \<Longrightarrow> \<exists>r'. find_run s' rid = Some r' \<and> rel r r'"
  by (simp add: evolves_def)

lemma evolves_born:
  "evolves s s' \<Longrightarrow> find_run s rid = None \<Longrightarrow> find_run s' rid = Some r' \<Longrightarrow>
   \<exists>now q. (strict \<longrightarrow> rq_status q = S_queued) \<and> rel (new_run now rid q) r'"
  by (simp add: evolves_def)

lemma evolves_refl: "evolves s s"
  by (simp add: evolves_def rel_refl)

lemma evolves_trans:
  assumes "evolves a b" "evolves b c"
  shows "evolves a c"
  unfolding evolves_def
proof (intro conjI allI impI)
  fix rid r assume "find_run a rid = Some r"
  with assms show "\<exists>r'. find_run c rid = Some r' \<and> rel r r'"
    by (meson evolvesD rel_trans)
next
  fix rid r' assume *: "find_run a rid = None" "find_run c rid = Some r'"
  show "\<exists>now q. (strict \<longrightarrow> rq_status q = S_queued) \<and> rel (new_run now rid q) r'"
  proof (cases "find_run b rid")
    case None
    with * assms(2) show ?thesis by (blast intro: evolves_born)
  next
    case (Some r)
    then show ?thesis
      using evolves_born[OF assms(1) *(1) Some] evolvesD[OF assms(2) Some] *(2)
      by (auto intro: rel_trans)
  qed
qed

lemma evolves_same_runs: "db_runs s' = db_runs s \<Longrightarrow> evolves s s'"
  by (simp add: evolves_def find_run_def rel_refl)

lemma evolves_upd:
  assumes "db_runs s' = db_runs (upd_run rid f s)"
    and "\<And>r. r_id (f r) = r_id r" and "\<And>r. find_run s rid = Some r \<Longrightarrow> rel r (f r)"
  shows "evolves s s'"
proof (rule evolvesI)
  fix x r assume r: "find_run s x = Some r"
  have "find_run s' x = find_run (upd_run rid f s) x"
    using assms(1) by (simp add: find_run_def)
  with assms r show "\<exists>r'. find_run s' x = Some r' \<and> rel r r'"
    by (cases "x = rid") (simp_all add: find_run_upd_run rel_refl)
next
  fix x assume "find_run s x = None"
  moreover have "find_run s' x = find_run (upd_run rid f s) x"
    using assms(1) by (simp add: find_run_def)
  ultimately show "find_run s' x = None" using assms(2) by (auto simp: find_run_upd_run)
qed

lemma evolves_insert:
  assumes "db_runs s' = db_runs s @ [new_run now rid q]" "strict \<Longrightarrow> rq_status q = S_queued"
  shows "evolves s s'"
  unfolding evolves_def
proof (intro conjI allI impI)
  fix x r assume "find_run s x = Some r"
  then show "\<exists>r'. find_run s' x = Some r' \<and> rel r r'"
    using assms(1) by (auto simp: find_run_def lookup_by_append rel_refl)
next
  have id: "r_id (new_run now rid q) = rid" by (simp add: new_run_def)
  fix x r' assume "find_run s x = None" "find_run s' x = Some r'"
  then have "x = rid" "r' = new_run now rid q"
    using assms(1) id by (auto simp: find_run_def lookup_by_append split: if_splits)
  then show "\<exists>now q. (strict \<longrightarrow> rq_status q = S_queued) \<and> rel (new_run now x q) r'"
    using assms(2) rel_refl by blast
qed

lemma evolves_update_where:
  assumes "db_runs s' = update_where P f (db_runs s)"
    and "\<And>r. r_id (f r) = r_id r" and "\<And>r. P r \<Longrightarrow> rel r (f r)"
  shows "evolves s s'"
proof (rule evolvesI)
  fix x r assume "find_run s x = Some r"
  then have "find_run s' x = Some (if P r then f r else r)"
    using assms(1,2) by (simp add: find_run_def lookup_by_update_where)
  with assms(3) show "\<exists>r'. find_run s' x = Some r' \<and> rel r r'"
    by (cases "P r") (simp_all add: rel_refl)
next
  fix x assume "find_run s x = None"
  then show "find_run s' x = None"
    using assms(1,2) by (simp add: find_run_def lookup_by_update_where)
qed

lemma evolves_transact:
  assumes "\<And>s' a. f s = Inr (s', a) \<Longrightarrow> evolves s s'"
  shows "evolves s (fst (transact f s))"
  by (rule transact_fst_cases) (rule evolves_refl, rule assms)

text \<open>
  A loop over selected rows whose body writes only the row at hand: when it reaches a row, that
  row is still the selected one.
\<close>

lemma evolves_fold_rows:
  assumes "distinct (map r_id xs)" and "Q t"
    and "\<And>x. x \<in> set xs \<Longrightarrow> find_run (proj t) (r_id x) = Some x"
    and "\<And>x t. x \<in> set xs \<Longrightarrow> Q t \<Longrightarrow> find_run (proj t) (r_id x) = Some x \<Longrightarrow>
           evolves (proj t) (proj (g x t)) \<and> Q (g x t) \<and>
           (\<forall>rid. rid \<noteq> r_id x \<longrightarrow> find_run (proj (g x t)) rid = find_run (proj t) rid)"
  shows "evolves (proj t) (proj (fold g xs t)) \<and> Q (fold g xs t)"
  using assms
proof (induction xs arbitrary: t)
  case (Cons x xs)
  have x: "find_run (proj t) (r_id x) = Some x" using Cons.prems(3)[of x] by simp
  then have gx: "evolves (proj t) (proj (g x t))" "Q (g x t)"
    using Cons.prems(4)[of x t] Cons.prems(2) by simp_all
  have "evolves (proj (g x t)) (proj (fold g xs (g x t))) \<and> Q (fold g xs (g x t))"
  proof (rule Cons.IH[OF _ gx(2)])
    fix y assume y: "y \<in> set xs"
    have "r_id y \<in> set (map r_id xs)" using y by simp
    then have "r_id y \<noteq> r_id x" using Cons.prems(1) by (metis distinct.simps(2) list.simps(9))
    with y show "find_run (proj (g x t)) (r_id y) = Some y"
      using Cons.prems(3)[of y] Cons.prems(4)[of x t] Cons.prems(2) x by simp
  next
    fix y t' assume "y \<in> set xs" "Q t'" "find_run (proj t') (r_id y) = Some y"
    then show "evolves (proj t') (proj (g y t')) \<and> Q (g y t') \<and>
        (\<forall>rid. rid \<noteq> r_id y \<longrightarrow> find_run (proj (g y t')) rid = find_run (proj t') rid)"
      using Cons.prems(4)[of y t'] by simp
  qed (use Cons.prems(1) in simp)
  with gx show ?case by (auto intro: evolves_trans)
qed (simp add: evolves_refl)

end

end
