(* ===== verification/Row_Conformance.thy ===== *)
theory Row_Conformance
  imports Run_Evolution
begin

text \<open>
  Each update of a run row the operations perform is a step of the state machine of
  \<open>Run_Evolution\<close>.
\<close>

section \<open>Row updates\<close>

lemma quiet_edit:
  "same_provenance r r' \<Longrightarrow> (strict \<Longrightarrow> session_id r' = session_id r) \<Longrightarrow>
   lifecycle_of r' = lifecycle_of r \<Longrightarrow> quiet_row strict r r'"
  by (rule quiet_rowI[OF _ _ quiet.edit]) simp_all

lemma quiet_edit_state:
  "same_provenance r r' \<Longrightarrow> r_state r' = r_state r \<Longrightarrow> lifecycle_of r' = lifecycle_of r \<Longrightarrow>
   quiet_row strict r r'"
  by (rule quiet_edit, assumption, rule session_id_cong) (simp_all add: same_provenance_def)

lemma same_provenance_refl [simp]: "same_provenance r r"
  by (simp add: same_provenance_def)

lemma apply_updates_frame:
  "r_version (fold apply_update ups r) = r_version r"
  "r_lease_owner (fold apply_update ups r) = r_lease_owner r"
  "r_lease_epoch (fold apply_update ups r) = r_lease_epoch r"
  "r_status (fold apply_update ups r) = r_status r"
  "r_finished_at (fold apply_update ups r) = r_finished_at r"
  "r_adapter_type (fold apply_update ups r) = r_adapter_type r"
  "same_provenance r (fold apply_update ups r)"
proof (induction ups arbitrary: r)
  case (Cons u ups)
  { case 1 then show ?case using Cons(1) by (cases u) simp_all }
  { case 2 then show ?case using Cons(2) by (cases u) simp_all }
  { case 3 then show ?case using Cons(3) by (cases u) simp_all }
  { case 4 then show ?case using Cons(4) by (cases u) simp_all }
  { case 5 then show ?case using Cons(5) by (cases u) simp_all }
  { case 6 then show ?case using Cons(6) by (cases u) simp_all }
  { case 7 then show ?case using Cons(7)[of "apply_update u r"]
      by (cases u) (simp_all add: same_provenance_def) }
qed simp_all

definition keeps_state :: "col_update list \<Rightarrow> bool" where
  "keeps_state ups = list_all (\<lambda>u. case u of U_state _ \<Rightarrow> False | _ \<Rightarrow> True) ups"

lemma apply_updates_state: "keeps_state ups \<Longrightarrow> r_state (fold apply_update ups r) = r_state r"
proof (induction ups arbitrary: r)
  case (Cons u ups)
  then show ?case by (cases u) (simp_all add: keeps_state_def)
qed simp

lemma transition_row_frame:
  "same_provenance r (transition_row now st ups r)"
  "keeps_state ups \<Longrightarrow> session_id (transition_row now st ups r) = session_id r"
  "lifecycle_of (transition_row now st ups r) = (lifecycle_of r)\<lparr>lc_status := st,
     lc_version := r_version r + 1,
     lc_owner := (if releases_lease st r then None else r_lease_owner r),
     lc_done := (terminal st \<or> r_finished_at r \<noteq> None)\<rparr>"
proof -
  let ?r = "r\<lparr>r_status := st, r_updated_at := now\<rparr>"
  note f = apply_updates_frame[where ups = ups and r = ?r]
  show p: "same_provenance r (transition_row now st ups r)"
    using f(7) by (auto simp: transition_row_def Let_def same_provenance_def)
  show "session_id (transition_row now st ups r) = session_id r" if "keeps_state ups"
  proof (rule session_id_cong)
    show "r_state (transition_row now st ups r) = r_state r"
      by (simp add: transition_row_def Let_def apply_updates_state[OF that])
  qed (use p in \<open>simp_all add: same_provenance_def\<close>)
  show "lifecycle_of (transition_row now st ups r) = (lifecycle_of r)\<lparr>lc_status := st,
     lc_version := r_version r + 1,
     lc_owner := (if releases_lease st r then None else r_lease_owner r),
     lc_done := (terminal st \<or> r_finished_at r \<noteq> None)\<rparr>"
    by (simp add: lifecycle_of_def transition_row_def Let_def apply_updates_frame(1-6))
qed

lemma quiet_transition:
  assumes "st = r_status r \<or> st \<in> set (TRANSITIONS (r_status r))"
    and "strict \<Longrightarrow> keeps_state ups \<and> \<not> (st = S_running \<and> r_status r = S_queued)"
  shows "quiet_row strict r (transition_row now st ups r)"
proof -
  let ?c = "lifecycle_of r" and ?c' = "lifecycle_of (transition_row now st ups r)"
  note l = transition_row_frame(3)
  have "quiet strict ?c ?c'"
  proof (cases "terminal st")
    case True
    then have "quiet strict ?c (?c\<lparr>lc_status := st, lc_version := lc_version ?c + 1,
        lc_owner := None, lc_done := True\<rparr>)"
      using assms(1) by (intro quiet.finish) (auto simp: lifecycle_of_def)
    with True show ?thesis by (simp add: l releases_lease_def) (simp add: lifecycle_of_def)
  next
    case nt: False
    show ?thesis
    proof (cases "st = r_status r")
      case True
      have "quiet strict ?c (?c\<lparr>lc_version := lc_version ?c + 1\<rparr>)"
        "quiet strict ?c (?c\<lparr>lc_version := lc_version ?c + 1, lc_owner := None,
           lc_internal := lc_internal ?c\<rparr>)"
        by (rule quiet.touch) (rule quiet.drop)
      with True nt show ?thesis
        by (cases "releases_lease st r") (simp_all add: l, simp_all add: lifecycle_of_def)
    next
      case False
      with assms(1) have st: "st \<in> set (TRANSITIONS (r_status r))" by simp
      show ?thesis
      proof (cases st)
        case S_queued
        with st have "quiet strict ?c (?c\<lparr>lc_status := S_queued, lc_version := lc_version ?c + 1,
            lc_owner := None\<rparr>)"
          by (intro quiet.requeue) (cases "r_status r"; simp add: lifecycle_of_def)
        with S_queued show ?thesis by (simp add: l releases_lease_def) (simp add: lifecycle_of_def)
      next
        case S_running
        then have "r_status r = S_queued \<and> \<not> strict \<or> r_status r = S_waiting_user"
          using st assms(2) by (cases "r_status r") auto
        then have "quiet strict ?c (?c\<lparr>lc_status := S_running, lc_version := lc_version ?c + 1\<rparr>)"
          by (elim disjE conjE)
            (rule quiet.start, simp, simp add: lifecycle_of_def,
             rule quiet.resume, simp add: lifecycle_of_def)
        with S_running show ?thesis by (simp add: l releases_lease_def) (simp add: lifecycle_of_def)
      next
        case S_waiting_user
        with st have "quiet strict ?c (?c\<lparr>lc_status := S_waiting_user, lc_version := lc_version ?c + 1,
            lc_owner := (if releases_lease st r then None else r_lease_owner r)\<rparr>)"
          by (intro quiet.ask) (cases "r_status r"; auto simp: lifecycle_of_def releases_lease_def)+
        with S_waiting_user show ?thesis
          by (cases "releases_lease st r") (simp_all add: l, simp_all add: lifecycle_of_def)
      next
        case S_cancel_requested
        with st have "quiet strict ?c (?c\<lparr>lc_status := S_cancel_requested, lc_version := lc_version ?c + 1\<rparr>)"
          by (intro quiet.ask_cancel) (cases "r_status r"; simp add: lifecycle_of_def)
        with S_cancel_requested show ?thesis
          by (simp add: l releases_lease_def) (simp add: lifecycle_of_def)
      next
        case S_needs_attention
        with st have "quiet strict ?c (?c\<lparr>lc_status := S_needs_attention, lc_version := lc_version ?c + 1,
            lc_owner := None, lc_done := (r_finished_at r \<noteq> None)\<rparr>)"
          by (intro quiet.park) (cases "r_status r"; simp add: lifecycle_of_def)+
        with S_needs_attention show ?thesis
          by (simp add: l releases_lease_def) (simp add: lifecycle_of_def)
      qed (use nt in simp_all)
    qed
  qed
  with assms(2) show ?thesis
    by (simp add: quiet_row_def transition_row_frame)
qed

text \<open>
  The session of a row whose checkpoint is rewritten without touching \<^verbatim>\<open>session_id\<close>.
\<close>

lemma session_id_rewrite:
  assumes "same_provenance r r'" "loads (r_state r) = Some j" "loads (r_state r') = Some j'"
    and "is_dict j" "is_dict j'" "dget j' ''session_id'' = dget j ''session_id''"
  shows "session_id r' = session_id r"
proof -
  have "chat_source r' = chat_source r"
    using assms(1) by (simp add: chat_source_def same_provenance_def)
  with assms(2-) show ?thesis
    by (cases j; cases j') (simp_all add: session_id_def split: option.split json.split list.split)
qed

lemma with_data_other [simp]: "k \<noteq> ''data'' \<Longrightarrow> dget (with_data f j) k = dget j k"
  by (cases "is_dict j") (auto simp: with_data_def dget_dset dest: dget_Some_dict split: option.splits)

lemma is_dict_with_data [simp]: "is_dict (with_data f j) = is_dict j"
  by (auto simp: with_data_def split: option.splits)

lemma terminal_outcome: "terminal (outcome_target oc) \<longleftrightarrow> outcome_target oc \<in> {S_succeeded, S_failed, S_cancelled}"
  by (cases "outcome_target oc") simp_all

definition commit_keeps_session :: "agent_state \<Rightarrow> run_row \<Rightarrow> bool" where
  "commit_keeps_session st r \<longleftrightarrow> session_id (r\<lparr>r_state := Some (Some (dump_state st))\<rparr>) = session_id r"

lemma commit_row_frame:
  "same_provenance r (commit_row now key att st oc ver r)"
  "r_state (commit_row now key att st oc ver r) = Some (Some (dump_state st))"
  "lifecycle_of (commit_row now key att st oc ver r) = (lifecycle_of r)\<lparr>lc_status := outcome_target oc,
     lc_version := ver, lc_owner := None,
     lc_done := (terminal (outcome_target oc) \<or> r_finished_at r \<noteq> None)\<rparr>"
  by (cases oc; simp add: commit_row_def Let_def same_provenance_def lifecycle_of_def)+

lemma quiet_commit:
  assumes "r_status r = S_running \<or> r_status r = S_cancel_requested \<and> is_Cancelled oc"
    and "strict \<Longrightarrow> commit_keeps_session st r" and "ver = r_version r + 1"
  shows "quiet_row strict r (commit_row now key att st oc ver r)"
proof (rule quiet_rowI[OF commit_row_frame(1)])
  let ?c = "lifecycle_of r" and ?t = "outcome_target oc"
  show "session_id (commit_row now key att st oc ver r) = session_id r" if strict
  proof -
    have "session_id (commit_row now key att st oc ver r) =
        session_id (r\<lparr>r_state := Some (Some (dump_state st))\<rparr>)"
      using commit_row_frame(1)[of r now key att st oc ver]
      by (intro session_id_cong) (simp_all add: commit_row_frame(2) same_provenance_def)
    with assms(2)[OF that] show ?thesis by (simp add: commit_keeps_session_def)
  qed
  show "quiet strict ?c ((lifecycle_of r)\<lparr>lc_status := ?t, lc_version := ver, lc_owner := None,
      lc_done := (terminal ?t \<or> r_finished_at r \<noteq> None)\<rparr>)"
  proof (cases "terminal ?t")
    case True
    then show ?thesis
      using quiet.finish[of ?t ?c strict] assms by (auto simp: lifecycle_of_def)
  next
    case False
    then consider "?t = S_queued" | "?t = S_waiting_user" | "?t = S_needs_attention"
      by (cases oc) (auto split: if_splits)
    then show ?thesis
    proof cases
      case 1
      then have "r_status r = S_running" using assms(1) by (cases oc) (auto split: if_splits)
      with 1 show ?thesis using quiet.requeue[of ?c strict] assms(3) by (simp add: lifecycle_of_def)
    next
      case 2
      then have "r_status r = S_running" using assms(1) by (cases oc) (auto split: if_splits)
      with 2 show ?thesis using quiet.ask[of ?c None strict] assms(3) by (simp add: lifecycle_of_def)
    next
      case 3
      then show ?thesis
        using quiet.park[of ?c "r_finished_at r \<noteq> None" strict] assms(1,3)
        by (auto simp: lifecycle_of_def)
    qed
  qed
qed (rule commit_row_frame(3))

lemma resolve_row_frame:
  "same_provenance r (resolve_row now target summary err r)"
  "session_id (resolve_row now target summary err r) = session_id r"
  "lifecycle_of (resolve_row now target summary err r) = (lifecycle_of r)\<lparr>lc_status := target,
     lc_version := r_version r + 1, lc_owner := (if target = S_running then r_lease_owner r else None),
     lc_done := (terminal target \<or> r_finished_at r \<noteq> None)\<rparr>"
proof -
  show "session_id (resolve_row now target summary err r) = session_id r"
    by (rule session_id_cong) (simp_all add: resolve_row_def Let_def)
qed (simp_all add: resolve_row_def Let_def same_provenance_def lifecycle_of_def)

lemma quiet_resolve:
  assumes "r_status r = S_waiting_user" "target \<in> set (TRANSITIONS S_waiting_user)"
  shows "quiet_row strict r (resolve_row now target summary err r)"
proof (rule quiet_rowI[OF resolve_row_frame(1)])
  let ?c = "lifecycle_of r"
  have c: "lc_status ?c = S_waiting_user" using assms(1) by (simp add: lifecycle_of_def)
  consider "target = S_queued" | "target = S_running" | "terminal target" | "target = S_needs_attention"
    using assms(2) by auto
  then show "quiet strict ?c (?c\<lparr>lc_status := target, lc_version := r_version r + 1,
      lc_owner := (if target = S_running then r_lease_owner r else None),
      lc_done := (terminal target \<or> r_finished_at r \<noteq> None)\<rparr>)"
  proof cases
    case 1
    with c show ?thesis using quiet.requeue[of ?c strict] by (simp add: lifecycle_of_def)
  next
    case 2
    with c show ?thesis using quiet.resume[of ?c strict] by (simp add: lifecycle_of_def)
  next
    case 3
    with c show ?thesis using quiet.finish[of target ?c strict] by (auto simp: lifecycle_of_def)
  next
    case 4
    with c show ?thesis
      using quiet.park[of ?c "r_finished_at r \<noteq> None" strict] by (simp add: lifecycle_of_def)
  qed
qed (simp_all add: resolve_row_frame)

lemma read_cancel_state_Some:
  "read_cancel_state r = (Some j, dt) \<Longrightarrow> loads (r_state r) = Some j \<and> is_dict j"
  by (auto simp: read_cancel_state_def split: option.splits json.splits)

lemma queue_cleanup_state:
  "queue_staged_app_cleanup j = Inr (j', app) \<Longrightarrow> j' = j \<or> (\<exists>f. j' = with_data f j)"
  by (auto simp: queue_staged_app_cleanup_def split: option.splits json.splits if_splits)

lemma plan_cancel_state:
  assumes "cp_state (plan_cancel fs r) = Some j'"
  obtains j where "loads (r_state r) = Some j" "is_dict j" "j' = j \<or> (\<exists>f. j' = with_data f j)"
proof (cases "read_cancel_state r")
  case (Pair raw dt)
  with assms obtain j where j: "raw = Some j"
    by (cases raw) (simp_all add: plan_cancel_def)
  have "j' = j \<or> (\<exists>f. j' = with_data f j)"
    using assms Pair j queue_cleanup_state[of j]
    by (auto simp: plan_cancel_def plan_staged_cancel_def Let_def
        split: if_splits option.splits json.splits sum.splits prod.splits)
  with that read_cancel_state_Some[of r j dt] Pair j show thesis by blast
qed

lemma cancel_row_frame:
  "same_provenance r (cancel_row now target p cp r)"
  "lifecycle_of (cancel_row now target p cp r) = (lifecycle_of r)\<lparr>lc_status := target,
     lc_version := r_version r + 1, lc_owner := (if target = S_cancelled then None else r_lease_owner r),
     lc_done := (target = S_cancelled \<or> r_finished_at r \<noteq> None)\<rparr>"
  "r_state (cancel_row now target p cp r) =
     (if (cp_queued p \<or> cp_promoted p \<or> target = S_needs_attention) \<and> cp_state p \<noteq> None
      then Some (if target = S_needs_attention
                 then map_option (dset ''last_error'' (attention_error p)) (cp_state p) else cp_state p)
      else r_state r)"
  by (auto simp: cancel_row_def Let_def same_provenance_def lifecycle_of_def)

lemma cancel_row_session: "session_id (cancel_row now target (plan_cancel fs r) cp r) = session_id r"
proof -
  let ?p = "plan_cancel fs r" and ?r' = "cancel_row now target (plan_cancel fs r) cp r"
  note fr = cancel_row_frame[where r = r and now = now and target = target and p = ?p and cp = cp]
  show ?thesis
  proof (cases "(cp_queued ?p \<or> cp_promoted ?p \<or> target = S_needs_attention) \<and> cp_state ?p \<noteq> None")
    case False
    with fr(3) have "r_state ?r' = r_state r" by metis
    with fr(1) show ?thesis by (intro session_id_cong) (simp_all add: same_provenance_def)
  next
    case True
    then obtain j' where j': "cp_state ?p = Some j'" by auto
    then obtain j where j: "loads (r_state r) = Some j" "is_dict j" "j' = j \<or> (\<exists>f. j' = with_data f j)"
      by (rule plan_cancel_state)
    have d: "is_dict j'" "dget j' ''session_id'' = dget j ''session_id''"
      using j by auto
    let ?j'' = "if target = S_needs_attention then dset ''last_error'' (attention_error ?p) j' else j'"
    have "loads (r_state ?r') = Some ?j''"
      using fr(3) True j' by simp
    with fr(1) j(1,2) d show ?thesis
      by (intro session_id_rewrite[of r ?r' j ?j'']) (simp_all add: dget_dset)
  qed
qed

lemma quiet_cancel:
  assumes "r_status r \<in> {S_queued, S_running, S_waiting_user}"
  shows "quiet_row strict r (cancel_row now (request_target r (plan_cancel fs r)) (plan_cancel fs r) cp r)"
proof (rule quiet_rowI[OF cancel_row_frame(1) cancel_row_session _ cancel_row_frame(2)])
  let ?c = "lifecycle_of r" and ?t = "request_target r (plan_cancel fs r)"
  have "?t \<in> {S_cancelled, S_cancel_requested} \<or>
      ?t = S_needs_attention \<and> r_status r \<in> {S_queued, S_waiting_user}"
    using assms by (auto simp: request_target_def)
  then consider "?t = S_cancelled" | "?t = S_cancel_requested"
    | "?t = S_needs_attention" "r_status r \<in> {S_queued, S_waiting_user}"
    by blast
  then show "quiet strict ?c (?c\<lparr>lc_status := ?t, lc_version := r_version r + 1,
      lc_owner := (if ?t = S_cancelled then None else r_lease_owner r),
      lc_done := (?t = S_cancelled \<or> r_finished_at r \<noteq> None)\<rparr>)"
  proof cases
    case 1
    with assms show ?thesis using quiet.finish[of S_cancelled ?c strict] by (auto simp: lifecycle_of_def)
  next
    case 2
    with assms show ?thesis using quiet.ask_cancel[of ?c strict] by (simp add: lifecycle_of_def)
  next
    case 3
    then show ?thesis using quiet.stall[of ?c strict] by (simp add: lifecycle_of_def)
  qed
qed

end
