(* ===== verification/Run_Conformance.thy ===== *)
theory Run_Conformance
  imports Row_Conformance
begin

text \<open>
  Every operation of the store conforms to the state machine of \<open>Run_Evolution\<close>: the rows it
  writes, then the operation as a whole, inside the locale and so for every preorder that
  respects the machine.
\<close>

section \<open>The rows an operation writes\<close>

lemma append_pending_events_runs [simp]:
  "db_runs (append_pending_events rid key att st evs s) = db_runs s"
  unfolding append_pending_events_def by (induction evs arbitrary: s) simp_all

lemma commit_interactions_runs [simp]: "db_runs (commit_interactions rid oc ver s) = db_runs s"
  by (cases oc) (simp_all add: commit_interactions_def Let_def)

lemma ensure_wait_runs:
  "ensure_wait_interaction rid key att ver oc s = Inr s' \<Longrightarrow> db_runs s' = db_runs s"
  by (cases oc) (auto split: option.splits if_splits)

lemma apply_commit_runs:
  "db_runs (apply_commit rid key att epoch st oc r t s) =
   db_runs (upd_run rid (commit_row (db_clock s) key att st oc (r_version r + 1)) s)"
  by (simp add: apply_commit_def Let_def upd_run_def)

lemma apply_transition_runs:
  "db_runs (apply_transition rid st ups row s) =
   db_runs (upd_run rid (transition_row (db_clock s) st ups) s)"
  by (simp add: apply_transition_def Let_def)

lemma apply_wait_runs:
  "db_runs (apply_wait rid ty prompt payload iid summary et ver s) =
   db_runs (upd_run rid (\<lambda>r. r\<lparr>r_status := S_waiting_user, r_summary := summary,
     r_updated_at := db_clock s, r_version := ver, r_lease_owner := None, r_lease_expires_at := None\<rparr>) s)"
  by (simp add: apply_wait_def Let_def upd_run_def split: option.split list.split)

lemma apply_resolution_runs:
  "db_runs (apply_resolution i response target grant summary err r s) =
   db_runs (upd_run (i_run_id i) (resolve_row (db_clock s) target
     (if grant \<noteq> None then ''Applying permission'' else summary) err) s)"
  by (simp add: apply_resolution_def Let_def upd_run_def split: option.split)

lemma apply_finalize_runs:
  "db_runs (apply_finalize rid s) =
   db_runs (upd_run rid (\<lambda>r. r\<lparr>r_status := cancel_target s rid,
     r_summary := (if cancel_target s rid = S_needs_attention then ''Cancellation outcome requires review''
                   else ''Cancelled''),
     r_updated_at := db_clock s,
     r_finished_at := (if cancel_target s rid = S_needs_attention then None else Some (db_clock s)),
     r_lease_owner := None, r_lease_expires_at := None, r_version := r_version r + 1\<rparr>) s)"
  by (simp add: apply_finalize_def Let_def)

lemma recover_row_runs:
  "db_runs (recover_row ty row s) =
   db_runs (upd_run (r_id row) (\<lambda>r. r\<lparr>r_status := recovery_target s row, r_lease_owner := None,
     r_lease_expires_at := None, r_updated_at := db_clock s,
     r_finished_at := (case r_finished_at r of Some t \<Rightarrow> Some t
        | None \<Rightarrow> if recovery_target s row = S_cancelled then Some (db_clock s) else None),
     r_version := r_version r + 1\<rparr>) s)"
  by (simp add: recover_row_def Let_def)

lemma apply_cancel_runs:
  "db_runs (apply_cancel r p cp s) =
   db_runs (upd_run (r_id r) (cancel_row (db_clock s) (request_target r p) p cp) s)"
  by (simp add: apply_cancel_def Let_def split: option.split)

lemma apply_claim_runs:
  "db_runs (apply_claim w n row s) = db_runs (upd_run (r_id row) (\<lambda>r. if r_status r = S_queued
     then claim_row w (db_clock s) (db_clock s + seconds n) r else r) s)"
  by (simp add: apply_claim_def Let_def)

lemma apply_progress_runs:
  "db_runs (apply_progress rid p summary s) = db_runs (upd_run rid
     (\<lambda>r. r\<lparr>r_progress := p, r_summary := summary, r_updated_at := db_clock s\<rparr>) s)"
  by (simp add: apply_progress_def)

lemmas runs_written = apply_commit_runs apply_transition_runs apply_wait_runs apply_resolution_runs
  apply_finalize_runs recover_row_runs apply_cancel_runs apply_claim_runs apply_progress_runs

section \<open>Operations conform\<close>

context run_evolution
begin

lemma evolves_row:
  assumes "db_runs s' = db_runs (upd_run rid f s)"
    and "\<And>r. r_id (f r) = r_id r" and "\<And>r. find_run s rid = Some r \<Longrightarrow> quiet_row strict r (f r)"
  shows "evolves s s'"
  by (rule evolves_upd[OF assms(1,2)]) (auto intro: rel_quiet assms(3))

lemma evolves_edit:
  assumes "db_runs s' = db_runs (upd_run rid f s)"
    and "\<And>r. same_provenance r (f r) \<and> r_state (f r) = r_state r \<and> lifecycle_of (f r) = lifecycle_of r"
  shows "evolves s s'"
  by (rule evolves_row[OF assms(1)])
    (use assms(2) in \<open>simp_all add: quiet_edit_state same_provenance_def[of r "f r" for r]\<close>)

lemma ev_create_run:
  assumes "strict \<Longrightarrow> rq_status q = S_queued"
  shows "evolves s (fst (create_run rid q s))"
  unfolding create_run_def
proof (rule evolves_transact)
  fix s' a assume "create_run_tx rid q s = Inr (s', a)"
  then have "db_runs s' = db_runs s \<or> db_runs s' = db_runs s @ [new_run (db_clock s) rid q]"
    by (auto simp: create_run_tx_def insert_run_def Let_def map_sum_def
        split: if_splits option.splits sum.splits)
  then show "evolves s s'" using assms by (auto intro: evolves_same_runs evolves_insert)
qed

lemma ev_append_event: "evolves s (fst (append_event rid ty p fence s))"
  unfolding append_event_def
  by (rule evolves_transact, rule evolves_same_runs)
    (auto simp: append_event_tx_def Let_def split: if_splits option.splits sum.splits prod.splits)

lemma ev_update_progress: "evolves s (fst (update_progress rid p summary fence s))"
  unfolding update_progress_def
proof (rule evolves_transact)
  fix s' a assume "update_progress_tx rid p summary fence s = Inr (s', a)"
  then have "s' = apply_progress rid (clamp01 p) summary s"
    by (auto simp: update_progress_tx_def split: if_splits option.splits sum.splits prod.splits)
  then show "evolves s s'"
    by (simp only:) (rule evolves_edit[OF apply_progress_runs],
      simp add: same_provenance_def lifecycle_of_def)
qed

lemma ev_cleanup_events: "evolves s (fst (cleanup_events days s))"
  by (rule evolves_same_runs) (simp add: cleanup_events_def transact_def cleanup_events_tx_def Let_def)

lemma ev_heartbeat: "evolves s (fst (heartbeat w n ids s))"
proof -
  have "evolves s s'" if "db_runs s' = update_where P (\<lambda>r. r\<lparr>r_lease_expires_at := t\<rparr>) (db_runs s)"
    for s' P t
    by (rule evolves_update_where[OF that], simp, rule rel_quiet, rule quiet_edit_state)
      (simp_all add: same_provenance_def lifecycle_of_def)
  then show ?thesis by (simp add: heartbeat_def transact_def heartbeat_tx_def)
qed

lemma ev_transition:
  assumes "\<And>r. find_run s rid = Some r \<Longrightarrow> strict \<Longrightarrow>
     keeps_state ups \<and> \<not> (st = S_running \<and> r_status r = S_queued)"
  shows "evolves s (fst (transition rid st fence ver ups s))"
  unfolding transition_def
proof (rule evolves_transact)
  fix s' a assume tx: "transition_tx rid st fence ver ups s = Inr (s', a)"
  then obtain r where r: "find_run s rid = Some r" "s' = apply_transition rid st ups r s"
    "st = r_status r \<or> st \<in> set (TRANSITIONS (r_status r))"
    by (auto simp: transition_tx_def find_run_key split: sum.splits if_splits)
  show "evolves s s'"
  proof (rule evolves_row[where rid = rid])
    fix x assume "find_run s rid = Some x"
    with r assms[of r] show "quiet_row strict x (transition_row (db_clock s) st ups x)"
      by (intro quiet_transition) auto
  next
    fix x show "r_id (transition_row (db_clock s) st ups x) = r_id x"
      using transition_row_frame(1)[of x] by (simp add: same_provenance_def)
  qed (simp add: r(2) apply_transition_runs)
qed

lemma ev_begin_step: "evolves s (fst (begin_step_attempt rid key fence s))"
  unfolding begin_step_attempt_def
  by (rule evolves_transact, rule evolves_same_runs)
    (auto simp: begin_step_attempt_tx_def Let_def split: if_splits sum.splits)

lemma ev_finish_step: "evolves s (fst (finish_step rid key output status att fence s))"
  unfolding finish_step_def
proof (rule evolves_transact)
  fix s' a assume tx: "finish_step_tx rid key output status att fence s = Inr (s', a)"
  have "db_runs s' = db_runs s \<or> (\<exists>c. db_runs s' = db_runs (upd_run rid
      (\<lambda>r. r\<lparr>r_checkpoint := c, r_updated_at := db_clock s\<rparr>) s))"
    using tx by (auto simp: finish_step_tx_def Let_def upd_run_def split: sum.splits if_splits)
  then show "evolves s s'"
  proof
    assume "\<exists>c. db_runs s' = db_runs (upd_run rid (\<lambda>r. r\<lparr>r_checkpoint := c, r_updated_at := db_clock s\<rparr>) s)"
    then obtain c where "db_runs s' =
        db_runs (upd_run rid (\<lambda>r. r\<lparr>r_checkpoint := c, r_updated_at := db_clock s\<rparr>) s)" ..
    then show ?thesis by (rule evolves_edit) (simp add: same_provenance_def lifecycle_of_def)
  qed (rule evolves_same_runs)
qed

lemma ev_commit_step:
  assumes "\<And>r. find_run s rid = Some r \<Longrightarrow> strict \<Longrightarrow> commit_keeps_session (outcome_state oc st) r"
  shows "evolves s (fst (commit_step rid key att owner epoch st oc s))"
  unfolding commit_step_def
proof (rule evolves_transact)
  fix s' a assume "commit_step_tx rid key att owner epoch st oc s = Inr (s', a)"
  then obtain r t s0 where r: "find_run s rid = Some r"
    "commit_guard s r key att owner epoch oc = Inr t"
    "ensure_wait_interaction rid key att (r_version r + 1) oc s = Inr s0"
    "s' = apply_commit rid key att epoch (outcome_state oc st) oc r t s0"
    by (auto simp: commit_step_tx_def find_run_key split: sum.splits)
  have runs: "db_runs s0 = db_runs s" by (rule ensure_wait_runs[OF r(3)])
  show "evolves s s'"
  proof (rule evolves_row[where rid = rid])
    fix x assume "find_run s rid = Some x"
    with r(1) have x: "x = r" by simp
    show "quiet_row strict x (commit_row (db_clock s0) key att (outcome_state oc st) oc (r_version r + 1) x)"
      unfolding x using commit_guardD[OF r(2)] assms[OF r(1)] by (intro quiet_commit) simp_all
  next
    fix x show "r_id (commit_row (db_clock s0) key att (outcome_state oc st) oc (r_version r + 1) x) = r_id x"
      using commit_row_frame(1)[of x] by (simp add: same_provenance_def)
  qed (simp add: r(4) apply_commit_runs upd_run_def runs)
qed

lemma ev_create_interaction: "evolves s (fst (create_interaction rid ty prompt payload iid s))"
  unfolding create_interaction_def
  by (rule evolves_transact, rule evolves_same_runs)
    (auto simp: create_interaction_tx_def Let_def split: if_splits sum.splits option.splits)

lemma ev_wait:
  "evolves s (fst (wait_for_interaction rid ty prompt payload iid owner epoch summary et s))"
  unfolding wait_for_interaction_def
proof (rule evolves_transact)
  fix s' a assume "wait_for_interaction_tx rid ty prompt payload iid owner epoch summary et s = Inr (s', a)"
  then obtain r where r: "find_run s rid = Some r" "r_status r = S_running"
    "s' = apply_wait rid ty prompt payload iid summary et (r_version r + 1) s"
    by (auto simp: wait_for_interaction_tx_def find_run_key split: sum.splits if_splits)
  show "evolves s s'" unfolding r(3)
  proof (rule evolves_row[OF apply_wait_runs])
    fix x assume "find_run s rid = Some x"
    with r(1) have x: "x = r" by simp
    show "quiet_row strict x (x\<lparr>r_status := S_waiting_user, r_summary := summary,
        r_updated_at := db_clock s, r_version := r_version r + 1, r_lease_owner := None,
        r_lease_expires_at := None\<rparr>)"
      unfolding x
    proof (rule quiet_rowI[OF _ _ quiet.ask[where w = None]])
      show "session_id (r\<lparr>r_status := S_waiting_user, r_summary := summary,
        r_updated_at := db_clock s, r_version := r_version r + 1, r_lease_owner := None,
        r_lease_expires_at := None\<rparr>) = session_id r"
        by (rule session_id_cong) simp_all
    qed (simp_all add: same_provenance_def lifecycle_of_def r(2))
  qed simp
qed

lemma ev_resolve: "evolves s (fst (resolve_interaction iid response expected target summary err s))"
  unfolding resolve_interaction_def
proof (rule evolves_transact)
  fix s' a assume "resolve_interaction_tx iid response expected target summary err s = Inr (s', a)"
  then show "evolves s s'"
  proof (rule resolve_txD)
    fix i r tg grant
    assume *: "find_run s (i_run_id i) = Some r" "r_status r = S_waiting_user"
      "tg \<in> set (TRANSITIONS S_waiting_user)"
      "s' = apply_resolution i response tg grant summary err r s"
    let ?f = "resolve_row (db_clock s) tg (if grant \<noteq> None then ''Applying permission'' else summary) err"
    show "evolves s s'" unfolding *(4)
    proof (rule evolves_row[OF apply_resolution_runs])
      fix x assume "find_run s (i_run_id i) = Some x"
      with * show "quiet_row strict x (?f x)" by (intro quiet_resolve) auto
    next
      fix x show "r_id (?f x) = r_id x"
        using resolve_row_frame(1)[of x] by (simp add: same_provenance_def)
    qed
  qed
qed

lemma ev_complete_grant: "evolves s (fst (complete_permission_grant iid s))"
  unfolding complete_permission_grant_def
proof (rule evolves_transact)
  fix s' a assume tx: "complete_permission_grant_tx iid s = Inr (s', a)"
  show "evolves s s'"
  proof (cases "find_pending_grant s iid")
    case None
    with tx show ?thesis by (simp add: complete_permission_grant_tx_def evolves_refl)
  next
    case (Some g)
    with tx have "db_runs s' = db_runs (upd_run (g_run_id g) (\<lambda>r. if r_status r = S_queued
        then r\<lparr>r_summary := ''Permission granted'', r_error := None, r_updated_at := db_clock s\<rparr> else r) s)"
      by (auto simp: complete_permission_grant_tx_def upd_run_def)
    then show ?thesis by (rule evolves_edit) (simp add: same_provenance_def lifecycle_of_def)
  qed
qed

lemma ev_defer_grant: "evolves s (fst (defer_permission_grant iid s))"
  unfolding defer_permission_grant_def
proof (rule evolves_transact)
  fix s' a assume tx: "defer_permission_grant_tx iid s = Inr (s', a)"
  have "db_runs s' = db_runs s \<or> (\<exists>rid. db_runs s' = db_runs (upd_run rid
      (\<lambda>r. if r_status r = S_queued then r\<lparr>r_summary := ''Permission grant pending; retrying'',
         r_error := Some grant_retry_error, r_updated_at := db_clock s\<rparr> else r) s))"
    using tx by (auto simp: defer_permission_grant_tx_def Let_def upd_run_def split: option.splits)
  then show "evolves s s'"
  proof
    assume "\<exists>rid. db_runs s' = db_runs (upd_run rid
      (\<lambda>r. if r_status r = S_queued then r\<lparr>r_summary := ''Permission grant pending; retrying'',
         r_error := Some grant_retry_error, r_updated_at := db_clock s\<rparr> else r) s)"
    then obtain rid where "db_runs s' = db_runs (upd_run rid
      (\<lambda>r. if r_status r = S_queued then r\<lparr>r_summary := ''Permission grant pending; retrying'',
         r_error := Some grant_retry_error, r_updated_at := db_clock s\<rparr> else r) s)" ..
    then show ?thesis by (rule evolves_edit) (simp add: same_provenance_def lifecycle_of_def)
  qed (rule evolves_same_runs)
qed

lemma ev_finalize: "evolves s (fst (finalize_cancel_requested rid w s))"
  unfolding finalize_cancel_requested_def
proof (rule evolves_transact)
  fix s' a assume tx: "finalize_cancel_requested_tx rid w s = Inr (s', a)"
  show "evolves s s'"
  proof (cases "s' = s")
    case False
    with tx obtain r where r: "find_run s rid = Some r" "r_status r = S_cancel_requested"
      "s' = apply_finalize rid s"
      by (auto simp: finalize_cancel_requested_tx_def find_run_key split: sum.splits if_splits)
    show ?thesis unfolding r(3)
    proof (rule evolves_row[OF apply_finalize_runs])
      fix x assume "find_run s rid = Some x"
      with r have x: "lc_status (lifecycle_of x) = S_cancel_requested" by (simp add: lifecycle_of_def)
      let ?f = "\<lambda>r. r\<lparr>r_status := cancel_target s rid,
        r_summary := (if cancel_target s rid = S_needs_attention
                      then ''Cancellation outcome requires review'' else ''Cancelled''),
        r_updated_at := db_clock s,
        r_finished_at := (if cancel_target s rid = S_needs_attention then None else Some (db_clock s)),
        r_lease_owner := None, r_lease_expires_at := None, r_version := r_version r + 1\<rparr>"
      have "session_id (?f x) = session_id x" by (rule session_id_cong) simp_all
      moreover have "quiet strict (lifecycle_of x) (lifecycle_of (?f x))"
        using quiet.park[of "lifecycle_of x" False strict]
          quiet.finish[of S_cancelled "lifecycle_of x" strict] x
        by (auto simp: cancel_target_def lifecycle_of_def)
      ultimately show "quiet_row strict x (?f x)"
        by (simp add: quiet_row_def same_provenance_def)
    qed simp
  qed (simp add: evolves_refl)
qed

lemma ev_recover_row:
  assumes "find_run s (r_id row) = Some row" "occupies row"
  shows "evolves s (recover_row ty row s)"
proof (rule evolves_row[OF recover_row_runs])
  fix x assume "find_run s (r_id row) = Some x"
  with assms have x: "x = row" "r_status x = S_running \<or> r_status x = S_cancel_requested"
    by (auto simp: occupies_def)
  let ?f = "\<lambda>r. r\<lparr>r_status := recovery_target s row, r_lease_owner := None,
     r_lease_expires_at := None, r_updated_at := db_clock s,
     r_finished_at := (case r_finished_at r of Some t \<Rightarrow> Some t
        | None \<Rightarrow> if recovery_target s row = S_cancelled then Some (db_clock s) else None),
     r_version := r_version r + 1\<rparr>"
  have "session_id (?f x) = session_id x" by (rule session_id_cong) simp_all
  moreover have "quiet strict (lifecycle_of x) (lifecycle_of (?f x))"
    using quiet.park[of "lifecycle_of x" "r_finished_at x \<noteq> None" strict]
      quiet.requeue[of "lifecycle_of x" strict] quiet.finish[of S_cancelled "lifecycle_of x" strict] x
    by (auto simp: recovery_target_def cancel_target_def lifecycle_of_def split: option.splits if_splits)
  ultimately show "quiet_row strict x (?f x)"
    by (simp add: quiet_row_def same_provenance_def)
qed simp

lemma find_run_other:
  assumes "db_runs s' = db_runs (upd_run rid f s)" "\<And>r. r_id (f r) = r_id r" "x \<noteq> rid"
  shows "find_run s' x = find_run s x"
proof -
  have "find_run s' x = find_run (upd_run rid f s) x" using assms(1) by (simp add: find_run_def)
  with assms(2,3) show ?thesis by (simp add: find_run_upd_run)
qed

lemma find_own_row:
  "distinct (map r_id (db_runs s)) \<Longrightarrow> r \<in> set (db_runs s) \<Longrightarrow> find_run s (r_id r) = Some r"
  by (simp add: find_run_def lookup_by_distinct)

definition writes_only :: "string \<Rightarrow> store \<Rightarrow> store \<Rightarrow> bool" where
  "writes_only rid s s' \<longleftrightarrow> (\<forall>x. x \<noteq> rid \<longrightarrow> find_run s' x = find_run s x) \<and>
     map r_id (db_runs s') = map r_id (db_runs s)"

lemma writes_only_upd:
  "db_runs s' = db_runs (upd_run rid f s) \<Longrightarrow> (\<And>r. r_id (f r) = r_id r) \<Longrightarrow> writes_only rid s s'"
  unfolding writes_only_def
  by (auto simp: find_run_other upd_run_def intro!: map_update_where)

lemma writes_only_same: "db_runs s' = db_runs s \<Longrightarrow> writes_only rid s s'"
  by (simp add: writes_only_def find_run_def)

lemma fold_selected:
  assumes "distinct (map r_id (db_runs (proj t)))"
    and "\<And>x t. P x \<Longrightarrow> distinct (map r_id (db_runs (proj t))) \<Longrightarrow> find_run (proj t) (r_id x) = Some x \<Longrightarrow>
           evolves (proj t) (proj (g x t)) \<and> writes_only (r_id x) (proj t) (proj (g x t))"
  shows "evolves (proj t) (proj (fold g (filter P (db_runs (proj t))) t)) \<and>
         distinct (map r_id (db_runs (proj (fold g (filter P (db_runs (proj t))) t))))"
proof (rule evolves_fold_rows[where Q = "\<lambda>t. distinct (map r_id (db_runs (proj t)))"])
  show "distinct (map r_id (filter P (db_runs (proj t))))" by (rule distinct_map_filter[OF assms(1)])
next
  fix x assume "x \<in> set (filter P (db_runs (proj t)))"
  then show "find_run (proj t) (r_id x) = Some x" using assms(1) by (intro find_own_row) simp_all
next
  fix x u assume "x \<in> set (filter P (db_runs (proj t)))" "distinct (map r_id (db_runs (proj u)))"
    "find_run (proj u) (r_id x) = Some x"
  with assms(2)[of x u] show "evolves (proj u) (proj (g x u)) \<and>
      distinct (map r_id (db_runs (proj (g x u)))) \<and>
      (\<forall>rid. rid \<noteq> r_id x \<longrightarrow> find_run (proj (g x u)) rid = find_run (proj u) rid)"
    by (simp add: writes_only_def)
qed (rule assms(1))

lemma ev_recover_rows:
  assumes "distinct (map r_id (db_runs s))" and "\<And>r. P r \<Longrightarrow> occupies r"
  shows "evolves s (fold (recover_row ty) (filter P (db_runs s)) s)"
  by (rule conjunct1[OF fold_selected[where proj = "\<lambda>s. s"], OF assms(1)])
    (use assms(2) in \<open>simp add: ev_recover_row writes_only_upd[OF recover_row_runs]\<close>)

lemma ev_release_worker:
  "distinct (map r_id (db_runs s)) \<Longrightarrow> evolves s (fst (release_worker w s))"
  by (simp add: release_worker_def transact_def release_worker_tx_def Let_def)
    (rule ev_recover_rows, auto)

lemma ev_recover_orphans:
  "distinct (map r_id (db_runs s)) \<Longrightarrow> evolves s (fst (transact recover_orphans_tx s))"
  by (simp add: transact_def recover_orphans_tx_def Let_def)
    (rule ev_recover_rows, auto simp: orphaned_def)

end

section \<open>The cleanup of staged artifacts\<close>

lemma tombstone_dict: "tombstone st = Some h \<Longrightarrow> \<exists>d. st = Some (JObj d)"
  by (auto simp: tombstone_def split: option.splits json.splits)

definition cleanup_failed_row :: "time \<Rightarrow> py_error \<Rightarrow> run_row \<Rightarrow> run_row" where
  "cleanup_failed_row now e r = r\<lparr>r_status := S_needs_attention,
     r_summary := ''Cancellation requires staged artifact cleanup'',
     r_error := Some (cleanup_error e),
     r_state := Some (Some (dset ''last_error'' (cleanup_error e) (json_or_null (loads (r_state r))))),
     r_updated_at := now, r_finished_at := None, r_lease_owner := None,
     r_lease_expires_at := None, r_version := r_version r + 1\<rparr>"

definition cleanup_done_row :: "time \<Rightarrow> run_row \<Rightarrow> run_row" where
  "cleanup_done_row now r =
     (let st' = with_data (dpop ''staged_app_cleanup_pending'') (json_or_null (loads (r_state r)));
          unresolved = state_has_unresolved_effect (json_or_null (dget st' ''data''))
      in r\<lparr>r_status := (if unresolved then S_needs_attention else S_cancelled),
           r_summary := (if unresolved then ''Cancellation requires effect reconciliation'' else ''Cancelled''),
           r_error := (if unresolved then r_error r else None), r_state := Some (Some st'),
           r_checkpoint := clear_staged_app_cleanup_from_checkpoint (r_checkpoint r),
           r_updated_at := now, r_finished_at := (if unresolved then None else Some now),
           r_lease_owner := None, r_lease_expires_at := None, r_version := r_version r + 1\<rparr>)"

lemma upd_run_cong:
  "distinct (map r_id (db_runs s)) \<Longrightarrow> find_run s rid = Some r \<Longrightarrow> f r = g r \<Longrightarrow> upd_run rid f s = upd_run rid g s"
  unfolding upd_run_def update_where_def
  by (rule arg_cong[where f = "\<lambda>xs. db_runs_update (\<lambda>_. xs) s"], rule map_cong)
    (auto simp: find_run_def dest: lookup_by_distinct)

lemma cleanup_failed_runs:
  assumes "distinct (map r_id (db_runs s))"
  shows "db_runs (cleanup_failed_tx rid h e s) = db_runs s \<or>
    (\<exists>cur. find_run s rid = Some cur \<and> tombstone (loads (r_state cur)) = Some h \<and>
       db_runs (cleanup_failed_tx rid h e s) = db_runs (upd_run rid (cleanup_failed_row (db_clock s) e) s))"
proof (cases "find_run s rid")
  case (Some cur)
  have "upd_run rid (\<lambda>r. r\<lparr>r_status := S_needs_attention,
       r_summary := ''Cancellation requires staged artifact cleanup'', r_error := Some (cleanup_error e),
       r_state := Some (Some (dset ''last_error'' (cleanup_error e) (json_or_null (loads (r_state cur))))),
       r_updated_at := db_clock s, r_finished_at := None, r_lease_owner := None,
       r_lease_expires_at := None, r_version := r_version cur + 1\<rparr>) s =
     upd_run rid (cleanup_failed_row (db_clock s) e) s"
    by (rule upd_run_cong[OF assms Some]) (simp add: cleanup_failed_row_def)
  then show ?thesis by (simp add: cleanup_failed_tx_def Some Let_def)
qed (simp add: cleanup_failed_tx_def)

lemma cleanup_done_runs:
  assumes "distinct (map r_id (db_runs s))"
  shows "db_runs (fst (cleanup_done_tx rid h app s)) = db_runs s \<or>
    (\<exists>cur. find_run s rid = Some cur \<and> tombstone (loads (r_state cur)) = Some h \<and>
       db_runs (fst (cleanup_done_tx rid h app s)) = db_runs (upd_run rid (cleanup_done_row (db_clock s)) s))"
proof (cases "find_run s rid")
  case (Some cur)
  let ?st = "with_data (dpop ''staged_app_cleanup_pending'') (json_or_null (loads (r_state cur)))"
  let ?u = "state_has_unresolved_effect (json_or_null (dget ?st ''data''))"
  have "upd_run rid (\<lambda>r. r\<lparr>r_status := (if ?u then S_needs_attention else S_cancelled),
       r_summary := (if ?u then ''Cancellation requires effect reconciliation'' else ''Cancelled''),
       r_error := (if ?u then r_error cur else None), r_state := Some (Some ?st),
       r_checkpoint := clear_staged_app_cleanup_from_checkpoint (r_checkpoint cur),
       r_updated_at := db_clock s, r_finished_at := (if ?u then None else Some (db_clock s)),
       r_lease_owner := None, r_lease_expires_at := None, r_version := r_version cur + 1\<rparr>) s =
     upd_run rid (cleanup_done_row (db_clock s)) s"
    by (rule upd_run_cong[OF assms Some]) (simp add: cleanup_done_row_def Let_def)
  then show ?thesis by (simp add: cleanup_done_tx_def Some Let_def)
qed (simp add: cleanup_done_tx_def)

lemma cleanup_row_quiet:
  assumes "tombstone (loads (r_state r)) = Some h" "r_status r \<notin> {S_succeeded, S_failed}"
  shows "quiet_row strict r (cleanup_failed_row now e r)" "quiet_row strict r (cleanup_done_row now r)"
proof -
  obtain d where d: "loads (r_state r) = Some (JObj d)" using tombstone_dict[OF assms(1)] ..
  have c: "lc_status (lifecycle_of r) \<notin> {S_succeeded, S_failed}"
    using assms(2) by (simp add: lifecycle_of_def)
  note park = quiet.park[where c = "lifecycle_of r" and d = False and strict = strict, OF c]
  show "quiet_row strict r (cleanup_failed_row now e r)"
  proof (rule quiet_rowI[OF _ _ park])
    show "session_id (cleanup_failed_row now e r) = session_id r"
      by (rule session_id_rewrite[OF _ d, where j' = "dset ''last_error'' (cleanup_error e) (JObj d)"])
        (simp_all add: cleanup_failed_row_def same_provenance_def d json_or_null_def update_conv')
  qed (simp_all add: cleanup_failed_row_def same_provenance_def lifecycle_of_def)
  let ?st = "with_data (dpop ''staged_app_cleanup_pending'') (JObj d)"
  have s: "session_id (cleanup_done_row now r) = session_id r"
    by (rule session_id_rewrite[OF _ d, where j' = ?st])
      (simp_all add: cleanup_done_row_def Let_def same_provenance_def d json_or_null_def)
  have p: "same_provenance r (cleanup_done_row now r)"
    by (simp add: cleanup_done_row_def Let_def same_provenance_def)
  let ?u = "state_has_unresolved_effect (json_or_null (dget ?st ''data''))"
  show "quiet_row strict r (cleanup_done_row now r)"
  proof (cases ?u)
    case True
    show ?thesis
      by (rule quiet_rowI[OF p s park])
        (simp_all add: cleanup_done_row_def Let_def d json_or_null_def True[unfolded json_or_null_def] lifecycle_of_def)
  next
    case False
    show ?thesis
      by (rule quiet_rowI[OF p s quiet.finish[where st = S_cancelled]])
        (use c in \<open>simp_all add: cleanup_done_row_def Let_def d json_or_null_def False[unfolded json_or_null_def] lifecycle_of_def\<close>)
  qed
qed

lemma cleanup_rows_id [simp]:
  "r_id (cleanup_failed_row now e r) = r_id r" "r_id (cleanup_done_row now r) = r_id r"
  by (simp_all add: cleanup_failed_row_def cleanup_done_row_def Let_def)

context run_evolution
begin

lemma ev_cleanup_failed:
  assumes "distinct (map r_id (db_runs s))" "find_run s rid = Some r" "r_status r \<notin> {S_succeeded, S_failed}"
  shows "evolves s (cleanup_failed_tx rid h e s) \<and> writes_only rid s (cleanup_failed_tx rid h e s)"
  using cleanup_failed_runs[OF assms(1), of rid h e]
proof (elim disjE exE conjE)
  fix cur
  assume *: "find_run s rid = Some cur" "tombstone (loads (r_state cur)) = Some h"
    and runs: "db_runs (cleanup_failed_tx rid h e s) = db_runs (upd_run rid (cleanup_failed_row (db_clock s) e) s)"
  have "evolves s (cleanup_failed_tx rid h e s)"
    by (rule evolves_row[OF runs]) (use * assms cleanup_row_quiet in auto)
  then show ?thesis by (simp add: writes_only_upd[OF runs])
qed (simp add: evolves_same_runs writes_only_same)

lemma ev_cleanup_done:
  assumes "distinct (map r_id (db_runs s))" "find_run s rid = Some r" "r_status r \<notin> {S_succeeded, S_failed}"
  shows "evolves s (fst (cleanup_done_tx rid h app s)) \<and> writes_only rid s (fst (cleanup_done_tx rid h app s))"
  using cleanup_done_runs[OF assms(1), of rid h app]
proof (elim disjE exE conjE)
  fix cur
  assume *: "find_run s rid = Some cur" "tombstone (loads (r_state cur)) = Some h"
    and runs: "db_runs (fst (cleanup_done_tx rid h app s)) = db_runs (upd_run rid (cleanup_done_row (db_clock s)) s)"
  have "evolves s (fst (cleanup_done_tx rid h app s))"
    by (rule evolves_row[OF runs]) (use * assms cleanup_row_quiet in auto)
  then show ?thesis by (simp add: writes_only_upd[OF runs])
qed (simp add: evolves_same_runs writes_only_same)

lemma ev_cleanup_row:
  assumes "distinct (map r_id (db_runs (fst t)))" "find_run (fst t) (r_id row) = Some row"
    and "r_status row \<notin> {S_succeeded, S_failed}"
  shows "evolves (fst t) (fst (cleanup_row row t)) \<and> writes_only (r_id row) (fst t) (fst (cleanup_row row t))"
proof -
  obtain s n where t: "t = (s, n)" by (cases t)
  have fs: "evolves s x \<and> writes_only rid s x"
    if "evolves (s\<lparr>db_fs := fs'\<rparr>) x \<and> writes_only rid (s\<lparr>db_fs := fs'\<rparr>) x" for x fs' rid
    using that by (simp add: evolves_def writes_only_def find_run_def)
  have "find_run (s\<lparr>db_fs := fs'\<rparr>) (r_id row) = Some row" for fs'
    using assms(2) t by (simp add: find_run_def)
  with assms t ev_cleanup_failed[of s "r_id row" row] ev_cleanup_done[of "s\<lparr>db_fs := fs'\<rparr>" "r_id row" row for fs']
  show ?thesis
    by (auto simp: cleanup_row_def evolves_refl writes_only_same fs
        split: option.split sum.split prod.split) (metis fs fst_conv)+
qed

lemma ev_pending_cleanup:
  assumes "distinct (map r_id (db_runs s))"
  shows "evolves s (fst (recover_pending_staging_cleanup rid s)) \<and>
         distinct (map r_id (db_runs (fst (recover_pending_staging_cleanup rid s))))"
proof -
  have "evolves (fst (s, 0::nat)) (fst (fold cleanup_row
          (filter (cleanup_selected rid) (db_runs (fst (s, 0::nat)))) (s, 0::nat))) \<and>
        distinct (map r_id (db_runs (fst (fold cleanup_row
          (filter (cleanup_selected rid) (db_runs (fst (s, 0::nat)))) (s, 0::nat)))))"
    by (rule fold_selected) (simp add: assms, rule ev_cleanup_row, auto simp: cleanup_selected_def)
  then show ?thesis by (simp add: recover_pending_staging_cleanup_def)
qed

lemma ev_recover_orphaned:
  assumes "distinct (map r_id (db_runs s))"
  shows "evolves s (fst (recover_orphaned s))"
  unfolding recover_orphaned_def
  using ev_pending_cleanup[OF assms] ev_recover_orphans by (blast intro: evolves_trans)

lemma ev_request_cancel_tx: "evolves s (fst (transact (request_cancel_tx rid) s))"
proof (rule evolves_transact)
  fix s' q assume tx: "request_cancel_tx rid s = Inr (s', q)"
  show "evolves s s'"
  proof (cases "s' = s")
    case False
    with tx obtain r cp where r: "find_run s rid = Some r"
      "s' = apply_cancel r (plan_cancel (db_fs s) r) cp s"
      "\<not> terminal (r_status r)" "r_status r \<noteq> S_needs_attention" "r_status r \<noteq> S_cancel_requested"
      by (auto simp: request_cancel_tx_def find_run_key Let_def split: sum.splits if_splits)
    have st: "r_status r \<in> {S_queued, S_running, S_waiting_user}"
      using r(3-5) by (cases "r_status r") simp_all
    have id: "r_id r = rid" by (rule find_run_id[OF r(1)])
    show ?thesis unfolding r(2)
    proof (rule evolves_row[OF apply_cancel_runs])
      fix x assume "find_run s (r_id r) = Some x"
      with r(1) id have "x = r" by simp
      with quiet_cancel[OF st] show "quiet_row strict x (cancel_row (db_clock s)
        (request_target r (plan_cancel (db_fs s) r)) (plan_cancel (db_fs s) r) cp x)" by simp
    next
      fix x show "r_id (cancel_row (db_clock s) (request_target r (plan_cancel (db_fs s) r))
        (plan_cancel (db_fs s) r) cp x) = r_id x"
        using cancel_row_frame(1)[of x] by (simp add: same_provenance_def)
    qed
  qed (simp add: evolves_refl)
qed

lemma request_cancel_distinct:
  "distinct (map r_id (db_runs s)) \<Longrightarrow>
   distinct (map r_id (db_runs (fst (transact (request_cancel_tx rid) s))))"
proof (rule transact_fst_cases)
  fix s' q assume d: "distinct (map r_id (db_runs s))" and tx: "request_cancel_tx rid s = Inr (s', q)"
  have "s' = s \<or> (\<exists>r p cp. s' = apply_cancel r p cp s)"
    using tx by (auto simp: request_cancel_tx_def Let_def split: sum.splits if_splits)
  moreover have "map r_id (db_runs (apply_cancel r p cp s)) = map r_id (db_runs s)" for r p cp
    using cancel_row_frame(1)
    by (auto simp: apply_cancel_runs upd_run_def same_provenance_def intro!: map_update_where)
  ultimately show "distinct (map r_id (db_runs s'))" using d by auto
qed

lemma ev_request_cancel:
  assumes "distinct (map r_id (db_runs s))"
  shows "evolves s (fst (request_cancel rid s))"
proof -
  let ?a = "fst (recover_pending_staging_cleanup (Some rid) s)"
  let ?b = "transact (request_cancel_tx rid) ?a"
  have a: "evolves s ?a" "distinct (map r_id (db_runs ?a))"
    using ev_pending_cleanup[OF assms] by simp_all
  then have b: "evolves s (fst ?b)" "distinct (map r_id (db_runs (fst ?b)))"
    using ev_request_cancel_tx[of ?a rid] request_cancel_distinct by (blast intro: evolves_trans)+
  then have "evolves s (fst (recover_pending_staging_cleanup (Some rid) (fst ?b)))"
    using ev_pending_cleanup by (blast intro: evolves_trans)
  with b(1) show ?thesis
    by (cases ?b; cases "snd ?b") (simp_all add: request_cancel_def Let_def)
qed

lemma ev_reconcile: "evolves s (fst (reconcile_effect rid res note s))"
  unfolding reconcile_effect_def
proof (rule evolves_transact)
  fix s' a assume "reconcile_effect_tx rid res note s = Inr (s', a)"
  then obtain r where r: "find_run s rid = Some r" "r_status r = S_needs_attention"
    and runs: "db_runs s' = db_runs (upd_run rid (\<lambda>x. x\<lparr>r_status := S_failed,
                       r_summary := ''Effect reconciliation completed'',
                       r_error := Some (reconcile_error res note),
                       r_state := reconcile_state res note (r_state r),
                       r_updated_at := db_clock s, r_finished_at := Some (db_clock s), r_lease_owner := None,
                       r_lease_expires_at := None, r_version := r_version r + 1\<rparr>) s)"
    by (auto simp: reconcile_effect_tx_def find_run_key Let_def split: sum.splits if_splits)
  show "evolves s s'"
  proof (rule evolves_row[OF runs])
    fix x assume "find_run s rid = Some x"
    with r(1) have x: "x = r" by simp
    let ?r' = "r\<lparr>r_status := S_failed, r_summary := ''Effect reconciliation completed'',
                       r_error := Some (reconcile_error res note),
                       r_state := reconcile_state res note (r_state r),
                       r_updated_at := db_clock s, r_finished_at := Some (db_clock s), r_lease_owner := None,
                       r_lease_expires_at := None, r_version := r_version r + 1\<rparr>"
    show "quiet_row strict x (x\<lparr>r_status := S_failed, r_summary := ''Effect reconciliation completed'',
                       r_error := Some (reconcile_error res note),
                       r_state := reconcile_state res note (r_state r),
                       r_updated_at := db_clock s, r_finished_at := Some (db_clock s), r_lease_owner := None,
                       r_lease_expires_at := None, r_version := r_version r + 1\<rparr>)"
      unfolding x
    proof (rule quiet_rowI[OF _ _ quiet.finish[where st = S_failed]])
      show "session_id ?r' = session_id r"
      proof (cases "\<exists>d. loads (r_state r) = Some (JObj d)")
        case True
        then obtain d where d: "loads (r_state r) = Some (JObj d)" ..
        let ?st = "dset ''last_error'' (reconcile_error res note) (JObj d)"
        let ?j = "case dget ?st ''data'' of
                Some (JObj dt) \<Rightarrow> dset ''data'' (reconcile_data res (JObj dt)) ?st | _ \<Rightarrow> ?st"
        have j: "is_dict ?j \<and> dget ?j ''session_id'' = dget (JObj d) ''session_id''"
          by (simp add: update_conv' split: option.split json.split)
        have "loads (r_state ?r') = Some ?j"
          by (simp add: reconcile_state_def d Let_def split: option.split json.split)
        with d j show ?thesis
          by (intro session_id_rewrite[of r ?r' "JObj d" ?j]) (simp_all add: same_provenance_def)
      next
        case False
        then have "reconcile_state res note (r_state r) = r_state r"
          by (auto simp: reconcile_state_def split: option.split json.split)
        then show ?thesis by (intro session_id_cong) simp_all
      qed
    qed (simp_all add: same_provenance_def lifecycle_of_def r(2))
  qed simp
qed

lemma ev_migrate_row:
  assumes "legacy_active r" "find_run s (r_id r) = Some r"
  shows "evolves s (migrate_row r s) \<and> writes_only (r_id r) s (migrate_row r s)"
proof (cases "replay_state (db_workspace s) r")
  case (Some st)
  let ?f = "\<lambda>x. x\<lparr>r_adapter_type := ''internal_agent'', r_recovery := ''restart_safe'',
            r_state := Some (Some (dump_state st)), r_workflow_type := ''agent_chat'',
            r_workflow_version := CURRENT_AGENT_WORKFLOW_VERSION,
            r_summary := ''Migrated queued chat command to durable workflow'',
            r_lease_owner := None, r_lease_expires_at := None, r_updated_at := db_clock s,
            r_version := r_version x + 1\<rparr>"
  have runs: "db_runs (migrate_row r s) = db_runs (upd_run (r_id r) ?f s)"
    by (simp add: migrate_row_def Some upgrade_run_def)
  have "evolves s (migrate_row r s)"
  proof (rule evolves_row[OF runs])
    fix x assume "find_run s (r_id r) = Some x"
    with assms(2) have x: "x = r" by simp
    have "r_status r = S_queued" using Some by (simp add: replay_state_def split: if_splits)
    then show "quiet_row strict x (?f x)"
      unfolding x by (intro quiet_rowI[OF _ _ quiet.drop[where j = False]])
        (simp_all add: same_provenance_def lifecycle_of_def)
  qed simp
  then show ?thesis by (simp add: writes_only_upd[OF runs])
next
  case None
  let ?f = "\<lambda>x. x\<lparr>r_status := S_needs_attention,
            r_summary := ''Legacy in-memory run cannot be resumed after upgrade'',
            r_updated_at := db_clock s, r_lease_owner := None, r_lease_expires_at := None,
            r_version := r_version x + 1\<rparr>"
  have runs: "db_runs (migrate_row r s) = db_runs (upd_run (r_id r) ?f s)"
    by (simp add: migrate_row_def None park_run_def)
  have "evolves s (migrate_row r s)"
  proof (rule evolves_row[OF runs])
    fix x assume "find_run s (r_id r) = Some x"
    with assms(2) have x: "x = r" by simp
    have "session_id (?f r) = session_id r" by (rule session_id_cong) simp_all
    then show "quiet_row strict x (?f x)"
      unfolding x
      by (intro quiet_rowI[OF _ _ quiet.park[where d = "r_finished_at r \<noteq> None"]])
        (use assms(1) in \<open>auto simp: same_provenance_def lifecycle_of_def legacy_active_def\<close>)
  qed simp
  then show ?thesis by (simp add: writes_only_upd[OF runs])
qed

lemma ev_open_store:
  assumes "distinct (map r_id (db_runs s))"
  shows "evolves s (open_store epoch s)"
proof -
  let ?s = "s\<lparr>db_stream_epoch := (case db_stream_epoch s of None \<Rightarrow> Some epoch | Some e \<Rightarrow> Some e)\<rparr>"
  have "evolves ?s (migrate_legacy ?s) \<and> distinct (map r_id (db_runs (migrate_legacy ?s)))"
    unfolding migrate_legacy_def
    by (rule fold_selected[where proj = "\<lambda>s. s"])
      (use assms in \<open>simp_all add: ev_migrate_row\<close>)
  then have "evolves ?s (open_store epoch s)"
    unfolding open_store_def using ev_pending_cleanup by (blast intro: evolves_trans)
  then show ?thesis by (simp add: evolves_def find_run_def)
qed

end

section \<open>Claims\<close>

locale claim_evolution = run_evolution +
  assumes rel_claim: "r_status r = S_queued \<Longrightarrow> rel r (claim_row w now expires r)"
begin

lemma ev_apply_claim: "evolves s (apply_claim w n row s)"
  by (rule evolves_upd[OF apply_claim_runs]) (auto simp: rel_claim rel_refl, simp add: claim_row_def)

lemma ev_claim_next: "evolves s (fst (claim_next w gl ol n ex s))"
  unfolding claim_next_def
  by (rule evolves_transact)
    (auto simp: claim_next_tx_def ev_apply_claim evolves_refl split: if_splits option.splits)

lemma ev_claim_specific: "evolves s (fst (claim_specific rid w gl ol n s))"
  unfolding claim_specific_def
  by (rule evolves_transact)
    (auto simp: claim_specific_tx_def ev_apply_claim evolves_refl split: if_splits option.splits)

end

end
