(* ===== verification/Run_Integrity.thy ===== *)
theory Run_Integrity
  imports Run_Conformance
begin

text \<open>
  Invariants of the tables. The operations write through few primitives; the locale
  \<open>table_invariant\<close> is the contract of an invariant with those primitives, its lemmas are the
  preservation of the invariant by each operation. The two interpretations are the integrity of
  the tables (keys, references, attempts, grants) and the order and content of the event log.
\<close>

section \<open>Ids\<close>

definition run_ids :: "store \<Rightarrow> string list" where
  "run_ids s = map r_id (db_runs s)"

definition interaction_ids :: "store \<Rightarrow> string list" where
  "interaction_ids s = map i_id (db_interactions s)"

lemma run_ids_frame [simp]:
  "run_ids (upd_interactions P g s) = run_ids s" "run_ids (upd_steps Q h s) = run_ids s"
  "run_ids (upd_outbox R k s) = run_ids s" "run_ids (append_event_with a b c rid ty p s) = run_ids s"
  "run_ids (cancel_pending rid s) = run_ids s" "run_ids (close_running_steps rid st s) = run_ids s"
  "run_ids (insert_interaction i s) = run_ids s"
  "run_ids (s\<lparr>db_steps := ts\<rparr>) = run_ids s" "run_ids (s\<lparr>db_outbox := gs\<rparr>) = run_ids s"
  "run_ids (s\<lparr>db_interactions := js\<rparr>) = run_ids s" "run_ids (s\<lparr>db_fs := fs\<rparr>) = run_ids s"
  "run_ids (s\<lparr>db_last_step := n\<rparr>) = run_ids s" "run_ids (s\<lparr>db_stream_epoch := ep\<rparr>) = run_ids s"
  by (simp_all add: run_ids_def)

lemma run_ids_upd_run [simp]: "(\<And>r. r_id (f r) = r_id r) \<Longrightarrow> run_ids (upd_run rid f s) = run_ids s"
  by (simp add: run_ids_def upd_run_def map_update_where)

lemma find_run_ids: "find_run s rid = Some r \<Longrightarrow> rid \<in> set (run_ids s)"
  by (auto simp: run_ids_def dest: find_run_in find_run_id)

lemma find_run_None_ids: "find_run s rid = None \<longleftrightarrow> rid \<notin> set (run_ids s)"
  by (auto simp: find_run_def lookup_by_None_iff run_ids_def)

lemma find_interaction_None: "find_interaction s iid = None \<longleftrightarrow> iid \<notin> set (interaction_ids s)"
  by (auto simp: find_interaction_def lookup_by_None_iff interaction_ids_def)

lemma find_interaction_Some:
  "find_interaction s iid = Some i \<Longrightarrow> i \<in> set (db_interactions s) \<and> i_id i = iid"
  by (auto simp: find_interaction_def dest: lookup_by_SomeD)

lemma find_interaction_unique:
  assumes "distinct (interaction_ids s)" "find_interaction s iid = Some i"
    and "x \<in> set (db_interactions s)" "i_id x = i_id i"
  shows "x = i"
proof -
  have "lookup_by i_id (i_id x) (db_interactions s) = Some x"
    using assms(1,3) by (intro lookup_by_distinct) (simp_all add: interaction_ids_def)
  moreover have "i_id x = iid" using assms(4) find_interaction_Some[OF assms(2)] by simp
  ultimately show ?thesis using assms(2) by (simp add: find_interaction_def)
qed

section \<open>The contract\<close>

text \<open>
  An update of interactions may close a pending one, or move the version a pending one waits for;
  it changes nothing else. A grant is recorded together with the approval it rests on.
\<close>

definition closes :: "(interaction_row \<Rightarrow> interaction_row) \<Rightarrow> interaction_row \<Rightarrow> bool" where
  "closes f i \<longleftrightarrow> i_id (f i) = i_id i \<and> i_run_id (f i) = i_run_id i \<and> i_type (f i) = i_type i \<and>
     i_payload (f i) = i_payload i \<and>
     (i_status i = I_pending \<or> i_status (f i) = i_status i \<and> i_response (f i) = i_response i)"

definition same_step :: "(step_row \<Rightarrow> step_row) \<Rightarrow> bool" where
  "same_step f \<longleftrightarrow> (\<forall>t. s_run_id (f t) = s_run_id t \<and> s_step_key (f t) = s_step_key t \<and>
     s_attempt (f t) = s_attempt t)"

definition same_grant :: "(outbox_row \<Rightarrow> outbox_row) \<Rightarrow> bool" where
  "same_grant f \<longleftrightarrow> (\<forall>g. g_interaction_id (f g) = g_interaction_id g \<and> g_run_id (f g) = g_run_id g \<and>
     g_permission_type (f g) = g_permission_type g \<and> g_value (f g) = g_value g)"

definition answer_row :: "json \<Rightarrow> time \<Rightarrow> interaction_row \<Rightarrow> interaction_row" where
  "answer_row response now x = x\<lparr>i_status := I_resolved, i_response := Some response, i_resolved_at := Some now\<rparr>"

locale table_rows =
  fixes I :: "store \<Rightarrow> bool"
  assumes inv_ids: "I s \<Longrightarrow> distinct (run_ids s) \<and> distinct (interaction_ids s)"
    and inv_event: "I s \<Longrightarrow> rid \<in> set (run_ids s) \<Longrightarrow> I (append_event_with a b c rid ty p s)"
    and inv_runs: "I s \<Longrightarrow> map r_id rs = run_ids s \<Longrightarrow> I (s\<lparr>db_runs := rs\<rparr>)"
    and inv_new_interaction: "I s \<Longrightarrow> i_id i \<notin> set (interaction_ids s) \<Longrightarrow>
      i_run_id i \<in> set (run_ids s) \<Longrightarrow> i_status i = I_pending \<Longrightarrow> I (insert_interaction i s)"
    and inv_interactions: "I s \<Longrightarrow> (\<And>i. i \<in> set (db_interactions s) \<Longrightarrow> P i \<Longrightarrow> closes f i) \<Longrightarrow>
      I (upd_interactions P f s)"
    and inv_new_step: "I s \<Longrightarrow> rid \<in> set (run_ids s) \<Longrightarrow>
      (\<And>t. t \<in> set (step_rows s rid key) \<Longrightarrow> s_attempt t < att) \<Longrightarrow>
      I (s\<lparr>db_steps := db_steps s @ [new_step s rid key att], db_last_step := Suc (db_last_step s)\<rparr>)"
    and inv_steps: "I s \<Longrightarrow> same_step h \<Longrightarrow> I (upd_steps Q h s)"
    and inv_grant: "I s \<Longrightarrow> find_interaction s iid = Some i \<Longrightarrow> i_status i = I_pending \<Longrightarrow>
      approved response \<Longrightarrow> permission_type_of i = Inr pt \<Longrightarrow> grant_type pt = Some ty \<Longrightarrow>
      lookup_by g_interaction_id iid (db_outbox s) = None \<Longrightarrow>
      I (upd_interactions (\<lambda>x. i_id x = i_id i) (answer_row response now)
           (s\<lparr>db_outbox := db_outbox s @ [new_grant now i ty]\<rparr>))"
    and inv_outbox: "I s \<Longrightarrow> same_grant k \<Longrightarrow> I (upd_outbox R k s)"
    and inv_files: "I s \<Longrightarrow> I (s\<lparr>db_fs := fs\<rparr>)"
    and inv_clock: "I s \<Longrightarrow> I (s\<lparr>db_clock := t\<rparr>)"
    and inv_epoch: "I s \<Longrightarrow> I (s\<lparr>db_stream_epoch := ep\<rparr>)"
    and inv_drop: "I s \<Longrightarrow> I (s\<lparr>db_events := filter E (db_events s)\<rparr>)"
    and inv_delete: "I s \<Longrightarrow> I (delete_runs ids s)"
begin

lemma inv_upd_run: "I s \<Longrightarrow> (\<And>r. r_id (f r) = r_id r) \<Longrightarrow> I (upd_run rid f s)"
  unfolding upd_run_def by (rule inv_runs) (simp_all add: run_ids_def map_update_where)

lemma inv_cancel_pending: "I s \<Longrightarrow> I (cancel_pending rid s)"
  unfolding cancel_pending_def by (rule inv_interactions) (simp_all add: closes_def)

lemma inv_close_steps: "I s \<Longrightarrow> I (close_running_steps rid st s)"
  unfolding close_running_steps_def by (rule inv_steps) (simp_all add: same_step_def)

lemmas inv_rules = inv_event inv_upd_run inv_cancel_pending inv_close_steps inv_files inv_epoch

lemma inv_transact:
  assumes "I s" and "\<And>s' a. f s = Inr (s', a) \<Longrightarrow> I s'"
  shows "I (fst (transact f s))"
  by (rule transact_fst_cases) (rule assms(1), rule assms(2))

lemma inv_append_event: "I s \<Longrightarrow> I (fst (append_event rid ty p fence s))"
  unfolding append_event_def
  by (rule inv_transact)
    (auto simp: append_event_tx_def Let_def find_run_key inv_event find_run_None_ids find_run_ids
      split: if_splits option.splits sum.splits prod.splits)

lemma inv_update_progress: "I s \<Longrightarrow> I (fst (update_progress rid p summary fence s))"
  unfolding update_progress_def
  by (rule inv_transact)
    (auto simp: update_progress_tx_def apply_progress_def find_run_key inv_rules find_run_None_ids find_run_ids
      split: if_splits option.splits sum.splits prod.splits)

lemma inv_cleanup_events: "I s \<Longrightarrow> I (fst (cleanup_events days s))"
  by (simp add: cleanup_events_def transact_def cleanup_events_tx_def Let_def inv_drop)

lemma inv_heartbeat: "I s \<Longrightarrow> I (fst (heartbeat w n ids s))"
  by (simp add: heartbeat_def transact_def heartbeat_tx_def inv_runs run_ids_def map_update_where)

lemma inv_apply_transition:
  assumes "I s" "rid \<in> set (run_ids s)"
  shows "I (apply_transition rid st ups row s)"
proof -
  have id: "r_id (transition_row now x ups r) = r_id r" for now r x
    using transition_row_frame(1)[of r] by (simp add: same_provenance_def)
  have wait: "I (upd_interactions (\<lambda>i. i_run_id i = rid \<and> i_status i = I_pending)
      (\<lambda>i. i\<lparr>i_run_version := v\<rparr>) t)" if "I t" for t v
    by (rule inv_interactions[OF that]) (simp add: closes_def)
  show ?thesis
    using assms by (simp add: apply_transition_def Let_def inv_rules id wait)
qed

lemma inv_transition: "I s \<Longrightarrow> I (fst (transition rid st fence ver ups s))"
  unfolding transition_def
  by (rule inv_transact)
    (auto simp: transition_tx_def find_run_key inv_apply_transition find_run_ids split: if_splits sum.splits)

lemma inv_apply_claim:
  assumes "I s" "r_id row \<in> set (run_ids s)"
  shows "I (apply_claim w n row s)"
  using assms by (simp add: apply_claim_def Let_def inv_rules claim_row_def)

lemma inv_claim_next: "I s \<Longrightarrow> I (fst (claim_next w gl ol n ex s))"
  unfolding claim_next_def
proof (rule inv_transact)
  fix s' a assume s: "I s" and tx: "claim_next_tx w gl ol n ex s = Inr (s', a)"
  have "s' = s \<or> (\<exists>r. r \<in> set (db_runs s) \<and> s' = apply_claim w n r s)"
    using tx claim_choiceD(1) claim_candidatesD(1)
    by (fastforce simp: claim_next_tx_def split: if_splits option.splits)
  then show "I s'" using s by (auto intro!: inv_apply_claim simp: run_ids_def)
qed

lemma inv_claim_specific: "I s \<Longrightarrow> I (fst (claim_specific rid w gl ol n s))"
  unfolding claim_specific_def
proof (rule inv_transact)
  fix s' a assume s: "I s" and tx: "claim_specific_tx rid w gl ol n s = Inr (s', a)"
  have "s' = s \<or> (\<exists>r. find_run s rid = Some r \<and> s' = apply_claim w n r s)"
    using tx by (auto simp: claim_specific_tx_def split: if_splits option.splits)
  then show "I s'" using s by (auto intro!: inv_apply_claim simp: find_run_ids find_run_id)
qed

lemma inv_begin_step: "I s \<Longrightarrow> I (fst (begin_step_attempt rid key fence s))"
  unfolding begin_step_attempt_def
proof (rule inv_transact)
  fix s' a assume s: "I s" and tx: "begin_step_attempt_tx rid key fence s = Inr (s', a)"
  then obtain r ty p where rid: "rid \<in> set (run_ids s)"
    and s': "s' = add_event rid ty p (s\<lparr>db_steps := db_steps s @ [new_step s rid key (next_attempt s rid key)],
      db_last_step := Suc (db_last_step s)\<rparr>)"
    by (auto simp: begin_step_attempt_tx_def find_run_key Let_def find_run_ids split: sum.splits if_splits)
  have "I (s\<lparr>db_steps := db_steps s @ [new_step s rid key (next_attempt s rid key)],
      db_last_step := Suc (db_last_step s)\<rparr>)"
    by (rule inv_new_step[OF s rid]) (rule next_attempt_fresh)
  then show "I s'" unfolding s' by (rule inv_event) (use rid in \<open>simp add: run_ids_def\<close>)
qed

lemma inv_finish_step: "I s \<Longrightarrow> I (fst (finish_step rid key output status att fence s))"
  unfolding finish_step_def
proof (rule inv_transact)
  fix s' a assume s: "I s" and tx: "finish_step_tx rid key output status att fence s = Inr (s', a)"
  have st: "I (upd_steps Q (\<lambda>t. t\<lparr>s_status := x, s_output := y, s_finished_at := z\<rparr>) s)" for Q x y z
    by (rule inv_steps[OF s]) (simp add: same_step_def)
  show "I s'"
    using tx by (auto simp: finish_step_tx_def Let_def st inv_upd_run split: sum.splits if_splits)
qed

lemma inv_pending_events:
  "I s \<Longrightarrow> rid \<in> set (run_ids s) \<Longrightarrow> I (append_pending_events rid key att st evs s)"
  unfolding append_pending_events_def by (induction evs arbitrary: s) (simp_all add: inv_event)

lemma run_ids_pending_events [simp]:
  "run_ids (append_pending_events rid key att st evs s) = run_ids s"
  by (simp add: run_ids_def)

lemma inv_commit_interactions: "I s \<Longrightarrow> I (commit_interactions rid oc ver s)"
  by (cases oc) (auto simp: commit_interactions_def Let_def closes_def
      intro!: inv_cancel_pending inv_interactions)

lemma inv_ensure_wait:
  assumes "I s" "rid \<in> set (run_ids s)" "ensure_wait_interaction rid key att ver oc s = Inr s'"
  shows "I s'"
  using assms(3)
proof (cases rule: ensure_wait_cases)
  case (new b iid ty pr pl)
  then show ?thesis
    using assms(1,2)
    by (auto intro!: inv_event inv_new_interaction simp: new_interaction_def find_interaction_None)
qed (simp_all add: assms(1))

lemma inv_commit_step: "I s \<Longrightarrow> I (fst (commit_step rid key att owner epoch st oc s))"
  unfolding commit_step_def
proof (rule inv_transact)
  fix s' a assume s: "I s" and "commit_step_tx rid key att owner epoch st oc s = Inr (s', a)"
  then obtain r t s0 where rid: "rid \<in> set (run_ids s)"
    and s0: "ensure_wait_interaction rid key att (r_version r + 1) oc s = Inr s0"
    and s': "s' = apply_commit rid key att epoch (outcome_state oc st) oc r t s0"
    by (auto simp: commit_step_tx_def find_run_key find_run_ids split: sum.splits)
  have ids: "run_ids s0 = run_ids s" using ensure_wait_runs[OF s0] by (simp add: run_ids_def)
  have cid: "r_id (commit_row now k a st' oc' v x) = r_id x" for now k a st' oc' v x
    using commit_row_frame(1)[of x] by (simp add: same_provenance_def)
  have cids: "run_ids (commit_interactions rid oc v u) = run_ids u" for v u
    by (simp add: run_ids_def)
  have st: "I (upd_steps Q (\<lambda>x. x\<lparr>s_status := a, s_output := b, s_finished_at := c\<rparr>) s0)" for Q a b c
    by (rule inv_steps[OF inv_ensure_wait[OF s rid s0]]) (simp add: same_step_def)
  show "I s'"
    using rid by (simp add: s' apply_commit_def Let_def inv_event inv_pending_events
        inv_commit_interactions inv_upd_run cid cids st ids)
qed

lemma inv_create_interaction: "I s \<Longrightarrow> I (fst (create_interaction rid ty prompt payload iid s))"
  unfolding create_interaction_def
  by (rule inv_transact)
    (auto simp: create_interaction_tx_def Let_def find_run_key find_interaction_None new_interaction_def
        find_run_ids
      intro!: inv_event inv_new_interaction split: if_splits sum.splits option.splits)

lemma inv_wait: "I s \<Longrightarrow> I (fst (wait_for_interaction rid ty prompt payload iid owner epoch summary et s))"
  unfolding wait_for_interaction_def
  by (rule inv_transact)
    (auto simp: wait_for_interaction_tx_def apply_wait_def Let_def find_run_key find_interaction_None
        new_interaction_def find_run_ids
      intro!: inv_event inv_upd_run inv_new_interaction split: if_splits sum.splits option.splits list.splits)

lemma inv_apply_resolution:
  assumes s: "I s" and i: "find_interaction s iid = Some i" "i_status i = I_pending"
    and rid: "i_run_id i \<in> set (run_ids s)"
    and g: "grant = None \<or> approved response \<and> lookup_by g_interaction_id iid (db_outbox s) = None \<and>
       (\<exists>pt. permission_type_of i = Inr pt \<and> grant_type pt = grant)"
  shows "I (apply_resolution i response target grant summary err r s)"
proof -
  let ?s1 = "case grant of None \<Rightarrow> s | Some ty \<Rightarrow> s\<lparr>db_outbox := db_outbox s @ [new_grant (db_clock s) i ty]\<rparr>"
  let ?s2 = "upd_interactions (\<lambda>x. i_id x = i_id i) (answer_row response (db_clock s)) ?s1"
  have only: "x = i" if "x \<in> set (db_interactions s)" "i_id x = i_id i" for x
    by (rule find_interaction_unique[OF _ i(1) that]) (simp add: inv_ids[OF s])
  have s2: "I ?s2"
  proof (cases grant)
    case None
    have "I (upd_interactions (\<lambda>x. i_id x = i_id i) (answer_row response (db_clock s)) s)"
      by (rule inv_interactions[OF s]) (use only i(2) in \<open>auto simp: closes_def answer_row_def\<close>)
    with None show ?thesis by simp
  next
    case (Some ty)
    with g obtain pt where pt: "approved response" "permission_type_of i = Inr pt" "grant_type pt = Some ty"
      "lookup_by g_interaction_id iid (db_outbox s) = None" by auto
    show ?thesis using inv_grant[OF s i pt] by (simp add: Some)
  qed
  have s3: "I (upd_interactions (\<lambda>x. i_run_id x = i_run_id i \<and> i_id x \<noteq> i_id i \<and> i_status x = I_pending)
      (\<lambda>x. x\<lparr>i_status := I_cancelled, i_resolved_at := Some (db_clock s)\<rparr>) ?s2)"
    by (rule inv_interactions[OF s2]) (simp add: closes_def)
  have id: "r_id (resolve_row now tg sm er x) = r_id x" for now tg sm er x
    using resolve_row_frame(1)[of x] by (simp add: same_provenance_def)
  have "I (upd_run (i_run_id i) (resolve_row (db_clock s) target
      (if grant \<noteq> None then ''Applying permission'' else summary) err)
    (upd_interactions (\<lambda>x. i_run_id x = i_run_id i \<and> i_id x \<noteq> i_id i \<and> i_status x = I_pending)
      (\<lambda>x. x\<lparr>i_status := I_cancelled, i_resolved_at := Some (db_clock s)\<rparr>) ?s2))"
    by (rule inv_upd_run[OF s3]) (rule id)
  moreover have "i_run_id i \<in> set (run_ids ?s1)" using rid by (cases grant) simp_all
  ultimately show ?thesis
    by (simp add: apply_resolution_def Let_def inv_event id answer_row_def[abs_def])
qed

lemma inv_resolve: "I s \<Longrightarrow> I (fst (resolve_interaction iid response expected target summary err s))"
  unfolding resolve_interaction_def
proof (rule inv_transact)
  fix s' a assume s: "I s"
    and "resolve_interaction_tx iid response expected target summary err s = Inr (s', a)"
  from this(2) show "I s'"
    by (rule resolve_txD) (use s in \<open>auto intro!: inv_apply_resolution simp: find_run_ids\<close>)
qed

lemma inv_complete_grant: "I s \<Longrightarrow> I (fst (complete_permission_grant iid s))"
  unfolding complete_permission_grant_def
  by (rule inv_transact)
    (auto simp: complete_permission_grant_tx_def same_grant_def intro!: inv_upd_run inv_outbox split: option.splits)

lemma inv_defer_grant: "I s \<Longrightarrow> I (fst (defer_permission_grant iid s))"
  unfolding defer_permission_grant_def
  by (rule inv_transact)
    (auto simp: defer_permission_grant_tx_def Let_def same_grant_def intro!: inv_upd_run inv_outbox split: option.splits)

lemma inv_finalize: "I s \<Longrightarrow> I (fst (finalize_cancel_requested rid w s))"
  unfolding finalize_cancel_requested_def
  by (rule inv_transact)
    (auto simp: finalize_cancel_requested_tx_def find_run_key find_run_ids apply_finalize_def Let_def inv_rules
      split: if_splits sum.splits)

lemma inv_recover_row: "I s \<Longrightarrow> r_id row \<in> set (run_ids s) \<Longrightarrow> I (recover_row ty row s)"
  by (simp add: recover_row_def Let_def inv_rules)

lemma run_ids_recover_row [simp]: "run_ids (recover_row ty row s) = run_ids s"
  by (simp add: recover_row_def Let_def)

lemma inv_recover_rows:
  "I s \<Longrightarrow> (\<And>r. r \<in> set rows \<Longrightarrow> r_id r \<in> set (run_ids s)) \<Longrightarrow> I (fold (recover_row ty) rows s)"
  by (induction rows arbitrary: s) (simp_all add: inv_recover_row)

lemma inv_release_worker: "I s \<Longrightarrow> I (fst (release_worker w s))"
  by (simp add: release_worker_def transact_def release_worker_tx_def Let_def)
    (rule inv_recover_rows, assumption, auto simp: run_ids_def)

lemma inv_recover_orphans: "I s \<Longrightarrow> I (fst (transact recover_orphans_tx s))"
  by (simp add: transact_def recover_orphans_tx_def Let_def)
    (rule inv_recover_rows, assumption, auto simp: run_ids_def)

lemma inv_cleanup_failed: "I s \<Longrightarrow> I (cleanup_failed_tx rid h e s)"
  by (auto simp: cleanup_failed_tx_def Let_def inv_rules find_run_ids split: option.split)

lemma inv_cleanup_done: "I s \<Longrightarrow> I (fst (cleanup_done_tx rid h app s))"
  by (auto simp: cleanup_done_tx_def Let_def inv_rules find_run_ids split: option.split)

lemma inv_cleanup_row: "I (fst t) \<Longrightarrow> I (fst (cleanup_row row t))"
proof (cases t)
  case (Pair s n)
  assume "I (fst t)"
  with Pair have s: "I s" "I (s\<lparr>db_fs := fs\<rparr>)" for fs by (simp_all add: inv_files)
  have "I x" if "cleanup_done_tx rid h app (s\<lparr>db_fs := fs\<rparr>) = (x, b)" for rid h app fs x b
    using inv_cleanup_done[OF s(2), of rid h app fs] that by simp
  with s Pair show ?thesis
    by (auto simp: cleanup_row_def inv_cleanup_failed split: option.split sum.split prod.split)
qed

lemma inv_pending_cleanup: "I s \<Longrightarrow> I (fst (recover_pending_staging_cleanup rid s))"
proof -
  have "I (fst (fold cleanup_row rows t))" if "I (fst t)" for rows t
    using that by (induction rows arbitrary: t) (simp_all add: inv_cleanup_row)
  then show "I s \<Longrightarrow> ?thesis" by (simp add: recover_pending_staging_cleanup_def)
qed

lemma inv_recover_orphaned: "I s \<Longrightarrow> I (fst (recover_orphaned s))"
  by (simp add: recover_orphaned_def inv_recover_orphans inv_pending_cleanup)

lemma inv_apply_cancel:
  assumes "I s" "r_id r \<in> set (run_ids s)"
  shows "I (apply_cancel r p cp s)"
proof -
  have id: "r_id (cancel_row now tg q c x) = r_id x" for now tg q c x
    using cancel_row_frame(1)[of x] by (simp add: same_provenance_def)
  show ?thesis using assms
    by (simp add: apply_cancel_def Let_def inv_rules id split: option.split)
qed

lemma inv_request_cancel_tx: "I s \<Longrightarrow> I (fst (transact (request_cancel_tx rid) s))"
  by (rule inv_transact)
    (auto simp: request_cancel_tx_def find_run_key Let_def find_run_ids find_run_id
      intro!: inv_apply_cancel split: if_splits sum.splits)

lemma inv_request_cancel:
  assumes "I s" shows "I (fst (request_cancel rid s))"
proof -
  let ?b = "transact (request_cancel_tx rid) (fst (recover_pending_staging_cleanup (Some rid) s))"
  have "I (fst ?b)" using assms by (intro inv_request_cancel_tx inv_pending_cleanup)
  then show ?thesis
    by (cases ?b; cases "snd ?b") (simp_all add: request_cancel_def Let_def inv_pending_cleanup)
qed

lemma inv_reconcile: "I s \<Longrightarrow> I (fst (reconcile_effect rid res note s))"
  unfolding reconcile_effect_def
  by (rule inv_transact)
    (auto simp: reconcile_effect_tx_def find_run_key Let_def find_run_ids inv_rules split: if_splits sum.splits)

lemma inv_purge: "I s \<Longrightarrow> I (fst (purge_session sid s))"
  unfolding purge_session_def
  by (rule inv_transact) (auto simp: purge_session_tx_def Let_def inv_delete split: if_splits)

lemma inv_migrate_row: "I s \<Longrightarrow> r_id r \<in> set (run_ids s) \<Longrightarrow> I (migrate_row r s)"
  by (simp add: migrate_row_def upgrade_run_def park_run_def inv_rules split: option.split)

lemma run_ids_migrate_row [simp]: "run_ids (migrate_row r s) = run_ids s"
  by (simp add: migrate_row_def upgrade_run_def park_run_def split: option.split)

lemma inv_open_store:
  assumes "I s" shows "I (open_store epoch s)"
proof -
  have mig: "I (fold migrate_row rows t)" if "I t" "\<And>r. r \<in> set rows \<Longrightarrow> r_id r \<in> set (run_ids t)" for rows t
    using that by (induction rows arbitrary: t) (simp_all add: inv_migrate_row)
  have "I (migrate_legacy t)" if "I t" for t
    unfolding migrate_legacy_def by (rule mig[OF that]) (auto simp: run_ids_def)
  with assms show ?thesis
    by (simp add: open_store_def inv_pending_cleanup inv_epoch)
qed

end

text \<open>The invariants that new runs keep as well.\<close>

locale table_invariant = table_rows +
  assumes inv_new_run: "I s \<Longrightarrow> r_id r \<notin> set (run_ids s) \<Longrightarrow> I (s\<lparr>db_runs := db_runs s @ [r]\<rparr>)"
begin

lemma inv_create_run: "I s \<Longrightarrow> I (fst (create_run rid q s))"
  unfolding create_run_def
proof (rule inv_transact)
  fix s' a assume s: "I s" and tx: "create_run_tx rid q s = Inr (s', a)"
  have "s' = s \<or> find_run s rid = None \<and> s' = insert_run rid q s"
    using tx by (auto simp: create_run_tx_def run_insert_ok_def Let_def map_sum_def
        split: if_splits option.splits sum.splits)
  then show "I s'"
  proof
    assume *: "find_run s rid = None \<and> s' = insert_run rid q s"
    then have "I (s\<lparr>db_runs := db_runs s @ [new_run (db_clock s) rid q]\<rparr>)"
      by (intro inv_new_run[OF s]) (simp add: find_run_None_ids[symmetric] new_run_def)
    with * show ?thesis
      by (simp add: insert_run_def inv_event run_ids_def new_run_def)
  qed (simp add: s)
qed

end

section \<open>Keys, references, attempts and grants\<close>

text \<open>
  A grant in the outbox stands for a permission question of the same run that was answered with
  the literal approval.
\<close>

definition granted :: "interaction_row list \<Rightarrow> outbox_row \<Rightarrow> bool" where
  "granted is g \<longleftrightarrow> (\<exists>i \<in> set is. i_id i = g_interaction_id g \<and> i_run_id i = g_run_id g \<and>
     i_type i = ''permission'' \<and> i_status i = I_resolved \<and> g_permission_type g \<in> set GRANT_TYPES \<and>
     dget (i_payload i) ''permission_type'' = Some (JStr (g_permission_type g)) \<and> g_value g = asked_value i \<and>
     (case i_response i of Some v \<Rightarrow> approved v | None \<Rightarrow> False))"

definition attempt_key :: "step_row \<Rightarrow> string \<times> string \<times> int" where
  "attempt_key t = (s_run_id t, s_step_key t, s_attempt t)"

definition tables_ok :: "store \<Rightarrow> bool" where
  "tables_ok s \<longleftrightarrow> distinct (run_ids s) \<and> distinct (interaction_ids s) \<and>
     distinct (map attempt_key (db_steps s)) \<and> distinct (map g_interaction_id (db_outbox s)) \<and>
     (\<forall>i \<in> set (db_interactions s). i_run_id i \<in> set (run_ids s)) \<and>
     (\<forall>e \<in> set (db_events s). e_run_id e \<in> set (run_ids s)) \<and>
     (\<forall>t \<in> set (db_steps s). s_run_id t \<in> set (run_ids s)) \<and>
     (\<forall>g \<in> set (db_outbox s). granted (db_interactions s) g)"

lemma append_event_row:
  obtains e where "db_events (append_event_with a b c rid ty p s) = db_events s @ [e]"
    "e_run_id e = rid" "e_sequence e = Suc (db_last_event s)" "e_event_id e = db_uuids s"
    "e_payload e = fst (sanitize_event_value p)" "e_type e = ty" "e_created_at e = db_clock s"
    "db_uuids (append_event_with a b c rid ty p s) = Suc (db_uuids s)"
proof -
  have "\<exists>e. db_events (append_event_with a b c rid ty p s) = db_events s @ [e] \<and>
    e_run_id e = rid \<and> e_sequence e = Suc (db_last_event s) \<and> e_event_id e = db_uuids s \<and>
    e_payload e = fst (sanitize_event_value p) \<and> e_type e = ty \<and> e_created_at e = db_clock s \<and>
    db_uuids (append_event_with a b c rid ty p s) = Suc (db_uuids s)"
    by (simp add: append_event_with_def Let_def)
  with that show thesis by blast
qed

lemma granted_update:
  assumes "granted is g" "\<And>i. i \<in> set is \<Longrightarrow> P i \<Longrightarrow> closes f i"
  shows "granted (update_where P f is) g"
proof -
  obtain i where i: "i \<in> set is" "i_id i = g_interaction_id g" "i_run_id i = g_run_id g"
    "i_type i = ''permission''" "i_status i = I_resolved" "g_permission_type g \<in> set GRANT_TYPES"
    "dget (i_payload i) ''permission_type'' = Some (JStr (g_permission_type g))" "g_value g = asked_value i"
    "case i_response i of Some v \<Rightarrow> approved v | None \<Rightarrow> False"
    using assms(1) by (auto simp: granted_def)
  let ?i = "if P i then f i else i"
  have "?i \<in> set (update_where P f is)" using i(1) by (auto simp: in_set_update_where)
  moreover have "i_id ?i = i_id i \<and> i_run_id ?i = i_run_id i \<and> i_type ?i = i_type i \<and>
      i_status ?i = i_status i \<and> i_response ?i = i_response i \<and> i_payload ?i = i_payload i"
    using assms(2)[OF i(1)] i(5) by (auto simp: closes_def)
  ultimately show ?thesis using i by (auto simp: granted_def asked_value_def intro!: bexI[of _ ?i])
qed

lemma interaction_ids_update:
  assumes "\<And>i. i \<in> set (db_interactions s) \<Longrightarrow> P i \<Longrightarrow> i_id (f i) = i_id i"
  shows "interaction_ids (upd_interactions P f s) = interaction_ids s"
  using assms by (simp add: interaction_ids_def upd_interactions_def update_where_def)

lemma granted_mono: "granted is g \<Longrightarrow> set is \<subseteq> set js \<Longrightarrow> granted js g"
  by (auto simp: granted_def)

lemma tables_ok_grant:
  assumes s: "tables_ok s" and i: "find_interaction s iid = Some i" "i_status i = I_pending"
    and a: "approved response" "permission_type_of i = Inr pt" "grant_type pt = Some ty"
    and fresh: "lookup_by g_interaction_id iid (db_outbox s) = None"
  shows "tables_ok (upd_interactions (\<lambda>x. i_id x = i_id i) (answer_row response now)
           (s\<lparr>db_outbox := db_outbox s @ [new_grant now i ty]\<rparr>))"
proof -
  let ?js = "update_where (\<lambda>x. i_id x = i_id i) (answer_row response now) (db_interactions s)"
  note f = find_interaction_Some[OF i(1)]
  have only: "x = i" if "x \<in> set (db_interactions s)" "i_id x = i_id i" for x
    by (rule find_interaction_unique[OF _ i(1) that]) (use s in \<open>simp add: tables_ok_def\<close>)
  have old: "granted ?js g" if "g \<in> set (db_outbox s)" for g
  proof (rule granted_update)
    show "granted (db_interactions s) g" using that s by (simp add: tables_ok_def)
  next
    fix x assume "x \<in> set (db_interactions s)" "i_id x = i_id i"
    then have "x = i" by (rule only)
    then show "closes (answer_row response now) x" by (simp add: closes_def answer_row_def i(2))
  qed
  have "answer_row response now i \<in> set ?js" using f by (auto simp: in_set_update_where)
  moreover have "i_type i = ''permission''" "ty \<in> set GRANT_TYPES" "dget (i_payload i) ''permission_type'' = Some (JStr ty)"
    using a(2,3) by (auto simp: permission_type_of_def grant_type_def split: if_splits option.splits json.splits)
  ultimately have new: "granted ?js (new_grant now i ty)"
    using a(1) by (auto simp: granted_def new_grant_def answer_row_def asked_value_def intro!: bexI[of _ "answer_row response now i"])
  have ids: "map i_id ?js = map i_id (db_interactions s)"
    by (rule map_update_where) (simp add: answer_row_def)
  have runs: "\<forall>x \<in> set ?js. i_run_id x \<in> set (run_ids s)"
    using s by (auto simp: tables_ok_def in_set_update_where answer_row_def)
  have "iid \<notin> g_interaction_id ` set (db_outbox s)"
    using fresh by (simp add: lookup_by_None_iff)
  then show ?thesis
    using s old new runs ids f
    by (simp add: tables_ok_def upd_interactions_def interaction_ids_def run_ids_def new_grant_def)
qed

interpretation tables: table_invariant tables_ok
proof
  fix s rid a b c ty p assume "tables_ok s" "rid \<in> set (run_ids s)"
  then show "tables_ok (append_event_with a b c rid ty p s)"
    by (rule_tac append_event_row[of a b c rid ty p s]) (auto simp: tables_ok_def interaction_ids_def)
next
  fix s P and f :: "interaction_row \<Rightarrow> interaction_row" assume s: "tables_ok s" and c: "\<And>i. i \<in> set (db_interactions s) \<Longrightarrow> P i \<Longrightarrow> closes f i"
  have "granted (update_where P f (db_interactions s)) g" if "g \<in> set (db_outbox s)" for g
    using that s c by (intro granted_update) (auto simp: tables_ok_def)
  moreover have "i_run_id x \<in> set (run_ids s)" if "x \<in> set (update_where P f (db_interactions s))" for x
    using that s c by (auto simp: in_set_update_where tables_ok_def closes_def)
  moreover have "interaction_ids (upd_interactions P f s) = interaction_ids s"
    using c by (intro interaction_ids_update) (simp add: closes_def)
  ultimately show "tables_ok (upd_interactions P f s)"
    using s by (simp add: tables_ok_def) (simp add: upd_interactions_def)
next
  fix s rid key att assume s: "tables_ok s" "rid \<in> set (run_ids s)"
    and lt: "\<And>t. t \<in> set (step_rows s rid key) \<Longrightarrow> s_attempt t < att"
  have "(rid, key, att) \<notin> attempt_key ` set (db_steps s)"
    using lt by (fastforce simp: attempt_key_def step_rows_def)
  then show "tables_ok (s\<lparr>db_steps := db_steps s @ [new_step s rid key att], db_last_step := Suc (db_last_step s)\<rparr>)"
    using s by (auto simp: tables_ok_def run_ids_def interaction_ids_def new_step_def attempt_key_def)
next
  fix s Q and h :: "step_row \<Rightarrow> step_row" assume s: "tables_ok s" and h: "same_step h"
  have "map attempt_key (db_steps (upd_steps Q h s)) = map attempt_key (db_steps s)"
    using h by (simp add: upd_steps_def same_step_def attempt_key_def map_update_where)
  moreover have "\<forall>t \<in> set (db_steps (upd_steps Q h s)). s_run_id t \<in> set (run_ids s)"
    using s h by (auto simp: upd_steps_def in_set_update_where tables_ok_def same_step_def)
  ultimately show "tables_ok (upd_steps Q h s)"
    using s by (simp add: tables_ok_def interaction_ids_def)
next
  fix s R and k :: "outbox_row \<Rightarrow> outbox_row" assume s: "tables_ok s" and k: "same_grant k"
  have "map g_interaction_id (db_outbox (upd_outbox R k s)) = map g_interaction_id (db_outbox s)"
    using k by (simp add: upd_outbox_def same_grant_def map_update_where)
  moreover have "\<forall>g \<in> set (db_outbox (upd_outbox R k s)). granted (db_interactions s) g"
    using s k by (auto simp: upd_outbox_def in_set_update_where tables_ok_def same_grant_def granted_def)
  ultimately show "tables_ok (upd_outbox R k s)"
    using s by (simp add: tables_ok_def interaction_ids_def)
next
  fix s and i :: interaction_row assume "tables_ok s" "i_id i \<notin> set (interaction_ids s)" "i_run_id i \<in> set (run_ids s)"
  moreover have "set (db_interactions s) \<subseteq> set (db_interactions s @ [i])" by auto
  ultimately show "tables_ok (insert_interaction i s)"
    using granted_mono by (auto simp: tables_ok_def insert_interaction_def interaction_ids_def run_ids_def)
next
  fix s ids assume s: "tables_ok s"
  let ?t = "delete_runs ids s"
  have runs: "set (run_ids ?t) = set (run_ids s) - set ids"
    by (auto simp: run_ids_def delete_runs_def)
  have "granted (db_interactions ?t) g" if g: "g \<in> set (db_outbox ?t)" for g
  proof -
    have "granted (db_interactions s) g" "g_run_id g \<notin> set ids"
      using g s by (auto simp: delete_runs_def tables_ok_def)
    then show ?thesis by (auto simp: granted_def delete_runs_def)
  qed
  moreover have "distinct (run_ids ?t)" "distinct (interaction_ids ?t)"
    "distinct (map attempt_key (db_steps ?t))" "distinct (map g_interaction_id (db_outbox ?t))"
    using s by (simp_all add: delete_runs_def run_ids_def interaction_ids_def tables_ok_def distinct_map_filter)
  ultimately show "tables_ok ?t"
    using s runs by (auto simp: tables_ok_def delete_runs_def)
next
  fix s iid response pt ty now and i :: interaction_row
  assume "tables_ok s" "find_interaction s iid = Some i" "i_status i = I_pending"
    "approved response" "permission_type_of i = Inr pt" "grant_type pt = Some ty"
    "lookup_by g_interaction_id iid (db_outbox s) = None"
  then show "tables_ok (upd_interactions (\<lambda>x. i_id x = i_id i) (answer_row response now)
           (s\<lparr>db_outbox := db_outbox s @ [new_grant now i ty]\<rparr>))"
    by (rule tables_ok_grant)
qed (auto simp: tables_ok_def run_ids_def interaction_ids_def)

section \<open>The event log\<close>

text \<open>
  Sequence numbers strictly increase and stay below the counter (also after rows were deleted),
  event identities are unique, and every stored payload is redacted.
\<close>

definition log_ok :: "store \<Rightarrow> bool" where
  "log_ok s \<longleftrightarrow> distinct (run_ids s) \<and> distinct (interaction_ids s) \<and>
     sorted_wrt (<) (map e_sequence (db_events s)) \<and> sorted_wrt (<) (map e_event_id (db_events s)) \<and>
     (\<forall>e \<in> set (db_events s). e_sequence e \<le> db_last_event s \<and> e_event_id e < db_uuids s \<and>
        redacted_json (e_payload e))"

lemma log_ok_frame:
  assumes "log_ok s" "db_events t = db_events s" "db_last_event t = db_last_event s"
    and "db_uuids t = db_uuids s" "distinct (run_ids t)" "distinct (interaction_ids t)"
  shows "log_ok t"
  using assms by (simp add: log_ok_def)

lemma sorted_wrt_map_filter:
  "sorted_wrt (<) (map f xs) \<Longrightarrow> sorted_wrt (<) (map f (filter P xs))"
  by (induction xs) auto

interpretation log: table_invariant log_ok
proof
  fix s rid a b c ty p assume s: "log_ok s" and "rid \<in> set (run_ids s)"
  obtain e where e: "db_events (append_event_with a b c rid ty p s) = db_events s @ [e]"
    "e_sequence e = Suc (db_last_event s)" "e_event_id e = db_uuids s"
    "e_payload e = fst (sanitize_event_value p)"
    "db_uuids (append_event_with a b c rid ty p s) = Suc (db_uuids s)"
    by (rule append_event_row[of a b c rid ty p s])
  have red: "redacted_json (e_payload e)"
    using sanitize_redacts(1)[of None 0 p] by (simp add: e(4) sanitize_event_value_def)
  have "interaction_ids (append_event_with a b c rid ty p s) = interaction_ids s"
    by (simp add: interaction_ids_def)
  moreover have "e_sequence x < e_sequence e \<and> e_event_id x < e_event_id e" if "x \<in> set (db_events s)" for x
    using s that by (fastforce simp: log_ok_def e(2,3))
  ultimately show "log_ok (append_event_with a b c rid ty p s)"
    using s red by (auto simp: log_ok_def e sorted_wrt_append le_Suc_eq less_Suc_eq)
next
  fix s and i :: interaction_row assume "log_ok s" "i_id i \<notin> set (interaction_ids s)"
  then show "log_ok (insert_interaction i s)"
    by (intro log_ok_frame[of s "insert_interaction i s"])
      (simp_all add: insert_interaction_def interaction_ids_def run_ids_def log_ok_def)
next
  fix s P and f :: "interaction_row \<Rightarrow> interaction_row" assume s: "log_ok s" and c: "\<And>i. i \<in> set (db_interactions s) \<Longrightarrow> P i \<Longrightarrow> closes f i"
  have "interaction_ids (upd_interactions P f s) = interaction_ids s"
    using c by (intro interaction_ids_update) (simp add: closes_def)
  moreover have "db_uuids (upd_interactions P f s) = db_uuids s" by simp
  ultimately show "log_ok (upd_interactions P f s)"
    using s by (intro log_ok_frame[OF s]) (simp_all add: log_ok_def)
next
  fix s iid response now ty and i :: interaction_row assume s: "log_ok s"
  let ?t = "upd_interactions (\<lambda>x. i_id x = i_id i) (answer_row response now)
           (s\<lparr>db_outbox := db_outbox s @ [new_grant now i ty]\<rparr>)"
  have "interaction_ids ?t = interaction_ids (s\<lparr>db_outbox := db_outbox s @ [new_grant now i ty]\<rparr>)"
    by (rule interaction_ids_update) (simp add: answer_row_def)
  then show "log_ok ?t"
    using s by (intro log_ok_frame[OF s]) (simp_all add: log_ok_def interaction_ids_def)
next
  fix s ids assume "log_ok s"
  then show "log_ok (delete_runs ids s)"
    by (auto simp: log_ok_def delete_runs_def run_ids_def interaction_ids_def distinct_map_filter
        sorted_wrt_map_filter)
qed (auto simp: log_ok_def run_ids_def interaction_ids_def distinct_map_filter sorted_wrt_map_filter)

end
