(* ===== verification/Run_Machine.thy ===== *)
theory Run_Machine
  imports Run_Integrity
begin

text \<open>
  The store as a state machine: a command is one call of a \<^verbatim>\<open>RunStore\<close> method with its arguments,
  the passage of time, a change of the file system by someone else, or the reopening of the
  store. The interleavings of all workers, requests and crashes are the sequences of commands,
  since every call is made of whole transactions; a crash is the absence of further commands from
  a worker, whose leases then expire.
\<close>

section \<open>Commands\<close>

datatype command =
    C_create string run_request
  | C_append string string json "(string \<times> int) option"
  | C_progress string pyfloat string "(string \<times> int) option"
  | C_transition string run_status "(string \<times> int) option" "int option" "col_update list"
  | C_cleanup_events int
  | C_claim_next string nat nat nat "string list"
  | C_claim_specific string string nat nat nat
  | C_heartbeat string nat "string list option"
  | C_begin_step string string "(string \<times> int) option"
  | C_finish_step string string json step_status "int option" "(string \<times> int) option"
  | C_commit_step string string int string int agent_state step_outcome
  | C_create_interaction string string string json string
  | C_wait string string string json string string int string "string option"
  | C_resolve string json "int option" "run_status option" string "json option"
  | C_complete_grant string
  | C_defer_grant string
  | C_finalize string string
  | C_recover
  | C_release string
  | C_staging_cleanup "string option"
  | C_cancel string
  | C_reconcile string resolution "string option"
  | C_purge string
  | C_open string
  | C_tick nat
  | C_files file_system

fun exec :: "command \<Rightarrow> store \<Rightarrow> store" where
  "exec (C_create rid q) s = fst (create_run rid q s)"
| "exec (C_append rid ty p fence) s = fst (append_event rid ty p fence s)"
| "exec (C_progress rid p summary fence) s = fst (update_progress rid p summary fence s)"
| "exec (C_transition rid st fence ver ups) s = fst (transition rid st fence ver ups s)"
| "exec (C_cleanup_events days) s = fst (cleanup_events days s)"
| "exec (C_claim_next w gl ol n ex) s = fst (claim_next w gl ol n ex s)"
| "exec (C_claim_specific rid w gl ol n) s = fst (claim_specific rid w gl ol n s)"
| "exec (C_heartbeat w n ids) s = fst (heartbeat w n ids s)"
| "exec (C_begin_step rid key fence) s = fst (begin_step_attempt rid key fence s)"
| "exec (C_finish_step rid key output st att fence) s = fst (finish_step rid key output st att fence s)"
| "exec (C_commit_step rid key att owner epoch st oc) s = fst (commit_step rid key att owner epoch st oc s)"
| "exec (C_create_interaction rid ty prompt payload iid) s = fst (create_interaction rid ty prompt payload iid s)"
| "exec (C_wait rid ty prompt payload iid owner epoch summary et) s =
     fst (wait_for_interaction rid ty prompt payload iid owner epoch summary et s)"
| "exec (C_resolve iid response expected target summary err) s =
     fst (resolve_interaction iid response expected target summary err s)"
| "exec (C_complete_grant iid) s = fst (complete_permission_grant iid s)"
| "exec (C_defer_grant iid) s = fst (defer_permission_grant iid s)"
| "exec (C_finalize rid w) s = fst (finalize_cancel_requested rid w s)"
| "exec C_recover s = fst (recover_orphaned s)"
| "exec (C_release w) s = fst (release_worker w s)"
| "exec (C_staging_cleanup rid) s = fst (recover_pending_staging_cleanup rid s)"
| "exec (C_cancel rid) s = fst (request_cancel rid s)"
| "exec (C_reconcile rid res note) s = fst (reconcile_effect rid res note s)"
| "exec (C_purge sid) s = fst (purge_session sid s)"
| "exec (C_open epoch) s = open_store epoch s"
| "exec (C_tick n) s = s\<lparr>db_clock := db_clock s + n\<rparr>"
| "exec (C_files fs) s = s\<lparr>db_fs := fs\<rparr>"

definition empty_store :: "string \<Rightarrow> time \<Rightarrow> file_system \<Rightarrow> store" where
  "empty_store workspace now fs = \<lparr>db_runs = [], db_events = [], db_stream_epoch = None,
     db_interactions = [], db_outbox = [], db_steps = [], db_last_event = 0, db_last_step = 0,
     db_uuids = 0, db_clock = now, db_workspace = workspace, db_fs = fs\<rparr>"

inductive reachable :: "store \<Rightarrow> bool" where
  init: "reachable (empty_store workspace now fs)"
| exec: "reachable s \<Longrightarrow> reachable (exec c s)"

inductive_cases reachableE: "reachable s"

context table_rows
begin

lemma inv_exec_rows:
  assumes "I s" "\<And>rid q. c \<noteq> C_create rid q"
  shows "I (exec c s)"
proof (cases c)
  case (C_create rid q)
  with assms(2) show ?thesis by blast
qed (use assms(1) in \<open>simp_all add: inv_append_event inv_update_progress inv_transition inv_cleanup_events
      inv_claim_next inv_claim_specific inv_heartbeat inv_begin_step inv_finish_step inv_commit_step
      inv_create_interaction inv_wait inv_resolve inv_complete_grant inv_defer_grant inv_finalize
      inv_recover_orphaned inv_release_worker inv_pending_cleanup inv_request_cancel inv_reconcile
      inv_purge inv_open_store inv_files inv_clock\<close>)

end

context table_invariant
begin

lemma inv_exec: "I s \<Longrightarrow> I (exec c s)"
  by (cases "\<forall>rid q. c \<noteq> C_create rid q") (auto intro: inv_exec_rows inv_create_run)

lemma inv_reachable: "(\<And>w t fs. I (empty_store w t fs)) \<Longrightarrow> reachable s \<Longrightarrow> I s"
  by (rotate_tac, induction rule: reachable.induct) (simp_all add: inv_exec)

end

text \<open>
  Every state the machine can reach has consistent tables: unique keys, no dangling reference,
  numbered attempts, and a grant only where a permission question was approved.
\<close>

lemma reachable_tables: "reachable s \<Longrightarrow> tables_ok s"
  by (rule tables.inv_reachable)
    (simp add: tables_ok_def empty_store_def run_ids_def interaction_ids_def)

lemma reachable_log: "reachable s \<Longrightarrow> log_ok s"
  by (rule log.inv_reachable)
    (simp add: log_ok_def empty_store_def run_ids_def interaction_ids_def)

lemma reachable_distinct: "reachable s \<Longrightarrow> distinct (map r_id (db_runs s))"
  by (drule reachable_tables) (simp add: tables_ok_def run_ids_def)

text \<open>Only a creation brings a run into the table: a run that is not there stays away.\<close>

interpretation gone: table_rows "\<lambda>s. distinct (run_ids s) \<and> distinct (interaction_ids s) \<and> rid \<notin> set (run_ids s)" for rid
proof
  fix s P and f :: "interaction_row \<Rightarrow> interaction_row"
  assume s: "distinct (run_ids s) \<and> distinct (interaction_ids s) \<and> rid \<notin> set (run_ids s)"
    and c: "\<And>i. i \<in> set (db_interactions s) \<Longrightarrow> P i \<Longrightarrow> closes f i"
  have "interaction_ids (upd_interactions P f s) = interaction_ids s"
    using c by (intro interaction_ids_update) (simp add: closes_def)
  with s show "distinct (run_ids (upd_interactions P f s)) \<and> distinct (interaction_ids (upd_interactions P f s)) \<and>
      rid \<notin> set (run_ids (upd_interactions P f s))" by simp
next
  fix s iid response now ty and i :: interaction_row
  assume s: "distinct (run_ids s) \<and> distinct (interaction_ids s) \<and> rid \<notin> set (run_ids s)"
  let ?t = "upd_interactions (\<lambda>x. i_id x = i_id i) (answer_row response now) (s\<lparr>db_outbox := db_outbox s @ [new_grant now i ty]\<rparr>)"
  have "interaction_ids ?t = interaction_ids (s\<lparr>db_outbox := db_outbox s @ [new_grant now i ty]\<rparr>)"
    by (rule interaction_ids_update) (simp add: answer_row_def)
  with s show "distinct (run_ids ?t) \<and> distinct (interaction_ids ?t) \<and> rid \<notin> set (run_ids ?t)"
    by (simp add: interaction_ids_def run_ids_def)
qed (auto simp: interaction_ids_def delete_runs_def run_ids_def distinct_map_filter insert_interaction_def upd_steps_def upd_outbox_def)

lemma gone_stays:
  assumes "reachable s" "find_run s rid = None" "\<And>q. c \<noteq> C_create rid q"
  shows "find_run (exec c s) rid = None"
proof (cases "\<exists>x q. c = C_create x q")
  case True
  then obtain x q where c: "c = C_create x q" "x \<noteq> rid" using assms(3) by blast
  have "db_runs (exec c s) = db_runs s \<or> db_runs (exec c s) = db_runs s @ [new_run (db_clock s) x q]"
    unfolding c(1) exec.simps create_run_def
    by (rule transact_fst_cases)
      (auto simp: create_run_tx_def insert_run_def Let_def map_sum_def split: if_splits option.splits sum.splits)
  with assms(2) c(2) show ?thesis by (auto simp: find_run_def lookup_by_append new_run_def)
next
  case False
  have "distinct (run_ids s) \<and> distinct (interaction_ids s) \<and> rid \<notin> set (run_ids s)"
    using reachable_tables[OF assms(1)] assms(2) by (simp add: tables_ok_def find_run_None_ids)
  from gone.inv_exec_rows[OF this, of c] False show ?thesis by (simp add: find_run_None_ids)
qed

section \<open>Commands that conform to the strict machine\<close>

text \<open>
  What the strict machine asks of a caller: runs are created queued, a queued run is started by a
  claim and not by \<^verbatim>\<open>transition\<close>, \<^verbatim>\<open>transition\<close> does not replace the checkpoint, and a reducer
  commits a checkpoint of the same session.
\<close>

fun disciplined :: "command \<Rightarrow> store \<Rightarrow> bool" where
  "disciplined (C_create rid q) s = (rq_status q = S_queued)"
| "disciplined (C_transition rid st fence ver ups) s =
     (keeps_state ups \<and> \<not> (st = S_running \<and> map_option r_status (find_run s rid) = Some S_queued))"
| "disciplined (C_commit_step rid key att owner epoch st oc) s =
     (case find_run s rid of None \<Rightarrow> True | Some r \<Rightarrow> commit_keeps_session (outcome_state oc st) r)"
| "disciplined _ s = True"

fun is_purge :: "command \<Rightarrow> bool" where
  "is_purge (C_purge sid) = True"
| "is_purge _ = False"

fun is_claim :: "command \<Rightarrow> bool" where
  "is_claim (C_claim_next w gl ol n ex) = True"
| "is_claim (C_claim_specific rid w gl ol n) = True"
| "is_claim _ = False"


context run_evolution
begin

lemma ev_exec:
  assumes "distinct (map r_id (db_runs s))" "strict \<Longrightarrow> disciplined c s"
    and "\<not> is_purge c" "\<not> is_claim c"
  shows "evolves s (exec c s)"
proof (cases c)
  case (C_transition rid st fence ver ups)
  with assms(2) show ?thesis by (auto intro!: ev_transition)
next
  case (C_commit_step rid key att owner epoch st oc)
  with assms(2) show ?thesis by (auto intro!: ev_commit_step)
qed (use assms in \<open>simp_all add: ev_create_run ev_append_event ev_update_progress ev_cleanup_events
      ev_heartbeat ev_begin_step ev_finish_step ev_create_interaction ev_wait ev_resolve
      ev_complete_grant ev_defer_grant ev_finalize ev_recover_orphaned ev_release_worker
      ev_pending_cleanup ev_request_cancel ev_reconcile ev_open_store evolves_same_runs\<close>)

end

context claim_evolution
begin

lemma ev_exec_claim:
  assumes "distinct (map r_id (db_runs s))" "strict \<Longrightarrow> disciplined c s" "\<not> is_purge c"
  shows "evolves s (exec c s)"
proof (cases "is_claim c")
  case True
  then show ?thesis
    by (cases c) (simp_all add: ev_claim_next ev_claim_specific)
next
  case False
  with assms show ?thesis by (intro ev_exec)
qed

end

text \<open>A purge keeps the other rows as they are.\<close>

lemma purge_runs:
  "db_runs (fst (purge_session sid s)) = db_runs s \<or>
   (\<exists>ids. db_runs (fst (purge_session sid s)) = filter (\<lambda>r. r_id r \<notin> set ids) (db_runs s))"
  by (auto simp: purge_session_def transact_def purge_session_tx_def Let_def delete_runs_def split: if_splits)

lemma lookup_by_filter_key:
  "lookup_by key k (filter (\<lambda>x. key x \<notin> A) xs) = (if k \<in> A then None else lookup_by key k xs)"
  by (induction xs) auto

lemma purge_find:
  "find_run (fst (purge_session sid s)) rid = Some r \<Longrightarrow> find_run s rid = Some r"
  using purge_runs[of sid s] by (auto simp: find_run_def lookup_by_filter_key split: if_splits)

section \<open>Monotone runs\<close>

text \<open>
  The order \<open>run_le\<close> on rows: identity and provenance are fixed, versions and lease epochs never
  decrease, a change of status takes a new version, a success or failure is final, and a lease is
  only handed out together with a new epoch.
\<close>

definition run_le :: "run_row \<Rightarrow> run_row \<Rightarrow> bool" where
  "run_le r r' \<longleftrightarrow> same_provenance r r' \<and>
     r_version r \<le> r_version r' \<and> r_lease_epoch r \<le> r_lease_epoch r' \<and>
     (r_status r' \<noteq> r_status r \<longrightarrow> r_version r < r_version r') \<and>
     (r_status r \<in> {S_succeeded, S_failed} \<longrightarrow> r_status r' = r_status r) \<and>
     (\<forall>w. r_lease_epoch r' = r_lease_epoch r \<and> r_lease_owner r' = Some w \<longrightarrow> r_lease_owner r = Some w)"

lemma quiet_run_le: "quiet_row strict r r' \<Longrightarrow> run_le r r'"
  unfolding quiet_row_def
  by (elim conjE quietE) (auto simp: run_le_def lifecycle_of_def)

interpretation ev: claim_evolution run_le False
  by unfold_locales
    (auto simp: quiet_run_le, auto simp: run_le_def same_provenance_def claim_row_def)

section \<open>Leases and completion times\<close>

text \<open>
  A lease is held only by a run that works, or by the in-process adapter while it waits for the
  user; a completion time is set exactly on final runs.
\<close>

definition lease_ok :: "run_row \<Rightarrow> bool" where
  "lease_ok r \<longleftrightarrow>
     (r_lease_owner r \<noteq> None \<longrightarrow> r_status r \<in> {S_running, S_cancel_requested} \<or>
        r_adapter_type r = ''internal'' \<and> r_status r \<in> {S_waiting_user, S_needs_attention}) \<and>
     (r_finished_at r \<noteq> None \<longleftrightarrow> terminal (r_status r))"

definition lease_rel :: "run_row \<Rightarrow> run_row \<Rightarrow> bool" where
  "lease_rel r r' \<longleftrightarrow> (lease_ok r \<longrightarrow> lease_ok r')"

definition lease_ok_lc :: "lifecycle \<Rightarrow> bool" where
  "lease_ok_lc c \<longleftrightarrow>
     (lc_owner c \<noteq> None \<longrightarrow> lc_status c \<in> {S_running, S_cancel_requested} \<or>
        lc_internal c \<and> lc_status c \<in> {S_waiting_user, S_needs_attention}) \<and>
     (lc_done c \<longleftrightarrow> terminal (lc_status c))"

lemma lease_ok_lc: "lease_ok r = lease_ok_lc (lifecycle_of r)"
  by (simp add: lease_ok_def lease_ok_lc_def lifecycle_of_def)

lemma quiet_lease_ok: "quiet strict c c' \<Longrightarrow> lease_ok_lc c \<Longrightarrow> lease_ok_lc c'"
  by (induction rule: quiet.induct) (auto simp: lease_ok_lc_def terminal_iff)

interpretation lease: claim_evolution lease_rel True
  by unfold_locales
    (auto simp: lease_rel_def lease_ok_lc quiet_row_def quiet_lease_ok,
     auto simp: lease_ok_lc_def lifecycle_of_def claim_row_def)

section \<open>Session lanes\<close>

text \<open>A busy run occupies the lane of its session.\<close>

definition busy :: "run_row \<Rightarrow> bool" where
  "busy r \<longleftrightarrow> r_status r \<in> {S_running, S_waiting_user} \<or>
     r_status r = S_cancel_requested \<and> r_lease_owner r \<noteq> None"

definition lane_rel :: "run_row \<Rightarrow> run_row \<Rightarrow> bool" where
  "lane_rel r r' \<longleftrightarrow> (lease_ok r \<longrightarrow>
     lease_ok r' \<and> (busy r' \<longrightarrow> busy r \<and> session_id r' = session_id r))"

lemma quiet_busy:
  "quiet True c c' \<Longrightarrow> lease_ok_lc c \<Longrightarrow>
   lc_status c' \<in> {S_running, S_waiting_user} \<or> lc_status c' = S_cancel_requested \<and> lc_owner c' \<noteq> None \<Longrightarrow>
   lc_status c \<in> {S_running, S_waiting_user} \<or> lc_status c = S_cancel_requested \<and> lc_owner c \<noteq> None"
  by (induction rule: quiet.induct) (auto simp: lease_ok_lc_def)

lemma quiet_lane_rel: "quiet_row True r r' \<Longrightarrow> lane_rel r r'"
  using quiet_lease_ok[of True "lifecycle_of r" "lifecycle_of r'"]
    quiet_busy[of "lifecycle_of r" "lifecycle_of r'"]
  by (auto simp: lane_rel_def quiet_row_def lease_ok_lc busy_def lifecycle_of_def)

interpretation lane: run_evolution lane_rel True
  by unfold_locales (auto simp: quiet_lane_rel, auto simp: lane_rel_def)

end
