(* ===== verification/Run_Safety.thy ===== *)
theory Run_Safety
  imports Run_Machine
begin

text \<open>
  Safety of the scheduler: monotone runs, fencing, lease discipline, session lanes, limits and
  the order of claims.
\<close>

section \<open>Sequences of commands\<close>

definition exec_all :: "command list \<Rightarrow> store \<Rightarrow> store" where
  "exec_all cs s = fold exec cs s"

lemma exec_all_simps [simp]:
  "exec_all [] s = s" "exec_all (c # cs) s = exec_all cs (exec c s)"
  by (simp_all add: exec_all_def)

lemma reachable_exec_all: "reachable s \<Longrightarrow> reachable (exec_all cs s)"
  by (induction cs arbitrary: s) (simp_all add: reachable.exec)

lemma ev_exec_all:
  "reachable s \<Longrightarrow> list_all (\<lambda>c. \<not> is_purge c) cs \<Longrightarrow> ev.evolves s (exec_all cs s)"
proof (induction cs arbitrary: s)
  case (Cons c cs)
  then have "ev.evolves s (exec c s)"
    by (intro ev.ev_exec_claim) (simp_all add: reachable_distinct)
  moreover have "ev.evolves (exec c s) (exec_all cs (exec c s))"
    using Cons by (simp add: reachable.exec)
  ultimately show ?case by (simp add: ev.evolves_trans)
qed (simp add: ev.evolves_refl)

lemma run_stays:
  assumes "reachable s" "list_all (\<lambda>c. \<not> is_purge c) cs" "find_run s rid = Some r"
  obtains r' where "find_run (exec_all cs s) rid = Some r'" "run_le r r'"
  using ev.evolvesD[OF ev_exec_all[OF assms(1,2)] assms(3)] that by blast

text \<open>
  Property C5 (monotone): along any sequence of store commands other than session deletion, from any reachable state, a
  run stays in the table; its identity and provenance do not change, its version and lease epoch
  never decrease, every change of status has a higher version, success and failure are final, and
  a lease it holds at the end under an unchanged epoch is the lease it held at the start.
\<close>

theorem runs_evolve_monotonically:
  assumes "reachable s" "list_all (\<lambda>c. \<not> is_purge c) cs" "find_run s rid = Some r"
  shows "\<exists>r'. find_run (exec_all cs s) rid = Some r' \<and> run_le r r'"
  by (rule run_stays[OF assms]) blast

section \<open>Fencing\<close>

lemma lease_never_returns:
  assumes "run_le r r'" "epoch \<le> r_lease_epoch r" "\<not> lease_matches r w epoch"
  shows "\<not> lease_matches r' w epoch"
  using assms by (auto simp: run_le_def lease_matches_def)

text \<open>Sessions may be deleted meanwhile. A run that is gone does not come back, since no id is given out twice.\<close>

fun creates :: "string \<Rightarrow> command \<Rightarrow> bool" where
  "creates rid (C_create x q) = (x = rid)"
| "creates rid _ = False"

lemma exec_run_le:
  assumes "reachable s" "find_run s rid = Some r" "find_run (exec c s) rid = Some r'"
  shows "run_le r r'"
proof (cases "is_purge c")
  case True
  then have "find_run s rid = Some r'" using assms(3) by (cases c) (auto dest: purge_find)
  with assms(2) show ?thesis using ev.rel_refl by simp
next
  case False
  then have "ev.evolves s (exec c s)" by (intro ev.ev_exec_claim) (simp_all add: reachable_distinct[OF assms(1)])
  from ev.evolvesD[OF this assms(2)] assms(3) show ?thesis by simp
qed

lemma gone_all:
  "reachable s \<Longrightarrow> find_run s rid = None \<Longrightarrow> list_all (\<lambda>c. \<not> creates rid c) cs \<Longrightarrow> find_run (exec_all cs s) rid = None"
proof (induction cs arbitrary: s)
  case (Cons c cs)
  then have "find_run (exec c s) rid = None" by (intro gone_stays) auto
  with Cons show ?case by (simp add: reachable.exec)
qed simp

lemma run_stays_or_goes:
  assumes "reachable s" "find_run s rid = Some r" "list_all (\<lambda>c. \<not> creates rid c) cs" "find_run (exec_all cs s) rid = Some r'"
  shows "run_le r r'"
  using assms
proof (induction cs arbitrary: s r)
  case (Cons c cs)
  have reach: "reachable (exec c s)" using Cons.prems(1) by (rule reachable.exec)
  show ?case
  proof (cases "find_run (exec c s) rid")
    case None
    with gone_all[OF reach None] Cons.prems show ?thesis by simp
  next
    case (Some r1)
    have "run_le r r1" by (rule exec_run_le[OF Cons.prems(1,2) Some])
    moreover have "run_le r1 r'" using Cons.IH[OF reach Some] Cons.prems(3,4) by simp
    ultimately show ?thesis by (rule ev.rel_trans)
  qed
qed (simp add: ev.rel_refl)

lemma fenced_out:
  assumes "\<And>r. find_run t rid = Some r \<Longrightarrow> \<not> lease_matches r w epoch"
  shows "let refusal = (\<lambda>e. if find_run t rid = None then KeyError rid else e) in
      commit_step rid key att w epoch st oc t = (t, Inl (refusal (stale_active rid))) \<and>
      begin_step_attempt rid key (Some (w, epoch)) t = (t, Inl (refusal (stale_owner rid))) \<and>
      update_progress rid p summary (Some (w, epoch)) t = (t, Inl (refusal (stale_active rid))) \<and>
      append_event rid ty payload (Some (w, epoch)) t = (t, Inl (refusal (stale_active rid))) \<and>
      wait_for_interaction rid ity prompt payload iid w epoch summary et t = (t, Inl (refusal (stale_active rid)))"
proof (cases "find_run t rid")
  case None
  then have k: "run_or_key_error t rid = Inl (KeyError rid)" by (simp add: run_or_key_error_def)
  show ?thesis
    unfolding Let_def commit_step_def begin_step_attempt_def update_progress_def append_event_def wait_for_interaction_def
    using None k
    by (intro conjI; intro transact_Inl)
      (simp_all add: commit_step_tx_def begin_step_attempt_tx_def update_progress_tx_def append_event_tx_def wait_for_interaction_tx_def)
next
  case (Some r)
  have k: "run_or_key_error t rid = Inr r" by (simp add: find_run_key Some)
  have id: "r_id r = rid" by (rule find_run_id[OF Some])
  show ?thesis
    unfolding Let_def commit_step_def begin_step_attempt_def update_progress_def append_event_def wait_for_interaction_def
    using assms[OF Some] k id Some
    by (intro conjI; intro transact_Inl)
      (simp_all add: commit_step_tx_def commit_guard_def begin_step_attempt_tx_def fence_broken_def
        update_progress_tx_def append_event_tx_def wait_for_interaction_tx_def)
qed

text \<open>
  Property C1 (fencing): once the lease (worker, epoch) of a run is gone, it is gone for good. Whatever commands follow,
  deletions of sessions included, a step commit, a fenced step start, a fenced progress or event write and a wait for
  the user under that lease all raise and leave the store as it was: they report the lost lease, or that there is no such
  run when its session was deleted. That no later run is created under the same id, a fresh UUID in the code, is the only
  hypothesis on the commands.
\<close>

theorem stale_lease_is_fenced_forever:
  assumes "reachable s" "find_run s rid = Some r"
    and "epoch \<le> r_lease_epoch r" "\<not> lease_matches r w epoch"
    and "list_all (\<lambda>c. \<not> creates rid c) cs"
  shows "let t = exec_all cs s; refusal = (\<lambda>e. if find_run t rid = None then KeyError rid else e) in
      commit_step rid key att w epoch st oc t = (t, Inl (refusal (stale_active rid))) \<and>
      begin_step_attempt rid key (Some (w, epoch)) t = (t, Inl (refusal (stale_owner rid))) \<and>
      update_progress rid p summary (Some (w, epoch)) t = (t, Inl (refusal (stale_active rid))) \<and>
      append_event rid ty payload (Some (w, epoch)) t = (t, Inl (refusal (stale_active rid))) \<and>
      wait_for_interaction rid ity prompt payload iid w epoch summary et t = (t, Inl (refusal (stale_active rid))) \<and>
      (list_all (\<lambda>c. \<not> is_purge c) cs \<longrightarrow> find_run t rid \<noteq> None)"
proof -
  have "\<not> lease_matches r' w epoch" if "find_run (exec_all cs s) rid = Some r'" for r'
    by (rule lease_never_returns[OF run_stays_or_goes[OF assms(1,2,5) that] assms(3,4)])
  moreover have "list_all (\<lambda>c. \<not> is_purge c) cs \<Longrightarrow> find_run (exec_all cs s) rid \<noteq> None"
    using run_stays[OF assms(1) _ assms(2)] by blast
  ultimately show ?thesis
    using fenced_out[of "exec_all cs s" rid w epoch key att st oc p summary ty payload ity prompt iid et]
    unfolding Let_def by blast
qed

section \<open>Strict executions\<close>

inductive strict_reachable :: "store \<Rightarrow> bool" where
  init: "strict_reachable (empty_store workspace now fs)"
| exec: "strict_reachable s \<Longrightarrow> disciplined c s \<Longrightarrow> strict_reachable (exec c s)"

lemma strict_reachable_reachable: "strict_reachable s \<Longrightarrow> reachable s"
  by (induction rule: strict_reachable.induct) (auto intro: reachable.intros)

lemma in_runs_find: "reachable s \<Longrightarrow> r \<in> set (db_runs s) \<Longrightarrow> find_run s (r_id r) = Some r"
  by (drule reachable_distinct) (simp add: find_run_def lookup_by_distinct)

lemma run_row_unique:
  assumes "reachable s" "a \<in> set (db_runs s)" "b \<in> set (db_runs s)" "r_id a = r_id b"
  shows "a = b"
proof -
  have "inj_on r_id (set (db_runs s))" using reachable_distinct[OF assms(1)] by (simp add: distinct_map)
  with assms(2-) show ?thesis by (simp add: inj_on_def)
qed

lemma purge_subset: "set (db_runs (fst (purge_session sid s))) \<subseteq> set (db_runs s)"
  using purge_runs[of sid s] by auto

lemma new_run_idle: "rq_status q = S_queued \<Longrightarrow> lease_ok (new_run now rid q) \<and> \<not> busy (new_run now rid q)"
  by (simp add: new_run_def lease_ok_def busy_def)

lemma strict_lease_ok: "strict_reachable s \<Longrightarrow> r \<in> set (db_runs s) \<Longrightarrow> lease_ok r"
proof (induction arbitrary: r rule: strict_reachable.induct)
  case (exec s c)
  note reach = strict_reachable_reachable[OF exec.hyps(1)]
  show ?case
  proof (cases "is_purge c")
    case True
    then show ?thesis using exec.IH exec.prems purge_subset by (cases c) auto
  next
    case False
    have ev: "lease.evolves s (exec c s)"
      using exec.hyps(2) False reach by (intro lease.ev_exec_claim) (simp_all add: reachable_distinct)
    have f: "find_run (exec c s) (r_id r) = Some r"
      by (rule in_runs_find[OF reachable.exec[OF reach] exec.prems])
    show ?thesis
    proof (cases "find_run s (r_id r)")
      case (Some r0)
      then show ?thesis
        using lease.evolvesD[OF ev Some] f exec.IH[OF find_run_in[OF Some]] by (auto simp: lease_rel_def)
    next
      case None
      then show ?thesis
        using lease.evolves_born[OF ev None f] new_run_idle by (auto simp: lease_rel_def)
    qed
  qed
qed (simp add: empty_store_def)

text \<open>
  Property C6 (lease): in every disciplined execution a lease is held only by a run that is running or cancelling
  (or by the in-process adapter while it waits or needs attention), and a completion time is set
  exactly on succeeded, failed and cancelled runs.
\<close>

theorem leases_only_while_working:
  assumes "strict_reachable s" "r \<in> set (db_runs s)"
  shows "(r_lease_owner r \<noteq> None \<longrightarrow> r_status r \<in> {S_running, S_cancel_requested} \<or>
        r_adapter_type r = ''internal'' \<and> r_status r \<in> {S_waiting_user, S_needs_attention}) \<and>
     (r_finished_at r \<noteq> None \<longleftrightarrow> terminal (r_status r))"
  using strict_lease_ok[OF assms] by (simp add: lease_ok_def)

section \<open>Session lanes\<close>

definition lanes_ok :: "store \<Rightarrow> bool" where
  "lanes_ok s \<longleftrightarrow> (\<forall>a \<in> set (db_runs s). \<forall>b \<in> set (db_runs s).
     busy a \<and> busy b \<and> session_id a \<noteq> None \<and> session_id a = session_id b \<longrightarrow> r_id a = r_id b)"

text \<open>A command that starts no run keeps the lanes apart.\<close>

lemma lanes_ok_quiet:
  assumes reach: "reachable s" "reachable t" and ok: "lanes_ok s" "\<forall>r \<in> set (db_runs s). lease_ok r"
    and ev: "lane.evolves s t"
  shows "lanes_ok t"
proof -
  have origin: "\<exists>a0 \<in> set (db_runs s). r_id a0 = r_id a \<and> busy a0 \<and> session_id a = session_id a0"
    if a: "a \<in> set (db_runs t)" "busy a" for a
  proof -
    have f: "find_run t (r_id a) = Some a" by (rule in_runs_find[OF reach(2) a(1)])
    show ?thesis
    proof (cases "find_run s (r_id a)")
      case (Some a0)
      then have "lane_rel a0 a" using lane.evolvesD[OF ev Some] f by simp
      with Some a(2) ok(2) find_run_in[OF Some] find_run_id[OF Some] show ?thesis
        by (auto simp: lane_rel_def)
    next
      case None
      then show ?thesis
        using lane.evolves_born[OF ev None f] new_run_idle a(2) by (auto simp: lane_rel_def)
    qed
  qed
  show ?thesis
    unfolding lanes_ok_def
  proof (intro ballI impI)
    fix a b assume ab: "a \<in> set (db_runs t)" "b \<in> set (db_runs t)"
      and *: "busy a \<and> busy b \<and> session_id a \<noteq> None \<and> session_id a = session_id b"
    obtain a0 where a0: "a0 \<in> set (db_runs s)" "r_id a0 = r_id a" "busy a0" "session_id a = session_id a0"
      using origin[of a] ab * by blast
    obtain b0 where b0: "b0 \<in> set (db_runs s)" "r_id b0 = r_id b" "busy b0" "session_id b = session_id b0"
      using origin[of b] ab * by blast
    have "busy a0 \<and> busy b0 \<and> session_id a0 \<noteq> None \<and> session_id a0 = session_id b0 \<longrightarrow> r_id a0 = r_id b0"
      using ok(1) a0(1) b0(1) unfolding lanes_ok_def by blast
    then have "r_id a0 = r_id b0" using a0(3,4) b0(3,4) * by auto
    with a0(2) b0(2) show "r_id a = r_id b" by simp
  qed
qed

text \<open>The two claims check the lane first.\<close>

lemma claimed_row:
  assumes that: "reachable s" and c: "is_claim c"
  shows "exec c s = s \<or>
   (\<exists>w n r. find_run s (r_id r) = Some r \<and> r_status r = S_queued \<and>
      session_lane_available r (active_rows s) \<and> exec c s = apply_claim w n r s)"
proof (cases c)
  case (C_claim_next w gl ol n ex)
  show ?thesis
  proof (cases "gl \<le> running_count s \<or> claim_choice s ol ex = None")
    case True
    then show ?thesis by (auto simp: C_claim_next claim_next_def transact_def claim_next_tx_def)
  next
    case False
    then obtain r where r: "claim_choice s ol ex = Some r" by auto
    note d = claim_choiceD[OF r] claim_candidatesD[OF claim_choiceD(1)[OF r]]
    have "exec c s = apply_claim w n r s"
      using False r by (simp add: C_claim_next claim_next_def transact_def claim_next_tx_def)
    with d that in_runs_find[OF that] show ?thesis by blast
  qed
next
  case (C_claim_specific rid w gl ol n)
  show ?thesis
  proof (cases "find_run s rid")
    case None
    then show ?thesis by (simp add: C_claim_specific claim_specific_def transact_def claim_specific_tx_def)
  next
    case (Some r)
    with find_run_id[OF Some] show ?thesis
      by (auto simp: C_claim_specific claim_specific_def transact_def claim_specific_tx_def
          intro!: exI[of _ w] exI[of _ n] exI[of _ r])
  qed
qed (use c in simp_all)

lemma busy_active: "busy r \<Longrightarrow> active (r_status r) \<and> holds_lane (r_status r)"
  by (auto simp: busy_def holds_lane_def)

lemma lanes_ok_claim:
  assumes reach: "reachable s" and ok: "lanes_ok s"
    and r: "find_run s (r_id r) = Some r" "r_status r = S_queued"
      "session_lane_available r (active_rows s)"
  shows "lanes_ok (apply_claim w n r s)"
proof -
  let ?c = "claim_row w (db_clock s) (db_clock s + seconds n) r"
  have sid: "session_id ?c = session_id r" by (rule session_id_cong) (simp_all add: claim_row_def)
  have rows: "x = ?c \<or> x \<in> set (db_runs s) \<and> r_id x \<noteq> r_id r"
    if x: "x \<in> set (db_runs (apply_claim w n r s))" for x
  proof -
    obtain y where y: "y \<in> set (db_runs s)"
      "x = (if r_id y = r_id r then if r_status y = S_queued
        then claim_row w (db_clock s) (db_clock s + seconds n) y else y else y)"
      using x by (auto simp: apply_claim_runs upd_run_def in_set_update_where)
    show ?thesis
    proof (cases "r_id y = r_id r")
      case True
      then have "y = r" by (rule run_row_unique[OF reach y(1) find_run_in[OF r(1)]])
      then show ?thesis unfolding y(2) using r(2) by simp
    next
      case False
      then have "x = y" unfolding y(2) by (rule if_not_P)
      with False y(1) show ?thesis by simp
    qed
  qed
  have free: "session_id b \<noteq> session_id r \<or> session_id r = None"
    if "b \<in> set (db_runs s)" "r_id b \<noteq> r_id r" "busy b" for b
    using r(3) that busy_active[OF that(3)]
    by (auto simp: session_lane_available_def list_ex_iff blocks_lane_def active_rows_def)
  have id: "r_id ?c = r_id r" by (simp add: claim_row_def)
  show ?thesis
    unfolding lanes_ok_def
  proof (intro ballI impI)
    fix a b assume ab: "a \<in> set (db_runs (apply_claim w n r s))" "b \<in> set (db_runs (apply_claim w n r s))"
      and *: "busy a \<and> busy b \<and> session_id a \<noteq> None \<and> session_id a = session_id b"
    consider "a = ?c" "b = ?c" | "a = ?c" "b \<in> set (db_runs s)" "r_id b \<noteq> r_id r"
      | "b = ?c" "a \<in> set (db_runs s)" "r_id a \<noteq> r_id r"
      | "a \<in> set (db_runs s)" "b \<in> set (db_runs s)"
      using rows[OF ab(1)] rows[OF ab(2)] by blast
    then show "r_id a = r_id b"
    proof cases
      case 2
      with free[of b] * sid show ?thesis by auto
    next
      case 3
      with free[of a] * sid show ?thesis by auto
    next
      case 4
      with ok * show ?thesis unfolding lanes_ok_def by blast
    qed simp
  qed
qed

lemma strict_lanes_ok: "strict_reachable s \<Longrightarrow> lanes_ok s"
proof (induction rule: strict_reachable.induct)
  case (exec s c)
  note reach = strict_reachable_reachable[OF exec.hyps(1)]
  consider "is_purge c" | "is_claim c" | "\<not> is_purge c" "\<not> is_claim c" by blast
  then show ?case
  proof cases
    case 1
    then obtain sid where "c = C_purge sid" by (cases c) simp_all
    then show ?thesis
      using exec.IH purge_subset[of sid s] unfolding lanes_ok_def by (simp, blast)
  next
    case 2
    then show ?thesis
      using claimed_row[OF reach 2] exec.IH lanes_ok_claim[OF reach exec.IH] by auto
  next
    case 3
    show ?thesis
    proof (rule lanes_ok_quiet[OF reach reachable.exec[OF reach] exec.IH])
      show "\<forall>r \<in> set (db_runs s). lease_ok r" using strict_lease_ok[OF exec.hyps(1)] by blast
      show "lane.evolves s (exec c s)"
        using 3 exec.hyps(2) reach by (intro lane.ev_exec) (simp_all add: reachable_distinct)
    qed
  qed
qed (simp add: lanes_ok_def empty_store_def)

text \<open>
  Property C4 (lane): a session has at most one busy run at any time: in every state a disciplined execution
  reaches, two runs of the same session that are running, waiting for the user, or cancelling
  under a lease are the same run. Each claim checks the lane, and no other command makes an idle run busy
  or moves a busy run to another session.
\<close>

theorem session_lane_exclusive:
  assumes "strict_reachable s" "a \<in> set (db_runs s)" "b \<in> set (db_runs s)"
    and "busy a" "busy b" "session_id a = Some sid" "session_id b = Some sid"
  shows "a = b"
proof -
  have "busy a \<and> busy b \<and> session_id a \<noteq> None \<and> session_id a = session_id b \<longrightarrow> r_id a = r_id b"
    using strict_lanes_ok[OF assms(1)] assms(2,3) unfolding lanes_ok_def by blast
  then have "r_id a = r_id b" using assms(4-) by simp
  with assms(2,3) show ?thesis by (rule run_row_unique[OF strict_reachable_reachable[OF assms(1)]])
qed

end
