(* ===== verification/Run_Claims.thy ===== *)
theory Run_Claims
  imports Run_Safety
begin

text \<open>
  The claim loop: limits are respected, the choice is the first eligible run in the order of
  creation, and a claim succeeds whenever an eligible run is in the window.
\<close>

section \<open>The effect of a claim\<close>

lemma claim_next_cases:
  assumes "claim_next w gl ol n ex s = (s', Inr (Some rid))"
  obtains r where "claim_choice s ol ex = Some r" "r_id r = rid" "running_count s < gl"
    "s' = apply_claim w n r s"
  using assms that
  by (auto simp: claim_next_def transact_def claim_next_tx_def split: if_splits option.splits)

lemma claimed_rows:
  assumes "reachable s" "r \<in> set (db_runs s)" "r_status r = S_queued"
  shows "db_runs (apply_claim w n r s) =
    map (\<lambda>x. if x = r then claim_row w (db_clock s) (db_clock s + seconds n) r else x) (db_runs s)"
  unfolding apply_claim_runs upd_run_def update_where_def
  using assms(3) run_row_unique[OF assms(1) _ assms(2)] by auto

lemma filter_length_replace:
  assumes "distinct xs" "r \<in> set xs" "\<not> P r" "P c"
  shows "length (filter P (map (\<lambda>x. if x = r then c else x) xs)) = Suc (length (filter P xs))"
  using assms
proof (induction xs)
  case (Cons x xs)
  show ?case
  proof (cases "x = r")
    case True
    then have "map (\<lambda>x. if x = r then c else x) xs = xs"
      using Cons.prems(1) by (intro map_idI) auto
    with True Cons.prems show ?thesis by simp
  next
    case False
    with Cons show ?thesis by simp
  qed
qed simp

lemma filter_length_keep:
  assumes "P c = P r"
  shows "length (filter P (map (\<lambda>x. if x = r then c else x) xs)) = length (filter P xs)"
  using assms by (induction xs) auto

lemma claim_counts:
  assumes "reachable s" "r \<in> set (db_runs s)" "r_status r = S_queued"
  shows "running_count (apply_claim w n r s) = Suc (running_count s)"
    "owner_count (apply_claim w n r s) x =
       (if x = r_owner_id r then Suc (owner_count s x) else owner_count s x)"
proof -
  have d: "distinct (db_runs s)" using reachable_distinct[OF assms(1)] by (simp add: distinct_map)
  let ?c = "claim_row w (db_clock s) (db_clock s + seconds n) r"
  have c: "occupies ?c" "r_owner_id ?c = r_owner_id r" "\<not> occupies r"
    using assms(3) by (simp_all add: claim_row_def occupies_def)
  show "running_count (apply_claim w n r s) = Suc (running_count s)"
    unfolding running_count_def claimed_rows[OF assms]
    by (rule filter_length_replace[OF d assms(2)]) (use c in simp_all)
  show "owner_count (apply_claim w n r s) x =
       (if x = r_owner_id r then Suc (owner_count s x) else owner_count s x)"
  proof (cases "x = r_owner_id r")
    case True
    have "owner_count (apply_claim w n r s) x = Suc (owner_count s x)"
      unfolding owner_count_def claimed_rows[OF assms]
      by (rule filter_length_replace[OF d assms(2)]) (use c True in simp_all)
    with True show ?thesis by simp
  next
    case False
    have "owner_count (apply_claim w n r s) x = owner_count s x"
      unfolding owner_count_def claimed_rows[OF assms]
      by (rule filter_length_keep) (use c False in simp)
    with False show ?thesis by simp
  qed
qed

text \<open>
  Property C8 (limits): a claim never exceeds the limits. When \<^verbatim>\<open>claim_next\<close> returns a run, it was queued,
  the number of running and cancelling runs grew by exactly one and is at most the global limit, and the
  same holds for its owner and the owner limit; no other owner's count changed.
\<close>

theorem claim_next_respects_limits:
  assumes "reachable s" "claim_next w gl ol n ex s = (s', Inr (Some rid))"
  shows "\<exists>r. find_run s rid = Some r \<and> r_status r = S_queued \<and>
     running_count s' = Suc (running_count s) \<and> running_count s' \<le> gl \<and>
     owner_count s' (r_owner_id r) = Suc (owner_count s (r_owner_id r)) \<and>
     owner_count s' (r_owner_id r) \<le> ol \<and>
     (\<forall>x. x \<noteq> r_owner_id r \<longrightarrow> owner_count s' x = owner_count s x)"
proof -
  obtain r where r: "claim_choice s ol ex = Some r" "r_id r = rid" "running_count s < gl"
    "s' = apply_claim w n r s"
    by (rule claim_next_cases[OF assms(2)])
  note c = claim_choiceD[OF r(1)]
  note d = claim_candidatesD[OF c(1)]
  show ?thesis
    using in_runs_find[OF assms(1) d(1)] claim_counts[OF assms(1) d(1,2)] r(2,3) c(3) d(2)
    by (intro exI[of _ r]) (simp add: r(4))
qed

section \<open>The order of claims\<close>

lemma find_split:
  "List.find P xs = Some x \<Longrightarrow> \<exists>ys zs. xs = ys @ x # zs \<and> (\<forall>y \<in> set ys. \<not> P y)"
proof (induction xs)
  case (Cons y ys)
  show ?case
  proof (cases "P y")
    case True
    with Cons.prems show ?thesis by (intro exI[of _ "[]"] exI[of _ ys]) simp
  next
    case False
    with Cons obtain as bs where "ys = as @ x # bs" "\<forall>y \<in> set as. \<not> P y" by auto
    with False show ?thesis by (intro exI[of _ "y # as"] exI[of _ bs]) simp
  qed
qed simp

lemma sorted_take_prefix:
  assumes "sorted_wrt (\<lambda>x y. \<not> lt y x) xs" "take k xs = ys @ x # zs" "c \<in> set xs" "lt c x"
    and "\<not> lt x x"
  shows "c \<in> set ys"
proof -
  have xs: "xs = ys @ x # zs @ drop k xs"
    using assms(2) append_take_drop_id[of k xs] by simp
  then have "sorted_wrt (\<lambda>x y. \<not> lt y x) (ys @ x # zs @ drop k xs)" using assms(1) by simp
  then have "\<forall>y \<in> set (zs @ drop k xs). \<not> lt y x" by (simp add: sorted_wrt_append)
  moreover have "c \<in> set ys \<or> c = x \<or> c \<in> set (zs @ drop k xs)"
    using assms(3) by (subst (asm) xs) auto
  ultimately show ?thesis using assms(4,5) by auto
qed

lemma before_sorted: "distinct (map r_id rs) \<Longrightarrow> sorted_wrt (\<lambda>x y. \<not> before y x) (order_by before rs)"
proof (rule sorted_order_by)
  fix x y assume "before x y"
  then show "\<not> before y x" using before_trans by (metis before_irrefl)
next
  fix x y z assume "\<not> before x y" "\<not> before y z"
  then show "\<not> before x z"
    using str_less_total str_less_trans unfolding before_def by (metis not_less_iff_gr_or_eq order.strict_trans)
qed

definition claimable :: "store \<Rightarrow> run_row \<Rightarrow> bool" where
  "claimable s c \<longleftrightarrow> c \<in> set (db_runs s) \<and> r_status c = S_queued \<and>
     r_adapter_type c \<noteq> ''internal'' \<and> \<not> grant_pending s (r_id c)"

text \<open>
  Property C9 (fifo): the order of claims. The run \<^verbatim>\<open>claim_next\<close> picks is queued, has no permission grant to be
  applied and is not excluded; its session has no busy run and no earlier queued run; and every claimable
  run created before it was excluded, over its owner's limit or behind in its own session.
\<close>

theorem claim_next_is_first_eligible:
  assumes "reachable s" "claim_next w gl ol n ex s = (s', Inr (Some rid))"
  shows "\<exists>r. find_run s rid = Some r \<and> claimable s r \<and> rid \<notin> set ex \<and>
     session_lane_available r (active_rows s) \<and>
     (\<forall>c. claimable s c \<and> before c r \<longrightarrow>
        r_id c \<in> set ex \<or> ol \<le> owner_count s (r_owner_id c) \<or>
        \<not> session_lane_available c (active_rows s))"
proof -
  obtain r where r: "claim_choice s ol ex = Some r" "r_id r = rid"
    by (rule claim_next_cases[OF assms(2)])
  note c = claim_choiceD[OF r(1)]
  note d = claim_candidatesD[OF c(1)]
  let ?P = "\<lambda>r. r_id r \<notin> set ex \<and> owner_count s (r_owner_id r) < ol \<and> session_lane_available r (active_rows s)"
  let ?q = "filter (\<lambda>r. r_status r = S_queued \<and> r_adapter_type r \<noteq> ''internal'' \<and> \<not> grant_pending s (r_id r)) (db_runs s)"
  obtain ys zs where l: "claim_candidates s = ys @ r # zs" "\<forall>y \<in> set ys. \<not> ?P y"
    using find_split[of ?P "claim_candidates s" r] r(1) by (auto simp: claim_choice_def)
  have earlier: "\<not> ?P x" if "claimable s x" "before x r" for x
  proof -
    have "x \<in> set ys"
    proof (rule sorted_take_prefix[where lt = before and xs = "order_by before ?q"])
      show "sorted_wrt (\<lambda>x y. \<not> before y x) (order_by before ?q)"
        by (rule before_sorted) (simp add: reachable_distinct[OF assms(1)] distinct_map_filter)
      show "take 100 (order_by before ?q) = ys @ r # zs" using l(1) by (simp add: claim_candidates_def)
      show "x \<in> set (order_by before ?q)" using that(1) by (simp add: claimable_def)
    qed (use that(2) in simp_all)
    with l(2) show ?thesis by blast
  qed
  have "claimable s r" using d by (simp add: claimable_def)
  moreover have "find_run s rid = Some r" using in_runs_find[OF assms(1) d(1)] r(2) by simp
  ultimately show ?thesis
    using c r(2) earlier by (intro exI[of _ r]) (auto simp: not_less)
qed

text \<open>
  Property C10 (progress): a claim is never refused without a reason. If fewer than \<^verbatim>\<open>global_limit\<close> runs are active and
  one of the at most 100 claimable runs is not excluded, under its owner's limit and at the head
  of a free lane, then \<^verbatim>\<open>claim_next\<close> returns a run.
\<close>

theorem claim_next_makes_progress:
  assumes "running_count s < gl" "length (filter (claimable s) (db_runs s)) \<le> 100"
    and "claimable s c" "r_id c \<notin> set ex" "owner_count s (r_owner_id c) < ol"
    and "session_lane_available c (active_rows s)"
  shows "\<exists>s' rid. claim_next w gl ol n ex s = (s', Inr (Some rid))"
proof -
  let ?q = "filter (\<lambda>r. r_status r = S_queued \<and> r_adapter_type r \<noteq> ''internal'' \<and> \<not> grant_pending s (r_id r)) (db_runs s)"
  have "filter (claimable s) (db_runs s) = ?q"
    by (rule filter_cong) (simp_all add: claimable_def)
  then have "length (order_by before ?q) \<le> 100" using assms(2) by simp
  then have "claim_candidates s = order_by before ?q" by (simp add: claim_candidates_def)
  then have "c \<in> set (claim_candidates s)" using assms(3) by (simp add: claimable_def)
  then have "claim_choice s ol ex \<noteq> None"
    using assms(4-6) by (auto simp: claim_choice_def find_None_iff)
  with assms(1) show ?thesis
    by (auto simp: claim_next_def transact_def claim_next_tx_def)
qed

end
