(* ===== verification/Run_Questions.thy ===== *)
theory Run_Questions
  imports Run_Claims
begin

text \<open>
  Questions to the user: a run waits exactly when one question of it is open, and that question
  carries the version under which it can be answered.
\<close>

section \<open>The invariant\<close>

definition asks :: "run_row \<Rightarrow> int option" where
  "asks r = (if r_status r = S_waiting_user then Some (r_version r) else None)"

definition asked :: "store \<Rightarrow> string \<Rightarrow> int option" where
  "asked s rid = Option.bind (find_run s rid) asks"

definition question_ok :: "store \<Rightarrow> string \<Rightarrow> bool" where
  "question_ok s rid \<longleftrightarrow> map i_run_version (pending_of s rid) =
     (case asked s rid of None \<Rightarrow> [] | Some v \<Rightarrow> [Some v])"

definition questions_ok :: "store \<Rightarrow> bool" where
  "questions_ok s \<longleftrightarrow> (\<forall>rid. question_ok s rid)"

text \<open>
  The commands the service issues: every caller of \<^verbatim>\<open>create_run\<close> asks for a queued run, and only tests call
  \<^verbatim>\<open>transition\<close> and \<^verbatim>\<open>create_interaction\<close>. The store is opened at every start of the process; what the audit of
  version 1 then does to a run of that version which waits for the user is the one case left out: it parks the run and
  leaves its question open (\<open>opening_orphans_question\<close>).
\<close>

definition no_legacy_question :: "store \<Rightarrow> bool" where
  "no_legacy_question s \<longleftrightarrow> list_all (\<lambda>r. legacy_active r \<longrightarrow> r_status r \<noteq> S_waiting_user) (db_runs s)"

fun production :: "command \<Rightarrow> store \<Rightarrow> bool" where
  "production (C_create rid q) s = (rq_status q = S_queued)"
| "production (C_transition rid st fence ver ups) s = False"
| "production (C_create_interaction rid ty prompt payload iid) s = False"
| "production (C_open epoch) s = no_legacy_question s"
| "production _ s = True"

lemma pending_of_frame [simp]:
  "pending_of (upd_run rid f s) x = pending_of s x" "pending_of (upd_steps Q h s) x = pending_of s x"
  "pending_of (upd_outbox R k s) x = pending_of s x"
  "pending_of (append_event_with a b c rid ty p s) x = pending_of s x"
  "pending_of (close_running_steps rid st s) x = pending_of s x"
  by (simp_all add: pending_of_def)

lemma pending_of_cancel [simp]: "pending_of (cancel_pending rid s) x = (if x = rid then [] else pending_of s x)"
proof -
  have "filter (\<lambda>i. i_run_id i = x \<and> i_status i = I_pending)
      (update_where (\<lambda>i. i_run_id i = rid \<and> i_status i = I_pending)
         (\<lambda>i. i\<lparr>i_status := I_cancelled, i_resolved_at := t\<rparr>) is) =
    (if x = rid then [] else filter (\<lambda>i. i_run_id i = x \<and> i_status i = I_pending) is)"
    for t x rid and "is" :: "interaction_row list"
    by (induction "is") auto
  then show ?thesis
    unfolding pending_of_def cancel_pending_def upd_interactions_def by simp
qed

lemma pending_of_insert [simp]:
  "pending_of (insert_interaction i s) x =
     pending_of s x @ (if i_run_id i = x \<and> i_status i = I_pending then [i] else [])"
  by (simp add: pending_of_def insert_interaction_def)

lemma asked_frame [simp]:
  "asked (upd_interactions P g s) x = asked s x" "asked (upd_steps Q h s) x = asked s x"
  "asked (upd_outbox R k s) x = asked s x" "asked (append_event_with a b c rid ty p s) x = asked s x"
  "asked (cancel_pending rid s) x = asked s x" "asked (close_running_steps rid st s) x = asked s x"
  "asked (insert_interaction i s) x = asked s x"
  by (simp_all add: asked_def find_run_def)

lemma asked_upd_run [simp]:
  "(\<And>r. r_id (f r) = r_id r) \<Longrightarrow> asked (upd_run rid f s) x =
     (if x = rid then Option.bind (find_run s rid) (\<lambda>r. asks (f r)) else asked s x)"
  by (cases "find_run s rid") (simp_all add: asked_def find_run_upd_run)

lemma asked_runs: "db_runs t = db_runs s \<Longrightarrow> asked t x = asked s x"
  by (simp add: asked_def find_run_def)

text \<open>The two ways an operation keeps the invariant: it changes nothing about it, or it closes one run's questions.\<close>

lemma questions_keep:
  "questions_ok s \<Longrightarrow> (\<And>x. asked t x = asked s x) \<Longrightarrow> (\<And>x. pending_of t x = pending_of s x) \<Longrightarrow> questions_ok t"
  by (simp add: questions_ok_def question_ok_def)

lemma questions_close:
  assumes "questions_ok s" "\<And>x. x \<noteq> rid \<Longrightarrow> asked t x = asked s x"
    and "\<And>x. x \<noteq> rid \<Longrightarrow> pending_of t x = pending_of s x"
    and "asked t rid = None" "pending_of t rid = []"
  shows "questions_ok t"
  unfolding questions_ok_def
proof
  fix x show "question_ok t x"
  proof (cases "x = rid")
    case True
    with assms(4,5) show ?thesis by (simp add: question_ok_def)
  next
    case False
    with assms(1-3) show ?thesis by (simp add: questions_ok_def question_ok_def)
  qed
qed

lemma questions_idle:
  "questions_ok s \<Longrightarrow> find_run s rid = Some r \<Longrightarrow> r_status r \<noteq> S_waiting_user \<Longrightarrow> pending_of s rid = []"
  unfolding questions_ok_def question_ok_def asked_def asks_def by (drule spec[of _ rid]) simp

lemma questions_transact:
  assumes "questions_ok s" and "\<And>s' a. f s = Inr (s', a) \<Longrightarrow> questions_ok s'"
  shows "questions_ok (fst (transact f s))"
  by (rule transact_fst_cases) (rule assms(1), rule assms(2))

text \<open>A row update that neither starts nor ends a wait.\<close>

lemma questions_edit:
  assumes "questions_ok s" "db_runs t = db_runs (upd_run rid f s)" "\<And>r. r_id (f r) = r_id r"
    and "\<And>r. asks (f r) = asks r" "db_interactions t = db_interactions s"
  shows "questions_ok t"
proof (rule questions_keep[OF assms(1)])
  fix x
  have "asked t x = asked (upd_run rid f s) x" by (rule asked_runs[OF assms(2)])
  also have "\<dots> = asked s x"
    by (simp add: assms(3,4)) (simp add: asked_def)
  finally show "asked t x = asked s x" .
qed (simp add: pending_of_def assms(5))

lemma questions_same:
  "questions_ok s \<Longrightarrow> db_runs t = db_runs s \<Longrightarrow> db_interactions t = db_interactions s \<Longrightarrow> questions_ok t"
  by (rule questions_keep, assumption, rule asked_runs) (simp_all add: pending_of_def)

section \<open>Operations that leave questions alone\<close>

lemma questions_create:
  assumes "questions_ok s" "rq_status q = S_queued"
  shows "questions_ok (fst (create_run rid q s))"
  unfolding create_run_def
proof (rule questions_transact[OF assms(1)])
  fix s' a assume "create_run_tx rid q s = Inr (s', a)"
  then have "s' = s \<or> find_run s rid = None \<and> s' = insert_run rid q s"
    by (auto simp: create_run_tx_def run_insert_ok_def Let_def map_sum_def
        split: if_splits option.splits sum.splits)
  then show "questions_ok s'"
  proof
    assume new: "find_run s rid = None \<and> s' = insert_run rid q s"
    have "asked s' x = asked s x" for x
      using new assms(2)
      by (auto simp: asked_def find_run_def insert_run_def lookup_by_append new_run_def asks_def
          split: option.splits)
    then show ?thesis
      using new by (intro questions_keep[OF assms(1)]) (simp_all add: insert_run_def pending_of_def)
  qed (simp add: assms(1))
qed

lemma questions_claim:
  assumes "reachable s" "questions_ok s" "is_claim c"
  shows "questions_ok (exec c s)"
  using claimed_row[OF assms(1,3)]
proof (elim disjE exE conjE)
  fix w n r assume r: "find_run s (r_id r) = Some r" "r_status r = S_queued" "exec c s = apply_claim w n r s"
  let ?f = "\<lambda>r. if r_status r = S_queued
    then claim_row w (db_clock s) (db_clock s + seconds n) r else r"
  have "asked (exec c s) x = asked (upd_run (r_id r) ?f s) x" for x
    unfolding r(3) by (rule asked_runs[OF apply_claim_runs])
  moreover have "asked (upd_run (r_id r) ?f s) x = asked s x" for x
    using r(1,2) by (auto simp: claim_row_def asks_def asked_def[of s])
  ultimately have "asked (exec c s) x = asked s x" for x by simp
  then show ?thesis
    by (rule questions_keep[OF assms(2)]) (simp add: r(3) apply_claim_def Let_def)
qed (simp add: assms(2))

lemma questions_simple:
  assumes "questions_ok s"
  shows "questions_ok (fst (append_event rid ty p fence s))"
    "questions_ok (fst (update_progress rid pr summary fence s))"
    "questions_ok (fst (cleanup_events days s))" "questions_ok (fst (heartbeat w n ids s))"
    "questions_ok (fst (begin_step_attempt rid key fence s))"
    "questions_ok (fst (finish_step rid key output st att fence s))"
proof -
  show "questions_ok (fst (append_event rid ty p fence s))"
    unfolding append_event_def
    by (rule questions_transact[OF assms], rule questions_same[OF assms])
      (auto simp: append_event_tx_def Let_def split: if_splits option.splits sum.splits prod.splits)
  show "questions_ok (fst (update_progress rid pr summary fence s))"
    unfolding update_progress_def
  proof (rule questions_transact[OF assms])
    fix s' a assume "update_progress_tx rid pr summary fence s = Inr (s', a)"
    then have "s' = apply_progress rid (clamp01 pr) summary s"
      by (auto simp: update_progress_tx_def split: if_splits option.splits sum.splits prod.splits)
    then show "questions_ok s'"
      by (simp only:) (rule questions_edit[OF assms apply_progress_runs],
        simp_all add: asks_def apply_progress_def)
  qed
  show "questions_ok (fst (cleanup_events days s))"
    by (rule questions_same[OF assms]) (simp_all add: cleanup_events_def transact_def cleanup_events_tx_def Let_def)
  show "questions_ok (fst (begin_step_attempt rid key fence s))"
    unfolding begin_step_attempt_def
    by (rule questions_transact[OF assms], rule questions_same[OF assms])
      (auto simp: begin_step_attempt_tx_def Let_def split: if_splits sum.splits)
  show "questions_ok (fst (finish_step rid key output st att fence s))"
    unfolding finish_step_def
  proof (rule questions_transact[OF assms])
    fix s' a assume tx: "finish_step_tx rid key output st att fence s = Inr (s', a)"
    have i: "db_interactions s' = db_interactions s"
      using tx by (auto simp: finish_step_tx_def Let_def split: sum.splits if_splits)
    have "db_runs s' = db_runs s \<or> (\<exists>c. db_runs s' = db_runs (upd_run rid
        (\<lambda>r. r\<lparr>r_checkpoint := c, r_updated_at := db_clock s\<rparr>) s))"
      using tx by (auto simp: finish_step_tx_def Let_def upd_run_def split: sum.splits if_splits)
    then show "questions_ok s'"
    proof
      assume "\<exists>c. db_runs s' = db_runs (upd_run rid (\<lambda>r. r\<lparr>r_checkpoint := c, r_updated_at := db_clock s\<rparr>) s)"
      then obtain c where "db_runs s' =
          db_runs (upd_run rid (\<lambda>r. r\<lparr>r_checkpoint := c, r_updated_at := db_clock s\<rparr>) s)" ..
      then show ?thesis by (rule questions_edit[OF assms]) (simp_all add: asks_def i)
    qed (rule questions_same[OF assms _ i])
  qed
  let ?P = "\<lambda>r. r_lease_owner r = Some w \<and> occupies r \<and> (case ids of None \<Rightarrow> True | Some ids \<Rightarrow> r_id r \<in> set ids)"
  let ?f = "\<lambda>r. r\<lparr>r_lease_expires_at := Some (db_clock s + seconds n)\<rparr>"
  have "find_run (fst (heartbeat w n ids s)) x = map_option (\<lambda>r. if ?P r then ?f r else r) (find_run s x)" for x
    by (simp add: heartbeat_def transact_def heartbeat_tx_def find_run_def lookup_by_update_where)
  then have "asked (fst (heartbeat w n ids s)) x = asked s x" for x
    by (cases "find_run s x") (simp_all add: asked_def asks_def)
  then show "questions_ok (fst (heartbeat w n ids s))"
    by (rule questions_keep[OF assms])
      (simp add: heartbeat_def transact_def heartbeat_tx_def pending_of_def)
qed

section \<open>Operations that ask and answer\<close>

lemma pending_events_frame [simp]:
  "pending_of (append_pending_events rid key att st evs s) x = pending_of s x"
  "asked (append_pending_events rid key att st evs s) x = asked s x"
  unfolding append_pending_events_def by (induction evs arbitrary: s) simp_all

lemma pending_events_interactions [simp]:
  "db_interactions (append_pending_events rid key att st evs s) = db_interactions s"
  unfolding append_pending_events_def by (induction evs arbitrary: s) simp_all

text \<open>The interactions after a commit depend on the interactions and the clock only.\<close>

lemma commit_interactions_frame:
  "db_interactions s = db_interactions t \<Longrightarrow> db_clock s = db_clock t \<Longrightarrow>
   db_interactions (commit_interactions rid oc ver s) = db_interactions (commit_interactions rid oc ver t)"
  by (cases oc) (simp_all add: commit_interactions_def Let_def upd_interactions_def cancel_pending_def)

lemma pending_of_version:
  "pending_of (upd_interactions (\<lambda>i. i_id i = iid) (\<lambda>i. i\<lparr>i_run_version := v\<rparr>) s) x =
   map (\<lambda>i. if i_id i = iid then i\<lparr>i_run_version := v\<rparr> else i) (pending_of s x)"
proof -
  have "filter (\<lambda>i. i_run_id i = x \<and> i_status i = I_pending)
      (update_where (\<lambda>i. i_id i = iid) (\<lambda>i. i\<lparr>i_run_version := v\<rparr>) is) =
    map (\<lambda>i. if i_id i = iid then i\<lparr>i_run_version := v\<rparr> else i)
      (filter (\<lambda>i. i_run_id i = x \<and> i_status i = I_pending) is)" for "is" :: "interaction_row list"
    by (induction "is") auto
  then show ?thesis by (simp add: pending_of_def upd_interactions_def)
qed

text \<open>The run that asks: before, it has no open question, afterwards exactly one, for its version.\<close>

lemma questions_ask:
  assumes "questions_ok s" "\<And>x. x \<noteq> rid \<Longrightarrow> asked t x = asked s x"
    and "\<And>x. x \<noteq> rid \<Longrightarrow> map i_run_version (pending_of t x) = map i_run_version (pending_of s x)"
    and "asked t rid = Some v" "map i_run_version (pending_of t rid) = [Some v]"
  shows "questions_ok t"
  unfolding questions_ok_def
proof
  fix x show "question_ok t x"
  proof (cases "x = rid")
    case True
    with assms(4,5) show ?thesis by (simp add: question_ok_def)
  next
    case False
    with assms(1-3) show ?thesis by (simp add: questions_ok_def question_ok_def)
  qed
qed

lemma commit_row_simps:
  "r_id (commit_row now key att st oc ver r) = r_id r"
  "r_status (commit_row now key att st oc ver r) = outcome_target oc"
  "r_version (commit_row now key att st oc ver r) = ver"
  using commit_row_frame(1,3)[where r = r and now = now and key = key and att = att and st = st
      and oc = oc and ver = ver]
  by (simp_all add: same_provenance_def lifecycle_of_def)

lemma questions_commit:
  assumes ok: "questions_ok s"
  shows "questions_ok (fst (commit_step rid key att owner epoch st oc s))"
  unfolding commit_step_def
proof (rule questions_transact[OF ok])
  fix s' a assume "commit_step_tx rid key att owner epoch st oc s = Inr (s', a)"
  then obtain r t s0 where r: "find_run s rid = Some r"
    and g: "commit_guard s r key att owner epoch oc = Inr t"
    and s0: "ensure_wait_interaction rid key att (r_version r + 1) oc s = Inr s0"
    and s': "s' = apply_commit rid key att epoch (outcome_state oc st) oc r t s0"
    by (auto simp: commit_step_tx_def find_run_key split: sum.splits)
  let ?v = "r_version r + 1"
  have idle: "pending_of s rid = []"
    using commit_guardD[OF g] questions_idle[OF ok r] by auto
  have runs0: "db_runs s0 = db_runs s" by (rule ensure_wait_runs[OF s0])
  then have find0: "find_run s0 x = find_run s x" for x by (simp add: find_run_def)
  have asked0: "asked s0 x = asked s x" for x by (rule asked_runs[OF runs0])
  have asked': "asked s' x = (if x = rid then (if outcome_target oc = S_waiting_user then Some ?v else None)
      else asked s x)" for x
    unfolding s' using r by (simp add: asked_runs[OF apply_commit_runs] commit_row_simps find0 asked0 asks_def)
  have pend: "pending_of s' x = pending_of (commit_interactions rid oc ?v s0) x" for x
  proof -
    have "db_interactions s' = db_interactions (commit_interactions rid oc ?v s0)"
      unfolding s' by (simp add: apply_commit_def Let_def, rule commit_interactions_frame) simp_all
    then show ?thesis by (simp add: pending_of_def)
  qed
  from s0 show "questions_ok s'"
  proof (cases rule: ensure_wait_cases)
    case other
    have t: "outcome_target oc \<noteq> S_waiting_user"
    proof (cases oc)
      case (Wait b iid ty pr pl)
      with other(2) show ?thesis by blast
    qed (simp_all split: if_split)
    have "pending_of s' x = (if x = rid then [] else pending_of s x)" for x
      using other(1) t idle by (simp add: pend commit_interactions_def Let_def)
    with t show ?thesis by (intro questions_close[OF ok, where rid = rid]) (simp_all add: asked')
  next
    case (pending b iid ty pr pl i)
    then have "i \<in> set (pending_of s rid)"
      using find_interaction_Some[of s iid i] by (simp add: pending_of_def)
    with idle show ?thesis by simp
  next
    case (new b iid ty pr pl)
    have none: "i_id i \<noteq> iid" if "i \<in> set (pending_of s x)" for i x
      using that new(4) by (auto simp: find_interaction_None interaction_ids_def pending_of_def)
    have "pending_of s' x = (if x = rid
        then [(new_interaction (db_clock s) iid rid (the ty) (the pr) pl ?v)\<lparr>i_run_version := Some ?v\<rparr>]
        else pending_of s x)" for x
      using new(1,5) idle none
      by (auto simp: pend commit_interactions_def Let_def pending_of_version new_interaction_def
          intro!: map_idI)
    then show ?thesis
      using new(1) by (intro questions_ask[OF ok, where rid = rid and v = ?v]) (simp_all add: asked')
  qed
qed

lemma questions_wait:
  assumes ok: "questions_ok s"
  shows "questions_ok (fst (wait_for_interaction rid ty prompt payload iid owner epoch summary et s))"
  unfolding wait_for_interaction_def
proof (rule questions_transact[OF ok])
  fix s' a assume "wait_for_interaction_tx rid ty prompt payload iid owner epoch summary et s = Inr (s', a)"
  then obtain r where r: "find_run s rid = Some r" "r_status r = S_running"
    and s': "s' = apply_wait rid ty prompt payload iid summary et (r_version r + 1) s"
    by (auto simp: wait_for_interaction_tx_def find_run_key split: sum.splits if_splits)
  have idle: "pending_of s rid = []" by (rule questions_idle[OF ok r(1)]) (simp add: r(2))
  have a: "asked s' x = (if x = rid then Some (r_version r + 1) else asked s x)" for x
    unfolding s' using r by (simp add: asked_runs[OF apply_wait_runs] asks_def)
  have "pending_of s' x = (if x = rid
      then [new_interaction (db_clock s) iid rid ty prompt payload (r_version r + 1)] else pending_of s x)" for x
    using idle by (auto simp: s' apply_wait_def Let_def new_interaction_def split: option.split list.split)
  then show "questions_ok s'"
    by (intro questions_ask[OF ok, where rid = rid and v = "r_version r + 1"])
      (simp_all add: a new_interaction_def)
qed

lemma questions_grants:
  assumes "questions_ok s"
  shows "questions_ok (fst (complete_permission_grant iid s))"
    "questions_ok (fst (defer_permission_grant iid s))"
proof -
  have "questions_ok (upd_run rid f (upd_outbox R k s))"
    if "\<And>r. r_id (f r) = r_id r" "\<And>r. asks (f r) = asks r" for rid f R k
    by (rule questions_edit[where f = f and rid = rid, OF questions_same[OF assms, of "upd_outbox R k s"]])
      (simp_all add: that)
  moreover have "questions_ok (upd_outbox R k s)" for R k
    by (rule questions_same[OF assms]) simp_all
  ultimately show "questions_ok (fst (complete_permission_grant iid s))"
    "questions_ok (fst (defer_permission_grant iid s))"
    using assms
    by (simp_all add: complete_permission_grant_def complete_permission_grant_tx_def transact_def
        defer_permission_grant_def defer_permission_grant_tx_def Let_def asks_def split: option.split)
qed

lemma resolve_row_simps:
  "r_id (resolve_row now target summary err r) = r_id r"
  "r_status (resolve_row now target summary err r) = target"
  using resolve_row_frame(1,3)[where r = r and now = now and target = target and summary = summary and err = err]
  by (simp_all add: same_provenance_def lifecycle_of_def)

lemma pending_of_resolution:
  assumes "distinct (interaction_ids s)" "find_interaction s iid = Some i" "i_status i = I_pending"
  shows "pending_of (apply_resolution i response target grant summary err r s) x =
    (if x = i_run_id i then [] else pending_of s x)"
proof -
  let ?is = "db_interactions s" and ?n = "db_clock s"
  let ?js = "update_where (\<lambda>x. i_run_id x = i_run_id i \<and> i_id x \<noteq> i_id i \<and> i_status x = I_pending)
      (\<lambda>x. x\<lparr>i_status := I_cancelled, i_resolved_at := Some ?n\<rparr>)
      (update_where (\<lambda>x. i_id x = i_id i)
        (\<lambda>x. x\<lparr>i_status := I_resolved, i_response := Some response, i_resolved_at := Some ?n\<rparr>) ?is)"
  have js: "db_interactions (apply_resolution i response target grant summary err r s) = ?js"
    by (simp add: apply_resolution_def Let_def upd_interactions_def split: option.split)
  have "filter (\<lambda>i. i_run_id i = x \<and> i_status i = I_pending) ?js =
    (if x = i_run_id i then [] else filter (\<lambda>i. i_run_id i = x \<and> i_status i = I_pending) ?is)"
    if "\<And>y. y \<in> set js \<Longrightarrow> i_id y = i_id i \<Longrightarrow> y = i" "?is = js" for js
  proof -
    have "filter (\<lambda>i. i_run_id i = x \<and> i_status i = I_pending)
       (update_where (\<lambda>x. i_run_id x = i_run_id i \<and> i_id x \<noteq> i_id i \<and> i_status x = I_pending)
      (\<lambda>x. x\<lparr>i_status := I_cancelled, i_resolved_at := Some ?n\<rparr>)
      (update_where (\<lambda>x. i_id x = i_id i)
        (\<lambda>x. x\<lparr>i_status := I_resolved, i_response := Some response, i_resolved_at := Some ?n\<rparr>) js)) =
      (if x = i_run_id i then [] else filter (\<lambda>i. i_run_id i = x \<and> i_status i = I_pending) js)"
      using that(1) by (induction js) auto
    with that(2) show ?thesis by simp
  qed
  then show ?thesis
    using find_interaction_unique[OF assms(1,2)] by (auto simp: pending_of_def js)
qed

lemma questions_resolve:
  assumes ok: "questions_ok s" and d: "distinct (interaction_ids s)"
  shows "questions_ok (fst (resolve_interaction iid response expected target summary err s))"
  unfolding resolve_interaction_def
proof (rule questions_transact[OF ok])
  fix s' a assume "resolve_interaction_tx iid response expected target summary err s = Inr (s', a)"
  then show "questions_ok s'"
  proof (rule resolve_txD)
    fix i r tg grant
    assume i: "find_interaction s iid = Some i" "i_status i = I_pending"
      and r: "find_run s (i_run_id i) = Some r" "tg \<in> set (TRANSITIONS S_waiting_user)"
      and s': "s' = apply_resolution i response tg grant summary err r s"
    have tg: "tg \<noteq> S_waiting_user" using r(2) by auto
    have "asked s' x = (if x = i_run_id i then None else asked s x)" for x
      unfolding s' using r(1) tg
      by (simp add: asked_runs[OF apply_resolution_runs] resolve_row_simps asks_def)
    moreover have "pending_of s' x = (if x = i_run_id i then [] else pending_of s x)" for x
      unfolding s' by (rule pending_of_resolution[OF d i])
    ultimately show ?thesis by (intro questions_close[OF ok, where rid = "i_run_id i"]) simp_all
  qed
qed

section \<open>Operations that end a run or requeue it\<close>

lemma questions_finalize:
  assumes ok: "questions_ok s"
  shows "questions_ok (fst (finalize_cancel_requested rid w s))"
  unfolding finalize_cancel_requested_def
proof (rule questions_transact[OF ok])
  fix s' a assume tx: "finalize_cancel_requested_tx rid w s = Inr (s', a)"
  then have "s' = s \<or> s' = apply_finalize rid s"
    by (auto simp: finalize_cancel_requested_tx_def split: sum.splits if_splits)
  then show "questions_ok s'"
  proof
    assume s': "s' = apply_finalize rid s"
    show ?thesis
      by (rule questions_close[OF ok, where rid = rid])
        (simp_all add: s' apply_finalize_def Let_def asks_def cancel_target_def
          split: Option.bind_split)
  qed (simp add: ok)
qed

lemma questions_recover_row:
  assumes ok: "questions_ok s" and r: "find_run s (r_id row) = Some row" "occupies row"
  shows "questions_ok (recover_row ty row s)"
proof -
  have t: "recovery_target s row \<noteq> S_waiting_user" by (simp add: recovery_target_def cancel_target_def)
  have "pending_of s (r_id row) = []"
    by (rule questions_idle[OF ok r(1)]) (use r(2) in \<open>auto simp: occupies_def\<close>)
  with t r(1) show ?thesis
    by (intro questions_close[OF ok, where rid = "r_id row"])
      (simp_all add: recover_row_def Let_def asks_def)
qed

lemma questions_recover_rows:
  assumes ok: "questions_ok s" and d: "distinct (map r_id (db_runs s))" and P: "\<And>r. P r \<Longrightarrow> occupies r"
  shows "questions_ok (fold (recover_row ty) (filter P (db_runs s)) s)"
proof -
  have "ev.evolves s (fold (recover_row ty) (filter P (db_runs s)) s) \<and>
      questions_ok (fold (recover_row ty) (filter P (db_runs s)) s)"
  proof (rule ev.evolves_fold_rows[where proj = "\<lambda>s. s" and Q = questions_ok])
    show "distinct (map r_id (filter P (db_runs s)))" by (rule distinct_map_filter[OF d])
  next
    fix x assume "x \<in> set (filter P (db_runs s))"
    then show "find_run s (r_id x) = Some x" using d by (simp add: find_run_def lookup_by_distinct)
  next
    fix x t assume "x \<in> set (filter P (db_runs s))" "questions_ok t" "find_run t (r_id x) = Some x"
    then show "ev.evolves t (recover_row ty x t) \<and> questions_ok (recover_row ty x t) \<and>
        (\<forall>rid. rid \<noteq> r_id x \<longrightarrow> find_run (recover_row ty x t) rid = find_run t rid)"
      using P by (simp add: ev.ev_recover_row questions_recover_row ev.find_run_other[OF recover_row_runs])
  qed (rule ok)
  then show ?thesis ..
qed

lemma questions_cleanup_failed:
  assumes ok: "questions_ok s" and r: "find_run s rid = Some r" "r_status r \<noteq> S_waiting_user"
  shows "questions_ok (cleanup_failed_tx rid h e s)"
proof (cases "cleanup_failed_tx rid h e s = s")
  case False
  have "pending_of s rid = []" by (rule questions_idle[OF ok r])
  with False r(1) show ?thesis
    by (intro questions_close[OF ok, where rid = rid])
      (auto simp: cleanup_failed_tx_def Let_def asks_def split: if_splits)
qed (simp add: ok)

lemma questions_cleanup_done:
  assumes ok: "questions_ok s"
  shows "questions_ok (fst (cleanup_done_tx rid h app s))"
proof (cases "fst (cleanup_done_tx rid h app s) = s")
  case False
  then show ?thesis
    by (intro questions_close[OF ok, where rid = rid])
      (auto simp: cleanup_done_tx_def Let_def asks_def split: if_splits option.splits)
qed (simp add: ok)

lemma questions_cleanup_row:
  assumes "questions_ok (fst t)" "find_run (fst t) (r_id row) = Some row" "r_status row \<noteq> S_waiting_user"
  shows "questions_ok (fst (cleanup_row row t))"
proof -
  obtain s n where t: "t = (s, n)" by (cases t)
  have fs: "questions_ok (s\<lparr>db_fs := fs'\<rparr>)" for fs'
    by (rule questions_same[of s]) (use assms(1) t in simp_all)
  have "questions_ok x" if "cleanup_done_tx rid h app (s\<lparr>db_fs := fs'\<rparr>) = (x, b)" for rid h app fs' x b
    using questions_cleanup_done[OF fs, of rid h app fs'] that by simp
  with assms t show ?thesis
    by (auto simp: cleanup_row_def questions_cleanup_failed split: option.split sum.split prod.split)
qed

lemma questions_pending_cleanup:
  assumes ok: "questions_ok s" and d: "distinct (map r_id (db_runs s))"
  shows "questions_ok (fst (recover_pending_staging_cleanup rid s))"
proof -
  let ?P = "cleanup_selected rid"
  let ?Q = "\<lambda>t :: store \<times> nat. questions_ok (fst t) \<and> distinct (map r_id (db_runs (fst t)))"
  have "ev.evolves (fst (s, 0::nat)) (fst (fold cleanup_row (filter ?P (db_runs s)) (s, 0::nat))) \<and>
      ?Q (fold cleanup_row (filter ?P (db_runs s)) (s, 0::nat))"
  proof (rule ev.evolves_fold_rows[where proj = fst and Q = ?Q])
    show "distinct (map r_id (filter ?P (db_runs s)))" by (rule distinct_map_filter[OF d])
  next
    fix x assume "x \<in> set (filter ?P (db_runs s))"
    then show "find_run (fst (s, 0::nat)) (r_id x) = Some x"
      using d by (simp add: find_run_def lookup_by_distinct)
  next
    fix x and t :: "store \<times> nat"
    assume "x \<in> set (filter ?P (db_runs s))" and t: "?Q t" "find_run (fst t) (r_id x) = Some x"
    then have st: "r_status x \<notin> {S_succeeded, S_failed}" "r_status x \<noteq> S_waiting_user"
      by (auto simp: cleanup_selected_def)
    show "ev.evolves (fst t) (fst (cleanup_row x t)) \<and> ?Q (cleanup_row x t) \<and>
        (\<forall>rid. rid \<noteq> r_id x \<longrightarrow> find_run (fst (cleanup_row x t)) rid = find_run (fst t) rid)"
      using ev.ev_cleanup_row[of t x] questions_cleanup_row[of t x] t st
      by (simp add: ev.writes_only_def)
  qed (use ok d in simp)
  then show ?thesis by (simp add: recover_pending_staging_cleanup_def)
qed

lemma questions_request_cancel_tx:
  assumes ok: "questions_ok s"
  shows "questions_ok (fst (transact (request_cancel_tx rid) s))"
proof (rule questions_transact[OF ok])
  fix s' q assume tx: "request_cancel_tx rid s = Inr (s', q)"
  then have "s' = s \<or> (\<exists>r p cp. s' = apply_cancel r p cp s)"
    by (auto simp: request_cancel_tx_def Let_def split: sum.splits if_splits)
  then show "questions_ok s'"
  proof (elim disjE exE)
    fix r p cp assume s': "s' = apply_cancel r p cp s"
    have id: "r_id (cancel_row now tg p cp x) = r_id x" "r_status (cancel_row now tg p cp x) = tg" for now tg x
      using cancel_row_frame(1,2)[where r = x and now = now and target = tg and p = p and cp = cp]
      by (simp_all add: same_provenance_def lifecycle_of_def)
    have a: "asked s' x = (if x = r_id r then None else asked s x)" for x
      unfolding s' by (cases "find_run s (r_id r)")
        (simp_all add: asked_runs[OF apply_cancel_runs] id asks_def request_target_def)
    have "pending_of s' x = (if x = r_id r then [] else pending_of s x)" for x
      by (simp add: s' apply_cancel_def Let_def split: option.split)
    with a show ?thesis by (intro questions_close[OF ok, where rid = "r_id r"]) simp_all
  qed (simp add: ok)
qed

lemma questions_reconcile:
  assumes ok: "questions_ok s"
  shows "questions_ok (fst (reconcile_effect rid res note s))"
  unfolding reconcile_effect_def
proof (rule questions_transact[OF ok])
  fix s' a assume tx: "reconcile_effect_tx rid res note s = Inr (s', a)"
  then obtain r where r: "find_run s rid = Some r" "r_status r = S_needs_attention"
    by (auto simp: reconcile_effect_tx_def find_run_key split: sum.splits if_splits)
  have "pending_of s rid = []" by (rule questions_idle[OF ok r(1)]) (simp add: r(2))
  then show "questions_ok s'"
    using tx r by (intro questions_close[OF ok, where rid = rid])
      (auto simp: reconcile_effect_tx_def r(1)[folded find_run_key] Let_def asks_def split: if_splits)
qed

lemma questions_purge:
  assumes ok: "questions_ok s"
  shows "questions_ok (fst (purge_session sid s))"
  unfolding purge_session_def
proof (rule questions_transact[OF ok])
  fix s' a assume "purge_session_tx sid s = Inr (s', a)"
  then have s': "s' = delete_runs (session_run_ids s sid) s"
    by (auto simp: purge_session_tx_def Let_def split: if_splits)
  let ?ids = "session_run_ids s sid"
  have "asked s' x = (if x \<in> set ?ids then None else asked s x)" for x
    by (simp add: s' asked_def find_run_def delete_runs_def lookup_by_filter_key)
  moreover have "pending_of s' x = (if x \<in> set ?ids then [] else pending_of s x)" for x
    by (auto simp: s' pending_of_def delete_runs_def filter_empty_conv intro: filter_cong)
  ultimately show "questions_ok s'"
    using ok by (simp add: questions_ok_def question_ok_def)
qed

text \<open>The audit of version 1 upgrades a queued run or parks a run that asks nothing.\<close>

lemma questions_migrate_row:
  assumes ok: "questions_ok s" and r: "find_run s (r_id r) = Some r" "r_status r \<noteq> S_waiting_user"
  shows "questions_ok (migrate_row r s)"
proof -
  have none: "pending_of s (r_id r) = []" by (rule questions_idle[OF ok r])
  show ?thesis
  proof (cases "replay_state (db_workspace s) r")
    case (Some st)
    then have "r_status r = S_queued" by (simp add: replay_state_def split: if_splits)
    with Some none r show ?thesis
      by (intro questions_close[OF ok, where rid = "r_id r"]) (simp_all add: migrate_row_def upgrade_run_def asks_def)
  next
    case None
    with none r show ?thesis
      by (intro questions_close[OF ok, where rid = "r_id r"]) (simp_all add: migrate_row_def park_run_def asks_def)
  qed
qed

lemma questions_open_store:
  assumes ok: "questions_ok s" and d: "distinct (map r_id (db_runs s))" and q: "no_legacy_question s"
  shows "questions_ok (open_store epoch s)"
proof -
  let ?s = "s\<lparr>db_stream_epoch := (case db_stream_epoch s of None \<Rightarrow> Some epoch | Some e \<Rightarrow> Some e)\<rparr>"
  let ?m = "migrate_legacy ?s"
  have s: "questions_ok ?s" by (rule questions_same[OF ok]) simp_all
  have "ev.evolves ?s ?m \<and> questions_ok ?m"
    unfolding migrate_legacy_def
  proof (rule ev.evolves_fold_rows[where proj = "\<lambda>s. s" and Q = questions_ok])
    show "distinct (map r_id (filter legacy_active (db_runs ?s)))" using d by (simp add: distinct_map_filter)
  next
    fix x assume "x \<in> set (filter legacy_active (db_runs ?s))"
    then show "find_run ?s (r_id x) = Some x" using d by (simp add: find_run_def lookup_by_distinct)
  next
    fix x t assume x: "x \<in> set (filter legacy_active (db_runs ?s))" "questions_ok t" "find_run t (r_id x) = Some x"
    then have "legacy_active x" "r_status x \<noteq> S_waiting_user" using q by (auto simp: no_legacy_question_def list_all_iff)
    with ev.ev_migrate_row[of x t] questions_migrate_row[OF x(2,3)] x(3)
    show "ev.evolves t (migrate_row x t) \<and> questions_ok (migrate_row x t) \<and>
        (\<forall>rid. rid \<noteq> r_id x \<longrightarrow> find_run (migrate_row x t) rid = find_run t rid)"
      by (simp add: ev.writes_only_def)
  qed (rule s)
  moreover have "distinct (map r_id (db_runs ?m))"
    unfolding migrate_legacy_def
    by (rule conjunct2[OF ev.fold_selected[where proj = "\<lambda>s. s"]]) (use d in \<open>simp_all add: ev.ev_migrate_row\<close>)
  ultimately show ?thesis
    unfolding open_store_def by (simp add: questions_pending_cleanup)
qed

section \<open>The invariant holds\<close>

inductive production_reachable :: "store \<Rightarrow> bool" where
  init: "production_reachable (empty_store workspace now fs)"
| exec: "production_reachable s \<Longrightarrow> production c s \<Longrightarrow> production_reachable (exec c s)"

lemma production_reachable_reachable: "production_reachable s \<Longrightarrow> reachable s"
  by (induction rule: production_reachable.induct) (auto intro: reachable.intros)

lemma questions_exec:
  assumes reach: "reachable s" and ok: "questions_ok s" and c: "production c s"
  shows "questions_ok (exec c s)"
proof -
  note d = reachable_distinct[OF reach]
  have di: "distinct (interaction_ids s)" using reachable_tables[OF reach] by (simp add: tables_ok_def)
  have cancel: "questions_ok (fst (request_cancel rid s))" for rid
  proof -
    let ?a = "fst (recover_pending_staging_cleanup (Some rid) s)"
    let ?b = "transact (request_cancel_tx rid) ?a"
    have a: "questions_ok ?a" "distinct (map r_id (db_runs ?a))"
      using questions_pending_cleanup[OF ok d] ev.ev_pending_cleanup[OF d] by simp_all
    have b: "questions_ok (fst ?b)" "distinct (map r_id (db_runs (fst ?b)))"
      using questions_request_cancel_tx[OF a(1)] ev.request_cancel_distinct[OF a(2)] by simp_all
    then have "questions_ok (fst (recover_pending_staging_cleanup (Some rid) (fst ?b)))"
      by (rule questions_pending_cleanup)
    with b(1) show ?thesis
      by (cases ?b; cases "snd ?b") (simp_all add: request_cancel_def Let_def)
  qed
  have recover: "questions_ok (fst (recover_orphaned s))"
    using questions_pending_cleanup[OF ok d, of None] ev.ev_pending_cleanup[OF d, of None]
    by (simp add: recover_orphaned_def transact_def recover_orphans_tx_def Let_def)
      (rule questions_recover_rows, auto simp: orphaned_def)
  have release: "questions_ok (fst (release_worker w s))" for w
    by (simp add: release_worker_def transact_def release_worker_tx_def Let_def)
      (rule questions_recover_rows[OF ok d], simp)
  show ?thesis
  proof (cases "is_claim c")
    case True
    then show ?thesis by (rule questions_claim[OF reach ok])
  next
    case False
    with c show ?thesis
      by (cases c) (simp_all add: ok questions_create questions_simple questions_commit questions_wait
        questions_resolve[OF ok di] questions_grants questions_finalize questions_purge
        questions_pending_cleanup[OF ok d] questions_reconcile cancel recover release questions_open_store[OF ok d]
        questions_same[OF ok])
  qed
qed

lemma production_questions: "production_reachable s \<Longrightarrow> questions_ok s"
proof (induction rule: production_reachable.induct)
  case (init workspace now fs)
  then show ?case
    by (simp add: questions_ok_def question_ok_def asked_def find_run_def pending_of_def empty_store_def)
next
  case (exec s c)
  then show ?case by (intro questions_exec production_reachable_reachable)
qed

text \<open>What the audit does to a waiting run of version 1: it parks the run, and the question stays pending.\<close>

lemma opening_orphans_question:
  assumes "legacy_active r" "r_status r = S_waiting_user" "find_run s (r_id r) = Some r"
  shows "map_option r_status (find_run (migrate_row r s) (r_id r)) = Some S_needs_attention \<and>
    pending_of (migrate_row r s) (r_id r) = pending_of s (r_id r)"
  using assms by (simp add: migrate_row_def replay_state_def park_run_def find_run_upd_run)

text \<open>
  Property C7 (questions): a run waits for the user exactly when one question of it is open. In every state the
  service reaches, restarts included, a waiting run has exactly one pending interaction and its
  stored run version is the run's current one; a run in any other state (or a deleted run) has none. So no
  answer is ever refused as outdated by the version the question was asked under. The states are those reached with the
  commands the service issues (not \<^verbatim>\<open>transition\<close> and \<^verbatim>\<open>create_interaction\<close>, which only tests call, and runs are created
  queued), provided that no opening of the store finds an active internal run of workflow version 1 waiting for the user.
\<close>

theorem one_open_question_per_waiting_run:
  assumes "production_reachable s"
  shows "map i_run_version (pending_of s rid) =
    (case find_run s rid of
       Some r \<Rightarrow> if r_status r = S_waiting_user then [Some (r_version r)] else []
     | None \<Rightarrow> [])"
  using production_questions[OF assms]
  by (simp add: questions_ok_def question_ok_def asked_def asks_def split: option.split)

end
