(* ===== verification/Run_Outcomes.thy ===== *)
theory Run_Outcomes
  imports Run_Questions
begin

text \<open>
  What the operations achieve: the commit of a step, answers, attempts, recovery, creation,
  deletion and the paging of events.
\<close>

section \<open>Commits\<close>

lemma commit_interactions_pending:
  assumes "terminal (outcome_target oc) \<or> outcome_target oc = S_needs_attention"
  shows "pending_of (commit_interactions rid oc ver s) rid = []"
  using assms by (auto simp: commit_interactions_def Let_def)

lemma close_attempt:
  "x \<in> set (db_steps (upd_steps (\<lambda>x. s_run_id x = rid \<and> s_step_key x = key \<and> s_attempt x = att
      \<and> s_status x = T_running) (\<lambda>x. x\<lparr>s_status := st, s_output := out, s_finished_at := now\<rparr>) s)) \<Longrightarrow>
   st \<noteq> T_running \<Longrightarrow> s_run_id x = rid \<Longrightarrow> s_step_key x = key \<Longrightarrow> s_attempt x = att \<Longrightarrow>
   s_status x \<noteq> T_running"
  by (simp add: upd_steps_def in_set_update_where) (elim bexE, simp split: if_split_asm)

lemma outcome_step_status_final: "outcome_step_status oc \<noteq> T_running"
  by (cases oc) simp_all

lemma pending_events_steps [simp]:
  "db_steps (append_pending_events rid key att st evs s) = db_steps s"
  unfolding append_pending_events_def by (induction evs arbitrary: s) simp_all

lemma commit_interactions_steps [simp]: "db_steps (commit_interactions rid oc ver s) = db_steps s"
  by (cases oc) (simp_all add: commit_interactions_def Let_def)

lemma ensure_wait_frame:
  "ensure_wait_interaction rid key att ver oc s = Inr s' \<Longrightarrow>
     db_runs s' = db_runs s \<and> db_steps s' = db_steps s \<and> db_clock s' = db_clock s"
  by (cases oc) (auto split: option.splits if_splits)

lemma committed_run:
  assumes "commit_step rid key att w epoch st oc s = (s', Inr ())"
  obtains r t s0 where "find_run s rid = Some r" "commit_guard s r key att w epoch oc = Inr t"
    "ensure_wait_interaction rid key att (r_version r + 1) oc s = Inr s0"
    "s' = apply_commit rid key att epoch (outcome_state oc st) oc r t s0"
    "\<forall>x. find_run s' x = (if x = rid
       then Some (commit_row (db_clock s0) key att (outcome_state oc st) oc (r_version r + 1) r)
       else find_run s x)"
proof -
  obtain r t s0 where r: "find_run s rid = Some r"
    and g: "commit_guard s r key att w epoch oc = Inr t"
    and s0: "ensure_wait_interaction rid key att (r_version r + 1) oc s = Inr s0"
    and s': "s' = apply_commit rid key att epoch (outcome_state oc st) oc r t s0"
    using assms by (auto simp: commit_step_def transact_def commit_step_tx_def find_run_key
        split: sum.splits)
  let ?row = "commit_row (db_clock s0) key att (outcome_state oc st) oc (r_version r + 1)"
  have "find_run s' x = (if x = rid then Some (?row r) else find_run s x)" for x
  proof -
    have "find_run s' x = find_run (upd_run rid ?row s0) x"
      by (simp add: s' find_run_def apply_commit_runs)
    also have "\<dots> = (if x = rid then Some (?row r) else find_run s x)"
      using r ensure_wait_frame[OF s0]
      by (simp add: find_run_upd_run commit_row_simps) (simp add: find_run_def)
    finally show ?thesis .
  qed
  with r g s0 s' show ?thesis by (intro that) simp_all
qed

lemma commit_row_lease:
  "r_lease_owner (commit_row now key att st oc ver r) = None"
  using commit_row_frame(3)[where r = r and now = now and key = key and att = att
      and st = st and oc = oc and ver = ver]
  by (simp add: lifecycle_of_def)

text \<open>
  Property C2 (commit): a step commit is all or nothing, and exact. Either it raises and leaves the store as it was,
  or: the caller held the lease and the attempt was running; the run now has the outcome's status, the
  next version, the committed checkpoint and no lease; the attempt is closed; no other run
  changed; and if the outcome is final or uncertain, no question of the run is left open.
\<close>

theorem commit_step_all_or_nothing:
  "case commit_step rid key att w epoch st oc s of
     (s', Inl e) \<Rightarrow> s' = s
   | (s', Inr _) \<Rightarrow> \<exists>r r' t. find_run s rid = Some r \<and> lease_matches r w epoch \<and>
       (r_status r = S_running \<or> r_status r = S_cancel_requested \<and> is_Cancelled oc) \<and>
       find_step s rid key att = Some t \<and> s_status t = T_running \<and>
       find_run s' rid = Some r' \<and> r_status r' = outcome_target oc \<and> r_version r' = r_version r + 1 \<and>
       r_state r' = Some (Some (dump_state (outcome_state oc st))) \<and> r_lease_owner r' = None \<and>
       same_provenance r r' \<and>
       (\<forall>x \<in> set (db_steps s'). s_run_id x = rid \<and> s_step_key x = key \<and> s_attempt x = att \<longrightarrow>
          s_status x \<noteq> T_running) \<and>
       (\<forall>x. x \<noteq> rid \<longrightarrow> find_run s' x = find_run s x) \<and>
       (terminal (outcome_target oc) \<or> outcome_target oc = S_needs_attention \<longrightarrow> pending_of s' rid = [])"
proof (cases "commit_step_tx rid key att w epoch st oc s")
  case (Inl e)
  then show ?thesis by (simp add: commit_step_def transact_def)
next
  case (Inr p)
  then obtain s' where st: "commit_step rid key att w epoch st oc s = (s', Inr ())"
    by (cases p) (simp add: commit_step_def transact_def)
  obtain r t s0 where r: "find_run s rid = Some r"
    and g: "commit_guard s r key att w epoch oc = Inr t"
    and "ensure_wait_interaction rid key att (r_version r + 1) oc s = Inr s0"
    and s': "s' = apply_commit rid key att epoch (outcome_state oc st) oc r t s0"
    and f: "\<forall>x. find_run s' x = (if x = rid
       then Some (commit_row (db_clock s0) key att (outcome_state oc st) oc (r_version r + 1) r)
       else find_run s x)"
    by (rule committed_run[OF st])
  have steps: "s_status x \<noteq> T_running"
    if "x \<in> set (db_steps s')" "s_run_id x = rid" "s_step_key x = key" "s_attempt x = att" for x
    by (rule close_attempt[OF _ outcome_step_status_final[of oc] that(2-4)])
      (use that(1) in \<open>simp add: s' apply_commit_def Let_def\<close>)
  have pend: "pending_of s' rid = []"
    if "terminal (outcome_target oc) \<or> outcome_target oc = S_needs_attention"
    using commit_interactions_pending[OF that] by (simp add: s' apply_commit_def Let_def)
  show ?thesis
    using commit_guardD[OF g] find_run_id[OF r] r
    by (simp add: st f steps pend commit_row_lease commit_row_simps commit_row_frame(1,2))
qed

text \<open>
  Property C3 (once): a step is committed at most once. After a commit under a lease succeeded, no commit under that
  lease succeeds again, whatever its step, state and outcome, and whatever commands ran in between, deletions of sessions
  included: it raises and changes nothing, because the lease is gone or, after a deletion, the run. The ids of runs are
  fresh, so none of the commands creates a run with the id of this one.
\<close>

theorem commit_at_most_once:
  assumes "reachable s" "commit_step rid key att w epoch st oc s = (s', Inr ())"
    and "list_all (\<lambda>c. \<not> creates rid c) cs"
  shows "let t = exec_all cs s' in commit_step rid key2 att2 w epoch st2 oc2 t =
     (t, Inl (if find_run t rid = None then KeyError rid else stale_active rid))"
proof -
  obtain r r' where r: "find_run s rid = Some r" "lease_matches r w epoch"
    "find_run s' rid = Some r'" "r_lease_owner r' = None"
    by (rule committed_run[OF assms(2)], rule that)
      (auto dest: commit_guardD simp: commit_row_lease find_run_id)
  have s': "s' = exec (C_commit_step rid key att w epoch st oc) s" by (simp add: assms(2))
  have reach: "reachable s'" unfolding s' by (rule reachable.exec[OF assms(1)])
  have "run_le r r'" by (rule exec_run_le[OF assms(1) r(1), of "C_commit_step rid key att w epoch st oc"]) (simp add: assms(2) r(3))
  then have "epoch \<le> r_lease_epoch r'" using r(2) by (simp add: run_le_def lease_matches_def)
  moreover have "\<not> lease_matches r' w epoch" using r(4) by (simp add: lease_matches_def)
  ultimately have "\<not> lease_matches r2 w epoch" if "find_run (exec_all cs s') rid = Some r2" for r2
    using lease_never_returns[OF run_stays_or_goes[OF reach r(3) assms(3) that]] by blast
  then show ?thesis
    using fenced_out[of "exec_all cs s'" rid w epoch key2 att2 st2 oc2] unfolding Let_def by blast
qed

section \<open>Attempts\<close>

text \<open>
  Attempts of a step are numbered without reuse. A step start that succeeds returns one more than
  every attempt of that step so far (one for the first), and adds exactly that attempt, running, to
  the steps; with a fence it succeeds only for the running run's leaseholder.
\<close>

theorem begin_step_numbers_attempts:
  assumes "begin_step_attempt rid key fence s = (s', Inr att)"
  shows "(\<forall>t \<in> set (step_rows s rid key). s_attempt t < att) \<and>
     (step_rows s rid key = [] \<longrightarrow> att = 1) \<and>
     (\<exists>t. step_rows s' rid key = step_rows s rid key @ [t] \<and> s_attempt t = att \<and> s_status t = T_running) \<and>
     (\<exists>r. find_run s rid = Some r \<and> (\<forall>w e. fence = Some (w, e) \<longrightarrow> lease_matches r w e \<and> r_status r = S_running))"
proof -
  obtain r where r: "find_run s rid = Some r" "\<not> fence_broken r fence" "att = next_attempt s rid key"
    and s': "db_steps s' = db_steps s @ [new_step s rid key att]"
    using assms
    by (auto simp: begin_step_attempt_def transact_def begin_step_attempt_tx_def find_run_key Let_def
        split: sum.splits if_splits)
  have "step_rows s' rid key = step_rows s rid key @ [new_step s rid key att]"
    by (simp add: step_rows_def s' new_step_def)
  moreover have "att = 1" if "step_rows s rid key = []"
    using that by (simp add: r(3) next_attempt_def last_attempt_def)
  moreover have "lease_matches r w e \<and> r_status r = S_running" if "fence = Some (w, e)" for w e
    using r(2) that by (auto simp: fence_broken_def)
  ultimately show ?thesis
    using r(1) next_attempt_fresh by (auto simp: r(3) new_step_def)
qed

section \<open>Answers\<close>

lemma resolve_accepts:
  assumes i: "find_interaction s iid = Some i" "i_status i = I_pending"
    and r: "find_run s (i_run_id i) = Some r" "r_status r = S_waiting_user"
      "r_adapter_type r \<noteq> ''internal''" "i_run_version i = Some (r_version r)"
    and p: "i_type i = ''permission'' \<longrightarrow> is_dict (i_payload i)"
    and g: "lookup_by g_interaction_id iid (db_outbox s) = None"
  shows "\<exists>grant. resolve_interaction_tx iid response None None summary err s =
     Inr (apply_resolution i response S_queued grant summary err r s, ())"
proof -
  obtain pt where pt: "permission_type_of i = Inr pt"
    using p that by (cases "i_type i = ''permission''") (simp_all add: permission_type_of_def)
  show ?thesis
    by (rule exI[of _ "if approved response then grant_type pt else None"])
      (simp add: resolve_interaction_tx_def i r(2,4) r(1)[folded find_run_key] resolution_target_def
        r(3) pt g Let_def)
qed

text \<open>
  Property C11 (answer): an open question can be answered. In every state the service reaches with the commands it issues, restarts
  included, unless an opening of the store found a waiting run of workflow version 1, the answer to the
  pending interaction of a durable run that names no particular version is accepted, whatever it says, as long as no grant
  of a permission is on record for it yet and, where it asks for a permission, its request is an object; the run is then
  queued again, under a new version, and has no open question.
\<close>

theorem open_questions_can_be_answered:
  assumes "production_reachable s" "find_interaction s iid = Some i" "i_status i = I_pending"
    and "find_run s (i_run_id i) = Some r" "r_adapter_type r \<noteq> ''internal''"
    and "i_type i = ''permission'' \<longrightarrow> is_dict (i_payload i)"
    and "lookup_by g_interaction_id iid (db_outbox s) = None"
  shows "\<exists>s' r'. resolve_interaction iid response None None summary err s = (s', Inr ()) \<and>
     find_run s' (i_run_id i) = Some r' \<and> r_status r' = S_queued \<and>
     r_version r' = r_version r + 1 \<and> pending_of s' (i_run_id i) = []"
proof -
  have mem: "i \<in> set (pending_of s (i_run_id i))"
    using find_interaction_Some[OF assms(2)] assms(3) by (simp add: pending_of_def)
  then have w: "r_status r = S_waiting_user" "i_run_version i = Some (r_version r)"
    using production_questions[OF assms(1)] assms(4)
    by (auto simp: questions_ok_def question_ok_def asked_def asks_def dest!: spec[of _ "i_run_id i"]
        split: if_splits)
  obtain grant where tx: "resolve_interaction_tx iid response None None summary err s =
      Inr (apply_resolution i response S_queued grant summary err r s, ())"
    using resolve_accepts[OF assms(2-4) w(1) assms(5) w(2) assms(6,7)] by blast
  let ?s' = "apply_resolution i response S_queued grant summary err r s"
  let ?f = "resolve_row (db_clock s) S_queued (if grant \<noteq> None then ''Applying permission'' else summary) err"
  have "find_run ?s' (i_run_id i) = find_run (upd_run (i_run_id i) ?f s) (i_run_id i)"
    by (simp add: find_run_def apply_resolution_runs)
  also have "\<dots> = Some (?f r)" using assms(4) by (simp add: find_run_upd_run resolve_row_simps)
  finally have f: "find_run ?s' (i_run_id i) = Some (?f r)" .
  have d: "distinct (interaction_ids s)"
    using reachable_tables[OF production_reachable_reachable[OF assms(1)]] by (simp add: tables_ok_def)
  have "pending_of ?s' (i_run_id i) = []"
    by (simp add: pending_of_resolution[OF d assms(2,3)])
  moreover have "r_version (?f r) = r_version r + 1"
    by (simp add: resolve_row_def Let_def)
  ultimately show ?thesis
    using f by (intro exI[of _ ?s'] exI[of _ "?f r"])
      (simp add: resolve_interaction_def transact_def tx resolve_row_simps)
qed

text \<open>
  Property C12 (approval): only the literal approval grants. An answer records a permission grant exactly when the
  question is a permission question of a known type and the answer is \<^verbatim>\<open>true\<close> or an object whose \<^verbatim>\<open>approved\<close> is
  \<^verbatim>\<open>true\<close>; the grant then carries the value the question named, is pending, and the run is queued, where \<^verbatim>\<open>claim_next\<close> passes it over
  until the grant is applied.
\<close>

theorem grants_need_literal_approval:
  assumes "resolve_interaction iid response expected target summary err s = (s', Inr ())"
    and "find_interaction s iid = Some i"
  shows "(db_outbox s' = db_outbox s \<and>
      \<not> (i_type i = ''permission'' \<and> approved response \<and> grant_type (dget (i_payload i) ''permission_type'') \<noteq> None)) \<or>
    (\<exists>g. db_outbox s' = db_outbox s @ [g] \<and> g_interaction_id g = iid \<and> g_run_id g = i_run_id i \<and>
      g_status g = G_pending \<and> i_type i = ''permission'' \<and> approved response \<and>
      g_permission_type g \<in> set GRANT_TYPES \<and> g_value g = asked_value i \<and>
      (\<exists>r'. find_run s' (i_run_id i) = Some r' \<and> r_status r' = S_queued \<and> \<not> claimable s' r'))"
proof -
  obtain u where tx: "resolve_interaction_tx iid response expected target summary err s = Inr (s', u)"
    using assms(1) by (auto simp: resolve_interaction_def transact_def split: sum.splits prod.splits)
  note iid = find_interaction_Some[OF assms(2)]
  obtain pt where pt: "permission_type_of i = Inr pt"
    using tx assms(2) by (auto simp: resolve_interaction_tx_def Let_def split: sum.splits if_splits)
  obtain r tg where r: "find_run s (i_run_id i) = Some r"
    and tg: "approved response \<and> grant_type pt \<noteq> None \<longrightarrow> tg = S_queued"
    and s': "s' = apply_resolution i response tg (if approved response then grant_type pt else None) summary err r s"
    using tx assms(2) pt
    by (auto simp: resolve_interaction_tx_def find_run_key Let_def split: sum.splits if_splits)
  let ?g = "if approved response then grant_type pt else None"
  have out: "db_outbox s' = (case ?g of None \<Rightarrow> db_outbox s | Some ty \<Rightarrow> db_outbox s @ [new_grant (db_clock s) i ty])"
    by (simp add: s' apply_resolution_def Let_def split: option.split)
  have ptg: "?g \<noteq> None \<longleftrightarrow> i_type i = ''permission'' \<and> approved response \<and>
      grant_type (dget (i_payload i) ''permission_type'') \<noteq> None"
    using pt by (auto simp: permission_type_of_def grant_type_def split: if_splits)
  show ?thesis
  proof (cases ?g)
    case None
    with out ptg show ?thesis by (intro disjI1) simp
  next
    case (Some ty)
    then have q: "tg = S_queued" using tg by (auto split: if_splits)
    have ty: "ty \<in> set GRANT_TYPES"
      using Some by (auto simp: grant_type_def split: if_splits option.splits json.splits)
    let ?f = "resolve_row (db_clock s) tg (if ?g \<noteq> None then ''Applying permission'' else summary) err"
    have "find_run s' (i_run_id i) = find_run (upd_run (i_run_id i) ?f s) (i_run_id i)"
      by (simp add: s' find_run_def apply_resolution_runs)
    then have f: "find_run s' (i_run_id i) = Some (?f r)"
      using r by (simp add: find_run_upd_run resolve_row_simps)
    have "grant_pending s' (r_id (?f r))"
      using out Some find_run_id[OF f] by (simp add: grant_pending_def new_grant_def)
    then have "\<not> claimable s' (?f r)" by (simp add: claimable_def)
    with f q out Some ptg ty iid show ?thesis
      by (intro disjI2) (simp add: new_grant_def resolve_row_simps)
  qed
qed

end
