(* ===== verification/Run_Examples.thy ===== *)
theory Run_Examples
  imports Run_Outcomes
begin

text \<open>
  Concrete stores, one after the other in the life of a chat run: created, claimed, working,
  waiting for the user. They instantiate the hypotheses of the properties.
\<close>

section \<open>A chat run\<close>

definition ex_files :: file_system where
  "ex_files = \<lparr>fs_dirs = [], fs_links = [], fs_markers = [], fs_hashes = [], fs_verdicts = [], fs_stuck = []\<rparr>"

definition ex_request :: run_request where
  "ex_request = \<lparr>rq_owner_id = ''agent'', rq_action_id = ''chat'', rq_action_title = ''Chat'',
     rq_source_type = ''chat'', rq_source_id = Some ''s1'', rq_adapter_type = ''internal_agent'',
     rq_runtime_id = ''internal:agent'', rq_input = JObj [(''content'', JStr ''hi'')],
     rq_tool_name = None, rq_recovery = ''restart_safe'', rq_parent_run_id = None, rq_retry_of = None,
     rq_idempotency_key = None, rq_correlation = None, rq_attempt = 1, rq_status = S_queued,
     rq_state = None, rq_workflow_type = None, rq_workflow_version = None\<rparr>"

definition ex_start :: store where
  "ex_start = empty_store ''/w'' 0 ex_files"

definition ex_queued :: store where
  "ex_queued = exec (C_create ''r1'' ex_request) ex_start"

definition ex_claimed :: store where
  "ex_claimed = exec (C_claim_next ''w1'' 2 1 30 []) ex_queued"

definition ex_working :: store where
  "ex_working = exec (C_begin_step ''r1'' ''route'' (Some (''w1'', 1))) ex_claimed"

definition ex_payload :: json where
  "ex_payload = JObj [(''permission_type'', JStr ''mcp_spawn'')]"

definition ex_waiting :: store where
  "ex_waiting = exec (C_wait ''r1'' ''permission'' ''Allow?'' ex_payload ''q1'' ''w1'' 1 ''Waiting'' None) ex_claimed"

definition ex_run :: run_row where
  "ex_run = new_run 0 ''r1'' ex_request"

definition ex_running :: run_row where
  "ex_running = claim_row ''w1'' 0 30000000 ex_run"

definition ex_outcome :: step_outcome where
  "ex_outcome = Succeeded \<lparr>oc_summary = ''done'', oc_output = JNull, oc_events = []\<rparr> (JStr ''ok'') []"

lemma ex_start_simps [simp]:
  "db_runs ex_start = []" "db_events ex_start = []" "db_interactions ex_start = []" "db_outbox ex_start = []"
  "db_steps ex_start = []" "db_clock ex_start = 0"
  by (simp_all add: ex_start_def empty_store_def)

lemma ex_run_simps [simp]:
  "r_id ex_run = ''r1''" "r_status ex_run = S_queued" "r_lease_owner ex_run = None" "r_lease_epoch ex_run = 0"
  "r_version ex_run = 1" "r_owner_id ex_run = ''agent''" "r_adapter_type ex_run = ''internal_agent''"
  "session_id ex_run = Some ''s1''" "r_finished_at ex_run = None" "r_started_at ex_run = None"
  by (simp_all add: ex_run_def new_run_def ex_request_def session_id_def chat_source_def)

lemma ex_running_simps [simp]:
  "r_id ex_running = ''r1''" "r_status ex_running = S_running" "r_lease_owner ex_running = Some ''w1''"
  "r_lease_epoch ex_running = 1" "r_version ex_running = 2" "r_owner_id ex_running = ''agent''"
  "r_adapter_type ex_running = ''internal_agent''" "session_id ex_running = Some ''s1''"
  by (simp_all add: ex_running_def claim_row_def session_id_def chat_source_def ex_run_def new_run_def ex_request_def)

lemma ex_queued_simps [simp]:
  "db_runs ex_queued = [ex_run]" "db_interactions ex_queued = []" "db_outbox ex_queued = []"
  "db_steps ex_queued = []" "db_clock ex_queued = 0"
  by (simp_all add: ex_queued_def create_run_def transact_def create_run_tx_def insert_run_def ex_run_def
      run_insert_ok_def find_run_def foreign_ok_def ex_request_def)

lemma ex_lane: "session_lane_available ex_run [ex_run]"
  by (simp add: session_lane_available_def blocks_lane_def)

lemma ex_choice: "claim_choice ex_queued 1 [] = Some ex_run"
  by (simp add: claim_choice_def claim_candidates_def grant_pending_def owner_count_def
      active_rows_def occupies_def ex_lane active_def ACTIVE_STATUSES_def)

lemma ex_claim: "claim_next ''w1'' 2 1 30 [] ex_queued = (apply_claim ''w1'' 30 ex_run ex_queued, Inr (Some ''r1''))"
  using ex_choice by (simp add: claim_next_def transact_def claim_next_tx_def running_count_def occupies_def)

lemma ex_claimed_simps [simp]:
  "db_runs ex_claimed = [ex_running]" "db_interactions ex_claimed = []" "db_outbox ex_claimed = []"
  "db_steps ex_claimed = []" "db_clock ex_claimed = 0"
  by (simp_all add: ex_claimed_def ex_claim apply_claim_def Let_def upd_run_def ex_running_def seconds_def
      del: One_nat_def)

lemma ex_reachable:
  "strict_reachable ex_start" "strict_reachable ex_queued" "strict_reachable ex_claimed"
  "strict_reachable ex_working"
proof -
  show s: "strict_reachable ex_start" unfolding ex_start_def by (rule strict_reachable.init)
  show q: "strict_reachable ex_queued" unfolding ex_queued_def
    by (rule strict_reachable.exec[OF s]) (simp add: ex_request_def)
  show c: "strict_reachable ex_claimed" unfolding ex_claimed_def
    by (rule strict_reachable.exec[OF q]) simp
  show "strict_reachable ex_working" unfolding ex_working_def
    by (rule strict_reachable.exec[OF c]) simp
qed

lemma ex_find_run [simp]:
  "find_run ex_queued ''r1'' = Some ex_run" "find_run ex_claimed ''r1'' = Some ex_running"
  by (simp_all add: find_run_def)

lemma ex_working_simps [simp]:
  "db_runs ex_working = [ex_running]" "db_interactions ex_working = []" "db_clock ex_working = 0"
  "db_steps ex_working = [new_step ex_claimed ''r1'' ''route'' 1]"
  by (simp_all add: ex_working_def begin_step_attempt_def transact_def begin_step_attempt_tx_def
      run_or_key_error_def fence_broken_def lease_matches_def Let_def next_attempt_def last_attempt_def
      step_rows_def)

lemma ex_begin: "\<exists>s'. begin_step_attempt ''r1'' ''route'' (Some (''w1'', 1)) ex_claimed = (s', Inr 1)"
  by (simp add: begin_step_attempt_def transact_def begin_step_attempt_tx_def
      run_or_key_error_def fence_broken_def lease_matches_def Let_def next_attempt_def last_attempt_def
      step_rows_def)

lemma ex_commit:
  "\<exists>s'. commit_step ''r1'' ''route'' 1 ''w1'' 1 default_state ex_outcome ex_working = (s', Inr ())"
  by (simp add: commit_step_def transact_def commit_step_tx_def run_or_key_error_def find_run_def
      commit_guard_def lease_matches_def find_step_def step_rows_def new_step_def ex_outcome_def)

lemma ex_wait:
  "ex_waiting = apply_wait ''r1'' ''permission'' ''Allow?'' ex_payload ''q1'' ''Waiting'' None 3 ex_claimed"
  by (simp add: ex_waiting_def wait_for_interaction_def transact_def wait_for_interaction_tx_def
      run_or_key_error_def find_run_def lease_matches_def find_interaction_def)

definition ex_question :: interaction_row where
  "ex_question = new_interaction 0 ''q1'' ''r1'' ''permission'' ''Allow?'' ex_payload 3"

definition ex_asking :: run_row where
  "ex_asking = ex_running\<lparr>r_status := S_waiting_user, r_summary := ''Waiting'', r_updated_at := 0,
     r_version := 3, r_lease_owner := None, r_lease_expires_at := None\<rparr>"

lemma ex_waiting_simps [simp]:
  "db_runs ex_waiting = [ex_asking]" "db_interactions ex_waiting = [ex_question]"
  "db_outbox ex_waiting = []" "db_clock ex_waiting = 0"
  by (simp_all add: ex_wait apply_wait_def Let_def upd_run_def ex_asking_def ex_question_def
      insert_interaction_def)

lemma ex_asking_simps [simp]:
  "r_id ex_asking = ''r1''" "r_status ex_asking = S_waiting_user" "r_version ex_asking = 3"
  "r_adapter_type ex_asking = ''internal_agent''"
  by (simp_all add: ex_asking_def)

lemma ex_question_simps [simp]:
  "i_id ex_question = ''q1''" "i_run_id ex_question = ''r1''" "i_status ex_question = I_pending"
  "i_type ex_question = ''permission''" "i_payload ex_question = ex_payload"
  "i_run_version ex_question = Some 3"
  by (simp_all add: ex_question_def new_interaction_def)

lemma ex_production: "production_reachable ex_waiting"
proof -
  have "production_reachable ex_start" unfolding ex_start_def by (rule production_reachable.init)
  then have "production_reachable ex_queued" unfolding ex_queued_def
    by (rule production_reachable.exec) (simp add: ex_request_def)
  then have "production_reachable ex_claimed" unfolding ex_claimed_def
    by (rule production_reachable.exec) simp
  then show ?thesis unfolding ex_waiting_def
    by (rule production_reachable.exec) simp
qed

section \<open>The properties at these stores\<close>

lemma runs_evolve_monotonically_witness:
  "\<exists>r'. find_run (exec_all [C_claim_next ''w1'' 2 1 30 []] ex_queued) ''r1'' = Some r' \<and> run_le ex_run r'"
  using runs_evolve_monotonically[where s = ex_queued and cs = "[C_claim_next ''w1'' 2 1 30 []]"
      and rid = "''r1''" and r = ex_run]
  by (simp add: ex_reachable strict_reachable_reachable del: exec_all_simps)

lemma stale_lease_is_fenced_forever_witness:
  "commit_step ''r1'' ''route'' 1 ''w1'' 0 default_state ex_outcome ex_claimed =
     (ex_claimed, Inl (stale_active ''r1''))"
proof -
  have "commit_step ''r1'' ''route'' 1 ''w1'' 0 default_state ex_outcome (exec_all [C_claim_next ''w1'' 2 1 30 []] ex_queued) =
     (exec_all [C_claim_next ''w1'' 2 1 30 []] ex_queued, Inl (stale_active ''r1''))"
    using stale_lease_is_fenced_forever[where s = ex_queued and cs = "[C_claim_next ''w1'' 2 1 30 []]"
        and rid = "''r1''" and r = ex_run and epoch = 0 and w = "''w1''" and key = "''route''" and att = 1
        and st = default_state and oc = ex_outcome and p = 0 and summary = "[]" and ty = "[]" and payload = JNull
        and ity = "[]" and prompt = "[]" and iid = "[]" and et = None]
    by (simp add: ex_reachable strict_reachable_reachable lease_matches_def Let_def del: exec_all_simps)
      (auto simp del: exec_all_simps)
  then show ?thesis by (simp only: exec_all_simps ex_claimed_def)
qed

lemma leases_only_while_working_witness:
  "r_status ex_running \<in> {S_running, S_cancel_requested} \<and> r_finished_at ex_running = None"
  using leases_only_while_working[of ex_claimed ex_running]
  by (simp add: ex_reachable terminal_def TERMINAL_STATUSES_def)

lemma session_lane_exclusive_witness:
  "\<exists>a b. a \<in> set (db_runs ex_claimed) \<and> b \<in> set (db_runs ex_claimed) \<and> busy a \<and> busy b \<and>
     session_id a = Some ''s1'' \<and> session_id b = Some ''s1'' \<and> a = b"
  using session_lane_exclusive[where s = ex_claimed and a = ex_running and b = ex_running and sid = "''s1''"]
  by (intro exI[of _ ex_running]) (simp add: ex_reachable busy_def)

lemma claim_next_respects_limits_witness:
  "running_count (apply_claim ''w1'' 30 ex_run ex_queued) = 1 \<and>
   owner_count (apply_claim ''w1'' 30 ex_run ex_queued) ''agent'' = 1"
  using claim_next_respects_limits[OF strict_reachable_reachable[OF ex_reachable(2)] ex_claim]
  by (simp add: running_count_def owner_count_def occupies_def)

lemma claim_next_is_first_eligible_witness:
  "\<exists>r. find_run ex_queued ''r1'' = Some r \<and> claimable ex_queued r \<and>
     session_lane_available r (active_rows ex_queued)"
  using claim_next_is_first_eligible[OF strict_reachable_reachable[OF ex_reachable(2)] ex_claim] by blast

lemma claim_next_makes_progress_witness:
  "\<exists>s' rid. claim_next ''w1'' 2 1 30 [] ex_queued = (s', Inr (Some rid))"
  by (rule claim_next_makes_progress[where c = ex_run])
    (simp_all add: running_count_def owner_count_def occupies_def claimable_def grant_pending_def
      active_rows_def ex_lane active_def ACTIVE_STATUSES_def)

lemma one_open_question_per_waiting_run_witness:
  "map i_run_version (pending_of ex_waiting ''r1'') = [Some 3]"
  using one_open_question_per_waiting_run[OF ex_production, where rid = "''r1''"] by (simp add: find_run_def)

lemma commit_step_all_or_nothing_witness:
  "\<exists>s' r'. commit_step ''r1'' ''route'' 1 ''w1'' 1 default_state ex_outcome ex_working = (s', Inr ()) \<and>
     find_run s' ''r1'' = Some r' \<and> r_status r' = S_succeeded \<and> r_version r' = 3"
  using commit_step_all_or_nothing[where rid = "''r1''" and key = "''route''" and att = 1 and w = "''w1''"
      and epoch = 1 and st = default_state and oc = ex_outcome and s = ex_working] ex_commit
  by (auto simp: ex_outcome_def find_run_def)

lemma commit_at_most_once_witness:
  "\<exists>s'. commit_step ''r1'' ''route'' 1 ''w1'' 1 default_state ex_outcome ex_working = (s', Inr ()) \<and>
     commit_step ''r1'' ''route'' 1 ''w1'' 1 default_state ex_outcome (exec_all [C_tick 1] s') =
       (exec_all [C_tick 1] s', Inl (stale_active ''r1''))"
proof -
  obtain s' where s': "commit_step ''r1'' ''route'' 1 ''w1'' 1 default_state ex_outcome ex_working = (s', Inr ())"
    using ex_commit by blast
  have "find_run s' ''r1'' \<noteq> None" by (rule committed_run[OF s']) simp
  then have "find_run (exec_all [C_tick 1] s') ''r1'' \<noteq> None" by (simp add: find_run_def)
  then show ?thesis
    using s' commit_at_most_once[OF strict_reachable_reachable[OF ex_reachable(4)] s', where cs = "[C_tick 1]"
        and ?key2.0 = "''route''" and ?att2.0 = 1 and ?st2.0 = default_state and ?oc2.0 = ex_outcome]
    by (auto simp: Let_def simp del: exec_all_simps)
qed

lemma begin_step_numbers_attempts_witness:
  "\<exists>s' t. begin_step_attempt ''r1'' ''route'' (Some (''w1'', 1)) ex_claimed = (s', Inr 1) \<and>
     step_rows s' ''r1'' ''route'' = [t] \<and> s_attempt t = 1"
proof -
  obtain s' where s': "begin_step_attempt ''r1'' ''route'' (Some (''w1'', 1)) ex_claimed = (s', Inr 1)"
    using ex_begin by blast
  show ?thesis using begin_step_numbers_attempts[OF s'] s' by (auto simp: step_rows_def)
qed

lemma open_questions_can_be_answered_witness:
  "\<exists>s' r'. resolve_interaction ''q1'' (JBool True) None None ''Interaction resolved'' None ex_waiting = (s', Inr ()) \<and>
     find_run s' ''r1'' = Some r' \<and> r_status r' = S_queued"
  using open_questions_can_be_answered[OF ex_production, of "''q1''" ex_question ex_asking "JBool True"
      "''Interaction resolved''" None]
  by (auto simp: find_interaction_def find_run_def ex_payload_def)

lemma grants_need_literal_approval_witness:
  "\<exists>s' g. resolve_interaction ''q1'' (JBool True) None None ''Interaction resolved'' None ex_waiting = (s', Inr ()) \<and>
     db_outbox s' = [g] \<and> g_permission_type g \<in> set GRANT_TYPES"
proof -
  have "\<exists>grant. resolve_interaction_tx ''q1'' (JBool True) None None ''Interaction resolved'' None ex_waiting =
     Inr (apply_resolution ex_question (JBool True) S_queued grant ''Interaction resolved'' None ex_asking ex_waiting, ())"
    by (rule resolve_accepts) (simp_all add: find_interaction_def find_run_def ex_payload_def)
  then obtain s' where
    s': "resolve_interaction ''q1'' (JBool True) None None ''Interaction resolved'' None ex_waiting = (s', Inr ())"
    by (auto simp: resolve_interaction_def transact_def)
  show ?thesis
    using grants_need_literal_approval[OF s', of ex_question] s'
    by (auto simp: find_interaction_def ex_payload_def approved_def grant_type_def GRANT_TYPES_def)
qed

end
