(* ===== verification/Json_Schema.thy ===== *)
theory Json_Schema
  imports Py_Text
begin

text \<open>
  \<^verbatim>\<open>validate_json_schema\<close> of \<^verbatim>\<open>backend/run_service.py\<close>: the JSON Schema subset of generated
  action forms, checked on the input of a submitted action and on the result of an adapter.
  Schemas come from manifests: \<^verbatim>\<open>required\<close> and \<^verbatim>\<open>enum\<close> are arrays and \<^verbatim>\<open>properties\<close> an object
  there; other shapes of these three count as absent.
\<close>

section \<open>The validator\<close>

text \<open>A type name the code does not know passes every value.\<close>

definition type_check :: "json \<Rightarrow> json \<Rightarrow> bool" where
  "type_check kind v =
     (if kind = JStr ''object'' then is_dict v
      else if kind = JStr ''array'' then (case v of JArr _ \<Rightarrow> True | _ \<Rightarrow> False)
      else if kind = JStr ''string'' then is_str v
      else if kind = JStr ''number'' then (case v of JInt _ \<Rightarrow> True | JFloat _ \<Rightarrow> True | _ \<Rightarrow> False)
      else if kind = JStr ''integer'' then (case v of JInt _ \<Rightarrow> True | _ \<Rightarrow> False)
      else if kind = JStr ''boolean'' then (case v of JBool _ \<Rightarrow> True | _ \<Rightarrow> False)
      else if kind = JStr ''null'' then v = JNull
      else True)"

definition schema_types :: "json \<Rightarrow> json list" where
  "schema_types schema =
     (case dget schema ''type'' of
        Some (JArr ts) \<Rightarrow> ts
      | Some t \<Rightarrow> if truthy t then [t] else []
      | None \<Rightarrow> [])"

definition schema_list :: "json \<Rightarrow> string \<Rightarrow> json list" where
  "schema_list schema k = (case dget schema k of Some (JArr xs) \<Rightarrow> xs | _ \<Rightarrow> [])"

definition type_ok :: "json \<Rightarrow> json \<Rightarrow> bool" where
  "type_ok v schema = (schema_types schema = [] \<or> list_ex (\<lambda>k. type_check k v) (schema_types schema))"

definition enum_ok :: "json \<Rightarrow> json \<Rightarrow> bool" where
  "enum_ok v schema =
     (case dget schema ''enum'' of Some (JArr xs) \<Rightarrow> list_ex (\<lambda>x. py_eq v x) xs | _ \<Rightarrow> True)"

definition lacks :: "json \<Rightarrow> json \<Rightarrow> bool" where
  "lacks v r = (case r of JStr k \<Rightarrow> dget v k = None | _ \<Rightarrow> True)"

definition missing_required :: "json \<Rightarrow> json \<Rightarrow> json option" where
  "missing_required v schema =
     List.find (lacks v) (schema_list schema ''required'')"

text \<open>The checks of one level, in the order of the code; the loops over members follow.\<close>

definition shallow_check :: "json \<Rightarrow> json \<Rightarrow> string \<Rightarrow> py_error option" where
  "shallow_check v schema path =
     (if \<not> type_ok v schema
      then Some (ValueError (path @ '' must be '' @ py_str (json_or_null (dget schema ''type''))))
      else if \<not> enum_ok v schema
      then Some (ValueError (path @ '' must be one of '' @ py_str (json_or_null (dget schema ''enum''))))
      else if is_dict v
      then map_option (\<lambda>r. ValueError (path @ ''.'' @ py_str r @ '' is required''))
             (missing_required v schema)
      else None)"

fun validate_json_schema :: "json \<Rightarrow> json \<Rightarrow> string \<Rightarrow> py_error option"
  and validate_members :: "(string \<times> json) list \<Rightarrow> json \<Rightarrow> string \<Rightarrow> py_error option"
  and validate_items :: "nat \<Rightarrow> json list \<Rightarrow> json \<Rightarrow> string \<Rightarrow> py_error option"
where
  "validate_json_schema v schema path =
     (if \<not> truthy schema then None
      else if \<not> is_dict schema then Some (AttributeError ''get'')
      else case shallow_check v schema path of
        Some e \<Rightarrow> Some e
      | None \<Rightarrow>
          (case v of
             JObj kvs \<Rightarrow> validate_members kvs (subdict schema ''properties'') path
           | JArr xs \<Rightarrow>
               (case dget schema ''items'' of
                  Some (JObj it) \<Rightarrow> validate_items 0 xs (JObj it) path
                | _ \<Rightarrow> None)
           | _ \<Rightarrow> None))"
| "validate_members [] props path = None"
| "validate_members (kv # kvs) props path =
     (case (case dget props (fst kv) of
              None \<Rightarrow> None
            | Some sub \<Rightarrow> validate_json_schema (snd kv) sub (path @ ''.'' @ fst kv)) of
        Some e \<Rightarrow> Some e
      | None \<Rightarrow> validate_members kvs props path)"
| "validate_items i [] schema path = None"
| "validate_items i (x # xs) schema path =
     (case validate_json_schema x schema (path @ ''['' @ nat_str i @ '']'') of
        Some e \<Rightarrow> Some e
      | None \<Rightarrow> validate_items (Suc i) xs schema path)"

declare validate_json_schema.simps [simp del]

section \<open>What acceptance means\<close>

text \<open>
  The values of a schema, without paths, messages or an order of checks.
\<close>

definition level_ok :: "json \<Rightarrow> json \<Rightarrow> bool" where
  "level_ok v schema \<longleftrightarrow> type_ok v schema \<and> enum_ok v schema \<and>
     (is_dict v \<longrightarrow> (\<forall>r \<in> set (schema_list schema ''required''). \<not> lacks v r))"

inductive conforms :: "json \<Rightarrow> json \<Rightarrow> bool" where
  conforms_empty: "\<not> truthy schema \<Longrightarrow> conforms v schema"
| conforms_level: "is_dict schema \<Longrightarrow> level_ok v schema \<Longrightarrow>
     (\<And>kvs k w sub. v = JObj kvs \<Longrightarrow> (k, w) \<in> set kvs \<Longrightarrow>
        dget (subdict schema ''properties'') k = Some sub \<Longrightarrow> conforms w sub) \<Longrightarrow>
     (\<And>xs x it. v = JArr xs \<Longrightarrow> x \<in> set xs \<Longrightarrow> dget schema ''items'' = Some (JObj it) \<Longrightarrow>
        conforms x (JObj it)) \<Longrightarrow>
     conforms v schema"

lemma shallow_check_None: "shallow_check v schema path = None \<longleftrightarrow> level_ok v schema"
  by (auto simp: shallow_check_def level_ok_def missing_required_def find_None_iff
      split: if_splits)

lemma validate_sound:
  "validate_json_schema v schema path = None \<Longrightarrow> conforms v schema"
  "validate_members kvs props path = None \<Longrightarrow>
     \<forall>(k, w) \<in> set kvs. \<forall>sub. dget props k = Some sub \<longrightarrow> conforms w sub"
  "validate_items i xs schema path = None \<Longrightarrow> \<forall>x \<in> set xs. conforms x schema"
proof (induction v schema path and kvs props path and i xs schema path
    rule: validate_json_schema_validate_members_validate_items.induct)
  case (1 v schema path)
  show ?case
  proof (cases "truthy schema")
    case False
    then show ?thesis by (rule conforms_empty)
  next
    case True
    with "1.prems" have dict: "is_dict schema" and shallow: "shallow_check v schema path = None"
      by (auto simp: validate_json_schema.simps[of _ schema path] split: if_splits option.splits)
    show ?thesis
    proof (rule conforms_level)
      show "is_dict schema" by fact
      show "level_ok v schema" using shallow by (simp add: shallow_check_None)
    next
      fix kvs k w sub
      assume v: "v = JObj kvs" and kw: "(k, w) \<in> set kvs"
        and sub: "dget (subdict schema ''properties'') k = Some sub"
      have "validate_members kvs (subdict schema ''properties'') path = None"
        using "1.prems" True dict shallow v by (simp add: validate_json_schema.simps[of _ schema path])
      with "1.IH"(2) True dict shallow v kw sub show "conforms w sub" by fastforce
    next
      fix xs x it
      assume v: "v = JArr xs" and x: "x \<in> set xs" and it: "dget schema ''items'' = Some (JObj it)"
      have "validate_items 0 xs (JObj it) path = None"
        using "1.prems" True dict shallow v it by (simp add: validate_json_schema.simps[of _ schema path])
      with "1.IH"(1) True dict shallow v x it show "conforms x (JObj it)" by fastforce
    qed
  qed
qed (auto split: option.splits)

lemma validate_members_complete:
  "(\<And>k w sub path. (k, w) \<in> set kvs \<Longrightarrow> dget props k = Some sub \<Longrightarrow>
      validate_json_schema w sub path = None) \<Longrightarrow> validate_members kvs props p = None"
proof (induction kvs)
  case (Cons kv kvs)
  have "validate_members kvs props p = None"
    using Cons.prems by (intro Cons.IH) auto
  with Cons.prems[of "fst kv" "snd kv"] show ?case by (simp split: option.splits)
qed simp

lemma validate_items_complete:
  "(\<And>x path. x \<in> set xs \<Longrightarrow> validate_json_schema x schema path = None) \<Longrightarrow>
   validate_items i xs schema path = None"
  by (induction xs arbitrary: i) auto

lemma validate_complete: "conforms v schema \<Longrightarrow> validate_json_schema v schema path = None"
proof (induction arbitrary: path rule: conforms.induct)
  case (conforms_empty schema v)
  then show ?case by (simp add: validate_json_schema.simps[of _ schema path])
next
  case (conforms_level schema v)
  then have "shallow_check v schema path = None" by (simp add: shallow_check_None)
  with conforms_level show ?case
    by (cases v)
      (auto simp: validate_json_schema.simps[of _ schema path] intro!: validate_members_complete
        validate_items_complete split: option.splits json.splits)
qed

text \<open>The validator decides conformance, whatever path its messages name.\<close>

lemma validate_iff_conforms: "validate_json_schema v schema path = None \<longleftrightarrow> conforms v schema"
  using validate_sound(1) validate_complete by blast

end
