(* ===== verification/Py_Numbers.thy ===== *)
theory Py_Numbers
  imports Py_Text
begin

text \<open>Quoted names, numbers in text, and cutting a text at a character.\<close>

text \<open>A text between single quotes, as the messages quote names.\<close>

definition quoted :: "string \<Rightarrow> string" where
  "quoted s = [CHR 0x27] @ s @ [CHR 0x27]"

section \<open>Numbers in text\<close>

text \<open>
  \<^verbatim>\<open>int(s)\<close> and \<^verbatim>\<open>float(s)\<close> on text: surrounding whitespace, a sign, decimal digits with single
  underscores between them, and for floats a fraction and an exponent. The texts of infinities and
  of not-a-number denote no rational and are refused here.
\<close>

definition digit_value :: "char \<Rightarrow> nat" where
  "digit_value c = of_char c - 48"

fun digits_of :: "bool \<Rightarrow> string \<Rightarrow> string option" where
  "digits_of ok [] = (if ok then Some [] else None)"
| "digits_of ok (c # cs) =
     (if is_digit c then map_option ((#) c) (digits_of True cs)
      else if c = CHR ''_'' \<and> ok \<and> cs \<noteq> [] then digits_of False cs
      else None)"

definition digits_value :: "string \<Rightarrow> nat" where
  "digits_value ds = foldl (\<lambda>n c. 10 * n + digit_value c) 0 ds"

definition split_sign :: "string \<Rightarrow> bool \<times> string" where
  "split_sign s = (case s of
       [] \<Rightarrow> (False, [])
     | c # cs \<Rightarrow> if c = CHR ''-'' then (True, cs) else if c = CHR ''+'' then (False, cs) else (False, s))"

definition parse_signed :: "string \<Rightarrow> int option" where
  "parse_signed s =
     (case split_sign s of (neg, body) \<Rightarrow>
        map_option (\<lambda>ds. if neg then - int (digits_value ds) else int (digits_value ds)) (digits_of False body))"

definition parse_int :: "string \<Rightarrow> int option" where
  "parse_int s = parse_signed (strip s)"

definition break_at :: "(char \<Rightarrow> bool) \<Rightarrow> string \<Rightarrow> string \<times> string option" where
  "break_at P s = (case dropWhile (\<lambda>c. \<not> P c) s of
       [] \<Rightarrow> (s, None) | _ # rest \<Rightarrow> (takeWhile (\<lambda>c. \<not> P c) s, Some rest))"

definition digits_or_empty :: "string \<Rightarrow> string option" where
  "digits_or_empty s = (if s = [] then Some [] else digits_of False s)"

definition parse_float :: "string \<Rightarrow> pyfloat option" where
  "parse_float s =
     (case split_sign (strip s) of (neg, body) \<Rightarrow>
      (case break_at (\<lambda>c. c = CHR ''e'' \<or> c = CHR ''E'') body of (mant, ex) \<Rightarrow>
      (case break_at (\<lambda>c. c = CHR ''.'') mant of (ip, fp) \<Rightarrow>
      (case (digits_or_empty ip, digits_or_empty (case fp of None \<Rightarrow> [] | Some f \<Rightarrow> f),
             (case ex of None \<Rightarrow> Some 0 | Some t \<Rightarrow> parse_signed t)) of
         (Some a, Some b, Some e) \<Rightarrow>
           if a = [] \<and> b = [] then None
           else (let m = rat_of_nat (digits_value (a @ b)) * power_int 10 (e - int (length b))
                 in Some (if neg then - m else m))
       | _ \<Rightarrow> None))))"

lemma break_at_None: "break_at P s = (t, None) \<Longrightarrow> t = s \<and> (\<forall>c \<in> set s. \<not> P c)"
  by (auto simp: break_at_def dropWhile_eq_Nil_conv split: list.splits)

lemma break_at_Some:
  assumes "break_at P s = (t, Some r)"
  shows "\<exists>c. s = t @ c # r \<and> P c \<and> (\<forall>x \<in> set t. \<not> P x)"
proof -
  obtain c where c: "dropWhile (\<lambda>c. \<not> P c) s = c # r" "t = takeWhile (\<lambda>c. \<not> P c) s"
    using assms by (auto simp: break_at_def split: list.splits)
  then have "P c" using hd_dropWhile[of "\<lambda>c. \<not> P c" s] by auto
  then show ?thesis using takeWhile_dropWhile_id[of "\<lambda>c. \<not> P c" s] c by (metis set_takeWhileD)
qed

lemma break_at_none: "(\<And>c. c \<in> set s \<Longrightarrow> \<not> P c) \<Longrightarrow> break_at P s = (s, None)"
proof -
  assume "\<And>c. c \<in> set s \<Longrightarrow> \<not> P c"
  then have "dropWhile (\<lambda>c. \<not> P c) s = []" by (simp add: dropWhile_eq_Nil_conv)
  then show ?thesis by (simp only: break_at_def list.case)
qed

lemma break_at_cut: "(\<And>c. c \<in> set t \<Longrightarrow> \<not> P c) \<Longrightarrow> P c \<Longrightarrow> break_at P (t @ c # r) = (t, Some r)"
  by (simp add: break_at_def dropWhile_append takeWhile_append)

section \<open>Decimal digits\<close>

definition all_digits :: "string \<Rightarrow> bool" where
  "all_digits s \<longleftrightarrow> s \<noteq> [] \<and> list_all is_digit s"

text \<open>\<^verbatim>\<open>0|[1-9][0-9]*\<close>: no leading zero.\<close>

definition plain_number :: "string \<Rightarrow> bool" where
  "plain_number s \<longleftrightarrow> all_digits s \<and> (hd s = CHR ''0'' \<longrightarrow> tl s = [])"

lemma digits_value_snoc: "digits_value (ds @ [d]) = 10 * digits_value ds + digit_value d"
  by (simp add: digits_value_def)

lemma digit_value_bound: "is_digit d \<Longrightarrow> digit_value d < 10 \<and> char_of (48 + digit_value d) = d"
  by (auto simp: is_digit_def char_between_def digit_value_def Let_def)

lemma digit_value_pos: "is_digit d \<Longrightarrow> d \<noteq> CHR ''0'' \<Longrightarrow> 0 < digit_value d"
proof -
  assume d: "is_digit d" "d \<noteq> CHR ''0''"
  have "char_of (48 :: nat) = CHR ''0''" by code_simp
  with d digit_value_bound[OF d(1)] show ?thesis by (cases "digit_value d") auto
qed

lemma digits_value_pos: "list_all is_digit (d # ds) \<Longrightarrow> d \<noteq> CHR ''0'' \<Longrightarrow> 0 < digits_value (d # ds)"
proof (induction ds rule: rev_induct)
  case Nil
  then show ?case by (simp add: digits_value_def digit_value_pos)
next
  case (snoc x xs)
  then show ?case using digits_value_snoc[of "d # xs" x] by simp
qed

text \<open>A number without a leading zero is the decimal text of its value.\<close>

lemma nat_str_digits_value: "plain_number s \<Longrightarrow> nat_str (digits_value s) = s"
proof (induction s rule: rev_induct)
  case (snoc d ds)
  have d: "is_digit d" using snoc.prems by (simp add: plain_number_def all_digits_def)
  show ?case
  proof (cases ds)
    case Nil
    with digit_value_bound[OF d] show ?thesis by (simp add: digits_value_def nat_str.simps)
  next
    case (Cons e es)
    have p: "plain_number ds" "e \<noteq> CHR ''0''" "list_all is_digit (e # es)"
      using snoc.prems Cons by (auto simp: plain_number_def all_digits_def)
    then have "0 < digits_value ds" using digits_value_pos Cons by simp
    then show ?thesis using snoc.IH[OF p(1)] digit_value_bound[OF d]
      by (subst nat_str.simps) (simp add: digits_value_snoc)
  qed
qed (simp add: plain_number_def all_digits_def)

lemma plain_number_inj: "plain_number s \<Longrightarrow> plain_number t \<Longrightarrow> digits_value s = digits_value t \<Longrightarrow> s = t"
  using nat_str_digits_value by metis

section \<open>Conversions of JSON values\<close>

text \<open>\<^verbatim>\<open>int(v)\<close> and \<^verbatim>\<open>float(v)\<close>.\<close>

definition int_of :: "json \<Rightarrow> int result" where
  "int_of v =
     (case v of JInt n \<Rightarrow> Inr n | JBool t \<Rightarrow> Inr (if t then 1 else 0) | JFloat x \<Rightarrow> Inr (if x < 0 then - \<lfloor>- x\<rfloor> else \<lfloor>x\<rfloor>)
      | JStr s \<Rightarrow> (case parse_int s of Some n \<Rightarrow> Inr n | None \<Rightarrow> Inl (ValueError ''int''))
      | _ \<Rightarrow> Inl (TypeError ''int''))"

definition float_of :: "json \<Rightarrow> pyfloat result" where
  "float_of v =
     (case v of JStr s \<Rightarrow> (case parse_float s of Some x \<Rightarrow> Inr x | None \<Rightarrow> Inl (ValueError ''float''))
      | _ \<Rightarrow> (case num_of v of Some x \<Rightarrow> Inr x | None \<Rightarrow> Inl (TypeError ''float'')))"

end
