(* ===== verification/Ontology_Types.thy ===== *)
theory Ontology_Types
  imports Py_Numbers
begin

text \<open>
  The ontology of user-context records (\<^verbatim>\<open>backend/ontology.py\<close>): the built-in entities, the
  validation of property definitions and correspondences, and the coercion of the properties of a
  record to the types its entity declares.
\<close>

section \<open>Entities\<close>

definition ONTOLOGY_ID :: string where
  "ONTOLOGY_ID = ''ambient-context''"

definition USER_CONTEXT_SCOPE :: string where
  "USER_CONTEXT_SCOPE = ''user_context''"

definition ALLOWED_PROPERTY_TYPES :: "string list" where
  "ALLOWED_PROPERTY_TYPES = [''string'', ''integer'', ''number'', ''boolean'']"

definition SYSTEM_PROPERTIES :: "(string \<times> string) list" where
  "SYSTEM_PROPERTIES = [(''namespace'', ''string'')]"

text \<open>An entity with its schema: the columns of \<^verbatim>\<open>graph_schemas\<close>.\<close>

record entity_schema =
  sc_id :: string
  sc_name :: string
  sc_description :: string
  sc_properties :: "(string \<times> string) list"
  sc_is_core :: bool
  sc_ontology_id :: string
  sc_ontology_iri :: string
  sc_source :: string
  sc_equivalent_to :: "string list"
  sc_subclass_of :: "string option"
  sc_abstract :: bool
  sc_data_scope :: string
  sc_created_at :: string

definition core_entity :: "string \<Rightarrow> string \<Rightarrow> string list \<Rightarrow> string \<Rightarrow> entity_schema" where
  "core_entity i description keys iri = \<lparr>sc_id = i, sc_name = i, sc_description = description,
     sc_properties = map (\<lambda>k. (k, ''string'')) keys, sc_is_core = True, sc_ontology_id = ONTOLOGY_ID,
     sc_ontology_iri = ''https://schema.org/'' @ iri, sc_source = ''Schema.org'', sc_equivalent_to = [],
     sc_subclass_of = Some ''Thing'', sc_abstract = False, sc_data_scope = USER_CONTEXT_SCOPE,
     sc_created_at = []\<rparr>"

definition PREBUILT_ONTOLOGY :: "entity_schema list" where
  "PREBUILT_ONTOLOGY =
     [(core_entity ''Thing'' ''Abstract root for concepts that may contain user-context records'' [] ''Thing'')
        \<lparr>sc_subclass_of := None, sc_abstract := True\<rparr>,
      core_entity ''Task'' ''An action or todo item the user intends to complete''
        [''title'', ''description'', ''status'', ''due_date'', ''priority''] ''Action'',
      core_entity ''Event'' ''A calendar entry or scheduled block of time''
        [''title'', ''description'', ''start_time'', ''end_time'', ''location''] ''Event'',
      core_entity ''Note'' ''A freeform note or short piece of user-authored content''
        [''title'', ''content'', ''tags''] ''CreativeWork'',
      core_entity ''Person'' (''A person relevant to the user'' @ [CHR 0x27] @ ''s context'') [''name'', ''email'', ''phone''] ''Person'',
      core_entity ''Organization'' (''An organization relevant to the user'' @ [CHR 0x27] @ ''s context'')
        [''name'', ''description'', ''url''] ''Organization'',
      core_entity ''Project'' ''A project grouping related goals, tasks, documents, and people''
        [''name'', ''description'', ''status''] ''Project'',
      core_entity ''Document'' ''A document or reference whose existence or content aids user understanding''
        [''title'', ''content'', ''uri'', ''mime_type'', ''summary''] ''DigitalDocument'',
      core_entity ''Place'' ''A physical or virtual place relevant to the user''
        [''name'', ''address'', ''url''] ''Place'',
      core_entity ''Message'' (''A communication that contributes to the user'' @ [CHR 0x27] @ ''s context'')
        [''text'', ''sent_at'', ''channel'', ''subject''] ''Message'',
      (core_entity ''SoftwareApplication'' ''An App reference, including where App-private runtime data is kept''
        [''name'', ''app_id'', ''description'', ''data_uri'', ''data_summary''] ''SoftwareApplication'')
        \<lparr>sc_name := ''Software Application''\<rparr>]"

section \<open>Definitions of properties\<close>

fun check_property :: "string \<Rightarrow> string \<times> json \<Rightarrow> (string \<times> string) result" where
  "check_property entity (key, value) =
     (if strip key = []
      then Inl (ValueError (''Ontology entity '' @ quoted entity @ '' has an invalid property name''))
      else (case value of
          JStr ty \<Rightarrow>
            if ty \<in> set ALLOWED_PROPERTY_TYPES then Inr (key, ty)
            else Inl (ValueError (''Ontology entity '' @ quoted entity @ '' property '' @ quoted key
                   @ '' has unsupported type '' @ quoted ty))
        | JArr _ \<Rightarrow> Inl (TypeError ''unhashable type'')
        | JObj _ \<Rightarrow> Inl (TypeError ''unhashable type'')
        | v \<Rightarrow> Inl (ValueError (''Ontology entity '' @ quoted entity @ '' property '' @ quoted key
                   @ '' has unsupported type '' @ quoted (py_str v)))))"

text \<open>The first error of a list of checks, or all values.\<close>

fun check_all :: "('a \<Rightarrow> 'e + 'b) \<Rightarrow> 'a list \<Rightarrow> 'e + 'b list" where
  "check_all f [] = Inr []"
| "check_all f (x # xs) =
     (case f x of Inl e \<Rightarrow> Inl e
      | Inr y \<Rightarrow> (case check_all f xs of Inl e \<Rightarrow> Inl e | Inr ys \<Rightarrow> Inr (y # ys)))"

definition validate_property_definition :: "string \<Rightarrow> json \<Rightarrow> (string \<times> string) list result" where
  "validate_property_definition entity properties =
     (case properties of
        JObj kvs \<Rightarrow> check_all (check_property entity) kvs
      | _ \<Rightarrow> Inl (ValueError (''Ontology entity '' @ quoted entity @ '' properties must be an object'')))"

text \<open>\<^verbatim>\<open>list(dict.fromkeys(xs))\<close> keeps the first of equal items.\<close>

fun first_occurrences :: "'a list \<Rightarrow> 'a list" where
  "first_occurrences [] = []"
| "first_occurrences (x # xs) = x # filter (\<lambda>y. y \<noteq> x) (first_occurrences xs)"

definition validate_correspondences :: "string \<Rightarrow> json \<Rightarrow> string list result" where
  "validate_correspondences entity value =
     (case value of
        JNull \<Rightarrow> Inr []
      | JArr xs \<Rightarrow>
          if list_all (\<lambda>x. case x of JStr s \<Rightarrow> strip s \<noteq> [] | _ \<Rightarrow> False) xs
          then Inr (first_occurrences (map (\<lambda>x. case x of JStr s \<Rightarrow> strip s | _ \<Rightarrow> []) xs))
          else Inl (ValueError (''Ontology entity '' @ quoted entity
                 @ '' equivalent_to must be an array of non-empty IRIs''))
      | _ \<Rightarrow> Inl (ValueError (''Ontology entity '' @ quoted entity
                 @ '' equivalent_to must be an array of non-empty IRIs'')))"

section \<open>Coercion\<close>

definition truncate :: "pyfloat \<Rightarrow> int" where
  "truncate x = (if x < 0 then - \<lfloor>- x\<rfloor> else \<lfloor>x\<rfloor>)"

fun to_int :: "json \<Rightarrow> int option" where
  "to_int (JInt n) = Some n"
| "to_int (JBool b) = Some (if b then 1 else 0)"
| "to_int (JFloat x) = Some (truncate x)"
| "to_int (JStr s) = parse_int s"
| "to_int _ = None"

fun to_float :: "json \<Rightarrow> pyfloat option" where
  "to_float (JInt n) = Some (of_int n)"
| "to_float (JBool b) = Some (if b then 1 else 0)"
| "to_float (JFloat x) = Some x"
| "to_float (JStr s) = parse_float s"
| "to_float _ = None"

definition to_bool :: "json \<Rightarrow> bool option" where
  "to_bool v = (case v of JBool b \<Rightarrow> Some b
     | _ \<Rightarrow> if lower (py_str v) \<in> {''true'', ''1'', ''yes''} then Some True
           else if lower (py_str v) \<in> {''false'', ''0'', ''no''} then Some False else None)"

definition property_error :: "string \<Rightarrow> string \<Rightarrow> string \<Rightarrow> py_error" where
  "property_error entity key what =
     ValueError (''Property '' @ quoted key @ '' on ontology entity '' @ quoted entity @ what)"

definition coerce_value :: "string \<Rightarrow> string \<Rightarrow> string \<Rightarrow> json \<Rightarrow> json result" where
  "coerce_value entity key expected v =
     (if expected = ''string'' then Inr (if is_str v then v else JStr (py_str v))
      else if expected = ''integer'' then
        (case to_int v of Some n \<Rightarrow> Inr (JInt n) | None \<Rightarrow> Inl (property_error entity key '' must be an integer''))
      else if expected = ''number'' then
        (case to_float v of Some x \<Rightarrow> Inr (JFloat x) | None \<Rightarrow> Inl (property_error entity key '' must be a number''))
      else if expected = ''boolean'' then
        (case to_bool v of Some b \<Rightarrow> Inr (JBool b) | None \<Rightarrow> Inl (property_error entity key '' must be a boolean''))
      else Inr v)"

definition schema_properties :: "entity_schema \<Rightarrow> string \<Rightarrow> string option" where
  "schema_properties sch key =
     (case map_of (sc_properties sch) key of Some ty \<Rightarrow> Some ty | None \<Rightarrow> map_of SYSTEM_PROPERTIES key)"

text \<open>The first of the unknown keys in the order of text.\<close>

definition unknown_properties :: "entity_schema \<Rightarrow> (string \<times> json) list \<Rightarrow> string list" where
  "unknown_properties sch props =
     order_by str_less (filter (\<lambda>k. schema_properties sch k = None) (map fst props))"

definition coerce_item :: "entity_schema \<Rightarrow> string \<times> json \<Rightarrow> (string \<times> json) result" where
  "coerce_item sch kv =
     map_sum id (Pair (fst kv)) (coerce_value (sc_id sch) (fst kv) (the (schema_properties sch (fst kv))) (snd kv))"

definition coerce_entity_properties :: "entity_schema \<Rightarrow> (string \<times> json) list \<Rightarrow> (string \<times> json) list result" where
  "coerce_entity_properties sch props =
     (if sc_ontology_id sch \<noteq> ONTOLOGY_ID
      then Inl (ValueError (''Entity '' @ quoted (sc_id sch) @ '' is not registered in ontology '' @ quoted ONTOLOGY_ID))
      else if sc_abstract sch
      then Inl (ValueError (''Ontology entity '' @ quoted (sc_id sch) @ '' is abstract and cannot classify records''))
      else if sc_data_scope sch \<noteq> USER_CONTEXT_SCOPE
      then Inl (ValueError (''Ontology entity '' @ quoted (sc_id sch) @ '' is not user-context data''))
      else (case unknown_properties sch props of
          k # _ \<Rightarrow> Inl (ValueError (''Unknown property '' @ quoted k @ '' on ontology entity ''
                 @ quoted (sc_id sch) @ ''; grow the ontology first''))
        | [] \<Rightarrow> check_all (coerce_item sch) props))"

section \<open>What coercion achieves\<close>

lemma check_all_Inr:
  "check_all f xs = Inr ys \<Longrightarrow> length ys = length xs \<and> (\<forall>i < length xs. f (xs ! i) = Inr (ys ! i))"
proof (induction xs arbitrary: ys)
  case (Cons x xs)
  then obtain y zs where "f x = Inr y" "check_all f xs = Inr zs" "ys = y # zs"
    by (auto split: sum.splits)
  with Cons.IH[of zs] show ?case by (auto simp: nth_Cons split: nat.splits)
qed simp

lemma check_all_set:
  "check_all f xs = Inr ys \<Longrightarrow> y \<in> set ys \<Longrightarrow> \<exists>x \<in> set xs. f x = Inr y"
  using check_all_Inr[of f xs ys] by (fastforce simp: in_set_conv_nth)

lemma check_all_map:
  "check_all f xs = Inr ys \<Longrightarrow> (\<And>x y. f x = Inr y \<Longrightarrow> g y = h x) \<Longrightarrow> map g ys = map h xs"
  using check_all_Inr[of f xs ys] by (auto simp: list_eq_iff_nth_eq)

lemma check_all_fix:
  "(\<And>y. y \<in> set ys \<Longrightarrow> f y = Inr y) \<Longrightarrow> check_all f ys = Inr ys"
  by (induction ys) auto

text \<open>A value has the JSON type its property declares.\<close>

fun has_type :: "string \<Rightarrow> json \<Rightarrow> bool" where
  "has_type ty v =
     (if ty = ''string'' then is_str v
      else if ty = ''integer'' then (\<exists>n. v = JInt n)
      else if ty = ''number'' then (\<exists>x. v = JFloat x)
      else if ty = ''boolean'' then (\<exists>b. v = JBool b) else True)"

lemma coerce_value_type: "coerce_value entity key ty v = Inr w \<Longrightarrow> has_type ty w"
  by (auto simp: coerce_value_def split: if_splits option.splits)

lemma coerce_value_id: "has_type ty v \<Longrightarrow> coerce_value entity key ty v = Inr v"
  by (auto simp: coerce_value_def to_bool_def split: if_splits)

definition well_typed :: "entity_schema \<Rightarrow> (string \<times> json) list \<Rightarrow> bool" where
  "well_typed sch props \<longleftrightarrow>
     list_all (\<lambda>kv. case schema_properties sch (fst kv) of None \<Rightarrow> False | Some ty \<Rightarrow> has_type ty (snd kv)) props"

lemma unknown_properties_Nil:
  "unknown_properties sch props = [] \<longleftrightarrow> (\<forall>kv \<in> set props. schema_properties sch (fst kv) \<noteq> None)"
proof -
  have "unknown_properties sch props = [] \<longleftrightarrow> set (unknown_properties sch props) = {}" by simp
  also have "\<dots> \<longleftrightarrow> (\<forall>kv \<in> set props. schema_properties sch (fst kv) \<noteq> None)"
    by (auto simp: unknown_properties_def)
  finally show ?thesis .
qed

definition usable_schema :: "entity_schema \<Rightarrow> bool" where
  "usable_schema sch \<longleftrightarrow> sc_ontology_id sch = ONTOLOGY_ID \<and> \<not> sc_abstract sch \<and>
     sc_data_scope sch = USER_CONTEXT_SCOPE"

lemma coerce_Inr:
  "coerce_entity_properties sch props = Inr props' \<longleftrightarrow>
     usable_schema sch \<and> unknown_properties sch props = [] \<and> check_all (coerce_item sch) props = Inr props'"
  by (auto simp: coerce_entity_properties_def usable_schema_def split: list.splits)

lemma coerce_item_Inr:
  "coerce_item sch kv = Inr kv' \<longleftrightarrow>
     fst kv' = fst kv \<and> coerce_value (sc_id sch) (fst kv) (the (schema_properties sch (fst kv))) (snd kv) = Inr (snd kv')"
  by (cases kv') (auto simp: coerce_item_def map_sum_def split: sum.splits)

lemma coerce_keys: "coerce_entity_properties sch props = Inr props' \<Longrightarrow> map fst props' = map fst props"
  by (auto simp: coerce_Inr coerce_item_Inr intro: check_all_map)

lemma coerce_well_typed:
  assumes "coerce_entity_properties sch props = Inr props'"
  shows "usable_schema sch \<and> well_typed sch props'"
proof -
  have "case schema_properties sch (fst kv) of None \<Rightarrow> False | Some ty \<Rightarrow> has_type ty (snd kv)"
    if kv: "kv \<in> set props'" for kv
  proof -
    have c: "check_all (coerce_item sch) props = Inr props'" using assms by (simp add: coerce_Inr)
    obtain kv0 where "kv0 \<in> set props" "coerce_item sch kv0 = Inr kv"
      using check_all_set[OF c kv] by blast
    moreover have "schema_properties sch (fst kv0) \<noteq> None"
      using assms \<open>kv0 \<in> set props\<close> by (simp add: coerce_Inr unknown_properties_Nil)
    ultimately show ?thesis by (auto simp: coerce_item_Inr dest: coerce_value_type)
  qed
  with assms show ?thesis by (auto simp: coerce_Inr well_typed_def list_all_iff)
qed

lemma coerce_id:
  assumes "usable_schema sch" "well_typed sch props"
  shows "coerce_entity_properties sch props = Inr props"
proof -
  have "coerce_item sch kv = Inr kv" if "kv \<in> set props" for kv
    using that assms(2) by (auto simp: coerce_item_Inr well_typed_def list_all_iff coerce_value_id split: option.splits)
  then have "check_all (coerce_item sch) props = Inr props" by (intro check_all_fix)
  moreover have "unknown_properties sch props = []"
    using assms(2) by (auto simp: unknown_properties_Nil well_typed_def list_all_iff split: option.splits)
  ultimately show ?thesis using assms(1) by (simp add: coerce_Inr)
qed

text \<open>
  Property C39 (coercion): coercion stores what it validates. Properties that a schema accepts come back under the
  same keys, each with the JSON type its entity declares, and coercing what came back by the same schema accepts it
  and changes nothing. Floats are rationals here, so the overflow of a huge integer in a number field is left out.
\<close>

theorem coercion_is_idempotent:
  assumes "coerce_entity_properties sch props = Inr stored"
  shows "map fst stored = map fst props \<and> well_typed sch stored \<and>
     coerce_entity_properties sch stored = Inr stored"
proof -
  have t: "usable_schema sch" "well_typed sch stored" using coerce_well_typed[OF assms] by simp_all
  show ?thesis using coerce_keys[OF assms] t coerce_id[OF t] by blast
qed

lemma coercion_is_idempotent_witness:
  "well_typed (core_entity ''Task'' [] [''title''] []) [(''title'', JStr ''True'')]"
proof -
  have "coerce_entity_properties (core_entity ''Task'' [] [''title''] []) [(''title'', JBool True)] =
      Inr [(''title'', JStr ''True'')]"
    by (simp add: coerce_Inr usable_schema_def core_entity_def ONTOLOGY_ID_def USER_CONTEXT_SCOPE_def
        unknown_properties_Nil schema_properties_def coerce_item_def coerce_value_def)
  from coercion_is_idempotent[OF this] show ?thesis by simp
qed

end
