(* ===== verification/Graph_Store.thy ===== *)
theory Graph_Store
  imports Ontology_Types
begin

text \<open>
  The SQLite store of the knowledge graph (\<^verbatim>\<open>GraphDatabase\<close> of \<^verbatim>\<open>backend/graph_db.py\<close>): nodes and
  edges, the atomic application of a batch of actions with its reverse actions, the compensation
  guard, the preflight of a batch, and the history of mutation tickets. Actions are JSON objects,
  as the callers send them. Arguments that stand for the environment: \<open>fresh\<close>, the identities
  \<^verbatim>\<open>uuid4()\<close> gives to created nodes by position in the batch; \<open>now\<close>, the current time; \<open>digest\<close>, the
  hash of the canonical text of a batch and its guard.
\<close>

section \<open>Tables\<close>

record node_row =
  gn_id :: string
  gn_type :: string
  gn_props :: "(string \<times> json) list"
  gn_namespace :: "json option"
  gn_created_at :: string

record edge_row =
  ge_from :: string
  ge_to :: string
  ge_type :: string
  ge_props :: json
  ge_created_at :: string

record ticket_row =
  gt_id :: string
  gt_session_id :: string
  gt_forward :: "json list"
  gt_reverse :: "json list"
  gt_snapshot :: json
  gt_pinned :: bool
  gt_created_at :: string

record effect_row =
  gx_key :: string
  gx_hash :: string
  gx_result :: json

record graph =
  gd_schemas :: "entity_schema list"
  gd_nodes :: "node_row list"
  gd_edges :: "edge_row list"
  gd_history :: "ticket_row list"
  gd_effects :: "effect_row list"

definition edge_key :: "edge_row \<Rightarrow> string \<times> string \<times> string" where
  "edge_key e = (ge_from e, ge_to e, ge_type e)"

definition find_node :: "graph \<Rightarrow> string \<Rightarrow> node_row option" where
  "find_node g nid = lookup_by gn_id nid (gd_nodes g)"

definition find_edge :: "graph \<Rightarrow> string \<times> string \<times> string \<Rightarrow> edge_row option" where
  "find_edge g k = lookup_by edge_key k (gd_edges g)"

definition find_schema :: "graph \<Rightarrow> string \<Rightarrow> entity_schema option" where
  "find_schema g ty = lookup_by sc_id ty (gd_schemas g)"

text \<open>\<^verbatim>\<open>INSERT ... ON CONFLICT(key) DO UPDATE\<close>: \<open>merge\<close> says which columns the update takes.\<close>

definition upsert :: "('a \<Rightarrow> 'k) \<Rightarrow> ('a \<Rightarrow> 'a \<Rightarrow> 'a) \<Rightarrow> 'a \<Rightarrow> 'a list \<Rightarrow> 'a list" where
  "upsert key merge x xs =
     (if lookup_by key (key x) xs = None then xs @ [x]
      else update_where (\<lambda>y. key y = key x) (\<lambda>y. merge y x) xs)"

definition put_node :: "node_row \<Rightarrow> graph \<Rightarrow> graph" where
  "put_node n g = g\<lparr>gd_nodes := upsert gn_id
     (\<lambda>old new. new\<lparr>gn_created_at := gn_created_at old\<rparr>) n (gd_nodes g)\<rparr>"

definition put_edge :: "edge_row \<Rightarrow> graph \<Rightarrow> graph" where
  "put_edge e g = g\<lparr>gd_edges := upsert edge_key (\<lambda>old new. old\<lparr>ge_props := ge_props new\<rparr>) e (gd_edges g)\<rparr>"

definition incident :: "string \<Rightarrow> edge_row \<Rightarrow> bool" where
  "incident nid e \<longleftrightarrow> ge_from e = nid \<or> ge_to e = nid"

definition remove_node :: "string \<Rightarrow> graph \<Rightarrow> graph" where
  "remove_node nid g = g\<lparr>gd_edges := filter (\<lambda>e. \<not> incident nid e) (gd_edges g),
     gd_nodes := filter (\<lambda>n. gn_id n \<noteq> nid) (gd_nodes g)\<rparr>"

definition remove_edge :: "string \<times> string \<times> string \<Rightarrow> graph \<Rightarrow> graph" where
  "remove_edge k g = g\<lparr>gd_edges := filter (\<lambda>e. edge_key e \<noteq> k) (gd_edges g)\<rparr>"

section \<open>Reading an action\<close>

definition required_text :: "json \<Rightarrow> string \<Rightarrow> string result" where
  "required_text action field =
     (case dget action field of
        Some (JStr s) \<Rightarrow> if strip s = [] then Inl (ValueError (''Graph mutation field '' @ quoted field
              @ '' must be a non-empty string'')) else Inr s
      | _ \<Rightarrow> Inl (ValueError (''Graph mutation field '' @ quoted field @ '' must be a non-empty string'')))"

text \<open>\<^verbatim>\<open>action.get("properties") or {}\<close>, refused unless it is an object.\<close>

definition action_props :: "json \<Rightarrow> string \<Rightarrow> (string \<times> json) list result" where
  "action_props action message =
     (case dget action ''properties'' of
        Some (JObj kvs) \<Rightarrow> Inr kvs
      | Some v \<Rightarrow> if truthy v then Inl (ValueError message) else Inr []
      | None \<Rightarrow> Inr [])"

definition validate_properties_in_conn :: "graph \<Rightarrow> string \<Rightarrow> (string \<times> json) list \<Rightarrow> (string \<times> json) list result" where
  "validate_properties_in_conn g ty props =
     (case find_schema g ty of
        None \<Rightarrow> Inl (ValueError (''Entity '' @ quoted ty @ '' is not registered in ontology '' @ quoted ONTOLOGY_ID))
      | Some sch \<Rightarrow> coerce_entity_properties sch props)"

text \<open>\<^verbatim>\<open>{**a, **b}\<close>.\<close>

definition dict_merge :: "(string \<times> json) list \<Rightarrow> (string \<times> json) list \<Rightarrow> (string \<times> json) list" where
  "dict_merge a b = fold (\<lambda>kv d. AList.update (fst kv) (snd kv) d) b a"

section \<open>The records an action leaves behind\<close>

definition node_record :: "string \<Rightarrow> string \<Rightarrow> string \<Rightarrow> (string \<times> json) list \<Rightarrow> json" where
  "node_record kind nid ty props = JObj [(''action'', JStr kind), (''id'', JStr nid),
     (''type'', JStr ty), (''properties'', JObj props)]"

definition node_id_record :: "string \<Rightarrow> string \<Rightarrow> json" where
  "node_id_record kind nid = JObj [(''action'', JStr kind), (''id'', JStr nid)]"

definition edge_fields :: "string \<times> string \<times> string \<Rightarrow> (string \<times> json) list" where
  "edge_fields k = [(''from_id'', JStr (fst k)), (''to_id'', JStr (fst (snd k))), (''type'', JStr (snd (snd k)))]"

definition edge_json :: "edge_row \<Rightarrow> json" where
  "edge_json e = JObj (edge_fields (edge_key e) @ [(''properties'', ge_props e)])"

definition edge_record :: "string \<Rightarrow> string \<times> string \<times> string \<Rightarrow> json" where
  "edge_record kind k = JObj ((''action'', JStr kind) # edge_fields k)"

definition edge_props_record :: "string \<Rightarrow> string \<times> string \<times> string \<Rightarrow> json \<Rightarrow> json" where
  "edge_props_record kind k props =
     JObj ((''action'', JStr kind) # edge_fields k @ [(''properties'', props)])"

definition edge_text :: "string \<times> string \<times> string \<Rightarrow> string" where
  "edge_text k = fst k @ [CHR 0x1F] @ fst (snd k) @ [CHR 0x1F] @ snd (snd k)"

text \<open>The rows as the snapshot keeps them.\<close>

definition node_snapshot :: "node_row \<Rightarrow> json" where
  "node_snapshot n = JObj [(''id'', JStr (gn_id n)), (''type'', JStr (gn_type n)),
     (''properties'', JObj (gn_props n)), (''namespace'', json_or_null (gn_namespace n)),
     (''created_at'', JStr (gn_created_at n))]"

definition edge_snapshot :: "edge_row \<Rightarrow> json" where
  "edge_snapshot e = JObj (edge_fields (edge_key e) @
     [(''properties'', ge_props e), (''created_at'', JStr (ge_created_at e))])"

text \<open>The state of a batch: the graph, and what the commit returns beside it.\<close>

record batch =
  bt_graph :: graph
  bt_actions :: "json list"
  bt_reverse :: "json list"
  bt_nodes :: "(string \<times> json) list"
  bt_edges :: "(string \<times> json) list"

definition emit :: "graph \<Rightarrow> json \<Rightarrow> json \<Rightarrow> batch \<Rightarrow> batch" where
  "emit g action undo b = b\<lparr>bt_graph := g, bt_actions := bt_actions b @ [action],
     bt_reverse := bt_reverse b @ [undo]\<rparr>"

definition snap_node :: "node_row \<Rightarrow> batch \<Rightarrow> batch" where
  "snap_node n b = b\<lparr>bt_nodes := AList.update (gn_id n) (node_snapshot n) (bt_nodes b)\<rparr>"

definition snap_edge :: "edge_row \<Rightarrow> batch \<Rightarrow> batch" where
  "snap_edge e b = b\<lparr>bt_edges := AList.update (edge_text (edge_key e)) (edge_snapshot e) (bt_edges b)\<rparr>"

section \<open>One action\<close>

definition action_id :: "string \<Rightarrow> json \<Rightarrow> string result" where
  "action_id fresh action =
     (case dget action ''id'' of
        Some v \<Rightarrow> if truthy v
          then (case v of JStr s \<Rightarrow> Inr s | _ \<Rightarrow> Inl (ValueError ''create_node.id must be a string''))
          else Inr fresh
      | None \<Rightarrow> Inr fresh)"

definition action_type :: "json \<Rightarrow> string result" where
  "action_type action =
     (case dget action ''type'' of
        Some (JStr (c # cs)) \<Rightarrow> Inr (c # cs)
      | Some _ \<Rightarrow> Inl (ValueError ''create_node.type must be a string'')
      | None \<Rightarrow> Inr ''Generic'')"

text \<open>A node of an App takes the namespace of its id when its properties give none.\<close>

definition app_namespace :: "string \<Rightarrow> (string \<times> json) list \<Rightarrow> (string \<times> json) list" where
  "app_namespace nid props =
     (if \<not> truthy_opt (map_of props ''namespace'') \<and> starts_with nid ''app:''
      then AList.update ''namespace'' (JStr (split_on (CHR '':'') nid ! 1)) props else props)"

definition new_node :: "string \<Rightarrow> string \<Rightarrow> string \<Rightarrow> (string \<times> json) list \<Rightarrow> node_row" where
  "new_node now nid ty props = \<lparr>gn_id = nid, gn_type = ty, gn_props = props,
     gn_namespace = map_of props ''namespace'', gn_created_at = now\<rparr>"

definition replace_record :: "node_row \<Rightarrow> json" where
  "replace_record n = node_record ''replace_node'' (gn_id n) (gn_type n) (gn_props n)"

text \<open>The reverse of writing a node: what was there, or its deletion.\<close>

definition undo_put :: "string \<Rightarrow> node_row option \<Rightarrow> json" where
  "undo_put nid old = (case old of Some n \<Rightarrow> replace_record n | None \<Rightarrow> node_id_record ''delete_node'' nid)"

definition do_create_node :: "string \<Rightarrow> string \<Rightarrow> json \<Rightarrow> batch \<Rightarrow> batch result" where
  "do_create_node now fresh action b =
     (case action_id fresh action of Inl e \<Rightarrow> Inl e | Inr nid \<Rightarrow>
     (case action_type action of Inl e \<Rightarrow> Inl e | Inr ty \<Rightarrow>
     (case action_props action ''create_node.properties must be an object'' of Inl e \<Rightarrow> Inl e | Inr props \<Rightarrow>
        (let g = bt_graph b; old = find_node g nid;
             b1 = (case old of Some n \<Rightarrow> snap_node n b | None \<Rightarrow> b)
         in case validate_properties_in_conn g ty props of Inl e \<Rightarrow> Inl e | Inr v \<Rightarrow>
              (let stored = app_namespace nid v
               in Inr (emit (put_node (new_node now nid ty stored) g)
                     (node_record ''create_node'' nid ty stored) (undo_put nid old) b1))))))"

text \<open>\<^verbatim>\<open>snapshot_before["nodes"].setdefault(node_id, old_node)\<close>.\<close>

definition snap_node_once :: "node_row \<Rightarrow> batch \<Rightarrow> batch" where
  "snap_node_once n b = (if map_of (bt_nodes b) (gn_id n) = None then snap_node n b else b)"

definition missing_node :: "string \<Rightarrow> py_error" where
  "missing_node nid = ValueError (''Node with ID '' @ quoted nid @ '' does not exist'')"

text \<open>\<open>keep\<close> says whether the stored properties are merged into (update) or dropped (replace).\<close>

definition do_update_node :: "string \<Rightarrow> bool \<Rightarrow> json \<Rightarrow> batch \<Rightarrow> batch result" where
  "do_update_node kind keep action b =
     (case required_text action ''id'' of Inl e \<Rightarrow> Inl e | Inr nid \<Rightarrow>
        (let g = bt_graph b
         in case find_node g nid of None \<Rightarrow> Inl (missing_node nid) | Some old \<Rightarrow>
            (case action_props action (kind @ ''.properties must be an object'') of Inl e \<Rightarrow> Inl e | Inr incoming \<Rightarrow>
               (let props = (if keep then dict_merge (gn_props old) incoming else incoming);
                    target = (case dget action ''type'' of None \<Rightarrow> JStr (gn_type old) | Some v \<Rightarrow> v)
                in case target of
                     JStr ty \<Rightarrow>
                       (case validate_properties_in_conn g ty props of Inl e \<Rightarrow> Inl e | Inr v \<Rightarrow>
                          Inr (emit (g\<lparr>gd_nodes := update_where (\<lambda>n. gn_id n = nid)
                                 (\<lambda>n. n\<lparr>gn_type := ty, gn_props := v, gn_namespace := map_of v ''namespace''\<rparr>)
                                 (gd_nodes g)\<rparr>)
                               (node_record kind nid ty v) (replace_record old) (snap_node_once old b)))
                   | v \<Rightarrow> Inl (ValueError (''Entity '' @ quoted (py_str v) @ '' is not registered in ontology ''
                              @ quoted ONTOLOGY_ID))))))"

definition restore_record :: "node_row \<Rightarrow> edge_row list \<Rightarrow> json" where
  "restore_record n es = JObj [(''action'', JStr ''restore_node''), (''id'', JStr (gn_id n)),
     (''type'', JStr (gn_type n)), (''properties'', JObj (gn_props n)), (''edges'', JArr (map edge_json es))]"

definition do_delete_node :: "json \<Rightarrow> batch \<Rightarrow> batch result" where
  "do_delete_node action b =
     (case required_text action ''id'' of Inl e \<Rightarrow> Inl e | Inr nid \<Rightarrow>
        (let g = bt_graph b
         in case find_node g nid of None \<Rightarrow> Inl (missing_node nid) | Some old \<Rightarrow>
            (let es = filter (incident nid) (gd_edges g);
                 b1 = b\<lparr>bt_nodes := AList.update nid (node_snapshot old) (bt_nodes b),
                        bt_edges := fold (\<lambda>e. AList.update (edge_text (edge_key e)) (edge_json e)) es (bt_edges b)\<rparr>
             in Inr (emit (remove_node nid g) (node_id_record ''delete_node'' nid) (restore_record old es) b1))))"

section \<open>Restoring a node with its edges\<close>

definition edge_target :: "json \<Rightarrow> (string \<times> string \<times> string) result" where
  "edge_target j =
     (if \<not> is_dict j then Inl (AttributeError ''get'')
      else case required_text j ''from_id'' of Inl e \<Rightarrow> Inl e | Inr f \<Rightarrow>
      (case required_text j ''to_id'' of Inl e \<Rightarrow> Inl e | Inr t \<Rightarrow>
      (case required_text j ''type'' of Inl e \<Rightarrow> Inl e | Inr ty \<Rightarrow> Inr (f, t, ty))))"

definition or_empty_object :: "json option \<Rightarrow> json" where
  "or_empty_object v = (case v of Some j \<Rightarrow> if truthy j then j else JObj [] | None \<Rightarrow> JObj [])"

definition new_edge :: "string \<Rightarrow> string \<times> string \<times> string \<Rightarrow> json \<Rightarrow> edge_row" where
  "new_edge now k props = \<lparr>ge_from = fst k, ge_to = fst (snd k), ge_type = snd (snd k), ge_props = props,
     ge_created_at = now\<rparr>"

fun restore_edges :: "string \<Rightarrow> json list \<Rightarrow> graph \<Rightarrow> graph result" where
  "restore_edges now [] g = Inr g"
| "restore_edges now (j # js) g =
     (case edge_target j of Inl e \<Rightarrow> Inl e | Inr k \<Rightarrow>
        if find_node g (fst k) = None \<or> find_node g (fst (snd k)) = None
        then Inl (ValueError ''Cannot restore an edge whose endpoint is missing'')
        else restore_edges now js (put_edge (new_edge now k (or_empty_object (dget j ''properties''))) g))"

definition do_restore_node :: "string \<Rightarrow> json \<Rightarrow> batch \<Rightarrow> batch result" where
  "do_restore_node now action b =
     (case required_text action ''id'' of Inl e \<Rightarrow> Inl e | Inr nid \<Rightarrow>
     (case required_text action ''type'' of Inl e \<Rightarrow> Inl e | Inr ty \<Rightarrow>
     (case (or_empty_object (dget action ''properties''),
            case dget action ''edges'' of Some j \<Rightarrow> if truthy j then j else JArr [] | None \<Rightarrow> JArr []) of
        (JObj props, JArr es) \<Rightarrow>
          (let g = bt_graph b
           in case validate_properties_in_conn g ty props of Inl e \<Rightarrow> Inl e | Inr v \<Rightarrow>
              (case restore_edges now es (put_node (new_node now nid ty v) g) of Inl e \<Rightarrow> Inl e | Inr g' \<Rightarrow>
                 Inr (emit g' action (undo_put nid (find_node g nid)) b)))
      | _ \<Rightarrow> Inl (ValueError ''restore_node payload is malformed''))))"

section \<open>Edges\<close>

definition edge_action_target :: "json \<Rightarrow> (string \<times> string \<times> string) result" where
  "edge_action_target action =
     (case required_text action ''from_id'' of Inl e \<Rightarrow> Inl e | Inr f \<Rightarrow>
     (case required_text action ''to_id'' of Inl e \<Rightarrow> Inl e | Inr t \<Rightarrow>
     (case required_text action ''type'' of Inl e \<Rightarrow> Inl e | Inr ty \<Rightarrow> Inr (f, t, ty))))"

definition edge_message :: "string \<times> string \<times> string \<Rightarrow> string" where
  "edge_message k = ''Edge '' @ quoted (fst k @ ''->'' @ fst (snd k) @ '':'' @ snd (snd k)) @ '' does not exist''"

definition do_create_edge :: "string \<Rightarrow> json \<Rightarrow> batch \<Rightarrow> batch result" where
  "do_create_edge now action b =
     (case edge_action_target action of Inl e \<Rightarrow> Inl e | Inr k \<Rightarrow>
        (let g = bt_graph b; old = find_edge g k
         in if find_node g (fst k) = None
            then Inl (ValueError (''Source node '' @ quoted (fst k) @ '' does not exist''))
            else if find_node g (fst (snd k)) = None
            then Inl (ValueError (''Target node '' @ quoted (fst (snd k)) @ '' does not exist''))
            else (case action_props action ''create_edge.properties must be an object'' of
                Inl e \<Rightarrow> Inl e
              | Inr props \<Rightarrow>
                  Inr (emit (put_edge (new_edge now k (JObj props)) g)
                    (edge_props_record ''create_edge'' k (JObj props))
                    (case old of Some e \<Rightarrow> edge_props_record ''create_edge'' k (ge_props e)
                     | None \<Rightarrow> edge_record ''delete_edge'' k)
                    (case old of Some e \<Rightarrow> snap_edge e b | None \<Rightarrow> b)))))"

definition do_delete_edge :: "json \<Rightarrow> batch \<Rightarrow> batch result" where
  "do_delete_edge action b =
     (case edge_action_target action of Inl e \<Rightarrow> Inl e | Inr k \<Rightarrow>
        (let g = bt_graph b
         in case find_edge g k of
              None \<Rightarrow> Inl (ValueError (edge_message k))
            | Some e \<Rightarrow>
                Inr (emit (remove_edge k g) (edge_record ''delete_edge'' k)
                  (edge_props_record ''create_edge'' k (ge_props e)) (snap_edge e b))))"

section \<open>A batch\<close>

definition step_action :: "string \<Rightarrow> string \<Rightarrow> json \<Rightarrow> batch \<Rightarrow> batch result" where
  "step_action now fresh action b =
     (case required_text action ''action'' of Inl e \<Rightarrow> Inl e | Inr kind \<Rightarrow>
        if kind = ''create_node'' then do_create_node now fresh action b
        else if kind = ''update_node_property'' then do_update_node kind True action b
        else if kind = ''replace_node'' then do_update_node kind False action b
        else if kind = ''delete_node'' then do_delete_node action b
        else if kind = ''restore_node'' then do_restore_node now action b
        else if kind = ''create_edge'' then do_create_edge now action b
        else if kind = ''delete_edge'' then do_delete_edge action b
        else Inl (ValueError (''Unsupported graph mutation action: '' @ kind)))"

text \<open>The identity of a node created without one is the one for its position in the batch.\<close>

fun run_actions :: "string \<Rightarrow> (nat \<Rightarrow> string) \<Rightarrow> nat \<Rightarrow> json list \<Rightarrow> batch \<Rightarrow> batch result" where
  "run_actions now fresh i [] b = Inr b"
| "run_actions now fresh i (a # as) b =
     (case step_action now (fresh i) a b of Inl e \<Rightarrow> Inl e | Inr b' \<Rightarrow> run_actions now fresh (Suc i) as b')"

definition start_batch :: "graph \<Rightarrow> batch" where
  "start_batch g = \<lparr>bt_graph = g, bt_actions = [], bt_reverse = [], bt_nodes = [], bt_edges = []\<rparr>"

end
