(* ===== verification/Graph_Commit.thy ===== *)
theory Graph_Commit
  imports Graph_Store
begin

text \<open>
  The commit of a batch (\<^verbatim>\<open>apply_actions_atomic\<close>) with its compensation guard, idempotency ledger and
  ticket; the direct operations on nodes, edges, schemas and tickets; and the preflight.
\<close>

section \<open>The compensation guard\<close>

definition compensation_conflict :: "string \<Rightarrow> py_error" where
  "compensation_conflict m = ValueError (''Graph compensation conflict: '' @ m)"

definition semantic_node :: "node_row \<Rightarrow> json" where
  "semantic_node n = JObj [(''id'', JStr (gn_id n)), (''type'', JStr (gn_type n)), (''properties'', JObj (gn_props n))]"

definition node_state :: "graph \<Rightarrow> string \<Rightarrow> json" where
  "node_state g nid = (case find_node g nid of None \<Rightarrow> JNull | Some n \<Rightarrow> semantic_node n)"

definition edge_state :: "graph \<Rightarrow> string \<times> string \<times> string \<Rightarrow> json" where
  "edge_state g k = (case find_edge g k of None \<Rightarrow> JNull | Some e \<Rightarrow> edge_json e)"

definition edge_before :: "edge_row \<Rightarrow> edge_row \<Rightarrow> bool" where
  "edge_before a b \<longleftrightarrow> str_less (ge_from a) (ge_from b) \<or> ge_from a = ge_from b \<and>
     (str_less (ge_to a) (ge_to b) \<or> ge_to a = ge_to b \<and> str_less (ge_type a) (ge_type b))"

definition incident_state :: "graph \<Rightarrow> string \<Rightarrow> json" where
  "incident_state g nid = JArr (map edge_json (order_by edge_before (filter (incident nid) (gd_edges g))))"

definition guard_edge :: "graph \<Rightarrow> string \<Rightarrow> (string \<times> json) result" where
  "guard_edge g key =
     (case split_on (CHR 0x1F) key of
        [f, t, ty] \<Rightarrow> Inr (key, edge_state g (f, t, ty))
      | _ \<Rightarrow> Inl (compensation_conflict ''invalid edge evidence''))"

definition guard_json :: "(string \<times> json) list \<Rightarrow> (string \<times> json) list \<Rightarrow> (string \<times> json) list \<Rightarrow> json" where
  "guard_json nodes edges incidents = JObj [(''version'', JInt 1), (''nodes'', JObj nodes),
     (''edges'', JObj edges), (''incident_edges'', JObj incidents)]"

definition read_compensation_guard :: "graph \<Rightarrow> json \<Rightarrow> json result" where
  "read_compensation_guard g reference =
     (case (dget reference ''version'', dget reference ''nodes'', dget reference ''edges'',
            dget reference ''incident_edges'') of
        (Some v, Some (JObj nodes), Some (JObj edges), Some (JObj incidents)) \<Rightarrow>
          if \<not> py_eq v (JInt 1) then Inl (compensation_conflict ''missing or invalid committed-state evidence'')
          else (case check_all (guard_edge g) (map fst edges) of
              Inl e \<Rightarrow> Inl e
            | Inr es \<Rightarrow> Inr (guard_json (map (\<lambda>kv. (fst kv, node_state g (fst kv))) nodes) es
                (map (\<lambda>kv. (fst kv, incident_state g (fst kv))) incidents)))
      | _ \<Rightarrow> Inl (compensation_conflict ''missing or invalid committed-state evidence''))"

definition kind_of :: "json \<Rightarrow> string" where
  "kind_of action = str_or_empty (dget action ''action'')"

definition touches_node :: "json \<Rightarrow> bool" where
  "touches_node action \<longleftrightarrow> kind_of action \<in> {''create_node'', ''update_node_property'', ''replace_node'',
     ''restore_node'', ''delete_node''}"

definition touches_edge :: "json \<Rightarrow> bool" where
  "touches_edge action \<longleftrightarrow> kind_of action \<in> {''create_edge'', ''delete_edge''}"

definition touched_nodes :: "json list \<Rightarrow> string list" where
  "touched_nodes actions =
     first_occurrences (map (\<lambda>a. str_or_empty (dget a ''id'')) (filter touches_node actions))"

definition touched_edges :: "json list \<Rightarrow> string list" where
  "touched_edges actions =
     first_occurrences (map (\<lambda>a. edge_text (str_or_empty (dget a ''from_id''), str_or_empty (dget a ''to_id''),
        str_or_empty (dget a ''type''))) (filter touches_edge actions))"

definition capture_compensation_guard :: "graph \<Rightarrow> json list \<Rightarrow> json result" where
  "capture_compensation_guard g actions =
     (let nodes = map (\<lambda>k. (k, JNull)) (touched_nodes actions);
          edges = map (\<lambda>k. (k, JNull)) (touched_edges actions)
      in read_compensation_guard g (guard_json nodes edges nodes))"

section \<open>The commit of a batch\<close>

record commit_request =
  cr_session_id :: "string option"
  cr_ticket_id :: "string option"
  cr_idempotency_key :: "string option"
  cr_expected_state :: "json option"

definition given :: "string option \<Rightarrow> bool" where
  "given v \<longleftrightarrow> v \<noteq> None \<and> v \<noteq> Some []"

definition check_expected :: "graph \<Rightarrow> json option \<Rightarrow> unit result" where
  "check_expected g expected =
     (case expected of
        None \<Rightarrow> Inr ()
      | Some ref \<Rightarrow>
          (case read_compensation_guard g ref of
             Inl e \<Rightarrow> Inl e
           | Inr now \<Rightarrow> if py_eq now ref then Inr ()
               else Inl (compensation_conflict ''nodes or edges changed after this effect committed'')))"

definition snapshot_json :: "batch \<Rightarrow> json" where
  "snapshot_json b = JObj [(''nodes'', JObj (bt_nodes b)), (''edges'', JObj (bt_edges b))]"

definition commit_ticket :: "string \<Rightarrow> commit_request \<Rightarrow> string option" where
  "commit_ticket new_ticket q =
     (if given (cr_ticket_id q) then cr_ticket_id q else if given (cr_session_id q) then Some new_ticket else None)"

definition effect_result :: "string option \<Rightarrow> batch \<Rightarrow> json \<Rightarrow> json" where
  "effect_result ticket b guard = JObj [(''ticket_id'', json_of_str ticket), (''actions'', JArr (bt_actions b)),
     (''reverse_actions'', JArr (rev (bt_reverse b))), (''snapshot_before'', snapshot_json b),
     (''compensation_guard'', guard)]"

definition new_ticket_row :: "string \<Rightarrow> string \<Rightarrow> string \<Rightarrow> batch \<Rightarrow> ticket_row" where
  "new_ticket_row now ticket session b = \<lparr>gt_id = ticket, gt_session_id = session,
     gt_forward = bt_actions b, gt_reverse = rev (bt_reverse b), gt_snapshot = snapshot_json b,
     gt_pinned = False, gt_created_at = now\<rparr>"

definition record_ticket :: "string \<Rightarrow> string option \<Rightarrow> commit_request \<Rightarrow> batch \<Rightarrow> graph result" where
  "record_ticket now ticket q b =
     (if given (cr_session_id q) \<and> given ticket
      then if lookup_by gt_id (the ticket) (gd_history (bt_graph b)) \<noteq> None
        then Inl (IntegrityError ''graph_mutation_history'')
        else Inr ((bt_graph b)\<lparr>gd_history := gd_history (bt_graph b) @
               [new_ticket_row now (the ticket) (the (cr_session_id q)) b]\<rparr>)
      else Inr (bt_graph b))"

definition finish_commit :: "string \<Rightarrow> string option \<Rightarrow> commit_request \<Rightarrow> string \<Rightarrow> batch \<Rightarrow> (graph \<times> json) result" where
  "finish_commit now ticket q input_hash b =
     (case record_ticket now ticket q b of Inl e \<Rightarrow> Inl e | Inr g \<Rightarrow>
     (case capture_compensation_guard g (bt_actions b) of Inl e \<Rightarrow> Inl e | Inr guard \<Rightarrow>
        (let res = effect_result ticket b guard
         in Inr (if given (cr_idempotency_key q)
              then g\<lparr>gd_effects := gd_effects g @
                     [\<lparr>gx_key = the (cr_idempotency_key q), gx_hash = input_hash, gx_result = res\<rparr>]\<rparr>
              else g, res))))"

definition apply_actions_tx ::
  "string \<Rightarrow> (nat \<Rightarrow> string) \<Rightarrow> string \<Rightarrow> (json list \<times> json option \<Rightarrow> string) \<Rightarrow> commit_request \<Rightarrow> json list \<Rightarrow>
   (graph, json) tx" where
  "apply_actions_tx now fresh new_ticket digest q actions g =
     (if actions = [] then Inl (ValueError ''Graph mutation must contain at least one action'')
      else if \<not> list_all is_dict actions then Inl (ValueError ''Every graph mutation action must be an object'')
      else
        let input_hash = digest (actions, cr_expected_state q);
            prior = (if given (cr_idempotency_key q)
              then lookup_by gx_key (the (cr_idempotency_key q)) (gd_effects g) else None)
        in (case prior of
              Some x \<Rightarrow>
                if gx_hash x \<noteq> input_hash
                then Inl (ValueError ''Graph idempotency key was reused with different actions'')
                else Inr (g, gx_result x)
            | None \<Rightarrow>
                (case check_expected g (cr_expected_state q) of Inl e \<Rightarrow> Inl e | Inr _ \<Rightarrow>
                (case run_actions now fresh 0 actions (start_batch g) of Inl e \<Rightarrow> Inl e | Inr b \<Rightarrow>
                   finish_commit now (commit_ticket new_ticket q) q input_hash b))))"

definition apply_actions_atomic ::
  "string \<Rightarrow> (nat \<Rightarrow> string) \<Rightarrow> string \<Rightarrow> (json list \<times> json option \<Rightarrow> string) \<Rightarrow> commit_request \<Rightarrow> json list \<Rightarrow>
   graph \<Rightarrow> graph \<times> json result" where
  "apply_actions_atomic now fresh new_ticket digest q actions =
     transact (apply_actions_tx now fresh new_ticket digest q actions)"

section \<open>Direct operations\<close>

definition graph_delete_node :: "string \<Rightarrow> graph \<Rightarrow> graph \<times> bool" where
  "graph_delete_node nid g = (remove_node nid g, find_node g nid \<noteq> None)"

definition graph_delete_edge :: "string \<times> string \<times> string \<Rightarrow> graph \<Rightarrow> graph \<times> bool" where
  "graph_delete_edge k g = (remove_edge k g, find_edge g k \<noteq> None)"

definition get_edges :: "graph \<Rightarrow> string \<Rightarrow> edge_row list" where
  "get_edges g nid = filter (incident nid) (gd_edges g)"

definition newer_node :: "node_row \<Rightarrow> node_row \<Rightarrow> bool" where
  "newer_node a b \<longleftrightarrow> str_less (gn_created_at b) (gn_created_at a) \<or>
     gn_created_at a = gn_created_at b \<and> str_less (gn_id a) (gn_id b)"

definition list_nodes :: "graph \<Rightarrow> string option \<Rightarrow> node_row list" where
  "list_nodes g ty = order_by newer_node
     (filter (\<lambda>n. case ty of None \<Rightarrow> True | Some t \<Rightarrow> gn_type n = t) (gd_nodes g))"

definition list_edges :: "graph \<Rightarrow> edge_row list" where
  "list_edges g = order_by edge_before (gd_edges g)"

definition graph_node_type :: "graph \<Rightarrow> string \<Rightarrow> string option" where
  "graph_node_type g nid =
     (case find_node g nid of Some n \<Rightarrow> if gn_type n = [] then None else Some (gn_type n) | None \<Rightarrow> None)"

section \<open>Tickets\<close>

definition record_mutation_history :: "ticket_row \<Rightarrow> graph \<Rightarrow> graph" where
  "record_mutation_history t g = g\<lparr>gd_history := upsert gt_id
     (\<lambda>old new. new\<lparr>gt_session_id := gt_session_id old, gt_created_at := gt_created_at old\<rparr>) t (gd_history g)\<rparr>"

definition pin_mutation_history :: "string \<Rightarrow> graph \<Rightarrow> graph \<times> bool" where
  "pin_mutation_history tid g =
     (g\<lparr>gd_history := update_where (\<lambda>t. gt_id t = tid) (\<lambda>t. t\<lparr>gt_pinned := True\<rparr>) (gd_history g)\<rparr>,
      lookup_by gt_id tid (gd_history g) \<noteq> None)"

definition load_mutation_history :: "graph \<Rightarrow> string \<Rightarrow> ticket_row option" where
  "load_mutation_history g tid = lookup_by gt_id tid (gd_history g)"

definition list_mutation_history :: "graph \<Rightarrow> string \<Rightarrow> ticket_row list" where
  "list_mutation_history g session =
     order_by (\<lambda>a b. str_less (gt_created_at b) (gt_created_at a))
       (filter (\<lambda>t. gt_session_id t = session) (gd_history g))"

end
