(* ===== verification/Graph_Content.thy ===== *)
theory Graph_Content
  imports Graph_Commit
begin

text \<open>
  The content of the graph (types and properties of nodes, properties of edges) and the invariant of
  its tables: every stored node is well typed under a registered schema, and every edge has endpoints.
\<close>

section \<open>Content\<close>

definition node_view :: "graph \<Rightarrow> string \<Rightarrow> (string \<times> (string \<times> json) list) option" where
  "node_view g nid = map_option (\<lambda>n. (gn_type n, gn_props n)) (find_node g nid)"

definition edge_view :: "graph \<Rightarrow> string \<times> string \<times> string \<Rightarrow> json option" where
  "edge_view g k = map_option ge_props (find_edge g k)"

definition same_content :: "graph \<Rightarrow> graph \<Rightarrow> bool" where
  "same_content g h \<longleftrightarrow> gd_schemas g = gd_schemas h \<and> node_view g = node_view h \<and> edge_view g = edge_view h"

definition touches :: "string \<Rightarrow> string \<times> string \<times> string \<Rightarrow> bool" where
  "touches nid k \<longleftrightarrow> fst k = nid \<or> fst (snd k) = nid"

lemma incident_touches: "incident nid e \<longleftrightarrow> touches nid (edge_key e)"
  by (simp add: incident_def touches_def edge_key_def)

lemma lookup_by_key: "lookup_by key k xs = Some y \<Longrightarrow> key y = k"
  by (auto dest: lookup_by_SomeD)

lemma lookup_by_upsert:
  assumes "\<And>old new. key old = key new \<Longrightarrow> key (merge old new) = key new"
  shows "lookup_by key k (upsert key merge x xs) =
    (if k = key x then (case lookup_by key k xs of None \<Rightarrow> Some x | Some y \<Rightarrow> Some (merge y x))
     else lookup_by key k xs)"
proof (cases "lookup_by key (key x) xs")
  case None
  then show ?thesis by (auto simp: upsert_def lookup_by_append split: option.splits)
next
  case (Some y)
  have "lookup_by key k (update_where (\<lambda>y. key y = key x) (\<lambda>y. merge y x) xs) =
      map_option (\<lambda>y. if key y = key x then merge y x else y) (lookup_by key k xs)"
    by (rule lookup_by_update_where) (use assms in auto)
  with Some show ?thesis
    by (cases "lookup_by key k xs") (auto simp: upsert_def dest: lookup_by_key)
qed

lemma lookup_by_filter:
  "lookup_by key k (filter (\<lambda>x. P (key x)) xs) = (if P k then lookup_by key k xs else None)"
  by (induction xs) auto

lemma map_upsert:
  assumes "\<And>old new. key old = key new \<Longrightarrow> key (merge old new) = key new"
  shows "map key (upsert key merge x xs) =
    (if key x \<in> key ` set xs then map key xs else map key xs @ [key x])"
proof (cases "lookup_by key (key x) xs")
  case None
  then show ?thesis by (simp add: upsert_def lookup_by_None_iff)
next
  case (Some y)
  have "map key (update_where (\<lambda>y. key y = key x) (\<lambda>y. merge y x) xs) = map key xs"
    by (rule map_update_where) (use assms in auto)
  with Some lookup_by_SomeD[OF Some] show ?thesis by (auto simp: upsert_def image_iff intro: bexI[of _ y])
qed

section \<open>Views of the primitives\<close>

lemma find_put_node:
  "find_node (put_node n g) nid = (if nid = gn_id n
     then Some (case find_node g nid of None \<Rightarrow> n | Some old \<Rightarrow> n\<lparr>gn_created_at := gn_created_at old\<rparr>)
     else find_node g nid)"
  by (simp add: find_node_def put_node_def lookup_by_upsert split: option.split)

lemma node_view_simps [simp]:
  "node_view (put_node n g) nid = (if nid = gn_id n then Some (gn_type n, gn_props n) else node_view g nid)"
  "node_view (put_edge e g) nid = node_view g nid"
  "node_view (remove_node x g) nid = (if nid = x then None else node_view g nid)"
  "node_view (remove_edge k g) nid = node_view g nid"
  by (simp_all add: node_view_def find_put_node split: option.split)
    (simp_all add: find_node_def put_edge_def remove_node_def remove_edge_def
      lookup_by_filter[where P = "\<lambda>i. i \<noteq> x" for x])

lemma edge_view_simps [simp]:
  "edge_view (put_node n g) k = edge_view g k"
  "edge_view (put_edge e g) k = (if k = edge_key e then Some (ge_props e) else edge_view g k)"
  "edge_view (remove_node x g) k = (if touches x k then None else edge_view g k)"
  "edge_view (remove_edge k' g) k = (if k = k' then None else edge_view g k)"
proof -
  show "edge_view (put_edge e g) k = (if k = edge_key e then Some (ge_props e) else edge_view g k)"
  proof -
    have "edge_key (old\<lparr>ge_props := p\<rparr>) = edge_key old" for old p by (simp add: edge_key_def)
    then show ?thesis
      by (simp add: edge_view_def find_edge_def put_edge_def lookup_by_upsert split: option.split)
  qed
  show "edge_view (remove_node x g) k = (if touches x k then None else edge_view g k)"
    by (simp add: edge_view_def find_edge_def remove_node_def incident_touches
        lookup_by_filter[where P = "\<lambda>k. \<not> touches x k" for x])
  show "edge_view (remove_edge k' g) k = (if k = k' then None else edge_view g k)"
    by (simp add: edge_view_def find_edge_def remove_edge_def lookup_by_filter[where P = "\<lambda>i. i \<noteq> k'"])
qed (simp add: edge_view_def find_edge_def put_node_def)

lemma schemas_simps [simp]:
  "gd_schemas (put_node n g) = gd_schemas g" "gd_schemas (put_edge e g) = gd_schemas g"
  "gd_schemas (remove_node x g) = gd_schemas g" "gd_schemas (remove_edge k g) = gd_schemas g"
  by (simp_all add: put_node_def put_edge_def remove_node_def remove_edge_def)

text \<open>The rewrite of one node by update and replace.\<close>

definition set_node :: "string \<Rightarrow> string \<Rightarrow> (string \<times> json) list \<Rightarrow> graph \<Rightarrow> graph" where
  "set_node nid ty v g = g\<lparr>gd_nodes := update_where (\<lambda>n. gn_id n = nid)
     (\<lambda>n. n\<lparr>gn_type := ty, gn_props := v, gn_namespace := map_of v ''namespace''\<rparr>) (gd_nodes g)\<rparr>"

lemma set_node_simps [simp]:
  "node_view (set_node nid ty v g) x =
     (if x = nid \<and> node_view g nid \<noteq> None then Some (ty, v) else node_view g x)"
  "edge_view (set_node nid ty v g) k = edge_view g k"
  "gd_schemas (set_node nid ty v g) = gd_schemas g"
proof -
  have "lookup_by gn_id x (gd_nodes (set_node nid ty v g)) = map_option (\<lambda>n. if gn_id n = nid
      then n\<lparr>gn_type := ty, gn_props := v, gn_namespace := map_of v ''namespace''\<rparr> else n)
      (lookup_by gn_id x (gd_nodes g))"
    by (simp add: set_node_def lookup_by_update_where)
  then show "node_view (set_node nid ty v g) x =
     (if x = nid \<and> node_view g nid \<noteq> None then Some (ty, v) else node_view g x)"
    by (cases "lookup_by gn_id x (gd_nodes g)") (auto simp: node_view_def find_node_def dest: lookup_by_key)
qed (simp_all add: edge_view_def find_edge_def set_node_def)

lemma view_node_Some: "find_node g nid = Some n \<Longrightarrow> node_view g nid = Some (gn_type n, gn_props n)"
  by (simp add: node_view_def)

lemma find_node_view: "find_node g nid \<noteq> None \<longleftrightarrow> node_view g nid \<noteq> None"
  by (simp add: node_view_def)

lemma find_node_id: "find_node g nid = Some n \<Longrightarrow> gn_id n = nid"
  unfolding find_node_def by (auto dest: lookup_by_SomeD)

lemma find_edge_id: "find_edge g k = Some e \<Longrightarrow> edge_key e = k"
  unfolding find_edge_def by (auto dest: lookup_by_SomeD)

section \<open>The invariant of the tables\<close>

definition accepts :: "graph \<Rightarrow> string \<Rightarrow> (string \<times> json) list \<Rightarrow> bool" where
  "accepts g ty props \<longleftrightarrow> (\<exists>sch. find_schema g ty = Some sch \<and> usable_schema sch \<and> well_typed sch props)"

definition named :: "string \<Rightarrow> bool" where
  "named s \<longleftrightarrow> strip s \<noteq> []"

definition schema_ok :: "entity_schema \<Rightarrow> bool" where
  "schema_ok sch \<longleftrightarrow> named (sc_id sch) \<and> schema_properties sch ''namespace'' = Some ''string''"

definition graph_ok :: "graph \<Rightarrow> bool" where
  "graph_ok g \<longleftrightarrow> distinct (map edge_key (gd_edges g)) \<and>
     (\<forall>sch \<in> set (gd_schemas g). schema_ok sch) \<and>
     (\<forall>nid ty props. node_view g nid = Some (ty, props) \<longrightarrow> named nid \<and> named ty \<and> accepts g ty props) \<and>
     (\<forall>k p. edge_view g k = Some p \<longrightarrow> is_dict p \<and> named (snd (snd k)) \<and>
        node_view g (fst k) \<noteq> None \<and> node_view g (fst (snd k)) \<noteq> None)"

lemma graph_okD:
  assumes "graph_ok g"
  shows "distinct (map edge_key (gd_edges g))"
    "node_view g nid = Some (ty, props) \<Longrightarrow> named nid \<and> named ty \<and> accepts g ty props"
    "edge_view g k = Some p \<Longrightarrow> is_dict p \<and> named (snd (snd k)) \<and> named (fst k) \<and> named (fst (snd k)) \<and>
       node_view g (fst k) \<noteq> None \<and> node_view g (fst (snd k)) \<noteq> None"
proof -
  show "distinct (map edge_key (gd_edges g))" using assms by (simp add: graph_ok_def)
  show n: "node_view g nid = Some (ty, props) \<Longrightarrow> named nid \<and> named ty \<and> accepts g ty props" for nid ty props
    using assms by (simp add: graph_ok_def)
  assume "edge_view g k = Some p"
  then have e: "is_dict p \<and> named (snd (snd k)) \<and> node_view g (fst k) \<noteq> None \<and> node_view g (fst (snd k)) \<noteq> None"
    using assms unfolding graph_ok_def by blast
  moreover from e obtain a b where "node_view g (fst k) = Some a" "node_view g (fst (snd k)) = Some b" by auto
  ultimately show "is_dict p \<and> named (snd (snd k)) \<and> named (fst k) \<and> named (fst (snd k)) \<and>
      node_view g (fst k) \<noteq> None \<and> node_view g (fst (snd k)) \<noteq> None"
    using n[of "fst k" "fst a" "snd a"] n[of "fst (snd k)" "fst b" "snd b"] by simp
qed

lemma validate_accepts:
  "validate_properties_in_conn g ty props = Inr v \<Longrightarrow> accepts g ty v"
  unfolding validate_properties_in_conn_def accepts_def
  by (auto split: option.splits dest: coerce_well_typed)

lemma accepts_validate: "accepts g ty v \<Longrightarrow> validate_properties_in_conn g ty v = Inr v"
  by (auto simp: validate_properties_in_conn_def accepts_def coerce_id)

lemma accepts_cong: "gd_schemas g = gd_schemas h \<Longrightarrow> accepts g ty v = accepts h ty v"
  by (simp add: accepts_def find_schema_def)

lemma validate_named: "graph_ok g \<Longrightarrow> validate_properties_in_conn g ty props = Inr v \<Longrightarrow> named ty"
  unfolding graph_ok_def schema_ok_def validate_properties_in_conn_def find_schema_def
  by (auto split: option.splits dest: lookup_by_SomeD)

lemma same_content_refl [simp]: "same_content g g"
  by (simp add: same_content_def)

lemma same_content_sym: "same_content g h \<Longrightarrow> same_content h g"
  by (simp add: same_content_def)

lemma same_content_trans: "same_content f g \<Longrightarrow> same_content g h \<Longrightarrow> same_content f h"
  by (simp add: same_content_def)

lemma same_contentI:
  "gd_schemas g = gd_schemas h \<Longrightarrow> (\<And>x. node_view g x = node_view h x) \<Longrightarrow>
   (\<And>k. edge_view g k = edge_view h k) \<Longrightarrow> same_content g h"
  by (auto simp: same_content_def)

lemma same_contentD:
  "same_content g h \<Longrightarrow> gd_schemas g = gd_schemas h \<and> node_view g x = node_view h x \<and> edge_view g k = edge_view h k"
  by (simp add: same_content_def)

section \<open>The primitives keep the invariant\<close>

lemma graph_okI:
  assumes "distinct (map edge_key (gd_edges g))" "\<And>sch. sch \<in> set (gd_schemas g) \<Longrightarrow> schema_ok sch"
    and "\<And>nid ty props. node_view g nid = Some (ty, props) \<Longrightarrow> named nid \<and> named ty \<and> accepts g ty props"
    and "\<And>k p. edge_view g k = Some p \<Longrightarrow> is_dict p \<and> named (snd (snd k)) \<and>
        node_view g (fst k) \<noteq> None \<and> node_view g (fst (snd k)) \<noteq> None"
  shows "graph_ok g"
  unfolding graph_ok_def using assms by blast

lemma graph_ok_schema: "graph_ok g \<Longrightarrow> sch \<in> set (gd_schemas g) \<Longrightarrow> schema_ok sch"
  by (simp add: graph_ok_def)

lemma accepts_simps [simp]:
  "accepts (put_node n g) = accepts g" "accepts (put_edge e g) = accepts g"
  "accepts (remove_node x g) = accepts g" "accepts (remove_edge k g) = accepts g"
  "accepts (set_node nid ty v g) = accepts g"
  by (intro ext accepts_cong; simp)+

lemma gd_edges_simps [simp]:
  "gd_edges (put_node n g) = gd_edges g" "gd_edges (set_node nid ty v g) = gd_edges g"
  by (simp_all add: put_node_def set_node_def)

lemma ok_put_node:
  assumes ok: "graph_ok g" and n: "named (gn_id n)" "named (gn_type n)" "accepts g (gn_type n) (gn_props n)"
  shows "graph_ok (put_node n g)"
proof (rule graph_okI)
  show "distinct (map edge_key (gd_edges (put_node n g)))" using graph_okD(1)[OF ok] by simp
next
  fix sch assume "sch \<in> set (gd_schemas (put_node n g))"
  then show "schema_ok sch" using graph_ok_schema[OF ok] by simp
next
  fix nid ty props assume "node_view (put_node n g) nid = Some (ty, props)"
  then show "named nid \<and> named ty \<and> accepts (put_node n g) ty props"
    using n graph_okD(2)[OF ok] by (auto split: if_splits)
next
  fix k p assume "edge_view (put_node n g) k = Some p"
  then show "is_dict p \<and> named (snd (snd k)) \<and>
      node_view (put_node n g) (fst k) \<noteq> None \<and> node_view (put_node n g) (fst (snd k)) \<noteq> None"
    using graph_okD(3)[OF ok, of k p] by simp
qed

lemma ok_set_node:
  assumes ok: "graph_ok g" and n: "named ty" "accepts g ty v"
  shows "graph_ok (set_node nid ty v g)"
proof (rule graph_okI)
  show "distinct (map edge_key (gd_edges (set_node nid ty v g)))" using graph_okD(1)[OF ok] by simp
next
  fix sch assume "sch \<in> set (gd_schemas (set_node nid ty v g))"
  then show "schema_ok sch" using graph_ok_schema[OF ok] by simp
next
  fix x t props assume "node_view (set_node nid ty v g) x = Some (t, props)"
  then show "named x \<and> named t \<and> accepts (set_node nid ty v g) t props"
    using n graph_okD(2)[OF ok, of nid] graph_okD(2)[OF ok, of x] by (auto split: if_splits)
next
  fix k p assume "edge_view (set_node nid ty v g) k = Some p"
  then show "is_dict p \<and> named (snd (snd k)) \<and>
      node_view (set_node nid ty v g) (fst k) \<noteq> None \<and> node_view (set_node nid ty v g) (fst (snd k)) \<noteq> None"
    using graph_okD(3)[OF ok, of k p] by auto
qed

lemma ok_remove_node:
  assumes ok: "graph_ok g"
  shows "graph_ok (remove_node x g)"
proof (rule graph_okI)
  show "distinct (map edge_key (gd_edges (remove_node x g)))"
    using graph_okD(1)[OF ok] by (simp add: remove_node_def distinct_map_filter)
next
  fix sch assume "sch \<in> set (gd_schemas (remove_node x g))"
  then show "schema_ok sch" using graph_ok_schema[OF ok] by simp
next
  fix nid ty props assume "node_view (remove_node x g) nid = Some (ty, props)"
  then show "named nid \<and> named ty \<and> accepts (remove_node x g) ty props"
    using graph_okD(2)[OF ok] by (auto split: if_splits)
next
  fix k p assume "edge_view (remove_node x g) k = Some p"
  then show "is_dict p \<and> named (snd (snd k)) \<and>
      node_view (remove_node x g) (fst k) \<noteq> None \<and> node_view (remove_node x g) (fst (snd k)) \<noteq> None"
    using graph_okD(3)[OF ok, of k p] by (auto simp: touches_def split: if_splits)
qed

lemma ok_put_edge:
  assumes ok: "graph_ok g" and e: "named (ge_type e)" "is_dict (ge_props e)"
    "node_view g (ge_from e) \<noteq> None" "node_view g (ge_to e) \<noteq> None"
  shows "graph_ok (put_edge e g)"
proof (rule graph_okI)
  have "edge_key (old\<lparr>ge_props := p\<rparr>) = edge_key old" for old p by (simp add: edge_key_def)
  then have "map edge_key (gd_edges (put_edge e g)) = (if edge_key e \<in> edge_key ` set (gd_edges g)
      then map edge_key (gd_edges g) else map edge_key (gd_edges g) @ [edge_key e])"
    by (simp add: put_edge_def map_upsert)
  then show "distinct (map edge_key (gd_edges (put_edge e g)))" using graph_okD(1)[OF ok] by auto
next
  fix sch assume "sch \<in> set (gd_schemas (put_edge e g))"
  then show "schema_ok sch" using graph_ok_schema[OF ok] by simp
next
  fix nid ty props assume "node_view (put_edge e g) nid = Some (ty, props)"
  then show "named nid \<and> named ty \<and> accepts (put_edge e g) ty props"
    using graph_okD(2)[OF ok] by simp
next
  fix k p assume "edge_view (put_edge e g) k = Some p"
  then show "is_dict p \<and> named (snd (snd k)) \<and>
      node_view (put_edge e g) (fst k) \<noteq> None \<and> node_view (put_edge e g) (fst (snd k)) \<noteq> None"
    using graph_okD(3)[OF ok, of k p] e by (auto simp: edge_key_def split: if_splits)
qed

lemma ok_remove_edge:
  assumes ok: "graph_ok g"
  shows "graph_ok (remove_edge k' g)"
proof (rule graph_okI)
  show "distinct (map edge_key (gd_edges (remove_edge k' g)))"
    using graph_okD(1)[OF ok] by (simp add: remove_edge_def distinct_map_filter)
next
  fix sch assume "sch \<in> set (gd_schemas (remove_edge k' g))"
  then show "schema_ok sch" using graph_ok_schema[OF ok] by simp
next
  fix nid ty props assume "node_view (remove_edge k' g) nid = Some (ty, props)"
  then show "named nid \<and> named ty \<and> accepts (remove_edge k' g) ty props"
    using graph_okD(2)[OF ok] by simp
next
  fix k p assume "edge_view (remove_edge k' g) k = Some p"
  then show "is_dict p \<and> named (snd (snd k)) \<and>
      node_view (remove_edge k' g) (fst k) \<noteq> None \<and> node_view (remove_edge k' g) (fst (snd k)) \<noteq> None"
    using graph_okD(3)[OF ok, of k p] by (simp split: if_splits)
qed

lemma content_cong:
  assumes "same_content g h"
  shows "same_content (remove_node nid g) (remove_node nid h)"
    "same_content (remove_edge k g) (remove_edge k h)"
    "same_content (set_node nid ty v g) (set_node nid ty v h)"
    "edge_key e = edge_key e' \<Longrightarrow> ge_props e = ge_props e' \<Longrightarrow> same_content (put_edge e g) (put_edge e' h)"
  using assms unfolding same_content_def by (simp_all add: fun_eq_iff) (auto split: if_splits)

lemma find_node_None: "find_node g nid = None \<longleftrightarrow> node_view g nid = None"
  by (simp add: node_view_def)

end
