(* ===== verification/Graph_Undo.thy ===== *)
theory Graph_Undo
  imports Graph_Content
begin

text \<open>
  Every action of a batch leaves a reverse action that takes the content of the graph back, so the
  reverse actions of a commit undo it. The proof goes one action at a time (\<open>reversible_step\<close>), then
  over the batch, then through the commit with its compensation guard.
\<close>

section \<open>Reverse actions\<close>

text \<open>The edge an action names, as the compensation guard keeps it.\<close>

definition edge_ref :: "json \<Rightarrow> string list" where
  "edge_ref a = (if touches_edge a then [edge_text (str_or_empty (dget a ''from_id''),
     str_or_empty (dget a ''to_id''), str_or_empty (dget a ''type''))] else [])"

definition undoes :: "json \<Rightarrow> graph \<Rightarrow> graph \<Rightarrow> bool" where
  "undoes u g' g \<longleftrightarrow> (\<forall>now fr c. graph_ok (bt_graph c) \<and> same_content (bt_graph c) g' \<longrightarrow>
     (\<exists>c' a. step_action now fr u c = Inr c' \<and> same_content (bt_graph c') g \<and> graph_ok (bt_graph c') \<and>
        bt_actions c' = bt_actions c @ [a] \<and> edge_ref a = edge_ref u))"

lemma undoesI:
  assumes "\<And>now fr c. graph_ok (bt_graph c) \<Longrightarrow> same_content (bt_graph c) g' \<Longrightarrow>
     \<exists>c' a. step_action now fr u c = Inr c' \<and> same_content (bt_graph c') g \<and> graph_ok (bt_graph c') \<and>
        bt_actions c' = bt_actions c @ [a] \<and> edge_ref a = edge_ref u"
  shows "undoes u g' g"
  using assms by (simp add: undoes_def)

lemma batch_simps [simp]:
  "bt_graph (emit g a u b) = g" "bt_reverse (emit g a u b) = bt_reverse b @ [u]"
  "bt_actions (emit g a u b) = bt_actions b @ [a]"
  "bt_graph (snap_node n b) = bt_graph b" "bt_reverse (snap_node n b) = bt_reverse b"
  "bt_actions (snap_node n b) = bt_actions b"
  "bt_graph (snap_node_once n b) = bt_graph b" "bt_reverse (snap_node_once n b) = bt_reverse b"
  "bt_actions (snap_node_once n b) = bt_actions b"
  "bt_graph (snap_edge e b) = bt_graph b" "bt_reverse (snap_edge e b) = bt_reverse b"
  "bt_actions (snap_edge e b) = bt_actions b"
  by (simp_all add: emit_def snap_node_def snap_node_once_def snap_edge_def)

lemma edge_ref_simps [simp]:
  "edge_ref (node_record kind nid ty props) = (if kind \<in> {''create_edge'', ''delete_edge''} then [edge_text ([], [], ty)] else [])"
  "edge_ref (node_id_record ''delete_node'' nid) = []" "edge_ref (restore_record n es) = []"
  "edge_ref (edge_record ''delete_edge'' k) = [edge_text k]"
  "edge_ref (edge_props_record ''create_edge'' k p) = [edge_text k]"
  by (simp_all add: edge_ref_def touches_edge_def kind_of_def node_record_def node_id_record_def
      restore_record_def edge_record_def edge_props_record_def edge_fields_def)

lemma kind_named: "named ''create_node''" "named ''update_node_property''" "named ''replace_node''"
  "named ''delete_node''" "named ''restore_node''" "named ''create_edge''" "named ''delete_edge''"
  by (simp_all add: named_def strip_def is_space_def)

lemma required_text_eq: "required_text a f = Inr s \<longleftrightarrow> dget a f = Some (JStr s) \<and> named s"
  by (auto simp: required_text_def named_def split: option.splits json.splits)

lemma required_text_JStr: "dget a f = Some (JStr s) \<Longrightarrow> named s \<Longrightarrow> required_text a f = Inr s"
  by (simp add: required_text_eq)

lemma dget_record [simp]:
  "dget (node_record kind nid ty props) ''action'' = Some (JStr kind)"
  "dget (node_record kind nid ty props) ''id'' = Some (JStr nid)"
  "dget (node_record kind nid ty props) ''type'' = Some (JStr ty)"
  "dget (node_record kind nid ty props) ''properties'' = Some (JObj props)"
  "dget (node_id_record kind nid) ''action'' = Some (JStr kind)"
  "dget (node_id_record kind nid) ''id'' = Some (JStr nid)"
  "dget (restore_record n es) ''action'' = Some (JStr ''restore_node'')"
  "dget (restore_record n es) ''id'' = Some (JStr (gn_id n))"
  "dget (restore_record n es) ''type'' = Some (JStr (gn_type n))"
  "dget (restore_record n es) ''properties'' = Some (JObj (gn_props n))"
  "dget (restore_record n es) ''edges'' = Some (JArr (map edge_json es))"
  by (simp_all add: node_record_def node_id_record_def restore_record_def)

lemma dget_edge_record [simp]:
  "dget (edge_record kind k) ''action'' = Some (JStr kind)"
  "dget (edge_record kind k) ''from_id'' = Some (JStr (fst k))"
  "dget (edge_record kind k) ''to_id'' = Some (JStr (fst (snd k)))"
  "dget (edge_record kind k) ''type'' = Some (JStr (snd (snd k)))"
  "dget (edge_props_record kind k p) ''action'' = Some (JStr kind)"
  "dget (edge_props_record kind k p) ''from_id'' = Some (JStr (fst k))"
  "dget (edge_props_record kind k p) ''to_id'' = Some (JStr (fst (snd k)))"
  "dget (edge_props_record kind k p) ''type'' = Some (JStr (snd (snd k)))"
  "dget (edge_props_record kind k p) ''properties'' = Some p"
  "dget (edge_json e) ''from_id'' = Some (JStr (ge_from e))"
  "dget (edge_json e) ''to_id'' = Some (JStr (ge_to e))"
  "dget (edge_json e) ''type'' = Some (JStr (ge_type e))"
  "dget (edge_json e) ''properties'' = Some (ge_props e)" "is_dict (edge_json e)"
  by (simp_all add: edge_record_def edge_props_record_def edge_json_def edge_fields_def edge_key_def)

subsection \<open>Deleting a created node\<close>

lemma undo_delete_node:
  assumes "named nid" "node_view g' nid \<noteq> None" "same_content g (remove_node nid g')"
  shows "undoes (node_id_record ''delete_node'' nid) g' g"
proof (rule undoesI)
  fix now fr and c :: batch assume c: "graph_ok (bt_graph c)" "same_content (bt_graph c) g'"
  have "node_view (bt_graph c) nid \<noteq> None" using c(2) assms(2) by (simp add: same_content_def)
  then obtain old where old: "find_node (bt_graph c) nid = Some old" by (auto simp: node_view_def)
  have "same_content (remove_node nid (bt_graph c)) g"
    by (rule same_content_trans[OF content_cong(1)[OF c(2)] same_content_sym[OF assms(3)]])
  then show "\<exists>c' a. step_action now fr (node_id_record ''delete_node'' nid) c = Inr c' \<and>
      same_content (bt_graph c') g \<and> graph_ok (bt_graph c') \<and> bt_actions c' = bt_actions c @ [a] \<and>
      edge_ref a = edge_ref (node_id_record ''delete_node'' nid)"
    using ok_remove_node[OF c(1)] assms(1) kind_named
    by (simp add: step_action_def required_text_JStr do_delete_node_def old Let_def)
qed

subsection \<open>Writing the old row back\<close>

lemma undo_replace:
  assumes "named nid" "named ty" "node_view g' nid \<noteq> None" "accepts g' ty props"
    and "same_content g (set_node nid ty props g')"
  shows "undoes (node_record ''replace_node'' nid ty props) g' g"
proof (rule undoesI)
  fix now fr and c :: batch assume c: "graph_ok (bt_graph c)" "same_content (bt_graph c) g'"
  have "node_view (bt_graph c) nid \<noteq> None" using c(2) assms(3) by (simp add: same_content_def)
  then obtain old where old: "find_node (bt_graph c) nid = Some old" by (auto simp: node_view_def)
  have acc: "accepts (bt_graph c) ty props"
    using assms(4) c(2) accepts_cong[of "bt_graph c" g'] by (simp add: same_content_def)
  have "same_content (set_node nid ty props (bt_graph c)) g"
    by (rule same_content_trans[OF content_cong(3)[OF c(2)] same_content_sym[OF assms(5)]])
  moreover have "graph_ok (set_node nid ty props (bt_graph c))" by (rule ok_set_node[OF c(1) assms(2) acc])
  ultimately show "\<exists>c' a. step_action now fr (node_record ''replace_node'' nid ty props) c = Inr c' \<and>
      same_content (bt_graph c') g \<and> graph_ok (bt_graph c') \<and> bt_actions c' = bt_actions c @ [a] \<and>
      edge_ref a = edge_ref (node_record ''replace_node'' nid ty props)"
    using assms(1) kind_named
    by (simp add: step_action_def required_text_JStr do_update_node_def old Let_def action_props_def
        accepts_validate[OF acc] set_node_def)
qed

subsection \<open>Edges\<close>

lemma edge_target_JStr:
  assumes "named (fst k)" "named (fst (snd k))" "named (snd (snd k))"
    and "dget a ''from_id'' = Some (JStr (fst k))" "dget a ''to_id'' = Some (JStr (fst (snd k)))"
      "dget a ''type'' = Some (JStr (snd (snd k)))"
  shows "edge_action_target a = Inr k"
  using assms by (simp add: edge_action_target_def required_text_JStr)

lemma undo_delete_edge:
  assumes "named (fst k)" "named (fst (snd k))" "named (snd (snd k))" "edge_view g' k \<noteq> None"
    and "same_content g (remove_edge k g')"
  shows "undoes (edge_record ''delete_edge'' k) g' g"
proof (rule undoesI)
  fix now fr and c :: batch assume c: "graph_ok (bt_graph c)" "same_content (bt_graph c) g'"
  have "edge_view (bt_graph c) k \<noteq> None" using c(2) assms(4) by (simp add: same_content_def)
  then obtain old where old: "find_edge (bt_graph c) k = Some old" by (auto simp: edge_view_def)
  have "same_content (remove_edge k (bt_graph c)) g"
    by (rule same_content_trans[OF content_cong(2)[OF c(2)] same_content_sym[OF assms(5)]])
  then show "\<exists>c' a. step_action now fr (edge_record ''delete_edge'' k) c = Inr c' \<and>
      same_content (bt_graph c') g \<and> graph_ok (bt_graph c') \<and> bt_actions c' = bt_actions c @ [a] \<and>
      edge_ref a = edge_ref (edge_record ''delete_edge'' k)"
    using ok_remove_edge[OF c(1)] kind_named
    by (simp add: step_action_def required_text_JStr do_delete_edge_def old Let_def edge_target_JStr[OF assms(1-3)])
qed



lemma new_edge_simps [simp]: "edge_key (new_edge now k p) = k" "ge_props (new_edge now k p) = p"
  "ge_from (new_edge now k p) = fst k" "ge_to (new_edge now k p) = fst (snd k)"
  "ge_type (new_edge now k p) = snd (snd k)"
  by (simp_all add: new_edge_def edge_key_def)

lemma undo_create_edge:
  assumes "named (fst k)" "named (fst (snd k))" "named (snd (snd k))"
    and ends: "node_view g' (fst k) \<noteq> None" "node_view g' (fst (snd k)) \<noteq> None" and "is_dict p"
    and "same_content g (put_edge (new_edge t k p) g')"
  shows "undoes (edge_props_record ''create_edge'' k p) g' g"
proof (rule undoesI)
  fix now fr and c :: batch assume c: "graph_ok (bt_graph c)" "same_content (bt_graph c) g'"
  have n: "node_view (bt_graph c) (fst k) \<noteq> None" "node_view (bt_graph c) (fst (snd k)) \<noteq> None"
    using c(2) ends by (simp_all add: same_content_def)

  obtain kvs where p: "p = JObj kvs" using assms(6) by (cases p) auto
  have "same_content (put_edge (new_edge now k p) (bt_graph c)) g"
    by (rule same_content_trans[OF content_cong(4)[OF c(2)] same_content_sym[OF assms(7)]]) simp_all
  moreover have "graph_ok (put_edge (new_edge now k p) (bt_graph c))"
    by (rule ok_put_edge[OF c(1)]) (use assms n in simp_all)
  ultimately show "\<exists>c' a. step_action now fr (edge_props_record ''create_edge'' k p) c = Inr c' \<and>
      same_content (bt_graph c') g \<and> graph_ok (bt_graph c') \<and> bt_actions c' = bt_actions c @ [a] \<and>
      edge_ref a = edge_ref (edge_props_record ''create_edge'' k p)"
    using kind_named n
    by (simp add: step_action_def required_text_JStr do_create_edge_def Let_def edge_target_JStr[OF assms(1-3)]
        action_props_def p find_node_None) (auto split: option.splits)
qed

subsection \<open>Restoring a node with its edges\<close>

lemma or_empty_dict: "is_dict p \<Longrightarrow> or_empty_object (Some p) = p"
  by (cases p) (auto simp: or_empty_object_def)

lemma edge_target_json:
  assumes "named (ge_from e)" "named (ge_to e)" "named (ge_type e)"
  shows "edge_target (edge_json e) = Inr (edge_key e)"
  using assms by (simp add: edge_target_def required_text_JStr edge_key_def)

lemma restore_edges_ok:
  assumes "distinct (map edge_key es)" "graph_ok h"
    and "\<And>e. e \<in> set es \<Longrightarrow> named (ge_from e) \<and> named (ge_to e) \<and> named (ge_type e) \<and> is_dict (ge_props e) \<and>
       node_view h (ge_from e) \<noteq> None \<and> node_view h (ge_to e) \<noteq> None"
  shows "\<exists>h'. restore_edges now (map edge_json es) h = Inr h' \<and> graph_ok h' \<and> gd_schemas h' = gd_schemas h \<and>
     (\<forall>x. node_view h' x = node_view h x) \<and>
     (\<forall>k. edge_view h' k = (case lookup_by edge_key k es of Some e \<Rightarrow> Some (ge_props e) | None \<Rightarrow> edge_view h k))"
  using assms
proof (induction es arbitrary: h)
  case (Cons e es)
  let ?h = "put_edge (new_edge now (edge_key e) (ge_props e)) h"
  note e = Cons.prems(3)[of e, simplified]
  have k: "fst (edge_key e) = ge_from e" "fst (snd (edge_key e)) = ge_to e" "snd (snd (edge_key e)) = ge_type e"
    by (simp_all add: edge_key_def)
  have ok: "graph_ok ?h" by (rule ok_put_edge[OF Cons.prems(2)]) (use e in \<open>simp_all add: k\<close>)
  have "\<exists>h'. restore_edges now (map edge_json es) ?h = Inr h' \<and> graph_ok h' \<and> gd_schemas h' = gd_schemas ?h \<and>
     (\<forall>x. node_view h' x = node_view ?h x) \<and>
     (\<forall>k. edge_view h' k = (case lookup_by edge_key k es of Some e \<Rightarrow> Some (ge_props e) | None \<Rightarrow> edge_view ?h k))"
    by (rule Cons.IH[OF _ ok]) (use Cons.prems in auto)
  moreover have "restore_edges now (map edge_json (e # es)) h = restore_edges now (map edge_json es) ?h"
    using e by (auto simp: edge_target_json k or_empty_dict find_node_None)
  moreover have "lookup_by edge_key (edge_key e) es = None"
    using Cons.prems(1) by (simp add: lookup_by_None_iff)
  ultimately obtain h' where h': "restore_edges now (map edge_json (e # es)) h = Inr h'" "graph_ok h'"
    "gd_schemas h' = gd_schemas h" "\<forall>x. node_view h' x = node_view h x"
    "\<And>k. edge_view h' k = (case lookup_by edge_key k es of Some e \<Rightarrow> Some (ge_props e) | None \<Rightarrow> edge_view ?h k)"
    "lookup_by edge_key (edge_key e) es = None"
    by auto
  have "edge_view h' k = (case lookup_by edge_key k (e # es) of Some e \<Rightarrow> Some (ge_props e) | None \<Rightarrow> edge_view h k)" for k
    using h'(6) by (cases "k = edge_key e") (simp_all add: h'(5) split: option.split)
  with h'(1-4) show ?case by blast
qed simp

lemma undo_restore:
  assumes ok: "graph_ok g" and old: "find_node g nid = Some n" and g': "g' = remove_node nid g"
  shows "undoes (restore_record n (filter (incident nid) (gd_edges g))) g' g"
proof (rule undoesI)
  fix now fr and c :: batch assume c: "graph_ok (bt_graph c)" "same_content (bt_graph c) g'"
  let ?es = "filter (incident nid) (gd_edges g)" and ?h = "put_node (new_node now nid (gn_type n) (gn_props n)) (bt_graph c)"
  note nid = find_node_id[OF old]
  have n: "named nid" "named (gn_type n)" "accepts g (gn_type n) (gn_props n)"
    using graph_okD(2)[OF ok view_node_Some[OF old]] by auto
  have acc: "accepts (bt_graph c) (gn_type n) (gn_props n)"
    using n(3) c(2) accepts_cong[of "bt_graph c" g] by (simp add: same_content_def g')
  have ok': "graph_ok ?h" by (rule ok_put_node[OF c(1)]) (use n acc in \<open>simp_all add: new_node_def\<close>)
  have nv: "node_view ?h x = node_view g x" for x
    using c(2) view_node_Some[OF old] by (simp add: same_content_def g' new_node_def)
  have "\<exists>h'. restore_edges now (map edge_json ?es) ?h = Inr h' \<and> graph_ok h' \<and> gd_schemas h' = gd_schemas ?h \<and>
     (\<forall>x. node_view h' x = node_view ?h x) \<and>
     (\<forall>k. edge_view h' k = (case lookup_by edge_key k ?es of Some e \<Rightarrow> Some (ge_props e) | None \<Rightarrow> edge_view ?h k))"
  proof (rule restore_edges_ok[OF _ ok'])
    show "distinct (map edge_key ?es)" using graph_okD(1)[OF ok] by (simp add: distinct_map_filter)
    fix e assume "e \<in> set ?es"
    then have "edge_view g (edge_key e) = Some (ge_props e)"
      using lookup_by_distinct[OF graph_okD(1)[OF ok], of e] by (simp add: edge_view_def find_edge_def)
    from graph_okD(3)[OF ok this]
    show "named (ge_from e) \<and> named (ge_to e) \<and> named (ge_type e) \<and> is_dict (ge_props e) \<and>
       node_view ?h (ge_from e) \<noteq> None \<and> node_view ?h (ge_to e) \<noteq> None"
      by (simp only: nv) (simp add: edge_key_def)
  qed
  note R = this
  have "gd_schemas ?h = gd_schemas g" "edge_view ?h = edge_view (bt_graph c)"
    using c(2) by (auto simp: same_content_def g')
  from R[unfolded nv this] obtain h' where h': "restore_edges now (map edge_json ?es) ?h = Inr h'" "graph_ok h'"
    "gd_schemas h' = gd_schemas g" "\<forall>x. node_view h' x = node_view g x"
    "\<forall>k. edge_view h' k = (case lookup_by edge_key k ?es of Some e \<Rightarrow> Some (ge_props e) | None \<Rightarrow> edge_view (bt_graph c) k)"
    by blast
  have "incident nid = (\<lambda>e. touches nid (edge_key e))" by (simp add: incident_touches fun_eq_iff)
  then have L: "lookup_by edge_key k ?es = (if touches nid k then find_edge g k else None)" for k
    by (simp add: lookup_by_filter find_edge_def)
  have "edge_view (bt_graph c) k = (if touches nid k then None else edge_view g k)" for k
    using c(2) by (simp add: same_content_def g')
  then have "edge_view h' k = edge_view g k" for k
    using h'(5)[rule_format, of k] unfolding L by (simp add: edge_view_def split: option.splits if_splits)
  then have "same_content h' g" using h' by (auto intro: same_contentI)
  moreover have "or_empty_object (Some (JObj (gn_props n))) = JObj (gn_props n)" by (rule or_empty_dict) simp
  moreover have "(if truthy (JArr (map edge_json ?es)) then JArr (map edge_json ?es) else JArr []) = JArr (map edge_json ?es)"
    by auto
  ultimately show "\<exists>c' a. step_action now fr (restore_record n ?es) c = Inr c' \<and>
      same_content (bt_graph c') g \<and> graph_ok (bt_graph c') \<and> bt_actions c' = bt_actions c @ [a] \<and>
      edge_ref a = edge_ref (restore_record n ?es)"
    using n(1,2) kind_named h'(1,2) nid
    by (simp add: step_action_def required_text_JStr do_restore_node_def Let_def accepts_validate[OF acc] del: truthy.simps)
qed

section \<open>One step and its reverse\<close>

definition undoable :: "json \<Rightarrow> bool" where
  "undoable a \<longleftrightarrow> kind_of a \<in> {''create_node'', ''update_node_property'', ''replace_node'', ''delete_node'',
     ''create_edge'', ''delete_edge''} \<and>
     (kind_of a = ''create_node'' \<longrightarrow> str_or_empty (dget a ''id'') = [] \<or> named (str_or_empty (dget a ''id'')))"

definition reversible_step :: "batch \<Rightarrow> batch \<Rightarrow> bool" where
  "reversible_step b b' \<longleftrightarrow> (\<exists>u a. bt_reverse b' = bt_reverse b @ [u] \<and> bt_actions b' = bt_actions b @ [a] \<and>
     edge_ref u = edge_ref a \<and> graph_ok (bt_graph b') \<and> undoes u (bt_graph b') (bt_graph b))"

lemma reversible_emit:
  "b' = emit g' a u b1 \<Longrightarrow> bt_reverse b1 = bt_reverse b \<Longrightarrow> bt_actions b1 = bt_actions b \<Longrightarrow>
   edge_ref u = edge_ref a \<Longrightarrow> graph_ok g' \<Longrightarrow> undoes u g' (bt_graph b) \<Longrightarrow> reversible_step b b'"
  unfolding reversible_step_def by auto

lemma well_typed_update:
  "well_typed sch props \<Longrightarrow> schema_properties sch k = Some ty \<Longrightarrow> has_type ty v \<Longrightarrow>
   well_typed sch (AList.update k v props)"
  unfolding well_typed_def by (induction props) auto

lemma accepts_namespace:
  assumes "graph_ok g" "accepts g ty v"
  shows "accepts g ty (app_namespace nid v)"
proof -
  obtain sch where sch: "find_schema g ty = Some sch" "usable_schema sch" "well_typed sch v"
    using assms(2) by (auto simp: accepts_def)
  have "schema_ok sch" using graph_ok_schema[OF assms(1)] sch(1) by (auto simp: find_schema_def dest: lookup_by_SomeD)
  then have "well_typed sch (app_namespace nid v)"
    using sch(3) by (simp add: app_namespace_def schema_ok_def well_typed_update)
  with sch show ?thesis by (auto simp: accepts_def)
qed

lemma new_node_simps [simp]: "gn_id (new_node now nid ty p) = nid" "gn_type (new_node now nid ty p) = ty"
  "gn_props (new_node now nid ty p) = p"
  by (simp_all add: new_node_def)

lemma find_node_ok:
  assumes "graph_ok g" "find_node g nid = Some n"
  shows "gn_id n = nid" "named nid" "named (gn_type n)" "accepts g (gn_type n) (gn_props n)"
  using graph_okD(2)[OF assms(1) view_node_Some[OF assms(2)]] find_node_id[OF assms(2)] by auto

lemma no_dangling:
  assumes "graph_ok g" "find_node g nid = None"
  shows "touches nid k \<Longrightarrow> edge_view g k = None"
  using graph_okD(3)[OF assms(1), of k] assms(2) by (cases "edge_view g k") (auto simp: find_node_None touches_def)

lemma create_node_reversible:
  assumes ok: "graph_ok (bt_graph b)" and r: "do_create_node now fr a b = Inr b'"
    and nid: "\<And>nid. action_id fr a = Inr nid \<Longrightarrow> named nid"
  shows "reversible_step b b'"
proof -
  let ?g = "bt_graph b"
  obtain nid ty props v where a: "action_id fr a = Inr nid" "validate_properties_in_conn ?g ty props = Inr v"
    and b': "b' = emit (put_node (new_node now nid ty (app_namespace nid v)) ?g)
      (node_record ''create_node'' nid ty (app_namespace nid v)) (undo_put nid (find_node ?g nid))
      (case find_node ?g nid of Some n \<Rightarrow> snap_node n b | None \<Rightarrow> b)"
    using r by (auto simp: do_create_node_def Let_def split: sum.splits)
  note n = nid[OF a(1)] validate_named[OF ok a(2)] accepts_namespace[OF ok validate_accepts[OF a(2)], of nid]
  let ?g' = "put_node (new_node now nid ty (app_namespace nid v)) ?g"
  have ok': "graph_ok ?g'" by (rule ok_put_node[OF ok]) (use n in simp_all)
  show ?thesis
  proof (cases "find_node ?g nid")
    case None
    have "undoes (node_id_record ''delete_node'' nid) ?g' ?g"
      by (rule undo_delete_node[OF n(1)])
        (use no_dangling[OF ok None] None in \<open>auto intro!: same_contentI simp: find_node_None\<close>)
    then show ?thesis by (intro reversible_emit[OF b']) (use ok' None in \<open>simp_all add: undo_put_def\<close>)
  next
    case (Some old)
    note o = find_node_ok[OF ok Some]
    have "undoes (replace_record old) ?g' ?g" unfolding replace_record_def o(1)
      by (rule undo_replace) (use o view_node_Some[OF Some] in \<open>auto intro!: same_contentI\<close>)
    then show ?thesis
      by (intro reversible_emit[OF b']) (use ok' Some in \<open>simp_all add: undo_put_def replace_record_def\<close>)
  qed
qed

lemma update_node_reversible:
  assumes ok: "graph_ok (bt_graph b)" and r: "do_update_node kind keep a b = Inr b'"
    and k: "kind \<notin> {''create_edge'', ''delete_edge''}"
  shows "reversible_step b b'"
proof -
  let ?g = "bt_graph b"
  obtain nid old ty props v where a: "find_node ?g nid = Some old" "validate_properties_in_conn ?g ty props = Inr v"
    and b': "b' = emit (set_node nid ty v ?g) (node_record kind nid ty v) (replace_record old) (snap_node_once old b)"
    using r by (fastforce simp: do_update_node_def Let_def set_node_def split: sum.splits option.splits json.splits)
  note o = find_node_ok[OF ok a(1)]
  have "undoes (replace_record old) (set_node nid ty v ?g) ?g" unfolding replace_record_def o(1)
    by (rule undo_replace) (use o view_node_Some[OF a(1)] in \<open>auto intro!: same_contentI\<close>)
  moreover have "graph_ok (set_node nid ty v ?g)"
    by (rule ok_set_node[OF ok validate_named[OF ok a(2)] validate_accepts[OF a(2)]])
  ultimately show ?thesis using k by (intro reversible_emit[OF b']) (simp_all add: replace_record_def)
qed

lemma delete_node_reversible:
  assumes ok: "graph_ok (bt_graph b)" and r: "do_delete_node a b = Inr b'"
  shows "reversible_step b b'"
proof -
  let ?g = "bt_graph b"
  obtain nid old b1 where a: "find_node ?g nid = Some old"
    and b': "b' = emit (remove_node nid ?g) (node_id_record ''delete_node'' nid)
       (restore_record old (filter (incident nid) (gd_edges ?g))) b1" "bt_reverse b1 = bt_reverse b" "bt_actions b1 = bt_actions b"
    using r by (auto simp: do_delete_node_def Let_def split: sum.splits option.splits)
  show ?thesis using undo_restore[OF ok a refl] ok_remove_node[OF ok] b'(2,3)
    by (intro reversible_emit[OF b'(1)]) simp_all
qed

lemma edge_target_Inr:
  "edge_action_target a = Inr k \<Longrightarrow> named (fst k) \<and> named (fst (snd k)) \<and> named (snd (snd k))"
  by (auto simp: edge_action_target_def required_text_eq split: sum.splits)

lemma create_edge_reversible:
  assumes ok: "graph_ok (bt_graph b)" and r: "do_create_edge now a b = Inr b'"
  shows "reversible_step b b'"
proof -
  let ?g = "bt_graph b"
  obtain k props b1 where a: "edge_action_target a = Inr k" "find_node ?g (fst k) \<noteq> None" "find_node ?g (fst (snd k)) \<noteq> None"
    and b': "b' = emit (put_edge (new_edge now k (JObj props)) ?g) (edge_props_record ''create_edge'' k (JObj props))
       (case find_edge ?g k of Some e \<Rightarrow> edge_props_record ''create_edge'' k (ge_props e) | None \<Rightarrow> edge_record ''delete_edge'' k) b1"
      "bt_reverse b1 = bt_reverse b" "bt_actions b1 = bt_actions b"
  proof -
    have *: "bt_reverse (case x of Some e \<Rightarrow> snap_edge e b | None \<Rightarrow> b) = bt_reverse b"
      "bt_actions (case x of Some e \<Rightarrow> snap_edge e b | None \<Rightarrow> b) = bt_actions b" for x
      by (simp_all split: option.split)
    show thesis using r that * unfolding do_create_edge_def Let_def
      by (clarsimp split: sum.splits if_splits)
  qed
  note n = edge_target_Inr[OF a(1)]
  have v: "node_view ?g (fst k) \<noteq> None" "node_view ?g (fst (snd k)) \<noteq> None"
    using a(2,3) unfolding find_node_None by blast+
  let ?g' = "put_edge (new_edge now k (JObj props)) ?g"
  have ok': "graph_ok ?g'" by (rule ok_put_edge[OF ok]) (use n v in simp_all)
  show ?thesis
  proof (cases "find_edge ?g k")
    case None
    then have "edge_view ?g k = None" by (simp add: edge_view_def)
    then have "undoes (edge_record ''delete_edge'' k) ?g' ?g"
      by (intro undo_delete_edge) (use n in \<open>auto intro!: same_contentI\<close>)
    then show ?thesis by (intro reversible_emit[OF b'(1)]) (use ok' None b'(2,3) in simp_all)
  next
    case (Some e)
    then have e: "edge_view ?g k = Some (ge_props e)" by (simp add: edge_view_def)
    have "undoes (edge_props_record ''create_edge'' k (ge_props e)) ?g' ?g"
      by (rule undo_create_edge[where t = now]) (use n v e graph_okD(3)[OF ok e] in \<open>auto intro!: same_contentI\<close>)
    then show ?thesis by (intro reversible_emit[OF b'(1)]) (use ok' Some b'(2,3) in simp_all)
  qed
qed

lemma delete_edge_reversible:
  assumes ok: "graph_ok (bt_graph b)" and r: "do_delete_edge a b = Inr b'"
  shows "reversible_step b b'"
proof -
  let ?g = "bt_graph b"
  obtain k e where a: "edge_action_target a = Inr k" "find_edge ?g k = Some e"
    and b': "b' = emit (remove_edge k ?g) (edge_record ''delete_edge'' k)
       (edge_props_record ''create_edge'' k (ge_props e)) (snap_edge e b)"
    using r by (auto simp: do_delete_edge_def Let_def split: sum.splits option.splits)
  note n = edge_target_Inr[OF a(1)]
  have e: "edge_view ?g k = Some (ge_props e)" using a(2) by (simp add: edge_view_def)
  have "undoes (edge_props_record ''create_edge'' k (ge_props e)) (remove_edge k ?g) ?g"
    by (rule undo_create_edge[where t = "[]"]) (use n e graph_okD(3)[OF ok e] in \<open>auto intro!: same_contentI\<close>)
  then show ?thesis by (intro reversible_emit[OF b']) (use ok_remove_edge[OF ok] in simp_all)
qed

section \<open>A batch and its reverse\<close>

lemma step_reversible:
  assumes "graph_ok (bt_graph b)" "undoable a" "named fr" and s: "step_action now fr a b = Inr b'"
  shows "reversible_step b b'"
proof -
  obtain kind where k: "required_text a ''action'' = Inr kind"
    using s by (auto simp: step_action_def split: sum.splits)
  then have kd: "kind_of a = kind" by (auto simp: required_text_eq kind_of_def)
  have nid: "named nid" if c: "kind = ''create_node''" and i: "action_id fr a = Inr nid" for nid
    using assms(2,3) c i kd
    by (auto simp: undoable_def action_id_def named_def split: option.splits if_splits json.splits)
  consider "kind = ''create_node''" "do_create_node now fr a b = Inr b'"
    | "kind \<in> {''update_node_property'', ''replace_node''}"
      "do_update_node kind (kind = ''update_node_property'') a b = Inr b'"
    | "do_delete_node a b = Inr b'" | "do_create_edge now a b = Inr b'" | "do_delete_edge a b = Inr b'"
    using s k kd assms(2) unfolding undoable_def step_action_def by (auto split: if_splits)
  then show ?thesis
  proof cases
    case 1
    with nid create_node_reversible[OF assms(1)] show ?thesis by blast
  next
    case 2
    then show ?thesis using update_node_reversible[OF assms(1) 2(2)] by auto
  qed (use assms(1) delete_node_reversible create_edge_reversible delete_edge_reversible in blast)+
qed

lemma run_actions_append:
  "run_actions now fresh i (as @ bs) b =
     (case run_actions now fresh i as b of Inl e \<Rightarrow> Inl e | Inr b' \<Rightarrow> run_actions now fresh (i + length as) bs b')"
  by (induction as arbitrary: i b) (auto split: sum.splits)

definition undoes_all :: "json list \<Rightarrow> graph \<Rightarrow> graph \<Rightarrow> bool" where
  "undoes_all us g' g \<longleftrightarrow> (\<forall>now fresh i c. graph_ok (bt_graph c) \<and> same_content (bt_graph c) g' \<longrightarrow>
     (\<exists>c' as. run_actions now fresh i us c = Inr c' \<and> same_content (bt_graph c') g \<and> graph_ok (bt_graph c') \<and>
        bt_actions c' = bt_actions c @ as \<and> map edge_ref as = map edge_ref us))"

lemma undoes_allD:
  assumes "undoes_all us g' g" "graph_ok (bt_graph c)" "same_content (bt_graph c) g'"
  obtains c' as where "run_actions now fresh i us c = Inr c'" "same_content (bt_graph c') g"
    "graph_ok (bt_graph c')" "bt_actions c' = bt_actions c @ as" "map edge_ref as = map edge_ref us"
  using assms unfolding undoes_all_def by blast

lemma undoes_all_Nil: "same_content g' g \<Longrightarrow> undoes_all [] g' g"
  by (auto simp: undoes_all_def intro: same_content_trans)

lemma undoes_all_one: "undoes u g' g \<Longrightarrow> undoes_all [u] g' g"
  unfolding undoes_all_def
proof (intro allI impI)
  fix now i and fresh :: "nat \<Rightarrow> string" and c :: batch
  assume u: "undoes u g' g" and c: "graph_ok (bt_graph c) \<and> same_content (bt_graph c) g'"
  then obtain c' a where "step_action now (fresh i) u c = Inr c'" "same_content (bt_graph c') g"
    "graph_ok (bt_graph c')" "bt_actions c' = bt_actions c @ [a]" "edge_ref a = edge_ref u"
    unfolding undoes_def by blast
  then show "\<exists>c' as. run_actions now fresh i [u] c = Inr c' \<and> same_content (bt_graph c') g \<and>
      graph_ok (bt_graph c') \<and> bt_actions c' = bt_actions c @ as \<and> map edge_ref as = map edge_ref [u]"
    by (intro exI[of _ c'] exI[of _ "[a]"]) simp
qed

lemma undoes_all_append:
  assumes "undoes_all us g2 g1" "undoes_all vs g1 g0"
  shows "undoes_all (us @ vs) g2 g0"
  unfolding undoes_all_def
proof (intro allI impI)
  fix now i and fresh :: "nat \<Rightarrow> string" and c :: batch
  assume "graph_ok (bt_graph c) \<and> same_content (bt_graph c) g2"
  then obtain c1 as where 1: "run_actions now fresh i us c = Inr c1" "same_content (bt_graph c1) g1"
    "graph_ok (bt_graph c1)" "bt_actions c1 = bt_actions c @ as" "map edge_ref as = map edge_ref us"
    using undoes_allD[OF assms(1)] by blast
  obtain c2 bs where "run_actions now fresh (i + length us) vs c1 = Inr c2" "same_content (bt_graph c2) g0"
    "graph_ok (bt_graph c2)" "bt_actions c2 = bt_actions c1 @ bs" "map edge_ref bs = map edge_ref vs"
    using undoes_allD[OF assms(2) 1(3,2)] by blast
  with 1 show "\<exists>c' as. run_actions now fresh i (us @ vs) c = Inr c' \<and> same_content (bt_graph c') g0 \<and>
      graph_ok (bt_graph c') \<and> bt_actions c' = bt_actions c @ as \<and> map edge_ref as = map edge_ref (us @ vs)"
    by (intro exI[of _ c2] exI[of _ "as @ bs"]) (simp add: run_actions_append)
qed

lemma run_reversible:
  assumes "run_actions now fresh i as b = Inr b'" "graph_ok (bt_graph b)" "\<forall>a \<in> set as. undoable a" "\<And>i. named (fresh i)"
  shows "\<exists>us acts. bt_reverse b' = bt_reverse b @ us \<and> bt_actions b' = bt_actions b @ acts \<and> length us = length as \<and>
     map edge_ref us = map edge_ref acts \<and> graph_ok (bt_graph b') \<and> undoes_all (rev us) (bt_graph b') (bt_graph b)"
  using assms(1-3)
proof (induction as arbitrary: i b)
  case Nil
  then show ?case by (auto intro: undoes_all_Nil)
next
  case (Cons a as)
  then obtain b1 where s: "step_action now (fresh i) a b = Inr b1" "run_actions now fresh (Suc i) as b1 = Inr b'"
    by (auto split: sum.splits)
  from step_reversible[OF Cons.prems(2) _ assms(4) s(1)] Cons.prems(3) obtain u a1 where
    1: "bt_reverse b1 = bt_reverse b @ [u]" "bt_actions b1 = bt_actions b @ [a1]" "edge_ref u = edge_ref a1"
      "graph_ok (bt_graph b1)" "undoes u (bt_graph b1) (bt_graph b)"
    by (auto simp: reversible_step_def)
  from Cons.IH[OF s(2) 1(4)] Cons.prems(3) obtain us acts where
    2: "bt_reverse b' = bt_reverse b1 @ us" "bt_actions b' = bt_actions b1 @ acts" "length us = length as"
      "map edge_ref us = map edge_ref acts" "graph_ok (bt_graph b')" "undoes_all (rev us) (bt_graph b') (bt_graph b1)"
    by auto
  have "undoes_all (rev (u # us)) (bt_graph b') (bt_graph b)"
    using undoes_all_append[OF 2(6) undoes_all_one[OF 1(5)]] by simp
  with 1 2 show ?case by (intro exI[of _ "u # us"] exI[of _ "a1 # acts"]) simp
qed

section \<open>Guards\<close>

lemma set_first_occurrences [simp]: "set (first_occurrences xs) = set xs"
  by (induction xs) auto

lemma touched_edges_refs: "touched_edges acts = first_occurrences (concat (map edge_ref acts))"
proof -
  have "map (\<lambda>a. edge_text (str_or_empty (dget a ''from_id''), str_or_empty (dget a ''to_id''),
      str_or_empty (dget a ''type''))) (filter touches_edge acts) = concat (map edge_ref acts)"
    by (induction acts) (simp_all add: edge_ref_def)
  then show ?thesis by (simp add: touched_edges_def)
qed

definition guard_key :: "string \<Rightarrow> bool" where
  "guard_key k \<longleftrightarrow> length (split_on (CHR 0x1F) k) = 3"

definition guard_value :: "graph \<Rightarrow> string \<Rightarrow> json" where
  "guard_value g k = edge_state g (let p = split_on (CHR 0x1F) k in (p ! 0, p ! 1, p ! 2))"

lemma guard_edge_eq:
  "guard_edge g k = (if guard_key k then Inr (k, guard_value g k) else Inl (compensation_conflict ''invalid edge evidence''))"
  by (auto simp: guard_edge_def guard_key_def guard_value_def length_Suc_conv eval_nat_numeral split: list.splits)

lemma check_guard_edges:
  "check_all (guard_edge g) ks = (if \<forall>k \<in> set ks. guard_key k then Inr (map (\<lambda>k. (k, guard_value g k)) ks)
     else Inl (compensation_conflict ''invalid edge evidence''))"
  by (induction ks) (simp_all add: guard_edge_eq)

definition guard_of :: "graph \<Rightarrow> string list \<Rightarrow> string list \<Rightarrow> json" where
  "guard_of g ns es = guard_json (map (\<lambda>k. (k, node_state g k)) ns) (map (\<lambda>k. (k, guard_value g k)) es)
     (map (\<lambda>k. (k, incident_state g k)) ns)"

lemma read_guard:
  "read_compensation_guard g (guard_json ns es is) =
     (if \<forall>k \<in> set (map fst es). guard_key k
      then Inr (guard_json (map (\<lambda>kv. (fst kv, node_state g (fst kv))) ns) (map (\<lambda>kv. (fst kv, guard_value g (fst kv))) es)
        (map (\<lambda>kv. (fst kv, incident_state g (fst kv))) is))
      else Inl (compensation_conflict ''invalid edge evidence''))"
  by (simp add: read_compensation_guard_def guard_json_def check_guard_edges comp_def)

lemma capture_guard:
  "capture_compensation_guard g acts = (if \<forall>k \<in> set (concat (map edge_ref acts)). guard_key k
     then Inr (guard_of g (touched_nodes acts) (touched_edges acts))
     else Inl (compensation_conflict ''invalid edge evidence''))"
  unfolding capture_compensation_guard_def Let_def read_guard guard_of_def
  by (simp add: touched_edges_refs comp_def)

definition same_rows :: "graph \<Rightarrow> graph \<Rightarrow> bool" where
  "same_rows g h \<longleftrightarrow> gd_nodes g = gd_nodes h \<and> gd_edges g = gd_edges h \<and> gd_schemas g = gd_schemas h"

lemma guard_of_cong: "same_rows g h \<Longrightarrow> guard_of g ns es = guard_of h ns es"
  unfolding guard_of_def guard_value_def node_state_def edge_state_def incident_state_def find_node_def find_edge_def
    same_rows_def by simp

lemma read_guard_again:
  assumes "capture_compensation_guard g acts = Inr guard" "same_rows h g"
  shows "read_compensation_guard h guard = Inr guard"
proof -
  have g: "\<forall>k \<in> set (touched_edges acts). guard_key k" "guard = guard_of g (touched_nodes acts) (touched_edges acts)"
    using assms(1) by (auto simp: capture_guard touched_edges_refs split: if_splits)
  then have "guard = guard_of h (touched_nodes acts) (touched_edges acts)"
    using guard_of_cong[OF assms(2)] by simp
  then show ?thesis using g(1) by (simp add: guard_of_def read_guard comp_def)
qed

lemma same_rows_content: "same_rows g h \<Longrightarrow> same_content g h \<and> (graph_ok g \<longleftrightarrow> graph_ok h)"
proof -
  assume r: "same_rows g h"
  then have "node_view g = node_view h" "edge_view g = edge_view h"
    by (auto simp: same_rows_def node_view_def edge_view_def find_node_def find_edge_def)
  moreover have "accepts g = accepts h" using r by (intro ext accepts_cong) (simp add: same_rows_def)
  ultimately show ?thesis using r by (simp add: same_content_def graph_ok_def same_rows_def)
qed

end
