(* ===== verification/Graph_Laws.thy ===== *)
theory Graph_Laws
  imports Graph_Undo
begin

text \<open>
  What a commit of graph actions promises: all or nothing, the table invariant, replay under an
  idempotency key, a compensation guard that refuses a stale undo, and an undo that restores the content.
\<close>

section \<open>Inside a commit\<close>

definition prior_effect :: "commit_request \<Rightarrow> graph \<Rightarrow> effect_row option" where
  "prior_effect q g = (if given (cr_idempotency_key q) then lookup_by gx_key (the (cr_idempotency_key q)) (gd_effects g) else None)"

lemma record_ticket_rows: "record_ticket now t q b = Inr g \<Longrightarrow> same_rows g (bt_graph b)"
  by (auto simp: record_ticket_def same_rows_def split: if_splits)

lemma fresh_commitE:
  assumes "apply_actions_tx now fresh nt digest q actions g = Inr (g1, res)" "prior_effect q g = None"
  obtains b guard g0 where "run_actions now fresh 0 actions (start_batch g) = Inr b"
    "capture_compensation_guard g0 (bt_actions b) = Inr guard" "same_rows g0 (bt_graph b)" "same_rows g1 (bt_graph b)"
    "res = effect_result (commit_ticket nt q) b guard" "actions \<noteq> []"
proof -
  from assms obtain b where r: "run_actions now fresh 0 actions (start_batch g) = Inr b" "actions \<noteq> []"
    and f: "finish_commit now (commit_ticket nt q) q (digest (actions, cr_expected_state q)) b = Inr (g1, res)"
    unfolding apply_actions_tx_def prior_effect_def Let_def by (auto split: if_splits option.splits sum.splits)
  from f obtain g0 guard where g: "record_ticket now (commit_ticket nt q) q b = Inr g0"
    "capture_compensation_guard g0 (bt_actions b) = Inr guard" "res = effect_result (commit_ticket nt q) b guard"
    "same_rows g1 g0"
    unfolding finish_commit_def Let_def by (auto simp: same_rows_def split: sum.splits if_splits)
  note rows = record_ticket_rows[OF g(1)]
  show thesis by (rule that[OF r(1) g(2) rows _ g(3) r(2)]) (use rows g(4) in \<open>simp add: same_rows_def\<close>)
qed

lemma tx_of_atomic: "apply_actions_atomic now fresh nt digest q actions g = (g1, Inr res) \<longleftrightarrow>
    apply_actions_tx now fresh nt digest q actions g = Inr (g1, res)"
  by (auto simp: apply_actions_atomic_def transact_def split: sum.splits prod.splits)

lemma start_batch_simps [simp]: "bt_graph (start_batch g) = g" "bt_reverse (start_batch g) = []"
  "bt_actions (start_batch g) = []"
  by (simp_all add: start_batch_def)

lemma dget_effect_result [simp]:
  "dget (effect_result t b guard) ''reverse_actions'' = Some (JArr (rev (bt_reverse b)))"
  "dget (effect_result t b guard) ''compensation_guard'' = Some guard"
  by (simp_all add: effect_result_def)

lemma undoes_all_dicts:
  assumes "undoes_all us g' g" "graph_ok g'"
  shows "list_all is_dict us"
proof -
  have step: "is_dict u" if "step_action now fr u c = Inr c'" for now fr u c c'
    using that by (auto simp: step_action_def required_text_eq dget_Some_dict split: sum.splits)
  have "list_all is_dict us" if "run_actions now fresh i us c = Inr c'" for now fresh i c c'
    using that by (induction us arbitrary: i c) (auto split: sum.splits dest: step)
  then show ?thesis using undoes_allD[OF assms(1), of "start_batch g'"] assms(2) by (metis same_content_refl start_batch_simps(1))
qed

section \<open>Undo\<close>

definition undo_request :: "json \<Rightarrow> commit_request" where
  "undo_request guard = \<lparr>cr_session_id = None, cr_ticket_id = None, cr_idempotency_key = None, cr_expected_state = Some guard\<rparr>"

text \<open>
  Property C16 (undo): the reverse actions a commit returns undo it. Applied to the committed graph under the
  compensation guard the commit returned, they are accepted, and every node has the type and properties
  and every edge the properties it had before, with the edges a deleted node lost put back; for any sequence of
  creations, updates, replacements and deletions (every kind but restore_node), also one that touches a row twice. It is assumed that the commit was made now (no
  earlier effect under its key), that no creation asks for a blank node id, which the deletion that reverses it would
  refuse, that generated ids are not blank, that the tables are sound, and that the keys of each object in the guard
  are distinct.
\<close>

theorem reverse_actions_undo_commit:
  assumes "apply_actions_atomic now fresh ticket digest q actions g = (g1, Inr res)" "prior_effect q g = None"
    and "graph_ok g" "\<forall>a \<in> set actions. undoable a" "\<forall>i. named (fresh i)"
    and "dget res ''reverse_actions'' = Some (JArr us)" "dget res ''compensation_guard'' = Some guard" "wf_json guard"
  shows "\<exists>g2 res2. apply_actions_atomic now' fresh' ticket' digest' (undo_request guard) us g1 = (g2, Inr res2) \<and>
     same_content g2 g \<and> graph_ok g2"
proof -
  from assms(1,2) obtain b g0 where b: "run_actions now fresh 0 actions (start_batch g) = Inr b"
    and guard: "capture_compensation_guard g0 (bt_actions b) = Inr guard" "same_rows g0 (bt_graph b)"
    and g1: "same_rows g1 (bt_graph b)" and us: "us = rev (bt_reverse b)" and ne: "actions \<noteq> []"
    unfolding tx_of_atomic using assms(6,7) by (elim fresh_commitE) simp_all
  from run_reversible[OF b, simplified, OF assms(3,4) assms(5)[rule_format]] us ne
  have u: "us \<noteq> []" "map edge_ref us = rev (map edge_ref (bt_actions b))" "graph_ok (bt_graph b)"
    "undoes_all us (bt_graph b) g" by (auto simp add: rev_map[symmetric] simp flip: length_greater_0_conv)
  have ok1: "graph_ok g1" "same_content g1 (bt_graph b)" using same_rows_content[OF g1] u(3) by simp_all
  have "same_rows g1 g0" using g1 guard(2) by (simp add: same_rows_def)
  then have expected: "check_expected g1 (Some guard) = Inr ()"
    using read_guard_again[OF guard(1)] py_eq_refl[OF assms(8)] by (simp add: check_expected_def)
  have "graph_ok (bt_graph (start_batch g1))" "same_content (bt_graph (start_batch g1)) (bt_graph b)" using ok1 by simp_all
  then obtain c as where c: "run_actions now' fresh' 0 us (start_batch g1) = Inr c" "same_content (bt_graph c) g"
    "graph_ok (bt_graph c)" "bt_actions c = as" "map edge_ref as = map edge_ref us"
    by (rule undoes_allD[OF u(4)]) (rule that, assumption+, simp_all)
  have "\<forall>k \<in> set (concat (map edge_ref (bt_actions b))). guard_key k"
    using guard(1) by (auto simp: capture_guard split: if_splits)
  then have "\<exists>guard'. capture_compensation_guard (bt_graph c) (bt_actions c) = Inr guard'"
    unfolding capture_guard c(4,5) u(2) by simp
  then obtain res2 where "finish_commit now' None (undo_request guard) h c = Inr (bt_graph c, res2)" for h
    by (auto simp: finish_commit_def record_ticket_def undo_request_def given_def Let_def)
  then have "apply_actions_tx now' fresh' ticket' digest' (undo_request guard) us g1 = Inr (bt_graph c, res2)"
    using u(1) undoes_all_dicts[OF u(4,3)] expected c(1)
    by (simp add: apply_actions_tx_def undo_request_def given_def commit_ticket_def)
  then show ?thesis using c(2,3) unfolding tx_of_atomic by blast
qed

section \<open>Replay\<close>

text \<open>The ledger of effects only grows, whatever commits follow.\<close>

definition commit_all :: "(string \<times> (nat \<Rightarrow> string) \<times> string \<times> commit_request \<times> json list) list \<Rightarrow>
    (json list \<times> json option \<Rightarrow> string) \<Rightarrow> graph \<Rightarrow> graph" where
  "commit_all cs digest g =
     fold (\<lambda>(now, fresh, ticket, q, actions) g. fst (apply_actions_atomic now fresh ticket digest q actions g)) cs g"

lemma graph_effects_simps [simp]:
  "gd_effects (put_node n g) = gd_effects g" "gd_effects (put_edge e g) = gd_effects g"
  "gd_effects (remove_node x g) = gd_effects g" "gd_effects (remove_edge k g) = gd_effects g"
  by (simp_all add: put_node_def put_edge_def remove_node_def remove_edge_def)

lemma restore_edges_effects: "restore_edges now js g = Inr g' \<Longrightarrow> gd_effects g' = gd_effects g"
  by (induction js arbitrary: g) (auto split: sum.splits if_splits)

lemma step_effects: "step_action now fr a b = Inr b' \<Longrightarrow> gd_effects (bt_graph b') = gd_effects (bt_graph b)"
  by (auto simp: step_action_def do_create_node_def do_update_node_def do_delete_node_def do_restore_node_def
      do_create_edge_def do_delete_edge_def Let_def dest: restore_edges_effects
      split: sum.splits if_splits option.splits json.splits)

lemma run_effects: "run_actions now fresh i as b = Inr b' \<Longrightarrow> gd_effects (bt_graph b') = gd_effects (bt_graph b)"
  by (induction as arbitrary: i b) (auto split: sum.splits dest: step_effects)

lemma commit_effects:
  assumes "apply_actions_atomic now fresh ticket digest q actions g = (g1, r)"
  shows "\<exists>es. gd_effects g1 = gd_effects g @ es"
proof (cases r)
  case (Inl e)
  with assms transact_error[of "apply_actions_tx now fresh ticket digest q actions" g e] show ?thesis
    by (simp add: apply_actions_atomic_def)
next
  case (Inr res)
  with assms have tx: "apply_actions_tx now fresh ticket digest q actions g = Inr (g1, res)" by (simp add: tx_of_atomic)
  show ?thesis
  proof (cases "prior_effect q g")
    case (Some x)
    with tx show ?thesis by (auto simp: apply_actions_tx_def prior_effect_def Let_def split: if_splits option.splits)
  next
    case None
    with tx obtain b t h where b: "run_actions now fresh 0 actions (start_batch g) = Inr b"
      "finish_commit now t q h b = Inr (g1, res)"
      by (auto simp: apply_actions_tx_def prior_effect_def Let_def split: if_splits option.splits sum.splits)
    then show ?thesis using run_effects[OF b(1)]
      by (auto simp: finish_commit_def record_ticket_def Let_def split: sum.splits if_splits)
  qed
qed

lemma commit_all_effects: "\<exists>es. gd_effects (commit_all cs digest g) = gd_effects g @ es"
proof (induction cs arbitrary: g)
  case (Cons c cs)
  obtain now fresh ticket q actions where c: "c = (now, fresh, ticket, q, actions)" by (cases c) auto
  let ?r = "apply_actions_atomic now fresh ticket digest q actions g"
  have "\<exists>es. gd_effects (fst ?r) = gd_effects g @ es" by (rule commit_effects[OF prod.collapse[symmetric]])
  with Cons.IH[of "fst ?r"] show ?case by (auto simp: commit_all_def c)
qed (simp add: commit_all_def)

lemma commit_recorded:
  assumes "apply_actions_atomic now fresh ticket digest q actions g = (g1, Inr res)" "given (cr_idempotency_key q)"
  shows "\<exists>x. lookup_by gx_key (the (cr_idempotency_key q)) (gd_effects g1) = Some x \<and> gx_result x = res \<and>
     gx_hash x = digest (actions, cr_expected_state q)"
proof -
  have tx: "apply_actions_tx now fresh ticket digest q actions g = Inr (g1, res)" using assms(1) by (simp add: tx_of_atomic)
  show ?thesis
  proof (cases "prior_effect q g")
    case (Some x)
    with tx assms(2) show ?thesis by (auto simp: apply_actions_tx_def prior_effect_def Let_def split: if_splits)
  next
    case None
    with tx obtain b where b: "run_actions now fresh 0 actions (start_batch g) = Inr b"
      "finish_commit now (commit_ticket ticket q) q (digest (actions, cr_expected_state q)) b = Inr (g1, res)"
      by (auto simp: apply_actions_tx_def prior_effect_def Let_def split: if_splits option.splits sum.splits)
    then show ?thesis using None assms(2) run_effects[OF b(1)]
      by (auto simp: finish_commit_def record_ticket_def prior_effect_def Let_def lookup_by_append split: sum.splits if_splits)
  qed
qed

lemma replayed_commit:
  assumes "apply_actions_atomic now fresh ticket digest q actions g = (g1, Inr res)" "given (cr_idempotency_key q)"
  shows "apply_actions_atomic now' fresh' ticket' digest q actions g1 = (g1, Inr res)"
proof -
  have "actions \<noteq> []" "list_all is_dict actions"
    using assms(1) by (auto simp: tx_of_atomic apply_actions_tx_def split: if_splits)
  then show ?thesis using commit_recorded[OF assms] assms(2) by (auto simp: apply_actions_atomic_def transact_def apply_actions_tx_def)
qed

text \<open>
  Property C20 (replay): a commit with an idempotency key takes effect once. However many commits follow it, the
  same actions under the same key return the first result and leave the graph alone, and actions that
  hash differently under that key are refused.
\<close>

theorem idempotency_key_commits_once:
  assumes "apply_actions_atomic now fresh ticket digest q actions g = (g1, Inr res)" "given (cr_idempotency_key q)"
    and "h = commit_all cs digest g1"
  shows "apply_actions_atomic now' fresh' ticket' digest q actions h = (h, Inr res) \<and>
     (other \<noteq> [] \<and> list_all is_dict other \<and>
        digest (other, cr_expected_state q) \<noteq> digest (actions, cr_expected_state q) \<longrightarrow>
      apply_actions_atomic now' fresh' ticket' digest q other h =
        (h, Inl (ValueError ''Graph idempotency key was reused with different actions'')))"
proof -
  obtain x where x: "lookup_by gx_key (the (cr_idempotency_key q)) (gd_effects g1) = Some x" "gx_result x = res"
    "gx_hash x = digest (actions, cr_expected_state q)"
    using commit_recorded[OF assms(1,2)] by blast
  have "lookup_by gx_key (the (cr_idempotency_key q)) (gd_effects h) = Some x"
    using commit_all_effects[of cs digest g1] x(1) by (auto simp: assms(3) lookup_by_append)
  moreover have "actions \<noteq> []" "list_all is_dict actions"
    using assms(1) by (auto simp: tx_of_atomic apply_actions_tx_def split: if_splits)
  ultimately show ?thesis
    using assms(2) x(2,3) by (simp add: apply_actions_atomic_def transact_def apply_actions_tx_def)
qed

section \<open>Compensation\<close>

lemma py_eq_field:
  assumes "py_eq (JObj xs) (JObj ys)" "(k, v) \<in> set xs"
  shows "\<exists>w. map_of ys k = Some w \<and> py_eq v w"
proof -
  have "py_eq_items xs ys" using assms(1) by simp
  then show ?thesis using assms(2) by (induction xs) (auto split: option.splits)
qed

lemma py_eq_objD: "py_eq (JObj xs) w \<Longrightarrow> \<exists>ys. w = JObj ys"
  by (cases w) auto

lemma map_of_tagged: "map_of (map (\<lambda>k. (k, f k)) ks) k = (if k \<in> set ks then Some (f k) else None)"
  by (induction ks) auto

lemma guard_of_eq:
  assumes "py_eq (guard_of h ns es) (guard_of g ns es)"
  shows "k \<in> set ns \<Longrightarrow> py_eq (node_state h k) (node_state g k) \<and> py_eq (incident_state h k) (incident_state g k)"
    and "k \<in> set es \<Longrightarrow> py_eq (guard_value h k) (guard_value g k)"
proof -
  have f: "py_eq (JObj (map (\<lambda>k. (k, node_state h k)) ns)) (JObj (map (\<lambda>k. (k, node_state g k)) ns))"
    "py_eq (JObj (map (\<lambda>k. (k, guard_value h k)) es)) (JObj (map (\<lambda>k. (k, guard_value g k)) es))"
    "py_eq (JObj (map (\<lambda>k. (k, incident_state h k)) ns)) (JObj (map (\<lambda>k. (k, incident_state g k)) ns))"
    using assms by (simp_all add: guard_of_def guard_json_def)
  show "py_eq (node_state h k) (node_state g k) \<and> py_eq (incident_state h k) (incident_state g k)" if "k \<in> set ns"
    using py_eq_field[OF f(1), of k "node_state h k"] py_eq_field[OF f(3), of k "incident_state h k"] that
    by (auto simp: map_of_tagged)
  show "py_eq (guard_value h k) (guard_value g k)" if "k \<in> set es"
    using py_eq_field[OF f(2), of k "guard_value h k"] that by (auto simp: map_of_tagged)
qed

text \<open>
  Property C21 (stale): a compensation never overwrites later work. Under the guard captured when an effect
  committed, a first application is refused with the conflict error, the graph unchanged, as soon as
  one node the effect touched has since got another type, other properties or other incident edges,
  or has gone; so it succeeds only over the rows as the effect left them.
\<close>

theorem stale_compensation_refused:
  assumes "capture_compensation_guard g acts = Inr guard" "nid \<in> set (touched_nodes acts)"
    and "\<not> py_eq (node_state h nid) (node_state g nid) \<or> \<not> py_eq (incident_state h nid) (incident_state g nid)"
    and "cr_expected_state q = Some guard" "prior_effect q h = None" "us \<noteq> []" "list_all is_dict us"
  shows "apply_actions_atomic now fresh ticket digest q us h =
     (h, Inl (compensation_conflict ''nodes or edges changed after this effect committed''))"
proof -
  have ks: "\<forall>k \<in> set (touched_edges acts). guard_key k" "guard = guard_of g (touched_nodes acts) (touched_edges acts)"
    using assms(1) by (auto simp: capture_guard touched_edges_refs split: if_splits)
  then have "read_compensation_guard h guard = Inr (guard_of h (touched_nodes acts) (touched_edges acts))"
    by (simp add: guard_of_def read_guard comp_def)
  moreover have "\<not> py_eq (guard_of h (touched_nodes acts) (touched_edges acts)) guard"
    using guard_of_eq(1)[of h "touched_nodes acts" "touched_edges acts" g nid] assms(2,3) ks(2) by blast
  ultimately show ?thesis
    using assms(4-7) by (auto simp: apply_actions_atomic_def transact_def apply_actions_tx_def check_expected_def
        prior_effect_def split: if_splits)
qed

section \<open>A concrete graph\<close>

definition demo_schema :: entity_schema where
  "demo_schema = core_entity ''Task'' [] [''title''] []"

definition demo_node :: "string \<Rightarrow> string \<Rightarrow> node_row" where
  "demo_node nid title = new_node [] nid ''Task'' [(''title'', JStr title)]"

definition demo_graph :: graph where
  "demo_graph = \<lparr>gd_schemas = [demo_schema], gd_nodes = [demo_node ''a'' ''x'', demo_node ''b'' ''y''],
     gd_edges = [new_edge [] (''a'', ''b'', ''t'') (JObj [])], gd_history = [], gd_effects = []\<rparr>"

definition demo_request :: commit_request where
  "demo_request = \<lparr>cr_session_id = None, cr_ticket_id = None, cr_idempotency_key = Some ''k'', cr_expected_state = None\<rparr>"

lemmas demo_defs = demo_schema_def demo_node_def demo_graph_def demo_request_def core_entity_def new_node_def new_edge_def

lemma demo_ok: "graph_ok demo_graph"
  by (auto simp: graph_ok_def demo_defs node_view_def edge_view_def find_node_def find_edge_def edge_key_def schema_ok_def
      named_def strip_def is_space_def schema_properties_def SYSTEM_PROPERTIES_def accepts_def find_schema_def
      usable_schema_def well_typed_def ONTOLOGY_ID_def USER_CONTEXT_SCOPE_def split: if_splits)

definition demo_delete :: "json list" where
  "demo_delete = [node_id_record ''delete_node'' ''a'']"

definition demo_batch :: batch where
  "demo_batch = (case run_actions [] (\<lambda>i. ''f'') 0 demo_delete (start_batch demo_graph) of Inr b \<Rightarrow> b)"

lemma demo_run: "run_actions [] (\<lambda>i. ''f'') 0 demo_delete (start_batch demo_graph) = Inr demo_batch"
  "bt_actions demo_batch = demo_delete" "bt_graph demo_batch = remove_node ''a'' demo_graph"
  "bt_reverse demo_batch = [restore_record (demo_node ''a'' ''x'') (gd_edges demo_graph)]"
proof -
  have "find_node demo_graph ''a'' = Some (demo_node ''a'' ''x'')"
    "filter (incident ''a'') (gd_edges demo_graph) = gd_edges demo_graph"
    by (simp_all add: find_node_def demo_defs incident_def)
  then obtain b where "step_action [] ''f'' (node_id_record ''delete_node'' ''a'') (start_batch demo_graph) = Inr b"
    "bt_actions b = demo_delete" "bt_graph b = remove_node ''a'' demo_graph"
    "bt_reverse b = [restore_record (demo_node ''a'' ''x'') (gd_edges demo_graph)]"
    using kind_named by (simp add: step_action_def required_text_JStr do_delete_node_def Let_def demo_delete_def
        named_def strip_def is_space_def)
  then show "run_actions [] (\<lambda>i. ''f'') 0 demo_delete (start_batch demo_graph) = Inr demo_batch"
    "bt_actions demo_batch = demo_delete" "bt_graph demo_batch = remove_node ''a'' demo_graph"
    "bt_reverse demo_batch = [restore_record (demo_node ''a'' ''x'') (gd_edges demo_graph)]"
    by (simp_all add: demo_batch_def demo_delete_def)
qed

definition demo_guard :: json where
  "demo_guard = guard_json [(''a'', JNull)] [] [(''a'', JArr [])]"

definition demo_result :: json where
  "demo_result = effect_result None demo_batch demo_guard"

definition demo_committed :: graph where
  "demo_committed = (remove_node ''a'' demo_graph)\<lparr>gd_effects := [\<lparr>gx_key = ''k'', gx_hash = ''h'', gx_result = demo_result\<rparr>]\<rparr>"

lemma demo_guard_captured: "capture_compensation_guard (remove_node ''a'' demo_graph) demo_delete = Inr demo_guard"
  by (simp add: capture_guard demo_delete_def guard_of_def touched_nodes_def touched_edges_refs touches_node_def
      kind_of_def demo_guard_def node_state_def incident_state_def find_node_None remove_node_def)
    (simp add: demo_defs incident_def find_node_def)

lemma demo_commit:
  "apply_actions_atomic [] (\<lambda>i. ''f'') ''t'' (\<lambda>x. ''h'') demo_request demo_delete demo_graph = (demo_committed, Inr demo_result)"
proof -
  have "finish_commit [] None demo_request ''h'' demo_batch = Inr (demo_committed, demo_result)"
    by (simp add: finish_commit_def record_ticket_def demo_request_def given_def demo_run demo_committed_def
        demo_result_def demo_guard_captured)
      (simp add: demo_graph_def remove_node_def Let_def)
  moreover have "list_all is_dict demo_delete" "demo_delete \<noteq> []" by (simp_all add: demo_delete_def node_id_record_def)
  moreover have "given (cr_idempotency_key demo_request)" "gd_effects demo_graph = []"
    "cr_expected_state demo_request = None" "commit_ticket ''t'' demo_request = None"
    by (simp_all add: demo_request_def demo_graph_def given_def commit_ticket_def)
  ultimately show ?thesis unfolding tx_of_atomic
    by (simp add: apply_actions_tx_def demo_run(1) check_expected_def)
qed

lemma idempotency_key_commits_once_witness:
  "apply_actions_atomic [] (\<lambda>i. ''f'') ''t2'' (\<lambda>x. ''h'') demo_request demo_delete demo_committed =
     (demo_committed, Inr demo_result)"
proof -
  have "given (cr_idempotency_key demo_request)" by (simp add: demo_request_def given_def)
  from idempotency_key_commits_once[OF demo_commit this, where cs = "[]"] show ?thesis by (simp add: commit_all_def)
qed

lemma stale_compensation_refused_witness:
  "apply_actions_atomic [] (\<lambda>i. ''f'') ''t'' (\<lambda>x. ''h'') (undo_request demo_guard) demo_delete demo_graph =
     (demo_graph, Inl (compensation_conflict ''nodes or edges changed after this effect committed''))"
proof (rule stale_compensation_refused[OF demo_guard_captured])
  show "''a'' \<in> set (touched_nodes demo_delete)"
    by (simp add: touched_nodes_def demo_delete_def touches_node_def kind_of_def)
  show "\<not> py_eq (node_state demo_graph ''a'') (node_state (remove_node ''a'' demo_graph) ''a'') \<or>
      \<not> py_eq (incident_state demo_graph ''a'') (incident_state (remove_node ''a'' demo_graph) ''a'')"
    by (simp add: node_state_def find_node_def demo_defs remove_node_def semantic_node_def)
qed (simp_all add: undo_request_def prior_effect_def given_def demo_delete_def node_id_record_def)

lemma reverse_actions_undo_commit_witness:
  "\<exists>g2 res2. apply_actions_atomic [] (\<lambda>i. ''f'') ''t'' (\<lambda>x. ''h'') (undo_request demo_guard)
     [restore_record (demo_node ''a'' ''x'') (gd_edges demo_graph)] demo_committed = (g2, Inr res2) \<and>
     same_content g2 demo_graph \<and> graph_ok g2"
proof (rule reverse_actions_undo_commit[OF demo_commit _ demo_ok])
  show "prior_effect demo_request demo_graph = None" by (simp add: prior_effect_def demo_graph_def)
  show "\<forall>a \<in> set demo_delete. undoable a" by (simp add: demo_delete_def undoable_def kind_of_def)
  show "\<forall>i. named ''f''" by (simp add: named_def strip_def is_space_def)
qed (simp_all add: demo_result_def demo_run demo_guard_def guard_json_def)

end
