(* ===== verification/Graph_Schemas.thy ===== *)
theory Graph_Schemas
  imports Graph_Laws
begin

text \<open>
  The growth of the ontology (\<^verbatim>\<open>register_schema\<close>, \<^verbatim>\<open>apply_schema_proposal_atomic\<close>,
  \<^verbatim>\<open>restore_schema_snapshot\<close>, \<^verbatim>\<open>effective_schemas\<close> of \<^verbatim>\<open>backend/graph_db.py\<close>). A row of
  \<^verbatim>\<open>graph_schemas\<close> is a record; inside a ledger entry it is an object with the same columns. The columns
  that hold JSON text hold the value of that text. Arguments: \<open>now\<close>, the time; \<open>digest\<close>, the hash of the
  canonical text of a normalized proposal.
\<close>

section \<open>Rows as objects\<close>

definition schema_row_json :: "entity_schema \<Rightarrow> json" where
  "schema_row_json s = JObj [(''id'', JStr (sc_id s)), (''name'', JStr (sc_name s)),
     (''description'', JStr (sc_description s)), (''properties'', JObj (map (\<lambda>kv. (fst kv, JStr (snd kv))) (sc_properties s))),
     (''is_core'', JBool (sc_is_core s)), (''ontology_id'', JStr (sc_ontology_id s)), (''ontology_iri'', JStr (sc_ontology_iri s)),
     (''source'', JStr (sc_source s)), (''equivalent_to'', JArr (map JStr (sc_equivalent_to s))),
     (''subclass_of'', json_of_str (sc_subclass_of s)), (''abstract'', JBool (sc_abstract s)),
     (''data_scope'', JStr (sc_data_scope s)), (''created_at'', JStr (sc_created_at s))]"

definition text_of :: "json \<Rightarrow> string" where
  "text_of j = (case j of JStr s \<Rightarrow> s | _ \<Rightarrow> [])"

definition read_schema_row :: "json \<Rightarrow> entity_schema option" where
  "read_schema_row j =
     (case (dget j ''id'', dget j ''name'', dget j ''description'', dget j ''properties'', dget j ''is_core'', dget j ''created_at'') of
        (Some (JStr i), Some (JStr n), Some (JStr d), Some (JObj ps), Some (JBool core), Some (JStr created)) \<Rightarrow>
          Some \<lparr>sc_id = i, sc_name = n, sc_description = d, sc_properties = map (\<lambda>kv. (fst kv, text_of (snd kv))) ps,
            sc_is_core = core,
            sc_ontology_id = (case dget j ''ontology_id'' of Some v \<Rightarrow> text_of v | None \<Rightarrow> ONTOLOGY_ID),
            sc_ontology_iri = str_or_empty (dget j ''ontology_iri''), sc_source = str_or_empty (dget j ''source''),
            sc_equivalent_to = (case dget j ''equivalent_to'' of Some (JArr xs) \<Rightarrow> map text_of xs | _ \<Rightarrow> []),
            sc_subclass_of = (case dget j ''subclass_of'' of Some (JStr p) \<Rightarrow> Some p | _ \<Rightarrow> None),
            sc_abstract = truthy_opt (dget j ''abstract''),
            sc_data_scope = (case dget j ''data_scope'' of Some v \<Rightarrow> text_of v | None \<Rightarrow> USER_CONTEXT_SCOPE),
            sc_created_at = created\<rparr>
      | _ \<Rightarrow> None)"

lemma read_schema_row_json [simp]: "read_schema_row (schema_row_json s) = Some s"
  by (cases "sc_subclass_of s")
    (simp_all add: read_schema_row_def schema_row_json_def text_of_def json_of_str_def comp_def)

section \<open>Registering an entity\<close>

text \<open>\<^verbatim>\<open>_merge_entity_properties\<close>: properties are added, never retyped.\<close>

definition merge_entity_properties ::
  "string \<Rightarrow> (string \<times> string) list \<Rightarrow> (string \<times> string) list \<Rightarrow> (string \<times> string) list result" where
  "merge_entity_properties entity current extension =
     (case List.find (\<lambda>kv. map_of current (fst kv) \<noteq> None \<and> map_of current (fst kv) \<noteq> Some (snd kv)) extension of
        Some kv \<Rightarrow> Inl (ValueError (''Ontology entity '' @ quoted entity @ '' cannot change property '' @ quoted (fst kv)
           @ '' from '' @ quoted (the (map_of current (fst kv))) @ '' to '' @ quoted (snd kv)))
      | None \<Rightarrow> Inr (fold (\<lambda>kv d. AList.update (fst kv) (snd kv) d) extension current))"

definition missing_parent :: "string \<Rightarrow> string \<Rightarrow> py_error" where
  "missing_parent entity parent =
     ValueError (''Ontology entity '' @ quoted entity @ '' references missing parent '' @ quoted parent)"

text \<open>\<^verbatim>\<open>ON CONFLICT(id) DO UPDATE\<close> keeps \<^verbatim>\<open>is_core\<close> and the creation time of the row it meets.\<close>

definition put_schema :: "entity_schema \<Rightarrow> entity_schema list \<Rightarrow> entity_schema list" where
  "put_schema = upsert sc_id (\<lambda>old new. new\<lparr>sc_is_core := sc_is_core old, sc_created_at := sc_created_at old\<rparr>)"

record schema_request =
  rq_id :: json
  rq_name :: string
  rq_description :: string
  rq_properties :: json
  rq_is_core :: bool
  rq_iri :: "string option"
  rq_source :: string
  rq_equivalent_to :: json
  rq_subclass_of :: "string option"
  rq_abstract :: bool
  rq_data_scope :: string

definition default_iri :: "string \<Rightarrow> string" where
  "default_iri entity = ''urn:ambient:ontology:'' @ entity"

definition register_schema_tx :: "string \<Rightarrow> schema_request \<Rightarrow> (graph, entity_schema) tx" where
  "register_schema_tx now q g =
     (case rq_id q of
        JStr raw \<Rightarrow>
          if strip raw = [] then Inl (ValueError ''Ontology entity id must be a non-empty string'')
          else let i = strip raw in
          (case validate_property_definition i (rq_properties q) of Inl e \<Rightarrow> Inl e | Inr given_props \<Rightarrow>
          (case validate_correspondences i (rq_equivalent_to q) of Inl e \<Rightarrow> Inl e | Inr eqs \<Rightarrow>
             if rq_data_scope q \<noteq> USER_CONTEXT_SCOPE
             then Inl (ValueError (''Ontology entity '' @ quoted i @ '' has non-context data_scope '' @ quoted (rq_data_scope q)))
             else if rq_subclass_of q = Some i
             then Inl (ValueError (''Ontology entity '' @ quoted i @ '' cannot be its own parent''))
             else let old = find_schema g i in
             (case (case old of Some s \<Rightarrow> merge_entity_properties i (sc_properties s) given_props
                    | None \<Rightarrow> Inr given_props) of Inl e \<Rightarrow> Inl e | Inr props \<Rightarrow>
                if rq_subclass_of q \<noteq> None \<and> find_schema g (the (rq_subclass_of q)) = None
                then Inl (missing_parent i (the (rq_subclass_of q)))
                else let row = \<lparr>sc_id = i, sc_name = rq_name q, sc_description = rq_description q,
                        sc_properties = props, sc_is_core = (rq_is_core q \<or> (\<exists>s. old = Some s \<and> sc_is_core s)),
                        sc_ontology_id = ONTOLOGY_ID,
                        sc_ontology_iri = (if given (rq_iri q) then the (rq_iri q) else default_iri i),
                        sc_source = rq_source q, sc_equivalent_to = eqs, sc_subclass_of = rq_subclass_of q,
                        sc_abstract = rq_abstract q, sc_data_scope = rq_data_scope q, sc_created_at = now\<rparr>
                     in Inr (g\<lparr>gd_schemas := put_schema row (gd_schemas g)\<rparr>, row))))
      | _ \<Rightarrow> Inl (ValueError ''Ontology entity id must be a non-empty string''))"

definition register_schema :: "string \<Rightarrow> schema_request \<Rightarrow> graph \<Rightarrow> graph \<times> entity_schema result" where
  "register_schema now q = transact (register_schema_tx now q)"

definition seed_request :: "entity_schema \<Rightarrow> schema_request" where
  "seed_request s = \<lparr>rq_id = JStr (sc_id s), rq_name = sc_name s, rq_description = sc_description s,
     rq_properties = JObj (map (\<lambda>kv. (fst kv, JStr (snd kv))) (sc_properties s)), rq_is_core = sc_is_core s,
     rq_iri = Some (sc_ontology_iri s), rq_source = sc_source s, rq_equivalent_to = JArr (map JStr (sc_equivalent_to s)),
     rq_subclass_of = sc_subclass_of s, rq_abstract = sc_abstract s, rq_data_scope = sc_data_scope s\<rparr>"

definition seed_core_schemas :: "string \<Rightarrow> graph \<Rightarrow> graph" where
  "seed_core_schemas now g = fold (\<lambda>s g. fst (register_schema now (seed_request s) g)) PREBUILT_ONTOLOGY g"

text \<open>What the queries read: every column but the creation time.\<close>

definition listed :: "entity_schema \<Rightarrow> entity_schema" where
  "listed s = s\<lparr>sc_created_at := []\<rparr>"

definition get_schema :: "graph \<Rightarrow> string \<Rightarrow> entity_schema option" where
  "get_schema g i = map_option listed (find_schema g i)"

definition by_schema_id :: "entity_schema \<Rightarrow> entity_schema \<Rightarrow> bool" where
  "by_schema_id a b = str_less (sc_id a) (sc_id b)"

definition list_schemas :: "graph \<Rightarrow> entity_schema list" where
  "list_schemas g = map listed (order_by by_schema_id (gd_schemas g))"

section \<open>Proposals\<close>

record reused_schema =
  ru_id :: string
  ru_extension :: "(string \<times> string) list"
  ru_item :: json

record schema_proposal =
  sp_reused :: "reused_schema list"
  sp_new :: "entity_schema list"

text \<open>\<^verbatim>\<open>for item in proposal.get(key, []) or []\<close>: objects and texts iterate too.\<close>

definition iterate_field :: "json option \<Rightarrow> json list result" where
  "iterate_field v =
     (case v of
        None \<Rightarrow> Inr []
      | Some j \<Rightarrow> if \<not> truthy j then Inr []
          else (case j of JArr xs \<Rightarrow> Inr xs | JObj kvs \<Rightarrow> Inr (map (\<lambda>kv. JStr (fst kv)) kvs)
                | JStr s \<Rightarrow> Inr (map (\<lambda>c. JStr [c]) s) | _ \<Rightarrow> Inl (TypeError ''object is not iterable'')))"

definition check_scope :: "string \<Rightarrow> json \<Rightarrow> unit result" where
  "check_scope i item =
     (case dget item ''data_scope'' of
        None \<Rightarrow> Inr ()
      | Some v \<Rightarrow> if v = JStr USER_CONTEXT_SCOPE then Inr ()
          else Inl (ValueError (''Ontology entity '' @ quoted i @ '' has non-context data_scope '' @ quoted (py_str v))))"

definition normalize_reused :: "json \<Rightarrow> reused_schema result" where
  "normalize_reused item =
     (if \<not> is_dict item then Inl (ValueError ''reused_schemas entries must be objects'')
      else case required_text item ''id'' of Inl e \<Rightarrow> Inl e | Inr i \<Rightarrow>
      (case validate_property_definition i (or_empty_object (dget item ''extended_properties'')) of Inl e \<Rightarrow> Inl e | Inr ext \<Rightarrow>
      (case check_scope i item of Inl e \<Rightarrow> Inl e | Inr _ \<Rightarrow>
         Inr \<lparr>ru_id = i, ru_extension = ext, ru_item = item\<rparr>)))"

definition read_parent :: "string \<Rightarrow> json \<Rightarrow> string option result" where
  "read_parent i item =
     (case dget item ''subclass_of'' of
        None \<Rightarrow> Inr (Some ''Thing'')
      | Some JNull \<Rightarrow> Inr None
      | Some (JStr p) \<Rightarrow> if strip p = [] then Inl (ValueError (''Ontology entity '' @ quoted i @ '' has invalid subclass_of''))
          else Inr (Some (strip p))
      | Some _ \<Rightarrow> Inl (ValueError (''Ontology entity '' @ quoted i @ '' has invalid subclass_of'')))"

definition read_iri :: "string \<Rightarrow> json \<Rightarrow> string result" where
  "read_iri i item =
     (case dget item ''ontology_iri'' of
        None \<Rightarrow> Inr (strip (default_iri i))
      | Some v \<Rightarrow> if \<not> truthy v then Inr (strip (default_iri i))
          else (case v of JStr s \<Rightarrow> if strip s = []
                  then Inl (ValueError (''Ontology entity '' @ quoted i @ '' has invalid ontology_iri'')) else Inr (strip s)
                | _ \<Rightarrow> Inl (ValueError (''Ontology entity '' @ quoted i @ '' has invalid ontology_iri''))))"

definition text_or :: "string \<Rightarrow> json option \<Rightarrow> string" where
  "text_or d v = (case v of None \<Rightarrow> d | Some j \<Rightarrow> if truthy j then py_str j else d)"

definition normalize_new :: "json \<Rightarrow> entity_schema result" where
  "normalize_new item =
     (if \<not> is_dict item then Inl (ValueError ''new_schemas entries must be objects'')
      else case required_text item ''id'' of Inl e \<Rightarrow> Inl e | Inr i \<Rightarrow>
      (case validate_property_definition i (or_empty_object (dget item ''properties'')) of Inl e \<Rightarrow> Inl e | Inr props \<Rightarrow>
      (case check_scope i item of Inl e \<Rightarrow> Inl e | Inr _ \<Rightarrow>
      (case read_parent i item of Inl e \<Rightarrow> Inl e | Inr parent \<Rightarrow>
         if parent = Some i then Inl (ValueError (''Ontology entity '' @ quoted i @ '' cannot be its own parent''))
         else case read_iri i item of Inl e \<Rightarrow> Inl e | Inr iri \<Rightarrow>
         (case validate_correspondences i (json_or_null (dget item ''equivalent_to'')) of Inl e \<Rightarrow> Inl e | Inr eqs \<Rightarrow>
            Inr \<lparr>sc_id = i, sc_name = text_or i (dget item ''name''), sc_description = text_or [] (dget item ''description''),
               sc_properties = props, sc_is_core = False, sc_ontology_id = ONTOLOGY_ID, sc_ontology_iri = iri,
               sc_source = text_or ''ambient-context'' (dget item ''source''), sc_equivalent_to = eqs,
               sc_subclass_of = parent, sc_abstract = truthy_opt (dget item ''abstract''),
               sc_data_scope = USER_CONTEXT_SCOPE, sc_created_at = []\<rparr>)))))"

definition normalize_schema_proposal :: "json \<Rightarrow> schema_proposal result" where
  "normalize_schema_proposal proposal =
     (if \<not> is_dict proposal then Inl (ValueError ''Schema proposal must be an object'')
      else case iterate_field (dget proposal ''reused_schemas'') of Inl e \<Rightarrow> Inl e | Inr reused \<Rightarrow>
      (case check_all normalize_reused reused of Inl e \<Rightarrow> Inl e | Inr rs \<Rightarrow>
      (case iterate_field (dget proposal ''new_schemas'') of Inl e \<Rightarrow> Inl e | Inr new \<Rightarrow>
      (case check_all normalize_new new of Inl e \<Rightarrow> Inl e | Inr ns \<Rightarrow>
         Inr \<lparr>sp_reused = rs, sp_new = ns\<rparr>))))"

section \<open>Applying a proposal\<close>

definition schema_ids :: "graph \<Rightarrow> string set" where
  "schema_ids g = sc_id ` set (gd_schemas g)"

definition validate_proposal_parents :: "graph \<Rightarrow> schema_proposal \<Rightarrow> unit result" where
  "validate_proposal_parents g p =
     (case List.find (\<lambda>s. sc_subclass_of s \<noteq> None \<and>
             the (sc_subclass_of s) \<notin> schema_ids g \<union> sc_id ` set (sp_new p)) (sp_new p) of
        None \<Rightarrow> Inr ()
      | Some s \<Rightarrow> Inl (missing_parent (sc_id s) (the (sc_subclass_of s))))"

text \<open>The extensions of a proposal, one after the other.\<close>

fun extend_rows :: "reused_schema list \<Rightarrow> entity_schema list \<Rightarrow> entity_schema list result" where
  "extend_rows [] rows = Inr rows"
| "extend_rows (r # rs) rows =
     (case lookup_by sc_id (ru_id r) rows of
        None \<Rightarrow> Inl (ValueError (''Reused schema '' @ quoted (ru_id r) @ '' does not exist''))
      | Some s \<Rightarrow>
          (case merge_entity_properties (ru_id r) (sc_properties s) (ru_extension r) of Inl e \<Rightarrow> Inl e | Inr props \<Rightarrow>
             extend_rows rs (update_where (\<lambda>x. sc_id x = ru_id r) (\<lambda>x. x\<lparr>sc_properties := props\<rparr>) rows)))"

definition already_exists :: "string \<Rightarrow> py_error" where
  "already_exists i =
     ValueError (''Ontology entity '' @ quoted i @ '' already exists; extend the canonical entity instead'')"

text \<open>\<^verbatim>\<open>effective_schemas\<close>: the inventory with a proposal laid over it, nothing written.\<close>

fun overlay_new :: "entity_schema list \<Rightarrow> entity_schema list \<Rightarrow> entity_schema list result" where
  "overlay_new [] rows = Inr rows"
| "overlay_new (s # ss) rows =
     (if lookup_by sc_id (sc_id s) rows \<noteq> None then Inl (already_exists (sc_id s)) else overlay_new ss (rows @ [s]))"

definition effective_schemas :: "graph \<Rightarrow> json option \<Rightarrow> entity_schema list result" where
  "effective_schemas g proposal =
     (case proposal of
        None \<Rightarrow> Inr (list_schemas g)
      | Some j \<Rightarrow>
          (case normalize_schema_proposal j of Inl e \<Rightarrow> Inl e | Inr p \<Rightarrow>
          (case validate_proposal_parents g p of Inl e \<Rightarrow> Inl e | Inr _ \<Rightarrow>
          (case extend_rows (sp_reused p) (list_schemas g) of Inl e \<Rightarrow> Inl e | Inr rows \<Rightarrow>
             map_sum id (order_by by_schema_id) (overlay_new (sp_new p) rows)))))"

text \<open>The rows of the entities a proposal names, \<^verbatim>\<open>None\<close> for one that does not exist.\<close>

definition snapshot_rows :: "schema_proposal \<Rightarrow> graph \<Rightarrow> (string \<times> json) list" where
  "snapshot_rows p g = map (\<lambda>i. (i, case find_schema g i of None \<Rightarrow> JNull | Some s \<Rightarrow> schema_row_json s))
     (first_occurrences (map ru_id (sp_reused p) @ map sc_id (sp_new p)))"

definition proposal_json :: "schema_proposal \<Rightarrow> json" where
  "proposal_json p = JObj
     [(''reused_schemas'', JArr (map (\<lambda>r. dset ''id'' (JStr (ru_id r)) (dset ''extended_properties''
          (JObj (map (\<lambda>kv. (fst kv, JStr (snd kv))) (ru_extension r))) (dset ''data_scope'' (JStr USER_CONTEXT_SCOPE) (ru_item r))))
          (sp_reused p))),
      (''new_schemas'', JArr (map (\<lambda>s. dpop ''is_core'' (dpop ''created_at'' (schema_row_json s))) (sp_new p)))]"

definition schema_effect_json :: "schema_proposal \<Rightarrow> graph \<Rightarrow> graph \<Rightarrow> json" where
  "schema_effect_json p before after = JObj [(''proposal'', proposal_json p),
     (''snapshot'', JObj (snapshot_rows p before)), (''snapshot_after'', JObj (snapshot_rows p after))]"

definition insert_schemas :: "string \<Rightarrow> entity_schema list \<Rightarrow> entity_schema list \<Rightarrow> entity_schema list" where
  "insert_schemas now new rows = fold (\<lambda>s. put_schema (s\<lparr>sc_created_at := now\<rparr>)) new rows"

text \<open>The writes of a proposal, once the ledger has nothing under its key.\<close>

definition write_proposal ::
  "string \<Rightarrow> (schema_proposal \<Rightarrow> string) \<Rightarrow> string option \<Rightarrow> schema_proposal \<Rightarrow> (graph, json) tx" where
  "write_proposal now digest key p g =
     (case List.find (\<lambda>s. find_schema g (sc_id s) \<noteq> None) (sp_new p) of
        Some s \<Rightarrow> Inl (already_exists (sc_id s))
      | None \<Rightarrow>
          (case extend_rows (sp_reused p) (gd_schemas g) of Inl e \<Rightarrow> Inl e | Inr rows \<Rightarrow>
             (let g' = g\<lparr>gd_schemas := insert_schemas now (sp_new p) rows\<rparr>; res = schema_effect_json p g g'
              in Inr (if given key then g'\<lparr>gd_effects := gd_effects g' @
                        [\<lparr>gx_key = the key, gx_hash = digest p, gx_result = res\<rparr>]\<rparr> else g', res))))"

definition apply_schema_tx ::
  "string \<Rightarrow> (schema_proposal \<Rightarrow> string) \<Rightarrow> string option \<Rightarrow> json \<Rightarrow> (graph, json) tx" where
  "apply_schema_tx now digest key proposal g =
     (case normalize_schema_proposal proposal of Inl e \<Rightarrow> Inl e | Inr p \<Rightarrow>
     (case validate_proposal_parents g p of Inl e \<Rightarrow> Inl e | Inr _ \<Rightarrow>
     (case (if given key then lookup_by gx_key (the key) (gd_effects g) else None) of
        None \<Rightarrow> write_proposal now digest key p g
      | Some x \<Rightarrow>
          if gx_hash x \<noteq> digest p
          then Inl (ValueError ''Schema idempotency key was reused with a different proposal'')
          else if \<not> truthy_opt (dget (gx_result x) ''compensated'') then Inr (g, gx_result x)
          else write_proposal now digest key p
                 (g\<lparr>gd_effects := filter (\<lambda>y. gx_key y \<noteq> the key) (gd_effects g)\<rparr>))))"

definition apply_schema_proposal_atomic ::
  "string \<Rightarrow> (schema_proposal \<Rightarrow> string) \<Rightarrow> string option \<Rightarrow> json \<Rightarrow> graph \<Rightarrow> graph \<times> json result" where
  "apply_schema_proposal_atomic now digest key proposal = transact (apply_schema_tx now digest key proposal)"

section \<open>Compensating a proposal\<close>

definition props_of_row :: "json \<Rightarrow> string list" where
  "props_of_row row = (case dget row ''properties'' of Some (JObj kvs) \<Rightarrow> map fst kvs | _ \<Rightarrow> [])"

definition check_restorable :: "graph \<Rightarrow> (string \<times> json) list \<Rightarrow> string \<times> json \<Rightarrow> unit result" where
  "check_restorable g snapshot entry =
     (let i = fst entry; after = snd entry
      in case find_schema g i of
           None \<Rightarrow> Inl (compensation_conflict (''ontology entity '' @ quoted i @ '' changed after this effect committed''))
         | Some s \<Rightarrow>
             if schema_row_json s \<noteq> after
             then Inl (compensation_conflict (''ontology entity '' @ quoted i @ '' changed after this effect committed''))
             else (case map_of snapshot i of
                 None \<Rightarrow> Inl (KeyError i)
               | Some old \<Rightarrow>
                   (let removed = filter (\<lambda>k. k \<notin> set (props_of_row old)) (props_of_row after);
                        records = filter (\<lambda>n. gn_type n = i) (gd_nodes g);
                        removed_entities = map fst (filter (\<lambda>kv. snd kv = JNull) snapshot)
                    in if list_ex (\<lambda>n. old = JNull \<or> list_ex (\<lambda>k. map_of (gn_props n) k \<noteq> None) removed) records
                       then Inl (compensation_conflict (''ontology entity '' @ quoted i @ '' or its added fields are in use''))
                       else if old = JNull \<and> list_ex (\<lambda>c. sc_subclass_of c = Some i \<and> sc_id c \<notin> set removed_entities) (gd_schemas g)
                       then Inl (compensation_conflict (''ontology entity '' @ quoted i @ '' has dependent entities''))
                       else Inr ())))"

text \<open>The restored row replaces every column, or the row goes.\<close>

fun restore_rows :: "(string \<times> json) list \<Rightarrow> entity_schema list \<Rightarrow> entity_schema list result" where
  "restore_rows [] rows = Inr rows"
| "restore_rows (entry # rest) rows =
     (if snd entry = JNull then restore_rows rest (filter (\<lambda>s. sc_id s \<noteq> fst entry) rows)
      else (case read_schema_row (snd entry) of
          None \<Rightarrow> Inl (KeyError (fst entry))
        | Some s \<Rightarrow> restore_rows rest (upsert sc_id (\<lambda>old new. new) s rows)))"

text \<open>Two snapshots are equal when they hold the same rows under the same names, in any order.\<close>

definition same_rows_json :: "json \<Rightarrow> (string \<times> json) list \<Rightarrow> bool" where
  "same_rows_json stored snap =
     (case stored of JObj kvs \<Rightarrow> length kvs = length snap \<and> list_all (\<lambda>kv. map_of snap (fst kv) = Some (snd kv)) kvs
      | _ \<Rightarrow> False)"

definition restore_schema_tx :: "json \<Rightarrow> string option \<Rightarrow> (graph, unit) tx" where
  "restore_schema_tx snapshot key g =
     (case snapshot of
        JObj snap \<Rightarrow>
          (case (if given key then lookup_by gx_key (the key) (gd_effects g) else None) of
             None \<Rightarrow> Inl (compensation_conflict ''schema effect evidence is missing'')
           | Some x \<Rightarrow>
               (case (dget (gx_result x) ''snapshot'', dget (gx_result x) ''snapshot_after'') of
                  (Some stored, Some (JObj after)) \<Rightarrow>
                    if \<not> same_rows_json stored snap
                    then Inl (compensation_conflict ''schema effect evidence does not match the snapshot'')
                    else if truthy_opt (dget (gx_result x) ''compensated'') then Inr (g, ())
                    else (case check_all (check_restorable g snap) after of Inl e \<Rightarrow> Inl e | Inr _ \<Rightarrow>
                         (case restore_rows snap (gd_schemas g) of Inl e \<Rightarrow> Inl e | Inr rows \<Rightarrow>
                            Inr (g\<lparr>gd_schemas := rows, gd_effects := update_where (\<lambda>y. gx_key y = the key)
                              (\<lambda>y. y\<lparr>gx_result := dset ''compensated'' (JBool True) (gx_result x)\<rparr>) (gd_effects g)\<rparr>, ())))
                | _ \<Rightarrow> Inl (compensation_conflict ''schema effect evidence does not match the snapshot'')))
      | _ \<Rightarrow> Inl (ValueError ''Schema snapshot must be an object''))"

definition restore_schema_snapshot :: "json \<Rightarrow> string option \<Rightarrow> graph \<Rightarrow> graph \<times> unit result" where
  "restore_schema_snapshot snapshot key = transact (restore_schema_tx snapshot key)"

end
