(* ===== verification/Graph_Growth.thy ===== *)
theory Graph_Growth
  imports Graph_Schemas
begin

text \<open>
  The ontology only grows: a proposal keeps every stored record valid, every entity that existed and
  every parent.
\<close>

section \<open>Property maps\<close>

definition extends_map :: "(string \<times> string) list \<Rightarrow> (string \<times> string) list \<Rightarrow> bool" where
  "extends_map a b \<longleftrightarrow> (\<forall>k v. map_of a k = Some v \<longrightarrow> map_of b k = Some v)"

lemma extends_map_refl [simp]: "extends_map a a"
  by (simp add: extends_map_def)

lemma extends_map_trans: "extends_map a b \<Longrightarrow> extends_map b c \<Longrightarrow> extends_map a c"
  by (simp add: extends_map_def)

lemma map_of_fold_update:
  "map_of (fold (\<lambda>kv d. AList.update (fst kv) (snd kv) d) xs d) k =
     (case map_of (rev xs) k of Some v \<Rightarrow> Some v | None \<Rightarrow> map_of d k)"
proof (induction xs arbitrary: d)
  case (Cons x xs)
  then show ?case by (cases x) (simp add: map_add_def AList.update_conv' split: option.splits)
qed simp

lemma find_None_iff': "List.find P xs = None \<longleftrightarrow> (\<forall>x \<in> set xs. \<not> P x)"
  by (auto simp: find_None_iff)

lemma merge_extends:
  assumes "merge_entity_properties i current ext = Inr props"
  shows "extends_map current props" "map_of props k = Some v \<Longrightarrow> map_of current k = Some v \<or> (k, v) \<in> set ext"
proof -
  from assms have ok: "\<forall>kv \<in> set ext. map_of current (fst kv) = None \<or> map_of current (fst kv) = Some (snd kv)"
    and p: "props = fold (\<lambda>kv d. AList.update (fst kv) (snd kv) d) ext current"
    by (auto simp: merge_entity_properties_def find_None_iff' split: option.splits)
  show "extends_map current props" unfolding extends_map_def
  proof (intro allI impI)
    fix k v assume c: "map_of current k = Some v"
    show "map_of props k = Some v"
    proof (cases "map_of (rev ext) k")
      case (Some w)
      then have "(k, w) \<in> set ext" by (auto dest: map_of_SomeD)
      with ok c have "w = v" by force
      with Some show ?thesis by (simp add: p map_of_fold_update)
    qed (simp add: p map_of_fold_update c)
  qed
  assume "map_of props k = Some v"
  then show "map_of current k = Some v \<or> (k, v) \<in> set ext"
    unfolding p map_of_fold_update by (auto split: option.splits dest: map_of_SomeD)
qed

section \<open>Rows after a proposal\<close>

definition grown :: "entity_schema \<Rightarrow> entity_schema \<Rightarrow> bool" where
  "grown s s' \<longleftrightarrow> (\<exists>props. s' = s\<lparr>sc_properties := props\<rparr> \<and> extends_map (sc_properties s) props)"

lemma grownI: "extends_map (sc_properties s) props \<Longrightarrow> grown s (s\<lparr>sc_properties := props\<rparr>)"
  by (auto simp: grown_def)

lemma grown_refl [simp]: "grown s s"
  using grownI[of s "sc_properties s"] by simp

lemma grown_trans: "grown a b \<Longrightarrow> grown b c \<Longrightarrow> grown a c"
  using grownI[of a] by (fastforce simp: grown_def dest: extends_map_trans)

definition safe_namespace :: "schema_proposal \<Rightarrow> bool" where
  "safe_namespace p \<longleftrightarrow> (\<forall>r \<in> set (sp_reused p). \<forall>ty. (''namespace'', ty) \<in> set (ru_extension r) \<longrightarrow> ty = ''string'') \<and>
     (\<forall>s \<in> set (sp_new p). \<forall>ty. map_of (sc_properties s) ''namespace'' = Some ty \<longrightarrow> ty = ''string'')"

lemma extend_rows_lookup:
  assumes "extend_rows rs rows = Inr rows'"
  shows "case lookup_by sc_id i rows of None \<Rightarrow> lookup_by sc_id i rows' = None
     | Some s \<Rightarrow> \<exists>s'. lookup_by sc_id i rows' = Some s' \<and> grown s s' \<and>
         (\<forall>ty. map_of (sc_properties s') ''namespace'' = Some ty \<longrightarrow> map_of (sc_properties s) ''namespace'' = Some ty \<or>
            (\<exists>r \<in> set rs. (''namespace'', ty) \<in> set (ru_extension r)))"
  using assms
proof (induction rs arbitrary: rows)
  case Nil
  then show ?case by (auto split: option.split)
next
  case (Cons r rs)
  then obtain s props where s: "lookup_by sc_id (ru_id r) rows = Some s"
    "merge_entity_properties (ru_id r) (sc_properties s) (ru_extension r) = Inr props"
    and rest: "extend_rows rs (update_where (\<lambda>x. sc_id x = ru_id r) (\<lambda>x. x\<lparr>sc_properties := props\<rparr>) rows) = Inr rows'"
    by (auto split: option.splits sum.splits)
  have id: "sc_id s = ru_id r" using s(1) by (rule lookup_by_key)
  note m = merge_extends[OF s(2)]
  note IH = Cons.IH[OF rest]
  show ?case
  proof (cases "lookup_by sc_id i rows")
    case None
    with IH show ?thesis by (simp add: lookup_by_update_where)
  next
    case (Some x)
    let ?y = "if sc_id x = ru_id r then x\<lparr>sc_properties := props\<rparr> else x"
    have "grown x ?y" "\<forall>ty. map_of (sc_properties ?y) ''namespace'' = Some ty \<longrightarrow>
        map_of (sc_properties x) ''namespace'' = Some ty \<or> (''namespace'', ty) \<in> set (ru_extension r)"
    proof -
      have "x = s" if "sc_id x = ru_id r" using that Some s(1) lookup_by_key[OF Some] by simp
      then show "grown x ?y" "\<forall>ty. map_of (sc_properties ?y) ''namespace'' = Some ty \<longrightarrow>
          map_of (sc_properties x) ''namespace'' = Some ty \<or> (''namespace'', ty) \<in> set (ru_extension r)"
        using m by (auto intro: grownI)
    qed
    moreover have "lookup_by sc_id i (update_where (\<lambda>x. sc_id x = ru_id r) (\<lambda>x. x\<lparr>sc_properties := props\<rparr>) rows) = Some ?y"
      using Some by (simp add: lookup_by_update_where)
    ultimately show ?thesis using IH Some by (fastforce intro: grown_trans)
  qed
qed

lemma lookup_insert_schemas:
  assumes "\<And>s. s \<in> set new \<Longrightarrow> sc_id s \<noteq> i"
  shows "lookup_by sc_id i (insert_schemas now new rows) = lookup_by sc_id i rows"
  using assms
proof (induction new arbitrary: rows)
  case (Cons s new)
  have "lookup_by sc_id i (put_schema (s\<lparr>sc_created_at := now\<rparr>) rows) = lookup_by sc_id i rows"
    unfolding put_schema_def by (subst lookup_by_upsert) (use Cons.prems in auto)
  moreover have "lookup_by sc_id i (insert_schemas now new (put_schema (s\<lparr>sc_created_at := now\<rparr>) rows)) =
      lookup_by sc_id i (put_schema (s\<lparr>sc_created_at := now\<rparr>) rows)"
    by (rule Cons.IH) (use Cons.prems in simp)
  ultimately show ?case by (simp add: insert_schemas_def)
qed (simp add: insert_schemas_def)

lemma in_update_where_eq: "x \<in> set (update_where P f xs) \<Longrightarrow> \<exists>y \<in> set xs. x = y \<or> x = f y"
  by (auto simp: in_set_update_where split: if_splits)

lemma insert_schemas_new:
  "s' \<in> set (insert_schemas now new rows) \<Longrightarrow> s' \<in> set rows \<or>
     (\<exists>s \<in> set new. sc_id s' = sc_id s \<and> sc_properties s' = sc_properties s \<and> sc_subclass_of s' = sc_subclass_of s)"
proof (induction new arbitrary: rows)
  case (Cons s new)
  from Cons.prems have "s' \<in> set (insert_schemas now new (put_schema (s\<lparr>sc_created_at := now\<rparr>) rows))"
    by (simp add: insert_schemas_def)
  from Cons.IH[OF this] show ?case
    by (auto simp: put_schema_def upsert_def split: if_splits dest!: in_update_where_eq)
qed (simp add: insert_schemas_def)

lemma insert_schemas_ids: "sc_id ` set (insert_schemas now new rows) = sc_id ` set rows \<union> sc_id ` set new"
proof (induction new arbitrary: rows)
  case (Cons s new)
  have "map sc_id (put_schema (s\<lparr>sc_created_at := now\<rparr>) rows) =
      (if sc_id s \<in> sc_id ` set rows then map sc_id rows else map sc_id rows @ [sc_id s])"
    unfolding put_schema_def by (subst map_upsert) simp_all
  then have "sc_id ` set (put_schema (s\<lparr>sc_created_at := now\<rparr>) rows) = insert (sc_id s) (sc_id ` set rows)"
    by (metis (no_types, lifting) image_set insert_absorb list.set(2) list.simps(15) rotate1.simps(2) set_rotate1)
  then show ?case using Cons.IH by (simp add: insert_schemas_def)
qed (simp add: insert_schemas_def)

section \<open>Records stay valid\<close>

lemma schema_ok_namespace:
  "schema_ok s \<longleftrightarrow> named (sc_id s) \<and> (\<forall>ty. map_of (sc_properties s) ''namespace'' = Some ty \<longrightarrow> ty = ''string'')"
  by (auto simp: schema_ok_def schema_properties_def SYSTEM_PROPERTIES_def split: option.splits)

lemma grown_schema_properties:
  assumes "grown s s'" "schema_ok s'" "schema_ok s" "schema_properties s k = Some ty"
  shows "schema_properties s' k = Some ty"
proof (cases "map_of (sc_properties s) k")
  case None
  with assms(4) have "k = ''namespace''" "ty = ''string''"
    by (auto simp: schema_properties_def SYSTEM_PROPERTIES_def split: if_splits)
  with assms(2) show ?thesis by (simp add: schema_ok_def)
next
  case (Some v)
  with assms(1,4) show ?thesis by (auto simp: schema_properties_def grown_def extends_map_def)
qed

lemma grown_usable: "grown s s' \<Longrightarrow> usable_schema s' = usable_schema s \<and> sc_id s' = sc_id s"
  by (auto simp: grown_def usable_schema_def)

lemma grown_well_typed:
  assumes "grown s s'" "schema_ok s" "schema_ok s'" "well_typed s props"
  shows "well_typed s' props"
  unfolding well_typed_def list_all_iff
proof
  fix kv assume "kv \<in> set props"
  then obtain ty where ty: "schema_properties s (fst kv) = Some ty" "has_type ty (snd kv)"
    using assms(4) unfolding well_typed_def list_all_iff by (fastforce split: option.splits)
  show "case schema_properties s' (fst kv) of None \<Rightarrow> False | Some ty \<Rightarrow> has_type ty (snd kv)"
    unfolding grown_schema_properties[OF assms(1,3,2) ty(1)] using ty(2) by (simp del: has_type.simps)
qed

lemma graph_ok_grow:
  assumes ok: "graph_ok g" and rows: "gd_nodes g' = gd_nodes g" "gd_edges g' = gd_edges g"
    and new: "\<And>s. s \<in> set (gd_schemas g') \<Longrightarrow> schema_ok s"
    and grow: "\<And>i s. find_schema g i = Some s \<Longrightarrow> \<exists>s'. find_schema g' i = Some s' \<and> grown s s'"
  shows "graph_ok g'"
proof -
  have views: "node_view g' = node_view g" "edge_view g' = edge_view g"
    using rows by (auto simp: node_view_def edge_view_def find_node_def find_edge_def)
  have acc: "accepts g' ty props" if a: "accepts g ty props" for ty props
  proof -
    obtain s where s: "find_schema g ty = Some s" "usable_schema s" "well_typed s props"
      using a by (auto simp: accepts_def)
    obtain s' where s': "find_schema g' ty = Some s'" "grown s s'" using grow[OF s(1)] by blast
    have "schema_ok s" "schema_ok s'"
      using graph_ok_schema[OF ok] new s(1) s'(1) by (auto simp: find_schema_def dest: lookup_by_SomeD)
    with s s' show ?thesis using grown_usable[OF s'(2)] grown_well_typed by (auto simp: accepts_def)
  qed
  show ?thesis
    by (rule graph_okI) (use ok rows(2) new acc views in \<open>auto simp: graph_ok_def\<close>)
qed

lemma extend_rows_ok:
  assumes "extend_rows rs rows = Inr rows'" "\<forall>s \<in> set rows. schema_ok s"
    "\<forall>r \<in> set rs. \<forall>ty. (''namespace'', ty) \<in> set (ru_extension r) \<longrightarrow> ty = ''string''"
  shows "\<forall>s \<in> set rows'. schema_ok s"
  using assms
proof (induction rs arbitrary: rows)
  case (Cons r rs)
  then obtain s props where s: "lookup_by sc_id (ru_id r) rows = Some s"
    "merge_entity_properties (ru_id r) (sc_properties s) (ru_extension r) = Inr props"
    and rest: "extend_rows rs (update_where (\<lambda>x. sc_id x = ru_id r) (\<lambda>x. x\<lparr>sc_properties := props\<rparr>) rows) = Inr rows'"
    by (auto split: option.splits sum.splits)
  have "ty = ''string''" if "map_of props ''namespace'' = Some ty" for ty
    using merge_extends(2)[OF s(2) that] Cons.prems(2,3) lookup_by_SomeD[OF s(1)] by (auto simp: schema_ok_namespace)
  then have step: "schema_ok (x\<lparr>sc_properties := props\<rparr>)" if "schema_ok x" for x
    using that by (simp add: schema_ok_namespace)
  have "\<forall>s \<in> set (update_where (\<lambda>x. sc_id x = ru_id r) (\<lambda>x. x\<lparr>sc_properties := props\<rparr>) rows). schema_ok s"
    using Cons.prems(2) step by (auto simp: in_set_update_where)
  from Cons.IH[OF rest this] Cons.prems(3) show ?case by simp
qed simp

lemma extend_rows_shape:
  assumes "extend_rows rs rows = Inr rows'"
  shows "map (\<lambda>s. (sc_id s, sc_subclass_of s)) rows' = map (\<lambda>s. (sc_id s, sc_subclass_of s)) rows"
  using assms
proof (induction rs arbitrary: rows)
  case (Cons r rs)
  then obtain props where
    rest: "extend_rows rs (update_where (\<lambda>x. sc_id x = ru_id r) (\<lambda>x. x\<lparr>sc_properties := props\<rparr>) rows) = Inr rows'"
    by (auto split: option.splits sum.splits)
  show ?case unfolding Cons.IH[OF rest] by (rule map_update_where) simp
qed simp

lemma normalize_new_named: "normalize_new item = Inr s \<Longrightarrow> named (sc_id s)"
  by (auto simp: normalize_new_def required_text_eq split: if_splits sum.splits)

lemma normalized_new_named:
  "normalize_schema_proposal j = Inr p \<Longrightarrow> s \<in> set (sp_new p) \<Longrightarrow> named (sc_id s)"
  by (auto simp: normalize_schema_proposal_def split: if_splits sum.splits dest!: check_all_set[of normalize_new]
      dest: normalize_new_named)

lemma snapshot_rows_cong: "gd_schemas g = gd_schemas h \<Longrightarrow> snapshot_rows p g = snapshot_rows p h"
  by (simp add: snapshot_rows_def find_schema_def)

definition proposal_written :: "string \<Rightarrow> schema_proposal \<Rightarrow> graph \<Rightarrow> graph \<Rightarrow> json \<Rightarrow> bool" where
  "proposal_written now p g g' res \<longleftrightarrow> (\<forall>s \<in> set (sp_new p). find_schema g (sc_id s) = None) \<and>
     (\<exists>rows. extend_rows (sp_reused p) (gd_schemas g) = Inr rows \<and> gd_schemas g' = insert_schemas now (sp_new p) rows) \<and>
     gd_nodes g' = gd_nodes g \<and> gd_edges g' = gd_edges g \<and> gd_history g' = gd_history g \<and>
     res = schema_effect_json p g g'"

lemma write_proposalD:
  assumes "write_proposal now digest key p (g\<lparr>gd_effects := es\<rparr>) = Inr (g', res)"
  shows "proposal_written now p g g' res"
proof -
  let ?h = "g\<lparr>gd_effects := es\<rparr>"
  from assms have n: "\<forall>s \<in> set (sp_new p). find_schema g (sc_id s) = None"
    by (auto simp: write_proposal_def Let_def find_None_iff' find_schema_def split: option.splits)
  from assms obtain rows where r: "extend_rows (sp_reused p) (gd_schemas g) = Inr rows"
    "gd_schemas g' = insert_schemas now (sp_new p) rows" "gd_nodes g' = gd_nodes g" "gd_edges g' = gd_edges g"
    "gd_history g' = gd_history g" "res = schema_effect_json p ?h (?h\<lparr>gd_schemas := insert_schemas now (sp_new p) rows\<rparr>)"
    by (auto simp: write_proposal_def Let_def split: option.splits sum.splits if_splits)
  have "res = schema_effect_json p g g'"
    unfolding r(6) schema_effect_json_def
    using snapshot_rows_cong[of ?h g p] snapshot_rows_cong[of "?h\<lparr>gd_schemas := insert_schemas now (sp_new p) rows\<rparr>" g' p] r(2)
    by simp
  with n r show ?thesis by (simp add: proposal_written_def)
qed

text \<open>What a successful application did, whatever the ledger held.\<close>

lemma apply_schema_cases:
  assumes "apply_schema_proposal_atomic now digest key j g = (g', Inr res)"
  shows "g' = g \<and> given key \<and> (\<exists>x. lookup_by gx_key (the key) (gd_effects g) = Some x \<and> res = gx_result x) \<or>
    (\<exists>p. normalize_schema_proposal j = Inr p \<and> validate_proposal_parents g p = Inr () \<and> proposal_written now p g g' res)"
proof -
  have tx: "apply_schema_tx now digest key j g = Inr (g', res)"
    using assms by (auto simp: apply_schema_proposal_atomic_def transact_def split: sum.splits prod.splits)
  then obtain p where n: "normalize_schema_proposal j = Inr p" "validate_proposal_parents g p = Inr ()"
    by (auto simp: apply_schema_tx_def split: sum.splits)
  show ?thesis
  proof (cases "if given key then lookup_by gx_key (the key) (gd_effects g) else None")
    case None
    with tx n have "write_proposal now digest key p (g\<lparr>gd_effects := gd_effects g\<rparr>) = Inr (g', res)"
      by (simp add: apply_schema_tx_def)
    with n show ?thesis using write_proposalD by blast
  next
    case (Some x)
    then have k: "given key" "lookup_by gx_key (the key) (gd_effects g) = Some x" by (auto split: if_splits)
    show ?thesis
    proof (cases "truthy_opt (dget (gx_result x) ''compensated'')")
      case True
      with tx n k have "write_proposal now digest key p (g\<lparr>gd_effects := filter (\<lambda>y. gx_key y \<noteq> the key) (gd_effects g)\<rparr>) = Inr (g', res)"
        by (simp add: apply_schema_tx_def split: if_splits)
      with n show ?thesis using write_proposalD by blast
    next
      case False
      with tx n k show ?thesis by (simp add: apply_schema_tx_def split: if_splits)
    qed
  qed
qed

definition parents_ok :: "graph \<Rightarrow> bool" where
  "parents_ok g \<longleftrightarrow> (\<forall>s \<in> set (gd_schemas g). \<forall>p. sc_subclass_of s = Some p \<longrightarrow> p \<in> schema_ids g)"

text \<open>The parents of the written schemas are registered.\<close>

lemma parents_written:
  assumes n: "normalize_schema_proposal proposal = Inr p" "validate_proposal_parents g p = Inr ()" and ok: "parents_ok g"
    and ext: "extend_rows (sp_reused p) (gd_schemas g) = Inr rows" and g': "gd_schemas g' = insert_schemas now (sp_new p) rows"
  shows "parents_ok g'"
  unfolding parents_ok_def
proof (intro ballI allI impI)
  have "map fst (map (\<lambda>s. (sc_id s, sc_subclass_of s)) rows) = map fst (map (\<lambda>s. (sc_id s, sc_subclass_of s)) (gd_schemas g))"
    using extend_rows_shape[OF ext] by simp
  then have "sc_id ` set rows = schema_ids g" by (simp add: schema_ids_def comp_def flip: set_map)
  then have ids: "schema_ids g' = schema_ids g \<union> sc_id ` set (sp_new p)" by (simp add: schema_ids_def g' insert_schemas_ids)
  fix s' q assume s': "s' \<in> set (gd_schemas g')" and q: "sc_subclass_of s' = Some q"
  from insert_schemas_new[of s' now "sp_new p" rows] s' g' consider "s' \<in> set rows"
    | s where "s \<in> set (sp_new p)" "sc_subclass_of s' = sc_subclass_of s" by auto
  then show "q \<in> schema_ids g'"
  proof cases
    case 1
    then have "(sc_id s', Some q) \<in> set (map (\<lambda>s. (sc_id s, sc_subclass_of s)) rows)" using q by force
    then have "q \<in> schema_ids g" unfolding extend_rows_shape[OF ext] using ok by (auto simp: parents_ok_def)
    then show ?thesis by (simp add: ids)
  next
    case s: 2
    have "\<forall>s \<in> set (sp_new p). sc_subclass_of s \<noteq> None \<longrightarrow> the (sc_subclass_of s) \<in> schema_ids g \<union> sc_id ` set (sp_new p)"
      using n(2) by (auto simp: validate_proposal_parents_def find_None_iff' split: option.splits)
    moreover have "sc_subclass_of s = Some q" using s q by simp
    ultimately have "q \<in> schema_ids g \<union> sc_id ` set (sp_new p)" using s(1) by force
    then show ?thesis by (simp add: ids)
  qed
qed

text \<open>
  Property C29 (growth): the ontology only grows. A proposal that does not retype the system property of records
  keeps every stored record valid as it stands and leaves no entity without its parent; an entity
  that existed keeps its properties with their types and all its other columns.
\<close>

theorem proposal_keeps_records:
  assumes "apply_schema_proposal_atomic now digest key proposal g = (g', Inr res)" "graph_ok g" "parents_ok g"
    and "\<forall>p. normalize_schema_proposal proposal = Inr p \<longrightarrow> safe_namespace p"
  shows "graph_ok g' \<and> parents_ok g' \<and> gd_nodes g' = gd_nodes g \<and> gd_edges g' = gd_edges g \<and>
     (\<forall>i s. find_schema g i = Some s \<longrightarrow> (\<exists>s'. find_schema g' i = Some s' \<and> grown s s'))"
proof (cases "g' = g")
  case True
  then show ?thesis using assms(2,3) grown_refl by blast
next
  case False
  then obtain p where n: "normalize_schema_proposal proposal = Inr p" "validate_proposal_parents g p = Inr ()"
    and w: "proposal_written now p g g' res"
    using apply_schema_cases[OF assms(1)] by blast
  then obtain rows where 2: "\<forall>s \<in> set (sp_new p). find_schema g (sc_id s) = None"
    "extend_rows (sp_reused p) (gd_schemas g) = Inr rows" "gd_schemas g' = insert_schemas now (sp_new p) rows"
    "gd_nodes g' = gd_nodes g" "gd_edges g' = gd_edges g"
    unfolding proposal_written_def by blast
  have safe: "safe_namespace p" using assms(4) n(1) by blast
  have grow: "\<exists>s'. find_schema g' i = Some s' \<and> grown s s'" if i: "find_schema g i = Some s" for i s
  proof -
    have "lookup_by sc_id i (gd_schemas g') = lookup_by sc_id i rows"
      unfolding 2(3) by (rule lookup_insert_schemas) (use 2(1) i in auto)
    then show ?thesis using extend_rows_lookup[OF 2(2), of i] i by (auto simp: find_schema_def)
  qed
  have ok: "schema_ok s'" if s': "s' \<in> set (gd_schemas g')" for s'
  proof -
    have "\<forall>s \<in> set rows. schema_ok s"
      by (rule extend_rows_ok[OF 2(2)]) (use graph_ok_schema[OF assms(2)] safe in \<open>auto simp: safe_namespace_def\<close>)
    then show ?thesis
      using insert_schemas_new[of s' now "sp_new p" rows] s' 2(3) safe normalized_new_named[OF n(1)]
      by (auto simp: schema_ok_namespace safe_namespace_def)
  qed
  have "parents_ok g'" by (rule parents_written[OF n assms(3) 2(2,3)])
  then show ?thesis using graph_ok_grow[OF assms(2) 2(4,5) ok grow] grow 2(4,5) by blast
qed

end
