(* ===== verification/Schema_Undo.thy ===== *)
theory Schema_Undo
  imports Graph_Growth
begin

text \<open>
  The compensation of a proposal puts the old rows of \<^verbatim>\<open>graph_schemas\<close> back, or refuses because a record
  rests on what the proposal added.
\<close>

section \<open>Compensating a proposal\<close>

lemma find_schema_id: "find_schema g i = Some s \<Longrightarrow> sc_id s = i \<and> s \<in> set (gd_schemas g)"
  unfolding find_schema_def by (auto dest: lookup_by_SomeD)

definition proposal_ids :: "schema_proposal \<Rightarrow> string list" where
  "proposal_ids p = first_occurrences (map ru_id (sp_reused p) @ map sc_id (sp_new p))"

definition row_or_null :: "entity_schema option \<Rightarrow> json" where
  "row_or_null s = (case s of None \<Rightarrow> JNull | Some s \<Rightarrow> schema_row_json s)"

lemma snapshot_rows_map: "snapshot_rows p g = map (\<lambda>i. (i, row_or_null (find_schema g i))) (proposal_ids p)"
  by (simp add: snapshot_rows_def proposal_ids_def row_or_null_def)

lemma row_or_null_eq [simp]: "row_or_null s = JNull \<longleftrightarrow> s = None"
  by (simp add: row_or_null_def schema_row_json_def split: option.split)

lemma distinct_first_occurrences [simp]: "distinct (first_occurrences xs)"
  by (induction xs) simp_all

lemma props_of_row_simps [simp]: "props_of_row JNull = []" "props_of_row (schema_row_json s) = map fst (sc_properties s)"
  by (simp_all add: props_of_row_def schema_row_json_def comp_def)

lemma same_rows_json_refl: "distinct (map fst kvs) \<Longrightarrow> same_rows_json (JObj kvs) kvs"
  by (auto simp: same_rows_json_def list_all_iff)

lemma restore_rows_lookup:
  assumes "\<And>i s. f i = Some s \<Longrightarrow> sc_id s = i"
  shows "\<exists>rows'. restore_rows (map (\<lambda>i. (i, row_or_null (f i))) is) rows = Inr rows' \<and>
    (\<forall>i. lookup_by sc_id i rows' = (if i \<in> set is then f i else lookup_by sc_id i rows)) \<and>
    set rows' \<subseteq> set rows \<union> {s. \<exists>i. f i = Some s}"
proof (induction "is" arbitrary: rows)
  case (Cons j js)
  show ?case
  proof (cases "f j")
    case None
    obtain rows' where r: "restore_rows (map (\<lambda>i. (i, row_or_null (f i))) js) (filter (\<lambda>s. sc_id s \<noteq> j) rows) = Inr rows'"
      "\<forall>i. lookup_by sc_id i rows' = (if i \<in> set js then f i else lookup_by sc_id i (filter (\<lambda>s. sc_id s \<noteq> j) rows))"
      "set rows' \<subseteq> set (filter (\<lambda>s. sc_id s \<noteq> j) rows) \<union> {s. \<exists>i. f i = Some s}"
      using Cons.IH[of "filter (\<lambda>s. sc_id s \<noteq> j) rows"] by blast
    moreover have "lookup_by sc_id i (filter (\<lambda>s. sc_id s \<noteq> j) rows) = (if i = j then None else lookup_by sc_id i rows)" for i
      by (simp add: lookup_by_filter[where P = "\<lambda>i. i \<noteq> j"])
    ultimately show ?thesis using None by auto
  next
    case (Some s)
    let ?rows = "upsert sc_id (\<lambda>old new. new) s rows"
    obtain rows' where r: "restore_rows (map (\<lambda>i. (i, row_or_null (f i))) js) ?rows = Inr rows'"
      "\<forall>i. lookup_by sc_id i rows' = (if i \<in> set js then f i else lookup_by sc_id i ?rows)"
      "set rows' \<subseteq> set ?rows \<union> {s. \<exists>i. f i = Some s}"
      using Cons.IH[of ?rows] by blast
    moreover have "lookup_by sc_id i ?rows = (if i = j then Some s else lookup_by sc_id i rows)" for i
      using assms[OF Some] by (subst lookup_by_upsert) (auto split: option.split)
    moreover have "set ?rows \<subseteq> insert s (set rows)"
      by (auto simp: upsert_def dest!: in_update_where_eq split: if_splits)
    ultimately show ?thesis using Some by (auto simp: row_or_null_def schema_row_json_def[of s, symmetric])
      (auto simp: row_or_null_def schema_row_json_def)
  qed
qed simp

lemma extend_rows_other:
  "extend_rows rs rows = Inr rows' \<Longrightarrow> i \<notin> ru_id ` set rs \<Longrightarrow> lookup_by sc_id i rows' = lookup_by sc_id i rows"
proof (induction rs arbitrary: rows)
  case (Cons r rs)
  then obtain props where
    rest: "extend_rows rs (update_where (\<lambda>x. sc_id x = ru_id r) (\<lambda>x. x\<lparr>sc_properties := props\<rparr>) rows) = Inr rows'"
    by (auto split: option.splits sum.splits)
  have "lookup_by sc_id i (update_where (\<lambda>x. sc_id x = ru_id r) (\<lambda>x. x\<lparr>sc_properties := props\<rparr>) rows) = lookup_by sc_id i rows"
    using Cons.prems(2) by (cases "lookup_by sc_id i rows") (auto simp: lookup_by_update_where dest: lookup_by_key)
  with Cons.IH[OF rest] Cons.prems(2) show ?case by simp
qed simp

lemma extend_rows_exist: "extend_rows rs rows = Inr rows' \<Longrightarrow> ru_id ` set rs \<subseteq> sc_id ` set rows"
proof (induction rs arbitrary: rows)
  case (Cons r rs)
  then obtain s props where s: "lookup_by sc_id (ru_id r) rows = Some s" and
    rest: "extend_rows rs (update_where (\<lambda>x. sc_id x = ru_id r) (\<lambda>x. x\<lparr>sc_properties := props\<rparr>) rows) = Inr rows'"
    by (auto split: option.splits sum.splits)
  have "map sc_id (update_where (\<lambda>x. sc_id x = ru_id r) (\<lambda>x. x\<lparr>sc_properties := props\<rparr>) rows) = map sc_id rows"
    by (rule map_update_where) simp
  then have "sc_id ` set (update_where (\<lambda>x. sc_id x = ru_id r) (\<lambda>x. x\<lparr>sc_properties := props\<rparr>) rows) = sc_id ` set rows"
    by (metis set_map)
  moreover have "ru_id r \<in> sc_id ` set rows" using lookup_by_SomeD[OF s] by force
  ultimately show ?case using Cons.IH[OF rest] by simp
qed simp

lemma find_schema_ids: "find_schema g i \<noteq> None \<longleftrightarrow> i \<in> schema_ids g"
  by (simp add: find_schema_def schema_ids_def lookup_by_None_iff)

lemma writtenE:
  assumes "proposal_written now p g g1 res"
  shows "i \<notin> set (proposal_ids p) \<Longrightarrow> find_schema g1 i = find_schema g i"
    "i \<in> set (proposal_ids p) \<Longrightarrow> find_schema g1 i \<noteq> None"
    "find_schema g i = Some s \<Longrightarrow> \<exists>s'. find_schema g1 i = Some s' \<and> grown s s'"
    "schema_ids g1 = schema_ids g \<union> sc_id ` set (sp_new p)"
proof -
  obtain rows where w: "\<forall>s \<in> set (sp_new p). find_schema g (sc_id s) = None"
    "extend_rows (sp_reused p) (gd_schemas g) = Inr rows" "gd_schemas g1 = insert_schemas now (sp_new p) rows"
    using assms by (auto simp: proposal_written_def)
  have kept: "find_schema g1 i = lookup_by sc_id i rows" if "\<And>s. s \<in> set (sp_new p) \<Longrightarrow> sc_id s \<noteq> i" for i
    using lookup_insert_schemas[OF that] by (simp add: find_schema_def w(3))
  have "map fst (map (\<lambda>s. (sc_id s, sc_subclass_of s)) rows) = map fst (map (\<lambda>s. (sc_id s, sc_subclass_of s)) (gd_schemas g))"
    using extend_rows_shape[OF w(2)] by simp
  then have "sc_id ` set rows = schema_ids g" by (simp add: schema_ids_def comp_def flip: set_map)
  then show ids: "schema_ids g1 = schema_ids g \<union> sc_id ` set (sp_new p)"
    by (simp add: schema_ids_def w(3) insert_schemas_ids)
  show "find_schema g1 i = find_schema g i" if "i \<notin> set (proposal_ids p)"
    using that kept[of i] extend_rows_other[OF w(2), of i] by (fastforce simp: proposal_ids_def find_schema_def)
  show "find_schema g1 i \<noteq> None" if "i \<in> set (proposal_ids p)"
    using that extend_rows_exist[OF w(2)] unfolding find_schema_ids ids by (auto simp: proposal_ids_def schema_ids_def)
  show "\<exists>s'. find_schema g1 i = Some s' \<and> grown s s'" if i: "find_schema g i = Some s"
  proof -
    have "find_schema g1 i = lookup_by sc_id i rows" by (rule kept) (use w(1) i in auto)
    then show ?thesis using extend_rows_lookup[OF w(2), of i] i by (auto simp: find_schema_def)
  qed
qed

lemma dget_schema_effect [simp]:
  "dget (schema_effect_json p g g1) ''snapshot'' = Some (JObj (snapshot_rows p g))"
  "dget (schema_effect_json p g g1) ''snapshot_after'' = Some (JObj (snapshot_rows p g1))"
  "dget (schema_effect_json p g g1) ''compensated'' = None"
  by (simp_all add: schema_effect_json_def)

lemma check_all_ok: "(\<exists>ys. check_all f xs = Inr ys) \<longleftrightarrow> (\<forall>x \<in> set xs. \<exists>y. f x = Inr y)"
  by (induction xs) (auto split: sum.splits)

lemma schema_row_not_null: "schema_row_json s \<noteq> JNull"
  by (simp add: schema_row_json_def)

definition restorable :: "graph \<Rightarrow> graph \<Rightarrow> graph \<Rightarrow> schema_proposal \<Rightarrow> bool" where
  "restorable g g1 h p \<longleftrightarrow> (\<forall>i \<in> set (proposal_ids p). \<forall>s1. find_schema g1 i = Some s1 \<longrightarrow>
     (\<forall>n \<in> set (gd_nodes h). gn_type n = i \<longrightarrow> (\<exists>s. find_schema g i = Some s \<and>
        (\<forall>k. map_of (sc_properties s1) k \<noteq> None \<and> map_of (sc_properties s) k = None \<longrightarrow> map_of (gn_props n) k = None))) \<and>
     (find_schema g i = None \<longrightarrow> (\<forall>c \<in> set (gd_schemas h). sc_subclass_of c = Some i \<longrightarrow>
        sc_id c \<in> set (proposal_ids p) \<and> find_schema g (sc_id c) = None)))"

lemma check_restorable_iff:
  assumes "gd_schemas h = gd_schemas g1" "i \<in> set (proposal_ids p)" "find_schema g1 i = Some s1"
  shows "(\<exists>u. check_restorable h (snapshot_rows p g) (i, row_or_null (find_schema g1 i)) = Inr u) \<longleftrightarrow>
     (\<forall>n \<in> set (gd_nodes h). gn_type n = i \<longrightarrow> (\<exists>s. find_schema g i = Some s \<and>
        (\<forall>k. map_of (sc_properties s1) k \<noteq> None \<and> map_of (sc_properties s) k = None \<longrightarrow> map_of (gn_props n) k = None))) \<and>
     (find_schema g i = None \<longrightarrow> (\<forall>c \<in> set (gd_schemas h). sc_subclass_of c = Some i \<longrightarrow>
        sc_id c \<in> set (proposal_ids p) \<and> find_schema g (sc_id c) = None))"
proof -
  have f: "find_schema h i = Some s1" using assms(1,3) by (simp add: find_schema_def)
  have m: "map_of (snapshot_rows p g) i = Some (row_or_null (find_schema g i))"
    using assms(2) by (simp add: snapshot_rows_map map_of_tagged)
  have r: "set (map fst (filter (\<lambda>kv. snd kv = JNull) (snapshot_rows p g))) =
      {i \<in> set (proposal_ids p). find_schema g i = None}"
    by (auto simp: snapshot_rows_map image_iff)
  show ?thesis
    unfolding check_restorable_def Let_def fst_conv snd_conv f assms(3) m r
    by (cases "find_schema g i")
      (auto simp: row_or_null_def list_ex_iff schema_row_not_null map_of_eq_None_iff)
qed

lemma restore_outcome:
  assumes w: "proposal_written now p g g1 res" and h: "gd_schemas h = gd_schemas g1"
    and x: "given key" "lookup_by gx_key (the key) (gd_effects h) = Some x" "gx_result x = res"
  shows "if restorable g g1 h p
    then \<exists>rows es. restore_schema_tx (JObj (snapshot_rows p g)) key h = Inr (h\<lparr>gd_schemas := rows, gd_effects := es\<rparr>, ()) \<and>
      (\<forall>i. lookup_by sc_id i rows = find_schema g i) \<and> set rows \<subseteq> set (gd_schemas h) \<union> set (gd_schemas g)
    else \<exists>e. restore_schema_tx (JObj (snapshot_rows p g)) key h = Inl e"
proof -
  have res: "gx_result x = schema_effect_json p g g1" using w x(3) by (simp add: proposal_written_def)
  have d: "distinct (map fst (snapshot_rows p g))" by (simp add: snapshot_rows_map comp_def proposal_ids_def)
  let ?snap = "snapshot_rows p g"
  have "(\<exists>u. check_all (check_restorable h ?snap) (snapshot_rows p g1) = Inr u) \<longleftrightarrow>
      (\<forall>i \<in> set (proposal_ids p). \<exists>u. check_restorable h ?snap (i, row_or_null (find_schema g1 i)) = Inr u)"
    by (simp add: check_all_ok snapshot_rows_map[of p g1])
  also have "\<dots> \<longleftrightarrow> restorable g g1 h p" unfolding restorable_def
  proof (intro ball_cong refl)
    fix i assume i: "i \<in> set (proposal_ids p)"
    obtain s1 where s1: "find_schema g1 i = Some s1" using writtenE(2)[OF w i] by auto
    show "(\<exists>u. check_restorable h ?snap (i, row_or_null (find_schema g1 i)) = Inr u) \<longleftrightarrow>
      (\<forall>s1. find_schema g1 i = Some s1 \<longrightarrow>
     (\<forall>n \<in> set (gd_nodes h). gn_type n = i \<longrightarrow> (\<exists>s. find_schema g i = Some s \<and>
        (\<forall>k. map_of (sc_properties s1) k \<noteq> None \<and> map_of (sc_properties s) k = None \<longrightarrow> map_of (gn_props n) k = None))) \<and>
     (find_schema g i = None \<longrightarrow> (\<forall>c \<in> set (gd_schemas h). sc_subclass_of c = Some i \<longrightarrow>
        sc_id c \<in> set (proposal_ids p) \<and> find_schema g (sc_id c) = None)))"
      unfolding check_restorable_iff[OF h i s1] using s1 by simp
  qed
  finally have ok: "(\<exists>u. check_all (check_restorable h ?snap) (snapshot_rows p g1) = Inr u) \<longleftrightarrow> restorable g g1 h p" .
  have f: "sc_id s = i" if "find_schema g i = Some s" for i s using find_schema_id[OF that] by simp
  obtain rows where r: "restore_rows ?snap (gd_schemas h) = Inr rows"
    "\<forall>i. lookup_by sc_id i rows = (if i \<in> set (proposal_ids p) then find_schema g i else lookup_by sc_id i (gd_schemas h))"
    "set rows \<subseteq> set (gd_schemas h) \<union> {s. \<exists>i. find_schema g i = Some s}"
    using restore_rows_lookup[of "find_schema g" "proposal_ids p" "gd_schemas h", OF f] by (auto simp: snapshot_rows_map)
  have "lookup_by sc_id i rows = find_schema g i" for i
    using r(2) writtenE(1)[OF w, of i] h by (simp add: find_schema_def)
  moreover have "set rows \<subseteq> set (gd_schemas h) \<union> set (gd_schemas g)"
    using r(3) find_schema_id by blast
  moreover have "restore_schema_tx (JObj ?snap) key h =
     (case check_all (check_restorable h ?snap) (snapshot_rows p g1) of Inl e \<Rightarrow> Inl e | Inr _ \<Rightarrow>
        Inr (h\<lparr>gd_schemas := rows, gd_effects := update_where (\<lambda>y. gx_key y = the key)
           (\<lambda>y. y\<lparr>gx_result := dset ''compensated'' (JBool True) (gx_result x)\<rparr>) (gd_effects h)\<rparr>, ()))"
    using x(1,2) by (simp add: restore_schema_tx_def res same_rows_json_refl[OF d] r(1) split: sum.split)
  ultimately show ?thesis using ok
    by (cases "check_all (check_restorable h ?snap) (snapshot_rows p g1)") auto
qed

lemma graph_ok_shrink:
  assumes "graph_ok h" "graph_ok g" and w: "proposal_written now p g g1 res" and h: "gd_schemas h = gd_schemas g1"
    and r: "restorable g g1 h p" and rows: "gd_nodes g2 = gd_nodes h" "gd_edges g2 = gd_edges h"
      "set (gd_schemas g2) \<subseteq> set (gd_schemas h) \<union> set (gd_schemas g)" "\<And>i. find_schema g2 i = find_schema g i"
  shows "graph_ok g2"
proof -
  have views: "node_view g2 = node_view h" "edge_view g2 = edge_view h"
    using rows(1,2) by (auto simp: node_view_def edge_view_def find_node_def find_edge_def)
  have acc: "accepts g2 ty props" if v: "node_view h nid = Some (ty, props)" for nid ty props
  proof -
    obtain n where n: "n \<in> set (gd_nodes h)" "gn_type n = ty" "gn_props n = props"
      using v by (auto simp: node_view_def find_node_def dest: lookup_by_SomeD)
    obtain s1 where s1: "find_schema h ty = Some s1" "usable_schema s1" "well_typed s1 props"
      using graph_okD(2)[OF assms(1) v] by (auto simp: accepts_def)
    have f1: "find_schema g1 ty = Some s1" using s1(1) h by (simp add: find_schema_def)
    show ?thesis
    proof (cases "ty \<in> set (proposal_ids p)")
      case False
      then have "find_schema g ty = Some s1" using writtenE(1)[OF w False] f1 by simp
      then show ?thesis using s1(2,3) rows(4) by (simp add: accepts_def)
    next
      case True
      then obtain s where s: "find_schema g ty = Some s"
        "\<forall>k. map_of (sc_properties s1) k \<noteq> None \<and> map_of (sc_properties s) k = None \<longrightarrow> map_of props k = None"
        using r f1 n by (fastforce simp: restorable_def)
      have g: "grown s s1" using writtenE(3)[OF w s(1)] f1 by auto
      have "well_typed s props" unfolding well_typed_def list_all_iff
      proof
        fix kv assume kv: "kv \<in> set props"
        then obtain t where t: "schema_properties s1 (fst kv) = Some t" "has_type t (snd kv)"
          using s1(3) unfolding well_typed_def list_all_iff by (fastforce split: option.splits)
        have "map_of props (fst kv) \<noteq> None" using kv by (auto simp: map_of_eq_None_iff)
        then have "map_of (sc_properties s1) (fst kv) = map_of (sc_properties s) (fst kv)"
          using s(2) g by (cases "map_of (sc_properties s) (fst kv)") (auto simp: grown_def extends_map_def)
        then have "schema_properties s (fst kv) = Some t" using t(1) by (simp add: schema_properties_def)
        then show "case schema_properties s (fst kv) of None \<Rightarrow> False | Some ty \<Rightarrow> has_type ty (snd kv)"
          using t(2) by (simp del: has_type.simps)
      qed
      then show ?thesis using s(1) rows(4) s1(2) grown_usable[OF g] by (auto simp: accepts_def)
    qed
  qed
  show ?thesis
  proof (rule graph_okI)
    show "distinct (map edge_key (gd_edges g2))" using graph_okD(1)[OF assms(1)] rows(2) by simp
    show "schema_ok s" if "s \<in> set (gd_schemas g2)" for s
      using that rows(3) graph_ok_schema[OF assms(1)] graph_ok_schema[OF assms(2)] by blast
    show "named nid \<and> named ty \<and> accepts g2 ty props" if "node_view g2 nid = Some (ty, props)" for nid ty props
      using that acc graph_okD(2)[OF assms(1)] by (simp add: views)
    show "is_dict q \<and> named (snd (snd k)) \<and> node_view g2 (fst k) \<noteq> None \<and> node_view g2 (fst (snd k)) \<noteq> None"
      if "edge_view g2 k = Some q" for k q
      using that graph_okD(3)[OF assms(1)] unfolding views by blast
  qed
qed

text \<open>A record stands in the way of the compensation: its entity is new, or it holds a field the proposal gave the entity.\<close>

definition in_use :: "graph \<Rightarrow> graph \<Rightarrow> node_row \<Rightarrow> bool" where
  "in_use g g1 n \<longleftrightarrow>
     (case (find_schema g (gn_type n), find_schema g1 (gn_type n)) of
        (None, Some _) \<Rightarrow> True
      | (Some s, Some s1) \<Rightarrow> (\<exists>k. map_of (sc_properties s1) k \<noteq> None \<and> map_of (sc_properties s) k = None \<and> map_of (gn_props n) k \<noteq> None)
      | _ \<Rightarrow> False)"

lemma restorable_in_use:
  assumes w: "proposal_written now p g g1 res" and "parents_ok g" and h: "gd_schemas h = gd_schemas g1"
  shows "restorable g g1 h p \<longleftrightarrow> \<not> (\<exists>n \<in> set (gd_nodes h). in_use g g1 n)"
proof -
  have children: "sc_id c \<in> set (proposal_ids p) \<and> find_schema g (sc_id c) = None"
    if c: "c \<in> set (gd_schemas h)" "sc_subclass_of c = Some i" "find_schema g i = None" for c i
  proof -
    obtain rows where w': "extend_rows (sp_reused p) (gd_schemas g) = Inr rows" "gd_schemas g1 = insert_schemas now (sp_new p) rows"
      "\<forall>s \<in> set (sp_new p). find_schema g (sc_id s) = None"
      using w by (auto simp: proposal_written_def)
    have "c \<notin> set rows"
    proof
      assume "c \<in> set rows"
      then have "(sc_id c, Some i) \<in> set (map (\<lambda>s. (sc_id s, sc_subclass_of s)) rows)" using c(2) by force
      then have "i \<in> schema_ids g" unfolding extend_rows_shape[OF w'(1)] using assms(2) by (auto simp: parents_ok_def)
      then show False using c(3) find_schema_ids[of g i] by simp
    qed
    then have "sc_id c \<in> sc_id ` set (sp_new p)"
      using insert_schemas_new[of c now "sp_new p" rows] c(1) h w'(2) by auto
    then show ?thesis using w'(3) by (auto simp: proposal_ids_def)
  qed
  show ?thesis
  proof (intro iffI notI)
    assume r: "restorable g g1 h p" and "\<exists>n \<in> set (gd_nodes h). in_use g g1 n"
    then obtain n where n: "n \<in> set (gd_nodes h)" "in_use g g1 n" by blast
    show False
    proof (cases "gn_type n \<in> set (proposal_ids p)")
      case True
      then show False using r n by (fastforce simp: restorable_def in_use_def split: option.splits)
    next
      case False
      then show False using n(2) writtenE(1)[OF w False] by (auto simp: in_use_def split: option.splits)
    qed
  next
    assume free: "\<not> (\<exists>n \<in> set (gd_nodes h). in_use g g1 n)"
    show "restorable g g1 h p" unfolding restorable_def
    proof (intro ballI allI impI conjI)
      fix i s1 n
      assume s1: "find_schema g1 i = Some s1" "n \<in> set (gd_nodes h)" "gn_type n = i"
      then have "\<not> in_use g g1 n" using free by blast
      show "\<exists>s. find_schema g i = Some s \<and>
          (\<forall>k. map_of (sc_properties s1) k \<noteq> None \<and> map_of (sc_properties s) k = None \<longrightarrow> map_of (gn_props n) k = None)"
      proof (cases "find_schema g i")
        case None
        then show ?thesis using s1 \<open>\<not> in_use g g1 n\<close> by (auto simp: in_use_def)
      next
        case (Some s)
        then have "\<not> (map_of (sc_properties s1) k \<noteq> None \<and> map_of (sc_properties s) k = None \<and> map_of (gn_props n) k \<noteq> None)" for k
          using s1(1,3) \<open>\<not> in_use g g1 n\<close> unfolding in_use_def by auto
        then show ?thesis using Some by blast
      qed
    next
      fix i c
      assume "find_schema g i = None" "c \<in> set (gd_schemas h)" "sc_subclass_of c = Some i"
      then show "sc_id c \<in> set (proposal_ids p)" "find_schema g (sc_id c) = None" using children by blast+
    qed
  qed
qed

text \<open>
  Property C30 (schema_undo): compensating a proposal puts the ontology back or refuses. Given the snapshot the
  proposal returned, over a graph whose records may have changed since, every entity is again what it
  was before the proposal and every stored record stays valid; the compensation fails exactly when some
  record belongs to an entity the proposal added, or holds a field that its entity has now and had not before, and
  then changes nothing. The tables are sound before and now, the schemas are still those the proposal left, the
  effect of the proposal is on record under a key that was new, and the parents of the entities existed before it.
\<close>

theorem schema_compensation_restores_or_refuses:
  assumes "apply_schema_proposal_atomic now digest key proposal g = (g1, Inr res)"
    and "given key" "lookup_by gx_key (the key) (gd_effects g) = None" "graph_ok g" "parents_ok g"
    and "graph_ok h" "gd_schemas h = gd_schemas g1" "lookup_by gx_key (the key) (gd_effects h) = Some x" "gx_result x = res"
    and "dget res ''snapshot'' = Some snap" "restore_schema_snapshot snap key h = (g2, r)"
  shows "gd_nodes g2 = gd_nodes h \<and> gd_edges g2 = gd_edges h \<and> graph_ok g2 \<and>
    (case r of Inr _ \<Rightarrow> (\<forall>i. find_schema g2 i = find_schema g i) \<and> \<not> (\<exists>n \<in> set (gd_nodes h). in_use g g1 n)
     | Inl _ \<Rightarrow> g2 = h \<and> (\<exists>n \<in> set (gd_nodes h). in_use g g1 n))"
proof -
  obtain p where w: "proposal_written now p g g1 res"
    using apply_schema_cases[OF assms(1)] assms(2,3) by auto
  have snap: "snap = JObj (snapshot_rows p g)" using w assms(10) by (simp add: proposal_written_def)
  note out = restore_outcome[OF w assms(7,2,8,9), folded snap]
  show ?thesis
  proof (cases "restorable g g1 h p")
    case True
    with out obtain rows es where t: "restore_schema_tx snap key h = Inr (h\<lparr>gd_schemas := rows, gd_effects := es\<rparr>, ())"
      and rows: "\<forall>i. lookup_by sc_id i rows = find_schema g i" "set rows \<subseteq> set (gd_schemas h) \<union> set (gd_schemas g)"
      by auto
    have g2: "g2 = h\<lparr>gd_schemas := rows, gd_effects := es\<rparr>" "r = Inr ()"
      using assms(11) t by (simp_all add: restore_schema_snapshot_def transact_def)
    have find2: "find_schema g2 i = find_schema g i" for i using rows(1) by (simp add: find_schema_def g2)
    have "graph_ok g2" unfolding g2(1)[symmetric]
      by (rule graph_ok_shrink[OF assms(6,4) w assms(7) True])
        (use rows(2) find2 in \<open>auto simp: g2(1)\<close>)
    then show ?thesis using find2 g2 True restorable_in_use[OF w assms(5,7)] by simp
  next
    case False
    with out obtain e where "restore_schema_tx snap key h = Inl e" by auto
    then have g2: "g2 = h" "r = Inl e" using assms(11) by (auto simp: restore_schema_snapshot_def transact_def)
    have "\<exists>n \<in> set (gd_nodes h). in_use g g1 n" using False restorable_in_use[OF w assms(5,7)] by simp
    then show ?thesis using g2 assms(6) by simp
  qed
qed

end
