(* ===== verification/Row_Order.thy ===== *)
theory Row_Order
  imports Py_Text
begin

text \<open>
  What \<^verbatim>\<open>ORDER BY\<close> promises when its columns tell the rows apart: the result is sorted and depends on the
  set of rows only. Every query of the stores that orders by a key interprets this.
\<close>

locale row_order =
  fixes lt :: "'a \<Rightarrow> 'a \<Rightarrow> bool" and key :: "'a \<Rightarrow> 'k"
  assumes same: "key x = key y \<Longrightarrow> \<not> lt x y"
    and trans: "lt x y \<Longrightarrow> lt y z \<Longrightarrow> lt x z"
    and total: "key x \<noteq> key y \<Longrightarrow> lt x y \<or> lt y x"
begin

lemma asym: "lt x y \<Longrightarrow> \<not> lt y x"
  using trans[of x y x] same[of x x] by blast

lemma cong: "key x = key x' \<Longrightarrow> lt x y \<Longrightarrow> lt x' y"
  using total[of x' y] trans[of y x' x] same same[of x' y] asym trans by metis

lemma not_trans: "\<not> lt x y \<Longrightarrow> \<not> lt y z \<Longrightarrow> \<not> lt x z"
proof
  assume a: "\<not> lt x y" "\<not> lt y z" "lt x z"
  show False
  proof (cases "key x = key y")
    case True
    with a show False using cong[OF True a(3)] by blast
  next
    case False
    then have "lt y x" using a(1) total by blast
    then show False using a trans by blast
  qed
qed

lemma sorted: "sorted_wrt (\<lambda>x y. \<not> lt y x) (order_by lt xs)"
  by (rule sorted_order_by) (use asym not_trans in blast)+

lemma distinct_insort: "distinct (map key (insort_rel lt r xs)) \<longleftrightarrow> key r \<notin> key ` set xs \<and> distinct (map key xs)"
  by (induction xs) auto

lemma distinct_order: "distinct (map key (order_by lt xs)) \<longleftrightarrow> distinct (map key xs)"
  by (induction xs) (auto simp: distinct_insort)

lemma strict:
  assumes "distinct (map key xs)"
  shows "sorted_wrt lt (order_by lt xs)"
proof -
  have "sorted_wrt lt ys" if "sorted_wrt (\<lambda>x y. \<not> lt y x) ys" "distinct (map key ys)" for ys
    using that total by (induction ys) fastforce+
  then show ?thesis using sorted distinct_order assms by blast
qed

lemma strict_unique:
  "sorted_wrt lt xs \<Longrightarrow> sorted_wrt lt ys \<Longrightarrow> set xs = set ys \<Longrightarrow> xs = ys"
proof (induction xs arbitrary: ys)
  case (Cons x xs)
  then obtain y ys' where ys: "ys = y # ys'" by (cases ys) auto
  have xy: "x = y"
  proof (rule ccontr)
    assume n: "x \<noteq> y"
    then have "lt x y" "lt y x" using Cons.prems ys by auto
    then show False using asym by blast
  qed
  have "x \<notin> set xs" "y \<notin> set ys'" using Cons.prems ys same[of x x] same[of y y] by auto
  then have "set xs = set ys'" using Cons.prems(3) ys xy by auto
  then show ?case using Cons.IH[of ys'] Cons.prems ys xy by simp
qed simp

lemma order_unique:
  assumes "distinct (map key xs)" "distinct (map key ys)" "set xs = set ys"
  shows "order_by lt xs = order_by lt ys"
  by (rule strict_unique[OF strict[OF assms(1)] strict[OF assms(2)]]) (simp add: assms(3))

end

interpretation text_order: row_order str_less id
  by unfold_locales (auto dest: str_less_trans str_less_total)

end
