(* ===== verification/Schema_Preview.thy ===== *)
theory Schema_Preview
  imports Schema_Undo Row_Order
begin

text \<open>
  The inventory shown for approval is the one the application leaves; and a concrete proposal, on which
  the theorems about proposals are instantiated.
\<close>

section \<open>The preview of a proposal\<close>

interpretation by_id: row_order by_schema_id sc_id
  by unfold_locales (auto simp: by_schema_id_def dest: str_less_trans str_less_total)

lemma listed_simps [simp]: "sc_id (listed s) = sc_id s" "sc_properties (listed s) = sc_properties s"
  "by_schema_id (listed a) (listed b) = by_schema_id a b" "listed (s\<lparr>sc_properties := ps\<rparr>) = (listed s)\<lparr>sc_properties := ps\<rparr>"
  "listed (s\<lparr>sc_created_at := t\<rparr>) = listed s"
  by (simp_all add: listed_def by_schema_id_def)

lemma order_by_map: "(\<And>x y. lt (f x) (f y) = lt x y) \<Longrightarrow> order_by lt (map f xs) = map f (order_by lt xs)"
proof -
  assume lt: "\<And>x y. lt (f x) (f y) = lt x y"
  have "insort_rel lt (f x) (map f ys) = map f (insort_rel lt x ys)" for x ys by (induction ys) (simp_all add: lt)
  then show ?thesis by (induction xs) simp_all
qed

lemma lookup_by_map: "(\<And>x. key (f x) = key x) \<Longrightarrow> lookup_by key k (map f xs) = map_option f (lookup_by key k xs)"
  by (induction xs) auto

lemma extend_rows_listed: "extend_rows rs (map listed rows) = map_sum id (map listed) (extend_rows rs rows)"
proof (induction rs arbitrary: rows)
  case (Cons r rs)
  have "update_where (\<lambda>x. sc_id x = ru_id r) (\<lambda>x. x\<lparr>sc_properties := ps\<rparr>) (map listed rows) =
      map listed (update_where (\<lambda>x. sc_id x = ru_id r) (\<lambda>x. x\<lparr>sc_properties := ps\<rparr>) rows)" for ps
    by (induction rows) simp_all
  with Cons.IH show ?case
    by (auto simp: lookup_by_map split: option.split sum.split)
qed simp

lemma lookup_by_set:
  "distinct (map key xs) \<Longrightarrow> distinct (map key ys) \<Longrightarrow> set xs = set ys \<Longrightarrow> lookup_by key k xs = lookup_by key k ys"
  by (cases "lookup_by key k xs"; cases "lookup_by key k ys")
    (use lookup_by_distinct lookup_by_SomeD lookup_by_None_iff in \<open>metis (mono_tags, lifting)\<close>)+

lemma extend_rows_set:
  assumes "distinct (map sc_id xs)" "distinct (map sc_id ys)" "set xs = set ys"
  shows "(\<exists>e. extend_rows rs xs = Inl e \<and> extend_rows rs ys = Inl e) \<or>
    (\<exists>xs' ys'. extend_rows rs xs = Inr xs' \<and> extend_rows rs ys = Inr ys' \<and> set xs' = set ys' \<and>
      map sc_id xs' = map sc_id xs \<and> map sc_id ys' = map sc_id ys)"
  using assms
proof (induction rs arbitrary: xs ys)
  case (Cons r rs)
  note same = lookup_by_set[OF Cons.prems, of "ru_id r"]
  show ?case
  proof (cases "lookup_by sc_id (ru_id r) ys")
    case (Some s)
    show ?thesis
    proof (cases "merge_entity_properties (ru_id r) (sc_properties s) (ru_extension r)")
      case (Inr ps)
      let ?f = "update_where (\<lambda>x. sc_id x = ru_id r) (\<lambda>x. x\<lparr>sc_properties := ps\<rparr>)"
      have ids: "map sc_id (?f zs) = map sc_id zs" for zs :: "entity_schema list" by (rule map_update_where) simp
      have "set (?f xs) = set (?f ys)" using Cons.prems(3) by (auto simp: update_where_def)
      from Cons.IH[OF _ _ this] Cons.prems(1,2) show ?thesis using same Some Inr by (simp add: ids)
    qed (use same Some in simp)
  qed (use same in simp)
qed simp

lemma overlay_new_Inr:
  "distinct (map sc_id new) \<Longrightarrow>
   (if \<exists>s \<in> set new. sc_id s \<in> sc_id ` set rows then \<exists>e. overlay_new new rows = Inl e
    else overlay_new new rows = Inr (rows @ new))"
proof (induction new arbitrary: rows)
  case (Cons s new)
  show ?case
  proof (cases "sc_id s \<in> sc_id ` set rows")
    case True
    then have "lookup_by sc_id (sc_id s) rows \<noteq> None" by (simp add: lookup_by_None_iff)
    with True show ?thesis by auto
  next
    case False
    then have "lookup_by sc_id (sc_id s) rows = None" by (simp add: lookup_by_None_iff)
    moreover have "(\<exists>t \<in> set new. sc_id t \<in> sc_id ` set (rows @ [s])) \<longleftrightarrow> (\<exists>t \<in> set new. sc_id t \<in> sc_id ` set rows)"
      using Cons.prems by (auto simp: image_iff)
    ultimately show ?thesis using Cons.IH[of "rows @ [s]"] Cons.prems False by (auto split: if_splits)
  qed
qed simp

lemma insert_schemas_append:
  assumes "distinct (map sc_id new)" "\<forall>s \<in> set new. sc_id s \<notin> sc_id ` set rows"
  shows "insert_schemas now new rows = rows @ map (\<lambda>s. s\<lparr>sc_created_at := now\<rparr>) new"
  using assms
proof (induction new arbitrary: rows)
  case (Cons s new)
  have "lookup_by sc_id (sc_id s) rows = None" using Cons.prems(2) by (simp add: lookup_by_None_iff)
  then have "put_schema (s\<lparr>sc_created_at := now\<rparr>) rows = rows @ [s\<lparr>sc_created_at := now\<rparr>]"
    by (simp add: put_schema_def upsert_def)
  moreover have "insert_schemas now new (rows @ [s\<lparr>sc_created_at := now\<rparr>]) =
      (rows @ [s\<lparr>sc_created_at := now\<rparr>]) @ map (\<lambda>s. s\<lparr>sc_created_at := now\<rparr>) new"
    by (rule Cons.IH) (use Cons.prems in \<open>auto simp: image_iff\<close>)
  ultimately show ?case by (simp add: insert_schemas_def)
qed (simp add: insert_schemas_def)

lemma normalize_new_listed: "normalize_new item = Inr s \<Longrightarrow> listed s = s"
  by (auto simp: normalize_new_def listed_def split: if_splits sum.splits)

lemma normalized_new_listed: "normalize_schema_proposal j = Inr p \<Longrightarrow> s \<in> set (sp_new p) \<Longrightarrow> listed s = s"
  by (auto simp: normalize_schema_proposal_def split: if_splits sum.splits dest!: check_all_set[of normalize_new]
      dest: normalize_new_listed)

lemma list_schemas_eq: "list_schemas g = order_by by_schema_id (map listed (gd_schemas g))"
  by (simp add: list_schemas_def order_by_map)

lemma map_listed_new: "(\<And>s. s \<in> set new \<Longrightarrow> listed s = s) \<Longrightarrow> map listed (map (\<lambda>s. s\<lparr>sc_created_at := now\<rparr>) new) = new"
  by (induction new) auto

lemma clash_iff: "List.find (\<lambda>s. find_schema g (sc_id s) \<noteq> None) new = None \<longleftrightarrow> \<not> (\<exists>s \<in> set new. sc_id s \<in> schema_ids g)"
  unfolding find_None_iff' using find_schema_ids[of g] by blast

text \<open>Both sides for a proposal that passes the check of its parents.\<close>

lemma apply_valid:
  assumes "normalize_schema_proposal j = Inr p" "validate_proposal_parents g p = Inr u"
    and "given key \<longrightarrow> lookup_by gx_key (the key) (gd_effects g) = None"
  shows "apply_schema_proposal_atomic now digest key j g = transact (write_proposal now digest key p) g"
  using assms by (simp add: apply_schema_proposal_atomic_def transact_def apply_schema_tx_def)

lemma effective_valid:
  assumes "normalize_schema_proposal j = Inr p" "validate_proposal_parents g p = Inr u"
  shows "effective_schemas g (Some j) =
    (case extend_rows (sp_reused p) (order_by by_schema_id (gd_schemas g)) of Inl e \<Rightarrow> Inl e | Inr rows \<Rightarrow>
       map_sum id (order_by by_schema_id) (overlay_new (sp_new p) (map listed rows)))"
  using assms by (simp add: effective_schemas_def list_schemas_def extend_rows_listed split: sum.split)

lemma invalid_proposal:
  assumes "normalize_schema_proposal j = Inl e \<or> normalize_schema_proposal j = Inr p \<and> validate_proposal_parents g p = Inl e"
  shows "effective_schemas g (Some j) = Inl e \<and> (\<exists>e. apply_schema_proposal_atomic now digest key j g = (g, Inl e))"
  using assms by (auto simp: effective_schemas_def apply_schema_proposal_atomic_def transact_def apply_schema_tx_def)

text \<open>With extensions that pass, the rows of the preview (in order) and of the store (as they stand) have the same content.\<close>

lemma preview_extended:
  assumes p: "normalize_schema_proposal j = Inr p" and new: "distinct (map sc_id (sp_new p))"
    and d: "distinct (map sc_id (gd_schemas g))"
    and same: "set xs' = set ys'" "map sc_id xs' = map sc_id (order_by by_schema_id (gd_schemas g))" "map sc_id ys' = map sc_id (gd_schemas g)"
    and ys: "extend_rows (sp_reused p) (gd_schemas g) = Inr ys'"
  shows "case map_sum id (order_by by_schema_id) (overlay_new (sp_new p) (map listed xs')) of
      Inl _ \<Rightarrow> \<exists>e. write_proposal now digest key p g = Inl e
    | Inr rows \<Rightarrow> \<exists>g' res. write_proposal now digest key p g = Inr (g', res) \<and> list_schemas g' = rows"
proof -
  let ?xs = "gd_schemas g" and ?new = "sp_new p"
  have do: "distinct (map sc_id (order_by by_schema_id ?xs))" using d by (simp add: by_id.distinct_order)
  have ids: "sc_id ` set xs' = schema_ids g" "sc_id ` set ys' = schema_ids g"
    using arg_cong[OF same(3), of set] same(1) by (simp_all add: schema_ids_def)
  note ov = overlay_new_Inr[OF new, of "map listed xs'", unfolded set_map image_image listed_simps ids(1)]
  show ?thesis
  proof (cases "\<exists>s \<in> set ?new. sc_id s \<in> schema_ids g")
    case True
    then obtain s where "List.find (\<lambda>s. find_schema g (sc_id s) \<noteq> None) ?new = Some s"
      using clash_iff[of g ?new] by (cases "List.find (\<lambda>s. find_schema g (sc_id s) \<noteq> None) ?new") blast+
    then have "write_proposal now digest key p g = Inl (already_exists (sc_id s))" by (simp add: write_proposal_def)
    with True ov show ?thesis by auto
  next
    case False
    have clash: "List.find (\<lambda>s. find_schema g (sc_id s) \<noteq> None) ?new = None" using False clash_iff[of g ?new] by blast
    have ins: "insert_schemas now ?new ys' = ys' @ map (\<lambda>s. s\<lparr>sc_created_at := now\<rparr>) ?new"
      by (rule insert_schemas_append[OF new]) (use False ids(2) in blast)
    from clash ys obtain g' res where w: "write_proposal now digest key p g = Inr (g', res)" "gd_schemas g' = insert_schemas now ?new ys'"
      by (auto simp: write_proposal_def Let_def)
    have "sc_id x \<noteq> sc_id y" if "x \<in> set ?xs" "y \<in> set ?new" for x y
      using False that unfolding schema_ids_def by (metis image_eqI)
    then have "order_by by_schema_id (map listed ys' @ ?new) = order_by by_schema_id (map listed xs' @ ?new)"
      by (intro by_id.order_unique) (use new same do d in \<open>auto simp: comp_def\<close>)
    moreover have "list_schemas g' = order_by by_schema_id (map listed ys' @ ?new)"
      unfolding list_schemas_eq w(2) ins using map_listed_new[of ?new now] normalized_new_listed[OF p] by simp
    ultimately show ?thesis using w(1) ov False by simp
  qed
qed

text \<open>
  Property C28 (preview): the inventory shown for approval is the one the application leaves. Under a fresh key a
  proposal is applied exactly when its preview is computed, and afterwards the inventory is the
  preview; a refused proposal changes nothing. Proposals that define one entity twice are set aside.
\<close>

theorem preview_is_what_apply_leaves:
  assumes "distinct (map sc_id (gd_schemas g))" "given key \<longrightarrow> lookup_by gx_key (the key) (gd_effects g) = None"
    and "\<forall>p. normalize_schema_proposal j = Inr p \<longrightarrow> distinct (map sc_id (sp_new p))"
  shows "case effective_schemas g (Some j) of
      Inl _ \<Rightarrow> \<exists>e. apply_schema_proposal_atomic now digest key j g = (g, Inl e)
    | Inr rows \<Rightarrow> \<exists>g' res. apply_schema_proposal_atomic now digest key j g = (g', Inr res) \<and>
        effective_schemas g' None = Inr rows"
proof (cases "normalize_schema_proposal j")
  case (Inl e)
  then show ?thesis using invalid_proposal[of j e undefined g now digest key] by auto
next
  case p: (Inr p)
  show ?thesis
  proof (cases "validate_proposal_parents g p")
    case (Inl e)
    with p show ?thesis using invalid_proposal[of j e p g now digest key] by auto
  next
    case (Inr u)
    let ?xs = "gd_schemas g"
    note eff = effective_valid[OF p Inr] and tx = apply_valid[OF p Inr assms(2)]
    have new: "distinct (map sc_id (sp_new p))" using assms(3) p by simp
    have d: "distinct (map sc_id (order_by by_schema_id ?xs))" using assms(1) by (simp add: by_id.distinct_order)
    from extend_rows_set[OF d assms(1), of "sp_reused p"] consider
      e where "extend_rows (sp_reused p) (order_by by_schema_id ?xs) = Inl e" "extend_rows (sp_reused p) ?xs = Inl e"
      | xs' ys' where "extend_rows (sp_reused p) (order_by by_schema_id ?xs) = Inr xs'" "extend_rows (sp_reused p) ?xs = Inr ys'"
        "set xs' = set ys'" "map sc_id xs' = map sc_id (order_by by_schema_id ?xs)" "map sc_id ys' = map sc_id ?xs"
      by auto
    then show ?thesis
    proof cases
      case 1
      then show ?thesis unfolding eff tx by (auto simp: transact_def write_proposal_def split: option.split)
    next
      case 2
      from preview_extended[OF p new assms(1) 2(3-5) 2(2), of now digest key] 2(1) show ?thesis
        unfolding eff tx by (auto simp: transact_def effective_schemas_def split: sum.splits)
    qed
  qed
qed

section \<open>A concrete proposal\<close>

definition demo_task :: entity_schema where
  "demo_task = demo_schema\<lparr>sc_subclass_of := None\<rparr>"

definition demo_ontology :: graph where
  "demo_ontology = demo_graph\<lparr>gd_schemas := [demo_task]\<rparr>"

definition demo_extension :: "string \<Rightarrow> string \<Rightarrow> reused_schema" where
  "demo_extension key ty = \<lparr>ru_id = ''Task'', ru_extension = [(key, ty)], ru_item = JObj [(''id'', JStr ''Task''),
     (''extended_properties'', JObj [(key, JStr ty)])]\<rparr>"

definition demo_proposal :: "string \<Rightarrow> string \<Rightarrow> json" where
  "demo_proposal key ty = JObj [(''reused_schemas'', JArr [ru_item (demo_extension key ty)])]"

definition demo_grown :: "string \<Rightarrow> string \<Rightarrow> graph" where
  "demo_grown key ty = demo_ontology\<lparr>gd_schemas := [demo_task\<lparr>sc_properties := [(''title'', ''string''), (key, ty)]\<rparr>]\<rparr>"

lemma demo_normalized:
  assumes "strip key \<noteq> []" "ty \<in> set ALLOWED_PROPERTY_TYPES"
  shows "normalize_schema_proposal (demo_proposal key ty) = Inr \<lparr>sp_reused = [demo_extension key ty], sp_new = []\<rparr>"
proof -
  have "named ''Task''" by (simp add: named_def strip_def is_space_def)
  then have "normalize_reused (ru_item (demo_extension key ty)) = Inr (demo_extension key ty)"
    using assms by (simp add: normalize_reused_def demo_extension_def required_text_JStr validate_property_definition_def
        or_empty_object_def check_scope_def)
  then show ?thesis by (simp add: normalize_schema_proposal_def demo_proposal_def iterate_field_def)
qed

definition demo_effect :: "string \<Rightarrow> string \<Rightarrow> json" where
  "demo_effect key ty = schema_effect_json \<lparr>sp_reused = [demo_extension key ty], sp_new = []\<rparr> demo_ontology (demo_grown key ty)"

definition demo_ledger :: "string \<Rightarrow> string \<Rightarrow> graph" where
  "demo_ledger key ty = (demo_grown key ty)\<lparr>gd_effects := [\<lparr>gx_key = ''k'', gx_hash = ''h'', gx_result = demo_effect key ty\<rparr>]\<rparr>"

lemma demo_apply:
  assumes "strip key \<noteq> []" "ty \<in> set ALLOWED_PROPERTY_TYPES" "key \<noteq> ''title''"
  shows "apply_schema_proposal_atomic [] (\<lambda>p. ''h'') (Some ''k'') (demo_proposal key ty) demo_ontology =
    (demo_ledger key ty, Inr (demo_effect key ty))"
proof -
  let ?p = "\<lparr>sp_reused = [demo_extension key ty], sp_new = []\<rparr>"
  have w: "write_proposal [] (\<lambda>p. ''h'') (Some ''k'') ?p demo_ontology = Inr (demo_ledger key ty, demo_effect key ty)"
    using assms(3) by (simp add: write_proposal_def demo_extension_def demo_ontology_def merge_entity_properties_def
        demo_task_def demo_schema_def core_entity_def insert_schemas_def Let_def given_def demo_ledger_def demo_effect_def
        demo_grown_def demo_graph_def)
  have "gd_effects demo_ontology = []" by (simp add: demo_ontology_def demo_graph_def)
  then show ?thesis using w
    by (simp add: apply_schema_proposal_atomic_def transact_def apply_schema_tx_def demo_normalized[OF assms(1,2)]
        validate_proposal_parents_def)
qed

lemma demo_done: "strip ''done'' \<noteq> []" "''boolean'' \<in> set ALLOWED_PROPERTY_TYPES" "''done'' \<noteq> ''title''"
  by (simp_all add: strip_def is_space_def ALLOWED_PROPERTY_TYPES_def)

lemma demo_task_ok: "schema_ok demo_task" "accepts demo_ontology ''Task'' [(''title'', JStr t)]"
  by (simp_all add: demo_task_def demo_defs schema_ok_def named_def strip_def is_space_def schema_properties_def
      SYSTEM_PROPERTIES_def accepts_def demo_ontology_def find_schema_def usable_schema_def well_typed_def
      ONTOLOGY_ID_def USER_CONTEXT_SCOPE_def)

lemma demo_ontology_ok: "graph_ok demo_ontology" "parents_ok demo_ontology"
proof -
  have "node_view demo_ontology = node_view demo_graph" "edge_view demo_ontology = edge_view demo_graph"
    by (auto simp: demo_ontology_def node_view_def edge_view_def find_node_def find_edge_def)
  moreover have "node_view demo_graph nid = Some (ty, props) \<Longrightarrow> ty = ''Task'' \<and> (\<exists>t. props = [(''title'', JStr t)])" for nid ty props
    by (auto simp: demo_defs node_view_def find_node_def split: if_splits)
  ultimately show "graph_ok demo_ontology" using demo_ok demo_task_ok
    unfolding graph_ok_def by (auto simp: demo_ontology_def)
  show "parents_ok demo_ontology" by (simp add: parents_ok_def demo_ontology_def demo_task_def)
qed

lemma demo_safe: "normalize_schema_proposal (demo_proposal ''done'' ''boolean'') = Inr p \<Longrightarrow> safe_namespace p"
  by (auto simp: demo_normalized[OF demo_done(1,2)] safe_namespace_def demo_extension_def)

lemma proposal_keeps_records_witness: "graph_ok (demo_ledger ''done'' ''boolean'')"
  using proposal_keeps_records[OF demo_apply[OF demo_done] demo_ontology_ok] demo_safe by blast

lemma schema_compensation_restores_or_refuses_witness:
  "\<exists>h. restore_schema_snapshot (JObj (snapshot_rows \<lparr>sp_reused = [demo_extension ''done'' ''boolean''], sp_new = []\<rparr> demo_ontology))
     (Some ''k'') (demo_ledger ''done'' ''boolean'') = (h, Inr ()) \<and> find_schema h ''Task'' = Some demo_task"
proof -
  let ?p = "\<lparr>sp_reused = [demo_extension ''done'' ''boolean''], sp_new = []\<rparr>" and ?h = "demo_ledger ''done'' ''boolean''"
  let ?snap = "JObj (snapshot_rows ?p demo_ontology)"
  obtain g2 r where r: "restore_schema_snapshot ?snap (Some ''k'') ?h = (g2, r)" by (metis surj_pair)
  have ok: "graph_ok ?h"
    by (rule graph_ok_grow[OF demo_ontology_ok(1)])
      (use demo_task_ok(1) in \<open>auto simp: demo_ledger_def demo_grown_def demo_ontology_def schema_ok_namespace find_schema_def
        demo_task_def demo_schema_def core_entity_def grown_def extends_map_def split: if_splits\<close>)
  have "case r of Inr _ \<Rightarrow> (\<forall>i. find_schema g2 i = find_schema demo_ontology i) \<and> \<not> (\<exists>n \<in> set (gd_nodes ?h). in_use demo_ontology ?h n)
     | Inl _ \<Rightarrow> g2 = ?h \<and> (\<exists>n \<in> set (gd_nodes ?h). in_use demo_ontology ?h n)"
    using schema_compensation_restores_or_refuses[OF demo_apply[OF demo_done] _ _ demo_ontology_ok ok refl _ _ _ r]
    by (simp add: given_def demo_ontology_def demo_graph_def demo_ledger_def demo_effect_def)
  moreover have "\<not> (\<exists>n \<in> set (gd_nodes ?h). in_use demo_ontology ?h n)"
    by (simp add: in_use_def demo_ledger_def demo_grown_def demo_ontology_def demo_task_def demo_defs find_schema_def)
  moreover have "find_schema demo_ontology ''Task'' = Some demo_task"
    by (simp add: demo_ontology_def find_schema_def demo_task_def demo_schema_def core_entity_def)
  ultimately show ?thesis using r by (cases r) (auto split: sum.splits)
qed

lemma preview_is_what_apply_leaves_witness:
  "effective_schemas demo_ontology (Some (demo_proposal ''done'' ''boolean'')) =
     effective_schemas (demo_ledger ''done'' ''boolean'') None"
proof -
  have n: "\<forall>p. normalize_schema_proposal (demo_proposal ''done'' ''boolean'') = Inr p \<longrightarrow> distinct (map sc_id (sp_new p))"
    by (simp add: demo_normalized[OF demo_done(1,2)])
  have "distinct (map sc_id (gd_schemas demo_ontology))" "gd_effects demo_ontology = []"
    by (simp_all add: demo_ontology_def demo_graph_def)
  then show ?thesis
    using preview_is_what_apply_leaves[OF _ _ n, of demo_ontology "Some ''k''" "[]" "\<lambda>p. ''h''"] demo_apply[OF demo_done]
    by (auto split: sum.splits)
qed

text \<open>
  A proposal may retype the system property. Afterwards a record that holds its namespace
  as a text is refused, so no update of it succeeds any more.
\<close>

lemma namespace_can_be_retyped:
  "\<exists>g' res. apply_schema_proposal_atomic [] (\<lambda>p. ''h'') (Some ''k'') (demo_proposal ''namespace'' ''integer'') demo_ontology =
     (g', Inr res) \<and>
   validate_properties_in_conn demo_ontology ''Task'' [(''namespace'', JStr ''x'')] = Inr [(''namespace'', JStr ''x'')] \<and>
   validate_properties_in_conn g' ''Task'' [(''namespace'', JStr ''x'')] =
     Inl (property_error ''Task'' ''namespace'' '' must be an integer'')"
proof -
  have "strip ''namespace'' \<noteq> []" "''integer'' \<in> set ALLOWED_PROPERTY_TYPES" "''namespace'' \<noteq> ''title''"
    by (simp_all add: strip_def is_space_def ALLOWED_PROPERTY_TYPES_def)
  note a = demo_apply[OF this]
  have "to_int (JStr ''x'') = None" by code_simp
  then have "validate_properties_in_conn (demo_ledger ''namespace'' ''integer'') ''Task'' [(''namespace'', JStr ''x'')] =
      Inl (property_error ''Task'' ''namespace'' '' must be an integer'')"
    by (simp add: validate_properties_in_conn_def find_schema_def demo_ledger_def demo_grown_def demo_task_def demo_defs
        coerce_entity_properties_def ONTOLOGY_ID_def USER_CONTEXT_SCOPE_def unknown_properties_def schema_properties_def
        coerce_item_def coerce_value_def)
  moreover have "validate_properties_in_conn demo_ontology ''Task'' [(''namespace'', JStr ''x'')] = Inr [(''namespace'', JStr ''x'')]"
    by (simp add: validate_properties_in_conn_def find_schema_def demo_ontology_def demo_task_def demo_defs
        coerce_entity_properties_def ONTOLOGY_ID_def USER_CONTEXT_SCOPE_def unknown_properties_def schema_properties_def
        SYSTEM_PROPERTIES_def coerce_item_def coerce_value_def)
  ultimately show ?thesis using a by blast
qed

end
