(* ===== verification/Graph_Preflight.thy ===== *)
theory Graph_Preflight
  imports Graph_Laws
begin

text \<open>
  The preflight of a batch (\<^verbatim>\<open>preflight_actions\<close> of \<^verbatim>\<open>backend/graph_db.py\<close>): it plays the actions on a copy of
  the nodes and the keys of the edges, and returns them normalized for approval. A batch it accepts
  commits, if nothing has changed in between.
\<close>

section \<open>The plan\<close>

record plan =
  pl_nodes :: "(string \<times> string \<times> (string \<times> json) list) list"
  pl_edges :: "(string \<times> string \<times> string) list"

definition start_plan :: "graph \<Rightarrow> plan" where
  "start_plan g = \<lparr>pl_nodes = map (\<lambda>n. (gn_id n, gn_type n, gn_props n)) (gd_nodes g), pl_edges = map edge_key (gd_edges g)\<rparr>"

definition plan_node :: "string \<Rightarrow> string \<Rightarrow> (string \<times> json) list \<Rightarrow> plan \<Rightarrow> plan" where
  "plan_node nid ty props p = p\<lparr>pl_nodes := AList.update nid (ty, props) (pl_nodes p)\<rparr>"

definition plan_create :: "string \<Rightarrow> json \<Rightarrow> graph \<Rightarrow> plan \<Rightarrow> (plan \<times> json) result" where
  "plan_create fresh action g p =
     (case action_id fresh action of Inl e \<Rightarrow> Inl e | Inr nid \<Rightarrow>
     (case action_type action of Inl e \<Rightarrow> Inl e | Inr ty \<Rightarrow>
     (case action_props action ''create_node.properties must be an object'' of Inl e \<Rightarrow> Inl e | Inr props \<Rightarrow>
     (case validate_properties_in_conn g ty props of Inl e \<Rightarrow> Inl e | Inr v \<Rightarrow>
        Inr (plan_node nid ty v p, node_record ''create_node'' nid ty v)))))"

definition update_record :: "string \<Rightarrow> (string \<times> json) list \<Rightarrow> json" where
  "update_record nid props = JObj [(''action'', JStr ''update_node_property''), (''id'', JStr nid), (''properties'', JObj props)]"

definition plan_update :: "json \<Rightarrow> graph \<Rightarrow> plan \<Rightarrow> (plan \<times> json) result" where
  "plan_update action g p =
     (case required_text action ''id'' of Inl e \<Rightarrow> Inl e | Inr nid \<Rightarrow>
     (case map_of (pl_nodes p) nid of
        None \<Rightarrow> Inl (missing_node nid)
      | Some (ty, old) \<Rightarrow>
          (case action_props action ''update_node_property.properties must be an object'' of Inl e \<Rightarrow> Inl e | Inr props \<Rightarrow>
          (case validate_properties_in_conn g ty (dict_merge old props) of Inl e \<Rightarrow> Inl e | Inr v \<Rightarrow>
             Inr (plan_node nid ty v p, update_record nid (map (\<lambda>kv. (fst kv, the (map_of v (fst kv)))) props))))))"

definition plan_delete :: "json \<Rightarrow> plan \<Rightarrow> (plan \<times> json) result" where
  "plan_delete action p =
     (case required_text action ''id'' of Inl e \<Rightarrow> Inl e | Inr nid \<Rightarrow>
        if map_of (pl_nodes p) nid = None then Inl (missing_node nid)
        else Inr (p\<lparr>pl_nodes := AList.delete nid (pl_nodes p),
               pl_edges := filter (\<lambda>k. fst k \<noteq> nid \<and> fst (snd k) \<noteq> nid) (pl_edges p)\<rparr>,
             node_id_record ''delete_node'' nid))"

definition plan_create_edge :: "json \<Rightarrow> plan \<Rightarrow> (plan \<times> json) result" where
  "plan_create_edge action p =
     (case edge_action_target action of Inl e \<Rightarrow> Inl e | Inr k \<Rightarrow>
        if map_of (pl_nodes p) (fst k) = None \<or> map_of (pl_nodes p) (fst (snd k)) = None
        then Inl (ValueError ''create_edge endpoints must exist after preceding actions'')
        else (case action_props action ''create_edge.properties must be an object'' of Inl e \<Rightarrow> Inl e | Inr props \<Rightarrow>
          Inr (p\<lparr>pl_edges := List.insert k (pl_edges p)\<rparr>, edge_props_record ''create_edge'' k (JObj props))))"

definition plan_delete_edge :: "json \<Rightarrow> plan \<Rightarrow> (plan \<times> json) result" where
  "plan_delete_edge action p =
     (case edge_action_target action of Inl e \<Rightarrow> Inl e | Inr k \<Rightarrow>
        if k \<notin> set (pl_edges p) then Inl (ValueError (edge_message k))
        else Inr (p\<lparr>pl_edges := filter (\<lambda>x. x \<noteq> k) (pl_edges p)\<rparr>, edge_record ''delete_edge'' k))"

definition plan_action :: "string \<Rightarrow> json \<Rightarrow> graph \<Rightarrow> plan \<Rightarrow> (plan \<times> json) result" where
  "plan_action fresh action g p =
     (case required_text action ''action'' of Inl e \<Rightarrow> Inl e | Inr kind \<Rightarrow>
        if kind = ''create_node'' then plan_create fresh action g p
        else if kind = ''update_node_property'' then plan_update action g p
        else if kind = ''delete_node'' then plan_delete action p
        else if kind = ''create_edge'' then plan_create_edge action p
        else if kind = ''delete_edge'' then plan_delete_edge action p
        else Inl (ValueError (''Unsupported graph mutation action: '' @ kind)))"

fun plan_actions :: "(nat \<Rightarrow> string) \<Rightarrow> nat \<Rightarrow> json list \<Rightarrow> graph \<Rightarrow> plan \<Rightarrow> json list result" where
  "plan_actions fresh i [] g p = Inr []"
| "plan_actions fresh i (a # as) g p =
     (case plan_action (fresh i) a g p of Inl e \<Rightarrow> Inl e | Inr (p', a') \<Rightarrow>
     (case plan_actions fresh (Suc i) as g p' of Inl e \<Rightarrow> Inl e | Inr rest \<Rightarrow> Inr (a' # rest)))"

definition preflight_actions :: "(nat \<Rightarrow> string) \<Rightarrow> json list \<Rightarrow> graph \<Rightarrow> json list result" where
  "preflight_actions fresh actions g =
     (if actions = [] then Inl (ValueError ''Graph mutation must contain at least one action'')
      else if \<not> list_all is_dict actions then Inl (ValueError ''Every graph mutation action must be an object'')
      else plan_actions fresh 0 actions g (start_plan g))"

section \<open>What preflight refuses\<close>

text \<open>
  The internal actions that undo an update, a deletion or an overwriting creation are refused, so a
  rollback that a user sends through the preflight of a graph command fails whenever its ticket holds one.
\<close>

lemma internal_actions_refused:
  assumes "a \<in> set actions" "dget a ''action'' = Some (JStr ''replace_node'') \<or> dget a ''action'' = Some (JStr ''restore_node'')"
  shows "\<exists>e. preflight_actions fresh actions g = Inl e"
proof -
  have bad: "\<exists>e. plan_action fr a g p = Inl e" for fr p
    using assms(2) kind_named by (auto simp: plan_action_def required_text_JStr)
  have "\<exists>e. plan_actions fresh i actions g p = Inl e" for i p
    using assms(1)
  proof (induction actions arbitrary: i p)
    case (Cons b bs)
    then show ?case using bad[of "fresh i" p]
      by (cases "plan_action (fresh i) b g p") (auto split: prod.split sum.split, metis Inr_not_Inl)
  qed simp
  then show ?thesis by (auto simp: preflight_actions_def)
qed

definition internal_action :: "json \<Rightarrow> bool" where
  "internal_action u \<longleftrightarrow> dget u ''action'' \<in> {Some (JStr ''replace_node''), Some (JStr ''restore_node'')}"

definition overwrites :: "json \<Rightarrow> bool" where
  "overwrites a \<longleftrightarrow> kind_of a \<in> {''update_node_property'', ''replace_node'', ''delete_node''}"

lemma step_reverse:
  assumes "step_action now fr a b = Inr b'"
  shows "\<exists>u. bt_reverse b' = bt_reverse b @ [u] \<and> (overwrites a \<longrightarrow> internal_action u)"
proof -
  obtain kind where k: "required_text a ''action'' = Inr kind"
    using assms by (auto simp: step_action_def split: sum.splits)
  then have kind: "kind_of a = kind" by (simp add: required_text_eq kind_of_def)
  have up: "\<exists>u. bt_reverse c = bt_reverse b @ [u] \<and> internal_action u" if "do_update_node kd keep a b = Inr c" for kd keep c
    using that by (auto simp: do_update_node_def Let_def internal_action_def replace_record_def
        split: sum.splits option.splits json.splits)
  have de: "\<exists>u. bt_reverse c = bt_reverse b @ [u] \<and> internal_action u" if "do_delete_node a b = Inr c" for c
    using that by (auto simp: do_delete_node_def Let_def internal_action_def restore_record_def split: sum.splits option.splits)
  have other: "\<exists>u. bt_reverse c = bt_reverse b @ [u]"
    if "do_create_node now fr a b = Inr c \<or> do_restore_node now a b = Inr c \<or> do_create_edge now a b = Inr c \<or>
      do_delete_edge a b = Inr c" for c
    using that
  proof (elim disjE)
    assume "do_create_node now fr a b = Inr c"
    then show ?thesis
      by (cases "find_node (bt_graph b) (projr (action_id fr a))")
        (auto simp: do_create_node_def Let_def split: sum.splits)
  next
    assume "do_restore_node now a b = Inr c"
    then show ?thesis by (auto simp: do_restore_node_def Let_def split: sum.splits json.splits)
  next
    assume "do_create_edge now a b = Inr c"
    then show ?thesis
      by (cases "find_edge (bt_graph b) (projr (edge_action_target a))")
        (auto simp: do_create_edge_def Let_def split: sum.splits if_splits)
  next
    assume "do_delete_edge a b = Inr c"
    then show ?thesis by (auto simp: do_delete_edge_def Let_def split: sum.splits option.splits)
  qed
  consider (upd) kd keep where "do_update_node kd keep a b = Inr b'" | (del) "do_delete_node a b = Inr b'"
    | (oth) "\<not> overwrites a" "do_create_node now fr a b = Inr b' \<or> do_restore_node now a b = Inr b' \<or>
        do_create_edge now a b = Inr b' \<or> do_delete_edge a b = Inr b'"
    using assms by (simp add: step_action_def k overwrites_def kind split: if_splits)
  then show ?thesis
  proof cases
    case upd
    then show ?thesis using up by blast
  next
    case del
    then show ?thesis using de by blast
  next
    case oth
    then show ?thesis using other by blast
  qed
qed

lemma run_reverse:
  assumes "run_actions now fresh i actions b = Inr b'" "internal_action u" "u \<in> set (bt_reverse b)"
  shows "u \<in> set (bt_reverse b')"
  using assms
proof (induction actions arbitrary: i b)
  case (Cons a as)
  then obtain c where c: "step_action now (fresh i) a b = Inr c" "run_actions now fresh (Suc i) as c = Inr b'"
    by (auto split: sum.splits)
  then have "u \<in> set (bt_reverse c)" using step_reverse[OF c(1)] Cons.prems(3) by auto
  then show ?case using Cons.IH c(2) assms(2) by blast
qed simp

lemma run_keeps_internal:
  assumes "run_actions now fresh i actions b = Inr b'" "a \<in> set actions" "overwrites a"
  shows "\<exists>u \<in> set (bt_reverse b'). internal_action u"
  using assms
proof (induction actions arbitrary: i b)
  case (Cons x as)
  then obtain c where c: "step_action now (fresh i) x b = Inr c" "run_actions now fresh (Suc i) as c = Inr b'"
    by (auto split: sum.splits)
  show ?case
  proof (cases "x = a")
    case True
    then obtain u where "internal_action u" "u \<in> set (bt_reverse c)" using step_reverse[OF c(1)] Cons.prems(3) by auto
    then show ?thesis using run_reverse[OF c(2)] by blast
  qed (use Cons c in auto)
qed simp

text \<open>
  Property C31 (refused): the undo of an update or of a deletion never passes preflight. The reverse actions a
  committed batch leaves for its ticket hold an internal action as soon as the batch updates or deletes a node,
  so a rollback that goes through the preflight of a graph command is refused, on every graph.
\<close>

theorem rollback_never_passes_preflight:
  assumes "run_actions now fresh i actions (start_batch g) = Inr b" "\<exists>a \<in> set actions. overwrites a"
  shows "\<exists>e. preflight_actions fresh' (rev (bt_reverse b)) g' = Inl e"
proof -
  obtain u where "u \<in> set (rev (bt_reverse b))" "internal_action u" using run_keeps_internal[OF assms(1)] assms(2) by auto
  then show ?thesis by (intro internal_actions_refused) (auto simp: internal_action_def)
qed

lemma rollback_never_passes_preflight_witness:
  "\<exists>e. preflight_actions (\<lambda>i. ''f'') (rev (bt_reverse demo_batch)) demo_graph = Inl e"
  by (rule rollback_never_passes_preflight[OF demo_run(1)]) (simp add: demo_delete_def overwrites_def kind_of_def)

section \<open>The plan simulates the graph\<close>












section \<open>An accepted batch commits\<close>




















end
