(* ===== verification/Mutation_Tickets.thy ===== *)
theory Mutation_Tickets
  imports Graph_Laws
begin

text \<open>
  The manager of mutation tickets (\<^verbatim>\<open>backend/mutation_tickets.py\<close>). A ticket is kept in memory until its expiry
  task runs or it is pinned, and in the history of the graph for good. A task is a number; \<open>tm_running\<close> holds
  the tasks whose sleep has not ended, with the session and the ticket they expire, and \<open>tm_soft\<close> the task
  registered for a ticket. Times and fresh ticket ids are arguments.
\<close>

section \<open>Inverse actions computed from the forward ones\<close>

definition no_none :: "json option \<Rightarrow> json" where
  "no_none v = json_or_null v"

definition reverted_props :: "(string \<times> (string \<times> json) list) list \<Rightarrow> json \<Rightarrow> (string \<times> json) list result" where
  "reverted_props snapshot action =
     (let old = (case dget action ''id'' of Some (JStr i) \<Rightarrow> (case map_of snapshot i of Some ps \<Rightarrow> ps | None \<Rightarrow> []) | _ \<Rightarrow> [])
      in case or_empty_object (dget action ''properties'') of
           JObj kvs \<Rightarrow> Inr (map (\<lambda>kv. (fst kv, the (map_of old (fst kv)))) (filter (\<lambda>kv. map_of old (fst kv) \<noteq> None) kvs))
         | _ \<Rightarrow> Inl (AttributeError ''keys''))"

definition reverse_of :: "(string \<times> (string \<times> json) list) list \<Rightarrow> json \<Rightarrow> json list result" where
  "reverse_of snapshot action =
     (let kind = dget action ''action''
      in if kind = Some (JStr ''create_node'')
         then Inr [JObj [(''action'', JStr ''delete_node''), (''id'', no_none (dget action ''id''))]]
         else if kind = Some (JStr ''create_edge'')
         then Inr [JObj [(''action'', JStr ''delete_edge''), (''from_id'', no_none (dget action ''from_id'')),
                (''to_id'', no_none (dget action ''to_id'')), (''type'', no_none (dget action ''type''))]]
         else if kind = Some (JStr ''update_node_property'')
         then map_sum id (\<lambda>ps. [JObj [(''action'', JStr ''update_node_property''), (''id'', no_none (dget action ''id'')),
                (''properties'', JObj ps)]]) (reverted_props snapshot action)
         else Inr [])"

definition compute_reverse_actions ::
  "json list \<Rightarrow> (string \<times> (string \<times> json) list) list \<Rightarrow> json list result" where
  "compute_reverse_actions forward snapshot = map_sum id concat (check_all (reverse_of snapshot) forward)"

section \<open>The manager\<close>

record ticket_manager =
  tm_memory :: "((string \<times> string) \<times> ticket_row) list"
  tm_running :: "(nat \<times> string \<times> string) list"
  tm_soft :: "(string \<times> nat) list"
  tm_next :: nat
  tm_graph :: graph

record ticket_request =
  tq_session :: string
  tq_forward :: "json list"
  tq_snapshot :: "(string \<times> (string \<times> json) list) list"
  tq_ticket :: "string option"
  tq_reverse :: "json list option"

definition snapshot_object :: "(string \<times> (string \<times> json) list) list \<Rightarrow> json" where
  "snapshot_object s = JObj (map (\<lambda>kv. (fst kv, JObj (snd kv))) s)"

definition record_ticket_request ::
  "string \<Rightarrow> string \<Rightarrow> ticket_request \<Rightarrow> ticket_manager \<Rightarrow> ticket_manager \<times> ticket_row result" where
  "record_ticket_request now fresh q m =
     (case (case tq_reverse q of Some us \<Rightarrow> Inr us | None \<Rightarrow> compute_reverse_actions (tq_forward q) (tq_snapshot q)) of
        Inl e \<Rightarrow> (m, Inl e)
      | Inr us \<Rightarrow>
          (let tid = (if given (tq_ticket q) then the (tq_ticket q) else fresh);
               t = \<lparr>gt_id = tid, gt_session_id = tq_session q, gt_forward = tq_forward q, gt_reverse = us,
                    gt_snapshot = snapshot_object (tq_snapshot q), gt_pinned = False, gt_created_at = now\<rparr>
           in (m\<lparr>tm_memory := AList.update (tq_session q, tid) t (tm_memory m),
                 tm_graph := record_mutation_history t (tm_graph m),
                 tm_running := tm_running m @ [(tm_next m, tq_session q, tid)],
                 tm_soft := AList.update tid (tm_next m) (tm_soft m),
                 tm_next := Suc (tm_next m)\<rparr>, Inr t)))"

definition get_ticket :: "ticket_manager \<Rightarrow> string \<Rightarrow> string \<Rightarrow> ticket_row option" where
  "get_ticket m session tid = map_of (tm_memory m) (session, tid)"

text \<open>The end of the sleep of a task.\<close>

definition soft_expire :: "nat \<Rightarrow> ticket_manager \<Rightarrow> ticket_manager" where
  "soft_expire task m =
     (case map_of (tm_running m) task of
        None \<Rightarrow> m
      | Some (session, tid) \<Rightarrow>
          m\<lparr>tm_memory := AList.delete (session, tid) (tm_memory m), tm_soft := AList.delete tid (tm_soft m),
             tm_running := AList.delete task (tm_running m)\<rparr>)"

definition pin_ticket :: "string \<Rightarrow> string \<Rightarrow> ticket_manager \<Rightarrow> ticket_manager \<times> bool" where
  "pin_ticket session tid m =
     (m\<lparr>tm_memory := map (\<lambda>kv. if fst kv = (session, tid) then (fst kv, (snd kv)\<lparr>gt_pinned := True\<rparr>) else kv) (tm_memory m),
        tm_graph := fst (pin_mutation_history tid (tm_graph m)),
        tm_soft := AList.delete tid (tm_soft m),
        tm_running := (case map_of (tm_soft m) tid of Some task \<Rightarrow> AList.delete task (tm_running m) | None \<Rightarrow> tm_running m)\<rparr>,
      True)"

definition rollback_ticket :: "string \<Rightarrow> string \<Rightarrow> ticket_manager \<Rightarrow> json list" where
  "rollback_ticket session tid m =
     (case get_ticket m session tid of
        Some t \<Rightarrow> gt_reverse t
      | None \<Rightarrow> (case load_mutation_history (tm_graph m) tid of Some row \<Rightarrow> gt_reverse row | None \<Rightarrow> []))"

section \<open>Tickets stay available\<close>

datatype ticket_event =
    Recorded string string ticket_request
  | Expired nat
  | Pinned string string

definition ticket_step :: "ticket_event \<Rightarrow> ticket_manager \<Rightarrow> ticket_manager" where
  "ticket_step e m = (case e of
       Recorded now fresh q \<Rightarrow> fst (record_ticket_request now fresh q m)
     | Expired task \<Rightarrow> soft_expire task m
     | Pinned session tid \<Rightarrow> fst (pin_ticket session tid m))"

definition rerecords :: "string \<Rightarrow> ticket_event \<Rightarrow> bool" where
  "rerecords tid e = (case e of
       Recorded now fresh q \<Rightarrow> (if given (tq_ticket q) then the (tq_ticket q) else fresh) = tid | _ \<Rightarrow> False)"

definition holds_ticket :: "string \<Rightarrow> json list \<Rightarrow> ticket_manager \<Rightarrow> bool" where
  "holds_ticket tid us m \<longleftrightarrow> (\<forall>s t. map_of (tm_memory m) (s, tid) = Some t \<longrightarrow> gt_reverse t = us) \<and>
     map_option gt_reverse (load_mutation_history (tm_graph m) tid) = Some us"

lemma holds_rollback: "holds_ticket tid us m \<Longrightarrow> rollback_ticket s tid m = us"
  by (auto simp: holds_ticket_def rollback_ticket_def get_ticket_def split: option.split)

lemma load_record:
  "load_mutation_history (record_mutation_history t g) tid =
     (if tid = gt_id t then Some (case load_mutation_history g tid of None \<Rightarrow> t
        | Some old \<Rightarrow> t\<lparr>gt_session_id := gt_session_id old, gt_created_at := gt_created_at old\<rparr>)
      else load_mutation_history g tid)"
  by (simp add: load_mutation_history_def record_mutation_history_def lookup_by_upsert split: option.split)

lemma load_pin:
  "load_mutation_history (fst (pin_mutation_history x g)) tid =
     map_option (\<lambda>t. if gt_id t = x then t\<lparr>gt_pinned := True\<rparr> else t) (load_mutation_history g tid)"
  by (simp add: load_mutation_history_def pin_mutation_history_def lookup_by_update_where)

lemma map_of_map_pinned:
  "map_of (map (\<lambda>kv. if fst kv = k' then (fst kv, (snd kv)\<lparr>gt_pinned := True\<rparr>) else kv) xs) k =
     map_option (\<lambda>t. if k = k' then t\<lparr>gt_pinned := True\<rparr> else t) (map_of xs k)"
  by (induction xs) auto

lemma reverse_if_pinned: "gt_reverse (if b then t\<lparr>gt_pinned := True\<rparr> else t) = gt_reverse t"
  by simp

lemma holds_step: "holds_ticket tid us m \<Longrightarrow> \<not> rerecords tid e \<Longrightarrow> holds_ticket tid us (ticket_step e m)"
proof (cases e)
  case (Recorded now fresh q)
  assume h: "holds_ticket tid us m" and r: "\<not> rerecords tid e"
  show ?thesis
  proof (cases "case tq_reverse q of Some us \<Rightarrow> Inr us | None \<Rightarrow> compute_reverse_actions (tq_forward q) (tq_snapshot q)")
    case (Inl err)
    with h Recorded show ?thesis by (simp add: ticket_step_def record_ticket_request_def)
  next
    case (Inr vs)
    with h r Recorded show ?thesis
      by (auto simp: ticket_step_def record_ticket_request_def rerecords_def holds_ticket_def Let_def load_record AList.update_conv')
  qed
next
  case (Expired task)
  assume "holds_ticket tid us m"
  with Expired show ?thesis
    by (auto simp: ticket_step_def soft_expire_def holds_ticket_def AList.delete_conv' split: option.split prod.split)
next
  case (Pinned s x)
  assume "holds_ticket tid us m"
  with Pinned show ?thesis
    by (auto simp: ticket_step_def pin_ticket_def holds_ticket_def map_of_map_pinned load_pin option.map_comp comp_def
        reverse_if_pinned)
qed

lemma holds_steps: "holds_ticket tid us m \<Longrightarrow> \<forall>e \<in> set es. \<not> rerecords tid e \<Longrightarrow> holds_ticket tid us (fold ticket_step es m)"
  by (induction es arbitrary: m) (auto intro: holds_step)

text \<open>
  What \<^verbatim>\<open>rollback\<close> hands out for a ticket. As long as the id was new and is not recorded again, and whatever tickets are
  recorded, expire or are pinned afterwards, it is the inverse actions the ticket was recorded with. The
  comment of the class promises it past the soft window for pinned tickets only; an unpinned one stays in the history
  as well. The session is not compared for a ticket read from the history. Whether the actions handed out
  still apply is another question: a ticket with a replace_node or a restore_node does not pass the checks of \<open>Graph_Preflight\<close>.
\<close>

theorem recorded_ticket_stays_available:
  assumes "record_ticket_request now fresh q m = (m1, Inr t)" "\<forall>s. get_ticket m s (gt_id t) = None"
    and "\<forall>e \<in> set es. \<not> rerecords (gt_id t) e"
  shows "rollback_ticket session (gt_id t) (fold ticket_step es m1) = gt_reverse t \<and>
    (case tq_reverse q of Some us \<Rightarrow> gt_reverse t = us
     | None \<Rightarrow> compute_reverse_actions (tq_forward q) (tq_snapshot q) = Inr (gt_reverse t))"
proof -
  have "holds_ticket (gt_id t) (gt_reverse t) m1"
    using assms(1,2) by (auto simp: record_ticket_request_def holds_ticket_def get_ticket_def Let_def load_record
        AList.update_conv' split: sum.splits option.splits if_splits)
  from holds_rollback[OF holds_steps[OF this assms(3)]]
  show ?thesis using assms(1) by (auto simp: record_ticket_request_def Let_def split: sum.splits option.splits)
qed

definition demo_ticket :: ticket_request where
  "demo_ticket = \<lparr>tq_session = ''s'', tq_forward = [], tq_snapshot = [], tq_ticket = None, tq_reverse = Some demo_delete\<rparr>"

definition demo_manager :: ticket_manager where
  "demo_manager = \<lparr>tm_memory = [], tm_running = [], tm_soft = [], tm_next = 0, tm_graph = demo_graph\<rparr>"

lemma recorded_ticket_stays_available_witness:
  "rollback_ticket ''other'' ''t'' (fold ticket_step [Expired 0] (fst (record_ticket_request [] ''t'' demo_ticket demo_manager))) = demo_delete"
proof -
  obtain m1 t where r: "record_ticket_request [] ''t'' demo_ticket demo_manager = (m1, Inr t)" and t: "gt_id t = ''t''"
    by (simp add: record_ticket_request_def demo_ticket_def given_def Let_def)
  have "\<forall>s. get_ticket demo_manager s (gt_id t) = None" by (simp add: get_ticket_def demo_manager_def)
  from recorded_ticket_stays_available[OF r this, of "[Expired 0]" "''other''"] show ?thesis
    using r t by (simp add: rerecords_def demo_ticket_def)
qed

section \<open>The order of computed inverses\<close>

text \<open>
  Inverses computed from the forward actions come in the forward order, so the inverse of a
  batch that creates two nodes and an edge between them deletes the nodes first, and the edge with them: it is
  refused on every graph. Only the reverse actions recorded by a commit are in the order that undoes it.
\<close>

lemma computed_inverse_of_an_edge_fails:
  assumes "named a" "named b" "named ty"
  shows "\<exists>us. compute_reverse_actions [node_record ''create_node'' a t1 ps, node_record ''create_node'' b t2 qs,
      edge_props_record ''create_edge'' (a, b, ty) (JObj rs)] [] = Inr us \<and>
    (\<forall>now fresh g. \<exists>e. run_actions now fresh 0 us (start_batch g) = Inl e)"
proof -
  let ?us = "[node_id_record ''delete_node'' a, node_id_record ''delete_node'' b, edge_record ''delete_edge'' (a, b, ty)]"
  have "compute_reverse_actions [node_record ''create_node'' a t1 ps, node_record ''create_node'' b t2 qs,
      edge_props_record ''create_edge'' (a, b, ty) (JObj rs)] [] = Inr ?us"
    by (simp add: compute_reverse_actions_def reverse_of_def no_none_def json_or_null_def node_id_record_def
        edge_record_def edge_fields_def)
  moreover have "\<exists>e. run_actions now fresh 0 ?us (start_batch g) = Inl e" for now fresh g
  proof -
    have del: "\<exists>b1. step_action now fr (node_id_record ''delete_node'' x) c = Inr b1 \<and> bt_graph b1 = remove_node x (bt_graph c)"
      if "named x" "find_node (bt_graph c) x \<noteq> None" for fr x c
      using that kind_named by (auto simp: step_action_def required_text_JStr do_delete_node_def Let_def)
    have no: "\<exists>e. step_action now fr (node_id_record ''delete_node'' x) c = Inl e"
      if "named x" "find_node (bt_graph c) x = None" for fr x c
      using that kind_named by (auto simp: step_action_def required_text_JStr do_delete_node_def Let_def)
    have edge: "\<exists>e. step_action now fr (edge_record ''delete_edge'' (a, b, ty)) c = Inl e"
      if "edge_view (bt_graph c) (a, b, ty) = None" for fr c
    proof -
      have "edge_action_target (edge_record ''delete_edge'' (a, b, ty)) = Inr (a, b, ty)"
        by (intro edge_target_JStr) (use assms in simp_all)
      then show ?thesis using that kind_named by (simp add: step_action_def required_text_JStr do_delete_edge_def edge_view_def)
    qed
    show ?thesis
    proof (cases "step_action now (fresh 0) (node_id_record ''delete_node'' a) (start_batch g)")
      case (Inr b1)
      then have "find_node g a \<noteq> None" using no[OF assms(1), of "start_batch g" "fresh 0"] by auto
      then have g1: "bt_graph b1 = remove_node a g" using del[OF assms(1), of "start_batch g" "fresh 0"] Inr by auto
      show ?thesis
      proof (cases "step_action now (fresh 1) (node_id_record ''delete_node'' b) b1")
        case (Inr b2)
        then have "find_node (bt_graph b1) b \<noteq> None" using no[OF assms(2), of b1 "fresh 1"] by auto
        then have "bt_graph b2 = remove_node b (bt_graph b1)" using del[OF assms(2), of b1 "fresh 1"] Inr by auto
        then have "edge_view (bt_graph b2) (a, b, ty) = None" by (simp add: touches_def)
        with edge[of b2 "fresh 2"] show ?thesis using \<open>step_action now (fresh 0) _ _ = Inr b1\<close> Inr
          by (auto simp: numeral_2_eq_2)
      qed (use \<open>step_action now (fresh 0) _ _ = Inr b1\<close> in simp)
    qed simp
  qed
  ultimately show ?thesis by blast
qed

lemma computed_inverse_of_an_edge_fails_witness:
  "\<exists>us. compute_reverse_actions [node_record ''create_node'' ''a'' ''Task'' [], node_record ''create_node'' ''b'' ''Task'' [],
      edge_props_record ''create_edge'' (''a'', ''b'', ''next'') (JObj [])] [] = Inr us \<and>
    (\<forall>now fresh g. \<exists>e. run_actions now fresh 0 us (start_batch g) = Inl e)"
  by (rule computed_inverse_of_an_edge_fails) (simp_all add: named_def strip_def is_space_def)

end
