(* ===== verification/Skill_Manifest.thy ===== *)
theory Skill_Manifest
  imports Py_Numbers
begin

text \<open>
  The SKILL.md of a skill (\<^verbatim>\<open>skill_manifest.py\<close>): YAML frontmatter between two lines of dashes, then instructions. The YAML
  library is the argument \<open>yaml\<close>: it reads the text of the frontmatter as a mapping, as something else or not at all.
  Keys of \<open>metadata\<close> are texts.
\<close>

text \<open>\<open>Fm_Map\<close> has the fields in their order; a key that is no text is \<open>None\<close>. Aliases and duplicate keys are errors.\<close>

datatype frontmatter = Fm_Error string | Fm_Other | Fm_Map "(string option \<times> json) list"

type_synonym yaml_loader = "string \<Rightarrow> frontmatter"

type_synonym 'a manifest_read = "string + 'a"

record skill_manifest =
  sk_name :: string
  sk_description :: string
  sk_instructions :: string
  sk_license :: "string option"
  sk_compatibility :: "string option"
  sk_metadata :: "(string \<times> string) list"
  sk_allowed_tools :: "string option"

definition MAX_SKILL_FILE_BYTES :: nat where
  "MAX_SKILL_FILE_BYTES = 256 * 1024"

definition MAX_FRONTMATTER_BYTES :: nat where
  "MAX_FRONTMATTER_BYTES = 32 * 1024"

definition MAX_BODY_CHARS :: nat where
  "MAX_BODY_CHARS = 96 * 1024"

definition FRONTMATTER_FIELDS :: "string list" where
  "FRONTMATTER_FIELDS = [''name'', ''description'', ''license'', ''compatibility'', ''metadata'', ''allowed-tools'']"

section \<open>Splitting the file\<close>

definition rstrip_break :: "string \<Rightarrow> string" where
  "rstrip_break s = rev (dropWhile (\<lambda>c. c = CHR 0x0D \<or> c = CHR 0x0A) (rev s))"

definition dashes :: "string \<Rightarrow> bool" where
  "dashes line \<longleftrightarrow> rstrip_break line = ''---''"

text \<open>The lines before the closing line and those after it; the size counts up to there.\<close>

fun read_frontmatter :: "nat \<Rightarrow> string list \<Rightarrow> (string list \<times> string list) manifest_read" where
  "read_frontmatter n [] = Inl ''SKILL.md frontmatter is missing its closing --- delimiter''"
| "read_frontmatter n (l # ls) =
     (if dashes l then Inr ([], ls)
      else if MAX_FRONTMATTER_BYTES < n + length l then Inl ''SKILL.md frontmatter exceeds the 32768-byte limit''
      else map_sum id (\<lambda>(front, rest). (l # front, rest)) (read_frontmatter (n + length l) ls))"

definition split_manifest :: "string \<Rightarrow> (string \<times> string) manifest_read" where
  "split_manifest text =
     (case lines_of text of
        [] \<Rightarrow> Inl ''SKILL.md must begin with YAML frontmatter delimited by ---''
      | l # ls \<Rightarrow>
          if \<not> dashes l then Inl ''SKILL.md must begin with YAML frontmatter delimited by ---''
          else map_sum id (\<lambda>(front, rest). (concat front, strip (concat rest))) (read_frontmatter 0 ls))"

section \<open>Fields\<close>

definition field_error :: "string \<Rightarrow> string \<Rightarrow> string" where
  "field_error key what = ''SKILL.md field '' @ quoted key @ what"

definition bounded_field :: "string \<Rightarrow> nat \<Rightarrow> json \<Rightarrow> string manifest_read" where
  "bounded_field key max_chars v =
     (case v of
        JStr s \<Rightarrow>
          (let t = strip s
           in if t = [] then Inl (field_error key '' must not be empty'')
              else if max_chars < point_length t then Inl (field_error key ('' exceeds '' @ nat_str max_chars @ '' characters''))
              else Inr t)
      | _ \<Rightarrow> Inl (field_error key '' must be a string''))"

definition required_field :: "(string \<times> json) list \<Rightarrow> string \<Rightarrow> nat \<Rightarrow> string manifest_read" where
  "required_field raw key max_chars =
     (case map_of raw key of
        None \<Rightarrow> Inl (''SKILL.md frontmatter is missing required field '' @ quoted key)
      | Some v \<Rightarrow> bounded_field key max_chars v)"

definition optional_field :: "(string \<times> json) list \<Rightarrow> string \<Rightarrow> nat \<Rightarrow> string option manifest_read" where
  "optional_field raw key max_chars =
     (case map_of raw key of None \<Rightarrow> Inr None | Some v \<Rightarrow> map_sum id Some (bounded_field key max_chars v))"

fun read_metadata :: "(string \<times> json) list \<Rightarrow> (string \<times> string) list \<Rightarrow> (string \<times> string) list manifest_read" where
  "read_metadata [] acc = Inr acc"
| "read_metadata ((k, v) # kvs) acc =
     (case v of
        JStr s \<Rightarrow>
          (let key = strip k; val = strip s
           in if key = [] \<or> val = [] then Inl ''SKILL.md metadata keys and values must be non-empty''
              else if 128 < point_length key then Inl ''SKILL.md metadata key is too long''
              else if 2048 < point_length val then Inl (''SKILL.md metadata value for '' @ quoted key @ '' is too long'')
              else read_metadata kvs (AList.update key val acc))
      | _ \<Rightarrow> Inl ''SKILL.md metadata keys and values must be strings'')"

definition metadata_of :: "json option \<Rightarrow> (string \<times> string) list manifest_read" where
  "metadata_of v =
     (case v of
        None \<Rightarrow> Inr []
      | Some (JObj kvs) \<Rightarrow>
          if 64 < length kvs then Inl ''SKILL.md metadata may contain at most 64 entries'' else read_metadata kvs []
      | Some _ \<Rightarrow> Inl ''SKILL.md metadata must be a mapping of strings to strings'')"

definition frontmatter_fields :: "frontmatter \<Rightarrow> (string \<times> json) list manifest_read" where
  "frontmatter_fields fm =
     (case fm of
        Fm_Error m \<Rightarrow> Inl m
      | Fm_Other \<Rightarrow> Inl ''SKILL.md frontmatter must be a YAML mapping''
      | Fm_Map kvs \<Rightarrow>
          if list_ex (\<lambda>kv. fst kv = None) kvs then Inl ''SKILL.md frontmatter field names must be strings''
          else
            let raw = map (\<lambda>kv. (the (fst kv), snd kv)) kvs
            in (case order_by str_less (filter (\<lambda>k. k \<notin> set FRONTMATTER_FIELDS) (map fst raw)) of
                  k # _ \<Rightarrow> Inl (''Unsupported SKILL.md frontmatter field: '' @ k)
                | [] \<Rightarrow> Inr raw))"

definition expected_ok :: "string option \<Rightarrow> string \<Rightarrow> bool" where
  "expected_ok expected name \<longleftrightarrow> expected = None \<or> expected = Some name"

definition read_name :: "(string \<times> json) list \<Rightarrow> string option \<Rightarrow> string manifest_read" where
  "read_name raw expected =
     (case required_field raw ''name'' 64 of Inl e \<Rightarrow> Inl e | Inr name \<Rightarrow>
        if \<not> kebab_case name then Inl ''SKILL.md name must contain only lowercase ASCII letters, digits, and single hyphens''
        else if \<not> expected_ok expected name
        then Inl (''SKILL.md name '' @ quoted name @ '' does not match package name '' @ quoted (the expected))
        else Inr name)"

definition manifest_of_fields :: "(string \<times> json) list \<Rightarrow> string option \<Rightarrow> string \<Rightarrow> skill_manifest manifest_read" where
  "manifest_of_fields raw expected instructions =
     (case read_name raw expected of Inl e \<Rightarrow> Inl e | Inr name \<Rightarrow>
     (case required_field raw ''description'' 1024 of Inl e \<Rightarrow> Inl e | Inr description \<Rightarrow>
     (case optional_field raw ''license'' 256 of Inl e \<Rightarrow> Inl e | Inr license \<Rightarrow>
     (case optional_field raw ''compatibility'' 500 of Inl e \<Rightarrow> Inl e | Inr compatibility \<Rightarrow>
     (case optional_field raw ''allowed-tools'' 2048 of Inl e \<Rightarrow> Inl e | Inr tools \<Rightarrow>
     (case metadata_of (map_of raw ''metadata'') of Inl e \<Rightarrow> Inl e | Inr metadata \<Rightarrow>
        if MAX_BODY_CHARS < point_length instructions then Inl ''SKILL.md body exceeds the 98304-character limit''
        else Inr \<lparr>sk_name = name, sk_description = description, sk_instructions = instructions, sk_license = license,
          sk_compatibility = compatibility, sk_metadata = metadata, sk_allowed_tools = map_option normalize_ws tools\<rparr>))))))"

section \<open>Reading the bytes\<close>

definition manifest_from_bytes :: "yaml_loader \<Rightarrow> string \<Rightarrow> string option \<Rightarrow> skill_manifest manifest_read" where
  "manifest_from_bytes yaml content expected =
     (if MAX_SKILL_FILE_BYTES < length content then Inl ''SKILL.md exceeds the 262144-byte limit''
      else if \<not> valid_utf8 content then Inl ''SKILL.md must be valid UTF-8''
      else
        (case split_manifest content of Inl e \<Rightarrow> Inl e | Inr (front, instructions) \<Rightarrow>
        (case frontmatter_fields (yaml front) of Inl e \<Rightarrow> Inl e | Inr raw \<Rightarrow> manifest_of_fields raw expected instructions)))"

definition skill_manifest_dict :: "bool \<Rightarrow> skill_manifest \<Rightarrow> json" where
  "skill_manifest_dict include_instructions m =
     JObj ([(''name'', JStr (sk_name m)), (''description'', JStr (sk_description m)),
       (''license'', case sk_license m of None \<Rightarrow> JNull | Some t \<Rightarrow> JStr t),
       (''compatibility'', case sk_compatibility m of None \<Rightarrow> JNull | Some t \<Rightarrow> JStr t),
       (''metadata'', JObj (map (\<lambda>kv. (fst kv, JStr (snd kv))) (sk_metadata m))),
       (''allowed_tools'', case sk_allowed_tools m of None \<Rightarrow> JNull | Some t \<Rightarrow> JStr t)] @
       (if include_instructions then [(''instructions'', JStr (sk_instructions m))] else []))"

text \<open>What is read back: a name of the expected form, and every field within its bound.\<close>

lemma bounded_field_Inr: "bounded_field key n v = Inr t \<Longrightarrow> t \<noteq> [] \<and> point_length t \<le> n"
  by (auto simp: bounded_field_def Let_def split: json.splits if_splits)

lemma read_manifest_bounds:
  assumes "manifest_from_bytes yaml content expected = Inr m"
  shows "kebab_case (sk_name m) \<and> point_length (sk_name m) \<le> 64 \<and> expected_ok expected (sk_name m) \<and>
    sk_description m \<noteq> [] \<and> point_length (sk_description m) \<le> 1024 \<and> point_length (sk_instructions m) \<le> MAX_BODY_CHARS"
  using assms
  by (auto simp: manifest_from_bytes_def manifest_of_fields_def read_name_def required_field_def
      split: sum.splits if_splits option.splits dest!: bounded_field_Inr)

end
