(* ===== verification/Skill_Version.thy ===== *)
theory Skill_Version
  imports Py_Numbers "HOL-Library.List_Lexorder" "HOL-Library.Product_Lexorder"
begin

text \<open>
  Semantic versions of skills (\<^verbatim>\<open>backend/skill_version.py\<close>): the parser, the comparison, and the order
  of precedence it implements. Digits are the ASCII digits.
\<close>

section \<open>Parsing\<close>

record semantic_version =
  sv_major :: nat
  sv_minor :: nat
  sv_patch :: nat
  sv_prerelease :: "string list option"
  sv_build :: "string list option"

definition identifier_char :: "char \<Rightarrow> bool" where
  "identifier_char c = (is_digit c \<or> char_between 65 90 c \<or> char_between 97 122 c \<or> c = CHR ''-'')"

definition identifiers_ok :: "string list \<Rightarrow> bool" where
  "identifiers_ok = list_all (\<lambda>p. p \<noteq> [] \<and> list_all identifier_char p)"

definition leading_zero :: "string \<Rightarrow> bool" where
  "leading_zero p \<longleftrightarrow> all_digits p \<and> 1 < length p \<and> starts_with p ''0''"

definition parse_semver :: "json \<Rightarrow> semantic_version result" where
  "parse_semver value =
     (case value of
        JStr s \<Rightarrow>
          (case break_at (\<lambda>c. c = CHR ''+'') s of (body, build) \<Rightarrow>
          (case break_at (\<lambda>c. c = CHR ''-'') body of (core, pre) \<Rightarrow>
             let pre_ids = map_option (split_on (CHR ''.'')) pre; build_ids = map_option (split_on (CHR ''.'')) build
             in (case split_on (CHR ''.'') core of
                   [a, b, c] \<Rightarrow>
                     if plain_number a \<and> plain_number b \<and> plain_number c \<and>
                        pred_option identifiers_ok pre_ids \<and> pred_option identifiers_ok build_ids
                     then if pred_option (list_ex leading_zero) pre_ids \<and> pre_ids \<noteq> None
                       then Inl (ValueError ''Numeric semantic-version prerelease identifiers cannot have leading zeroes'')
                       else Inr \<lparr>sv_major = digits_value a, sv_minor = digits_value b, sv_patch = digits_value c,
                              sv_prerelease = pre_ids, sv_build = build_ids\<rparr>
                     else Inl (ValueError ''Skill version must be a valid semantic version'')
                 | _ \<Rightarrow> Inl (ValueError ''Skill version must be a valid semantic version''))))
      | _ \<Rightarrow> Inl (ValueError ''Skill version must be a string''))"

section \<open>Comparing\<close>

text \<open>The loop over the identifiers of two prereleases, then the comparison of their numbers.\<close>

fun compare_identifiers :: "string list \<Rightarrow> string list \<Rightarrow> int" where
  "compare_identifiers [] [] = 0"
| "compare_identifiers [] (_ # _) = -1"
| "compare_identifiers (_ # _) [] = 1"
| "compare_identifiers (a # as) (b # bs) =
     (if a = b then compare_identifiers as bs
      else if all_digits a \<and> all_digits b then (if digits_value a > digits_value b then 1 else -1)
      else if all_digits a \<noteq> all_digits b then (if all_digits a then -1 else 1)
      else if str_less b a then 1 else -1)"

definition compare_versions :: "semantic_version \<Rightarrow> semantic_version \<Rightarrow> int" where
  "compare_versions l r =
     (let lc = (sv_major l, sv_minor l, sv_patch l); rc = (sv_major r, sv_minor r, sv_patch r)
      in if lc \<noteq> rc then (if lc > rc then 1 else -1)
         else (case (sv_prerelease l, sv_prerelease r) of
             (None, None) \<Rightarrow> 0
           | (None, Some _) \<Rightarrow> 1
           | (Some _, None) \<Rightarrow> -1
           | (Some a, Some b) \<Rightarrow> compare_identifiers a b))"

definition compare_semver :: "json \<Rightarrow> json \<Rightarrow> int result" where
  "compare_semver candidate installed =
     (case parse_semver candidate of Inl e \<Rightarrow> Inl e | Inr l \<Rightarrow>
     (case parse_semver installed of Inl e \<Rightarrow> Inl e | Inr r \<Rightarrow> Inr (compare_versions l r)))"

section \<open>Precedence as a linear order\<close>

text \<open>Numbers come before texts; a prerelease comes before the release.\<close>

datatype version_id = Numeric nat | Textual string

instantiation version_id :: linorder
begin

fun less_version_id :: "version_id \<Rightarrow> version_id \<Rightarrow> bool" where
  "less_version_id (Numeric m) (Numeric n) = (m < n)"
| "less_version_id (Numeric m) (Textual t) = True"
| "less_version_id (Textual s) (Numeric n) = False"
| "less_version_id (Textual s) (Textual t) = str_less s t"

definition less_eq_version_id :: "version_id \<Rightarrow> version_id \<Rightarrow> bool" where
  "less_eq_version_id a b \<longleftrightarrow> a = b \<or> a < b"

instance
proof
  fix a b c :: version_id
  have irrefl: "\<not> x < x" for x :: version_id by (cases x) auto
  have trans: "x < y \<Longrightarrow> y < z \<Longrightarrow> x < z" for x y z :: version_id
    by (cases x; cases y; cases z) (auto dest: str_less_trans)
  show "(a < b) = (a \<le> b \<and> \<not> b \<le> a)" using irrefl trans[of a b a] by (auto simp: less_eq_version_id_def)
  show "a \<le> a" by (simp add: less_eq_version_id_def)
  show "a \<le> b \<Longrightarrow> b \<le> c \<Longrightarrow> a \<le> c" using trans[of a b c] by (auto simp: less_eq_version_id_def)
  show "a \<le> b \<Longrightarrow> b \<le> a \<Longrightarrow> a = b" using irrefl trans[of a b a] by (auto simp: less_eq_version_id_def)
  show "a \<le> b \<or> b \<le> a"
    by (cases a; cases b) (auto simp: less_eq_version_id_def neq_iff dest: str_less_total)
qed

end

datatype release = Prerelease "version_id list" | Final

instantiation release :: linorder
begin

fun less_release :: "release \<Rightarrow> release \<Rightarrow> bool" where
  "less_release (Prerelease a) (Prerelease b) = (a < b)"
| "less_release (Prerelease a) Final = True"
| "less_release Final _ = False"

definition less_eq_release :: "release \<Rightarrow> release \<Rightarrow> bool" where
  "less_eq_release a b \<longleftrightarrow> a = b \<or> a < b"

instance
proof
  fix a b c :: release
  have irrefl: "\<not> x < x" for x :: release by (cases x) auto
  have trans: "x < y \<Longrightarrow> y < z \<Longrightarrow> x < z" for x y z :: release
    by (cases x; cases y; cases z) auto
  show "(a < b) = (a \<le> b \<and> \<not> b \<le> a)" using irrefl trans[of a b a] by (auto simp: less_eq_release_def)
  show "a \<le> a" by (simp add: less_eq_release_def)
  show "a \<le> b \<Longrightarrow> b \<le> c \<Longrightarrow> a \<le> c" using trans[of a b c] by (auto simp: less_eq_release_def)
  show "a \<le> b \<Longrightarrow> b \<le> a \<Longrightarrow> a = b" using irrefl trans[of a b a] by (auto simp: less_eq_release_def)
  show "a \<le> b \<or> b \<le> a" by (cases a; cases b) (auto simp: less_eq_release_def)
qed

end

definition identifier_of :: "string \<Rightarrow> version_id" where
  "identifier_of s = (if all_digits s then Numeric (digits_value s) else Textual s)"

definition precedence :: "semantic_version \<Rightarrow> nat \<times> nat \<times> nat \<times> release" where
  "precedence v = (sv_major v, sv_minor v, sv_patch v,
     case sv_prerelease v of None \<Rightarrow> Final | Some ids \<Rightarrow> Prerelease (map identifier_of ids))"

definition three_way :: "'a :: linorder \<Rightarrow> 'a \<Rightarrow> int" where
  "three_way a b = (if a < b then -1 else if a = b then 0 else 1)"

lemma identifier_of_inj:
  "\<not> leading_zero a \<Longrightarrow> \<not> leading_zero b \<Longrightarrow> identifier_of a = identifier_of b \<Longrightarrow> a = b"
proof -
  have "plain_number s" if "all_digits s" "\<not> leading_zero s" for s
    using that by (cases s) (auto simp: plain_number_def leading_zero_def all_digits_def starts_with_def Suc_le_eq)
  then show "\<not> leading_zero a \<Longrightarrow> \<not> leading_zero b \<Longrightarrow> identifier_of a = identifier_of b \<Longrightarrow> a = b"
    using plain_number_inj by (auto simp: identifier_of_def split: if_splits)
qed

lemma map_identifier_of_inj:
  "list_all (\<lambda>p. \<not> leading_zero p) as \<Longrightarrow> list_all (\<lambda>p. \<not> leading_zero p) bs \<Longrightarrow>
   map identifier_of as = map identifier_of bs \<Longrightarrow> as = bs"
proof (induction as arbitrary: bs)
  case (Cons a as)
  then show ?case by (cases bs) (auto dest: identifier_of_inj)
qed simp

lemma compare_identifiers_differ:
  assumes "a \<noteq> b" "\<not> leading_zero a" "\<not> leading_zero b"
  shows "compare_identifiers (a # as) (b # bs) = three_way (identifier_of a) (identifier_of b)"
proof -
  have "identifier_of a \<noteq> identifier_of b" using identifier_of_inj[of a b] assms by blast
  then show ?thesis using assms(1) str_less_total[of a b] str_less_trans[of a b a]
    by (cases "digits_value a < digits_value b") (auto simp: identifier_of_def three_way_def)
qed

lemma three_way_Cons: "x \<noteq> y \<Longrightarrow> three_way (x # xs) (y # ys) = three_way x y"
  by (auto simp: three_way_def)

lemma compare_identifiers_order:
  "list_all (\<lambda>p. \<not> leading_zero p) xs \<Longrightarrow> list_all (\<lambda>p. \<not> leading_zero p) ys \<Longrightarrow>
   compare_identifiers xs ys = three_way (map identifier_of xs) (map identifier_of ys)"
proof (induction xs ys rule: compare_identifiers.induct)
  case (4 a xs b ys)
  then have z: "\<not> leading_zero a" "\<not> leading_zero b" by simp_all
  show ?case
  proof (cases "a = b")
    case True
    with 4 show ?thesis by (simp add: three_way_def)
  next
    case False
    then have "identifier_of a \<noteq> identifier_of b" using identifier_of_inj[OF z] by blast
    then show ?thesis unfolding compare_identifiers_differ[OF False z] list.map by (rule three_way_Cons[symmetric])
  qed
qed (simp_all add: three_way_def)

lemma parse_semverD:
  assumes "parse_semver j = Inr v"
  shows "pred_option (list_all (\<lambda>p. \<not> leading_zero p)) (sv_prerelease v)"
  using assms unfolding parse_semver_def Let_def
  by (auto simp: list_ex_iff list_all_iff pred_option_def split: json.splits prod.splits list.splits if_splits)

text \<open>
  Comparing versions is comparing their precedence, a linear order: major, minor and patch as
  numbers, then a prerelease before its release, and two prereleases identifier by identifier,
  numbers as numbers before texts, a longer one after its prefix. So the sign is antisymmetric and
  transitive, and two versions compare equal exactly when they differ in build metadata only.
\<close>

theorem compare_semver_is_precedence:
  assumes "parse_semver a = Inr l" "parse_semver b = Inr r"
  shows "compare_semver a b = Inr (three_way (precedence l) (precedence r)) \<and>
     (compare_semver a b = Inr 0 \<longleftrightarrow> l\<lparr>sv_build := None\<rparr> = r\<lparr>sv_build := None\<rparr>)"
proof -
  have "compare_versions l r = three_way (precedence l) (precedence r)"
    using parse_semverD[OF assms(1)] parse_semverD[OF assms(2)]
    by (auto simp: compare_versions_def precedence_def three_way_def Let_def compare_identifiers_order split: option.splits)
  with assms have c: "compare_semver a b = Inr (three_way (precedence l) (precedence r))"
    by (simp add: compare_semver_def)
  have "precedence l = precedence r \<longleftrightarrow> l\<lparr>sv_build := None\<rparr> = r\<lparr>sv_build := None\<rparr>"
    using parse_semverD[OF assms(1)] parse_semverD[OF assms(2)] map_identifier_of_inj
    by (cases l; cases r) (auto simp: precedence_def split: option.splits)
  then show ?thesis using c by (auto simp: three_way_def)
qed

text \<open>The release 1.10.0 comes after its second prerelease, compared as numbers.\<close>

lemma compare_semver_is_precedence_witness:
  "compare_semver (JStr ''1.10.0-rc.10'') (JStr ''1.10.0-rc.9'') = Inr 1"
proof -
  have d: "is_digit CHR ''0''" "is_digit CHR ''1''" "is_digit CHR ''9''" "digit_value CHR ''0'' = 0"
    "digit_value CHR ''1'' = 1" "digit_value CHR ''9'' = 9" "identifier_char CHR ''r''" "identifier_char CHR ''c''"
    "identifier_char CHR ''0''" "identifier_char CHR ''1''" "identifier_char CHR ''9''"
    "\<not> is_digit CHR ''r''" "\<not> is_digit CHR ''c''"
    by code_simp+
  let ?v = "\<lambda>ids. \<lparr>sv_major = 1, sv_minor = 10, sv_patch = 0, sv_prerelease = Some [''rc'', ids], sv_build = None\<rparr>"
  have p: "parse_semver (JStr ''1.10.0-rc.10'') = Inr (?v ''10'')" "parse_semver (JStr ''1.10.0-rc.9'') = Inr (?v ''9'')"
    by (simp_all add: parse_semver_def break_at_def plain_number_def all_digits_def identifiers_ok_def leading_zero_def
        starts_with_def digits_value_def d)
  from compare_semver_is_precedence[OF this] show ?thesis
    by (simp add: precedence_def identifier_of_def all_digits_def digits_value_def d three_way_def)
qed

end
