(* ===== verification/Skill_Store.thy ===== *)
theory Skill_Store
  imports Skill_Manifest Skill_Version Graph_Store
begin

text \<open>
  The registry of installed skills (\<^verbatim>\<open>skill_store.py\<close>): one row per catalog id with its authorization, a revision that
  guards concurrent writers, and the directories of packages, named by the digest of their content. Clocks are arguments;
  hashing, the JSON reader and the YAML library come with \<open>skill_env\<close>.
\<close>

section \<open>Errors\<close>

datatype skill_error =
    Skill_Store_Error string
  | Skill_Corruption string
  | Skill_Integrity string
  | Skill_Not_Installed string
  | Skill_Revision_Conflict int int
  | Skill_Version_Conflict string string string string
  | Skill_Downgrade_Conflict string string string
  | Skill_Authorization_Required string
  | Skill_Digest_Mismatch string string string
  | Skill_Trusted_Immutable string
  | Skill_Invalid string

type_synonym 'a skill_result = "skill_error + 'a"

section \<open>Rows and packages\<close>

text \<open>
  The record column is canonical JSON text, so its value with sorted keys stands for it. The \<^verbatim>\<open>CHECK\<close> of the enabled
  column makes it a truth value.
\<close>

record installation =
  in_catalog_id :: string
  in_market_id :: string
  in_name :: string
  in_title :: string
  in_version :: string
  in_digest :: string
  in_enabled :: bool
  in_state :: string
  in_policy :: string
  in_authorized :: "string option"
  in_record :: jtext
  in_installed_at :: string
  in_updated_at :: string

record source_preference =
  so_id :: string
  so_enabled :: bool
  so_updated_at :: string

record skill_db =
  sd_revision :: "int option"
  sd_rows :: "installation list"
  sd_sources :: "source_preference list"

text \<open>What stands at the path of a package: a link or a file, or a directory with its entries.\<close>

datatype package_entry = Package_Bytes string | Package_Unsafe

datatype skill_package = Unsafe_Package | Package "(string \<times> package_entry) list"

record skill_world =
  sw_db :: skill_db
  sw_packages :: "(string \<times> skill_package) list"

record skill_env =
  ke_sha256 :: "string \<Rightarrow> string"
  ke_json :: "string \<Rightarrow> json option"
  ke_yaml :: yaml_loader

text \<open>An installed skill: its row, the record read from it and the revision of the registry, where the caller knows it.\<close>

record installed_skill =
  is_row :: installation
  is_record :: "(string \<times> json) list"
  is_revision :: "int option"

definition installed_dict :: "installed_skill \<Rightarrow> json" where
  "installed_dict s =
     (let r = is_row s
      in JObj (fold (\<lambda>kv d. AList.update (fst kv) (snd kv) d)
        [(''catalog_id'', JStr (in_catalog_id r)), (''market_id'', JStr (in_market_id r)), (''name'', JStr (in_name r)),
         (''title'', JStr (in_title r)), (''version'', JStr (in_version r)), (''digest'', JStr (in_digest r)),
         (''enabled'', JBool (in_enabled r)), (''authorization_state'', JStr (in_state r)),
         (''activation_policy'', JStr (in_policy r)), (''authorized_digest'', case in_authorized r of None \<Rightarrow> JNull | Some d \<Rightarrow> JStr d),
         (''registry_revision'', case is_revision s of None \<Rightarrow> JNull | Some n \<Rightarrow> JInt n), (''installed_at'', JStr (in_installed_at r)),
         (''updated_at'', JStr (in_updated_at r))] (is_record s)))"

section \<open>Digests and packages\<close>

definition big_endian :: "nat \<Rightarrow> nat \<Rightarrow> string" where
  "big_endian k n = map (\<lambda>i. char_of (n div 256 ^ (k - 1 - i))) [0..<k]"

definition digest_part :: "string \<Rightarrow> string \<Rightarrow> string" where
  "digest_part name content = big_endian 2 (length name) @ name @ big_endian 8 (length content) @ content"

definition compute_package_digest :: "skill_env \<Rightarrow> string \<Rightarrow> string \<Rightarrow> string" where
  "compute_package_digest env skill market =
     ''sha256:'' @ ke_sha256 env (''ambient-agent-skill-package-v1'' @ [CHR 0x00] @ digest_part ''SKILL.md'' skill @ digest_part ''market.json'' market)"

definition digest_ok :: "string \<Rightarrow> bool" where
  "digest_ok s \<longleftrightarrow> starts_with s ''sha256:'' \<and> length s = 71 \<and> list_all is_hex (drop 7 s)"

definition verify_package_dir :: "skill_env \<Rightarrow> skill_package option \<Rightarrow> string \<Rightarrow> unit skill_result" where
  "verify_package_dir env p digest =
     (case p of
        Some (Package entries) \<Rightarrow>
          if set (map fst entries) \<noteq> {''SKILL.md'', ''market.json''} then Inl (Skill_Integrity ''Installed package has unexpected or missing files'')
          else (case (map_of entries ''SKILL.md'', map_of entries ''market.json'') of
              (Some (Package_Bytes skill), Some (Package_Bytes market)) \<Rightarrow>
                if compute_package_digest env skill market \<noteq> digest then Inl (Skill_Integrity ''Installed package digest mismatch'') else Inr ()
            | _ \<Rightarrow> Inl (Skill_Integrity ''Installed package contains an unsafe file''))
      | _ \<Rightarrow> Inl (Skill_Integrity ''Installed package directory is missing or unsafe''))"

definition package_path :: "string \<Rightarrow> string skill_result" where
  "package_path digest =
     (if digest_ok digest then Inr (drop 7 digest) else Inl (Skill_Invalid ''Skill digest must use the form sha256:<64 lowercase hex characters>''))"

definition verify_installed_package :: "skill_env \<Rightarrow> skill_world \<Rightarrow> string \<Rightarrow> unit skill_result" where
  "verify_installed_package env w digest =
     (case package_path digest of Inl e \<Rightarrow> Inl e | Inr path \<Rightarrow> verify_package_dir env (map_of (sw_packages w) path) digest)"

text \<open>A package that is there is checked; another is written beside, checked and moved into place.\<close>

definition ensure_package :: "skill_env \<Rightarrow> string \<Rightarrow> string \<Rightarrow> string \<Rightarrow> skill_world \<Rightarrow> skill_world \<times> unit skill_result" where
  "ensure_package env skill market digest w =
     (case package_path digest of Inl e \<Rightarrow> (w, Inl e) | Inr path \<Rightarrow>
       (case map_of (sw_packages w) path of
          Some p \<Rightarrow> (w, verify_package_dir env (Some p) digest)
        | None \<Rightarrow>
            (let p = Package [(''SKILL.md'', Package_Bytes skill), (''market.json'', Package_Bytes market)]
             in case verify_package_dir env (Some p) digest of
                  Inl e \<Rightarrow> (w, Inl e)
                | Inr _ \<Rightarrow> (w\<lparr>sw_packages := sw_packages w @ [(path, p)]\<rparr>, Inr ()))))"

section \<open>Records\<close>

definition bundled_trust :: "(string \<times> json) list \<Rightarrow> bool" where
  "bundled_trust rec =
     (case (map_of rec ''provenance'', map_of rec ''name'') of
        (Some (JObj p), Some (JStr name)) \<Rightarrow>
          map_of rec ''catalog_id'' = Some (JStr (''agent-skill:ambient-agent:'' @ name)) \<and>
          map_of p ''trust'' = Some (JStr ''bundled'') \<and> map_of p ''verified'' = Some (JBool True) \<and>
          map_of p ''source'' = Some (JStr (''bundled://ambient-agent/'' @ name))
      | _ \<Rightarrow> False)"

definition catalog_source :: "(string \<times> json) list \<Rightarrow> (string \<times> json) list option" where
  "catalog_source rec = (case map_of rec ''catalog_source'' of Some (JObj s) \<Rightarrow> Some s | _ \<Rightarrow> None)"

definition uses_content_hash :: "(string \<times> json) list \<Rightarrow> bool" where
  "uses_content_hash rec =
     (case catalog_source rec of None \<Rightarrow> False | Some s \<Rightarrow> map_of s ''update_strategy'' = Some (JStr ''content_hash''))"

definition digest_json :: "json option \<Rightarrow> bool" where
  "digest_json v = (case v of Some (JStr s) \<Rightarrow> digest_ok s | _ \<Rightarrow> False)"

definition text_json :: "json option \<Rightarrow> string option" where
  "text_json v = (case v of Some (JStr s) \<Rightarrow> Some s | _ \<Rightarrow> None)"

definition same_member :: "(string \<times> json) list \<Rightarrow> (string \<times> json) list \<Rightarrow> string \<Rightarrow> bool" where
  "same_member a b k = py_eq (json_or_null (map_of a k)) (json_or_null (map_of b k))"

definition content_hash_update :: "(string \<times> json) list \<Rightarrow> (string \<times> json) list \<Rightarrow> bool" where
  "content_hash_update installed candidate =
     (case (catalog_source installed, catalog_source candidate) of
        (Some a, Some b) \<Rightarrow>
          map_of a ''update_strategy'' = Some (JStr ''content_hash'') \<and> map_of b ''update_strategy'' = Some (JStr ''content_hash'') \<and>
          same_member a b ''id'' \<and> same_member a b ''kind'' \<and>
          text_json (map_of a ''source_revision'') \<noteq> None \<and> text_json (map_of b ''source_revision'') \<noteq> None \<and>
          map_of a ''source_revision'' \<noteq> map_of b ''source_revision'' \<and>
          digest_json (map_of a ''upstream_hash'') \<and> digest_json (map_of b ''upstream_hash'')
      | _ \<Rightarrow> False)"

definition RECORD_FIELDS :: "string list" where
  "RECORD_FIELDS = [''catalog_id'', ''market_id'', ''name'', ''title'', ''version'', ''digest'']"

definition check_field :: "(string \<times> json) list \<Rightarrow> string \<Rightarrow> unit skill_result" where
  "check_field rec field =
     (case map_of rec field of
        Some (JStr s) \<Rightarrow>
          if strip s = [] then Inl (Skill_Invalid (''Skill installation field '' @ quoted field @ '' must be a non-empty string''))
          else if s \<noteq> strip s then Inl (Skill_Invalid (''Skill installation field '' @ quoted field @ '' must not contain surrounding whitespace''))
          else Inr ()
      | _ \<Rightarrow> Inl (Skill_Invalid (''Skill installation field '' @ quoted field @ '' must be a non-empty string'')))"

definition field_text :: "(string \<times> json) list \<Rightarrow> string \<Rightarrow> string" where
  "field_text rec field = (case map_of rec field of Some (JStr s) \<Rightarrow> s | _ \<Rightarrow> [])"

definition check_version :: "(string \<times> json) list \<Rightarrow> unit skill_result" where
  "check_version rec =
     (if uses_content_hash rec then
        (let s = the (catalog_source rec)
         in if text_json (map_of s ''source_revision'') \<in> {None, Some []} \<or> text_json (map_of s ''source_revision'') \<noteq> Some (field_text rec ''version'')
            then Inl (Skill_Invalid ''Content-addressed Skill version must equal source_revision'')
            else if \<not> digest_json (map_of s ''upstream_hash'')
            then Inl (Skill_Invalid ''Content-addressed Skill upstream_hash must be a SHA-256 digest'')
            else Inr ())
      else map_sum (\<lambda>e. Skill_Invalid (error_message e)) (\<lambda>_. ()) (parse_semver (JStr (field_text rec ''version''))))"

text \<open>The first error of a list of checks.\<close>

fun first_error :: "unit skill_result list \<Rightarrow> unit skill_result" where
  "first_error [] = Inr ()"
| "first_error (Inl e # cs) = Inl e"
| "first_error (Inr _ # cs) = first_error cs"

definition check_market :: "skill_env \<Rightarrow> string \<Rightarrow> unit skill_result" where
  "check_market env market =
     (if 128 * 1024 < length market then Inl (Skill_Invalid ''market.json exceeds the 131072-byte limit'')
      else if \<not> valid_utf8 market then Inl (Skill_Invalid ''market.json must be valid UTF-8 JSON'')
      else (case ke_json env market of
          None \<Rightarrow> Inl (Skill_Invalid ''market.json must be valid UTF-8 JSON'')
        | Some (JObj _) \<Rightarrow> Inr ()
        | Some _ \<Rightarrow> Inl (Skill_Invalid ''market.json must contain a JSON object'')))"

definition check_manifest :: "skill_env \<Rightarrow> (string \<times> json) list \<Rightarrow> string \<Rightarrow> unit skill_result" where
  "check_manifest env rec skill =
     map_sum Skill_Invalid (\<lambda>_. ()) (manifest_from_bytes (ke_yaml env) skill (Some (field_text rec ''name'')))"

definition validate_install_input ::
  "skill_env \<Rightarrow> json \<Rightarrow> string \<Rightarrow> string \<Rightarrow> (string \<times> json) list skill_result" where
  "validate_install_input env record skill market =
     (case record of
        JObj rec \<Rightarrow>
          map_sum id (\<lambda>_. rec) (first_error
            (check_market env market # map (check_field rec) RECORD_FIELDS @
             [check_version rec, check_manifest env rec skill,
              if field_text rec ''digest'' \<noteq> compute_package_digest env skill market
              then Inl (Skill_Integrity ''Skill installation digest does not match package content'') else Inr ()]))
      | _ \<Rightarrow> Inl (Skill_Invalid ''Skill installation record must be an object''))"

section \<open>Reading a row\<close>

definition SKILL_ACTIVATION_POLICIES :: "string list" where
  "SKILL_ACTIVATION_POLICIES = [''none'', ''explicit_only'', ''implicit'']"

definition SKILL_AUTHORIZATION_STATES :: "string list" where
  "SKILL_AUTHORIZATION_STATES = [''trusted'', ''quarantined'', ''authorized'']"

definition row_fields :: "installation \<Rightarrow> (string \<times> string) list" where
  "row_fields r = [(''catalog_id'', in_catalog_id r), (''market_id'', in_market_id r), (''name'', in_name r), (''title'', in_title r),
     (''version'', in_version r), (''digest'', in_digest r)]"

definition valid_authorization :: "(string \<times> json) list \<Rightarrow> installation \<Rightarrow> bool" where
  "valid_authorization rec r =
     (if in_state r = ''quarantined'' then in_policy r = ''none'' \<and> in_authorized r = None \<and> \<not> in_enabled r
      else if in_state r = ''trusted'' then bundled_trust rec \<and> in_policy r = ''implicit'' \<and> in_authorized r = Some (in_digest r)
      else \<not> bundled_trust rec \<and> in_policy r \<in> {''explicit_only'', ''implicit''} \<and> in_authorized r = Some (in_digest r))"

definition corrupt :: "installation \<Rightarrow> string \<Rightarrow> skill_error" where
  "corrupt r what = Skill_Corruption (''Installed skill '' @ quoted (in_catalog_id r) @ what)"

definition row_to_installed :: "int option \<Rightarrow> installation \<Rightarrow> installed_skill skill_result" where
  "row_to_installed revision r =
     (case in_record r of
        None \<Rightarrow> Inl (corrupt r '' has invalid JSON state'')
      | Some (JObj rec) \<Rightarrow>
          (case List.find (\<lambda>kv. map_of rec (fst kv) \<noteq> Some (JStr (snd kv))) (row_fields r) of
             Some kv \<Rightarrow> Inl (corrupt r ('' has inconsistent field '' @ quoted (fst kv)))
           | None \<Rightarrow>
               if in_state r \<notin> set SKILL_AUTHORIZATION_STATES then Inl (corrupt r '' has invalid authorization state'')
               else if in_policy r \<notin> set SKILL_ACTIVATION_POLICIES then Inl (corrupt r '' has invalid activation policy'')
               else if (case in_authorized r of None \<Rightarrow> False | Some d \<Rightarrow> \<not> digest_ok d) then Inl (corrupt r '' has invalid authorized digest'')
               else if \<not> valid_authorization rec r then Inl (corrupt r '' has inconsistent authorization state'')
               else Inr \<lparr>is_row = r, is_record = rec, is_revision = revision\<rparr>)
      | Some _ \<Rightarrow> Inl (corrupt r '' JSON state must be an object''))"

section \<open>Transactions and the revision\<close>

definition read_revision :: "skill_db \<Rightarrow> int skill_result" where
  "read_revision db =
     (case sd_revision db of
        None \<Rightarrow> Inl (Skill_Corruption ''Skill registry revision state is missing or invalid'')
      | Some n \<Rightarrow> if n < 0 then Inl (Skill_Corruption ''Skill registry revision state is missing or invalid'') else Inr n)"

definition check_expected_revision :: "int option \<Rightarrow> skill_db \<Rightarrow> unit skill_result" where
  "check_expected_revision expected db =
     (case expected of
        None \<Rightarrow> Inr ()
      | Some n \<Rightarrow>
          if n < 0 then Inl (Skill_Invalid ''expected_revision must be a non-negative integer'')
          else (case read_revision db of
              Inl e \<Rightarrow> Inl e
            | Inr actual \<Rightarrow> if actual \<noteq> n then Inl (Skill_Revision_Conflict n actual) else Inr ()))"

text \<open>An error undoes the changes of the database; packages that were written stay.\<close>

definition in_transaction ::
  "int option \<Rightarrow> (skill_world \<Rightarrow> skill_world \<times> 'a skill_result) \<Rightarrow> skill_world \<Rightarrow> skill_world \<times> 'a skill_result" where
  "in_transaction expected body w =
     (case check_expected_revision expected (sw_db w) of
        Inl e \<Rightarrow> (w, Inl e)
      | Inr _ \<Rightarrow> (case body w of (w', Inl e) \<Rightarrow> (w'\<lparr>sw_db := sw_db w\<rparr>, Inl e) | (w', Inr x) \<Rightarrow> (w', Inr x)))"

definition change_db :: "(skill_db \<Rightarrow> skill_db) \<Rightarrow> skill_world \<Rightarrow> skill_world" where
  "change_db f w = w\<lparr>sw_db := f (sw_db w)\<rparr>"

definition increment_revision :: "skill_db \<Rightarrow> skill_db" where
  "increment_revision db = db\<lparr>sd_revision := map_option (\<lambda>n. n + 1) (sd_revision db)\<rparr>"

definition find_installation :: "skill_world \<Rightarrow> string \<Rightarrow> installation option" where
  "find_installation w cid = lookup_by in_catalog_id cid (sd_rows (sw_db w))"

text \<open>After a write the revision grows and the row is read back.\<close>

definition read_back :: "string \<Rightarrow> skill_world \<Rightarrow> skill_world \<times> installed_skill skill_result" where
  "read_back cid w =
     (let w' = change_db increment_revision w
      in case read_revision (sw_db w') of Inl e \<Rightarrow> (w', Inl e) | Inr n \<Rightarrow>
        (case find_installation w' cid of
           None \<Rightarrow> (w', Inl (Skill_Corruption ''Installed skill disappeared during its transaction''))
         | Some r \<Rightarrow> (w', row_to_installed (Some n) r)))"

definition current_installed :: "skill_world \<Rightarrow> installation \<Rightarrow> installed_skill skill_result" where
  "current_installed w r = (case read_revision (sw_db w) of Inl e \<Rightarrow> Inl e | Inr n \<Rightarrow> row_to_installed (Some n) r)"

section \<open>Sources\<close>

definition source_id_ok :: "string \<Rightarrow> bool" where
  "source_id_ok = kebab_case"

definition by_source_id :: "source_preference \<Rightarrow> source_preference \<Rightarrow> bool" where
  "by_source_id a b \<longleftrightarrow> str_less (so_id a) (so_id b)"

definition list_source_preferences :: "skill_db \<Rightarrow> (string \<times> bool) list skill_result" where
  "list_source_preferences db =
     (let rows = order_by by_source_id (sd_sources db)
      in if list_ex (\<lambda>s. \<not> source_id_ok (so_id s)) rows then Inl (Skill_Corruption ''Skill catalog source preference is malformed'')
         else Inr (map (\<lambda>s. (so_id s, so_enabled s)) rows))"

definition source_enabled :: "skill_db \<Rightarrow> string \<Rightarrow> bool" where
  "source_enabled db sid = (case lookup_by so_id sid (sd_sources db) of None \<Rightarrow> True | Some s \<Rightarrow> so_enabled s)"

definition put_source :: "string \<Rightarrow> string \<Rightarrow> bool \<Rightarrow> skill_db \<Rightarrow> skill_db" where
  "put_source now sid enabled db = db\<lparr>sd_sources :=
     (if enabled then filter (\<lambda>s. so_id s \<noteq> sid) (sd_sources db)
      else upsert so_id (\<lambda>old new. new) \<lparr>so_id = sid, so_enabled = False, so_updated_at = now\<rparr> (sd_sources db))\<rparr>"

definition set_source_enabled :: "string \<Rightarrow> string \<Rightarrow> bool \<Rightarrow> int option \<Rightarrow> skill_world \<Rightarrow> skill_world \<times> int skill_result" where
  "set_source_enabled now sid enabled expected w =
     (if \<not> source_id_ok sid then (w, Inl (Skill_Invalid ''source_id must be a lowercase hyphenated name''))
      else in_transaction expected (\<lambda>w.
        case read_revision (sw_db w) of Inl e \<Rightarrow> (w, Inl e) | Inr n \<Rightarrow>
          if source_enabled (sw_db w) sid = enabled then (w, Inr n)
          else (let w' = change_db (increment_revision \<circ> put_source now sid enabled) w in (w', read_revision (sw_db w')))) w)"

section \<open>Installing\<close>

text \<open>Whether the new bytes may replace those of a row: an update of a content-addressed source, or no older version.\<close>

definition update_refused :: "installed_skill \<Rightarrow> (string \<times> json) list \<Rightarrow> skill_error option" where
  "update_refused old rec =
     (let r = is_row old; digest = field_text rec ''digest''; version = field_text rec ''version'';
          pinned = Some (Skill_Version_Conflict (in_catalog_id r) (in_version r) (in_digest r) digest)
      in if uses_content_hash (is_record old) \<or> uses_content_hash rec
         then (if content_hash_update (is_record old) rec then None else pinned)
         else (case compare_semver (JStr version) (JStr (in_version r)) of
             Inl e \<Rightarrow> Some (Skill_Invalid (error_message e))
           | Inr c \<Rightarrow>
               if c = 0 \<and> in_digest r \<noteq> digest then pinned
               else if c < 0 then Some (Skill_Downgrade_Conflict (in_catalog_id r) (in_version r) version)
               else None))"

text \<open>Bundled content is trusted; any other new content is quarantined.\<close>

definition installed_row :: "string \<Rightarrow> installed_skill option \<Rightarrow> (string \<times> json) list \<Rightarrow> installation" where
  "installed_row now old rec =
     (let trusted = bundled_trust rec; digest = field_text rec ''digest''
      in \<lparr>in_catalog_id = field_text rec ''catalog_id'', in_market_id = field_text rec ''market_id'', in_name = field_text rec ''name'',
           in_title = field_text rec ''title'', in_version = field_text rec ''version'', in_digest = digest,
           in_enabled = (trusted \<and> (case old of None \<Rightarrow> True | Some s \<Rightarrow> in_enabled (is_row s))),
           in_state = (if trusted then ''trusted'' else ''quarantined''),
           in_policy = (if trusted then ''implicit'' else ''none''),
           in_authorized = (if trusted then Some digest else None),
           in_record = Some (sort_keys (JObj rec)),
           in_installed_at = (case old of None \<Rightarrow> now | Some s \<Rightarrow> in_installed_at (is_row s)), in_updated_at = now\<rparr>)"

definition put_installation :: "installation \<Rightarrow> skill_db \<Rightarrow> skill_db" where
  "put_installation r db = db\<lparr>sd_rows := upsert in_catalog_id (\<lambda>old new. new) r (sd_rows db)\<rparr>"

definition write_installation ::
  "skill_env \<Rightarrow> string \<Rightarrow> installed_skill option \<Rightarrow> (string \<times> json) list \<Rightarrow> string \<Rightarrow> string \<Rightarrow> skill_world \<Rightarrow>
   skill_world \<times> installed_skill skill_result" where
  "write_installation env now old rec skill market w =
     (case ensure_package env skill market (field_text rec ''digest'') w of
        (w1, Inl e) \<Rightarrow> (w1, Inl e)
      | (w1, Inr _) \<Rightarrow> read_back (field_text rec ''catalog_id'') (change_db (put_installation (installed_row now old rec)) w1))"

definition same_installation :: "installed_skill \<Rightarrow> (string \<times> json) list \<Rightarrow> bool" where
  "same_installation old rec \<longleftrightarrow>
     in_digest (is_row old) = field_text rec ''digest'' \<and> in_record (is_row old) = Some (sort_keys (JObj rec))"

definition install_body ::
  "skill_env \<Rightarrow> string \<Rightarrow> (string \<times> json) list \<Rightarrow> string \<Rightarrow> string \<Rightarrow> skill_world \<Rightarrow> skill_world \<times> installed_skill skill_result" where
  "install_body env now rec skill market w =
     (let cid = field_text rec ''catalog_id''; mid = field_text rec ''market_id'';
          owner = lookup_by in_market_id mid (sd_rows (sw_db w))
      in if (case owner of None \<Rightarrow> False | Some ow \<Rightarrow> in_catalog_id ow \<noteq> cid)
         then (w, Inl (Skill_Store_Error (''Market id '' @ quoted mid @ '' is already installed as '' @ quoted (in_catalog_id (the owner)))))
         else (case find_installation w cid of
             None \<Rightarrow> write_installation env now None rec skill market w
           | Some r \<Rightarrow>
               if in_market_id r \<noteq> mid
               then (w, Inl (Skill_Store_Error (''Catalog id '' @ quoted cid @ '' is already owned by a different market item'')))
               else (case current_installed w r of
                   Inl e \<Rightarrow> (w, Inl e)
                 | Inr old \<Rightarrow>
                     if same_installation old rec
                     then (case ensure_package env skill market (field_text rec ''digest'') w of
                         (w1, Inl e) \<Rightarrow> (w1, Inl e) | (w1, Inr _) \<Rightarrow> (w1, Inr old))
                     else (case update_refused old rec of
                         Some e \<Rightarrow> (w, Inl e)
                       | None \<Rightarrow> write_installation env now (Some old) rec skill market w))))"

definition install ::
  "skill_env \<Rightarrow> string \<Rightarrow> json \<Rightarrow> string \<Rightarrow> string \<Rightarrow> int option \<Rightarrow> skill_world \<Rightarrow> skill_world \<times> installed_skill skill_result" where
  "install env now record skill market expected w =
     (case validate_install_input env record skill market of
        Inl e \<Rightarrow> (w, Inl e)
      | Inr rec \<Rightarrow> in_transaction expected (install_body env now rec skill market) w)"

section \<open>Enabling, authorizing, removing\<close>

definition with_installed ::
  "string \<Rightarrow> (installed_skill \<Rightarrow> skill_world \<Rightarrow> skill_world \<times> 'a skill_result) \<Rightarrow> skill_world \<Rightarrow> skill_world \<times> 'a skill_result" where
  "with_installed cid f w =
     (case find_installation w cid of
        None \<Rightarrow> (w, Inl (Skill_Not_Installed cid))
      | Some r \<Rightarrow> (case current_installed w r of Inl e \<Rightarrow> (w, Inl e) | Inr s \<Rightarrow> f s w))"

definition update_installation :: "string \<Rightarrow> (installation \<Rightarrow> installation) \<Rightarrow> skill_world \<Rightarrow> skill_world \<times> installed_skill skill_result" where
  "update_installation cid f w =
     read_back cid (change_db (\<lambda>db. db\<lparr>sd_rows := update_where (\<lambda>r. in_catalog_id r = cid) f (sd_rows db)\<rparr>) w)"

definition set_enabled ::
  "skill_env \<Rightarrow> string \<Rightarrow> string \<Rightarrow> bool \<Rightarrow> int option \<Rightarrow> skill_world \<Rightarrow> skill_world \<times> installed_skill skill_result" where
  "set_enabled env now cid enabled expected =
     in_transaction expected (with_installed cid (\<lambda>s w.
       let change = (if in_enabled (is_row s) = enabled then (w, Inr s)
             else update_installation cid (\<lambda>r. r\<lparr>in_enabled := enabled, in_updated_at := now\<rparr>) w)
       in if \<not> enabled then change
          else if in_state (is_row s) = ''quarantined'' then (w, Inl (Skill_Authorization_Required cid))
          else (case verify_installed_package env w (in_digest (is_row s)) of Inl e \<Rightarrow> (w, Inl e) | Inr _ \<Rightarrow> change)))"

definition grant_row :: "string \<Rightarrow> string \<Rightarrow> string \<Rightarrow> string option \<Rightarrow> bool \<Rightarrow> installation \<Rightarrow> installation" where
  "grant_row now state policy authorized enabled r =
     r\<lparr>in_enabled := enabled, in_state := state, in_policy := policy, in_authorized := authorized, in_updated_at := now\<rparr>"

definition already_granted :: "string \<Rightarrow> string \<Rightarrow> string option \<Rightarrow> bool \<Rightarrow> installation \<Rightarrow> bool" where
  "already_granted state policy authorized enabled r \<longleftrightarrow>
     in_state r = state \<and> in_policy r = policy \<and> in_authorized r = authorized \<and> in_enabled r = enabled"

definition authorize_body ::
  "skill_env \<Rightarrow> string \<Rightarrow> string \<Rightarrow> string \<Rightarrow> installed_skill \<Rightarrow> skill_world \<Rightarrow> skill_world \<times> installed_skill skill_result" where
  "authorize_body env now cid policy s w =
     (let r = is_row s; verified = verify_installed_package env w (in_digest r);
          write = (\<lambda>state pol auth on. update_installation cid (grant_row now state pol auth on) w)
      in if in_state r = ''trusted'' then
           if policy \<noteq> ''implicit'' then (w, Inl (Skill_Trusted_Immutable cid))
           else if in_enabled r then (w, Inr s)
           else (case verified of Inl e \<Rightarrow> (w, Inl e) | Inr _ \<Rightarrow> write ''trusted'' ''implicit'' (Some (in_digest r)) True)
         else if policy = ''none'' then
           if already_granted ''quarantined'' ''none'' None False r then (w, Inr s) else write ''quarantined'' ''none'' None False
         else (case verified of Inl e \<Rightarrow> (w, Inl e) | Inr _ \<Rightarrow>
           if already_granted ''authorized'' policy (Some (in_digest r)) True r then (w, Inr s)
           else write ''authorized'' policy (Some (in_digest r)) True))"

definition set_authorization ::
  "skill_env \<Rightarrow> string \<Rightarrow> string \<Rightarrow> string \<Rightarrow> string \<Rightarrow> int option \<Rightarrow> skill_world \<Rightarrow> skill_world \<times> installed_skill skill_result" where
  "set_authorization env now cid policy digest expected w =
     (if policy \<notin> set SKILL_ACTIVATION_POLICIES
      then (w, Inl (Skill_Invalid ''activation_policy must be one of: none, explicit_only, implicit''))
      else if \<not> digest_ok digest then (w, Inl (Skill_Invalid ''expected_digest must use the form sha256:<64 lowercase hex characters>''))
      else in_transaction expected (with_installed cid (\<lambda>s w.
        if in_digest (is_row s) \<noteq> digest then (w, Inl (Skill_Digest_Mismatch cid digest (in_digest (is_row s))))
        else authorize_body env now cid policy s w)) w)"

definition uninstall :: "string \<Rightarrow> int option \<Rightarrow> skill_world \<Rightarrow> skill_world \<times> int option skill_result" where
  "uninstall cid expected =
     in_transaction expected (\<lambda>w.
       case find_installation w cid of
         None \<Rightarrow> (w, Inr None)
       | Some r \<Rightarrow>
           (case row_to_installed None r of
              Inl e \<Rightarrow> (w, Inl e)
            | Inr _ \<Rightarrow>
                (let w' = change_db (\<lambda>db. increment_revision (db\<lparr>sd_rows := filter (\<lambda>r. in_catalog_id r \<noteq> cid) (sd_rows db)\<rparr>)) w
                 in (w', map_sum id Some (read_revision (sw_db w'))))))"

section \<open>Reading\<close>

definition verified :: "skill_env \<Rightarrow> skill_world \<Rightarrow> bool \<Rightarrow> installed_skill \<Rightarrow> installed_skill skill_result" where
  "verified env w verify s =
     (if verify then map_sum id (\<lambda>_. s) (verify_installed_package env w (in_digest (is_row s))) else Inr s)"

definition get_from :: "skill_env \<Rightarrow> skill_world \<Rightarrow> bool \<Rightarrow> installation option \<Rightarrow> installed_skill option skill_result" where
  "get_from env w verify row =
     (case row of
        None \<Rightarrow> Inr None
      | Some r \<Rightarrow> (case row_to_installed None r of Inl e \<Rightarrow> Inl e | Inr s \<Rightarrow> map_sum id Some (verified env w verify s)))"

definition get_installed :: "skill_env \<Rightarrow> skill_world \<Rightarrow> string \<Rightarrow> bool \<Rightarrow> installed_skill option skill_result" where
  "get_installed env w cid verify = get_from env w verify (find_installation w cid)"

definition get_by_market_id :: "skill_env \<Rightarrow> skill_world \<Rightarrow> string \<Rightarrow> bool \<Rightarrow> installed_skill option skill_result" where
  "get_by_market_id env w mid verify = get_from env w verify (lookup_by in_market_id mid (sd_rows (sw_db w)))"

fun read_all :: "('a \<Rightarrow> 'e + 'b) \<Rightarrow> 'a list \<Rightarrow> 'e + 'b list" where
  "read_all f [] = Inr []"
| "read_all f (x # xs) = (case f x of Inl e \<Rightarrow> Inl e | Inr y \<Rightarrow> map_sum id (\<lambda>ys. y # ys) (read_all f xs))"

definition by_catalog_id :: "installation \<Rightarrow> installation \<Rightarrow> bool" where
  "by_catalog_id a b \<longleftrightarrow> str_less (in_catalog_id a) (in_catalog_id b)"

definition list_with_revision :: "skill_env \<Rightarrow> skill_world \<Rightarrow> bool \<Rightarrow> (int \<times> installed_skill list) skill_result" where
  "list_with_revision env w verify =
     (case read_revision (sw_db w) of Inl e \<Rightarrow> Inl e | Inr n \<Rightarrow>
     (case read_all (row_to_installed (Some n)) (order_by by_catalog_id (sd_rows (sw_db w))) of Inl e \<Rightarrow> Inl e | Inr items \<Rightarrow>
        map_sum id (\<lambda>items. (n, items)) (read_all (verified env w verify) items)))"

definition registry_state :: "skill_env \<Rightarrow> skill_world \<Rightarrow> bool \<Rightarrow> json skill_result" where
  "registry_state env w verify =
     map_sum id (\<lambda>(n, items). JObj [(''revision'', JInt n), (''items'', JArr (map installed_dict items))]) (list_with_revision env w verify)"

definition read_manifest_of :: "skill_env \<Rightarrow> skill_world \<Rightarrow> installed_skill \<Rightarrow> skill_manifest skill_result" where
  "read_manifest_of env w s =
     (let r = is_row s
      in case verify_installed_package env w (in_digest r) of Inl e \<Rightarrow> Inl e | Inr _ \<Rightarrow>
        (case map_of (sw_packages w) (drop 7 (in_digest r)) of
           Some (Package entries) \<Rightarrow>
             (case map_of entries ''SKILL.md'' of
                Some (Package_Bytes content) \<Rightarrow>
                  map_sum (\<lambda>_. Skill_Integrity (''Installed package '' @ quoted (in_catalog_id r) @ '' contains an invalid SKILL.md'')) id
                    (manifest_from_bytes (ke_yaml env) content (Some (in_name r)))
              | _ \<Rightarrow> Inl (Skill_Integrity (''Unable to read installed package '' @ quoted (in_catalog_id r))))
         | _ \<Rightarrow> Inl (Skill_Integrity (''Unable to read installed package '' @ quoted (in_catalog_id r)))))"

section \<open>Legacy rows\<close>

text \<open>
  A registry without authorization columns: the new columns get their defaults, bundled rows are trusted, the others
  disabled. The revision grows when there are rows.
\<close>

definition migrated_row :: "string \<Rightarrow> installation \<Rightarrow> installation" where
  "migrated_row now r =
     (if (case in_record r of Some (JObj rec) \<Rightarrow> bundled_trust rec | _ \<Rightarrow> False)
      then r\<lparr>in_state := ''trusted'', in_policy := ''implicit'', in_authorized := Some (in_digest r), in_updated_at := now\<rparr>
      else r\<lparr>in_enabled := False, in_state := ''quarantined'', in_policy := ''none'', in_authorized := None, in_updated_at := now\<rparr>)"

definition migrate_authorization :: "bool \<Rightarrow> string \<Rightarrow> skill_db \<Rightarrow> skill_db" where
  "migrate_authorization missing now db =
     (if \<not> missing \<or> sd_rows db = [] then db
      else increment_revision (db\<lparr>sd_rows := map (migrated_row now) (sd_rows db)\<rparr>))"

definition initialize :: "bool \<Rightarrow> string \<Rightarrow> skill_db \<Rightarrow> skill_db" where
  "initialize missing now db =
     migrate_authorization missing now (db\<lparr>sd_revision := (case sd_revision db of None \<Rightarrow> Some 0 | r \<Rightarrow> r)\<rparr>)"

definition new_registry :: skill_world where
  "new_registry = \<lparr>sw_db = \<lparr>sd_revision = Some 0, sd_rows = [], sd_sources = []\<rparr>, sw_packages = []\<rparr>"

end
