(* ===== verification/Skill_Laws.thy ===== *)
theory Skill_Laws
  imports Skill_Store Graph_Content "HOL-Library.Code_Target_Nat"
begin

text \<open>
  What the registry of skills promises. Its revision pins the rows: a write accepted with the revision of a listing finds
  the rows of that listing (the locale \<open>revisioned\<close>, interpreted on the operations of the registry). And whatever happens
  to the packages on disk, the instructions of an enabled skill that did not come with the product are the bytes of the
  last decision to authorize it.
\<close>

section \<open>Operations\<close>

text \<open>\<open>Op_Damage\<close> stands for any change of the directories of packages from outside.\<close>

datatype registry_op =
    Op_Install json string string "int option"
  | Op_Enable string bool "int option"
  | Op_Authorize string string string "int option"
  | Op_Uninstall string "int option"
  | Op_Source string bool "int option"
  | Op_Damage "(string \<times> skill_package) list"

abbreviation unit_result :: "skill_world \<times> 'a skill_result \<Rightarrow> skill_world \<times> unit skill_result" where
  "unit_result x \<equiv> (fst x, map_sum id (\<lambda>_. ()) (snd x))"

fun apply_op :: "skill_env \<Rightarrow> string \<Rightarrow> registry_op \<Rightarrow> skill_world \<Rightarrow> skill_world \<times> unit skill_result" where
  "apply_op env now (Op_Install record skill market n) w = unit_result (install env now record skill market n w)"
| "apply_op env now (Op_Enable cid on n) w = unit_result (set_enabled env now cid on n w)"
| "apply_op env now (Op_Authorize cid policy digest n) w = unit_result (set_authorization env now cid policy digest n w)"
| "apply_op env now (Op_Uninstall cid n) w = unit_result (uninstall cid n w)"
| "apply_op env now (Op_Source sid on n) w = unit_result (set_source_enabled now sid on n w)"
| "apply_op env now (Op_Damage packages) w = (w\<lparr>sw_packages := packages\<rparr>, Inr ())"

fun op_expected :: "registry_op \<Rightarrow> int option" where
  "op_expected (Op_Install record skill market n) = n"
| "op_expected (Op_Enable cid on n) = n"
| "op_expected (Op_Authorize cid policy digest n) = n"
| "op_expected (Op_Uninstall cid n) = n"
| "op_expected (Op_Source sid on n) = n"
| "op_expected (Op_Damage packages) = None"

section \<open>Writes\<close>

text \<open>A write of one row: the others stay, the row is the one read back, and the revision grows by one.\<close>

definition one_row :: "string \<Rightarrow> installed_skill \<Rightarrow> skill_world \<Rightarrow> skill_world \<Rightarrow> bool" where
  "one_row cid s w w' \<longleftrightarrow>
     (\<forall>k. find_installation w' k = (if k = cid then Some (is_row s) else find_installation w k)) \<and>
     (\<exists>n. row_to_installed n (is_row s) = Inr s) \<and> sd_revision (sw_db w') = map_option (\<lambda>n. n + 1) (sd_revision (sw_db w))"

lemma row_read:
  assumes "row_to_installed n r = Inr s"
  shows "is_row s = r" "in_record r = Some (JObj (is_record s))" "valid_authorization (is_record s) r"
    "in_state r \<in> set SKILL_AUTHORIZATION_STATES"
  using assms by (auto simp: row_to_installed_def split: option.splits json.splits if_splits)

lemma current_installed_row: "current_installed w r = Inr s \<Longrightarrow> is_row s = r \<and> (\<exists>n. row_to_installed n r = Inr s)"
  by (auto simp: current_installed_def split: sum.splits dest: row_read(1))

lemma incremented [simp]:
  "find_installation (change_db increment_revision w) k = find_installation w k"
  "sd_revision (sw_db (change_db increment_revision w)) = map_option (\<lambda>n. n + 1) (sd_revision (sw_db w))"
  by (simp_all add: find_installation_def change_db_def increment_revision_def)

lemma read_back_one_row:
  assumes "read_back cid w1 = (w', Inr s)"
    and "\<And>k. k \<noteq> cid \<Longrightarrow> find_installation w1 k = find_installation w k" "sd_revision (sw_db w1) = sd_revision (sw_db w)"
  shows "one_row cid s w w' \<and> find_installation w1 cid = Some (is_row s)"
  using assms by (auto simp: read_back_def Let_def one_row_def
      split: sum.splits option.splits dest: row_read(1))

lemma update_one_row:
  assumes "update_installation cid f w = (w', Inr s)" "\<And>r. in_catalog_id (f r) = in_catalog_id r"
  shows "one_row cid s w w' \<and> map_option f (find_installation w cid) = Some (is_row s)"
proof -
  let ?w1 = "change_db (\<lambda>db. db\<lparr>sd_rows := update_where (\<lambda>r. in_catalog_id r = cid) f (sd_rows db)\<rparr>) w"
  have find: "find_installation ?w1 k =
      map_option (\<lambda>r. if in_catalog_id r = cid then f r else r) (find_installation w k)" for k
    using assms(2) by (simp add: find_installation_def change_db_def lookup_by_update_where)
  have other: "k \<noteq> cid \<Longrightarrow> find_installation ?w1 k = find_installation w k" for k
    unfolding find by (cases "find_installation w k") (auto simp: find_installation_def dest: lookup_by_key)
  have own: "find_installation ?w1 cid = map_option f (find_installation w cid)"
    unfolding find by (cases "find_installation w cid") (auto simp: find_installation_def dest: lookup_by_key)
  show ?thesis
    using read_back_one_row[OF assms(1)[unfolded update_installation_def], of w] other own by (simp add: change_db_def)
qed

lemma put_one_row:
  assumes "read_back (in_catalog_id r) (change_db (put_installation r) w) = (w', Inr s)"
  shows "one_row (in_catalog_id r) s w w' \<and> is_row s = r"
proof -
  have find: "find_installation (change_db (put_installation r) w) k = (if k = in_catalog_id r then Some r else find_installation w k)" for k
    by (auto simp: find_installation_def change_db_def put_installation_def lookup_by_upsert split: option.split)
  show ?thesis
    using read_back_one_row[OF assms, of w] find by (auto simp: change_db_def put_installation_def)
qed

section \<open>Transactions\<close>

lemma in_transaction_cases:
  assumes "in_transaction n body w = (w', res)"
  obtains e where "res = Inl e" "sw_db w' = sw_db w"
  | x where "res = Inr x" "body w = (w', Inr x)" "check_expected_revision n (sw_db w) = Inr ()"
  using assms by (auto simp: in_transaction_def split: sum.splits prod.splits)

lemma with_installed_Inr:
  assumes "with_installed cid f w = (w', Inr x)"
  obtains s where "find_installation w cid = Some (is_row s)" "\<exists>n. row_to_installed n (is_row s) = Inr s" "f s w = (w', Inr x)"
  using assms by (auto simp: with_installed_def split: option.splits sum.splits dest!: current_installed_row)

lemma ensure_package_db: "ensure_package env skill market digest w = (w', x) \<Longrightarrow> sw_db w' = sw_db w"
  by (auto simp: ensure_package_def Let_def split: sum.splits option.splits)

lemma write_installation_one_row:
  assumes "write_installation env now old rec skill market w = (w', Inr s)"
  shows "one_row (field_text rec ''catalog_id'') s w w' \<and> is_row s = installed_row now old rec"
proof -
  obtain w1 where w1: "ensure_package env skill market (field_text rec ''digest'') w = (w1, Inr ())"
    and read: "read_back (field_text rec ''catalog_id'') (change_db (put_installation (installed_row now old rec)) w1) = (w', Inr s)"
    using assms by (auto simp: write_installation_def split: sum.splits prod.splits)
  have "in_catalog_id (installed_row now old rec) = field_text rec ''catalog_id''"
    by (simp add: installed_row_def Let_def)
  with put_one_row[of "installed_row now old rec" w1] read ensure_package_db[OF w1]
  show ?thesis by (auto simp: one_row_def find_installation_def)
qed

text \<open>What a successful operation did to the rows.\<close>

lemma valid_record:
  assumes "validate_install_input env record skill market = Inr rec"
  shows "record = JObj rec"
proof (cases "record")
  case (JObj kvs)
  then show ?thesis
    using assms unfolding validate_install_input_def by (simp split: json.splits) (simp add: map_sum_Inr)
qed (use assms in \<open>simp_all add: validate_install_input_def\<close>)

lemma install_effect:
  assumes "install env now record skill market n w = (w', Inr s)"
  obtains (same) "sw_db w' = sw_db w"
  | (wrote) rec old where "record = JObj rec" "one_row (field_text rec ''catalog_id'') s w w'" "is_row s = installed_row now old rec"
proof -
  obtain rec where rec: "record = JObj rec" and t: "in_transaction n (install_body env now rec skill market) w = (w', Inr s)"
    using assms by (auto simp: install_def split: sum.splits dest: valid_record)
  from t have body: "install_body env now rec skill market w = (w', Inr s)"
    by (rule in_transaction_cases) auto
  show thesis
  proof (cases "find_installation w (field_text rec ''catalog_id'')")
    case None
    with body write_installation_one_row rec wrote show thesis by (auto simp: install_body_def Let_def split: if_splits)
  next
    case (Some r)
    with body write_installation_one_row rec wrote same show thesis
      by (auto simp: install_body_def Let_def split: if_splits sum.splits prod.splits option.splits dest!: ensure_package_db)
  qed
qed

lemma set_enabled_effect:
  assumes "set_enabled env now cid on n w = (w', Inr s)"
  obtains (same) "w' = w"
  | (wrote) r where "one_row cid s w w'" "find_installation w cid = Some r" "is_row s = r\<lparr>in_enabled := on, in_updated_at := now\<rparr>"
proof -
  from assms[unfolded set_enabled_def] obtain s0 where s0: "find_installation w cid = Some (is_row s0)"
    and f: "(let change = (if in_enabled (is_row s0) = on then (w, Inr s0)
           else update_installation cid (\<lambda>r. r\<lparr>in_enabled := on, in_updated_at := now\<rparr>) w)
     in if \<not> on then change
        else if in_state (is_row s0) = ''quarantined'' then (w, Inl (Skill_Authorization_Required cid))
        else (case verify_installed_package env w (in_digest (is_row s0)) of Inl e \<Rightarrow> (w, Inl e) | Inr _ \<Rightarrow> change)) = (w', Inr s)"
    by (elim in_transaction_cases) (auto elim!: with_installed_Inr)
  have "w' = w \<or> update_installation cid (\<lambda>r. r\<lparr>in_enabled := on, in_updated_at := now\<rparr>) w = (w', Inr s)"
    using f by (auto simp: Let_def split: if_splits sum.splits)
  then show thesis
    using update_one_row[of cid "\<lambda>r. r\<lparr>in_enabled := on, in_updated_at := now\<rparr>" w w' s] s0 same wrote by auto
qed

text \<open>A decision names its digest; it writes the row, or finds it as decided.\<close>

lemma authorize_body_effect:
  assumes "authorize_body env now cid policy s0 w = (w', Inr s)"
  obtains "w' = w" "in_state (is_row s0) = ''authorized'' \<Longrightarrow> in_policy (is_row s0) = policy"
  | state pol authorized on where "update_installation cid (grant_row now state pol authorized on) w = (w', Inr s)"
      "state = ''authorized'' \<Longrightarrow> pol = policy"
proof -
  let ?r = "is_row s0"
  let ?put = "\<lambda>state pol auth on. update_installation cid (grant_row now state pol auth on) w"
  consider (trusted) "in_state ?r = ''trusted''" | (revoked) "in_state ?r \<noteq> ''trusted''" "policy = ''none''"
    | (granted) "in_state ?r \<noteq> ''trusted''" "policy \<noteq> ''none''" by blast
  then show thesis
  proof cases
    case trusted
    then have "w' = w \<or> ?put ''trusted'' ''implicit'' (Some (in_digest ?r)) True = (w', Inr s)"
      using assms by (auto simp: authorize_body_def Let_def split: if_splits sum.splits)
    with trusted that show thesis by auto
  next
    case revoked
    then have "w' = w \<and> in_policy ?r = policy \<or> ?put ''quarantined'' ''none'' None False = (w', Inr s)"
      using assms by (auto simp: authorize_body_def Let_def already_granted_def split: if_splits)
    with that show thesis by auto
  next
    case granted
    then have "w' = w \<and> in_policy ?r = policy \<or> ?put ''authorized'' policy (Some (in_digest ?r)) True = (w', Inr s)"
      using assms by (auto simp: authorize_body_def Let_def already_granted_def split: if_splits sum.splits)
    with that show thesis by auto
  qed
qed

lemma set_authorization_effect:
  assumes "set_authorization env now cid policy digest n w = (w', Inr s)"
  obtains (same) r where "w' = w" "find_installation w cid = Some r" "in_digest r = digest"
      "in_state r = ''authorized'' \<Longrightarrow> in_policy r = policy"
  | (wrote) r state pol authorized on where "one_row cid s w w'" "find_installation w cid = Some r" "in_digest r = digest"
      "is_row s = grant_row now state pol authorized on r" "state = ''authorized'' \<Longrightarrow> pol = policy"
proof -
  from assms have t: "in_transaction n (with_installed cid (\<lambda>s w.
        if in_digest (is_row s) \<noteq> digest then (w, Inl (Skill_Digest_Mismatch cid digest (in_digest (is_row s))))
        else authorize_body env now cid policy s w)) w = (w', Inr s)"
    by (auto simp: set_authorization_def split: if_splits)
  then obtain s0 where s0: "find_installation w cid = Some (is_row s0)" "in_digest (is_row s0) = digest"
    and f: "authorize_body env now cid policy s0 w = (w', Inr s)"
    by (elim in_transaction_cases) (auto elim!: with_installed_Inr split: if_splits)
  from f show thesis
  proof (rule authorize_body_effect)
    assume "w' = w" "in_state (is_row s0) = ''authorized'' \<Longrightarrow> in_policy (is_row s0) = policy"
    with s0 same show thesis by blast
  next
    fix state pol authorized on
    assume u: "update_installation cid (grant_row now state pol authorized on) w = (w', Inr s)" and p: "state = ''authorized'' \<Longrightarrow> pol = policy"
    have "one_row cid s w w' \<and> map_option (grant_row now state pol authorized on) (find_installation w cid) = Some (is_row s)"
      by (rule update_one_row[OF u]) (simp add: grant_row_def)
    with s0 show thesis by (intro wrote[of "is_row s0" state pol authorized on]) (auto dest: p)
  qed
qed

lemma uninstall_effect:
  assumes "uninstall cid n w = (w', Inr x)"
  obtains (same) "w' = w" "find_installation w cid = None"
  | (removed) "\<And>k. find_installation w' k = (if k = cid then None else find_installation w k)"
      "sd_revision (sw_db w') = map_option (\<lambda>n. n + 1) (sd_revision (sw_db w))"
  using assms unfolding uninstall_def
  by (elim in_transaction_cases)
    (auto simp: Let_def find_installation_def change_db_def increment_revision_def lookup_by_filter[of _ _ "\<lambda>k. k \<noteq> cid"]
      split: option.splits sum.splits)

lemma set_source_effect:
  assumes "set_source_enabled now sid on n w = (w', Inr x)"
  shows "sd_rows (sw_db w') = sd_rows (sw_db w) \<and>
    (w' = w \<or> sd_revision (sw_db w') = map_option (\<lambda>n. n + 1) (sd_revision (sw_db w)))"
  using assms unfolding set_source_enabled_def
  by (auto simp: Let_def change_db_def put_source_def increment_revision_def
      elim!: in_transaction_cases split: if_splits sum.splits)

section \<open>The revision\<close>

text \<open>A store whose number grows with every change of its content.\<close>

locale revisioned =
  fixes number :: "'s \<Rightarrow> int option" and content :: "'s \<Rightarrow> 'c" and step :: "'o \<Rightarrow> 's \<Rightarrow> 's"
  assumes step_grows: "number s = Some n \<Longrightarrow> number (step x s) = Some n \<and> content (step x s) = content s \<or> number (step x s) = Some (n + 1)"
begin

lemma run_grows:
  "number s = Some n \<Longrightarrow>
    \<exists>m. number (fold step xs s) = Some m \<and> n \<le> m \<and> (m = n \<longrightarrow> content (fold step xs s) = content s)"
proof (induction xs arbitrary: s n)
  case (Cons x xs)
  from step_grows[OF Cons.prems, of x] show ?case
  proof
    assume "number (step x s) = Some n \<and> content (step x s) = content s"
    with Cons.IH[of "step x s" n] show ?thesis by simp
  next
    assume "number (step x s) = Some (n + 1)"
    then obtain m where "number (fold step xs (step x s)) = Some m" "n + 1 \<le> m" using Cons.IH by blast
    then show ?thesis by auto
  qed
qed simp

lemma same_number_same_content:
  "number s = Some n \<Longrightarrow> number (fold step xs s) = Some n \<Longrightarrow> content (fold step xs s) = content s"
  using run_grows[of s n xs] by auto

end

lemma in_transaction_error: "snd (in_transaction n body w) = Inl e \<Longrightarrow> sw_db (fst (in_transaction n body w)) = sw_db w"
  by (auto simp: in_transaction_def split: sum.splits prod.splits)

lemma error_keeps_db:
  assumes "apply_op env now x w = (w', Inl e)"
  shows "sw_db w' = sw_db w"
  using assms by (cases x)
    (auto simp: install_def set_enabled_def set_authorization_def uninstall_def set_source_enabled_def map_sum_Inl
      split: sum.splits if_splits intro: in_transaction_error)

lemma op_revision:
  assumes "apply_op env now x w = (w', res)"
  shows "sw_db w' = sw_db w \<or> sd_revision (sw_db w') = map_option (\<lambda>n. n + 1) (sd_revision (sw_db w))"
proof (cases res)
  case (Inl e)
  with assms error_keeps_db show ?thesis by blast
next
  case (Inr u)
  show ?thesis
  proof (cases x)
    case (Op_Install item skill market n)
    with assms Inr obtain s where "install env now item skill market n w = (w', Inr s)"
      by (cases "install env now item skill market n w") (auto simp: map_sum_Inr)
    then show ?thesis by (rule install_effect) (auto simp: one_row_def)
  next
    case (Op_Enable cid on n)
    with assms Inr obtain s where "set_enabled env now cid on n w = (w', Inr s)"
      by (cases "set_enabled env now cid on n w") (auto simp: map_sum_Inr)
    then show ?thesis by (rule set_enabled_effect) (auto simp: one_row_def)
  next
    case (Op_Authorize cid policy digest n)
    with assms Inr obtain s where "set_authorization env now cid policy digest n w = (w', Inr s)"
      by (cases "set_authorization env now cid policy digest n w") (auto simp: map_sum_Inr)
    then show ?thesis by (rule set_authorization_effect) (auto simp: one_row_def)
  next
    case (Op_Uninstall cid n)
    with assms Inr obtain s where "uninstall cid n w = (w', Inr s)"
      by (cases "uninstall cid n w") (auto simp: map_sum_Inr)
    then show ?thesis by (rule uninstall_effect) auto
  next
    case (Op_Source sid on n)
    with assms Inr obtain s where "set_source_enabled now sid on n w = (w', Inr s)"
      by (cases "set_source_enabled now sid on n w") (auto simp: map_sum_Inr)
    then show ?thesis by (auto dest: set_source_effect)
  qed (use assms in auto)
qed

interpretation registry: revisioned "\<lambda>w::skill_world. sd_revision (sw_db w)" sw_db "\<lambda>x w. fst (apply_op env (fst x) (snd x) w)" for env
proof unfold_locales
  fix w :: skill_world and n and x :: "string \<times> registry_op"
  assume n: "sd_revision (sw_db w) = Some n"
  let ?w' = "fst (apply_op env (fst x) (snd x) w)"
  have "sw_db ?w' = sw_db w \<or> sd_revision (sw_db ?w') = map_option (\<lambda>n. n + 1) (sd_revision (sw_db w))"
    by (rule op_revision) (rule prod.collapse[symmetric])
  with n show "sd_revision (sw_db ?w') = Some n \<and> sw_db ?w' = sw_db w \<or> sd_revision (sw_db ?w') = Some (n + 1)" by auto
qed

definition run_ops :: "skill_env \<Rightarrow> (string \<times> registry_op) list \<Rightarrow> skill_world \<Rightarrow> skill_world" where
  "run_ops env = fold (\<lambda>x w. fst (apply_op env (fst x) (snd x) w))"

lemma accepted_revision:
  assumes "apply_op env now x w = (w', Inr ())" "op_expected x = Some n"
  shows "sd_revision (sw_db w) = Some n"
proof -
  have "check_expected_revision (Some n) (sw_db w) = Inr ()"
    using assms by (cases x)
      (auto simp: install_def set_enabled_def set_authorization_def uninstall_def set_source_enabled_def in_transaction_def map_sum_def
        split: sum.splits if_splits)
  then show ?thesis by (auto simp: check_expected_revision_def read_revision_def split: option.splits if_splits sum.splits)
qed

lemma unverified_listing:
  assumes "sw_db w' = sw_db w"
  shows "list_with_revision env w' False = list_with_revision env w False"
proof -
  have same: "verified env w' False = verified env w False" by (simp add: fun_eq_iff verified_def)
  show ?thesis unfolding list_with_revision_def assms same by (rule refl)
qed

section \<open>Reviewed content\<close>

text \<open>
  Runs of the registry, from a registry of an earlier version whatever it held. \<open>granted\<close> has the last decision on each
  catalog id: removing the skill, or installing other content, forgets it.
\<close>

type_synonym decisions = "string \<Rightarrow> (string \<times> string) option"

fun decide :: "registry_op \<Rightarrow> skill_world \<Rightarrow> skill_world \<Rightarrow> decisions \<Rightarrow> decisions" where
  "decide (Op_Authorize cid policy digest n) w w' granted = granted(cid \<mapsto> (policy, digest))"
| "decide (Op_Uninstall cid n) w w' granted = granted(cid := None)"
| "decide (Op_Install (JObj rec) skill market n) w w' granted =
     (let cid = field_text rec ''catalog_id''
      in if find_installation w' cid = find_installation w cid then granted else granted(cid := None))"
| "decide x w w' granted = granted"

inductive skill_run :: "skill_env \<Rightarrow> decisions \<Rightarrow> skill_world \<Rightarrow> bool" for env where
  opened: "skill_run env (\<lambda>_. None) \<lparr>sw_db = initialize True now legacy, sw_packages = packages\<rparr>"
| accepted: "skill_run env granted w \<Longrightarrow> apply_op env now x w = (w', Inr ()) \<Longrightarrow> skill_run env (decide x w w' granted) w'"
| rejected: "skill_run env granted w \<Longrightarrow> apply_op env now x w = (w', Inl e) \<Longrightarrow> skill_run env granted w'"

definition bundled_row :: "installation \<Rightarrow> bool" where
  "bundled_row r \<longleftrightarrow> (case in_record r of Some (JObj rec) \<Rightarrow> bundled_trust rec | _ \<Rightarrow> False)"

definition sound_row :: "decisions \<Rightarrow> installation \<Rightarrow> bool" where
  "sound_row granted r \<longleftrightarrow>
     in_state r = ''trusted'' \<and> bundled_row r \<or> in_state r = ''quarantined'' \<and> \<not> in_enabled r \<or>
     in_state r = ''authorized'' \<and> granted (in_catalog_id r) = Some (in_policy r, in_digest r) \<and>
       in_policy r \<in> {''explicit_only'', ''implicit''}"

definition reviewed :: "decisions \<Rightarrow> skill_world \<Rightarrow> bool" where
  "reviewed granted w \<longleftrightarrow> (\<forall>cid r. find_installation w cid = Some r \<longrightarrow> sound_row granted r)"

lemma read_sound_row:
  assumes "row_to_installed n r = Inr s" "in_state r = ''authorized'' \<Longrightarrow> granted (in_catalog_id r) = Some (in_policy r, in_digest r)"
  shows "sound_row granted r"
proof -
  note row = row_read[OF assms(1)]
  have "in_state r = ''trusted'' \<or> in_state r = ''quarantined'' \<or> in_state r = ''authorized''"
    using row(4) unfolding SKILL_AUTHORIZATION_STATES_def by simp
  then show ?thesis
  proof (elim disjE)
    assume "in_state r = ''trusted''"
    with row(2,3) show ?thesis by (simp add: sound_row_def valid_authorization_def bundled_row_def)
  next
    assume "in_state r = ''quarantined''"
    with row(3) show ?thesis by (simp add: sound_row_def valid_authorization_def)
  next
    assume "in_state r = ''authorized''"
    with row(3) assms(2) show ?thesis by (simp add: sound_row_def valid_authorization_def)
  qed
qed

lemma find_installation_id: "find_installation w cid = Some r \<Longrightarrow> in_catalog_id r = cid"
  unfolding find_installation_def by (rule lookup_by_key)

lemma reviewed_one_row:
  assumes "reviewed granted w" "one_row cid s w w'" "\<And>k. k \<noteq> cid \<Longrightarrow> granted' k = granted k"
    and "in_state (is_row s) = ''authorized'' \<Longrightarrow> granted' (in_catalog_id (is_row s)) = Some (in_policy (is_row s), in_digest (is_row s))"
  shows "reviewed granted' w'"
  unfolding reviewed_def
proof (intro allI impI)
  fix k r
  assume r: "find_installation w' k = Some r"
  show "sound_row granted' r"
  proof (cases "k = cid")
    case True
    with r assms(2) obtain n where "row_to_installed n r = Inr s" "is_row s = r" by (auto simp: one_row_def)
    with assms(4) show ?thesis by (intro read_sound_row) auto
  next
    case False
    with r assms(2) have old: "find_installation w k = Some r" by (simp add: one_row_def)
    with assms(1) have "sound_row granted r" by (auto simp: reviewed_def)
    with assms(3)[OF False] find_installation_id[OF old] show ?thesis by (simp add: sound_row_def)
  qed
qed

lemma opened_reviewed: "reviewed (\<lambda>_. None) \<lparr>sw_db = initialize True now legacy, sw_packages = packages\<rparr>"
proof -
  have row: "sound_row (\<lambda>_. None) (migrated_row now r)" for r
    by (auto simp: sound_row_def migrated_row_def bundled_row_def)
  show ?thesis
    by (auto simp: reviewed_def find_installation_def initialize_def migrate_authorization_def increment_revision_def
        dest!: lookup_by_SomeD intro: row)
qed

lemma reviewed_forget:
  assumes "reviewed granted w" "\<And>k. find_installation w' k = (if k = cid then None else find_installation w k)"
  shows "reviewed (granted(cid := None)) w'"
  unfolding reviewed_def
proof (intro allI impI)
  fix k r
  assume r: "find_installation w' k = Some r"
  with assms(2) have old: "k \<noteq> cid" "find_installation w k = Some r" by (simp_all split: if_splits)
  with assms(1) have "sound_row granted r" by (simp add: reviewed_def)
  with old(1) find_installation_id[OF old(2)] show "sound_row (granted(cid := None)) r" by (simp add: sound_row_def)
qed

lemma reviewed_step:
  assumes "reviewed granted w" and "apply_op env now x w = (w', Inr ())"
  shows "reviewed (decide x w w' granted) w'"
proof (cases x)
  case (Op_Install item skill market n)
  with assms(2) obtain s where "install env now item skill market n w = (w', Inr s)"
    by (cases "install env now item skill market n w") (auto simp: map_sum_Inr)
  then show ?thesis
  proof (cases rule: install_effect)
    case same
    then have "decide x w w' granted = granted" unfolding Op_Install
      by (cases item) (simp_all add: find_installation_def)
    with same assms(1) show ?thesis by (simp add: reviewed_def find_installation_def)
  next
    case (wrote rec old)
    have "in_state (is_row s) \<noteq> ''authorized''" by (simp add: wrote(3) installed_row_def Let_def)
    then have "reviewed granted w'" "reviewed (granted(field_text rec ''catalog_id'' := None)) w'"
      by (rule_tac reviewed_one_row[OF assms(1) wrote(2)]; simp)+
    then show ?thesis unfolding Op_Install wrote(1) by (simp add: Let_def)
  qed
next
  case (Op_Enable cid on n)
  with assms(2) obtain s where "set_enabled env now cid on n w = (w', Inr s)"
    by (cases "set_enabled env now cid on n w") (auto simp: map_sum_Inr)
  then show ?thesis
  proof (cases rule: set_enabled_effect)
    case (wrote r)
    have "sound_row granted r" using assms(1) wrote(2) by (simp add: reviewed_def)
    then have "in_state r = ''authorized'' \<Longrightarrow> granted (in_catalog_id r) = Some (in_policy r, in_digest r)"
      by (simp add: sound_row_def)
    then have "reviewed granted w'" by (intro reviewed_one_row[OF assms(1) wrote(1)]) (simp_all add: wrote(3))
    then show ?thesis by (simp add: Op_Enable)
  qed (use assms(1) Op_Enable in simp)
next
  case (Op_Authorize cid policy digest n)
  with assms(2) obtain s where "set_authorization env now cid policy digest n w = (w', Inr s)"
    by (cases "set_authorization env now cid policy digest n w") (auto simp: map_sum_Inr)
  then show ?thesis
  proof (cases rule: set_authorization_effect)
    case (same r)
    have "sound_row (granted(cid \<mapsto> (policy, digest))) q" if q: "find_installation w k = Some q" for k q
    proof -
      have sound: "sound_row granted q" using assms(1) q by (simp add: reviewed_def)
      show ?thesis
      proof (cases "k = cid")
        case True
        with same q have "q = r" by simp
        with sound same(3,4) show ?thesis by (auto simp: sound_row_def)
      next
        case False
        with sound find_installation_id[OF q] show ?thesis by (simp add: sound_row_def)
      qed
    qed
    with same Op_Authorize show ?thesis by (simp add: reviewed_def)
  next
    case (wrote r state pol authorized on)
    have "in_catalog_id (is_row s) = cid" using find_installation_id[OF wrote(2)] by (simp add: wrote(4) grant_row_def)
    then have "reviewed (granted(cid \<mapsto> (policy, digest))) w'"
      by (intro reviewed_one_row[OF assms(1) wrote(1)]) (simp_all add: wrote(3-5) grant_row_def)
    then show ?thesis by (simp add: Op_Authorize)
  qed
next
  case (Op_Uninstall cid n)
  with assms(2) obtain y where "uninstall cid n w = (w', Inr y)"
    by (cases "uninstall cid n w") (auto simp: map_sum_Inr)
  then show ?thesis
  proof (cases rule: uninstall_effect)
    case same
    then have "find_installation w' k = (if k = cid then None else find_installation w k)" for k by simp
    with assms(1) show ?thesis unfolding Op_Uninstall by (simp add: reviewed_forget)
  next
    case removed
    with assms(1) show ?thesis unfolding Op_Uninstall by (simp add: reviewed_forget)
  qed
next
  case (Op_Source sid on n)
  with assms(2) obtain y where "set_source_enabled now sid on n w = (w', Inr y)"
    by (cases "set_source_enabled now sid on n w") (auto simp: map_sum_Inr)
  then have "sd_rows (sw_db w') = sd_rows (sw_db w)" by (auto dest: set_source_effect)
  with assms(1) Op_Source show ?thesis by (simp add: reviewed_def find_installation_def)
next
  case (Op_Damage packages)
  with assms show ?thesis by (auto simp: reviewed_def find_installation_def)
qed

lemma run_reviewed: "skill_run env granted w \<Longrightarrow> reviewed granted w"
proof (induction rule: skill_run.induct)
  case (rejected granted w now x w' e)
  then have "sw_db w' = sw_db w" by (blast dest: error_keeps_db)
  with rejected.IH show ?case by (simp add: reviewed_def find_installation_def)
qed (auto intro: opened_reviewed reviewed_step)

lemma read_manifest_bytes:
  assumes "read_manifest_of env w s = Inr m"
  obtains skill market where "compute_package_digest env skill market = in_digest (is_row s)"
    "manifest_from_bytes (ke_yaml env) skill (Some (in_name (is_row s))) = Inr m"
  using assms
  by (auto simp: read_manifest_of_def Let_def verify_installed_package_def verify_package_dir_def package_path_def map_sum_Inr
      split: sum.splits option.splits skill_package.splits package_entry.splits if_splits)

section \<open>An example\<close>

text \<open>A skill from a market is installed, then authorized.\<close>

definition memo_env :: skill_env where
  "memo_env = \<lparr>ke_sha256 = (\<lambda>s. replicate 63 (CHR ''a'') @ [char_of (48 + length s mod 10)]),
     ke_json = (\<lambda>s. if s = ''{}'' then Some (JObj []) else None),
     ke_yaml = (\<lambda>s. Fm_Map [(Some ''name'', JStr ''memo''), (Some ''description'', JStr ''Writes memos.'')])\<rparr>"

definition memo_skill :: string where
  "memo_skill = ''---'' @ [CHR 0x0A] @ ''name: memo'' @ [CHR 0x0A] @ ''---'' @ [CHR 0x0A] @ ''Be brief.''"

definition memo_digest :: string where
  "memo_digest = compute_package_digest memo_env memo_skill ''{}''"

definition memo_record :: json where
  "memo_record = JObj [(''catalog_id'', JStr ''market:memo''), (''market_id'', JStr ''memo''), (''name'', JStr ''memo''),
     (''title'', JStr ''Memo''), (''version'', JStr ''1.0.0''), (''digest'', JStr memo_digest)]"

definition memo_install :: registry_op where
  "memo_install = Op_Install memo_record memo_skill ''{}'' (Some 0)"

definition memo_installed :: skill_world where
  "memo_installed = fst (apply_op memo_env ''t1'' memo_install new_registry)"

definition memo_decision :: registry_op where
  "memo_decision = Op_Authorize ''market:memo'' ''implicit'' memo_digest (Some 1)"

definition memo_authorized :: skill_world where
  "memo_authorized = fst (apply_op memo_env ''t2'' memo_decision memo_installed)"

lemma memo_run:
  "apply_op memo_env ''t1'' memo_install new_registry = (memo_installed, Inr ())"
  "apply_op memo_env ''t2'' memo_decision memo_installed = (memo_authorized, Inr ())"
proof -
  have "snd (apply_op memo_env ''t1'' memo_install new_registry) = Inr ()" by code_simp
  then show "apply_op memo_env ''t1'' memo_install new_registry = (memo_installed, Inr ())" by (simp add: prod_eq_iff memo_installed_def)
  have "snd (apply_op memo_env ''t2'' memo_decision memo_installed) = Inr ()" by code_simp
  then show "apply_op memo_env ''t2'' memo_decision memo_installed = (memo_authorized, Inr ())" by (simp add: prod_eq_iff memo_authorized_def)
qed

definition memo_xs :: "(string \<times> registry_op) list" where
  "memo_xs = [(''t2'', Op_Enable ''market:memo'' True None), (''t3'', Op_Source ''market'' False (Some 0))]"

definition memo_row :: installation where
  "memo_row = the (find_installation memo_authorized ''market:memo'')"

definition memo_skill_read :: installed_skill where
  "memo_skill_read = \<lparr>is_row = memo_row, is_record = [], is_revision = None\<rparr>"

lemma memo_listing:
  "map_sum id (\<lambda>x. (fst x, map (in_catalog_id \<circ> is_row) (snd x))) (list_with_revision memo_env memo_installed False) = Inr (1, [''market:memo''])"
  "snd (apply_op memo_env ''t4'' memo_decision (run_ops memo_env memo_xs memo_installed)) = Inr ()"
  by code_simp+

lemma memo_reading:
  "find_installation memo_authorized ''market:memo'' \<noteq> None" "in_enabled memo_row" "in_state memo_row = ''authorized''"
  "map_sum id sk_instructions (read_manifest_of memo_env memo_authorized memo_skill_read) = Inr ''Be brief.''"
  by code_simp+

lemma memo_reachable: "skill_run memo_env [''market:memo'' \<mapsto> (''implicit'', memo_digest)] memo_authorized"
proof -
  have "new_registry = \<lparr>sw_db = initialize True [] (sw_db new_registry), sw_packages = []\<rparr>"
    by (simp add: new_registry_def initialize_def migrate_authorization_def)
  then have "skill_run memo_env (\<lambda>_. None) new_registry" by (metis skill_run.opened)
  from skill_run.accepted[OF this memo_run(1)]
  have "skill_run memo_env (decide memo_install new_registry memo_installed (\<lambda>_. None)) memo_installed" .
  moreover have "decide memo_install new_registry memo_installed (\<lambda>_. None) = (\<lambda>_. None)"
    by (simp add: memo_install_def memo_record_def Let_def)
  ultimately have "skill_run memo_env (\<lambda>_. None) memo_installed" by simp
  from skill_run.accepted[OF this memo_run(2)] show ?thesis by (simp add: memo_decision_def)
qed

text \<open>
  Property C24 (revision): a write that is accepted with the revision of a listing finds exactly the rows of that listing,
  whatever was done to the registry between the two.
\<close>

theorem accepted_write_sees_the_listing:
  assumes "list_with_revision env w False = Inr (n, items)"
    and "apply_op env now x (run_ops env xs w) = (w', Inr ())" "op_expected x = Some n"
  shows "sw_db (run_ops env xs w) = sw_db w \<and> list_with_revision env (run_ops env xs w) False = Inr (n, items)"
proof -
  have "sd_revision (sw_db w) = Some n"
    using assms(1) by (auto simp: list_with_revision_def read_revision_def map_sum_Inr split: sum.splits option.splits if_splits)
  then have same: "sw_db (run_ops env xs w) = sw_db w"
    using accepted_revision[OF assms(2,3)] by (simp add: run_ops_def registry.same_number_same_content)
  with assms(1) show ?thesis by (simp add: unverified_listing[OF same])
qed

theorem accepted_write_sees_the_listing_witness:
  "\<exists>items. list_with_revision memo_env memo_installed False = Inr (1, items) \<and> map (in_catalog_id \<circ> is_row) items = [''market:memo''] \<and>
    sw_db (run_ops memo_env memo_xs memo_installed) = sw_db memo_installed"
proof -
  obtain items where items: "list_with_revision memo_env memo_installed False = Inr (1, items)"
      "map (in_catalog_id \<circ> is_row) items = [''market:memo'']"
    using memo_listing(1) by (auto simp: map_sum_Inr)
  have "apply_op memo_env ''t4'' memo_decision (run_ops memo_env memo_xs memo_installed) =
      (fst (apply_op memo_env ''t4'' memo_decision (run_ops memo_env memo_xs memo_installed)), Inr ())"
    using memo_listing(2) by (simp add: prod_eq_iff)
  from accepted_write_sees_the_listing[OF items(1) this] items show ?thesis by (simp add: memo_decision_def)
qed

text \<open>
  Property C23 (reviewed): in every run of the registry, whatever was done to the packages on disk, the instructions read for
  an enabled skill are bytes with the digest of its row, and the row is bundled with the product or the last decision on
  it granted exactly that digest and the policy of the row, which is not none.
\<close>

theorem enabled_instructions_were_reviewed:
  assumes "skill_run env granted w" "find_installation w cid = Some r" "in_enabled r"
    and "is_row s = r" "read_manifest_of env w s = Inr m"
  shows "\<exists>skill market. manifest_from_bytes (ke_yaml env) skill (Some (in_name r)) = Inr m \<and>
    in_digest r = compute_package_digest env skill market \<and>
    (in_state r = ''trusted'' \<and> bundled_row r \<or>
     granted cid = Some (in_policy r, compute_package_digest env skill market) \<and> in_policy r \<in> {''explicit_only'', ''implicit''})"
proof -
  obtain skill market where bytes: "compute_package_digest env skill market = in_digest r"
      "manifest_from_bytes (ke_yaml env) skill (Some (in_name r)) = Inr m"
    using read_manifest_bytes[OF assms(5)] assms(4) by blast
  have "sound_row granted r" using run_reviewed[OF assms(1)] assms(2) by (simp add: reviewed_def)
  with bytes assms(3) find_installation_id[OF assms(2)] show ?thesis
    by (intro exI[of _ skill] exI[of _ market]) (auto simp: sound_row_def)
qed

theorem enabled_instructions_were_reviewed_witness:
  "\<exists>m skill market. sk_instructions m = ''Be brief.'' \<and>
    manifest_from_bytes (ke_yaml memo_env) skill (Some (in_name memo_row)) = Inr m \<and>
    memo_digest = compute_package_digest memo_env skill market"
proof -
  obtain m where m: "read_manifest_of memo_env memo_authorized memo_skill_read = Inr m" "sk_instructions m = ''Be brief.''"
    using memo_reading(4) by (auto simp: map_sum_Inr)
  have row: "find_installation memo_authorized ''market:memo'' = Some memo_row"
    using memo_reading(1) by (auto simp: memo_row_def)
  have s: "is_row memo_skill_read = memo_row" by (simp add: memo_skill_read_def)
  from enabled_instructions_were_reviewed[OF memo_reachable row memo_reading(2) s m(1)] m(2) memo_reading(3)
  show ?thesis by auto
qed

end
