(* ===== verification/Py_Url.thy ===== *)
theory Py_Url
  imports Py_Numbers
begin

text \<open>
  What the code uses of \<^verbatim>\<open>urllib.parse.urlsplit\<close>, \<^verbatim>\<open>ipaddress.ip_address\<close> and \<^verbatim>\<open>PurePosixPath\<close> (Python
  3.11 to 3.13). A URL splits into scheme, network location, path, query and fragment. A location with
  brackets must hold an IPvFuture address or an IPv6 literal; the first is a host name, and every other
  bracketed location is an error here, since the callers refuse IP literals as well. Upper and lower
  case are those of ASCII letters, and the normalization check of non-ASCII locations is not modelled.
\<close>

section \<open>Characters\<close>

definition is_upper_letter :: "char \<Rightarrow> bool" where
  "is_upper_letter c = char_between 65 90 c"

definition is_letter :: "char \<Rightarrow> bool" where
  "is_letter c = (char_between 65 90 c \<or> char_between 97 122 c)"

definition scheme_char :: "char \<Rightarrow> bool" where
  "scheme_char c = (is_letter c \<or> is_digit c \<or> c \<in> set ''+-.'')"

definition control_or_space :: "char \<Rightarrow> bool" where
  "control_or_space c = char_between 0 32 c"

definition unsafe_url_char :: "char \<Rightarrow> bool" where
  "unsafe_url_char c = (let n = (of_char c :: nat) in n = 9 \<or> n = 10 \<or> n = 13)"

text \<open>\<^verbatim>\<open>s.partition(c)\<close> and \<^verbatim>\<open>s.rpartition(c)\<close>: before, whether found, after.\<close>

definition partition_at :: "char \<Rightarrow> string \<Rightarrow> string \<times> bool \<times> string" where
  "partition_at c s = (case break_at (\<lambda>x. x = c) s of (a, None) \<Rightarrow> (a, False, []) | (a, Some b) \<Rightarrow> (a, True, b))"

definition rpartition_at :: "char \<Rightarrow> string \<Rightarrow> string \<times> bool \<times> string" where
  "rpartition_at c s = (case break_at (\<lambda>x. x = c) (rev s) of
     (a, None) \<Rightarrow> ([], False, s) | (a, Some b) \<Rightarrow> (rev b, True, rev a))"

definition rstrip_char :: "char \<Rightarrow> string \<Rightarrow> string" where
  "rstrip_char c s = rev (dropWhile (\<lambda>x. x = c) (rev s))"

section \<open>URLs\<close>

record split_url =
  url_scheme :: string
  url_netloc :: string
  url_path :: string
  url_query :: string
  url_fragment :: string

text \<open>\<^verbatim>\<open>v[hex]+\.(.+)\<close> between brackets.\<close>

definition ip_future :: "string \<Rightarrow> bool" where
  "ip_future s = (case s of
       [] \<Rightarrow> False
     | c # cs \<Rightarrow> c = CHR ''v'' \<and> (case break_at (\<lambda>x. x = CHR ''.'') cs of
         (h, Some rest) \<Rightarrow> h \<noteq> [] \<and> list_all (\<lambda>x. is_digit x \<or> char_between 97 102 x \<or> char_between 65 70 x) h \<and>
           rest \<noteq> [] \<and> list_all (\<lambda>x. of_char x \<noteq> (10 :: nat)) rest
       | _ \<Rightarrow> False))"

definition bracketed_host :: "string \<Rightarrow> (string \<times> string \<times> string) option" where
  "bracketed_host netloc =
     (case rpartition_at (CHR ''@'') netloc of (_, _, hostinfo) \<Rightarrow>
      (case partition_at (CHR ''['') hostinfo of
         (before, True, rest) \<Rightarrow> (case partition_at (CHR '']'') rest of (host, _, port) \<Rightarrow> Some (before, host, port))
       | _ \<Rightarrow> None))"

definition check_netloc :: "string \<Rightarrow> bool" where
  "check_netloc netloc =
     (let lb = CHR ''['' \<in> set netloc; rb = CHR '']'' \<in> set netloc
      in if lb \<noteq> rb then False
         else if lb then (case bracketed_host netloc of
             Some (before, host, port) \<Rightarrow> before = [] \<and> (port = [] \<or> starts_with port '':'') \<and> ip_future host
           | None \<Rightarrow> False)
         else True)"

definition take_scheme :: "string \<Rightarrow> string \<times> string" where
  "take_scheme url = (case break_at (\<lambda>c. c = CHR '':'') url of
       (a, Some b) \<Rightarrow> if a \<noteq> [] \<and> is_letter (hd a) \<and> list_all scheme_char a then (lower a, b) else ([], url)
     | _ \<Rightarrow> ([], url))"

definition netloc_end :: "char \<Rightarrow> bool" where
  "netloc_end c = (c \<in> set ''/?#'')"

definition urlsplit :: "string \<Rightarrow> split_url result" where
  "urlsplit s =
     (case take_scheme (filter (\<lambda>c. \<not> unsafe_url_char c) (dropWhile control_or_space s)) of (scheme, rest) \<Rightarrow>
        (let has_netloc = starts_with rest ''//'';
             netloc = (if has_netloc then takeWhile (\<lambda>c. \<not> netloc_end c) (drop 2 rest) else []);
             after = (if has_netloc then dropWhile (\<lambda>c. \<not> netloc_end c) (drop 2 rest) else rest)
         in if has_netloc \<and> \<not> check_netloc netloc then Inl (ValueError ''Invalid IPv6 URL'')
            else (case partition_at (CHR ''#'') after of (u, _, fragment) \<Rightarrow>
                 (case partition_at (CHR ''?'') u of (path, _, query) \<Rightarrow>
                    Inr \<lparr>url_scheme = scheme, url_netloc = netloc, url_path = path, url_query = query, url_fragment = fragment\<rparr>))))"

definition has_userinfo :: "split_url \<Rightarrow> bool" where
  "has_userinfo u = (case rpartition_at (CHR ''@'') (url_netloc u) of (_, found, _) \<Rightarrow> found)"

definition hostname :: "split_url \<Rightarrow> string option" where
  "hostname u =
     (let raw = (case bracketed_host (url_netloc u) of
                   Some (_, host, _) \<Rightarrow> host
                 | None \<Rightarrow> (case rpartition_at (CHR ''@'') (url_netloc u) of (_, _, hostinfo) \<Rightarrow>
                              fst (partition_at (CHR '':'') hostinfo)))
      in if raw = [] then None
         else (case partition_at (CHR ''%'') raw of (h, found, zone) \<Rightarrow> Some (lower h @ (if found then ''%'' else []) @ zone)))"

section \<open>IP literals\<close>

text \<open>A host outside brackets holds no colon, so only the four numbers of an IPv4 address apply.\<close>

definition ipv4_number :: "string \<Rightarrow> bool" where
  "ipv4_number s \<longleftrightarrow> plain_number s \<and> length s \<le> 3 \<and> digits_value s \<le> 255"

definition ip_literal :: "string \<Rightarrow> bool" where
  "ip_literal s = (let ps = split_on (CHR ''.'') s in length ps = 4 \<and> list_all ipv4_number ps)"

section \<open>Pure POSIX paths\<close>

text \<open>The components of a relative path: empty ones and single dots are dropped.\<close>

definition path_parts :: "string \<Rightarrow> string list" where
  "path_parts s = filter (\<lambda>p. p \<noteq> [] \<and> p \<noteq> ''.'') (split_on (CHR ''/'') s)"

lemma split_on_app: "split_on c (p @ c # s) = split_on c p @ split_on c s"
  by (induction p) (auto split: list.splits)

lemma path_parts_slash: "path_parts (a @ CHR ''/'' # b) = path_parts a @ path_parts b"
  by (simp add: path_parts_def split_on_app)

section \<open>Glob patterns\<close>

text \<open>
  \<^verbatim>\<open>fnmatch\<close> patterns and \<^verbatim>\<open>PurePosixPath.match\<close> for an absolute path and pattern (Python 3.11 to 3.13): the
  components are matched one by one. \<^verbatim>\<open>?\<close> and \<^verbatim>\<open>[...]\<close> stand for one byte of the UTF-8 text.
\<close>

section \<open>Patterns\<close>

datatype glob_token = Star | One_Of bool "(char \<times> char) list"

text \<open>The ranges of a bracket; a range whose ends are in the wrong order holds no character.\<close>

fun class_ranges :: "string \<Rightarrow> (char \<times> char) list" where
  "class_ranges [] = []"
| "class_ranges [a] = [(a, a)]"
| "class_ranges [a, b] = [(a, a), (b, b)]"
| "class_ranges (a # b # c # r) =
     (if b = CHR ''-'' then (a, c) # class_ranges r else (a, a) # class_ranges (b # c # r))"

definition in_ranges :: "char \<Rightarrow> (char \<times> char) list \<Rightarrow> bool" where
  "in_ranges c rs = list_ex (\<lambda>(a, b). (of_char a :: nat) \<le> of_char c \<and> (of_char c :: nat) \<le> of_char b) rs"

text \<open>What follows an opening bracket; \<open>None\<close> when no bracket closes it, and it stands for itself.\<close>

definition parse_class :: "string \<Rightarrow> (glob_token \<times> string) option" where
  "parse_class s =
     (let neg = starts_with s ''!''; body = (if neg then tl s else s);
          lead = (if starts_with body '']'' then '']'' else []);
          rest = (if starts_with body '']'' then tl body else body)
      in case break_at (\<lambda>c. c = CHR '']'') rest of
           (inside, Some r) \<Rightarrow> Some (One_Of neg (class_ranges (lead @ inside)), r)
         | _ \<Rightarrow> None)"

lemma parse_class_shorter: "parse_class s = Some (t, r) \<Longrightarrow> length r < length s"
proof -
  assume p: "parse_class s = Some (t, r)"
  obtain x inside where "length x \<le> length s" "break_at (\<lambda>c. c = CHR '']'') x = (inside, Some r)"
  proof -
    let ?body = "if starts_with s ''!'' then tl s else s"
    let ?rest = "if starts_with ?body '']'' then tl ?body else ?body"
    have "length ?rest \<le> length s" by simp
    moreover obtain inside where "break_at (\<lambda>c. c = CHR '']'') ?rest = (inside, Some r)"
      using p by (auto simp: parse_class_def Let_def split: prod.splits option.splits if_splits)
    ultimately show thesis using that by blast
  qed
  then show ?thesis using break_at_Some[of "\<lambda>c. c = CHR '']''" x] by fastforce
qed

function (sequential) glob_tokens :: "string \<Rightarrow> glob_token list" where
  "glob_tokens [] = []"
| "glob_tokens (c # s) =
     (if c = CHR ''*'' then Star # glob_tokens s
      else if c = CHR ''?'' then One_Of True [] # glob_tokens s
      else if c = CHR ''['' then
        (case parse_class s of Some (t, r) \<Rightarrow> t # glob_tokens r | None \<Rightarrow> One_Of False [(c, c)] # glob_tokens s)
      else One_Of False [(c, c)] # glob_tokens s)"
  by pat_completeness auto
termination glob_tokens
  by (relation "measure length") (auto dest: parse_class_shorter)

fun glob_match :: "glob_token list \<Rightarrow> string \<Rightarrow> bool" where
  "glob_match [] s = (s = [])"
| "glob_match (One_Of neg rs # ts) [] = False"
| "glob_match (One_Of neg rs # ts) (c # s) = (in_ranges c rs \<noteq> neg \<and> glob_match ts s)"
| "glob_match (Star # ts) [] = glob_match ts []"
| "glob_match (Star # ts) (c # s) = (glob_match ts (c # s) \<or> glob_match (Star # ts) s)"

definition fnmatch :: "string \<Rightarrow> string \<Rightarrow> bool" where
  "fnmatch pattern s = glob_match (glob_tokens pattern) s"

text \<open>A pattern without special characters matches itself only, and a single star matches everything.\<close>

lemma glob_match_Star [simp]: "glob_match [Star] s"
  by (induction s) simp_all

lemma in_ranges_one [simp]: "in_ranges c [(a, a)] \<longleftrightarrow> c = a"
  by (auto simp: in_ranges_def)

lemma fnmatch_literal:
  "set p \<inter> set ''*?['' = {} \<Longrightarrow> fnmatch p s \<longleftrightarrow> s = p"
proof (induction p arbitrary: s)
  case (Cons c p)
  then show ?case by (cases s) (auto simp: fnmatch_def)
qed (auto simp: fnmatch_def)

section \<open>Paths\<close>

text \<open>The root of an absolute path: exactly two leading slashes are kept apart.\<close>

definition posix_root :: "string \<Rightarrow> string" where
  "posix_root s = (case length (takeWhile (\<lambda>c. c = CHR ''/'') s) of 0 \<Rightarrow> [] | Suc (Suc 0) \<Rightarrow> ''//'' | _ \<Rightarrow> ''/'')"

definition posix_match :: "string \<Rightarrow> string \<Rightarrow> bool" where
  "posix_match path pattern \<longleftrightarrow> posix_root path = posix_root pattern \<and>
     list_all2 fnmatch (path_parts pattern) (path_parts path)"

end
