(* ===== verification/Capability_Grants.thy ===== *)
theory Capability_Grants
  imports Py_Url Row_Order Ontology_Types
begin

text \<open>
  Capability grants of Apps (\<^verbatim>\<open>backend/capabilities/models.py\<close> and \<open>ontology.py\<close>): the categories, the
  normalization of the scope of a grant, of a list of grants and of a runtime contract. A scope is a JSON object,
  as the manifest of an App carries it. \<open>digest\<close> stands for the hash of the canonical text of grants.
\<close>

section \<open>Categories\<close>

record capability_category =
  cc_id :: string
  cc_sdk_methods :: "string list"
  cc_scope_fields :: "string list"
  cc_required :: "string list"
  cc_optional :: "string list"
  cc_example :: json
  cc_effect :: string
  cc_approval_required :: bool

definition texts :: "string list \<Rightarrow> json" where
  "texts ss = JArr (map JStr ss)"

definition category :: "string \<Rightarrow> string \<Rightarrow> string list \<Rightarrow> string list \<Rightarrow> json \<Rightarrow> string \<Rightarrow> capability_category" where
  "category i sdk_method required optional example effect = \<lparr>cc_id = i, cc_sdk_methods = [sdk_method],
     cc_scope_fields = required @ optional, cc_required = required, cc_optional = optional, cc_example = example,
     cc_effect = effect, cc_approval_required = True\<rparr>"

definition network_example :: json where
  "network_example = JObj [(''sources'', JObj [(''weather-api'', JObj [(''base_url'', JStr ''https://api.example.com''),
     (''paths'', texts [''/v1/forecast'']), (''methods'', texts [''GET'']), (''response_limit'', JInt 1048576)])])]"

definition CAPABILITY_ONTOLOGY :: "capability_category list" where
  "CAPABILITY_ONTOLOGY =
     [category ''device.location'' ''location.getCurrentPosition'' [''operations''] []
        (JObj [(''operations'', texts [''current''])]) ''read'',
      category ''capability.invoke'' ''capabilities.invoke'' [''catalog_ids'', ''actions''] []
        (JObj [(''catalog_ids'', texts [''mcp:calendar:calendar'']), (''actions'', texts [''list-events''])]) ''execute'',
      category ''file.delete'' ''files.delete'' [''paths''] [] (JObj [(''paths'', texts [''cache/**''])]) ''delete'',
      (category ''file.read'' ''files.list'' [''paths''] [] (JObj [(''paths'', texts [''cache/**''])]) ''read'')
        \<lparr>cc_sdk_methods := [''files.list'', ''files.read'']\<rparr>,
      category ''file.write'' ''files.write'' [''paths'', ''max_bytes''] []
        (JObj [(''paths'', texts [''cache/**'']), (''max_bytes'', JInt 1048576)]) ''write'',
      category ''graph.mutate'' ''graph.mutate'' [''entities'', ''operations''] [''edge_types'']
        (JObj [(''entities'', texts [''Task'']), (''operations'', texts [''create'', ''update''])]) ''write'',
      category ''graph.query'' ''graph.subscribe'' [''entities''] [] (JObj [(''entities'', texts [''Task''])]) ''read'',
      category ''network.request'' ''net.request'' [''sources''] [] network_example ''network'']"

definition find_category :: "string \<Rightarrow> capability_category option" where
  "find_category i = lookup_by cc_id i CAPABILITY_ONTOLOGY"

definition capability_category_ids :: "string list" where
  "capability_category_ids = order_by str_less (map cc_id CAPABILITY_ONTOLOGY)"

section \<open>Lists of text\<close>

definition MAX_SCOPE_ITEMS :: nat where
  "MAX_SCOPE_ITEMS = 100"

definition sorted_set :: "string list \<Rightarrow> string list" where
  "sorted_set ss = order_by str_less (remdups ss)"

definition string_list :: "string \<Rightarrow> json option \<Rightarrow> string list result" where
  "string_list field value =
     (case value of
        Some (JArr xs) \<Rightarrow>
          if xs = [] \<or> MAX_SCOPE_ITEMS < length xs
          then Inl (ValueError (field @ '' must be a non-empty array with at most 100 items''))
          else if list_ex (\<lambda>x. case x of JStr s \<Rightarrow> strip s = [] | _ \<Rightarrow> True) xs
          then Inl (ValueError (field @ '' entries must be non-empty strings''))
          else Inr (sorted_set (map (\<lambda>x. strip (str_or_empty (Some x))) xs))
      | _ \<Rightarrow> Inl (ValueError (field @ '' must be a non-empty array with at most 100 items'')))"

definition path_pattern_ok :: "string \<Rightarrow> bool" where
  "path_pattern_ok path \<longleftrightarrow> \<not> starts_with path ''/'' \<and> CHR 0x5C \<notin> set path \<and> CHR 0x00 \<notin> set path \<and>
     ''..'' \<notin> set (path_parts path)"

definition path_patterns :: "json option \<Rightarrow> string list result" where
  "path_patterns value =
     (case string_list ''paths'' value of Inl e \<Rightarrow> Inl e | Inr paths \<Rightarrow>
        if list_all path_pattern_ok paths then Inr paths
        else Inl (ValueError ''paths must contain normalized relative app://data patterns''))"

section \<open>Network sources\<close>

definition source_error :: "string \<Rightarrow> string \<Rightarrow> py_error" where
  "source_error i what = ValueError (''network source '' @ quoted i @ what)"

definition check_base_url :: "string \<Rightarrow> json option \<Rightarrow> string result" where
  "check_base_url i v =
     (let refuse = source_error i '' base_url must be a credential-free HTTPS origin''
      in case v of
        Some (JStr s) \<Rightarrow>
          (case urlsplit s of Inl e \<Rightarrow> Inl e | Inr u \<Rightarrow>
             if url_scheme u \<noteq> ''https'' \<or> hostname u = None \<or> has_userinfo u \<or> url_path u \<notin> {[], ''/''} \<or>
                url_query u \<noteq> [] \<or> url_fragment u \<noteq> [] then Inl refuse
             else let host = lower (rstrip_char (CHR ''.'') (the (hostname u)))
                  in if ip_literal host then Inl (source_error i '' HTTPS origin cannot use an IP literal'')
                     else if host = ''localhost'' \<or> ends_with host ''.localhost'' \<or> ends_with host ''.local''
                     then Inl (source_error i '' HTTPS origin must use a public hostname'')
                     else Inr (rstrip_char (CHR ''/'') s))
      | _ \<Rightarrow> Inl refuse)"

definition url_path_ok :: "string \<Rightarrow> bool result" where
  "url_path_ok path =
     (case urlsplit path of Inl e \<Rightarrow> Inl e | Inr u \<Rightarrow>
        Inr (starts_with path ''/'' \<and> \<not> starts_with path ''//'' \<and> url_scheme u = [] \<and> url_netloc u = [] \<and>
          url_query u = [] \<and> url_fragment u = [] \<and> ''..'' \<notin> set (split_on (CHR ''/'') path)))"

definition check_url_path :: "string \<Rightarrow> string \<Rightarrow> unit result" where
  "check_url_path i path =
     (case url_path_ok path of Inl e \<Rightarrow> Inl e
      | Inr ok \<Rightarrow> if ok then Inr () else Inl (source_error i '' paths must be absolute URL paths''))"

definition check_limit :: "string \<Rightarrow> json option \<Rightarrow> json result" where
  "check_limit i v =
     (case v of
        None \<Rightarrow> Inr (JInt 1048576)
      | Some (JInt n) \<Rightarrow> if 1024 \<le> n \<and> n \<le> 2097152 then Inr (JInt n)
          else Inl (source_error i '' response_limit must be between 1024 and 2097152'')
      | Some _ \<Rightarrow> Inl (source_error i '' response_limit must be between 1024 and 2097152''))"

definition source_fields :: "string list" where
  "source_fields = [''base_url'', ''paths'', ''methods'', ''response_limit'']"

definition unknown_fields :: "string list \<Rightarrow> (string \<times> json) list \<Rightarrow> string list" where
  "unknown_fields allowed kvs = order_by str_less (filter (\<lambda>k. k \<notin> set allowed) (map fst kvs))"

definition network_source :: "string \<Rightarrow> json \<Rightarrow> (string \<times> json) result" where
  "network_source i raw =
     (if \<not> kebab_case i then Inl (ValueError ''network source ids must be lowercase kebab-case'')
      else case raw of
        JObj kvs \<Rightarrow>
          if unknown_fields source_fields kvs \<noteq> []
          then Inl (source_error i ('' has unknown fields: '' @ join_with '', '' (unknown_fields source_fields kvs)))
          else (case check_base_url i (map_of kvs ''base_url'') of Inl e \<Rightarrow> Inl e | Inr base \<Rightarrow>
               (case string_list (''network source '' @ quoted i @ '' paths'') (map_of kvs ''paths'') of Inl e \<Rightarrow> Inl e | Inr paths \<Rightarrow>
               (case check_all (check_url_path i) paths of Inl e \<Rightarrow> Inl e | Inr _ \<Rightarrow>
               (case string_list (''network source '' @ quoted i @ '' methods'')
                    (case map_of kvs ''methods'' of None \<Rightarrow> Some (texts [''GET'']) | Some m \<Rightarrow> Some m) of
                  Inl e \<Rightarrow> Inl e
                | Inr methods \<Rightarrow>
                    if \<not> set methods \<subseteq> {''GET'', ''POST''}
                    then Inl (source_error i '' methods supports only GET and POST'')
                    else (case check_limit i (map_of kvs ''response_limit'') of Inl e \<Rightarrow> Inl e | Inr limit \<Rightarrow>
                      Inr (i, JObj [(''base_url'', JStr base), (''paths'', texts paths), (''methods'', texts methods),
                        (''response_limit'', limit)]))))))
      | _ \<Rightarrow> Inl (source_error i '' must be an object''))"

definition by_key :: "string \<times> json \<Rightarrow> string \<times> json \<Rightarrow> bool" where
  "by_key a b = str_less (fst a) (fst b)"

definition network_sources :: "json option \<Rightarrow> json result" where
  "network_sources value =
     (case value of
        Some (JObj kvs) \<Rightarrow>
          if kvs = [] \<or> 32 < length kvs
          then Inl (ValueError ''network.request sources must be a non-empty object with at most 32 entries'')
          else map_sum id JObj (check_all (\<lambda>kv. network_source (fst kv) (snd kv)) (order_by by_key kvs))
      | _ \<Rightarrow> Inl (ValueError ''network.request sources must be a non-empty object with at most 32 entries''))"

section \<open>Scopes\<close>

text \<open>\<^verbatim>\<open>[a-z0-9]+(?:[._:-][a-z0-9]+)*\<close>: pieces of letters and digits between single separators.\<close>

definition identifier_sep :: "char \<Rightarrow> bool" where
  "identifier_sep c = (c \<in> set ''._:-'')"

definition identifier_ok :: "string \<Rightarrow> bool" where
  "identifier_ok s = list_all (\<lambda>p. p \<noteq> [] \<and> list_all is_lower_alnum p)
     (split_on (CHR ''-'') (map (\<lambda>c. if identifier_sep c then CHR ''-'' else c) s))"

definition mutate_scope :: "(string \<times> json) list \<Rightarrow> json result" where
  "mutate_scope kvs =
     (case string_list ''graph.mutate entities'' (map_of kvs ''entities'') of Inl e \<Rightarrow> Inl e | Inr entities \<Rightarrow>
     (case string_list ''graph.mutate operations'' (map_of kvs ''operations'') of Inl e \<Rightarrow> Inl e | Inr operations \<Rightarrow>
        if \<not> set operations \<subseteq> {''create'', ''delete'', ''update''}
        then Inl (ValueError ''graph.mutate operations supports only create, update, and delete'')
        else let base = [(''entities'', texts entities), (''operations'', texts operations)]
        in (case map_of kvs ''edge_types'' of
              None \<Rightarrow> Inr (JObj base)
            | Some (JArr xs) \<Rightarrow> if xs = [] then Inr (JObj base)
                else map_sum id (\<lambda>ts. JObj (base @ [(''edge_types'', texts ts)]))
                  (string_list ''graph.mutate edge_types'' (Some (JArr xs)))
            | Some _ \<Rightarrow> Inl (ValueError ''graph.mutate edge_types must be an array with at most 100 items''))))"

definition write_scope :: "(string \<times> json) list \<Rightarrow> json result" where
  "write_scope kvs =
     (case map_of kvs ''max_bytes'' of
        Some (JInt n) \<Rightarrow>
          if 1 \<le> n \<and> n \<le> 2097152
          then map_sum id (\<lambda>ps. JObj [(''paths'', texts ps), (''max_bytes'', JInt n)]) (path_patterns (map_of kvs ''paths''))
          else Inl (ValueError ''file.write max_bytes must be an integer between 1 and 2097152'')
      | _ \<Rightarrow> Inl (ValueError ''file.write max_bytes must be an integer between 1 and 2097152''))"

definition invoke_scope :: "(string \<times> json) list \<Rightarrow> json result" where
  "invoke_scope kvs =
     (case string_list ''capability.invoke catalog_ids'' (map_of kvs ''catalog_ids'') of Inl e \<Rightarrow> Inl e | Inr catalogs \<Rightarrow>
     (case string_list ''capability.invoke actions'' (map_of kvs ''actions'') of Inl e \<Rightarrow> Inl e | Inr actions \<Rightarrow>
        if list_all identifier_ok (catalogs @ actions)
        then Inr (JObj [(''catalog_ids'', texts catalogs), (''actions'', texts actions)])
        else Inl (ValueError ''capability.invoke catalog_ids and actions contain an invalid identifier'')))"

definition location_scope :: "(string \<times> json) list \<Rightarrow> json result" where
  "location_scope kvs =
     (case string_list ''device.location operations'' (map_of kvs ''operations'') of Inl e \<Rightarrow> Inl e | Inr operations \<Rightarrow>
        if operations = [''current''] then Inr (JObj [(''operations'', texts operations)])
        else Inl (ValueError ''device.location supports only the current operation''))"

definition scope_of :: "string \<Rightarrow> (string \<times> json) list \<Rightarrow> json result" where
  "scope_of cat kvs =
     (if cat = ''device.location'' then location_scope kvs
      else if cat = ''graph.query''
      then map_sum id (\<lambda>es. JObj [(''entities'', texts es)]) (string_list ''graph.query entities'' (map_of kvs ''entities''))
      else if cat = ''graph.mutate'' then mutate_scope kvs
      else if cat = ''network.request'' then map_sum id (\<lambda>s. JObj [(''sources'', s)]) (network_sources (map_of kvs ''sources''))
      else if cat = ''file.read'' \<or> cat = ''file.delete''
      then map_sum id (\<lambda>ps. JObj [(''paths'', texts ps)]) (path_patterns (map_of kvs ''paths''))
      else if cat = ''file.write'' then write_scope kvs
      else if cat = ''capability.invoke'' then invoke_scope kvs
      else Inl (ValueError (''Unknown capability category '' @ quoted cat)))"

definition normalize_scope :: "string \<Rightarrow> json option \<Rightarrow> json result" where
  "normalize_scope cat value =
     (case value of
        Some (JObj kvs) \<Rightarrow>
          (case find_category cat of
             None \<Rightarrow> Inl (KeyError cat)
           | Some c \<Rightarrow>
               if unknown_fields (cc_scope_fields c) kvs \<noteq> []
               then Inl (ValueError (''Capability '' @ quoted cat @ '' has unknown scope fields: ''
                      @ join_with '', '' (unknown_fields (cc_scope_fields c) kvs)))
               else scope_of cat kvs)
      | _ \<Rightarrow> Inl (ValueError (''Capability '' @ quoted cat @ '' scope must be an object'')))"

section \<open>Grants\<close>

record capability_grant =
  cg_id :: string
  cg_scope :: json

text \<open>A value in a list of grants: a grant already made, or what a manifest or a proposal holds.\<close>

datatype grant_value = Grant capability_grant | Plain json

definition grant_from_dict :: "grant_value \<Rightarrow> capability_grant result" where
  "grant_from_dict value =
     (case value of
        Grant g \<Rightarrow> Inr g
      | Plain (JObj kvs) \<Rightarrow>
          if set (map fst kvs) \<noteq> {''id'', ''scope''} then Inl (ValueError ''Capability grant must contain exactly id and scope'')
          else (case map_of kvs ''id'' of
              Some (JStr i) \<Rightarrow>
                if find_category i = None then Inl (ValueError (''Unknown capability category '' @ quoted i))
                else map_sum id (\<lambda>s. \<lparr>cg_id = i, cg_scope = s\<rparr>) (normalize_scope i (map_of kvs ''scope''))
            | Some (JArr _) \<Rightarrow> Inl (TypeError ''unhashable type'')
            | Some (JObj _) \<Rightarrow> Inl (TypeError ''unhashable type'')
            | Some v \<Rightarrow> Inl (ValueError (''Unknown capability category '' @ quoted (py_str v)))
            | None \<Rightarrow> Inl (KeyError ''id''))
      | _ \<Rightarrow> Inl (ValueError ''Capability grant must contain exactly id and scope''))"

text \<open>
  The code also sorts the keys of the scope. Their order is left as it is: the readers look fields up by name, and
  what is hashed is written with sorted keys anyway.
\<close>

definition grant_to_dict :: "capability_grant \<Rightarrow> json" where
  "grant_to_dict g = JObj [(''id'', JStr (cg_id g)), (''scope'', cg_scope g)]"

definition by_grant_id :: "capability_grant \<Rightarrow> capability_grant \<Rightarrow> bool" where
  "by_grant_id a b = str_less (cg_id a) (cg_id b)"

definition normalize_grants :: "grant_value list \<Rightarrow> capability_grant list result" where
  "normalize_grants values =
     (case check_all grant_from_dict values of Inl e \<Rightarrow> Inl e | Inr gs \<Rightarrow>
        if distinct (map cg_id gs) then Inr (order_by by_grant_id gs)
        else Inl (ValueError ''Duplicate capability grant categories are not allowed''))"

text \<open>The same on a JSON value, which may be no array.\<close>

definition read_grants :: "json \<Rightarrow> capability_grant list result" where
  "read_grants value =
     (case value of JArr xs \<Rightarrow> normalize_grants (map Plain xs) | _ \<Rightarrow> Inl (ValueError ''capabilities must be an array''))"

definition grants_digest :: "(json list \<Rightarrow> string) \<Rightarrow> grant_value list \<Rightarrow> string result" where
  "grants_digest digest values = map_sum id (\<lambda>gs. digest (map grant_to_dict gs)) (normalize_grants values)"

record runtime_contract =
  rc_app_id :: string
  rc_schemas :: "json list"
  rc_capabilities :: "capability_grant list"
  rc_grants_digest :: string
  rc_contract_version :: nat
  rc_catalog_version :: nat
  rc_allowed_files :: "string list"

definition create_contract ::
  "(json list \<Rightarrow> string) \<Rightarrow> json \<Rightarrow> json list \<Rightarrow> grant_value list \<Rightarrow> runtime_contract result" where
  "create_contract digest app_id schemas capabilities =
     (case app_id of
        JStr i \<Rightarrow>
          if strip i = [] then Inl (ValueError ''Runtime Contract app_id must be non-empty'')
          else (case normalize_grants capabilities of Inl e \<Rightarrow> Inl e | Inr gs \<Rightarrow>
               (case grants_digest digest (map Grant gs) of Inl e \<Rightarrow> Inl e | Inr d \<Rightarrow>
                  Inr \<lparr>rc_app_id = i, rc_schemas = schemas, rc_capabilities = gs, rc_grants_digest = d,
                    rc_contract_version = 1, rc_catalog_version = 2,
                    rc_allowed_files = [''README.md'', ''controller.js'', ''manifest.json'']\<rparr>))
      | _ \<Rightarrow> Inl (ValueError ''Runtime Contract app_id must be non-empty''))"

end
