(* ===== verification/Capability_Laws.thy ===== *)
theory Capability_Laws
  imports Capability_Grants "HOL-Library.Multiset"
begin

text \<open>
  Capability grants are canonical: normalizing what a normalization returned changes nothing, the order in
  which grants are listed does not matter, and a normalized scope holds exactly the fields its category names.
\<close>

section \<open>Lists of text\<close>

lemma dropWhile_last: "dropWhile P xs = x # ys \<Longrightarrow> \<not> P x"
  by (metis hd_dropWhile list.sel(1) list.distinct(1))

lemma dropWhile_idem [simp]: "dropWhile P (dropWhile P xs) = dropWhile P xs"
  by (cases "dropWhile P xs") (auto dest: dropWhile_last)

lemma dropWhile_rev_head: "xs \<noteq> [] \<Longrightarrow> \<not> P (hd xs) \<Longrightarrow> dropWhile P (rev (dropWhile P (rev xs))) = rev (dropWhile P (rev xs))"
  by (cases xs) (auto simp: dropWhile_append)

lemma strip_strip [simp]: "strip (strip s) = strip s"
proof (cases "dropWhile is_space s")
  case (Cons c cs)
  then show ?thesis
    using dropWhile_rev_head[of "c # cs" is_space] dropWhile_last[OF Cons] by (simp add: strip_def)
next
  case Nil
  then have "strip s = []" by (simp only: strip_def dropWhile.simps rev.simps)
  moreover have "strip [] = []" by (simp add: strip_def)
  ultimately show ?thesis by simp
qed

definition canonical_texts :: "string list \<Rightarrow> bool" where
  "canonical_texts ps \<longleftrightarrow> ps \<noteq> [] \<and> length ps \<le> MAX_SCOPE_ITEMS \<and> sorted_wrt str_less ps \<and>
     list_all (\<lambda>p. strip p = p \<and> p \<noteq> []) ps"

lemma sorted_set_sorted: "sorted_wrt str_less (sorted_set ss)"
  unfolding sorted_set_def by (rule text_order.strict) simp

lemma sorted_distinct: "sorted_wrt str_less ps \<Longrightarrow> distinct ps"
  by (induction ps) auto

lemma sorted_set_id: "sorted_wrt str_less ps \<Longrightarrow> sorted_set ps = ps"
  by (rule text_order.strict_unique[OF sorted_set_sorted]) (simp_all add: sorted_set_def)

lemma sorted_set_eq_Nil [simp]: "sorted_set ss = [] \<longleftrightarrow> ss = []"
  by (metis set_empty set_order_by set_remdups sorted_set_def)

lemma string_list_canonical:
  assumes "string_list f v = Inr ps"
  shows "canonical_texts ps"
proof -
  obtain xs where v: "v = Some (JArr xs)" "xs \<noteq> []" "length xs \<le> MAX_SCOPE_ITEMS"
    "\<not> list_ex (\<lambda>x. case x of JStr s \<Rightarrow> strip s = [] | _ \<Rightarrow> True) xs"
    and ps: "ps = sorted_set (map (\<lambda>x. strip (str_or_empty (Some x))) xs)"
    using assms unfolding string_list_def
    by (cases v rule: option.exhaust; cases "the v") (simp_all split: if_splits)
  have "length ps \<le> length xs" using length_remdups_leq[of "map (\<lambda>x. strip (str_or_empty (Some x))) xs"]
    by (simp add: ps sorted_set_def)
  moreover have "strip (str_or_empty (Some x)) \<noteq> []" if "x \<in> set xs" for x
    using v(4) that by (cases x) (auto simp: list_ex_iff)
  moreover have "set ps = (\<lambda>x. strip (str_or_empty (Some x))) ` set xs" by (simp add: ps sorted_set_def)
  ultimately have "list_all (\<lambda>p. strip p = p \<and> p \<noteq> []) ps" by (simp add: list_all_iff)
  with \<open>length ps \<le> length xs\<close> v(2,3) show ?thesis by (simp add: canonical_texts_def ps sorted_set_sorted)
qed

lemma string_list_again:
  assumes "canonical_texts ps"
  shows "string_list f (Some (texts ps)) = Inr ps"
  using assms
  by (auto simp: string_list_def canonical_texts_def texts_def list_ex_iff list_all_iff comp_def map_idI sorted_set_id)

section \<open>Base URLs\<close>

text \<open>The base URL is stored without the slash after its origin, and still names the same origin.\<close>

lemma break_at_snoc:
  assumes "break_at P (s @ [c]) = (a, Some b)" "\<not> P c"
  shows "\<exists>b'. b = b' @ [c] \<and> break_at P s = (a, Some b')"
proof -
  obtain x where x: "s @ [c] = a @ x # b" "P x" "\<forall>y \<in> set a. \<not> P y" using break_at_Some[OF assms(1)] by blast
  with assms(2) obtain b' where b: "b = b' @ [c]" by (cases b rule: rev_cases) auto
  with x have s: "s = a @ x # b'" by simp
  show ?thesis using break_at_cut[of a P x b'] x b unfolding s by blast
qed

lemma partition_no_rest:
  assumes "partition_at c (s @ [d]) = (a, f, [])" "c \<noteq> d"
  shows "a = s @ [d]"
proof (cases "break_at (\<lambda>x. x = c) (s @ [d])")
  case (Pair p r)
  then show ?thesis
  proof (cases r)
    case None
    then show ?thesis using Pair assms break_at_None[of "\<lambda>x. x = c"] by (auto simp: partition_at_def)
  next
    case (Some b)
    then show ?thesis using Pair assms break_at_snoc[of "\<lambda>x. x = c" s d] by (auto simp: partition_at_def)
  qed
qed

lemma take_scheme_snoc:
  assumes "take_scheme (s @ [CHR ''/'']) = (sch, rest)" "sch \<noteq> []"
  shows "\<exists>r. rest = r @ [CHR ''/''] \<and> take_scheme s = (sch, r)"
proof -
  obtain a b where b: "break_at (\<lambda>c. c = CHR '':'') (s @ [CHR ''/'']) = (a, Some b)" and r: "rest = b" "sch = lower a"
    and a: "a \<noteq> [] \<and> is_letter (hd a) \<and> list_all scheme_char a"
    using assms by (auto simp: take_scheme_def split: prod.splits option.splits if_splits)
  then show ?thesis using break_at_snoc[OF b] by (auto simp: take_scheme_def)
qed

lemma slash_char: "\<not> control_or_space CHR ''/''" "\<not> unsafe_url_char CHR ''/''" "netloc_end CHR ''/''"
  by code_simp+

lemma clean_snoc:
  "filter (\<lambda>c. \<not> unsafe_url_char c) (dropWhile control_or_space (s @ [CHR ''/''])) =
   filter (\<lambda>c. \<not> unsafe_url_char c) (dropWhile control_or_space s) @ [CHR ''/'']"
proof (cases "\<forall>c \<in> set s. control_or_space c")
  case True
  then have e: "dropWhile control_or_space s = []" by (simp add: dropWhile_eq_Nil_conv)
  show ?thesis using True unfolding e by (simp add: dropWhile_append slash_char)
qed (auto simp: dropWhile_append slash_char)

lemma urlsplit_netloc:
  assumes "urlsplit s = Inr u" "url_netloc u \<noteq> []"
    and "take_scheme (filter (\<lambda>c. \<not> unsafe_url_char c) (dropWhile control_or_space s)) = (sch, rest)"
  shows "starts_with rest ''//'' \<and> check_netloc (takeWhile (\<lambda>c. \<not> netloc_end c) (drop 2 rest))"
  using assms by (cases "starts_with rest ''//''") (simp_all add: urlsplit_def Let_def split: prod.splits if_splits, auto)

lemma urlsplit_slash:
  assumes u: "urlsplit (s @ [CHR ''/'']) = Inr u" "url_scheme u \<noteq> []" "url_netloc u \<noteq> []"
    and p: "url_path u \<in> {[], ''/''}" "url_query u = []" "url_fragment u = []"
  shows "urlsplit s = Inr (u\<lparr>url_path := []\<rparr>) \<and> (s = [] \<or> last s \<noteq> CHR ''/'')"
proof -
  let ?f = "filter (\<lambda>c. \<not> unsafe_url_char c) (dropWhile control_or_space s)"
  obtain sch rest where t: "take_scheme (?f @ [CHR ''/'']) = (sch, rest)" by (cases "take_scheme (?f @ [CHR ''/''])")
  let ?n = "takeWhile (\<lambda>c. \<not> netloc_end c) (drop 2 rest)" and ?d = "dropWhile (\<lambda>c. \<not> netloc_end c) (drop 2 rest)"
  obtain a fa frag where pa: "partition_at (CHR ''#'') ?d = (a, fa, frag)" by (cases "partition_at (CHR ''#'') ?d")
  obtain path fq query where pq: "partition_at (CHR ''?'') a = (path, fq, query)" by (cases "partition_at (CHR ''?'') a")
  have two: "starts_with rest ''//''" and net: "check_netloc ?n"
    using urlsplit_netloc[OF u(1,3)] t by (simp_all add: clean_snoc)
  then have un: "u = \<lparr>url_scheme = sch, url_netloc = ?n, url_path = path, url_query = query, url_fragment = frag\<rparr>"
    using u(1) pa pq unfolding urlsplit_def clean_snoc t by (simp add: Let_def)
  obtain r where r: "rest = r @ [CHR ''/'']" "take_scheme ?f = (sch, r)" using take_scheme_snoc[OF t] u(2) un by auto
  obtain y where y: "r = ''//'' @ y"
  proof -
    have ne: "drop 2 rest \<noteq> []" using u(3) un by auto
    have s2: "take 2 rest = ''//''" using two by (simp add: starts_with_def numeral_2_eq_2)
    show thesis
    proof (cases r)
      case (Cons x r1)
      then show thesis using ne s2 that r(1) by (cases r1) (simp_all add: numeral_2_eq_2)
    qed (use ne r(1) in simp)
  qed
  have d2: "drop 2 rest = y @ [CHR ''/'']" by (simp add: r(1) y)
  have "\<forall>c \<in> set y. \<not> netloc_end c"
  proof (rule ccontr)
    assume "\<not> ?thesis"
    then have "?d = dropWhile (\<lambda>c. \<not> netloc_end c) y @ [CHR ''/'']" "dropWhile (\<lambda>c. \<not> netloc_end c) y \<noteq> []"
      by (auto simp: d2 dropWhile_append dropWhile_eq_Nil_conv)
    moreover from this have "a = ?d" using partition_no_rest[of "CHR ''#''"] pa p(3) un by fastforce
    moreover from calculation have "path = ?d" using partition_no_rest[of "CHR ''?''"] pq p(2) un by fastforce
    ultimately show False using p(1) un by auto
  qed
  then have dn: "?n = y" "?d = ''/''" "takeWhile (\<lambda>c. \<not> netloc_end c) y = y" "dropWhile (\<lambda>c. \<not> netloc_end c) y = []"
    by (auto simp: d2 takeWhile_append dropWhile_append slash_char takeWhile_eq_all_conv dropWhile_eq_Nil_conv)
  have "partition_at c [] = ([], False, [])" for c by (simp add: partition_at_def break_at_def)
  then have "urlsplit s = Inr (u\<lparr>url_path := []\<rparr>)"
    using dn(1) net un p(2,3) \<open>\<forall>c \<in> set y. \<not> netloc_end c\<close> unfolding urlsplit_def r(2) y
    by (simp add: starts_with_def Let_def numeral_2_eq_2 takeWhile_eq_all_conv[THEN iffD2] dropWhile_eq_Nil_conv[THEN iffD2])
  moreover have "s = [] \<or> last s \<noteq> CHR ''/''"
  proof (rule ccontr)
    assume "\<not> ?thesis"
    then obtain s' where "s = s' @ [CHR ''/'']" by (cases s rule: rev_cases) auto
    then obtain z where "?f = z @ [CHR ''/'']" by (simp only: clean_snoc)
    then obtain r' where "r = r' @ [CHR ''/'']" using take_scheme_snoc[of z sch r] r(2) u(2) un by auto
    then have "y \<noteq> [] \<Longrightarrow> last y = CHR ''/''" using y by (metis last_append last_snoc)
    moreover have "y \<noteq> []" using dn(1) u(3) un by simp
    ultimately show False using \<open>\<forall>c \<in> set y. \<not> netloc_end c\<close> slash_char(3) by (metis last_in_set)
  qed
  ultimately show ?thesis by blast
qed

lemma rstrip_char_cases: "(s = [] \<or> last s \<noteq> c) \<Longrightarrow> rstrip_char c s = s"
  by (cases s rule: rev_cases) (simp_all add: rstrip_char_def)

lemma check_base_url_JStr:
  "check_base_url i (Some (JStr s)) = Inr b \<longleftrightarrow>
     (\<exists>u h. urlsplit s = Inr u \<and> url_scheme u = ''https'' \<and> hostname u = Some h \<and> \<not> has_userinfo u \<and>
        url_path u \<in> {[], ''/''} \<and> url_query u = [] \<and> url_fragment u = [] \<and>
        (let host = lower (rstrip_char (CHR ''.'') h)
         in \<not> ip_literal host \<and> host \<noteq> ''localhost'' \<and> \<not> ends_with host ''.localhost'' \<and> \<not> ends_with host ''.local'') \<and>
        b = rstrip_char (CHR ''/'') s)"
  by (auto simp: check_base_url_def Let_def split: sum.splits if_splits)

lemma hostname_netloc: "hostname u = Some h \<Longrightarrow> url_netloc u \<noteq> []"
  by (auto simp: hostname_def bracketed_host_def rpartition_at_def partition_at_def break_at_def Let_def)

lemma same_netloc: "hostname (u\<lparr>url_path := p\<rparr>) = hostname u" "has_userinfo (u\<lparr>url_path := p\<rparr>) = has_userinfo u"
proof -
  have "url_netloc (u\<lparr>url_path := p\<rparr>) = url_netloc u" by simp
  then show "hostname (u\<lparr>url_path := p\<rparr>) = hostname u" "has_userinfo (u\<lparr>url_path := p\<rparr>) = has_userinfo u"
    unfolding hostname_def has_userinfo_def by metis+
qed

lemma check_base_url_again:
  assumes "check_base_url i v = Inr b"
  shows "check_base_url i (Some (JStr b)) = Inr b"
proof -
  obtain s where v: "v = Some (JStr s)" using assms by (auto simp: check_base_url_def Let_def split: option.splits json.splits)
  have c: "check_base_url i (Some (JStr s)) = Inr b" using assms v by simp
  then obtain u h where u: "urlsplit s = Inr u" "url_scheme u = ''https''" "hostname u = Some h"
    "url_path u \<in> {[], ''/''}" "url_query u = []" "url_fragment u = []" and b: "b = rstrip_char (CHR ''/'') s"
    unfolding check_base_url_JStr by blast
  show ?thesis
  proof (cases "s = [] \<or> last s \<noteq> CHR ''/''")
    case True
    then show ?thesis using c b rstrip_char_cases by simp
  next
    case False
    then obtain t where s: "s = t @ [CHR ''/'']" by (cases s rule: rev_cases) auto
    from urlsplit_slash[of t u] u hostname_netloc[OF u(3)]
    have t: "urlsplit t = Inr (u\<lparr>url_path := []\<rparr>)" "t = [] \<or> last t \<noteq> CHR ''/''" by (simp_all add: s)
    then have bt: "b = t" "rstrip_char (CHR ''/'') t = t" using b rstrip_char_cases[OF t(2)] by (simp_all add: s rstrip_char_def)
    show ?thesis using c t(1) bt unfolding check_base_url_JStr by (auto simp: same_netloc u(1))
  qed
qed

section \<open>Network sources\<close>

lemma path_patterns_again: "path_patterns v = Inr ps \<Longrightarrow> path_patterns (Some (texts ps)) = Inr ps"
  by (auto simp: path_patterns_def string_list_again[OF string_list_canonical] split: sum.splits if_splits)

lemma check_limit_again: "check_limit i v = Inr n \<Longrightarrow> check_limit i (Some n) = Inr n"
  by (auto simp: check_limit_def split: option.splits json.splits if_splits)



lemma network_source_again:
  assumes "network_source i raw = Inr kv"
  shows "network_source (fst kv) (snd kv) = Inr kv \<and> fst kv = i"
proof -
  obtain kvs base paths us methods limit where k: "kebab_case i" "raw = JObj kvs"
    "check_base_url i (map_of kvs ''base_url'') = Inr base"
    "string_list (''network source '' @ quoted i @ '' paths'') (map_of kvs ''paths'') = Inr paths"
    "check_all (check_url_path i) paths = Inr us"
    "string_list (''network source '' @ quoted i @ '' methods'')
       (case map_of kvs ''methods'' of None \<Rightarrow> Some (texts [''GET'']) | Some m \<Rightarrow> Some m) = Inr methods"
    "set methods \<subseteq> {''GET'', ''POST''}" "check_limit i (map_of kvs ''response_limit'') = Inr limit"
    and kv: "kv = (i, JObj [(''base_url'', JStr base), (''paths'', texts paths), (''methods'', texts methods), (''response_limit'', limit)])"
    using assms unfolding network_source_def by (auto split: json.splits if_splits sum.splits)
  show ?thesis
    using k(1,5,7) check_base_url_again[OF k(3)] string_list_again[OF string_list_canonical[OF k(4)]]
      string_list_again[OF string_list_canonical[OF k(6)]] check_limit_again[OF k(8)]
    by (simp add: kv network_source_def unknown_fields_def source_fields_def)
qed

lemma sorted_order_id: "sorted_wrt (\<lambda>x y. \<not> lt y x) xs \<Longrightarrow> (\<And>x y. lt x y \<Longrightarrow> \<not> lt y x) \<Longrightarrow> order_by lt xs = xs"
proof (induction xs)
  case (Cons x xs)
  then have "order_by lt xs = xs" "\<forall>y \<in> set xs. \<not> lt y x" by auto
  then show ?case by (cases xs) auto
qed simp

lemma str_less_asym: "str_less a b \<Longrightarrow> \<not> str_less b a"
  using str_less_trans str_less_irrefl by blast

interpretation by_key: row_order by_key fst
  by unfold_locales (auto simp: by_key_def dest: str_less_trans str_less_total)

lemma network_sources_again:
  assumes "network_sources v = Inr j"
  shows "network_sources (Some j) = Inr j"
proof -
  obtain kvs where v: "v = Some (JObj kvs)" using assms by (auto simp: network_sources_def split: option.splits json.splits)
  with assms have n: "kvs \<noteq> []" "length kvs \<le> 32"
    and m: "map_sum id JObj (check_all (\<lambda>kv. network_source (fst kv) (snd kv)) (order_by by_key kvs)) = Inr j"
    by (simp_all add: network_sources_def split: if_splits)
  from m obtain ss where j: "j = JObj ss"
    and all: "check_all (\<lambda>kv. network_source (fst kv) (snd kv)) (order_by by_key kvs) = Inr ss"
    unfolding map_sum_Inr by blast
  have fst: "map fst ss = map fst (order_by by_key kvs)"
    by (rule check_all_map[OF all]) (use network_source_again in blast)
  have key: "sorted_wrt (\<lambda>x y. \<not> by_key y x) xs \<longleftrightarrow> sorted_wrt (\<lambda>x y. \<not> str_less y x) (map fst xs)" for xs
    by (simp add: sorted_wrt_map by_key_def)
  have "sorted_wrt (\<lambda>x y. \<not> by_key y x) ss" using by_key.sorted[of kvs] unfolding key fst .
  then have "order_by by_key ss = ss" by (rule sorted_order_id) (simp add: by_key_def str_less_asym)
  moreover have "check_all (\<lambda>kv. network_source (fst kv) (snd kv)) ss = Inr ss"
    by (rule check_all_fix) (use check_all_set[OF all] network_source_again in blast)
  moreover have "length ss = length kvs" using check_all_Inr[OF all] by simp
  ultimately show ?thesis using n by (auto simp: network_sources_def j)
qed

section \<open>Scopes\<close>

lemmas again = string_list_again[OF string_list_canonical] path_patterns_again network_sources_again

text \<open>A normalized scope is a fixed point, with the required fields of its category and at most its optional ones.\<close>

definition scope_keys :: "json \<Rightarrow> string list" where
  "scope_keys j = (case j of JObj kvs \<Rightarrow> map fst kvs | _ \<Rightarrow> [])"

definition category_keys :: "string \<Rightarrow> string list set" where
  "category_keys cat = (case find_category cat of None \<Rightarrow> {}
     | Some c \<Rightarrow> {cc_required c, cc_required c @ cc_optional c})"

lemmas category_defs = find_category_def CAPABILITY_ONTOLOGY_def category_def

definition settled :: "string \<Rightarrow> json \<Rightarrow> bool" where
  "settled cat j \<longleftrightarrow> (\<exists>kvs. j = JObj kvs \<and> scope_of cat kvs = Inr j \<and> map fst kvs \<in> category_keys cat)"

lemma settled_JObj: "settled cat (JObj kvs) \<longleftrightarrow> scope_of cat kvs = Inr (JObj kvs) \<and> map fst kvs \<in> category_keys cat"
  by (auto simp: settled_def)

lemma mutate_settled:
  assumes "mutate_scope kvs = Inr j"
  shows "settled ''graph.mutate'' j"
proof -
  obtain es ops where e: "string_list ''graph.mutate entities'' (map_of kvs ''entities'') = Inr es"
    "string_list ''graph.mutate operations'' (map_of kvs ''operations'') = Inr ops" "set ops \<subseteq> {''create'', ''delete'', ''update''}"
    using assms by (auto simp: mutate_scope_def split: sum.splits if_splits)
  let ?base = "[(''entities'', texts es), (''operations'', texts ops)]"
  have "j = JObj ?base \<or> (\<exists>xs ts. string_list ''graph.mutate edge_types'' (Some (JArr xs)) = Inr ts \<and>
      j = JObj (?base @ [(''edge_types'', texts ts)]))"
    using assms e by (auto simp: mutate_scope_def Let_def map_sum_Inr split: option.splits json.splits if_splits)
  then show ?thesis
  proof (elim disjE exE conjE)
    assume "j = JObj ?base"
    then show ?thesis using e(3) again(1)[OF e(1)] again(1)[OF e(2)]
      by (simp add: settled_JObj scope_of_def mutate_scope_def category_keys_def category_defs)
  next
    fix xs ts assume t: "string_list ''graph.mutate edge_types'' (Some (JArr xs)) = Inr ts"
      and j: "j = JObj (?base @ [(''edge_types'', texts ts)])"
    have "ts \<noteq> []" "texts ts = JArr (map JStr ts)" using string_list_canonical[OF t] by (simp_all add: canonical_texts_def texts_def)
    then show ?thesis using j e(3) again(1)[OF e(1)] again(1)[OF e(2)] again(1)[OF t]
      by (simp add: settled_JObj scope_of_def mutate_scope_def category_keys_def category_defs)
  qed
qed

lemma write_settled: "write_scope kvs = Inr j \<Longrightarrow> settled ''file.write'' j"
  by (auto simp: write_scope_def map_sum_Inr again settled_JObj scope_of_def category_keys_def category_defs
      split: option.splits json.splits if_splits)

lemma invoke_settled: "invoke_scope kvs = Inr j \<Longrightarrow> settled ''capability.invoke'' j"
  by (auto simp: invoke_scope_def again settled_JObj scope_of_def category_keys_def category_defs split: sum.splits if_splits)

lemma location_settled: "location_scope kvs = Inr j \<Longrightarrow> settled ''device.location'' j"
  by (auto simp: location_scope_def again settled_JObj scope_of_def category_keys_def category_defs split: sum.splits if_splits)

lemma scope_settled:
  assumes "scope_of cat kvs = Inr j"
  shows "settled cat j"
proof -
  note d = settled_JObj scope_of_def category_keys_def category_defs
  have query: "settled ''graph.query'' (JObj [(''entities'', texts es)])"
    if "string_list ''graph.query entities'' (map_of kvs ''entities'') = Inr es" for es
    using again(1)[OF that] by (simp add: d)
  have network: "settled ''network.request'' (JObj [(''sources'', ss)])" if "network_sources (map_of kvs ''sources'') = Inr ss" for ss
    using again(3)[OF that] by (simp add: d)
  have paths: "settled ''file.read'' (JObj [(''paths'', texts ps)])" "settled ''file.delete'' (JObj [(''paths'', texts ps)])"
    if "path_patterns (map_of kvs ''paths'') = Inr ps" for ps
    using again(2)[OF that] by (simp_all add: d)
  have "cat = ''device.location'' \<or>
    cat = ''graph.query'' \<or>
    cat = ''graph.mutate'' \<or>
    cat = ''network.request'' \<or>
    cat = ''file.read'' \<or>
    cat = ''file.delete'' \<or>
    cat = ''file.write'' \<or>
    cat = ''capability.invoke''"
    by (rule ccontr) (use assms in \<open>simp add: scope_of_def\<close>)
  then show ?thesis
  proof (elim disjE)
    assume "cat = ''device.location''"
    then show ?thesis using assms location_settled by (auto simp: scope_of_def map_sum_Inr)
  next
    assume "cat = ''graph.query''"
    then show ?thesis using assms query by (auto simp: scope_of_def map_sum_Inr)
  next
    assume "cat = ''graph.mutate''"
    then show ?thesis using assms mutate_settled by (auto simp: scope_of_def map_sum_Inr)
  next
    assume "cat = ''network.request''"
    then show ?thesis using assms network by (auto simp: scope_of_def map_sum_Inr)
  next
    assume "cat = ''file.read''"
    then show ?thesis using assms paths by (auto simp: scope_of_def map_sum_Inr)
  next
    assume "cat = ''file.delete''"
    then show ?thesis using assms paths by (auto simp: scope_of_def map_sum_Inr)
  next
    assume "cat = ''file.write''"
    then show ?thesis using assms write_settled by (auto simp: scope_of_def map_sum_Inr)
  next
    assume "cat = ''capability.invoke''"
    then show ?thesis using assms invoke_settled by (auto simp: scope_of_def map_sum_Inr)
  qed
qed

text \<open>Every list of a normalized scope, those of its network sources included, is sorted and without duplicates.\<close>

fun sorted_lists :: "json \<Rightarrow> bool" where
  "sorted_lists (JArr xs) = sorted_wrt str_less (map (\<lambda>x. str_or_empty (Some x)) xs)"
| "sorted_lists (JObj kvs) = list_all (\<lambda>kv. sorted_lists (snd kv)) kvs"
| "sorted_lists _ = True"

lemma string_list_sorted: "string_list f v = Inr ps \<Longrightarrow> sorted_lists (texts ps)"
  using string_list_canonical[of f v ps] by (simp add: canonical_texts_def texts_def comp_def)

lemma path_patterns_sorted: "path_patterns v = Inr ps \<Longrightarrow> sorted_lists (texts ps)"
  by (auto simp: path_patterns_def split: sum.splits if_splits dest: string_list_sorted)

lemma network_source_sorted: "network_source i raw = Inr kv \<Longrightarrow> sorted_lists (snd kv)"
  by (auto simp: network_source_def check_limit_def split: json.splits if_splits sum.splits option.splits dest!: string_list_sorted)

lemma network_sources_sorted:
  assumes "network_sources v = Inr j"
  shows "sorted_lists j"
proof -
  obtain kvs ss where j: "j = JObj ss" "check_all (\<lambda>kv. network_source (fst kv) (snd kv)) (order_by by_key kvs) = Inr ss"
    using assms by (auto simp: network_sources_def map_sum_Inr split: option.splits json.splits if_splits)
  have "sorted_lists (snd kv)" if "kv \<in> set ss" for kv
    using check_all_set[OF j(2) that] network_source_sorted by blast
  then show ?thesis by (simp add: j(1) list_all_iff)
qed

lemmas made_sorted = string_list_sorted path_patterns_sorted network_sources_sorted

lemma mutate_sorted:
  assumes "mutate_scope kvs = Inr j"
  shows "sorted_lists j"
proof -
  obtain es ops where e: "string_list ''graph.mutate entities'' (map_of kvs ''entities'') = Inr es"
    "string_list ''graph.mutate operations'' (map_of kvs ''operations'') = Inr ops" "set ops \<subseteq> {''create'', ''delete'', ''update''}"
    using assms by (auto simp: mutate_scope_def split: sum.splits if_splits)
  let ?base = "[(''entities'', texts es), (''operations'', texts ops)]"
  have "j = JObj ?base \<or> (\<exists>xs ts. string_list ''graph.mutate edge_types'' (Some (JArr xs)) = Inr ts \<and>
      j = JObj (?base @ [(''edge_types'', texts ts)]))"
    using assms e by (auto simp: mutate_scope_def Let_def map_sum_Inr split: option.splits json.splits if_splits)
  then show ?thesis using made_sorted(1)[OF e(1)] made_sorted(1)[OF e(2)] made_sorted(1) by fastforce
qed

lemma location_sorted: "location_scope kvs = Inr j \<Longrightarrow> sorted_lists j"
  by (auto simp: location_scope_def split: sum.splits if_splits dest: made_sorted)

lemma write_sorted: "write_scope kvs = Inr j \<Longrightarrow> sorted_lists j"
  by (auto simp: write_scope_def map_sum_Inr split: option.splits json.splits if_splits dest: made_sorted)

lemma invoke_sorted: "invoke_scope kvs = Inr j \<Longrightarrow> sorted_lists j"
  by (auto simp: invoke_scope_def split: sum.splits if_splits dest: made_sorted)

lemma if_eqE: "(if c then x else y) = z \<Longrightarrow> (x = z \<Longrightarrow> P) \<Longrightarrow> (y = z \<Longrightarrow> P) \<Longrightarrow> P"
  by (cases c) simp_all

lemma field_sorted: "map_sum id (\<lambda>x. JObj [(k, f x)]) r = Inr j \<Longrightarrow> (\<And>x. r = Inr x \<Longrightarrow> sorted_lists (f x)) \<Longrightarrow> sorted_lists j"
  by (cases r) auto

lemma scope_sorted: "scope_of cat kvs = Inr j \<Longrightarrow> sorted_lists j"
  unfolding scope_of_def
  by (elim if_eqE) (simp_all add: location_sorted mutate_sorted write_sorted invoke_sorted, (erule field_sorted, erule made_sorted)+)

section \<open>Grants\<close>

interpretation by_grant: row_order by_grant_id cg_id
  by unfold_locales (auto simp: by_grant_id_def dest: str_less_trans str_less_total)

definition well_scoped :: "capability_grant \<Rightarrow> bool" where
  "well_scoped g \<longleftrightarrow> scope_keys (cg_scope g) \<in> category_keys (cg_id g)"

lemma unknown_fields_Nil: "unknown_fields allowed kvs = [] \<longleftrightarrow> fst ` set kvs \<subseteq> set allowed"
proof -
  have "unknown_fields allowed kvs = [] \<longleftrightarrow> set (unknown_fields allowed kvs) = {}" by simp
  also have "\<dots> \<longleftrightarrow> fst ` set kvs \<subseteq> set allowed" unfolding unknown_fields_def set_order_by by auto
  finally show ?thesis .
qed

lemma scope_fields: "c \<in> set CAPABILITY_ONTOLOGY \<Longrightarrow> cc_scope_fields c = cc_required c @ cc_optional c"
  by (auto simp: CAPABILITY_ONTOLOGY_def category_def)

lemma normalize_scope_again:
  assumes "normalize_scope cat v = Inr s"
  shows "normalize_scope cat (Some s) = Inr s \<and> scope_keys s \<in> category_keys cat"
proof -
  obtain kvs c where c: "find_category cat = Some c" and "scope_of cat kvs = Inr s"
    using assms by (auto simp: normalize_scope_def split: option.splits json.splits if_splits)
  from scope_settled[OF this(2)] obtain ks where s: "s = JObj ks" "scope_of cat ks = Inr s" "map fst ks \<in> category_keys cat"
    by (auto simp: settled_def)
  have "cc_scope_fields c = cc_required c @ cc_optional c"
    using c scope_fields lookup_by_SomeD[of cc_id cat CAPABILITY_ONTOLOGY c] by (simp add: find_category_def)
  moreover have "map fst ks = cc_required c \<or> map fst ks = cc_required c @ cc_optional c"
    using s(3) by (simp add: category_keys_def c)
  then have "fst ` set ks \<subseteq> set (cc_required c @ cc_optional c)" by (metis Un_upper1 set_append set_map order_refl)
  ultimately have "unknown_fields (cc_scope_fields c) ks = []" by (simp add: unknown_fields_Nil)
  then show ?thesis using s by (simp add: normalize_scope_def c scope_keys_def)
qed

lemma grant_again:
  assumes "grant_from_dict (Plain j) = Inr g"
  shows "grant_from_dict (Plain (grant_to_dict g)) = Inr g \<and> well_scoped g \<and> sorted_lists (cg_scope g)"
proof -
  obtain v where v: "find_category (cg_id g) \<noteq> None" "normalize_scope (cg_id g) v = Inr (cg_scope g)"
    using assms by (cases j) (auto simp: grant_from_dict_def map_sum_Inr split: if_splits option.splits json.splits)
  have "sorted_lists (cg_scope g)"
    using v by (auto simp: normalize_scope_def split: option.splits json.splits if_splits dest: scope_sorted)
  then show ?thesis using v(1) normalize_scope_again[OF v(2)]
    by (auto simp: grant_from_dict_def grant_to_dict_def well_scoped_def)
qed

lemma check_all_total: "\<forall>x \<in> set xs. \<exists>y. f x = Inr y \<Longrightarrow> check_all f xs = Inr (map (projr \<circ> f) xs)"
  by (induction xs) auto

lemma check_all_each: "check_all f xs = Inr ys \<Longrightarrow> \<forall>x \<in> set xs. \<exists>y. f x = Inr y"
  by (induction xs arbitrary: ys) (auto split: sum.splits)

lemma normalize_grants_eq:
  "normalize_grants vs = Inr gs \<longleftrightarrow> (\<forall>v \<in> set vs. \<exists>g. grant_from_dict v = Inr g) \<and>
     distinct (map cg_id (map (projr \<circ> grant_from_dict) vs)) \<and> gs = order_by by_grant_id (map (projr \<circ> grant_from_dict) vs)"
proof (cases "\<forall>v \<in> set vs. \<exists>g. grant_from_dict v = Inr g")
  case True
  then show ?thesis unfolding normalize_grants_def check_all_total[OF True] by auto
next
  case False
  then obtain e where "check_all grant_from_dict vs = Inl e" using check_all_each[of grant_from_dict vs] by (meson sum.exhaust)
  then show ?thesis using False by (simp add: normalize_grants_def)
qed

lemma by_grant_sorted: "sorted_wrt by_grant_id gs \<longleftrightarrow> sorted_wrt str_less (map cg_id gs)"
proof -
  have "by_grant_id = (\<lambda>x y. str_less (cg_id x) (cg_id y))" by (simp add: fun_eq_iff by_grant_id_def)
  then show ?thesis by (simp add: sorted_wrt_map)
qed

lemma normalize_grants_sorted: "normalize_grants vs = Inr gs \<Longrightarrow> sorted_wrt str_less (map cg_id gs)"
  using by_grant.strict[of "map (projr \<circ> grant_from_dict) vs"] by (simp add: normalize_grants_eq by_grant_sorted)

lemma normalize_grants_mset:
  assumes "normalize_grants vs = Inr gs" "mset ws = mset vs"
  shows "normalize_grants ws = Inr gs"
proof -
  let ?f = "projr \<circ> grant_from_dict"
  have s: "set ws = set vs" using assms(2) by (rule mset_eq_setD)
  have "mset (map cg_id (map ?f ws)) = mset (map cg_id (map ?f vs))" using assms(2) by simp
  then have d: "distinct (map cg_id (map ?f ws))" using assms(1) unfolding normalize_grants_eq by (metis mset_eq_imp_distinct_iff)
  have "order_by by_grant_id (map ?f ws) = order_by by_grant_id (map ?f vs)"
    by (rule by_grant.order_unique) (use assms(1) d s in \<open>simp_all add: normalize_grants_eq\<close>)
  then show ?thesis using assms(1) d s by (simp add: normalize_grants_eq)
qed

lemma normalize_grants_again:
  assumes "normalize_grants (map Plain xs) = Inr gs"
  shows "normalize_grants (map (Plain \<circ> grant_to_dict) gs) = Inr gs \<and> list_all well_scoped gs \<and> list_all (sorted_lists \<circ> cg_scope) gs"
proof -
  have g: "grant_from_dict (Plain (grant_to_dict g)) = Inr g \<and> well_scoped g \<and> sorted_lists (cg_scope g)" if "g \<in> set gs" for g
  proof -
    obtain j where "j \<in> set xs" "g = projr (grant_from_dict (Plain j))"
      using assms \<open>g \<in> set gs\<close> by (auto simp: normalize_grants_eq)
    then have "grant_from_dict (Plain j) = Inr g" using assms by (auto simp: normalize_grants_eq)
    then show ?thesis by (rule grant_again)
  qed
  have "order_by by_grant_id gs = gs"
    by (rule by_grant.strict_unique[OF by_grant.strict])
      (use normalize_grants_sorted[OF assms] in \<open>simp_all add: by_grant_sorted sorted_distinct\<close>)
  moreover have "distinct (map cg_id gs)" using sorted_distinct normalize_grants_sorted[OF assms] by blast
  moreover have "map (projr \<circ> grant_from_dict) (map (Plain \<circ> grant_to_dict) gs) = gs" using g by (simp add: map_idI)
  ultimately show ?thesis using g unfolding normalize_grants_eq by (simp add: list_all_iff)
qed

text \<open>
  Property C32 (grants): the grants of an App have one canonical form. Normalizing the stored form of normalized
  grants gives them back, whatever order grants are listed in the same list results, sorted by category without
  duplicates, every scope has exactly the required fields of its category and at most its optional ones, and every
  list in a scope is sorted and without duplicates.
\<close>

theorem grants_are_canonical:
  assumes "read_grants (JArr xs) = Inr gs"
  shows "read_grants (JArr (map grant_to_dict gs)) = Inr gs \<and> sorted_wrt str_less (map cg_id gs) \<and>
     list_all well_scoped gs \<and> list_all (sorted_lists \<circ> cg_scope) gs \<and> (\<forall>ys. mset ys = mset xs \<longrightarrow> read_grants (JArr ys) = Inr gs)"
  using assms normalize_grants_again[of xs gs] normalize_grants_sorted[of "map Plain xs" gs]
    normalize_grants_mset[of "map Plain xs" gs] by (simp add: read_grants_def comp_def)

definition demo_grants :: "json list" where
  "demo_grants = [JObj [(''id'', JStr ''graph.query''), (''scope'', JObj [(''entities'', texts [''Task'', '' Note'', ''Task''])])],
     JObj [(''id'', JStr ''file.write''), (''scope'', JObj [(''paths'', texts [''cache/**'']), (''max_bytes'', JInt 1024)])]]"

lemma demo_grants_read:
  "read_grants (JArr demo_grants) = Inr [\<lparr>cg_id = ''file.write'', cg_scope = JObj [(''paths'', texts [''cache/**'']), (''max_bytes'', JInt 1024)]\<rparr>,
     \<lparr>cg_id = ''graph.query'', cg_scope = JObj [(''entities'', texts [''Note'', ''Task''])]\<rparr>]"
  by code_simp

lemma grants_are_canonical_witness:
  "read_grants (JArr (rev demo_grants)) = Inr [\<lparr>cg_id = ''file.write'', cg_scope = JObj [(''paths'', texts [''cache/**'']), (''max_bytes'', JInt 1024)]\<rparr>,
     \<lparr>cg_id = ''graph.query'', cg_scope = JObj [(''entities'', texts [''Note'', ''Task''])]\<rparr>]"
  using grants_are_canonical[OF demo_grants_read] by simp

text \<open>The example each category shows the generator of Apps is a scope it accepts as it stands.\<close>

lemma examples_are_scopes:
  "list_all (\<lambda>c. normalize_scope (cc_id c) (Some (cc_example c)) = Inr (cc_example c)) CAPABILITY_ONTOLOGY"
  by code_simp

end
