(* ===== verification/Capability_Policy.thy ===== *)
theory Capability_Policy
  imports Capability_Laws
begin

text \<open>
  The default-deny policy over the manifest of an App (\<^verbatim>\<open>backend/capabilities/policy.py\<close>). The loader of
  manifests and the loader of the types of nodes are parameters, as they are in the constructor of
  \<^verbatim>\<open>CapabilityAuthorizer\<close>; the interface \<open>manifest_source\<close> says what the policy relies on. Every authorization
  returns a verdict: nothing, a denial, or the error a malformed argument raises.
\<close>

section \<open>Denials\<close>

record denial =
  dn_code :: string
  dn_message :: string
  dn_capability :: string
  dn_operation :: string
  dn_details :: json

datatype policy_error = Denied denial | Fault py_error

type_synonym 'a verdict = "policy_error + 'a"

definition denied :: "string \<Rightarrow> string \<Rightarrow> string \<Rightarrow> string \<Rightarrow> (string \<times> json) list \<Rightarrow> policy_error" where
  "denied code message capability operation details =
     Denied \<lparr>dn_code = code, dn_message = message, dn_capability = capability, dn_operation = operation, dn_details = JObj details\<rparr>"

definition denial_json :: "denial \<Rightarrow> json" where
  "denial_json d = JObj [(''code'', JStr (dn_code d)), (''message'', JStr (dn_message d)), (''capability'', JStr (dn_capability d)),
     (''operation'', JStr (dn_operation d)), (''details'', dn_details d)]"

definition scope_denied :: "string \<Rightarrow> string \<Rightarrow> json \<Rightarrow> policy_error" where
  "scope_denied cat operation resource = denied ''capability_scope_denied''
     (''The requested resource is outside the '' @ quoted cat @ '' grant'') cat operation [(''resource'', resource)]"

section \<open>The manifest and its grants\<close>

text \<open>What the policy reads of a manifest: its revision, the digest of its grants and its grants.\<close>

record manifest_view =
  mv_revision :: "string option"
  mv_digest :: "string option"
  mv_capabilities :: "grant_value list"

type_synonym manifest_loader = "string \<Rightarrow> manifest_view option"

record snapshot =
  sn_revision :: "string option"
  sn_digest :: "string option"

definition stale :: "string option \<Rightarrow> string option \<Rightarrow> bool" where
  "stale expected current \<longleftrightarrow> expected \<noteq> None \<and> current \<noteq> None \<and> expected \<noteq> current"

definition load_manifest :: "manifest_loader \<Rightarrow> string \<Rightarrow> snapshot \<Rightarrow> manifest_view verdict" where
  "load_manifest loader app sn =
     (case loader app of
        None \<Rightarrow> Inl (denied ''app_manifest_unavailable'' (''App '' @ quoted app @ '' has no valid Manifest V2'') ''manifest'' ''load'' [])
      | Some m \<Rightarrow>
          if stale (sn_revision sn) (mv_revision m)
          then Inl (denied ''manifest_revision_stale'' ''The App capability snapshot is stale'' ''manifest'' ''load''
                 [(''current_revision'', json_of_str (mv_revision m))])
          else if stale (sn_digest sn) (mv_digest m)
          then Inl (denied ''grants_digest_stale'' ''The App capability grant snapshot is stale'' ''manifest'' ''load''
                 [(''current_grants_digest'', json_of_str (mv_digest m))])
          else Inr m)"

definition granted :: "manifest_loader \<Rightarrow> string \<Rightarrow> string \<Rightarrow> string \<Rightarrow> snapshot \<Rightarrow> capability_grant verdict" where
  "granted loader app cat operation sn =
     (case load_manifest loader app sn of Inl e \<Rightarrow> Inl e | Inr m \<Rightarrow>
     (case normalize_grants (mv_capabilities m) of
        Inl (ValueError _) \<Rightarrow>
          Inl (denied ''capability_contract_invalid'' ''The App capability contract is invalid'' cat operation [])
      | Inl e \<Rightarrow> Inl (Fault e)
      | Inr gs \<Rightarrow>
          (case lookup_by cg_id cat gs of
             None \<Rightarrow> Inl (denied ''capability_not_granted'' (''App '' @ quoted app @ '' has no '' @ quoted cat @ '' grant'') cat operation [])
           | Some g \<Rightarrow> Inr g)))"

text \<open>
  The entries of a field of a scope. A grant is only made by \<^verbatim>\<open>from_dict\<close>, so its scope is normalized: the
  required fields are there, and an absent optional field reads as no entries.
\<close>

definition scope_items :: "capability_grant \<Rightarrow> string \<Rightarrow> string list" where
  "scope_items g field = (case dget (cg_scope g) field of Some (JArr xs) \<Rightarrow> map (\<lambda>x. str_or_empty (Some x)) xs | _ \<Rightarrow> [])"

section \<open>Graph queries\<close>

text \<open>\<^verbatim>\<open>isinstance(value, str) and value in allowed\<close>.\<close>

definition names_one_of :: "string list \<Rightarrow> json \<Rightarrow> bool" where
  "names_one_of allowed v = (case v of JStr s \<Rightarrow> s \<in> set allowed | _ \<Rightarrow> False)"

definition field_of :: "json \<Rightarrow> string \<Rightarrow> json" where
  "field_of j field = (if is_dict j then json_or_null (dget j field) else JNull)"

definition entity_denied :: "json \<Rightarrow> policy_error" where
  "entity_denied v = scope_denied ''graph.query'' ''query'' (JObj [(''entity'', v)])"

definition authorize_graph_query :: "manifest_loader \<Rightarrow> string \<Rightarrow> json \<Rightarrow> snapshot \<Rightarrow> unit verdict" where
  "authorize_graph_query loader app query sn =
     (case granted loader app ''graph.query'' ''query'' sn of Inl e \<Rightarrow> Inl e | Inr g \<Rightarrow>
        (let allowed = scope_items g ''entities'' in
         if \<not> names_one_of allowed (field_of query ''type'') then Inl (entity_denied (field_of query ''type''))
         else (case dget query ''include'' of
             None \<Rightarrow> Inr ()
           | Some (JArr includes) \<Rightarrow>
               (case List.find (\<lambda>i. \<not> names_one_of allowed (field_of i ''target_type'')) includes of
                  None \<Rightarrow> Inr ()
                | Some i \<Rightarrow> Inl (entity_denied (field_of i ''target_type'')))
           | Some _ \<Rightarrow> Inl (scope_denied ''graph.query'' ''query'' (JObj [(''include'', JStr ''invalid'')])))))"

section \<open>Graph mutations\<close>

record graph_scope =
  ms_entities :: "string list"
  ms_operations :: "string list"
  ms_edge_types :: "string list"

definition mutate_denied :: "string \<Rightarrow> (string \<times> json) list \<Rightarrow> policy_error" where
  "mutate_denied operation resource = scope_denied ''graph.mutate'' operation (JObj resource)"

text \<open>The type of the node an id names: one the batch created before, or what the store says.\<close>

definition type_of_node :: "(string \<Rightarrow> string option) \<Rightarrow> (string \<times> string) list \<Rightarrow> json \<Rightarrow> string option" where
  "type_of_node types known v =
     (case v of JStr nid \<Rightarrow> (case map_of known nid of Some t \<Rightarrow> Some t | None \<Rightarrow> types nid) | _ \<Rightarrow> None)"

definition hashable :: "json \<Rightarrow> bool" where
  "hashable v = (case v of JArr _ \<Rightarrow> False | JObj _ \<Rightarrow> False | _ \<Rightarrow> True)"

text \<open>The checks after the branches: the operation, then the entity unless there is none.\<close>

definition check_entity :: "graph_scope \<Rightarrow> json \<Rightarrow> string \<Rightarrow> json \<Rightarrow> unit verdict" where
  "check_entity sc kind operation entity =
     (if operation \<notin> set (ms_operations sc) then Inl (mutate_denied operation [(''action'', kind)])
      else if entity = JNull then Inr ()
      else if \<not> hashable entity then Inl (Fault (TypeError ''unhashable type''))
      else if names_one_of (ms_entities sc) entity then Inr ()
      else Inl (mutate_denied operation [(''entity'', entity)]))"

definition check_edge :: "graph_scope \<Rightarrow> (string \<Rightarrow> string option) \<Rightarrow> (string \<times> string) list \<Rightarrow> json \<Rightarrow> string \<Rightarrow> unit verdict" where
  "check_edge sc types known action operation =
     (let edge_type = json_or_null (dget action ''type'');
          ends = map (\<lambda>field. type_of_node types known (json_or_null (dget action field))) [''from_id'', ''to_id'']
      in if \<not> names_one_of (ms_edge_types sc) edge_type then Inl (mutate_denied operation [(''edge_type'', edge_type)])
         else if list_ex (\<lambda>t. case t of None \<Rightarrow> True | Some s \<Rightarrow> s \<notin> set (ms_entities sc)) ends
         then Inl (mutate_denied operation [(''entities'', JArr (map json_of_str ends))])
         else check_entity sc (json_or_null (dget action ''action'')) operation JNull)"

definition remember_type :: "json \<Rightarrow> (string \<times> string) list \<Rightarrow> (string \<times> string) list" where
  "remember_type action known =
     (case (dget action ''id'', dget action ''type'') of
        (Some (JStr nid), Some (JStr t)) \<Rightarrow> AList.update nid t known
      | _ \<Rightarrow> known)"

definition check_action ::
  "graph_scope \<Rightarrow> (string \<Rightarrow> string option) \<Rightarrow> (string \<times> string) list \<Rightarrow> json \<Rightarrow> (string \<times> string) list verdict" where
  "check_action sc types known action =
     (if \<not> is_dict action then Inl (Fault (AttributeError ''get''))
      else let kind = json_or_null (dget action ''action'') in
      if kind = JStr ''create_node''
      then map_sum id (\<lambda>_. remember_type action known) (check_entity sc kind ''create'' (json_or_null (dget action ''type'')))
      else if \<not> hashable kind then Inl (Fault (TypeError ''unhashable type''))
      else if kind \<in> {JStr ''update_node_property'', JStr ''delete_node''}
      then map_sum id (\<lambda>_. known) (check_entity sc kind (if kind = JStr ''delete_node'' then ''delete'' else ''update'')
             (json_of_str (type_of_node types known (json_or_null (dget action ''id'')))))
      else if kind \<in> {JStr ''create_edge'', JStr ''delete_edge''}
      then map_sum id (\<lambda>_. known) (check_edge sc types known action (if kind = JStr ''create_edge'' then ''create'' else ''delete''))
      else Inl (mutate_denied ''mutate'' [(''action'', kind)]))"

fun check_actions :: "graph_scope \<Rightarrow> (string \<Rightarrow> string option) \<Rightarrow> (string \<times> string) list \<Rightarrow> json list \<Rightarrow> unit verdict" where
  "check_actions sc types known [] = Inr ()"
| "check_actions sc types known (a # as) =
     (case check_action sc types known a of Inl e \<Rightarrow> Inl e | Inr known' \<Rightarrow> check_actions sc types known' as)"

definition scope_of_grant :: "capability_grant \<Rightarrow> graph_scope" where
  "scope_of_grant g = \<lparr>ms_entities = scope_items g ''entities'', ms_operations = scope_items g ''operations'',
     ms_edge_types = scope_items g ''edge_types''\<rparr>"

definition authorize_graph_mutation ::
  "manifest_loader \<Rightarrow> (string \<Rightarrow> string option) \<Rightarrow> string \<Rightarrow> json list \<Rightarrow> snapshot \<Rightarrow> unit verdict" where
  "authorize_graph_mutation loader types app actions sn =
     (case granted loader app ''graph.mutate'' ''mutate'' sn of Inl e \<Rightarrow> Inl e
      | Inr g \<Rightarrow> check_actions (scope_of_grant g) types [] actions)"

section \<open>Location, network and invocations\<close>

definition authorize_location :: "manifest_loader \<Rightarrow> string \<Rightarrow> string \<Rightarrow> snapshot \<Rightarrow> unit verdict" where
  "authorize_location loader app operation sn =
     (case granted loader app ''device.location'' operation sn of Inl e \<Rightarrow> Inl e | Inr g \<Rightarrow>
        if operation \<noteq> ''current'' \<or> operation \<notin> set (scope_items g ''operations'')
        then Inl (scope_denied ''device.location'' operation (JObj [(''operation'', JStr operation)]))
        else Inr ())"

definition upper_char :: "char \<Rightarrow> char" where
  "upper_char c = (if char_between 97 122 c then char_of ((of_char c :: nat) - 32) else c)"

definition source_items :: "json \<Rightarrow> string \<Rightarrow> string list" where
  "source_items source field = (case dget source field of Some (JArr xs) \<Rightarrow> map (\<lambda>x. str_or_empty (Some x)) xs | _ \<Rightarrow> [])"

definition authorize_network_request :: "manifest_loader \<Rightarrow> string \<Rightarrow> string \<Rightarrow> string \<Rightarrow> string \<Rightarrow> snapshot \<Rightarrow> json verdict" where
  "authorize_network_request loader app source_id path http_method sn =
     (case granted loader app ''network.request'' ''request'' sn of Inl e \<Rightarrow> Inl e | Inr g \<Rightarrow>
        (let source = (case dget (cg_scope g) ''sources'' of Some s \<Rightarrow> dget s source_id | None \<Rightarrow> None);
             m = map upper_char http_method;
             refuse = Inl (scope_denied ''network.request'' ''request''
                        (JObj [(''source_id'', JStr source_id), (''path'', JStr path), (''method'', JStr m)]))
         in case source of
              None \<Rightarrow> refuse
            | Some s \<Rightarrow> if path \<notin> set (source_items s ''paths'') \<or> m \<notin> set (source_items s ''methods'') then refuse else Inr s))"

definition authorize_invocation :: "manifest_loader \<Rightarrow> string \<Rightarrow> string \<Rightarrow> string \<Rightarrow> snapshot \<Rightarrow> unit verdict" where
  "authorize_invocation loader app catalog action sn =
     (case granted loader app ''capability.invoke'' ''invoke'' sn of Inl e \<Rightarrow> Inl e | Inr g \<Rightarrow>
        if catalog \<notin> set (scope_items g ''catalog_ids'') \<or> action \<notin> set (scope_items g ''actions'')
        then Inl (scope_denied ''capability.invoke'' ''invoke''
               (JObj [(''catalog_id'', JStr catalog), (''action_id'', JStr action)]))
        else Inr ())"

section \<open>Files\<close>

text \<open>A pattern \<^verbatim>\<open>prefix/**\<close> covers the prefix and everything below; any other one starts at the root of the App data.\<close>

definition pattern_prefix :: "string \<Rightarrow> string" where
  "pattern_prefix pattern = rstrip_char (CHR ''/'') (take (length pattern - 3) pattern)"

definition path_matches :: "string \<Rightarrow> string \<Rightarrow> bool" where
  "path_matches pattern path =
     (if ends_with pattern ''/**''
      then path = pattern_prefix pattern \<or> starts_with path (pattern_prefix pattern @ ''/'')
      else posix_match (CHR ''/'' # path) (CHR ''/'' # pattern))"

definition file_category :: "string \<Rightarrow> string option" where
  "file_category operation = map_of [(''read'', ''file.read''), (''list'', ''file.read''), (''write'', ''file.write''),
     (''delete'', ''file.delete'')] operation"

definition max_bytes :: "capability_grant \<Rightarrow> int" where
  "max_bytes g = (case dget (cg_scope g) ''max_bytes'' of Some (JInt n) \<Rightarrow> n | _ \<Rightarrow> 0)"

definition authorize_file :: "manifest_loader \<Rightarrow> string \<Rightarrow> string \<Rightarrow> string \<Rightarrow> int option \<Rightarrow> snapshot \<Rightarrow> unit verdict" where
  "authorize_file loader app operation path bytes sn =
     (case file_category operation of
        None \<Rightarrow> Inl (scope_denied ''file.read'' operation (JObj [(''path'', JStr path)]))
      | Some cat \<Rightarrow>
          (case granted loader app cat operation sn of Inl e \<Rightarrow> Inl e | Inr g \<Rightarrow>
             if \<not> list_ex (\<lambda>p. path_matches p path) (scope_items g ''paths'')
             then Inl (scope_denied cat operation (JObj [(''path'', JStr path)]))
             else if operation = ''write'' \<and> (case bytes of None \<Rightarrow> True | Some n \<Rightarrow> max_bytes g < n)
             then Inl (denied ''capability_scope_denied'' (''The requested resource is outside the '' @ quoted cat @ '' grant'')
                    cat operation [(''path'', JStr path), (''size'', case bytes of None \<Rightarrow> JNull | Some n \<Rightarrow> JInt n),
                      (''max_bytes'', JInt (max_bytes g))])
             else Inr ()))"

end
