(* ===== verification/Policy_Laws.thy ===== *)
theory Policy_Laws
  imports Capability_Policy Graph_Laws
begin

text \<open>
  What the policy promises: over a source of normalized manifests every refusal is a denial, a mutation an
  App is allowed leaves the nodes of every other type alone, and a file pattern covers what it names only.
\<close>

section \<open>The interface of the manifests\<close>

locale manifest_source =
  fixes loader :: manifest_loader
  assumes normalized: "loader app = Some m \<Longrightarrow> \<exists>gs. normalize_grants (mv_capabilities m) = Inr gs \<and> list_all well_scoped gs"
begin

lemma grantedE:
  assumes "granted loader app cat operation sn = Inr g"
  obtains m gs where "loader app = Some m" "\<not> stale (sn_revision sn) (mv_revision m)" "\<not> stale (sn_digest sn) (mv_digest m)"
    "normalize_grants (mv_capabilities m) = Inr gs" "g \<in> set gs" "cg_id g = cat" "well_scoped g"
proof -
  obtain m where l: "load_manifest loader app sn = Inr m"
    using assms by (cases "load_manifest loader app sn") (simp_all add: granted_def)
  then have m: "loader app = Some m" "\<not> stale (sn_revision sn) (mv_revision m)" "\<not> stale (sn_digest sn) (mv_digest m)"
    by (auto simp: load_manifest_def split: option.splits if_splits)
  obtain gs where gs: "normalize_grants (mv_capabilities m) = Inr gs" using normalized[OF m(1)] by blast
  then have "lookup_by cg_id cat gs = Some g" using assms l by (simp add: granted_def split: option.splits)
  note m = m gs this
  have "list_all well_scoped gs" using normalized[OF m(1)] m(4) by auto
  then show thesis using that[OF m(1-4)] lookup_by_SomeD[OF m(5)] by (auto simp: list_all_iff)
qed

lemma refusal_is_denial:
  assumes "granted loader app cat operation sn = Inl e"
  shows "\<exists>d. e = Denied d \<and> dn_code d \<in> {''app_manifest_unavailable'', ''manifest_revision_stale'', ''grants_digest_stale'',
     ''capability_not_granted''}"
proof (cases "load_manifest loader app sn")
  case (Inl e')
  then show ?thesis using assms by (auto simp: granted_def load_manifest_def denied_def split: option.splits if_splits)
next
  case (Inr m)
  then have "loader app = Some m" by (auto simp: load_manifest_def split: option.splits if_splits)
  then obtain gs where "normalize_grants (mv_capabilities m) = Inr gs" using normalized by blast
  then show ?thesis using assms Inr by (auto simp: granted_def denied_def split: option.splits)
qed

text \<open>So no authorization of a file, a request, a location or an invocation raises anything but a denial.\<close>

lemma authorize_file_denies:
  "authorize_file loader app operation path bytes sn = Inl e \<Longrightarrow> \<exists>d. e = Denied d"
  by (cases "file_category operation"; cases "granted loader app (the (file_category operation)) operation sn")
    (auto simp: authorize_file_def scope_denied_def denied_def dest: refusal_is_denial split: if_splits)

lemma authorize_file_granted:
  assumes "authorize_file loader app operation path bytes sn = Inr ()"
  shows "\<exists>cat m gs g. file_category operation = Some cat \<and> loader app = Some m \<and> normalize_grants (mv_capabilities m) = Inr gs \<and>
     g \<in> set gs \<and> cg_id g = cat \<and> (\<exists>p \<in> set (scope_items g ''paths''). path_matches p path) \<and>
     (operation = ''write'' \<longrightarrow> (\<exists>n. bytes = Some n \<and> n \<le> max_bytes g))"
proof -
  obtain cat g where c: "file_category operation = Some cat" "granted loader app cat operation sn = Inr g"
    "list_ex (\<lambda>p. path_matches p path) (scope_items g ''paths'')"
    "operation = ''write'' \<longrightarrow> (\<exists>n. bytes = Some n \<and> n \<le> max_bytes g)"
    using assms by (auto simp: authorize_file_def split: option.splits sum.splits if_splits)
  from c(2) obtain m gs where "loader app = Some m" "normalize_grants (mv_capabilities m) = Inr gs" "g \<in> set gs" "cg_id g = cat"
    by (rule grantedE)
  then show ?thesis using c by (auto simp: list_ex_iff)
qed

end

section \<open>Mutations stay inside the granted types\<close>

lemma check_entity_text: "check_entity sc kind operation (JStr t) = Inr () \<Longrightarrow> t \<in> set (ms_entities sc)"
  by (auto simp: check_entity_def hashable_def names_one_of_def split: if_splits)

lemma check_action_kind:
  assumes "dget a ''action'' = Some (JStr kind)"
  shows "check_action sc types known a =
    (if kind = ''create_node''
     then map_sum id (\<lambda>_. remember_type a known) (check_entity sc (JStr kind) ''create'' (json_or_null (dget a ''type'')))
     else if kind = ''update_node_property'' \<or> kind = ''delete_node''
     then map_sum id (\<lambda>_. known) (check_entity sc (JStr kind) (if kind = ''delete_node'' then ''delete'' else ''update'')
             (json_of_str (type_of_node types known (json_or_null (dget a ''id'')))))
     else if kind = ''create_edge'' \<or> kind = ''delete_edge''
     then map_sum id (\<lambda>_. known) (check_edge sc types known a (if kind = ''create_edge'' then ''create'' else ''delete''))
     else Inl (mutate_denied ''mutate'' [(''action'', JStr kind)]))"
  using dget_Some_dict[OF assms] by (simp add: check_action_def json_or_null_def hashable_def assms Let_def)

lemma check_known:
  assumes "dget a ''action'' = Some (JStr kind)" "kind \<noteq> ''create_node''" "check_action sc types known a = Inr known'"
  shows "known' = known"
  using assms(2,3) by (simp add: check_action_kind[OF assms(1)] map_sum_Inr split: if_split_asm)

lemma action_kind:
  assumes "check_action sc types known a = Inr known'" "step_action now fr a b = Inr b'"
  obtains (create) "dget a ''action'' = Some (JStr ''create_node'')" "required_text a ''action'' = Inr ''create_node''"
    | (upd) "dget a ''action'' = Some (JStr ''update_node_property'')" "required_text a ''action'' = Inr ''update_node_property''"
    | (del) "dget a ''action'' = Some (JStr ''delete_node'')" "required_text a ''action'' = Inr ''delete_node''"
    | (edge) kind where "kind = ''create_edge'' \<or> kind = ''delete_edge''" "kind \<noteq> ''create_node''"
        "dget a ''action'' = Some (JStr kind)" "required_text a ''action'' = Inr kind"
proof -
  obtain kind where k: "required_text a ''action'' = Inr kind"
    using assms(2) by (cases "required_text a ''action''") (simp_all add: step_action_def)
  then have d: "dget a ''action'' = Some (JStr kind)" by (simp add: required_text_eq)
  have "kind = ''create_node'' \<or> kind = ''update_node_property'' \<or> kind = ''delete_node'' \<or> kind = ''create_edge'' \<or> kind = ''delete_edge''"
    by (rule ccontr) (use assms(1) in \<open>simp add: check_action_kind[OF d]\<close>)
  then show thesis
  proof (elim disjE)
    assume "kind = ''create_node''" then show thesis using create d k by simp
  next
    assume "kind = ''update_node_property''" then show thesis using upd d k by simp
  next
    assume "kind = ''delete_node''" then show thesis using del d k by simp
  next
    assume "kind = ''create_edge''" then show thesis using edge[of "''create_edge''"] d k by simp
  next
    assume "kind = ''delete_edge''" then show thesis using edge[of "''delete_edge''"] d k by simp
  qed
qed

text \<open>The type the policy sees of a node the batch has not created is the one in the store.\<close>

lemma step_keeps_foreign:
  assumes ca: "check_action sc types known a = Inr known'" and st: "step_action now fr a b = Inr b'"
    and ty: "types i = Some t" "t \<notin> set (ms_entities sc)" and kn: "map_of known i = None" and i: "i \<noteq> []"
    and new: "kind_of a = ''create_node'' \<Longrightarrow> action_id fr a \<noteq> Inr i"
  shows "node_view (bt_graph b') i = node_view (bt_graph b) i \<and> map_of known' i = None"
proof -
  have not_i: "nid \<noteq> i" if "required_text a ''id'' = Inr nid"
    "check_entity sc kd operation (json_of_str (type_of_node types known (json_or_null (dget a ''id'')))) = Inr u" for nid kd operation u
    using that ty kn check_entity_text[of sc kd operation t]
    by (auto simp: required_text_eq json_or_null_def type_of_node_def json_of_str_def)
  from ca st show ?thesis
  proof (cases rule: action_kind)
    case create
    obtain nid ty' v where n: "action_id fr a = Inr nid" and g: "bt_graph b' = put_node (new_node now nid ty' v) (bt_graph b)"
      using st unfolding step_action_def create(2) by (auto simp: do_create_node_def Let_def split: sum.splits)
    have "nid \<noteq> i" using new n create(1) by (auto simp: kind_of_def)
    moreover have "map_of (remember_type a known) i = None"
      using kn i new create(1) by (auto simp: remember_type_def kind_of_def action_id_def update_conv split: option.splits json.splits)
    moreover have "known' = remember_type a known"
      using ca unfolding check_action_kind[OF create(1)] by (simp add: map_sum_Inr)
    ultimately show ?thesis using g by (simp add: new_node_def)
  next
    case upd
    have c: "known' = known" "\<exists>kd operation u. check_entity sc kd operation (json_of_str (type_of_node types known (json_or_null (dget a ''id'')))) = Inr u"
      using ca unfolding check_action_kind[OF upd(1)] by (auto simp: map_sum_Inr)
    obtain nid ty' v where n: "required_text a ''id'' = Inr nid" and g: "bt_graph b' = set_node nid ty' v (bt_graph b)"
      using st unfolding step_action_def upd(2) by (auto simp: do_update_node_def set_node_def Let_def split: sum.splits option.splits json.splits)
    then show ?thesis using c not_i kn by auto
  next
    case del
    have c: "known' = known" "\<exists>kd operation u. check_entity sc kd operation (json_of_str (type_of_node types known (json_or_null (dget a ''id'')))) = Inr u"
      using ca unfolding check_action_kind[OF del(1)] by (auto simp: map_sum_Inr)
    obtain nid where n: "required_text a ''id'' = Inr nid" and g: "bt_graph b' = remove_node nid (bt_graph b)"
      using st unfolding step_action_def del(2) by (auto simp: do_delete_node_def Let_def split: sum.splits option.splits)
    then show ?thesis using c not_i kn by auto
  next
    case edge
    have "known' = known"
      by (rule check_known[OF edge(3,2) ca])
    moreover have "node_view (bt_graph b') i = node_view (bt_graph b) i"
      using edge(1) st unfolding step_action_def edge(4)
      by (elim disjE) (auto simp: do_create_edge_def do_delete_edge_def Let_def split: sum.splits option.splits if_splits)
    ultimately show ?thesis using kn by simp
  qed
qed

text \<open>A batch names no foreign node as one to create when no id it gives and no fresh id belongs to one.\<close>

definition creates :: "(nat \<Rightarrow> string) \<Rightarrow> json list \<Rightarrow> string \<Rightarrow> bool" where
  "creates fresh actions i \<longleftrightarrow> (\<exists>n. fresh n = i) \<or>
     (\<exists>a \<in> set actions. kind_of a = ''create_node'' \<and> dget a ''id'' = Some (JStr i))"

lemma action_id_cases: "action_id fr a = Inr i \<Longrightarrow> i = fr \<or> dget a ''id'' = Some (JStr i)"
  by (auto simp: action_id_def split: option.splits json.splits if_splits)

lemma run_keeps_foreign:
  assumes "check_actions sc types known actions = Inr ()" "run_actions now fresh n actions b = Inr b'"
    and ty: "types i = Some t" "t \<notin> set (ms_entities sc)" and "map_of known i = None" "i \<noteq> []" "\<not> creates fresh actions i"
  shows "node_view (bt_graph b') i = node_view (bt_graph b) i"
  using assms(1,2,5,7)
proof (induction actions arbitrary: known n b)
  case (Cons a as)
  obtain known' c where s: "check_action sc types known a = Inr known'" "check_actions sc types known' as = Inr ()"
    "step_action now (fresh n) a b = Inr c" "run_actions now fresh (Suc n) as c = Inr b'"
    using Cons.prems by (auto split: sum.splits)
  have "kind_of a = ''create_node'' \<Longrightarrow> action_id (fresh n) a \<noteq> Inr i"
    using Cons.prems(4) action_id_cases[of "fresh n" a i] by (auto simp: creates_def)
  from step_keeps_foreign[OF s(1,3) ty Cons.prems(3) assms(6) this]
  have k: "node_view (bt_graph c) i = node_view (bt_graph b) i" "map_of known' i = None" by auto
  have "\<not> creates fresh as i" using Cons.prems(4) by (auto simp: creates_def)
  from Cons.IH[OF s(2,4) k(2) this] k(1) show ?case by simp
qed simp

text \<open>
  Property C33 (confined): an App changes only what it was granted. A batch the policy allows, with the types of the
  stored nodes, and that the store then commits, leaves every node whose type is not among the granted entities
  with its type and properties, whatever the batch creates, updates, deletes or connects; the ids of the nodes it
  creates must not be those of such nodes.
\<close>

theorem app_mutation_is_confined:
  assumes "granted loader app ''graph.mutate'' ''mutate'' sn = Inr grant"
    and "authorize_graph_mutation loader (graph_node_type g) app actions sn = Inr ()"
    and "apply_actions_atomic now fresh ticket digest q actions g = (g', Inr res)" "graph_ok g"
    and "node_view g i = Some (t, props)" "t \<notin> set (scope_items grant ''entities'')" "\<not> creates fresh actions i"
  shows "node_view g' i = Some (t, props)"
proof (cases "prior_effect q g")
  case (Some x)
  with assms(3) have "g' = g"
    by (auto simp: tx_of_atomic apply_actions_tx_def prior_effect_def Let_def split: if_splits)
  then show ?thesis using assms(5) by simp
next
  case None
  have n: "named i" "named t" using graph_okD(2)[OF assms(4,5)] by auto
  then have "t \<noteq> []" "i \<noteq> []" by (auto simp: named_def strip_def)
  then have ty: "graph_node_type g i = Some t" using assms(5) by (auto simp: graph_node_type_def node_view_def)
  from assms(3) None obtain b where b: "run_actions now fresh 0 actions (start_batch g) = Inr b" "same_rows g' (bt_graph b)"
    unfolding tx_of_atomic by (elim fresh_commitE)
  have "check_actions (scope_of_grant grant) (graph_node_type g) [] actions = Inr ()"
    using assms(1,2) by (simp add: authorize_graph_mutation_def)
  from run_keeps_foreign[OF this b(1) ty] assms(6,7) \<open>i \<noteq> []\<close>
  have "node_view (bt_graph b) i = node_view g i" by (simp add: scope_of_grant_def)
  moreover have "node_view g' i = node_view (bt_graph b) i" using same_rows_content[OF b(2)] by (auto simp: same_content_def)
  ultimately show ?thesis using assms(5) by simp
qed

section \<open>A concrete App\<close>

text \<open>An App that may create and delete tasks, beside a node it knows nothing about.\<close>

definition task_app :: manifest_loader where
  "task_app app = (if app = ''todo'' then Some \<lparr>mv_revision = Some ''2:0.1.0'', mv_digest = None,
     mv_capabilities = [Plain (JObj [(''id'', JStr ''graph.mutate''), (''scope'',
       JObj [(''entities'', texts [''Task'']), (''operations'', texts [''create'', ''delete''])])])]\<rparr> else None)"

definition any_snapshot :: snapshot where
  "any_snapshot = \<lparr>sn_revision = None, sn_digest = None\<rparr>"

definition shared_graph :: graph where
  "shared_graph = demo_graph\<lparr>gd_schemas := [demo_schema, core_entity ''Secret'' [] [''text''] []],
     gd_nodes := [demo_node ''a'' ''x'', demo_node ''b'' ''y'', new_node [] ''s'' ''Secret'' [(''text'', JStr ''z'')]]\<rparr>"

lemma shared_ok: "graph_ok shared_graph"
  by (auto simp: graph_ok_def shared_graph_def demo_defs node_view_def edge_view_def find_node_def find_edge_def edge_key_def
      schema_ok_def named_def strip_def is_space_def schema_properties_def SYSTEM_PROPERTIES_def accepts_def find_schema_def
      usable_schema_def well_typed_def ONTOLOGY_ID_def USER_CONTEXT_SCOPE_def split: if_splits)

definition task_grant :: capability_grant where
  "task_grant = \<lparr>cg_id = ''graph.mutate'', cg_scope = JObj [(''entities'', texts [''Task'']), (''operations'', texts [''create'', ''delete''])]\<rparr>"

lemma task_granted: "granted task_app ''todo'' ''graph.mutate'' ''mutate'' any_snapshot = Inr task_grant"
  by code_simp

definition commit_shared :: "json list \<Rightarrow> graph \<times> json result" where
  "commit_shared actions = apply_actions_atomic [] (\<lambda>i. ''f'') ''t'' (\<lambda>x. ''h'') demo_request actions shared_graph"

lemma app_mutation_is_confined_witness: "node_view (fst (commit_shared demo_delete)) ''s'' = Some (''Secret'', [(''text'', JStr ''z'')])"
proof -
  have "\<not> isl (snd (commit_shared demo_delete))" by code_simp
  then obtain res where c: "commit_shared demo_delete = (fst (commit_shared demo_delete), Inr res)"
    by (cases "commit_shared demo_delete"; cases "snd (commit_shared demo_delete)") auto
  have "authorize_graph_mutation task_app (graph_node_type shared_graph) ''todo'' demo_delete any_snapshot = Inr ()" by code_simp
  from app_mutation_is_confined[OF task_granted this c[unfolded commit_shared_def] shared_ok, of "''s''" "''Secret''" "[(''text'', JStr ''z'')]"]
  show ?thesis
    by (simp add: commit_shared_def shared_graph_def demo_defs node_view_def find_node_def task_grant_def scope_items_def texts_def
        creates_def demo_delete_def kind_of_def)
qed

text \<open>
  The policy looks at the type a creation asks for and not at the node it may meet. An App
  that may only create and delete tasks replaces the type and the properties of a node of another type, by
  creating a task under the id of that node.
\<close>

theorem creation_replaces_foreign_node:
  "let steal = [node_record ''create_node'' ''s'' ''Task'' [(''title'', JStr ''mine'')]]
   in authorize_graph_mutation task_app (graph_node_type shared_graph) ''todo'' steal any_snapshot = Inr () \<and>
     node_view shared_graph ''s'' = Some (''Secret'', [(''text'', JStr ''z'')]) \<and>
     node_view (fst (commit_shared steal)) ''s'' = Some (''Task'', [(''title'', JStr ''mine'')])"
  by code_simp

end
