(* ===== verification/App_Types.thy ===== *)
theory App_Types
  imports Ontology_Types
begin

text \<open>
  The declaration of what an App implements (\<^verbatim>\<open>backend/app_types.py\<close>): the standard types with their features
  and the strict validation of a declaration, with the path, the expectation and the observed shape of the
  first value it refuses. The titles and descriptions of the catalog are prose and are not carried.
\<close>

section \<open>Vocabulary\<close>

definition STANDARD_TYPES :: "(string \<times> string list) list" where
  "STANDARD_TYPES =
    [(''calendar'', [''events'', ''reminders'', ''views'', ''recurrence'']),
     (''tasks'', [''items'', ''complete'', ''projects'']),
     (''notes'', [''items'', ''search'', ''organize'']),
     (''contacts'', [''people'', ''search'', ''groups'']),
     (''documents'', [''files'', ''search'', ''editor'']),
     (''messaging'', [''conversations'', ''compose'', ''search'']),
     (''finance'', [''transactions'', ''budgets'', ''reports'']),
     (''media'', [''library'', ''playback'', ''organize'']),
     (''dashboard'', [''widgets'', ''metrics'', ''filters'']),
     (''utility'', [''transform'', ''calculate'', ''convert''])]"

definition TYPE_IDS :: "string list" where
  "TYPE_IDS = map fst STANDARD_TYPES"

definition FEATURE_TYPES :: "(string \<times> string) list" where
  "FEATURE_TYPES = concat (map (\<lambda>(t, fs). map (\<lambda>f. (t @ ''.'' @ f, t)) fs) STANDARD_TYPES)"

text \<open>\<^verbatim>\<open>custom:<kebab>\<close> and \<^verbatim>\<open>custom:<kebab>.<kebab>\<close>.\<close>

definition custom_type :: "string \<Rightarrow> bool" where
  "custom_type s \<longleftrightarrow> starts_with s ''custom:'' \<and> kebab_case (drop 7 s)"

text \<open>The namespace of a custom feature.\<close>

definition custom_feature :: "string \<Rightarrow> string option" where
  "custom_feature s =
     (if starts_with s ''custom:''
      then (case split_on (CHR ''.'') (drop 7 s) of
          [ns, feature] \<Rightarrow> if kebab_case ns \<and> kebab_case feature then Some ns else None
        | _ \<Rightarrow> None)
      else None)"

section \<open>Declarations\<close>

record feature_declaration =
  fd_id :: string
  fd_status :: string
  fd_surfaces :: "string list"
  fd_notes :: "string option"

record app_specification =
  as_types :: "string list"
  as_features :: "feature_declaration list"

definition feature_json :: "feature_declaration \<Rightarrow> json" where
  "feature_json f = JObj ([(''id'', JStr (fd_id f)), (''status'', JStr (fd_status f)), (''surfaces'', JArr (map JStr (fd_surfaces f)))]
     @ (case fd_notes f of None \<Rightarrow> [] | Some n \<Rightarrow> [(''notes'', JStr n)]))"

definition specification_json :: "app_specification \<Rightarrow> json" where
  "specification_json s = JObj [(''spec_version'', JInt 1), (''types'', JArr (map JStr (as_types s))),
     (''features'', JArr (map feature_json (as_features s)))]"

record spec_error =
  se_message :: string
  se_path :: string
  se_expected :: string
  se_observed :: string

type_synonym 'a spec_result = "spec_error + 'a"

definition observed_shape :: "json \<Rightarrow> string" where
  "observed_shape v = (case v of JNull \<Rightarrow> ''null'' | JBool _ \<Rightarrow> ''boolean'' | JObj _ \<Rightarrow> ''object'' | JArr _ \<Rightarrow> ''array''
     | JStr _ \<Rightarrow> ''string'' | JInt _ \<Rightarrow> ''integer'' | JFloat _ \<Rightarrow> ''number'')"

definition spec_refused :: "string \<Rightarrow> string \<Rightarrow> string \<Rightarrow> string \<Rightarrow> spec_error" where
  "spec_refused message path expected observed =
     \<lparr>se_message = path @ '': '' @ message @ ''. Expected '' @ expected @ ''; observed '' @ observed,
      se_path = path, se_expected = expected, se_observed = observed\<rparr>"

definition identifier_text :: "json \<Rightarrow> string \<Rightarrow> string \<Rightarrow> string spec_result" where
  "identifier_text v field path =
     (let refuse = Inl (spec_refused (field @ '' must be a non-empty string of at most 200 characters''
             @ (if is_dict v then ''; use the ID string, not a catalog object'' else []))
             path (''non-empty '' @ field @ '' string (max 200 characters)'') (observed_shape v))
      in case v of JStr s \<Rightarrow> if s = [] \<or> 200 < point_length s then refuse else Inr s | _ \<Rightarrow> refuse)"

definition indexed :: "string \<Rightarrow> nat \<Rightarrow> string" where
  "indexed path i = path @ ''['' @ nat_str i @ '']''"

section \<open>Types\<close>

fun read_types :: "nat \<Rightarrow> json list \<Rightarrow> string list \<Rightarrow> string list spec_result" where
  "read_types i [] types = Inr types"
| "read_types i (v # vs) types =
     (let path = indexed ''app_spec.types'' i
      in case identifier_text v ''type ID'' path of Inl e \<Rightarrow> Inl e | Inr t \<Rightarrow>
        if t \<notin> set TYPE_IDS \<and> \<not> custom_type t
        then Inl (spec_refused ''unknown type ID'' path ''standard type ID or custom:<lowercase-kebab-case-namespace>'' ''unrecognized string'')
        else if t \<in> set types
        then Inl (spec_refused ''types must not contain duplicate IDs'' path ''unique type ID string'' ''duplicate string'')
        else read_types (Suc i) vs (types @ [t]))"

section \<open>Features\<close>

definition feature_namespace :: "string \<Rightarrow> string option" where
  "feature_namespace f =
     (case map_of FEATURE_TYPES f of
        Some t \<Rightarrow> Some t
      | None \<Rightarrow> map_option (\<lambda>ns. ''custom:'' @ ns) (custom_feature f))"

fun read_surfaces :: "string \<Rightarrow> nat \<Rightarrow> json list \<Rightarrow> string list \<Rightarrow> string list spec_result" where
  "read_surfaces path i [] surfaces = Inr surfaces"
| "read_surfaces path i (v # vs) surfaces =
     (case v of
        JStr s \<Rightarrow>
          if s \<notin> set [''data'', ''tools'', ''ui'']
          then Inl (spec_refused ''unknown feature surface; use data, tools, or ui'' (indexed path i) ''data, tools, or ui'' ''string'')
          else if s \<in> set surfaces
          then Inl (spec_refused ''surfaces must not contain duplicates'' (indexed path i) ''unique surface string'' ''duplicate string'')
          else read_surfaces path (Suc i) vs (surfaces @ [s])
      | _ \<Rightarrow> Inl (spec_refused ''unknown feature surface; use data, tools, or ui'' (indexed path i) ''data, tools, or ui'' (observed_shape v)))"

definition read_status :: "string \<Rightarrow> json \<Rightarrow> string spec_result" where
  "read_status path v =
     (let refuse = Inl (spec_refused ''feature status must be implemented, partial, or planned'' (path @ ''.status'')
             ''implemented, partial, or planned'' (observed_shape v))
      in case v of JStr s \<Rightarrow> if s \<in> set [''implemented'', ''partial'', ''planned''] then Inr s else refuse | _ \<Rightarrow> refuse)"

definition surfaces_of :: "string \<Rightarrow> string \<Rightarrow> json \<Rightarrow> string list spec_result" where
  "surfaces_of path status v =
     (let p = path @ ''.surfaces'';
          refuse = Inl (spec_refused ''surfaces must be an array containing data, tools, or ui'' p
             ''array containing at most data, tools, ui'' (observed_shape v))
      in case v of
           JArr vs \<Rightarrow>
             if 3 < length vs then refuse
             else (case read_surfaces p 0 vs [] of Inl e \<Rightarrow> Inl e | Inr ss \<Rightarrow>
               if status = ''planned'' \<and> ss \<noteq> []
               then Inl (spec_refused ''planned features must have empty surfaces'' p ''empty array for planned feature'' ''non-empty array'')
               else if status \<noteq> ''planned'' \<and> ss = []
               then Inl (spec_refused ''implemented and partial features require at least one surface'' p
                      ''at least one surface for implemented or partial feature'' ''empty array'')
               else Inr ss)
         | _ \<Rightarrow> refuse)"

definition read_notes :: "string \<Rightarrow> json option \<Rightarrow> string option spec_result" where
  "read_notes path v =
     (case v of
        None \<Rightarrow> Inr None
      | Some (JStr s) \<Rightarrow>
          if 2000 < point_length s
          then Inl (spec_refused ''feature notes must be a string of at most 2000 characters'' (path @ ''.notes'')
                 ''string of at most 2000 characters'' ''string'')
          else Inr (Some s)
      | Some w \<Rightarrow> Inl (spec_refused ''feature notes must be a string of at most 2000 characters'' (path @ ''.notes'')
             ''string of at most 2000 characters'' (observed_shape w)))"

definition feature_shape :: "json \<Rightarrow> bool" where
  "feature_shape v = (case v of
     JObj kvs \<Rightarrow> {''id'', ''status'', ''surfaces''} \<subseteq> set (map fst kvs) \<and> set (map fst kvs) \<subseteq> {''id'', ''status'', ''surfaces'', ''notes''}
   | _ \<Rightarrow> False)"

definition read_feature :: "string list \<Rightarrow> string list \<Rightarrow> nat \<Rightarrow> json \<Rightarrow> feature_declaration spec_result" where
  "read_feature types seen i v =
     (let path = indexed ''app_spec.features'' i; id_path = path @ ''.id''
      in if \<not> feature_shape v
         then Inl (spec_refused ''each feature requires id, status, surfaces and optional notes only'' path
                ''object with id, status, surfaces and optional notes only'' (observed_shape v))
         else (case identifier_text (json_or_null (dget v ''id'')) ''feature ID'' id_path of Inl e \<Rightarrow> Inl e | Inr f \<Rightarrow>
         (case feature_namespace f of
            None \<Rightarrow> Inl (spec_refused ''unknown feature ID'' id_path
              ''standard feature ID or custom:<namespace>.<lowercase-kebab-case-feature>'' ''unrecognized string'')
          | Some t \<Rightarrow>
              if t \<notin> set types
              then Inl (spec_refused (''feature requires declared type '' @ t) id_path
                     ''feature namespace declared in app_spec.types'' ''undeclared feature type'')
              else if f \<in> set seen
              then Inl (spec_refused ''features must not contain duplicate IDs'' id_path ''unique feature ID string'' ''duplicate string'')
              else (case read_status path (json_or_null (dget v ''status'')) of Inl e \<Rightarrow> Inl e | Inr st \<Rightarrow>
                   (case surfaces_of path st (json_or_null (dget v ''surfaces'')) of Inl e \<Rightarrow> Inl e | Inr ss \<Rightarrow>
                   (case read_notes path (dget v ''notes'') of Inl e \<Rightarrow> Inl e | Inr n \<Rightarrow>
                      Inr \<lparr>fd_id = f, fd_status = st, fd_surfaces = ss, fd_notes = n\<rparr>))))))"

fun read_features :: "string list \<Rightarrow> nat \<Rightarrow> json list \<Rightarrow> feature_declaration list \<Rightarrow> feature_declaration list spec_result" where
  "read_features types i [] fs = Inr fs"
| "read_features types i (v # vs) fs =
     (case read_feature types (map fd_id fs) i v of Inl e \<Rightarrow> Inl e | Inr f \<Rightarrow> read_features types (Suc i) vs (fs @ [f]))"

section \<open>The specification\<close>

definition read_type_list :: "json \<Rightarrow> string list spec_result" where
  "read_type_list v =
     (let refuse = Inl (spec_refused ''types must be a non-empty array of at most 20 type IDs'' ''app_spec.types''
             ''array of 1 to 20 type ID strings'' (observed_shape v))
      in case v of JArr ts \<Rightarrow> if ts = [] \<or> 20 < length ts then refuse else read_types 0 ts [] | _ \<Rightarrow> refuse)"

definition read_feature_list :: "string list \<Rightarrow> json \<Rightarrow> feature_declaration list spec_result" where
  "read_feature_list types v =
     (let refuse = Inl (spec_refused ''features must be an array of at most 100 declarations'' ''app_spec.features''
             ''array of at most 100 feature objects'' (observed_shape v))
      in case v of JArr fs \<Rightarrow> if 100 < length fs then refuse else read_features types 0 fs [] | _ \<Rightarrow> refuse)"

definition validate_app_spec :: "json \<Rightarrow> app_specification option spec_result" where
  "validate_app_spec value =
     (case value of
        JNull \<Rightarrow> Inr None
      | JObj kvs \<Rightarrow>
          if set (map fst kvs) \<noteq> {''spec_version'', ''types'', ''features''}
          then Inl (spec_refused ''requires only spec_version, types, and features'' ''app_spec''
                 ''object with exactly spec_version, types, features'' ''object with missing or extra fields'')
          else if map_of kvs ''spec_version'' \<noteq> Some (JInt 1)
          then Inl (spec_refused ''spec_version must be the supported integer 1'' ''app_spec.spec_version'' ''integer 1''
                 (observed_shape (json_or_null (map_of kvs ''spec_version''))))
          else (case read_type_list (json_or_null (map_of kvs ''types'')) of Inl e \<Rightarrow> Inl e | Inr types \<Rightarrow>
               (case read_feature_list types (json_or_null (map_of kvs ''features'')) of Inl e \<Rightarrow> Inl e | Inr features \<Rightarrow>
                  Inr (Some \<lparr>as_types = types, as_features = features\<rparr>)))
      | v \<Rightarrow> Inl (spec_refused ''must be an object or null'' ''app_spec'' ''object or null'' (observed_shape v)))"

end
