(* ===== verification/App_Manifest.thy ===== *)
theory App_Manifest
  imports App_Types Capability_Laws
begin

text \<open>
  The manifest of an App (\<^verbatim>\<open>backend/app_manifest.py\<close>): identifiers, the strict reading of the JSON object and the
  object written back. \<open>digest\<close> stands for the hash of the canonical text of grants.
\<close>

section \<open>Fields\<close>

datatype manifest_error = Invalid spec_error | Escaped py_error

type_synonym 'a manifest_result = "manifest_error + 'a"

text \<open>\<^verbatim>\<open>ManifestValidationError(message)\<close>.\<close>

definition invalid :: "string \<Rightarrow> manifest_error" where
  "invalid m = Invalid \<lparr>se_message = m, se_path = [], se_expected = [], se_observed = []\<rparr>"

definition RESERVED_NAMES :: "string list" where
  "RESERVED_NAMES = [''aux'', ''clock$'', ''com1'', ''com2'', ''com3'', ''com4'', ''com5'', ''com6'', ''com7'', ''com8'', ''com9'',
     ''con'', ''lpt1'', ''lpt2'', ''lpt3'', ''lpt4'', ''lpt5'', ''lpt6'', ''lpt7'', ''lpt8'', ''lpt9'', ''nul'', ''prn'']"

definition REQUIRED_FIELDS :: "string list" where
  "REQUIRED_FIELDS = [''manifest_version'', ''id'', ''title'', ''description'', ''app_version'', ''intents'', ''schema_refs'',
     ''capabilities'']"

definition OPTIONAL_FIELDS :: "string list" where
  "OPTIONAL_FIELDS = [''app_spec'', ''backend_type'', ''mcp_server'', ''agent_url'']"

text \<open>The case folding of an identifier that passed the pattern is itself.\<close>

definition check_app_id :: "json \<Rightarrow> string manifest_result" where
  "check_app_id v =
     (case v of
        JStr s \<Rightarrow>
          if 64 < point_length s \<or> \<not> kebab_case s
          then Inl (invalid ''id must be a lowercase kebab-case identifier of at most 64 characters'')
          else if s \<in> set RESERVED_NAMES then Inl (invalid ''id is reserved by the filesystem'')
          else Inr s
      | _ \<Rightarrow> Inl (invalid ''id must be a string''))"

definition validate_text :: "string \<Rightarrow> bool \<Rightarrow> nat \<Rightarrow> json \<Rightarrow> string manifest_result" where
  "validate_text field allow_empty limit v =
     (case v of
        JStr s \<Rightarrow>
          if \<not> allow_empty \<and> strip s = [] \<or> s \<noteq> strip s
          then Inl (invalid (field @ '' must be non-empty and must not have surrounding whitespace''))
          else if limit < point_length s then Inl (invalid (field @ '' exceeds its maximum length''))
          else Inr s
      | _ \<Rightarrow> Inl (invalid (field @ '' must be a string'')))"

definition validate_string_list :: "string \<Rightarrow> json \<Rightarrow> string list manifest_result" where
  "validate_string_list field v =
     (case v of
        JArr xs \<Rightarrow>
          if 100 < length xs then Inl (invalid (field @ '' contains too many items''))
          else (case check_all (validate_text field False 200) xs of Inl e \<Rightarrow> Inl e | Inr ss \<Rightarrow>
            if distinct ss then Inr ss else Inl (invalid (field @ '' must not contain duplicate items'')))
      | _ \<Rightarrow> Inl (invalid (field @ '' must be an array'')))"

definition validate_backend_type :: "json \<Rightarrow> string manifest_result" where
  "validate_backend_type v =
     (case v of
        JStr s \<Rightarrow> if s \<in> set [''code'', ''agent'', ''mcp''] then Inr s
          else Inl (invalid (''backend_type must be one of '' @ join_with '', '' (map quoted [''code'', ''agent'', ''mcp''])))
      | _ \<Rightarrow> Inl (invalid ''backend_type must be a string''))"

record mcp_server =
  mcp_command :: "string list"
  mcp_args :: "string list"
  mcp_env :: "(string \<times> string) list"

definition mcp_json :: "mcp_server \<Rightarrow> json" where
  "mcp_json m = JObj [(''command'', texts (mcp_command m)), (''args'', texts (mcp_args m)),
     (''env'', JObj (map (\<lambda>kv. (fst kv, JStr (snd kv))) (mcp_env m)))]"

definition mcp_command_item :: "json \<Rightarrow> string manifest_result" where
  "mcp_command_item v =
     (case v of
        JStr s \<Rightarrow> if strip s = [] then Inl (invalid ''mcp_server command items must be non-empty strings'') else Inr (strip s)
      | _ \<Rightarrow> Inl (invalid ''mcp_server command items must be non-empty strings''))"

definition mcp_arg :: "json \<Rightarrow> string manifest_result" where
  "mcp_arg v = (case v of JStr s \<Rightarrow> Inr s | _ \<Rightarrow> Inl (invalid ''mcp_server args items must be strings''))"

definition mcp_variable :: "string \<times> json \<Rightarrow> (string \<times> string) manifest_result" where
  "mcp_variable kv = (case snd kv of JStr s \<Rightarrow> Inr (fst kv, s) | _ \<Rightarrow> Inl (invalid ''mcp_server env keys and values must be strings''))"

text \<open>\<^verbatim>\<open>data.get(field, default)\<close>.\<close>

definition field_or :: "json \<Rightarrow> (string \<times> json) list \<Rightarrow> string \<Rightarrow> json" where
  "field_or absent kvs field = (case map_of kvs field of None \<Rightarrow> absent | Some v \<Rightarrow> v)"

definition validate_mcp_server :: "json \<Rightarrow> mcp_server option manifest_result" where
  "validate_mcp_server v =
     (case v of
        JNull \<Rightarrow> Inr None
      | JObj kvs \<Rightarrow>
          (case map_of kvs ''command'' of
             None \<Rightarrow> Inl (invalid (''mcp_server must contain a '' @ quoted ''command'' @ '' field''))
           | Some (JArr (c # cs)) \<Rightarrow>
               (case check_all mcp_command_item (c # cs) of Inl e \<Rightarrow> Inl e | Inr command \<Rightarrow>
               (case field_or (JArr []) kvs ''args'' of
                  JArr xs \<Rightarrow>
                    (case check_all mcp_arg xs of Inl e \<Rightarrow> Inl e | Inr args \<Rightarrow>
                    (case field_or (JObj []) kvs ''env'' of
                       JObj es \<Rightarrow>
                         map_sum id (\<lambda>env. Some \<lparr>mcp_command = command, mcp_args = args, mcp_env = env\<rparr>) (check_all mcp_variable es)
                     | _ \<Rightarrow> Inl (invalid ''mcp_server env must be a JSON object'')))
                | _ \<Rightarrow> Inl (invalid ''mcp_server args must be an array of strings'')))
           | Some _ \<Rightarrow> Inl (invalid ''mcp_server command must be a non-empty array of strings''))
      | _ \<Rightarrow> Inl (invalid ''mcp_server must be a JSON object''))"

section \<open>The manifest\<close>

record app_manifest =
  am_id :: string
  am_title :: string
  am_description :: string
  am_app_version :: string
  am_intents :: "string list"
  am_schema_refs :: "string list"
  am_capabilities :: "capability_grant list"
  am_backend_type :: string
  am_mcp_server :: "mcp_server option"
  am_agent_url :: "string option"
  am_app_spec :: "app_specification option"

text \<open>
  The normalization of grants raises \<^verbatim>\<open>ValueError\<close>, which the reading turns into its own error, or, for a
  category that is an array or an object, a \<^verbatim>\<open>TypeError\<close>, which escapes.
\<close>

definition read_capabilities :: "json \<Rightarrow> capability_grant list manifest_result" where
  "read_capabilities v =
     (case read_grants v of
        Inr gs \<Rightarrow> Inr gs
      | Inl (ValueError m) \<Rightarrow> Inl (invalid (''capabilities: '' @ m))
      | Inl e \<Rightarrow> Inl (Escaped e))"

definition read_agent_url :: "json option \<Rightarrow> string option manifest_result" where
  "read_agent_url v = (case v of None \<Rightarrow> Inr None | Some JNull \<Rightarrow> Inr None
     | Some w \<Rightarrow> map_sum id Some (validate_text ''agent_url'' False 1000 w))"

definition check_header :: "string \<Rightarrow> (string \<times> json) list \<Rightarrow> string manifest_result" where
  "check_header expected kvs =
     (let known = REQUIRED_FIELDS @ OPTIONAL_FIELDS;
          unknown = unknown_fields known kvs;
          missing = order_by str_less (filter (\<lambda>f. f \<notin> set (map fst kvs)) REQUIRED_FIELDS)
      in if unknown \<noteq> [] then Inl (invalid (''manifest contains unknown fields: '' @ join_with '', '' unknown))
         else if missing \<noteq> [] then Inl (invalid (''manifest is missing required fields: '' @ join_with '', '' missing))
         else if map_of kvs ''manifest_version'' \<noteq> Some (JInt 2)
         then Inl (invalid ''manifest_version must be the supported integer 2'')
         else (case check_app_id (json_or_null (map_of kvs ''id'')) of Inl e \<Rightarrow> Inl e | Inr i \<Rightarrow>
           if i \<noteq> expected then Inl (invalid ''manifest id must match its App directory name'') else Inr i))"

definition read_texts ::
  "(string \<times> json) list \<Rightarrow> (string \<times> string \<times> string \<times> string list \<times> string list) manifest_result" where
  "read_texts kvs =
     (let f = (\<lambda>k. json_or_null (map_of kvs k))
      in case validate_text ''title'' False 200 (f ''title'') of Inl e \<Rightarrow> Inl e | Inr title \<Rightarrow>
        (case validate_text ''description'' True 2000 (f ''description'') of Inl e \<Rightarrow> Inl e | Inr description \<Rightarrow>
        (case validate_text ''app_version'' False 64 (f ''app_version'') of Inl e \<Rightarrow> Inl e | Inr version \<Rightarrow>
        (case validate_string_list ''intents'' (f ''intents'') of Inl e \<Rightarrow> Inl e | Inr intents \<Rightarrow>
           map_sum id (\<lambda>refs. (title, description, version, intents, refs)) (validate_string_list ''schema_refs'' (f ''schema_refs''))))))"

definition manifest_from_dict :: "string \<Rightarrow> json \<Rightarrow> app_manifest manifest_result" where
  "manifest_from_dict expected data =
     (case data of
        JObj kvs \<Rightarrow>
          (case check_header expected kvs of Inl e \<Rightarrow> Inl e | Inr i \<Rightarrow>
          (case validate_backend_type (field_or (JStr ''code'') kvs ''backend_type'') of
             Inl e \<Rightarrow> Inl e | Inr backend \<Rightarrow>
          (case validate_mcp_server (json_or_null (map_of kvs ''mcp_server'')) of Inl e \<Rightarrow> Inl e | Inr mcp \<Rightarrow>
          (case read_agent_url (map_of kvs ''agent_url'') of Inl e \<Rightarrow> Inl e | Inr url \<Rightarrow>
          (case read_capabilities (json_or_null (map_of kvs ''capabilities'')) of Inl e \<Rightarrow> Inl e | Inr gs \<Rightarrow>
          (case validate_app_spec (json_or_null (map_of kvs ''app_spec'')) of Inl e \<Rightarrow> Inl (Invalid e) | Inr spec \<Rightarrow>
             map_sum id (\<lambda>(title, description, version, intents, refs).
                 \<lparr>am_id = i, am_title = title, am_description = description, am_app_version = version, am_intents = intents,
                  am_schema_refs = refs, am_capabilities = gs, am_backend_type = backend, am_mcp_server = mcp,
                  am_agent_url = url, am_app_spec = spec\<rparr>)
               (read_texts kvs)))))))
      | _ \<Rightarrow> Inl (invalid ''manifest must be a JSON object''))"

definition manifest_fields :: "app_manifest \<Rightarrow> (string \<times> json) list" where
  "manifest_fields m =
     [(''manifest_version'', JInt 2), (''id'', JStr (am_id m)), (''title'', JStr (am_title m)),
      (''description'', JStr (am_description m)), (''app_version'', JStr (am_app_version m)),
      (''intents'', texts (am_intents m)), (''schema_refs'', texts (am_schema_refs m)),
      (''capabilities'', JArr (map grant_to_dict (am_capabilities m)))]
     @ (if am_backend_type m \<noteq> ''code'' then [(''backend_type'', JStr (am_backend_type m))] else [])
     @ (case am_mcp_server m of None \<Rightarrow> [] | Some s \<Rightarrow> [(''mcp_server'', mcp_json s)])
     @ (case am_agent_url m of None \<Rightarrow> [] | Some u \<Rightarrow> [(''agent_url'', JStr u)])
     @ (case am_app_spec m of None \<Rightarrow> [] | Some s \<Rightarrow> [(''app_spec'', specification_json s)])"

definition manifest_to_dict :: "app_manifest \<Rightarrow> json" where
  "manifest_to_dict m = JObj (manifest_fields m)"

definition manifest_revision :: "app_manifest \<Rightarrow> string" where
  "manifest_revision m = ''2:'' @ am_app_version m"

definition manifest_digest :: "(json list \<Rightarrow> string) \<Rightarrow> app_manifest \<Rightarrow> string" where
  "manifest_digest digest m = digest (map grant_to_dict (am_capabilities m))"

section \<open>The file\<close>

text \<open>What reading the file meets: nothing readable, or its size and its text as JSON when it is JSON.\<close>

datatype manifest_file = Unreadable | Stored int "json option"

definition read_manifest :: "string \<Rightarrow> manifest_file \<Rightarrow> app_manifest manifest_result" where
  "read_manifest expected f =
     (case f of
        Unreadable \<Rightarrow> Inl (invalid ''manifest must be readable UTF-8 containing valid JSON'')
      | Stored bytes content \<Rightarrow>
          if 65536 < bytes then Inl (invalid ''manifest exceeds its maximum size'')
          else (case content of
              None \<Rightarrow> Inl (invalid ''manifest must be readable UTF-8 containing valid JSON'')
            | Some j \<Rightarrow> manifest_from_dict expected j))"

end
