(* ===== verification/Manifest_Laws.thy ===== *)
theory Manifest_Laws
  imports App_Manifest
begin

text \<open>
  Reading a manifest is strict and stable: what it accepts is written back in a form it accepts again as the same
  manifest, and a declaration it accepts uses declared types only, each feature once.
\<close>

section \<open>Declarations\<close>

lemma identifier_text_Inr: "identifier_text v field path = Inr s \<longleftrightarrow> v = JStr s \<and> s \<noteq> [] \<and> point_length s \<le> 200"
  by (cases v) (auto simp: identifier_text_def)

definition usable_type :: "string \<Rightarrow> bool" where
  "usable_type t \<longleftrightarrow> t \<in> set TYPE_IDS \<or> custom_type t"

lemma read_types_Inr:
  "read_types i vs types = Inr out \<Longrightarrow> distinct types \<Longrightarrow>
     \<exists>ts. out = types @ ts \<and> vs = map JStr ts \<and> distinct out \<and> list_all usable_type ts"
proof (induction vs arbitrary: i types)
  case (Cons v vs)
  then obtain t where t: "identifier_text v ''type ID'' (indexed ''app_spec.types'' i) = Inr t" "usable_type t" "t \<notin> set types"
    and r: "read_types (Suc i) vs (types @ [t]) = Inr out"
    by (auto simp: usable_type_def Let_def split: sum.splits if_splits)
  have "distinct (types @ [t])" using t(3) Cons.prems(2) by simp
  from Cons.IH[OF r this] t show ?case by (auto simp: identifier_text_Inr)
qed simp

lemma read_surfaces_Inr:
  "read_surfaces path i vs surfaces = Inr out \<Longrightarrow> distinct surfaces \<Longrightarrow>
     \<exists>ss. out = surfaces @ ss \<and> vs = map JStr ss \<and> distinct out \<and> set ss \<subseteq> {''data'', ''tools'', ''ui''}"
proof (induction vs arbitrary: i surfaces)
  case (Cons v vs)
  then obtain s where s: "v = JStr s" "s \<in> {''data'', ''tools'', ''ui''}" "s \<notin> set surfaces"
    and r: "read_surfaces path (Suc i) vs (surfaces @ [s]) = Inr out"
    by (cases v) (auto split: if_splits)
  have "distinct (surfaces @ [s])" using s(3) Cons.prems(2) by simp
  from Cons.IH[OF r this] s show ?case by auto
qed simp

definition sound_feature :: "string list \<Rightarrow> feature_declaration \<Rightarrow> bool" where
  "sound_feature types f \<longleftrightarrow> (\<exists>t \<in> set types. feature_namespace (fd_id f) = Some t) \<and>
     fd_status f \<in> {''implemented'', ''partial'', ''planned''} \<and> distinct (fd_surfaces f) \<and>
     set (fd_surfaces f) \<subseteq> {''data'', ''tools'', ''ui''} \<and> (fd_surfaces f = [] \<longleftrightarrow> fd_status f = ''planned'')"

lemma surfaces_of_Inr:
  assumes "surfaces_of path st v = Inr ss"
  shows "v = JArr (map JStr ss) \<and> distinct ss \<and> set ss \<subseteq> {''data'', ''tools'', ''ui''} \<and> (ss = [] \<longleftrightarrow> st = ''planned'')"
proof -
  obtain vs where v: "v = JArr vs" using assms by (cases v) (simp_all add: surfaces_of_def Let_def)
  with assms have "read_surfaces (path @ ''.surfaces'') 0 vs [] = Inr ss" "ss = [] \<longleftrightarrow> st = ''planned''"
    by (auto simp: surfaces_of_def Let_def split: if_splits sum.splits)
  with read_surfaces_Inr[OF this(1)] show ?thesis by (auto simp: v)
qed

lemma read_status_Inr: "read_status path v = Inr s \<Longrightarrow> v = JStr s \<and> s \<in> {''implemented'', ''partial'', ''planned''}"
  by (cases v) (auto simp: read_status_def Let_def split: if_splits)

lemma read_notes_Inr: "read_notes path v = Inr n \<Longrightarrow> v = map_option JStr n"
  by (cases v; cases "the v") (auto simp: read_notes_def split: if_splits)

lemma read_featureE:
  assumes "read_feature types seen i v = Inr f"
  shows "sound_feature types f \<and> fd_id f \<notin> set seen \<and> read_feature types seen i (feature_json f) = Inr f"
proof -
  let ?p = "indexed ''app_spec.features'' i"
  obtain name t st ss n where r: "feature_shape v"
    "identifier_text (json_or_null (dget v ''id'')) ''feature ID'' (?p @ ''.id'') = Inr name"
    "feature_namespace name = Some t" "t \<in> set types" "name \<notin> set seen"
    "read_status ?p (json_or_null (dget v ''status'')) = Inr st"
    "surfaces_of ?p st (json_or_null (dget v ''surfaces'')) = Inr ss" "read_notes ?p (dget v ''notes'') = Inr n"
    and f: "f = \<lparr>fd_id = name, fd_status = st, fd_surfaces = ss, fd_notes = n\<rparr>"
    using assms by (auto simp: read_feature_def Let_def split: if_splits sum.splits option.splits)
  have d: "dget (feature_json f) ''id'' = Some (JStr name)" "dget (feature_json f) ''status'' = Some (JStr st)"
    "dget (feature_json f) ''surfaces'' = Some (JArr (map JStr ss))" "dget (feature_json f) ''notes'' = map_option JStr n"
    "feature_shape (feature_json f)"
    by (cases n; simp add: feature_json_def f feature_shape_def)+
  note parts = identifier_text_Inr[THEN iffD1, OF r(2)] read_status_Inr[OF r(6)] surfaces_of_Inr[OF r(7)] read_notes_Inr[OF r(8)]
  have "read_feature types seen i (feature_json f) = Inr f"
    using r parts d by (simp add: read_feature_def Let_def json_or_null_def f)
  moreover have "sound_feature types f" using r(3,4) parts by (auto simp: sound_feature_def f)
  ultimately show ?thesis using r(5) f by simp
qed

lemma read_features_Inr:
  "read_features types i vs fs = Inr out \<Longrightarrow>
     \<exists>gs. out = fs @ gs \<and> length gs = length vs \<and> list_all (sound_feature types) gs \<and> (distinct (map fd_id fs) \<longrightarrow> distinct (map fd_id out)) \<and>
       read_features types i (map feature_json gs) fs = Inr out"
proof (induction vs arbitrary: i fs)
  case (Cons v vs)
  then obtain f where f: "read_feature types (map fd_id fs) i v = Inr f" and r: "read_features types (Suc i) vs (fs @ [f]) = Inr out"
    by (auto split: sum.splits)
  from Cons.IH[OF r] obtain gs where g: "out = (fs @ [f]) @ gs" "length gs = length vs" "list_all (sound_feature types) gs"
    "distinct (map fd_id (fs @ [f])) \<longrightarrow> distinct (map fd_id out)"
    "read_features types (Suc i) (map feature_json gs) (fs @ [f]) = Inr out" by blast
  show ?case by (rule exI[of _ "f # gs"]) (use g read_featureE[OF f] in auto)
qed simp

definition sound_specification :: "app_specification \<Rightarrow> bool" where
  "sound_specification s \<longleftrightarrow> as_types s \<noteq> [] \<and> length (as_types s) \<le> 20 \<and> distinct (as_types s) \<and> list_all usable_type (as_types s) \<and>
     length (as_features s) \<le> 100 \<and> distinct (map fd_id (as_features s)) \<and> list_all (sound_feature (as_types s)) (as_features s)"

lemma declaration_sound:
  assumes "validate_app_spec v = Inr (Some s)"
  shows "sound_specification s \<and> validate_app_spec (specification_json s) = Inr (Some s)"
proof -
  obtain tv fv where "read_type_list tv = Inr (as_types s)" "read_feature_list (as_types s) fv = Inr (as_features s)"
    using assms by (cases v) (auto simp: validate_app_spec_def split: if_splits sum.splits)
  then obtain ts fs where v: "ts \<noteq> []" "length ts \<le> 20" "read_types 0 ts [] = Inr (as_types s)"
    "length fs \<le> 100" "read_features (as_types s) 0 fs [] = Inr (as_features s)"
    by (cases tv; cases fv) (simp_all add: read_type_list_def read_feature_list_def Let_def not_less split: if_splits)
  from read_types_Inr[OF v(3)] have t: "ts = map JStr (as_types s)" "distinct (as_types s)" "list_all usable_type (as_types s)" by auto
  from read_features_Inr[OF v(5)] have f: "length (as_features s) = length fs" "list_all (sound_feature (as_types s)) (as_features s)"
    "distinct (map fd_id (as_features s))" "read_features (as_types s) 0 (map feature_json (as_features s)) [] = Inr (as_features s)"
    by auto
  have "validate_app_spec (specification_json s) = Inr (Some s)"
    using v f t(1) by (auto simp: validate_app_spec_def specification_json_def json_or_null_def read_type_list_def read_feature_list_def)
  then show ?thesis using v t f by (simp add: sound_specification_def)
qed

text \<open>
  An accepted declaration is sound and stable. Its types are standard or custom ones
  without repetition, every feature belongs to a declared type and appears once, a feature has surfaces exactly
  when it is not merely planned, and the object written back is accepted as the same declaration.
\<close>

theorem declaration_is_sound:
  assumes "validate_app_spec v = Inr (Some s)"
  shows "sound_specification s \<and> validate_app_spec (specification_json s) = Inr (Some s)"
  by (rule declaration_sound[OF assms])

definition demo_spec :: app_specification where
  "demo_spec = \<lparr>as_types = [''tasks'', ''custom:garden''], as_features =
     [\<lparr>fd_id = ''tasks.items'', fd_status = ''implemented'', fd_surfaces = [''ui'', ''data''], fd_notes = None\<rparr>,
      \<lparr>fd_id = ''custom:garden.beds'', fd_status = ''planned'', fd_surfaces = [], fd_notes = Some ''later''\<rparr>]\<rparr>"

lemma demo_spec_accepted: "validate_app_spec (specification_json demo_spec) = Inr (Some demo_spec)"
  by code_simp

lemma declaration_is_sound_witness: "sound_specification demo_spec"
  using declaration_is_sound[OF demo_spec_accepted] by simp

section \<open>Manifests\<close>

lemma validate_text_Inr: "validate_text field e n v = Inr s \<Longrightarrow> v = JStr s"
  by (cases v) (auto simp: validate_text_def split: if_splits)

lemma validate_texts:
  "check_all (validate_text field e n) xs = Inr ss \<Longrightarrow> xs = map JStr ss"
  by (induction xs arbitrary: ss) (auto split: sum.splits dest: validate_text_Inr)

lemma validate_string_list_again:
  assumes "validate_string_list field v = Inr ss"
  shows "validate_string_list field (texts ss) = Inr ss"
proof -
  obtain xs where v: "v = JArr xs" using assms by (cases v) (simp_all add: validate_string_list_def)
  with assms have "check_all (validate_text field False 200) xs = Inr ss"
    by (auto simp: validate_string_list_def split: if_splits sum.splits)
  from validate_texts[OF this] assms show ?thesis by (simp add: v texts_def)
qed

lemma validate_backend_again: "validate_backend_type v = Inr b \<Longrightarrow> v = JStr b"
  by (cases v) (auto simp: validate_backend_type_def split: if_splits)

lemma check_all_mapped: "(\<And>y. y \<in> set ys \<Longrightarrow> f (g y) = Inr y) \<Longrightarrow> check_all f (map g ys) = Inr ys"
  by (induction ys) auto

lemma mcp_again:
  assumes "validate_mcp_server v = Inr (Some m)"
  shows "validate_mcp_server (mcp_json m) = Inr (Some m)"
proof -
  obtain kvs cs xs es where "map_of kvs ''command'' = Some (JArr cs)" "cs \<noteq> []"
    "check_all mcp_command_item cs = Inr (mcp_command m)" "check_all mcp_arg xs = Inr (mcp_args m)"
    "check_all mcp_variable es = Inr (mcp_env m)"
    using assms unfolding validate_mcp_server_def
    by (cases v) (auto simp: map_sum_Inr split: option.splits json.splits list.splits sum.splits)
  note c = this
  have "strip x = x \<and> x \<noteq> []" if "x \<in> set (mcp_command m)" for x
  proof -
    obtain y where "mcp_command_item y = Inr x" using check_all_set[OF c(3) \<open>x \<in> set (mcp_command m)\<close>] by blast
    then show ?thesis by (cases y) (auto simp: mcp_command_item_def split: if_splits)
  qed
  then have e: "check_all mcp_command_item (map JStr (mcp_command m)) = Inr (mcp_command m)"
    "check_all mcp_arg (map JStr (mcp_args m)) = Inr (mcp_args m)"
    "check_all mcp_variable (map (\<lambda>kv. (fst kv, JStr (snd kv))) (mcp_env m)) = Inr (mcp_env m)"
    by (simp_all add: check_all_mapped mcp_command_item_def mcp_arg_def mcp_variable_def)
  obtain d ds where "mcp_command m = d # ds" using check_all_Inr[OF c(3)] c(2) by (cases "mcp_command m") auto
  then have "map JStr (mcp_command m) = JStr d # map JStr ds" by simp
  then show ?thesis using e by (simp add: validate_mcp_server_def mcp_json_def texts_def field_or_def del: check_all.simps)
qed

lemma read_capabilities_again:
  assumes "read_capabilities v = Inr gs"
  shows "read_capabilities (JArr (map grant_to_dict gs)) = Inr gs \<and> list_all well_scoped gs"
proof -
  have "read_grants v = Inr gs" using assms by (cases "read_grants v") (auto simp: read_capabilities_def split: py_error.splits)
  then obtain xs where "normalize_grants (map Plain xs) = Inr gs" by (cases v) (auto simp: read_grants_def)
  from normalize_grants_again[OF this] show ?thesis by (simp add: read_capabilities_def read_grants_def comp_def)
qed

lemma agent_url_again: "read_agent_url v = Inr (Some u) \<Longrightarrow> v = Some (JStr u) \<and> validate_text ''agent_url'' False 1000 (JStr u) = Inr u"
  by (cases v; cases "the v") (auto simp: read_agent_url_def map_sum_Inr dest: validate_text_Inr)

lemma check_header_Inr: "check_header expected kvs = Inr i \<Longrightarrow> i = expected \<and> check_app_id (JStr i) = Inr i"
  by (auto simp: check_header_def Let_def check_app_id_def split: if_splits sum.splits json.splits)

lemma read_texts_Inr:
  assumes "read_texts kvs = Inr (title, description, version, intents, refs)"
  shows "validate_text ''title'' False 200 (JStr title) = Inr title \<and> validate_text ''description'' True 2000 (JStr description) = Inr description \<and>
     validate_text ''app_version'' False 64 (JStr version) = Inr version \<and> validate_string_list ''intents'' (texts intents) = Inr intents \<and>
     validate_string_list ''schema_refs'' (texts refs) = Inr refs"
proof -
  let ?f = "\<lambda>k. json_or_null (map_of kvs k)"
  have r: "validate_text ''title'' False 200 (?f ''title'') = Inr title" "validate_text ''description'' True 2000 (?f ''description'') = Inr description"
    "validate_text ''app_version'' False 64 (?f ''app_version'') = Inr version" "validate_string_list ''intents'' (?f ''intents'') = Inr intents"
    "validate_string_list ''schema_refs'' (?f ''schema_refs'') = Inr refs"
    using assms by (auto simp: read_texts_def Let_def map_sum_Inr split: sum.splits)
  then show ?thesis using validate_text_Inr[OF r(1)] validate_text_Inr[OF r(2)] validate_text_Inr[OF r(3)] validate_string_list_again by auto
qed

text \<open>What a manifest holds that has been read.\<close>

definition manifest_ok :: "app_manifest \<Rightarrow> bool" where
  "manifest_ok m \<longleftrightarrow> check_app_id (JStr (am_id m)) = Inr (am_id m) \<and>
     validate_text ''title'' False 200 (JStr (am_title m)) = Inr (am_title m) \<and>
     validate_text ''description'' True 2000 (JStr (am_description m)) = Inr (am_description m) \<and>
     validate_text ''app_version'' False 64 (JStr (am_app_version m)) = Inr (am_app_version m) \<and>
     validate_string_list ''intents'' (texts (am_intents m)) = Inr (am_intents m) \<and>
     validate_string_list ''schema_refs'' (texts (am_schema_refs m)) = Inr (am_schema_refs m) \<and>
     read_capabilities (JArr (map grant_to_dict (am_capabilities m))) = Inr (am_capabilities m) \<and>
     list_all well_scoped (am_capabilities m) \<and> validate_backend_type (JStr (am_backend_type m)) = Inr (am_backend_type m) \<and>
     (\<forall>s. am_mcp_server m = Some s \<longrightarrow> validate_mcp_server (mcp_json s) = Inr (Some s)) \<and>
     (\<forall>u. am_agent_url m = Some u \<longrightarrow> validate_text ''agent_url'' False 1000 (JStr u) = Inr u) \<and>
     (\<forall>s. am_app_spec m = Some s \<longrightarrow> sound_specification s \<and> validate_app_spec (specification_json s) = Inr (Some s))"

lemma manifest_from_dictE:
  assumes "manifest_from_dict expected data = Inr m"
  shows "manifest_ok m \<and> am_id m = expected"
proof -
  obtain kvs where d: "data = JObj kvs" using assms by (cases data) (simp_all add: manifest_from_dict_def)
  obtain i backend mcp url gs spec title description version intents refs where r: "check_header expected kvs = Inr i"
    "validate_backend_type (field_or (JStr ''code'') kvs ''backend_type'') = Inr backend"
    "validate_mcp_server (json_or_null (map_of kvs ''mcp_server'')) = Inr mcp" "read_agent_url (map_of kvs ''agent_url'') = Inr url"
    "read_capabilities (json_or_null (map_of kvs ''capabilities'')) = Inr gs"
    "validate_app_spec (json_or_null (map_of kvs ''app_spec'')) = Inr spec"
    "read_texts kvs = Inr (title, description, version, intents, refs)"
    and m: "m = \<lparr>am_id = i, am_title = title, am_description = description, am_app_version = version, am_intents = intents,
      am_schema_refs = refs, am_capabilities = gs, am_backend_type = backend, am_mcp_server = mcp, am_agent_url = url, am_app_spec = spec\<rparr>"
    using assms by (auto simp: manifest_from_dict_def d map_sum_Inr split: sum.splits)
  show ?thesis
    using check_header_Inr[OF r(1)] read_texts_Inr[OF r(7)] read_capabilities_again[OF r(5)] validate_backend_again[OF r(2)] r(2)
      mcp_again[of "json_or_null (map_of kvs ''mcp_server'')"] r(3) agent_url_again[of "map_of kvs ''agent_url''"] r(4)
      declaration_sound[of "json_or_null (map_of kvs ''app_spec'')"] r(6)
    by (auto simp: manifest_ok_def m)
qed

lemma manifest_again:
  assumes "manifest_ok m"
  shows "manifest_from_dict (am_id m) (manifest_to_dict m) = Inr m"
proof -
  let ?kvs = "manifest_fields m"
  have keys: "set REQUIRED_FIELDS \<subseteq> fst ` set ?kvs" "fst ` set ?kvs \<subseteq> set (REQUIRED_FIELDS @ OPTIONAL_FIELDS)"
    by (auto simp: manifest_fields_def REQUIRED_FIELDS_def OPTIONAL_FIELDS_def split: option.split)
  have f: "map_of ?kvs ''manifest_version'' = Some (JInt 2)" "map_of ?kvs ''id'' = Some (JStr (am_id m))"
    "map_of ?kvs ''title'' = Some (JStr (am_title m))" "map_of ?kvs ''description'' = Some (JStr (am_description m))"
    "map_of ?kvs ''app_version'' = Some (JStr (am_app_version m))" "map_of ?kvs ''intents'' = Some (texts (am_intents m))"
    "map_of ?kvs ''schema_refs'' = Some (texts (am_schema_refs m))"
    "map_of ?kvs ''capabilities'' = Some (JArr (map grant_to_dict (am_capabilities m)))"
    "map_of ?kvs ''backend_type'' = (if am_backend_type m = ''code'' then None else Some (JStr (am_backend_type m)))"
    "map_of ?kvs ''mcp_server'' = map_option mcp_json (am_mcp_server m)"
    "map_of ?kvs ''agent_url'' = map_option JStr (am_agent_url m)"
    "map_of ?kvs ''app_spec'' = map_option specification_json (am_app_spec m)"
    by (simp_all add: manifest_fields_def map_add_def split: option.split)
  have "unknown_fields (REQUIRED_FIELDS @ OPTIONAL_FIELDS) ?kvs = []" using keys(2) by (simp add: unknown_fields_Nil)
  moreover have "order_by str_less (filter (\<lambda>x. x \<notin> set (map fst ?kvs)) REQUIRED_FIELDS) = []"
    using keys(1) by (simp add: filter_False subset_iff)
  ultimately have h: "check_header (am_id m) ?kvs = Inr (am_id m)"
    using assms unfolding check_header_def Let_def f by (simp add: json_or_null_def manifest_ok_def)
  have t: "read_texts ?kvs = Inr (am_title m, am_description m, am_app_version m, am_intents m, am_schema_refs m)"
    using assms by (simp add: read_texts_def f json_or_null_def manifest_ok_def Let_def)
  have b: "field_or (JStr ''code'') ?kvs ''backend_type'' = JStr (am_backend_type m)" by (simp add: field_or_def f)
  have o: "validate_mcp_server (json_or_null (map_of ?kvs ''mcp_server'')) = Inr (am_mcp_server m)"
    "read_agent_url (map_of ?kvs ''agent_url'') = Inr (am_agent_url m)"
    "validate_app_spec (json_or_null (map_of ?kvs ''app_spec'')) = Inr (am_app_spec m)"
    unfolding f using assms
    by (cases "am_mcp_server m"; cases "am_agent_url m"; cases "am_app_spec m";
        simp add: manifest_ok_def json_or_null_def validate_mcp_server_def[of JNull] validate_app_spec_def[of JNull] read_agent_url_def)+
  show ?thesis
    using assms h t unfolding manifest_from_dict_def manifest_to_dict_def json.case
    by (simp add: b o f(8) manifest_ok_def json_or_null_def[of "Some x" for x])
qed

text \<open>
  Property C35 (manifest): a manifest survives being written. Whatever object the strict reading accepts for an
  App, the object written from the manifest is accepted for the same App and gives the same manifest back, with
  its grants in canonical form and its declaration sound; so rewriting the title of a manifest, as the
  settings page does, touches nothing else.
\<close>

theorem manifest_round_trip:
  assumes "manifest_from_dict expected data = Inr m"
  shows "manifest_from_dict expected (manifest_to_dict m) = Inr m \<and> am_id m = expected \<and> list_all well_scoped (am_capabilities m) \<and>
     (\<forall>s. am_app_spec m = Some s \<longrightarrow> sound_specification s)"
  using manifest_from_dictE[OF assms] manifest_again[of m] by (auto simp: manifest_ok_def)

definition demo_manifest :: json where
  "demo_manifest = JObj [(''manifest_version'', JInt 2), (''id'', JStr ''todo-list''), (''title'', JStr ''Todo''), (''description'', JStr []),
     (''app_version'', JStr ''0.1.0''), (''intents'', texts [''plan'']), (''schema_refs'', texts [''Task'']),
     (''capabilities'', JArr demo_grants), (''app_spec'', specification_json demo_spec), (''agent_url'', JNull),
     (''mcp_server'', JObj [(''command'', texts [''uvx '', ''tool''])])]"

lemma manifest_round_trip_witness:
  "\<exists>m. manifest_from_dict ''todo-list'' demo_manifest = Inr m \<and> manifest_from_dict ''todo-list'' (manifest_to_dict m) = Inr m"
proof -
  have "\<not> isl (manifest_from_dict ''todo-list'' demo_manifest)" by code_simp
  then obtain m where "manifest_from_dict ''todo-list'' demo_manifest = Inr m" by (cases "manifest_from_dict ''todo-list'' demo_manifest") auto
  with manifest_round_trip[OF this] show ?thesis by blast
qed

end
