(* ===== verification/App_Files.thy ===== *)
theory App_Files
  imports Policy_Laws Manifest_Laws
begin

text \<open>
  The files of an App (\<^verbatim>\<open>backend/capabilities/files.py\<close>): every operation checks the path, asks the policy, refuses
  symbolic links and then works below the data directory of the App. A file system is a value: what stands at
  each relative path. Failures of the disk other than the ones the structure of the tree causes are not modelled.
\<close>

section \<open>The directory of an App\<close>

text \<open>
  A regular file with its UTF-8 text, one whose bytes are no text, a directory, or a symbolic link, which may
  lead to a directory.
\<close>

datatype file_entry = Regular string | Binary | Directory | Symlink bool

type_synonym tree = "(string list \<times> file_entry) list"

text \<open>
  \<open>ah_direct\<close>: the path of the App resolves to a direct child of the directory of Apps. \<open>ah_data\<close> is what stands
  at \<^verbatim>\<open>data\<close>, \<open>ah_files\<close> what is below it.
\<close>

record app_home =
  ah_direct :: bool
  ah_manifest :: manifest_file
  ah_data :: "file_entry option"
  ah_files :: tree

type_synonym homes = "string \<Rightarrow> app_home"

definition manifest_view_of :: "(json list \<Rightarrow> string) \<Rightarrow> app_manifest \<Rightarrow> manifest_view" where
  "manifest_view_of digest m = \<lparr>mv_revision = Some (manifest_revision m), mv_digest = Some (manifest_digest digest m),
     mv_capabilities = map Grant (am_capabilities m)\<rparr>"

text \<open>\<^verbatim>\<open>app_path\<close> refuses an identifier that is not one, and an App directory that leads elsewhere.\<close>

definition app_path :: "homes \<Rightarrow> string \<Rightarrow> string + unit" where
  "app_path homes app =
     (case check_app_id (JStr app) of
        Inl (Invalid e) \<Rightarrow> Inl (''invalid app_id: '' @ se_message e)
      | Inl (Escaped e) \<Rightarrow> Inl []
      | Inr _ \<Rightarrow> if ah_direct (homes app) then Inr ()
          else Inl ''invalid app_id: App path must be a direct child of the Apps directory'')"

text \<open>
  \<^verbatim>\<open>get_manifest\<close>: no manifest for a bad path or an invalid file. A reading that raises another error is left
  out here: it raises in the code before the policy decides anything.
\<close>

definition stored_manifest :: "(json list \<Rightarrow> string) \<Rightarrow> homes \<Rightarrow> manifest_loader" where
  "stored_manifest digest homes app =
     (case app_path homes app of Inl _ \<Rightarrow> None | Inr _ \<Rightarrow>
        (case read_manifest app (ah_manifest (homes app)) of Inl _ \<Rightarrow> None | Inr m \<Rightarrow> Some (manifest_view_of digest m)))"

section \<open>Checks\<close>

datatype file_error = App_File string string int | Raised py_error

type_synonym 'a file_result = "file_error + 'a"

definition file_denied :: "string \<Rightarrow> file_error" where
  "file_denied m = App_File m ''file_capability_denied'' 403"

definition file_missing :: file_error where
  "file_missing = App_File ''App data file not found'' ''file_not_found'' 404"

definition relative_path :: "bool \<Rightarrow> string \<Rightarrow> string list file_result" where
  "relative_path allow_directory path =
     (if path = [] \<or> CHR 0x00 \<in> set path \<or> CHR 0x5C \<in> set path \<or> starts_with path ''/''
      then Inl (file_denied ''File path must be a non-empty normalized relative path'')
      else if ''..'' \<in> set (path_parts path) then Inl (file_denied ''File path escape is not allowed'')
      else if \<not> allow_directory \<and> ends_with path ''/'' then Inl (file_denied ''File path must identify a regular file'')
      else Inr (path_parts path))"

definition gate :: "manifest_loader \<Rightarrow> string \<Rightarrow> string \<Rightarrow> string \<Rightarrow> int option \<Rightarrow> snapshot \<Rightarrow> unit file_result" where
  "gate loader app operation path bytes sn =
     (case authorize_file loader app operation path bytes sn of
        Inr _ \<Rightarrow> Inr ()
      | Inl (Fault e) \<Rightarrow> Inl (Raised e)
      | Inl (Denied d) \<Rightarrow>
          Inl (file_denied (''File capability denied: '' @ dn_message d
            @ (case dget (dn_details d) ''max_bytes'' of Some (JInt n) \<Rightarrow> '' (maximum '' @ int_str n @ '' bytes)'' | _ \<Rightarrow> []))))"

text \<open>\<^verbatim>\<open>_data_root\<close> creates the directory when it is missing.\<close>

definition data_root :: "homes \<Rightarrow> string \<Rightarrow> app_home \<times> unit file_result" where
  "data_root homes app =
     (let h = homes app
      in case app_path homes app of
           Inl m \<Rightarrow> (h, Inl (file_denied m))
         | Inr _ \<Rightarrow>
             (case ah_data h of
                None \<Rightarrow> (h\<lparr>ah_data := Some Directory\<rparr>, Inr ())
              | Some Directory \<Rightarrow> (h, Inr ())
              | Some (Symlink True) \<Rightarrow> (h, Inl (file_denied ''App data root must not be a symbolic link''))
              | Some _ \<Rightarrow> (h, Inl (Raised (OSError ''FileExistsError'')))))"

definition prefixes_of :: "'a list \<Rightarrow> 'a list list" where
  "prefixes_of xs = map (\<lambda>n. take (Suc n) xs) [0..<length xs]"

definition is_link :: "tree \<Rightarrow> string list \<Rightarrow> bool" where
  "is_link t p = (case map_of t p of Some (Symlink _) \<Rightarrow> True | _ \<Rightarrow> False)"

text \<open>
  \<^verbatim>\<open>_reject_links\<close>. When no component is a link the resolved path is the path itself, so the test that follows
  the walk cannot fail.
\<close>

definition reject_links :: "tree \<Rightarrow> string list \<Rightarrow> unit file_result" where
  "reject_links t parts =
     (if list_ex (is_link t) (prefixes_of parts) then Inl (file_denied ''Symbolic links are not allowed in App data paths'')
      else Inr ())"

definition is_file :: "tree \<Rightarrow> string list \<Rightarrow> bool" where
  "is_file t p = (case map_of t p of Some (Regular _) \<Rightarrow> True | Some Binary \<Rightarrow> True | _ \<Rightarrow> False)"

section \<open>Operations\<close>

text \<open>\<^verbatim>\<open>target.parent.mkdir(parents=True, exist_ok=True)\<close>: a file in the way is an error.\<close>

definition make_parents :: "tree \<Rightarrow> string list \<Rightarrow> tree file_result" where
  "make_parents t parts =
     (let dirs = prefixes_of (butlast parts)
      in if list_ex (is_file t) dirs then Inl (Raised (OSError ''NotADirectoryError''))
         else Inr (t @ map (\<lambda>d. (d, Directory)) (filter (\<lambda>d. map_of t d = None) dirs)))"

text \<open>The temporary file replaces the target, unless a directory stands there.\<close>

definition replace_file :: "tree \<Rightarrow> string list \<Rightarrow> string \<Rightarrow> tree file_result" where
  "replace_file t parts text =
     (if parts = [] \<or> map_of t parts = Some Directory then Inl (Raised (OSError ''IsADirectoryError''))
      else Inr (AList.update parts (Regular text) t))"

definition write_text ::
  "manifest_loader \<Rightarrow> homes \<Rightarrow> string \<Rightarrow> string \<Rightarrow> string \<Rightarrow> snapshot \<Rightarrow> app_home \<times> unit file_result" where
  "write_text loader homes app path text sn =
     (case relative_path False path of Inl e \<Rightarrow> (homes app, Inl e) | Inr parts \<Rightarrow>
     (case gate loader app ''write'' path (Some (int (length text))) sn of Inl e \<Rightarrow> (homes app, Inl e) | Inr _ \<Rightarrow>
     (case data_root homes app of (h, Inl e) \<Rightarrow> (h, Inl e) | (h, Inr _) \<Rightarrow>
     (case reject_links (ah_files h) parts of Inl e \<Rightarrow> (h, Inl e) | Inr _ \<Rightarrow>
     (case make_parents (ah_files h) parts of Inl e \<Rightarrow> (h, Inl e) | Inr t \<Rightarrow>
     (case reject_links t parts of Inl e \<Rightarrow> (h\<lparr>ah_files := t\<rparr>, Inl e) | Inr _ \<Rightarrow>
     (case replace_file t parts text of Inl e \<Rightarrow> (h\<lparr>ah_files := t\<rparr>, Inl e) | Inr t' \<Rightarrow> (h\<lparr>ah_files := t'\<rparr>, Inr ()))))))))"

text \<open>\<^verbatim>\<open>read_text\<close> translates the ends of lines; \<^verbatim>\<open>write_text\<close> writes the encoded bytes.\<close>

definition read_text :: "manifest_loader \<Rightarrow> homes \<Rightarrow> string \<Rightarrow> string \<Rightarrow> snapshot \<Rightarrow> app_home \<times> string file_result" where
  "read_text loader homes app path sn =
     (case relative_path False path of Inl e \<Rightarrow> (homes app, Inl e) | Inr parts \<Rightarrow>
     (case gate loader app ''read'' path None sn of Inl e \<Rightarrow> (homes app, Inl e) | Inr _ \<Rightarrow>
     (case data_root homes app of (h, Inl e) \<Rightarrow> (h, Inl e) | (h, Inr _) \<Rightarrow>
     (case reject_links (ah_files h) parts of Inl e \<Rightarrow> (h, Inl e) | Inr _ \<Rightarrow>
        (case map_of (ah_files h) parts of
           Some (Regular text) \<Rightarrow> (h, Inr (universal_newlines text))
         | Some Binary \<Rightarrow> (h, Inl (file_denied ''App data file is not readable UTF-8 text''))
         | _ \<Rightarrow> (h, Inl file_missing))))))"

definition strictly_below :: "string list \<Rightarrow> string list \<Rightarrow> bool" where
  "strictly_below d p \<longleftrightarrow> length d < length p \<and> take (length d) p = d"

text \<open>One candidate of a listing: a link is an error, a file outside the grant is left out.\<close>

definition list_candidate :: "manifest_loader \<Rightarrow> string \<Rightarrow> snapshot \<Rightarrow> string list \<times> file_entry \<Rightarrow> string list file_result" where
  "list_candidate loader app sn c =
     (case snd c of
        Symlink _ \<Rightarrow> Inl (file_denied ''Symbolic links are not allowed in App data paths'')
      | Directory \<Rightarrow> Inr []
      | _ \<Rightarrow>
          (let path = join_with ''/'' (fst c)
           in case authorize_file loader app ''read'' path None sn of
                Inr _ \<Rightarrow> Inr [path]
              | Inl (Denied d) \<Rightarrow> if dn_code d = ''capability_scope_denied'' then Inr []
                  else Inl (file_denied (''File capability denied: '' @ dn_message d))
              | Inl (Fault e) \<Rightarrow> Inl (Raised e)))"

definition list_files :: "manifest_loader \<Rightarrow> homes \<Rightarrow> string \<Rightarrow> string \<Rightarrow> snapshot \<Rightarrow> app_home \<times> string list file_result" where
  "list_files loader homes app path sn =
     (case relative_path True path of Inl e \<Rightarrow> (homes app, Inl e) | Inr parts \<Rightarrow>
     (case gate loader app ''list'' (rstrip_char (CHR ''/'') path @ ''/__list__'') None sn of Inl e \<Rightarrow> (homes app, Inl e) | Inr _ \<Rightarrow>
     (case data_root homes app of (h, Inl e) \<Rightarrow> (h, Inl e) | (h, Inr _) \<Rightarrow>
     (case reject_links (ah_files h) parts of Inl e \<Rightarrow> (h, Inl e) | Inr _ \<Rightarrow>
        (h, if parts \<noteq> [] \<and> map_of (ah_files h) parts = None then Inr []
            else if parts \<noteq> [] \<and> is_file (ah_files h) parts then Inl (file_denied ''App data list path is not a directory'')
            else map_sum id (\<lambda>ps. order_by str_less (concat ps))
              (check_all (list_candidate loader app sn) (filter (\<lambda>c. strictly_below parts (fst c)) (ah_files h))))))))"

definition delete_file :: "manifest_loader \<Rightarrow> homes \<Rightarrow> string \<Rightarrow> string \<Rightarrow> snapshot \<Rightarrow> app_home \<times> unit file_result" where
  "delete_file loader homes app path sn =
     (case relative_path False path of Inl e \<Rightarrow> (homes app, Inl e) | Inr parts \<Rightarrow>
     (case gate loader app ''delete'' path None sn of Inl e \<Rightarrow> (homes app, Inl e) | Inr _ \<Rightarrow>
     (case data_root homes app of (h, Inl e) \<Rightarrow> (h, Inl e) | (h, Inr _) \<Rightarrow>
     (case reject_links (ah_files h) parts of Inl e \<Rightarrow> (h, Inl e) | Inr _ \<Rightarrow>
        if is_file (ah_files h) parts then (h\<lparr>ah_files := AList.delete parts (ah_files h)\<rparr>, Inr ()) else (h, Inl file_missing)))))"

end
