(* ===== verification/App_Files_Laws.thy ===== *)
theory App_Files_Laws
  imports App_Files
begin

text \<open>
  An App reaches its own data only: what a granted pattern covers, below its own directory, never through a link;
  and what it writes it reads back.
\<close>

section \<open>The stored manifests provide what the policy relies on\<close>

lemma normalize_made:
  assumes "sorted_wrt str_less (map cg_id gs)"
  shows "normalize_grants (map Grant gs) = Inr gs"
proof -
  have "order_by by_grant_id gs = gs"
    by (rule by_grant.strict_unique[OF by_grant.strict]) (use assms in \<open>simp_all add: by_grant_sorted sorted_distinct\<close>)
  moreover have "map (projr \<circ> grant_from_dict) (map Grant gs) = gs" by (simp add: grant_from_dict_def map_idI)
  ultimately show ?thesis using assms sorted_distinct unfolding normalize_grants_eq by (simp add: grant_from_dict_def)
qed

lemma manifest_grants:
  assumes "manifest_ok m"
  shows "normalize_grants (map Grant (am_capabilities m)) = Inr (am_capabilities m)" "list_all well_scoped (am_capabilities m)"
proof -
  have "read_capabilities (JArr (map grant_to_dict (am_capabilities m))) = Inr (am_capabilities m)"
    using assms by (simp add: manifest_ok_def)
  then have "normalize_grants (map Plain (map grant_to_dict (am_capabilities m))) = Inr (am_capabilities m)"
    by (auto simp: read_capabilities_def read_grants_def split: sum.splits py_error.splits)
  then show "normalize_grants (map Grant (am_capabilities m)) = Inr (am_capabilities m)"
    by (intro normalize_made normalize_grants_sorted)
qed (use assms in \<open>simp add: manifest_ok_def\<close>)

lemma stored_manifest_Some:
  assumes "stored_manifest digest homes app = Some mv"
  obtains m where "read_manifest app (ah_manifest (homes app)) = Inr m" "mv = manifest_view_of digest m" "manifest_ok m"
proof -
  obtain m where m: "read_manifest app (ah_manifest (homes app)) = Inr m" "mv = manifest_view_of digest m"
    using assms by (auto simp: stored_manifest_def split: sum.splits)
  then have "\<exists>j. manifest_from_dict app j = Inr m"
    by (auto simp: read_manifest_def split: manifest_file.splits if_splits option.splits)
  then show thesis using that m manifest_from_dictE by blast
qed

interpretation app_store: manifest_source "stored_manifest digest homes" for digest homes
  by unfold_locales (elim stored_manifest_Some, auto simp: manifest_view_of_def manifest_grants)

section \<open>What a pattern covers\<close>

definition covers :: "string \<Rightarrow> string list \<Rightarrow> bool" where
  "covers p parts \<longleftrightarrow>
     (if ends_with p ''/**'' then \<exists>rest. parts = path_parts (pattern_prefix p) @ rest
      else list_all2 fnmatch (path_parts p) parts)"

lemma path_parts_Nil [simp]: "path_parts [] = []"
  by (simp add: path_parts_def)

lemma path_parts_root: "path_parts (CHR ''/'' # s) = path_parts s"
  using path_parts_slash[of "[]" s] by simp

lemma path_matches_covers: "path_matches p path \<Longrightarrow> covers p (path_parts path)"
proof (cases "ends_with p ''/**''")
  case True
  assume m: "path_matches p path"
  then consider "path = pattern_prefix p" | r where "path = pattern_prefix p @ ''/'' @ r"
    using True unfolding path_matches_def starts_with_def by (metis append_assoc append_take_drop_id)
  then show ?thesis by cases (auto simp: covers_def True path_parts_slash)
next
  case False
  then show "path_matches p path \<Longrightarrow> ?thesis" by (auto simp: path_matches_def posix_match_def covers_def path_parts_root)
qed

section \<open>Writing\<close>

lemma relative_path_Inr: "relative_path d path = Inr parts \<Longrightarrow> parts = path_parts path \<and> ''..'' \<notin> set parts"
  by (auto simp: relative_path_def split: if_splits)

lemma gate_Inr: "gate loader app operation path bytes sn = Inr u \<longleftrightarrow> authorize_file loader app operation path bytes sn = Inr ()"
  by (auto simp: gate_def split: sum.split policy_error.split)

lemma data_root_Inr:
  "data_root homes app = (h, Inr u) \<Longrightarrow> h = (homes app)\<lparr>ah_data := Some Directory\<rparr> \<and> app_path homes app = Inr ()"
  by (cases "app_path homes app") (auto simp: data_root_def Let_def split: option.splits file_entry.splits if_splits bool.splits)

lemma data_root_files: "data_root homes app = (h, r) \<Longrightarrow> ah_files h = ah_files (homes app)"
  by (auto simp: data_root_def Let_def split: sum.splits option.splits file_entry.splits bool.splits)

lemma prefixes_of_below: "d \<in> set (prefixes_of (butlast parts)) \<Longrightarrow> strictly_below d parts"
  by (auto simp: prefixes_of_def strictly_below_def take_butlast)

lemma make_parents_view:
  assumes "make_parents t parts = Inr t'"
  shows "map_of t' q = map_of t q \<or> map_of t q = None \<and> map_of t' q = Some Directory \<and> strictly_below q parts"
proof -
  have t': "t' = t @ map (\<lambda>d. (d, Directory)) (filter (\<lambda>d. map_of t d = None) (prefixes_of (butlast parts)))"
    using assms by (auto simp: make_parents_def Let_def split: if_splits)
  show ?thesis
  proof (cases "map_of t q = None \<and> q \<in> set (prefixes_of (butlast parts))")
    case True
    then show ?thesis using prefixes_of_below by (auto simp: t' map_add_def map_of_map_restrict[unfolded comp_def])
  next
    case False
    have "map_of (map (\<lambda>d. (d, Directory)) ds) q = None" if "q \<notin> set ds" for ds :: "string list list"
      using that by (induction ds) auto
    then show ?thesis using False by (cases "map_of t q") (auto simp: t' map_add_def)
  qed
qed

text \<open>No component of the path, from the first to the last, is a link.\<close>

definition no_links :: "tree \<Rightarrow> string list \<Rightarrow> bool" where
  "no_links t parts \<longleftrightarrow> (\<forall>n target. 0 < n \<and> n \<le> length parts \<longrightarrow> map_of t (take n parts) \<noteq> Some (Symlink target))"

lemma is_link_iff: "is_link t p \<longleftrightarrow> (\<exists>target. map_of t p = Some (Symlink target))"
  by (auto simp: is_link_def split: option.splits file_entry.splits)

lemma reject_links_iff: "reject_links t parts = Inr () \<longleftrightarrow> no_links t parts"
  by (auto simp: reject_links_def no_links_def list_ex_iff prefixes_of_def is_link_iff Suc_le_eq gr0_conv_Suc)

lemma no_links_kept: "no_links t parts \<Longrightarrow> (\<And>q target. map_of t' q = Some (Symlink target) \<Longrightarrow> map_of t q = Some (Symlink target)) \<Longrightarrow>
    no_links t' parts"
  unfolding no_links_def by blast

text \<open>
  \<open>h'\<close> is \<open>h\<close> with the text at the path and the directories above it; neither before nor after is there a link on the path.
\<close>

definition written :: "app_home \<Rightarrow> string list \<Rightarrow> string \<Rightarrow> app_home \<Rightarrow> bool" where
  "written h parts text h' \<longleftrightarrow> ah_direct h' = ah_direct h \<and> ah_manifest h' = ah_manifest h \<and> ah_data h' = Some Directory \<and>
     map_of (ah_files h') parts = Some (Regular text) \<and> no_links (ah_files h) parts \<and> no_links (ah_files h') parts \<and>
     (\<forall>q. q \<noteq> parts \<longrightarrow> map_of (ah_files h') q = map_of (ah_files h) q \<or>
        map_of (ah_files h) q = None \<and> map_of (ah_files h') q = Some Directory \<and> strictly_below q parts)"

lemma write_textE:
  assumes "write_text loader homes app path text sn = (h, Inr ())"
  shows "written (homes app) (path_parts path) text h \<and> ''..'' \<notin> set (path_parts path) \<and> path_parts path \<noteq> [] \<and> app_path homes app = Inr () \<and>
     authorize_file loader app ''write'' path (Some (int (length text))) sn = Inr () \<and> relative_path False path = Inr (path_parts path)"
proof -
  obtain parts h0 u t t' where w: "relative_path False path = Inr parts" "gate loader app ''write'' path (Some (int (length text))) sn = Inr ()"
    "data_root homes app = (h0, Inr u)" "make_parents (ah_files h0) parts = Inr t" "reject_links t parts = Inr ()"
    "replace_file t parts text = Inr t'" "h = h0\<lparr>ah_files := t'\<rparr>"
    using assms by (auto simp: write_text_def split: sum.splits prod.splits)
  note p = relative_path_Inr[OF w(1)] and d = data_root_Inr[OF w(3)]
  have t': "t' = AList.update parts (Regular text) t" "parts \<noteq> []" using w(6) by (auto simp: replace_file_def split: if_splits)
  have view: "map_of t q = map_of (ah_files (homes app)) q \<or> map_of (ah_files (homes app)) q = None \<and> map_of t q = Some Directory \<and>
      strictly_below q parts" for q
    using make_parents_view[OF w(4)] d by simp
  have nl: "no_links t parts" using w(5) by (simp add: reject_links_iff)
  have "map_of t q = Some (Symlink target)" if "map_of (ah_files (homes app)) q = Some (Symlink target)" for q target
    using view[of q] that by auto
  then have "no_links (ah_files (homes app)) parts" by (rule no_links_kept[OF nl])
  moreover have "map_of t q = Some (Symlink target)" if "map_of t' q = Some (Symlink target)" for q target
    using that by (simp add: t' update_conv' split: if_splits)
  then have "no_links t' parts" by (rule no_links_kept[OF nl])
  ultimately have "written (homes app) parts text h"
    using view d by (auto simp: written_def w(7) t' update_conv')
  then show ?thesis using p d w(1,2) t'(2) by (auto simp: gate_Inr)
qed

text \<open>
  Property C34 (files): an App writes only where a pattern of its grant reaches. A write that succeeds was allowed by a
  pattern of the \<^verbatim>\<open>file.write\<close> grant in the manifest of the App, which covers the components of the path, none of
  which steps upwards, and by its size limit; no component of the path, the last included, was a link before the write
  or is one after it; and every other entry of the data directory is as it was, but for the directories
  above the new file.
\<close>

theorem write_stays_inside_grant:
  assumes "write_text (stored_manifest digest homes) homes app path text sn = (h, Inr ())"
  shows "written (homes app) (path_parts path) text h \<and> ''..'' \<notin> set (path_parts path) \<and>
     (\<exists>m g p. read_manifest app (ah_manifest (homes app)) = Inr m \<and> g \<in> set (am_capabilities m) \<and> cg_id g = ''file.write'' \<and>
        p \<in> set (scope_items g ''paths'') \<and> covers p (path_parts path) \<and> int (length text) \<le> max_bytes g)"
proof -
  note w = write_textE[OF assms]
  then obtain mv gs g p where g: "stored_manifest digest homes app = Some mv" "normalize_grants (mv_capabilities mv) = Inr gs"
    "g \<in> set gs" "cg_id g = ''file.write''" "p \<in> set (scope_items g ''paths'')" "path_matches p path" "int (length text) \<le> max_bytes g"
    using app_store.authorize_file_granted[of digest homes app "''write''" path "Some (int (length text))" sn] by (auto simp: file_category_def)
  from g(1) obtain m where m: "read_manifest app (ah_manifest (homes app)) = Inr m" "mv = manifest_view_of digest m" "manifest_ok m"
    by (rule stored_manifest_Some)
  then have "gs = am_capabilities m" using g(2) manifest_grants(1)[OF m(3)] by (simp add: manifest_view_of_def)
  then show ?thesis using w m(1) g(3-7) path_matches_covers by blast
qed

text \<open>
  What an App wrote it reads back. After a successful write, whatever manifest is in force
  then, a read of the same path the policy allows returns the text with its ends of lines translated, and after a deletion it reports that the file
  is missing.
\<close>

theorem write_then_read:
  assumes "write_text loader homes app path text sn = (h, Inr ())"
    and "authorize_file loader' app ''read'' path None sn' = Inr ()"
  shows "read_text loader' (homes(app := h)) app path sn' = (h, Inr (universal_newlines text)) \<and>
     (authorize_file loader' app ''delete'' path None sn' = Inr () \<longrightarrow>
       (\<exists>h'. delete_file loader' (homes(app := h)) app path sn' = (h', Inr ()) \<and>
         read_text loader' (homes(app := h')) app path sn' = (h', Inl file_missing)))"
proof -
  note w = write_textE[OF assms(1)]
  let ?parts = "path_parts path"
  have direct: "app_path (homes(app := k)) app = Inr ()" if "ah_direct k = ah_direct (homes app)" for k
    using w that by (auto simp: app_path_def split: sum.splits manifest_error.splits if_splits)
  have root: "data_root (homes(app := k)) app = (k, Inr ())" if "ah_direct k = ah_direct (homes app)" "ah_data k = Some Directory" for k
    using direct[OF that(1)] that(2) by (simp add: data_root_def)
  have h: "ah_direct h = ah_direct (homes app)" "ah_data h = Some Directory" "map_of (ah_files h) ?parts = Some (Regular text)"
    "reject_links (ah_files h) ?parts = Inr ()" using w by (simp_all add: written_def reject_links_iff)
  have read: "gate loader' app ''read'' path None sn' = Inr ()" using assms(2) by (simp add: gate_Inr)
  have r: "relative_path False path = Inr ?parts" using w by simp
  have 1: "read_text loader' (homes(app := h)) app path sn' = (h, Inr (universal_newlines text))"
    using r read root[OF h(1,2)] h(3,4) by (simp add: read_text_def)
  let ?k = "h\<lparr>ah_files := AList.delete ?parts (ah_files h)\<rparr>"
  have "reject_links (ah_files ?k) ?parts = Inr ()"
    using h(4) unfolding reject_links_iff by (rule no_links_kept) (simp add: delete_conv' split: if_splits)
  moreover have "map_of (ah_files ?k) ?parts = None" by (simp add: delete_conv')
  ultimately have 2: "read_text loader' (homes(app := ?k)) app path sn' = (?k, Inl file_missing)"
    using r read root[of ?k] h(1,2) by (simp add: read_text_def)
  have "delete_file loader' (homes(app := h)) app path sn' = (?k, Inr ())" if "authorize_file loader' app ''delete'' path None sn' = Inr ()"
  proof -
    have "gate loader' app ''delete'' path None sn' = Inr ()" using that by (simp add: gate_Inr)
    then show ?thesis using r root[OF h(1,2)] h(3,4) by (simp add: delete_file_def is_file_def)
  qed
  then show ?thesis using 1 2 by blast
qed

section \<open>A concrete App\<close>

definition path_grant :: "string \<Rightarrow> (string \<times> json) list \<Rightarrow> json" where
  "path_grant cat extra = JObj [(''id'', JStr cat), (''scope'', JObj ((''paths'', texts [''cache/**'']) # extra))]"

definition cache_manifest :: json where
  "cache_manifest = JObj [(''manifest_version'', JInt 2), (''id'', JStr ''todo''), (''title'', JStr ''Todo''), (''description'', JStr []),
     (''app_version'', JStr ''0.1.0''), (''intents'', JArr []), (''schema_refs'', JArr []),
     (''capabilities'', JArr [path_grant ''file.write'' [(''max_bytes'', JInt 16)], path_grant ''file.read'' [], path_grant ''file.delete'' []])]"

definition cache_homes :: homes where
  "cache_homes app = \<lparr>ah_direct = True, ah_manifest = Stored 400 (Some cache_manifest), ah_data = None,
     ah_files = [([''notes''], Regular ''private'')]\<rparr>"

definition cache_loader :: manifest_loader where
  "cache_loader = stored_manifest (\<lambda>_. ''h'') cache_homes"

definition cache_written :: app_home where
  "cache_written = (cache_homes ''todo'')\<lparr>ah_data := Some Directory, ah_files := [([''notes''], Regular ''private''),
     ([''cache''], Directory), ([''cache'', ''a''], Regular ''text'')]\<rparr>"

lemma cache_write: "write_text cache_loader cache_homes ''todo'' ''cache/./a'' ''text'' any_snapshot = (cache_written, Inr ())"
  by code_simp

lemma write_stays_inside_grant_witness: "written (cache_homes ''todo'') [''cache'', ''a''] ''text'' cache_written"
proof -
  have "path_parts ''cache/./a'' = [''cache'', ''a'']" by (simp add: path_parts_def)
  then show ?thesis using write_stays_inside_grant[OF cache_write[unfolded cache_loader_def]] by simp
qed

lemma write_then_read_witness:
  "read_text cache_loader (cache_homes(''todo'' := cache_written)) ''todo'' ''cache/./a'' any_snapshot = (cache_written, Inr ''text'')"
proof -
  have "authorize_file cache_loader ''todo'' ''read'' ''cache/./a'' None any_snapshot = Inr ()" by code_simp
  from write_then_read[OF cache_write this] show ?thesis by simp
qed

text \<open>A path that steps upwards, one outside the pattern and a text too long are refused and change nothing.\<close>

lemma refused_writes:
  "fst (write_text cache_loader cache_homes ''todo'' ''cache/../notes'' ''x'' any_snapshot) = cache_homes ''todo''"
  "fst (write_text cache_loader cache_homes ''todo'' ''notes'' ''x'' any_snapshot) = cache_homes ''todo''"
  "fst (write_text cache_loader cache_homes ''todo'' ''cache/b'' ''12345678901234567'' any_snapshot) = cache_homes ''todo''"
  by code_simp+

end
