(* ===== verification/App_Manager.thy ===== *)
theory App_Manager
  imports App_Files
begin

text \<open>
  The manager of Apps (\<^verbatim>\<open>backend/app_manager.py\<close>) with its lifecycle records (\<^verbatim>\<open>backend/app_records.py\<close>): one
  directory per App below a root directory, one row per App in a database, and a transaction that undoes on disk
  what it did when the database rolls back. Disk and database fail only where the files themselves cause it.
\<close>

section \<open>The directory of Apps\<close>

text \<open>What stands at a name inside the directory of an App.\<close>

datatype 'a slot = Absent | File 'a | Folder

text \<open>
  The files the manager reads and writes: the manifest, the controller (\<open>None\<close> for bytes that are no UTF-8) and the
  files of earlier formats it removes; and the data directory of \<open>App_Files\<close>, which it leaves alone.
\<close>

record app_content =
  ac_manifest :: "manifest_file slot"
  ac_controller :: "string option slot"
  ac_obsolete :: "string \<Rightarrow> string slot"
  ac_data :: "file_entry option"
  ac_files :: tree

definition empty_content :: app_content where
  "empty_content = \<lparr>ac_manifest = Absent, ac_controller = Absent, ac_obsolete = \<lambda>_. Absent, ac_data = None, ac_files = []\<rparr>"

text \<open>
  What stands at a name in the root: a directory, a regular file, a link that resolves to the direct child of the
  given name, or a link that resolves elsewhere, to a directory or not.
\<close>

datatype root_entry = App_Dir app_content | Root_File | Link_To string | Link_Out bool

type_synonym entries = "(string \<times> root_entry) list"

record app_record =
  ar_id :: string
  ar_created_at :: string
  ar_updated_at :: string

record app_world =
  aw_entries :: entries
  aw_records :: "app_record list"

text \<open>\<^verbatim>\<open>path.exists()\<close>, which follows links.\<close>

definition exists_at :: "entries \<Rightarrow> string \<Rightarrow> bool" where
  "exists_at es name = (case map_of es name of None \<Rightarrow> False | Some (Link_To b) \<Rightarrow> map_of es b \<noteq> None
     | Some (Link_Out _) \<Rightarrow> True | Some _ \<Rightarrow> True)"

text \<open>\<^verbatim>\<open>source.replace(target)\<close> for a target that is not there.\<close>

definition move_entry :: "string \<Rightarrow> string \<Rightarrow> entries \<Rightarrow> entries" where
  "move_entry source target es = map (\<lambda>kv. (if fst kv = source then target else fst kv, snd kv)) es"

definition remove_entry :: "string \<Rightarrow> entries \<Rightarrow> entries" where
  "remove_entry name es = filter (\<lambda>kv. fst kv \<noteq> name) es"

section \<open>Records and transactions\<close>

definition get_record :: "app_world \<Rightarrow> string \<Rightarrow> app_record option" where
  "get_record w app = lookup_by ar_id app (aw_records w)"

text \<open>\<^verbatim>\<open>created_at or (existing.created_at if existing else now)\<close>.\<close>

definition made_record :: "string \<Rightarrow> string \<Rightarrow> string option \<Rightarrow> app_world \<Rightarrow> app_record" where
  "made_record now app created w =
     \<lparr>ar_id = app,
      ar_created_at = (case created of Some c \<Rightarrow> if c \<noteq> [] then c else (case get_record w app of Some r \<Rightarrow> ar_created_at r | None \<Rightarrow> now)
        | None \<Rightarrow> (case get_record w app of Some r \<Rightarrow> ar_created_at r | None \<Rightarrow> now)),
      ar_updated_at = now\<rparr>"

definition put_record :: "string \<Rightarrow> string \<Rightarrow> string option \<Rightarrow> app_world \<Rightarrow> app_world \<times> app_record" where
  "put_record now app created w =
     (let r = made_record now app created w in (w\<lparr>aw_records := upsert ar_id (\<lambda>_ new. new) r (aw_records w)\<rparr>, r))"

definition delete_record :: "string \<Rightarrow> app_world \<Rightarrow> app_world" where
  "delete_record app w = w\<lparr>aw_records := filter (\<lambda>r. ar_id r \<noteq> app) (aw_records w)\<rparr>"

text \<open>The files of an App as they were before a change.\<close>

record originals =
  or_manifest :: "manifest_file option"
  or_controller :: "string option option"
  or_obsolete :: "(string \<times> string option) list"

text \<open>The compensations and the clean-ups the manager registers, one constructor per closure of the code.\<close>

datatype compensation = Move_Back string string | Undo_Create string | Undo_Update string originals | Undo_Properties string manifest_file

datatype cleanup = Remove_Path string | Remove_Tree string

record app_tx =
  tx_world :: app_world
  tx_rollback :: "compensation list"
  tx_after :: "cleanup list"

type_synonym 'a step = "app_tx \<Rightarrow> app_tx \<times> 'a manifest_result"

definition done_with :: "'a \<Rightarrow> 'a step" where
  "done_with x t = (t, Inr x)"

definition fail_with :: "manifest_error \<Rightarrow> 'a step" where
  "fail_with e t = (t, Inl e)"

definition and_then :: "'a step \<Rightarrow> ('a \<Rightarrow> 'b step) \<Rightarrow> 'b step" where
  "and_then m f t = (case m t of (t', Inl e) \<Rightarrow> (t', Inl e) | (t', Inr x) \<Rightarrow> f x t')"

definition of_result :: "'a manifest_result \<Rightarrow> 'a step" where
  "of_result r t = (t, r)"

definition add_rollback :: "compensation \<Rightarrow> unit step" where
  "add_rollback c t = (t\<lparr>tx_rollback := tx_rollback t @ [c]\<rparr>, Inr ())"

definition add_after_commit :: "cleanup \<Rightarrow> unit step" where
  "add_after_commit c t = (t\<lparr>tx_after := tx_after t @ [c]\<rparr>, Inr ())"

definition change_world :: "(app_world \<Rightarrow> app_world) \<Rightarrow> unit step" where
  "change_world f t = (t\<lparr>tx_world := f (tx_world t)\<rparr>, Inr ())"

text \<open>\<^verbatim>\<open>path.unlink(missing_ok=True)\<close> and \<^verbatim>\<open>path.write_bytes(content)\<close> on the files of an App.\<close>

definition os_error :: "string \<Rightarrow> manifest_error" where
  "os_error m = Escaped (OSError m)"

definition put_slot :: "'a option \<Rightarrow> 'a slot \<Rightarrow> 'a slot option" where
  "put_slot content s = (if s = Folder then None else Some (case content of None \<Rightarrow> Absent | Some x \<Rightarrow> File x))"

text \<open>
  The loop of \<^verbatim>\<open>restore\<close> over the tracked names: the controller, the manifest, the obsolete files. An error ends it,
  with the files restored so far.
\<close>

fun restore_obsolete :: "(string \<times> string option) list \<Rightarrow> app_content \<Rightarrow> app_content" where
  "restore_obsolete [] c = c"
| "restore_obsolete ((name, content) # rest) c =
     (case put_slot content (ac_obsolete c name) of None \<Rightarrow> c
      | Some s \<Rightarrow> restore_obsolete rest (c\<lparr>ac_obsolete := (ac_obsolete c)(name := s)\<rparr>))"

definition restore_files :: "originals \<Rightarrow> app_content \<Rightarrow> app_content" where
  "restore_files orig c =
     (case put_slot (or_controller orig) (ac_controller c) of None \<Rightarrow> c | Some s \<Rightarrow>
        (let c = c\<lparr>ac_controller := s\<rparr>
         in case put_slot (or_manifest orig) (ac_manifest c) of None \<Rightarrow> c | Some s \<Rightarrow>
              restore_obsolete (or_obsolete orig) (c\<lparr>ac_manifest := s\<rparr>)))"

definition put_content :: "string \<Rightarrow> app_content \<Rightarrow> entries \<Rightarrow> entries" where
  "put_content name c es = update_where (\<lambda>kv. fst kv = name) (\<lambda>kv. (fst kv, App_Dir c)) es"

definition edit_entry :: "string \<Rightarrow> (app_content \<Rightarrow> app_content) \<Rightarrow> entries \<Rightarrow> entries" where
  "edit_entry name f es = (case map_of es name of Some (App_Dir c) \<Rightarrow> put_content name (f c) es | _ \<Rightarrow> es)"

fun run_compensation :: "compensation \<Rightarrow> entries \<Rightarrow> entries" where
  "run_compensation (Move_Back source target) es =
     (if exists_at es source \<and> \<not> exists_at es target then move_entry source target es else es)"
| "run_compensation (Undo_Create name) es = (case map_of es name of Some (App_Dir _) \<Rightarrow> remove_entry name es | _ \<Rightarrow> es)"
| "run_compensation (Undo_Update name orig) es = edit_entry name (restore_files orig) es"
| "run_compensation (Undo_Properties name f) es =
     edit_entry name (\<lambda>c. case put_slot (Some f) (ac_manifest c) of None \<Rightarrow> c | Some s \<Rightarrow> c\<lparr>ac_manifest := s\<rparr>) es"

text \<open>\<^verbatim>\<open>shutil.rmtree\<close> raises on anything but a directory; \<^verbatim>\<open>_remove_path\<close> unlinks it.\<close>

fun run_cleanup :: "cleanup \<Rightarrow> entries \<Rightarrow> entries" where
  "run_cleanup (Remove_Path name) es = remove_entry name es"
| "run_cleanup (Remove_Tree name) es = (case map_of es name of Some (App_Dir _) \<Rightarrow> remove_entry name es | _ \<Rightarrow> es)"

definition begin_tx :: "app_world \<Rightarrow> app_tx" where
  "begin_tx w = \<lparr>tx_world = w, tx_rollback = [], tx_after = []\<rparr>"

text \<open>
  The end of a transaction: the commit of the rows and then the clean-ups, or the rows as they were and the
  compensations, last first.
\<close>

definition finish_tx :: "app_tx \<Rightarrow> app_world" where
  "finish_tx t = (tx_world t)\<lparr>aw_entries := fold run_cleanup (tx_after t) (aw_entries (tx_world t))\<rparr>"

definition undo_tx :: "app_world \<Rightarrow> app_tx \<Rightarrow> app_world" where
  "undo_tx w t = \<lparr>aw_entries = fold run_compensation (rev (tx_rollback t)) (aw_entries (tx_world t)), aw_records = aw_records w\<rparr>"

definition serialized :: "'a step \<Rightarrow> app_world \<Rightarrow> app_world \<times> 'a manifest_result" where
  "serialized body w =
     (case body (begin_tx w) of (t, Inr x) \<Rightarrow> (finish_tx t, Inr x) | (t, Inl e) \<Rightarrow> (undo_tx w t, Inl e))"

section \<open>Interrupted deletions\<close>

text \<open>\<^verbatim>\<open>.<app id>.deleting-<32 hexadecimal digits>\<close>.\<close>

definition token_ok :: "string \<Rightarrow> bool" where
  "token_ok token \<longleftrightarrow> length token = 32 \<and> list_all is_hex token"

definition tombstone_name :: "string \<Rightarrow> string \<Rightarrow> string" where
  "tombstone_name app token = ''.'' @ app @ ''.deleting-'' @ token"

definition parse_tombstone :: "string \<Rightarrow> string option" where
  "parse_tombstone name =
     (if starts_with name ''.''
      then (case break_at (\<lambda>c. c = CHR ''.'') (drop 1 name) of
          (app, Some tail) \<Rightarrow> if kebab_case app \<and> starts_with tail ''deleting-'' \<and> token_ok (drop 9 tail) then Some app else None
        | _ \<Rightarrow> None)
      else None)"

text \<open>One entry of \<^verbatim>\<open>_reconcile_tombstones\<close>: put back when the record is still there, removed when it is not.\<close>

definition reconcile_entry :: "string \<Rightarrow> unit step" where
  "reconcile_entry name t =
     (case parse_tombstone name of
        None \<Rightarrow> done_with () t
      | Some app \<Rightarrow>
          (case map_of (aw_entries (tx_world t)) name of
             Some (App_Dir _) \<Rightarrow>
               if map_of (aw_entries (tx_world t)) app \<noteq> None then done_with () t
               else if get_record (tx_world t) app = None then add_after_commit (Remove_Path name) t
               else and_then (change_world (\<lambda>w. w\<lparr>aw_entries := move_entry name app (aw_entries w)\<rparr>))
                 (\<lambda>_. add_rollback (Move_Back app name)) t
           | _ \<Rightarrow> done_with () t))"

fun each_of :: "('a \<Rightarrow> unit step) \<Rightarrow> 'a list \<Rightarrow> unit step" where
  "each_of f [] = done_with ()"
| "each_of f (x # xs) = and_then (f x) (\<lambda>_. each_of f xs)"

definition reconcile_tombstones :: "unit step" where
  "reconcile_tombstones t = each_of reconcile_entry (map fst (aw_entries (tx_world t))) t"

text \<open>It raises nothing, so only the world is of interest.\<close>

definition reconcile :: "app_world \<Rightarrow> app_world" where
  "reconcile w = fst (serialized reconcile_tombstones w)"

section \<open>Reading\<close>

definition app_directory :: "app_world \<Rightarrow> string \<Rightarrow> string manifest_result" where
  "app_directory w app =
     (case check_app_id (JStr app) of
        Inl (Invalid e) \<Rightarrow> Inl (Escaped (ValueError (''invalid app_id: '' @ se_message e)))
      | Inl e \<Rightarrow> Inl e
      | Inr _ \<Rightarrow>
          (case map_of (aw_entries w) app of
             Some (Link_To b) \<Rightarrow> Inr b
           | Some (Link_Out _) \<Rightarrow> Inl (Escaped (ValueError ''invalid app_id: App path must be a direct child of the Apps directory''))
           | _ \<Rightarrow> Inr app))"

definition content_at :: "app_world \<Rightarrow> string \<Rightarrow> app_content option" where
  "content_at w name = (case map_of (aw_entries w) name of Some (App_Dir c) \<Rightarrow> Some c | _ \<Rightarrow> None)"

definition manifest_at :: "app_world \<Rightarrow> string \<Rightarrow> manifest_file option" where
  "manifest_at w name = (case content_at w name of
     Some c \<Rightarrow> (case ac_manifest c of File f \<Rightarrow> Some f | _ \<Rightarrow> None) | None \<Rightarrow> None)"

text \<open>\<^verbatim>\<open>_read_manifest\<close>: an App without a record gets one.\<close>

definition read_app :: "string \<Rightarrow> string \<Rightarrow> string \<Rightarrow> (app_manifest \<times> app_record) option step" where
  "read_app now app path t =
     (case manifest_at (tx_world t) path of
        None \<Rightarrow> done_with None t
      | Some f \<Rightarrow>
          and_then (of_result (read_manifest app f))
            (\<lambda>m t. case get_record (tx_world t) app of
               Some r \<Rightarrow> done_with (Some (m, r)) t
             | None \<Rightarrow> (case put_record now app None (tx_world t) of (w, r) \<Rightarrow> done_with (Some (m, r)) (t\<lparr>tx_world := w\<rparr>))) t)"

definition manifest_record :: "(json list \<Rightarrow> string) \<Rightarrow> app_manifest \<times> app_record \<Rightarrow> (string \<times> json) list" where
  "manifest_record digest = (\<lambda>(m, r). manifest_fields m @
     [(''manifest_revision'', JStr (manifest_revision m)), (''grants_digest'', JStr (manifest_digest digest m)),
      (''created_at'', JStr (ar_created_at r)), (''updated_at'', JStr (ar_updated_at r))])"

text \<open>\<^verbatim>\<open>except (OSError, UnicodeError, ManifestValidationError)\<close>: the value instead.\<close>

definition recover_with :: "'a \<Rightarrow> 'a step \<Rightarrow> 'a step" where
  "recover_with x m t =
     (case m t of (t', Inl (Invalid _)) \<Rightarrow> (t', Inr x) | (t', Inl (Escaped (OSError _))) \<Rightarrow> (t', Inr x) | r \<Rightarrow> r)"

definition get_manifest :: "string \<Rightarrow> string \<Rightarrow> app_world \<Rightarrow> app_world \<times> app_manifest option manifest_result" where
  "get_manifest now app w =
     (let w = reconcile w
      in case app_directory w app of
           Inl _ \<Rightarrow> (w, Inr None)
         | Inr path \<Rightarrow> serialized (recover_with None (and_then (read_app now app path) (\<lambda>r. done_with (map_option fst r)))) w)"

text \<open>
  A controller that is no UTF-8 raises \<^verbatim>\<open>UnicodeDecodeError\<close>, which is caught too. \<^verbatim>\<open>read_text\<close> translates the ends of lines.
\<close>

definition controller_at :: "app_world \<Rightarrow> string \<Rightarrow> string option" where
  "controller_at w path = (case content_at w path of
     Some c \<Rightarrow> (case ac_controller c of File text \<Rightarrow> map_option universal_newlines text | _ \<Rightarrow> Some []) | None \<Rightarrow> Some [])"

definition get_app_files ::
  "(json list \<Rightarrow> string) \<Rightarrow> string \<Rightarrow> string \<Rightarrow> app_world \<Rightarrow> app_world \<times> json option manifest_result" where
  "get_app_files digest now app w =
     (let w = reconcile w
      in case app_directory w app of
           Inl e \<Rightarrow> (w, Inl e)
         | Inr path \<Rightarrow> serialized (recover_with None (and_then (read_app now app path)
             (\<lambda>r t. done_with (case r of None \<Rightarrow> None
                | Some mr \<Rightarrow> map_option (\<lambda>js. JObj (manifest_record digest mr @ [(''js'', JStr js)])) (controller_at (tx_world t) path)) t))) w)"

text \<open>
  One candidate of \<^verbatim>\<open>list_apps\<close>. A link is refused after its path was resolved; the loop catches \<^verbatim>\<open>ValueError\<close> too.
\<close>

definition list_candidate_app ::
  "(json list \<Rightarrow> string) \<Rightarrow> string \<Rightarrow> string \<Rightarrow> app_world \<Rightarrow> app_world \<times> json list manifest_result" where
  "list_candidate_app digest now name w =
     (case (case app_directory w name of
              Inl e \<Rightarrow> (w, Inl e)
            | Inr path \<Rightarrow> if path \<noteq> name then (w, Inl (Escaped (ValueError ''App directory must be a direct, non-symlink child'')))
                else serialized (read_app now name path) w) of
        (w', Inr None) \<Rightarrow> (w', Inr [])
      | (w', Inr (Some mr)) \<Rightarrow> (w', Inr [JObj (manifest_record digest mr)])
      | (w', Inl (Invalid _)) \<Rightarrow> (w', Inr [])
      | (w', Inl (Escaped (OSError _))) \<Rightarrow> (w', Inr [])
      | (w', Inl (Escaped (ValueError _))) \<Rightarrow> (w', Inr [])
      | (w', Inl e) \<Rightarrow> (w', Inl e))"

fun list_loop ::
  "(json list \<Rightarrow> string) \<Rightarrow> string \<Rightarrow> string list \<Rightarrow> app_world \<Rightarrow> app_world \<times> json list manifest_result" where
  "list_loop digest now [] w = (w, Inr [])"
| "list_loop digest now (name # names) w =
     (case list_candidate_app digest now name w of
        (w', Inl e) \<Rightarrow> (w', Inl e)
      | (w', Inr xs) \<Rightarrow> (case list_loop digest now names w' of (w'', r) \<Rightarrow> (w'', map_sum id (\<lambda>ys. xs @ ys) r)))"

text \<open>\<^verbatim>\<open>entry.is_dir()\<close> follows links.\<close>

definition is_dir_entry :: "entries \<Rightarrow> root_entry \<Rightarrow> bool" where
  "is_dir_entry es e = (case e of App_Dir _ \<Rightarrow> True | Root_File \<Rightarrow> False
     | Link_To b \<Rightarrow> (case map_of es b of Some (App_Dir _) \<Rightarrow> True | _ \<Rightarrow> False) | Link_Out d \<Rightarrow> d)"

definition app_names :: "entries \<Rightarrow> string list" where
  "app_names es = order_by str_less (map fst (filter (\<lambda>kv. is_dir_entry es (snd kv) \<and> \<not> starts_with (fst kv) ''.'') es))"

definition list_apps :: "(json list \<Rightarrow> string) \<Rightarrow> string \<Rightarrow> app_world \<Rightarrow> app_world \<times> json list manifest_result" where
  "list_apps digest now w = (let w = reconcile w in list_loop digest now (app_names (aw_entries w)) w)"

section \<open>Writing\<close>

definition OBSOLETE_APP_FILES :: "string list" where
  "OBSOLETE_APP_FILES = [''index.html'', ''index.jsx'', ''layout.json'', ''metadata.json'', ''style.css'']"

text \<open>The optional keyword arguments; \<open>None\<close> is \<^verbatim>\<open>_UNSET\<close>.\<close>

record app_fields =
  af_description :: "json option"
  af_app_version :: "json option"
  af_intents :: "json option"
  af_schema_refs :: "json option"
  af_capabilities :: "json option"
  af_app_spec :: "json option"

definition given :: "(string \<times> json option) list \<Rightarrow> (string \<times> json) list" where
  "given opts = List.map_filter (\<lambda>(k, v). map_option (Pair k) v) opts"

definition set_all :: "(string \<times> json) list \<Rightarrow> (string \<times> json) list \<Rightarrow> (string \<times> json) list" where
  "set_all changes kvs = fold (\<lambda>(k, v). AList.update k v) changes kvs"

definition create_changes :: "app_fields \<Rightarrow> (string \<times> json) list" where
  "create_changes f = given [(''description'', af_description f), (''app_version'', af_app_version f), (''intents'', af_intents f),
     (''schema_refs'', af_schema_refs f), (''capabilities'', af_capabilities f), (''app_spec'', af_app_spec f)]"

definition new_manifest :: "string \<Rightarrow> json \<Rightarrow> app_manifest manifest_result" where
  "new_manifest app title = manifest_from_dict app (JObj [(''manifest_version'', JInt 2), (''id'', JStr app), (''title'', title),
     (''description'', JStr []), (''app_version'', JStr ''0.1.0''), (''intents'', JArr []), (''schema_refs'', JArr []),
     (''capabilities'', JArr [])])"

text \<open>The manifest a call of \<^verbatim>\<open>create_or_update_app\<close> leads to.\<close>

definition base_fields :: "string \<Rightarrow> json \<Rightarrow> app_manifest option \<Rightarrow> (string \<times> json) list manifest_result" where
  "base_fields app title current =
     (case current of
        Some m \<Rightarrow> Inr (AList.update ''title'' title (manifest_fields m))
      | None \<Rightarrow> map_sum id manifest_fields (new_manifest app title))"

definition plan_app :: "string \<Rightarrow> json \<Rightarrow> app_fields \<Rightarrow> app_manifest option \<Rightarrow> app_manifest manifest_result" where
  "plan_app app title opts current =
     (case base_fields app title current of Inl e \<Rightarrow> Inl e | Inr kvs \<Rightarrow> manifest_from_dict app (JObj (set_all (create_changes opts) kvs)))"

definition planned_manifest :: "string \<Rightarrow> json \<Rightarrow> app_fields \<Rightarrow> manifest_file option \<Rightarrow> app_manifest manifest_result" where
  "planned_manifest app title opts current =
     (case current of
        None \<Rightarrow> plan_app app title opts None
      | Some f \<Rightarrow> (case read_manifest app f of Inl e \<Rightarrow> Inl e | Inr m \<Rightarrow> plan_app app title opts (Some m)))"

text \<open>The length of what \<^verbatim>\<open>json.dump(data, file, indent=2, ensure_ascii=False)\<close> writes at a level of nesting.\<close>

definition escaped_size :: "char \<Rightarrow> int" where
  "escaped_size c =
     (if c \<in> {CHR 0x22, CHR 0x5C, CHR 0x0A, CHR 0x0D, CHR 0x09, CHR 0x08, CHR 0x0C} then 2
      else if (of_char c :: nat) < 32 then 6 else 1)"

definition text_size :: "string \<Rightarrow> int" where
  "text_size s = 2 + sum_list (map escaped_size s)"

fun dump_size :: "int \<Rightarrow> json \<Rightarrow> int" where
  "dump_size level JNull = 4"
| "dump_size level (JBool b) = (if b then 4 else 5)"
| "dump_size level (JInt n) = int (length (int_str n))"
| "dump_size level (JFloat x) = int (length (py_repr (JFloat x)))"
| "dump_size level (JStr s) = text_size s"
| "dump_size level (JArr xs) =
     (if xs = [] then 2 else 2 + 2 * level + sum_list (map (\<lambda>x. dump_size (level + 1) x + 4 + 2 * level) xs))"
| "dump_size level (JObj kvs) =
     (if kvs = [] then 2 else 2 + 2 * level + sum_list (map (\<lambda>(k, v). text_size k + 2 + dump_size (level + 1) v + 4 + 2 * level) kvs))"

definition stored_form :: "app_manifest \<Rightarrow> manifest_file" where
  "stored_form m = Stored (dump_size 0 (manifest_to_dict m) + 1) (Some (manifest_to_dict m))"

text \<open>Steps on the files of one App.\<close>

definition edit_app :: "string \<Rightarrow> (app_content \<Rightarrow> app_content manifest_result) \<Rightarrow> unit step" where
  "edit_app path f t =
     (case content_at (tx_world t) path of
        None \<Rightarrow> (t, Inl (os_error ''NotADirectoryError''))
      | Some c \<Rightarrow> (case f c of Inl e \<Rightarrow> (t, Inl e)
          | Inr c' \<Rightarrow> change_world (\<lambda>w. w\<lparr>aw_entries := put_content path c' (aw_entries w)\<rparr>) t))"

definition write_controller :: "string \<Rightarrow> app_content \<Rightarrow> app_content manifest_result" where
  "write_controller js c =
     (if ac_controller c = Folder then Inl (os_error ''IsADirectoryError'') else Inr (c\<lparr>ac_controller := File (Some js)\<rparr>))"

definition unlink_obsolete :: "string \<Rightarrow> app_content \<Rightarrow> app_content manifest_result" where
  "unlink_obsolete name c =
     (if ac_obsolete c name = Folder then Inl (os_error ''IsADirectoryError'')
      else Inr (c\<lparr>ac_obsolete := (ac_obsolete c)(name := Absent)\<rparr>))"

definition write_manifest :: "app_manifest \<Rightarrow> app_content \<Rightarrow> app_content manifest_result" where
  "write_manifest m c =
     (if ac_manifest c = Folder then Inl (os_error ''IsADirectoryError'') else Inr (c\<lparr>ac_manifest := File (stored_form m)\<rparr>))"

definition file_of :: "'a slot \<Rightarrow> 'a option" where
  "file_of s = (case s of File x \<Rightarrow> Some x | _ \<Rightarrow> None)"

text \<open>Reading the tracked files fails on one that cannot be read.\<close>

definition tracked :: "app_content \<Rightarrow> originals manifest_result" where
  "tracked c =
     (if ac_manifest c = File Unreadable then Inl (os_error ''PermissionError'')
      else Inr \<lparr>or_manifest = file_of (ac_manifest c), or_controller = file_of (ac_controller c),
        or_obsolete = map (\<lambda>name. (name, file_of (ac_obsolete c name))) OBSOLETE_APP_FILES\<rparr>)"

text \<open>\<^verbatim>\<open>app_path.mkdir(parents=True, exist_ok=True)\<close>: the path existed or not.\<close>

definition make_directory :: "string \<Rightarrow> bool step" where
  "make_directory path t =
     (case map_of (aw_entries (tx_world t)) path of
        None \<Rightarrow> (t\<lparr>tx_world := (tx_world t)\<lparr>aw_entries := aw_entries (tx_world t) @ [(path, App_Dir empty_content)]\<rparr>\<rparr>, Inr False)
      | Some (App_Dir _) \<Rightarrow> (t, Inr True)
      | Some _ \<Rightarrow> (t, Inl (os_error ''FileExistsError'')))"

definition verify_manifest :: "string \<Rightarrow> string \<Rightarrow> app_manifest step" where
  "verify_manifest app path t =
     (t, case manifest_at (tx_world t) path of
           None \<Rightarrow> Inl (invalid ''manifest must be readable UTF-8 containing valid JSON'')
         | Some f \<Rightarrow> read_manifest app f)"

definition record_app :: "string \<Rightarrow> string \<Rightarrow> string option \<Rightarrow> app_manifest \<Rightarrow> (app_manifest \<times> app_record) step" where
  "record_app now app created m t = (case put_record now app created (tx_world t) of (w, r) \<Rightarrow> (t\<lparr>tx_world := w\<rparr>, Inr (m, r)))"

definition undo_of :: "string \<Rightarrow> bool \<Rightarrow> originals \<Rightarrow> compensation" where
  "undo_of path existed orig = (if existed then Undo_Update path orig else Undo_Create path)"

text \<open>The files of the new version, the controller first and the manifest last.\<close>

definition write_files :: "string \<Rightarrow> string \<Rightarrow> string \<Rightarrow> app_manifest \<Rightarrow> app_manifest step" where
  "write_files app path js m =
     and_then (edit_app path (write_controller js)) (\<lambda>_.
     and_then (each_of (\<lambda>name. edit_app path (unlink_obsolete name)) OBSOLETE_APP_FILES) (\<lambda>_.
     and_then (edit_app path (write_manifest m)) (\<lambda>_.
       verify_manifest app path)))"

definition create_tail :: "string \<Rightarrow> string \<Rightarrow> string \<Rightarrow> json \<Rightarrow> string \<Rightarrow> app_fields \<Rightarrow> compensation \<Rightarrow> (app_manifest \<times> app_record) step" where
  "create_tail now app path title js opts undo =
     and_then (add_rollback undo) (\<lambda>_.
     and_then (\<lambda>t. of_result (planned_manifest app title opts (manifest_at (tx_world t) path)) t) (\<lambda>m.
     and_then (write_files app path js m) (record_app now app None)))"

definition create_body :: "string \<Rightarrow> string \<Rightarrow> string \<Rightarrow> json \<Rightarrow> string \<Rightarrow> app_fields \<Rightarrow> (app_manifest \<times> app_record) step" where
  "create_body now app path title js opts =
     and_then (make_directory path) (\<lambda>existed.
     and_then (\<lambda>t. of_result (case content_at (tx_world t) path of Some c \<Rightarrow> tracked c | None \<Rightarrow> tracked empty_content) t) (\<lambda>orig.
       create_tail now app path title js opts (undo_of path existed orig)))"

definition create_or_update_app ::
  "string \<Rightarrow> string \<Rightarrow> json \<Rightarrow> json \<Rightarrow> app_fields \<Rightarrow> app_world \<Rightarrow> app_world \<times> unit manifest_result" where
  "create_or_update_app now app title js opts w =
     (case js of
        JStr text \<Rightarrow>
          (let w = reconcile w
           in case app_directory w app of
                Inl e \<Rightarrow> (w, Inl e)
              | Inr path \<Rightarrow> serialized (and_then (create_body now app path title text opts) (\<lambda>_. done_with ())) w)
      | _ \<Rightarrow> (w, Inl (Escaped (TypeError ''js must be a string''))))"

definition property_changes :: "json option \<Rightarrow> app_fields \<Rightarrow> (string \<times> json) list" where
  "property_changes title f = given [(''title'', title), (''description'', af_description f), (''app_version'', af_app_version f),
     (''intents'', af_intents f), (''app_spec'', af_app_spec f)]"

definition rewrite_manifest :: "string \<Rightarrow> string \<Rightarrow> string \<Rightarrow> app_record \<Rightarrow> app_manifest \<Rightarrow> (app_manifest \<times> app_record) step" where
  "rewrite_manifest now app path r updated =
     and_then (\<lambda>t. case manifest_at (tx_world t) path of
         Some f \<Rightarrow> add_rollback (Undo_Properties path f) t | None \<Rightarrow> fail_with (os_error ''FileNotFoundError'') t) (\<lambda>_.
     and_then (edit_app path (write_manifest updated)) (\<lambda>_.
     and_then (verify_manifest app path)
       (record_app now app (Some (ar_created_at r)))))"

definition properties_body ::
  "string \<Rightarrow> string \<Rightarrow> string \<Rightarrow> json option \<Rightarrow> app_fields \<Rightarrow> (app_manifest \<times> app_record) option step" where
  "properties_body now app path title opts =
     and_then (read_app now app path) (\<lambda>loaded.
       case loaded of
         None \<Rightarrow> done_with None
       | Some (m, r) \<Rightarrow>
           and_then (of_result (manifest_from_dict app (JObj (set_all (property_changes title opts) (manifest_fields m))))) (\<lambda>updated.
           and_then (rewrite_manifest now app path r updated) (\<lambda>mr. done_with (Some mr))))"

definition update_app_properties ::
  "(json list \<Rightarrow> string) \<Rightarrow> string \<Rightarrow> string \<Rightarrow> json option \<Rightarrow> app_fields \<Rightarrow> app_world \<Rightarrow> app_world \<times> json option manifest_result" where
  "update_app_properties digest now app title opts w =
     (let w = reconcile w
      in case app_directory w app of
           Inl e \<Rightarrow> (w, Inl e)
         | Inr path \<Rightarrow> map_prod id (map_sum id (map_option (\<lambda>mr. JObj (manifest_record digest mr))))
             (serialized (properties_body now app path title opts) w))"

section \<open>Deleting\<close>

text \<open>\<open>token\<close> is the fresh \<^verbatim>\<open>uuid4().hex\<close>.\<close>

definition rename_app :: "string \<Rightarrow> string \<Rightarrow> string \<Rightarrow> app_world \<Rightarrow> app_world" where
  "rename_app token app path w = w\<lparr>aw_entries := move_entry path (tombstone_name app token) (aw_entries w)\<rparr>"

definition delete_body :: "string \<Rightarrow> string \<Rightarrow> string \<Rightarrow> bool step" where
  "delete_body token app path t =
     (if \<not> exists_at (aw_entries (tx_world t)) path then done_with False t
      else
        and_then (change_world (rename_app token app path)) (\<lambda>_.
        and_then (add_rollback (Move_Back (tombstone_name app token) path)) (\<lambda>_.
        and_then (add_after_commit (Remove_Tree (tombstone_name app token))) (\<lambda>_.
        and_then (change_world (delete_record app)) (\<lambda>_. done_with True)))) t)"

definition delete_app :: "string \<Rightarrow> string \<Rightarrow> app_world \<Rightarrow> app_world \<times> bool manifest_result" where
  "delete_app token app w =
     (let w = reconcile w
      in case app_directory w app of Inl e \<Rightarrow> (w, Inl e) | Inr path \<Rightarrow> serialized (delete_body token app path) w)"

text \<open>
  What a process that dies in \<^verbatim>\<open>delete_app\<close> leaves behind: after the directory was renamed and before the rows are
  committed, or after the commit and before the directory is removed.
\<close>

definition interrupted_delete :: "bool \<Rightarrow> string \<Rightarrow> string \<Rightarrow> app_world \<Rightarrow> app_world" where
  "interrupted_delete committed token app w =
     (let w = reconcile w
      in case app_directory w app of
           Inl _ \<Rightarrow> w
         | Inr path \<Rightarrow> if \<not> exists_at (aw_entries w) path then w
             else if committed then delete_record app (rename_app token app path w) else rename_app token app path w)"

end
