(* ===== verification/App_Manager_Laws.thy ===== *)
theory App_Manager_Laws
  imports App_Manager
begin

text \<open>
  The manager of Apps implements a map from identifiers to Apps: every operation, run in any order and with
  deletions interrupted anywhere, gives the answer of the map.
\<close>

section \<open>Names and entries\<close>

lemma split_on_chars: "c \<in> set s \<Longrightarrow> c \<noteq> d \<Longrightarrow> \<exists>p \<in> set (split_on d s). c \<in> set p"
  by (induction d s rule: split_on.induct) (auto split: list.splits)

lemma kebab_no_dot: "kebab_case s \<Longrightarrow> CHR ''.'' \<notin> set s"
proof
  assume k: "kebab_case s" "CHR ''.'' \<in> set s"
  obtain p where p: "p \<in> set (split_on (CHR ''-'') s)" "CHR ''.'' \<in> set p"
    using split_on_chars[OF k(2), of "CHR ''-''"] by auto
  have "\<not> is_lower_alnum (CHR ''.'')" by code_simp
  with k(1) p show False unfolding kebab_case_def list_all_iff by blast
qed

lemma kebab_not_Nil [simp]: "\<not> kebab_case []"
  by (simp add: kebab_case_def)

lemma check_app_id_Inr: "check_app_id (JStr s) = Inr i \<longleftrightarrow> i = s \<and> kebab_case s \<and> point_length s \<le> 64 \<and> s \<notin> set RESERVED_NAMES"
  by (auto simp: check_app_id_def)

lemma break_at_dot: "CHR ''.'' \<notin> set a \<Longrightarrow> break_at (\<lambda>c. c = CHR ''.'') (a @ CHR ''.'' # s) = (a, Some s)"
proof -
  assume a: "CHR ''.'' \<notin> set a"
  then have "\<forall>x \<in> set a. x \<noteq> CHR ''.''" by auto
  then show ?thesis by (simp add: break_at_def dropWhile_append2 takeWhile_append2)
qed

lemma parse_tombstone_name:
  assumes "kebab_case app" "token_ok token"
  shows "parse_tombstone (tombstone_name app token) = Some app"
proof -
  have "break_at (\<lambda>c. c = CHR ''.'') (app @ CHR ''.'' # ''deleting-'' @ token) = (app, Some (''deleting-'' @ token))"
    by (rule break_at_dot) (rule kebab_no_dot[OF assms(1)])
  then show ?thesis using assms by (simp add: parse_tombstone_def tombstone_name_def starts_with_def)
qed

lemma parse_tombstone_Some: "parse_tombstone name = Some app \<Longrightarrow> kebab_case app \<and> (\<exists>s. name = CHR ''.'' # s)"
  by (cases name) (auto simp: parse_tombstone_def starts_with_def split: if_splits prod.splits option.splits)

lemma parse_tombstone_kebab [simp]: "kebab_case name \<Longrightarrow> parse_tombstone name = None"
  using kebab_no_dot[of name] parse_tombstone_Some[of name] by (cases "parse_tombstone name") auto

lemma parse_ambient [simp]: "parse_tombstone ''.ambient'' = None"
  by code_simp

lemma map_of_put_content:
  "map_of (put_content name c es) n = (if n = name \<and> map_of es name \<noteq> None then Some (App_Dir c) else map_of es n)"
  by (induction es) (auto simp: put_content_def)

lemma put_content_twice [simp]: "put_content name c (put_content name d es) = put_content name c es"
  by (induction es) (auto simp: put_content_def)

lemma put_content_same: "distinct (map fst es) \<Longrightarrow> map_of es name = Some (App_Dir c) \<Longrightarrow> put_content name c es = es"
  unfolding put_content_def by (rule update_where_id) (metis map_of_is_SomeI option.inject prod.collapse)

lemma keys_put_content [simp]: "map fst (put_content name c es) = map fst es"
  by (induction es) (auto simp: put_content_def)

lemma put_content_absent: "name \<notin> fst ` set es \<Longrightarrow> put_content name c es = es"
  by (induction es) (auto simp: put_content_def)

lemma move_entry_back: "target \<notin> fst ` set es \<Longrightarrow> move_entry target source (move_entry source target es) = es"
  by (induction es) (auto simp: move_entry_def)

lemma remove_moved: "target \<notin> fst ` set es \<Longrightarrow> remove_entry target (move_entry source target es) = remove_entry source es"
  by (induction es) (auto simp: move_entry_def remove_entry_def)

lemma map_of_move:
  assumes "target \<notin> fst ` set es"
  shows "map_of (move_entry source target es) n = (if n = target then map_of es source else if n = source then None else map_of es n)"
  using assms by (induction es) (auto simp: move_entry_def)

lemma map_of_remove: "map_of (remove_entry name es) n = (if n = name then None else map_of es n)"
  by (induction es) (auto simp: remove_entry_def)

lemma map_of_eq_None: "map_of es n = None \<longleftrightarrow> n \<notin> fst ` set es"
  by (simp add: map_of_eq_None_iff)

section \<open>Steps\<close>

lemmas step_simps = and_then_def done_with_def of_result_def add_rollback_def add_after_commit_def change_world_def

lemma each_of_skip: "\<forall>x \<in> set xs. f x t = (t, Inr ()) \<Longrightarrow> each_of f xs t = (t, Inr ())"
  by (induction xs) (auto simp: step_simps)

lemma each_of_append: "each_of f (xs @ ys) t = (case each_of f xs t of (t', Inl e) \<Rightarrow> (t', Inl e) | (t', Inr _) \<Rightarrow> each_of f ys t')"
  by (induction xs arbitrary: t) (auto simp: step_simps split: prod.splits sum.splits)

lemma each_of_around:
  assumes "\<forall>x \<in> set xs. \<forall>t. f x t = (t, Inr ())" "\<forall>x \<in> set ys. \<forall>t. f x t = (t, Inr ())" "f x t = (t', Inr ())"
  shows "each_of f (xs @ x # ys) t = (t', Inr ())"
  using assms each_of_skip[of xs f t] each_of_skip[of ys f t'] by (simp add: each_of_append step_simps)

definition with_content :: "string \<Rightarrow> app_content \<Rightarrow> app_tx \<Rightarrow> app_tx" where
  "with_content path c t = t\<lparr>tx_world := (tx_world t)\<lparr>aw_entries := put_content path c (aw_entries (tx_world t))\<rparr>\<rparr>"

lemma with_content_simps [simp]:
  "tx_rollback (with_content path c t) = tx_rollback t" "tx_after (with_content path c t) = tx_after t"
  "aw_records (tx_world (with_content path c t)) = aw_records (tx_world t)"
  "aw_entries (tx_world (with_content path c t)) = put_content path c (aw_entries (tx_world t))"
  "with_content path c (with_content path d t) = with_content path c t"
  by (simp_all add: with_content_def)

lemma content_at_with [simp]:
  "content_at (tx_world t) path \<noteq> None \<Longrightarrow> content_at (tx_world (with_content path c t)) path = Some c"
  by (auto simp: content_at_def map_of_put_content split: option.splits)

lemma edit_app_ok:
  "content_at (tx_world t) path = Some c \<Longrightarrow> f c = Inr c' \<Longrightarrow> edit_app path f t = (with_content path c' t, Inr ())"
  by (simp add: edit_app_def change_world_def with_content_def)

definition no_folders :: "app_content \<Rightarrow> bool" where
  "no_folders c \<longleftrightarrow> ac_manifest c \<noteq> Folder \<and> ac_controller c \<noteq> Folder \<and> (\<forall>n \<in> set OBSOLETE_APP_FILES. ac_obsolete c n \<noteq> Folder)"

definition cleared :: "string list \<Rightarrow> app_content \<Rightarrow> app_content" where
  "cleared names c = c\<lparr>ac_obsolete := \<lambda>n. if n \<in> set names then Absent else ac_obsolete c n\<rparr>"

definition filled :: "string \<Rightarrow> app_manifest \<Rightarrow> app_content \<Rightarrow> app_content" where
  "filled js m c = (cleared OBSOLETE_APP_FILES c)\<lparr>ac_controller := File (Some js), ac_manifest := File (stored_form m)\<rparr>"

lemma clear_obsolete:
  assumes "content_at (tx_world t) path = Some c" "\<forall>n \<in> set names. ac_obsolete c n \<noteq> Folder" "names \<noteq> []"
  shows "each_of (\<lambda>name. edit_app path (unlink_obsolete name)) names t = (with_content path (cleared names c) t, Inr ())"
  using assms
proof (induction names arbitrary: c t)
  case (Cons n names)
  let ?c = "c\<lparr>ac_obsolete := (ac_obsolete c)(n := Absent)\<rparr>"
  have e: "edit_app path (unlink_obsolete n) t = (with_content path ?c t, Inr ())"
    by (rule edit_app_ok[OF Cons.prems(1)]) (use Cons.prems in \<open>simp add: unlink_obsolete_def\<close>)
  show ?case
  proof (cases "names = []")
    case True
    then show ?thesis using e by (simp add: step_simps cleared_def fun_upd_def)
  next
    case False
    have "cleared names ?c = cleared (n # names) c" by (auto simp: cleared_def intro!: app_content.equality)
    then show ?thesis using Cons.IH[of "with_content path ?c t" ?c] Cons.prems e False by (simp add: step_simps)
  qed
qed simp

lemma write_files_eq:
  assumes "content_at (tx_world t) path = Some c" "no_folders c"
  shows "write_files app path js m t = (with_content path (filled js m c) t, read_manifest app (stored_form m))"
proof -
  let ?c1 = "c\<lparr>ac_controller := File (Some js)\<rparr>"
  let ?t1 = "with_content path ?c1 t"
  let ?t2 = "with_content path (cleared OBSOLETE_APP_FILES ?c1) t"
  have 1: "edit_app path (write_controller js) t = (?t1, Inr ())"
    by (rule edit_app_ok[OF assms(1)]) (use assms(2) in \<open>simp add: write_controller_def no_folders_def\<close>)
  have 2: "each_of (\<lambda>name. edit_app path (unlink_obsolete name)) OBSOLETE_APP_FILES ?t1 = (?t2, Inr ())"
    using clear_obsolete[of ?t1 path ?c1 OBSOLETE_APP_FILES] assms by (auto simp: no_folders_def OBSOLETE_APP_FILES_def)
  have c: "(cleared OBSOLETE_APP_FILES ?c1)\<lparr>ac_manifest := File (stored_form m)\<rparr> = filled js m c"
    by (simp add: filled_def cleared_def cong: if_cong)
  have 3: "edit_app path (write_manifest m) ?t2 = (with_content path (filled js m c) t, Inr ())"
    using edit_app_ok[of ?t2 path "cleared OBSOLETE_APP_FILES ?c1" "write_manifest m" "filled js m c"] assms c
    by (simp add: write_manifest_def no_folders_def cleared_def)
  have "manifest_at (tx_world (with_content path (filled js m c) t)) path = Some (stored_form m)"
    using assms(1) by (simp add: manifest_at_def filled_def)
  then show ?thesis unfolding write_files_def by (simp add: and_then_def 1 2 3 verify_manifest_def)
qed

lemma restore_obsolete_back:
  "\<forall>n \<in> set names. ac_obsolete c n \<noteq> Folder \<Longrightarrow> \<forall>n \<in> set names. g n \<noteq> Folder \<Longrightarrow>
   restore_obsolete (map (\<lambda>n. (n, file_of (g n))) names) c = c\<lparr>ac_obsolete := \<lambda>n. if n \<in> set names then g n else ac_obsolete c n\<rparr>"
proof (induction names arbitrary: c)
  case (Cons n names)
  have s: "put_slot (file_of (g n)) (ac_obsolete c n) = Some (g n)"
    using Cons.prems by (cases "g n") (auto simp: put_slot_def file_of_def)
  show ?case using Cons s by (auto intro!: app_content.equality)
qed simp

lemma restore_filled:
  assumes "tracked c = Inr orig" "no_folders c"
  shows "restore_files orig (filled js m c) = c"
proof -
  have o: "orig = \<lparr>or_manifest = file_of (ac_manifest c), or_controller = file_of (ac_controller c),
      or_obsolete = map (\<lambda>name. (name, file_of (ac_obsolete c name))) OBSOLETE_APP_FILES\<rparr>"
    using assms(1) by (auto simp: tracked_def split: if_splits)
  have p: "put_slot (file_of (ac_manifest c)) (File x) = Some (ac_manifest c)"
    "put_slot (file_of (ac_controller c)) (File y) = Some (ac_controller c)" for x y
    using assms(2) by (cases "ac_manifest c"; cases "ac_controller c"; simp add: put_slot_def file_of_def no_folders_def)+
  show ?thesis using assms(2)
    by (auto simp: o restore_files_def filled_def cleared_def p restore_obsolete_back no_folders_def intro!: app_content.equality)
qed

lemma restore_tracked:
  assumes "tracked c = Inr orig" "no_folders c"
  shows "restore_files orig c = c"
proof -
  have o: "orig = \<lparr>or_manifest = file_of (ac_manifest c), or_controller = file_of (ac_controller c),
      or_obsolete = map (\<lambda>name. (name, file_of (ac_obsolete c name))) OBSOLETE_APP_FILES\<rparr>"
    using assms(1) by (auto simp: tracked_def split: if_splits)
  have p: "put_slot (file_of (ac_manifest c)) (ac_manifest c) = Some (ac_manifest c)"
    "put_slot (file_of (ac_controller c)) (ac_controller c) = Some (ac_controller c)"
    using assms(2) by (cases "ac_manifest c"; cases "ac_controller c"; simp add: put_slot_def file_of_def no_folders_def)+
  show ?thesis using assms(2)
    by (auto simp: o restore_files_def p restore_obsolete_back no_folders_def intro!: app_content.equality)
qed

section \<open>The map of Apps\<close>

text \<open>
  What the manager promises: a map from identifiers to a manifest, a controller and a record. The controller is held as it is
  read, with the ends of lines translated.
\<close>

type_synonym app_map = "string \<rightharpoonup> app_manifest \<times> string \<times> app_record"

definition apps_of :: "app_world \<Rightarrow> app_map" where
  "apps_of w app =
     (case manifest_at w app of None \<Rightarrow> None | Some f \<Rightarrow>
     (case read_manifest app f of Inl _ \<Rightarrow> None | Inr m \<Rightarrow>
     (case controller_at w app of None \<Rightarrow> None | Some js \<Rightarrow>
        map_option (\<lambda>r. (m, js, r)) (get_record w app))))"

datatype app_op =
    Create string json json app_fields
  | Properties string "json option" app_fields
  | Read string
  | Delete string
  | Interrupted bool string

datatype app_answer =
    Stored_App "unit manifest_result"
  | Answer "json option manifest_result"
  | Deleted "bool manifest_result"
  | Died

definition spec_check :: "string \<Rightarrow> unit manifest_result" where
  "spec_check app =
     (case check_app_id (JStr app) of
        Inl (Invalid e) \<Rightarrow> Inl (Escaped (ValueError (''invalid app_id: '' @ se_message e)))
      | Inl e \<Rightarrow> Inl e
      | Inr _ \<Rightarrow> Inr ())"

definition spec_limit :: "app_manifest \<Rightarrow> unit manifest_result" where
  "spec_limit x = (if 65536 < dump_size 0 (manifest_to_dict x) + 1 then Inl (invalid ''manifest exceeds its maximum size'') else Inr ())"

definition spec_record :: "string \<Rightarrow> string \<Rightarrow> app_map \<Rightarrow> app_record" where
  "spec_record now app m = \<lparr>ar_id = app, ar_created_at = (case m app of Some (_, _, r) \<Rightarrow> ar_created_at r | None \<Rightarrow> now), ar_updated_at = now\<rparr>"

definition spec_create :: "string \<Rightarrow> string \<Rightarrow> json \<Rightarrow> json \<Rightarrow> app_fields \<Rightarrow> app_map \<Rightarrow> app_map \<times> unit manifest_result" where
  "spec_create now app title js opts m =
     (case js of
        JStr text \<Rightarrow>
          (case spec_check app of Inl e \<Rightarrow> (m, Inl e) | Inr _ \<Rightarrow>
          (case plan_app app title opts (map_option fst (m app)) of Inl e \<Rightarrow> (m, Inl e) | Inr x \<Rightarrow>
          (case spec_limit x of Inl e \<Rightarrow> (m, Inl e) | Inr _ \<Rightarrow> (m(app \<mapsto> (x, universal_newlines text, spec_record now app m)), Inr ()))))
      | _ \<Rightarrow> (m, Inl (Escaped (TypeError ''js must be a string''))))"

definition spec_properties ::
  "(json list \<Rightarrow> string) \<Rightarrow> string \<Rightarrow> string \<Rightarrow> json option \<Rightarrow> app_fields \<Rightarrow> app_map \<Rightarrow> app_map \<times> json option manifest_result" where
  "spec_properties digest now app title opts m =
     (case spec_check app of Inl e \<Rightarrow> (m, Inl e) | Inr _ \<Rightarrow>
     (case m app of None \<Rightarrow> (m, Inr None) | Some (old, js, _) \<Rightarrow>
     (case manifest_from_dict app (JObj (set_all (property_changes title opts) (manifest_fields old))) of Inl e \<Rightarrow> (m, Inl e) | Inr x \<Rightarrow>
     (case spec_limit x of Inl e \<Rightarrow> (m, Inl e) | Inr _ \<Rightarrow>
        (m(app \<mapsto> (x, js, spec_record now app m)), Inr (Some (JObj (manifest_record digest (x, spec_record now app m)))))))))"

definition spec_read :: "(json list \<Rightarrow> string) \<Rightarrow> string \<Rightarrow> app_map \<Rightarrow> json option manifest_result" where
  "spec_read digest app m =
     map_sum id (\<lambda>_. map_option (\<lambda>(x, js, r). JObj (manifest_record digest (x, r) @ [(''js'', JStr js)])) (m app)) (spec_check app)"

text \<open>An interrupted deletion did not happen, or happened.\<close>

fun spec :: "(json list \<Rightarrow> string) \<Rightarrow> string \<Rightarrow> app_op \<Rightarrow> app_map \<Rightarrow> app_map \<times> app_answer" where
  "spec digest now (Create app title js opts) m = map_prod id Stored_App (spec_create now app title js opts m)"
| "spec digest now (Properties app title opts) m = map_prod id Answer (spec_properties digest now app title opts m)"
| "spec digest now (Read app) m = (m, Answer (spec_read digest app m))"
| "spec digest now (Delete app) m =
     (case spec_check app of Inl e \<Rightarrow> (m, Deleted (Inl e)) | Inr _ \<Rightarrow> (m(app := None), Deleted (Inr (m app \<noteq> None))))"
| "spec digest now (Interrupted committed app) m = (if committed then m(app := None) else m, Died)"

fun exec :: "(json list \<Rightarrow> string) \<Rightarrow> string \<Rightarrow> string \<Rightarrow> app_op \<Rightarrow> app_world \<Rightarrow> app_world \<times> app_answer" where
  "exec digest now token (Create app title js opts) w = map_prod id Stored_App (create_or_update_app now app title js opts w)"
| "exec digest now token (Properties app title opts) w = map_prod id Answer (update_app_properties digest now app title opts w)"
| "exec digest now token (Read app) w = map_prod id Answer (get_app_files digest now app w)"
| "exec digest now token (Delete app) w = map_prod id Deleted (delete_app token app w)"
| "exec digest now token (Interrupted committed app) w = (interrupted_delete committed token app w, Died)"

section \<open>Worlds of the manager\<close>

definition app_ok :: "string \<Rightarrow> app_content \<Rightarrow> bool" where
  "app_ok app c \<longleftrightarrow> (case ac_manifest c of File f \<Rightarrow> \<not> isl (read_manifest app f) | _ \<Rightarrow> False) \<and>
     (case ac_controller c of File (Some _) \<Rightarrow> True | _ \<Rightarrow> False) \<and> (\<forall>n \<in> set OBSOLETE_APP_FILES. ac_obsolete c n \<noteq> Folder)"

definition entry_ok :: "string \<times> root_entry \<Rightarrow> bool" where
  "entry_ok kv \<longleftrightarrow> kv = (''.ambient'', App_Dir empty_content) \<or> check_app_id (JStr (fst kv)) = Inr (fst kv) \<and>
     (case snd kv of App_Dir c \<Rightarrow> app_ok (fst kv) c | _ \<Rightarrow> False)"

definition world_ok :: "app_world \<Rightarrow> bool" where
  "world_ok w \<longleftrightarrow> distinct (map fst (aw_entries w)) \<and> distinct (map ar_id (aw_records w)) \<and> list_all entry_ok (aw_entries w) \<and>
     ar_id ` set (aw_records w) = fst ` set (aw_entries w) - {''.ambient''}"

definition new_world :: app_world where
  "new_world = \<lparr>aw_entries = [(''.ambient'', App_Dir empty_content)], aw_records = []\<rparr>"

lemma new_world_ok: "world_ok new_world"
  by (simp add: world_ok_def new_world_def entry_ok_def)

lemma app_okE:
  assumes "app_ok app c"
  obtains f m js where "ac_manifest c = File f" "read_manifest app f = Inr m" "ac_controller c = File (Some js)" "no_folders c"
    "f \<noteq> Unreadable"
proof -
  obtain f where f: "ac_manifest c = File f" using assms by (auto simp: app_ok_def split: slot.splits)
  moreover obtain m where m: "read_manifest app f = Inr m" using assms f by (cases "read_manifest app f") (auto simp: app_ok_def)
  moreover obtain js where "ac_controller c = File (Some js)" using assms by (auto simp: app_ok_def split: slot.splits option.splits)
  moreover have "f \<noteq> Unreadable" using m by (auto simp: read_manifest_def)
  ultimately show thesis using that assms by (auto simp: no_folders_def app_ok_def)
qed

lemma not_kebab_ambient: "\<not> kebab_case ''.ambient''"
  by code_simp

lemma world_entry:
  assumes "world_ok w" "map_of (aw_entries w) app = Some e"
  shows "app = ''.ambient'' \<and> e = App_Dir empty_content \<or> check_app_id (JStr app) = Inr app \<and> (\<exists>c. e = App_Dir c \<and> app_ok app c)"
proof -
  have "entry_ok (app, e)" using assms map_of_SomeD[OF assms(2)] by (auto simp: world_ok_def list_all_iff)
  then show ?thesis by (auto simp: entry_ok_def split: root_entry.splits)
qed

lemma world_app:
  assumes "world_ok w" "check_app_id (JStr app) = Inr app"
  obtains (absent) "app \<notin> fst ` set (aw_entries w)" "get_record w app = None" "apps_of w app = None"
  | (present) c f m js r where "map_of (aw_entries w) app = Some (App_Dir c)" "get_record w app = Some r" "ar_id r = app"
      "app_ok app c" "ac_manifest c = File f" "read_manifest app f = Inr m" "ac_controller c = File (Some js)" "no_folders c"
      "f \<noteq> Unreadable" "apps_of w app = Some (m, universal_newlines js, r)"
proof (cases "map_of (aw_entries w) app")
  case None
  then have "apps_of w app = None" "app \<notin> fst ` set (aw_entries w)"
    by (simp_all add: map_of_eq_None[symmetric] apps_of_def manifest_at_def content_at_def)
  moreover have "app \<notin> ar_id ` set (aw_records w)" using calculation(2) assms(1) by (auto simp: world_ok_def)
  ultimately show thesis using absent by (simp add: get_record_def lookup_by_None_iff)
next
  case (Some e)
  have na: "app \<noteq> ''.ambient''" using assms(2) not_kebab_ambient by (auto simp: check_app_id_Inr)
  obtain c where c: "e = App_Dir c" "app_ok app c" using world_entry[OF assms(1) Some] na by blast
  have "app \<in> fst ` set (aw_entries w)" using map_of_SomeD[OF Some] by force
  then have "app \<in> ar_id ` set (aw_records w)" using assms(1) na by (simp add: world_ok_def)
  then obtain r where r: "get_record w app = Some r" "ar_id r = app"
    unfolding get_record_def using lookup_by_None_iff lookup_by_SomeD by (metis option.exhaust)
  from c(2) show thesis
  proof (cases rule: app_okE)
    case (1 f m js)
    then show thesis using present[of c r f m js] Some c r
      by (simp add: apps_of_def manifest_at_def controller_at_def content_at_def)
  qed
qed

lemma world_invalid:
  assumes "world_ok w" "spec_check app = Inl e"
  shows "apps_of w app = None" "app_directory w app = Inl e"
proof -
  obtain e' where e': "check_app_id (JStr app) = Inl e'" using assms(2) by (auto simp: spec_check_def split: sum.splits)
  then have "check_app_id (JStr app) \<noteq> Inr app" by simp
  then have "\<And>x. map_of (aw_entries w) app = Some x \<Longrightarrow> x = App_Dir empty_content"
    using world_entry[OF assms(1)] by blast
  then show "apps_of w app = None"
    by (cases "map_of (aw_entries w) app") (auto simp: apps_of_def manifest_at_def content_at_def empty_content_def)
  show "app_directory w app = Inl e"
    using assms(2) e' by (auto simp: app_directory_def spec_check_def split: manifest_error.splits)
qed

lemma spec_check_Inr: "spec_check app = Inr u \<longleftrightarrow> check_app_id (JStr app) = Inr app"
proof (cases "check_app_id (JStr app)")
  case (Inl e)
  then show ?thesis by (cases e) (simp_all add: spec_check_def)
next
  case (Inr i)
  then have "i = app" using check_app_id_Inr by blast
  with Inr show ?thesis by (simp add: spec_check_def)
qed

lemma world_directory:
  assumes "world_ok w" "check_app_id (JStr app) = Inr app"
  shows "app_directory w app = Inr app"
  by (cases rule: world_app[OF assms]) (simp_all add: app_directory_def assms(2) map_of_eq_None[symmetric])

section \<open>Recovery of deletions\<close>

lemma reconcile_none: "parse_tombstone n = None \<Longrightarrow> reconcile_entry n t = (t, Inr ())"
  by (simp add: reconcile_entry_def done_with_def)

lemma world_no_tombstone: "world_ok w \<Longrightarrow> n \<in> fst ` set (aw_entries w) \<Longrightarrow> parse_tombstone n = None"
  by (auto simp: world_ok_def list_all_iff entry_ok_def check_app_id_Inr)

lemma reconcile_ok: "world_ok w \<Longrightarrow> reconcile w = w"
proof -
  assume "world_ok w"
  then have "reconcile_tombstones (begin_tx w) = (begin_tx w, Inr ())"
    unfolding reconcile_tombstones_def
    by (intro each_of_skip) (auto simp: begin_tx_def intro!: reconcile_none world_no_tombstone)
  then show ?thesis by (simp add: reconcile_def serialized_def finish_tx_def begin_tx_def)
qed

lemma move_split:
  assumes "distinct (map fst es)" "map_of es app = Some e"
  obtains xs ys where "es = xs @ (app, e) # ys" "app \<notin> fst ` set xs" "app \<notin> fst ` set ys"
    "\<And>n. move_entry app n es = xs @ (n, e) # ys" "remove_entry app es = xs @ ys"
proof -
  obtain xs ys where es: "es = xs @ (app, e) # ys" using map_of_SomeD[OF assms(2)] split_list by metis
  then have d: "app \<notin> fst ` set xs" "app \<notin> fst ` set ys" using assms(1) by (auto simp: image_iff)
  have "move_entry app n zs = zs" "remove_entry app zs = zs" if "app \<notin> fst ` set zs" for n zs
    using that by (induction zs) (auto simp: move_entry_def remove_entry_def)
  moreover have "move_entry app n es = move_entry app n xs @ (n, e) # move_entry app n ys" for n by (simp add: es move_entry_def)
  moreover have "remove_entry app es = remove_entry app xs @ remove_entry app ys" by (simp add: es remove_entry_def)
  ultimately show thesis using that[OF es d] d by simp
qed

lemma reconcile_one:
  assumes "aw_entries w = xs @ (tomb, App_Dir c) # ys" "\<forall>n \<in> fst ` set (xs @ ys). parse_tombstone n = None"
    "parse_tombstone tomb = Some app" "app \<notin> fst ` set (xs @ ys)"
  shows "reconcile w = (if get_record w app = None then w\<lparr>aw_entries := xs @ ys\<rparr> else w\<lparr>aw_entries := xs @ (app, App_Dir c) # ys\<rparr>)"
proof -
  have ta: "tomb \<noteq> app" using parse_tombstone_Some[OF assms(3)] parse_tombstone_kebab[of app] assms(3) by auto
  have tn: "tomb \<notin> fst ` set (xs @ ys)" using assms(2,3) by force
  have m: "map_of (aw_entries w) tomb = Some (App_Dir c)" "map_of (aw_entries w) app = None"
    using tn assms(1,4) ta by (auto simp: map_of_eq_None map_add_def split: option.splits dest: map_of_SomeD)
      (force dest: map_of_SomeD)
  have mv: "move_entry tomb app (aw_entries w) = xs @ (app, App_Dir c) # ys" "remove_entry tomb (aw_entries w) = xs @ ys"
  proof -
    have "map (\<lambda>kv. (if fst kv = tomb then app else fst kv, snd kv)) zs = zs" "filter (\<lambda>kv. fst kv \<noteq> tomb) zs = zs"
      if "tomb \<notin> fst ` set zs" for zs :: entries
      using that by (induction zs) auto
    then show "move_entry tomb app (aw_entries w) = xs @ (app, App_Dir c) # ys" "remove_entry tomb (aw_entries w) = xs @ ys"
      using tn by (simp_all add: assms(1) move_entry_def remove_entry_def image_Un)
  qed
  have skip: "\<forall>x \<in> fst ` set zs. \<forall>t. reconcile_entry x t = (t, Inr ())" if "set zs \<subseteq> set (xs @ ys)" for zs
    using assms(2) that by (auto intro!: reconcile_none)
  define t where "t = fst (reconcile_entry tomb (begin_tx w))"
  have s: "reconcile_entry tomb (begin_tx w) = (t, Inr ())"
    "finish_tx t = (if get_record w app = None then w\<lparr>aw_entries := xs @ ys\<rparr> else w\<lparr>aw_entries := xs @ (app, App_Dir c) # ys\<rparr>)"
    using m mv by (simp_all add: t_def reconcile_entry_def assms(3) begin_tx_def step_simps finish_tx_def)
  have "each_of reconcile_entry (map fst (aw_entries w)) (begin_tx w) = (t, Inr ())"
    using each_of_around[of "map fst xs" reconcile_entry "map fst ys" tomb] skip[of xs] skip[of ys] s(1) assms(1) by simp
  then have "reconcile w = finish_tx t"
    unfolding reconcile_def serialized_def reconcile_tombstones_def by (simp add: begin_tx_def)
  then show ?thesis by (simp add: s(2))
qed

lemma get_deleted [simp]: "get_record (delete_record app w) app = None"
  by (auto simp: get_record_def delete_record_def lookup_by_None_iff)

lemma get_renamed [simp]: "get_record (w\<lparr>aw_entries := es\<rparr>) app = get_record w app"
  by (simp add: get_record_def)

lemma recover_delete:
  assumes "world_ok w" "check_app_id (JStr app) = Inr app" "token_ok token" "map_of (aw_entries w) app = Some (App_Dir c)"
    "get_record w app = Some r"
  shows "reconcile (rename_app token app app w) = w"
    "reconcile (delete_record app (rename_app token app app w)) = delete_record app (w\<lparr>aw_entries := remove_entry app (aw_entries w)\<rparr>)"
proof -
  obtain xs ys where s: "aw_entries w = xs @ (app, App_Dir c) # ys" "app \<notin> fst ` set xs" "app \<notin> fst ` set ys"
    "\<And>n. move_entry app n (aw_entries w) = xs @ (n, App_Dir c) # ys" "remove_entry app (aw_entries w) = xs @ ys"
    using move_split assms(1,4) unfolding world_ok_def by metis
  have k: "kebab_case app" using assms(2) by (simp add: check_app_id_Inr)
  have n: "\<forall>n \<in> fst ` set (xs @ ys). parse_tombstone n = None" using world_no_tombstone[OF assms(1)] s(1) by auto
  have a: "app \<notin> fst ` set (xs @ ys)" using s(2,3) by auto
  note one = reconcile_one[OF _ n parse_tombstone_name[OF k assms(3)] a]
  show "reconcile (rename_app token app app w) = w"
    using one[of "rename_app token app app w" c] assms(5) unfolding rename_app_def s(4) by (simp flip: s(1))
  show "reconcile (delete_record app (rename_app token app app w)) = delete_record app (w\<lparr>aw_entries := remove_entry app (aw_entries w)\<rparr>)"
    using one[of "delete_record app (rename_app token app app w)" c] unfolding rename_app_def s(4,5) get_deleted
    by (simp add: delete_record_def)
qed

end
