(* ===== verification/App_Registry.thy ===== *)
theory App_Registry
  imports App_Manager_Laws
begin

text \<open>The operations of the manager on worlds it made itself, one after the other.\<close>

lemma apps_of_cong:
  assumes "map_of (aw_entries w) a = map_of (aw_entries w') a" "get_record w a = get_record w' a"
  shows "apps_of w a = apps_of w' a"
proof -
  have "content_at w a = content_at w' a" by (simp add: content_at_def assms(1))
  then have "manifest_at w a = manifest_at w' a" "controller_at w a = controller_at w' a"
    by (simp_all add: manifest_at_def controller_at_def)
  then show ?thesis unfolding apps_of_def assms(2) by (simp only:)
qed

lemma lookup_by_filtered: "lookup_by key k (filter (\<lambda>x. key x \<noteq> j) xs) = (if k = j then None else lookup_by key k xs)"
  by (induction xs) auto

text \<open>What storing an App and removing one do to a world.\<close>

lemma stored_world:
  assumes w: "world_ok w" and app: "check_app_id (JStr app) = Inr app" and r: "ar_id r = app"
    and es: "distinct (map fst es)" "\<And>n. map_of es n = (if n = app then Some (App_Dir c) else map_of (aw_entries w) n)"
    and c: "app_ok app c" "ac_manifest c = File f" "read_manifest app f = Inr x" "ac_controller c = File (Some js)"
    and w': "w' = w\<lparr>aw_entries := es, aw_records := upsert ar_id (\<lambda>_ new. new) r (aw_records w)\<rparr>"
  shows "world_ok w'" "apps_of w' = (apps_of w)(app \<mapsto> (x, universal_newlines js, r))"
proof -
  have na: "app \<noteq> ''.ambient''" using app not_kebab_ambient by (auto simp: check_app_id_Inr)
  have m: "map ar_id (aw_records w') = (if app \<in> ar_id ` set (aw_records w) then map ar_id (aw_records w) else map ar_id (aw_records w) @ [app])"
    unfolding w' by (simp add: map_upsert r)
  have d: "distinct (map ar_id (aw_records w))" using w by (simp add: world_ok_def)
  have "distinct (map ar_id (aw_records w'))" unfolding m using d by auto
  moreover have "ar_id ` set (aw_records w') = insert app (ar_id ` set (aw_records w))"
    unfolding set_map[symmetric] m by auto
  ultimately have rec: "distinct (map ar_id (aw_records w'))" "ar_id ` set (aw_records w') = insert app (ar_id ` set (aw_records w))"
    by simp_all
  have "fst ` set es = dom (map_of es)" by (simp add: dom_map_of_conv_image_fst)
  also have "... = insert app (dom (map_of (aw_entries w)))" by (auto simp: dom_def es(2))
  finally have keys: "fst ` set es = insert app (fst ` set (aw_entries w))" by (simp add: dom_map_of_conv_image_fst)
  have "entry_ok kv" if "kv \<in> set es" for kv
  proof (cases "fst kv = app")
    case True
    have "map_of es (fst kv) = Some (snd kv)" using es(1) that by simp
    then show ?thesis using True es(2) app c(1) by (cases kv) (simp add: entry_ok_def)
  next
    case False
    have "map_of es (fst kv) = Some (snd kv)" using es(1) that by simp
    then have "map_of (aw_entries w) (fst kv) = Some (snd kv)" using False es(2) by simp
    then have "kv \<in> set (aw_entries w)" using map_of_SomeD by fastforce
    then show ?thesis using w by (simp add: world_ok_def list_all_iff)
  qed
  then show "world_ok w'" using w es(1) rec keys na by (auto simp: world_ok_def w' list_all_iff)
  have g: "get_record w' a = (if a = app then Some r else get_record w a)" for a
    by (simp add: get_record_def w' lookup_by_upsert r split: option.split)
  show "apps_of w' = (apps_of w)(app \<mapsto> (x, universal_newlines js, r))"
  proof
    fix a
    show "apps_of w' a = ((apps_of w)(app \<mapsto> (x, universal_newlines js, r))) a"
    proof (cases "a = app")
      case True
      have "content_at w' app = Some c" by (simp add: content_at_def w' es(2))
      then show ?thesis using True c(2-4) by (simp add: apps_of_def manifest_at_def controller_at_def g)
    next
      case False
      then have "apps_of w' a = apps_of w a" by (intro apps_of_cong) (simp_all add: g, simp add: w' es(2))
      then show ?thesis using False by simp
    qed
  qed
qed

lemma removed_world:
  assumes w: "world_ok w" and w': "w' = delete_record app (w\<lparr>aw_entries := remove_entry app (aw_entries w)\<rparr>)" and na: "app \<noteq> ''.ambient''"
  shows "world_ok w'" "apps_of w' = (apps_of w)(app := None)"
proof -
  have e: "aw_entries w' = remove_entry app (aw_entries w)" "aw_records w' = filter (\<lambda>r. ar_id r \<noteq> app) (aw_records w)"
    by (simp_all add: w' delete_record_def)
  have "distinct (map fst (remove_entry app (aw_entries w)))" "distinct (map ar_id (aw_records w'))"
    using w by (auto simp: world_ok_def remove_entry_def e distinct_map_filter)
  moreover have "list_all entry_ok (aw_entries w')" using w by (auto simp: world_ok_def remove_entry_def e list_all_iff)
  moreover have "ar_id ` set (aw_records w') = fst ` set (aw_entries w') - {''.ambient''}"
  proof -
    have "ar_id ` set (aw_records w') = ar_id ` set (aw_records w) - {app}" by (auto simp: e)
    moreover have "fst ` set (aw_entries w') = fst ` set (aw_entries w) - {app}" by (auto simp: e remove_entry_def)
    ultimately show ?thesis using w by (auto simp: world_ok_def)
  qed
  ultimately show "world_ok w'" by (simp add: world_ok_def e)
  have g: "get_record w' a = (if a = app then None else get_record w a)" for a
    by (simp add: get_record_def e lookup_by_filtered)
  show "apps_of w' = (apps_of w)(app := None)"
  proof
    fix a
    show "apps_of w' a = ((apps_of w)(app := None)) a"
    proof (cases "a = app")
      case True
      then show ?thesis by (simp add: apps_of_def manifest_at_def content_at_def e map_of_remove)
    next
      case False
      then have "apps_of w' a = apps_of w a" by (intro apps_of_cong) (simp_all add: g e map_of_remove)
      then show ?thesis using False by simp
    qed
  qed
qed

section \<open>Creating and updating\<close>

lemma read_stored:
  assumes "manifest_from_dict app j = Inr x"
  shows "read_manifest app (stored_form x) = map_sum id (\<lambda>_. x) (spec_limit x)"
proof -
  have "manifest_from_dict app (manifest_to_dict x) = Inr x"
    using manifest_from_dictE[OF assms] manifest_again[of x] by simp
  then show ?thesis by (simp add: read_manifest_def stored_form_def spec_limit_def)
qed

lemma planned_made: "plan_app app title opts cur = Inr x \<Longrightarrow> \<exists>j. manifest_from_dict app j = Inr x"
  by (auto simp: plan_app_def split: sum.splits)

lemma filled_ok:
  assumes "read_manifest app (stored_form x) = Inr x"
  shows "app_ok app (filled js x c)"
  using assms by (simp add: app_ok_def filled_def cleared_def)

lemma filled_fields [simp]: "ac_manifest (filled js x c) = File (stored_form x)" "ac_controller (filled js x c) = File (Some js)"
  by (simp_all add: filled_def)

lemma made_record_spec:
  assumes "world_ok w" "check_app_id (JStr app) = Inr app" "created = None \<or> (\<exists>r. get_record w app = Some r \<and> created = Some (ar_created_at r))"
  shows "made_record now app created w = spec_record now app (apps_of w)"
  using assms(3)
  by (cases rule: world_app[OF assms(1,2)]) (auto simp: made_record_def spec_record_def split: option.splits)

lemma create_tail_eq:
  assumes "content_at (tx_world t) app = Some c" "no_folders c" "tx_rollback t = []" "tx_after t = []"
    and plan: "planned_manifest app title opts (file_of (ac_manifest c)) = plan_app app title opts cur"
  shows "create_tail now app app title js opts undo t =
     (case plan_app app title opts cur of
        Inl e \<Rightarrow> (t\<lparr>tx_rollback := [undo]\<rparr>, Inl e)
      | Inr x \<Rightarrow>
          (case spec_limit x of
             Inl e \<Rightarrow> (with_content app (filled js x c) (t\<lparr>tx_rollback := [undo]\<rparr>), Inl e)
           | Inr _ \<Rightarrow> record_app now app None x (with_content app (filled js x c) (t\<lparr>tx_rollback := [undo]\<rparr>))))"
proof -
  let ?t = "t\<lparr>tx_rollback := [undo]\<rparr>"
  have c: "content_at (tx_world ?t) app = Some c" using assms(1) by simp
  have m: "manifest_at (tx_world ?t) app = file_of (ac_manifest c)"
    using assms(1) by (simp add: manifest_at_def file_of_def)
  show ?thesis
  proof (cases "plan_app app title opts cur")
    case (Inl e)
    then show ?thesis using m plan assms(3) by (simp add: create_tail_def step_simps)
  next
    case (Inr x)
    then have "write_files app app js x ?t = (with_content app (filled js x c) ?t, map_sum id (\<lambda>_. x) (spec_limit x))"
      using write_files_eq[OF c assms(2)] read_stored planned_made by metis
    then show ?thesis using Inr m plan assms(3) by (cases "spec_limit x") (simp_all add: create_tail_def step_simps)
  qed
qed

definition made_directory :: "string \<Rightarrow> app_world \<Rightarrow> app_tx" where
  "made_directory app w = begin_tx (w\<lparr>aw_entries := aw_entries w @ [(app, App_Dir empty_content)]\<rparr>)"

lemma create_body_new:
  assumes "app \<notin> fst ` set (aw_entries w)"
  shows "create_body now app app title js opts (begin_tx w) = create_tail now app app title js opts (Undo_Create app) (made_directory app w)"
    "content_at (tx_world (made_directory app w)) app = Some empty_content"
proof -
  have n: "map_of (aw_entries w) app = None" using assms by (simp add: map_of_eq_None)
  then show c: "content_at (tx_world (made_directory app w)) app = Some empty_content"
    by (simp add: content_at_def made_directory_def begin_tx_def map_add_def)
  have "make_directory app (begin_tx w) = (made_directory app w, Inr False)"
    using n by (simp add: make_directory_def begin_tx_def made_directory_def)
  moreover obtain orig where "tracked empty_content = Inr orig" by (simp add: tracked_def empty_content_def)
  ultimately show "create_body now app app title js opts (begin_tx w) = create_tail now app app title js opts (Undo_Create app) (made_directory app w)"
    by (simp add: create_body_def and_then_def of_result_def c undo_of_def)
qed

lemma create_body_old:
  assumes "map_of (aw_entries w) app = Some (App_Dir c)" "tracked c = Inr orig"
  shows "create_body now app app title js opts (begin_tx w) = create_tail now app app title js opts (Undo_Update app orig) (begin_tx w)"
proof -
  have "make_directory app (begin_tx w) = (begin_tx w, Inr True)" "content_at (tx_world (begin_tx w)) app = Some c"
    using assms(1) by (simp_all add: make_directory_def content_at_def begin_tx_def)
  then show ?thesis by (simp add: create_body_def and_then_def of_result_def assms(2) undo_of_def)
qed

lemma record_app_eq:
  "record_app now app created m t =
     (t\<lparr>tx_world := (tx_world t)\<lparr>aw_records := upsert ar_id (\<lambda>_ new. new) (made_record now app created (tx_world t)) (aw_records (tx_world t))\<rparr>\<rparr>,
      Inr (m, made_record now app created (tx_world t)))"
  by (simp add: record_app_def put_record_def Let_def)

lemma made_record_cong: "aw_records w = aw_records w' \<Longrightarrow> made_record now app created w = made_record now app created w'"
  unfolding made_record_def get_record_def by (simp only:)

text \<open>What a transaction that ends with storing an App leaves, given how its compensation undoes the files.\<close>

definition spec_store :: "string \<Rightarrow> string \<Rightarrow> string \<Rightarrow> app_manifest manifest_result \<Rightarrow> app_map \<Rightarrow> app_map \<times> (app_manifest \<times> app_record) manifest_result" where
  "spec_store now app js plan m =
     (case plan of Inl e \<Rightarrow> (m, Inl e) | Inr x \<Rightarrow>
     (case spec_limit x of Inl e \<Rightarrow> (m, Inl e) | Inr _ \<Rightarrow> (m(app \<mapsto> (x, universal_newlines js, spec_record now app m)), Inr (x, spec_record now app m))))"

lemma stored_tx:
  assumes w: "world_ok w" "check_app_id (JStr app) = Inr app"
    and created: "created = None \<or> (\<exists>r. get_record w app = Some r \<and> created = Some (ar_created_at r))"
    and x: "read_manifest app (stored_form x) = Inr x"
    and es: "distinct (map fst es)" "\<And>n. map_of es n = (if n = app then Some (App_Dir c) else map_of (aw_entries w) n)"
    and c: "app_ok app c" "ac_manifest c = File (stored_form x)" "ac_controller c = File (Some js)"
    and t: "tx_world t = w\<lparr>aw_entries := es\<rparr>" "tx_after t = []"
    and e: "record_app now app created m t = (t', Inr (m, r))"
  shows "r = spec_record now app (apps_of w)" "world_ok (finish_tx t')" "apps_of (finish_tx t') = (apps_of w)(app \<mapsto> (x, universal_newlines js, r))"
proof -
  have m: "made_record now app created (tx_world t) = spec_record now app (apps_of w)"
    using made_record_spec[OF w created] made_record_cong[of "tx_world t" w] t(1) by simp
  then show r: "r = spec_record now app (apps_of w)" using e by (simp add: record_app_eq)
  have f: "finish_tx t' = w\<lparr>aw_entries := es, aw_records := upsert ar_id (\<lambda>_ new. new) r (aw_records w)\<rparr>"
    using e m r t by (auto simp: record_app_eq finish_tx_def)
  have i: "ar_id r = app" by (simp add: r spec_record_def)
  show "world_ok (finish_tx t')" "apps_of (finish_tx t') = (apps_of w)(app \<mapsto> (x, universal_newlines js, r))"
    by (rule stored_world[OF w i es c(1,2) x c(3) f])+
qed

lemma store_tx_sim:
  assumes w: "world_ok w" "check_app_id (JStr app) = Inr app"
    and created: "created = None \<or> (\<exists>r. get_record w app = Some r \<and> created = Some (ar_created_at r))"
    and plan: "\<And>x. plan = Inr x \<Longrightarrow> \<exists>j. manifest_from_dict app j = Inr x"
    and body: "body (begin_tx w) = (case plan of Inl e \<Rightarrow> (tb, Inl e) | Inr x \<Rightarrow>
        (case spec_limit x of Inl e \<Rightarrow> (ts x, Inl e) | Inr _ \<Rightarrow> record_app now app created x (ts x)))"
    and undo: "undo_tx w tb = w" "\<And>x. undo_tx w (ts x) = w"
    and world: "\<And>x. tx_world (ts x) = w\<lparr>aw_entries := es x\<rparr>" "\<And>x. tx_after (ts x) = []"
    and es: "\<And>x. distinct (map fst (es x))"
      "\<And>x n. map_of (es x) n = (if n = app then Some (App_Dir (c x)) else map_of (aw_entries w) n)"
    and c: "\<And>x. read_manifest app (stored_form x) = Inr x \<Longrightarrow> app_ok app (c x)"
      "\<And>x. ac_manifest (c x) = File (stored_form x)" "\<And>x. ac_controller (c x) = File (Some js)"
    and run: "serialized body w = (w', res)" and s: "spec_store now app js plan (apps_of w) = (m', res')"
  shows "world_ok w' \<and> apps_of w' = m' \<and> res = res'"
proof (cases plan)
  case (Inl e)
  then show ?thesis using run s w undo(1) by (auto simp: serialized_def body spec_store_def)
next
  case (Inr x)
  show ?thesis
  proof (cases "spec_limit x")
    case (Inl e)
    then show ?thesis using run s w undo(2)[of x] Inr by (auto simp: serialized_def body spec_store_def)
  next
    case ok: (Inr u)
    obtain j where j: "manifest_from_dict app j = Inr x" using plan[OF Inr] by blast
    have rs: "read_manifest app (stored_form x) = Inr x" using read_stored[OF j] ok by simp
    obtain t' r where e: "record_app now app created x (ts x) = (t', Inr (x, r))" by (simp add: record_app_eq)
    note st = stored_tx[OF w created rs es[of x] c(1)[OF rs] c(2,3) world[of x] e]
    show ?thesis using st run s Inr ok e by (auto simp: spec_store_def serialized_def body)
  qed
qed

lemma create_body_sim:
  assumes w: "world_ok w" "check_app_id (JStr app) = Inr app"
    and run: "serialized (create_body now app app title js opts) w = (w', res)"
    and s: "spec_store now app js (plan_app app title opts (map_option fst (apps_of w app))) (apps_of w) = (m', res')"
  shows "world_ok w' \<and> apps_of w' = m' \<and> res = res'"
  using w
proof (cases rule: world_app)
  case absent
  let ?t = "(made_directory app w)\<lparr>tx_rollback := [Undo_Create app]\<rparr>" and ?c = "\<lambda>x. filled js x empty_content"
  let ?es = "\<lambda>x. aw_entries w @ [(app, App_Dir (?c x))]"
  have nf: "no_folders empty_content" by (simp add: no_folders_def empty_content_def)
  have rt: "tx_rollback (made_directory app w) = []" "tx_after (made_directory app w) = []"
    by (simp_all add: made_directory_def begin_tx_def)
  have p: "planned_manifest app title opts (file_of (ac_manifest empty_content)) = plan_app app title opts None"
    by (simp add: planned_manifest_def empty_content_def file_of_def)
  have world: "tx_world (with_content app (?c x) ?t) = w\<lparr>aw_entries := ?es x\<rparr>" for x
    using put_content_absent[OF absent(1)] by (simp add: with_content_def made_directory_def begin_tx_def put_content_def update_where_def)
  have undo: "undo_tx w t' = w"
    if "aw_entries (tx_world t') = aw_entries w @ [(app, App_Dir d)]" "tx_rollback t' = [Undo_Create app]" for t' d
  proof -
    have "map_of (aw_entries w @ [(app, App_Dir d)]) app = Some (App_Dir d)"
      using absent(1) by (simp add: map_add_def map_of_eq_None[symmetric])
    moreover have "remove_entry app (aw_entries w @ [(app, App_Dir d)]) = aw_entries w"
      using absent(1) by (auto simp: remove_entry_def filter_id_conv)
    ultimately show ?thesis using that by (simp add: undo_tx_def)
  qed
  have m: "map_of (?es x) n = (if n = app then Some (App_Dir (?c x)) else map_of (aw_entries w) n)" for n x
    using absent(1) by (auto simp: map_add_def map_of_eq_None[symmetric] split: option.splits)
  show ?thesis
  proof (rule store_tx_sim[OF w, where tb = ?t and ts = "\<lambda>x. with_content app (?c x) ?t" and es = ?es and c = ?c])
    show "create_body now app app title js opts (begin_tx w) = (case plan_app app title opts None of Inl e \<Rightarrow> (?t, Inl e) | Inr x \<Rightarrow>
        (case spec_limit x of Inl e \<Rightarrow> (with_content app (?c x) ?t, Inl e) | Inr _ \<Rightarrow> record_app now app None x (with_content app (?c x) ?t)))"
      unfolding create_body_new(1)[OF absent(1)] by (rule create_tail_eq[OF create_body_new(2)[OF absent(1)] nf rt p])
    show "undo_tx w ?t = w" by (rule undo[of _ empty_content]) (simp_all add: made_directory_def begin_tx_def)
    show "undo_tx w (with_content app (?c x) ?t) = w" for x by (rule undo[of _ "?c x"]) (simp_all only: world, simp_all)
    show "distinct (map fst (?es x))" for x using w absent(1) by (auto simp: world_ok_def)
    show "serialized (create_body now app app title js opts) w = (w', res)" by (rule run)
    show "spec_store now app js (plan_app app title opts None) (apps_of w) = (m', res')" using s by (simp add: absent(3))
  qed (use planned_made m world filled_ok rt in auto)
next
  case (present c f m js0 r)
  obtain orig where orig: "tracked c = Inr orig" using present by (simp add: tracked_def)
  let ?t = "(begin_tx w)\<lparr>tx_rollback := [Undo_Update app orig]\<rparr>" and ?c = "\<lambda>x. filled js x c"
  let ?es = "\<lambda>x. put_content app (?c x) (aw_entries w)"
  have at: "content_at (tx_world (begin_tx w)) app = Some c" using present(1) by (simp add: content_at_def begin_tx_def)
  have p: "planned_manifest app title opts (file_of (ac_manifest c)) = plan_app app title opts (Some m)"
    using present by (simp add: planned_manifest_def file_of_def)
  have rt: "tx_rollback (begin_tx w) = []" "tx_after (begin_tx w) = []" by (simp_all add: begin_tx_def)
  have d: "distinct (map fst (aw_entries w))" using w by (simp add: world_ok_def)
  have world: "tx_world (with_content app (?c x) ?t) = w\<lparr>aw_entries := ?es x\<rparr>" for x
    by (simp add: with_content_def begin_tx_def)
  show ?thesis
  proof (rule store_tx_sim[OF w, where tb = ?t and ts = "\<lambda>x. with_content app (?c x) ?t" and es = ?es and c = ?c])
    show "create_body now app app title js opts (begin_tx w) = (case plan_app app title opts (Some m) of Inl e \<Rightarrow> (?t, Inl e) | Inr x \<Rightarrow>
        (case spec_limit x of Inl e \<Rightarrow> (with_content app (?c x) ?t, Inl e) | Inr _ \<Rightarrow> record_app now app None x (with_content app (?c x) ?t)))"
      unfolding create_body_old[OF present(1) orig] by (rule create_tail_eq[OF at present(8) rt p])
    show "undo_tx w ?t = w"
      using restore_tracked[OF orig present(8)] present(1) put_content_same[OF d present(1)]
      by (simp add: undo_tx_def begin_tx_def edit_entry_def)
    show "undo_tx w (with_content app (?c x) ?t) = w" for x
      using restore_filled[OF orig present(8)] present(1) put_content_same[OF d present(1)] world[of x]
      by (simp add: undo_tx_def edit_entry_def map_of_put_content)
    show "serialized (create_body now app app title js opts) w = (w', res)" by (rule run)
    show "spec_store now app js (plan_app app title opts (Some m)) (apps_of w) = (m', res')" using s by (simp add: present(10))
  qed (use planned_made d world filled_ok rt present(1) in \<open>auto simp: map_of_put_content\<close>)
qed

lemma create_sim:
  assumes "world_ok w" "create_or_update_app now app title js opts w = (w', res)"
  shows "world_ok w' \<and> spec_create now app title js opts (apps_of w) = (apps_of w', res)"
proof (cases js)
  case (JStr code)
  show ?thesis
  proof (cases "spec_check app")
    case (Inl e)
    then have "w' = w" "res = Inl e" using assms world_invalid(2)[OF assms(1) Inl]
      by (simp_all add: create_or_update_app_def JStr reconcile_ok)
    then show ?thesis using assms(1) Inl by (simp add: spec_create_def JStr)
  next
    case (Inr u)
    then have app: "check_app_id (JStr app) = Inr app" by (simp add: spec_check_Inr)
    obtain w1 r where run: "serialized (create_body now app app title code opts) w = (w1, r)"
      by (cases "serialized (create_body now app app title code opts) w")
    let ?plan = "plan_app app title opts (map_option fst (apps_of w app))"
    obtain m' r' where s: "spec_store now app code ?plan (apps_of w) = (m', r')" by (cases "spec_store now app code ?plan (apps_of w)")
    note sim = create_body_sim[OF assms(1) app run s]
    have "serialized (and_then (create_body now app app title code opts) (\<lambda>_. done_with ())) w = (w1, map_sum id (\<lambda>_. ()) r)"
      using run by (auto simp: serialized_def and_then_def done_with_def split: prod.splits sum.splits)
    then have "w' = w1" "res = map_sum id (\<lambda>_. ()) r"
      using assms world_directory[OF assms(1) app] by (simp_all add: create_or_update_app_def JStr reconcile_ok)
    moreover have "spec_create now app title js opts (apps_of w) = (m', map_sum id (\<lambda>_. ()) r')"
      using s Inr by (auto simp: spec_create_def spec_store_def JStr split: sum.splits)
    ultimately show ?thesis using sim by simp
  qed
qed (use assms in \<open>simp_all add: create_or_update_app_def spec_create_def\<close>)

section \<open>Reading and changing properties\<close>

lemma read_app_present:
  assumes "map_of (aw_entries w) app = Some (App_Dir c)" "ac_manifest c = File f" "read_manifest app f = Inr m" "get_record w app = Some r"
  shows "read_app now app app (begin_tx w) = (begin_tx w, Inr (Some (m, r)))"
  using assms by (simp add: read_app_def manifest_at_def content_at_def begin_tx_def step_simps)

lemma read_app_absent:
  "app \<notin> fst ` set (aw_entries w) \<Longrightarrow> read_app now app app (begin_tx w) = (begin_tx w, Inr None)"
  by (simp add: read_app_def manifest_at_def content_at_def begin_tx_def step_simps map_of_eq_None[symmetric])

lemma finish_begin [simp]: "finish_tx (begin_tx w) = w"
  by (simp add: finish_tx_def begin_tx_def)

lemma read_sim:
  assumes w: "world_ok w" and run: "get_app_files digest now app w = (w', res)"
  shows "w' = w \<and> res = spec_read digest app (apps_of w)"
proof (cases "spec_check app")
  case (Inl e)
  then show ?thesis using run world_invalid(2)[OF w Inl] by (simp add: get_app_files_def spec_read_def reconcile_ok[OF w])
next
  case (Inr u)
  then have app: "check_app_id (JStr app) = Inr app" by (simp add: spec_check_Inr)
  show ?thesis
    using w app
  proof (cases rule: world_app)
    case absent
    then show ?thesis using run Inr read_app_absent[OF absent(1)]
      by (simp add: get_app_files_def spec_read_def reconcile_ok[OF w] world_directory[OF w app] serialized_def recover_with_def step_simps)
  next
    case (present c f m js r)
    have "controller_at (tx_world (begin_tx w)) app = Some (universal_newlines js)"
      using present by (simp add: controller_at_def content_at_def begin_tx_def)
    then show ?thesis using run Inr read_app_present[OF present(1,5,6,2)] present(10)
      by (simp add: get_app_files_def spec_read_def reconcile_ok[OF w] world_directory[OF w app] serialized_def recover_with_def step_simps)
  qed
qed

lemma rewrite_eq:
  assumes at: "content_at (tx_world t) app = Some c" and f: "ac_manifest c = File f" and x: "\<exists>j. manifest_from_dict app j = Inr x"
    and rt: "tx_rollback t = []"
  shows "rewrite_manifest now app app r x t =
    (let ts = with_content app (c\<lparr>ac_manifest := File (stored_form x)\<rparr>) (t\<lparr>tx_rollback := [Undo_Properties app f]\<rparr>)
     in case spec_limit x of Inl e \<Rightarrow> (ts, Inl e) | Inr _ \<Rightarrow> record_app now app (Some (ar_created_at r)) x ts)"
proof -
  let ?t = "t\<lparr>tx_rollback := [Undo_Properties app f]\<rparr>" and ?c = "c\<lparr>ac_manifest := File (stored_form x)\<rparr>"
  have 1: "manifest_at (tx_world t) app = Some f" using at f by (simp add: manifest_at_def)
  have 2: "edit_app app (write_manifest x) ?t = (with_content app ?c ?t, Inr ())"
    using edit_app_ok[of ?t app c "write_manifest x" ?c] at f by (simp add: write_manifest_def)
  have 3: "manifest_at (tx_world (with_content app ?c ?t)) app = Some (stored_form x)" using at by (simp add: manifest_at_def)
  have 4: "read_manifest app (stored_form x) = map_sum id (\<lambda>_. x) (spec_limit x)" using read_stored x by blast
  show ?thesis
    by (cases "spec_limit x") (simp_all add: rewrite_manifest_def and_then_def 1 add_rollback_def rt 2 verify_manifest_def 3 4)
qed

lemma properties_present:
  assumes w: "world_ok w" and app: "check_app_id (JStr app) = Inr app"
    and p: "map_of (aw_entries w) app = Some (App_Dir c)" "get_record w app = Some r" "ac_manifest c = File f" "read_manifest app f = Inr m"
      "ac_controller c = File (Some js)" "app_ok app c"
    and plan: "plan = manifest_from_dict app (JObj (set_all (property_changes title opts) (manifest_fields m)))"
    and run: "serialized (properties_body now app app title opts) w = (w', res)"
    and s: "spec_store now app js plan (apps_of w) = (m', res')"
  shows "world_ok w' \<and> apps_of w' = m' \<and> res = map_sum id Some res'"
proof -
  let ?inner = "and_then (of_result plan) (rewrite_manifest now app app r)"
  have inner: "serialized (properties_body now app app title opts) w = map_prod id (map_sum id Some) (serialized ?inner w)"
    unfolding serialized_def properties_body_def and_then_def[of "read_app now app app"] read_app_present[OF p(1,3,4,2)]
    by (cases "plan"; cases "rewrite_manifest now app app r (projr plan) (begin_tx w)"; cases "snd (rewrite_manifest now app app r (projr plan) (begin_tx w))")
      (simp_all add: plan[symmetric] and_then_def of_result_def done_with_def)
  obtain w1 r1 where r1: "serialized ?inner w = (w1, r1)" by (cases "serialized ?inner w")
  let ?t = "(begin_tx w)\<lparr>tx_rollback := [Undo_Properties app f]\<rparr>" and ?c = "\<lambda>x. c\<lparr>ac_manifest := File (stored_form x)\<rparr>"
  let ?es = "\<lambda>x. put_content app (?c x) (aw_entries w)"
  have at: "content_at (tx_world (begin_tx w)) app = Some c" using p(1) by (simp add: content_at_def begin_tx_def)
  have d: "distinct (map fst (aw_entries w))" using w by (simp add: world_ok_def)
  have world: "tx_world (with_content app (?c x) ?t) = w\<lparr>aw_entries := ?es x\<rparr>" for x by (simp add: with_content_def begin_tx_def)
  have same: "c\<lparr>ac_manifest := File f\<rparr> = c" using p(3) by simp
  have "world_ok w1 \<and> apps_of w1 = m' \<and> r1 = res'"
  proof (rule store_tx_sim[OF w app, where tb = "begin_tx w" and ts = "\<lambda>x. with_content app (?c x) ?t" and es = ?es and c = ?c])
    show "?inner (begin_tx w) = (case plan of Inl e \<Rightarrow> (begin_tx w, Inl e) | Inr x \<Rightarrow>
        (case spec_limit x of Inl e \<Rightarrow> (with_content app (?c x) ?t, Inl e)
         | Inr _ \<Rightarrow> record_app now app (Some (ar_created_at r)) x (with_content app (?c x) ?t)))"
    proof (cases plan)
      case (Inr x)
      then have "\<exists>j. manifest_from_dict app j = Inr x" using plan by metis
      moreover have "tx_rollback (begin_tx w) = []" by (simp add: begin_tx_def)
      ultimately show ?thesis using rewrite_eq[OF at p(3)] by (simp add: Inr and_then_def of_result_def Let_def)
    qed (simp add: step_simps)
    show "undo_tx w (begin_tx w) = w" by (simp add: undo_tx_def begin_tx_def)
    show "undo_tx w (with_content app (?c x) ?t) = w" for x
      using p(1) put_content_same[OF d p(1)] world[of x] same
      by (simp add: undo_tx_def edit_entry_def map_of_put_content put_slot_def)
    show "serialized ?inner w = (w1, r1)" by (rule r1)
    show "spec_store now app js plan (apps_of w) = (m', res')" by (rule s)
    show "app_ok app (?c x)" if "read_manifest app (stored_form x) = Inr x" for x
      using p(6) that by (simp add: app_ok_def)
  qed (use plan p d world in \<open>auto simp: map_of_put_content begin_tx_def\<close>)
  then show ?thesis using run inner r1 by auto
qed

lemma properties_sim:
  assumes w: "world_ok w" and run: "update_app_properties digest now app title opts w = (w', res)"
  shows "world_ok w' \<and> spec_properties digest now app title opts (apps_of w) = (apps_of w', res)"
proof (cases "spec_check app")
  case (Inl e)
  then show ?thesis using run world_invalid(2)[OF w Inl] w
    by (auto simp: update_app_properties_def spec_properties_def reconcile_ok)
next
  case (Inr u)
  then have app: "check_app_id (JStr app) = Inr app" by (simp add: spec_check_Inr)
  obtain w1 r1 where r1: "serialized (properties_body now app app title opts) w = (w1, r1)"
    by (cases "serialized (properties_body now app app title opts) w")
  then have e: "w' = w1" "res = map_sum id (map_option (\<lambda>mr. JObj (manifest_record digest mr))) r1"
    using run by (simp_all add: update_app_properties_def reconcile_ok[OF w] world_directory[OF w app])
  show ?thesis
    using w app
  proof (cases rule: world_app)
    case absent
    then have "w1 = w" "r1 = Inr None"
      using r1 read_app_absent[OF absent(1)] by (simp_all add: serialized_def properties_body_def and_then_def done_with_def)
    then show ?thesis using e w Inr absent(3) by (simp add: spec_properties_def)
  next
    case (present c f m js r)
    let ?plan = "manifest_from_dict app (JObj (set_all (property_changes title opts) (manifest_fields m)))"
    obtain m' r' where s: "spec_store now app js ?plan (apps_of w) = (m', r')" by (cases "spec_store now app js ?plan (apps_of w)")
    have sim: "world_ok w1 \<and> apps_of w1 = m' \<and> r1 = map_sum id Some r'"
      by (rule properties_present[OF w app present(1,2,5,6,7,4) refl r1 s])
    have "spec_properties digest now app title opts (apps_of w) =
        (m', map_sum id (\<lambda>mr. Some (JObj (manifest_record digest mr))) r')"
      using s Inr present(10) by (auto simp: spec_properties_def spec_store_def split: sum.splits)
    then show ?thesis using sim e by (cases r') auto
  qed
qed

section \<open>Deleting\<close>

lemma delete_body_present:
  assumes "map_of (aw_entries w) path = Some (App_Dir c)" "tombstone_name app token \<notin> fst ` set (aw_entries w)"
  shows "serialized (delete_body token app path) w = (delete_record app (w\<lparr>aw_entries := remove_entry path (aw_entries w)\<rparr>), Inr True)"
proof -
  have "exists_at (aw_entries w) path" using assms(1) by (simp add: exists_at_def)
  moreover have "map_of (move_entry path (tombstone_name app token) (aw_entries w)) (tombstone_name app token) = Some (App_Dir c)"
    using assms by (simp add: map_of_move)
  ultimately show ?thesis using remove_moved[OF assms(2)]
    by (simp add: serialized_def delete_body_def step_simps begin_tx_def finish_tx_def rename_app_def delete_record_def)
qed

text \<open>A link to the directory of another App passes \<^verbatim>\<open>app_path\<close>, and deleting it removes the files of the other App.\<close>

lemma delete_follows_link:
  assumes "check_app_id (JStr app) = Inr app" "map_of (aw_entries (reconcile w)) app = Some (Link_To other)"
    "map_of (aw_entries (reconcile w)) other = Some (App_Dir c)" "tombstone_name app token \<notin> fst ` set (aw_entries (reconcile w))"
  shows "snd (delete_app token app w) = Inr True \<and> content_at (fst (delete_app token app w)) other = None"
proof -
  have "delete_app token app w = serialized (delete_body token app other) (reconcile w)"
    using assms(1,2) by (simp add: delete_app_def app_directory_def Let_def)
  then show ?thesis using delete_body_present[OF assms(3,4)]
    by (simp add: content_at_def delete_record_def map_of_remove)
qed

lemma tombstone_fresh: "world_ok w \<Longrightarrow> check_app_id (JStr app) = Inr app \<Longrightarrow> token_ok token \<Longrightarrow> tombstone_name app token \<notin> fst ` set (aw_entries w)"
  using world_no_tombstone[of w "tombstone_name app token"] parse_tombstone_name[of app token] by (auto simp: check_app_id_Inr)

lemma delete_sim:
  assumes w: "world_ok w" and token: "token_ok token" and run: "delete_app token app w = (w', res)"
  shows "world_ok w' \<and> spec digest now (Delete app) (apps_of w) = (apps_of w', Deleted res)"
proof (cases "spec_check app")
  case (Inl e)
  then show ?thesis using run world_invalid(2)[OF w Inl] w by (auto simp: delete_app_def reconcile_ok)
next
  case (Inr u)
  then have app: "check_app_id (JStr app) = Inr app" by (simp add: spec_check_Inr)
  then have na: "app \<noteq> ''.ambient''" using not_kebab_ambient by (auto simp: check_app_id_Inr)
  have s: "serialized (delete_body token app app) w = (w', res)"
    using run by (simp add: delete_app_def reconcile_ok[OF w] world_directory[OF w app])
  show ?thesis
    using w app
  proof (cases rule: world_app)
    case absent
    then have "serialized (delete_body token app app) w = (w, Inr False)"
      by (simp add: serialized_def delete_body_def done_with_def exists_at_def map_of_eq_None[symmetric])
        (simp add: begin_tx_def finish_tx_def)
    then show ?thesis using s w Inr absent(3) by auto
  next
    case (present c f m js r)
    have "w' = delete_record app (w\<lparr>aw_entries := remove_entry app (aw_entries w)\<rparr>)" "res = Inr True"
      using s delete_body_present[OF present(1) tombstone_fresh[OF w app token]] by simp_all
    then show ?thesis using removed_world[OF w _ na] Inr present(10) by simp
  qed
qed

lemma interrupted_sim:
  assumes w: "world_ok w" and token: "token_ok token"
  shows "world_ok (reconcile (interrupted_delete committed token app w))"
    "apps_of (reconcile (interrupted_delete committed token app w)) = (if committed then (apps_of w)(app := None) else apps_of w)"
proof -
  let ?w = "reconcile (interrupted_delete committed token app w)"
  have "world_ok ?w \<and> apps_of ?w = (if committed then (apps_of w)(app := None) else apps_of w)"
  proof (cases "spec_check app")
    case (Inl e)
    then show ?thesis using w world_invalid[OF w Inl] by (auto simp: interrupted_delete_def reconcile_ok)
  next
    case (Inr u)
    then have app: "check_app_id (JStr app) = Inr app" by (simp add: spec_check_Inr)
    then have na: "app \<noteq> ''.ambient''" using not_kebab_ambient by (auto simp: check_app_id_Inr)
    note i = interrupted_delete_def reconcile_ok[OF w] world_directory[OF w app] exists_at_def
    show ?thesis
      using w app
    proof (cases rule: world_app)
      case absent
      then show ?thesis using w reconcile_ok[OF w] by (auto simp: i map_of_eq_None[symmetric])
    next
      case (present c f m js r)
      show ?thesis
        using recover_delete[OF w app token present(1,2)] removed_world[OF w refl na] w present(1) by (simp add: i)
    qed
  qed
  then show "world_ok ?w" "apps_of ?w = (if committed then (apps_of w)(app := None) else apps_of w)" by simp_all
qed

section \<open>The refinement\<close>

definition app_step :: "(json list \<Rightarrow> string) \<Rightarrow> string \<times> string \<times> app_op \<Rightarrow> app_world \<Rightarrow> app_world \<times> app_answer" where
  "app_step digest = (\<lambda>(now, token, op) w. exec digest now token op w)"

definition map_step :: "(json list \<Rightarrow> string) \<Rightarrow> string \<times> string \<times> app_op \<Rightarrow> app_map \<Rightarrow> app_map \<times> app_answer" where
  "map_step digest = (\<lambda>(now, token, op) m. spec digest now op m)"

definition fresh_token :: "string \<times> string \<times> app_op \<Rightarrow> bool" where
  "fresh_token = (\<lambda>(now, token, op). token_ok token)"

lemma exec_ok:
  assumes "world_ok w" "token_ok token" "exec digest now token op w = (w', a)"
  shows "world_ok (reconcile w') \<and> spec digest now op (apps_of w) = (apps_of (reconcile w'), a)"
proof (cases op)
  case (Create app title js opts)
  then obtain r where "create_or_update_app now app title js opts w = (w', r)" "a = Stored_App r"
    using assms(3) by (cases "create_or_update_app now app title js opts w") auto
  then show ?thesis using create_sim[OF assms(1)] Create by (auto simp: reconcile_ok)
next
  case (Properties app title opts)
  then obtain r where "update_app_properties digest now app title opts w = (w', r)" "a = Answer r"
    using assms(3) by (cases "update_app_properties digest now app title opts w") auto
  then show ?thesis using properties_sim[OF assms(1)] Properties by (auto simp: reconcile_ok)
next
  case (Read app)
  then obtain r where "get_app_files digest now app w = (w', r)" "a = Answer r"
    using assms(3) by (cases "get_app_files digest now app w") auto
  then have "w' = w" "a = Answer (spec_read digest app (apps_of w))" using read_sim[OF assms(1)] by blast+
  then show ?thesis using assms(1) Read by (simp add: reconcile_ok)
next
  case (Delete app)
  then obtain r where r: "delete_app token app w = (w', r)" "a = Deleted r"
    using assms(3) by (cases "delete_app token app w") auto
  show ?thesis using delete_sim[OF assms(1,2) r(1), of digest now] r(2) Delete by (auto simp: reconcile_ok)
next
  case (Interrupted committed app)
  then have "w' = interrupted_delete committed token app w" "a = Died" using assms(3) by simp_all
  then show ?thesis using interrupted_sim[OF assms(1,2), of committed app] Interrupted by simp
qed

text \<open>Every operation starts by reconciling, so it does on a world what it does on the reconciled one.\<close>

lemma exec_reconciled:
  assumes "world_ok (reconcile w)" "exec digest now token op w = (w', a)"
  shows "\<exists>w1. exec digest now token op (reconcile w) = (w1, a) \<and> reconcile w1 = reconcile w'"
proof (cases op)
  case (Create app title js opts)
  show ?thesis
  proof (cases js)
    case (JStr code)
    then show ?thesis using assms Create by (auto simp: create_or_update_app_def reconcile_ok)
  qed (use assms Create in \<open>auto simp: create_or_update_app_def reconcile_ok\<close>)
qed (use assms in \<open>auto simp: update_app_properties_def get_app_files_def delete_app_def interrupted_delete_def reconcile_ok\<close>)

interpretation registry: refinement "\<lambda>w. world_ok (reconcile w)" "\<lambda>w. apps_of (reconcile w)" "app_step digest" "map_step digest" fresh_token
  for digest
proof
  fix w w' :: app_world and i :: "string \<times> string \<times> app_op" and a
  assume a: "world_ok (reconcile w)" "fresh_token i" "app_step digest i w = (w', a)"
  obtain now token op where i: "i = (now, token, op)" by (cases i)
  obtain w1 where e: "exec digest now token op (reconcile w) = (w1, a)" "reconcile w1 = reconcile w'"
    using exec_reconciled[OF a(1), of digest now token op w' a] a(3) by (auto simp: app_step_def i)
  then show "world_ok (reconcile w') \<and> map_step digest i (apps_of (reconcile w)) = (apps_of (reconcile w'), a)"
    using exec_ok[OF a(1) _ e(1)] a(2) by (simp add: fresh_token_def map_step_def i e(2))
qed

lemma apps_of_new: "apps_of new_world = (\<lambda>_. None)"
  by (auto simp: apps_of_def manifest_at_def content_at_def new_world_def empty_content_def)

text \<open>
  Property C26 (registry): the manager is a map. Over any history of creating, updating, reading and deleting Apps
  that starts in an empty directory, with deletions cut short by the death of the process at either point,
  every answer is the one of a map from identifiers to manifest, controller and record: a refused creation or
  update changes nothing, an update keeps the time of creation, a controller is read back with every end of line a line feed, and an interrupted deletion did not happen when
  its transaction was not committed and happened when it was. The names of tombstones are hexadecimal tokens.
\<close>

theorem manager_is_a_map:
  assumes "list_all fresh_token ops" "run_all (app_step digest) ops new_world = (w, answers)"
  shows "world_ok (reconcile w) \<and> run_all (map_step digest) ops (\<lambda>_. None) = (apps_of (reconcile w), answers)"
  using registry.history[of new_world ops digest w answers] assms by (simp add: reconcile_ok new_world_ok apps_of_new)

definition no_fields :: app_fields where
  "no_fields = \<lparr>af_description = None, af_app_version = None, af_intents = None, af_schema_refs = None, af_capabilities = None,
     af_app_spec = None\<rparr>"

definition token_of :: "char \<Rightarrow> string" where
  "token_of c = replicate 32 c"

definition demo_history :: "(string \<times> string \<times> app_op) list" where
  "demo_history =
     [(''t0'', token_of (CHR ''a''), Create ''todo'' (JStr ''Todo'') (JStr ''render()'') no_fields),
      (''t1'', token_of (CHR ''b''), Interrupted False ''todo''),
      (''t2'', token_of (CHR ''c''), Properties ''todo'' (Some (JStr ''Tasks'')) no_fields),
      (''t3'', token_of (CHR ''d''), Create ''todo'' (JStr '' Todo'') (JStr ''x'') no_fields),
      (''t4'', token_of (CHR ''e''), Read ''todo''),
      (''t5'', token_of (CHR ''f''), Interrupted True ''todo''),
      (''t6'', token_of (CHR ''0''), Delete ''todo'')]"

lemma manager_is_a_map_witness:
  "\<exists>w answers. run_all (app_step (\<lambda>_. ''d'')) demo_history new_world = (w, answers) \<and>
     run_all (map_step (\<lambda>_. ''d'')) demo_history (\<lambda>_. None) = (apps_of (reconcile w), answers) \<and>
     last answers = Deleted (Inr False)"
proof -
  have t: "list_all fresh_token demo_history" by code_simp
  obtain w answers where r: "run_all (app_step (\<lambda>_. ''d'')) demo_history new_world = (w, answers)"
    by (cases "run_all (app_step (\<lambda>_. ''d'')) demo_history new_world")
  have "last (snd (run_all (app_step (\<lambda>_. ''d'')) demo_history new_world)) = Deleted (Inr False)" by code_simp
  then show ?thesis using manager_is_a_map[OF t r] r by auto
qed

section \<open>Listing\<close>

lemma serialized_read_entries: "aw_entries (fst (serialized (read_app now app path) w)) = aw_entries w"
  by (auto simp: serialized_def read_app_def step_simps put_record_def Let_def finish_tx_def undo_tx_def begin_tx_def
      split: option.splits sum.splits)

lemma candidate_entries: "aw_entries (fst (list_candidate_app digest now name w)) = aw_entries w"
proof -
  let ?r = "case app_directory w name of Inl e \<Rightarrow> (w, Inl e)
    | Inr path \<Rightarrow> if path \<noteq> name then (w, Inl (Escaped (ValueError ''App directory must be a direct, non-symlink child'')))
        else serialized (read_app now name path) w"
  have "aw_entries (fst ?r) = aw_entries w" by (simp add: serialized_read_entries split: sum.split)
  then show ?thesis unfolding list_candidate_app_def
    by (cases ?r) (auto split: sum.splits option.splits manifest_error.splits py_error.splits)
qed

lemma list_loop_raises:
  assumes "name \<in> set names" "\<And>w'. aw_entries w' = aw_entries w \<Longrightarrow> isl (snd (list_candidate_app digest now name w'))"
  shows "isl (snd (list_loop digest now names w))"
  using assms
proof (induction names arbitrary: w)
  case (Cons n names)
  obtain w1 r where c: "list_candidate_app digest now n w = (w1, r)" by (cases "list_candidate_app digest now n w")
  have e: "aw_entries w1 = aw_entries w" using candidate_entries[of digest now n w] c by simp
  show ?case
  proof (cases r)
    case (Inr xs)
    then have "name \<noteq> n" using Cons.prems(2)[of w] c by auto
    then have "isl (snd (list_loop digest now names w1))" using Cons e by simp
    then show ?thesis using c Inr by (auto split: prod.splits simp: isl_map_sum)
  qed (simp add: c)
qed simp

text \<open>
  One manifest can take the list of Apps away. A manifest whose reading raises a
  \<^verbatim>\<open>TypeError\<close>, as one with an array for the identifier of a capability does, makes \<^verbatim>\<open>list_apps\<close> raise, whatever
  other Apps there are; only errors of the operating system, of encoding and of validation are skipped.
\<close>

theorem bad_manifest_breaks_list:
  assumes "map_of (aw_entries (reconcile w)) name = Some (App_Dir c)" "check_app_id (JStr name) = Inr name"
    "ac_manifest c = File f" "read_manifest name f = Inl (Escaped (TypeError m))"
  shows "isl (snd (list_apps digest now w))"
proof -
  let ?w = "reconcile w"
  have "\<not> starts_with name ''.''" using assms(2) kebab_no_dot[of name] by (cases name) (auto simp: check_app_id_Inr starts_with_def)
  then have n: "name \<in> set (app_names (aw_entries ?w))"
    using map_of_SomeD[OF assms(1)] by (force simp: app_names_def is_dir_entry_def)
  have "isl (snd (list_candidate_app digest now name w'))" if "aw_entries w' = aw_entries ?w" for w'
  proof -
    have "read_app now name name (begin_tx w') = (begin_tx w', Inl (Escaped (TypeError m)))"
      using assms that by (simp add: read_app_def manifest_at_def content_at_def begin_tx_def step_simps)
    moreover have "app_directory w' name = Inr name" using assms(1) that by (simp add: app_directory_def assms(2))
    ultimately show ?thesis by (simp add: list_candidate_app_def serialized_def)
  qed
  from list_loop_raises[OF n this] show ?thesis by (simp add: list_apps_def Let_def)
qed

definition odd_manifest :: manifest_file where
  "odd_manifest = Stored 200 (Some (JObj [(''manifest_version'', JInt 2), (''id'', JStr ''odd''), (''title'', JStr ''Odd''),
     (''description'', JStr []), (''app_version'', JStr ''1''), (''intents'', JArr []), (''schema_refs'', JArr []),
     (''capabilities'', JArr [JObj [(''id'', JArr []), (''scope'', JObj [])]])]))"

definition odd_world :: app_world where
  "odd_world = \<lparr>aw_entries = [(''.ambient'', App_Dir empty_content), (''odd'', App_Dir (empty_content\<lparr>ac_manifest := File odd_manifest\<rparr>))],
     aw_records = []\<rparr>"

lemma bad_manifest_breaks_list_witness: "isl (snd (list_apps (\<lambda>_. []) ''now'' odd_world))"
proof -
  have "reconcile odd_world = odd_world"
  proof -
    have "parse_tombstone ''.ambient'' = None" "parse_tombstone ''odd'' = None" by code_simp+
    then show ?thesis
      by (simp add: reconcile_def serialized_def reconcile_tombstones_def odd_world_def begin_tx_def finish_tx_def reconcile_none step_simps)
  qed
  moreover have "map_of (aw_entries odd_world) ''odd'' = Some (App_Dir (empty_content\<lparr>ac_manifest := File odd_manifest\<rparr>))"
    by (simp add: odd_world_def)
  ultimately have "map_of (aw_entries (reconcile odd_world)) ''odd'' = Some (App_Dir (empty_content\<lparr>ac_manifest := File odd_manifest\<rparr>))"
    by simp
  moreover have "check_app_id (JStr ''odd'') = Inr ''odd''" by code_simp
  moreover have "\<exists>m. read_manifest ''odd'' odd_manifest = Inl (Escaped (TypeError m))"
  proof -
    have "(case read_manifest ''odd'' odd_manifest of Inl (Escaped (TypeError m)) \<Rightarrow> True | _ \<Rightarrow> False)" by code_simp
    then show ?thesis by (auto split: sum.splits manifest_error.splits py_error.splits)
  qed
  ultimately show ?thesis
    using bad_manifest_breaks_list[of odd_world "''odd''" "empty_content\<lparr>ac_manifest := File odd_manifest\<rparr>" odd_manifest] by auto
qed

end
