(* ===== verification/Backend_Permissions.thy ===== *)
theory Backend_Permissions
  imports Manifest_Laws Row_Order
begin

text \<open>
  The durable approvals of Apps that start a process or contact an endpoint (\<^verbatim>\<open>BackendManager\<close> of
  \<^verbatim>\<open>backend/backend_manager.py\<close>). An approval names exactly what it is for; it is written to a file before it
  counts. \<open>digest\<close> stands for the SHA-256 digest of the canonical text of a dictionary.
\<close>

section \<open>Identities\<close>

record mcp_identity =
  mi_command :: "string list"
  mi_args :: "string list"
  mi_env_digest :: string
  mi_revision :: string

definition identity_fields :: "mcp_identity \<Rightarrow> (string \<times> json) list" where
  "identity_fields i = [(''command'', texts (mi_command i)), (''args'', texts (mi_args i)),
     (''env_digest'', JStr (mi_env_digest i)), (''manifest_revision'', JStr (mi_revision i))]"

definition identity_json :: "mcp_identity \<Rightarrow> json" where
  "identity_json i = JObj (identity_fields i)"

text \<open>\<^verbatim>\<open>_mcp_permission_target\<close> without an environment or revision, as older approvals were stored.\<close>

definition legacy_target :: "json \<Rightarrow> json \<Rightarrow> json" where
  "legacy_target command args = JObj [(''command'', command), (''args'', args)]"

definition sorted_env :: "(string \<times> string) list \<Rightarrow> json" where
  "sorted_env env = JObj (map (\<lambda>kv. (fst kv, JStr (snd kv))) (order_by (\<lambda>a b. str_less (fst a) (fst b)) env))"

definition mcp_permission_identity :: "(json \<Rightarrow> string) \<Rightarrow> app_manifest \<Rightarrow> mcp_identity result" where
  "mcp_permission_identity digest m =
     (case am_mcp_server m of
        None \<Rightarrow> Inl (ValueError ''Manifest does not declare an MCP server'')
      | Some server \<Rightarrow> Inr \<lparr>mi_command = mcp_command server, mi_args = mcp_args server,
          mi_env_digest = digest (sorted_env (mcp_env server)), mi_revision = manifest_revision m\<rparr>)"

definition strings_of :: "json \<Rightarrow> string list option" where
  "strings_of v =
     (case v of JArr xs \<Rightarrow> if list_all is_str xs then Some (map (\<lambda>x. case x of JStr s \<Rightarrow> s | _ \<Rightarrow> []) xs) else None | _ \<Rightarrow> None)"

definition hex_digest :: "string \<Rightarrow> bool" where
  "hex_digest s \<longleftrightarrow> length s = 64 \<and> list_all is_hex s"

definition identity_keys :: "string list" where
  "identity_keys = [''command'', ''args'', ''env_digest'', ''manifest_revision'']"

definition normalize_mcp_identity :: "(string \<times> json) list \<Rightarrow> mcp_identity result" where
  "normalize_mcp_identity kvs =
     (if \<not> list_all (\<lambda>kv. fst kv \<in> set identity_keys) kvs \<or> \<not> list_all (\<lambda>k. map_of kvs k \<noteq> None) identity_keys
      then Inl (ValueError ''Invalid MCP permission identity fields'')
      else
        (let field = (\<lambda>k. json_or_null (map_of kvs k))
         in case strings_of (field ''command'') of None \<Rightarrow> Inl (ValueError ''Invalid MCP permission command'') | Some command \<Rightarrow>
           if command = [] then Inl (ValueError ''Invalid MCP permission command'')
           else (case strings_of (field ''args'') of None \<Rightarrow> Inl (ValueError ''Invalid MCP permission args'') | Some args \<Rightarrow>
             (case field ''env_digest'' of
                JStr d \<Rightarrow>
                  if \<not> hex_digest d then Inl (ValueError ''Invalid MCP permission environment digest'')
                  else (case field ''manifest_revision'' of
                      JStr (c # cs) \<Rightarrow> Inr \<lparr>mi_command = command, mi_args = args, mi_env_digest = d, mi_revision = c # cs\<rparr>
                    | _ \<Rightarrow> Inl (ValueError ''Invalid MCP permission manifest revision''))
              | _ \<Rightarrow> Inl (ValueError ''Invalid MCP permission environment digest'')))))"

section \<open>The permissions\<close>

text \<open>
  The permissions in memory, the file (\<open>None\<close>: absent; \<open>Some None\<close>: no JSON) and whether writing it succeeds.
\<close>

record backend =
  bp_permissions :: "(string \<times> json) list"
  bp_file :: "jtext option"
  bp_writable :: bool

definition entry_valid :: "string \<times> json \<Rightarrow> string option" where
  "entry_valid kv =
     (case snd kv of
        JObj g \<Rightarrow>
          if (case map_of g ''mcp_servers'' of None \<Rightarrow> True | Some (JArr _) \<Rightarrow> True | _ \<Rightarrow> False)
            \<and> (case map_of g ''agents'' of None \<Rightarrow> True | Some (JArr _) \<Rightarrow> True | _ \<Rightarrow> False)
          then None else Some ''Persisted backend permission grants are invalid''
      | _ \<Rightarrow> Some ''Persisted backend permission entries are invalid'')"

definition load_permissions :: "jtext option \<Rightarrow> (string \<times> json) list result" where
  "load_permissions file =
     (case file of
        None \<Rightarrow> Inr []
      | Some None \<Rightarrow> Inl (RuntimeError ''Persisted backend permissions cannot be read'')
      | Some (Some (JObj kvs)) \<Rightarrow>
          (case List.find (\<lambda>kv. entry_valid kv \<noteq> None) kvs of
             None \<Rightarrow> Inr kvs | Some kv \<Rightarrow> Inl (RuntimeError (the (entry_valid kv))))
      | Some (Some _) \<Rightarrow> Inl (RuntimeError ''Persisted backend permissions must be a JSON object''))"

definition grants_of :: "(string \<times> json) list \<Rightarrow> string \<Rightarrow> string \<Rightarrow> json list" where
  "grants_of perms app kind =
     (case map_of perms app of
        Some (JObj g) \<Rightarrow> (case map_of g kind of Some (JArr xs) \<Rightarrow> xs | _ \<Rightarrow> [])
      | _ \<Rightarrow> [])"

definition contains :: "json list \<Rightarrow> json \<Rightarrow> bool" where
  "contains xs v = list_ex (py_eq v) xs"

definition add_grant :: "string \<Rightarrow> string \<Rightarrow> json \<Rightarrow> (string \<times> json) list \<Rightarrow> (string \<times> json) list" where
  "add_grant app kind v perms =
     (let g = (case map_of perms app of Some (JObj g) \<Rightarrow> g | _ \<Rightarrow> [])
      in AList.update app (JObj (AList.update kind (JArr (grants_of perms app kind @ [v])) g)) perms)"

definition save_permissions :: "(string \<times> json) list \<Rightarrow> backend \<Rightarrow> backend \<times> unit result" where
  "save_permissions perms b =
     (if bp_writable b then (b\<lparr>bp_permissions := perms, bp_file := Some (Some (JObj perms))\<rparr>, Inr ())
      else (b, Inl (RuntimeError ''Unable to persist backend permissions'')))"

definition approve :: "string \<Rightarrow> string \<Rightarrow> json \<Rightarrow> backend \<Rightarrow> backend \<times> unit result" where
  "approve app kind v b =
     (if contains (grants_of (bp_permissions b) app kind) v then (b, Inr ())
      else save_permissions (add_grant app kind v (bp_permissions b)) b)"

definition is_mcp_identity_approved :: "backend \<Rightarrow> string \<Rightarrow> (string \<times> json) list \<Rightarrow> bool" where
  "is_mcp_identity_approved b app kvs =
     (case normalize_mcp_identity kvs of Inl _ \<Rightarrow> False
      | Inr i \<Rightarrow> contains (grants_of (bp_permissions b) app ''mcp_servers'') (identity_json i))"

definition approve_mcp_identity :: "string \<Rightarrow> (string \<times> json) list \<Rightarrow> backend \<Rightarrow> backend \<times> unit result" where
  "approve_mcp_identity app kvs b =
     (case normalize_mcp_identity kvs of Inl e \<Rightarrow> (b, Inl e) | Inr i \<Rightarrow> approve app ''mcp_servers'' (identity_json i) b)"

definition is_mcp_approved :: "backend \<Rightarrow> string \<Rightarrow> json \<Rightarrow> json \<Rightarrow> bool" where
  "is_mcp_approved b app command args = contains (grants_of (bp_permissions b) app ''mcp_servers'') (legacy_target command args)"

definition approve_mcp :: "string \<Rightarrow> json \<Rightarrow> json \<Rightarrow> backend \<Rightarrow> backend \<times> unit result" where
  "approve_mcp app command args = approve app ''mcp_servers'' (legacy_target command args)"

definition is_agent_approved :: "backend \<Rightarrow> string \<Rightarrow> json \<Rightarrow> bool" where
  "is_agent_approved b app url = contains (grants_of (bp_permissions b) app ''agents'') url"

definition approve_agent :: "string \<Rightarrow> json \<Rightarrow> backend \<Rightarrow> backend \<times> unit result" where
  "approve_agent app url = approve app ''agents'' url"

section \<open>Approvals are exact and durable\<close>

lemma strings_of_texts [simp]: "strings_of (texts xs) = Some xs"
  by (simp add: strings_of_def texts_def list_all_iff o_def)

lemma texts_inject [simp]: "texts xs = texts ys \<longleftrightarrow> xs = ys"
  by (metis strings_of_texts option.inject)

lemma py_eq_texts [simp]: "py_eq (texts xs) v \<longleftrightarrow> v = texts xs"
proof -
  have "py_eq_list (map JStr xs) ys \<longleftrightarrow> ys = map JStr xs" for ys
    by (induction xs arbitrary: ys) (auto split: list.splits)
  then show ?thesis by (cases v) (auto simp: texts_def)
qed

definition identity_ok :: "mcp_identity \<Rightarrow> bool" where
  "identity_ok i \<longleftrightarrow> mi_command i \<noteq> [] \<and> hex_digest (mi_env_digest i) \<and> mi_revision i \<noteq> []"

lemma normalize_identity [simp]: "identity_ok i \<Longrightarrow> normalize_mcp_identity (identity_fields i) = Inr i"
  by (cases "mi_revision i")
    (simp_all add: normalize_mcp_identity_def identity_fields_def identity_keys_def identity_ok_def json_or_null_def)

lemma py_eq_identity [simp]: "py_eq (identity_json i) (identity_json j) \<longleftrightarrow> i = j"
  by (cases i; cases j) (simp add: identity_json_def identity_fields_def eq_commute)

lemma grants_add:
  "grants_of (add_grant app kind v perms) app' kind' =
     (if app' = app \<and> kind' = kind then grants_of perms app kind @ [v] else grants_of perms app' kind')"
  by (auto simp: grants_of_def add_grant_def Let_def update_conv' split: option.splits json.splits)

lemma approve_grants:
  assumes "approve app kind v b = (b', Inr ())"
  shows "contains (grants_of (bp_permissions b') app' kind') w \<longleftrightarrow>
    contains (grants_of (bp_permissions b) app' kind') w \<or> app' = app \<and> kind' = kind \<and> py_eq w v \<and> \<not> contains (grants_of (bp_permissions b) app kind) v"
  using assms
  by (auto simp: approve_def save_permissions_def grants_add contains_def split: if_splits)

lemma approve_mcp_identity_exact:
  assumes "identity_ok i" "identity_ok j" "approve_mcp_identity app (identity_fields i) b = (b', Inr ())"
  shows "is_mcp_identity_approved b' app' (identity_fields j) \<longleftrightarrow>
    is_mcp_identity_approved b app' (identity_fields j) \<or> app' = app \<and> j = i"
proof -
  have "approve app ''mcp_servers'' (identity_json i) b = (b', Inr ())" using assms by (simp add: approve_mcp_identity_def)
  from approve_grants[OF this, of app' "''mcp_servers''" "identity_json j"] show ?thesis
    using assms(1,2) by (auto simp: is_mcp_identity_approved_def)
qed

text \<open>What is in memory is what a restart reads.\<close>

definition coherent :: "backend \<Rightarrow> bool" where
  "coherent b \<longleftrightarrow> load_permissions (bp_file b) = Inr (bp_permissions b)"

lemma entry_valid_list: "load_permissions (Some (Some (JObj kvs))) = Inr kvs \<longleftrightarrow> (\<forall>kv \<in> set kvs. entry_valid kv = None)"
proof (cases "List.find (\<lambda>kv. entry_valid kv \<noteq> None) kvs")
  case None
  then have "\<forall>kv \<in> set kvs. entry_valid kv = None" by (auto simp: find_None_iff)
  with None show ?thesis by (simp add: load_permissions_def)
next
  case (Some kv)
  then have "kv \<in> set kvs" "entry_valid kv \<noteq> None" by (auto simp: find_Some_iff)
  with Some show ?thesis by (auto simp: load_permissions_def)
qed

lemma coherent_entries: "coherent b \<Longrightarrow> kv \<in> set (bp_permissions b) \<Longrightarrow> entry_valid kv = None"
proof -
  assume c: "coherent b" "kv \<in> set (bp_permissions b)"
  then have "bp_file b = Some (Some (JObj (bp_permissions b)))"
    by (auto simp: coherent_def load_permissions_def split: option.splits json.splits)
  then show "entry_valid kv = None" using c entry_valid_list[of "bp_permissions b"] by (simp add: coherent_def)
qed

lemma approve_coherent:
  assumes "coherent b" "kind \<in> {''mcp_servers'', ''agents''}" "approve app kind v b = (b', r)"
  shows "coherent b'"
proof (cases "contains (grants_of (bp_permissions b) app kind) v \<or> \<not> bp_writable b")
  case False
  let ?g = "case map_of (bp_permissions b) app of Some (JObj g) \<Rightarrow> g | _ \<Rightarrow> []"
  have b': "b' = b\<lparr>bp_permissions := add_grant app kind v (bp_permissions b),
      bp_file := Some (Some (JObj (add_grant app kind v (bp_permissions b))))\<rparr>"
    using assms(3) False by (simp add: approve_def save_permissions_def)
  have g: "entry_valid (app, JObj ?g) = None"
  proof (cases "map_of (bp_permissions b) app")
    case (Some w)
    then have "entry_valid (app, w) = None" using coherent_entries[OF assms(1)] map_of_SomeD by metis
    then show ?thesis using Some by (cases w) (simp_all add: entry_valid_def)
  qed (simp add: entry_valid_def)
  then have "entry_valid (app, JObj (AList.update kind (JArr xs) ?g)) = None" for xs
    by (simp add: entry_valid_def update_conv' split: if_splits)
  moreover have "set (AList.update app w ps) \<subseteq> insert (app, w) (set ps)" for w and ps :: "(string \<times> json) list"
    by (induction ps) auto
  ultimately have "\<forall>kv \<in> set (add_grant app kind v (bp_permissions b)). entry_valid kv = None"
    using coherent_entries[OF assms(1)] by (fastforce simp: add_grant_def Let_def)
  then show ?thesis using entry_valid_list by (simp add: coherent_def b')
next
  case True
  then show ?thesis using assms by (auto simp: approve_def save_permissions_def split: if_splits)
qed

end
