(* ===== verification/Run_Coordinator.thy ===== *)
theory Run_Coordinator
  imports Run_Machine Json_Schema Backend_Permissions
begin

text \<open>
  The coordinator of runs (\<^verbatim>\<open>RunCoordinator\<close> of \<^verbatim>\<open>backend/run_service.py\<close>) over the store and the approvals: how
  runs are submitted, claimed, executed and finished. The execution of a run is two functions around its call
  of an external program, so that anything may happen to the store while the call is under way. Callbacks that
  show events to a connected client, and the loops' timers, are left out.
\<close>

section \<open>State and surroundings\<close>

text \<open>
  \<open>co_active\<close>: the runs with a task of this process; \<open>co_clients\<close>: the MCP programs it runs, with the identity each was
  started under. The surroundings are the services the coordinator asks: the manifests of Apps, the actions of
  capabilities, the executor of agent steps (present or not), the digest of an environment, the URL library.
\<close>

record coordinator =
  co_store :: store
  co_backend :: backend
  co_worker :: string
  co_active :: "string list"
  co_global_limit :: nat
  co_owner_limit :: nat
  co_clients :: "(string \<times> mcp_identity) list"

record capability_action =
  ca_id :: string
  ca_title :: string
  ca_input_schema :: json
  ca_result_schema :: json
  ca_type :: string
  ca_app_id :: string
  ca_tool_name :: "string option"

record surroundings =
  su_manifest :: "string \<Rightarrow> app_manifest option"
  su_action :: "string \<Rightarrow> string \<Rightarrow> capability_action option"
  su_executor :: bool
  su_digest :: "json \<Rightarrow> string"
  su_http_url :: "string \<Rightarrow> bool"
  su_credentials :: "string \<Rightarrow> bool"
  su_json_bytes :: "json \<Rightarrow> nat"
  su_max_request :: nat

definition on_store :: "(store \<Rightarrow> store) \<Rightarrow> coordinator \<Rightarrow> coordinator" where
  "on_store f c = c\<lparr>co_store := f (co_store c)\<rparr>"

lemma on_store_simps [simp]:
  "co_store (on_store f c) = f (co_store c)" "co_backend (on_store f c) = co_backend c" "co_worker (on_store f c) = co_worker c"
  "co_active (on_store f c) = co_active c" "co_clients (on_store f c) = co_clients c" "co_global_limit (on_store f c) = co_global_limit c"
  "co_owner_limit (on_store f c) = co_owner_limit c"
  by (simp_all add: on_store_def)

section \<open>Submitting runs\<close>

definition base_request :: "string \<Rightarrow> string \<Rightarrow> string \<Rightarrow> string \<Rightarrow> string option \<Rightarrow> string \<Rightarrow> string \<Rightarrow> json \<Rightarrow> string \<Rightarrow> run_request" where
  "base_request owner action title source_type source_id adapter runtime input recovery =
     \<lparr>rq_owner_id = owner, rq_action_id = action, rq_action_title = title, rq_source_type = source_type,
      rq_source_id = source_id, rq_adapter_type = adapter, rq_runtime_id = runtime, rq_input = input, rq_tool_name = None,
      rq_recovery = recovery, rq_parent_run_id = None, rq_retry_of = None, rq_idempotency_key = None, rq_correlation = None,
      rq_attempt = 1, rq_status = S_queued, rq_state = None, rq_workflow_type = None, rq_workflow_version = None\<rparr>"

definition submit_to :: "string \<Rightarrow> run_request \<Rightarrow> coordinator \<Rightarrow> coordinator \<times> string result" where
  "submit_to rid q c = (case create_run rid q (co_store c) of (s, r) \<Rightarrow> (c\<lparr>co_store := s\<rparr>, r))"

text \<open>The keyword arguments every submission passes on.\<close>

record submit_source =
  sb_type :: string
  sb_id :: "string option"
  sb_key :: "string option"
  sb_correlation :: "json option"

definition from_source :: "submit_source \<Rightarrow> run_request \<Rightarrow> run_request" where
  "from_source src q = q\<lparr>rq_source_type := sb_type src, rq_source_id := sb_id src, rq_idempotency_key := sb_key src,
     rq_correlation := sb_correlation src\<rparr>"

definition submit ::
  "surroundings \<Rightarrow> string \<Rightarrow> string \<Rightarrow> string \<Rightarrow> json \<Rightarrow> submit_source \<Rightarrow> string option \<Rightarrow> coordinator \<Rightarrow> coordinator \<times> string result" where
  "submit su rid catalog_id action_id input src parent c =
     (case su_action su catalog_id action_id of
        None \<Rightarrow> (c, Inl (KeyError ''Capability action not found''))
      | Some a \<Rightarrow>
          (case validate_json_schema input (ca_input_schema a) ''input'' of
             Some e \<Rightarrow> (c, Inl e)
           | None \<Rightarrow> submit_to rid (from_source src (base_request catalog_id (ca_id a) (ca_title a) (sb_type src) (sb_id src)
               (ca_type a) (ca_app_id a) input ''manual'')\<lparr>rq_tool_name := ca_tool_name a, rq_parent_run_id := parent\<rparr>) c))"

definition app_owner :: "string \<Rightarrow> string" where
  "app_owner app = ''app:'' @ app"

definition submit_direct_mcp ::
  "string \<Rightarrow> string \<Rightarrow> string \<Rightarrow> json \<Rightarrow> submit_source \<Rightarrow> coordinator \<Rightarrow> coordinator \<times> string result" where
  "submit_direct_mcp rid app tool input src =
     submit_to rid (from_source src (base_request (app_owner app) tool tool (sb_type src) (sb_id src) ''mcp_tool'' app input ''manual'')
       \<lparr>rq_tool_name := Some tool\<rparr>)"

definition DIRECT_MCP_METHODS :: "string list" where
  "DIRECT_MCP_METHODS = [''resources/read'', ''resources/list'', ''prompts/get'', ''prompts/list'']"

definition submit_direct_mcp_request ::
  "string \<Rightarrow> string \<Rightarrow> string \<Rightarrow> json \<Rightarrow> submit_source \<Rightarrow> coordinator \<Rightarrow> coordinator \<times> string result" where
  "submit_direct_mcp_request rid app mcp_method params src c =
     (if mcp_method \<notin> set DIRECT_MCP_METHODS then (c, Inl (ValueError (''Unsupported direct MCP method: '' @ mcp_method)))
      else submit_to rid (from_source src (base_request (app_owner app) mcp_method mcp_method (sb_type src) (sb_id src) ''mcp_request'' app params
        ''restart_safe'')\<lparr>rq_tool_name := Some mcp_method\<rparr>) c)"

definition submit_direct_agent_message ::
  "string \<Rightarrow> string \<Rightarrow> json \<Rightarrow> submit_source \<Rightarrow> coordinator \<Rightarrow> coordinator \<times> string result" where
  "submit_direct_agent_message rid app message src =
     submit_to rid (from_source src (base_request (app_owner app) ''agent_message'' ''Agent message'' (sb_type src) (sb_id src)
       ''agent_message'' app message ''manual''))"

text \<open>The state is given, or the initial one of the workflow type; \<^verbatim>\<open>AgentRunState\<close> refuses a version below 1.\<close>

definition submit_internal_agent ::
  "string \<Rightarrow> string \<Rightarrow> string \<Rightarrow> string \<Rightarrow> string \<Rightarrow> json \<Rightarrow> submit_source \<Rightarrow> string \<Rightarrow> int \<Rightarrow> agent_state option \<Rightarrow> string option \<Rightarrow>
   coordinator \<Rightarrow> coordinator \<times> string result" where
  "submit_internal_agent rid owner action title session input src workflow_type workflow_version given_state parent c =
     (let st = (case given_state of Some st \<Rightarrow> st
            | None \<Rightarrow> default_state\<lparr>st_workflow_type := workflow_type, st_workflow_version := workflow_version,
                st_session_id := Some session\<rparr>)
      in if \<not> state_ok st then (c, Inl (ValueError ''AgentRunState''))
         else if st_session_id st \<noteq> Some session
         then (c, Inl (ValueError ''state session_id must match the submitted session''))
         else submit_to rid ((base_request owner action title (sb_type src) (Some session) ''internal_agent'' ''internal:agent'' input
             ''restart_safe'')\<lparr>rq_parent_run_id := parent, rq_idempotency_key := sb_key src, rq_state := Some st,
             rq_workflow_type := Some (st_workflow_type st), rq_workflow_version := Some (st_workflow_version st)\<rparr>) c)"

definition create_external_run ::
  "string \<Rightarrow> string \<Rightarrow> string \<Rightarrow> string \<Rightarrow> string \<Rightarrow> string option \<Rightarrow> json \<Rightarrow> coordinator \<Rightarrow> coordinator \<times> string result" where
  "create_external_run rid owner action title source_type source_id input =
     submit_to rid (base_request owner action title source_type source_id ''internal'' ''internal:agent'' input ''manual'')"

definition claim_external :: "string \<Rightarrow> coordinator \<Rightarrow> coordinator \<times> string option result" where
  "claim_external rid c =
     (case claim_specific rid (co_worker c) (co_global_limit c) (co_owner_limit c) 30 (co_store c) of (s, r) \<Rightarrow> (c\<lparr>co_store := s\<rparr>, r))"

definition bind_external_task :: "string \<Rightarrow> coordinator \<Rightarrow> coordinator" where
  "bind_external_task rid c = c\<lparr>co_active := List.insert rid (co_active c)\<rparr>"

section \<open>Applying approvals\<close>

text \<open>
  One intent of the outbox. The value is the one the question carried; \<^verbatim>\<open>value["app_id"]\<close> and the parts of the
  target are texts and lists of texts in every question the coordinator asks, anything else counts as an error.
\<close>

definition approve_older :: "string \<Rightarrow> json \<Rightarrow> backend \<Rightarrow> backend \<times> unit result" where
  "approve_older app value b =
     (case dget value ''command'' of
        Some (JArr cs) \<Rightarrow>
          (case dget value ''args'' of
             None \<Rightarrow> approve_mcp app (JArr cs) (JArr []) b
           | Some (JArr as) \<Rightarrow> approve_mcp app (JArr cs) (JArr as) b
           | Some _ \<Rightarrow> (b, Inl (TypeError ''args'')))
      | None \<Rightarrow> (b, Inl (KeyError ''command''))
      | Some _ \<Rightarrow> (b, Inl (TypeError ''command'')))"

definition apply_intent :: "outbox_row \<Rightarrow> backend \<Rightarrow> backend \<times> unit result" where
  "apply_intent g b =
     (let value = g_value g
      in if \<not> is_dict value then (b, Inl (AttributeError ''get''))
         else (case dget value ''app_id'' of
             Some (JStr app) \<Rightarrow>
               if g_permission_type g = ''mcp_spawn''
               then (case dget value ''identity'' of
                   Some (JObj kvs) \<Rightarrow> approve_mcp_identity app kvs b
                 | None \<Rightarrow> approve_older app value b
                 | Some JNull \<Rightarrow> approve_older app value b
                 | Some _ \<Rightarrow> (b, Inl (TypeError ''identity'')))
               else if g_permission_type g = ''agent_connect''
               then (case dget value ''agent_url'' of None \<Rightarrow> (b, Inl (KeyError ''agent_url'')) | Some url \<Rightarrow> approve_agent app url b)
               else (b, Inl (ValueError ''unsupported durable permission intent''))
           | _ \<Rightarrow> (b, Inl (KeyError ''app_id''))))"

definition apply_grant :: "outbox_row \<Rightarrow> coordinator \<Rightarrow> coordinator" where
  "apply_grant g c =
     (case apply_intent g (co_backend c) of
        (b, Inr _) \<Rightarrow> on_store (\<lambda>s. fst (complete_permission_grant (g_interaction_id g) s)) (c\<lparr>co_backend := b\<rparr>)
      | (b, Inl _) \<Rightarrow> on_store (\<lambda>s. fst (defer_permission_grant (g_interaction_id g) s)) c)"

definition recover_permission_grants :: "bool \<Rightarrow> coordinator \<Rightarrow> coordinator" where
  "recover_permission_grants due_only c = fold apply_grant (pending_permission_grants (co_store c) due_only) c"

text \<open>
  The answer of a user. The version the client saw may come with the response; the refusal of a permission fails the
  run.
\<close>

definition supplied_version :: "json \<Rightarrow> json option" where
  "supplied_version response =
     (case dget response ''expected_run_version'' of Some v \<Rightarrow> Some v | None \<Rightarrow> dget response ''run_version'')"

definition answered_version :: "int option \<Rightarrow> json \<Rightarrow> int option result" where
  "answered_version expected response =
     (if expected \<noteq> None \<or> \<not> is_dict response then Inr expected
      else (case supplied_version response of
          None \<Rightarrow> Inr None | Some JNull \<Rightarrow> Inr None
        | Some v \<Rightarrow> map_sum id Some (int_of v)))"

definition permission_question :: "interaction_row \<Rightarrow> json option" where
  "permission_question i =
     (if i_type i = ''permission'' then (case dget (i_payload i) ''permission_type'' of Some v \<Rightarrow> if truthy v then Some v else None | None \<Rightarrow> None)
      else None)"

definition answer_interaction :: "string \<Rightarrow> json \<Rightarrow> int option \<Rightarrow> coordinator \<Rightarrow> coordinator \<times> run_view option result" where
  "answer_interaction iid response expected c =
     (case find_interaction (co_store c) iid of
        None \<Rightarrow> (c, Inl (KeyError iid))
      | Some i \<Rightarrow>
          if permission_question i \<noteq> None \<and> grant_type (permission_question i) = None
          then (c, Inl (ValueError ''unsupported permission interaction''))
          else (case answered_version expected response of
              Inl e \<Rightarrow> (c, Inl e)
            | Inr version \<Rightarrow>
                (let permission = permission_question i \<noteq> None;
                     granting = \<not> permission \<or> approved response
                 in case (if granting
                       then resolve_interaction iid response version None
                         (if permission then ''Permission granted'' else ''Interaction resolved'') None (co_store c)
                       else resolve_interaction iid response version (Some S_failed) ''Permission denied''
                         (Some (JObj [(''message'', JStr ''Permission denied'')])) (co_store c)) of
                     (s, Inl e) \<Rightarrow> (c\<lparr>co_store := s\<rparr>, Inl e)
                   | (s, Inr _) \<Rightarrow>
                       (let c' = (if granting \<and> permission then recover_permission_grants False (c\<lparr>co_store := s\<rparr>) else c\<lparr>co_store := s\<rparr>)
                        in (c', Inr (get_run (co_store c') (i_run_id i)))))))"

section \<open>The loops\<close>

definition cancel_run :: "string \<Rightarrow> coordinator \<Rightarrow> coordinator \<times> run_view option result" where
  "cancel_run rid c =
     (case request_cancel rid (co_store c) of
        (s, Inl e) \<Rightarrow> (c\<lparr>co_store := s\<rparr>, Inl e)
      | (s, Inr _) \<Rightarrow> (c\<lparr>co_store := s\<rparr>, Inr (get_run s rid)))"

text \<open>\<^verbatim>\<open>ensure_started\<close> with the fresh identity of the worker; 30 days is the retention of events.\<close>

definition start_coordinator :: "string \<Rightarrow> int \<Rightarrow> coordinator \<Rightarrow> coordinator" where
  "start_coordinator worker days c =
     recover_permission_grants False
       (on_store (\<lambda>s. fst (cleanup_events days (fst (recover_orphaned s)))) (c\<lparr>co_worker := worker\<rparr>))"

definition heartbeat_pass :: "coordinator \<Rightarrow> coordinator" where
  "heartbeat_pass c = on_store (\<lambda>s. fst (recover_orphaned (fst (heartbeat (co_worker c) 30 (Some (co_active c)) s)))) c"

text \<open>
  The claims of one pass of the scheduler: one run after the other while the process is below its limit. The loop
  ends because every claim takes one of the places left.
\<close>

function claim_loop :: "coordinator \<Rightarrow> coordinator \<times> string list" where
  "claim_loop c =
     (if co_global_limit c \<le> length (co_active c) then (c, [])
      else (case claim_next (co_worker c) (co_global_limit c) (co_owner_limit c) 30 (co_active c) (co_store c) of
          (s, Inr (Some rid)) \<Rightarrow>
            (case claim_loop (c\<lparr>co_store := s, co_active := co_active c @ [rid]\<rparr>) of (c', rids) \<Rightarrow> (c', rid # rids))
        | (s, _) \<Rightarrow> (c\<lparr>co_store := s\<rparr>, [])))"
  by pat_completeness auto

termination claim_loop
  by (relation "measure (\<lambda>c. co_global_limit c - length (co_active c))") auto

declare claim_loop.simps [simp del]

definition scheduler_pass :: "coordinator \<Rightarrow> coordinator \<times> string list" where
  "scheduler_pass c = claim_loop (recover_permission_grants True (on_store (\<lambda>s. fst (recover_orphaned s)) c))"

definition finished :: "string \<Rightarrow> coordinator \<Rightarrow> coordinator" where
  "finished rid c =
     (let s = (case find_run (co_store c) rid of
            Some r \<Rightarrow> if r_status r = S_cancel_requested then fst (finalize_cancel_requested rid (co_worker c) (co_store c)) else co_store c
          | None \<Rightarrow> co_store c)
      in c\<lparr>co_store := s, co_active := removeAll rid (co_active c)\<rparr>)"

definition shutdown :: "coordinator \<Rightarrow> coordinator" where
  "shutdown c = (on_store (\<lambda>s. fst (release_worker (co_worker c) s)) c)\<lparr>co_active := []\<rparr>"

end
