(* ===== verification/Run_Execution.thy ===== *)
theory Run_Execution
  imports Run_Coordinator
begin

text \<open>
  The execution of one claimed run (\<^verbatim>\<open>_execute\<close> and \<^verbatim>\<open>_ensure_permission_or_wait\<close> of \<^verbatim>\<open>RunCoordinator\<close>, and the
  approval checks of \<^verbatim>\<open>BackendManager\<close> just before a program is started or an endpoint is contacted). It is
  three functions, cut at the awaits: \<open>execute_begin\<close> up to the step attempt, \<open>contact_backend\<close> to the request that
  leaves the process, and \<open>execute_end\<close> from the reply on. Between them any command may change the store.
\<close>

section \<open>Before the call\<close>

text \<open>The run as the claim returned it, and what \<^verbatim>\<open>_execute\<close> reads from it.\<close>

record invocation =
  iv_action :: "capability_action option"
  iv_type :: string
  iv_app :: string
  iv_tool :: "string option"

definition resolve_action :: "surroundings \<Rightarrow> run_row \<Rightarrow> capability_action option" where
  "resolve_action su r =
     (if r_adapter_type r = ''internal_agent'' then None
      else if take 4 (r_owner_id r) = ''app:'' then None
      else su_action su (r_owner_id r) (r_action_id r))"

definition invocation_of :: "surroundings \<Rightarrow> run_row \<Rightarrow> invocation" where
  "invocation_of su r =
     (case resolve_action su r of
        None \<Rightarrow> \<lparr>iv_action = None, iv_type = r_adapter_type r, iv_app = r_runtime_id r, iv_tool = r_tool_name r\<rparr>
      | Some a \<Rightarrow> \<lparr>iv_action = Some a, iv_type = ca_type a, iv_app = ca_app_id a, iv_tool = ca_tool_name a\<rparr>)"

definition fresh_state :: "run_row \<Rightarrow> agent_state" where
  "fresh_state r = default_state\<lparr>
     st_workflow_type := (if r_adapter_type r \<noteq> ''internal_agent'' then ''capability'' else r_workflow_type r),
     st_workflow_version := r_workflow_version r,
     st_session_id := (if r_source_type r = ''chat'' then r_source_id r else None),
     st_phase := ''invoke'', st_attempt := r_attempt r\<rparr>"

definition execution_state :: "run_row \<Rightarrow> agent_state option" where
  "execution_state r =
     (if truthy_opt (loads (r_state r)) then validate_state (the (loads (r_state r)))
      else if state_ok (fresh_state r) then Some (fresh_state r) else None)"

definition is_mcp :: "string \<Rightarrow> bool" where
  "is_mcp ty \<longleftrightarrow> ty = ''mcp_tool'' \<or> ty = ''mcp_request''"

text \<open>\<open>None\<close>: nothing to ask, the approval is there or the call needs none.\<close>

definition missing_permission :: "surroundings \<Rightarrow> backend \<Rightarrow> string \<Rightarrow> string \<Rightarrow> app_manifest \<Rightarrow> (string \<times> json) option" where
  "missing_permission su b ty app m =
     (if is_mcp ty then
        (case (am_mcp_server m, mcp_permission_identity (su_digest su) m) of
           (Some server, Inr i) \<Rightarrow>
             if is_mcp_identity_approved b app (identity_fields i) then None
             else Some (''mcp_spawn'', JObj [(''app_id'', JStr app), (''command'', texts (mcp_command server)),
               (''args'', texts (mcp_args server)), (''identity'', identity_json i)])
         | _ \<Rightarrow> None)
      else if ty = ''agent_message'' then
        (case am_agent_url m of
           Some (u # us) \<Rightarrow>
             if is_agent_approved b app (JStr (u # us)) then None
             else Some (''agent_connect'', JObj [(''app_id'', JStr app), (''agent_url'', JStr (u # us))])
         | _ \<Rightarrow> None)
      else None)"

definition permission_request :: "string \<Rightarrow> run_row \<Rightarrow> int \<Rightarrow> string \<Rightarrow> string \<times> json \<Rightarrow> json" where
  "permission_request iid r version app what =
     JObj [(''type'', JStr ''backend_permission_request''), (''request_id'', JStr iid), (''run_id'', JStr (r_id r)),
       (''run_version'', JInt version), (''app_id'', JStr app), (''permission_type'', JStr (fst what)), (''value'', snd what)]"

definition ask_permission :: "run_row \<Rightarrow> string \<Rightarrow> string \<Rightarrow> string \<times> json \<Rightarrow> coordinator \<Rightarrow> coordinator" where
  "ask_permission r iid app what c =
     (let version = (case find_run (co_store c) (r_id r) of Some x \<Rightarrow> r_version x | None \<Rightarrow> r_version r)
      in on_store (\<lambda>s. fst (wait_for_interaction (r_id r) ''permission'' (''Allow '' @ fst what @ '' for '' @ app @ ''?'')
           (permission_request iid r (version + 1) app what) iid (co_worker c) (r_lease_epoch r) ''Waiting for permission''
           (Some ''backend_permission_request'') s)) c)"

text \<open>What a task holds between its segments.\<close>

record working =
  wk_run :: run_row
  wk_worker :: string
  wk_state :: agent_state
  wk_invocation :: invocation
  wk_manifest :: "app_manifest option"
  wk_step :: string
  wk_attempt :: int

text \<open>
  The first segment. Without a step attempt the execution returns and leaves the run as it is: the handler of
  exceptions returns when \<^verbatim>\<open>step_attempt is None\<close>.
\<close>

definition start_step :: "run_row \<Rightarrow> agent_state \<Rightarrow> invocation \<Rightarrow> app_manifest option \<Rightarrow> coordinator \<Rightarrow> coordinator \<times> working option" where
  "start_step r st call m c =
     (case update_progress (r_id r) (1 / 20) ''Starting'' (Some (co_worker c, r_lease_epoch r)) (co_store c) of
        (s, Inl _) \<Rightarrow> (c\<lparr>co_store := s\<rparr>, None)
      | (s, Inr _) \<Rightarrow>
          (let step = (if iv_type call = ''internal_agent'' then st_phase st else ''invoke'')
           in case begin_step_attempt (r_id r) step (Some (co_worker c, r_lease_epoch r)) s of
                (s', Inl _) \<Rightarrow> (c\<lparr>co_store := s'\<rparr>, None)
              | (s', Inr att) \<Rightarrow> (c\<lparr>co_store := s'\<rparr>,
                  Some \<lparr>wk_run = r, wk_worker = co_worker c,
                    wk_state = (if iv_type call = ''internal_agent'' then st\<lparr>st_attempt := att\<rparr> else st),
                    wk_invocation = call, wk_manifest = m, wk_step = step, wk_attempt = att\<rparr>)))"

definition execute_begin :: "surroundings \<Rightarrow> run_row \<Rightarrow> string \<Rightarrow> coordinator \<Rightarrow> coordinator \<times> working option" where
  "execute_begin su r iid c =
     (case execution_state r of
        None \<Rightarrow> (c, None)
      | Some st \<Rightarrow>
          (let call = invocation_of su r
           in if iv_type call = ''internal_agent'' then start_step r st call None c
              else (case su_manifest su (iv_app call) of
                  None \<Rightarrow> (c, None)
                | Some m \<Rightarrow>
                    (case missing_permission su (co_backend c) (iv_type call) (iv_app call) m of
                       Some what \<Rightarrow> (ask_permission r iid (iv_app call) what c, None)
                     | None \<Rightarrow> start_step r st call (Some m) c))))"

section \<open>The request\<close>

text \<open>
  What leaves the process: a request to the MCP program of an App, running under an identity, or a message to an
  endpoint.
\<close>

datatype contact = Mcp_contact string mcp_identity | Agent_contact string string

text \<open>Exceptions as the handler records them: the class and the message.\<close>

type_synonym raised = "string \<times> string"

text \<open>
  \<^verbatim>\<open>get_or_start_mcp_client\<close>: \<open>healthy\<close> tells whether the existing client runs, \<open>starts\<close> the exception of starting the
  program, if any. A client is kept with the identity it was started under.
\<close>

definition get_or_start_mcp_client ::
  "surroundings \<Rightarrow> bool \<Rightarrow> raised option \<Rightarrow> string \<Rightarrow> app_manifest \<Rightarrow> coordinator \<Rightarrow> coordinator \<times> (raised + mcp_identity option)" where
  "get_or_start_mcp_client su healthy starts app m c =
     (case mcp_permission_identity (su_digest su) m of
        Inl _ \<Rightarrow> (c, Inr None)
      | Inr i \<Rightarrow>
          if healthy \<and> map_of (co_clients c) app = Some i then (c, Inr (Some i))
          else if \<not> is_mcp_identity_approved (co_backend c) app (identity_fields i)
          then (c, Inl (''PermissionError'', ''MCP runtime identity is not durably approved''))
          else (let c' = c\<lparr>co_clients := AList.delete app (co_clients c)\<rparr>
                in case starts of None \<Rightarrow> (c'\<lparr>co_clients := AList.update app i (co_clients c')\<rparr>, Inr (Some i))
                   | Some e \<Rightarrow> (c', Inl e)))"

text \<open>The checks of \<^verbatim>\<open>handle_agent_message\<close> before the request. The URL library and the size bound are arguments.\<close>

definition check_agent_message :: "surroundings \<Rightarrow> string \<Rightarrow> app_manifest \<Rightarrow> json \<Rightarrow> backend \<Rightarrow> raised + string" where
  "check_agent_message su app m message b =
     (case am_agent_url m of
        Some (u # us) \<Rightarrow>
          if \<not> is_agent_approved b app (JStr (u # us)) then Inl (''PermissionError'', ''Agent endpoint is not durably approved'')
          else if \<not> is_dict message then Inl (''ValueError'', ''Agent message must be a JSON object'')
          else if \<not> su_http_url su (u # us) then Inl (''ValueError'', ''Agent endpoint must be an absolute HTTP(S) URL'')
          else if su_credentials su (u # us) then Inl (''ValueError'', ''Agent endpoint must not contain user credentials'')
          else if su_max_request su < su_json_bytes su message
          then Inl (''ValueError'', ''Agent request exceeded '' @ nat_str (su_max_request su) @ '' bytes'')
          else Inr (u # us)
      | _ \<Rightarrow> Inl (''RuntimeError'', ''No agent_url configured in app manifest''))"

text \<open>The result: the exception with \<^verbatim>\<open>effect_started\<close> as it then is, or the contact.\<close>

definition contact_backend ::
  "surroundings \<Rightarrow> bool \<Rightarrow> raised option \<Rightarrow> working \<Rightarrow> coordinator \<Rightarrow> coordinator \<times> ((bool \<times> raised) + contact)" where
  "contact_backend su healthy starts w c =
     (let call = wk_invocation w; app = iv_app call
      in case wk_manifest w of
           None \<Rightarrow> (c, Inl (False, (''ValueError'', ''Backend App is unavailable'')))
         | Some m \<Rightarrow>
             if is_mcp (iv_type call) then
               (case get_or_start_mcp_client su healthy starts app m c of
                  (c', Inl e) \<Rightarrow> (c', Inl (False, e))
                | (c', Inr None) \<Rightarrow> (c', Inl (False, (''ValueError'', ''MCP runtime is unavailable'')))
                | (c', Inr (Some i)) \<Rightarrow>
                    if iv_type call = ''mcp_request'' \<and> \<not> nonempty (iv_tool call)
                    then (c', Inl (False, (''ValueError'', ''MCP request method is missing'')))
                    else (c', Inr (Mcp_contact app i)))
             else if iv_type call = ''agent_message'' then
               (case check_agent_message su app m (r_input (wk_run w)) (co_backend c) of
                  Inl e \<Rightarrow> (c, Inl (True, e))
                | Inr url \<Rightarrow> (c, Inr (Agent_contact app url)))
             else (c, Inl (False, (''ValueError'', ''Unsupported run adapter: '' @ iv_type call))))"

section \<open>After the call\<close>

text \<open>
  How the awaited call ends: the result of a capability, the outcome and state of a reducer step, an exception or
  the cancellation of the task, with the state as the reducer left it and \<^verbatim>\<open>effect_started\<close>.
\<close>

datatype reply =
    Returned json
  | Stepped step_outcome agent_state
  | Raised agent_state bool raised
  | Interrupted agent_state bool

definition commit_of :: "working \<Rightarrow> agent_state \<Rightarrow> step_outcome \<Rightarrow> store \<Rightarrow> store \<times> unit result" where
  "commit_of w st oc = commit_step (r_id (wk_run w)) (wk_step w) (wk_attempt w) (wk_worker w) (r_lease_epoch (wk_run w)) st oc"

definition outcome_text :: "string \<Rightarrow> outcome_base" where
  "outcome_text summary = \<lparr>oc_summary = summary, oc_output = JNull, oc_events = []\<rparr>"

text \<open>The handler of exceptions.\<close>

definition fail_run :: "working \<Rightarrow> agent_state \<Rightarrow> bool \<Rightarrow> raised \<Rightarrow> store \<Rightarrow> store" where
  "fail_run w st effect_started e s =
     (case find_run s (r_id (wk_run w)) of
        None \<Rightarrow> s
      | Some r \<Rightarrow>
          if r_status r \<noteq> S_running then s
          else (let unknown = effect_started \<and> r_recovery r \<noteq> ''restart_safe''
                in fst (commit_of w st (Failed (outcome_text (if unknown then ''Run needs attention'' else ''Run failed''))
                     (fst e) (snd e) False (if unknown then E_unknown else E_none)) s)))"

text \<open>The handler of the cancellation of the task.\<close>

definition durable_effect_unknown :: "working \<Rightarrow> agent_state \<Rightarrow> bool" where
  "durable_effect_unknown w st \<longleftrightarrow> iv_type (wk_invocation w) = ''internal_agent'' \<and>
     list_ex (\<lambda>k. case map_of (st_data st) k of Some v \<Rightarrow> truthy v | None \<Rightarrow> False)
       [''non_compensable_effect'', ''effects_committed'', ''effect_in_flight'']"

definition acknowledge_cancel :: "working \<Rightarrow> agent_state \<Rightarrow> bool \<Rightarrow> store \<Rightarrow> store" where
  "acknowledge_cancel w st effect_started s =
     (case find_run s (r_id (wk_run w)) of
        None \<Rightarrow> s
      | Some r \<Rightarrow>
          if r_status r \<noteq> S_cancel_requested then s
          else (let unknown = durable_effect_unknown w st \<or> effect_started \<and> r_recovery r \<noteq> ''restart_safe''
                in fst (commit_of w st (Cancelled (outcome_text
                       (if unknown then ''Cancellation requested; external effect is unknown'' else ''Cancelled''))
                     (if unknown then E_unknown else E_none)) s)))"

definition artifacts_of :: "json \<Rightarrow> json list option" where
  "artifacts_of result =
     (case result of
        JObj d \<Rightarrow> (case map_of d ''artifacts'' of None \<Rightarrow> Some [] | Some (JArr xs) \<Rightarrow> Some xs | Some _ \<Rightarrow> None)
      | _ \<Rightarrow> Some [])"

definition raised_by :: "py_error \<Rightarrow> raised" where
  "raised_by e = (error_class e, error_message e)"

text \<open>
  The commit of a result. An exception of the commit that is not about the lease goes to the handler.
\<close>

definition commit_or_fail :: "working \<Rightarrow> agent_state \<Rightarrow> bool \<Rightarrow> step_outcome \<Rightarrow> store \<Rightarrow> store" where
  "commit_or_fail w st effect_started oc s =
     (case commit_of w st oc s of
        (s', Inr _) \<Rightarrow> s'
      | (s', Inl (StaleLeaseError _)) \<Rightarrow> s'
      | (s', Inl e) \<Rightarrow> fail_run w st effect_started (raised_by e) s')"

definition commit_result :: "working \<Rightarrow> json \<Rightarrow> store \<Rightarrow> store" where
  "commit_result w result s =
     (let call = wk_invocation w; st = wk_state w;
          bad = (case iv_action call of Some a \<Rightarrow> validate_json_schema result (ca_result_schema a) ''result'' | None \<Rightarrow> None);
          title = (case iv_action call of Some a \<Rightarrow> ca_title a | None \<Rightarrow> r_action_title (wk_run w))
      in case bad of
           Some e \<Rightarrow> fail_run w st True (raised_by e) s
         | None \<Rightarrow>
             (case artifacts_of result of
                None \<Rightarrow> fail_run w st True (''ValidationError'', ''artifacts'') s
              | Some arts \<Rightarrow> commit_or_fail w st True
                  (Succeeded \<lparr>oc_summary = title @ '' completed'', oc_output = result, oc_events = []\<rparr> result arts) s))"

definition execute_end :: "working \<Rightarrow> reply \<Rightarrow> store \<Rightarrow> store" where
  "execute_end w reply s =
     (case reply of
        Returned result \<Rightarrow> commit_result w result s
      | Stepped oc st \<Rightarrow> commit_or_fail w st False oc s
      | Raised st started e \<Rightarrow> if fst e = ''StaleLeaseError'' then s else fail_run w st started e s
      | Interrupted st started \<Rightarrow> acknowledge_cancel w st started s)"

end
