(* ===== verification/Run_Gate.thy ===== *)
theory Run_Gate
  imports Run_Execution Run_Claims
begin

text \<open>
  The coordinator, the approvals and the store together: nothing is started or contacted for an App without an
  answer of the user that named exactly that program or endpoint, whatever else happens in between.
\<close>

section \<open>The machine\<close>

text \<open>
  One step of the system: any command of the store (also by other users of it), the application of approved grants,
  a segment of an execution, the end of a program, the disk of the approvals becoming (un)writable, or a new
  process on the files of the old one. Each contact is observed. Apps may change between steps, so each execution
  segment brings its own surroundings.
\<close>

datatype system_step =
    Y_store command
  | Y_grants bool
  | Y_begin surroundings run_row string
  | Y_contact surroundings bool "raised option" working
  | Y_end working reply
  | Y_client_gone string
  | Y_disk bool
  | Y_new_process string

definition restarted :: "string \<Rightarrow> coordinator \<Rightarrow> coordinator" where
  "restarted worker c =
     (case load_permissions (bp_file (co_backend c)) of
        Inl _ \<Rightarrow> c
      | Inr perms \<Rightarrow> c\<lparr>co_backend := (co_backend c)\<lparr>bp_permissions := perms\<rparr>, co_clients := [], co_active := [], co_worker := worker\<rparr>)"

fun perform :: "system_step \<Rightarrow> coordinator \<Rightarrow> coordinator \<times> contact option" where
  "perform (Y_store cmd) c = (on_store (exec cmd) c, None)"
| "perform (Y_grants due_only) c = (recover_permission_grants due_only c, None)"
| "perform (Y_begin su r iid) c = (fst (execute_begin su r iid c), None)"
| "perform (Y_contact su healthy starts w) c =
     (case contact_backend su healthy starts w c of (c', Inr x) \<Rightarrow> (c', Some x) | (c', Inl _) \<Rightarrow> (c', None))"
| "perform (Y_end w reply) c = (on_store (execute_end w reply) c, None)"
| "perform (Y_client_gone app) c = (c\<lparr>co_clients := AList.delete app (co_clients c)\<rparr>, None)"
| "perform (Y_disk ok) c = (c\<lparr>co_backend := (co_backend c)\<lparr>bp_writable := ok\<rparr>\<rparr>, None)"
| "perform (Y_new_process worker) c = (restarted worker c, None)"

definition after :: "system_step list \<Rightarrow> coordinator \<Rightarrow> coordinator" where
  "after steps c = fold (\<lambda>y c. fst (perform y c)) steps c"

text \<open>The approvals of a store, by the type and value of the question; those of a history, newest last.\<close>

definition is_approval :: "interaction_row \<Rightarrow> bool" where
  "is_approval i \<longleftrightarrow> i_type i = ''permission'' \<and> i_status i = I_resolved \<and>
     (case i_response i of Some v \<Rightarrow> approved v | None \<Rightarrow> False)"

definition approvals_in :: "store \<Rightarrow> (json option \<times> json) list" where
  "approvals_in s = map (\<lambda>i. (dget (i_payload i) ''permission_type'', asked_value i)) (filter is_approval (db_interactions s))"

fun approvals_along :: "system_step list \<Rightarrow> coordinator \<Rightarrow> (json option \<times> json) list" where
  "approvals_along [] c = approvals_in (co_store c)"
| "approvals_along (y # ys) c = approvals_in (co_store c) @ approvals_along ys (fst (perform y c))"

text \<open>An approval covers a contact when its question named the App and exactly the program identity, or the URL.\<close>

fun covers :: "json option \<times> json \<Rightarrow> contact \<Rightarrow> bool" where
  "covers (ty, v) (Mcp_contact app i) \<longleftrightarrow> ty = Some (JStr ''mcp_spawn'') \<and> dget v ''app_id'' = Some (JStr app) \<and>
     (case dget v ''identity'' of Some (JObj kvs) \<Rightarrow> normalize_mcp_identity kvs = Inr i | _ \<Rightarrow> False)"
| "covers (ty, v) (Agent_contact app url) \<longleftrightarrow> ty = Some (JStr ''agent_connect'') \<and> dget v ''app_id'' = Some (JStr app) \<and>
     dget v ''agent_url'' = Some (JStr url)"

definition covered :: "(json option \<times> json) set \<Rightarrow> contact \<Rightarrow> bool" where
  "covered A x \<longleftrightarrow> (\<exists>a \<in> A. covers a x)"

lemma covered_mono: "covered A x \<Longrightarrow> A \<subseteq> B \<Longrightarrow> covered B x"
  by (auto simp: covered_def)

section \<open>Approvals rest on answers\<close>

definition backed :: "(json option \<times> json) set \<Rightarrow> backend \<Rightarrow> bool" where
  "backed A b \<longleftrightarrow>
     (\<forall>app i. contains (grants_of (bp_permissions b) app ''mcp_servers'') (identity_json i) \<longrightarrow> covered A (Mcp_contact app i)) \<and>
     (\<forall>app url. contains (grants_of (bp_permissions b) app ''agents'') (JStr url) \<longrightarrow> covered A (Agent_contact app url))"

lemma backed_mono: "backed A b \<Longrightarrow> A \<subseteq> B \<Longrightarrow> backed B b"
  by (simp add: backed_def covered_mono[of A _ B])

lemma backed_mcp: "backed A b \<Longrightarrow> is_mcp_identity_approved b app (identity_fields i) \<Longrightarrow> covered A (Mcp_contact app i)"
proof -
  assume *: "backed A b" "is_mcp_identity_approved b app (identity_fields i)"
  then obtain j where j: "normalize_mcp_identity (identity_fields i) = Inr j"
    "contains (grants_of (bp_permissions b) app ''mcp_servers'') (identity_json j)"
    by (auto simp: is_mcp_identity_approved_def split: sum.splits)
  have "j = i" using j(1)
    by (auto simp: normalize_mcp_identity_def identity_fields_def json_or_null_def split: if_splits json.splits list.splits)
  with j(2) * show ?thesis by (simp add: backed_def)
qed

lemma backed_agent: "backed A b \<Longrightarrow> is_agent_approved b app (JStr url) \<Longrightarrow> covered A (Agent_contact app url)"
  by (simp add: backed_def is_agent_approved_def)

lemma not_legacy [simp]: "\<not> py_eq (identity_json i) (legacy_target c a)"
  by (simp add: identity_json_def identity_fields_def legacy_target_def)

lemma approve_backed:
  assumes "backed A b" "approve app kind v b = (b', Inr ())"
    and "\<And>i. kind = ''mcp_servers'' \<Longrightarrow> py_eq (identity_json i) v \<Longrightarrow> covered A (Mcp_contact app i)"
    and "\<And>url. kind = ''agents'' \<Longrightarrow> v = JStr url \<Longrightarrow> covered A (Agent_contact app url)"
  shows "backed A b'"
  using assms by (auto simp: backed_def approve_grants[OF assms(2)])

lemma apply_intent_backed:
  assumes "backed A b" "(Some (JStr (g_permission_type g)), g_value g) \<in> A" "apply_intent g b = (b', Inr ())"
  shows "backed A b'"
proof -
  from assms(3) obtain app where app: "dget (g_value g) ''app_id'' = Some (JStr app)"
    by (auto simp: apply_intent_def Let_def split: if_splits option.splits json.splits)
  have mcp: "approve_mcp_identity app kvs b = (b', Inr ()) \<Longrightarrow> dget (g_value g) ''identity'' = Some (JObj kvs) \<Longrightarrow>
      g_permission_type g = ''mcp_spawn'' \<Longrightarrow> backed A b'" for kvs
  proof -
    assume *: "approve_mcp_identity app kvs b = (b', Inr ())" "dget (g_value g) ''identity'' = Some (JObj kvs)"
      "g_permission_type g = ''mcp_spawn''"
    then obtain j where j: "normalize_mcp_identity kvs = Inr j" "approve app ''mcp_servers'' (identity_json j) b = (b', Inr ())"
      by (auto simp: approve_mcp_identity_def split: sum.splits)
    have "covers (Some (JStr (g_permission_type g)), g_value g) (Mcp_contact app j)" using app * j(1) by simp
    then have "covered A (Mcp_contact app j)" unfolding covered_def by (rule bexI[OF _ assms(2)])
    then show ?thesis by (intro approve_backed[OF assms(1) j(2)]) simp_all
  qed
  have legacy: "approve_mcp app cm args b = (b', Inr ()) \<Longrightarrow> backed A b'" for cm args
  proof -
    assume "approve_mcp app cm args b = (b', Inr ())"
    then have "approve app ''mcp_servers'' (legacy_target cm args) b = (b', Inr ())" by (simp add: approve_mcp_def)
    then show ?thesis by (rule approve_backed[OF assms(1)]) simp_all
  qed
  have older: "approve_older app v b = (b', Inr ()) \<Longrightarrow> backed A b'" for v
    by (auto simp: approve_older_def split: option.splits json.splits intro: legacy)
  have agent: "approve_agent app url b = (b', Inr ()) \<Longrightarrow> dget (g_value g) ''agent_url'' = Some url \<Longrightarrow>
      g_permission_type g = ''agent_connect'' \<Longrightarrow> backed A b'" for url
  proof -
    assume *: "approve_agent app url b = (b', Inr ())" "dget (g_value g) ''agent_url'' = Some url" "g_permission_type g = ''agent_connect''"
    have cov: "covered A (Agent_contact app u)" if "url = JStr u" for u
    proof -
      have "covers (Some (JStr (g_permission_type g)), g_value g) (Agent_contact app u)" using app * that by simp
      then show ?thesis unfolding covered_def by (rule bexI[OF _ assms(2)])
    qed
    have "approve app ''agents'' url b = (b', Inr ())" using *(1) by (simp add: approve_agent_def)
    then show ?thesis by (rule approve_backed[OF assms(1)]) (simp_all add: cov)
  qed
  show ?thesis using assms(3) app
    by (auto simp: apply_intent_def Let_def split: if_splits option.splits json.splits intro: mcp older agent)
qed

lemma apply_intent_coherent: "coherent b \<Longrightarrow> coherent (fst (apply_intent g b))"
proof -
  assume b: "coherent b"
  have "coherent (fst (approve app kind v b))" if "kind \<in> {''mcp_servers'', ''agents''}" for app kind v
    using approve_coherent[OF b that] by (cases "approve app kind v b") auto
  then show ?thesis
    using b by (auto simp: apply_intent_def approve_older_def Let_def approve_mcp_identity_def approve_mcp_def approve_agent_def
        split: if_splits option.splits json.splits sum.splits)
qed

section \<open>The invariant of the system\<close>

definition system_ok :: "(json option \<times> json) set \<Rightarrow> coordinator \<Rightarrow> bool" where
  "system_ok A c \<longleftrightarrow> tables_ok (co_store c) \<and> backed A (co_backend c) \<and> coherent (co_backend c) \<and>
     (\<forall>app i. map_of (co_clients c) app = Some i \<longrightarrow> covered A (Mcp_contact app i))"

lemma system_mono: "system_ok A c \<Longrightarrow> A \<subseteq> B \<Longrightarrow> system_ok B c"
  using backed_mono[of A _ B] covered_mono[of A _ B] by (simp add: system_ok_def)

lemma system_store: "system_ok A c \<Longrightarrow> tables_ok s \<Longrightarrow> system_ok A (c\<lparr>co_store := s\<rparr>)"
  by (simp add: system_ok_def)

lemma system_on_store: "system_ok A c \<Longrightarrow> tables_ok (f (co_store c)) \<Longrightarrow> system_ok A (on_store f c)"
  by (simp add: system_ok_def)

lemma granted_approval:
  assumes "granted is g"
  shows "(Some (JStr (g_permission_type g)), g_value g) \<in>
    set (map (\<lambda>i. (dget (i_payload i) ''permission_type'', asked_value i)) (filter is_approval is))"
  using assms by (force simp: granted_def is_approval_def)

lemma apply_grant_ok:
  assumes "system_ok A c" "(Some (JStr (g_permission_type g)), g_value g) \<in> A"
  shows "system_ok A (apply_grant g c)"
proof (cases "apply_intent g (co_backend c)")
  case (Pair b r)
  have co: "coherent b" using apply_intent_coherent[of "co_backend c" g] assms(1) Pair by (simp add: system_ok_def)
  show ?thesis
  proof (cases r)
    case (Inl e)
    then show ?thesis using assms(1) Pair tables.inv_defer_grant
      by (simp add: apply_grant_def system_ok_def)
  next
    case (Inr u)
    then have "apply_intent g (co_backend c) = (b, Inr ())" using Pair by (cases u) simp
    from apply_intent_backed[OF _ assms(2) this] have "backed A b" using assms(1) by (simp add: system_ok_def)
    then show ?thesis using assms(1) Pair Inr co tables.inv_complete_grant
      by (simp add: apply_grant_def system_ok_def)
  qed
qed

lemma grants_ok: "system_ok A c \<Longrightarrow> set (approvals_in (co_store c)) \<subseteq> A \<Longrightarrow> system_ok A (recover_permission_grants d c)"
proof -
  assume c: "system_ok A c" "set (approvals_in (co_store c)) \<subseteq> A"
  have "(Some (JStr (g_permission_type g)), g_value g) \<in> A" if "g \<in> set (pending_permission_grants (co_store c) d)" for g
  proof -
    have "g \<in> set (db_outbox (co_store c))" using that by (simp add: pending_permission_grants_def)
    then have "granted (db_interactions (co_store c)) g" using c(1) by (simp add: system_ok_def tables_ok_def)
    from granted_approval[OF this] c(2) show ?thesis by (auto simp: approvals_in_def)
  qed
  then have "system_ok A (fold apply_grant gs c')" if "system_ok A c'" "set gs \<subseteq> set (pending_permission_grants (co_store c) d)" for gs c'
    using that by (induction gs arbitrary: c') (simp_all add: apply_grant_ok)
  with c(1) show ?thesis by (simp add: recover_permission_grants_def)
qed

lemma start_step_ok: "system_ok A c \<Longrightarrow> system_ok A (fst (start_step r st iv m c))"
proof -
  assume c: "system_ok A c"
  obtain s x where p: "update_progress (r_id r) (1 / 20) ''Starting'' (Some (co_worker c, r_lease_epoch r)) (co_store c) = (s, x)"
    by fastforce
  have s: "tables_ok s" using c tables.inv_update_progress p[THEN arg_cong[of _ _ fst]] by (metis fst_conv system_ok_def)
  let ?step = "if iv_type iv = ''internal_agent'' then st_phase st else ''invoke''"
  obtain t y where q: "begin_step_attempt (r_id r) ?step (Some (co_worker c, r_lease_epoch r)) s = (t, y)"
    by fastforce
  have "tables_ok t" using s tables.inv_begin_step q[THEN arg_cong[of _ _ fst]] by (metis fst_conv)
  with s c show ?thesis
    by (cases x; cases y) (simp_all add: start_step_def p q Let_def system_store)
qed

lemma execute_begin_ok: "system_ok A c \<Longrightarrow> system_ok A (fst (execute_begin su r iid c))"
  using start_step_ok tables.inv_wait
  by (auto simp: execute_begin_def Let_def ask_permission_def system_ok_def split: option.splits)

lemma commit_of_tables: "tables_ok s \<Longrightarrow> tables_ok (fst (commit_of w st oc s))"
  by (simp add: commit_of_def tables.inv_commit_step)

lemma fail_run_tables: "tables_ok s \<Longrightarrow> tables_ok (fail_run w st b e s)"
  by (simp add: fail_run_def Let_def commit_of_tables split: option.splits)

lemma commit_or_fail_tables: "tables_ok s \<Longrightarrow> tables_ok (commit_or_fail w st b oc s)"
proof -
  assume s: "tables_ok s"
  obtain t r where t: "commit_of w st oc s = (t, r)" by fastforce
  have "tables_ok t" using commit_of_tables[OF s, of w st oc] t by simp
  then show ?thesis by (simp add: commit_or_fail_def t fail_run_tables split: sum.splits py_error.splits)
qed

lemma execute_end_tables: "tables_ok s \<Longrightarrow> tables_ok (execute_end w reply s)"
  by (simp add: execute_end_def commit_result_def acknowledge_cancel_def Let_def fail_run_tables commit_or_fail_tables commit_of_tables
      split: reply.splits option.splits)

lemma get_client_ok:
  assumes "system_ok A c" "get_or_start_mcp_client su healthy starts app m c = (c', r)"
  shows "system_ok A c' \<and> (\<forall>i. r = Inr (Some i) \<longrightarrow> covered A (Mcp_contact app i))"
proof -
  note b = assms(1)[unfolded system_ok_def]
  show ?thesis
    using assms(2) b backed_mcp[of A "co_backend c" app]
    by (auto simp: get_or_start_mcp_client_def Let_def system_ok_def update_conv' delete_conv' restrict_map_def
        split: sum.splits if_splits option.splits)
qed

lemma check_agent_covered:
  assumes "backed A b" "check_agent_message su app m msg b = Inr url"
  shows "covered A (Agent_contact app url)"
  using assms backed_agent[OF assms(1)]
  by (auto simp: check_agent_message_def split: if_splits option.splits list.splits)

lemma contact_ok:
  assumes "system_ok A c" "contact_backend su healthy starts w c = (c', r)"
  shows "system_ok A c' \<and> (\<forall>x. r = Inr x \<longrightarrow> covered A x)"
proof (cases "wk_manifest w")
  case None
  with assms show ?thesis by (auto simp: contact_backend_def Let_def)
next
  case (Some m)
  let ?iv = "wk_invocation w"
  consider "is_mcp (iv_type ?iv)" | "\<not> is_mcp (iv_type ?iv)" "iv_type ?iv = ''agent_message''"
    | "\<not> is_mcp (iv_type ?iv)" "iv_type ?iv \<noteq> ''agent_message''" by blast
  then show ?thesis
  proof cases
    case 1
    obtain d q where d: "get_or_start_mcp_client su healthy starts (iv_app ?iv) m c = (d, q)" by fastforce
    note get_client_ok[OF assms(1) d]
    with assms(2) Some 1 d show ?thesis
      by (auto simp: contact_backend_def Let_def split: sum.splits option.splits if_splits)
  next
    case 2
    have "backed A (co_backend c)" using assms(1) by (simp add: system_ok_def)
    from check_agent_covered[OF this] assms Some 2 show ?thesis
      by (auto simp: contact_backend_def Let_def split: sum.splits)
  next
    case 3
    with assms Some show ?thesis by (auto simp: contact_backend_def Let_def)
  qed
qed

lemma restarted_ok: "system_ok A c \<Longrightarrow> system_ok A (restarted worker c)"
  by (auto simp: restarted_def system_ok_def coherent_def backed_def split: sum.splits)

lemma perform_ok:
  assumes "system_ok A c" "set (approvals_in (co_store c)) \<subseteq> A" "perform y c = (c', r)"
  shows "system_ok A c' \<and> (\<forall>x. r = Some x \<longrightarrow> covered A x)"
proof (cases y)
  case (Y_store cmd)
  then show ?thesis using assms tables.inv_exec by (auto simp: system_ok_def)
next
  case (Y_grants d)
  then show ?thesis using assms grants_ok by auto
next
  case (Y_begin su q iid)
  then show ?thesis using assms execute_begin_ok by auto
next
  case (Y_contact su h st w)
  obtain d q where d: "contact_backend su h st w c = (d, q)" by fastforce
  from contact_ok[OF assms(1) this] show ?thesis using assms(3) Y_contact d by (auto split: sum.splits)
next
  case (Y_end w reply)
  then show ?thesis using assms execute_end_tables by (auto simp: system_ok_def)
next
  case (Y_client_gone app)
  then show ?thesis using assms by (auto simp: system_ok_def delete_conv' restrict_map_def split: if_splits)
next
  case (Y_disk b)
  then show ?thesis using assms by (auto simp: system_ok_def coherent_def backed_def)
next
  case (Y_new_process w)
  then show ?thesis using assms restarted_ok by auto
qed

text \<open>The last state of a history belongs to it.\<close>

lemma approvals_last: "set (approvals_in (co_store (after ys c))) \<subseteq> set (approvals_along ys c)"
  by (induction ys arbitrary: c) (auto simp: after_def)

lemma history_ok:
  "system_ok A c \<Longrightarrow> system_ok (A \<union> set (approvals_along ys c)) (after ys c)"
proof (induction ys arbitrary: A c)
  case Nil
  then show ?case by (simp add: after_def system_mono)
next
  case (Cons y ys)
  let ?B = "A \<union> set (approvals_in (co_store c))"
  have "system_ok ?B (fst (perform y c))"
    using perform_ok[of ?B c y "fst (perform y c)" "snd (perform y c)"] system_mono[OF Cons.prems] by simp
  from Cons.IH[OF this] show ?case by (simp add: after_def Un_assoc)
qed

text \<open>A coordinator that starts with no approvals and no programs.\<close>

definition fresh_system :: "coordinator \<Rightarrow> bool" where
  "fresh_system c \<longleftrightarrow> tables_ok (co_store c) \<and> bp_permissions (co_backend c) = [] \<and> bp_file (co_backend c) = None \<and> co_clients c = []"

lemma fresh_ok: "fresh_system c \<Longrightarrow> system_ok {} c"
  by (simp add: fresh_system_def system_ok_def backed_def coherent_def load_permissions_def grants_of_def contains_def)

text \<open>
  Property C13 (gated): no program is started and no endpoint contacted without the consent of the user. Take any
  history of a system that began without approvals: commands of the store in any order, grants being applied or
  deferred, executions begun and ended, failures of the disk, restarts. If the next step of an execution contacts the
  MCP program of an App, the user answered, at some point of that history, a permission question with the literal
  approval that named this App and exactly this command, arguments, environment digest and manifest revision; and if it
  contacts an endpoint, one that named this App and exactly this URL.
\<close>

theorem contacts_were_approved:
  assumes "fresh_system c" "perform (Y_contact su healthy starts w) (after steps c) = (c', Some x)"
  shows "\<exists>a \<in> set (approvals_along steps c). covers a x"
proof -
  have "system_ok (set (approvals_along steps c)) (after steps c)" using history_ok[OF fresh_ok[OF assms(1)], of steps] by simp
  from perform_ok[OF this approvals_last assms(2)] show ?thesis by (simp add: covered_def)
qed

section \<open>A history with a contact\<close>

text \<open>An MCP App whose question is asked, approved and applied.\<close>

definition gate_manifest :: app_manifest where
  "gate_manifest = \<lparr>am_id = ''a'', am_title = ''A'', am_description = [], am_app_version = ''1'', am_intents = [], am_schema_refs = [],
     am_capabilities = [], am_backend_type = ''mcp'',
     am_mcp_server = Some \<lparr>mcp_command = [''run''], mcp_args = [], mcp_env = []\<rparr>, am_agent_url = None, am_app_spec = None\<rparr>"

definition gate_su :: surroundings where
  "gate_su = \<lparr>su_manifest = (\<lambda>_. Some gate_manifest), su_action = (\<lambda>_ _. None), su_executor = False,
     su_digest = (\<lambda>_. replicate 64 (CHR ''a'')), su_http_url = (\<lambda>_. True), su_credentials = (\<lambda>_. False),
     su_json_bytes = (\<lambda>_. 0), su_max_request = 0\<rparr>"

definition gate_start :: coordinator where
  "gate_start = \<lparr>co_store = empty_store ''/w'' 0 \<lparr>fs_dirs = [], fs_links = [], fs_markers = [], fs_hashes = [], fs_verdicts = [], fs_stuck = []\<rparr>,
     co_backend = \<lparr>bp_permissions = [], bp_file = None, bp_writable = True\<rparr>, co_worker = ''w'', co_active = [],
     co_global_limit = 4, co_owner_limit = 1, co_clients = []\<rparr>"

definition gate_request :: run_request where
  "gate_request = (base_request ''app:a'' ''echo'' ''echo'' ''user'' None ''mcp_tool'' ''a'' (JObj []) ''manual'')\<lparr>rq_tool_name := Some ''echo'', rq_status := S_waiting_user\<rparr>"

definition gate_run :: run_row where
  "gate_run = new_run 0 ''r'' gate_request"

definition gate_question :: json where
  "gate_question = permission_request ''q'' gate_run 1 ''a''
     (the (missing_permission gate_su (co_backend gate_start) ''mcp_tool'' ''a'' gate_manifest))"

definition gate_steps :: "system_step list" where
  "gate_steps = [Y_store (C_create ''r'' gate_request), Y_store (C_create_interaction ''r'' ''permission'' ''Allow?'' gate_question ''q''),
     Y_store (C_resolve ''q'' (JBool True) None None [] None), Y_grants False]"

definition gate_working :: working where
  "gate_working = \<lparr>wk_run = gate_run, wk_worker = ''w'', wk_state = default_state, wk_invocation = invocation_of gate_su gate_run,
     wk_manifest = Some gate_manifest, wk_step = ''invoke'', wk_attempt = 1\<rparr>"

definition gate_identity :: mcp_identity where
  "gate_identity = \<lparr>mi_command = [''run''], mi_args = [], mi_env_digest = replicate 64 (CHR ''a''), mi_revision = manifest_revision gate_manifest\<rparr>"

definition gate_value :: json where
  "gate_value = JObj [(''app_id'', JStr ''a''), (''command'', texts [''run'']), (''args'', texts []), (''identity'', identity_json gate_identity)]"

lemma gate_identity: "mcp_permission_identity (su_digest gate_su) gate_manifest = Inr gate_identity"
  by (simp add: mcp_permission_identity_def gate_su_def gate_manifest_def gate_identity_def sorted_env_def)

lemma gate_revision: "manifest_revision gate_manifest \<noteq> []"
  by (simp add: gate_manifest_def manifest_revision_def)

lemma gate_identity_ok [simp]: "identity_ok gate_identity"
  using gate_revision by (simp add: identity_ok_def gate_identity_def hex_digest_def list_all_iff is_hex_def char_between_def)

lemma gate_server: "am_mcp_server gate_manifest = Some \<lparr>mcp_command = [''run''], mcp_args = [], mcp_env = []\<rparr>"
  by (simp add: gate_manifest_def)

lemma gate_start_simps [simp]:
  "db_runs (co_store gate_start) = []" "db_interactions (co_store gate_start) = []" "db_outbox (co_store gate_start) = []"
  "db_clock (co_store gate_start) = 0" "bp_permissions (co_backend gate_start) = []" "bp_writable (co_backend gate_start)"
  by (simp_all add: gate_start_def empty_store_def)

lemma gate_missing: "missing_permission gate_su (co_backend gate_start) ''mcp_tool'' ''a'' gate_manifest = Some (''mcp_spawn'', gate_value)"
  by (simp add: missing_permission_def is_mcp_def gate_identity gate_server is_mcp_identity_approved_def grants_of_def contains_def gate_value_def)

definition gate_interaction :: interaction_row where
  "gate_interaction = new_interaction 0 ''q'' ''r'' ''permission'' ''Allow?'' gate_question 1"

definition gate_created :: store where "gate_created = exec (C_create ''r'' gate_request) (co_store gate_start)"
definition gate_asked :: store where "gate_asked = exec (C_create_interaction ''r'' ''permission'' ''Allow?'' gate_question ''q'') gate_created"
definition gate_answered :: store where "gate_answered = exec (C_resolve ''q'' (JBool True) None None [] None) gate_asked"

lemma gate_created_simps [simp]:
  "db_runs gate_created = [gate_run]" "db_interactions gate_created = []" "db_outbox gate_created = []" "db_clock gate_created = 0"
  by (simp_all add: gate_created_def create_run_def transact_def create_run_tx_def insert_run_def gate_run_def
      run_insert_ok_def find_run_def foreign_ok_def gate_request_def base_request_def)

lemma gate_run_simps [simp]: "r_id gate_run = ''r''" "r_status gate_run = S_waiting_user" "r_version gate_run = 1" "r_adapter_type gate_run = ''mcp_tool''"
  by (simp_all add: gate_run_def new_run_def gate_request_def base_request_def)

lemma gate_asked_simps [simp]:
  "db_runs gate_asked = [gate_run]" "db_interactions gate_asked = [gate_interaction]" "db_outbox gate_asked = []" "db_clock gate_asked = 0"
  by (simp_all add: gate_asked_def create_interaction_def transact_def create_interaction_tx_def find_interaction_def run_or_key_error_def find_run_def
      terminal_iff Let_def gate_interaction_def insert_interaction_def)

lemma gate_question_simps: "permission_type_of gate_interaction = Inr (Some (JStr ''mcp_spawn''))" "asked_value gate_interaction = gate_value"
  by (simp_all add: gate_interaction_def new_interaction_def permission_type_of_def gate_question_def permission_request_def gate_missing asked_value_def
      gate_value_def)

lemma gate_resolve: "resolve_interaction_tx ''q'' (JBool True) None None [] None gate_asked =
    Inr (apply_resolution gate_interaction (JBool True) S_queued (Some ''mcp_spawn'') [] None gate_run gate_asked, ())"
  by (simp add: resolve_interaction_tx_def find_interaction_def run_or_key_error_def find_run_def Let_def resolution_target_def
      gate_question_simps approved_def grant_type_def GRANT_TYPES_def)
    (simp add: gate_interaction_def new_interaction_def)

lemma gate_answered_simps [simp]:
  "db_outbox gate_answered = [new_grant 0 gate_interaction ''mcp_spawn'']"
  "db_interactions gate_answered = [answer_row (JBool True) 0 gate_interaction]"
proof -
  have *: "gate_answered = apply_resolution gate_interaction (JBool True) S_queued (Some ''mcp_spawn'') [] None gate_run gate_asked"
    using gate_resolve by (simp add: gate_answered_def resolve_interaction_def transact_def)
  show "db_outbox gate_answered = [new_grant 0 gate_interaction ''mcp_spawn'']"
    "db_interactions gate_answered = [answer_row (JBool True) 0 gate_interaction]"
    unfolding * by (simp_all add: apply_resolution_def Let_def upd_interactions_def answer_row_def)
qed

definition gate_granted :: coordinator where
  "gate_granted = apply_grant (new_grant 0 gate_interaction ''mcp_spawn'') (gate_start\<lparr>co_store := gate_answered\<rparr>)"

lemma gate_after: "after gate_steps gate_start = gate_granted"
proof -
  have "after gate_steps gate_start = recover_permission_grants False (gate_start\<lparr>co_store := gate_answered\<rparr>)"
    by (simp add: after_def gate_steps_def on_store_def gate_answered_def gate_asked_def gate_created_def)
  then show ?thesis by (simp add: gate_granted_def recover_permission_grants_def pending_permission_grants_def new_grant_def)
qed

lemma gate_backend: "is_mcp_identity_approved (co_backend gate_granted) ''a'' (identity_fields gate_identity)"
proof -
  let ?g = "new_grant 0 gate_interaction ''mcp_spawn''"
  obtain b where b: "approve_mcp_identity ''a'' (identity_fields gate_identity) (co_backend gate_start) = (b, Inr ())"
    by (simp add: approve_mcp_identity_def approve_def contains_def grants_of_def save_permissions_def)
  have "apply_intent ?g (co_backend gate_start) = (b, Inr ())"
    using b by (simp add: apply_intent_def new_grant_def gate_question_simps gate_value_def identity_json_def)
  then have "co_backend gate_granted = b" by (simp add: gate_granted_def apply_grant_def)
  with approve_mcp_identity_exact[OF gate_identity_ok gate_identity_ok b, of "''a''"] show ?thesis by simp
qed

lemma gate_contact:
  "\<exists>c'. perform (Y_contact gate_su False None gate_working) (after gate_steps gate_start) = (c', Some (Mcp_contact ''a'' gate_identity))"
  using gate_backend gate_identity
  by (simp add: gate_after contact_backend_def gate_working_def Let_def get_or_start_mcp_client_def)
    (simp add: invocation_of_def resolve_action_def is_mcp_def gate_run_def new_run_def gate_request_def base_request_def)

theorem contacts_were_approved_witness:
  "fresh_system gate_start \<and> (\<exists>c'. perform (Y_contact gate_su False None gate_working) (after gate_steps gate_start) =
     (c', Some (Mcp_contact ''a'' gate_identity))) \<and>
   (\<exists>a \<in> set (approvals_along gate_steps gate_start). covers a (Mcp_contact ''a'' gate_identity))"
proof -
  have "fresh_system gate_start"
    by (simp add: fresh_system_def) (simp add: gate_start_def tables_ok_def empty_store_def run_ids_def interaction_ids_def)
  moreover from gate_contact obtain c' where
    "perform (Y_contact gate_su False None gate_working) (after gate_steps gate_start) = (c', Some (Mcp_contact ''a'' gate_identity))" ..
  ultimately show ?thesis using contacts_were_approved by blast
qed
end
