(* ===== verification/Run_Loop.thy ===== *)
theory Run_Loop
  imports Run_Execution Run_Claims Run_Examples
begin

text \<open>
  The scheduler's loop over claims: it ends, respects the places of the process, and leaves nothing it could have
  claimed.
\<close>

section \<open>One claim\<close>

lemma claim_loop_full: "co_global_limit c \<le> length (co_active c) \<Longrightarrow> claim_loop c = (c, [])"
  by (subst claim_loop.simps) simp

lemma claim_loop_step:
  assumes "length (co_active c) < co_global_limit c"
  shows "claim_loop c =
    (if co_global_limit c \<le> running_count (co_store c) then (c, [])
     else (case claim_choice (co_store c) (co_owner_limit c) (co_active c) of
         None \<Rightarrow> (c, [])
       | Some r \<Rightarrow> (case claim_loop (c\<lparr>co_store := apply_claim (co_worker c) 30 r (co_store c), co_active := co_active c @ [r_id r]\<rparr>) of
           (c', rids) \<Rightarrow> (c', r_id r # rids))))"
  using assms by (subst claim_loop.simps) (simp add: claim_next_def transact_def claim_next_tx_def split: option.splits)

text \<open>A pass stops for one of three reasons.\<close>

definition pass_over :: "coordinator \<Rightarrow> bool" where
  "pass_over c \<longleftrightarrow> co_global_limit c \<le> length (co_active c) \<or> co_global_limit c \<le> running_count (co_store c) \<or>
     claim_choice (co_store c) (co_owner_limit c) (co_active c) = None"

definition working_for :: "coordinator \<Rightarrow> string \<Rightarrow> bool" where
  "working_for c rid \<longleftrightarrow> (case find_run (co_store c) rid of
     Some r \<Rightarrow> r_status r = S_running \<and> r_lease_owner r = Some (co_worker c) | None \<Rightarrow> False)"

lemma claim_keeps_working:
  assumes "working_for c rid"
  shows "working_for (c\<lparr>co_store := apply_claim w n r (co_store c), co_active := as\<rparr>) rid"
proof -
  obtain x where x: "find_run (co_store c) rid = Some x" "r_status x = S_running" "r_lease_owner x = Some (co_worker c)"
    using assms by (auto simp: working_for_def split: option.splits)
  have "find_run (apply_claim w n r (co_store c)) rid = Some x"
    using x by (simp add: find_run_def apply_claim_def Let_def upd_run_def lookup_by_update_where claim_row_def)
  with x show ?thesis by (simp add: working_for_def)
qed

lemma claim_works:
  assumes "reachable (co_store c)" "claim_choice (co_store c) ol ex = Some r"
  shows "working_for (c\<lparr>co_store := apply_claim (co_worker c) n r (co_store c), co_active := as\<rparr>) (r_id r)"
proof -
  note d = claim_candidatesD[OF claim_choiceD(1)[OF assms(2)]]
  have "find_run (co_store c) (r_id r) = Some r" by (rule in_runs_find[OF assms(1) d(1)])
  then show ?thesis
    using d(2) by (simp add: working_for_def find_run_def apply_claim_def Let_def upd_run_def lookup_by_update_where claim_row_def)
qed

lemma claim_reachable:
  assumes "reachable s" "claim_choice s ol ex = Some r" "running_count s < gl"
  shows "reachable (apply_claim w n r s)"
  using reachable.exec[OF assms(1), of "C_claim_next w gl ol n ex"] assms(2,3)
  by (simp add: claim_next_def transact_def claim_next_tx_def)

section \<open>The whole pass\<close>

lemma claim_loop_result:
  "reachable (co_store c) \<Longrightarrow> claim_loop c = (c', rids) \<Longrightarrow>
     pass_over c' \<and> co_active c' = co_active c @ rids \<and> distinct rids \<and> set rids \<inter> set (co_active c) = {} \<and>
     (rids \<noteq> [] \<longrightarrow> length (co_active c') \<le> co_global_limit c) \<and> co_global_limit c' = co_global_limit c \<and>
     co_worker c' = co_worker c \<and> (\<forall>rid. working_for c rid \<longrightarrow> working_for c' rid) \<and> (\<forall>rid \<in> set rids. working_for c' rid)"
proof (induction c arbitrary: c' rids rule: claim_loop.induct)
  case (1 c)
  show ?case
  proof (cases "length (co_active c) < co_global_limit c \<and> running_count (co_store c) < co_global_limit c \<and>
      claim_choice (co_store c) (co_owner_limit c) (co_active c) \<noteq> None")
    case False
    then have "claim_loop c = (c, [])"
      by (cases "co_global_limit c \<le> length (co_active c)") (auto simp: claim_loop_full claim_loop_step)
    moreover have "pass_over c" using False by (auto simp: pass_over_def)
    ultimately show ?thesis using "1.prems"(2) by simp
  next
    case True
    then obtain r where r: "claim_choice (co_store c) (co_owner_limit c) (co_active c) = Some r" by auto
    let ?d = "c\<lparr>co_store := apply_claim (co_worker c) 30 r (co_store c), co_active := co_active c @ [r_id r]\<rparr>"
    obtain rest where rest: "claim_loop ?d = (c', rest)" "rids = r_id r # rest"
      using "1.prems"(2) True r claim_loop_step[of c] by (auto split: prod.splits)
    have d: "reachable (co_store ?d)" using claim_reachable[OF "1.prems"(1) r, of "co_global_limit c"] True by simp
    have n: "claim_next (co_worker c) (co_global_limit c) (co_owner_limit c) 30 (co_active c) (co_store c) =
        (apply_claim (co_worker c) 30 r (co_store c), Inr (Some (r_id r)))"
      using True r by (simp add: claim_next_def transact_def claim_next_tx_def)
    have IH: "pass_over c' \<and> co_active c' = co_active ?d @ rest \<and> distinct rest \<and> set rest \<inter> set (co_active ?d) = {} \<and>
       (rest \<noteq> [] \<longrightarrow> length (co_active c') \<le> co_global_limit ?d) \<and> co_global_limit c' = co_global_limit ?d \<and>
       co_worker c' = co_worker ?d \<and> (\<forall>rid. working_for ?d rid \<longrightarrow> working_for c' rid) \<and> (\<forall>rid \<in> set rest. working_for c' rid)"
      using True n by (intro "1.IH"[OF _ n[symmetric] refl refl d rest(1)]) auto
    have "working_for c' (r_id r)" using IH claim_works[OF "1.prems"(1) r, where n = 30] by blast
    moreover have "working_for c' rid" if "working_for c rid" for rid
      using IH claim_keeps_working[OF that] by blast
    moreover have "r_id r \<notin> set (co_active c)" using claim_choiceD(2)[OF r] .
    moreover have "length (co_active c') \<le> co_global_limit c" using IH True by (cases rest) auto
    ultimately show ?thesis using IH rest(2) by auto
  qed
qed

text \<open>
  Property C14 (scheduler): a pass of the scheduler ends, and ends for a reason. The claims of one pass are distinct
  runs, none of which the process was already executing; each is then running under a lease of this worker; the
  process never goes over its limit; and at the end it is full, or as many runs as the limit allows are active, or none
  of the first hundred claimable runs of the queue, which is all that one query returns, is eligible: the process executes
  it already, its owner is at the limit, or the lane of its session is taken.
\<close>

theorem claim_loop_is_complete:
  assumes "reachable (co_store c)"
  shows "\<exists>c' rids. claim_loop c = (c', rids) \<and> co_active c' = co_active c @ rids \<and> distinct rids \<and>
     set rids \<inter> set (co_active c) = {} \<and> (\<forall>rid \<in> set rids. working_for c' rid) \<and>
     (rids \<noteq> [] \<longrightarrow> length (co_active c') \<le> co_global_limit c) \<and>
     (co_global_limit c \<le> length (co_active c') \<or> co_global_limit c \<le> running_count (co_store c') \<or>
      (\<forall>q \<in> set (claim_candidates (co_store c')). r_id q \<in> set (co_active c') \<or>
         co_owner_limit c' \<le> owner_count (co_store c') (r_owner_id q) \<or> \<not> session_lane_available q (active_rows (co_store c'))))"
proof -
  obtain c' rids where c: "claim_loop c = (c', rids)" by fastforce
  show ?thesis
    using claim_loop_result[OF assms c] c by (fastforce simp: pass_over_def claim_choice_def find_None_iff not_less)
qed

definition loop_example :: coordinator where
  "loop_example = \<lparr>co_store = ex_queued, co_backend = \<lparr>bp_permissions = [], bp_file = None, bp_writable = True\<rparr>,
     co_worker = ''w1'', co_active = [], co_global_limit = 2, co_owner_limit = 1, co_clients = []\<rparr>"

theorem claim_loop_is_complete_witness:
  "\<exists>c'. claim_loop loop_example = (c', [''r1'']) \<and> working_for c' ''r1''"
proof -
  have store: "reachable (co_store loop_example)"
    using strict_reachable_reachable[OF ex_reachable(2)] by (simp add: loop_example_def)
  let ?d = "loop_example\<lparr>co_store := ex_claimed, co_active := [''r1'']\<rparr>"
  have claimed: "apply_claim ''w1'' 30 ex_run ex_queued = ex_claimed" using ex_claim by (simp add: ex_claimed_def)
  have stop: "claim_loop ?d = (?d, [])"
    by (subst claim_loop_step)
      (simp_all add: loop_example_def claim_choice_def claim_candidates_def active_rows_def)
  have "claim_loop loop_example = (?d, [''r1''])"
    by (subst claim_loop_step) (simp_all del: One_nat_def add: loop_example_def ex_choice claimed running_count_def occupies_def stop[unfolded loop_example_def, simplified])
  then show ?thesis using claim_loop_is_complete[OF store] by auto
qed

end
