(* ===== verification/Run_Settlement.thy ===== *)
theory Run_Settlement
  imports Run_Execution Run_Examples
begin

text \<open>
  How executions end: what the reply of the external call makes of the run, and what becomes of a run whose
  execution fails before its step attempt.
\<close>

section \<open>A live step\<close>




section \<open>The reply decides\<close>











section \<open>Failing before the step\<close>

text \<open>
  A run whose App is gone is not settled. The execution of a claimed run that finds no manifest
  returns without recording an error: the store is as it was, the run stays running under its lease, and the process no
  longer counts it among its tasks, so its heartbeats do not renew that lease.
\<close>

theorem missing_app_abandons_the_run:
  assumes "find_run (co_store c) (r_id q) = Some r" "r_status r = S_running" "execution_state q = Some st"
    and "iv_type (invocation_of su q) \<noteq> ''internal_agent''" "su_manifest su (iv_app (invocation_of su q)) = None"
  shows "execute_begin su q iid c = (c, None) \<and> r_id q \<notin> set (co_active (finished (r_id q) c)) \<and>
     find_run (co_store (finished (r_id q) c)) (r_id q) = Some r \<and>
     find_run (fst (heartbeat (co_worker c) 30 (Some (co_active (finished (r_id q) c))) (co_store (finished (r_id q) c)))) (r_id q) = Some r"
proof -
  have c: "execute_begin su q iid c = (c, None)" using assms(3-5) by (simp add: execute_begin_def Let_def)
  have f: "finished (r_id q) c = c\<lparr>co_active := removeAll (r_id q) (co_active c)\<rparr>"
    using assms(1,2) by (simp add: finished_def)
  have "r_id r = r_id q" using find_run_id[OF assms(1)] .
  then have "find_run (fst (heartbeat (co_worker c) 30 (Some (removeAll (r_id q) (co_active c))) (co_store c))) (r_id q) = Some r"
    using assms(1) by (simp add: heartbeat_def transact_def heartbeat_tx_def find_run_def lookup_by_update_where)
  with c f assms(1) show ?thesis by simp
qed

definition abandoned_run :: run_row where
  "abandoned_run = ex_running\<lparr>r_adapter_type := ''mcp_request''\<rparr>"

definition no_apps :: surroundings where
  "no_apps = \<lparr>su_manifest = (\<lambda>_. None), su_action = (\<lambda>_ _. None), su_executor = False, su_digest = (\<lambda>_. []),
     su_http_url = (\<lambda>_. False), su_credentials = (\<lambda>_. False), su_json_bytes = (\<lambda>_. 0), su_max_request = 0\<rparr>"

definition abandoned_system :: coordinator where
  "abandoned_system = \<lparr>co_store = ex_claimed\<lparr>db_runs := [abandoned_run]\<rparr>, co_backend = \<lparr>bp_permissions = [], bp_file = None, bp_writable = True\<rparr>,
     co_worker = ''w1'', co_active = [''r1''], co_global_limit = 2, co_owner_limit = 1, co_clients = []\<rparr>"

theorem missing_app_abandons_the_run_witness:
  "execute_begin no_apps abandoned_run ''q'' abandoned_system = (abandoned_system, None) \<and>
   find_run (co_store (finished ''r1'' abandoned_system)) ''r1'' = Some abandoned_run"
proof -
  have 1: "find_run (co_store abandoned_system) (r_id abandoned_run) = Some abandoned_run" "r_status abandoned_run = S_running" "r_id abandoned_run = ''r1''"
    by (simp_all add: abandoned_system_def abandoned_run_def find_run_def)
  have 2: "\<exists>st. execution_state abandoned_run = Some st"
    by (simp add: execution_state_def abandoned_run_def ex_running_def claim_row_def ex_run_def new_run_def ex_request_def fresh_state_def
        state_ok_def default_state_def default_budget_def budget_ok_def resolved_workflow_version_def)
  then obtain st where 2: "execution_state abandoned_run = Some st" ..
  have 3: "iv_type (invocation_of no_apps abandoned_run) \<noteq> ''internal_agent''" "su_manifest no_apps (iv_app (invocation_of no_apps abandoned_run)) = None"
    by (simp_all add: invocation_of_def resolve_action_def no_apps_def abandoned_run_def)
  from missing_app_abandons_the_run[OF 1(1,2) 2 3, of "''q''"] 1(3) show ?thesis by simp
qed

end
