(* ===== verification/Run_Retry.thy ===== *)
theory Run_Retry
  imports Run_Coordinator Py_Numbers
begin

text \<open>
  Repeating a failed or cancelled run (\<^verbatim>\<open>retry\<close> of \<^verbatim>\<open>RunCoordinator\<close> and its helpers): which runs may be repeated, what
  the new run keeps of the checkpoint, its fresh allowance, the recovery of a refined schema proposal, and the
  repair request in a chat.
\<close>

section \<open>The allowance\<close>

text \<open>The window a checkpoint remembers: the limits it had when it was first repeated.\<close>

definition stored_window :: "agent_state \<Rightarrow> dict" where
  "stored_window st =
     (case map_of (st_data st) ''retry_budget_window'' of
        Some (JObj w) \<Rightarrow> w
      | _ \<Rightarrow> [(''model_turns'', opt_json JInt (bg_max_model_turns (st_budget st))),
              (''tokens'', opt_json JInt (bg_max_tokens (st_budget st))),
              (''cost_usd'', opt_json JFloat (bg_max_cost_usd (st_budget st)))])"

definition setdefault :: "string \<Rightarrow> json \<Rightarrow> dict \<Rightarrow> dict" where
  "setdefault k v d = (case map_of d k of None \<Rightarrow> AList.update k v d | Some _ \<Rightarrow> d)"

text \<open>Each of the three renewals takes and returns the budget and the window.\<close>

definition turn_window :: "run_budget \<Rightarrow> dict \<Rightarrow> int option result" where
  "turn_window b w =
     (case map_of w ''model_turns'' of
        None \<Rightarrow> Inr (bg_max_model_turns b)
      | Some JNull \<Rightarrow> Inr (if bg_model_turn_limit_explicit b then bg_max_model_turns b else None)
      | Some v \<Rightarrow> map_sum id Some (int_of v))"

definition renew_turns :: "run_budget \<Rightarrow> dict \<Rightarrow> (run_budget \<times> dict) result" where
  "renew_turns b w =
     (if bg_max_model_turns b = None then Inr (b, AList.update ''model_turns'' JNull w)
      else (case turn_window b w of
          Inl e \<Rightarrow> Inl e
        | Inr None \<Rightarrow> Inr (b\<lparr>bg_max_model_turns := None\<rparr>, AList.update ''model_turns'' JNull w)
        | Inr (Some n) \<Rightarrow> Inr (b\<lparr>bg_max_model_turns := Some (bg_model_turns b + max 1 n)\<rparr>,
            AList.update ''model_turns'' (JInt (max 1 n)) w)))"

definition renew_tokens :: "run_budget \<Rightarrow> dict \<Rightarrow> (run_budget \<times> dict) result" where
  "renew_tokens b w0 =
     (let w = setdefault ''tokens'' (opt_json JInt (bg_max_tokens b)) w0
      in case map_of w ''tokens'' of
           Some JNull \<Rightarrow> Inr (b\<lparr>bg_max_tokens := None\<rparr>, w)
         | Some v \<Rightarrow> (case int_of v of Inl e \<Rightarrow> Inl e | Inr n \<Rightarrow> Inr (b\<lparr>bg_max_tokens := Some (bg_tokens_used b + max 1 n)\<rparr>, w))
         | None \<Rightarrow> Inr (b, w))"

definition renew_cost :: "run_budget \<Rightarrow> dict \<Rightarrow> (run_budget \<times> dict) result" where
  "renew_cost b w0 =
     (let w = setdefault ''cost_usd'' (opt_json JFloat (bg_max_cost_usd b)) w0
      in case map_of w ''cost_usd'' of
           Some JNull \<Rightarrow> Inr (b\<lparr>bg_max_cost_usd := None\<rparr>, w)
         | Some v \<Rightarrow> (case float_of v of Inl e \<Rightarrow> Inl e | Inr x \<Rightarrow> Inr (b\<lparr>bg_max_cost_usd := Some (bg_cost_usd b + max 0 x)\<rparr>, w))
         | None \<Rightarrow> Inr (b, w))"

definition then_renew :: "(run_budget \<times> dict) result \<Rightarrow> (run_budget \<Rightarrow> dict \<Rightarrow> (run_budget \<times> dict) result) \<Rightarrow> (run_budget \<times> dict) result" where
  "then_renew r f = (case r of Inl e \<Rightarrow> Inl e | Inr (b, w) \<Rightarrow> f b w)"

definition renew_agent_retry_budget :: "agent_state \<Rightarrow> agent_state result" where
  "renew_agent_retry_budget st =
     (case then_renew (then_renew (renew_turns (st_budget st) (stored_window st)) renew_tokens) renew_cost of
        Inl e \<Rightarrow> Inl e
      | Inr (b, w) \<Rightarrow> Inr (st\<lparr>st_budget := b, st_data := AList.update ''retry_budget_window'' (JObj w) (st_data st)\<rparr>))"

section \<open>The recovery of a refined proposal\<close>

definition SCHEMA_REFINE_RECOVERY_KEY :: string where
  "SCHEMA_REFINE_RECOVERY_KEY = ''schema_refine_recovery''"

text \<open>The current run and its retry ancestors, at most 32 of them.\<close>

fun retry_ancestors :: "nat \<Rightarrow> store \<Rightarrow> string option \<Rightarrow> string list \<Rightarrow> string list" where
  "retry_ancestors 0 s rid seen = seen"
| "retry_ancestors (Suc n) s rid seen =
     (case rid of
        None \<Rightarrow> seen
      | Some x \<Rightarrow>
          if x = [] \<or> x \<in> set seen then seen
          else (case find_run s x of None \<Rightarrow> seen @ [x] | Some r \<Rightarrow> retry_ancestors n s (r_retry_of r) (seen @ [x])))"

definition dict_or_empty :: "json option \<Rightarrow> json" where
  "dict_or_empty v = (case v of Some (JObj d) \<Rightarrow> JObj d | _ \<Rightarrow> JObj [])"

text \<open>The checkpoint the recovery starts from must be the same workflow of the same App and chat, waiting for the schema.\<close>

definition refine_source_ok :: "run_row \<Rightarrow> run_row \<Rightarrow> agent_state \<Rightarrow> bool" where
  "refine_source_ok source original st =
     (case loads (r_state source) of
        Some (JObj d) \<Rightarrow>
          map_of d ''phase'' = Some (JStr ''wait_schema'') \<and>
          json_or_null (map_of d ''session_id'') = json_of_str (st_session_id st) \<and>
          map_of d ''workflow_type'' = Some (JStr (st_workflow_type st)) \<and> starts_with (st_workflow_type st) ''widget'' \<and>
          r_owner_id source = r_owner_id original \<and> r_source_id source = r_source_id original \<and>
          py_eq (json_or_null (dget (dict_or_empty (map_of d ''intent'')) ''app_id''))
            (json_or_null (dget (dict_or_empty (map_option JObj (st_intent st))) ''app_id'')) \<and>
          (case map_of d ''data'' of Some (JObj _) \<Rightarrow> True | _ \<Rightarrow> False)
      | _ \<Rightarrow> False)"

definition last_option :: "'a list \<Rightarrow> 'a option" where
  "last_option xs = (if xs = [] then None else Some (last xs))"

definition refine_answer_ok :: "string \<Rightarrow> interaction_row \<Rightarrow> bool" where
  "refine_answer_ok source_id i \<longleftrightarrow> i_run_id i = source_id \<and> i_status i = I_resolved \<and>
     dget (i_payload i) ''type'' = Some (JStr ''schema_approval_request'') \<and>
     (case i_response i of Some resp \<Rightarrow> dget resp ''approved'' = Some (JStr ''refine'') | None \<Rightarrow> False)"

definition refine_proposal :: "interaction_row \<Rightarrow> run_row \<Rightarrow> json option" where
  "refine_proposal i source =
     (let is_d = (\<lambda>v. case v of Some (JObj d) \<Rightarrow> True | _ \<Rightarrow> False);
          response = json_or_null (i_response i);
          data = subdict (json_or_null (loads (r_state source))) ''data''
      in if is_d (dget response ''proposal'') then dget response ''proposal''
         else if is_d (dget (i_payload i) ''proposal'') then dget (i_payload i) ''proposal''
         else if is_d (dget data ''schema_candidate'') then dget data ''schema_candidate'' else None)"

definition refine_recovery :: "string \<Rightarrow> interaction_row \<Rightarrow> json \<Rightarrow> json" where
  "refine_recovery source_id i proposal = JObj
     [(''source_run_id'', JStr source_id), (''interaction_id'', JStr (i_id i)), (''action'', JStr ''refine''),
      (''proposal'', proposal), (''feedback'', JStr (take_points 12000 (str_or_empty (dget (json_or_null (i_response i)) ''feedback''))))]"

text \<open>
  \<^verbatim>\<open>_schema_refine_recovery_for_retry\<close>. A checkpoint that already carries a recovery must match its interaction, else
  the retry is refused; without one, anything missing means no recovery.
\<close>

definition schema_refine_recovery :: "store \<Rightarrow> run_row \<Rightarrow> agent_state \<Rightarrow> json option result" where
  "schema_refine_recovery s original st =
     (let existing = (case map_of (st_data st) SCHEMA_REFINE_RECOVERY_KEY of Some JNull \<Rightarrow> None | v \<Rightarrow> v);
          missing = (\<lambda>m. if existing \<noteq> None then Inl (ValueError m) else Inr None)
      in if st_phase st \<noteq> ''wait_schema'' \<or> st_pending_interaction_id st \<noteq> None
         then (if map_of (st_data st) SCHEMA_REFINE_RECOVERY_KEY \<noteq> None
               then Inl (ValueError ''Schema refinement recovery is only valid while waiting for schema approval'') else Inr None)
         else if \<not> starts_with (st_workflow_type st) ''widget'' then Inr None
         else (case (case existing of Some (JObj d) \<Rightarrow> map_of d ''source_run_id'' | _ \<Rightarrow> Some (JStr (r_id original))) of
             Some (JStr sid) \<Rightarrow>
               (case get_run s sid of
                  None \<Rightarrow> missing ''Schema refinement recovery source run is missing''
                | Some view \<Rightarrow>
                    if sid \<notin> set (retry_ancestors 32 s (Some (r_id original)) [])
                    then missing ''Schema refinement recovery is outside this Run's retry lineage''
                    else if \<not> refine_source_ok (v_run view) original st
                    then missing ''Schema refinement recovery source checkpoint is invalid''
                    else
                      (let asked = filter (\<lambda>i. i_type i = ''schema_approval'') (v_interactions view)
                       in case (case existing of
                                  Some (JObj d) \<Rightarrow> List.find (\<lambda>i. map_of d ''interaction_id'' = Some (JStr (i_id i))) asked
                                | _ \<Rightarrow> last_option asked) of
                            None \<Rightarrow> missing ''Schema refinement recovery interaction is missing''
                          | Some i \<Rightarrow>
                              if \<not> refine_answer_ok sid i
                              then missing ''Only a resolved Schema refine response can be recovered''
                              else (case refine_proposal i (v_run view) of
                                  None \<Rightarrow> missing ''Schema refinement recovery proposal is invalid''
                                | Some proposal \<Rightarrow>
                                    (let recovery = refine_recovery sid i proposal
                                     in if existing \<noteq> None \<and> \<not> py_eq (the existing) recovery
                                        then Inl (ValueError ''Schema refinement recovery does not match its resolved interaction'')
                                        else Inr (Some recovery)))))
           | _ \<Rightarrow> missing ''Schema refinement recovery source run is missing''))"

section \<open>The checkpoint of the new run\<close>

definition pop_all :: "string list \<Rightarrow> dict \<Rightarrow> dict" where
  "pop_all ks d = fold AList.delete ks d"

definition VERIFICATION_KEYS :: "string list" where
  "VERIFICATION_KEYS = [''verification_report'', ''verification_options'', ''verification_passed'', ''verification_override'']"

definition set_data :: "string \<Rightarrow> json \<Rightarrow> agent_state \<Rightarrow> agent_state" where
  "set_data k v st = st\<lparr>st_data := AList.update k v (st_data st)\<rparr>"

definition pop_data :: "string list \<Rightarrow> agent_state \<Rightarrow> agent_state" where
  "pop_data ks st = st\<lparr>st_data := pop_all ks (st_data st)\<rparr>"

definition retained_staging :: "file_system \<Rightarrow> json option \<Rightarrow> bool" where
  "retained_staging fs staged =
     (case staged of
        Some (JObj d) \<Rightarrow> (case map_of d ''staging_dir'' of
            Some (JStr (c # cs)) \<Rightarrow> fs_is_dir fs (mk_path (c # cs)) \<and> \<not> fs_is_link fs (mk_path (c # cs))
          | _ \<Rightarrow> False)
      | _ \<Rightarrow> False)"

text \<open>A Widget whose staged copy is gone writes its code again; one that was being verified verifies again.\<close>

definition restage :: "bool \<Rightarrow> agent_state \<Rightarrow> agent_state" where
  "restage staged_exists st0 =
     (let st = pop_data [''staged_app_status''] st0
      in if st_phase st \<in> {''stage_code'', ''verify'', ''wait_override'', ''promote''} \<and> \<not> staged_exists
         then pop_data (VERIFICATION_KEYS @ [''code_feedback'']) (pop_data [''staged_app''] st\<lparr>st_phase := ''stage_code''\<rparr>)
         else if st_phase st \<in> {''verify'', ''wait_override''} \<and> staged_exists
         then pop_data VERIFICATION_KEYS (st\<lparr>st_phase := ''verify''\<rparr>)
         else st)"

definition repair_marker :: string where
  "repair_marker = [CHR 0x0A, CHR 0x0A] @ ''[USER REPAIR FEEDBACK]'' @ [CHR 0x0A]"

definition add_feedback :: "bool \<Rightarrow> string option \<Rightarrow> agent_state \<Rightarrow> agent_state" where
  "add_feedback staged_exists feedback st =
     (let normalized = take_points 12000 (normalize_ws (case feedback of None \<Rightarrow> [] | Some f \<Rightarrow> f));
          previous = strip (str_or_empty (map_of (st_data st) ''code_feedback''));
          st1 = set_data ''code_feedback'' (JStr (strip (previous @ repair_marker @ normalized))) st;
          st2 = (if staged_exists then st1\<lparr>st_phase := ''stage_code''\<rparr> else st1)
      in if normalized = [] then st else pop_data VERIFICATION_KEYS st2)"

definition adopt_message :: "json option \<Rightarrow> agent_state \<Rightarrow> agent_state" where
  "adopt_message input st =
     (case input of
        Some (JObj d) \<Rightarrow> (case map_of d ''user_message_id'' of None \<Rightarrow> st | Some JNull \<Rightarrow> st | Some v \<Rightarrow> set_data ''user_message_id'' v st)
      | _ \<Rightarrow> st)"

definition retry_widget :: "file_system \<Rightarrow> string option \<Rightarrow> json option \<Rightarrow> agent_state \<Rightarrow> agent_state" where
  "retry_widget fs feedback input st =
     (if \<not> starts_with (st_workflow_type st) ''widget'' then st
      else (let staged_exists = retained_staging fs (map_of (st_data st) ''staged_app'')
            in adopt_message input (add_feedback staged_exists feedback (restage staged_exists st))))"

text \<open>A cancelled run is admitted again: it keeps the chat, not the task.\<close>

definition readmit :: "agent_state \<Rightarrow> agent_state" where
  "readmit st =
     (let window = (case map_of (st_data st) ''retry_budget_window'' of Some (JObj w) \<Rightarrow> w | _ \<Rightarrow> []);
          kept = filter (\<lambda>kv. fst kv \<in> {''workspace_dir'', ''user_message_id'', ''language''}) (st_data st);
          order = concat (map (\<lambda>k. case map_of kept k of Some v \<Rightarrow> [(k, v)] | None \<Rightarrow> []) [''workspace_dir'', ''user_message_id'', ''language'']);
          default = \<not> bg_model_turn_limit_explicit (st_budget st);
          b = (if default then (st_budget st)\<lparr>bg_max_model_turns := Some (bg_model_turns (st_budget st) + 8)\<rparr> else st_budget st);
          w = (if default then AList.update ''model_turns'' (JInt 8) window else window)
      in st\<lparr>st_phase := ''route'', st_intent := None, st_artifact_refs := [], st_budget := b,
           st_data := AList.update ''retry_budget_window'' (JObj w) order\<rparr>)"

definition clear_attempt :: "agent_state \<Rightarrow> agent_state" where
  "clear_attempt st =
     set_data ''active_seconds'' (JFloat 0) (pop_data [''phase_retries'']
       (st\<lparr>st_pending_interaction_id := None, st_last_error := None\<rparr>))"

definition retry_state :: "store \<Rightarrow> run_row \<Rightarrow> string option \<Rightarrow> json option \<Rightarrow> agent_state \<Rightarrow> agent_state result" where
  "retry_state s original feedback input st0 =
     (if (case st_last_error st0 of Some d \<Rightarrow> map_of d ''effect_state'' = Some (JStr ''unknown'') | None \<Rightarrow> False)
      then Inl (ValueError ''run has an unknown external effect and cannot be retried automatically'')
      else
        (let st = st0\<lparr>st_attempt := r_attempt original + 1\<rparr>
         in case (if r_status original = S_failed \<and> st_phase st = ''wait_schema''
                  then schema_refine_recovery s original st else Inr None) of
              Inl e \<Rightarrow> Inl e
            | Inr recovery \<Rightarrow>
                (let st1 = (case recovery of None \<Rightarrow> st | Some v \<Rightarrow> set_data SCHEMA_REFINE_RECOVERY_KEY v st)
                 in case renew_agent_retry_budget (apply_development_budget_policy (clear_attempt st1)) of
                      Inl e \<Rightarrow> Inl e
                    | Inr st2 \<Rightarrow>
                        (let st3 = retry_widget (db_fs s) feedback input st2
                         in Inr (if r_status original = S_cancelled then readmit st3 else st3)))))"

section \<open>The retry\<close>

definition effect_named :: "json option \<Rightarrow> bool result" where
  "effect_named err =
     (case err of
        None \<Rightarrow> Inr False
      | Some (JObj d) \<Rightarrow>
          (case map_of d ''effect_state'' of
             Some (JArr _) \<Rightarrow> Inl (TypeError ''unhashable'') | Some (JObj _) \<Rightarrow> Inl (TypeError ''unhashable'')
           | Some v \<Rightarrow> Inr (v = JStr ''unknown'' \<or> v = JStr ''committed'') | None \<Rightarrow> Inr False)
      | Some v \<Rightarrow> if truthy v then Inl (AttributeError ''get'') else Inr False)"

definition retry_refused :: "run_row \<Rightarrow> py_error option" where
  "retry_refused r =
     (if r_status r = S_needs_attention
      then Some (ValueError ''needs-attention runs require explicit effect reconciliation before retry'')
      else if r_status r \<notin> {S_failed, S_cancelled}
      then Some (ValueError ''only failed or safely cancelled runs can be retried'')
      else (case effect_named (r_error r) of
          Inl e \<Rightarrow> Some e
        | Inr True \<Rightarrow> Some (ValueError ''run has an unresolved or committed external effect and cannot be retried'')
        | Inr False \<Rightarrow> None))"

definition checkpoint_for_retry :: "store \<Rightarrow> run_row \<Rightarrow> string option \<Rightarrow> json option \<Rightarrow> agent_state option result" where
  "checkpoint_for_retry s r feedback input =
     (case loads (r_state r) of
        None \<Rightarrow> Inr None
      | Some JNull \<Rightarrow> Inr None
      | Some j \<Rightarrow>
          (case validate_state j of
             None \<Rightarrow> Inl (ValueError ''AgentRunState'')
           | Some st \<Rightarrow>
               if truthy j \<and> r_adapter_type r = ''internal_agent'' then map_sum id Some (retry_state s r feedback input st)
               else Inr (Some st)))"

definition retry_request :: "run_row \<Rightarrow> json option \<Rightarrow> agent_state option \<Rightarrow> run_request" where
  "retry_request r input st =
     \<lparr>rq_owner_id = r_owner_id r, rq_action_id = r_action_id r, rq_action_title = r_action_title r,
      rq_source_type = r_source_type r, rq_source_id = r_source_id r, rq_adapter_type = r_adapter_type r,
      rq_runtime_id = r_runtime_id r, rq_input = (case input of None \<Rightarrow> r_input r | Some v \<Rightarrow> v), rq_tool_name = r_tool_name r,
      rq_recovery = r_recovery r, rq_parent_run_id = r_parent_run_id r, rq_retry_of = Some (r_id r), rq_idempotency_key = None,
      rq_correlation = r_correlation r, rq_attempt = r_attempt r + 1, rq_status = S_queued, rq_state = st,
      rq_workflow_type = Some (r_workflow_type r), rq_workflow_version = Some (r_workflow_version r)\<rparr>"

definition retry :: "string \<Rightarrow> string \<Rightarrow> string option \<Rightarrow> json option \<Rightarrow> coordinator \<Rightarrow> coordinator \<times> string result" where
  "retry new_id rid feedback input c =
     (case find_run (co_store c) rid of
        None \<Rightarrow> (c, Inl (KeyError rid))
      | Some r \<Rightarrow>
          (case retry_refused r of
             Some e \<Rightarrow> (c, Inl e)
           | None \<Rightarrow>
               (case checkpoint_for_retry (co_store c) r feedback input of
                  Inl e \<Rightarrow> (c, Inl e)
                | Inr st \<Rightarrow> submit_to new_id (retry_request r input st) c)))"

section \<open>A repair request in a chat\<close>

text \<open>Texts outside ASCII, by the bytes of their UTF-8 form.\<close>

definition utf8 :: "nat list \<Rightarrow> string" where
  "utf8 = map char_of"

definition REPAIR_TERMS :: "string list" where
  "REPAIR_TERMS = [utf8 [0xE4, 0xBF, 0xAE, 0xE5, 0xA4, 0x8D], utf8 [0xE7, 0xBB, 0xA7, 0xE7, 0xBB, 0xAD, 0xE4, 0xBF, 0xAE],
     utf8 [0xE9, 0x87, 0x8D, 0xE8, 0xAF, 0x95], utf8 [0xE9, 0x87, 0x8D, 0xE6, 0x96, 0xB0, 0xE9, 0xAA, 0x8C, 0xE8, 0xAF, 0x81],
     ''repair'', ''fix'', ''retry'', ''resume'']"

definition DRAFT_TERMS :: "string list" where
  "DRAFT_TERMS = [utf8 [0xE5, 0x88, 0x9A, 0xE6, 0x89, 0x8D], utf8 [0xE4, 0xB8, 0x8A, 0xE6, 0xAC, 0xA1],
     utf8 [0xE4, 0xB9, 0x8B, 0xE5, 0x89, 0x8D], utf8 [0xE5, 0xA4, 0xB1, 0xE8, 0xB4, 0xA5], utf8 [0xE8, 0x8D, 0x89, 0xE7, 0xA8, 0xBF],
     ''failed'', ''draft'', ''previous'']"

fun occurs_in :: "string \<Rightarrow> string \<Rightarrow> bool" where
  "occurs_in t [] = (t = [])"
| "occurs_in t (c # cs) = (starts_with (c # cs) t \<or> occurs_in t cs)"

text \<open>The failed drafts of a chat whose staged copy is still there, newest first, with their Apps.\<close>

definition failed_draft :: "store \<Rightarrow> string \<Rightarrow> run_row \<Rightarrow> string option" where
  "failed_draft s session r =
     (let data = subdict (dict_or_empty (loads (r_state r))) ''data''; staged = subdict data ''staged_app'';
          app = str_or_empty (dget staged ''app_id'')
      in if r_source_type r = ''chat'' \<and> r_source_id r = Some session \<and> starts_with (r_workflow_type r) ''widget'' \<and>
            dget (subdict data ''staged_app_status'') ''state'' = Some (JStr ''failed_draft'') \<and> app \<noteq> [] \<and>
            retained_staging (db_fs s) (Some staged)
         then Some app else None)"

definition repair_candidates :: "store \<Rightarrow> string \<Rightarrow> (run_row \<times> string) list" where
  "repair_candidates s session =
     List.map_filter (\<lambda>r. map_option (Pair r) (failed_draft s session r))
       (list_runs s \<lparr>rf_status = Some ''failed'', rf_owner_id = None, rf_source_type = None, rf_source_id = None\<rparr> 500 0)"

text \<open>
  What the chat asks for: nothing, or a repair of a named App (or of the newest) with the feedback. A slash command
  names the App; free text needs a word for repairing and either an App or a word for an earlier draft.
\<close>

definition repair_request :: "(run_row \<times> string) list \<Rightarrow> string \<Rightarrow> (string option \<times> string) option" where
  "repair_request candidates content =
     (let text' = lower content; parts = words content
      in case parts of
           [] \<Rightarrow> None
         | p # ps \<Rightarrow>
             if lower p = ''/repair'' \<or> lower p = ''/fix''
             then (case ps of [] \<Rightarrow> None | app # rest \<Rightarrow> Some (Some app, join_with '' '' rest))
             else (let mentioned = map_option snd (List.find (\<lambda>ra. occurs_in (lower (snd ra)) text') candidates)
                   in if \<not> list_ex (\<lambda>t. occurs_in t text') REPAIR_TERMS \<or>
                         mentioned = None \<and> \<not> list_ex (\<lambda>t. occurs_in t text') DRAFT_TERMS
                      then None else Some (mentioned, content)))"

definition retry_failed_widget_from_chat ::
  "string \<Rightarrow> string \<Rightarrow> string \<Rightarrow> json option \<Rightarrow> coordinator \<Rightarrow> coordinator \<times> string option result" where
  "retry_failed_widget_from_chat new_id session content input c =
     (let normalized = normalize_ws content; candidates = repair_candidates (co_store c) session
      in if normalized = [] \<or> candidates = [] then (c, Inr None)
         else (case repair_request candidates normalized of
             None \<Rightarrow> (c, Inr None)
           | Some (app, feedback) \<Rightarrow>
               (case List.find (\<lambda>ra. case app of None \<Rightarrow> True | Some a \<Rightarrow> lower (snd ra) = lower a) candidates of
                  None \<Rightarrow> (c, Inr None)
                | Some (r, _) \<Rightarrow> (case retry new_id (r_id r) (Some feedback) input c of (c', x) \<Rightarrow> (c', map_sum id Some x)))))"

end
