(* ===== verification/Run_Retry_Laws.thy ===== *)
theory Run_Retry_Laws
  imports Run_Retry Run_Examples
begin

text \<open>
  Repeating a run gives it the same allowance every time, and makes a new run of a final one whose effects are known.
\<close>

section \<open>The allowance of a retry\<close>

text \<open>What is left of each limit; \<open>None\<close> is no limit.\<close>

definition turns_left :: "run_budget \<Rightarrow> int option" where
  "turns_left b = map_option (\<lambda>n. n - bg_model_turns b) (bg_max_model_turns b)"

definition tokens_left :: "run_budget \<Rightarrow> int option" where
  "tokens_left b = map_option (\<lambda>n. n - bg_tokens_used b) (bg_max_tokens b)"

definition cost_left :: "run_budget \<Rightarrow> pyfloat option" where
  "cost_left b = map_option (\<lambda>x. x - bg_cost_usd b) (bg_max_cost_usd b)"

definition window_of :: "agent_state \<Rightarrow> dict" where
  "window_of st = (case map_of (st_data st) ''retry_budget_window'' of Some (JObj w) \<Rightarrow> w | _ \<Rightarrow> [])"

text \<open>Each renewal remembers its window, so that a later one gives the same allowance whatever was used since.\<close>

lemma renew_turns_cases:
  assumes "renew_turns b w = Inr (b', w')"
  obtains "bg_max_model_turns b' = None" "map_of w' ''model_turns'' = Some JNull"
  | d where "1 \<le> d" "turns_left b' = Some d" "map_of w' ''model_turns'' = Some (JInt d)"
proof (cases "bg_max_model_turns b = None")
  case True
  with assms that(1) show ?thesis by (auto simp: renew_turns_def update_conv')
next
  case False
  then obtain t where t: "turn_window b w = Inr t" using assms by (auto simp: renew_turns_def split: sum.splits)
  show ?thesis
  proof (cases t)
    case None
    with assms False t show ?thesis by (intro that(1)) (auto simp: renew_turns_def update_conv')
  next
    case (Some n)
    with assms False t show ?thesis
      by (intro that(2)[of "max 1 n"]) (auto simp: renew_turns_def turns_left_def update_conv')
  qed
qed

lemma renew_turns_frame:
  assumes "renew_turns b w = Inr (b', w')"
  shows "k \<noteq> ''model_turns'' \<Longrightarrow> map_of w' k = map_of w k" "\<exists>m. b' = b\<lparr>bg_max_model_turns := m\<rparr>"
  using assms by (auto simp: renew_turns_def update_conv' split: if_splits sum.splits option.splits intro: exI[of _ "bg_max_model_turns b"])

lemma renew_turns_again:
  assumes "renew_turns b w = Inr (b', w')"
    and "map_of v ''model_turns'' = map_of w' ''model_turns''" "bg_max_model_turns c = bg_max_model_turns b'"
  shows "\<exists>v'. renew_turns c v = Inr (c\<lparr>bg_max_model_turns := map_option (\<lambda>d. bg_model_turns c + d) (turns_left b')\<rparr>, v') \<and>
    map_of v' = map_of v"
proof (cases rule: renew_turns_cases[OF assms(1)])
  case 1
  then have "turns_left b' = None" "bg_max_model_turns c = None" using assms(3) by (simp_all add: turns_left_def)
  then have "c\<lparr>bg_max_model_turns := None\<rparr> = c" by simp
  with 1 assms show ?thesis by (auto simp: renew_turns_def turns_left_def update_conv')
next
  case (2 d)
  then have "bg_max_model_turns c \<noteq> None" using assms(3) by (auto simp: turns_left_def)
  moreover have "turn_window c v = Inr (Some d)" using 2 assms(2) by (simp add: turn_window_def int_of_def)
  moreover have "max 1 d = d" using 2(1) by simp
  ultimately show ?thesis using 2 assms(2) by (auto simp: renew_turns_def update_conv')
qed

lemma renew_tokens_again:
  assumes "renew_tokens b w = Inr (b', w')" "map_of v ''tokens'' = map_of w' ''tokens''"
  shows "renew_tokens c v = Inr (c\<lparr>bg_max_tokens := map_option (\<lambda>d. bg_tokens_used c + d) (tokens_left b')\<rparr>, v)"
  using assms
  by (auto simp: renew_tokens_def tokens_left_def setdefault_def Let_def update_conv' opt_json_def int_of_def
      split: if_splits sum.splits option.splits json.splits)

lemma renew_cost_again:
  assumes "renew_cost b w = Inr (b', w')" "map_of v ''cost_usd'' = map_of w' ''cost_usd''"
  shows "renew_cost c v = Inr (c\<lparr>bg_max_cost_usd := map_option (\<lambda>d. bg_cost_usd c + d) (cost_left b')\<rparr>, v)"
  using assms
  by (auto simp: renew_cost_def cost_left_def setdefault_def Let_def update_conv' opt_json_def float_of_def
      split: if_splits sum.splits option.splits json.splits)

lemma renew_tokens_frame:
  assumes "renew_tokens b w = Inr (b', w')"
  shows "k \<noteq> ''tokens'' \<Longrightarrow> map_of w' k = map_of w k" "\<exists>m. b' = b\<lparr>bg_max_tokens := m\<rparr>"
    "tokens_left b' = Some d \<Longrightarrow> 1 \<le> d"
  using assms
  by (auto simp: renew_tokens_def setdefault_def Let_def update_conv' tokens_left_def split: sum.splits option.splits json.splits
      intro: exI[of _ "bg_max_tokens b"])

lemma renew_cost_frame:
  assumes "renew_cost b w = Inr (b', w')"
  shows "k \<noteq> ''cost_usd'' \<Longrightarrow> map_of w' k = map_of w k" "\<exists>m. b' = b\<lparr>bg_max_cost_usd := m\<rparr>"
    "cost_left b' = Some x \<Longrightarrow> 0 \<le> x"
  using assms
  by (auto simp: renew_cost_def setdefault_def Let_def update_conv' cost_left_def split: sum.splits option.splits json.splits
      intro: exI[of _ "bg_max_cost_usd b"])

lemma then_renew_Inr: "then_renew r f = Inr x \<longleftrightarrow> (\<exists>b w. r = Inr (b, w) \<and> f b w = Inr x)"
  by (auto simp: then_renew_def split: sum.splits)

text \<open>
  A retry always gives the same fresh allowance. After a renewal at least one model turn and
  one token are left, and no negative cost, unless there is no limit; and if the run is used up and renewed again,
  whatever turns, tokens and costs it consumed in between and whatever else changed in its checkpoint, exactly the
  same turns, tokens and costs are left as after the first renewal: allowances neither accumulate nor shrink.
\<close>

theorem renewed_allowance_is_stable:
  assumes "renew_agent_retry_budget st = Inr st1"
    and "map_of (st_data later) ''retry_budget_window'' = map_of (st_data st1) ''retry_budget_window''"
    and "bg_max_model_turns (st_budget later) = bg_max_model_turns (st_budget st1)"
  shows "(\<forall>n. turns_left (st_budget st1) = Some n \<longrightarrow> 1 \<le> n) \<and> (\<forall>n. tokens_left (st_budget st1) = Some n \<longrightarrow> 1 \<le> n) \<and>
     (\<forall>x. cost_left (st_budget st1) = Some x \<longrightarrow> 0 \<le> x) \<and>
     (\<exists>st2. renew_agent_retry_budget later = Inr st2 \<and> turns_left (st_budget st2) = turns_left (st_budget st1) \<and>
        tokens_left (st_budget st2) = tokens_left (st_budget st1) \<and> cost_left (st_budget st2) = cost_left (st_budget st1))"
proof -
  obtain b3 w3 where r: "then_renew (then_renew (renew_turns (st_budget st) (stored_window st)) renew_tokens) renew_cost = Inr (b3, w3)"
    and st1: "st1 = st\<lparr>st_budget := b3, st_data := AList.update ''retry_budget_window'' (JObj w3) (st_data st)\<rparr>"
    using assms(1) by (auto simp: renew_agent_retry_budget_def split: sum.splits)
  obtain b1 w1 b2 w2 where 1: "renew_turns (st_budget st) (stored_window st) = Inr (b1, w1)"
    and 2: "renew_tokens b1 w1 = Inr (b2, w2)" and 3: "renew_cost b2 w2 = Inr (b3, w3)"
    using r by (auto simp: then_renew_Inr)
  obtain m where m: "b2 = b1\<lparr>bg_max_tokens := m\<rparr>" using renew_tokens_frame(2)[OF 2] ..
  obtain x where x: "b3 = b2\<lparr>bg_max_cost_usd := x\<rparr>" using renew_cost_frame(2)[OF 3] ..
  have t: "turns_left b3 = turns_left b1" "tokens_left b3 = tokens_left b2" "bg_max_model_turns b3 = bg_max_model_turns b1"
    by (simp_all add: m x turns_left_def tokens_left_def)
  have w: "map_of w3 ''model_turns'' = map_of w1 ''model_turns''" "map_of w3 ''tokens'' = map_of w2 ''tokens''"
    by (simp_all add: renew_tokens_frame(1)[OF 2] renew_cost_frame(1)[OF 3])
  have window: "stored_window later = w3" using assms(2) by (simp add: stored_window_def st1 update_conv')
  have pos: "1 \<le> n" if "turns_left b1 = Some n" for n
    using that by (rule_tac renew_turns_cases[OF 1]) (auto simp: turns_left_def)
  let ?c = "st_budget later"
  obtain v where v: "renew_turns ?c w3 = Inr (?c\<lparr>bg_max_model_turns := map_option (\<lambda>d. bg_model_turns ?c + d) (turns_left b1)\<rparr>, v)" "map_of v = map_of w3"
    using renew_turns_again[OF 1 w(1)] assms(3) t(3) by (auto simp: st1)
  let ?c1 = "?c\<lparr>bg_max_model_turns := map_option (\<lambda>d. bg_model_turns ?c + d) (turns_left b1)\<rparr>"
  have 4: "renew_tokens ?c1 v = Inr (?c1\<lparr>bg_max_tokens := map_option (\<lambda>d. bg_tokens_used ?c1 + d) (tokens_left b2)\<rparr>, v)"
    by (rule renew_tokens_again[OF 2]) (simp add: v(2) w(2))
  let ?c2 = "?c1\<lparr>bg_max_tokens := map_option (\<lambda>d. bg_tokens_used ?c1 + d) (tokens_left b2)\<rparr>"
  have 5: "renew_cost ?c2 v = Inr (?c2\<lparr>bg_max_cost_usd := map_option (\<lambda>d. bg_cost_usd ?c2 + d) (cost_left b3)\<rparr>, v)"
    by (rule renew_cost_again[OF 3]) (simp add: v(2))
  let ?c3 = "?c2\<lparr>bg_max_cost_usd := map_option (\<lambda>d. bg_cost_usd ?c2 + d) (cost_left b3)\<rparr>"
  have "then_renew (then_renew (renew_turns ?c (stored_window later)) renew_tokens) renew_cost = Inr (?c3, v)"
    unfolding then_renew_Inr window using v(1) 4 5 by blast
  then have "\<exists>st2. renew_agent_retry_budget later = Inr st2 \<and>
      st_budget st2 = ?c2\<lparr>bg_max_cost_usd := map_option (\<lambda>d. bg_cost_usd ?c2 + d) (cost_left b3)\<rparr>"
    by (simp add: renew_agent_retry_budget_def)
  then obtain st2 where st2: "renew_agent_retry_budget later = Inr st2"
    "st_budget st2 = ?c2\<lparr>bg_max_cost_usd := map_option (\<lambda>d. bg_cost_usd ?c2 + d) (cost_left b3)\<rparr>" by blast
  have "turns_left (st_budget st2) = turns_left b3" "tokens_left (st_budget st2) = tokens_left b3" "cost_left (st_budget st2) = cost_left b3"
    unfolding st2(2) t(1,2)
    by (simp_all add: turns_left_def[of "_\<lparr>bg_max_cost_usd := _\<rparr>"] tokens_left_def[of "_\<lparr>bg_max_cost_usd := _\<rparr>"]
        cost_left_def[of "_\<lparr>bg_max_cost_usd := _\<rparr>"] option.map_comp o_def option.map_ident)
  with st2(1) pos renew_tokens_frame(3)[OF 2] renew_cost_frame(3)[OF 3] t(1,2) show ?thesis
    by (auto simp: st1)
qed

definition used_up :: "agent_state \<Rightarrow> agent_state" where
  "used_up st = st\<lparr>st_budget := (st_budget st)\<lparr>bg_model_turns := 8, bg_tokens_used := 63000\<rparr>, st_phase := ''research''\<rparr>"

theorem renewed_allowance_is_stable_witness:
  "\<exists>st1. renew_agent_retry_budget default_state = Inr st1 \<and>
     (\<exists>st2. renew_agent_retry_budget (used_up st1) = Inr st2 \<and> turns_left (st_budget st2) = Some 8)"
proof -
  obtain st1 where st1: "renew_agent_retry_budget default_state = Inr st1" "turns_left (st_budget st1) = Some 8"
    by (simp add: renew_agent_retry_budget_def then_renew_def stored_window_def default_state_def default_budget_def renew_turns_def
        turn_window_def int_of_def renew_tokens_def renew_cost_def setdefault_def opt_json_def float_of_def turns_left_def)
  have "st_data (used_up st1) = st_data st1" "bg_max_model_turns (st_budget (used_up st1)) = bg_max_model_turns (st_budget st1)"
    by (simp_all add: used_up_def)
  with renewed_allowance_is_stable[OF st1(1), of "used_up st1"] st1 show ?thesis by auto
qed

section \<open>The new run\<close>

lemma clear_attempt_open: "st_pending_interaction_id (clear_attempt st) = None \<and> st_last_error (clear_attempt st) = None"
  by (simp add: clear_attempt_def set_data_def pop_data_def)

lemma policy_keeps [simp]:
  "st_pending_interaction_id (apply_development_budget_policy st) = st_pending_interaction_id st"
  "st_last_error (apply_development_budget_policy st) = st_last_error st"
  by (simp_all add: apply_development_budget_policy_def Let_def)

lemma data_keeps [simp]:
  "st_pending_interaction_id (set_data k v st) = st_pending_interaction_id st" "st_last_error (set_data k v st) = st_last_error st"
  "st_pending_interaction_id (pop_data ks st) = st_pending_interaction_id st" "st_last_error (pop_data ks st) = st_last_error st"
  by (simp_all add: set_data_def pop_data_def)

lemma renew_keeps:
  "renew_agent_retry_budget st = Inr st' \<Longrightarrow>
     st_pending_interaction_id st' = st_pending_interaction_id st \<and> st_last_error st' = st_last_error st"
  by (auto simp: renew_agent_retry_budget_def split: sum.splits)

lemma adopt_message_keeps [simp]:
  "st_pending_interaction_id (adopt_message input st) = st_pending_interaction_id st" "st_last_error (adopt_message input st) = st_last_error st"
  by (simp_all add: adopt_message_def split: option.splits json.splits)

lemma retry_widget_keeps [simp]:
  "st_pending_interaction_id (retry_widget fs fb input st) = st_pending_interaction_id st" "st_last_error (retry_widget fs fb input st) = st_last_error st"
  by (simp_all add: retry_widget_def restage_def add_feedback_def Let_def)

lemma readmit_keeps [simp]:
  "st_pending_interaction_id (readmit st) = st_pending_interaction_id st" "st_last_error (readmit st) = st_last_error st"
  by (simp_all add: readmit_def Let_def)

lemma retry_state_open:
  assumes "retry_state s r fb input st = Inr st'"
  shows "st_pending_interaction_id st' = None \<and> st_last_error st' = None"
proof -
  obtain recovery st2 where st2: "renew_agent_retry_budget (apply_development_budget_policy (clear_attempt
      (case recovery of None \<Rightarrow> st\<lparr>st_attempt := r_attempt r + 1\<rparr> | Some v \<Rightarrow> set_data SCHEMA_REFINE_RECOVERY_KEY v (st\<lparr>st_attempt := r_attempt r + 1\<rparr>)))) = Inr st2"
    and st': "st' = (if r_status r = S_cancelled then readmit (retry_widget (db_fs s) fb input st2) else retry_widget (db_fs s) fb input st2)"
    using assms by (auto simp: retry_state_def Let_def split: sum.splits if_splits)
  from renew_keeps[OF st2] have "st_pending_interaction_id st2 = None \<and> st_last_error st2 = None"
    by (simp add: clear_attempt_open)
  with st' show ?thesis by simp
qed

lemma retry_refused_None:
  assumes "retry_refused r = None"
  shows "r_status r \<in> {S_failed, S_cancelled}"
    "\<forall>d. r_error r = Some (JObj d) \<longrightarrow> map_of d ''effect_state'' \<noteq> Some (JStr ''unknown'') \<and> map_of d ''effect_state'' \<noteq> Some (JStr ''committed'')"
proof -
  have n: "effect_named (r_error r) = Inr False" "r_status r \<in> {S_failed, S_cancelled}"
    using assms by (auto simp: retry_refused_def split: if_splits sum.splits bool.splits)
  then show "r_status r \<in> {S_failed, S_cancelled}" by simp
  show "\<forall>d. r_error r = Some (JObj d) \<longrightarrow> map_of d ''effect_state'' \<noteq> Some (JStr ''unknown'') \<and> map_of d ''effect_state'' \<noteq> Some (JStr ''committed'')"
    using n(1) by (auto simp: effect_named_def)
qed

lemma created_unkeyed:
  assumes "create_run rid q s = (s', Inr x)" "rq_idempotency_key q = None"
  shows "x = rid \<and> find_run s rid = None \<and> (\<forall>y. find_run s' y = (if y = rid then Some (new_run (db_clock s) rid q) else find_run s y))"
proof -
  have c: "s' = insert_run rid q s" "x = rid" "find_run s rid = None"
    using assms by (auto simp: create_run_def transact_def create_run_tx_def run_insert_ok_def Let_def split: if_splits option.splits)
  have "r_id (new_run (db_clock s) rid q) = rid" by (simp add: new_run_def)
  with c show ?thesis
    by (auto simp: insert_run_def find_run_def lookup_by_append split: option.splits)
qed

text \<open>
  Property C36 (retried): a retry is a new attempt and never repeats an uncertain effect. It succeeds only for a failed or
  cancelled run whose error names no unknown or committed external effect, and, when an agent executes it, whose checkpoint
  names no unknown one; the original run stays as it was; the new run is queued without a lease under a new identity,
  linked to the original as its next attempt, for the same owner, App and tool; and an agent's checkpoint in it waits
  for no answer and carries no old error.
\<close>

theorem retry_is_a_new_attempt:
  assumes "retry new rid feedback input c = (c', Inr x)"
  shows "\<exists>r r'. find_run (co_store c) rid = Some r \<and> r_status r \<in> {S_failed, S_cancelled} \<and>
     (\<forall>d. r_error r = Some (JObj d) \<longrightarrow> map_of d ''effect_state'' \<noteq> Some (JStr ''unknown'') \<and> map_of d ''effect_state'' \<noteq> Some (JStr ''committed'')) \<and>
     x = new \<and> find_run (co_store c) new = None \<and> find_run (co_store c') rid = Some r \<and> find_run (co_store c') new = Some r' \<and>
     r_status r' = S_queued \<and> r_lease_owner r' = None \<and> r_retry_of r' = Some rid \<and> r_attempt r' = r_attempt r + 1 \<and>
     r_owner_id r' = r_owner_id r \<and> r_runtime_id r' = r_runtime_id r \<and> r_tool_name r' = r_tool_name r \<and> r_recovery r' = r_recovery r \<and>
     (r_adapter_type r = ''internal_agent'' \<and> truthy_opt (loads (r_state r)) \<longrightarrow>
       (\<exists>st old. validate_state (the (loads (r_state r))) = Some old \<and> r_state r' = Some (Some (dump_state st)) \<and>
          (\<forall>d. st_last_error old = Some d \<longrightarrow> map_of d ''effect_state'' \<noteq> Some (JStr ''unknown'')) \<and>
          st_pending_interaction_id st = None \<and> st_last_error st = None))"
proof -
  obtain r where r: "find_run (co_store c) rid = Some r" using assms by (auto simp: retry_def split: option.splits)
  have id: "r_id r = rid" using find_run_id[OF r] .
  have n: "retry_refused r = None" using assms r by (auto simp: retry_def split: option.splits)
  obtain st where st: "checkpoint_for_retry (co_store c) r feedback input = Inr st"
    using assms r n by (auto simp: retry_def split: sum.splits)
  have sub: "submit_to new (retry_request r input st) c = (c', Inr x)" using assms r n st by (simp add: retry_def)
  obtain s' where s': "create_run new (retry_request r input st) (co_store c) = (s', Inr x)" "c' = c\<lparr>co_store := s'\<rparr>"
    using sub by (auto simp: submit_to_def split: prod.splits)
  note new = created_unkeyed[OF s'(1), simplified retry_request_def, simplified]
  have other: "rid \<noteq> new" using new r by auto
  have agent: "\<exists>st' old. validate_state (the (loads (r_state r))) = Some old \<and> st = Some st' \<and>
      (\<forall>d. st_last_error old = Some d \<longrightarrow> map_of d ''effect_state'' \<noteq> Some (JStr ''unknown'')) \<and>
      st_pending_interaction_id st' = None \<and> st_last_error st' = None"
    if a: "r_adapter_type r = ''internal_agent''" "truthy_opt (loads (r_state r))"
  proof -
    obtain j where j: "loads (r_state r) = Some j" "truthy j" using a(2) by (cases "loads (r_state r)") auto
    obtain old where old: "validate_state j = Some old" "map_sum id Some (retry_state (co_store c) r feedback input old) = Inr st"
      using st j a(1) by (cases j) (auto simp: checkpoint_for_retry_def split: option.splits)
    then obtain st' where st': "retry_state (co_store c) r feedback input old = Inr st'" "st = Some st'"
      by (cases "retry_state (co_store c) r feedback input old") auto
    have "\<forall>d. st_last_error old = Some d \<longrightarrow> map_of d ''effect_state'' \<noteq> Some (JStr ''unknown'')"
      using st'(1) by (auto simp: retry_state_def split: if_splits)
    with retry_state_open[OF st'(1)] old(1) st'(2) j(1) show ?thesis by auto
  qed
  show ?thesis
    using r retry_refused_None[OF n] new other agent id
    by (intro exI[of _ r] exI[of _ "new_run (db_clock (co_store c)) new (retry_request r input st)"])
      (auto simp: s'(2) new_run_def retry_request_def)
qed

definition failed_system :: coordinator where
  "failed_system = \<lparr>co_store = ex_queued\<lparr>db_runs := [ex_run\<lparr>r_status := S_failed, r_finished_at := Some 0\<rparr>]\<rparr>,
     co_backend = \<lparr>bp_permissions = [], bp_file = None, bp_writable = True\<rparr>, co_worker = ''w1'', co_active = [],
     co_global_limit = 2, co_owner_limit = 1, co_clients = []\<rparr>"

theorem retry_is_a_new_attempt_witness:
  "\<exists>c' r'. retry ''r2'' ''r1'' None None failed_system = (c', Inr ''r2'') \<and> find_run (co_store c') ''r2'' = Some r' \<and>
     r_retry_of r' = Some ''r1'' \<and> r_attempt r' = 2"
proof -
  have f: "find_run (co_store failed_system) ''r1'' = Some (ex_run\<lparr>r_status := S_failed, r_finished_at := Some 0\<rparr>)"
    by (simp add: failed_system_def find_run_def)
  have none: "find_run (co_store failed_system) ''r2'' = None" by (simp add: failed_system_def find_run_def)
  have row: "r_error ex_run = None" "r_state ex_run = None" "r_parent_run_id ex_run = None" "r_correlation ex_run = None" "r_adapter_type ex_run = ''internal_agent''"
    by (simp_all add: ex_run_def new_run_def ex_request_def)
  have "\<exists>c'. retry ''r2'' ''r1'' None None failed_system = (c', Inr ''r2'')"
    using f none row
    by (simp add: retry_def retry_refused_def effect_named_def checkpoint_for_retry_def submit_to_def create_run_def transact_def
        create_run_tx_def retry_request_def run_insert_ok_def foreign_ok_def Let_def)
  then obtain c' where c': "retry ''r2'' ''r1'' None None failed_system = (c', Inr ''r2'')" ..
  have "r_attempt ex_run = 1" by (simp add: ex_run_def new_run_def ex_request_def)
  with retry_is_a_new_attempt[OF c'] c' f show ?thesis by auto
qed

end
