(* ===== verification/Workspace_Storage.thy ===== *)
theory Workspace_Storage
  imports Py_Numbers Run_Model
begin

text \<open>
  The files of a workspace (\<^verbatim>\<open>workspace_storage.py\<close>): chat sessions with their messages, the audit log and the layout of
  the canvas. The sessions directory maps a session id to the text of its file; the audit log is a list of lines.
  A timestamp is kept as its text; \<open>instants\<close> stands for \<^verbatim>\<open>datetime.fromisoformat\<close> and gives the instant a text names.
\<close>

section \<open>Errors and identifiers\<close>

datatype storage_error = Corrupt_storage string | Invalid_value string | Unhashable string

fun storage_class :: "storage_error \<Rightarrow> string" where
  "storage_class (Corrupt_storage _) = ''WorkspaceStorageCorruptionError''"
| "storage_class (Invalid_value _) = ''ValueError''"
| "storage_class (Unhashable _) = ''TypeError''"

fun storage_message :: "storage_error \<Rightarrow> string" where
  "storage_message (Corrupt_storage m) = m"
| "storage_message (Invalid_value m) = m"
| "storage_message (Unhashable m) = m"

type_synonym 'a stored = "storage_error + 'a"

definition MAX_SESSION_ID_BYTES :: nat where
  "MAX_SESSION_ID_BYTES = 240"

definition control_char :: "char \<Rightarrow> bool" where
  "control_char c \<longleftrightarrow> (let n = (of_char c :: nat) in n < 32 \<or> n = 127)"

definition validate_session_id :: "json \<Rightarrow> string stored" where
  "validate_session_id v =
     (case v of
        JStr s \<Rightarrow>
          if s = [] then Inl (Invalid_value ''Session id must be a non-empty string'')
          else if s = ''.'' \<or> s = ''..'' \<or> CHR ''/'' \<in> set s \<or> CHR 0x5C \<in> set s
          then Inl (Invalid_value ''Session id must not contain path separators'')
          else if list_ex control_char s then Inl (Invalid_value ''Session id must not contain control characters'')
          else if MAX_SESSION_ID_BYTES < length s then Inl (Invalid_value ''Session id must not exceed 240 UTF-8 bytes'')
          else Inr s
      | _ \<Rightarrow> Inl (Invalid_value ''Session id must be a non-empty string''))"

section \<open>Session files\<close>

type_synonym session_files = "(string \<times> jtext) list"

definition load_json_object :: "jtext \<Rightarrow> string \<Rightarrow> dict stored" where
  "load_json_object t artifact =
     (case t of
        None \<Rightarrow> Inl (Corrupt_storage (''Unable to read persisted '' @ artifact))
      | Some (JObj d) \<Rightarrow> Inr d
      | Some _ \<Rightarrow> Inl (Corrupt_storage (''Persisted '' @ artifact @ '' must be a JSON object'')))"

definition require_session_identity :: "dict \<Rightarrow> string \<Rightarrow> unit stored" where
  "require_session_identity d sid =
     (if map_of d ''id'' = Some (JStr sid) then Inr ()
      else Inl (Corrupt_storage ''Persisted session identity does not match its filename''))"

definition load_session :: "jtext \<Rightarrow> string \<Rightarrow> dict stored" where
  "load_session t sid =
     (case load_json_object t (''session '' @ repr_str sid) of
        Inl e \<Rightarrow> Inl e
      | Inr d \<Rightarrow> map_sum id (\<lambda>_. d) (require_session_identity d sid))"

definition stored_messages :: "dict \<Rightarrow> json" where
  "stored_messages d = (case map_of d ''messages'' of None \<Rightarrow> JArr [] | Some v \<Rightarrow> v)"

section \<open>Messages\<close>

record chat_message =
  cm_id :: json
  cm_session_id :: string
  cm_run_id :: "string option"
  cm_role :: string
  cm_sender :: string
  cm_content :: string
  cm_context_policy :: string
  cm_provenance :: json
  cm_timestamp :: string

definition message_allows_prompt_reuse :: "chat_message \<Rightarrow> bool" where
  "message_allows_prompt_reuse m \<longleftrightarrow> cm_context_policy m = ''reusable''"

definition message_dict :: "chat_message \<Rightarrow> dict" where
  "message_dict m =
     [(''id'', cm_id m), (''run_id'', json_of_str (cm_run_id m)), (''role'', JStr (cm_role m)),
      (''sender'', JStr (cm_sender m)), (''content'', JStr (cm_content m)),
      (''context_policy'', JStr (cm_context_policy m)), (''provenance'', cm_provenance m),
      (''timestamp'', JStr (cm_timestamp m))]"

text \<open>A value Python's \<^verbatim>\<open>int\<close> takes, other than a boolean.\<close>

definition usable_id :: "dict \<Rightarrow> int list" where
  "usable_id m =
     (case map_of m ''id'' of
        None \<Rightarrow> []
      | Some (JBool _) \<Rightarrow> []
      | Some v \<Rightarrow> (case int_of v of Inr n \<Rightarrow> if 0 < n then [n] else [] | Inl _ \<Rightarrow> []))"

definition next_message_id :: "dict list \<Rightarrow> int" where
  "next_message_id ms = fold max (concat (map usable_id ms)) 0 + 1"

fun all_dicts :: "json list \<Rightarrow> dict list option" where
  "all_dicts [] = Some []"
| "all_dicts (JObj d # vs) = map_option (Cons d) (all_dicts vs)"
| "all_dicts (_ # vs) = None"

definition dict_messages :: "dict \<Rightarrow> dict list stored" where
  "dict_messages d =
     (case (case stored_messages d of JArr vs \<Rightarrow> all_dicts vs | _ \<Rightarrow> None) of
        None \<Rightarrow> Inl (Corrupt_storage ''Persisted session messages must be a JSON object array'')
      | Some ms \<Rightarrow> Inr ms)"

definition field_default :: "dict \<Rightarrow> string \<Rightarrow> string \<Rightarrow> json" where
  "field_default d k v = (case map_of d k of None \<Rightarrow> JStr v | Some w \<Rightarrow> w)"

definition same_projection :: "chat_message \<Rightarrow> dict \<Rightarrow> bool" where
  "same_projection m d \<longleftrightarrow> map_of d ''run_id'' = Some (json_of_str (cm_run_id m)) \<and>
     field_default d ''role'' ''user'' = JStr (cm_role m) \<and> field_default d ''sender'' ''user'' = JStr (cm_sender m)"

definition projected_id :: "chat_message \<Rightarrow> dict list \<Rightarrow> json" where
  "projected_id m ms =
     (if cm_id m = JNull \<and> cm_run_id m \<noteq> None \<and> cm_run_id m \<noteq> Some []
      then (case List.find (same_projection m) ms of None \<Rightarrow> JNull | Some d \<Rightarrow> json_or_null (map_of d ''id''))
      else cm_id m)"

definition message_id :: "chat_message \<Rightarrow> dict list \<Rightarrow> json" where
  "message_id m ms = (case projected_id m ms of JNull \<Rightarrow> JInt (next_message_id ms) | v \<Rightarrow> v)"

definition same_id :: "json \<Rightarrow> dict \<Rightarrow> bool" where
  "same_id v d \<longleftrightarrow> py_eq (json_or_null (map_of d ''id'')) v"

fun replace_first :: "('a \<Rightarrow> bool) \<Rightarrow> 'a \<Rightarrow> 'a list \<Rightarrow> 'a list" where
  "replace_first P y [] = [y]"
| "replace_first P y (x # xs) = (if P x then y # xs else x # replace_first P y xs)"

definition new_session_dict :: "string \<Rightarrow> string \<Rightarrow> dict" where
  "new_session_dict now sid =
     [(''id'', JStr sid), (''title'', JStr ''Active Chat''), (''language'', JStr ''zh''), (''model_selection'', JNull),
      (''created_at'', JStr now), (''updated_at'', JStr now), (''messages'', JArr [])]"

definition put_messages :: "string \<Rightarrow> dict list \<Rightarrow> dict \<Rightarrow> dict" where
  "put_messages now ms d = AList.update ''updated_at'' (JStr now) (AList.update ''messages'' (JArr (map JObj ms)) d)"

definition save_message :: "string \<Rightarrow> chat_message \<Rightarrow> session_files \<Rightarrow> (session_files \<times> chat_message) stored" where
  "save_message now m files =
     (case validate_session_id (JStr (cm_session_id m)) of Inl e \<Rightarrow> Inl e | Inr sid \<Rightarrow>
     (case (case map_of files sid of None \<Rightarrow> Inr (new_session_dict now sid) | Some t \<Rightarrow> load_session t sid) of
        Inl e \<Rightarrow> Inl e
      | Inr d \<Rightarrow>
     (case dict_messages d of Inl e \<Rightarrow> Inl e | Inr ms \<Rightarrow>
        (let saved = m\<lparr>cm_id := message_id m ms\<rparr>;
             ms' = replace_first (same_id (cm_id saved)) (message_dict saved) ms
         in Inr (AList.update sid (Some (JObj (put_messages now ms' d))) files, saved)))))"

text \<open>\<^verbatim>\<open>refresh\<close> of a message that has no id yet.\<close>

definition refresh_message :: "session_files \<Rightarrow> chat_message \<Rightarrow> chat_message stored" where
  "refresh_message files m =
     (if cm_id m \<noteq> JNull then Inr m
      else (case validate_session_id (JStr (cm_session_id m)) of Inl e \<Rightarrow> Inl e | Inr sid \<Rightarrow>
        (case map_of files sid of
           None \<Rightarrow> Inr (m\<lparr>cm_id := JInt 1\<rparr>)
         | Some t \<Rightarrow> (case load_session t sid of Inl e \<Rightarrow> Inl e | Inr d \<Rightarrow>
             map_sum id (\<lambda>ms. m\<lparr>cm_id := JInt (next_message_id ms)\<rparr>) (dict_messages d)))))"

section \<open>Reading\<close>

text \<open>
  A message of the file as the class of the message validates it; a value whose type is not the field's is refused (the
  conversions of Pydantic's lax mode are not modelled).
\<close>

definition rd_id :: "json \<Rightarrow> json option" where
  "rd_id v = (case v of JNull \<Rightarrow> Some JNull | JInt n \<Rightarrow> Some (JInt n) | _ \<Rightarrow> None)"

definition rd_provenance :: "json \<Rightarrow> json option" where
  "rd_provenance v = (case v of JNull \<Rightarrow> Some JNull | JObj d \<Rightarrow> Some (JObj d) | _ \<Rightarrow> None)"

definition rd_stamp :: "(string \<Rightarrow> nat option) \<Rightarrow> string \<Rightarrow> json \<Rightarrow> string option" where
  "rd_stamp instants now v =
     (case v of JStr s \<Rightarrow> if instants s = None then None else Some s | _ \<Rightarrow> if truthy v then None else Some now)"

definition read_message :: "(string \<Rightarrow> nat option) \<Rightarrow> string \<Rightarrow> string \<Rightarrow> json \<Rightarrow> chat_message option" where
  "read_message instants now sid v =
     (case v of
        JObj d \<Rightarrow>
          (case (rd_stamp instants now (json_or_null (map_of d ''timestamp'')), rd_id (json_or_null (map_of d ''id'')),
             rd_opt rd_str (json_or_null (map_of d ''run_id'')), rd_str (field_default d ''role'' ''user''),
             rd_str (field_default d ''sender'' ''user''), rd_str (field_default d ''content'' []),
             rd_str (field_default d ''context_policy'' ''reusable''), rd_provenance (json_or_null (map_of d ''provenance''))) of
             (Some stamp, Some ident, Some run, Some role, Some sender, Some content, Some policy, Some prov) \<Rightarrow>
               Some \<lparr>cm_id = ident, cm_session_id = sid, cm_run_id = run, cm_role = role, cm_sender = sender,
                 cm_content = content, cm_context_policy = policy, cm_provenance = prov, cm_timestamp = stamp\<rparr>
           | _ \<Rightarrow> None)
      | _ \<Rightarrow> None)"

text \<open>One unreadable message hides the others: every error but that of the id gives the empty list.\<close>

definition get_messages :: "(string \<Rightarrow> nat option) \<Rightarrow> string \<Rightarrow> session_files \<Rightarrow> string \<Rightarrow> chat_message list stored" where
  "get_messages instants now files sid =
     (case validate_session_id (JStr sid) of
        Inl e \<Rightarrow> Inl e
      | Inr _ \<Rightarrow> Inr
          (case map_of files sid of
             None \<Rightarrow> []
           | Some t \<Rightarrow>
               (case load_session t sid of
                  Inl _ \<Rightarrow> []
                | Inr d \<Rightarrow>
                    (case stored_messages d of
                       JArr vs \<Rightarrow> (case those (map (read_message instants now sid) vs) of None \<Rightarrow> [] | Some ms \<Rightarrow> ms)
                     | _ \<Rightarrow> []))))"

section \<open>Sessions\<close>

record chat_session =
  cs_id :: string
  cs_title :: string
  cs_language :: string
  cs_model_selection :: json
  cs_created_at :: string
  cs_updated_at :: string

text \<open>\<open>selection\<close> says which values the class of a model selection accepts.\<close>

definition get_session ::
  "(string \<Rightarrow> nat option) \<Rightarrow> (json \<Rightarrow> bool) \<Rightarrow> string \<Rightarrow> session_files \<Rightarrow> string \<Rightarrow> chat_session option stored" where
  "get_session instants selection now files sid =
     (case validate_session_id (JStr sid) of
        Inl e \<Rightarrow> Inl e
      | Inr _ \<Rightarrow> Inr
          (case map_of files sid of
             None \<Rightarrow> None
           | Some t \<Rightarrow>
               (case load_session t sid of
                  Inl _ \<Rightarrow> None
                | Inr d \<Rightarrow>
                    (case (rd_stamp instants now (json_or_null (map_of d ''created_at'')),
                       rd_stamp instants now (json_or_null (map_of d ''updated_at'')),
                       Option.bind (map_of d ''title'') rd_str, rd_str (field_default d ''language'' ''zh'')) of
                       (Some created, Some updated, Some title, Some language) \<Rightarrow>
                         if json_or_null (map_of d ''model_selection'') = JNull \<or> selection (json_or_null (map_of d ''model_selection''))
                         then Some \<lparr>cs_id = sid, cs_title = title, cs_language = language,
                           cs_model_selection = json_or_null (map_of d ''model_selection''),
                           cs_created_at = created, cs_updated_at = updated\<rparr>
                         else None
                     | _ \<Rightarrow> None))))"

definition session_dict :: "chat_session \<Rightarrow> dict" where
  "session_dict s =
     [(''id'', JStr (cs_id s)), (''title'', JStr (cs_title s)), (''language'', JStr (cs_language s)),
      (''model_selection'', cs_model_selection s), (''created_at'', JStr (cs_created_at s)),
      (''updated_at'', JStr (cs_updated_at s)), (''messages'', JArr [])]"

definition save_session_meta :: "chat_session \<Rightarrow> session_files \<Rightarrow> session_files stored" where
  "save_session_meta s files =
     (case validate_session_id (JStr (cs_id s)) of Inl e \<Rightarrow> Inl e | Inr sid \<Rightarrow>
     (case map_of files sid of
        None \<Rightarrow> Inr (AList.update sid (Some (JObj (session_dict s))) files)
      | Some t \<Rightarrow>
          (case load_session t sid of Inl e \<Rightarrow> Inl e | Inr d \<Rightarrow>
          (case stored_messages d of
             JArr vs \<Rightarrow> Inr (AList.update sid (Some (JObj
               (AList.update ''created_at'' (case map_of d ''created_at'' of None \<Rightarrow> JStr (cs_created_at s) | Some v \<Rightarrow> v)
                 (AList.update ''messages'' (JArr vs) (session_dict s))))) files)
           | _ \<Rightarrow> Inl (Corrupt_storage ''Persisted session messages must be a JSON array'')))))"

fun keep_some :: "('a \<Rightarrow> 'b option stored) \<Rightarrow> 'a list \<Rightarrow> 'b list stored" where
  "keep_some f [] = Inr []"
| "keep_some f (x # xs) =
     (case f x of Inl e \<Rightarrow> Inl e
      | Inr v \<Rightarrow> map_sum id (\<lambda>ys. case v of None \<Rightarrow> ys | Some y \<Rightarrow> y # ys) (keep_some f xs))"

definition instant :: "(string \<Rightarrow> nat option) \<Rightarrow> string \<Rightarrow> nat" where
  "instant instants s = (case instants s of None \<Rightarrow> 0 | Some n \<Rightarrow> n)"

definition get_sessions ::
  "(string \<Rightarrow> nat option) \<Rightarrow> (json \<Rightarrow> bool) \<Rightarrow> string \<Rightarrow> session_files \<Rightarrow> chat_session list stored" where
  "get_sessions instants selection now files =
     map_sum id (order_by (\<lambda>a b. instant instants (cs_updated_at b) < instant instants (cs_updated_at a)))
       (keep_some (get_session instants selection now files) (map fst files))"

definition delete_session :: "string \<Rightarrow> session_files \<Rightarrow> (session_files \<times> bool) stored" where
  "delete_session sid files =
     map_sum id (\<lambda>s. (AList.delete s files, map_of files s \<noteq> None)) (validate_session_id (JStr sid))"

section \<open>The unit of work\<close>

datatype pending_object = P_session chat_session | P_message chat_message

text \<open>
  \<^verbatim>\<open>commit\<close> writes one object after the other and acknowledges each: what failed and what follows it stay pending.
\<close>

fun commit_pending :: "string \<Rightarrow> pending_object list \<Rightarrow> session_files \<Rightarrow> session_files \<times> pending_object list \<times> storage_error option" where
  "commit_pending now [] files = (files, [], None)"
| "commit_pending now (p # ps) files =
     (case (case p of P_session s \<Rightarrow> save_session_meta s files | P_message m \<Rightarrow> map_sum id fst (save_message now m files)) of
        Inl e \<Rightarrow> (files, p # ps, Some e)
      | Inr files' \<Rightarrow> commit_pending now ps files')"

end
