(* ===== verification/Workspace_Laws.thy ===== *)
theory Workspace_Laws
  imports Workspace_Storage
begin

text \<open>
  A chat keeps one message per run, role and sender, with ids of their own: saving again what a crashed run saved replaces
  its message in place.
\<close>

section \<open>Chats\<close>

definition chat_of :: "session_files \<Rightarrow> string \<Rightarrow> dict list" where
  "chat_of files sid =
     (case map_of files sid of
        None \<Rightarrow> []
      | Some t \<Rightarrow> (case Option.bind t rd_dict of None \<Rightarrow> []
          | Some d \<Rightarrow> (case dict_messages d of Inl _ \<Rightarrow> [] | Inr ms \<Rightarrow> ms)))"

definition has_run :: "dict \<Rightarrow> bool" where
  "has_run d \<longleftrightarrow> (\<exists>r. r \<noteq> [] \<and> map_of d ''run_id'' = Some (JStr r))"

definition projection :: "dict \<Rightarrow> json option \<times> json \<times> json" where
  "projection d = (map_of d ''run_id'', field_default d ''role'' ''user'', field_default d ''sender'' ''user'')"

definition ids_ok :: "dict list \<Rightarrow> bool" where
  "ids_ok ms \<longleftrightarrow> (\<forall>d \<in> set ms. \<exists>n > 0. map_of d ''id'' = Some (JInt n)) \<and> distinct (map (\<lambda>d. map_of d ''id'') ms)"

definition runs_ok :: "dict list \<Rightarrow> bool" where
  "runs_ok ms \<longleftrightarrow> distinct (map projection (filter has_run ms))"

definition chat_ok :: "dict list \<Rightarrow> bool" where
  "chat_ok ms \<longleftrightarrow> ids_ok ms \<and> runs_ok ms"

section \<open>Ids\<close>

lemma fold_max_bound: "x \<in> set xs \<union> {a} \<Longrightarrow> x \<le> fold max xs (a :: int)"
proof (induction xs arbitrary: a x)
  case (Cons y ys)
  have m: "max y a \<le> fold max ys (max y a)" by (rule Cons.IH) simp
  consider "x \<in> set ys" | "x = y \<or> x = a" using Cons.prems by auto
  then show ?case
  proof cases
    case 1
    then have "x \<le> fold max ys (max y a)" by (intro Cons.IH) simp
    then show ?thesis by simp
  qed (use m in auto)
qed simp

lemma fold_max_pos: "0 \<le> fold max xs (0 :: int)"
  using fold_max_bound[of 0 xs 0] by simp

lemma next_id_fresh:
  assumes "ids_ok ms" "d \<in> set ms" "map_of d ''id'' = Some (JInt n)"
  shows "n < next_message_id ms"
proof -
  have "0 < n" using assms by (auto simp: ids_ok_def)
  then have "n \<in> set (concat (map usable_id ms))" using assms(2,3) by (auto simp: usable_id_def int_of_def intro!: bexI[of _ d])
  then show ?thesis using fold_max_bound[of n] by (force simp: next_message_id_def)
qed

lemma next_id_pos: "0 < next_message_id ms"
  using fold_max_pos by (simp add: next_message_id_def)

lemma same_id_iff: "map_of d ''id'' = Some (JInt k) \<Longrightarrow> same_id (JInt n) d \<longleftrightarrow> k = n"
  by (simp add: same_id_def json_or_null_def)

section \<open>Replacing\<close>

lemma replace_first_split:
  "(\<exists>pre x post. xs = pre @ x # post \<and> P x \<and> (\<forall>z \<in> set pre. \<not> P z) \<and> replace_first P y xs = pre @ y # post) \<or>
   (\<forall>z \<in> set xs. \<not> P z) \<and> replace_first P y xs = xs @ [y]"
proof (induction xs)
  case (Cons z zs)
  show ?case
  proof (cases "P z")
    case True
    then have "z # zs = [] @ z # zs \<and> P z \<and> (\<forall>x \<in> set []. \<not> P x) \<and> replace_first P y (z # zs) = [] @ y # zs" by simp
    then show ?thesis by blast
  next
    case False
    from Cons.IH show ?thesis
    proof
      assume "\<exists>pre x post. zs = pre @ x # post \<and> P x \<and> (\<forall>z \<in> set pre. \<not> P z) \<and> replace_first P y zs = pre @ y # post"
      then obtain pre x post where "zs = pre @ x # post" "P x" "\<forall>z \<in> set pre. \<not> P z" "replace_first P y zs = pre @ y # post"
        by blast
      with False show ?thesis by (intro disjI1 exI[of _ "z # pre"] exI[of _ x] exI[of _ post]) simp
    qed (use False in simp)
  qed
qed simp

lemma message_fields:
  "map_of (message_dict m) ''id'' = Some (cm_id m)" "map_of (message_dict m) ''run_id'' = Some (json_of_str (cm_run_id m))"
  "field_default (message_dict m) ''role'' v = JStr (cm_role m)" "field_default (message_dict m) ''sender'' v = JStr (cm_sender m)"
  by (simp_all add: message_dict_def field_default_def)

lemma same_projection_iff: "same_projection m d \<longleftrightarrow> projection d = projection (message_dict m)"
  by (auto simp: same_projection_def projection_def message_fields)

lemma projection_id [simp]: "projection (message_dict (m\<lparr>cm_id := v\<rparr>)) = projection (message_dict m)"
  "same_projection (m\<lparr>cm_id := v\<rparr>) = same_projection m"
  by (simp_all add: projection_def message_fields fun_eq_iff same_projection_def)

lemma has_run_message: "has_run (message_dict m) \<longleftrightarrow> cm_run_id m \<noteq> None \<and> cm_run_id m \<noteq> Some []"
  by (auto simp: has_run_def message_fields json_of_str_def split: option.splits)

lemma has_run_projection: "projection d = projection d' \<Longrightarrow> has_run d \<longleftrightarrow> has_run d'"
  by (simp add: has_run_def projection_def)

text \<open>What \<open>save_message\<close> does to the messages of a well-formed chat.\<close>

definition saved_in :: "chat_message \<Rightarrow> dict list \<Rightarrow> dict list \<Rightarrow> bool" where
  "saved_in m ms ms' \<longleftrightarrow>
     (\<exists>pre d post. ms = pre @ d # post \<and> ms' = pre @ message_dict m # post \<and> has_run d \<and> same_projection m d \<and>
        map_of d ''id'' = Some (cm_id m)) \<or>
     ms' = ms @ [message_dict m] \<and> (has_run (message_dict m) \<longrightarrow> (\<forall>d \<in> set ms. \<not> same_projection m d)) \<and>
     (\<exists>n > 0. cm_id m = JInt n \<and> (\<forall>d \<in> set ms. map_of d ''id'' \<noteq> Some (JInt n)))"

lemma replaced_id:
  assumes "ids_ok ms" "d \<in> set ms" "map_of d ''id'' = Some (JInt n)"
  obtains pre post where "ms = pre @ d # post" "replace_first (same_id (JInt n)) y ms = pre @ y # post"
proof -
  have inj: "inj_on (\<lambda>d. map_of d ''id'') (set ms)" using assms(1) by (simp add: ids_ok_def distinct_map)
  have i: "x = d" if x: "x \<in> set ms" "same_id (JInt n) x" for x
  proof -
    obtain k where k: "map_of x ''id'' = Some (JInt k)" using assms(1) x(1) by (auto simp: ids_ok_def)
    then have "map_of x ''id'' = map_of d ''id''" using x(2) assms(3) by (simp add: same_id_iff)
    then show ?thesis using inj_onD[OF inj _ x(1) assms(2)] by simp
  qed
  have "same_id (JInt n) d" using assms(3) by (simp add: same_id_iff)
  then obtain pre x post where s: "ms = pre @ x # post" "same_id (JInt n) x" "replace_first (same_id (JInt n)) y ms = pre @ y # post"
    using replace_first_split[of ms "same_id (JInt n)" y] assms(2) by blast
  then have "x = d" using i[of x] by simp
  with s show thesis using that by blast
qed

lemma find_message_SomeD: "List.find P xs = Some x \<Longrightarrow> x \<in> set xs \<and> P x"
  by (auto simp: find_Some_iff)

lemma message_saved:
  assumes "ids_ok ms" "cm_id m = JNull" "m' = m\<lparr>cm_id := message_id m ms\<rparr>"
  shows "saved_in m' ms (replace_first (same_id (cm_id m')) (message_dict m') ms)"
proof (cases "has_run (message_dict m) \<and> (\<exists>d \<in> set ms. same_projection m d)")
  case True
  then obtain d where f: "List.find (same_projection m) ms = Some d"
    using find_None_iff[of "same_projection m" ms] by (cases "List.find (same_projection m) ms") auto
  note d = f conjunct1[OF find_message_SomeD[OF f]] conjunct2[OF find_message_SomeD[OF f]]
  then obtain n where n: "map_of d ''id'' = Some (JInt n)" using assms(1) by (auto simp: ids_ok_def)
  have id: "cm_id m' = JInt n"
    using True assms(2,3) f n by (simp add: message_id_def projected_id_def has_run_message json_or_null_def)
  have e: "projection d = projection (message_dict m)" using d(3) by (simp add: same_projection_iff)
  have p: "same_projection m' d" "has_run d"
    using e True assms(3) has_run_projection[OF e] by (simp_all add: same_projection_iff)
  obtain pre post where s: "ms = pre @ d # post" "replace_first (same_id (JInt n)) (message_dict m') ms = pre @ message_dict m' # post"
    using replaced_id[OF assms(1) d(2) n] by blast
  show ?thesis unfolding saved_in_def id
    by (intro disjI1 exI[of _ pre] exI[of _ d] exI[of _ post] conjI s p n)
next
  case False
  then have "projected_id m ms = JNull"
    using assms(2) find_message_SomeD[of "same_projection m" ms]
    by (cases "List.find (same_projection m) ms") (auto simp: projected_id_def has_run_message)
  then have id: "cm_id m' = JInt (next_message_id ms)" using assms(3) by (simp add: message_id_def)
  have f: "\<not> same_id (cm_id m') d" "map_of d ''id'' \<noteq> Some (cm_id m')" if dm: "d \<in> set ms" for d
  proof -
    obtain n where n: "map_of d ''id'' = Some (JInt n)" using assms(1) dm by (auto simp: ids_ok_def)
    note l = next_id_fresh[OF assms(1) dm n]
    show "\<not> same_id (cm_id m') d" unfolding id same_id_iff[OF n] using l by simp
    show "map_of d ''id'' \<noteq> Some (cm_id m')" unfolding id n using l by simp
  qed
  have r: "replace_first (same_id (cm_id m')) (message_dict m') ms = ms @ [message_dict m']"
    using replace_first_split[of ms "same_id (cm_id m')" "message_dict m'"] f(1) by auto
  have "has_run (message_dict m') \<longrightarrow> (\<forall>d \<in> set ms. \<not> same_projection m' d)"
    using False assms(3) by (auto simp: has_run_message)
  moreover have "\<exists>n > 0. cm_id m' = JInt n \<and> (\<forall>d \<in> set ms. map_of d ''id'' \<noteq> Some (JInt n))"
    using f(2) unfolding id by (intro exI[of _ "next_message_id ms"] conjI next_id_pos refl ballI) simp
  ultimately show ?thesis unfolding saved_in_def r by (intro disjI2 conjI refl)
qed

lemma saved_ids:
  assumes "ids_ok ms" "saved_in m ms ms'"
  shows "ids_ok ms'"
  using assms(2) unfolding saved_in_def
proof (elim disjE exE conjE)
  fix pre d post
  assume e: "ms = pre @ d # post" "ms' = pre @ message_dict m # post" "map_of d ''id'' = Some (cm_id m)"
  have i: "map_of (message_dict m) ''id'' = map_of d ''id''" using e(3) by (simp add: message_fields)
  show ?thesis using assms(1) i unfolding ids_ok_def e(1,2) by auto
next
  fix n :: int
  assume e: "ms' = ms @ [message_dict m]" "0 < n" "cm_id m = JInt n" "\<forall>d \<in> set ms. map_of d ''id'' \<noteq> Some (JInt n)"
  show ?thesis using assms(1) e(2-4) unfolding ids_ok_def e(1) by (auto simp: message_fields)
qed

lemma saved_runs:
  assumes "runs_ok ms" "saved_in m ms ms'"
  shows "runs_ok ms'"
  using assms(2) unfolding saved_in_def
proof (elim disjE exE conjE)
  fix pre d post
  assume e: "ms = pre @ d # post" "ms' = pre @ message_dict m # post" "has_run d" "same_projection m d"
  have p: "projection (message_dict m) = projection d" using e(4) by (simp add: same_projection_iff)
  have h: "has_run (message_dict m)" using e(3) has_run_projection[OF p] by simp
  show ?thesis using assms(1) e(3) p h unfolding runs_ok_def e(1,2) by simp
next
  fix n :: int
  assume e: "ms' = ms @ [message_dict m]" "has_run (message_dict m) \<longrightarrow> (\<forall>d \<in> set ms. \<not> same_projection m d)"
  show ?thesis using assms(1) e(2) unfolding runs_ok_def e(1) by (auto simp: same_projection_iff)
qed

section \<open>Files\<close>

lemma load_session_Inr: "load_session t sid = Inr d \<Longrightarrow> t = Some (JObj d) \<and> map_of d ''id'' = Some (JStr sid)"
  by (auto simp: load_session_def load_json_object_def require_session_identity_def split: option.splits json.splits if_splits)

lemma all_dicts_map [simp]: "all_dicts (map JObj ms) = Some ms"
  by (induction ms) simp_all

lemma put_messages_fields:
  "map_of (put_messages now ms d) ''messages'' = Some (JArr (map JObj ms))"
  "map_of (put_messages now ms d) ''id'' = map_of d ''id''"
  by (simp_all add: put_messages_def update_conv')

lemma dict_put_messages [simp]: "dict_messages (put_messages now ms d) = Inr ms"
  by (simp add: dict_messages_def stored_messages_def put_messages_fields)

lemma save_messageE:
  assumes "save_message now m files = Inr (files', m')"
  obtains d where "m' = m\<lparr>cm_id := message_id m (chat_of files (cm_session_id m))\<rparr>"
    "chat_of files' (cm_session_id m) = replace_first (same_id (cm_id m')) (message_dict m') (chat_of files (cm_session_id m))"
    "map_of files' = (map_of files)(cm_session_id m := Some (Some (JObj d)))"
    "map_of d ''id'' = Some (JStr (cm_session_id m))" "validate_session_id (JStr (cm_session_id m)) = Inr (cm_session_id m)"
proof -
  let ?sid = "cm_session_id m"
  have v: "validate_session_id (JStr ?sid) = Inr ?sid"
    using assms by (auto simp: save_message_def validate_session_id_def split: if_splits)
  obtain d where d: "(case map_of files ?sid of None \<Rightarrow> Inr (new_session_dict now ?sid) | Some t \<Rightarrow> load_session t ?sid) = Inr d"
    using assms v by (auto simp: save_message_def split: sum.splits)
  obtain ms where ms: "dict_messages d = Inr ms"
    using assms v d by (auto simp: save_message_def split: sum.splits)
  have c: "chat_of files ?sid = ms" "map_of d ''id'' = Some (JStr ?sid)"
  proof (atomize (full), cases "map_of files ?sid")
    case None
    then have "d = new_session_dict now ?sid" using d by simp
    then show "chat_of files ?sid = ms \<and> map_of d ''id'' = Some (JStr ?sid)"
      using ms None by (simp add: chat_of_def new_session_dict_def dict_messages_def stored_messages_def)
  next
    case (Some t)
    then have "t = Some (JObj d) \<and> map_of d ''id'' = Some (JStr ?sid)" using d by (simp add: load_session_Inr)
    then show "chat_of files ?sid = ms \<and> map_of d ''id'' = Some (JStr ?sid)"
      using ms Some by (simp add: chat_of_def)
  qed
  have r: "m' = m\<lparr>cm_id := message_id m ms\<rparr>"
    "files' = AList.update ?sid (Some (JObj (put_messages now (replace_first (same_id (cm_id m')) (message_dict m') ms) d))) files"
    using assms v d ms by (auto simp: save_message_def Let_def)
  show thesis
  proof (rule that[of "put_messages now (replace_first (same_id (cm_id m')) (message_dict m') ms) d"])
    show "chat_of files' ?sid = replace_first (same_id (cm_id m')) (message_dict m') (chat_of files ?sid)"
      unfolding c(1) by (simp add: chat_of_def r(2) update_conv')
    show "map_of files' = (map_of files)(?sid := Some (Some (JObj (put_messages now (replace_first (same_id (cm_id m')) (message_dict m') ms) d))))"
      by (subst r(2)) (simp add: update_conv')
    show "m' = m\<lparr>cm_id := message_id m (chat_of files ?sid)\<rparr>" unfolding c(1) by (rule r(1))
  qed (simp_all add: c v put_messages_fields)
qed

definition files_ok :: "session_files \<Rightarrow> bool" where
  "files_ok files \<longleftrightarrow> (\<forall>sid. chat_ok (chat_of files sid))"

lemma saved_message:
  assumes "files_ok files" "cm_id m = JNull" "save_message now m files = Inr (files', m')"
  shows "files_ok files' \<and> saved_in m' (chat_of files (cm_session_id m)) (chat_of files' (cm_session_id m)) \<and>
    m' = m\<lparr>cm_id := cm_id m'\<rparr> \<and> (\<forall>sid. sid \<noteq> cm_session_id m \<longrightarrow> map_of files' sid = map_of files sid)"
proof -
  let ?sid = "cm_session_id m"
  obtain d where e: "m' = m\<lparr>cm_id := message_id m (chat_of files ?sid)\<rparr>"
    "chat_of files' ?sid = replace_first (same_id (cm_id m')) (message_dict m') (chat_of files ?sid)"
    "map_of files' = (map_of files)(?sid := Some (Some (JObj d)))"
    using save_messageE[OF assms(3)] by metis
  have ok: "ids_ok (chat_of files ?sid)" "runs_ok (chat_of files ?sid)" using assms(1) by (simp_all add: files_ok_def chat_ok_def)
  have s: "saved_in m' (chat_of files ?sid) (chat_of files' ?sid)"
    unfolding e(2) by (rule message_saved[OF ok(1) assms(2) e(1)])
  have "chat_ok (chat_of files' sid)" for sid
  proof (cases "sid = ?sid")
    case True
    with saved_ids[OF ok(1) s] saved_runs[OF ok(2) s] show ?thesis by (simp add: chat_ok_def)
  next
    case False
    then have "chat_of files' sid = chat_of files sid" by (simp add: chat_of_def e(3))
    then show ?thesis using assms(1) by (simp add: files_ok_def)
  qed
  moreover have "cm_id m' = message_id m (chat_of files ?sid)" using e(1) by simp
  ultimately show ?thesis using s e(1,3) by (simp add: files_ok_def)
qed

text \<open>Saving again for the same run, role and sender.\<close>

lemma projected_again:
  assumes "runs_ok ms'" "saved_in m ms ms'" "has_run (message_dict m)" "projection (message_dict w) = projection (message_dict m)"
    and "saved_in w ms' ms2"
  shows "\<exists>pre post. ms' = pre @ message_dict m # post \<and> ms2 = pre @ message_dict w # post \<and> cm_id w = cm_id m"
proof -
  have inm: "message_dict m \<in> set ms'" using assms(2) by (auto simp: saved_in_def)
  have same: "same_projection w (message_dict m)" using assms(4) by (simp add: same_projection_iff)
  have run: "has_run (message_dict w)" using assms(3) has_run_projection[OF assms(4)] by simp
  obtain pre d post where e: "ms' = pre @ d # post" "ms2 = pre @ message_dict w # post" "has_run d" "same_projection w d"
    "map_of d ''id'' = Some (cm_id w)"
    using assms(5) inm same run unfolding saved_in_def by (elim disjE exE conjE) (assumption | simp)+
  have "projection d = projection (message_dict m)" using e(4) assms(4) by (simp add: same_projection_iff)
  moreover have "inj_on projection (set (filter has_run ms'))" using assms(1) by (simp add: runs_ok_def distinct_map)
  moreover have "d \<in> set (filter has_run ms')" "message_dict m \<in> set (filter has_run ms')" using e(1,3) inm assms(3) by auto
  ultimately have d: "d = message_dict m" by (blast dest: inj_onD)
  show ?thesis using e(1,2,5) unfolding d by (simp add: message_fields) blast
qed

lemma save_again_accepted:
  assumes "save_message now m files = Inr (files', m')" "cm_session_id w = cm_session_id m"
  shows "\<exists>files2 w'. save_message now' w files' = Inr (files2, w')"
proof -
  let ?sid = "cm_session_id m"
  have v: "validate_session_id (JStr ?sid) = Inr ?sid" by (rule save_messageE[OF assms(1)])
  obtain d where d: "(case map_of files ?sid of None \<Rightarrow> Inr (new_session_dict now ?sid) | Some t \<Rightarrow> load_session t ?sid) = Inr d"
    using assms(1) v by (auto simp: save_message_def split: sum.splits)
  obtain ms where ms: "dict_messages d = Inr ms"
    using assms(1) v d by (auto simp: save_message_def split: sum.splits)
  have i: "map_of d ''id'' = Some (JStr ?sid)"
    using d load_session_Inr by (cases "map_of files ?sid") (auto simp: new_session_dict_def)
  have f: "map_of files' ?sid = Some (Some (JObj (put_messages now (replace_first (same_id (cm_id m')) (message_dict m') ms) d)))"
    using assms(1) v d ms by (auto simp: save_message_def Let_def update_conv')
  show ?thesis
    by (simp add: save_message_def assms(2) v f load_session_def load_json_object_def require_session_identity_def
        put_messages_fields i Let_def)
qed

text \<open>
  Property C19 (chat): a run answers once. In a workspace whose chats are well formed, saving a message of a run gives it an
  id no other message has; when a crash makes the run save its message again (whatever its text is then), the second
  save is accepted and puts the new message in the place of the first under the same id, and no other message and no
  other chat changes.
\<close>

theorem run_answers_once:
  assumes "files_ok files" "save_message now m files = Inr (files', m')" "cm_id m = JNull" "cm_id w = JNull"
    and "cm_run_id m = Some r" "r \<noteq> []" "cm_session_id w = cm_session_id m" "cm_run_id w = cm_run_id m"
    and "cm_role w = cm_role m" "cm_sender w = cm_sender m"
  shows "\<exists>files2 w' pre post. save_message now' w files' = Inr (files2, w') \<and> cm_id w' = cm_id m' \<and>
    chat_of files' (cm_session_id m) = pre @ message_dict m' # post \<and>
    chat_of files2 (cm_session_id m) = pre @ message_dict w' # post \<and> files_ok files2 \<and>
    (\<forall>d \<in> set (pre @ post). map_of d ''id'' \<noteq> Some (cm_id m')) \<and>
    (\<forall>sid. sid \<noteq> cm_session_id m \<longrightarrow> map_of files2 sid = map_of files sid)"
proof -
  note first = saved_message[OF assms(1,3,2)]
  obtain files2 w' where w: "save_message now' w files' = Inr (files2, w')"
    using save_again_accepted[OF assms(2,7)] by blast
  note second = saved_message[OF conjunct1[OF first] assms(4) w, unfolded assms(7)]
  obtain u v where uv: "m' = m\<lparr>cm_id := u\<rparr>" "w' = w\<lparr>cm_id := v\<rparr>" using first second by metis
  have p: "projection (message_dict w') = projection (message_dict m')" "has_run (message_dict m')"
    using assms(5,6,8-10) by (simp_all add: uv projection_def message_fields has_run_message)
  have ok: "chat_ok (chat_of files' (cm_session_id m))" using first by (simp add: files_ok_def)
  obtain pre post where s: "chat_of files' (cm_session_id m) = pre @ message_dict m' # post"
    "chat_of files2 (cm_session_id m) = pre @ message_dict w' # post" "cm_id w' = cm_id m'"
    using projected_again[of _ m' _ w'] ok first second p by (metis chat_ok_def)
  have "ids_ok (pre @ message_dict m' # post)" using ok s(1) by (simp add: chat_ok_def)
  then have "\<forall>d \<in> set (pre @ post). map_of d ''id'' \<noteq> Some (cm_id m')"
    by (auto simp: ids_ok_def message_fields image_iff)
  with w s first second show ?thesis by metis
qed

definition demo_message :: chat_message where
  "demo_message = \<lparr>cm_id = JNull, cm_session_id = ''s'', cm_run_id = Some ''r'', cm_role = ''agent'', cm_sender = ''agent'',
     cm_content = ''done'', cm_context_policy = ''reusable'', cm_provenance = JNull, cm_timestamp = ''t''\<rparr>"

definition demo_chats :: session_files where
  "demo_chats = [(''s'', Some (JObj (put_messages ''t'' [message_dict (demo_message\<lparr>cm_id := JInt 3, cm_run_id := Some ''q''\<rparr>)]
     (new_session_dict ''t'' ''s''))))]"

lemma demo_chats_ok: "files_ok demo_chats"
  by (auto simp: files_ok_def chat_of_def demo_chats_def chat_ok_def ids_ok_def runs_ok_def message_fields)

theorem run_answers_once_witness:
  "\<exists>files' m' files2 w' pre post. save_message ''t'' demo_message demo_chats = Inr (files', m') \<and>
    save_message ''u'' (demo_message\<lparr>cm_content := ''again''\<rparr>) files' = Inr (files2, w') \<and> cm_id w' = cm_id m' \<and>
    chat_of files' ''s'' = pre @ message_dict m' # post \<and> chat_of files2 ''s'' = pre @ message_dict w' # post"
proof -
  have s: "save_message ''t'' demo_message demo_chats = Inr
      (case save_message ''t'' demo_message demo_chats of Inr r \<Rightarrow> r)"
    by (simp add: save_message_def demo_chats_def demo_message_def validate_session_id_def control_char_def
        load_session_def load_json_object_def require_session_identity_def put_messages_fields new_session_dict_def
        MAX_SESSION_ID_BYTES_def Let_def)
  then obtain files' m' where f: "save_message ''t'' demo_message demo_chats = Inr (files', m')" by (metis surj_pair)
  show ?thesis
    using run_answers_once[OF demo_chats_ok f, of "demo_message\<lparr>cm_content := ''again''\<rparr>" "''r''" "''u''"] f
    by (auto simp: demo_message_def)
qed

end
