(* ===== verification/Canvas_Layout.thy ===== *)
theory Canvas_Layout
  imports Workspace_Storage Ontology_Types
begin

text \<open>
  The layout of the canvas (\<^verbatim>\<open>normalize_canvas_config\<close> and its storage in \<^verbatim>\<open>workspace_storage.py\<close>): whatever a client or an
  older version left is turned into open Apps with a window each inside the unit square, and a layout so made is kept.
\<close>

section \<open>Windows\<close>

definition CANVAS_VERSION :: int where
  "CANVAS_VERSION = 3"

definition WINDOW_MODES :: "string list" where
  "WINDOW_MODES = [''maximized'', ''floating'', ''snapped'']"

definition SNAP_ZONES :: "string list" where
  "SNAP_ZONES = [''left'', ''right'', ''top-left'', ''top-right'', ''bottom-left'', ''bottom-right'']"

record bounds =
  bo_x :: pyfloat
  bo_y :: pyfloat
  bo_width :: pyfloat
  bo_height :: pyfloat

definition DEFAULT_WINDOW_BOUNDS :: bounds where
  "DEFAULT_WINDOW_BOUNDS = \<lparr>bo_x = 16 / 100, bo_y = 12 / 100, bo_width = 68 / 100, bo_height = 72 / 100\<rparr>"

record window =
  wi_mode :: string
  wi_bounds :: bounds
  wi_restore :: "bounds option"
  wi_snap :: "string option"

text \<open>Floats are rationals: the \<^verbatim>\<open>OverflowError\<close> of \<^verbatim>\<open>float()\<close> on an integer beyond the range of a double is left out.\<close>

definition number :: "json option \<Rightarrow> pyfloat \<Rightarrow> pyfloat" where
  "number v fallback = (case v of Some (JInt n) \<Rightarrow> of_int n | Some (JFloat x) \<Rightarrow> x | _ \<Rightarrow> fallback)"

definition clamp :: "pyfloat \<Rightarrow> pyfloat \<Rightarrow> pyfloat \<Rightarrow> pyfloat" where
  "clamp lo hi v = min hi (max lo v)"

definition bounds_from :: "pyfloat \<Rightarrow> pyfloat \<Rightarrow> pyfloat \<Rightarrow> pyfloat \<Rightarrow> bounds" where
  "bounds_from x y width height =
     (let w = clamp (3 / 10) 1 width; h = clamp (3 / 10) 1 height
      in \<lparr>bo_x = clamp 0 (1 - w) x, bo_y = clamp 0 (1 - h) y, bo_width = w, bo_height = h\<rparr>)"

definition normalize_bounds :: "json option \<Rightarrow> bounds" where
  "normalize_bounds v =
     (let raw = (case v of Some (JObj d) \<Rightarrow> d | _ \<Rightarrow> []); dflt = DEFAULT_WINDOW_BOUNDS
      in bounds_from (number (map_of raw ''x'') (bo_x dflt)) (number (map_of raw ''y'') (bo_y dflt))
           (number (map_of raw ''width'') (bo_width dflt)) (number (map_of raw ''height'') (bo_height dflt)))"

definition offset_of :: "nat \<Rightarrow> pyfloat" where
  "offset_of index = min (of_nat index * (25 / 1000)) (16 / 100)"

definition default_window :: "nat \<Rightarrow> string \<Rightarrow> window" where
  "default_window index mode =
     (let dflt = DEFAULT_WINDOW_BOUNDS
      in \<lparr>wi_mode = mode, wi_bounds = bounds_from (bo_x dflt + offset_of index) (bo_y dflt + offset_of index)
            (bo_width dflt) (bo_height dflt), wi_restore = None, wi_snap = None\<rparr>)"

text \<open>Membership in a set of texts hashes the value: a list or an object raises \<^verbatim>\<open>TypeError\<close>.\<close>

definition text_in :: "json option \<Rightarrow> string list \<Rightarrow> string option stored" where
  "text_in v texts =
     (case v of
        Some (JStr s) \<Rightarrow> Inr (if s \<in> set texts then Some s else None)
      | Some (JArr _) \<Rightarrow> Inl (Unhashable ''list'')
      | Some (JObj _) \<Rightarrow> Inl (Unhashable ''dict'')
      | _ \<Rightarrow> Inr None)"

definition restore_bounds :: "json option \<Rightarrow> bounds option" where
  "restore_bounds v = (case v of Some (JObj d) \<Rightarrow> Some (normalize_bounds v) | _ \<Rightarrow> None)"

definition window_from :: "dict \<Rightarrow> window stored" where
  "window_from c =
     (case text_in (map_of c ''mode'') WINDOW_MODES of Inl e \<Rightarrow> Inl e | Inr mode \<Rightarrow>
     (case text_in (map_of c ''snapZone'') SNAP_ZONES of Inl e \<Rightarrow> Inl e | Inr snap \<Rightarrow>
        Inr \<lparr>wi_mode = (case mode of None \<Rightarrow> ''maximized'' | Some m \<Rightarrow> m), wi_bounds = normalize_bounds (map_of c ''bounds''),
          wi_restore = restore_bounds (map_of c ''restoreBounds''),
          wi_snap = snap\<rparr>))"

definition spanned_window :: "nat \<Rightarrow> dict \<Rightarrow> window" where
  "spanned_window index sp =
     (let cols = clamp 4 12 (number (map_of sp ''cols'') 8); rows = clamp 4 12 (number (map_of sp ''rows'') 8)
      in \<lparr>wi_mode = ''floating'', wi_bounds = bounds_from (12 / 100 + offset_of index) (10 / 100 + offset_of index)
            (cols / 12) (rows / 12), wi_restore = None, wi_snap = None\<rparr>)"

definition canvas_window :: "bool \<Rightarrow> json \<Rightarrow> json \<Rightarrow> nat \<Rightarrow> string \<Rightarrow> window stored" where
  "canvas_window v3 source_windows legacy_spans index app_id =
     (case dget source_windows app_id of
        Some (JObj c) \<Rightarrow> window_from c
      | _ \<Rightarrow>
          (case dget legacy_spans app_id of
             Some (JObj sp) \<Rightarrow> Inr (spanned_window index sp)
           | _ \<Rightarrow> Inr (default_window index (if v3 then ''maximized'' else ''floating''))))"

section \<open>The configuration\<close>

record canvas =
  cv_open :: "string list"
  cv_active :: "string option"
  cv_windows :: "(string \<times> window) list"

definition app_ids_of :: "json option \<Rightarrow> string list" where
  "app_ids_of v =
     (case v of
        Some (JArr xs) \<Rightarrow> first_occurrences (concat (map (\<lambda>x. case x of JStr s \<Rightarrow> if s = [] then [] else [s] | _ \<Rightarrow> []) xs))
      | _ \<Rightarrow> [])"

fun windows_of :: "(nat \<Rightarrow> string \<Rightarrow> window stored) \<Rightarrow> nat \<Rightarrow> string list \<Rightarrow> (string \<times> window) list stored" where
  "windows_of f i [] = Inr []"
| "windows_of f i (a # as) =
     (case f i a of Inl e \<Rightarrow> Inl e | Inr w \<Rightarrow> map_sum id (\<lambda>ws. (a, w) # ws) (windows_of f (Suc i) as))"

definition is_v3 :: "dict \<Rightarrow> bool" where
  "is_v3 raw \<longleftrightarrow> (case map_of raw ''version'' of Some v \<Rightarrow> py_eq v (JInt CANVAS_VERSION) | None \<Rightarrow> False) \<or>
     map_of raw ''open_app_ids'' \<noteq> None"

definition active_of :: "json option \<Rightarrow> string list \<Rightarrow> string option" where
  "active_of v opened =
     (case v of
        Some (JStr a) \<Rightarrow> if a \<in> set opened then Some a else if opened = [] then None else Some (last opened)
      | _ \<Rightarrow> if opened = [] then None else Some (last opened))"

definition normalize_canvas_config :: "json \<Rightarrow> canvas stored" where
  "normalize_canvas_config config =
     (let raw = (case config of JObj d \<Rightarrow> d | _ \<Rightarrow> []);
          v3 = is_v3 raw;
          opened = app_ids_of (map_of raw (if v3 then ''open_app_ids'' else ''pinned_ids''));
          sources = (if v3 then json_or_null (map_of raw ''windows'') else JObj []);
          legacy = (if v3 then JObj [] else json_or_null (map_of raw ''widget_spans''))
      in map_sum id (\<lambda>ws. \<lparr>cv_open = opened, cv_active = active_of (map_of raw ''active_app_id'') opened, cv_windows = ws\<rparr>)
           (windows_of (canvas_window v3 sources legacy) 0 opened))"

section \<open>The wire shape\<close>

definition bounds_json :: "bounds \<Rightarrow> json" where
  "bounds_json b = JObj [(''x'', JFloat (bo_x b)), (''y'', JFloat (bo_y b)), (''width'', JFloat (bo_width b)),
     (''height'', JFloat (bo_height b))]"

definition window_json :: "window \<Rightarrow> json" where
  "window_json w = JObj ([(''mode'', JStr (wi_mode w)), (''bounds'', bounds_json (wi_bounds w))] @
     (case wi_restore w of None \<Rightarrow> [] | Some b \<Rightarrow> [(''restoreBounds'', bounds_json b)]) @
     (case wi_snap w of None \<Rightarrow> [] | Some z \<Rightarrow> [(''snapZone'', JStr z)]))"

definition canvas_json :: "canvas \<Rightarrow> json" where
  "canvas_json c = JObj [(''version'', JInt CANVAS_VERSION), (''open_app_ids'', JArr (map JStr (cv_open c))),
     (''active_app_id'', json_of_str (cv_active c)),
     (''windows'', JObj (map (\<lambda>aw. (fst aw, window_json (snd aw))) (cv_windows c)))]"

section \<open>The file\<close>

definition get_canvas_config :: "jtext option \<Rightarrow> canvas stored" where
  "get_canvas_config file =
     (case file of
        None \<Rightarrow> normalize_canvas_config (JObj [])
      | Some t \<Rightarrow> (case load_json_object t ''Canvas configuration'' of Inl e \<Rightarrow> Inl e | Inr d \<Rightarrow> normalize_canvas_config (JObj d)))"

definition save_canvas_config :: "json \<Rightarrow> jtext option \<Rightarrow> jtext option stored" where
  "save_canvas_config config file =
     (case (case file of None \<Rightarrow> Inr [] | Some t \<Rightarrow> load_json_object t ''Canvas configuration'') of
        Inl e \<Rightarrow> Inl e
      | Inr _ \<Rightarrow> map_sum id (\<lambda>c. Some (Some (canvas_json c))) (normalize_canvas_config config))"

section \<open>What normalization promises\<close>

definition bounds_ok :: "bounds \<Rightarrow> bool" where
  "bounds_ok b \<longleftrightarrow> 3 / 10 \<le> bo_width b \<and> bo_width b \<le> 1 \<and> 3 / 10 \<le> bo_height b \<and> bo_height b \<le> 1 \<and>
     0 \<le> bo_x b \<and> bo_x b + bo_width b \<le> 1 \<and> 0 \<le> bo_y b \<and> bo_y b + bo_height b \<le> 1"

definition window_ok :: "window \<Rightarrow> bool" where
  "window_ok w \<longleftrightarrow> wi_mode w \<in> set WINDOW_MODES \<and> bounds_ok (wi_bounds w) \<and>
     (\<forall>b. wi_restore w = Some b \<longrightarrow> bounds_ok b) \<and> (\<forall>z. wi_snap w = Some z \<longrightarrow> z \<in> set SNAP_ZONES)"

definition canvas_ok :: "canvas \<Rightarrow> bool" where
  "canvas_ok c \<longleftrightarrow> distinct (cv_open c) \<and> [] \<notin> set (cv_open c) \<and> map fst (cv_windows c) = cv_open c \<and>
     (\<forall>aw \<in> set (cv_windows c). window_ok (snd aw)) \<and>
     (case cv_active c of None \<Rightarrow> cv_open c = [] | Some a \<Rightarrow> a \<in> set (cv_open c))"

lemma bounds_from_ok: "bounds_ok (bounds_from x y w h)"
  by (auto simp: bounds_ok_def bounds_from_def clamp_def Let_def min_def max_def)

lemma normalize_bounds_ok [simp]: "bounds_ok (normalize_bounds v)"
  by (simp add: normalize_bounds_def bounds_from_ok Let_def)

lemma normalize_bounds_id: "bounds_ok b \<Longrightarrow> normalize_bounds (Some (bounds_json b)) = b"
  by (cases b) (auto simp: normalize_bounds_def bounds_json_def number_def bounds_from_def clamp_def bounds_ok_def Let_def)

lemma text_in_Some: "text_in v ts = Inr (Some s) \<Longrightarrow> s \<in> set ts"
  by (auto simp: text_in_def split: option.splits json.splits if_splits)

lemma window_from_ok:
  assumes "window_from c = Inr w"
  shows "window_ok w"
proof -
  obtain mode snap where t: "text_in (map_of c ''mode'') WINDOW_MODES = Inr mode" "text_in (map_of c ''snapZone'') SNAP_ZONES = Inr snap"
    using assms by (auto simp: window_from_def split: sum.splits)
  have m: "(case mode of None \<Rightarrow> ''maximized'' | Some m \<Rightarrow> m) \<in> set WINDOW_MODES"
    using text_in_Some[of "map_of c ''mode''" WINDOW_MODES] t(1) by (cases mode) (simp_all add: WINDOW_MODES_def)
  have z: "snap = Some z \<Longrightarrow> z \<in> set SNAP_ZONES" for z using text_in_Some t(2) by simp
  have w: "w = \<lparr>wi_mode = (case mode of None \<Rightarrow> ''maximized'' | Some m \<Rightarrow> m), wi_bounds = normalize_bounds (map_of c ''bounds''),
      wi_restore = restore_bounds (map_of c ''restoreBounds''),
      wi_snap = snap\<rparr>" using assms by (simp add: window_from_def t)
  show ?thesis unfolding window_ok_def w using m z by (auto simp: restore_bounds_def split: option.splits json.splits)
qed

lemma canvas_window_ok:
  assumes "canvas_window v3 ws sp i a = Inr w"
  shows "window_ok w"
proof -
  have "window_ok (spanned_window i d)" "window_ok (default_window i (if v3 then ''maximized'' else ''floating''))" for d
    by (simp_all add: spanned_window_def default_window_def window_ok_def WINDOW_MODES_def bounds_from_ok Let_def)
  with assms show ?thesis
    unfolding canvas_window_def by (cases "dget ws a"; cases "dget sp a") (auto split: json.splits dest: window_from_ok)
qed

lemma windows_of_ok:
  "windows_of f i as = Inr ws \<Longrightarrow> (\<And>i a w. f i a = Inr w \<Longrightarrow> P w) \<Longrightarrow> map fst ws = as \<and> (\<forall>aw \<in> set ws. P (snd aw))"
proof (induction as arbitrary: i ws)
  case (Cons a as)
  then obtain w ws' where "f i a = Inr w" "windows_of f (Suc i) as = Inr ws'" "ws = (a, w) # ws'"
    by (cases "f i a"; cases "windows_of f (Suc i) as") auto
  then show ?case using Cons.IH[of "Suc i" ws'] Cons.prems(2) by auto
qed simp

lemma windows_of_map:
  "(\<And>i aw. aw \<in> set ws \<Longrightarrow> f i (fst aw) = Inr (snd aw)) \<Longrightarrow> windows_of f i (map fst ws) = Inr ws"
  by (induction ws arbitrary: i) auto

lemma set_occurrences: "set (first_occurrences xs) = set xs"
  by (induction xs) auto

lemma distinct_app_ids: "distinct (first_occurrences xs)"
  by (induction xs) auto

lemma first_occurrences_id: "distinct xs \<Longrightarrow> first_occurrences xs = xs"
  by (induction xs) (auto intro!: filter_True)

lemma app_ids_ok: "distinct (app_ids_of v)" "[] \<notin> set (app_ids_of v)"
  by (auto simp: app_ids_of_def distinct_app_ids set_occurrences split: option.splits json.splits if_splits)

lemma app_ids_of_texts:
  assumes "distinct as" "[] \<notin> set as"
  shows "app_ids_of (Some (JArr (map JStr as))) = as"
proof -
  have "concat (map ((\<lambda>x. case x of JStr s \<Rightarrow> if s = [] then [] else [s] | _ \<Rightarrow> []) \<circ> JStr) as) = as"
    using assms(2) by (induction as) auto
  then show ?thesis using assms(1) by (simp add: app_ids_of_def first_occurrences_id)
qed

lemma normalized_ok:
  assumes "normalize_canvas_config config = Inr c"
  shows "canvas_ok c"
proof -
  define raw where "raw = (case config of JObj d \<Rightarrow> d | _ \<Rightarrow> [])"
  define opened where "opened = app_ids_of (map_of raw (if is_v3 raw then ''open_app_ids'' else ''pinned_ids''))"
  obtain sources legacy ws where ws: "windows_of (canvas_window (is_v3 raw) sources legacy) 0 opened = Inr ws"
    "c = \<lparr>cv_open = opened, cv_active = active_of (map_of raw ''active_app_id'') opened, cv_windows = ws\<rparr>"
    using assms unfolding normalize_canvas_config_def raw_def[symmetric] Let_def opened_def[symmetric]
    by (cases "windows_of (canvas_window (is_v3 raw) (if is_v3 raw then json_or_null (map_of raw ''windows'') else JObj [])
        (if is_v3 raw then JObj [] else json_or_null (map_of raw ''widget_spans''))) 0 opened") auto
  have "map fst ws = opened \<and> (\<forall>aw \<in> set ws. window_ok (snd aw))"
    by (rule windows_of_ok[OF ws(1)]) (rule canvas_window_ok)
  moreover have "case active_of v opened of None \<Rightarrow> opened = [] | Some a \<Rightarrow> a \<in> set opened" for v
    by (auto simp: active_of_def split: option.splits json.splits)
  moreover have "distinct opened" "[] \<notin> set opened" by (simp_all add: opened_def app_ids_ok)
  ultimately show ?thesis by (simp add: canvas_ok_def ws(2) cong: option.case_cong)
qed

lemma text_in_JStr: "s \<in> set ts \<Longrightarrow> text_in (Some (JStr s)) ts = Inr (Some s)"
  by (simp add: text_in_def)

lemma window_kept:
  assumes "window_ok w"
  shows "\<exists>d. window_json w = JObj d \<and> window_from d = Inr w"
proof -
  obtain mode b restore snap where w: "w = \<lparr>wi_mode = mode, wi_bounds = b, wi_restore = restore, wi_snap = snap\<rparr>"
    by (cases w)
  have ok: "mode \<in> set WINDOW_MODES" "bounds_ok b" "restore = Some c \<Longrightarrow> bounds_ok c" "snap = Some z \<Longrightarrow> z \<in> set SNAP_ZONES" for c z
    using assms by (simp_all add: w window_ok_def)
  define d where "d = [(''mode'', JStr mode), (''bounds'', bounds_json b)] @
     (case restore of None \<Rightarrow> [] | Some b \<Rightarrow> [(''restoreBounds'', bounds_json b)]) @
     (case snap of None \<Rightarrow> [] | Some z \<Rightarrow> [(''snapZone'', JStr z)])"
  have k: "map_of d ''mode'' = Some (JStr mode)" "map_of d ''bounds'' = Some (bounds_json b)"
    "map_of d ''restoreBounds'' = map_option bounds_json restore" "map_of d ''snapZone'' = map_option JStr snap"
    by (cases restore; cases snap; simp add: d_def)+
  have z: "text_in (map_option JStr snap) SNAP_ZONES = Inr snap"
    using ok(4) by (cases snap) (simp_all add: text_in_JStr, simp add: text_in_def)
  have "restore_bounds (Some (bounds_json c)) = Some (normalize_bounds (Some (bounds_json c)))" for c
    by (simp add: restore_bounds_def bounds_json_def)
  then have r: "restore_bounds (map_option bounds_json restore) = restore"
    using normalize_bounds_id ok(3) by (cases restore) (simp_all, simp add: restore_bounds_def)
  have "window_from d = Inr w"
    by (simp add: window_from_def k z r text_in_JStr[OF ok(1)] normalize_bounds_id[OF ok(2)] w)
  moreover have "window_json w = JObj d" by (simp add: window_json_def w d_def)
  ultimately show ?thesis by blast
qed

lemma normalize_kept:
  assumes "canvas_ok c"
  shows "normalize_canvas_config (canvas_json c) = Inr c"
proof -
  define d where "d = [(''version'', JInt CANVAS_VERSION), (''open_app_ids'', JArr (map JStr (cv_open c))),
     (''active_app_id'', json_of_str (cv_active c)),
     (''windows'', JObj (map (\<lambda>aw. (fst aw, window_json (snd aw))) (cv_windows c)))]"
  have k: "map_of d ''open_app_ids'' = Some (JArr (map JStr (cv_open c)))" "map_of d ''active_app_id'' = Some (json_of_str (cv_active c))"
    "map_of d ''windows'' = Some (JObj (map (\<lambda>aw. (fst aw, window_json (snd aw))) (cv_windows c)))" "is_v3 d"
    by (simp_all add: d_def is_v3_def)
  have ids: "distinct (cv_open c)" "[] \<notin> set (cv_open c)" "map fst (cv_windows c) = cv_open c"
    using assms by (simp_all add: canvas_ok_def)
  have act: "active_of (Some (json_of_str (cv_active c))) (cv_open c) = cv_active c"
    using assms by (cases "cv_active c") (auto simp: canvas_ok_def active_of_def json_of_str_def)
  have w: "canvas_window True (JObj (map (\<lambda>aw. (fst aw, window_json (snd aw))) (cv_windows c))) (JObj []) i (fst aw) = Inr (snd aw)"
    if aw: "aw \<in> set (cv_windows c)" for i aw
  proof -
    have "map_of (cv_windows c) (fst aw) = Some (snd aw)"
      using aw ids(1) unfolding ids(3)[symmetric] by (intro map_of_is_SomeI) simp_all
    then have m: "map_of (map (\<lambda>aw. (fst aw, window_json (snd aw))) (cv_windows c)) (fst aw) = Some (window_json (snd aw))"
      using map_of_map[of window_json "cv_windows c"] by (simp add: case_prod_unfold)
    have "window_ok (snd aw)" using assms aw by (simp add: canvas_ok_def)
    then obtain e where "window_json (snd aw) = JObj e" "window_from e = Inr (snd aw)" using window_kept by blast
    then show ?thesis using m by (simp add: canvas_window_def)
  qed
  have "windows_of (canvas_window True (JObj (map (\<lambda>aw. (fst aw, window_json (snd aw))) (cv_windows c))) (JObj [])) 0 (cv_open c)
      = Inr (cv_windows c)"
    unfolding ids(3)[symmetric] by (rule windows_of_map) (rule w)
  then have "normalize_canvas_config (JObj d) = Inr c"
    by (simp add: normalize_canvas_config_def k app_ids_of_texts[OF ids(1,2)] json_or_null_def act)
  then show ?thesis by (simp add: canvas_json_def d_def)
qed

text \<open>
  Property C37 (canvas): a stored layout is valid and reading it changes nothing. Whatever a client sends, a save that is
  accepted stores a layout whose open Apps are distinct with exactly one window each, in the same order, every window in
  a known mode, at least three tenths wide and high and inside the unit square, and the active App open if any App is;
  reading the file back gives that layout, and saving what was read leaves the file as it is.
\<close>

theorem stored_layout_is_valid_and_stable:
  assumes "save_canvas_config config file = Inr file'"
  shows "\<exists>c. canvas_ok c \<and> get_canvas_config file' = Inr c \<and> save_canvas_config (canvas_json c) file' = Inr file'"
proof -
  obtain c where c: "normalize_canvas_config config = Inr c" "file' = Some (Some (canvas_json c))"
    using assms by (auto simp: save_canvas_config_def split: sum.splits) (cases "normalize_canvas_config config"; auto)+
  have ok: "canvas_ok c" by (rule normalized_ok[OF c(1)])
  obtain d where d: "canvas_json c = JObj d" by (simp add: canvas_json_def)
  have "get_canvas_config file' = Inr c" "save_canvas_config (canvas_json c) file' = Inr file'"
    using normalize_kept[OF ok] by (simp_all add: get_canvas_config_def save_canvas_config_def c(2) load_json_object_def d)
  with ok show ?thesis by blast
qed

definition demo_canvas :: json where
  "demo_canvas = JObj [(''pinned_ids'', JArr [JStr ''todo'', JStr ''todo'', JInt 4, JStr ''notes'']),
     (''widget_spans'', JObj [(''notes'', JObj [(''cols'', JInt 99), (''rows'', JInt 1)])])]"

theorem stored_layout_is_valid_and_stable_witness:
  "\<exists>file' c. save_canvas_config demo_canvas None = Inr file' \<and> canvas_ok c \<and> get_canvas_config file' = Inr c \<and>
     save_canvas_config (canvas_json c) file' = Inr file'"
proof -
  obtain file' where f: "save_canvas_config demo_canvas None = Inr file'"
    by (simp add: save_canvas_config_def normalize_canvas_config_def demo_canvas_def is_v3_def app_ids_of_def canvas_window_def
        json_or_null_def Let_def)
  show ?thesis using stored_layout_is_valid_and_stable[OF f] f by blast
qed

end
