(* ===== verification/Intent_Plan.thy ===== *)
theory Intent_Plan
  imports Py_Numbers
begin

text \<open>
  The structured decision of the router (\<^verbatim>\<open>agent/intent_plan.py\<close>): kinds, plans and their steps, with the reading
  from and writing to the JSON of a checkpoint. Fields the code does not check hold any JSON value.
\<close>

section \<open>Kinds\<close>

datatype intent_kind =
    K_widget_create | K_widget_modify | K_graph_mutation | K_graph_query | K_plan_and_act | K_multi_intent | K_clarify | K_converse

fun kind_str :: "intent_kind \<Rightarrow> string" where
  "kind_str K_widget_create = ''widget_create''"
| "kind_str K_widget_modify = ''widget_modify''"
| "kind_str K_graph_mutation = ''graph_mutation''"
| "kind_str K_graph_query = ''graph_query''"
| "kind_str K_plan_and_act = ''plan_and_act''"
| "kind_str K_multi_intent = ''multi_intent''"
| "kind_str K_clarify = ''clarify''"
| "kind_str K_converse = ''converse''"

definition ALL_KINDS :: "intent_kind list" where
  "ALL_KINDS = [K_widget_create, K_widget_modify, K_graph_mutation, K_graph_query, K_plan_and_act, K_multi_intent, K_clarify, K_converse]"

definition parse_kind :: "json \<Rightarrow> intent_kind option" where
  "parse_kind v = (case v of JStr s \<Rightarrow> List.find (\<lambda>k. kind_str k = s) ALL_KINDS | _ \<Rightarrow> None)"

datatype sub_kind =
    U_converse | U_graph_mutation | U_graph_query | U_widget_create | U_widget_modify | U_widget_extend_schema
  | U_widget_fix_code | U_widget_rewrite

fun sub_kind_str :: "sub_kind \<Rightarrow> string" where
  "sub_kind_str U_converse = ''converse''"
| "sub_kind_str U_graph_mutation = ''graph_mutation''"
| "sub_kind_str U_graph_query = ''graph_query''"
| "sub_kind_str U_widget_create = ''widget_create''"
| "sub_kind_str U_widget_modify = ''widget_modify''"
| "sub_kind_str U_widget_extend_schema = ''widget_extend_schema''"
| "sub_kind_str U_widget_fix_code = ''widget_fix_code''"
| "sub_kind_str U_widget_rewrite = ''widget_rewrite''"

definition ALL_SUB_KINDS :: "sub_kind list" where
  "ALL_SUB_KINDS = [U_converse, U_graph_mutation, U_graph_query, U_widget_create, U_widget_modify, U_widget_extend_schema,
     U_widget_fix_code, U_widget_rewrite]"

definition parse_sub_kind :: "json \<Rightarrow> sub_kind option" where
  "parse_sub_kind v = (case v of JStr s \<Rightarrow> List.find (\<lambda>k. sub_kind_str k = s) ALL_SUB_KINDS | _ \<Rightarrow> None)"

lemma parse_kind_str [simp]: "parse_kind (JStr (kind_str k)) = Some k"
  by (cases k) (simp_all add: parse_kind_def ALL_KINDS_def)

lemma parse_sub_kind_str [simp]: "parse_sub_kind (JStr (sub_kind_str k)) = Some k"
  by (cases k) (simp_all add: parse_sub_kind_def ALL_SUB_KINDS_def)

section \<open>Plans\<close>

record sub_intent =
  si_kind :: sub_kind
  si_app_id :: json
  si_instruction :: json
  si_actions :: "json list"
  si_query :: json
  si_extend :: json
  si_feedback :: json

record intent_plan =
  ip_kind :: intent_kind
  ip_confidence :: pyfloat
  ip_rationale :: string
  ip_app_id :: json
  ip_instruction :: json
  ip_actions :: "json list"
  ip_query :: json
  ip_subs :: "sub_intent list"
  ip_message :: string
  ip_options :: "json list"
  ip_deprecated :: bool

text \<open>\<^verbatim>\<open>list(v or [])\<close>: the items of a list, the keys of an object, the characters of a text.\<close>

fun code_points :: "string \<Rightarrow> string list" where
  "code_points [] = []"
| "code_points (c # cs) =
     (case code_points cs of
        p # ps \<Rightarrow> if p \<noteq> [] \<and> is_continuation (hd p) then (c # p) # ps else [c] # p # ps
      | [] \<Rightarrow> [[c]])"

definition list_of :: "json option \<Rightarrow> json list result" where
  "list_of v =
     (case v of None \<Rightarrow> Inr []
      | Some x \<Rightarrow>
          if \<not> truthy x then Inr []
          else (case x of JArr xs \<Rightarrow> Inr xs | JObj kvs \<Rightarrow> Inr (map (\<lambda>kv. JStr (fst kv)) kvs)
                | JStr s \<Rightarrow> Inr (map JStr (code_points s)) | _ \<Rightarrow> Inl (TypeError ''not iterable'')))"

definition field_json :: "(string \<times> json) list \<Rightarrow> string \<Rightarrow> json" where
  "field_json d k = json_or_null (map_of d k)"

definition sub_from_dict :: "(string \<times> json) list \<Rightarrow> sub_intent result" where
  "sub_from_dict d =
     (let kind = (case map_of d ''kind'' of None \<Rightarrow> JStr ''graph_mutation'' | Some v \<Rightarrow> v)
      in case parse_sub_kind kind of
           None \<Rightarrow> Inl (ValueError (''Unknown sub-intent kind: '' @ py_repr kind))
         | Some k \<Rightarrow> map_sum id (\<lambda>acts. \<lparr>si_kind = k, si_app_id = field_json d ''app_id'', si_instruction = field_json d ''instruction'',
             si_actions = acts, si_query = field_json d ''query'', si_extend = field_json d ''extend_schema_props'',
             si_feedback = field_json d ''feedback''\<rparr>) (list_of (map_of d ''actions'')))"

fun collect :: "('a \<Rightarrow> 'b result) \<Rightarrow> 'a list \<Rightarrow> 'b list result" where
  "collect f [] = Inr []"
| "collect f (x # xs) = (case f x of Inl e \<Rightarrow> Inl e | Inr y \<Rightarrow> map_sum id (\<lambda>ys. y # ys) (collect f xs))"

definition dicts_in :: "json list \<Rightarrow> (string \<times> json) list list" where
  "dicts_in xs = concat (map (\<lambda>x. case x of JObj d \<Rightarrow> [d] | _ \<Rightarrow> []) xs)"

definition default_message :: "intent_kind \<Rightarrow> string" where
  "default_message k = (if k = K_clarify then ''The requested action could not be classified safely.'' else [])"

definition plan_message :: "json option \<Rightarrow> intent_kind \<Rightarrow> string" where
  "plan_message v k = (case v of Some x \<Rightarrow> if truthy x then py_str x else default_message k | None \<Rightarrow> default_message k)"

definition plan_confidence :: "json option \<Rightarrow> pyfloat result" where
  "plan_confidence v = (case v of Some x \<Rightarrow> if truthy x then float_of x else Inr 0 | None \<Rightarrow> Inr 0)"

definition plan_from_dict :: "(string \<times> json) list \<Rightarrow> intent_plan result" where
  "plan_from_dict d =
     (let kind = (case parse_kind (case map_of d ''kind'' of None \<Rightarrow> JStr ''converse'' | Some v \<Rightarrow> v) of None \<Rightarrow> K_clarify | Some k \<Rightarrow> k)
      in case list_of (map_of d ''sub_intents'') of Inl e \<Rightarrow> Inl e | Inr raw \<Rightarrow>
         (case collect sub_from_dict (dicts_in raw) of Inl e \<Rightarrow> Inl e | Inr subs \<Rightarrow>
         (case plan_confidence (map_of d ''confidence'') of Inl e \<Rightarrow> Inl e | Inr confidence \<Rightarrow>
         (case list_of (map_of d ''actions'') of Inl e \<Rightarrow> Inl e | Inr actions \<Rightarrow>
         (case list_of (map_of d ''clarification_options'') of Inl e \<Rightarrow> Inl e | Inr options \<Rightarrow>
            Inr \<lparr>ip_kind = kind, ip_confidence = confidence, ip_rationale = str_or_empty (map_of d ''rationale''),
                 ip_app_id = field_json d ''app_id'', ip_instruction = field_json d ''instruction'', ip_actions = actions,
                 ip_query = field_json d ''query'', ip_subs = subs,
                 ip_message = plan_message (map_of d ''clarification_message'') kind, ip_options = options,
                 ip_deprecated = truthy_opt (map_of d ''deprecated'')\<rparr>)))))"

definition from_tool_call_args :: "json \<Rightarrow> intent_plan result" where
  "from_tool_call_args args = plan_from_dict (case args of JObj d \<Rightarrow> d | _ \<Rightarrow> [])"

section \<open>Writing\<close>

text \<open>
  \<^verbatim>\<open>{k: dict(v) for k, v in props.items()}\<close>. \<^verbatim>\<open>dict\<close> also takes lists of pairs; only the empty ones are taken here.
\<close>

definition copy_dict :: "string \<times> json \<Rightarrow> (string \<times> json) result" where
  "copy_dict kv =
     (case snd kv of JObj d \<Rightarrow> Inr (fst kv, JObj d) | JArr [] \<Rightarrow> Inr (fst kv, JObj []) | JStr [] \<Rightarrow> Inr (fst kv, JObj [])
      | _ \<Rightarrow> Inl (TypeError ''dict''))"

definition optional :: "bool \<Rightarrow> string \<Rightarrow> json \<Rightarrow> (string \<times> json) list" where
  "optional c k v = (if c then [(k, v)] else [])"

definition extend_items :: "json \<Rightarrow> (string \<times> json) list result" where
  "extend_items v =
     (if \<not> truthy v then Inr []
      else (case v of JObj kvs \<Rightarrow> map_sum id (\<lambda>ps. [(''extend_schema_props'', JObj ps)]) (collect copy_dict kvs)
            | _ \<Rightarrow> Inl (AttributeError ''items'')))"

definition sub_to_dict :: "sub_intent \<Rightarrow> (string \<times> json) list result" where
  "sub_to_dict s =
     (case extend_items (si_extend s) of
        Inl e \<Rightarrow> Inl e
      | Inr ext \<Rightarrow> Inr ([(''kind'', JStr (sub_kind_str (si_kind s)))] @
          optional (si_app_id s \<noteq> JNull) ''app_id'' (si_app_id s) @
          optional (si_instruction s \<noteq> JNull) ''instruction'' (si_instruction s) @
          optional (si_actions s \<noteq> []) ''actions'' (JArr (si_actions s)) @
          optional (si_query s \<noteq> JNull) ''query'' (si_query s) @ ext @
          optional (si_feedback s \<noteq> JNull) ''feedback'' (si_feedback s)))"

definition plan_to_dict :: "intent_plan \<Rightarrow> (string \<times> json) list result" where
  "plan_to_dict p =
     (case collect sub_to_dict (ip_subs p) of
        Inl e \<Rightarrow> Inl e
      | Inr subs \<Rightarrow> Inr ([(''kind'', JStr (kind_str (ip_kind p))), (''confidence'', JFloat (ip_confidence p)),
            (''rationale'', JStr (ip_rationale p))] @
          optional (ip_app_id p \<noteq> JNull) ''app_id'' (ip_app_id p) @
          optional (ip_instruction p \<noteq> JNull) ''instruction'' (ip_instruction p) @
          optional (ip_actions p \<noteq> []) ''actions'' (JArr (ip_actions p)) @
          optional (ip_query p \<noteq> JNull) ''query'' (ip_query p) @
          optional (ip_subs p \<noteq> []) ''sub_intents'' (JArr (map JObj subs)) @
          optional (ip_message p \<noteq> []) ''clarification_message'' (JStr (ip_message p)) @
          optional (ip_options p \<noteq> []) ''clarification_options'' (JArr (ip_options p)) @
          optional (ip_deprecated p) ''deprecated'' (JBool True)))"

section \<open>A checkpoint keeps the plan\<close>

text \<open>
  What reading gives can be written, unless the schema extensions of a step are no objects; the empty ones of another
  shape are written as nothing.
\<close>

definition settled_extend :: "json \<Rightarrow> bool" where
  "settled_extend v \<longleftrightarrow> v = JNull \<or> (\<exists>kvs. v = JObj kvs \<and> kvs \<noteq> [] \<and> list_all (\<lambda>kv. is_dict (snd kv)) kvs)"

definition settled :: "intent_plan \<Rightarrow> bool" where
  "settled p \<longleftrightarrow> list_all (\<lambda>s. settled_extend (si_extend s)) (ip_subs p) \<and> (ip_kind p = K_clarify \<longrightarrow> ip_message p \<noteq> [])"

lemma collect_copy: "list_all (\<lambda>kv. is_dict (snd kv)) kvs \<Longrightarrow> collect copy_dict kvs = Inr kvs"
  by (induction kvs) (auto simp: copy_dict_def split: json.splits)

lemma map_of_optional [simp]: "map_of (optional c k v) k' = (if c \<and> k' = k then Some v else None)"
  by (simp add: optional_def)

lemma sub_roundtrip:
  assumes "settled_extend (si_extend s)"
  shows "\<exists>d. sub_to_dict s = Inr d \<and> sub_from_dict d = Inr s"
proof -
  obtain ext where ext: "extend_items (si_extend s) = Inr ext" "json_or_null (map_of ext ''extend_schema_props'') = si_extend s"
    "\<forall>k. k \<noteq> ''extend_schema_props'' \<longrightarrow> map_of ext k = None"
    using assms by (auto simp: settled_extend_def extend_items_def collect_copy json_or_null_def)
  show ?thesis
    using ext by (cases s)
      (auto simp: sub_to_dict_def sub_from_dict_def field_json_def list_of_def json_or_null_def map_add_def split: option.splits)
qed

lemma collect_roundtrip:
  "(\<And>x. x \<in> set xs \<Longrightarrow> \<exists>y. f x = Inr y \<and> g y = Inr x) \<Longrightarrow> \<exists>ys. collect f xs = Inr ys \<and> collect g ys = Inr xs"
proof (induction xs)
  case (Cons x xs)
  obtain y where "f x = Inr y" "g y = Inr x" using Cons.prems[of x] by auto
  moreover obtain ys where "collect f xs = Inr ys" "collect g ys = Inr xs" using Cons by auto
  ultimately show ?case by simp
qed simp

lemma dicts_in_objs [simp]: "dicts_in (map JObj ds) = ds"
  by (induction ds) (simp_all add: dicts_in_def)

lemma list_of_arr [simp]: "list_of (Some (JArr xs)) = Inr xs"
  by (simp add: list_of_def)

lemma list_of_None [simp]: "list_of None = Inr []"
  by (simp add: list_of_def)

lemma plan_kept:
  assumes "settled p"
  shows "\<exists>d. plan_to_dict p = Inr d \<and> plan_from_dict d = Inr p"
proof -
  obtain ds where ds: "collect sub_to_dict (ip_subs p) = Inr ds" "collect sub_from_dict ds = Inr (ip_subs p)"
    using collect_roundtrip[of "ip_subs p" sub_to_dict sub_from_dict] sub_roundtrip assms
    by (auto simp: settled_def list_all_iff)
  then have none: "ip_subs p = [] \<longrightarrow> ds = []" by auto
  let ?d = "[(''kind'', JStr (kind_str (ip_kind p))), (''confidence'', JFloat (ip_confidence p)), (''rationale'', JStr (ip_rationale p))] @
    optional (ip_app_id p \<noteq> JNull) ''app_id'' (ip_app_id p) @ optional (ip_instruction p \<noteq> JNull) ''instruction'' (ip_instruction p) @
    optional (ip_actions p \<noteq> []) ''actions'' (JArr (ip_actions p)) @ optional (ip_query p \<noteq> JNull) ''query'' (ip_query p) @
    optional (ip_subs p \<noteq> []) ''sub_intents'' (JArr (map JObj ds)) @
    optional (ip_message p \<noteq> []) ''clarification_message'' (JStr (ip_message p)) @
    optional (ip_options p \<noteq> []) ''clarification_options'' (JArr (ip_options p)) @
    optional (ip_deprecated p) ''deprecated'' (JBool True)"
  have w: "plan_to_dict p = Inr ?d" using ds by (simp add: plan_to_dict_def)
  have k: "map_of ?d ''kind'' = Some (JStr (kind_str (ip_kind p)))" "map_of ?d ''confidence'' = Some (JFloat (ip_confidence p))"
    "map_of ?d ''rationale'' = Some (JStr (ip_rationale p))"
    "map_of ?d ''app_id'' = (if ip_app_id p \<noteq> JNull then Some (ip_app_id p) else None)"
    "map_of ?d ''instruction'' = (if ip_instruction p \<noteq> JNull then Some (ip_instruction p) else None)"
    "map_of ?d ''actions'' = (if ip_actions p \<noteq> [] then Some (JArr (ip_actions p)) else None)"
    "map_of ?d ''query'' = (if ip_query p \<noteq> JNull then Some (ip_query p) else None)"
    "map_of ?d ''sub_intents'' = (if ip_subs p \<noteq> [] then Some (JArr (map JObj ds)) else None)"
    "map_of ?d ''clarification_message'' = (if ip_message p \<noteq> [] then Some (JStr (ip_message p)) else None)"
    "map_of ?d ''clarification_options'' = (if ip_options p \<noteq> [] then Some (JArr (ip_options p)) else None)"
    "map_of ?d ''deprecated'' = (if ip_deprecated p then Some (JBool True) else None)"
    by (simp_all add: map_add_def)
  have f: "list_of (map_of ?d ''sub_intents'') = Inr (map JObj ds)" "list_of (map_of ?d ''actions'') = Inr (ip_actions p)"
    "list_of (map_of ?d ''clarification_options'') = Inr (ip_options p)"
    "plan_confidence (map_of ?d ''confidence'') = Inr (ip_confidence p)"
    "str_or_empty (map_of ?d ''rationale'') = ip_rationale p" "field_json ?d ''app_id'' = ip_app_id p"
    "field_json ?d ''instruction'' = ip_instruction p" "field_json ?d ''query'' = ip_query p"
    "plan_message (map_of ?d ''clarification_message'') (ip_kind p) = ip_message p"
    "truthy_opt (map_of ?d ''deprecated'') = ip_deprecated p"
    unfolding field_json_def k using none assms
    by (simp_all add: plan_confidence_def float_of_def json_or_null_def plan_message_def default_message_def settled_def)
  have "plan_from_dict d = Inr p" if d: "d = ?d" for d
  proof -
    note f' = f[folded d] k(1)[folded d]
    show ?thesis by (simp add: plan_from_dict_def f' ds(2))
  qed
  with w show ?thesis by blast
qed

text \<open>
  Property C40 (intent): a plan survives its checkpoint. The dictionary \<^verbatim>\<open>to_dict\<close> writes for a plan whose steps extend
  schemas by objects (and which asks its question, if it is a clarification) is read back by \<^verbatim>\<open>from_dict\<close> as exactly the
  same plan, steps included.
\<close>

theorem plan_survives_checkpoint:
  assumes "settled p"
  shows "\<exists>d. plan_to_dict p = Inr d \<and> plan_from_dict d = Inr p"
  by (rule plan_kept[OF assms])

definition example_plan :: intent_plan where
  "example_plan = \<lparr>ip_kind = K_multi_intent, ip_confidence = 9 / 10, ip_rationale = ''two steps'', ip_app_id = JNull, ip_instruction = JNull,
     ip_actions = [], ip_query = JNull,
     ip_subs = [\<lparr>si_kind = U_graph_mutation, si_app_id = JNull, si_instruction = JNull, si_actions = [JObj [(''action'', JStr ''create_node'')]],
         si_query = JNull, si_extend = JNull, si_feedback = JNull\<rparr>,
       \<lparr>si_kind = U_widget_extend_schema, si_app_id = JStr ''todo'', si_instruction = JStr ''add due'', si_actions = [], si_query = JNull,
         si_extend = JObj [(''Todo'', JObj [(''due'', JStr ''date'')])], si_feedback = JNull\<rparr>],
     ip_message = [], ip_options = [], ip_deprecated = False\<rparr>"

theorem plan_survives_checkpoint_witness:
  "\<exists>d. plan_to_dict example_plan = Inr d \<and> plan_from_dict d = Inr example_plan"
  by (rule plan_survives_checkpoint) (simp add: settled_def settled_extend_def example_plan_def)

end
