(* ===== verification/Audit_Log.thy ===== *)
theory Audit_Log
  imports Workspace_Storage Intent_Plan
begin

text \<open>
  The audit log of model calls (\<^verbatim>\<open>audit_logs.jsonl\<close>, \<^verbatim>\<open>workspace_storage.py\<close>): bounded previews, appending, retention and the
  removal of one conversation. The file is a list of lines; a line is blank, unreadable or an entry. \<open>dumped\<close> stands for
  the number of bytes of \<^verbatim>\<open>json.dumps\<close>.
\<close>

datatype audit_line = Blank | Unreadable | Entry json

section \<open>Bounded previews\<close>

definition AUDIT_TEXT_MAX_BYTES :: nat where
  "AUDIT_TEXT_MAX_BYTES = 32 * 1024"

definition AUDIT_METADATA_MAX_BYTES :: nat where
  "AUDIT_METADATA_MAX_BYTES = 8 * 1024"

text \<open>\<^verbatim>\<open>decode("utf-8", errors="ignore")\<close> of the first bytes of a text: its code points that fit entirely.\<close>

fun whole_points :: "nat \<Rightarrow> string list \<Rightarrow> string" where
  "whole_points n [] = []"
| "whole_points n (p # ps) = (if length p \<le> n then p @ whole_points (n - length p) ps else [])"

definition truncation_marker :: "nat \<Rightarrow> string" where
  "truncation_marker n = [CHR 0x0A] @ ''...[truncated; original_bytes='' @ nat_str n @ '']''"

definition bounded_text :: "json \<Rightarrow> nat \<Rightarrow> string" where
  "bounded_text v max_bytes =
     (let text = (case v of JStr s \<Rightarrow> s | _ \<Rightarrow> str_or_empty (Some v));
          marker = truncation_marker (length text)
      in if length text \<le> max_bytes then text
         else whole_points (max_bytes - length marker) (code_points text) @ marker)"

definition bounded_metadata :: "(json \<Rightarrow> nat) \<Rightarrow> json \<Rightarrow> json" where
  "bounded_metadata dumped v =
     (case v of
        JNull \<Rightarrow> JNull
      | _ \<Rightarrow>
          (let d = (case v of JObj kvs \<Rightarrow> JObj kvs | _ \<Rightarrow> JObj [(''value'', JStr (py_str v))])
           in if dumped d \<le> AUDIT_METADATA_MAX_BYTES then d
              else JObj [(''truncated'', JBool True), (''original_bytes'', JInt (int (dumped d)))]))"

lemma whole_points_bound: "length (whole_points n ps) \<le> n"
  by (induction n ps rule: whole_points.induct) auto

lemma bounded_text_bound:
  "length (truncation_marker (length (case v of JStr s \<Rightarrow> s | _ \<Rightarrow> str_or_empty (Some v)))) \<le> n \<Longrightarrow> length (bounded_text v n) \<le> n"
  using whole_points_bound by (simp add: bounded_text_def Let_def) (metis add_le_mono1 le_add_diff_inverse2)

section \<open>Appending\<close>

record llm_audit =
  au_id :: int
  au_timestamp :: string
  au_provider :: string
  au_model :: string
  au_prompt :: string
  au_response :: string
  au_stage :: string
  au_run_id :: "string option"
  au_session_id :: "string option"
  au_step_id :: "string option"
  au_attempt :: "int option"
  au_trace_id :: "string option"
  au_latency_ms :: "pyfloat option"
  au_usage :: json
  au_finish_reason :: "string option"
  au_error :: "string option"
  au_prompt_hash :: "string option"
  au_tool_schema_hash :: "string option"
  au_artifact_hashes :: json

definition audit_entry :: "(json \<Rightarrow> nat) \<Rightarrow> llm_audit \<Rightarrow> json" where
  "audit_entry dumped a = JObj
     [(''id'', JInt (au_id a)), (''timestamp'', JStr (au_timestamp a)), (''provider'', JStr (au_provider a)),
      (''model'', JStr (au_model a)), (''prompt'', JStr (bounded_text (JStr (au_prompt a)) AUDIT_TEXT_MAX_BYTES)),
      (''response'', JStr (bounded_text (JStr (au_response a)) AUDIT_TEXT_MAX_BYTES)), (''stage'', JStr (au_stage a)),
      (''run_id'', json_of_str (au_run_id a)), (''session_id'', json_of_str (au_session_id a)),
      (''step_id'', json_of_str (au_step_id a)), (''attempt'', opt_json JInt (au_attempt a)),
      (''trace_id'', json_of_str (au_trace_id a)), (''latency_ms'', opt_json JFloat (au_latency_ms a)),
      (''usage'', bounded_metadata dumped (au_usage a)), (''finish_reason'', json_of_str (au_finish_reason a)),
      (''error'', opt_json (\<lambda>e. JStr (bounded_text (JStr e) AUDIT_METADATA_MAX_BYTES)) (au_error a)),
      (''prompt_hash'', json_of_str (au_prompt_hash a)), (''tool_schema_hash'', json_of_str (au_tool_schema_hash a)),
      (''artifact_hashes'', (let m = bounded_metadata dumped (au_artifact_hashes a) in if truthy m then m else JObj []))]"

text \<open>A tail that a crash cut off stays a line of its own, as a separator is written before the new entry.\<close>

definition save_audit_log :: "(json \<Rightarrow> nat) \<Rightarrow> llm_audit \<Rightarrow> audit_line list \<Rightarrow> audit_line list" where
  "save_audit_log dumped a lines = lines @ [Entry (audit_entry dumped a)]"

section \<open>Removal\<close>

definition belongs_to :: "string \<Rightarrow> string list \<Rightarrow> audit_line \<Rightarrow> bool" where
  "belongs_to sid run_ids l =
     (case l of
        Entry (JObj d) \<Rightarrow> map_of d ''session_id'' = Some (JStr sid) \<or> str_or_empty (map_of d ''run_id'') \<in> set run_ids
      | _ \<Rightarrow> False)"

definition delete_audit_logs_for_session :: "string \<Rightarrow> string list \<Rightarrow> audit_line list \<Rightarrow> (audit_line list \<times> nat) stored" where
  "delete_audit_logs_for_session sid run_ids lines =
     map_sum id (\<lambda>s. (filter (\<lambda>l. \<not> belongs_to s run_ids l) lines, length (filter (belongs_to s run_ids) lines)))
       (validate_session_id (JStr sid))"

definition retained_entry :: "(string \<Rightarrow> nat option) \<Rightarrow> nat \<Rightarrow> audit_line \<Rightarrow> bool" where
  "retained_entry instants cutoff l =
     (case l of
        Entry (JObj d) \<Rightarrow>
          (case map_of d ''timestamp'' of
             None \<Rightarrow> False
           | Some v \<Rightarrow> (case instants (py_str v) of None \<Rightarrow> False | Some t \<Rightarrow> cutoff \<le> t))
      | _ \<Rightarrow> False)"

definition cleanup_audit_logs :: "(string \<Rightarrow> nat option) \<Rightarrow> nat \<Rightarrow> audit_line list \<Rightarrow> audit_line list \<times> nat" where
  "cleanup_audit_logs instants cutoff lines =
     (filter (retained_entry instants cutoff) lines,
      length (filter (\<lambda>l. l \<noteq> Blank \<and> \<not> retained_entry instants cutoff l) lines))"

text \<open>A conversation goes without a trace and takes nothing else with it.\<close>

lemma deletion_is_exact:
  assumes "delete_audit_logs_for_session sid run_ids lines = Inr (lines', n)"
  shows "list_all (\<lambda>l. \<not> belongs_to sid run_ids l) lines' \<and> n + length lines' = length lines \<and>
    filter (\<lambda>l. \<not> belongs_to sid run_ids l) lines = lines'"
proof -
  have "validate_session_id (JStr sid) = Inr sid"
    using assms by (cases "validate_session_id (JStr sid)")
      (auto simp: delete_audit_logs_for_session_def validate_session_id_def split: if_splits)
  then show ?thesis using assms sum_length_filter_compl[of "belongs_to sid run_ids" lines]
    by (auto simp: delete_audit_logs_for_session_def list_all_iff)
qed

end
