(* ===== verification/Agent_Text.thy ===== *)
theory Agent_Text
  imports Intent_Plan Run_Model
begin

text \<open>
  The sentences the agent writes into a chat (\<^verbatim>\<open>_summarize_actions\<close> of
    \<^verbatim>\<open>agent/harness.py\<close>, the summaries and the
  diagnostic of \<^verbatim>\<open>_failure\<close> in \<^verbatim>\<open>agent/durable_workflow.py\<close>), in
    English and in Chinese. Chinese text is written by its
  code points.
\<close>

section \<open>Encoding\<close>

definition byte :: "nat \<Rightarrow> char" where
  "byte n = char_of n"

definition utf8_point :: "nat \<Rightarrow> string" where
  "utf8_point n =
     (if n < 0x80 then [byte n]
      else if n < 0x800 then [byte (0xC0 + n div 64), byte (0x80 + n mod 64)]
      else if n < 0x10000 then [byte (0xE0 + n div 4096), byte (0x80 + n div 64 mod 64), byte (0x80 + n mod 64)]
      else [byte (0xF0 + n div 262144), byte (0x80 + n div 4096 mod 64), byte (0x80 + n div 64 mod 64), byte (0x80 + n
        mod 64)])"

definition from_points :: "nat list \<Rightarrow> string" where
  "from_points ns = concat (map utf8_point ns)"

text \<open>Text in both languages.\<close>

definition tr :: "bool \<Rightarrow> string \<Rightarrow> string \<Rightarrow> string" where
  "tr zh chinese english = (if zh then chinese else english)"

section \<open>What actions did\<close>

definition action_text :: "dict \<Rightarrow> string \<Rightarrow> string" where
  "action_text a k = py_str (json_or_null (map_of a k))"

definition action_title :: "dict \<Rightarrow> json result" where
  "action_title a =
     (case map_of a ''properties'' of
        Some (JObj p) \<Rightarrow> Inr (if truthy_opt (map_of p ''title'') then json_or_null (map_of p ''title'')
          else json_or_null (map_of a ''id''))
      | Some v \<Rightarrow> if truthy v then Inl (AttributeError ''get'') else Inr (json_or_null (map_of a ''id''))
      | None \<Rightarrow> Inr (json_or_null (map_of a ''id'')))"

definition type_text :: "dict \<Rightarrow> string \<Rightarrow> string" where
  "type_text a dflt = (case map_of a ''type'' of None \<Rightarrow> dflt | Some v \<Rightarrow> py_str v)"

definition action_part :: "bool \<Rightarrow> dict \<Rightarrow> string list result" where
  "action_part zh a =
     (case map_of a ''action'' of
        Some (JStr kind) \<Rightarrow>
          if kind = ''create_node'' then
            map_sum id (\<lambda>title. [tr zh (from_points [0x5DF2, 0x65B0, 0x5EFA] @ '' '' @ type_text a
              (from_points [0x8282, 0x70B9]) @ from_points [0x300E] @ py_str title @ from_points [0x300F])
              (''Created '' @ type_text a ''node'' @ '' '' @ quoted (py_str title))]) (action_title a)
          else if kind = ''update_node_property'' then
            Inr [tr zh (from_points [0x5DF2, 0x66F4, 0x65B0, 0x8282, 0x70B9] @ '' `'' @ action_text a ''id'' @ ''`'')
              (''Updated node '' @ quoted (action_text a ''id''))]
          else if kind = ''delete_node'' then
            Inr [tr zh (from_points [0x5DF2, 0x5220, 0x9664, 0x8282, 0x70B9] @ '' `'' @ action_text a ''id'' @ ''`'')
              (''Deleted node '' @ quoted (action_text a ''id''))]
          else if kind = ''create_edge'' then
            Inr [tr zh (from_points [0x5DF2, 0x521B, 0x5EFA, 0x5173, 0x8054] @ '' '') ''Created link '' @ action_text
              a ''from_id'' @ '' '' @ from_points [0x2192] @ '' '' @ action_text a ''to_id'']
          else if kind = ''delete_edge'' then
            Inr [tr zh (from_points [0x5DF2, 0x5220, 0x9664, 0x5173, 0x8054] @ '' '') ''Deleted link '' @ action_text
              a ''from_id'' @ '' '' @ from_points [0x2192] @ '' '' @ action_text a ''to_id'']
          else Inr []
      | _ \<Rightarrow> Inr [])"

definition summarize_actions :: "dict list \<Rightarrow> string \<Rightarrow> string result" where
  "summarize_actions actions language =
     (let zh = (language = ''zh'')
      in map_sum id (\<lambda>pss. case concat pss of
             [] \<Rightarrow> tr zh (from_points [0x5DF2, 0x6267, 0x884C, 0x56FE, 0x5F62, 0x64CD, 0x4F5C])
               ''Applied graph mutation''
           | [p] \<Rightarrow> p
           | ps \<Rightarrow> tr zh (from_points [0x5DF2, 0x5B8C, 0x6210, 0xFF1A]) ''Completed: '' @ join_with ''; ''
             ps)
         (collect (action_part zh) actions))"

definition query_label :: "dict \<Rightarrow> string" where
  "query_label item =
     (let props = (case map_of item ''properties'' of Some (JObj p) \<Rightarrow> p | _ \<Rightarrow> []);
          pick = (\<lambda>k rest. if truthy_opt (map_of props k) then json_or_null (map_of props k) else rest)
      in py_str (pick ''title'' (pick ''summary'' (pick ''name'' (json_or_null (map_of item ''id''))))))"

definition query_line :: "dict \<Rightarrow> string" where
  "query_line item = ''- '' @ action_text item ''type'' @ '' `'' @ action_text item ''id'' @ ''` '' @ from_points
    [0x2014] @ '' '' @ query_label item"

definition query_text :: "bool \<Rightarrow> json list \<Rightarrow> string" where
  "query_text zh results =
     (if results = [] then tr zh (from_points [0xFF08, 0x56FE, 0x4E2D, 0x6CA1, 0x6709, 0x5339, 0x914D, 0x7684, 0x8282,
       0x70B9, 0x3002, 0xFF09]) ''(No matching nodes found.)''
      else tr zh (from_points [0x1F4CA] @ '' Graph '' @ from_points [0x7ED3, 0x679C, 0xFF1A] @ [CHR 0x0A])
        (from_points [0x1F4CA] @ '' Graph Results:'' @ [CHR 0x0A]) @ join_with [CHR 0x0A] (map query_line (dicts_in
        (take 20 results))))"

definition all_done :: "bool \<Rightarrow> string" where
  "all_done zh = tr zh (from_points [0x2705] @ '' '' @ from_points [0x6240, 0x6709, 0x6B65, 0x9AA4, 0x5DF2, 0x5B8C,
    0x6210, 0x3002]) (from_points [0x2705] @ '' All steps completed.'')"

section \<open>Failures\<close>

definition failure_summary :: "bool \<Rightarrow> bool \<Rightarrow> bool \<Rightarrow> string" where
  "failure_summary retained operator zh =
     (if retained \<and> operator then tr zh (from_points [0x4EFB, 0x52A1, 0x5931, 0x8D25, 0xFF1B, 0x8349, 0x7A3F,
       0x5DF2, 0x4FDD, 0x7559, 0xFF0C, 0x9700, 0x5148, 0x4FEE, 0x590D, 0x8FD0, 0x884C, 0x73AF, 0x5883])
       ''Agent task failed; repair the runtime environment before resuming the retained App draft''
      else if retained then tr zh (from_points [0x4EFB, 0x52A1, 0x5931, 0x8D25, 0xFF1B, 0x751F, 0x6210, 0x8349,
        0x7A3F, 0x5DF2, 0x4FDD, 0x7559, 0xFF0C, 0x53EF, 0x91CD, 0x8BD5, 0x7EE7, 0x7EED, 0x9A8C, 0x8BC1])
        ''Agent task failed; staged App retained''
      else ''Agent task failed'')"

record diagnostic =
  dg_zh :: bool
  dg_retained :: bool
  dg_operator :: bool
  dg_environment :: bool
  dg_stalled :: bool
  dg_app_id :: string
  dg_phase :: string
  dg_code :: string
  dg_reason :: string

definition environment_guidance :: "diagnostic \<Rightarrow> string" where
  "environment_guidance d =
     (if dg_environment d
      then tr (dg_zh d) (from_points [0x8BF7, 0x5148, 0x4FEE, 0x590D, 0x6216, 0x66F4, 0x65B0, 0x751F, 0x6210, 0x5668,
        0x5B89, 0x88C5, 0x5E76, 0x6062, 0x590D, 0x8FD0, 0x884C, 0x73AF, 0x5883])
        ''Repair or update the coding agent installation and restore its runtime environment''
      else tr (dg_zh d) (from_points [0x8BF7, 0x5148, 0x5904, 0x7406, 0x751F, 0x6210, 0x6216, 0x6821, 0x9A8C, 0x8FD0,
        0x884C, 0x73AF, 0x5883, 0x7684, 0x95EE, 0x9898]) ''Resolve the generation or verification runtime problem'')"

definition repair_command :: "diagnostic \<Rightarrow> string" where
  "repair_command d = ''`/repair '' @ dg_app_id d"

definition repair_guidance :: "diagnostic \<Rightarrow> string" where
  "repair_guidance d =
     (if dg_operator d then
        if dg_retained d then
          tr (dg_zh d) (from_points [0x81EA, 0x52A8, 0x4EE3, 0x7801, 0x4FEE, 0x590D, 0x65E0, 0x6CD5, 0x89E3, 0x51B3,
            0x8FD0, 0x884C, 0x73AF, 0x5883, 0x6545, 0x969C, 0x3002, 0x5931, 0x8D25, 0x8349, 0x7A3F, 0x5DF2, 0x5B89,
            0x5168, 0x4FDD, 0x7559, 0xFF1B] @ environment_guidance d @ from_points [0xFF0C, 0x518D, 0x56DE, 0x590D] @
            '' '' @ repair_command d @ ''` '' @ from_points [0x7EE7, 0x7EED, 0x3002])
(''Automatic code repair cannot resolve a runtime environment failure. The failed draft was retained safely. '' @
             environment_guidance d @ '' first, then reply with '' @ repair_command d @ ''` to continue.'')
        else
          tr (dg_zh d) (from_points [0x672C, 0x6B21, 0x672A, 0x751F, 0x6210, 0x53EF, 0x4FEE, 0x590D, 0x7684, 0x8349,
            0x7A3F, 0x3002] @ environment_guidance d @ from_points [0xFF0C, 0x7136, 0x540E, 0x91CD, 0x8BD5, 0x539F,
            0x8BF7, 0x6C42, 0x3002])
            (''No repairable draft was generated. '' @ environment_guidance d @
              '' first, then retry the original request.'')
      else if dg_stalled d then
        tr (dg_zh d) (from_points [0x81EA, 0x52A8, 0x4FEE, 0x590D, 0x5DF2, 0x505C, 0x6B62, 0xFF1A, 0x540C, 0x4E00,
          0x6821, 0x9A8C, 0x9519, 0x8BEF, 0x8FDE, 0x7EED, 0x51FA, 0x73B0, 0xFF0C, 0x6216, 0x4FEE, 0x590D, 0x6CA1,
          0x6709, 0x6539, 0x53D8, 0x53D7, 0x6821, 0x9A8C, 0x6587, 0x4EF6, 0x3002, 0x5931, 0x8D25, 0x8349, 0x7A3F,
          0x5DF2, 0x5B89, 0x5168, 0x4FDD, 0x7559, 0xFF1B, 0x5982, 0x6709, 0x65B0, 0x7684, 0x4FEE, 0x590D, 0x601D,
          0x8DEF, 0xFF0C, 0x53EF, 0x56DE, 0x590D] @ '' '' @ repair_command d @ '' <'' @ from_points [0x5177, 0x4F53,
          0x8BF4, 0x660E] @ ''>`'' @ from_points [0x3002])
(''Automatic repair stopped because the same verifier finding repeated or the validated files did not change. '' @
           ''The failed draft was retained; reply with '' @ repair_command d @
           '' <specific guidance>` only if you have a new repair direction.'')
      else
        tr (dg_zh d) (from_points [0x5931, 0x8D25, 0x8349, 0x7A3F, 0x5DF2, 0x5B89, 0x5168, 0x4FDD, 0x7559, 0x3002,
          0x8BF7, 0x76F4, 0x63A5, 0x56DE, 0x590D] @ '' '' @ repair_command d @ ''` '' @ from_points [0x7EE7, 0x7EED,
          0x4FEE, 0x590D, 0xFF1B, 0x4E5F, 0x53EF, 0x4EE5, 0x5728, 0x547D, 0x4EE4, 0x540E, 0x8865, 0x5145, 0x5177,
          0x4F53, 0x8981, 0x6C42, 0x3002])
          (''The failed draft was retained safely. Reply with '' @ repair_command d @
           ''` to continue, optionally followed by additional instructions.''))"

definition diagnostic_text :: "diagnostic \<Rightarrow> string" where
  "diagnostic_text d =
     tr (dg_zh d)
       (''Widget '' @ from_points [0x201C] @ dg_app_id d @ from_points [0x201D] @ '' '' @ from_points [0x751F, 0x6210,
         0x5931, 0x8D25, 0xFF0C, 0x5C1A, 0x672A, 0x53D1, 0x5E03, 0x5230, 0x5E94, 0x7528, 0x4E2D, 0x5FC3, 0x3002] @
         [CHR 0x0A] @ from_points [0x5931, 0x8D25, 0x9636, 0x6BB5, 0xFF1A] @ dg_phase d @ [CHR 0x0A] @ from_points
         [0x9519, 0x8BEF, 0x7801, 0xFF1A] @ dg_code d @ [CHR 0x0A] @ from_points [0x539F, 0x56E0, 0xFF1A] @ dg_reason
         d @ [CHR 0x0A] @ repair_guidance d)
       (''Widget '' @ CHR 0x22 # dg_app_id d @ CHR 0x22 # '' failed and was not published to App Center.'' @
        [CHR 0x0A] @ ''Failed phase: '' @ dg_phase d @ [CHR 0x0A] @ ''Error code: '' @ dg_code d @
        [CHR 0x0A] @ ''Cause: '' @ dg_reason d @ [CHR 0x0A] @ repair_guidance d)"

end
