(* ===== verification/Graph_Query.thy ===== *)
theory Graph_Query
  imports Graph_Commit
begin

text \<open>
  Queries of the graph (\<^verbatim>\<open>graph_query_engine.py\<close>): the checks of a query, the two nested loops with their limits, and a
  declarative account of what they return.
\<close>

definition MAX_GRAPH_QUERY_RESULTS :: int where
  "MAX_GRAPH_QUERY_RESULTS = 500"

definition MAX_GRAPH_QUERY_INCLUDES :: nat where
  "MAX_GRAPH_QUERY_INCLUDES = 16"

definition MAX_GRAPH_QUERY_RELATIONS_PER_RESULT :: nat where
  "MAX_GRAPH_QUERY_RELATIONS_PER_RESULT = 200"

section \<open>Checking a query\<close>

record graph_query =
  gq_type :: "string option"
  gq_filter :: "(string \<times> json) list"
  gq_includes :: "(string \<times> string option) list"
  gq_limit :: nat

fun text_or_null :: "json \<Rightarrow> string option option" where
  "text_or_null JNull = Some None"
| "text_or_null (JStr s) = (if s = [] then None else Some (Some s))"
| "text_or_null _ = None"

definition read_include :: "json \<Rightarrow> (string \<times> string option) option" where
  "read_include v =
     (case v of
        JObj d \<Rightarrow>
          (case (map_of d ''relation'', text_or_null (json_or_null (map_of d ''target_type''))) of
             (Some (JStr r), Some t) \<Rightarrow> if r = [] then None else Some (r, t)
           | _ \<Rightarrow> None)
      | _ \<Rightarrow> None)"

definition read_filter :: "json option \<Rightarrow> (string \<times> json) list option" where
  "read_filter v = (case v of None \<Rightarrow> Some [] | Some (JObj d) \<Rightarrow> if 64 < length d then None else Some d | _ \<Rightarrow> None)"

definition include_list :: "json option \<Rightarrow> json list option" where
  "include_list v =
     (case v of None \<Rightarrow> Some [] | Some (JArr xs) \<Rightarrow> if MAX_GRAPH_QUERY_INCLUDES < length xs then None else Some xs | _ \<Rightarrow> None)"

definition read_limit :: "json option \<Rightarrow> nat option" where
  "read_limit v =
     (case v of
        None \<Rightarrow> Some (nat MAX_GRAPH_QUERY_RESULTS)
      | Some (JInt n) \<Rightarrow> if 1 \<le> n \<and> n \<le> MAX_GRAPH_QUERY_RESULTS then Some (nat n) else None
      | _ \<Rightarrow> None)"

definition read_query :: "json \<Rightarrow> graph_query result" where
  "read_query query =
     (case query of
        JObj d \<Rightarrow>
          (case text_or_null (json_or_null (map_of d ''type'')) of
             None \<Rightarrow> Inl (ValueError ''Graph query type must be a non-empty string'')
           | Some ty \<Rightarrow>
          (case read_filter (map_of d ''properties'') of
             None \<Rightarrow> Inl (ValueError ''Graph query properties must be an object with at most 64 fields'')
           | Some flt \<Rightarrow>
          (case include_list (map_of d ''include'') of
             None \<Rightarrow> Inl (ValueError ''Graph query include must contain at most 16 entries'')
           | Some incs \<Rightarrow>
          (case those (map read_include incs) of
             None \<Rightarrow> Inl (ValueError ''Graph query include entries must declare relation and optional target_type strings'')
           | Some includes \<Rightarrow>
          (case read_limit (map_of d ''limit'') of
             None \<Rightarrow> Inl (ValueError ''Graph query limit must be between 1 and 500'')
           | Some n \<Rightarrow> Inr \<lparr>gq_type = ty, gq_filter = flt, gq_includes = includes, gq_limit = n\<rparr>)))))
      | _ \<Rightarrow> Inl (ValueError ''Graph query must be a JSON object''))"

section \<open>Answering it\<close>

definition row_matches :: "(string \<times> json) list \<Rightarrow> node_row \<Rightarrow> bool" where
  "row_matches flt n \<longleftrightarrow> list_all (\<lambda>kv. py_eq (json_or_null (map_of (gn_props n) (fst kv))) (snd kv)) flt"

definition other_end :: "string \<Rightarrow> edge_row \<Rightarrow> string option" where
  "other_end nid e = (if ge_from e = nid then Some (ge_to e) else if ge_to e = nid then Some (ge_from e) else None)"

definition node_result :: "node_row \<Rightarrow> (string \<times> json) list" where
  "node_result n = [(''id'', JStr (gn_id n)), (''type'', JStr (gn_type n)), (''properties'', JObj (gn_props n))]"

definition relation_to :: "graph \<Rightarrow> string \<Rightarrow> string \<times> string option \<Rightarrow> edge_row \<Rightarrow> json option" where
  "relation_to g nid inc e =
     (if ge_type e \<noteq> fst inc then None
      else case other_end nid e of None \<Rightarrow> None | Some tid \<Rightarrow>
        (case find_node g tid of
           None \<Rightarrow> None
         | Some t \<Rightarrow>
             if snd inc \<noteq> None \<and> snd inc \<noteq> Some (gn_type t) then None
             else Some (JObj [(''edge_type'', JStr (ge_type e)),
                 (''properties'', if truthy (ge_props e) then ge_props e else JObj []), (''target'', JObj (node_result t))])))"

fun relate_edges :: "graph \<Rightarrow> string \<Rightarrow> string \<times> string option \<Rightarrow> edge_row list \<Rightarrow> json list \<Rightarrow> json list" where
  "relate_edges g nid inc [] acc = acc"
| "relate_edges g nid inc (e # es) acc =
     (case relation_to g nid inc e of
        None \<Rightarrow> relate_edges g nid inc es acc
      | Some r \<Rightarrow>
          if MAX_GRAPH_QUERY_RELATIONS_PER_RESULT \<le> length (acc @ [r]) then acc @ [r]
          else relate_edges g nid inc es (acc @ [r]))"

fun relate_all :: "graph \<Rightarrow> string \<Rightarrow> edge_row list \<Rightarrow> (string \<times> string option) list \<Rightarrow> json list \<Rightarrow> json list" where
  "relate_all g nid es [] acc = acc"
| "relate_all g nid es (inc # incs) acc =
     (let acc' = relate_edges g nid inc es acc
      in if MAX_GRAPH_QUERY_RELATIONS_PER_RESULT \<le> length acc' then acc' else relate_all g nid es incs acc')"

definition query_result :: "graph \<Rightarrow> graph_query \<Rightarrow> node_row \<Rightarrow> json list \<Rightarrow> json" where
  "query_result g q n rels = JObj (node_result n @ [(''relations'', JArr rels)])"

fun query_rows :: "graph \<Rightarrow> graph_query \<Rightarrow> node_row list \<Rightarrow> json list \<Rightarrow> json list" where
  "query_rows g q [] acc = acc"
| "query_rows g q (n # ns) acc =
     (if \<not> row_matches (gq_filter q) n then query_rows g q ns acc
      else
        let acc' = acc @ [query_result g q n (relate_all g (gn_id n) (get_edges g (gn_id n)) (gq_includes q) [])]
        in if gq_limit q \<le> length acc' then acc' else query_rows g q ns acc')"

definition execute_graph_query :: "json \<Rightarrow> graph \<Rightarrow> json list result" where
  "execute_graph_query query g = map_sum id (\<lambda>q. query_rows g q (list_nodes g (gq_type q)) []) (read_query query)"

section \<open>The loops as a query\<close>

definition relations_for :: "graph \<Rightarrow> graph_query \<Rightarrow> node_row \<Rightarrow> json list" where
  "relations_for g q n = take MAX_GRAPH_QUERY_RELATIONS_PER_RESULT
     (concat (map (\<lambda>inc. List.map_filter (relation_to g (gn_id n) inc) (get_edges g (gn_id n))) (gq_includes q)))"

definition first_matches :: "graph \<Rightarrow> graph_query \<Rightarrow> json list" where
  "first_matches g q = take (gq_limit q) (map (\<lambda>n. query_result g q n (relations_for g q n))
     (filter (row_matches (gq_filter q)) (list_nodes g (gq_type q))))"

lemma relate_edges_take:
  "length acc < MAX_GRAPH_QUERY_RELATIONS_PER_RESULT \<Longrightarrow>
   relate_edges g nid inc es acc =
     take MAX_GRAPH_QUERY_RELATIONS_PER_RESULT (acc @ List.map_filter (relation_to g nid inc) es)"
proof (induction es arbitrary: acc)
  case (Cons e es)
  show ?case
  proof (cases "relation_to g nid inc e")
    case (Some r)
    have f: "List.map_filter (relation_to g nid inc) (e # es) = r # List.map_filter (relation_to g nid inc) es"
      using Some by (simp add: List.map_filter_simps)
    show ?thesis
    proof (cases "MAX_GRAPH_QUERY_RELATIONS_PER_RESULT \<le> length (acc @ [r])")
      case True
      then have "length (acc @ [r]) = MAX_GRAPH_QUERY_RELATIONS_PER_RESULT" using Cons.prems by simp
      then have "take MAX_GRAPH_QUERY_RELATIONS_PER_RESULT ((acc @ [r]) @ zs) = acc @ [r]" for zs
        by (metis append_eq_conv_conj)
      then show ?thesis using Some True f by simp
    next
      case False
      then show ?thesis using Cons.IH[of "acc @ [r]"] Some f by simp
    qed
  next
    case None
    then show ?thesis using Cons by (simp add: List.map_filter_simps)
  qed
qed (simp add: List.map_filter_simps)

lemma relate_all_take:
  "length acc < MAX_GRAPH_QUERY_RELATIONS_PER_RESULT \<Longrightarrow>
   relate_all g nid es incs acc = take MAX_GRAPH_QUERY_RELATIONS_PER_RESULT
     (acc @ concat (map (\<lambda>inc. List.map_filter (relation_to g nid inc) es) incs))"
proof (induction incs arbitrary: acc)
  case (Cons inc incs)
  let ?m = "MAX_GRAPH_QUERY_RELATIONS_PER_RESULT" and ?xs = "acc @ List.map_filter (relation_to g nid inc) es"
  note r = relate_edges_take[OF Cons.prems, of g nid inc es]
  show ?case
  proof (cases "?m \<le> length ?xs")
    case True
    then show ?thesis using r Cons.prems by (simp add: Let_def)
  next
    case False
    then have "relate_edges g nid inc es acc = ?xs" using r by simp
    then show ?thesis using False Cons.IH[of ?xs] by (simp add: Let_def)
  qed
qed simp

lemma relations_loop: "relate_all g (gn_id n) (get_edges g (gn_id n)) (gq_includes q) [] = relations_for g q n"
  by (simp add: relate_all_take relations_for_def MAX_GRAPH_QUERY_RELATIONS_PER_RESULT_def)

lemma query_rows_take:
  "length acc < gq_limit q \<Longrightarrow>
   query_rows g q ns acc = take (gq_limit q)
     (acc @ map (\<lambda>n. query_result g q n (relations_for g q n)) (filter (row_matches (gq_filter q)) ns))"
proof (induction ns arbitrary: acc)
  case (Cons n ns)
  let ?r = "query_result g q n (relations_for g q n)"
  show ?case
  proof (cases "row_matches (gq_filter q) n")
    case True
    show ?thesis
    proof (cases "gq_limit q \<le> length (acc @ [?r])")
      case full: True
      then have "length (acc @ [?r]) = gq_limit q" using Cons.prems by simp
      then have "take (gq_limit q) ((acc @ [?r]) @ zs) = acc @ [?r]" for zs by (metis append_eq_conv_conj)
      then show ?thesis using True full by (simp add: Let_def relations_loop)
    next
      case False
      then show ?thesis using Cons.IH[of "acc @ [?r]"] True by (simp add: Let_def relations_loop)
    qed
  qed (use Cons in simp)
qed simp

lemma read_limit_bounds: "read_limit v = Some n \<Longrightarrow> 1 \<le> n \<and> n \<le> 500"
  by (auto simp: read_limit_def MAX_GRAPH_QUERY_RESULTS_def split: option.splits json.splits if_splits)

lemma read_query_limit:
  assumes "read_query query = Inr q"
  shows "1 \<le> gq_limit q \<and> gq_limit q \<le> 500"
proof -
  obtain d n where "query = JObj d" "read_limit (map_of d ''limit'') = Some n" "gq_limit q = n"
    using assms by (auto simp: read_query_def split: json.splits option.splits)
  then show ?thesis using read_limit_bounds by simp
qed

lemma query_is_first_matches: "execute_graph_query query g = map_sum id (first_matches g) (read_query query)"
proof (cases "read_query query")
  case (Inr q)
  then show ?thesis using read_query_limit[OF Inr] by (simp add: execute_graph_query_def query_rows_take first_matches_def)
qed (simp add: execute_graph_query_def)

text \<open>
  Property C38 (query): a graph query returns the first matches and no more. The nested loops with their early exits
  compute exactly the first \<^verbatim>\<open>limit\<close> nodes (newest first) of the asked type that carry every asked property, each with
  the first 200 of its matching relations in the order of the include entries; an accepted query asks for 1 to 500.
\<close>

theorem query_returns_first_matches:
  "execute_graph_query query g = map_sum id (first_matches g) (read_query query) \<and>
   (case read_query query of Inl _ \<Rightarrow> True | Inr q \<Rightarrow> 1 \<le> gq_limit q \<and> length (first_matches g q) \<le> 500 \<and>
      list_all (\<lambda>n. length (relations_for g q n) \<le> 200) (gd_nodes g))"
proof (cases "read_query query")
  case (Inr q)
  note l = read_query_limit[OF Inr]
  then show ?thesis
    by (simp add: query_is_first_matches Inr first_matches_def relations_for_def list_all_iff MAX_GRAPH_QUERY_RELATIONS_PER_RESULT_def min.coboundedI2)
qed (simp add: query_is_first_matches)

end
