(* ===== verification/Agent_Saga.thy ===== *)
theory Agent_Saga
  imports Agent_Text Graph_Query Graph_Preflight Graph_Schemas Run_Staging Workspace_Storage
begin

text \<open>
  The part of the agent workflow (\<^verbatim>\<open>agent/durable_workflow.py\<close>) that works without a model: interactions, the graph phases,
  composite requests as a saga of steps, and what a failure or a cancellation undoes. A phase maps the checkpoint and the
  world (graph, chats, staged files, buffered events) to new ones and to an outcome or an exception.
\<close>

section \<open>Exceptions and the world\<close>

text \<open>
  \<open>Coded_error\<close> is an error of the model configuration or of the Coding Agent, \<open>Cancelled_error\<close> the cancellation of
  the task.
\<close>

datatype wf_error =
    Workflow_error string string bool effect_state
  | Coded_error string string
  | Other_error string string
  | Cancelled_error

definition workflow_error :: "string \<Rightarrow> string \<Rightarrow> wf_error" where
  "workflow_error message code = Workflow_error code message False E_none"

definition is_conflict :: "py_error \<Rightarrow> bool" where
  "is_conflict e = (case e of ValueError m \<Rightarrow> starts_with m ''Graph compensation conflict: '' | _ \<Rightarrow> False)"

definition wf_raised :: "py_error \<Rightarrow> wf_error" where
  "wf_raised e = Other_error (if is_conflict e then ''GraphCompensationConflict'' else error_class e) (error_message e)"

definition storage_failed :: "storage_error \<Rightarrow> wf_error" where
  "storage_failed e = Other_error (storage_class e) (storage_message e)"

record wf_world =
  ww_graph :: graph
  ww_chats :: session_files
  ww_files :: file_system
  ww_events :: "pending_event list"

type_synonym wf_state = "agent_state \<times> wf_world"

type_synonym 'a wf_step = "wf_state \<times> (wf_error + 'a)"

text \<open>What a step reads from outside: clocks, random ids, hashes and \<^verbatim>\<open>fromisoformat\<close>.\<close>

record wf_env =
  we_now :: string
  we_instants :: "string \<Rightarrow> nat option"
  we_fresh :: "nat \<Rightarrow> string"
  we_ticket :: string
  we_digest :: "json list \<times> json option \<Rightarrow> string"
  we_payload_hash :: "string \<Rightarrow> int \<Rightarrow> json \<Rightarrow> string"
  we_elapsed :: pyfloat

section \<open>The checkpoint\<close>

definition data_get :: "agent_state \<Rightarrow> string \<Rightarrow> json option" where
  "data_get st k = map_of (st_data st) k"

definition put_data :: "string \<Rightarrow> json \<Rightarrow> agent_state \<Rightarrow> agent_state" where
  "put_data k v st = st\<lparr>st_data := AList.update k v (st_data st)\<rparr>"

definition data_pop :: "string \<Rightarrow> agent_state \<Rightarrow> agent_state" where
  "data_pop k st = st\<lparr>st_data := AList.delete k (st_data st)\<rparr>"

definition data_drop :: "string list \<Rightarrow> agent_state \<Rightarrow> agent_state" where
  "data_drop ks st = st\<lparr>st_data := filter (\<lambda>kv. fst kv \<notin> set ks) (st_data st)\<rparr>"

lemma map_of_filter_keys: "map_of (filter (\<lambda>kv. fst kv \<notin> A) d) k = (if k \<in> A then None else map_of d k)"
  by (induction d) auto

lemma data_get_simps [simp]:
  "data_get (put_data k v st) k' = (if k' = k then Some v else data_get st k')"
  "data_get (data_pop k st) k' = (if k' = k then None else data_get st k')"
  "data_get (data_drop ks st) k' = (if k' \<in> set ks then None else data_get st k')"
  "data_get (st\<lparr>st_phase := p\<rparr>) k' = data_get st k'" "data_get (st\<lparr>st_intent := i\<rparr>) k' = data_get st k'"
  "data_get (st\<lparr>st_pending_interaction_id := j\<rparr>) k' = data_get st k'"
  by (simp_all add: data_get_def put_data_def data_pop_def data_drop_def update_conv' delete_conv' map_of_filter_keys)

definition data_int :: "agent_state \<Rightarrow> string \<Rightarrow> int result" where
  "data_int st k = (case data_get st k of None \<Rightarrow> Inr 0 | Some v \<Rightarrow> int_of v)"

definition truthy_data :: "agent_state \<Rightarrow> string \<Rightarrow> bool" where
  "truthy_data st k = truthy_opt (data_get st k)"

definition language_of :: "agent_state \<Rightarrow> string" where
  "language_of st = (if truthy_data st ''language'' then py_str (json_or_null (data_get st ''language'')) else ''zh'')"

definition says_zh :: "agent_state \<Rightarrow> bool" where
  "says_zh st \<longleftrightarrow> data_get st ''language'' = Some (JStr ''zh'')"

definition WIDGET_KEYS :: "string list" where
  "WIDGET_KEYS = [''plan_candidate'', ''plan_review'', ''plan_review_input_hash'', ''plan_review_instruction'',
     ''plan_rework_feedback'', ''plan_schema_context'', ''approved_plan'', ''schema_candidate'', ''schema_validation_errors'',
     ''approved_schema'', ''runtime_contract'', ''code_feedback'', ''staged_app'', ''verification_report'',
     ''verification_options'', ''verification_passed'', ''verification_override'', ''schema_snapshot'',
     ''existing_app_manifest'', ''requires_feature_criteria'']"

section \<open>Events and messages\<close>

definition emit_event :: "string \<Rightarrow> json \<Rightarrow> bool \<Rightarrow> wf_world \<Rightarrow> wf_world" where
  "emit_event ty payload chat w = w\<lparr>ww_events := ww_events w @ [\<lparr>pe_type = ty, pe_payload = payload, pe_project_to_chat = chat\<rparr>]\<rparr>"

definition activity_payload :: "string \<Rightarrow> string \<Rightarrow> string \<Rightarrow> string \<Rightarrow> string \<Rightarrow> json \<Rightarrow> json" where
  "activity_payload activity_id ty status summary detail metadata =
     (let s = take_points 2000 (normalize_ws summary)
      in JObj ([(''type'', JStr ''activity_updated''), (''activity_id'', JStr (take_points 200 activity_id)),
          (''activity_type'', JStr ty), (''status'', JStr status), (''summary'', JStr (if s = [] then ty else s)),
          (''metadata'', metadata)] @ (if detail = [] then [] else [(''detail'', JStr (take_points 12000 detail))])))"

definition emit_activity :: "string \<Rightarrow> string \<Rightarrow> string \<Rightarrow> string \<Rightarrow> string \<Rightarrow> json \<Rightarrow> wf_world \<Rightarrow> wf_world" where
  "emit_activity activity_id ty status summary detail metadata =
     emit_event ''activity_updated'' (activity_payload activity_id ty status summary detail metadata) False"

definition reply_payload :: "chat_message \<Rightarrow> json" where
  "reply_payload m = JObj [(''type'', JStr ''reply''), (''message'', JObj [(''id'', cm_id m), (''sender'', JStr (cm_sender m)),
     (''role'', JStr (cm_role m)), (''content'', JStr (cm_content m)), (''context_policy'', JStr (cm_context_policy m)),
     (''provenance'', cm_provenance m), (''timestamp'', JStr (cm_timestamp m))])]"

definition run_session :: "run_row \<Rightarrow> string" where
  "run_session r = (case r_source_id r of None \<Rightarrow> ''None'' | Some s \<Rightarrow> s)"

definition message_for_run :: "chat_message list \<Rightarrow> string \<Rightarrow> chat_message option" where
  "message_for_run ms rid = List.find (\<lambda>m. cm_run_id m = Some rid) ms"

definition agent_message :: "wf_env \<Rightarrow> run_row \<Rightarrow> string \<Rightarrow> chat_message" where
  "agent_message env r content = \<lparr>cm_id = JNull, cm_session_id = run_session r, cm_run_id = Some (r_id r), cm_role = ''agent'',
     cm_sender = ''agent'', cm_content = content, cm_context_policy = ''reusable'', cm_provenance = JNull,
     cm_timestamp = we_now env\<rparr>"

text \<open>\<^verbatim>\<open>_save_agent_message\<close>: the message and whether it is new.\<close>

definition save_agent_message ::
  "wf_env \<Rightarrow> run_row \<Rightarrow> string \<Rightarrow> session_files \<Rightarrow> (session_files \<times> chat_message \<times> bool) stored" where
  "save_agent_message env r content chats =
     (case get_messages (we_instants env) (we_now env) chats (run_session r) of Inl e \<Rightarrow> Inl e | Inr ms \<Rightarrow>
       (let fresh = map_sum id (\<lambda>cm. (fst cm, snd cm, True)) (save_message (we_now env) (agent_message env r content) chats)
        in case message_for_run ms (r_id r) of
             None \<Rightarrow> fresh
           | Some m \<Rightarrow> if cm_role m = ''agent'' then Inr (chats, m, False) else fresh))"

text \<open>Save, and emit the reply if the message is new.\<close>

definition say :: "wf_env \<Rightarrow> run_row \<Rightarrow> string \<Rightarrow> wf_world \<Rightarrow> (wf_error + wf_world)" where
  "say env r content w =
     (case save_agent_message env r content (ww_chats w) of
        Inl e \<Rightarrow> Inl (storage_failed e)
      | Inr (chats, m, created) \<Rightarrow>
          (let w' = w\<lparr>ww_chats := chats\<rparr> in Inr (if created then emit_event ''reply'' (reply_payload m) True w' else w')))"

definition outcome :: "string \<Rightarrow> json \<Rightarrow> outcome_base" where
  "outcome summary output = \<lparr>oc_summary = summary, oc_output = output, oc_events = []\<rparr>"

section \<open>Interactions\<close>

definition interaction_name :: "wf_env \<Rightarrow> run_row \<Rightarrow> agent_state \<Rightarrow> string \<Rightarrow> json \<Rightarrow> string" where
  "interaction_name env r st kind payload =
     (let attempt = max 1 (st_attempt st)
      in kind @ ''-'' @ take_points 8 (r_id r) @ ''-a'' @ int_str attempt @ ''-'' @ we_payload_hash env (st_phase st) attempt payload)"

definition wait_for ::
  "wf_env \<Rightarrow> run_row \<Rightarrow> string \<Rightarrow> string \<Rightarrow> (string \<times> json) list \<Rightarrow> wf_state \<Rightarrow> step_outcome wf_step" where
  "wait_for env r kind prompt payload sw =
     (let st = fst sw;
          ident = interaction_name env r st kind (JObj payload);
          wire = JObj (AList.update ''run_id'' (JStr (r_id r)) (AList.update ''request_id'' (JStr ident) payload));
          w = emit_event (str_or_empty (map_of payload ''type'')) wire True
                (emit_activity (''approval:'' @ ident) ''approval'' ''waiting'' prompt []
                  (JObj [(''interaction_id'', JStr ident), (''interaction_type'', JStr kind)]) (snd sw))
      in ((st\<lparr>st_pending_interaction_id := Some ident\<rparr>, w),
          Inr (Wait (outcome prompt JNull) ident (Some kind) (Some prompt) wire)))"

definition as_response :: "json option \<Rightarrow> dict" where
  "as_response v = (case v of Some (JObj d) \<Rightarrow> d | _ \<Rightarrow> [(''approved'', JBool (v = Some (JBool True)))])"

definition response_of :: "store \<Rightarrow> agent_state \<Rightarrow> agent_state \<times> (wf_error + dict option)" where
  "response_of s st =
     (case st_pending_interaction_id st of
        None \<Rightarrow> (st, Inr None)
      | Some [] \<Rightarrow> (st, Inr None)
      | Some iid \<Rightarrow>
          (case find_interaction s iid of
             None \<Rightarrow> (st, Inl (workflow_error ''Pending interaction is missing'' ''interaction_missing''))
           | Some i \<Rightarrow>
               (case i_status i of
                  I_pending \<Rightarrow> (st, Inr None)
                | I_cancelled \<Rightarrow> (st, Inl (workflow_error ''Interaction was cancelled'' ''interaction_cancelled''))
                | I_resolved \<Rightarrow> (st\<lparr>st_pending_interaction_id := None\<rparr>, Inr (Some (as_response (i_response i)))))))"

definition approval :: "dict \<Rightarrow> string" where
  "approval response =
     (case map_of response ''approved'' of
        None \<Rightarrow> ''deny''
      | Some v \<Rightarrow> if v = JBool True then ''approve'' else if v = JBool False \<or> v = JNull then ''deny'' else py_str v)"

section \<open>Intents\<close>

definition current_intent :: "agent_state \<Rightarrow> wf_error + intent_plan" where
  "current_intent st =
     (case (if truthy_data st ''current_intent'' then json_or_null (data_get st ''current_intent'') else opt_json JObj (st_intent st)) of
        JObj d \<Rightarrow> map_sum wf_raised id (plan_from_dict d)
      | _ \<Rightarrow> Inl (workflow_error ''Workflow has no structured intent'' ''intent_missing''))"

fun phase_for_intent :: "intent_kind \<Rightarrow> string" where
  "phase_for_intent K_converse = ''converse''"
| "phase_for_intent K_graph_query = ''graph_query''"
| "phase_for_intent K_graph_mutation = ''graph_preflight''"
| "phase_for_intent K_widget_create = ''plan''"
| "phase_for_intent K_widget_modify = ''plan''"
| "phase_for_intent K_multi_intent = ''multi_preflight''"
| "phase_for_intent K_plan_and_act = ''multi_preflight''"
| "phase_for_intent K_clarify = ''clarify''"

definition plain_plan :: "intent_kind \<Rightarrow> intent_plan" where
  "plain_plan k = \<lparr>ip_kind = k, ip_confidence = 0, ip_rationale = ''multi_intent'', ip_app_id = JNull, ip_instruction = JNull,
     ip_actions = [], ip_query = JNull, ip_subs = [], ip_message = [], ip_options = [], ip_deprecated = False\<rparr>"

definition or_json :: "json \<Rightarrow> json \<Rightarrow> json" where
  "or_json a b = (if truthy a then a else b)"

fun intent_from_sub :: "sub_kind \<Rightarrow> sub_intent \<Rightarrow> intent_plan" where
  "intent_from_sub U_converse s = (plain_plan K_converse)\<lparr>ip_instruction := or_json (si_instruction s) (JStr [])\<rparr>"
| "intent_from_sub U_graph_mutation s = (plain_plan K_graph_mutation)\<lparr>ip_actions := si_actions s\<rparr>"
| "intent_from_sub U_graph_query s = (plain_plan K_graph_query)\<lparr>ip_query := or_json (si_query s) (JObj [])\<rparr>"
| "intent_from_sub k s = (plain_plan (if k = U_widget_create then K_widget_create else K_widget_modify))\<lparr>ip_app_id := si_app_id s,
     ip_instruction := or_json (si_instruction s) (or_json (si_feedback s) (JStr []))\<rparr>"

section \<open>Graph phases\<close>

definition summary_of :: "json list \<Rightarrow> string \<Rightarrow> wf_error + string" where
  "summary_of actions language = map_sum wf_raised id (summarize_actions (dicts_in actions) language)"

text \<open>The end of a subflow: the next step of a composite request, or the reply and the end of the run.\<close>

definition step_record :: "string \<Rightarrow> json \<Rightarrow> json list \<Rightarrow> json" where
  "step_record content res artifacts = JObj [(''message'', JStr content), (''result'', res), (''artifacts'', JArr artifacts)]"

definition results_list :: "agent_state \<Rightarrow> json list option" where
  "results_list st = (case data_get st ''multi_results'' of None \<Rightarrow> Some [] | Some (JArr xs) \<Rightarrow> Some xs | _ \<Rightarrow> None)"

definition close_step :: "json list \<Rightarrow> int \<Rightarrow> agent_state \<Rightarrow> agent_state" where
  "close_step results index st =
     data_drop (WIDGET_KEYS @ [''graph_actions'', ''pre_extend_schema_props''])
       (data_pop ''return_to_multi'' (data_pop ''current_intent''
         (put_data ''multi_index'' (JInt (index + 1)) (put_data ''multi_results'' (JArr results) st))))"

definition finish_subflow ::
  "wf_env \<Rightarrow> run_row \<Rightarrow> string \<Rightarrow> json \<Rightarrow> json list \<Rightarrow> wf_state \<Rightarrow> step_outcome wf_step" where
  "finish_subflow env r content res artifacts sw =
     (let st = fst sw
      in if truthy_data st ''return_to_multi'' then
           (case results_list st of
              None \<Rightarrow> (sw, Inl (Other_error ''AttributeError'' ''append''))
            | Some results \<Rightarrow>
                (let results' = results @ [step_record content res artifacts];
                     st1 = put_data ''multi_results'' (JArr results') st
                 in case data_int st ''multi_index'' of
                      Inl e \<Rightarrow> ((st1, snd sw), Inl (wf_raised e))
                    | Inr i \<Rightarrow> ((close_step results' i st, snd sw),
                        Inr (Continue (outcome ''Saga step completed'' res) (Some ''multi_dispatch'')))))
         else
           (case say env r content (snd sw) of
              Inl e \<Rightarrow> (sw, Inl e)
            | Inr w \<Rightarrow> ((st, w), Inr (Succeeded (outcome ''Agent task completed'' JNull) res artifacts))))"

definition phase_graph_query :: "wf_env \<Rightarrow> run_row \<Rightarrow> wf_state \<Rightarrow> step_outcome wf_step" where
  "phase_graph_query env r sw =
     (case current_intent (fst sw) of Inl e \<Rightarrow> (sw, Inl e) | Inr intent \<Rightarrow>
     (case execute_graph_query (or_json (ip_query intent) (JObj [])) (ww_graph (snd sw)) of
        Inl e \<Rightarrow> (sw, Inl (wf_raised e))
      | Inr results \<Rightarrow> finish_subflow env r (query_text (language_of (fst sw) = ''zh'') results)
          (JObj [(''results'', JArr results)]) [] sw))"

definition graph_preview :: "run_row \<Rightarrow> json list \<Rightarrow> string \<Rightarrow> json" where
  "graph_preview r actions summary = JObj [(''type'', JStr ''mutation_preview''), (''run_id'', JStr (r_id r)),
     (''actions'', JArr actions), (''summary'', JStr summary), (''committed'', JBool False)]"

definition graph_question :: "json list \<Rightarrow> string \<Rightarrow> (string \<times> json) list" where
  "graph_question actions summary = [(''type'', JStr ''permission_request''), (''permission_type'', JStr ''graph_mutation''),
     (''value'', JObj [(''actions'', JArr actions), (''summary'', JStr summary)])]"

definition phase_graph_preflight :: "wf_env \<Rightarrow> run_row \<Rightarrow> wf_state \<Rightarrow> step_outcome wf_step" where
  "phase_graph_preflight env r sw =
     (let st = fst sw; w = snd sw
      in case current_intent st of Inl e \<Rightarrow> (sw, Inl e) | Inr intent \<Rightarrow>
        (case preflight_actions (we_fresh env) (ip_actions intent) (ww_graph w) of
           Inl e \<Rightarrow> (sw, Inl (case e of ValueError m \<Rightarrow> workflow_error m ''invalid_graph_mutation'' | _ \<Rightarrow> wf_raised e))
         | Inr actions \<Rightarrow>
             (let st1 = put_data ''graph_actions'' (JArr actions) st
              in case summary_of actions (language_of st) of
                   Inl e \<Rightarrow> ((st1, w), Inl e)
                 | Inr summary \<Rightarrow>
                     wait_for env r ''graph_mutation_approval'' ''Approve graph mutation'' (graph_question actions summary)
                       (st1\<lparr>st_phase := ''wait_graph_approval''\<rparr>,
                        emit_event ''mutation_preview'' (graph_preview r actions summary) True w))))"

definition phase_wait_graph_approval :: "store \<Rightarrow> wf_state \<Rightarrow> step_outcome wf_step" where
  "phase_wait_graph_approval s sw =
     (case response_of s (fst sw) of
        (st, Inl e) \<Rightarrow> ((st, snd sw), Inl e)
      | (st, Inr None) \<Rightarrow> ((st, snd sw), Inl (workflow_error ''Graph approval response is missing'' ''interaction_unresolved''))
      | (st, Inr (Some response)) \<Rightarrow>
          ((st, snd sw), Inr (if approval response \<noteq> ''approve''
             then Failed (outcome ''Graph mutation denied'' JNull) ''approval_denied'' ''User denied the graph mutation'' False E_none
             else Continue (outcome ''Graph mutation approved'' JNull) (Some ''graph_commit''))))"

definition commit_key :: "run_row \<Rightarrow> int \<Rightarrow> string" where
  "commit_key r index = ''agent-run:'' @ r_id r @ '':graph_commit:'' @ int_str index"

definition saga_request :: "run_row \<Rightarrow> agent_state \<Rightarrow> int \<Rightarrow> commit_request" where
  "saga_request r st index = \<lparr>cr_session_id = st_session_id st, cr_ticket_id = None,
     cr_idempotency_key = Some (commit_key r index), cr_expected_state = None\<rparr>"

definition stored_actions :: "agent_state \<Rightarrow> json list" where
  "stored_actions st = (case data_get st ''graph_actions'' of Some (JArr xs) \<Rightarrow> xs | _ \<Rightarrow> [])"

definition compensation_item :: "json \<Rightarrow> json" where
  "compensation_item mutation = JObj [(''ticket_id'', json_or_null (dget mutation ''ticket_id'')),
     (''actions'', json_or_null (dget mutation ''reverse_actions'')), (''guard'', json_or_null (dget mutation ''compensation_guard''))]"

definition compensation_list :: "agent_state \<Rightarrow> json list option" where
  "compensation_list st = (case data_get st ''graph_compensations'' of None \<Rightarrow> Some [] | Some (JArr xs) \<Rightarrow> Some xs | _ \<Rightarrow> None)"

definition mutation_actions :: "json \<Rightarrow> json list" where
  "mutation_actions mutation = (case dget mutation ''actions'' of Some (JArr xs) \<Rightarrow> xs | _ \<Rightarrow> [])"

text \<open>What follows a commit: the compensation is recorded, the commit announced, the subflow finished.\<close>

definition after_commit :: "wf_env \<Rightarrow> run_row \<Rightarrow> json \<Rightarrow> wf_state \<Rightarrow> step_outcome wf_step" where
  "after_commit env r mutation sw =
     (case compensation_list (fst sw) of
        None \<Rightarrow> (sw, Inl (Other_error ''AttributeError'' ''append''))
      | Some items \<Rightarrow>
          (let st = put_data ''effects_committed'' (JBool True)
                 (put_data ''graph_compensations'' (JArr (items @ [compensation_item mutation])) (fst sw));
               ticket = json_or_null (dget mutation ''ticket_id'');
               actions = mutation_actions mutation
           in case summary_of actions (language_of st) of
                Inl e \<Rightarrow> ((st, snd sw), Inl e)
              | Inr summary \<Rightarrow>
                  finish_subflow env r (from_points [0x2705] @ '' '' @ summary)
                    (JObj [(''ticket_id'', ticket), (''actions'', JArr actions)]) []
                    (st, emit_event ''mutation_committed'' (JObj [(''type'', JStr ''mutation_committed''), (''ticket_id'', ticket),
                       (''actions'', JArr actions), (''summary'', JStr summary)]) True (snd sw))))"

definition phase_graph_commit :: "wf_env \<Rightarrow> run_row \<Rightarrow> wf_state \<Rightarrow> step_outcome wf_step" where
  "phase_graph_commit env r sw =
     (let st = fst sw; w = snd sw
      in case data_int st ''multi_index'' of
           Inl e \<Rightarrow> ((data_pop ''effect_in_flight'' st, w), Inl (wf_raised e))
         | Inr index \<Rightarrow>
             (case apply_actions_atomic (we_now env) (we_fresh env) (we_ticket env) (we_digest env) (saga_request r st index)
                (stored_actions st) (ww_graph w) of
                (g, Inl e) \<Rightarrow> ((data_pop ''effect_in_flight'' st, w\<lparr>ww_graph := g\<rparr>), Inl (wf_raised e))
              | (g, Inr mutation) \<Rightarrow>
                  after_commit env r mutation (data_pop ''effect_in_flight'' st, w\<lparr>ww_graph := g\<rparr>)))"

text \<open>The same step cut by a cancellation: the writer thread may or may not finish, and the marker stays.\<close>

definition commit_interrupted :: "bool \<Rightarrow> wf_env \<Rightarrow> run_row \<Rightarrow> int \<Rightarrow> wf_state \<Rightarrow> step_outcome wf_step" where
  "commit_interrupted finished env r index sw =
     ((put_data ''effect_in_flight'' (JStr ''graph_atomic_commit'') (fst sw),
       if finished then (snd sw)\<lparr>ww_graph := fst (apply_actions_atomic (we_now env) (we_fresh env) (we_ticket env)
         (we_digest env) (saga_request r (fst sw) index) (stored_actions (fst sw)) (ww_graph (snd sw)))\<rparr> else snd sw),
      Inl Cancelled_error)"

definition phase_clarify :: "wf_env \<Rightarrow> run_row \<Rightarrow> wf_state \<Rightarrow> step_outcome wf_step" where
  "phase_clarify env r sw =
     (case current_intent (fst sw) of Inl e \<Rightarrow> (sw, Inl e) | Inr intent \<Rightarrow>
       (let content = (if ip_message intent = [] then ''Please provide more details.'' else ip_message intent)
        in case say env r content (snd sw) of
             Inl e \<Rightarrow> (sw, Inl e)
           | Inr w \<Rightarrow> ((fst sw, w), Inr (Succeeded (outcome ''Clarification requested'' JNull) (JObj [(''message'', JStr content)]) []))))"

section \<open>Composite requests\<close>

definition blank :: "json \<Rightarrow> bool result" where
  "blank v = (case or_json v (JStr []) of JStr s \<Rightarrow> Inr (strip s = []) | _ \<Rightarrow> Inl (AttributeError ''strip''))"

definition check_instruction :: "json \<Rightarrow> string \<Rightarrow> string \<Rightarrow> wf_error + unit" where
  "check_instruction v message code =
     (case blank v of Inl e \<Rightarrow> Inl (wf_raised e) | Inr b \<Rightarrow> if b then Inl (workflow_error message code) else Inr ())"

definition check_widget_id :: "json \<Rightarrow> wf_error + unit" where
  "check_widget_id v =
     (case v of
        JStr s \<Rightarrow> map_sum (\<lambda>e. Other_error ''ManifestValidationError'' (error_message e)) (\<lambda>_. ()) (validate_app_id s)
      | _ \<Rightarrow> Inl (Other_error ''ManifestValidationError'' ''id must be a string''))"

definition extension_proposal :: "(string \<times> json) list \<Rightarrow> json" where
  "extension_proposal kvs = JObj [(''reused_schemas'', JArr (map (\<lambda>kv. JObj [(''id'', JStr (fst kv)),
     (''reason'', JStr ''Preflighted multi-intent extension''), (''extended_properties'', snd kv)]) kvs)), (''new_schemas'', JArr [])]"

definition check_extension :: "graph \<Rightarrow> json \<Rightarrow> wf_error + unit" where
  "check_extension g v =
     (if \<not> truthy v then Inr ()
      else case v of
        JObj kvs \<Rightarrow> map_sum wf_raised (\<lambda>_. ()) (effective_schemas g (Some (extension_proposal kvs)))
      | _ \<Rightarrow> Inl (Other_error ''AttributeError'' ''items''))"

definition check_step :: "graph \<Rightarrow> sub_intent \<Rightarrow> intent_plan \<Rightarrow> wf_error + unit" where
  "check_step g s intent =
     (case ip_kind intent of
        K_graph_query \<Rightarrow> if is_dict (ip_query intent) then Inr () else Inl (workflow_error ''Graph query must be an object'' ''invalid_graph_query'')
      | K_converse \<Rightarrow> check_instruction (ip_instruction intent) ''Converse step has no instruction'' ''converse_instruction_missing''
      | K_graph_mutation \<Rightarrow> Inr ()
      | _ \<Rightarrow>
          (case check_widget_id (ip_app_id intent) of Inl e \<Rightarrow> Inl e | Inr _ \<Rightarrow>
          (case check_instruction (ip_instruction intent) ''Widget step has no instruction'' ''widget_instruction_missing'' of
             Inl e \<Rightarrow> Inl e | Inr _ \<Rightarrow> check_extension g (si_extend s))))"

fun plan_steps :: "graph \<Rightarrow> sub_intent list \<Rightarrow> wf_error + intent_plan list" where
  "plan_steps g [] = Inr []"
| "plan_steps g (s # ss) =
     (let intent = intent_from_sub (si_kind s) s
      in case check_step g s intent of Inl e \<Rightarrow> Inl e | Inr _ \<Rightarrow> map_sum id (\<lambda>is. intent # is) (plan_steps g ss))"

definition own_actions :: "intent_plan \<Rightarrow> json list" where
  "own_actions intent = (if ip_kind intent = K_graph_mutation then ip_actions intent else [])"

text \<open>Every graph step gets its slice of the normalized actions of all steps.\<close>

fun give_slices :: "nat \<Rightarrow> json list \<Rightarrow> intent_plan list \<Rightarrow> intent_plan list" where
  "give_slices start normalized [] = []"
| "give_slices start normalized (i # is) =
     (if ip_kind i = K_graph_mutation
      then i\<lparr>ip_actions := take (length (ip_actions i)) (drop start normalized)\<rparr> # give_slices (start + length (ip_actions i)) normalized is
      else i # give_slices start normalized is)"

definition phase_multi_preflight :: "wf_env \<Rightarrow> wf_state \<Rightarrow> step_outcome wf_step" where
  "phase_multi_preflight env sw =
     (case plan_from_dict (case st_intent (fst sw) of None \<Rightarrow> [] | Some d \<Rightarrow> d) of Inl e \<Rightarrow> (sw, Inl (wf_raised e)) | Inr plan \<Rightarrow>
      if ip_subs plan = [] then (sw, Inl (workflow_error ''Multi-intent workflow has no executable steps'' ''multi_intent_empty''))
      else
     (case plan_steps (ww_graph (snd sw)) (ip_subs plan) of Inl e \<Rightarrow> (sw, Inl e) | Inr intents \<Rightarrow>
       (let all = concat (map own_actions intents)
        in case (if all = [] then Inr [] else preflight_actions (we_fresh env) all (ww_graph (snd sw))) of
             Inl e \<Rightarrow> (sw, Inl (wf_raised e))
           | Inr normalized \<Rightarrow>
               (case collect plan_to_dict (give_slices 0 normalized intents) of
                  Inl e \<Rightarrow> (sw, Inl (wf_raised e))
                | Inr ds \<Rightarrow>
                    ((put_data ''multi_preflight_complete'' (JBool True)
                       (put_data ''multi_preflight_intents'' (JArr (map JObj ds)) (fst sw)), snd sw),
                     Inr (Continue (outcome ''Multi-intent preflight passed'' JNull) (Some ''multi_dispatch'')))))))"

text \<open>\<^verbatim>\<open>xs[i]\<close> after a check against the length; a negative index counts from the end.\<close>

definition py_nth :: "'a list \<Rightarrow> int \<Rightarrow> 'a option" where
  "py_nth xs i =
     (let j = (if i < 0 then i + int (length xs) else i) in if 0 \<le> j \<and> j < int (length xs) then Some (xs ! nat j) else None)"

definition result_text :: "dict \<Rightarrow> string list" where
  "result_text d = (if truthy_opt (map_of d ''message'') then [str_or_empty (map_of d ''message'')] else [])"

definition result_artifacts :: "dict \<Rightarrow> json list result" where
  "result_artifacts d =
     (case map_of d ''artifacts'' of
        None \<Rightarrow> Inr []
      | Some v \<Rightarrow> (case v of JArr xs \<Rightarrow> Inr xs | JObj _ \<Rightarrow> list_of (Some v) | JStr _ \<Rightarrow> list_of (Some v)
          | _ \<Rightarrow> Inl (TypeError ''not iterable'')))"

definition finish_saga :: "wf_env \<Rightarrow> run_row \<Rightarrow> wf_state \<Rightarrow> step_outcome wf_step" where
  "finish_saga env r sw =
     (case list_of (data_get (fst sw) ''multi_results'') of Inl e \<Rightarrow> (sw, Inl (wf_raised e)) | Inr results \<Rightarrow>
      if \<not> list_all is_dict results then (sw, Inl (Other_error ''AttributeError'' ''get''))
      else
        let text = join_with [CHR 0x0A, CHR 0x0A] (concat (map result_text (dicts_in results)));
            content = (if text = [] then all_done (says_zh (fst sw)) else text)
        in case say env r content (snd sw) of
             Inl e \<Rightarrow> (sw, Inl e)
           | Inr w \<Rightarrow>
               (case collect result_artifacts (dicts_in results) of
                  Inl e \<Rightarrow> ((fst sw, w), Inl (wf_raised e))
                | Inr artifacts \<Rightarrow> ((fst sw, w), Inr (Succeeded (outcome ''Multi-intent saga completed'' JNull)
                    (JObj [(''message'', JStr content), (''steps'', JArr results)]) (concat artifacts)))))"

definition preflighted_plan :: "agent_state \<Rightarrow> int \<Rightarrow> wf_error + intent_plan" where
  "preflighted_plan st index =
     (let incomplete = Inl (workflow_error ''Multi-intent preflight checkpoint is incomplete'' ''multi_preflight_missing'');
          stored = data_get st ''multi_preflight_intents''
      in case list_of stored of
           Inl e \<Rightarrow> Inl (wf_raised e)
         | Inr xs \<Rightarrow>
             if int (length xs) \<le> index then incomplete
             else if is_dict (json_or_null stored) then Inl (Other_error ''KeyError'' (int_str index))
             else (case py_nth xs index of
                 None \<Rightarrow> Inl (Other_error ''IndexError'' ''list index out of range'')
               | Some (JObj d) \<Rightarrow> map_sum wf_raised id (plan_from_dict d)
               | Some _ \<Rightarrow> incomplete))"

definition enter_step :: "sub_intent \<Rightarrow> dict \<Rightarrow> int \<Rightarrow> agent_state \<Rightarrow> agent_state" where
  "enter_step s intent index st =
     (let st1 = data_drop (WIDGET_KEYS @ [''graph_actions'']) (put_data ''multi_index'' (JInt index)
            (put_data ''return_to_multi'' (JBool True) (put_data ''current_intent'' (JObj intent) st)));
          st2 = (if truthy (si_extend s) then put_data ''pre_extend_schema_props'' (si_extend s) st1 else st1)
      in if truthy (si_feedback s) then put_data ''code_feedback'' (si_feedback s) st2 else st2)"

definition phase_multi_dispatch :: "wf_env \<Rightarrow> run_row \<Rightarrow> wf_state \<Rightarrow> step_outcome wf_step" where
  "phase_multi_dispatch env r sw =
     (let st = fst sw
      in case plan_from_dict (case st_intent st of None \<Rightarrow> [] | Some d \<Rightarrow> d) of Inl e \<Rightarrow> (sw, Inl (wf_raised e)) | Inr plan \<Rightarrow>
        (case data_int st ''multi_index'' of Inl e \<Rightarrow> (sw, Inl (wf_raised e)) | Inr index \<Rightarrow>
         if int (length (ip_subs plan)) \<le> index then finish_saga env r sw
         else if \<not> truthy_data st ''multi_preflight_complete''
         then (sw, Inl (workflow_error ''Multi-intent dispatch requires preflight'' ''multi_preflight_missing''))
         else
        (case py_nth (ip_subs plan) index of None \<Rightarrow> (sw, Inl (Other_error ''IndexError'' ''list index out of range'')) | Some s \<Rightarrow>
        (case preflighted_plan st index of Inl e \<Rightarrow> (sw, Inl e) | Inr intent \<Rightarrow>
        (case plan_to_dict intent of Inl e \<Rightarrow> (sw, Inl (wf_raised e)) | Inr d \<Rightarrow>
           ((enter_step s d index st, snd sw),
            Inr (Continue (outcome (''Starting saga step '' @ int_str (index + 1)) JNull) (Some (phase_for_intent (ip_kind intent))))))))))"

end
