(* ===== verification/Agent_Recovery.thy ===== *)
theory Agent_Recovery
  imports Agent_Saga
begin

text \<open>
  What becomes of a failed or cancelled agent run (\<^verbatim>\<open>agent/durable_workflow.py\<close>): a bounded retry of the phase, the
  compensation of the committed graph steps in reverse order, the retained draft with its diagnostic, the clean-up after
  a cancellation; and the reducer around every phase.
\<close>

section \<open>Compensation\<close>

definition item_actions :: "json \<Rightarrow> json list" where
  "item_actions item = (case dget item ''actions'' of Some (JArr us) \<Rightarrow> us | _ \<Rightarrow> [])"

definition item_key :: "json \<Rightarrow> string option" where
  "item_key item = (if truthy_opt (dget item ''ticket_id'') then Some (''compensate:'' @ py_str (json_or_null (dget item ''ticket_id''))) else None)"

definition item_request :: "json \<Rightarrow> json \<Rightarrow> commit_request" where
  "item_request item guard = \<lparr>cr_session_id = None, cr_ticket_id = None, cr_idempotency_key = item_key item,
     cr_expected_state = Some guard\<rparr>"

fun compensate_items :: "wf_env \<Rightarrow> json list \<Rightarrow> graph \<Rightarrow> graph \<times> py_error option" where
  "compensate_items env [] g = (g, None)"
| "compensate_items env (item # items) g =
     (case dget item ''guard'' of
        Some (JObj guard) \<Rightarrow>
          (case apply_actions_atomic (we_now env) (we_fresh env) (we_ticket env) (we_digest env)
             (item_request item (JObj guard)) (item_actions item) g of
             (g', Inl e) \<Rightarrow> (g', Some e)
           | (g', Inr _) \<Rightarrow> compensate_items env items g')
      | _ \<Rightarrow> (g, Some (compensation_conflict ''legacy checkpoint has no committed-state guard'')))"

text \<open>\<^verbatim>\<open>reversed\<close> of what the checkpoint holds; the keys of an object and the characters of a text are no items.\<close>

definition compensation_items :: "agent_state \<Rightarrow> json list result" where
  "compensation_items st = list_of (data_get st ''graph_compensations'')"

definition compensate_graph :: "wf_env \<Rightarrow> agent_state \<Rightarrow> graph \<Rightarrow> graph \<times> py_error option" where
  "compensate_graph env st g =
     (case compensation_items st of Inl e \<Rightarrow> (g, Some e) | Inr items \<Rightarrow> compensate_items env (rev items) g)"

definition wants_compensation :: "agent_state \<Rightarrow> bool" where
  "wants_compensation st \<longleftrightarrow> truthy_data st ''graph_compensations'' \<and> \<not> truthy_data st ''non_compensable_effect''"

definition compensated_state :: "agent_state \<Rightarrow> agent_state" where
  "compensated_state st = put_data ''effects_committed'' (JBool False) (put_data ''graph_compensations'' (JArr []) st)"

section \<open>Failure\<close>

definition ENVIRONMENT_ERROR_CODES :: "string list" where
  "ENVIRONMENT_ERROR_CODES = [''coding_agent_code_mode_unavailable'', ''coding_agent_acp_unavailable'',
     ''coding_agent_not_installed'', ''coding_agent_not_found'', ''coding_agent_command_invalid'',
     ''coding_agent_configuration_error'', ''coding_agent_auth_invalid'', ''coding_agent_auth_required'',
     ''CodingAgentACPStartupError'', ''OpenCodeACPStartupError'']"

definition SAGA_KEYS :: "string list" where
  "SAGA_KEYS = [''current_intent'', ''return_to_multi'', ''multi_index'', ''multi_results'', ''multi_preflight_complete'',
     ''multi_preflight_intents'', ''graph_actions'', ''pre_extend_schema_props'']"

definition is_generation :: "pending_event \<Rightarrow> bool" where
  "is_generation e \<longleftrightarrow> pe_type e = ''activity_updated'' \<and> dget (pe_payload e) ''activity_id'' = Some (JStr ''code:generation'')"

definition fail_generation :: "agent_state \<Rightarrow> string \<Rightarrow> string \<Rightarrow> wf_world \<Rightarrow> wf_world" where
  "fail_generation st code message w =
     (if st_phase st \<noteq> ''stage_code'' then w
      else case List.find is_generation (rev (ww_events w)) of
        None \<Rightarrow> w
      | Some e \<Rightarrow>
          if dget (pe_payload e) ''status'' \<noteq> Some (JStr ''running'') then w
          else
            emit_activity ''code:generation'' ''code'' ''failed'' ''Staged App generation failed'' message
              (dset ''error_code'' (JStr code) (case dget (pe_payload e) ''metadata'' of Some (JObj d) \<Rightarrow> JObj d | _ \<Rightarrow> JObj [])) w)"

definition phase_retries :: "agent_state \<Rightarrow> dict result" where
  "phase_retries st =
     (case data_get st ''phase_retries'' of None \<Rightarrow> Inr [] | Some (JObj d) \<Rightarrow> Inr d | Some _ \<Rightarrow> Inl (AttributeError ''get''))"

definition retries_of :: "agent_state \<Rightarrow> dict \<Rightarrow> int result" where
  "retries_of st d = (case map_of d (st_phase st) of None \<Rightarrow> Inr 0 | Some v \<Rightarrow> int_of v)"

definition reset_saga :: "agent_state \<Rightarrow> agent_state" where
  "reset_saga st = data_drop SAGA_KEYS (st\<lparr>st_phase := ''route'', st_intent := None\<rparr>)"

record failing =
  fl_state :: agent_state
  fl_graph :: graph
  fl_code :: string
  fl_message :: string
  fl_effect :: effect_state

definition undo_saga :: "wf_env \<Rightarrow> failing \<Rightarrow> failing" where
  "undo_saga env f =
     (let st = fl_state f
      in if wants_compensation st then
           (case compensate_graph env st (fl_graph f) of
              (g, None) \<Rightarrow> f\<lparr>fl_state := reset_saga (compensated_state st), fl_graph := g, fl_effect := E_none\<rparr>
            | (g, Some e) \<Rightarrow>
                if is_conflict e
                then f\<lparr>fl_state := put_data ''compensation_conflict'' (JStr (error_message e)) st, fl_graph := g,
                  fl_code := ''graph_compensation_conflict'', fl_message := error_message e, fl_effect := E_unknown\<rparr>
                else f\<lparr>fl_graph := g, fl_effect := E_unknown\<rparr>)
         else if truthy_data st ''effects_committed'' then f\<lparr>fl_effect := E_unknown\<rparr> else f)"

definition staged_path :: "agent_state \<Rightarrow> string option" where
  "staged_path st =
     (case data_get st ''staged_app'' of
        Some (JObj h) \<Rightarrow>
          (case map_of h ''staging_dir'' of
             Some (JStr d) \<Rightarrow> if d = [] \<or> truthy_data st ''non_compensable_effect'' then None else Some d
           | _ \<Rightarrow> None)
      | _ \<Rightarrow> None)"

definition retains_draft :: "file_system \<Rightarrow> agent_state \<Rightarrow> bool" where
  "retains_draft fs st =
     (case staged_path st of None \<Rightarrow> False | Some d \<Rightarrow> fs_is_dir fs (mk_path d) \<and> \<not> fs_is_link fs (mk_path d))"

definition draft_status :: "string \<Rightarrow> agent_state \<Rightarrow> agent_state" where
  "draft_status code st = put_data ''staged_app_status'' (JObj [(''state'', JStr ''failed_draft''), (''phase'', JStr (st_phase st)),
     (''error_code'', JStr code), (''retryable'', JBool False)]) st"

definition repair_action :: "agent_state \<Rightarrow> json" where
  "repair_action st = (case data_get st ''repair_decision'' of Some (JObj d) \<Rightarrow> json_or_null (map_of d ''action'') | _ \<Rightarrow> JNull)"

definition needs_operator :: "agent_state \<Rightarrow> string \<Rightarrow> bool" where
  "needs_operator st code \<longleftrightarrow> repair_action st = JStr ''operator'' \<or> code \<in> set ENVIRONMENT_ERROR_CODES"

definition failed_app :: "agent_state \<Rightarrow> string" where
  "failed_app st =
     (let own = (case data_get st ''staged_app'' of Some (JObj h) \<Rightarrow> str_or_empty (map_of h ''app_id'') | _ \<Rightarrow> []);
          asked = (case st_intent st of Some d \<Rightarrow> str_or_empty (map_of d ''app_id'') | None \<Rightarrow> [])
      in if own \<noteq> [] then own else if asked \<noteq> [] then asked else ''unknown-app'')"

definition failure_diagnostic :: "agent_state \<Rightarrow> bool \<Rightarrow> string \<Rightarrow> string \<Rightarrow> diagnostic" where
  "failure_diagnostic st retained code message =
     (let reason = take_points 2000 (normalize_ws message)
      in \<lparr>dg_zh = says_zh st, dg_retained = retained, dg_operator = needs_operator st code,
           dg_environment = (code \<in> set ENVIRONMENT_ERROR_CODES), dg_stalled = (repair_action st = JStr ''human''),
           dg_app_id = failed_app st, dg_phase = st_phase st, dg_code = code,
           dg_reason = (if reason = [] then ''Unknown generation failure'' else reason)\<rparr>)"

text \<open>The diagnostic in the chat is best effort: a chat that cannot be written is only logged.\<close>

definition report_failure :: "wf_env \<Rightarrow> run_row \<Rightarrow> diagnostic \<Rightarrow> session_files \<Rightarrow> session_files \<times> pending_event list" where
  "report_failure env r d chats =
     (case save_agent_message env r (diagnostic_text d) chats of
        Inl _ \<Rightarrow> (chats, [])
      | Inr (chats', m, created) \<Rightarrow>
          (chats', if created then [\<lparr>pe_type = ''reply'', pe_payload = reply_payload m, pe_project_to_chat = True\<rparr>] else []))"

definition final_failure :: "wf_env \<Rightarrow> run_row \<Rightarrow> failing \<Rightarrow> wf_world \<Rightarrow> step_outcome wf_step" where
  "final_failure env r start w =
     (let f = undo_saga env start;
          code = fl_code f;
          retained = retains_draft (ww_files w) (fl_state f);
          st = (if retained then draft_status code (fl_state f) else fl_state f);
          operator = needs_operator st code;
          reports = (retained \<or> operator \<and> st_phase st = ''stage_code'' \<and> starts_with (st_workflow_type st) ''widget'');
          said = (if reports then report_failure env r (failure_diagnostic st retained code (fl_message f)) (ww_chats w)
            else (ww_chats w, []))
      in ((st, w\<lparr>ww_graph := fl_graph f, ww_chats := fst said\<rparr>),
          Inr (Failed \<lparr>oc_summary = failure_summary retained operator (says_zh st), oc_output = JNull, oc_events = snd said\<rparr>
            code (fl_message f) False (fl_effect f))))"

definition failure ::
  "wf_env \<Rightarrow> run_row \<Rightarrow> string \<Rightarrow> string \<Rightarrow> bool \<Rightarrow> effect_state \<Rightarrow> wf_state \<Rightarrow> step_outcome wf_step" where
  "failure env r code message retryable effect sw =
     (let st = fst sw; w = fail_generation st code message (snd sw)
      in case phase_retries st of Inl e \<Rightarrow> ((st, w), Inl (wf_raised e)) | Inr d \<Rightarrow>
        (let st0 = (if data_get st ''phase_retries'' = None then put_data ''phase_retries'' (JObj []) st else st)
         in case retries_of st d of
              Inl e \<Rightarrow> ((st0, w), Inl (wf_raised e))
            | Inr n \<Rightarrow>
                if retryable \<and> n < 2 \<and> effect = E_none
                then ((put_data ''phase_retries'' (JObj (AList.update (st_phase st) (JInt (n + 1)) d)) st0, w),
                  Inr (Failed (outcome ''Retrying agent step'' JNull) code message True E_none))
                else final_failure env r \<lparr>fl_state = st0, fl_graph = ww_graph w, fl_code = code, fl_message = message, fl_effect = effect\<rparr> w))"

section \<open>Cancellation\<close>

definition iterable :: "json \<Rightarrow> bool" where
  "iterable v = (case v of JArr _ \<Rightarrow> True | JObj _ \<Rightarrow> True | JStr _ \<Rightarrow> True | _ \<Rightarrow> \<not> truthy v)"

definition staged_handle :: "json \<Rightarrow> staged_result option" where
  "staged_handle v =
     (case v of
        JObj h \<Rightarrow>
          if map_of h ''app_id'' = None \<or> map_of h ''staging_dir'' = None \<or> map_of h ''live_dir'' = None then None
          else if (truthy_opt (map_of h ''repair_attempts'') \<and> (\<exists>e. int_of (json_or_null (map_of h ''repair_attempts'')) = Inl e))
            \<or> \<not> iterable (json_or_null (map_of h ''repair_findings'')) then None
          else Some \<lparr>sr_output = str_or_empty (map_of h ''output''), sr_app_id = py_str (json_or_null (map_of h ''app_id'')),
            sr_staging_dir = mk_path (py_str (json_or_null (map_of h ''staging_dir''))),
            sr_live_dir = mk_path (py_str (json_or_null (map_of h ''live_dir'')))\<rparr>
      | _ \<Rightarrow> None)"

definition discard_draft :: "wf_state \<Rightarrow> wf_state" where
  "discard_draft sw =
     (let st = fst sw; w = snd sw
      in if \<not> truthy_data st ''staged_app'' \<or> truthy_data st ''non_compensable_effect'' then sw
         else case staged_handle (json_or_null (data_get st ''staged_app'')) of
           None \<Rightarrow> sw
         | Some h \<Rightarrow>
             (case discard_coding_agent_staging (ww_files w) h of
                Inl _ \<Rightarrow> sw
              | Inr fs \<Rightarrow> (data_pop ''staged_app'' st, w\<lparr>ww_files := fs\<rparr>)))"

definition cleanup_state :: "wf_env \<Rightarrow> wf_state \<Rightarrow> wf_state" where
  "cleanup_state env sw =
     (if truthy_data (fst sw) ''effect_in_flight'' then sw
      else
        let sw1 = discard_draft sw; st = fst sw1; w = snd sw1
        in if \<not> wants_compensation st then sw1
           else case compensate_graph env st (ww_graph w) of
             (g, None) \<Rightarrow> (compensated_state st, w\<lparr>ww_graph := g\<rparr>)
           | (g, Some e) \<Rightarrow>
               (if is_conflict e then put_data ''compensation_conflict'' (JStr (error_message e)) st else st, w\<lparr>ww_graph := g\<rparr>))"

section \<open>The reducer\<close>

definition MODEL_FREE_PHASES :: "string list" where
  "MODEL_FREE_PHASES = [''graph_query'', ''graph_preflight'', ''wait_graph_approval'', ''graph_commit'']"

definition budget_exhausted :: "string \<Rightarrow> wf_error" where
  "budget_exhausted message = workflow_error message ''budget_exhausted''"

text \<open>
  \<open>other\<close> stands for the phases that ask a model or the Coding Agent, with the choice of the models before them.
\<close>

definition dispatch ::
  "wf_env \<Rightarrow> store \<Rightarrow> run_row \<Rightarrow> (string \<Rightarrow> (wf_state \<Rightarrow> step_outcome wf_step) option) \<Rightarrow> string \<Rightarrow>
   (wf_state \<Rightarrow> step_outcome wf_step) option" where
  "dispatch env s r other phase =
     (if phase = ''graph_query'' then Some (phase_graph_query env r)
      else if phase = ''graph_preflight'' then Some (phase_graph_preflight env r)
      else if phase = ''wait_graph_approval'' then Some (phase_wait_graph_approval s)
      else if phase = ''graph_commit'' then Some (phase_graph_commit env r)
      else if phase = ''multi_preflight'' then Some (phase_multi_preflight env)
      else if phase = ''multi_dispatch'' then Some (phase_multi_dispatch env r)
      else if phase = ''clarify'' then Some (phase_clarify env r)
      else other phase)"

definition unknown_effect :: "agent_state \<Rightarrow> effect_state" where
  "unknown_effect st = (if truthy_data st ''non_compensable_effect'' \<or> truthy_data st ''effect_in_flight'' then E_unknown else E_none)"

definition handle_error :: "wf_env \<Rightarrow> store \<Rightarrow> run_row \<Rightarrow> wf_error \<Rightarrow> wf_state \<Rightarrow> step_outcome wf_step" where
  "handle_error env s r e sw =
     (case e of
        Cancelled_error \<Rightarrow>
          (if (case find_run s (r_id r) of Some row \<Rightarrow> r_status row = S_cancel_requested | None \<Rightarrow> False) then cleanup_state env sw else sw,
           Inl Cancelled_error)
      | Workflow_error code message retryable effect \<Rightarrow> failure env r code message retryable effect sw
      | Coded_error code message \<Rightarrow> failure env r code message False E_none sw
      | Other_error cls message \<Rightarrow> failure env r cls message False (unknown_effect (fst sw)) sw)"

definition settle_outcome :: "wf_env \<Rightarrow> store \<Rightarrow> run_row \<Rightarrow> step_outcome wf_step \<Rightarrow> step_outcome wf_step" where
  "settle_outcome env s r res =
     (case res of
        (sw, Inl e) \<Rightarrow> handle_error env s r e sw
      | (sw, Inr (Failed b code message retryable effect)) \<Rightarrow> failure env r code message retryable effect sw
      | (sw, Inr out) \<Rightarrow> (sw, Inr out))"

definition active_seconds :: "agent_state \<Rightarrow> pyfloat result" where
  "active_seconds st = (case data_get st ''active_seconds'' of None \<Rightarrow> Inr 0 | Some v \<Rightarrow> float_of v)"

text \<open>The \<^verbatim>\<open>finally\<close> clause adds the time the step took, whatever came of it.\<close>

definition account_time :: "wf_env \<Rightarrow> step_outcome wf_step \<Rightarrow> step_outcome wf_step" where
  "account_time env res =
     (case res of
        ((st, w), out) \<Rightarrow>
          (case active_seconds st of
             Inl e \<Rightarrow> ((st, w), Inl (wf_raised e))
           | Inr t \<Rightarrow> ((put_data ''active_seconds'' (JFloat (t + we_elapsed env)) st, w), out)))"

definition refuse :: "string \<Rightarrow> string \<Rightarrow> string \<Rightarrow> step_outcome" where
  "refuse summary code message = Failed (outcome summary JNull) code message False E_none"

definition reduce_checked ::
  "wf_env \<Rightarrow> store \<Rightarrow> run_row \<Rightarrow> (string \<Rightarrow> (wf_state \<Rightarrow> step_outcome wf_step) option) \<Rightarrow> wf_state \<Rightarrow> step_outcome wf_step" where
  "reduce_checked env s r other sw =
     (let st = apply_development_budget_policy (fst sw)
      in case active_seconds st of
           Inl e \<Rightarrow> handle_error env s r (wf_raised e) (st, snd sw)
         | Inr t \<Rightarrow>
             if bg_max_wall_seconds (st_budget st) \<le> t
             then handle_error env s r (budget_exhausted ''Agent Run exceeded its active wall-clock budget'') (st, snd sw)
             else (case dispatch env s r other (st_phase st) of
                 None \<Rightarrow> ((st, snd sw), Inr (refuse ''Unknown workflow phase'' ''unknown_workflow_phase''
                   (''Unknown durable workflow phase: '' @ st_phase st)))
               | Some handler \<Rightarrow> settle_outcome env s r (handler (st, snd sw))))"

definition reduce_once ::
  "wf_env \<Rightarrow> store \<Rightarrow> run_row \<Rightarrow> (string \<Rightarrow> (wf_state \<Rightarrow> step_outcome wf_step) option) \<Rightarrow> wf_state \<Rightarrow> step_outcome wf_step" where
  "reduce_once env s r other sw =
     account_time env
       (if st_workflow_version (fst sw) \<noteq> CURRENT_AGENT_WORKFLOW_VERSION
        then (sw, Inr (refuse ''Unsupported workflow version'' ''unsupported_workflow_version''
          (''Expected workflow version '' @ int_str CURRENT_AGENT_WORKFLOW_VERSION @ '', got '' @ int_str (st_workflow_version (fst sw)))))
        else if st_session_id (fst sw) \<noteq> r_source_id r
        then (sw, Inr (refuse ''Invalid workflow checkpoint'' ''session_mismatch'' ''Checkpoint session does not match Run source''))
        else reduce_checked env s r other sw)"

text \<open>The call of the workflow: the events of the phase come before those of its outcome.\<close>

fun with_events :: "pending_event list \<Rightarrow> step_outcome \<Rightarrow> step_outcome" where
  "with_events es (Continue b p) = Continue (b\<lparr>oc_events := es @ oc_events b\<rparr>) p"
| "with_events es (Wait b i k p v) = Wait (b\<lparr>oc_events := es @ oc_events b\<rparr>) i k p v"
| "with_events es (Succeeded b v as) = Succeeded (b\<lparr>oc_events := es @ oc_events b\<rparr>) v as"
| "with_events es (Failed b c m t e) = Failed (b\<lparr>oc_events := es @ oc_events b\<rparr>) c m t e"
| "with_events es (Cancelled b e) = Cancelled (b\<lparr>oc_events := es @ oc_events b\<rparr>) e"

definition run_workflow ::
  "wf_env \<Rightarrow> store \<Rightarrow> run_row \<Rightarrow> (string \<Rightarrow> (wf_state \<Rightarrow> step_outcome wf_step) option) \<Rightarrow> wf_state \<Rightarrow> step_outcome wf_step" where
  "run_workflow env s r other sw =
     (case reduce_once env s r other (fst sw, (snd sw)\<lparr>ww_events := []\<rparr>) of
        ((st, w), out) \<Rightarrow> ((st, w), map_sum id (with_events (ww_events w)) out))"

end
