(* ===== verification/Saga_Laws.thy ===== *)
theory Saga_Laws
  imports Agent_Recovery Row_Order
begin

text \<open>
  A composite request is a saga: each committed graph step leaves an item with which it can be undone, the items chain
  back to the graph before the first step, and compensating them in reverse order restores its content, also when a
  crash interrupts the compensation and it starts again.
\<close>

section \<open>Guards depend on the content only\<close>

definition edge_core :: "edge_row \<Rightarrow> edge_row" where
  "edge_core e = e\<lparr>ge_created_at := []\<rparr>"

lemma edge_core_simps [simp]:
  "edge_key (edge_core e) = edge_key e" "edge_json (edge_core e) = edge_json e" "incident nid (edge_core e) = incident nid e"
  "edge_before (edge_core a) (edge_core b) = edge_before a b"
  by (simp_all add: edge_core_def edge_key_def edge_json_def incident_def edge_before_def)

lemma order_map: "(\<And>a b. lt (f a) (f b) = lt a b) \<Longrightarrow> order_by lt (map f xs) = map f (order_by lt xs)"
proof (induction xs)
  case (Cons x xs)
  have "insort_rel lt (f x) (map f ys) = map f (insort_rel lt x ys)" for ys
    using Cons.prems by (induction ys) auto
  with Cons show ?case by simp
qed simp

interpretation edge_order: row_order edge_before edge_key
  by unfold_locales (auto simp: edge_before_def edge_key_def dest: str_less_trans str_less_total)

lemma core_of_view: "e \<in> set (gd_edges g) \<Longrightarrow> distinct (map edge_key (gd_edges g)) \<Longrightarrow>
   edge_view g (edge_key e) = Some (ge_props e)"
  by (simp add: edge_view_def find_edge_def lookup_by_distinct)

lemma core_eq: "edge_key e = edge_key f \<Longrightarrow> ge_props e = ge_props f \<Longrightarrow> edge_core e = edge_core f"
  by (cases e; cases f) (simp add: edge_core_def edge_key_def)

lemma cores_subset:
  assumes "edge_view g = edge_view h" "distinct (map edge_key (gd_edges g))" "distinct (map edge_key (gd_edges h))"
  shows "edge_core ` set (filter (incident nid) (gd_edges g)) \<subseteq> edge_core ` set (filter (incident nid) (gd_edges h))"
proof
  fix c assume "c \<in> edge_core ` set (filter (incident nid) (gd_edges g))"
  then obtain e where e: "c = edge_core e" "e \<in> set (gd_edges g)" "incident nid e" by auto
  then have "edge_view h (edge_key e) = Some (ge_props e)" using core_of_view[OF e(2) assms(2)] assms(1) by simp
  then obtain f where f: "find_edge h (edge_key e) = Some f" "ge_props f = ge_props e" by (auto simp: edge_view_def)
  then have k: "f \<in> set (gd_edges h)" "edge_key f = edge_key e" by (auto simp: find_edge_def dest: lookup_by_SomeD)
  have "incident nid f" using k(2) e(3) by (simp add: incident_touches)
  moreover have "c = edge_core f" using core_eq[of f e] k(2) f(2) e(1) by simp
  ultimately show "c \<in> edge_core ` set (filter (incident nid) (gd_edges h))" using k(1) by auto
qed

lemma incident_state_content:
  assumes "same_content g h" "graph_ok g" "graph_ok h"
  shows "incident_state g nid = incident_state h nid"
proof -
  let ?es = "\<lambda>g. map edge_core (filter (incident nid) (gd_edges g))"
  have v: "edge_view g = edge_view h" using assms(1) by (simp add: same_content_def)
  have d: "distinct (map edge_key (gd_edges g))" "distinct (map edge_key (gd_edges h))" using assms(2,3) by (simp_all add: graph_ok_def)
  have "distinct (map edge_key (?es x))" if "distinct (map edge_key (gd_edges x))" for x
    using that by (simp add: comp_def distinct_map_filter)
  moreover have "set (?es g) = set (?es h)"
    using equalityI[OF cores_subset[OF v d, of nid] cores_subset[OF v[symmetric] d(2,1), of nid]] by simp
  ultimately have "order_by edge_before (?es g) = order_by edge_before (?es h)"
    using d edge_order.order_unique by blast
  then have "map edge_json (order_by edge_before (?es g)) = map edge_json (order_by edge_before (?es h))" by simp
  then show ?thesis by (simp add: incident_state_def order_map comp_def)
qed

lemma node_state_content: "same_content g h \<Longrightarrow> node_state g nid = node_state h nid"
proof -
  assume "same_content g h"
  then have v: "node_view g nid = node_view h nid" by (simp add: same_content_def)
  have i: "find_node x nid = Some n \<Longrightarrow> gn_id n = nid" for x n by (auto simp: find_node_def dest: lookup_by_SomeD)
  show ?thesis using v i
    by (cases "find_node g nid"; cases "find_node h nid") (auto simp: node_state_def node_view_def semantic_node_def)
qed

lemma edge_state_content: "same_content g h \<Longrightarrow> edge_state g k = edge_state h k"
proof -
  assume "same_content g h"
  then have v: "edge_view g k = edge_view h k" by (simp add: same_content_def)
  have i: "find_edge x k = Some e \<Longrightarrow> edge_key e = k" for x e by (auto simp: find_edge_def dest: lookup_by_SomeD)
  show ?thesis using v i
    by (cases "find_edge g k"; cases "find_edge h k") (auto simp: edge_state_def edge_view_def edge_json_def)
qed

lemma guard_of_content:
  assumes "same_content g h" "graph_ok g" "graph_ok h"
  shows "guard_of g ns es = guard_of h ns es"
  by (simp add: guard_of_def guard_value_def node_state_content[OF assms(1)] edge_state_content[OF assms(1)]
      incident_state_content[OF assms])

section \<open>What undoes one step\<close>

text \<open>An item of the checkpoint that takes a graph with the content of the second argument back to that of the third.\<close>

definition undo_item :: "json \<Rightarrow> graph \<Rightarrow> graph \<Rightarrow> bool" where
  "undo_item item g' g \<longleftrightarrow> graph_ok g' \<and> item_actions item \<noteq> [] \<and> undoes_all (item_actions item) g' g \<and>
     (\<forall>k \<in> set (concat (map edge_ref (item_actions item))). guard_key k) \<and>
     (\<exists>ns es. dget item ''guard'' = Some (guard_of g' ns es) \<and> wf_json (guard_of g' ns es) \<and> (\<forall>k \<in> set es. guard_key k))"

lemma guard_of_obj: "\<exists>d. guard_of g ns es = JObj d"
  by (simp add: guard_of_def guard_json_def)

lemma guard_accepted:
  assumes "wf_json (guard_of g ns es)" "\<forall>k \<in> set es. guard_key k" "same_content h g" "graph_ok h" "graph_ok g"
  shows "check_expected h (Some (guard_of g ns es)) = Inr ()"
proof -
  have e: "guard_of g ns es = guard_of h ns es" by (rule guard_of_content[OF same_content_sym[OF assms(3)] assms(5,4)])
  have "read_compensation_guard h (guard_of h ns es) = Inr (guard_of h ns es)"
    using assms(2) by (simp add: guard_of_def read_guard comp_def)
  then show ?thesis using py_eq_refl[OF assms(1)] by (simp add: check_expected_def e)
qed

text \<open>The ledger after a first commit under a key.\<close>

definition ledger :: "graph \<Rightarrow> string list" where
  "ledger g = map gx_key (gd_effects g)"

lemma first_commit_ledger:
  assumes "apply_actions_atomic now fresh ticket digest q actions g = (g1, Inr res)" "prior_effect q g = None"
  shows "ledger g1 = ledger g @ (if given (cr_idempotency_key q) then [the (cr_idempotency_key q)] else [])"
proof -
  from assms obtain b t h where b: "run_actions now fresh 0 actions (start_batch g) = Inr b"
    "finish_commit now t q h b = Inr (g1, res)"
    unfolding tx_of_atomic by (auto simp: apply_actions_tx_def prior_effect_def Let_def split: if_splits option.splits sum.splits)
  then show ?thesis using run_effects[OF b(1)]
    by (auto simp: finish_commit_def record_ticket_def Let_def ledger_def split: sum.splits if_splits)
qed

lemma no_prior: "k \<notin> set (ledger g) \<Longrightarrow> cr_idempotency_key q = Some k \<Longrightarrow> prior_effect q g = None"
  by (auto simp: prior_effect_def ledger_def lookup_by_None_iff)

lemma no_prior_None: "cr_idempotency_key q = None \<Longrightarrow> prior_effect q g = None"
  by (simp add: prior_effect_def given_def)

lemma item_key_given: "item_key item = Some k \<Longrightarrow> k \<noteq> []"
  by (auto simp: item_key_def split: if_splits)

lemma compensate_one:
  assumes "undo_item item g' g" "same_content h g'" "graph_ok h" "\<forall>k. item_key item = Some k \<longrightarrow> k \<notin> set (ledger h)"
  shows "\<exists>d h' res. dget item ''guard'' = Some (JObj d) \<and>
    apply_actions_atomic now fresh ticket digest (item_request item (JObj d)) (item_actions item) h = (h', Inr res) \<and>
    same_content h' g \<and> graph_ok h' \<and> ledger h' = ledger h @ (case item_key item of None \<Rightarrow> [] | Some k \<Rightarrow> [k])"
proof -
  let ?us = "item_actions item"
  obtain ns es where i: "graph_ok g'" "?us \<noteq> []" "undoes_all ?us g' g" "\<forall>k \<in> set (concat (map edge_ref ?us)). guard_key k"
    "dget item ''guard'' = Some (guard_of g' ns es)" "wf_json (guard_of g' ns es)" "\<forall>k \<in> set es. guard_key k"
    using assms(1) by (auto simp: undo_item_def)
  obtain d where d: "guard_of g' ns es = JObj d" using guard_of_obj by blast
  define q where "q = item_request item (JObj d)"
  have prior: "prior_effect q h = None"
    using assms(4) by (cases "item_key item") (auto simp: q_def item_request_def intro: no_prior no_prior_None)
  have expected: "check_expected h (cr_expected_state q) = Inr ()"
    using guard_accepted[OF i(6,7) assms(2,3) i(1)] by (simp add: q_def item_request_def d)
  have "graph_ok (bt_graph (start_batch h))" "same_content (bt_graph (start_batch h)) g'" using assms(2,3) by simp_all
  then obtain c as where c: "run_actions now fresh 0 ?us (start_batch h) = Inr c" "same_content (bt_graph c) g"
    "graph_ok (bt_graph c)" "bt_actions c = as" "map edge_ref as = map edge_ref ?us"
    by (rule undoes_allD[OF i(3)]) (rule that, assumption+, simp_all)
  have "\<exists>guard'. capture_compensation_guard (bt_graph c) (bt_actions c) = Inr guard'"
    unfolding capture_guard c(4,5) using i(4) by simp
  then obtain g1 res where f: "finish_commit now None q (digest (?us, cr_expected_state q)) c = Inr (g1, res)" "same_rows g1 (bt_graph c)"
    by (auto simp: finish_commit_def record_ticket_def q_def item_request_def given_def Let_def same_rows_def)
  have "commit_ticket ticket q = None" by (simp add: commit_ticket_def q_def item_request_def given_def)
  then have "apply_actions_tx now fresh ticket digest q ?us h = Inr (g1, res)"
    using i(2) undoes_all_dicts[OF i(3,1)] expected c(1) f(1) prior by (simp add: apply_actions_tx_def prior_effect_def)
  then have a: "apply_actions_atomic now fresh ticket digest q ?us h = (g1, Inr res)" by (simp add: tx_of_atomic)
  have "ledger g1 = ledger h @ (case item_key item of None \<Rightarrow> [] | Some k \<Rightarrow> [k])"
    using first_commit_ledger[OF a prior] item_key_given
    by (cases "item_key item") (auto simp: q_def item_request_def given_def)
  moreover have "same_content g1 g" "graph_ok g1"
    using same_rows_content[OF f(2)] c(2,3) same_content_trans by auto
  ultimately show ?thesis using a i(5) unfolding q_def d by blast
qed

section \<open>A chain of steps\<close>

inductive undo_chain :: "graph \<Rightarrow> json list \<Rightarrow> graph \<Rightarrow> bool" for origin :: graph where
  chain_start: "same_content g origin \<Longrightarrow> graph_ok g \<Longrightarrow> undo_chain origin [] g"
| chain_step: "undo_chain origin items g \<Longrightarrow> undo_item item g' g \<Longrightarrow> undo_chain origin (items @ [item]) g'"

inductive_cases chain_emptyE: "undo_chain origin [] g"
inductive_cases chain_snocE: "undo_chain origin (items @ [item]) g"

definition item_keys :: "json list \<Rightarrow> string list" where
  "item_keys items = concat (map (\<lambda>i. case item_key i of None \<Rightarrow> [] | Some k \<Rightarrow> [k]) items)"

lemma item_keys_simps [simp]: "item_keys [] = []" "item_keys (xs @ ys) = item_keys xs @ item_keys ys"
  "item_keys [i] = (case item_key i of None \<Rightarrow> [] | Some k \<Rightarrow> [k])"
  by (simp_all add: item_keys_def)

text \<open>What the ledger remembers of a compensated item.\<close>

definition recorded :: "(json list \<times> json option \<Rightarrow> string) \<Rightarrow> graph \<Rightarrow> json \<Rightarrow> bool" where
  "recorded digest g item \<longleftrightarrow> (\<exists>d k x. dget item ''guard'' = Some (JObj d) \<and> item_key item = Some k \<and>
     lookup_by gx_key k (gd_effects g) = Some x \<and> gx_hash x = digest (item_actions item, Some (JObj d)) \<and>
     item_actions item \<noteq> [] \<and> list_all is_dict (item_actions item))"

lemma recorded_grows: "recorded digest g item \<Longrightarrow> gd_effects h = gd_effects g @ es \<Longrightarrow> recorded digest h item"
  unfolding recorded_def by (auto simp: lookup_by_append)

lemma recorded_replays:
  assumes "list_all (recorded (we_digest env) g) items"
  shows "compensate_items env (items @ rest) g = compensate_items env rest g"
  using assms
proof (induction items)
  case (Cons item items)
  obtain d k x where r: "dget item ''guard'' = Some (JObj d)" "item_key item = Some k"
    "lookup_by gx_key k (gd_effects g) = Some x" "gx_hash x = we_digest env (item_actions item, Some (JObj d))"
    "item_actions item \<noteq> []" "list_all is_dict (item_actions item)"
    using Cons.prems by (auto simp: recorded_def)
  have "apply_actions_atomic (we_now env) (we_fresh env) (we_ticket env) (we_digest env) (item_request item (JObj d)) (item_actions item) g
      = (g, Inr (gx_result x))"
    using r item_key_given[OF r(2)]
    by (simp add: apply_actions_atomic_def transact_def apply_actions_tx_def item_request_def given_def)
  then show ?case using Cons r(1) by simp
qed simp

lemma compensation_prefix:
  assumes "undo_chain origin (lo @ hi) g" "same_content h g" "graph_ok h" "distinct (item_keys (lo @ hi))"
    "set (item_keys (lo @ hi)) \<inter> set (ledger h) = {}"
  shows "\<exists>h' m. compensate_items env (rev hi) h = (h', None) \<and> undo_chain origin lo m \<and> same_content h' m \<and> graph_ok h' \<and>
     set (ledger h') = set (ledger h) \<union> set (item_keys hi) \<and> (\<exists>es. gd_effects h' = gd_effects h @ es) \<and>
     (\<forall>item \<in> set hi. item_key item \<noteq> None \<longrightarrow> recorded (we_digest env) h' item)"
  using assms
proof (induction hi arbitrary: g h rule: rev_induct)
  case Nil
  then show ?case by auto
next
  case (snoc item hi)
  obtain m where m: "undo_chain origin (lo @ hi) m" "undo_item item g m"
    using snoc.prems(1) chain_snocE[of origin "lo @ hi" item g] by auto
  obtain d h1 res where h1: "dget item ''guard'' = Some (JObj d)"
    "apply_actions_atomic (we_now env) (we_fresh env) (we_ticket env) (we_digest env) (item_request item (JObj d)) (item_actions item) h
       = (h1, Inr res)"
    "same_content h1 m" "graph_ok h1" "ledger h1 = ledger h @ (case item_key item of None \<Rightarrow> [] | Some k \<Rightarrow> [k])"
    using compensate_one[OF m(2) snoc.prems(2,3)] snoc.prems(5) by (cases "item_key item") fastforce+
  obtain es where es: "gd_effects h1 = gd_effects h @ es" using commit_effects[OF h1(2)] by blast
  have r1: "item_key item \<noteq> None \<longrightarrow> recorded (we_digest env) h1 item"
  proof
    assume "item_key item \<noteq> None"
    then obtain k where k: "item_key item = Some k" by blast
    have "given (cr_idempotency_key (item_request item (JObj d)))" using k item_key_given[OF k] by (simp add: item_request_def given_def)
    from commit_recorded[OF h1(2) this] h1(1) k show "recorded (we_digest env) h1 item"
      using h1(2) by (auto simp: recorded_def item_request_def tx_of_atomic apply_actions_tx_def split: if_splits)
  qed
  have "distinct (item_keys (lo @ hi))" "set (item_keys (lo @ hi)) \<inter> set (ledger h1) = {}"
    using snoc.prems(4,5) h1(5) by (auto split: option.splits)
  from snoc.IH[OF m(1) h1(3,4) this] obtain h' m' fs where h': "compensate_items env (rev hi) h1 = (h', None)" "undo_chain origin lo m'"
    "same_content h' m'" "graph_ok h'" "set (ledger h') = set (ledger h1) \<union> set (item_keys hi)" "gd_effects h' = gd_effects h1 @ fs"
    "\<forall>item \<in> set hi. item_key item \<noteq> None \<longrightarrow> recorded (we_digest env) h' item"
    by blast
  have "compensate_items env (rev (hi @ [item])) h = (h', None)" using h1(1,2) h'(1) by simp
  moreover have "set (ledger h') = set (ledger h) \<union> set (item_keys (hi @ [item]))" using h'(5) h1(5) by (auto split: option.splits)
  moreover have "\<forall>i \<in> set (hi @ [item]). item_key i \<noteq> None \<longrightarrow> recorded (we_digest env) h' i"
    using h'(7) r1 recorded_grows[OF _ h'(6)] by auto
  moreover have "gd_effects h' = gd_effects h @ (es @ fs)" using h'(6) es by simp
  ultimately show ?case using h'(2-4) by blast
qed

lemma compensation_restores:
  assumes "undo_chain origin items g" "same_content h g" "graph_ok h" "distinct (item_keys items)"
    "set (item_keys items) \<inter> set (ledger h) = {}"
  shows "\<exists>h'. compensate_items env (rev items) h = (h', None) \<and> same_content h' origin \<and> graph_ok h'"
proof -
  obtain h' m where h: "compensate_items env (rev items) h = (h', None)" "undo_chain origin [] m" "same_content h' m" "graph_ok h'"
    using compensation_prefix[of origin "[]" items g h env] assms by auto
  have "same_content m origin" using h(2) by (rule chain_emptyE) simp
  then show ?thesis using h(1,3,4) same_content_trans by blast
qed

text \<open>A compensation that stopped after the items \<open>hi\<close> starts again from the last of all items.\<close>

lemma compensation_resumes:
  assumes "undo_chain origin (lo @ hi) g" "same_content h g" "graph_ok h" "distinct (item_keys (lo @ hi))"
    "set (item_keys (lo @ hi)) \<inter> set (ledger h) = {}" "\<forall>item \<in> set hi. item_key item \<noteq> None"
    "compensate_items env (rev hi) h = (h1, r)" "we_digest env' = we_digest env"
  shows "r = None \<and> (\<exists>h'. compensate_items env' (rev (lo @ hi)) h1 = (h', None) \<and> same_content h' origin \<and> graph_ok h')"
proof -
  obtain h' m where h: "compensate_items env (rev hi) h = (h', None)" "undo_chain origin lo m" "same_content h' m" "graph_ok h'"
    "set (ledger h') = set (ledger h) \<union> set (item_keys hi)" "\<forall>item \<in> set hi. item_key item \<noteq> None \<longrightarrow> recorded (we_digest env) h' item"
    using compensation_prefix[OF assms(1-5), of env] by blast
  have h1: "h1 = h'" "r = None" using h(1) assms(7) by simp_all
  have "list_all (recorded (we_digest env') h1) (rev hi)" using h(6) assms(6,8) h1(1) by (simp add: list_all_iff)
  then have "compensate_items env' (rev hi @ rev lo) h1 = compensate_items env' (rev lo) h1" by (rule recorded_replays)
  moreover have "distinct (item_keys lo)" "set (item_keys lo) \<inter> set (ledger h1) = {}"
    using assms(4,5) h(5) h1(1) by auto
  ultimately show ?thesis using compensation_restores[OF h(2)] h(3,4) h1 by simp
qed

section \<open>Runs\<close>

text \<open>
  The phases of a composite request as steps of a saga: every successful commit appends its compensation to the checkpoint,
  the other phases leave graph and compensations alone, and a final failure or a cancellation takes the graph back to
  where the request found it.
\<close>

section \<open>What phases keep\<close>

definition SAGA_LEDGER :: "string set" where
  "SAGA_LEDGER = {''graph_compensations'', ''non_compensable_effect'', ''effects_committed''}"

definition keeps :: "wf_state \<Rightarrow> wf_state \<Rightarrow> bool" where
  "keeps sw sw' \<longleftrightarrow> ww_graph (snd sw') = ww_graph (snd sw) \<and> (\<forall>k \<in> SAGA_LEDGER. data_get (fst sw') k = data_get (fst sw) k)"

lemma keeps_refl [simp]: "keeps sw sw"
  by (simp add: keeps_def)

lemma keeps_trans: "keeps a b \<Longrightarrow> keeps b c \<Longrightarrow> keeps a c"
  by (simp add: keeps_def)

lemma emit_simps [simp]:
  "ww_graph (emit_event t p c w) = ww_graph w" "ww_graph (emit_activity i a u m d x w) = ww_graph w"
  by (simp_all add: emit_event_def emit_activity_def)

lemma saga_ledger_keys: "k \<in> SAGA_LEDGER \<Longrightarrow> k \<notin> set WIDGET_KEYS \<and> k \<notin> {''graph_actions'', ''pre_extend_schema_props'',
    ''return_to_multi'', ''current_intent'', ''multi_index'', ''multi_results'', ''multi_preflight_complete'', ''multi_preflight_intents'',
    ''code_feedback'', ''effect_in_flight'', ''phase_retries'', ''staged_app''}"
  by (auto simp: SAGA_LEDGER_def WIDGET_KEYS_def)

lemma say_graph: "say env r c w = Inr w' \<Longrightarrow> ww_graph w' = ww_graph w"
  by (auto simp: say_def Let_def split: sum.splits if_splits)

lemma close_step_keeps: "k \<in> SAGA_LEDGER \<Longrightarrow> data_get (close_step rs i st) k = data_get st k"
  using saga_ledger_keys[of k] by (simp add: close_step_def)

lemma finish_subflow_keeps:
  assumes "finish_subflow env r c res arts sw = (sw', out)"
  shows "keeps sw sw'"
proof (cases "truthy_data (fst sw) ''return_to_multi''")
  case True
  then show ?thesis using assms saga_ledger_keys
    by (auto simp: finish_subflow_def keeps_def close_step_keeps Let_def split: option.splits sum.splits)
next
  case False
  then show ?thesis using assms by (auto simp: finish_subflow_def keeps_def Let_def split: sum.splits dest: say_graph)
qed

lemma wait_for_keeps: "wait_for env r k p payload sw = (sw', out) \<Longrightarrow> keeps sw sw'"
  by (auto simp: wait_for_def keeps_def Let_def)

lemma query_keeps: "phase_graph_query env r sw = (sw', out) \<Longrightarrow> keeps sw sw'"
  by (auto simp: phase_graph_query_def split: sum.splits dest: finish_subflow_keeps)

lemma preflight_keeps:
  assumes "phase_graph_preflight env r sw = (sw', out)"
  shows "keeps sw sw'"
proof -
  have put: "keeps sw (put_data ''graph_actions'' v (fst sw), snd sw)" for v
    using saga_ledger_keys by (auto simp: keeps_def)
  have ph: "keeps sw ((put_data ''graph_actions'' v (fst sw))\<lparr>st_phase := p\<rparr>, emit_event t x c (snd sw))" for v p t x c
    using saga_ledger_keys by (auto simp: keeps_def)
  show ?thesis using assms put
    by (auto simp: phase_graph_preflight_def Let_def split: sum.splits dest!: wait_for_keeps intro: keeps_trans[OF ph])
qed

lemma response_keeps: "response_of s st = (st', out) \<Longrightarrow> data_get st' k = data_get st k"
  by (auto simp: response_of_def split: option.splits list.splits inter_status.splits)

lemma approval_keeps: "phase_wait_graph_approval s sw = (sw', out) \<Longrightarrow> keeps sw sw'"
  by (auto simp: phase_wait_graph_approval_def keeps_def split: prod.splits sum.splits option.splits dest: response_keeps)

lemma multi_preflight_keeps: "phase_multi_preflight env sw = (sw', out) \<Longrightarrow> keeps sw sw'"
  using saga_ledger_keys by (auto simp: phase_multi_preflight_def keeps_def Let_def split: sum.splits if_splits)

lemma enter_step_keeps: "k \<in> SAGA_LEDGER \<Longrightarrow> data_get (enter_step s d i st) k = data_get st k"
  using saga_ledger_keys[of k] by (simp add: enter_step_def Let_def)

lemma finish_saga_keeps: "finish_saga env r sw = (sw', out) \<Longrightarrow> keeps sw sw'"
  by (auto simp: finish_saga_def keeps_def Let_def split: sum.splits if_splits dest: say_graph)

lemma dispatch_keeps: "phase_multi_dispatch env r sw = (sw', out) \<Longrightarrow> keeps sw sw'"
  by (auto simp: phase_multi_dispatch_def keeps_def[of sw "(enter_step a b c (fst sw), snd sw)" for a b c] enter_step_keeps Let_def
      split: sum.splits if_splits option.splits dest: finish_saga_keeps)

lemma clarify_keeps: "phase_clarify env r sw = (sw', out) \<Longrightarrow> keeps sw sw'"
  by (auto simp: phase_clarify_def keeps_def Let_def split: sum.splits dest: say_graph)

definition QUIET_PHASES :: "string list" where
  "QUIET_PHASES = [''graph_query'', ''graph_preflight'', ''wait_graph_approval'', ''multi_preflight'', ''multi_dispatch'', ''clarify'']"

lemmas phase_keeps = query_keeps preflight_keeps approval_keeps multi_preflight_keeps dispatch_keeps clarify_keeps

lemma quiet_phase:
  assumes "dispatch env s r other p = Some h" "p \<in> set QUIET_PHASES" "h sw = (sw', out)"
  shows "keeps sw sw'"
  using assms by (auto simp: QUIET_PHASES_def dispatch_def intro: phase_keeps)

section \<open>The commit of a step\<close>

lemma undoes_all_cong: "undoes_all us g' g \<Longrightarrow> same_content h g' \<Longrightarrow> undoes_all us h g"
  unfolding undoes_all_def using same_content_trans by blast

lemma dget_compensation [simp]:
  "item_actions (compensation_item (effect_result t b guard)) = rev (bt_reverse b)"
  "dget (compensation_item (effect_result t b guard)) ''guard'' = Some guard"
  "dget (compensation_item (effect_result t b guard)) ''ticket_id'' = Some (json_of_str t)"
  by (simp_all add: compensation_item_def item_actions_def effect_result_def json_or_null_def)

lemma committed_item:
  assumes "apply_actions_atomic now fresh ticket digest q actions g = (g1, Inr mutation)" "prior_effect q g = None" "graph_ok g"
    "\<forall>a \<in> set actions. undoable a" "\<forall>i. named (fresh i)" "wf_json (json_or_null (dget (compensation_item mutation) ''guard''))"
  shows "undo_item (compensation_item mutation) g1 g \<and> graph_ok g1 \<and>
    dget (compensation_item mutation) ''ticket_id'' = Some (json_of_str (commit_ticket ticket q))"
proof -
  from assms(1,2) obtain b guard g0 where b: "run_actions now fresh 0 actions (start_batch g) = Inr b"
    "capture_compensation_guard g0 (bt_actions b) = Inr guard" "same_rows g0 (bt_graph b)" "same_rows g1 (bt_graph b)"
    "mutation = effect_result (commit_ticket ticket q) b guard" "actions \<noteq> []"
    unfolding tx_of_atomic by (rule fresh_commitE)
  let ?us = "rev (bt_reverse b)"
  from run_reversible[OF b(1), simplified, OF assms(3,4) assms(5)[rule_format]] b(6)
  have u: "?us \<noteq> []" "map edge_ref ?us = rev (map edge_ref (bt_actions b))" "graph_ok (bt_graph b)"
    "undoes_all ?us (bt_graph b) g" by (auto simp add: rev_map[symmetric] simp flip: length_greater_0_conv)
  have c: "same_content g1 (bt_graph b)" "graph_ok g1" using same_rows_content[OF b(4)] u(3) by simp_all
  have k: "\<forall>k \<in> set (concat (map edge_ref (bt_actions b))). guard_key k"
    "guard = guard_of g0 (touched_nodes (bt_actions b)) (touched_edges (bt_actions b))"
    using b(2) by (auto simp: capture_guard split: if_splits)
  have "same_rows g0 g1" using b(3,4) by (simp add: same_rows_def)
  then have guard: "guard = guard_of g1 (touched_nodes (bt_actions b)) (touched_edges (bt_actions b))"
    unfolding k(2) by (rule guard_of_cong)
  have "undo_item (compensation_item mutation) g1 g"
    unfolding undo_item_def b(5) dget_compensation u(2)
  proof (intro conjI c(2) u(1) undoes_all_cong[OF u(4) c(1)])
    show "\<forall>k \<in> set (concat (rev (map edge_ref (bt_actions b)))). guard_key k" using k(1) by auto
    show "\<exists>ns es. Some guard = Some (guard_of g1 ns es) \<and> wf_json (guard_of g1 ns es) \<and> (\<forall>k \<in> set es. guard_key k)"
      using guard k(1) assms(6) unfolding b(5) dget_compensation
      by (intro exI[of _ "touched_nodes (bt_actions b)"] exI[of _ "touched_edges (bt_actions b)"])
        (simp add: json_or_null_def touched_edges_refs)
  qed
  then show ?thesis using c(2) by (simp add: b(5))
qed

section \<open>Saga runs\<close>

text \<open>
  A commit is the first of its step when its key is not in the ledger and its ticket names no compensation yet; its
  actions are those a user can ask for, and the values it reads back are JSON objects with distinct keys.
\<close>

definition saga_items :: "wf_state \<Rightarrow> json list" where
  "saga_items sw = (case compensation_list (fst sw) of None \<Rightarrow> [] | Some items \<Rightarrow> items)"

definition saga_graph :: "wf_state \<Rightarrow> graph" where
  "saga_graph sw = ww_graph (snd sw)"

text \<open>
  A commit as the composite request makes it the first time: its key is not in the ledger, the chat session is named, the
  ticket is a fresh one, and the actions are those whose inverses the graph accepts.
\<close>

definition first_commit :: "wf_env \<Rightarrow> run_row \<Rightarrow> wf_state \<Rightarrow> wf_state \<Rightarrow> bool" where
  "first_commit env r sw sw' \<longleftrightarrow>
     (\<exists>i. data_int (fst sw) ''multi_index'' = Inr i \<and> commit_key r i \<notin> set (ledger (saga_graph sw))) \<and>
     given (st_session_id (fst sw)) \<and> we_ticket env \<noteq> [] \<and> ''compensate:'' @ we_ticket env \<notin> set (ledger (saga_graph sw)) \<and>
     ''compensate:'' @ we_ticket env \<notin> set (item_keys (saga_items sw)) \<and> (\<forall>i. named (we_fresh env i)) \<and>
     list_all undoable (stored_actions (fst sw)) \<and> wf_json (json_or_null (dget (last (saga_items sw')) ''guard''))"

text \<open>
  The request before it publishes an App: it starts with no compensation and no published App; the other phases leave graph,
  compensations and the marks of effects as they are; a commit returns or raises after the writer is done; and a commit whose
  checkpoint is lost with the process is replayed from the checkpoint before it, on the graph it left. No rule lets another
  writer touch the graph, publishes an App, or commits under a key the ledger knows from elsewhere.
\<close>

inductive saga :: "graph \<Rightarrow> wf_state \<Rightarrow> bool" for origin :: graph where
  saga_start: "saga_graph sw = origin \<Longrightarrow> compensation_list (fst sw) = Some [] \<Longrightarrow>
    \<not> truthy_data (fst sw) ''non_compensable_effect'' \<Longrightarrow> saga origin sw"
| saga_quiet: "saga origin sw \<Longrightarrow> keeps sw sw' \<Longrightarrow> saga origin sw'"
| saga_commit: "saga origin sw \<Longrightarrow> phase_graph_commit env r sw = (sw', res) \<Longrightarrow> first_commit env r sw sw' \<Longrightarrow> saga origin sw'"
| saga_replay: "saga origin sw \<Longrightarrow> phase_graph_commit env r sw = (sw1, Inr out) \<Longrightarrow> first_commit env r sw sw1 \<Longrightarrow>
    fst lost = fst sw \<Longrightarrow> saga_graph lost = saga_graph sw1 \<Longrightarrow> we_digest env' = we_digest env \<Longrightarrow>
    phase_graph_commit env' r lost = (sw', res) \<Longrightarrow> saga origin sw'"

definition saga_inv :: "graph \<Rightarrow> wf_state \<Rightarrow> bool" where
  "saga_inv origin sw \<longleftrightarrow> compensation_list (fst sw) = Some (saga_items sw) \<and> undo_chain origin (saga_items sw) (saga_graph sw) \<and>
     graph_ok (saga_graph sw) \<and> distinct (item_keys (saga_items sw)) \<and>
     set (item_keys (saga_items sw)) \<inter> set (ledger (saga_graph sw)) = {} \<and>
     (\<forall>item \<in> set (saga_items sw). item_key item \<noteq> None) \<and> \<not> truthy_data (fst sw) ''non_compensable_effect''"

lemma compensations_kept: "keeps sw sw' \<Longrightarrow> compensation_list (fst sw') = compensation_list (fst sw)"
  by (simp add: keeps_def SAGA_LEDGER_def compensation_list_def)

lemma saga_inv_keeps:
  assumes "saga_inv origin sw" "keeps sw sw'"
  shows "saga_inv origin sw'"
proof -
  have c: "compensation_list (fst sw') = compensation_list (fst sw)" by (rule compensations_kept[OF assms(2)])
  have "saga_items sw' = saga_items sw" "saga_graph sw' = saga_graph sw"
    "truthy_data (fst sw') ''non_compensable_effect'' = truthy_data (fst sw) ''non_compensable_effect''"
    using assms(2) c by (simp_all add: saga_items_def saga_graph_def keeps_def SAGA_LEDGER_def truthy_data_def)
  with assms(1) c show ?thesis by (simp add: saga_inv_def)
qed

lemma after_commitE:
  assumes "after_commit env r mutation sw = (sw', res)" "compensation_list (fst sw) = Some items"
  shows "compensation_list (fst sw') = Some (items @ [compensation_item mutation])" "saga_graph sw' = saga_graph sw"
    "truthy_data (fst sw') ''non_compensable_effect'' = truthy_data (fst sw) ''non_compensable_effect''"
proof -
  let ?st = "put_data ''effects_committed'' (JBool True) (put_data ''graph_compensations'' (JArr (items @ [compensation_item mutation])) (fst sw))"
  have "keeps (?st, snd sw) sw'"
  proof (cases "summary_of (mutation_actions mutation) (language_of ?st)")
    case (Inl e)
    then have "sw' = (?st, snd sw)" using assms by (simp add: after_commit_def Let_def)
    then show ?thesis by simp
  next
    case (Inr summary)
    then obtain t p c content out where "finish_subflow env r content out [] (?st, emit_event t p c (snd sw)) = (sw', res)"
      using assms by (auto simp: after_commit_def Let_def)
    from finish_subflow_keeps[OF this] show ?thesis by (simp add: keeps_def)
  qed
  then have k: "data_get (fst sw') q = data_get ?st q" if "q \<in> SAGA_LEDGER" for q using that by (simp add: keeps_def)
  show "compensation_list (fst sw') = Some (items @ [compensation_item mutation])"
    using k[of "''graph_compensations''"] by (simp add: SAGA_LEDGER_def compensation_list_def)
  show "truthy_data (fst sw') ''non_compensable_effect'' = truthy_data (fst sw) ''non_compensable_effect''"
    using k[of "''non_compensable_effect''"] by (simp add: SAGA_LEDGER_def truthy_data_def)
  show "saga_graph sw' = saga_graph sw" using \<open>keeps (?st, snd sw) sw'\<close> by (simp add: saga_graph_def keeps_def)
qed

lemma commit_keys_differ: "commit_key r i \<noteq> ''compensate:'' @ t"
  by (simp add: commit_key_def)

lemma saga_key: "cr_idempotency_key (saga_request r st i) = Some (commit_key r i)" "given (cr_idempotency_key (saga_request r st i))"
  by (simp_all add: saga_request_def given_def commit_key_def)

lemma refused_commit_keeps:
  assumes "phase_graph_commit env r sw = (sw', res)" "data_int (fst sw) ''multi_index'' = Inr i"
    and "apply_actions_atomic (we_now env) (we_fresh env) (we_ticket env) (we_digest env) (saga_request r (fst sw) i)
      (stored_actions (fst sw)) (saga_graph sw) = (g, Inl e)"
  shows "keeps sw sw'"
proof -
  have g: "g = saga_graph sw" using assms(3) by (auto simp: apply_actions_atomic_def transact_def split: sum.splits)
  have "sw' = (data_pop ''effect_in_flight'' (fst sw), (snd sw)\<lparr>ww_graph := g\<rparr>)"
    using assms by (simp add: phase_graph_commit_def saga_graph_def Let_def)
  then show ?thesis using saga_ledger_keys by (auto simp: keeps_def g saga_graph_def)
qed

lemma commit_phaseE:
  assumes "phase_graph_commit env r sw = (sw', res)" "data_int (fst sw) ''multi_index'' = Inr i" "compensation_list (fst sw) = Some items"
    and "apply_actions_atomic (we_now env) (we_fresh env) (we_ticket env) (we_digest env) (saga_request r (fst sw) i)
      (stored_actions (fst sw)) (saga_graph sw) = (g, Inr mutation)"
  shows "compensation_list (fst sw') = Some (items @ [compensation_item mutation])" "saga_graph sw' = g"
    "truthy_data (fst sw') ''non_compensable_effect'' = truthy_data (fst sw) ''non_compensable_effect''"
proof -
  have a: "after_commit env r mutation (data_pop ''effect_in_flight'' (fst sw), (snd sw)\<lparr>ww_graph := g\<rparr>) = (sw', res)"
    using assms by (simp add: phase_graph_commit_def saga_graph_def Let_def)
  have "compensation_list (data_pop ''effect_in_flight'' (fst sw)) = Some items" using assms(3) by (simp add: compensation_list_def)
  with after_commitE[OF a] show "compensation_list (fst sw') = Some (items @ [compensation_item mutation])" "saga_graph sw' = g"
    "truthy_data (fst sw') ''non_compensable_effect'' = truthy_data (fst sw) ''non_compensable_effect''"
    by (simp_all add: truthy_data_def saga_graph_def)
qed

lemma saga_inv_commit:
  assumes "saga_inv origin sw" "phase_graph_commit env r sw = (sw', res)" "first_commit env r sw sw'"
  shows "saga_inv origin sw'"
proof -
  obtain i where i: "data_int (fst sw) ''multi_index'' = Inr i" "commit_key r i \<notin> set (ledger (saga_graph sw))"
    using assms(3) by (auto simp: first_commit_def)
  let ?q = "saga_request r (fst sw) i"
  let ?run = "apply_actions_atomic (we_now env) (we_fresh env) (we_ticket env) (we_digest env) ?q (stored_actions (fst sw)) (saga_graph sw)"
  obtain g out where run: "?run = (g, out)" by fastforce
  show ?thesis
  proof (cases out)
    case (Inl e)
    then show ?thesis using refused_commit_keeps[OF assms(2) i(1)] saga_inv_keeps[OF assms(1)] run by simp
  next
    case (Inr mutation)
    define items where "items = saga_items sw"
    have a: "?run = (g, Inr mutation)" and c0: "compensation_list (fst sw) = Some items"
      using run Inr assms(1) by (simp_all add: saga_inv_def items_def)
    note c = commit_phaseE[OF assms(2) i(1) c0 a]
    have items: "saga_items sw = items" "saga_items sw' = items @ [compensation_item mutation]" using c c0 by (simp_all add: saga_items_def)
    have prior: "prior_effect ?q (saga_graph sw) = None" by (rule no_prior[OF i(2) saga_key(1)])
    have f: "given (st_session_id (fst sw))" "we_ticket env \<noteq> []" "''compensate:'' @ we_ticket env \<notin> set (ledger (saga_graph sw))"
      "''compensate:'' @ we_ticket env \<notin> set (item_keys items)" "\<forall>i. named (we_fresh env i)"
      "\<forall>a \<in> set (stored_actions (fst sw)). undoable a" "wf_json (json_or_null (dget (compensation_item mutation) ''guard''))"
      using assms(3) by (simp_all add: first_commit_def items list_all_iff)
    have ok: "graph_ok (saga_graph sw)" using assms(1) by (simp add: saga_inv_def)
    note u = committed_item[OF a prior ok f(6,5,7)]
    have "commit_ticket (we_ticket env) ?q = Some (we_ticket env)" using f(1) by (simp add: commit_ticket_def saga_request_def given_def)
    then have k: "item_key (compensation_item mutation) = Some (''compensate:'' @ we_ticket env)"
      using u f(2) by (simp add: item_key_def json_of_str_def json_or_null_def)
    have l: "ledger g = ledger (saga_graph sw) @ [commit_key r i]" using first_commit_ledger[OF a prior] saga_key by simp
    have "undo_chain origin (items @ [compensation_item mutation]) g"
      using assms(1) u by (intro chain_step) (auto simp: saga_inv_def items)
    moreover have "set (item_keys items) \<inter> set (ledger (saga_graph sw)) = {}" "distinct (item_keys items)"
      "\<forall>item \<in> set items. item_key item \<noteq> None" "\<not> truthy_data (fst sw) ''non_compensable_effect''"
      using assms(1) by (simp_all add: saga_inv_def items)
    moreover have "commit_key r i \<notin> set (item_keys items)"
    proof
      assume "commit_key r i \<in> set (item_keys items)"
      then obtain item where "item_key item = Some (commit_key r i)" by (auto simp: item_keys_def split: option.splits)
      then show False by (auto simp: item_key_def commit_key_def split: if_splits)
    qed
    ultimately show ?thesis
      using u k f(3,4) c commit_keys_differ by (simp add: saga_inv_def items l)
  qed
qed

text \<open>The replay of a commit finds its key in the ledger and appends the same item, on the same graph.\<close>

lemma saga_inv_replay:
  assumes "saga_inv origin sw" "phase_graph_commit env r sw = (sw1, Inr out)" "first_commit env r sw sw1" "fst lost = fst sw"
    and "saga_graph lost = saga_graph sw1" "we_digest env' = we_digest env" "phase_graph_commit env' r lost = (sw', res)"
  shows "saga_inv origin sw'"
proof -
  obtain i where i: "data_int (fst sw) ''multi_index'' = Inr i" using assms(3) by (auto simp: first_commit_def)
  let ?q = "saga_request r (fst sw) i"
  obtain g mutation where a: "apply_actions_atomic (we_now env) (we_fresh env) (we_ticket env) (we_digest env) ?q
      (stored_actions (fst sw)) (saga_graph sw) = (g, Inr mutation)"
    using assms(2) i by (auto simp: phase_graph_commit_def saga_graph_def Let_def split: prod.splits sum.splits)
  have c0: "compensation_list (fst sw) = Some (saga_items sw)" using assms(1) by (simp add: saga_inv_def)
  note c = commit_phaseE[OF assms(2) i c0 a]
  have b: "apply_actions_atomic (we_now env') (we_fresh env') (we_ticket env') (we_digest env') (saga_request r (fst lost) i)
      (stored_actions (fst lost)) (saga_graph lost) = (g, Inr mutation)"
    using replayed_commit[OF a saga_key(2), of "we_now env'" "we_fresh env'" "we_ticket env'"] c(2) assms(4-6) by simp
  have d: "data_int (fst lost) ''multi_index'' = Inr i" "compensation_list (fst lost) = Some (saga_items sw)" using i c0 assms(4) by simp_all
  note e = commit_phaseE[OF assms(7) d b]
  have "saga_inv origin sw1" by (rule saga_inv_commit[OF assms(1-3)])
  moreover have "saga_items sw' = saga_items sw1" "saga_graph sw' = saga_graph sw1" using c e by (simp_all add: saga_items_def)
  ultimately show ?thesis using c e assms(4) by (simp add: saga_inv_def)
qed

lemma saga_invariant: "saga origin sw \<Longrightarrow> graph_ok origin \<Longrightarrow> saga_inv origin sw"
proof (induction rule: saga.induct)
  case (saga_start sw)
  then show ?case by (simp add: saga_inv_def saga_items_def chain_start)
next
  case (saga_quiet sw sw')
  then show ?case using saga_inv_keeps by blast
next
  case (saga_commit sw env r sw' res)
  then show ?case using saga_inv_commit by blast
next
  case (saga_replay sw env r sw1 out lost env' sw' res)
  then show ?case using saga_inv_replay by blast
qed

end
