(* ===== verification/Saga_Outcome.thy ===== *)
theory Saga_Outcome
  imports Saga_Laws Run_Examples
begin

text \<open>
  A composite request ends all or nothing for the graph: what a failure, a cancellation or an interrupted compensation
  leave behind.
\<close>

lemma wants_items: "compensation_list st = Some items \<Longrightarrow> truthy_data st ''graph_compensations'' \<longleftrightarrow> items \<noteq> []"
  by (auto simp: compensation_list_def truthy_data_def split: option.splits json.splits)

lemma items_of_checkpoint: "compensation_list st = Some items \<Longrightarrow> compensation_items st = Inr items"
  by (auto simp: compensation_list_def compensation_items_def list_of_def split: option.splits json.splits)

lemma compensate_saga:
  assumes "saga_inv origin sw"
  shows "\<exists>g. compensate_graph env (fst sw) (saga_graph sw) = (g, None) \<and> same_content g origin \<and> graph_ok g"
proof -
  have i: "compensation_list (fst sw) = Some (saga_items sw)" "undo_chain origin (saga_items sw) (saga_graph sw)"
    "graph_ok (saga_graph sw)" "distinct (item_keys (saga_items sw))"
    "set (item_keys (saga_items sw)) \<inter> set (ledger (saga_graph sw)) = {}"
    using assms by (simp_all add: saga_inv_def)
  show ?thesis
    using compensation_restores[OF i(2) same_content_refl i(3-5)] items_of_checkpoint[OF i(1)]
    by (simp add: compensate_graph_def)
qed

lemma empty_saga: "saga_inv origin sw \<Longrightarrow> saga_items sw = [] \<Longrightarrow> same_content (saga_graph sw) origin"
  by (auto simp: saga_inv_def elim: chain_emptyE)

lemma fail_generation_graph [simp]: "ww_graph (fail_generation st c m w) = ww_graph w"
  by (simp add: fail_generation_def split: option.split)

text \<open>What a final failure does to checkpoint and graph.\<close>

lemma final_failureE:
  assumes "failure env r code message retryable effect sw = (sw', Inr (Failed b c m False eff))"
  obtains st where "keeps sw (st, snd sw)"
    "saga_graph sw' = fl_graph (undo_saga env \<lparr>fl_state = st, fl_graph = saga_graph sw, fl_code = code, fl_message = message, fl_effect = effect\<rparr>)"
    "eff = fl_effect (undo_saga env \<lparr>fl_state = st, fl_graph = saga_graph sw, fl_code = code, fl_message = message, fl_effect = effect\<rparr>)"
    "fst sw' = fl_state (undo_saga env \<lparr>fl_state = st, fl_graph = saga_graph sw, fl_code = code, fl_message = message, fl_effect = effect\<rparr>) \<or>
     (\<exists>v. fst sw' = put_data ''staged_app_status'' v (fl_state (undo_saga env \<lparr>fl_state = st, fl_graph = saga_graph sw, fl_code = code,
        fl_message = message, fl_effect = effect\<rparr>)))"
proof -
  let ?st = "if data_get (fst sw) ''phase_retries'' = None then put_data ''phase_retries'' (JObj []) (fst sw) else fst sw"
  let ?w = "fail_generation (fst sw) code message (snd sw)"
  let ?f = "\<lparr>fl_state = ?st, fl_graph = ww_graph ?w, fl_code = code, fl_message = message, fl_effect = effect\<rparr>"
  have f: "final_failure env r ?f ?w = (sw', Inr (Failed b c m False eff))"
    using assms by (auto simp: failure_def Let_def split: sum.splits if_splits)
  have k: "keeps sw (?st, snd sw)" by (simp add: keeps_def SAGA_LEDGER_def)
  show thesis
    by (rule that[OF k]) (use f in \<open>auto simp: final_failure_def Let_def saga_graph_def draft_status_def split: if_splits\<close>)
qed

lemma undo_saga_restores:
  assumes "saga_inv origin sw" "fl_state f = fst sw" "fl_graph f = saga_graph sw"
  shows "same_content (fl_graph (undo_saga env f)) origin \<and> graph_ok (fl_graph (undo_saga env f)) \<and>
    (saga_items sw \<noteq> [] \<longrightarrow> fl_effect (undo_saga env f) = E_none \<and> fl_state (undo_saga env f) = reset_saga (compensated_state (fst sw)))"
proof (cases "saga_items sw = []")
  case True
  have "compensation_list (fst sw) = Some []" using assms(1) True by (simp add: saga_inv_def)
  then have "\<not> wants_compensation (fst sw)" using wants_items[of "fst sw" "[]"] by (simp add: wants_compensation_def)
  then have "fl_graph (undo_saga env f) = saga_graph sw" by (simp add: undo_saga_def assms(2,3) Let_def)
  then show ?thesis using empty_saga[OF assms(1) True] assms(1) True by (simp add: saga_inv_def)
next
  case False
  have w: "wants_compensation (fst sw)"
    using assms(1) False wants_items[of "fst sw" "saga_items sw"] by (simp add: wants_compensation_def saga_inv_def)
  obtain g where "compensate_graph env (fst sw) (saga_graph sw) = (g, None)" "same_content g origin" "graph_ok g"
    using compensate_saga[OF assms(1)] by blast
  then show ?thesis using w by (simp add: undo_saga_def assms(2,3) Let_def)
qed

lemma data_drop_fields: "st_phase (data_drop ks st) = st_phase st" "st_intent (data_drop ks st) = st_intent st"
  by (simp_all add: data_drop_def)

lemma reset_saga_simps:
  "compensation_list (reset_saga (compensated_state st)) = Some []" "st_phase (reset_saga (compensated_state st)) = ''route''"
  "st_intent (reset_saga (compensated_state st)) = None"
  "k \<in> set SAGA_KEYS \<Longrightarrow> data_get (reset_saga (compensated_state st)) k = None"
  by (simp_all add: reset_saga_def compensated_state_def compensation_list_def SAGA_KEYS_def data_drop_fields)

lemma failed_saga:
  assumes "saga_inv origin sw" "failure env r code message retryable effect sw = (sw', Inr (Failed b c m False eff))"
  shows "same_content (saga_graph sw') origin \<and> graph_ok (saga_graph sw') \<and>
    (saga_items sw \<noteq> [] \<longrightarrow> eff = E_none \<and> compensation_list (fst sw') = Some [] \<and> st_phase (fst sw') = ''route'' \<and>
       st_intent (fst sw') = None \<and> (\<forall>k \<in> set SAGA_KEYS. data_get (fst sw') k = None))"
proof -
  obtain st where k: "keeps sw (st, snd sw)"
    and f: "saga_graph sw' = fl_graph (undo_saga env \<lparr>fl_state = st, fl_graph = saga_graph sw, fl_code = code, fl_message = message, fl_effect = effect\<rparr>)"
    "eff = fl_effect (undo_saga env \<lparr>fl_state = st, fl_graph = saga_graph sw, fl_code = code, fl_message = message, fl_effect = effect\<rparr>)"
    "fst sw' = fl_state (undo_saga env \<lparr>fl_state = st, fl_graph = saga_graph sw, fl_code = code, fl_message = message, fl_effect = effect\<rparr>) \<or>
     (\<exists>v. fst sw' = put_data ''staged_app_status'' v (fl_state (undo_saga env \<lparr>fl_state = st, fl_graph = saga_graph sw, fl_code = code,
        fl_message = message, fl_effect = effect\<rparr>)))"
    using final_failureE[OF assms(2)] by metis
  let ?f = "\<lparr>fl_state = st, fl_graph = saga_graph sw, fl_code = code, fl_message = message, fl_effect = effect\<rparr>"
  have i: "saga_inv origin (st, snd sw)" "saga_items (st, snd sw) = saga_items sw"
    using saga_inv_keeps[OF assms(1) k] compensations_kept[OF k] by (simp_all add: saga_items_def)
  have u: "same_content (fl_graph (undo_saga env ?f)) origin \<and> graph_ok (fl_graph (undo_saga env ?f)) \<and>
    (saga_items sw \<noteq> [] \<longrightarrow> fl_effect (undo_saga env ?f) = E_none \<and> fl_state (undo_saga env ?f) = reset_saga (compensated_state st))"
    using undo_saga_restores[OF i(1), of ?f env] i(2) by (simp add: saga_graph_def)
  have p: "compensation_list (put_data ''staged_app_status'' v x) = compensation_list x"
    "k \<in> set SAGA_KEYS \<Longrightarrow> data_get (put_data ''staged_app_status'' v x) k = data_get x k" for v x k
    by (auto simp: compensation_list_def SAGA_KEYS_def)
  have q: "st_phase (put_data k v x) = st_phase x" "st_intent (put_data k v x) = st_intent x" for k v x by (simp_all add: put_data_def)
  show ?thesis using f(3) u reset_saga_simps p q unfolding f(1,2) by auto
qed

lemma discard_keeps: "keeps sw (discard_draft sw)"
  by (auto simp: discard_draft_def keeps_def SAGA_LEDGER_def Let_def split: option.split sum.split)

lemma cancelled_saga:
  assumes "saga_inv origin sw" "\<not> truthy_data (fst sw) ''effect_in_flight''"
  shows "same_content (saga_graph (cleanup_state env sw)) origin \<and> graph_ok (saga_graph (cleanup_state env sw)) \<and>
    compensation_list (fst (cleanup_state env sw)) = Some []"
proof -
  let ?d = "discard_draft sw"
  have i: "saga_inv origin ?d" by (rule saga_inv_keeps[OF assms(1) discard_keeps])
  show ?thesis
  proof (cases "saga_items ?d = []")
    case True
    have c: "compensation_list (fst ?d) = Some []" using i True by (simp add: saga_inv_def)
    then have "\<not> wants_compensation (fst ?d)" using wants_items[of "fst ?d" "[]"] by (simp add: wants_compensation_def)
    then have "cleanup_state env sw = ?d" using assms(2) by (simp add: cleanup_state_def Let_def)
    then show ?thesis using empty_saga[OF i True] i c by (simp add: saga_inv_def)
  next
    case False
    have w: "wants_compensation (fst ?d)"
      using i False wants_items[of "fst ?d" "saga_items ?d"] by (simp add: wants_compensation_def saga_inv_def)
    obtain g where "compensate_graph env (fst ?d) (saga_graph ?d) = (g, None)" "same_content g origin" "graph_ok g"
      using compensate_saga[OF i] by blast
    then show ?thesis using w assms(2)
      by (simp add: cleanup_state_def Let_def saga_graph_def compensated_state_def compensation_list_def)
  qed
qed

text \<open>After the publication of an App nothing is compensated.\<close>

definition published :: "wf_state \<Rightarrow> bool" where
  "published sw \<longleftrightarrow> truthy_data (fst sw) ''non_compensable_effect'' \<and> truthy_data (fst sw) ''effects_committed''"

lemma failed_published:
  assumes "published sw" "failure env r code message retryable effect sw = (sw', Inr (Failed b c m False eff))"
  shows "saga_graph sw' = saga_graph sw \<and> compensation_list (fst sw') = compensation_list (fst sw) \<and> eff = E_unknown"
proof -
  obtain st where k: "keeps sw (st, snd sw)"
    and f: "saga_graph sw' = fl_graph (undo_saga env \<lparr>fl_state = st, fl_graph = saga_graph sw, fl_code = code, fl_message = message, fl_effect = effect\<rparr>)"
    "eff = fl_effect (undo_saga env \<lparr>fl_state = st, fl_graph = saga_graph sw, fl_code = code, fl_message = message, fl_effect = effect\<rparr>)"
    "fst sw' = fl_state (undo_saga env \<lparr>fl_state = st, fl_graph = saga_graph sw, fl_code = code, fl_message = message, fl_effect = effect\<rparr>) \<or>
     (\<exists>v. fst sw' = put_data ''staged_app_status'' v (fl_state (undo_saga env \<lparr>fl_state = st, fl_graph = saga_graph sw, fl_code = code,
        fl_message = message, fl_effect = effect\<rparr>)))"
    using final_failureE[OF assms(2)] by metis
  have "truthy_data st ''non_compensable_effect''" "truthy_data st ''effects_committed''"
    using assms(1) k by (simp_all add: published_def keeps_def SAGA_LEDGER_def truthy_data_def)
  then have u: "undo_saga env \<lparr>fl_state = st, fl_graph = saga_graph sw, fl_code = code, fl_message = message, fl_effect = effect\<rparr> =
      \<lparr>fl_state = st, fl_graph = saga_graph sw, fl_code = code, fl_message = message, fl_effect = E_unknown\<rparr>"
    by (simp add: undo_saga_def wants_compensation_def)
  have "compensation_list st = compensation_list (fst sw)" using compensations_kept[OF k] by simp
  then show ?thesis using f unfolding u by (auto simp: compensation_list_def)
qed

lemma cancelled_published: "published sw \<Longrightarrow> saga_graph (cleanup_state env sw) = saga_graph sw"
  by (simp add: published_def cleanup_state_def discard_draft_def wants_compensation_def saga_graph_def Let_def)

text \<open>
  Property C17 (saga): a composite request that does not finish before it publishes an App leaves the graph as it found it.
  However many of its graph steps have committed, some of them replayed after a crash that lost the checkpoint, a failure that
  is not retried takes every node and edge back to the content before the first step, and, when there was a step, the
  checkpoint back to routing with no trace of the steps and no effect to report; and the clean-up of a cancelled run
  restores the content too, unless a commit is still in flight. Once an App is published neither of them touches the graph, and
  the failure reports an unknown effect. The tables of the graph are sound when the request starts, with nothing to
  compensate. Assumed of the request is what \<open>saga\<close> says: it runs in a chat session, no other writer touches the graph while it lasts, each commit has a key and a ticket of its own the first time, no created node has a
  blank id, and the keys of each object in a recorded guard are distinct.
\<close>

theorem unfinished_saga_is_undone:
  assumes "saga origin sw" "graph_ok origin"
  shows "(failure env r code message retryable effect sw = (sw', Inr (Failed b c m False eff)) \<longrightarrow>
      same_content (saga_graph sw') origin \<and> graph_ok (saga_graph sw') \<and>
      (saga_items sw \<noteq> [] \<longrightarrow> eff = E_none \<and> compensation_list (fst sw') = Some [] \<and> st_phase (fst sw') = ''route'' \<and>
         st_intent (fst sw') = None \<and> (\<forall>k \<in> set SAGA_KEYS. data_get (fst sw') k = None))) \<and>
    (\<not> truthy_data (fst sw) ''effect_in_flight'' \<longrightarrow>
      same_content (saga_graph (cleanup_state env sw)) origin \<and> graph_ok (saga_graph (cleanup_state env sw)) \<and>
      compensation_list (fst (cleanup_state env sw)) = Some []) \<and>
    (published late \<longrightarrow> saga_graph (cleanup_state env late) = saga_graph late \<and>
      (failure env r code message retryable effect late = (late', Inr (Failed b c m False eff)) \<longrightarrow>
        saga_graph late' = saga_graph late \<and> compensation_list (fst late') = compensation_list (fst late) \<and> eff = E_unknown))"
proof -
  have i: "saga_inv origin sw" by (rule saga_invariant[OF assms])
  show ?thesis
    using failed_saga[OF i, of env r code message retryable effect sw' b c m eff] cancelled_saga[OF i, of env]
      failed_published[of late env r code message retryable effect late' b c m eff] cancelled_published[of late env]
    by (intro conjI impI) simp_all
qed

text \<open>
  Property C18 (resumed): a compensation that a crash interrupts can be resumed. If the process stops after any number of the
  reverse steps, none of which the checkpoint has recorded, none of those steps was refused, and a compensation that
  starts over from the same checkpoint skips what the ledger shows as done and restores the content of the graph
  before the first step. Assumed is that its tables were sound then, what \<open>saga\<close> says of the request (no App published, no other writer, first commits under
  keys and tickets of their own, no blank ids), that nothing writes to the graph between crash and resumption, and that
  the digest of a batch stays the same. What runs after the crash is the phase that failed; the statement is about
  the compensation it comes to if it fails again or the run is cancelled.
\<close>

theorem interrupted_compensation_resumes:
  assumes "saga origin sw" "graph_ok origin" "saga_items sw = undone @ done" "we_digest env' = we_digest env"
    and "compensate_items env (rev done) (saga_graph sw) = (g, failed)"
  shows "failed = None \<and> (\<exists>g'. compensate_graph env' (fst sw) g = (g', None) \<and> same_content g' origin \<and> graph_ok g')"
proof -
  have i: "saga_inv origin sw" by (rule saga_invariant[OF assms(1,2)])
  have f: "undo_chain origin (undone @ done) (saga_graph sw)" "graph_ok (saga_graph sw)" "distinct (item_keys (undone @ done))"
    "set (item_keys (undone @ done)) \<inter> set (ledger (saga_graph sw)) = {}" "\<forall>item \<in> set done. item_key item \<noteq> None"
    using i unfolding saga_inv_def assms(3) by simp_all
  have "compensation_items (fst sw) = Inr (undone @ done)"
    using i assms(3) by (intro items_of_checkpoint) (simp add: saga_inv_def)
  then show ?thesis
    using compensation_resumes[OF f(1) same_content_refl f(2-5) assms(5,4)] by (simp add: compensate_graph_def)
qed

section \<open>A concrete saga\<close>

definition demo_env :: wf_env where
  "demo_env = \<lparr>we_now = [], we_instants = (\<lambda>_. None), we_fresh = (\<lambda>i. ''f''), we_ticket = ''t'', we_digest = (\<lambda>x. ''h''),
     we_payload_hash = (\<lambda>p a v. ''p''), we_elapsed = 1\<rparr>"

definition demo_state :: agent_state where
  "demo_state = default_state\<lparr>st_session_id := Some ''s'', st_phase := ''graph_commit'',
     st_data := [(''graph_actions'', JArr demo_delete), (''return_to_multi'', JBool True)]\<rparr>"

definition demo_world :: wf_world where
  "demo_world = \<lparr>ww_graph = demo_graph, ww_chats = [], ww_files = \<lparr>fs_dirs = [], fs_links = [], fs_markers = [], fs_hashes = [],
     fs_verdicts = [], fs_stuck = []\<rparr>, ww_events = []\<rparr>"

definition demo_mutation :: json where
  "demo_mutation = effect_result (Some ''t'') demo_batch demo_guard"

lemma demo_saga_commit:
  "\<exists>g. apply_actions_atomic [] (\<lambda>i. ''f'') ''t'' (\<lambda>x. ''h'') (saga_request ex_run demo_state 0) demo_delete demo_graph = (g, Inr demo_mutation)"
proof -
  let ?q = "saga_request ex_run demo_state 0"
  let ?g = "(remove_node ''a'' demo_graph)\<lparr>gd_history := [new_ticket_row [] ''t'' ''s'' demo_batch]\<rparr>"
  have q: "cr_session_id ?q = Some ''s''" "cr_expected_state ?q = None" "given (cr_idempotency_key ?q)" "cr_ticket_id ?q = None"
    by (simp_all add: saga_request_def demo_state_def given_def commit_key_def)
  have t: "commit_ticket ''t'' ?q = Some ''t''" by (simp add: commit_ticket_def q given_def)
  have h: "gd_history (remove_node ''a'' demo_graph) = []" "gd_effects demo_graph = []" by (simp_all add: demo_graph_def remove_node_def)
  have "guard_of ?g ns es = guard_of (remove_node ''a'' demo_graph) ns es" for ns es by (rule guard_of_cong) (simp add: same_rows_def)
  then have "capture_compensation_guard ?g demo_delete = Inr demo_guard" using demo_guard_captured by (simp add: capture_guard split: if_splits)
  then have "\<exists>g. finish_commit [] (Some ''t'') ?q ''h'' demo_batch = Inr (g, demo_mutation)"
    using h(1) by (simp add: finish_commit_def record_ticket_def q given_def demo_run demo_mutation_def Let_def)
  then obtain g where g: "finish_commit [] (Some ''t'') ?q ''h'' demo_batch = Inr (g, demo_mutation)" by blast
  have "list_all is_dict demo_delete" "demo_delete \<noteq> []" by (simp_all add: demo_delete_def node_id_record_def)
  then have "apply_actions_tx [] (\<lambda>i. ''f'') ''t'' (\<lambda>x. ''h'') ?q demo_delete demo_graph = Inr (g, demo_mutation)"
    using g q t h(2) by (simp add: apply_actions_tx_def demo_run(1) check_expected_def)
  then show ?thesis unfolding tx_of_atomic[symmetric] by blast
qed

lemma demo_data: "data_get demo_state k = (if k = ''graph_actions'' then Some (JArr demo_delete)
    else if k = ''return_to_multi'' then Some (JBool True) else None)"
  by (simp add: demo_state_def data_get_def)

lemma demo_saga: "\<exists>sw. saga demo_graph sw \<and> saga_items sw = [compensation_item demo_mutation] \<and> phase_retries (fst sw) = Inr [] \<and>
    \<not> truthy_data (fst sw) ''effect_in_flight''"
proof -
  let ?sw = "(demo_state, demo_world)"
  have st: "data_int demo_state ''multi_index'' = Inr 0" "stored_actions demo_state = demo_delete" "compensation_list demo_state = Some []"
    "\<not> truthy_data demo_state ''non_compensable_effect''" "saga_graph ?sw = demo_graph" "results_list demo_state = Some []"
    by (simp_all add: demo_state_def data_int_def stored_actions_def compensation_list_def data_get_def truthy_data_def saga_graph_def
        demo_world_def results_list_def)
  obtain g where g: "apply_actions_atomic [] (\<lambda>i. ''f'') ''t'' (\<lambda>x. ''h'') (saga_request ex_run demo_state 0) demo_delete demo_graph =
      (g, Inr demo_mutation)" using demo_saga_commit by blast
  have m: "mutation_actions demo_mutation = demo_delete" by (simp add: mutation_actions_def demo_mutation_def effect_result_def demo_run)
  have "\<exists>s. summary_of demo_delete l = Inr s" for l
    by (simp add: summary_of_def summarize_actions_def demo_delete_def dicts_in_def node_id_record_def action_part_def Let_def)
  then obtain s where s: "summary_of demo_delete (language_of (put_data ''effects_committed'' (JBool True)
      (put_data ''graph_compensations'' (JArr [compensation_item demo_mutation]) (data_pop ''effect_in_flight'' demo_state)))) = Inr s" by blast
  have "\<exists>sw' out. phase_graph_commit demo_env ex_run ?sw = (sw', Inr out) \<and> data_get (fst sw') ''phase_retries'' = None \<and>
      data_get (fst sw') ''effect_in_flight'' = None"
    using g st m s
    by (simp add: phase_graph_commit_def demo_env_def demo_world_def after_commit_def compensation_list_def Let_def
        finish_subflow_def truthy_data_def results_list_def data_int_def close_step_def WIDGET_KEYS_def demo_data)
  then obtain sw' out where c: "phase_graph_commit demo_env ex_run ?sw = (sw', Inr out)" "data_get (fst sw') ''phase_retries'' = None"
    "data_get (fst sw') ''effect_in_flight'' = None" by blast
  have i: "saga_items sw' = [compensation_item demo_mutation]"
  proof -
    have a: "apply_actions_atomic (we_now demo_env) (we_fresh demo_env) (we_ticket demo_env) (we_digest demo_env)
        (saga_request ex_run (fst ?sw) 0) (stored_actions (fst ?sw)) (saga_graph ?sw) = (g, Inr demo_mutation)"
      using g st by (simp add: demo_env_def)
    have "data_int (fst ?sw) ''multi_index'' = Inr 0" "compensation_list (fst ?sw) = Some []" using st by simp_all
    from commit_phaseE(1)[OF c(1) this a] show ?thesis by (simp add: saga_items_def)
  qed
  have wf: "wf_json (json_or_null (dget (last (saga_items sw')) ''guard''))"
    by (simp add: i demo_mutation_def json_or_null_def demo_guard_def guard_json_def)
  have "saga_items ?sw = []" "ledger (saga_graph ?sw) = []" "given (st_session_id demo_state)"
    using st by (simp_all add: saga_items_def ledger_def demo_graph_def demo_state_def given_def)
  then have "first_commit demo_env ex_run ?sw sw'"
    using st(1,2) wf
    by (simp add: first_commit_def demo_env_def named_def strip_def is_space_def demo_delete_def undoable_def kind_of_def)
  then have "saga demo_graph sw'" using st by (intro saga_commit[OF saga_start c(1)]) simp_all
  then show ?thesis using i c(2,3) by (intro exI[of _ sw']) (simp add: phase_retries_def truthy_data_def)
qed

lemma failure_is_final:
  assumes "phase_retries (fst sw) = Inr []"
  shows "\<exists>sw' b c m eff. failure env r code message False effect sw = (sw', Inr (Failed b c m False eff))"
  using assms by (simp add: failure_def retries_of_def final_failure_def Let_def)

theorem unfinished_saga_is_undone_witness:
  "\<exists>sw sw' b c m eff. saga demo_graph sw \<and> saga_items sw \<noteq> [] \<and>
    failure demo_env ex_run ''ValueError'' ''boom'' False E_none sw = (sw', Inr (Failed b c m False eff)) \<and>
    same_content (saga_graph sw') demo_graph \<and> eff = E_none \<and> same_content (saga_graph (cleanup_state demo_env sw)) demo_graph"
proof -
  obtain sw where s: "saga demo_graph sw" "saga_items sw = [compensation_item demo_mutation]" "phase_retries (fst sw) = Inr []"
    "\<not> truthy_data (fst sw) ''effect_in_flight''" using demo_saga by blast
  obtain sw' b c m eff where f: "failure demo_env ex_run ''ValueError'' ''boom'' False E_none sw = (sw', Inr (Failed b c m False eff))"
    using failure_is_final[OF s(3)] by blast
  have "same_content (saga_graph sw') demo_graph" "eff = E_none" "same_content (saga_graph (cleanup_state demo_env sw)) demo_graph"
    "saga_items sw \<noteq> []"
    using unfinished_saga_is_undone[OF s(1) demo_ok, of demo_env ex_run "''ValueError''" "''boom''" False E_none sw' b c m eff] s f
    by simp_all
  with s(1) f show ?thesis by blast
qed

theorem interrupted_compensation_resumes_witness:
  "\<exists>sw g failed g'. saga demo_graph sw \<and> compensate_items demo_env (rev (saga_items sw)) (saga_graph sw) = (g, failed) \<and>
    compensate_graph demo_env (fst sw) g = (g', None) \<and> same_content g' demo_graph"
proof -
  obtain sw where s: "saga demo_graph sw" using demo_saga by blast
  obtain g failed where c: "compensate_items demo_env (rev (saga_items sw)) (saga_graph sw) = (g, failed)" by (cases "compensate_items demo_env (rev (saga_items sw)) (saga_graph sw)")
  have "\<exists>g'. compensate_graph demo_env (fst sw) g = (g', None) \<and> same_content g' demo_graph"
    using interrupted_compensation_resumes[OF s demo_ok, of "[]" "saga_items sw" demo_env demo_env g failed] c by auto
  with s c show ?thesis by blast
qed

end
