(* ===== verification/App_Promotion.thy ===== *)
theory App_Promotion
  imports Run_Lifecycle
begin

text \<open>
  The directory of Apps while a generated App replaces a published one (\<^verbatim>\<open>backend/coding_agent_acp.py\<close>): a private copy to
  work on, the swap through two renames with a journal, the recovery of an interrupted swap when the service starts, and
  the removal of drafts nobody refers to. The root is a directory; a failing or interrupted file operation is an argument.
\<close>

section \<open>The directory\<close>

text \<open>A tree has the time of its last change and a content; a file below the root is read as JSON or is unreadable.\<close>

datatype 'a apps_entry = App_Tree pyfloat 'a | Plain_File jtext | Apps_Link

type_synonym 'a apps_dir = "(string \<times> 'a apps_entry) list"

definition tree_at :: "'a apps_dir \<Rightarrow> string \<Rightarrow> bool" where
  "tree_at d n = (case map_of d n of Some (App_Tree _ _) \<Rightarrow> True | _ \<Rightarrow> False)"

definition link_at :: "'a apps_dir \<Rightarrow> string \<Rightarrow> bool" where
  "link_at d n = (case map_of d n of Some Apps_Link \<Rightarrow> True | _ \<Rightarrow> False)"

definition write_in :: "string \<Rightarrow> 'a apps_entry \<Rightarrow> 'a apps_dir \<Rightarrow> 'a apps_dir" where
  "write_in n e d = AList.update n e d"

definition remove_in :: "string \<Rightarrow> 'a apps_dir \<Rightarrow> 'a apps_dir" where
  "remove_in n d = AList.delete n d"

definition rename_in :: "string \<Rightarrow> string \<Rightarrow> 'a apps_dir \<Rightarrow> 'a apps_dir" where
  "rename_in source target d =
     (case map_of d source of None \<Rightarrow> d | Some e \<Rightarrow> write_in target e (remove_in source d))"

text \<open>What is left of a tree when its removal stops half-way.\<close>

definition tear_in :: "('a \<Rightarrow> 'a) \<Rightarrow> string \<Rightarrow> 'a apps_dir \<Rightarrow> 'a apps_dir" where
  "tear_in torn n d = (case map_of d n of Some (App_Tree t c) \<Rightarrow> write_in n (App_Tree t (torn c)) d | _ \<Rightarrow> d)"

section \<open>Names\<close>

definition staging_name :: "string \<Rightarrow> string \<Rightarrow> string" where
  "staging_name app hex = ''.'' @ app @ ''.staging-'' @ hex"

definition backup_name :: "string \<Rightarrow> string \<Rightarrow> string" where
  "backup_name app hex = ''.'' @ app @ ''.backup-'' @ hex"

definition journal_name :: "string \<Rightarrow> string \<Rightarrow> string" where
  "journal_name app hex = ''.ambient-promotion-'' @ app @ ''-'' @ hex @ ''.json''"

definition hex32 :: "string \<Rightarrow> bool" where
  "hex32 s \<longleftrightarrow> length s = 32 \<and> list_all is_hex s"

definition backup_name_ok :: "string \<Rightarrow> string \<Rightarrow> bool" where
  "backup_name_ok app name =
     (let pre = ''.'' @ app @ ''.backup-'' in starts_with name pre \<and> hex32 (drop (length pre) name))"

definition journal_app :: "string \<Rightarrow> string option" where
  "journal_app name =
     (let app = take (length name - 57) (drop 19 name); hex = take 32 (drop 1 (drop (length app) (drop 19 name)))
      in if kebab_case app \<and> hex32 hex \<and> name = journal_name app hex then Some app else None)"

definition staging_app :: "string \<Rightarrow> string option" where
  "staging_app name =
     (let app = take (length name - 42) (drop 1 name)
      in if kebab_case app \<and> staging_name_ok app name then Some app else None)"

section \<open>A private copy\<close>

text \<open>
  \<open>unsafe\<close> is the first link below a tree. \<^verbatim>\<open>copytree\<close> keeps the time of the copied directory.
\<close>

definition prepare_staging_app ::
  "('a \<Rightarrow> string option) \<Rightarrow> 'a \<Rightarrow> pyfloat \<Rightarrow> string \<Rightarrow> string \<Rightarrow> 'a apps_dir \<Rightarrow> ('a apps_dir \<times> string) result" where
  "prepare_staging_app unsafe fresh now hex app d =
     (case validate_app_id app of
        Inl e \<Rightarrow> Inl (CodingAgentACPInputError (''invalid app_id: '' @ error_message e))
      | Inr _ \<Rightarrow>
          (case map_of d app of
             None \<Rightarrow> Inr (write_in (staging_name app hex) (App_Tree now fresh) d, staging_name app hex)
           | Some Apps_Link \<Rightarrow> Inl (CodingAgentACPInputError ''App path must not be a symbolic link or junction'')
           | Some (Plain_File _) \<Rightarrow> Inl (CodingAgentACPInputError ''App path must be a directory'')
           | Some (App_Tree t c) \<Rightarrow>
               (case unsafe c of
                  Some p \<Rightarrow> Inl (CodingAgentACPInputError (''Existing App contains an unsafe link: '' @ p))
                | None \<Rightarrow> Inr (write_in (staging_name app hex) (App_Tree t c) d, staging_name app hex))))"

section \<open>The swap\<close>

datatype swap_step = Write_Journal | Move_Live | Move_Staging | Return_Live | Remove_Backup | Remove_Journal

definition journal_payload :: "string \<Rightarrow> string \<Rightarrow> string \<Rightarrow> json" where
  "journal_payload app staging backup = JObj [(''app_id'', JStr app), (''live_name'', JStr app),
     (''staging_name'', JStr staging), (''backup_name'', JStr backup)]"

text \<open>
  \<open>broken\<close> says which operations raise \<^verbatim>\<open>OSError\<close>. A journal whose writing fails is cut. The two names are drawn from
  \<^verbatim>\<open>uuid4\<close>.
\<close>

definition promote_staging_app ::
  "(swap_step \<Rightarrow> bool) \<Rightarrow> ('a \<Rightarrow> 'a) \<Rightarrow> string \<Rightarrow> string \<Rightarrow> string \<Rightarrow> string \<Rightarrow> 'a apps_dir \<Rightarrow> 'a apps_dir \<times> (py_error + unit)" where
  "promote_staging_app broken torn app staging backup journal d =
     (let failed = (\<lambda>d'. (d', Inl (OSError ''rename'')))
      in if map_of d app = None
         then if broken Move_Staging then failed d else (rename_in staging app d, Inr ())
         else if broken Write_Journal then (write_in journal (Plain_File None) d, Inl (OSError ''write''))
         else
           let d1 = write_in journal (Plain_File (Some (journal_payload app staging backup))) d
           in if broken Move_Live then failed d1
              else
                let d2 = rename_in app backup d1
                in if broken Move_Staging
                   then failed (let d3 = (if broken Return_Live then d2 else rename_in backup app d2)
                     in if broken Remove_Journal then d3 else remove_in journal d3)
                   else
                     let d3 = rename_in staging app d2
                     in if broken Remove_Backup then (tear_in torn backup d3, Inr ())
                        else (let d4 = remove_in backup d3
                          in if broken Remove_Journal then d4 else remove_in journal d4, Inr ()))"

text \<open>The directories the swap passes through: a crash leaves one of them.\<close>

definition promotion_stages ::
  "('a \<Rightarrow> 'a) \<Rightarrow> string \<Rightarrow> string \<Rightarrow> string \<Rightarrow> string \<Rightarrow> 'a apps_dir \<Rightarrow> 'a apps_dir list" where
  "promotion_stages torn app staging backup journal d =
     (if map_of d app = None then [d, rename_in staging app d]
      else
        let d1 = write_in journal (Plain_File (Some (journal_payload app staging backup))) d;
            d2 = rename_in app backup d1; d3 = rename_in staging app d2; d4 = remove_in backup d3
        in [d, write_in journal (Plain_File None) d, d1, d2, d3, tear_in torn backup d3, d4, remove_in journal d4])"

section \<open>Recovery\<close>

text \<open>
  The names in a journal. \<open>Inr None\<close>: the journal is refused and only logged. A payload that is no object raises
  \<^verbatim>\<open>AttributeError\<close>, which nothing catches.
\<close>

definition read_journal :: "string \<Rightarrow> jtext \<Rightarrow> (string \<times> string) option result" where
  "read_journal app content =
     (case content of
        None \<Rightarrow> Inr None
      | Some (JObj p) \<Rightarrow>
          (case map_of p ''app_id'' of
             Some (JStr s) \<Rightarrow>
               (case validate_app_id s of
                  Inl _ \<Rightarrow> Inr None
                | Inr _ \<Rightarrow>
                    (let staging = str_or_empty (map_of p ''staging_name''); backup = str_or_empty (map_of p ''backup_name'')
                     in if s = app \<and> map_of p ''live_name'' = Some (JStr s) \<and> staging_name_ok s staging \<and> backup_name_ok s backup
                        then Inr (Some (staging, backup)) else Inr None))
           | _ \<Rightarrow> Inr None)
      | Some _ \<Rightarrow> Inl (AttributeError ''get''))"

datatype recovery = Restored_Previous | Finalized_New | Cleared_Unstarted

definition recovery_of :: "string \<Rightarrow> string \<Rightarrow> string \<Rightarrow> 'a apps_dir \<Rightarrow> recovery option" where
  "recovery_of app staging backup d =
     (if link_at d app \<or> link_at d staging \<or> link_at d backup then None
      else if map_of d app = None \<and> tree_at d backup then Some Restored_Previous
      else if tree_at d app \<and> tree_at d backup \<and> map_of d staging = None then Some Finalized_New
      else if tree_at d app \<and> tree_at d staging \<and> map_of d backup = None then Some Cleared_Unstarted
      else None)"

text \<open>One journal: the directories passed through, the last being the result, and the reported action.\<close>

definition journal_stages :: "('a \<Rightarrow> 'a) \<Rightarrow> string \<Rightarrow> string \<Rightarrow> string \<Rightarrow> recovery \<Rightarrow> 'a apps_dir \<Rightarrow> 'a apps_dir list" where
  "journal_stages torn journal app backup action d =
     (case action of
        Restored_Previous \<Rightarrow> [d, rename_in backup app d, remove_in journal (rename_in backup app d)]
      | Finalized_New \<Rightarrow> [d, tear_in torn backup d, remove_in backup d, remove_in journal (remove_in backup d)]
      | Cleared_Unstarted \<Rightarrow> [d, remove_in journal d])"

definition recover_journal ::
  "string list \<Rightarrow> ('a \<Rightarrow> 'a) \<Rightarrow> string \<Rightarrow> 'a apps_dir \<Rightarrow> ('a apps_dir list \<times> (string \<times> recovery) list) result" where
  "recover_journal stuck torn journal d =
     (case (journal_app journal, map_of d journal) of
        (Some app, Some (Plain_File content)) \<Rightarrow>
          (case read_journal app content of
             Inl e \<Rightarrow> Inl e
           | Inr None \<Rightarrow> Inr ([d], [])
           | Inr (Some (staging, backup)) \<Rightarrow>
               (case recovery_of app staging backup d of
                  None \<Rightarrow> Inr ([d], [])
                | Some action \<Rightarrow>
                    if action = Finalized_New \<and> backup \<in> set stuck then Inr ([d, tear_in torn backup d], [])
                    else Inr (journal_stages torn journal app backup action d, [(app, action)])))
      | _ \<Rightarrow> Inr ([d], []))"

fun recover_loop ::
  "string list \<Rightarrow> ('a \<Rightarrow> 'a) \<Rightarrow> string list \<Rightarrow> 'a apps_dir \<Rightarrow> 'a apps_dir list \<times> (py_error + (string \<times> recovery) list)" where
  "recover_loop stuck torn [] d = ([d], Inr [])"
| "recover_loop stuck torn (n # ns) d =
     (case recover_journal stuck torn n d of
        Inl e \<Rightarrow> ([d], Inl e)
      | Inr (ds, rs) \<Rightarrow>
          (case recover_loop stuck torn ns (last ds) of (ds', out) \<Rightarrow> (ds @ ds', map_sum id (\<lambda>rs'. rs @ rs') out)))"

text \<open>\<^verbatim>\<open>root.iterdir()\<close> lists the names first.\<close>

definition recovery_run ::
  "string list \<Rightarrow> ('a \<Rightarrow> 'a) \<Rightarrow> 'a apps_dir \<Rightarrow> 'a apps_dir list \<times> (py_error + (string \<times> recovery) list)" where
  "recovery_run stuck torn d = recover_loop stuck torn (map fst d) d"

definition recover_interrupted_promotions ::
  "string list \<Rightarrow> ('a \<Rightarrow> 'a) \<Rightarrow> 'a apps_dir \<Rightarrow> 'a apps_dir \<times> (py_error + (string \<times> recovery) list)" where
  "recover_interrupted_promotions stuck torn d = (case recovery_run stuck torn d of (ds, out) \<Rightarrow> (last ds, out))"

section \<open>Orphans\<close>

definition referenced_names :: "string \<Rightarrow> string list \<Rightarrow> string list" where
  "referenced_names apps_root paths = map path_name (filter (\<lambda>p. path_parent p = apps_root) (map mk_path paths))"

definition orphan_entry :: "string list \<Rightarrow> pyfloat \<Rightarrow> pyfloat \<Rightarrow> string \<times> 'a apps_entry \<Rightarrow> bool" where
  "orphan_entry referenced grace now kv =
     (case (staging_app (fst kv), snd kv) of
        (Some app, App_Tree t _) \<Rightarrow>
          fst kv \<notin> set referenced \<and> (case validate_app_id app of Inl _ \<Rightarrow> False | Inr _ \<Rightarrow> grace \<le> now - t)
      | _ \<Rightarrow> False)"

definition cleanup_orphaned_staging ::
  "string list \<Rightarrow> string \<Rightarrow> string list \<Rightarrow> pyfloat \<Rightarrow> pyfloat \<Rightarrow> 'a apps_dir \<Rightarrow> ('a apps_dir \<times> string list) result" where
  "cleanup_orphaned_staging stuck apps_root paths grace now d =
     (if grace < 0 then Inl (ValueError ''grace_seconds must be a finite non-negative number'')
      else
        let gone = (\<lambda>kv. orphan_entry (referenced_names apps_root paths) grace now kv \<and> fst kv \<notin> set stuck)
        in Inr (filter (\<lambda>kv. \<not> gone kv) d, map fst (filter gone d)))"

text \<open>
  The start of the service (\<^verbatim>\<open>lifespan\<close> in \<^verbatim>\<open>main.py\<close>): the recovery, where \<^verbatim>\<open>OSError\<close> and \<^verbatim>\<open>ValueError\<close> are ignored and
  any other exception ends the start, then the removal of orphans, unless the drafts of the runs cannot be read.
\<close>

definition ignored :: "py_error \<Rightarrow> bool" where
  "ignored e = (case e of OSError _ \<Rightarrow> True | ValueError _ \<Rightarrow> True | _ \<Rightarrow> False)"

definition start_apps ::
  "string list \<Rightarrow> ('a \<Rightarrow> 'a) \<Rightarrow> store \<Rightarrow> int \<Rightarrow> string \<Rightarrow> pyfloat \<Rightarrow> pyfloat \<Rightarrow> 'a apps_dir \<Rightarrow> 'a apps_dir \<times> (py_error + unit)" where
  "start_apps stuck torn s retention apps_root grace now d =
     (let (d', out) = recover_interrupted_promotions stuck torn d;
          clean = (case retained_staging_paths s retention of
              Inl e \<Rightarrow> (d', if ignored e then Inr () else Inl e)
            | Inr paths \<Rightarrow>
                (case cleanup_orphaned_staging stuck apps_root paths grace now d' of
                   Inl e \<Rightarrow> (d', if ignored e then Inr () else Inl e)
                 | Inr (d'', _) \<Rightarrow> (d'', Inr ())))
      in case out of Inl e \<Rightarrow> (if ignored e then clean else (d', Inl e)) | Inr _ \<Rightarrow> clean)"

end
