(* ===== verification/Promotion_Laws.thy ===== *)
theory Promotion_Laws
  imports App_Promotion App_Manager_Laws
begin

text \<open>
  A swap of a published App survives crashes: whatever the point where it stops, and however often the recovery is itself
  interrupted, a complete recovery leaves the old App with its draft or the new App, and nothing else changed. The
  inductive \<open>crashed\<close> has the directories that can be left.
\<close>

section \<open>The directory as a map\<close>

declare map_of_eq_Some_iff [simp del] Some_eq_map_of_iff [simp del]

lemma map_of_dir [simp]:
  "map_of (write_in n e d) = (map_of d)(n \<mapsto> e)"
  "map_of (remove_in n d) = (map_of d)(n := None)"
  "map_of (rename_in source target d) = (case map_of d source of None \<Rightarrow> map_of d | Some e \<Rightarrow> (map_of d)(source := None, target \<mapsto> e))"
  "map_of (tear_in torn n d) = (case map_of d n of Some (App_Tree t c) \<Rightarrow> (map_of d)(n \<mapsto> App_Tree t (torn c)) | _ \<Rightarrow> map_of d)"
  by (auto simp: write_in_def remove_in_def rename_in_def tear_in_def update_conv' delete_conv' fun_eq_iff split: option.split apps_entry.split)

abbreviation proper :: "'a apps_dir \<Rightarrow> bool" where
  "proper d \<equiv> distinct (map fst d)"

lemma proper_dir [simp]:
  assumes "proper d"
  shows "proper (write_in n e d)" "proper (remove_in n d)" "proper (rename_in source target d)" "proper (tear_in torn n d)"
  using assms by (auto simp: write_in_def remove_in_def rename_in_def tear_in_def distinct_update distinct_delete split: option.split apps_entry.split)

lemma tree_at_iff: "tree_at d n \<longleftrightarrow> (\<exists>t c. map_of d n = Some (App_Tree t c))"
  by (auto simp: tree_at_def split: option.splits apps_entry.splits)

lemma link_at_iff: "link_at d n \<longleftrightarrow> map_of d n = Some Apps_Link"
  by (auto simp: link_at_def split: option.splits apps_entry.splits)

section \<open>Names\<close>

lemma hex_last: "hex32 h \<Longrightarrow> last (xs @ h) \<noteq> CHR ''n''"
  by (cases h rule: rev_cases) (auto simp: hex32_def is_hex_def is_digit_def char_between_def)

lemma journal_app_last: "journal_app n = Some app \<Longrightarrow> last n = CHR ''n''"
  unfolding journal_app_def Let_def by (auto simp: journal_name_def split: if_splits dest!: arg_cong[of n _ last])

lemma journal_app_name [simp]: "kebab_case app \<Longrightarrow> hex32 h \<Longrightarrow> journal_app (journal_name app h) = Some app"
  by (simp add: journal_app_def journal_name_def hex32_def)

lemma backup_name_facts:
  assumes "hex32 h"
  shows "backup_name_ok app (backup_name app h)" "journal_app (backup_name app h) = None"
proof -
  show "backup_name_ok app (backup_name app h)"
    using assms starts_with_append[of "''.'' @ app @ ''.backup-''" h] by (simp add: backup_name_ok_def backup_name_def)
  show "journal_app (backup_name app h) = None"
    using journal_app_last[of "backup_name app h"] hex_last[OF assms, of "''.'' @ app @ ''.backup-''"]
    by (cases "journal_app (backup_name app h)") (auto simp: backup_name_def)
qed

lemma names_apart:
  assumes "kebab_case app"
  shows "app \<noteq> ''.'' @ s" "staging_name app h \<noteq> backup_name app h'"
proof -
  show "app \<noteq> ''.'' @ s" using kebab_no_dot[OF assms] by auto
qed (simp add: staging_name_def backup_name_def)

section \<open>What a crash can leave\<close>

text \<open>A root that is ready for a swap: the draft stands, nothing is in the way and no earlier journal is left.\<close>

definition ready :: "'a apps_dir \<Rightarrow> string \<Rightarrow> string \<Rightarrow> string \<Rightarrow> string \<Rightarrow> bool" where
  "ready d app h0 h1 h2 \<longleftrightarrow> proper d \<and> validate_app_id app = Inr app \<and> hex32 h0 \<and> hex32 h1 \<and> hex32 h2 \<and>
     tree_at d (staging_name app h0) \<and> (map_of d app = None \<or> tree_at d app) \<and> map_of d (backup_name app h1) = None \<and>
     (\<forall>n \<in> fst ` set d. journal_app n = None)"

inductive crashed :: "'a apps_dir \<Rightarrow> string \<Rightarrow> string \<Rightarrow> string \<Rightarrow> string \<Rightarrow> 'a apps_dir \<Rightarrow> bool" for d app h0 h1 h2 where
  Swap: "d' \<in> set (promotion_stages torn app (staging_name app h0) (backup_name app h1) (journal_name app h2) d) \<Longrightarrow>
    crashed d app h0 h1 h2 d'"
| Recovery: "crashed d app h0 h1 h2 d' \<Longrightarrow> d'' \<in> set (fst (recovery_run stuck torn d')) \<Longrightarrow> crashed d app h0 h1 h2 d''"

text \<open>
  What stands at the names involved (App, draft, backup, journal): all as before, with a cut or complete journal; the old
  App set aside; the new App in place, with or without the backup and the journal.
\<close>

definition swap_state ::
  "'a apps_entry option \<Rightarrow> 'a apps_entry option \<Rightarrow> json \<Rightarrow> 'a apps_entry option \<Rightarrow> 'a apps_entry option \<Rightarrow>
   'a apps_entry option \<Rightarrow> 'a apps_entry option \<Rightarrow> bool" where
  "swap_state old draft p a s b j \<longleftrightarrow>
     a = old \<and> s = draft \<and> b = None \<and> j \<in> {None, Some (Plain_File None), Some (Plain_File (Some p))} \<or>
     a = None \<and> s = draft \<and> b = old \<and> j = Some (Plain_File (Some p)) \<or>
     a = draft \<and> s = None \<and> (\<exists>t c. b = Some (App_Tree t c)) \<and> j = Some (Plain_File (Some p)) \<or>
     a = draft \<and> s = None \<and> b = None \<and> j \<in> {None, Some (Plain_File (Some p))}"

definition swapping :: "'a apps_dir \<Rightarrow> string \<Rightarrow> string \<Rightarrow> string \<Rightarrow> string \<Rightarrow> 'a apps_dir \<Rightarrow> bool" where
  "swapping d app s b j d' \<longleftrightarrow> proper d' \<and>
     swap_state (map_of d app) (map_of d s) (journal_payload app s b) (map_of d' app) (map_of d' s) (map_of d' b) (map_of d' j) \<and>
     (\<forall>n. n \<notin> {app, s, b, j} \<longrightarrow> map_of d' n = map_of d n)"

text \<open>The two outcomes.\<close>

definition swap_over :: "'a apps_dir \<Rightarrow> string \<Rightarrow> string \<Rightarrow> string \<Rightarrow> 'a apps_dir \<Rightarrow> bool" where
  "swap_over d app s b d' \<longleftrightarrow> map_of d' b = None \<and>
     (map_of d' app = map_of d app \<and> map_of d' s = map_of d s \<or> map_of d' app = map_of d s \<and> map_of d' s = None)"

lemma readyE:
  assumes "ready d app h0 h1 h2"
  defines "s \<equiv> staging_name app h0" and "b \<equiv> backup_name app h1" and "j \<equiv> journal_name app h2"
  obtains t c where "map_of d s = Some (App_Tree t c)" "map_of d b = None" "map_of d j = None" "proper d"
    "app \<noteq> s" "app \<noteq> b" "app \<noteq> j" "s \<noteq> b" "s \<noteq> j" "b \<noteq> j" "journal_app j = Some app" "journal_app b = None"
    "map_of d app = None \<or> (\<exists>t c. map_of d app = Some (App_Tree t c))"
    "read_journal app (Some (journal_payload app s b)) = Inr (Some (s, b))"
proof -
  have k: "kebab_case app" using assms(1) by (auto simp: ready_def validate_app_id_def split: if_splits)
  have j: "journal_app j = Some app" using k assms(1) by (simp add: j_def ready_def)
  have b: "journal_app b = None" "backup_name_ok app b" using backup_name_facts assms(1) by (auto simp: b_def ready_def)
  have keys: "map_of d n \<noteq> None \<Longrightarrow> journal_app n = None" for n
    using assms(1) by (auto simp: ready_def dest!: map_of_SomeD)
  obtain t c where s: "map_of d s = Some (App_Tree t c)" using assms(1) by (auto simp: ready_def tree_at_iff s_def)
  have dots: "app \<noteq> s" "app \<noteq> b" "app \<noteq> j" "s \<noteq> b"
    using names_apart[OF k] by (auto simp: s_def b_def j_def staging_name_def backup_name_def journal_name_def)
  have "staging_name_ok app s"
    using assms(1) starts_with_append[of "''.'' @ app @ ''.staging-''" h0]
    by (simp add: s_def staging_name_ok_def staging_name_def ready_def hex32_def)
  then have r: "read_journal app (Some (journal_payload app s b)) = Inr (Some (s, b))"
    using assms(1) b(2) by (simp add: read_journal_def journal_payload_def ready_def)
  have jn: "map_of d j = None" using keys[of j] j by fastforce
  have apart: "s \<noteq> j" "b \<noteq> j" using s jn b(1) j by auto
  have old: "map_of d b = None" "proper d" "map_of d app = None \<or> (\<exists>t c. map_of d app = Some (App_Tree t c))"
    using assms(1) by (auto simp: ready_def tree_at_iff b_def)
  show thesis by (rule that[OF s old(1) jn old(2) dots apart j b(1) old(3) r])
qed

lemma promotion_stages_swapping:
  assumes "ready d app h0 h1 h2"
  defines "s \<equiv> staging_name app h0" and "b \<equiv> backup_name app h1" and "j \<equiv> journal_name app h2"
  assumes "d' \<in> set (promotion_stages torn app s b j d)"
  shows "swapping d app s b j d'"
proof -
  from assms(1) obtain t c where r: "map_of d s = Some (App_Tree t c)" "map_of d b = None" "map_of d j = None" "proper d"
    "app \<noteq> s" "app \<noteq> b" "app \<noteq> j" "s \<noteq> b" "s \<noteq> j" "b \<noteq> j"
    and old: "map_of d app = None \<or> (\<exists>t c. map_of d app = Some (App_Tree t c))"
    unfolding s_def b_def j_def by (rule readyE)
  note ne = r(5-10) r(5-10)[symmetric]
  show ?thesis
  proof (cases "map_of d app")
    case None
    then show ?thesis using assms(5) r(1-4) ne by (auto simp: promotion_stages_def swapping_def swap_state_def)
  next
    case (Some e)
    then obtain t' c' where e: "map_of d app = Some (App_Tree t' c')" using old by auto
    with assms(5) r(4) have "proper d'" by (auto simp: promotion_stages_def Let_def)
    with assms(5) e r(1-4) ne show ?thesis
      by (simp add: promotion_stages_def Let_def swapping_def swap_state_def) (elim disjE; simp)
  qed
qed

section \<open>The recovery of one journal and of all\<close>

lemma recover_other: "journal_app n = None \<Longrightarrow> recover_journal stuck torn n d = Inr ([d], [])"
  by (simp add: recover_journal_def)

lemma recover_swapping:
  assumes "ready d app h0 h1 h2"
  defines "s \<equiv> staging_name app h0" and "b \<equiv> backup_name app h1" and "j \<equiv> journal_name app h2"
  assumes "swapping d app s b j d'"
  shows "\<exists>ds rs. recover_journal stuck torn j d' = Inr (ds, rs) \<and> ds \<noteq> [] \<and> (\<forall>x \<in> set ds. swapping d app s b j x) \<and>
    (stuck = [] \<longrightarrow> swap_over d app s b (last ds))"
proof -
  from assms(1) obtain t c where r: "map_of d s = Some (App_Tree t c)" "map_of d b = None" "map_of d j = None"
    "app \<noteq> s" "app \<noteq> b" "app \<noteq> j" "s \<noteq> b" "s \<noteq> j" "b \<noteq> j" "journal_app j = Some app"
    and old: "map_of d app = None \<or> (\<exists>t c. map_of d app = Some (App_Tree t c))"
    and read: "read_journal app (Some (journal_payload app s b)) = Inr (Some (s, b))"
    unfolding s_def b_def j_def by (rule readyE)
  note ne = r(4-9) r(4-9)[symmetric]
  have p: "proper d'" and rest: "\<forall>n. n \<notin> {app, s, b, j} \<longrightarrow> map_of d' n = map_of d n"
    and st: "swap_state (map_of d app) (map_of d s) (journal_payload app s b) (map_of d' app) (map_of d' s) (map_of d' b) (map_of d' j)"
    using assms(5) by (simp_all add: swapping_def)
  note sw = swapping_def swap_state_def swap_over_def
  show ?thesis
  proof (cases "map_of d' j = Some (Plain_File (Some (journal_payload app s b)))")
    case False
    then have "recover_journal stuck torn j d' = Inr ([d'], [])" "swap_over d app s b d'"
      using st r(10) by (auto simp: recover_journal_def swap_state_def swap_over_def read_journal_def)
    then show ?thesis using assms(5) by simp
  next
    case j: True
    have rec: "recover_journal stuck torn j d' =
      (case recovery_of app s b d' of None \<Rightarrow> Inr ([d'], []) | Some action \<Rightarrow>
         if action = Finalized_New \<and> b \<in> set stuck then Inr ([d', tear_in torn b d'], [])
         else Inr (journal_stages torn j app b action d', [(app, action)]))"
      using j r(10) read by (simp add: recover_journal_def)
    consider "map_of d' app = None" "map_of d app = None" "map_of d' s = map_of d s" "map_of d' b = None"
      | t' c' where "map_of d' app = map_of d app" "map_of d app = Some (App_Tree t' c')" "map_of d' s = map_of d s" "map_of d' b = None"
      | t' c' where "map_of d' app = None" "map_of d' s = map_of d s" "map_of d' b = map_of d app" "map_of d app = Some (App_Tree t' c')"
      | t' c' where "map_of d' app = map_of d s" "map_of d' s = None" "map_of d' b = Some (App_Tree t' c')"
      | "map_of d' app = map_of d s" "map_of d' s = None" "map_of d' b = None"
      using st old unfolding swap_state_def by (elim disjE conjE exE) simp_all
    then show ?thesis
    proof cases
      case 1
      then have "recovery_of app s b d' = None" by (simp add: recovery_of_def tree_at_iff)
      then show ?thesis using 1 assms(5) by (simp add: rec swap_over_def)
    next
      case 2
      then have "recovery_of app s b d' = Some Cleared_Unstarted" using r(1) by (simp add: recovery_of_def tree_at_iff link_at_iff)
      then show ?thesis using 2 assms(5) p rest r(1) ne by (simp add: rec journal_stages_def sw)
    next
      case 3
      then have "recovery_of app s b d' = Some Restored_Previous" using r(1) by (simp add: recovery_of_def tree_at_iff link_at_iff)
      then show ?thesis using 3 j assms(5) p rest r(1) ne by (simp add: rec journal_stages_def sw)
    next
      case 4
      then have "recovery_of app s b d' = Some Finalized_New" using r(1) by (simp add: recovery_of_def tree_at_iff link_at_iff)
      then show ?thesis using 4 j assms(5) p rest r(1) ne by (simp add: rec journal_stages_def sw) (cases stuck; simp)
    next
      case 5
      then have "recovery_of app s b d' = None" using r(1) by (simp add: recovery_of_def tree_at_iff)
      then show ?thesis using 5 assms(5) by (simp add: rec swap_over_def)
    qed
  qed
qed

lemma recover_loop_other:
  assumes "\<forall>n \<in> set ns. journal_app n = None"
  shows "\<exists>ds. recover_loop stuck torn ns d = (ds, Inr []) \<and> set ds = {d} \<and> last ds = d"
  using assms
proof (induction ns)
  case (Cons n ns)
  then obtain ds where ds: "recover_loop stuck torn ns d = (ds, Inr [])" "set ds = {d}" "last ds = d" by auto
  moreover from this have "recover_loop stuck torn (n # ns) d = (d # ds, Inr [])" using Cons.prems by (simp add: recover_other)
  ultimately show ?case by simp
qed simp

lemma recover_loop_journal:
  assumes "distinct ns" "j \<in> set ns" "\<forall>n \<in> set ns. n \<noteq> j \<longrightarrow> journal_app n = None"
    and "recover_journal stuck torn j d = Inr (ds, rs)" "ds \<noteq> []"
  shows "\<exists>ds'. recover_loop stuck torn ns d = (ds', Inr rs) \<and> set ds' \<subseteq> insert d (set ds) \<and> ds' \<noteq> [] \<and> last ds' = last ds"
  using assms(1-3)
proof (induction ns)
  case (Cons n ns)
  show ?case
  proof (cases "n = j")
    case True
    with Cons.prems have "\<forall>n \<in> set ns. journal_app n = None" by auto
    from recover_loop_other[OF this, of stuck torn "last ds"] obtain es where
      es: "recover_loop stuck torn ns (last ds) = (es, Inr [])" "set es = {last ds}" "last es = last ds" by blast
    have "es \<noteq> []" using es(2) by force
    moreover have "last ds \<in> set ds" using assms(5) by simp
    ultimately show ?thesis using es assms(4) True by (intro exI[of _ "ds @ es"]) (simp add: subset_insertI)
  next
    case False
    with Cons obtain ds' where ds': "recover_loop stuck torn ns d = (ds', Inr rs)" "set ds' \<subseteq> insert d (set ds)" "ds' \<noteq> []" "last ds' = last ds"
      by auto
    moreover from this have "recover_loop stuck torn (n # ns) d = (d # ds', Inr rs)" using False Cons.prems(3) by (simp add: recover_other)
    ultimately show ?thesis by auto
  qed
qed simp

lemma kebab_no_journal: "kebab_case n \<Longrightarrow> journal_app n = None"
  using kebab_no_dot[of n] unfolding journal_app_def Let_def by (auto simp: journal_name_def) (metis list.set_intros(1))

lemma swapping_keys:
  assumes "ready d app h0 h1 h2"
  defines "s \<equiv> staging_name app h0" and "b \<equiv> backup_name app h1" and "j \<equiv> journal_name app h2"
  assumes "swapping d app s b j d'" "n \<in> set (map fst d')" "n \<noteq> j"
  shows "journal_app n = None"
proof -
  have b: "journal_app b = None" using assms(1) unfolding b_def by (rule readyE)
  obtain t c where "map_of d s = Some (App_Tree t c)" using assms(1) unfolding s_def by (rule readyE)
  then have s: "map_of d s \<noteq> None" by simp
  have app: "journal_app app = None" using assms(1) by (intro kebab_no_journal) (auto simp: ready_def validate_app_id_def split: if_splits)
  have keys: "journal_app x = None" if "map_of d x \<noteq> None" for x
    using that assms(1) by (auto simp: ready_def map_of_eq_None_iff)
  have "map_of d' n \<noteq> None" using assms(6) by (simp add: map_of_eq_None_iff)
  then have "n \<in> {app, s, b} \<or> map_of d n \<noteq> None" using assms(5,7) unfolding swapping_def by (metis insertE insertCI singletonD)
  then show ?thesis using app b keys[OF s] keys[of n] by blast
qed

lemma recovery_run_swapping:
  assumes "ready d app h0 h1 h2"
  defines "s \<equiv> staging_name app h0" and "b \<equiv> backup_name app h1" and "j \<equiv> journal_name app h2"
  assumes "swapping d app s b j d'"
  shows "\<exists>ds rs. recovery_run stuck torn d' = (ds, Inr rs) \<and> ds \<noteq> [] \<and> (\<forall>x \<in> set ds. swapping d app s b j x) \<and>
    (stuck = [] \<longrightarrow> swap_over d app s b (last ds))"
proof (cases "j \<in> set (map fst d')")
  case True
  have d': "distinct (map fst d')" using assms(5) by (simp add: swapping_def)
  have others: "\<forall>n \<in> set (map fst d'). n \<noteq> j \<longrightarrow> journal_app n = None"
    using swapping_keys[OF assms(1)] assms(5) unfolding s_def b_def j_def by blast
  from recover_swapping[OF assms(1), folded s_def b_def j_def, OF assms(5), of stuck torn] obtain ds rs where
    r: "recover_journal stuck torn j d' = Inr (ds, rs)" "ds \<noteq> []" "\<forall>x \<in> set ds. swapping d app s b j x"
      "stuck = [] \<longrightarrow> swap_over d app s b (last ds)" by blast
  from recover_loop_journal[OF d' True others r(1,2)] obtain ds' where
    ds': "recover_loop stuck torn (map fst d') d' = (ds', Inr rs)" "set ds' \<subseteq> insert d' (set ds)" "ds' \<noteq> []" "last ds' = last ds" by blast
  then show ?thesis using r(3,4) assms(5) by (intro exI[of _ ds'] exI[of _ rs]) (auto simp: recovery_run_def)
next
  case False
  then have n: "\<forall>n \<in> set (map fst d'). journal_app n = None"
    using swapping_keys[OF assms(1)] assms(5) unfolding s_def b_def j_def by blast
  from recover_loop_other[OF n, of stuck torn d'] obtain ds where
    ds: "recover_loop stuck torn (map fst d') d' = (ds, Inr [])" "set ds = {d'}" "last ds = d'" by blast
  have "map_of d' j = None" using False by (simp add: map_of_eq_None_iff)
  then have "swap_over d app s b d'" using assms(5) by (auto simp: swapping_def swap_state_def swap_over_def)
  moreover have "ds \<noteq> []" using ds(2) by force
  ultimately show ?thesis using ds assms(5) by (intro exI[of _ ds] exI[of _ "[]"]) (simp add: recovery_run_def)
qed

lemma crashed_swapping:
  assumes "crashed d app h0 h1 h2 d'" "ready d app h0 h1 h2"
  shows "swapping d app (staging_name app h0) (backup_name app h1) (journal_name app h2) d'"
  using assms(1)
proof induction
  case (Swap d' torn)
  then show ?case by (rule promotion_stages_swapping[OF assms(2)])
next
  case (Recovery d' d'' stuck torn)
  from recovery_run_swapping[OF assms(2) Recovery(3), of stuck torn] Recovery(2) show ?case by auto
qed

text \<open>
  Property C22 (promotion): A published App survives the swap that replaces it. Take a directory ready for the swap (the
  draft stands beside the App and no journal of an earlier swap is left) and stop the swap after any of its file operations,
  even within the writing of the journal or the removal of the backup; then interrupt the recovery at any point, as often as
  one likes. A complete recovery then succeeds and leaves either the old App and the draft, or the draft in the place of the
  App; no backup remains, and no other name but the journal's has changed.
\<close>

theorem swap_survives_crashes:
  assumes "ready d app h0 h1 h2" "crashed d app h0 h1 h2 d'"
  shows "\<exists>d'' actions. recover_interrupted_promotions [] torn d' = (d'', Inr actions) \<and> map_of d'' (backup_name app h1) = None \<and>
    (map_of d'' app = map_of d app \<and> map_of d'' (staging_name app h0) = map_of d (staging_name app h0) \<or>
     map_of d'' app = map_of d (staging_name app h0) \<and> map_of d'' (staging_name app h0) = None) \<and>
    (\<forall>n. n \<notin> {app, staging_name app h0, backup_name app h1, journal_name app h2} \<longrightarrow> map_of d'' n = map_of d n)"
proof -
  from recovery_run_swapping[OF assms(1) crashed_swapping[OF assms(2,1)], of "[]" torn] obtain ds rs where
    r: "recovery_run [] torn d' = (ds, Inr rs)" "ds \<noteq> []"
      "\<forall>x \<in> set ds. swapping d app (staging_name app h0) (backup_name app h1) (journal_name app h2) x"
      "swap_over d app (staging_name app h0) (backup_name app h1) (last ds)" by blast
  then have "swapping d app (staging_name app h0) (backup_name app h1) (journal_name app h2) (last ds)" by simp
  with r show ?thesis
    by (intro exI[of _ "last ds"] exI[of _ rs]) (simp add: recover_interrupted_promotions_def swap_over_def swapping_def)
qed

definition zeros :: string where
  "zeros = replicate 32 (CHR ''0'')"

definition demo_root :: "nat apps_dir" where
  "demo_root = [(''todo'', App_Tree 0 4), (staging_name ''todo'' zeros, App_Tree 5 2), (''notes'', App_Tree 3 7)]"

text \<open>A crash between the two renames: the App is set aside, the draft has not moved.\<close>

definition demo_half :: "nat apps_dir" where
  "demo_half = promotion_stages id ''todo'' (staging_name ''todo'' zeros) (backup_name ''todo'' zeros) (journal_name ''todo'' zeros) demo_root ! 3"

lemma demo_ready: "ready demo_root ''todo'' zeros zeros zeros"
proof -
  have h: "hex32 zeros" "kebab_case ''todo''" "kebab_case ''notes''" "validate_app_id ''todo'' = Inr ''todo''" by code_simp+
  have "journal_app (staging_name ''todo'' zeros) = None" by code_simp
  with h kebab_no_journal[OF h(2)] kebab_no_journal[OF h(3)] show ?thesis
    by (simp add: ready_def demo_root_def tree_at_def staging_name_def backup_name_def)
qed

lemma demo_crashed: "crashed demo_root ''todo'' zeros zeros zeros demo_half" "map_of demo_half ''todo'' = None"
proof -
  have "map_of demo_root ''todo'' \<noteq> None" by (simp add: demo_root_def)
  then have "demo_half \<in> set (promotion_stages id ''todo'' (staging_name ''todo'' zeros) (backup_name ''todo'' zeros) (journal_name ''todo'' zeros) demo_root)"
    unfolding demo_half_def by (intro nth_mem) (auto simp: promotion_stages_def Let_def)
  then show "crashed demo_root ''todo'' zeros zeros zeros demo_half" by (rule Swap)
  show "map_of demo_half ''todo'' = None" by code_simp
qed

theorem swap_survives_crashes_witness:
  "map_of demo_half ''todo'' = None \<and> (\<exists>d'' actions. recover_interrupted_promotions [] id demo_half = (d'', Inr actions) \<and>
     map_of d'' ''todo'' \<in> {Some (App_Tree 0 4), Some (App_Tree 5 2)} \<and> map_of d'' ''notes'' = Some (App_Tree 3 7))"
proof -
  have n: "''notes'' \<notin> {''todo'', staging_name ''todo'' zeros, backup_name ''todo'' zeros, journal_name ''todo'' zeros}"
    by (simp add: staging_name_def backup_name_def journal_name_def)
  have m: "map_of demo_root ''todo'' = Some (App_Tree 0 4)" "map_of demo_root (staging_name ''todo'' zeros) = Some (App_Tree 5 2)"
    "map_of demo_root ''notes'' = Some (App_Tree 3 7)"
    by (simp_all add: demo_root_def staging_name_def)
  from swap_survives_crashes[OF demo_ready demo_crashed(1), of id] obtain d'' actions where
    r: "recover_interrupted_promotions [] id demo_half = (d'', Inr actions)" "map_of d'' ''todo'' \<in> {Some (App_Tree 0 4), Some (App_Tree 5 2)}"
      "map_of d'' ''notes'' = Some (App_Tree 3 7)"
    using n m by auto
  then show ?thesis by (intro conjI exI[of _ d''] exI[of _ actions] demo_crashed(2)) simp_all
qed

section \<open>Swaps that fail without a crash\<close>

text \<open>Without failing operations the swap passes through all its stages.\<close>

lemma promotion_succeeds:
  "promote_staging_app (\<lambda>_. False) torn app staging backup journal d = (last (promotion_stages torn app staging backup journal d), Inr ())"
  by (simp add: promote_staging_app_def promotion_stages_def Let_def)

text \<open>
  When the second rename fails and moving the old App back fails too, the journal is removed all the same: the App is gone
  from its place and the recovery has nothing to go by.
\<close>

lemma failed_move_back_loses_app:
  fixes torn :: "'a \<Rightarrow> 'a"
  assumes "ready d app h0 h1 h2" "map_of d app = Some e" "broken Move_Staging" "broken Return_Live"
    "\<not> broken Write_Journal" "\<not> broken Move_Live" "\<not> broken Remove_Journal"
  defines "res \<equiv> promote_staging_app broken torn app (staging_name app h0) (backup_name app h1) (journal_name app h2) d"
  shows "map_of (fst res) app = None \<and> map_of (fst res) (backup_name app h1) = Some e \<and>
    recover_interrupted_promotions stuck torn (fst res) = (fst res, Inr [])"
proof -
  let ?b = "backup_name app h1" and ?j = "journal_name app h2"
  obtain t c where r: "map_of d ?j = None" "app \<noteq> ?b" "app \<noteq> ?j" "?b \<noteq> ?j" "journal_app ?b = None"
    using assms(1) by (rule readyE)
  have m: "map_of (fst res) = (map_of d)(app := None, ?b \<mapsto> e)"
    using assms(2-7) r unfolding res_def by (auto simp: promote_staging_app_def Let_def fun_eq_iff)
  have "journal_app n = None" if "n \<in> set (map fst (fst res))" for n
  proof -
    from that have "map_of (fst res) n \<noteq> None" by (simp add: map_of_eq_None_iff)
    then have "n = ?b \<or> map_of d n \<noteq> None" unfolding m by (auto split: if_splits)
    then show ?thesis using assms(1) r(5) by (auto simp: ready_def map_of_eq_None_iff)
  qed
  then obtain ds where "recover_loop stuck torn (map fst (fst res)) (fst res) = (ds, Inr [])" "last ds = fst res"
    using recover_loop_other by metis
  then show ?thesis using m r(2) by (simp add: recover_interrupted_promotions_def recovery_run_def)
qed

text \<open>A journal that holds a JSON list stops the start of the service.\<close>

lemma list_journal_stops_start:
  "start_apps [] id s 0 ''/apps'' 0 0 [(journal_name ''todo'' zeros, Plain_File (Some (JArr [])) :: nat apps_entry)] =
     ([(journal_name ''todo'' zeros, Plain_File (Some (JArr [])))], Inl (AttributeError ''get''))"
proof -
  have "journal_app (journal_name ''todo'' zeros) = Some ''todo''" by (rule journal_app_name; code_simp)
  then show ?thesis
    by (simp add: start_apps_def recover_interrupted_promotions_def recovery_run_def recover_journal_def read_journal_def ignored_def Let_def)
qed

section \<open>The removal of orphans\<close>

text \<open>It removes old drafts only, and none a run refers to; every other entry stays as it is.\<close>

lemma orphan_entryD:
  "orphan_entry referenced grace now (n, e) \<Longrightarrow>
     n \<notin> set referenced \<and> (\<exists>app t c. staging_app n = Some app \<and> e = App_Tree t c \<and> grace \<le> now - t)"
  by (auto simp: orphan_entry_def split: option.splits apps_entry.splits sum.splits)

lemma cleanup_removes_orphans_only:
  assumes "cleanup_orphaned_staging stuck apps_root paths grace now d = Inr (d', gone)" "(n, e) \<in> set d"
  shows "(n, e) \<in> set d' \<or> n \<in> set gone \<and> n \<notin> set (referenced_names apps_root paths) \<and> n \<notin> set stuck \<and>
    (\<exists>app t c. staging_app n = Some app \<and> e = App_Tree t c \<and> grace \<le> now - t)"
proof (cases "orphan_entry (referenced_names apps_root paths) grace now (n, e) \<and> n \<notin> set stuck")
  case True
  then have "n \<in> set gone" using assms by (force simp: cleanup_orphaned_staging_def Let_def split: if_splits)
  with True show ?thesis using orphan_entryD[of "referenced_names apps_root paths" grace now n e] by blast
next
  case False
  then show ?thesis using assms by (auto simp: cleanup_orphaned_staging_def Let_def split: if_splits)
qed

end
