(* ===== verification/Graph_Subscriptions.thy ===== *)
theory Graph_Subscriptions
  imports Graph_Query Capability_Policy
begin

text \<open>
  Live queries (\<^verbatim>\<open>graph_subscription.py\<close>): a client registers a query under an id and is sent the answer again when a
  change of the graph changes it; the subscription of an App ends when its grants no longer cover the query. A client is
  named by a text; what is sent to it is a list of notices, in the order of sending.
\<close>

definition MAX_SUBSCRIPTIONS_PER_TARGET :: nat where
  "MAX_SUBSCRIPTIONS_PER_TARGET = 32"

definition MAX_SUBSCRIPTION_ID_LENGTH :: nat where
  "MAX_SUBSCRIPTION_ID_LENGTH = 200"

section \<open>The manager\<close>

record subscription =
  su_query :: json
  su_app :: "string option"
  su_snapshot :: snapshot

text \<open>\<^verbatim>\<open>json.dumps(res, sort_keys=True)\<close>\<close>

definition dumped :: "json list \<Rightarrow> json" where
  "dumped res = sort_keys (JArr res)"

record manager =
  sm_active :: "(string \<times> (string \<times> subscription) list) list"
  sm_last :: "((string \<times> string) \<times> json) list"

definition empty_manager :: manager where
  "empty_manager = \<lparr>sm_active = [], sm_last = []\<rparr>"

definition subscriptions_of :: "manager \<Rightarrow> string \<Rightarrow> (string \<times> subscription) list" where
  "subscriptions_of m client = (case map_of (sm_active m) client of None \<Rightarrow> [] | Some subs \<Rightarrow> subs)"

definition subscription_at :: "manager \<Rightarrow> string \<Rightarrow> string \<Rightarrow> subscription option" where
  "subscription_at m client i = map_of (subscriptions_of m client) i"

definition check_subscription_id :: "json \<Rightarrow> string result" where
  "check_subscription_id v =
     (case v of
        JStr i \<Rightarrow> if i = [] \<or> MAX_SUBSCRIPTION_ID_LENGTH < point_length i
          then Inl (ValueError ''Graph subscription id must be between 1 and 200 characters'') else Inr i
      | _ \<Rightarrow> Inl (ValueError ''Graph subscription id must be between 1 and 200 characters''))"

definition put_subscription :: "string \<Rightarrow> string \<Rightarrow> subscription \<Rightarrow> json list \<Rightarrow> manager \<Rightarrow> manager" where
  "put_subscription client i s res m =
     m\<lparr>sm_active := AList.update client (AList.update i s (subscriptions_of m client)) (sm_active m),
       sm_last := AList.update (client, i) (dumped res) (sm_last m)\<rparr>"

definition register :: "graph \<Rightarrow> string \<Rightarrow> json \<Rightarrow> subscription \<Rightarrow> manager \<Rightarrow> manager \<times> (py_error + json list)" where
  "register g client ident s m =
     (case check_subscription_id ident of Inl e \<Rightarrow> (m, Inl e) | Inr i \<Rightarrow>
      if \<not> is_dict (su_query s) then (m, Inl (ValueError ''Graph subscription query must be a JSON object''))
      else
        (case execute_graph_query (su_query s) g of Inl e \<Rightarrow> (m, Inl e) | Inr res \<Rightarrow>
           (let subs = subscriptions_of m client
            in if i \<notin> fst ` set subs \<and> MAX_SUBSCRIPTIONS_PER_TARGET \<le> length subs
               then (m, Inl (ValueError ''Graph subscription limit of 32 reached''))
               else (put_subscription client i s res m, Inr res))))"

definition unregister :: "string \<Rightarrow> string \<Rightarrow> manager \<Rightarrow> manager" where
  "unregister client i m =
     m\<lparr>sm_active := (if map_of (sm_active m) client = None then sm_active m
         else AList.update client (AList.delete i (subscriptions_of m client)) (sm_active m)),
       sm_last := AList.delete (client, i) (sm_last m)\<rparr>"

definition unregister_all :: "string \<Rightarrow> manager \<Rightarrow> manager" where
  "unregister_all client m =
     m\<lparr>sm_active := AList.delete client (sm_active m),
       sm_last := filter (\<lambda>e. \<not> (fst (fst e) = client \<and> snd (fst e) \<in> fst ` set (subscriptions_of m client))) (sm_last m)\<rparr>"

section \<open>Sending what changed\<close>

datatype notice = Query_Update string string "json list" | Subscription_Error string string json

definition notice_json :: "notice \<Rightarrow> json" where
  "notice_json n =
     (case n of
        Query_Update _ i res \<Rightarrow> JObj [(''type'', JStr ''graph_query_update''), (''subscription_id'', JStr i), (''data'', JArr res)]
      | Subscription_Error _ i e \<Rightarrow>
          JObj [(''type'', JStr ''graph_subscription_error''), (''subscription_id'', JStr i), (''error'', e)])"

text \<open>
  \<open>loader\<close> is \<^verbatim>\<open>None\<close> when no authorizer is given. The policy looks at the subscriptions of Apps only.
\<close>

definition refusal :: "manifest_loader option \<Rightarrow> subscription \<Rightarrow> json option" where
  "refusal loader s =
     (case (loader, su_app s) of
        (Some l, Some app) \<Rightarrow>
          if app = [] then None
          else (case authorize_graph_query l app (su_query s) (su_snapshot s) of
              Inr _ \<Rightarrow> None
            | Inl (Denied d) \<Rightarrow> Some (denial_json d)
            | Inl (Fault e) \<Rightarrow> Some (JObj [(''message'', JStr (error_message e))]))
      | _ \<Rightarrow> None)"

text \<open>The type a query asks for, and those of its relations; the query has been checked when it was registered.\<close>

definition unaffected :: "string list \<Rightarrow> json \<Rightarrow> bool" where
  "unaffected mutated query \<longleftrightarrow>
     (case read_query query of
        Inl _ \<Rightarrow> False
      | Inr q \<Rightarrow>
          mutated \<noteq> [] \<and>
          (case gq_type q of None \<Rightarrow> False | Some t \<Rightarrow>
             list_all (\<lambda>inc. snd inc \<noteq> None) (gq_includes q) \<and> t \<notin> set mutated \<and>
             list_all (\<lambda>inc. the (snd inc) \<notin> set mutated) (gq_includes q)))"

definition broadcast_one ::
  "graph \<Rightarrow> manifest_loader option \<Rightarrow> string list \<Rightarrow> string \<Rightarrow> string \<times> subscription \<Rightarrow> manager \<Rightarrow> manager \<times> notice list" where
  "broadcast_one g loader mutated client e m =
     (let (i, s) = e
      in case refusal loader s of
           Some err \<Rightarrow> (unregister client i m, [Subscription_Error client i err])
         | None \<Rightarrow>
             if unaffected mutated (su_query s) then (m, [])
             else (case execute_graph_query (su_query s) g of
                 Inl _ \<Rightarrow> (m, [])
               | Inr res \<Rightarrow>
                   if map_of (sm_last m) (client, i) = Some (dumped res) then (m, [])
                   else (m\<lparr>sm_last := AList.update (client, i) (dumped res) (sm_last m)\<rparr>, [Query_Update client i res])))"

text \<open>The two loops run over copies of the tables made before them.\<close>

fun broadcast_loop ::
  "graph \<Rightarrow> manifest_loader option \<Rightarrow> string list \<Rightarrow> (string \<times> string \<times> subscription) list \<Rightarrow> manager \<Rightarrow> manager \<times> notice list" where
  "broadcast_loop g loader mutated [] m = (m, [])"
| "broadcast_loop g loader mutated ((client, e) # es) m =
     (case broadcast_one g loader mutated client e m of (m', ns) \<Rightarrow>
       (case broadcast_loop g loader mutated es m' of (m'', ns') \<Rightarrow> (m'', ns @ ns')))"

definition all_subscriptions :: "manager \<Rightarrow> (string \<times> string \<times> subscription) list" where
  "all_subscriptions m = concat (map (\<lambda>cs. map (\<lambda>e. (fst cs, e)) (snd cs)) (sm_active m))"

definition broadcast_updates ::
  "graph \<Rightarrow> manifest_loader option \<Rightarrow> string list \<Rightarrow> manager \<Rightarrow> manager \<times> notice list" where
  "broadcast_updates g loader mutated m = broadcast_loop g loader mutated (all_subscriptions m) m"

end
