(* ===== verification/Subscription_Laws.thy ===== *)
theory Subscription_Laws
  imports Graph_Subscriptions
begin

text \<open>
  What clients see of live queries. A feed is the manager, the graph and what each client was last shown; its events are the
  operations of the manager and any change of the graph. After a broadcast every client is up to date.
\<close>

section \<open>The feed\<close>

record feed =
  fe_manager :: manager
  fe_graph :: graph
  fe_view :: "string \<times> string \<Rightarrow> json list option"

datatype feed_event =
    Register string json subscription
  | Unregister string string
  | Leave string
  | Change graph
  | Broadcast "manifest_loader option" "string list"

definition show_notice :: "notice \<Rightarrow> (string \<times> string \<Rightarrow> json list option) \<Rightarrow> string \<times> string \<Rightarrow> json list option" where
  "show_notice n view =
     (case n of Query_Update client i res \<Rightarrow> view((client, i) \<mapsto> res) | Subscription_Error client i _ \<Rightarrow> view((client, i) := None))"

fun shown_id :: "json \<Rightarrow> string" where
  "shown_id (JStr s) = s"
| "shown_id _ = []"

definition feed_step :: "feed_event \<Rightarrow> feed \<Rightarrow> feed" where
  "feed_step e f =
     (case e of
        Register client ident s \<Rightarrow>
          (case register (fe_graph f) client ident s (fe_manager f) of
             (m, Inl _) \<Rightarrow> f\<lparr>fe_manager := m\<rparr>
           | (m, Inr res) \<Rightarrow> f\<lparr>fe_manager := m, fe_view := (fe_view f)((client, shown_id ident) \<mapsto> res)\<rparr>)
      | Unregister client i \<Rightarrow> f\<lparr>fe_manager := unregister client i (fe_manager f), fe_view := (fe_view f)((client, i) := None)\<rparr>
      | Leave client \<Rightarrow> f\<lparr>fe_manager := unregister_all client (fe_manager f),
          fe_view := (\<lambda>k. if fst k = client then None else fe_view f k)\<rparr>
      | Change g \<Rightarrow> f\<lparr>fe_graph := g\<rparr>
      | Broadcast loader mutated \<Rightarrow>
          (case broadcast_updates (fe_graph f) loader mutated (fe_manager f) of
             (m, ns) \<Rightarrow> f\<lparr>fe_manager := m, fe_view := fold show_notice ns (fe_view f)\<rparr>))"

definition feed_of :: "graph \<Rightarrow> feed_event list \<Rightarrow> feed" where
  "feed_of g es = fold feed_step es \<lparr>fe_manager = empty_manager, fe_graph = g, fe_view = (\<lambda>_. None)\<rparr>"

section \<open>The tables\<close>

definition tidy :: "manager \<Rightarrow> bool" where
  "tidy m \<longleftrightarrow> distinct (map fst (sm_active m)) \<and>
     (\<forall>(c, subs) \<in> set (sm_active m). distinct (map fst subs) \<and> length subs \<le> MAX_SUBSCRIPTIONS_PER_TARGET)"

definition valid_query :: "json \<Rightarrow> bool" where
  "valid_query query \<longleftrightarrow> (\<exists>q. read_query query = Inr q)"

lemma valid_query_answered: "valid_query query \<Longrightarrow> \<exists>res. execute_graph_query query g = Inr res"
  by (auto simp: valid_query_def execute_graph_query_def)

lemma answered_valid: "execute_graph_query query g = Inr res \<Longrightarrow> valid_query query"
  by (auto simp: valid_query_def execute_graph_query_def split: sum.splits) (cases "read_query query"; simp)

text \<open>The state of one subscription, as the manager has it and as the client sees it: a valid query, and the stored text is that of what the client was last shown.\<close>

definition slot_of :: "manager \<Rightarrow> (string \<times> string \<Rightarrow> json list option) \<Rightarrow> string \<times> string \<Rightarrow> subscription option \<times> json option \<times> json list option" where
  "slot_of m view k = (subscription_at m (fst k) (snd k), map_of (sm_last m) k, view k)"

fun slot_ok :: "subscription option \<times> json option \<times> json list option \<Rightarrow> bool" where
  "slot_ok (None, l, v) \<longleftrightarrow> v = None"
| "slot_ok (Some s, l, v) \<longleftrightarrow> valid_query (su_query s) \<and> (\<exists>res. v = Some res \<and> l = Some (dumped res))"

definition shown :: "feed \<Rightarrow> bool" where
  "shown f \<longleftrightarrow> (\<forall>k. slot_ok (slot_of (fe_manager f) (fe_view f) k))"

lemma shown_None: "shown f \<Longrightarrow> subscription_at (fe_manager f) c i = None \<Longrightarrow> fe_view f (c, i) = None"
  unfolding shown_def by (drule spec[of _ "(c, i)"]) (simp add: slot_of_def)

lemma shown_Some:
  "shown f \<Longrightarrow> subscription_at (fe_manager f) c i = Some s \<Longrightarrow>
     valid_query (su_query s) \<and> (\<exists>res. fe_view f (c, i) = Some res \<and> map_of (sm_last (fe_manager f)) (c, i) = Some (dumped res))"
  unfolding shown_def by (drule spec[of _ "(c, i)"]) (simp add: slot_of_def)

lemma subscriptions_of_simps [simp]:
  "subscriptions_of (m\<lparr>sm_last := l\<rparr>) c = subscriptions_of m c"
  "subscriptions_of (put_subscription client i s res m) c =
     (if c = client then AList.update i s (subscriptions_of m client) else subscriptions_of m c)"
  "subscriptions_of (unregister client i m) c =
     (if c = client then AList.delete i (subscriptions_of m client) else subscriptions_of m c)"
  "subscriptions_of (unregister_all client m) c = (if c = client then [] else subscriptions_of m c)"
  by (auto simp: subscriptions_of_def put_subscription_def unregister_def unregister_all_def update_conv' delete_conv' split: option.splits)

lemma subscription_at_simps [simp]:
  "subscription_at (m\<lparr>sm_last := l\<rparr>) c j = subscription_at m c j"
  "subscription_at (put_subscription client i s res m) c j = (if (c, j) = (client, i) then Some s else subscription_at m c j)"
  "subscription_at (unregister client i m) c j = (if (c, j) = (client, i) then None else subscription_at m c j)"
  "subscription_at (unregister_all client m) c j = (if c = client then None else subscription_at m c j)"
  by (auto simp: subscription_at_def update_conv' delete_conv')

lemma last_simps [simp]:
  "map_of (sm_last (put_subscription client i s res m)) k = (if k = (client, i) then Some (dumped res) else map_of (sm_last m) k)"
  "map_of (sm_last (unregister client i m)) k = (if k = (client, i) then None else map_of (sm_last m) k)"
  "c \<noteq> client \<Longrightarrow> map_of (sm_last (unregister_all client m)) (c, j) = map_of (sm_last m) (c, j)"
proof -
  show "map_of (sm_last (put_subscription client i s res m)) k = (if k = (client, i) then Some (dumped res) else map_of (sm_last m) k)"
    by (simp add: put_subscription_def update_conv')
  show "map_of (sm_last (unregister client i m)) k = (if k = (client, i) then None else map_of (sm_last m) k)"
    by (simp add: unregister_def delete_conv')
  assume "c \<noteq> client"
  then have "map_of (filter (\<lambda>e. \<not> (fst (fst e) = client \<and> P (snd (fst e)))) xs) (c, j) = map_of xs (c, j)" for P :: "string \<Rightarrow> bool" and xs :: "((string \<times> string) \<times> json) list"
    by (induction xs) auto
  then show "map_of (sm_last (unregister_all client m)) (c, j) = map_of (sm_last m) (c, j)"
    by (simp add: unregister_all_def)
qed

lemma tidy_subscriptions:
  assumes "tidy m"
  shows "distinct (map fst (subscriptions_of m c)) \<and> length (subscriptions_of m c) \<le> MAX_SUBSCRIPTIONS_PER_TARGET"
  using assms by (auto simp: tidy_def subscriptions_of_def split: option.splits dest!: map_of_SomeD)

lemma length_updated: "length (AList.update i s xs) = (if i \<in> fst ` set xs then length xs else Suc (length xs))"
  by (induction xs) auto

lemma in_update: "(c, v) \<in> set (AList.update k w xs) \<Longrightarrow> distinct (map fst xs) \<Longrightarrow> (c, v) = (k, w) \<or> (c, v) \<in> set xs"
  by (induction xs) (auto split: if_splits)

lemma in_delete: "(c, v) \<in> set (AList.delete k xs) \<Longrightarrow> (c, v) \<in> set xs"
  by (auto simp: AList.delete_eq)

lemma tidy_put:
  assumes "tidy m" "i \<in> fst ` set (subscriptions_of m client) \<or> length (subscriptions_of m client) < MAX_SUBSCRIPTIONS_PER_TARGET"
  shows "tidy (put_subscription client i s res m)"
proof -
  have "length (AList.update i s (subscriptions_of m client)) \<le> MAX_SUBSCRIPTIONS_PER_TARGET"
    using assms tidy_subscriptions[of m client] by (auto simp: length_updated)
  moreover have "distinct (map fst (AList.update i s (subscriptions_of m client)))"
    using assms(1) tidy_subscriptions[of m client] by (simp add: distinct_update)
  moreover have "distinct (map fst (AList.update client subs (sm_active m)))" for subs
    using assms(1) by (simp add: tidy_def distinct_update)
  ultimately show ?thesis using assms(1) unfolding tidy_def put_subscription_def
    by (auto dest!: in_update)
qed

lemma tidy_unregister:
  assumes "tidy m"
  shows "tidy (unregister client i m)" "tidy (unregister_all client m)" "tidy (m\<lparr>sm_last := l\<rparr>)"
proof -
  let ?subs = "AList.delete i (subscriptions_of m client)"
  have "distinct (map fst ?subs) \<and> length ?subs \<le> MAX_SUBSCRIPTIONS_PER_TARGET"
    using tidy_subscriptions[OF assms, of client] by (auto simp: AList.delete_eq distinct_map_filter intro: order_trans[OF length_filter_le])
  then show "tidy (unregister client i m)"
    using assms by (auto simp: tidy_def unregister_def distinct_update dest!: in_update)
  show "tidy (unregister_all client m)"
    using assms by (auto simp: tidy_def unregister_all_def distinct_delete dest!: in_delete)
qed (use assms in \<open>simp add: tidy_def\<close>)

section \<open>One broadcast\<close>

abbreviation entry_keys :: "(string \<times> string \<times> subscription) list \<Rightarrow> (string \<times> string) list" where
  "entry_keys es \<equiv> map (\<lambda>e. (fst e, fst (snd e))) es"

lemma entry_keys_one: "entry_keys (map (Pair c) subs) = map (Pair c) (map fst subs)"
  by simp

lemma distinct_all_subscriptions:
  assumes "tidy m"
  shows "distinct (entry_keys (all_subscriptions m))"
proof -
  have "distinct (entry_keys (concat (map (\<lambda>cs. map (\<lambda>e. (fst cs, e)) (snd cs)) act)))"
    if "distinct (map fst act)" "\<forall>(c, subs) \<in> set act. distinct (map fst subs)" for act :: "(string \<times> (string \<times> subscription) list) list"
    using that
  proof (induction act)
    case (Cons cs act)
    obtain c subs where cs: "cs = (c, subs)" by (cases cs)
    have "distinct (map fst subs)" using Cons.prems(2) cs by simp
    then have "distinct (map (Pair c) (map fst subs))" by (subst distinct_map) (simp add: inj_on_def)
    then have "distinct (entry_keys (map (\<lambda>e. (c, e)) subs))" by (simp add: comp_def)
    with Cons cs show ?case by (force simp: comp_def)
  qed simp
  then show ?thesis using assms by (auto simp: all_subscriptions_def tidy_def)
qed

lemma in_all_subscriptions:
  assumes "tidy m"
  shows "(c, i, s) \<in> set (all_subscriptions m) \<longleftrightarrow> subscription_at m c i = Some s"
proof -
  have "(c, i, s) \<in> set (all_subscriptions m) \<longleftrightarrow> (\<exists>subs. (c, subs) \<in> set (sm_active m) \<and> (i, s) \<in> set subs)"
    by (force simp: all_subscriptions_def)
  also have "\<dots> \<longleftrightarrow> (\<exists>subs. map_of (sm_active m) c = Some subs \<and> map_of subs i = Some s)"
  proof (rule arg_cong[of _ _ Ex], rule ext)
    fix subs
    have "(c, subs) \<in> set (sm_active m) \<longleftrightarrow> map_of (sm_active m) c = Some subs" using assms by (simp add: tidy_def)
    moreover have "distinct (map fst subs)" if "(c, subs) \<in> set (sm_active m)" using assms that by (auto simp: tidy_def)
    ultimately show "((c, subs) \<in> set (sm_active m) \<and> (i, s) \<in> set subs) = (map_of (sm_active m) c = Some subs \<and> map_of subs i = Some s)"
      by (metis map_of_eq_Some_iff)
  qed
  also have "\<dots> \<longleftrightarrow> subscription_at m c i = Some s"
    by (auto simp: subscription_at_def subscriptions_of_def split: option.splits)
  finally show ?thesis .
qed

lemma broadcast_one_frame:
  assumes "broadcast_one g loader mutated client e m = (m', ns)" "k \<noteq> (client, fst e)"
  shows "slot_of m' (fold show_notice ns view) k = slot_of m view k"
  using assms by (cases k) (auto simp: broadcast_one_def slot_of_def show_notice_def Let_def update_conv' split: prod.splits option.splits if_splits sum.splits)

lemma broadcast_loop_frame:
  assumes "broadcast_loop g loader mutated es m = (m', ns)" "k \<notin> set (entry_keys es)"
  shows "slot_of m' (fold show_notice ns view) k = slot_of m view k"
  using assms
proof (induction es arbitrary: m m' ns view)
  case (Cons ce es)
  obtain c e where ce: "ce = (c, e)" by (cases ce)
  obtain m1 ns1 where 1: "broadcast_one g loader mutated c e m = (m1, ns1)" by fastforce
  obtain m2 ns2 where 2: "broadcast_loop g loader mutated es m1 = (m2, ns2)" by fastforce
  have "m' = m2" "ns = ns1 @ ns2" using Cons.prems(1) ce 1 2 by auto
  then show ?case using Cons.IH[OF 2, of "fold show_notice ns1 view"] broadcast_one_frame[OF 1, of k view] Cons.prems(2) ce by auto
qed simp

lemma broadcast_loop_tidy: "tidy m \<Longrightarrow> broadcast_loop g loader mutated es m = (m', ns) \<Longrightarrow> tidy m'"
proof (induction es arbitrary: m m' ns)
  case (Cons ce es)
  obtain c e where ce: "ce = (c, e)" by (cases ce)
  obtain m1 ns1 where 1: "broadcast_one g loader mutated c e m = (m1, ns1)" by fastforce
  obtain m2 ns2 where 2: "broadcast_loop g loader mutated es m1 = (m2, ns2)" by fastforce
  have "tidy m1" using 1 Cons.prems(1) tidy_unregister
    by (auto simp: broadcast_one_def Let_def split: prod.splits option.splits if_splits sum.splits)
  then show ?case using Cons.IH[OF _ 2] Cons.prems(2) ce 1 2 by auto
qed simp

text \<open>What happens at an entry depends on its slot alone.\<close>

definition served :: "graph \<Rightarrow> manifest_loader option \<Rightarrow> string list \<Rightarrow> subscription \<Rightarrow> json option \<Rightarrow> json list option \<Rightarrow>
    subscription option \<times> json option \<times> json list option" where
  "served g loader mutated s l v =
     (if refusal loader s \<noteq> None then (None, None, None)
      else if unaffected mutated (su_query s) then (Some s, l, v)
      else (case execute_graph_query (su_query s) g of
          Inl _ \<Rightarrow> (Some s, l, v)
        | Inr res \<Rightarrow> if l = Some (dumped res) then (Some s, l, v) else (Some s, Some (dumped res), Some res)))"

lemma broadcast_one_slot:
  assumes "broadcast_one g loader mutated client (i, s) m = (m', ns)" "slot_of m view (client, i) = (Some s, l, v)"
  shows "slot_of m' (fold show_notice ns view) (client, i) = served g loader mutated s l v"
  using assms by (auto simp: broadcast_one_def slot_of_def served_def show_notice_def Let_def update_conv' split: prod.splits option.splits if_splits sum.splits)

lemma broadcast_loop_slot:
  assumes "broadcast_loop g loader mutated es m = (m', ns)" "distinct (entry_keys es)" "(c, i, s) \<in> set es"
    and "slot_of m view (c, i) = (Some s, l, v)"
  shows "slot_of m' (fold show_notice ns view) (c, i) = served g loader mutated s l v"
  using assms
proof (induction es arbitrary: m m' ns view)
  case (Cons ce es)
  obtain c' e where ce: "ce = (c', e)" by (cases ce)
  obtain m1 ns1 where 1: "broadcast_one g loader mutated c' e m = (m1, ns1)" by fastforce
  obtain m2 ns2 where 2: "broadcast_loop g loader mutated es m1 = (m2, ns2)" by fastforce
  have eqs: "m' = m2" "ns = ns1 @ ns2" using Cons.prems(1) ce 1 2 by auto
  show ?case
  proof (cases "ce = (c, i, s)")
    case True
    then have "(c, i) \<notin> set (entry_keys es)" using Cons.prems(2) by auto
    then have "slot_of m2 (fold show_notice ns2 (fold show_notice ns1 view)) (c, i) = slot_of m1 (fold show_notice ns1 view) (c, i)"
      by (rule broadcast_loop_frame[OF 2])
    then show ?thesis using broadcast_one_slot[of g loader mutated c i s m m1 ns1 view l v] 1 True ce Cons.prems(4) eqs by simp
  next
    case False
    then have rest: "(c, i, s) \<in> set es" using Cons.prems(3) by auto
    then have "(c, i) \<noteq> (c', fst e)" using Cons.prems(2) ce by (force simp: image_iff)
    then have "slot_of m1 (fold show_notice ns1 view) (c, i) = (Some s, l, v)" using broadcast_one_frame[OF 1] Cons.prems(4) by simp
    then show ?thesis using Cons.IH[OF 2 _ rest] Cons.prems(2) eqs by simp
  qed
qed simp

lemma broadcast_slot:
  assumes "broadcast_updates g loader mutated m = (m', ns)" "tidy m"
  shows "slot_of m' (fold show_notice ns view) (c, i) =
    (case subscription_at m c i of None \<Rightarrow> slot_of m view (c, i) | Some s \<Rightarrow> served g loader mutated s (map_of (sm_last m) (c, i)) (view (c, i)))"
proof (cases "subscription_at m c i")
  case None
  then have "(c, i) \<notin> set (entry_keys (all_subscriptions m))" using in_all_subscriptions[OF assms(2)] by force
  then show ?thesis using None broadcast_loop_frame assms(1) by (simp add: broadcast_updates_def)
next
  case (Some s)
  then have "(c, i, s) \<in> set (all_subscriptions m)" using in_all_subscriptions[OF assms(2)] by simp
  then show ?thesis
    using broadcast_loop_slot[OF assms(1)[unfolded broadcast_updates_def] distinct_all_subscriptions[OF assms(2)]] Some by (simp add: slot_of_def)
qed

section \<open>Every reachable feed\<close>

lemma registerE:
  assumes "register g client ident s m = (m', out)"
  obtains e where "out = Inl e" "m' = m"
  | i res where "out = Inr res" "ident = JStr i" "execute_graph_query (su_query s) g = Inr res"
    "m' = put_subscription client i s res m"
    "i \<in> fst ` set (subscriptions_of m client) \<or> length (subscriptions_of m client) < MAX_SUBSCRIPTIONS_PER_TARGET"
proof (cases out)
  case (Inl e)
  with assms have "m' = m" by (auto simp: register_def Let_def split: sum.splits if_splits)
  with Inl show ?thesis using that(1) by blast
next
  case (Inr res)
  with assms have "\<exists>i. ident = JStr i \<and> execute_graph_query (su_query s) g = Inr res \<and> m' = put_subscription client i s res m \<and>
    (i \<in> fst ` set (subscriptions_of m client) \<or> length (subscriptions_of m client) < MAX_SUBSCRIPTIONS_PER_TARGET)"
    by (auto simp: register_def check_subscription_id_def Let_def split: sum.splits json.splits if_splits)
  with Inr show ?thesis using that(2) by blast
qed

definition feed_ok :: "feed \<Rightarrow> bool" where
  "feed_ok f \<longleftrightarrow> tidy (fe_manager f) \<and> shown f"

lemma served_ok: "valid_query (su_query s) \<Longrightarrow> slot_ok (served g loader mutated s (Some (dumped res)) (Some res))"
  using valid_query_answered[of "su_query s" g] by (auto simp: served_def split: sum.splits)

lemma broadcast_ok:
  assumes "feed_ok f"
  shows "feed_ok (feed_step (Broadcast loader mutated) f)"
proof -
  obtain m ns where b: "broadcast_updates (fe_graph f) loader mutated (fe_manager f) = (m, ns)" by fastforce
  have t: "tidy (fe_manager f)" and sh: "shown f" using assms by (simp_all add: feed_ok_def)
  have "tidy m" using broadcast_loop_tidy[OF t] b by (simp add: broadcast_updates_def)
  moreover have "slot_ok (slot_of m (fold show_notice ns (fe_view f)) (c, i))" for c i
  proof (cases "subscription_at (fe_manager f) c i")
    case None
    then show ?thesis using broadcast_slot[OF b t, of "fe_view f" c i] shown_None[OF sh] by (simp add: slot_of_def)
  next
    case (Some s)
    from shown_Some[OF sh Some] obtain res where
      "valid_query (su_query s)" "fe_view f (c, i) = Some res" "map_of (sm_last (fe_manager f)) (c, i) = Some (dumped res)" by blast
    then show ?thesis using broadcast_slot[OF b t, of "fe_view f" c i] Some served_ok by simp
  qed
  ultimately show ?thesis using b by (simp add: feed_ok_def shown_def feed_step_def)
qed

lemma feed_step_ok:
  assumes "feed_ok f"
  shows "feed_ok (feed_step e f)"
proof -
  have t: "tidy (fe_manager f)" and sh: "shown f" using assms by (simp_all add: feed_ok_def)
  note slots = shown_None[OF sh] shown_Some[OF sh]
  have okI: "shown f'" if "\<And>c i. slot_ok (slot_of (fe_manager f') (fe_view f') (c, i))" for f'
    using that by (simp add: shown_def)
  have old: "slot_ok (subscription_at (fe_manager f) c i, map_of (sm_last (fe_manager f)) (c, i), fe_view f (c, i))" for c i
    using sh unfolding shown_def slot_of_def by (metis fst_conv snd_conv)
  show ?thesis
  proof (cases e)
    case (Register client ident s)
    obtain m out where r: "register (fe_graph f) client ident s (fe_manager f) = (m, out)" by fastforce
    then show ?thesis
    proof (cases rule: registerE)
      case 1
      then show ?thesis using assms Register r by (simp add: feed_step_def feed_ok_def shown_def)
    next
      case (2 i res)
      have "feed_step e f = f\<lparr>fe_manager := m, fe_view := (fe_view f)((client, i) \<mapsto> res)\<rparr>"
        using Register r 2 by (simp add: feed_step_def)
      then show ?thesis
        using tidy_put[OF t 2(5), of s res] answered_valid[OF 2(3)] old 2(4) by (auto simp: feed_ok_def slot_of_def intro!: okI)
    qed
  next
    case (Unregister client i)
    then show ?thesis using tidy_unregister[OF t] old by (auto simp: feed_step_def feed_ok_def slot_of_def intro!: okI)
  next
    case (Leave client)
    then show ?thesis using tidy_unregister[OF t] old by (auto simp: feed_step_def feed_ok_def slot_of_def intro!: okI)
  next
    case (Change g)
    then show ?thesis using assms by (simp add: feed_step_def feed_ok_def shown_def)
  next
    case (Broadcast loader mutated)
    then show ?thesis using broadcast_ok[OF assms] by simp
  qed
qed

lemma feed_of_ok: "feed_ok (feed_of g es)"
proof -
  have "feed_ok (fold feed_step es f)" if "feed_ok f" for f
    using that by (induction es arbitrary: f) (auto simp: feed_step_ok)
  moreover have "feed_ok \<lparr>fe_manager = empty_manager, fe_graph = g, fe_view = (\<lambda>_. None)\<rparr>"
    by (simp add: feed_ok_def tidy_def shown_def slot_of_def empty_manager_def subscription_at_def subscriptions_of_def)
  ultimately show ?thesis by (simp add: feed_of_def)
qed

lemma broadcast_up_to_date:
  assumes "feed_ok f" "f' = feed_step (Broadcast loader []) f"
  shows "length (subscriptions_of (fe_manager f') c) \<le> MAX_SUBSCRIPTIONS_PER_TARGET \<and>
    (case subscription_at (fe_manager f) c i of
       None \<Rightarrow> subscription_at (fe_manager f') c i = None \<and> fe_view f' (c, i) = None
     | Some s \<Rightarrow>
         if refusal loader s \<noteq> None then subscription_at (fe_manager f') c i = None \<and> fe_view f' (c, i) = None
         else subscription_at (fe_manager f') c i = Some s \<and>
           (\<exists>now seen. execute_graph_query (su_query s) (fe_graph f) = Inr now \<and> fe_view f' (c, i) = Some seen \<and> dumped seen = dumped now))"
proof -
  obtain m ns where b: "broadcast_updates (fe_graph f) loader [] (fe_manager f) = (m, ns)" by fastforce
  have f': "fe_manager f' = m" "fe_view f' = fold show_notice ns (fe_view f)" using b by (simp_all add: assms(2) feed_step_def)
  have ok: "feed_ok f" "feed_ok f'" using assms broadcast_ok by auto
  have t: "tidy (fe_manager f)" and sh: "shown f" using ok(1) by (simp_all add: feed_ok_def)
  note slot = broadcast_slot[OF b t, of "fe_view f" c i]
  have "length (subscriptions_of (fe_manager f') c) \<le> MAX_SUBSCRIPTIONS_PER_TARGET"
    using ok(2) tidy_subscriptions by (auto simp: feed_ok_def)
  moreover have "case subscription_at (fe_manager f) c i of
       None \<Rightarrow> subscription_at m c i = None \<and> fold show_notice ns (fe_view f) (c, i) = None
     | Some s \<Rightarrow>
         if refusal loader s \<noteq> None then subscription_at m c i = None \<and> fold show_notice ns (fe_view f) (c, i) = None
         else subscription_at m c i = Some s \<and>
           (\<exists>now seen. execute_graph_query (su_query s) (fe_graph f) = Inr now \<and> fold show_notice ns (fe_view f) (c, i) = Some seen \<and> dumped seen = dumped now)"
  proof (cases "subscription_at (fe_manager f) c i")
    case None
    then show ?thesis using slot shown_None[OF sh None] by (simp add: slot_of_def)
  next
    case (Some s)
    from shown_Some[OF sh Some] obtain res where
      v: "valid_query (su_query s)" "fe_view f (c, i) = Some res" "map_of (sm_last (fe_manager f)) (c, i) = Some (dumped res)" by blast
    obtain now where now: "execute_graph_query (su_query s) (fe_graph f) = Inr now" using valid_query_answered[OF v(1)] by blast
    have "\<not> unaffected [] (su_query s)" by (simp add: unaffected_def split: sum.split)
    then show ?thesis using slot Some v now by (auto simp: slot_of_def served_def split: if_splits)
  qed
  ultimately show ?thesis by (simp only: f')
qed

text \<open>
  Property C25 (live): after a broadcast every client is up to date. Whatever sequence of registrations, cancellations,
  departures, changes of the graph and broadcasts has gone before, a broadcast of the present graph leaves each subscription
  the policy still allows in place, with the client's last answer equal, up to the order of keys, to the present answer of its
  query; a subscription the policy refuses is gone, for the manager and for the client; no other one appears, and no client
  ever holds more than 32.
\<close>

theorem clients_are_up_to_date:
  "let f = feed_of g es; f' = feed_step (Broadcast loader []) f
   in length (subscriptions_of (fe_manager f') c) \<le> MAX_SUBSCRIPTIONS_PER_TARGET \<and>
    (case subscription_at (fe_manager f) c i of
       None \<Rightarrow> subscription_at (fe_manager f') c i = None \<and> fe_view f' (c, i) = None
     | Some s \<Rightarrow>
         if refusal loader s \<noteq> None then subscription_at (fe_manager f') c i = None \<and> fe_view f' (c, i) = None
         else subscription_at (fe_manager f') c i = Some s \<and>
           (\<exists>now seen. execute_graph_query (su_query s) (fe_graph f) = Inr now \<and> fe_view f' (c, i) = Some seen \<and> dumped seen = dumped now))"
  unfolding Let_def by (rule broadcast_up_to_date[OF feed_of_ok refl])

section \<open>Skipping queries of other types\<close>

text \<open>
  Two graphs that agree outside the mutated types: on the lists of nodes of the other types, on which node an id names when
  either has another type, and on the edges between nodes of other types, in their order.
\<close>

definition outside :: "string list \<Rightarrow> graph \<Rightarrow> string \<Rightarrow> bool" where
  "outside mutated g nid \<longleftrightarrow> (\<exists>n. find_node g nid = Some n \<and> gn_type n \<notin> set mutated)"

definition same_outside :: "string list \<Rightarrow> graph \<Rightarrow> graph \<Rightarrow> bool" where
  "same_outside mutated g g' \<longleftrightarrow>
     (\<forall>t. t \<notin> set mutated \<longrightarrow> list_nodes g' (Some t) = list_nodes g (Some t)) \<and>
     (\<forall>nid. outside mutated g nid \<or> outside mutated g' nid \<longrightarrow> find_node g' nid = find_node g nid) \<and>
     filter (\<lambda>e. outside mutated g (ge_from e) \<and> outside mutated g (ge_to e)) (gd_edges g') =
       filter (\<lambda>e. outside mutated g (ge_from e) \<and> outside mutated g (ge_to e)) (gd_edges g)"

lemma map_filter_restrict:
  "(\<And>x. x \<in> set xs \<Longrightarrow> f x \<noteq> None \<Longrightarrow> P x) \<Longrightarrow> List.map_filter f (filter P xs) = List.map_filter f xs"
  by (induction xs) (auto simp: map_filter_simps split: option.splits)

lemma relation_outside:
  assumes "same_outside mutated g g'" "snd inc = Some t" "t \<notin> set mutated"
  shows "relation_to g' nid inc e = relation_to g nid inc e"
proof (cases "other_end nid e")
  case (Some tid)
  show ?thesis
  proof (cases "outside mutated g tid \<or> outside mutated g' tid")
    case True
    then have "find_node g' tid = find_node g tid" using assms(1) by (auto simp: same_outside_def)
    then show ?thesis using Some by (simp add: relation_to_def)
  next
    case False
    then show ?thesis using Some assms(2,3) by (auto simp: relation_to_def outside_def split: option.splits)
  qed
qed (simp add: relation_to_def)

lemma relation_ends:
  assumes "relation_to g nid inc e \<noteq> None" "snd inc = Some t" "t \<notin> set mutated" "outside mutated g nid"
  shows "outside mutated g (ge_from e) \<and> outside mutated g (ge_to e)"
  using assms by (auto simp: relation_to_def other_end_def outside_def split: option.splits if_splits)

lemma relations_outside:
  assumes s: "same_outside mutated g g'" and n: "outside mutated g (gn_id n)"
    and i: "\<forall>inc \<in> set (gq_includes q). \<exists>t. snd inc = Some t \<and> t \<notin> set mutated"
  shows "relations_for g' q n = relations_for g q n"
proof -
  let ?P = "\<lambda>e. outside mutated g (ge_from e) \<and> outside mutated g (ge_to e)"
  have "List.map_filter (relation_to g' (gn_id n) inc) (get_edges g' (gn_id n)) = List.map_filter (relation_to g (gn_id n) inc) (get_edges g (gn_id n))"
    if "inc \<in> set (gq_includes q)" for inc
  proof -
    obtain t where t: "snd inc = Some t" "t \<notin> set mutated" using i \<open>inc \<in> set (gq_includes q)\<close> by blast
    have r: "relation_to g' (gn_id n) inc = relation_to g (gn_id n) inc" using relation_outside[OF s t] by (rule ext)
    have edges: "filter ?P (get_edges g' (gn_id n)) = filter ?P (get_edges g (gn_id n))"
    proof -
      have swap: "filter ?P (get_edges h (gn_id n)) = filter (incident (gn_id n)) (filter ?P (gd_edges h))" for h
        by (simp add: get_edges_def conj_commute)
      have "filter ?P (gd_edges g') = filter ?P (gd_edges g)" using s unfolding same_outside_def by blast
      then show ?thesis unfolding swap by (rule arg_cong)
    qed
    have "List.map_filter (relation_to g (gn_id n) inc) (filter ?P (get_edges h (gn_id n))) =
        List.map_filter (relation_to g (gn_id n) inc) (get_edges h (gn_id n))" for h
      by (rule map_filter_restrict) (rule relation_ends[OF _ t n])
    then show ?thesis using edges r by metis
  qed
  then have "map (\<lambda>inc. List.map_filter (relation_to g' (gn_id n) inc) (get_edges g' (gn_id n))) (gq_includes q) =
      map (\<lambda>inc. List.map_filter (relation_to g (gn_id n) inc) (get_edges g (gn_id n))) (gq_includes q)" by (rule map_cong[OF refl])
  then show ?thesis unfolding relations_for_def by (rule arg_cong)
qed

text \<open>A broadcast that skips a query because of the mutated types leaves the client with the present answer.\<close>

lemma skipped_answer:
  assumes "same_outside mutated g g'" "distinct (map gn_id (gd_nodes g))" "unaffected mutated query"
  shows "execute_graph_query query g' = execute_graph_query query g"
proof (cases "read_query query")
  case (Inr q)
  with assms(3) obtain t where t: "gq_type q = Some t" "t \<notin> set mutated"
    and i: "\<forall>inc \<in> set (gq_includes q). \<exists>t. snd inc = Some t \<and> t \<notin> set mutated"
    by (fastforce simp: unaffected_def list_all_iff split: option.splits)
  have nodes: "list_nodes g' (Some t) = list_nodes g (Some t)" using assms(1) t(2) by (auto simp: same_outside_def)
  have "relations_for g' q n = relations_for g q n" if "n \<in> set (list_nodes g (Some t))" for n
  proof -
    have "n \<in> set (gd_nodes g)" "gn_type n = t" using that by (simp_all add: list_nodes_def)
    then have "find_node g (gn_id n) = Some n" using assms(2) by (simp add: find_node_def lookup_by_distinct)
    then have "outside mutated g (gn_id n)" using t(2) \<open>gn_type n = t\<close> by (simp add: outside_def)
    then show ?thesis by (rule relations_outside[OF assms(1) _ i])
  qed
  then have "first_matches g' q = first_matches g q"
    unfolding first_matches_def t(1) nodes by (intro arg_cong[of _ _ "take (gq_limit q)"] map_cong refl) (simp add: query_result_def)
  then show ?thesis by (simp add: query_is_first_matches Inr)
qed (simp add: query_is_first_matches)

end
