(* ===== verification/Spec2Isabelle.thy ===== *)
theory Spec2Isabelle
  imports Run_Examples Json_Schema Schema_Preview Graph_Preflight Mutation_Tickets Skill_Laws App_Files_Laws App_Registry
    Run_Gate Run_Loop Run_Settlement Run_Retry_Laws Workspace_Laws Canvas_Layout Audit_Log Saga_Outcome Promotion_Laws
    Subscription_Laws
begin

text \<open>
  Ambient Agent is a Python service that runs chats, Widgets and Coding Agents for one user on one machine. This
  development models the parts that decide something and can get it wrong: the durable run service, the
  knowledge graph with its ontology, the agent's workflow around the model, the files of a workspace, and the Apps with
  their manifests, grants and files. Everything here is a
  translation of code under \<^verbatim>\<open>src/backend\<close>; each definition carries the name of the function or method it
  translates where that name is free in HOL.

  \<^bold>\<open>How the program fits together.\<close> A request becomes a run in \<^verbatim>\<open>runs.db\<close> (\<^verbatim>\<open>RunStore\<close> in \<^verbatim>\<open>run_service.py\<close>). A
  coordinator claims runs under concurrency limits and one lane per chat session, executes their steps under a
  lease with an epoch, and commits each step with its outcome in one transaction; a run that needs the user waits
  for an interaction. A step of a chat is a phase of the agent (\<^verbatim>\<open>agent/durable_workflow.py\<close>), which writes its replies
  into the session files of the workspace (\<^verbatim>\<open>workspace_storage.py\<close>). Runs propose changes of the knowledge graph (\<^verbatim>\<open>graph_db.py\<close>): actions are checked by a
  preflight, approved, committed atomically with a compensation guard, and kept as tickets that can be rolled back
  (\<^verbatim>\<open>mutation_tickets.py\<close>). The ontology grows by proposals, approved on the preview of what they leave
  (\<^verbatim>\<open>ontology.py\<close>). Apps act through a policy (\<^verbatim>\<open>capabilities/policy.py\<close>) over the grants of their manifest
  (\<^verbatim>\<open>app_manifest.py\<close>, \<^verbatim>\<open>capabilities/models.py\<close>), on graph, files, requests and locations.

  \<^bold>\<open>Modelling conventions.\<close> A database is a record of tables, a table a list of rows in insertion order, a row a
  record; a JSON column is JSON or unreadable text. A transaction is a function on the database that returns the
  new one or an error, and \<open>transaction\<close> of \<open>Prelude\<close> drops the changes on an error, as the \<^verbatim>\<open>with\<close> block of the
  code does. Exceptions are values of \<open>py_error\<close> or of an error type of the component. Dictionaries are
  association lists in insertion order. Time, random identifiers and hashes are arguments, used where the code
  reads the clock, calls \<^verbatim>\<open>uuid4\<close> or \<^verbatim>\<open>sha256\<close>. Text is a list of characters standing for its UTF-8 bytes; where
  the code counts code points, \<open>point_length\<close> does.

  \<^bold>\<open>Libraries.\<close> \<open>Prelude\<close> (results, tables, transactions), \<open>Json_Value\<close> (values and Python's operations on them),
  \<open>Py_Text\<close>, \<open>Py_Numbers\<close> and \<open>Py_Url\<close> (what the code uses of the standard library) and \<open>Row_Order\<close>
  (\<open>ORDER BY\<close>; locale \<open>row_order\<close>, interpreted for texts, schemas, keys of an object and grants).

  \<^bold>\<open>Runs\<close> (\<^verbatim>\<open>run_service.py\<close>).
  \<^item> \<open>Run_Model\<close>: statuses, transitions, budget, agent state and step outcomes with their validation and dump.
    \<open>Event_Sanitizer\<close>: what a payload loses before it is logged. \<open>Json_Schema\<close>: the validator of generated schemas,
    equivalent to the inductive relation \<open>conforms\<close>.
  \<^item> \<open>Run_Store\<close> (tables, event log), \<open>Run_Staging\<close> (staged Apps), \<open>Run_Lifecycle\<close> (create, read, transitions,
    events), \<open>Run_Scheduling\<close> (lanes, limits, claims, leases), \<open>Run_Steps\<close> (attempts and the commit of a step),
    \<open>Run_Interactions\<close> (questions, answers, the outbox of grants), \<open>Run_Recovery\<close> (cancellation, orphans, effects),
    \<open>Run_Purge\<close> (deletion of a session), \<open>Run_Migration\<close> (opening the store).
  \<^item> \<open>Run_Evolution\<close> is the specification: the steps \<open>quiet\<close> a single run may take. \<open>Row_Conformance\<close> and
    \<open>Run_Conformance\<close> show that every operation follows it (locales \<open>run_evolution\<close>, \<open>claim_evolution\<close>);
    \<open>Run_Integrity\<close> states the invariants of the tables once (locale \<open>table_invariant\<close>, interpreted for keys and
    references and for the log, over \<open>table_rows\<close>, which leaves out new runs and is interpreted for the absence of a
    run too); \<open>Run_Machine\<close> closes the operations under reachability, where the locales are
    interpreted for order of versions, leases and lanes.
  \<^item> \<open>Run_Safety\<close>, \<open>Run_Claims\<close>, \<open>Run_Questions\<close> and \<open>Run_Outcomes\<close> hold the properties: fencing, monotone
    evolution, one lease, one run per lane, limits and order of claims, one open question per waiting run, exact and
    atomic commits. The commands they range over include the deletion of sessions; the reopening of the store is
    a step of the machine where it leaves no question behind (\<open>no_legacy_question\<close>; \<open>opening_orphans_question\<close> shows
    why). \<open>Run_Examples\<close> builds the concrete stores on which they are instantiated.
  \<^item> \<open>Backend_Permissions\<close> (\<^verbatim>\<open>backend_manager.py\<close>): the durable approvals of programs and endpoints. \<open>Run_Coordinator\<close>:
    submissions, answers, the application of grants, heartbeat and scheduler of \<^verbatim>\<open>RunCoordinator\<close>; \<open>Run_Execution\<close>: one
    execution, cut at its awaits into \<open>execute_begin\<close>, \<open>contact_backend\<close> and \<open>execute_end\<close>. \<open>Run_Gate\<close> lets them
    interleave with every command of the store and shows that each contact rests on an answer of the user;
    \<open>Run_Loop\<close> that a pass of the scheduler ends with nothing left to claim; \<open>Run_Settlement\<close> how a reply ends a run.
    \<open>Run_Retry\<close> and \<open>Run_Retry_Laws\<close>: repeating a failed run, its checkpoint and its allowance.

  \<^bold>\<open>Knowledge graph\<close> (\<^verbatim>\<open>graph_db.py\<close>, \<^verbatim>\<open>ontology.py\<close>, \<^verbatim>\<open>mutation_tickets.py\<close>).
  \<^item> \<open>Ontology_Types\<close> (entities, property types, coercion), \<open>Graph_Store\<close> (tables and the seven actions),
    \<open>Graph_Commit\<close> (atomic commit, guard, ledger, history), \<open>Graph_Preflight\<close>, \<open>Graph_Schemas\<close> (registry and
    proposals), \<open>Mutation_Tickets\<close>.
  \<^item> \<open>Graph_Content\<close> states the invariant of the tables and the content of a graph, \<open>Graph_Undo\<close> that each action leaves
    a reverse action, \<open>Graph_Laws\<close> that a commit can be undone, replayed and refused when stale; \<open>Graph_Growth\<close>,
    \<open>Schema_Undo\<close> and \<open>Schema_Preview\<close> treat proposals in the same way.
  \<^item> \<open>Graph_Query\<close> (\<^verbatim>\<open>graph_query_engine.py\<close>): the query loops, equal to the first matches with their first relations.
    \<open>Graph_Subscriptions\<close> (\<^verbatim>\<open>graph_subscription.py\<close>): live queries; \<open>Subscription_Laws\<close>: a broadcast brings every client up to
    date, and the queries it may skip.

  \<^bold>\<open>Agent\<close> (\<^verbatim>\<open>agent/durable_workflow.py\<close>, \<^verbatim>\<open>agent/intent_plan.py\<close>, \<^verbatim>\<open>agent/harness.py\<close>).
  \<^item> \<open>Intent_Plan\<close> (what a router may return, and back), \<open>Agent_Text\<close> (what the agent says of actions, results and
    failures), \<open>Agent_Saga\<close> (checkpoint, interactions, the graph phases and composite requests), \<open>Agent_Recovery\<close>
    (retry, compensation, retained drafts, clean-up, the reducer). A phase maps the checkpoint and the world to new ones
    and an outcome or an exception; the phases that ask a model are the argument \<open>other\<close> of the reducer.
  \<^item> \<open>Saga_Laws\<close> relates the graph of a composite request to the compensations its checkpoint holds (the
    inductive \<open>saga\<close>, up to the publication of an App, with commits replayed after a crash and without other writers);
    \<open>Saga_Outcome\<close> states that an unfinished saga is undone, that nothing is compensated once an App is published, and that
    an interrupted compensation can be resumed.

  \<^bold>\<open>Workspace\<close> (\<^verbatim>\<open>workspace_storage.py\<close>, \<^verbatim>\<open>models.py\<close>).
  \<^item> \<open>Workspace_Storage\<close> (session files, messages, metadata, unit of work) and \<open>Workspace_Laws\<close> (one reply per run);
    \<open>Audit_Log\<close> (bounded previews, deletion, retention); \<open>Canvas_Layout\<close> (windows, valid and stable once stored).

  \<^bold>\<open>Apps.\<close>
  \<^item> \<open>Capability_Grants\<close> and \<open>Capability_Laws\<close>: normalization of grants and its stability. \<open>Capability_Policy\<close> and
    \<open>Policy_Laws\<close>: every authorization, over the locale \<open>manifest_source\<close>, and what an allowed mutation can reach.
  \<^item> \<open>App_Types\<close>, \<open>App_Manifest\<close>, \<open>Manifest_Laws\<close>: strict reading of declarations and manifests. \<open>App_Files\<close>,
    \<open>App_Files_Laws\<close>: the data directory of an App, where \<open>manifest_source\<close> is interpreted on stored manifests.
  \<^item> \<open>App_Manager\<close> (directory, records, transactions with compensations) implements the map of \<open>App_Manager_Laws\<close>:
    \<open>App_Registry\<close> interprets the locale \<open>refinement\<close> of \<open>Prelude\<close> on them.
  \<^item> \<open>App_Promotion\<close> (\<^verbatim>\<open>coding_agent_acp.py\<close>): a generated App replaces the published one, with its journal and recovery;
    \<open>Promotion_Laws\<close>: the swap survives crashes, of the recovery too.

  \<^bold>\<open>Skills\<close> (\<^verbatim>\<open>skill_version.py\<close>, \<^verbatim>\<open>skill_manifest.py\<close>, \<^verbatim>\<open>skill_store.py\<close>).
  \<^item> \<open>Skill_Version\<close> (precedence of versions), \<open>Skill_Manifest\<close> (reading SKILL.md), \<open>Skill_Store\<close> (packages, rows,
    authorization, revision). \<open>Skill_Laws\<close>: the revision pins the rows (locale \<open>revisioned\<close>), and the instructions of an
    enabled skill are bundled or bytes the last decision granted, in every run (the inductive \<open>skill_run\<close>).

  \<^bold>\<open>Bounds and fuel.\<close> Loops are structural recursions or carry a measure. The closure of a session's runs is a
  recursion whose measure is the number of rows outside the accumulator. The preview of a proposal, the sanitizer and
  the validators recurse over JSON values, whose size is their measure. The limits the code states (256 items and
  depth of a payload, 64 KiB of a manifest, 100 items of a list, 8 turns and 600 seconds of a budget) are the numbers
  of the code.

  \<^bold>\<open>Not modelled.\<close>
  \<^item> The text of SQL, of JSON columns and of files: rows and values stand for them, with unreadable text as its own case.
    Reading a file as text translates its ends of lines (\<open>universal_newlines\<close>). The order of keys inside the scope of a
    stored grant, which the code sorts, is left as made.
  \<^item> Failures of disk, database and network that the state itself does not cause; the locks and timers of asyncio,
    which are taken as sequences of whole operations.
  \<^item> Digits, letters and whitespace outside ASCII in conversions and case folding, the rounding and overflow of floats, which are
    rationals, floats as texts, counters of a budget that are no numbers, bracketed hosts'
    error texts, and a \<^verbatim>\<open>type\<close> that is no string in \<^verbatim>\<open>update_node_property\<close>.
  \<^item> Descriptions and prompts of the catalogs, which are prose.
  \<^item> The phases of the agent that ask a model or the Coding Agent, its model budget and its live event stream, the
    clients of models, the protocol of Coding Agents, the HTTP and WebSocket handlers, Neo4j, the
    market and the processes of skills: they call external programs and services, and what they ask of the parts above is any sequence
    of its operations.
  \<^item> The migration of old workspaces, the reading of the audit log, and a list of pairs as a step's schema extension.
\<close>

end
